(* ===== verification/Runtime_Prelude.thy ===== *)
theory Runtime_Prelude
  imports Complex_Main "HOL-Library.AList" "HOL-Library.Sublist"
    "HOL-Library.Char_ord" "HOL-Library.Code_Target_Nat" "HOL-Library.List_Lexorder"
begin

text \<open>
  Shared ground of the development: Python values, strings, dictionaries and SQL tables.

  A Python \<open>str\<close> is the \<open>string\<close> of its UTF-8 bytes; literals outside ASCII are written as
  code points under \<open>utf8\<close>. A dynamic value (\<open>Any\<close>, a JSON value) is a \<open>json\<close>; a \<open>dict\<close> keeps
  its insertion order as an association list. Exceptions are the text that \<open>str(exc)\<close> gives,
  in the left of a sum. What the runtime asks of the outside (\<open>uuid4\<close>, \<open>datetime.now\<close>,
  \<open>time.monotonic\<close>, the rendering \<open>str(value)\<close>, \<open>getattr\<close> on a builtin value) is the record
  \<open>env\<close> over a world \<open>'w\<close>.
\<close>

named_theorems tbl "facts about tables of rows"
lemmas unlet = Let_def case_prod_unfold

named_theorems dict "facts about dictionaries"

subsection \<open>Strings\<close>

definition utf8_char :: "nat \<Rightarrow> char list" where
  "utf8_char n =
     (if n < 128 then [char_of n]
      else if n < 2048 then [char_of (192 + n div 64), char_of (128 + n mod 64)]
      else if n < 65536 then
        [char_of (224 + n div 4096), char_of (128 + (n div 64) mod 64), char_of (128 + n mod 64)]
      else [char_of (240 + n div 262144), char_of (128 + (n div 4096) mod 64),
            char_of (128 + (n div 64) mod 64), char_of (128 + n mod 64)])"

definition utf8 :: "nat list \<Rightarrow> string" where
  "utf8 cs = concat (map utf8_char cs)"

text \<open>Code points of a string: the bytes that do not continue a character. This is \<open>len(s)\<close>.\<close>

definition is_cont :: "char \<Rightarrow> bool" where
  "is_cont c = (128 \<le> (of_char c :: nat) \<and> (of_char c :: nat) < 192)"

definition py_len :: "string \<Rightarrow> nat" where
  "py_len s = length (filter (\<lambda>c. \<not> is_cont c) s)"

text \<open>\<open>s[:n]\<close>: the bytes of the first \<open>n\<close> code points.\<close>

fun py_take :: "nat \<Rightarrow> string \<Rightarrow> string" where
  "py_take n [] = []"
| "py_take n (c # cs) =
     (if is_cont c then c # py_take n cs
      else case n of 0 \<Rightarrow> [] | Suc m \<Rightarrow> c # py_take m cs)"

text \<open>\<open>kw in s\<close> on strings. UTF-8 is self-synchronising, so bytes decide it.\<close>

fun str_in :: "'a list \<Rightarrow> 'a list \<Rightarrow> bool" where
  "str_in kw [] = (kw = [])"
| "str_in kw (c # cs) = (prefix kw (c # cs) \<or> str_in kw cs)"

lemma str_in_iff_sublist: "str_in kw s \<longleftrightarrow> sublist kw s"
  by (induction s) (auto simp: sublist_Cons_right)

text \<open>The ASCII whitespace of \<open>str.strip\<close> and \<open>str.split\<close>.\<close>

definition py_space :: "char \<Rightarrow> bool" where
  "py_space c = (let n = (of_char c :: nat) in (9 \<le> n \<and> n \<le> 13) \<or> (28 \<le> n \<and> n \<le> 32))"

definition lstrip :: "string \<Rightarrow> string" where
  "lstrip s = dropWhile py_space s"

definition rstrip :: "string \<Rightarrow> string" where
  "rstrip s = rev (dropWhile py_space (rev s))"

definition strip :: "string \<Rightarrow> string" where
  "strip s = rstrip (lstrip s)"

fun split_on :: "'a \<Rightarrow> 'a list \<Rightarrow> 'a list list" where
  "split_on d [] = [[]]"
| "split_on d (c # cs) =
     (if c = d then [] # split_on d cs
      else case split_on d cs of [] \<Rightarrow> [[c]] | w # ws \<Rightarrow> (c # w) # ws)"

definition upper_char :: "char \<Rightarrow> char" where
  "upper_char c = (let n = (of_char c :: nat) in if 97 \<le> n \<and> n \<le> 122 then char_of (n - 32) else c)"

definition lower_char :: "char \<Rightarrow> char" where
  "lower_char c = (let n = (of_char c :: nat) in if 65 \<le> n \<and> n \<le> 90 then char_of (n + 32) else c)"

definition upper :: "string \<Rightarrow> string" where "upper s = map upper_char s"
definition lower :: "string \<Rightarrow> string" where "lower s = map lower_char s"

text \<open>\<open>sep.join(parts)\<close>.\<close>

fun str_join :: "'a list \<Rightarrow> 'a list list \<Rightarrow> 'a list" where
  "str_join sep [] = []"
| "str_join sep [x] = x"
| "str_join sep (x # y # xs) = x @ sep @ str_join sep (y # xs)"

text \<open>Decimal rendering: \<open>str(n)\<close> of an integer.\<close>

fun nat_text :: "nat \<Rightarrow> string" where
  "nat_text n = (if n < 10 then [char_of (48 + n)] else nat_text (n div 10) @ [char_of (48 + n mod 10)])"

lemmas nat_text_simps = nat_text.simps
lemmas [simp del] = nat_text.simps

definition int_text :: "int \<Rightarrow> string" where
  "int_text i = (if i < 0 then ''-'' @ nat_text (nat (- i)) else nat_text (nat i))"

lemma split_on_nonempty [simp]: "split_on d s \<noteq> []"
  by (induction s) (auto split: list.splits)

lemma split_on_no_sep: "w \<in> set (split_on d s) \<Longrightarrow> d \<notin> set w"
proof (induction s arbitrary: w)
  case (Cons c cs)
  then show ?case by (cases "split_on d cs") (auto split: if_splits)
qed simp

subsection \<open>Dynamic values\<close>

datatype json =
    JNull
  | JBool bool
  | JInt int
  | JFloat rat
  | JStr string
  | JList "json list"
  | JObj "(string \<times> json) list"

type_synonym jdict = "(string \<times> json) list"

text \<open>Truth value of a Python object.\<close>

fun truthy :: "json \<Rightarrow> bool" where
  "truthy JNull = False"
| "truthy (JBool b) = b"
| "truthy (JInt i) = (i \<noteq> 0)"
| "truthy (JFloat q) = (q \<noteq> 0)"
| "truthy (JStr s) = (s \<noteq> [])"
| "truthy (JList xs) = (xs \<noteq> [])"
| "truthy (JObj kvs) = (kvs \<noteq> [])"

text \<open>\<open>float(v)\<close>; the reading of a text as a number is a parameter, None when it raises.\<close>

fun py_float :: "(string \<Rightarrow> rat option) \<Rightarrow> json \<Rightarrow> rat option" where
  "py_float rd (JInt i) = Some (of_int i)"
| "py_float rd (JFloat q) = Some q"
| "py_float rd (JBool b) = Some (if b then 1 else 0)"
| "py_float rd (JStr s) = rd s"
| "py_float rd v = None"

text \<open>\<open>d.get(k, dflt)\<close>, \<open>d.get(k)\<close>, \<open>d[k] = v\<close>, \<open>d.update(e)\<close>.\<close>

definition dget_or :: "jdict \<Rightarrow> string \<Rightarrow> json \<Rightarrow> json" where
  "dget_or d k v = (case map_of d k of None \<Rightarrow> v | Some x \<Rightarrow> x)"

definition dget :: "jdict \<Rightarrow> string \<Rightarrow> json" where
  "dget d k = dget_or d k JNull"

definition dput :: "('k \<times> 'v) list \<Rightarrow> 'k \<Rightarrow> 'v \<Rightarrow> ('k \<times> 'v) list" where
  "dput d k v = AList.update k v d"

definition dupd :: "('k \<times> 'v) list \<Rightarrow> ('k \<times> 'v) list \<Rightarrow> ('k \<times> 'v) list" where
  "dupd d e = foldl (\<lambda>acc kv. dput acc (fst kv) (snd kv)) d e"

text \<open>\<open>x or y\<close>; and \<open>x or {}\<close> where \<open>x\<close> is a dict or None by its declared type.\<close>

definition or_else :: "json \<Rightarrow> json \<Rightarrow> json" where
  "or_else x y = (if truthy x then x else y)"

definition or_dict :: "json \<Rightarrow> jdict" where
  "or_dict x = (case x of JObj d \<Rightarrow> d | _ \<Rightarrow> [])"

definition or_list :: "json \<Rightarrow> json list" where
  "or_list x = (case x of JList xs \<Rightarrow> xs | _ \<Rightarrow> [])"

definition or_str :: "json \<Rightarrow> string" where
  "or_str x = (case x of JStr s \<Rightarrow> s | _ \<Rightarrow> [])"

definition opt_str :: "string option \<Rightarrow> json" where
  "opt_str x = (case x of None \<Rightarrow> JNull | Some s \<Rightarrow> JStr s)"

fun seq_sum :: "('e + 'a) list \<Rightarrow> 'e + 'a list" where
  "seq_sum [] = Inr []"
| "seq_sum (Inl e # xs) = Inl e"
| "seq_sum (Inr x # xs) = (case seq_sum xs of Inl e \<Rightarrow> Inl e | Inr ys \<Rightarrow> Inr (x # ys))"

fun type_name :: "json \<Rightarrow> string" where
  "type_name JNull = ''NoneType''"
| "type_name (JBool b) = ''bool''"
| "type_name (JInt i) = ''int''"
| "type_name (JFloat q) = ''float''"
| "type_name (JStr s) = ''str''"
| "type_name (JList xs) = ''list''"
| "type_name (JObj d) = ''dict''"

text \<open>\<open>str(AttributeError)\<close> of a read of attribute \<open>a\<close>.\<close>

definition attr_error :: "json \<Rightarrow> string \<Rightarrow> string" where
  "attr_error v a = utf8 [39] @ type_name v @ utf8 [39] @ '' object has no attribute '' @ utf8 [39] @ a @ utf8 [39]"

text \<open>Sequencing in a \<open>try\<close> block: the first exception skips the rest and keeps the state reached.\<close>

definition bind_out :: "('e + 'a) \<times> 's \<Rightarrow> ('a \<Rightarrow> 's \<Rightarrow> ('e + 'b) \<times> 's) \<Rightarrow> ('e + 'b) \<times> 's" where
  "bind_out m f = (case m of (Inl e, s) \<Rightarrow> (Inl e, s) | (Inr a, s) \<Rightarrow> f a s)"

lemma bind_out_simps [simp]:
  "bind_out (Inl e, s) f = (Inl e, s)"
  "bind_out (Inr a, s) f = f a s"
  by (simp_all add: bind_out_def)

lemma bind_out_Inr:
  "bind_out m f = (Inr b, s') \<longleftrightarrow> (\<exists>a s1. m = (Inr a, s1) \<and> f a s1 = (Inr b, s'))"
  by (auto simp: bind_out_def split: prod.splits sum.splits)

lemma bind_out_InrE:
  assumes "bind_out m f = (Inr b, s')"
  obtains a s1 where "m = (Inr a, s1)" "f a s1 = (Inr b, s')"
  using assms unfolding bind_out_Inr by blast

lemma bind_out_Inl:
  "bind_out m f = (Inl e, s') \<longleftrightarrow> m = (Inl e, s') \<or> (\<exists>a s1. m = (Inr a, s1) \<and> f a s1 = (Inl e, s'))"
  by (auto simp: bind_out_def split: prod.splits sum.splits)

text \<open>What holds of every state a sequence can reach.\<close>

lemma bind_out_state:
  "P (snd m) \<Longrightarrow> (\<And>a s. P s \<Longrightarrow> P (snd (f a s))) \<Longrightarrow> P (snd (bind_out m f))"
  by (auto simp: bind_out_def split: prod.splits sum.splits)

definition jstrs :: "string list \<Rightarrow> json" where
  "jstrs xs = JList (map JStr xs)"

lemma map_of_dput [dict, simp]: "map_of (dput d k v) = (map_of d)(k \<mapsto> v)"
  by (simp add: dput_def update_conv')

lemma map_of_dupd: "map_of (dupd d e) k = (case map_of (rev e) k of None \<Rightarrow> map_of d k | Some v \<Rightarrow> Some v)"
proof (induction e arbitrary: d)
  case (Cons kv e)
  obtain a b where "kv = (a, b)" by (cases kv)
  with Cons show ?case by (simp add: dupd_def map_add_def split: option.splits)
qed (simp add: dupd_def)

lemma map_of_rev_distinct: "distinct (map fst e) \<Longrightarrow> map_of (rev e) = map_of e"
  by (simp add: map_of_inject_set rev_map [symmetric])

lemma dget_dput [dict, simp]: "dget (dput d k v) k' = (if k' = k then v else dget d k')"
  by (simp add: dget_def dget_or_def)

lemma dget_dupd [dict]:
  "distinct (map fst e) \<Longrightarrow>
     dget (dupd d e) k = (case map_of e k of None \<Rightarrow> dget d k | Some v \<Rightarrow> v)"
  by (simp add: dget_def dget_or_def map_of_dupd map_of_rev_distinct split: option.splits)

lemma dget_Nil [simp]: "dget [] k = JNull"
  by (simp add: dget_def dget_or_def)

lemma dget_Cons [simp]: "dget ((a, v) # d) k = (if a = k then v else dget d k)"
  by (simp add: dget_def dget_or_def)

lemma dget_or_Nil [simp]: "dget_or [] k x = x"
  by (simp add: dget_or_def)

lemma dget_or_Cons [simp]: "dget_or ((a, v) # d) k x = (if a = k then v else dget_or d k x)"
  by (simp add: dget_or_def)

lemma dget_or_cases: "dget_or d k x = (if dget d k = JNull \<and> map_of d k = None then x else dget d k)"
  by (simp add: dget_def dget_or_def split: option.split)

lemma truthy_dget_or [dict, simp]: "\<not> truthy x \<Longrightarrow> truthy (dget_or d k x) = truthy (dget d k)"
  by (simp add: dget_def dget_or_def split: option.split)

lemma dget_or_truthy [dict]: "truthy (dget d k) \<Longrightarrow> dget_or d k x = dget d k"
  by (simp add: dget_def dget_or_def split: option.splits)

lemma or_dict_simps [simp]:
  "or_dict JNull = []" "or_dict (JObj d) = d" "or_dict (JBool b) = []" "or_dict (JStr s) = []"
  "or_dict (JInt i) = []" "or_dict (JFloat q) = []" "or_dict (JList xs) = []"
  by (simp_all add: or_dict_def)

lemma or_list_simps [simp]:
  "or_list JNull = []" "or_list (JList xs) = xs" "or_list (JObj d) = []"
  by (simp_all add: or_list_def)

lemma or_str_simps [simp]: "or_str JNull = []" "or_str (JStr s) = s"
  by (simp_all add: or_str_def)

lemma opt_str_simps [simp]: "opt_str None = JNull" "opt_str (Some s) = JStr s"
  by (simp_all add: opt_str_def)

subsection \<open>Numbers\<close>

text \<open>\<open>round(x, n)\<close>: to \<open>n\<close> decimals, ties to even, on the exact value of the float.\<close>

definition round_half_even :: "rat \<Rightarrow> int" where
  "round_half_even q =
     (let f = floor q; r = q - of_int f
      in if r < 1 / 2 then f else if 1 / 2 < r then f + 1 else if even f then f else f + 1)"

definition py_round :: "nat \<Rightarrow> rat \<Rightarrow> rat" where
  "py_round n q = of_int (round_half_even (q * 10 ^ n)) / 10 ^ n"

lemma round_half_even_int [simp]: "round_half_even (of_int i) = i"
  by (simp add: round_half_even_def Let_def)

lemma round_half_even_bounds:
  "of_int (round_half_even q) - 1 / 2 \<le> q \<and> q \<le> of_int (round_half_even q) + 1 / 2"
  unfolding round_half_even_def Let_def
  by (simp split: if_splits) (linarith | (intro conjI impI; linarith))

subsection \<open>The outside\<close>

record 'w env =
  fresh_hex :: "'w \<Rightarrow> string \<times> 'w"
  now_iso :: "'w \<Rightarrow> string"
  utc_iso :: "'w \<Rightarrow> string"
  mono_clock :: "'w \<Rightarrow> rat"
  py_str :: "json \<Rightarrow> string"
  py_attr :: "json \<Rightarrow> string \<Rightarrow> json option"

text \<open>\<open>str(uuid4())\<close> of the 32 hex digits, and \<open>uuid4().hex[:12]\<close>.\<close>

definition uuid_text :: "string \<Rightarrow> string" where
  "uuid_text h = take 8 h @ ''-'' @ take 4 (drop 8 h) @ ''-'' @ take 4 (drop 12 h) @ ''-'' @
     take 4 (drop 16 h) @ ''-'' @ drop 20 h"

definition hex12 :: "string \<Rightarrow> string" where "hex12 h = take 12 h"

subsection \<open>Tables\<close>

text \<open>
  A table is the list of its rows in insertion order. \<open>SELECT ... WHERE key = ?\<close> with
  \<open>fetchone\<close> is \<open>lookup_by\<close>; \<open>UPDATE ... SET f WHERE P\<close> is \<open>update_where\<close>, its rowcount
  \<open>count_where\<close>. \<open>ORDER BY c DESC\<close> is the stable \<open>order_desc\<close> (SQL leaves ties open).
\<close>

definition lookup_by :: "('r \<Rightarrow> 'k) \<Rightarrow> 'k \<Rightarrow> 'r list \<Rightarrow> 'r option" where
  "lookup_by key k rows = find (\<lambda>r. key r = k) rows"

definition update_where :: "('r \<Rightarrow> bool) \<Rightarrow> ('r \<Rightarrow> 'r) \<Rightarrow> 'r list \<Rightarrow> 'r list" where
  "update_where P f rows = map (\<lambda>r. if P r then f r else r) rows"

definition count_where :: "('r \<Rightarrow> bool) \<Rightarrow> 'r list \<Rightarrow> nat" where
  "count_where P rows = length (filter P rows)"

fun insert_desc :: "('r \<Rightarrow> 'k::linorder) \<Rightarrow> 'r \<Rightarrow> 'r list \<Rightarrow> 'r list" where
  "insert_desc c r [] = [r]"
| "insert_desc c r (x # xs) = (if c x \<le> c r then r # x # xs else x # insert_desc c r xs)"

definition order_desc :: "('r \<Rightarrow> 'k::linorder) \<Rightarrow> 'r list \<Rightarrow> 'r list" where
  "order_desc c rows = foldr (insert_desc c) rows []"

text \<open>The clamp every list endpoint applies to its \<open>limit\<close>.\<close>

definition clamp_limit :: "int \<Rightarrow> int \<Rightarrow> int \<Rightarrow> nat" where
  "clamp_limit dflt cap limit = nat (let l = (if limit \<le> 0 then dflt else limit)
     in if l > cap then cap else l)"

lemma lookup_by_simps [simp]:
  "lookup_by key k [] = None"
  "lookup_by key k (r # rs) = (if key r = k then Some r else lookup_by key k rs)"
  by (simp_all add: lookup_by_def)

lemma lookup_by_key [tbl]: "lookup_by key k rows = Some r \<Longrightarrow> key r = k \<and> r \<in> set rows"
  by (induction rows) (auto split: if_splits)

lemma lookup_by_None [tbl]: "lookup_by key k rows = None \<longleftrightarrow> k \<notin> key ` set rows"
  by (induction rows) auto

lemma lookup_by_append [tbl]:
  "lookup_by key k (xs @ ys) = (case lookup_by key k xs of None \<Rightarrow> lookup_by key k ys | Some r \<Rightarrow> Some r)"
  by (induction xs) auto

lemma lookup_by_fresh [tbl]:
  "key r \<notin> key ` set rows \<Longrightarrow> lookup_by key (key r) (rows @ [r]) = Some r"
  by (induction rows) auto

lemma lookup_by_mem:
  "distinct (map key rows) \<Longrightarrow> r \<in> set rows \<Longrightarrow> lookup_by key (key r) rows = Some r"
  by (induction rows) (auto simp: rev_image_eqI)

lemma lookup_update_where [tbl]:
  assumes "\<And>r. key (f r) = key r"
  shows "lookup_by key k (update_where P f rows) =
     map_option (\<lambda>r. if P r then f r else r) (lookup_by key k rows)"
  by (induction rows) (auto simp: update_where_def assms)

lemma keys_update_where [tbl]:
  assumes "\<And>r. key (f r) = key r"
  shows "map key (update_where P f rows) = map key rows"
  by (induction rows) (auto simp: update_where_def assms)

lemma update_where_simps [simp]:
  "update_where P f [] = []"
  "update_where P f (r # rs) = (if P r then f r else r) # update_where P f rs"
  by (simp_all add: update_where_def)

lemma length_update_where [simp]: "length (update_where P f rows) = length rows"
  by (simp add: update_where_def)

lemma count_where_unique [tbl]:
  assumes "distinct (map key rows)" and "\<And>r. P r \<Longrightarrow> key r = k"
  shows "count_where P rows =
     (case lookup_by key k rows of None \<Rightarrow> 0 | Some r \<Rightarrow> if P r then 1 else 0)"
  using assms(1)
proof (induction rows)
  case (Cons r rs)
  show ?case
  proof (cases "key r = k")
    case True
    with Cons.prems have "\<forall>x \<in> set rs. key x \<noteq> k" by (auto simp: image_iff)
    with assms(2) have "filter P rs = []" by (auto simp: filter_empty_conv)
    with True show ?thesis by (simp add: count_where_def)
  next
    case False
    with assms(2) have "\<not> P r" by blast
    with False Cons show ?thesis by (simp add: count_where_def)
  qed
qed (simp add: count_where_def)

lemma set_insert_desc [simp]: "set (insert_desc c r xs) = insert r (set xs)"
  by (induction xs) auto

lemma length_insert_desc [simp]: "length (insert_desc c r xs) = Suc (length xs)"
  by (induction xs) auto

lemma sorted_insert_desc:
  "sorted_wrt (\<lambda>x y. c y \<le> c x) xs \<Longrightarrow> sorted_wrt (\<lambda>x y. c y \<le> c x) (insert_desc c r xs)"
  by (induction xs) (auto intro: order_trans)

lemma set_order_desc [simp]: "set (order_desc c rows) = set rows"
  by (induction rows) (auto simp: order_desc_def)

lemma length_order_desc [simp]: "length (order_desc c rows) = length rows"
  by (induction rows) (auto simp: order_desc_def)

lemma sorted_order_desc: "sorted_wrt (\<lambda>x y. c y \<le> c x) (order_desc c rows)"
  by (induction rows) (auto simp: order_desc_def intro: sorted_insert_desc)

lemma clamp_limit_bounds:
  "0 < dflt \<Longrightarrow> dflt \<le> cap \<Longrightarrow> 0 < clamp_limit dflt cap l \<and> clamp_limit dflt cap l \<le> nat cap"
  by (auto simp: clamp_limit_def Let_def)

end
