(* ===== verification/Texts.thy ===== *)
theory Texts
  imports Runtime_Prelude
begin

text \<open>
  The texts the runtime shows or stores: one definition per message of the source, with the
  interpolated values as arguments. Characters outside ASCII stand as their code points; the
  comment gives the meaning in English. No branch of the program inspects these texts, except
  that a non-empty one counts as true.
\<close>

definition tx_tool_unregistered :: "string \<Rightarrow> string" where \<comment> \<open>tool not registered\<close>
  "tx_tool_unregistered tool =
    utf8 [0x5DE5, 0x5177] @ '' '' @ utf8 [0x27] @ tool @ utf8 [0x27] @ '' '' @ utf8 [0x672A,
    0x6CE8, 0x518C]"

definition tx_no_callable :: "string \<Rightarrow> string" where \<comment> \<open>local tool has no callable\<close>
  "tx_no_callable tool =
    utf8 [0x672C, 0x5730, 0x5DE5, 0x5177] @ '' '' @ utf8 [0x27] @ tool @ utf8 [0x27] @ '' '' @
    utf8 [0x65E0, 0x53EF, 0x8C03, 0x7528, 0x5BF9, 0x8C61]"

definition tx_mcp_no_server :: "string \<Rightarrow> string" where \<comment> \<open>MCP tool lacks server_name\<close>
  "tx_mcp_no_server tool =
    ''MCP '' @ utf8 [0x5DE5, 0x5177] @ '' '' @ utf8 [0x27] @ tool @ utf8 [0x27] @ '' '' @ utf8
    [0x7F3A, 0x5C11] @ '' server_name''"

definition tx_mcp_server_unregistered :: "string \<Rightarrow> string" where \<comment> \<open>MCP server not registered\<close>
  "tx_mcp_server_unregistered server =
    ''MCP Server '' @ utf8 [0x27] @ server @ utf8 [0x27] @ '' '' @ utf8 [0x672A, 0x6CE8, 0x518C]"

definition tx_mcp_not_allowed :: "string \<Rightarrow> string" where \<comment> \<open>MCP tool outside the allowlist\<close>
  "tx_mcp_not_allowed tool =
    ''MCP tool '' @ utf8 [0x27] @ tool @ utf8 [0x27] @ '' is not allowed by MCP_TOOL_ALLOWLIST''"

definition tx_not_in_whitelist :: "string \<Rightarrow> string" where \<comment> \<open>operation not in the whitelist\<close>
  "tx_not_in_whitelist reason =
    utf8 [0x64CD, 0x4F5C, 0x4E0D, 0x5728, 0x767D, 0x540D, 0x5355, 0x5185] @ '': '' @ reason"

definition tx_high_risk_needs_approval :: "string \<Rightarrow> string" where \<comment> \<open>high-risk tool needs human approval\<close>
  "tx_high_risk_needs_approval action =
    utf8 [0x9AD8, 0x98CE, 0x9669, 0x5DE5, 0x5177] @ '' '' @ utf8 [0x27] @ action @ utf8 [0x27] @
    '' '' @ utf8 [0x9700, 0x8981, 0x4EBA, 0x5DE5, 0x5BA1, 0x6279]"

definition tx_nl2sql_scope :: "string \<Rightarrow> string" where \<comment> \<open>nl2sql mode forbids write/admin/schema operations\<close>
  "tx_nl2sql_scope scope =
    ''nl2sql '' @ utf8 [0x6A21, 0x5F0F, 0x4E0D, 0x5141, 0x8BB8] @ '' write/admin/schema '' @
    utf8 [0x64CD, 0x4F5C] @ '': '' @ scope"

definition tx_not_in_gateway :: "string \<Rightarrow> string" where \<comment> \<open>tool not registered in the gateway\<close>
  "tx_not_in_gateway tool =
    utf8 [0x5DE5, 0x5177] @ '' '' @ utf8 [0x27] @ tool @ utf8 [0x27] @ '' '' @ utf8 [0x672A,
    0x5728] @ '' ToolGateway '' @ utf8 [0x6CE8, 0x518C]"

definition tx_scope_not_direct :: "string \<Rightarrow> string \<Rightarrow> string" where \<comment> \<open>permission scope may not be executed directly\<close>
  "tx_scope_not_direct tool scope =
    utf8 [0x5DE5, 0x5177] @ '' '' @ utf8 [0x27] @ tool @ utf8 [0x27] @ '' '' @ utf8 [0x6743,
    0x9650, 0x8303, 0x56F4] @ '' '' @ utf8 [0x27] @ scope @ utf8 [0x27] @ '' '' @ utf8 [0x4E0D,
    0x5141, 0x8BB8, 0x76F4, 0x63A5, 0x6267, 0x884C]"

definition tx_payload_tool_mismatch :: "string \<Rightarrow> string \<Rightarrow> string" where \<comment> \<open>payload tool differs from the approval record\<close>
  "tx_payload_tool_mismatch ptool atool =
    ''payload tool_name '' @ utf8 [0x27] @ ptool @ utf8 [0x27] @ '' '' @ utf8 [0x4E0E, 0x5BA1,
    0x6279, 0x8BB0, 0x5F55] @ '' '' @ utf8 [0x27] @ atool @ utf8 [0x27] @ '' '' @ utf8 [0x4E0D,
    0x5339, 0x914D]"

definition tx_step_not_in_plan :: "string \<Rightarrow> string" where \<comment> \<open>resumed step is not in the plan\<close>
  "tx_step_not_in_plan step =
    ''resume step_id '' @ utf8 [0x27] @ step @ utf8 [0x27] @ '' '' @ utf8 [0x4E0D, 0x5B58,
    0x5728, 0x4E8E, 0x539F] @ '' plan.steps''"

definition kw_gmv_mom :: "string" where \<comment> \<open>GMV month on month\<close>
  "kw_gmv_mom =
    ''GMV'' @ utf8 [0x73AF, 0x6BD4]"

definition kw_mom_growth :: "string" where \<comment> \<open>month-on-month growth\<close>
  "kw_mom_growth =
    utf8 [0x73AF, 0x6BD4, 0x589E, 0x957F]"

definition kw_refund_rule :: "string" where \<comment> \<open>refund rule\<close>
  "kw_refund_rule =
    utf8 [0x9000, 0x6B3E, 0x89C4, 0x5219]"

definition kw_refund_policy :: "string" where \<comment> \<open>refund policy\<close>
  "kw_refund_policy =
    utf8 [0x9000, 0x6B3E, 0x653F, 0x7B56]"

definition kw_promotion_rule :: "string" where \<comment> \<open>promotion rule\<close>
  "kw_promotion_rule =
    utf8 [0x4FC3, 0x9500, 0x89C4, 0x5219]"

definition kw_simulate_refund :: "string" where \<comment> \<open>simulate a refund\<close>
  "kw_simulate_refund =
    utf8 [0x6A21, 0x62DF, 0x9000, 0x6B3E]"

definition kw_refund_drill :: "string" where \<comment> \<open>refund drill\<close>
  "kw_refund_drill =
    utf8 [0x9000, 0x6B3E, 0x6F14, 0x7EC3]"

definition kw_what_date :: "string" where \<comment> \<open>what is the date today\<close>
  "kw_what_date =
    utf8 [0x4ECA, 0x5929, 0x51E0, 0x53F7]"

definition kw_current_date :: "string" where \<comment> \<open>current date\<close>
  "kw_current_date =
    utf8 [0x5F53, 0x524D, 0x65E5, 0x671F]"

definition kw_date :: "string" where \<comment> \<open>date\<close>
  "kw_date =
    utf8 [0x65E5, 0x671F]"

definition kw_gmv_upper :: "string" where \<comment> \<open>GMV\<close>
  "kw_gmv_upper =
    ''GMV''"

definition kw_gmv_lower :: "string" where \<comment> \<open>gmv\<close>
  "kw_gmv_lower =
    ''gmv''"

definition kw_sales :: "string" where \<comment> \<open>sales amount\<close>
  "kw_sales =
    utf8 [0x9500, 0x552E, 0x989D]"

definition kw_new_users :: "string" where \<comment> \<open>new users\<close>
  "kw_new_users =
    utf8 [0x65B0, 0x589E, 0x7528, 0x6237]"

definition kw_users :: "string" where \<comment> \<open>users\<close>
  "kw_users =
    utf8 [0x7528, 0x6237]"

definition kw_orders :: "string" where \<comment> \<open>orders\<close>
  "kw_orders =
    utf8 [0x8BA2, 0x5355]"

definition kw_order_volume :: "string" where \<comment> \<open>order volume\<close>
  "kw_order_volume =
    utf8 [0x8BA2, 0x5355, 0x91CF]"

definition kw_top_products :: "string" where \<comment> \<open>top products\<close>
  "kw_top_products =
    ''Top'' @ utf8 [0x5546, 0x54C1]"

definition kw_best_selling :: "string" where \<comment> \<open>best selling\<close>
  "kw_best_selling =
    utf8 [0x70ED, 0x9500]"

definition kw_popular_products :: "string" where \<comment> \<open>popular products\<close>
  "kw_popular_products =
    utf8 [0x70ED, 0x95E8, 0x5546, 0x54C1]"

definition kw_top_products_lower :: "string" where \<comment> \<open>top products, lower case\<close>
  "kw_top_products_lower =
    ''top'' @ utf8 [0x5546, 0x54C1]"

definition kw_refund_rate :: "string" where \<comment> \<open>refund rate\<close>
  "kw_refund_rate =
    utf8 [0x9000, 0x6B3E, 0x7387]"

definition kw_refund :: "string" where \<comment> \<open>refund\<close>
  "kw_refund =
    utf8 [0x9000, 0x6B3E]"

definition lb_simulate_refund :: "string" where \<comment> \<open>simulated refund order\<close>
  "lb_simulate_refund =
    utf8 [0x6A21, 0x62DF, 0x9000, 0x6B3E, 0x5355]"

definition lb_date :: "string" where \<comment> \<open>date lookup\<close>
  "lb_date =
    utf8 [0x65E5, 0x671F, 0x67E5, 0x8BE2]"

definition lb_today_gmv :: "string" where \<comment> \<open>GMV of today\<close>
  "lb_today_gmv =
    utf8 [0x4ECA, 0x65E5] @ '' GMV''"

definition lb_month_new_users :: "string" where \<comment> \<open>new users of this month\<close>
  "lb_month_new_users =
    utf8 [0x672C, 0x6708, 0x65B0, 0x589E, 0x7528, 0x6237]"

definition lb_order_count :: "string" where \<comment> \<open>order count\<close>
  "lb_order_count =
    utf8 [0x8BA2, 0x5355, 0x6570, 0x91CF]"

definition lb_top_products :: "string" where \<comment> \<open>top products\<close>
  "lb_top_products =
    ''Top '' @ utf8 [0x5546, 0x54C1]"

definition lb_refund_rate :: "string" where \<comment> \<open>refund rate\<close>
  "lb_refund_rate =
    utf8 [0x9000, 0x6B3E, 0x7387]"

definition lb_unknown :: "string" where \<comment> \<open>unknown\<close>
  "lb_unknown =
    utf8 [0x672A, 0x77E5]"

definition tx_plan_gmv_template :: "string" where \<comment> \<open>GMV month-on-month growth\<close>
  "tx_plan_gmv_template =
    ''GMV'' @ utf8 [0x73AF, 0x6BD4, 0x589E, 0x957F]"

definition tx_plan_gmv_reason :: "string" where \<comment> \<open>mock baseline as the GMV of the last period\<close>
  "tx_plan_gmv_reason =
    utf8 [0x4F7F, 0x7528] @ '' mock baseline=100000 '' @ utf8 [0x4F5C, 0x4E3A, 0x4E0A, 0x671F] @
    '' GMV'' @ utf8 [0xFF0C] @ ''v0.3.2 '' @ utf8 [0x5C06, 0x63A5, 0x5165, 0x771F, 0x5B9E,
    0x4E0A, 0x6708, 0x67E5, 0x8BE2]"

definition tx_plan_refund_template :: "string" where \<comment> \<open>refund rule and refund rate\<close>
  "tx_plan_refund_template =
    utf8 [0x9000, 0x6B3E, 0x89C4, 0x5219] @ ''+'' @ utf8 [0x9000, 0x6B3E, 0x7387]"

definition tx_plan_refund_reason :: "string" where \<comment> \<open>look up the refund rule and the current refund rate\<close>
  "tx_plan_refund_reason =
    utf8 [0x67E5, 0x8BE2, 0x9000, 0x6B3E, 0x89C4, 0x5219, 0x5E76, 0x83B7, 0x53D6, 0x5F53,
    0x524D, 0x9000, 0x6B3E, 0x7387]"

definition tx_plan_promotion_template :: "string" where \<comment> \<open>promotion rule\<close>
  "tx_plan_promotion_template =
    utf8 [0x4FC3, 0x9500, 0x89C4, 0x5219]"

definition tx_plan_promotion_reason :: "string" where \<comment> \<open>look up the promotion rule\<close>
  "tx_plan_promotion_reason =
    utf8 [0x67E5, 0x8BE2, 0x4FC3, 0x9500, 0x89C4, 0x5219]"

definition tx_plan_unmatched_reason :: "string" where \<comment> \<open>no multi-tool task matched\<close>
  "tx_plan_unmatched_reason =
    utf8 [0x672A, 0x5339, 0x914D, 0x5230, 0x591A, 0x5DE5, 0x5177, 0x4EFB, 0x52A1]"

definition tx_already_decided :: "string \<Rightarrow> string" where \<comment> \<open>already decided, current status\<close>
  "tx_already_decided status =
    utf8 [0x5BA1, 0x6279, 0x5DF2, 0x51B3, 0x7B56, 0xFF0C, 0x5F53, 0x524D, 0x72B6, 0x6001,
    0x4E3A] @ '' '' @ status"

definition tx_mt_unmatched :: "string" where \<comment> \<open>no multi-tool task matched\<close>
  "tx_mt_unmatched =
    utf8 [0x672A, 0x5339, 0x914D, 0x591A, 0x5DE5, 0x5177, 0x4EFB, 0x52A1]"

definition tx_step_dep_missing :: "string \<Rightarrow> string \<Rightarrow> string" where \<comment> \<open>step has unmet dependencies\<close>
  "tx_step_dep_missing step missing =
    utf8 [0x6B65, 0x9AA4] @ '' '' @ step @ '' '' @ utf8 [0x4F9D, 0x8D56, 0x672A, 0x6EE1, 0x8DB3]
    @ '': '' @ missing"

definition tx_step_unregistered :: "string \<Rightarrow> string \<Rightarrow> string" where \<comment> \<open>the tool of the step is not registered\<close>
  "tx_step_unregistered step tool =
    utf8 [0x6B65, 0x9AA4] @ '' '' @ step @ '' '' @ utf8 [0x5DE5, 0x5177] @ '' '' @ utf8 [0x27] @
    tool @ utf8 [0x27] @ '' '' @ utf8 [0x672A, 0x6CE8, 0x518C, 0xFF0C, 0x4E0D, 0x5141, 0x8BB8,
    0x6267, 0x884C]"

definition tx_mt_step_action :: "string \<Rightarrow> string \<Rightarrow> string" where \<comment> \<open>multi-tool step calls a tool\<close>
  "tx_mt_step_action step tool =
    utf8 [0x591A, 0x5DE5, 0x5177, 0x6B65, 0x9AA4] @ '' '' @ step @ '' '' @ utf8 [0x8C03, 0x7528]
    @ '' '' @ tool"

definition tx_step_needs_approval :: "string \<Rightarrow> string \<Rightarrow> string" where \<comment> \<open>step needs human approval\<close>
  "tx_step_needs_approval step reason =
    utf8 [0x6B65, 0x9AA4] @ '' '' @ step @ '' '' @ utf8 [0x9700, 0x8981, 0x4EBA, 0x5DE5, 0x5BA1,
    0x6279] @ '': '' @ reason"

definition tx_step_policy_blocked :: "string \<Rightarrow> string \<Rightarrow> string" where \<comment> \<open>step blocked by policy\<close>
  "tx_step_policy_blocked step reason =
    utf8 [0x6B65, 0x9AA4] @ '' '' @ step @ '' '' @ utf8 [0x88AB, 0x7B56, 0x7565, 0x62E6, 0x622A]
    @ '': '' @ reason"

definition tx_step_var_failed :: "string \<Rightarrow> string \<Rightarrow> string" where \<comment> \<open>step has an unresolved variable\<close>
  "tx_step_var_failed step path =
    utf8 [0x6B65, 0x9AA4] @ '' '' @ step @ '' '' @ utf8 [0x53D8, 0x91CF, 0x89E3, 0x6790, 0x5931,
    0x8D25] @ '': $'' @ path"

definition tx_step_call_failed :: "string \<Rightarrow> string \<Rightarrow> string" where \<comment> \<open>the tool call of the step failed\<close>
  "tx_step_call_failed step err =
    utf8 [0x6B65, 0x9AA4] @ '' '' @ step @ '' '' @ utf8 [0x5DE5, 0x5177, 0x8C03, 0x7528, 0x5931,
    0x8D25] @ '': '' @ err"

definition tx_answer_gmv :: "string \<Rightarrow> string \<Rightarrow> string \<Rightarrow> string" where \<comment> \<open>GMV as of a date and its change\<close>
  "tx_answer_gmv d g c =
    utf8 [0x622A, 0x81F3] @ '' '' @ d @ utf8 [0xFF0C, 0x5F53, 0x524D] @ '' GMV '' @ utf8
    [0x4E3A] @ '' '' @ g @ utf8 [0xFF0C, 0x73AF, 0x6BD4, 0x53D8, 0x5316] @ '' '' @ c @ ''%'' @
    utf8 [0xFF08, 0x4E0A, 0x671F, 0x57FA, 0x7EBF] @ '' mock=100000'' @ utf8 [0xFF09]"

definition tx_answer_refund :: "string \<Rightarrow> string \<Rightarrow> string" where \<comment> \<open>refund rule and rate\<close>
  "tx_answer_refund r v =
    utf8 [0x9000, 0x6B3E, 0x89C4, 0x5219, 0xFF1A] @ r @ utf8 [0xFF1B, 0x5F53, 0x524D, 0x9000,
    0x6B3E, 0x7387, 0xFF1A] @ v @ ''%''"

definition tx_answer_promotion :: "string \<Rightarrow> string" where \<comment> \<open>promotion rule\<close>
  "tx_answer_promotion r =
    utf8 [0x4FC3, 0x9500, 0x89C4, 0x5219, 0xFF1A] @ r"

definition tx_unrecognized :: "string" where \<comment> \<open>the question is not recognised\<close>
  "tx_unrecognized =
    utf8 [0x62B1, 0x6B49, 0xFF0C, 0x6211, 0x6682, 0x65F6, 0x65E0, 0x6CD5, 0x8BC6, 0x522B,
    0x60A8, 0x7684, 0x95EE, 0x9898, 0x3002, 0x5F53, 0x524D, 0x652F, 0x6301, 0x67E5, 0x8BE2,
    0xFF1A, 0x4ECA, 0x65E5] @ '' GMV'' @ utf8 [0x3001, 0x672C, 0x6708, 0x65B0, 0x589E, 0x7528,
    0x6237, 0x3001, 0x8BA2, 0x5355, 0x6570, 0x91CF, 0x3001] @ ''Top '' @ utf8 [0x5546, 0x54C1,
    0x3001, 0x9000, 0x6B3E, 0x7387, 0x3002]"

definition tx_graph_no_store :: "string \<Rightarrow> string" where \<comment> \<open>no approval store\<close>
  "tx_graph_no_store tool =
    ''High-risk tool '' @ utf8 [0x27] @ tool @ utf8 [0x27] @
    '' requires approval, but graph runtime has no approval_store; no approval was created.''"

definition tx_graph_approval_created :: "string \<Rightarrow> string" where \<comment> \<open>approval created\<close>
  "tx_graph_approval_created tool =
    ''Approval has been created for high-risk tool '' @ utf8 [0x27] @ tool @ utf8 [0x27] @
    ''; graph resume is not implemented yet.''"

definition tx_query_result :: "string \<Rightarrow> string \<Rightarrow> string" where \<comment> \<open>result of the query\<close>
  "tx_query_result label data =
    label @ utf8 [0x67E5, 0x8BE2, 0x7ED3, 0x679C, 0xFF1A] @ data"

definition tx_call_failed_why :: "string \<Rightarrow> string" where \<comment> \<open>the tool call failed with an error\<close>
  "tx_call_failed_why err =
    utf8 [0x5DE5, 0x5177, 0x8C03, 0x7528, 0x5931, 0x8D25, 0xFF08] @ err @ utf8 [0xFF09, 0xFF0C,
    0x8BF7, 0x7A0D, 0x540E, 0x91CD, 0x8BD5, 0x3002]"

definition tx_call_failed :: "string" where \<comment> \<open>the tool call failed\<close>
  "tx_call_failed =
    utf8 [0x5DE5, 0x5177, 0x8C03, 0x7528, 0x5931, 0x8D25, 0xFF0C, 0x8BF7, 0x7A0D, 0x540E,
    0x91CD, 0x8BD5, 0x3002]"

definition tx_approval_missing :: "string \<Rightarrow> string" where \<comment> \<open>no such approval request\<close>
  "tx_approval_missing aid =
    utf8 [0x5BA1, 0x6279, 0x8BF7, 0x6C42] @ '' '' @ utf8 [0x27] @ aid @ utf8 [0x27] @ '' '' @
    utf8 [0x4E0D, 0x5B58, 0x5728]"

definition tx_approval_not_approved :: "string \<Rightarrow> string" where \<comment> \<open>the approval is not approved\<close>
  "tx_approval_not_approved status =
    utf8 [0x5BA1, 0x6279, 0x72B6, 0x6001, 0x4E3A] @ '' '' @ status @ utf8 [0xFF0C, 0x65E0,
    0x6CD5, 0x6062, 0x590D, 0x6267, 0x884C]"

definition tx_resume_mode_unsupported :: "string \<Rightarrow> string" where \<comment> \<open>unsupported resume mode\<close>
  "tx_resume_mode_unsupported mode =
    utf8 [0x4E0D, 0x652F, 0x6301, 0x7684] @ '' resume mode: '' @ mode"

definition tx_var_failed :: "string \<Rightarrow> string" where \<comment> \<open>unresolved variable\<close>
  "tx_var_failed path =
    utf8 [0x53D8, 0x91CF, 0x89E3, 0x6790, 0x5931, 0x8D25] @ '': $'' @ path"

definition tx_mt_resume_action :: "string \<Rightarrow> string \<Rightarrow> string" where \<comment> \<open>resumed multi-tool step calls a tool\<close>
  "tx_mt_resume_action step tool =
    utf8 [0x591A, 0x5DE5, 0x5177, 0x6062, 0x590D, 0x6B65, 0x9AA4] @ '' '' @ step @ '' '' @ utf8
    [0x8C03, 0x7528] @ '' '' @ tool"

definition tx_graph_action :: "string \<Rightarrow> string" where \<comment> \<open>graph runtime approval\<close>
  "tx_graph_action tool =
    ''Graph runtime approval for '' @ tool"

definition lb_delete :: "string" where \<comment> \<open>delete\<close>
  "lb_delete =
    utf8 [0x5220, 0x9664]"

definition lb_modify :: "string" where \<comment> \<open>modify\<close>
  "lb_modify =
    utf8 [0x4FEE, 0x6539]"

definition lb_batch :: "string" where \<comment> \<open>batch\<close>
  "lb_batch =
    utf8 [0x6279, 0x91CF]"

definition lb_export :: "string" where \<comment> \<open>export\<close>
  "lb_export =
    utf8 [0x5BFC, 0x51FA]"

definition lb_bypass :: "string" where \<comment> \<open>bypass approval\<close>
  "lb_bypass =
    utf8 [0x7ED5, 0x8FC7, 0x5BA1, 0x6279]"

definition lb_skip :: "string" where \<comment> \<open>skip approval\<close>
  "lb_skip =
    utf8 [0x8DF3, 0x8FC7, 0x5BA1, 0x6279]"

definition lb_direct :: "string" where \<comment> \<open>execute directly\<close>
  "lb_direct =
    utf8 [0x76F4, 0x63A5, 0x6267, 0x884C]"

definition lb_ignore :: "string" where \<comment> \<open>ignore\<close>
  "lb_ignore =
    utf8 [0x5FFD, 0x7565]"

definition lb_instruction :: "string" where \<comment> \<open>instruction\<close>
  "lb_instruction =
    utf8 [0x6307, 0x4EE4]"

definition lb_password :: "string" where \<comment> \<open>system password\<close>
  "lb_password =
    utf8 [0x7CFB, 0x7EDF, 0x5BC6, 0x7801]"

definition lb_prompt :: "string" where \<comment> \<open>system prompt\<close>
  "lb_prompt =
    utf8 [0x7CFB, 0x7EDF, 0x63D0, 0x793A, 0x8BCD]"

definition lb_delete_op :: "string" where \<comment> \<open>delete operation\<close>
  "lb_delete_op =
    utf8 [0x5220, 0x9664, 0x64CD, 0x4F5C]"

definition lb_modify_op :: "string" where \<comment> \<open>modify operation\<close>
  "lb_modify_op =
    utf8 [0x4FEE, 0x6539, 0x64CD, 0x4F5C]"

definition lb_batch_op :: "string" where \<comment> \<open>batch operation\<close>
  "lb_batch_op =
    utf8 [0x6279, 0x91CF, 0x64CD, 0x4F5C]"

definition lb_export_op :: "string" where \<comment> \<open>export operation\<close>
  "lb_export_op =
    utf8 [0x5BFC, 0x51FA, 0x64CD, 0x4F5C]"

definition lb_ignore_op :: "string" where \<comment> \<open>ignore instructions\<close>
  "lb_ignore_op =
    utf8 [0x5FFD, 0x7565, 0x6307, 0x4EE4]"

definition lb_prompt_leak :: "string" where \<comment> \<open>prompt leak\<close>
  "lb_prompt_leak =
    utf8 [0x63D0, 0x793A, 0x8BCD, 0x6CC4, 0x9732]"

definition tx_risk_detected :: "string \<Rightarrow> string" where \<comment> \<open>high-risk intent detected\<close>
  "tx_risk_detected labels =
    utf8 [0x68C0, 0x6D4B, 0x5230, 0x9AD8, 0x98CE, 0x9669, 0x610F, 0x56FE] @ '': '' @ labels"

definition tx_risk_blocked :: "string \<Rightarrow> string" where \<comment> \<open>high-risk intent blocked\<close>
  "tx_risk_blocked reason =
    utf8 [0x9AD8, 0x98CE, 0x9669, 0x610F, 0x56FE, 0x88AB, 0x62E6, 0x622A] @ '': '' @ reason"

definition tx_rule_matched :: "string \<Rightarrow> string \<Rightarrow> string" where \<comment> \<open>a keyword matches a rule\<close>
  "tx_rule_matched kw mode =
    utf8 [0x5173, 0x952E, 0x8BCD] @ '' '' @ utf8 [0x27] @ kw @ utf8 [0x27] @ '' '' @ utf8
    [0x5339, 0x914D, 0x89C4, 0x5219, 0xFF0C, 0x9009, 0x62E9] @ '' '' @ mode @ '' '' @ utf8
    [0x6A21, 0x5F0F]"

definition tx_no_rule :: "string" where \<comment> \<open>no routing rule matches\<close>
  "tx_no_rule =
    utf8 [0x672A, 0x5339, 0x914D, 0x4EFB, 0x4F55, 0x8DEF, 0x7531, 0x89C4, 0x5219, 0xFF0C,
    0x4F7F, 0x7528] @ '' auto '' @ utf8 [0x6A21, 0x5F0F]"

definition tx_route_nl2sql :: "string" where \<comment> \<open>data query\<close>
  "tx_route_nl2sql =
    utf8 [0x6570, 0x636E, 0x6307, 0x6807, 0x7C7B, 0x67E5, 0x8BE2, 0xFF0C, 0x8D70] @ '' NL2SQL ''
    @ utf8 [0x7BA1, 0x7EBF, 0x751F, 0x6210, 0x5E76, 0x6267, 0x884C] @ '' SQL''"

definition tx_route_multitool :: "string" where \<comment> \<open>compound query\<close>
  "tx_route_multitool =
    utf8 [0x590D, 0x5408, 0x67E5, 0x8BE2, 0xFF0C, 0x9700, 0x8981, 0x591A, 0x4E2A, 0x5DE5,
    0x5177, 0x4E32, 0x8054, 0xFF08, 0x5982, 0x6307, 0x6807, 0x73AF, 0x6BD4] @ '' + '' @ utf8
    [0x89C4, 0x5219, 0x8BF4, 0x660E, 0xFF09]"

definition tx_route_keyword :: "string" where \<comment> \<open>simple query\<close>
  "tx_route_keyword =
    utf8 [0x5355, 0x4E00, 0x672C, 0x5730, 0x5DE5, 0x5177, 0x5373, 0x53EF, 0x56DE, 0x7B54,
    0x7684, 0x7B80, 0x5355, 0x67E5, 0x8BE2, 0xFF08, 0x5982, 0x65E5, 0x671F, 0xFF09]"

definition tx_route_auto :: "string" where \<comment> \<open>cascade\<close>
  "tx_route_auto =
    utf8 [0x65E0, 0x6CD5, 0x5224, 0x65AD, 0x65F6, 0x7684, 0x81EA, 0x52A8, 0x7EA7, 0x8054,
    0x6A21, 0x5F0F, 0xFF08] @ ''nl2sql '' @ utf8 [0x2192] @ '' multitool '' @ utf8 [0x2192] @
    '' keyword'' @ utf8 [0xFF09]"

definition tx_route_prompt_head :: "string" where \<comment> \<open>routing prompt\<close>
  "tx_route_prompt_head =
    utf8 [0x4F60, 0x662F, 0x8DEF, 0x7531, 0x51B3, 0x7B56, 0x5668, 0x3002, 0x8BF7, 0x8C03,
    0x7528] @ '' route_to_<mode> '' @ utf8 [0x4E2D, 0x6700, 0x5408, 0x9002, 0x7684, 0x4E00,
    0x4E2A, 0x51FD, 0x6570, 0xFF0C, 0x4E3A, 0x4E0B, 0x9762, 0x7684, 0x67E5, 0x8BE2, 0x9009,
    0x62E9, 0x6267, 0x884C, 0x6A21, 0x5F0F, 0x3002]"

definition tx_route_prompt_query :: "string \<Rightarrow> string" where \<comment> \<open>the query in the prompt\<close>
  "tx_route_prompt_query query =
    utf8 [0x67E5, 0x8BE2] @ '': '' @ query"

definition tx_no_tool_call :: "string" where \<comment> \<open>the provider returned no decision\<close>
  "tx_no_tool_call =
    ''no_tool_call: provider '' @ utf8 [0x672A, 0x8FD4, 0x56DE, 0x8DEF, 0x7531, 0x51B3, 0x7B56]"

definition tx_invalid_mode :: "string \<Rightarrow> string" where \<comment> \<open>unknown routing function\<close>
  "tx_invalid_mode name =
    ''invalid_mode: '' @ utf8 [0x65E0, 0x6CD5, 0x8BC6, 0x522B, 0x7684, 0x8DEF, 0x7531, 0x51FD,
    0x6570] @ '' '' @ utf8 [0x27] @ name @ utf8 [0x27]"

definition tx_llm_route :: "string \<Rightarrow> string" where \<comment> \<open>the LLM chose a mode\<close>
  "tx_llm_route mode =
    ''LLM function calling '' @ utf8 [0x9009, 0x62E9] @ '' '' @ mode @ '' '' @ utf8 [0x6A21,
    0x5F0F]"

definition tx_needs_schema :: "string" where \<comment> \<open>needs a schema query\<close>
  "tx_needs_schema =
    utf8 [0x9700, 0x8981] @ '' schema '' @ utf8 [0x67E5, 0x8BE2]"

definition tx_needs_multitool :: "string" where \<comment> \<open>needs several tools\<close>
  "tx_needs_multitool =
    utf8 [0x9700, 0x8981, 0x591A, 0x5DE5, 0x5177, 0x4E32, 0x8054]"

definition tx_simple_query :: "string" where \<comment> \<open>simple query\<close>
  "tx_simple_query =
    utf8 [0x7B80, 0x5355, 0x67E5, 0x8BE2]"

definition tx_plan_summary :: "string \<Rightarrow> string \<Rightarrow> string \<Rightarrow> string" where \<comment> \<open>plan summary\<close>
  "tx_plan_summary query action parts =
    utf8 [0x67E5, 0x8BE2] @ '' '' @ utf8 [0x27] @ query @ utf8 [0x27] @ '' '' @ utf8 [0x2192] @
    '' '' @ action @ utf8 [0xFF0C] @ parts"

definition tx_success :: "string" where \<comment> \<open>success\<close>
  "tx_success =
    utf8 [0x6210, 0x529F]"

definition tx_failure :: "string" where \<comment> \<open>failure\<close>
  "tx_failure =
    utf8 [0x5931, 0x8D25]"

definition tx_exec_nl2sql :: "string \<Rightarrow> string" where \<comment> \<open>NL2SQL executed\<close>
  "tx_exec_nl2sql how =
    ''NL2SQL '' @ utf8 [0x6267, 0x884C] @ '' '' @ how"

definition tx_exec_multitool :: "string \<Rightarrow> string" where \<comment> \<open>multi-tool executed\<close>
  "tx_exec_multitool how =
    ''MultiTool '' @ utf8 [0x6267, 0x884C] @ '' '' @ how"

definition tx_exec_keyword :: "string \<Rightarrow> string" where \<comment> \<open>keyword executed\<close>
  "tx_exec_keyword how =
    ''Keyword '' @ utf8 [0x6267, 0x884C] @ '' '' @ how"

definition tx_kw_unmatched :: "string" where \<comment> \<open>no keyword matched\<close>
  "tx_kw_unmatched =
    utf8 [0x672A, 0x5339, 0x914D, 0x5173, 0x952E, 0x8BCD]"

definition tx_policy_blocked :: "string \<Rightarrow> string" where \<comment> \<open>tool call blocked by policy\<close>
  "tx_policy_blocked reason =
    utf8 [0x5DE5, 0x5177, 0x8C03, 0x7528, 0x88AB, 0x7B56, 0x7565, 0x62E6, 0x622A] @ '': '' @
    reason"

definition tx_exec_blocked :: "string" where \<comment> \<open>keyword execution blocked by policy\<close>
  "tx_exec_blocked =
    ''Keyword '' @ utf8 [0x6267, 0x884C, 0x5931, 0x8D25] @ '': '' @ utf8 [0x7B56, 0x7565,
    0x62E6, 0x622A]"

definition tx_kw_call_failed :: "string \<Rightarrow> string" where \<comment> \<open>tool call failed\<close>
  "tx_kw_call_failed err =
    utf8 [0x5DE5, 0x5177, 0x8C03, 0x7528, 0x5931, 0x8D25] @ '': '' @ err"

definition tx_no_tool :: "string" where \<comment> \<open>no tool available\<close>
  "tx_no_tool =
    utf8 [0x65E0, 0x53EF, 0x7528, 0x5DE5, 0x5177]"

definition tx_auto_nl2sql :: "string" where \<comment> \<open>auto: NL2SQL succeeded\<close>
  "tx_auto_nl2sql =
    ''Auto '' @ utf8 [0x6A21, 0x5F0F] @ '': NL2SQL '' @ utf8 [0x6210, 0x529F]"

definition tx_auto_multitool :: "string" where \<comment> \<open>auto: multi-tool succeeded\<close>
  "tx_auto_multitool =
    ''Auto '' @ utf8 [0x6A21, 0x5F0F] @ '': NL2SQL '' @ utf8 [0x5931, 0x8D25, 0xFF0C] @
    ''Multitool '' @ utf8 [0x6210, 0x529F]"

definition tx_auto_keyword :: "string" where \<comment> \<open>auto: keyword fallback\<close>
  "tx_auto_keyword =
    ''Auto '' @ utf8 [0x6A21, 0x5F0F] @ '': NL2SQL '' @ utf8 [0x548C] @ '' Multitool '' @ utf8
    [0x5747, 0x5931, 0x8D25, 0xFF0C] @ ''Keyword fallback''"

definition tx_review_ok :: "string" where \<comment> \<open>successful and complete\<close>
  "tx_review_ok =
    utf8 [0x6267, 0x884C, 0x6210, 0x529F, 0x4E14, 0x7ED3, 0x679C, 0x5B8C, 0x6574]"

definition tx_review_blocked :: "string" where \<comment> \<open>blocked or waiting for approval\<close>
  "tx_review_blocked =
    utf8 [0x6267, 0x884C, 0x88AB, 0x7B56, 0x7565, 0x62E6, 0x622A, 0x6216, 0x7B49, 0x5F85,
    0x4EBA, 0x5DE5, 0x5BA1, 0x6279, 0xFF0C, 0x5207, 0x6362, 0x6A21, 0x5F0F, 0x65E0, 0x6CD5,
    0x7ED5, 0x8FC7, 0x5BA1, 0x6279, 0xFF0C, 0x4E0D, 0x5EFA, 0x8BAE] @ '' fallback''"

definition tx_review_auto :: "string" where \<comment> \<open>the cascade is exhausted\<close>
  "tx_review_auto =
    ''auto '' @ utf8 [0x6A21, 0x5F0F, 0x6267, 0x884C, 0x5931, 0x8D25, 0xFF0C, 0x5185, 0x90E8] @
    '' nl2sql'' @ utf8 [0x2192] @ ''multitool'' @ utf8 [0x2192] @ ''keyword '' @ utf8 [0x7EA7,
    0x8054, 0x5DF2, 0x7A77, 0x5C3D, 0xFF0C, 0x4E0D, 0x518D, 0x5EFA, 0x8BAE] @ '' fallback''"

definition tx_review_fallback :: "string \<Rightarrow> string" where \<comment> \<open>failed, fallback suggested\<close>
  "tx_review_fallback mode =
    utf8 [0x6267, 0x884C, 0x5931, 0x8D25, 0xFF0C, 0x5EFA, 0x8BAE] @ '' fallback '' @ utf8
    [0x5230] @ '' '' @ mode"

definition tx_review_no_answer :: "string" where \<comment> \<open>the result lacks an answer\<close>
  "tx_review_no_answer =
    utf8 [0x7ED3, 0x679C, 0x7F3A, 0x5C11] @ '' answer''"

definition tx_exec_failed :: "string" where \<comment> \<open>execution failed\<close>
  "tx_exec_failed =
    utf8 [0x6267, 0x884C, 0x5931, 0x8D25]"

definition tx_kn_approval_action :: "string \<Rightarrow> string" where \<comment> \<open>call a tool\<close>
  "tx_kn_approval_action tool =
    utf8 [0x8C03, 0x7528, 0x5DE5, 0x5177] @ '' '' @ tool"

definition tx_kn_needs_approval :: "string \<Rightarrow> string" where \<comment> \<open>the tool call needs approval\<close>
  "tx_kn_needs_approval reason =
    utf8 [0x5DE5, 0x5177, 0x8C03, 0x7528, 0x9700, 0x8981, 0x4EBA, 0x5DE5, 0x5BA1, 0x6279,
    0xFF1A] @ reason"

definition tx_kn_blocked :: "string \<Rightarrow> string" where \<comment> \<open>the tool call is blocked by policy\<close>
  "tx_kn_blocked reason =
    utf8 [0x5DE5, 0x5177, 0x8C03, 0x7528, 0x88AB, 0x7B56, 0x7565, 0x62E6, 0x622A, 0xFF1A] @
    reason"

definition tx_kn_failed :: "string \<Rightarrow> string" where \<comment> \<open>the tool call failed\<close>
  "tx_kn_failed why =
    utf8 [0x5DE5, 0x5177, 0x8C03, 0x7528, 0x5931, 0x8D25] @ why @ utf8 [0xFF0C, 0x8BF7, 0x7A0D,
    0x540E, 0x91CD, 0x8BD5, 0x3002]"

definition tx_kn_why :: "string \<Rightarrow> string" where \<comment> \<open>the reason in brackets\<close>
  "tx_kn_why err =
    utf8 [0xFF08] @ err @ utf8 [0xFF09]"

definition tx_nl2sql_exception :: "string \<Rightarrow> string" where \<comment> \<open>NL2SQL raised\<close>
  "tx_nl2sql_exception err =
    ''NL2SQL '' @ utf8 [0x6267, 0x884C, 0x5F02, 0x5E38] @ '': '' @ err"

definition tx_multitool_exception :: "string \<Rightarrow> string" where \<comment> \<open>multi-tool raised\<close>
  "tx_multitool_exception err =
    utf8 [0x591A, 0x5DE5, 0x5177, 0x6267, 0x884C, 0x5F02, 0x5E38] @ '': '' @ err"

definition tx_multi_agent_exception :: "string \<Rightarrow> string" where \<comment> \<open>multi-agent raised\<close>
  "tx_multi_agent_exception err =
    utf8 [0x591A] @ '' Agent '' @ utf8 [0x6267, 0x884C, 0x5F02, 0x5E38] @ '': '' @ err"

definition tx_auto_reason_multitool :: "string" where \<comment> \<open>fall back to multi-tool\<close>
  "tx_auto_reason_multitool =
    ''nl2sql '' @ utf8 [0x5931, 0x8D25, 0xFF0C, 0x56DE, 0x9000, 0x5230] @ '' multitool '' @ utf8
    [0x6A21, 0x5F0F]"

definition tx_auto_reason_keyword :: "string" where \<comment> \<open>fall back to keyword\<close>
  "tx_auto_reason_keyword =
    ''nl2sql '' @ utf8 [0x548C] @ '' multitool '' @ utf8 [0x5747, 0x5931, 0x8D25, 0xFF0C,
    0x56DE, 0x9000, 0x5230] @ '' keyword '' @ utf8 [0x6A21, 0x5F0F]"

definition tx_auto_reason_exception :: "string \<Rightarrow> string" where \<comment> \<open>nl2sql raised\<close>
  "tx_auto_reason_exception err =
    ''nl2sql '' @ utf8 [0x5F02, 0x5E38] @ '': '' @ err"

end
