(* ===== verification/Query_Texts.thy ===== *)
theory Query_Texts
  imports Texts
begin

text \<open>
  The texts of the LLM planner, the self check and the query path, as in \<open>Texts\<close>: one definition
  per message, with the interpolated values as arguments.
\<close>

definition tx_tool_desc :: "string \<Rightarrow> string \<Rightarrow> string" where \<comment> \<open>a tool with its risk level\<close>
  "tx_tool_desc desc risk =
    desc @ utf8 [0xFF08] @ ''risk_level='' @ risk @ utf8 [0xFF09]"

definition tx_arg_type :: "string \<Rightarrow> string \<Rightarrow> string" where \<comment> \<open>an argument has the wrong type\<close>
  "tx_arg_type key expected =
    utf8 [0x53C2, 0x6570] @ '' '' @ utf8 [0x27] @ key @ utf8 [0x27] @ '' '' @ utf8 [0x7C7B,
    0x578B, 0x4E0D, 0x7B26, 0xFF0C, 0x671F, 0x671B] @ '' '' @ expected"

definition tx_args_missing :: "string \<Rightarrow> string" where \<comment> \<open>required arguments are missing\<close>
  "tx_args_missing keys =
    utf8 [0x7F3A, 0x5C11, 0x5FC5, 0x586B, 0x53C2, 0x6570] @ '': '' @ keys"

definition tx_lp_no_tools :: "string" where \<comment> \<open>no tool is registered\<close>
  "tx_lp_no_tools =
    ''no_tools_available: ToolGateway '' @ utf8 [0x672A, 0x6CE8, 0x518C, 0x4EFB, 0x4F55, 0x5DE5,
    0x5177]"

definition tx_lp_no_call :: "string" where \<comment> \<open>the provider returned no tool call\<close>
  "tx_lp_no_call =
    ''no_tool_call: provider '' @ utf8 [0x672A, 0x8FD4, 0x56DE, 0x5DE5, 0x5177, 0x8C03, 0x7528]"

definition tx_lp_unknown :: "string \<Rightarrow> string" where \<comment> \<open>the tool is not registered\<close>
  "tx_lp_unknown tool =
    ''unknown_tool: '' @ utf8 [0x5DE5, 0x5177] @ '' '' @ utf8 [0x27] @ tool @ utf8 [0x27] @
    '' '' @ utf8 [0x672A, 0x6CE8, 0x518C]"

definition tx_lp_prompt_head :: "string" where \<comment> \<open>planner prompt\<close>
  "tx_lp_prompt_head =
    utf8 [0x4F60, 0x662F, 0x5DE5, 0x5177, 0x89C4, 0x5212, 0x5668, 0x3002, 0x8BF7, 0x6839,
    0x636E, 0x53EF, 0x7528, 0x5DE5, 0x5177, 0x7684, 0x63CF, 0x8FF0, 0x4E0E] @ '' JSON Schema'' @
    utf8 [0xFF0C, 0x4E3A, 0x4E0B, 0x9762, 0x7684, 0x67E5, 0x8BE2, 0x9009, 0x62E9, 0x6700,
    0x5408, 0x9002, 0x7684, 0x5DE5, 0x5177, 0x5E76, 0x7ED9, 0x51FA, 0x8C03, 0x7528, 0x53C2,
    0x6570, 0xFF1B, 0x6CA1, 0x6709, 0x5408, 0x9002, 0x5DE5, 0x5177, 0x65F6, 0x4E0D, 0x8981,
    0x8C03, 0x7528, 0x4EFB, 0x4F55, 0x5DE5, 0x5177, 0x3002]"

definition tx_args_bad_json :: "string \<Rightarrow> string" where \<comment> \<open>the arguments are not valid JSON\<close>
  "tx_args_bad_json err =
    ''arguments '' @ utf8 [0x4E0D, 0x662F, 0x5408, 0x6CD5] @ '' JSON: '' @ err"

definition tx_args_not_object :: "string" where \<comment> \<open>the arguments must be an object\<close>
  "tx_args_not_object =
    ''arguments '' @ utf8 [0x5FC5, 0x987B, 0x662F] @ '' JSON object''"

definition tx_args_type :: "string \<Rightarrow> string" where \<comment> \<open>the arguments have an unsupported type\<close>
  "tx_args_type ty =
    ''arguments '' @ utf8 [0x7C7B, 0x578B, 0x4E0D, 0x53D7, 0x652F, 0x6301] @ '': '' @ ty"

definition tx_sc_success :: "string" where \<comment> \<open>check the tool call or the policy\<close>
  "tx_sc_success =
    utf8 [0x68C0, 0x67E5, 0x5DE5, 0x5177, 0x8C03, 0x7528, 0x6216, 0x7B56, 0x7565, 0x62E6,
    0x622A, 0x539F, 0x56E0]"

definition tx_sc_approval :: "string" where \<comment> \<open>make sure the approval exists\<close>
  "tx_sc_approval =
    utf8 [0x786E, 0x4FDD, 0x5BA1, 0x6279, 0x8BF7, 0x6C42, 0x5DF2, 0x521B, 0x5EFA, 0x5E76,
    0x8FD4, 0x56DE] @ '' approval_id''"

definition tx_sc_injection :: "string" where \<comment> \<open>a blocked injection must not succeed\<close>
  "tx_sc_injection =
    utf8 [0x6CE8, 0x5165, 0x88AB, 0x62E6, 0x622A, 0x540E, 0x4EFB, 0x52A1, 0x4E0D, 0x5E94,
    0x6807, 0x8BB0, 0x4E3A, 0x6210, 0x529F]"

definition tx_sc_tool :: "string" where \<comment> \<open>a failed tool call must not succeed\<close>
  "tx_sc_tool =
    utf8 [0x5DE5, 0x5177, 0x8C03, 0x7528, 0x5931, 0x8D25, 0x65F6, 0x4EFB, 0x52A1, 0x4E0D,
    0x5E94, 0x6807, 0x8BB0, 0x4E3A, 0x6210, 0x529F]"

definition tx_sc_nl2sql :: "string" where \<comment> \<open>blocked SQL must not succeed\<close>
  "tx_sc_nl2sql =
    ''SQL '' @ utf8 [0x88AB, 0x62E6, 0x622A, 0x540E, 0x4E0D, 0x5E94, 0x6267, 0x884C, 0x6210,
    0x529F]"

definition tx_sc_audit :: "string" where \<comment> \<open>security events should be audited\<close>
  "tx_sc_audit =
    utf8 [0x5B89, 0x5168, 0x4E8B, 0x4EF6, 0x5E94, 0x8BB0, 0x5F55] @
    '' prompt_injection_blocked '' @ utf8 [0x5BA1, 0x8BA1]"

definition tx_sc_empty :: "string" where \<comment> \<open>the result should be presentable\<close>
  "tx_sc_empty =
    utf8 [0x4EFB, 0x52A1, 0x7ED3, 0x679C, 0x5E94, 0x5305, 0x542B, 0x53EF, 0x5C55, 0x793A,
    0x5185, 0x5BB9, 0xFF08] @ ''answer/summary/rows/chart/result'' @ utf8 [0xFF09]"

definition tx_sc_waiting :: "string" where \<comment> \<open>a waiting task is not failed\<close>
  "tx_sc_waiting =
    utf8 [0x7B49, 0x5F85, 0x5BA1, 0x6279, 0x7684, 0x4EFB, 0x52A1, 0x4E0D, 0x5E94, 0x6807,
    0x8BB0, 0x4E3A] @ '' failed'' @ utf8 [0xFF0C, 0x5E94, 0x4E3A] @ '' waiting_approval''"

definition tx_sql_empty :: "string" where \<comment> \<open>empty SQL\<close>
  "tx_sql_empty =
    ''SQL '' @ utf8 [0x4E3A, 0x7A7A]"

definition tx_sql_keyword :: "string \<Rightarrow> string" where \<comment> \<open>forbidden keyword in the SQL\<close>
  "tx_sql_keyword kw =
    ''SQL '' @ utf8 [0x5305, 0x542B, 0x88AB, 0x7981, 0x6B62, 0x7684, 0x5173, 0x952E, 0x5B57] @
    '': '' @ kw"

definition tx_sql_first_word :: "string \<Rightarrow> string" where \<comment> \<open>only SELECT or WITH\<close>
  "tx_sql_first_word word =
    utf8 [0x53EA, 0x5141, 0x8BB8] @ '' SELECT '' @ utf8 [0x6216] @ '' WITH '' @ utf8 [0x67E5,
    0x8BE2, 0xFF0C, 0x5F53, 0x524D, 0x9996, 0x8BCD] @ '': '' @ word"

definition tx_sql_multi :: "string" where \<comment> \<open>several statements\<close>
  "tx_sql_multi =
    ''SQL '' @ utf8 [0x5305, 0x542B, 0x591A, 0x6761, 0x8BED, 0x53E5, 0xFF08, 0x68C0, 0x6D4B,
    0x5230, 0x975E, 0x672B, 0x5C3E, 0x5206, 0x53F7, 0xFF09]"

definition tx_sql_comment_keyword :: "string \<Rightarrow> string" where \<comment> \<open>forbidden keyword in a comment\<close>
  "tx_sql_comment_keyword kw =
    ''SQL '' @ utf8 [0x6CE8, 0x91CA, 0x4E2D, 0x5305, 0x542B, 0x88AB, 0x7981, 0x6B62, 0x7684,
    0x5173, 0x952E, 0x5B57] @ '': '' @ kw"

definition tx_sql_cte :: "string" where \<comment> \<open>a CTE must end in SELECT\<close>
  "tx_sql_cte =
    ''WITH CTE '' @ utf8 [0x5FC5, 0x987B, 0x6700, 0x7EC8, 0x662F] @ '' SELECT '' @ utf8 [0x67E5,
    0x8BE2]"

definition tx_db_missing :: "string \<Rightarrow> string" where \<comment> \<open>the database file is missing\<close>
  "tx_db_missing path =
    utf8 [0x6570, 0x636E, 0x5E93, 0x6587, 0x4EF6, 0x4E0D, 0x5B58, 0x5728] @ '': '' @ path"

definition tx_query_failed :: "string \<Rightarrow> string" where \<comment> \<open>the query failed\<close>
  "tx_query_failed err =
    utf8 [0x67E5, 0x8BE2, 0x6267, 0x884C, 0x5931, 0x8D25] @ '': '' @ err"

definition tx_query_empty :: "string" where \<comment> \<open>no rows\<close>
  "tx_query_empty =
    utf8 [0x67E5, 0x8BE2, 0x6210, 0x529F, 0xFF0C, 0x4F46, 0x672A, 0x8FD4, 0x56DE, 0x6570,
    0x636E]"

definition tx_query_rows :: "string \<Rightarrow> string" where \<comment> \<open>a number of rows\<close>
  "tx_query_rows n =
    utf8 [0x67E5, 0x8BE2, 0x8FD4, 0x56DE] @ '' '' @ n @ '' '' @ utf8 [0x884C, 0x6570, 0x636E]"

definition kw_indicator :: "string" where \<comment> \<open>metric\<close>
  "kw_indicator =
    utf8 [0x6307, 0x6807]"

definition kw_product :: "string" where \<comment> \<open>product\<close>
  "kw_product =
    utf8 [0x5546, 0x54C1]"

definition kw_top_product_cn :: "string" where \<comment> \<open>top product\<close>
  "kw_top_product_cn =
    ''Top'' @ utf8 [0x5546, 0x54C1]"

definition kw_hot :: "string" where \<comment> \<open>selling well\<close>
  "kw_hot =
    utf8 [0x70ED, 0x9500]"

definition kw_hot_product :: "string" where \<comment> \<open>popular product\<close>
  "kw_hot_product =
    utf8 [0x70ED, 0x95E8, 0x5546, 0x54C1]"

definition kw_top_product_lc :: "string" where \<comment> \<open>top product, lower case\<close>
  "kw_top_product_lc =
    ''top'' @ utf8 [0x5546, 0x54C1]"

definition tx_gen_gmv :: "string" where \<comment> \<open>GMV query\<close>
  "tx_gen_gmv =
    utf8 [0x6839, 0x636E, 0x5173, 0x952E, 0x8BCD, 0x5339, 0x914D, 0x5230] @ '' GMV '' @ utf8
    [0x67E5, 0x8BE2, 0xFF0C, 0x4ECE] @ '' daily_metrics '' @ utf8 [0x8868, 0x83B7, 0x53D6,
    0x5F53, 0x65E5, 0x6570, 0x636E]"

definition tx_gen_users :: "string" where \<comment> \<open>new users query\<close>
  "tx_gen_users =
    utf8 [0x6839, 0x636E, 0x5173, 0x952E, 0x8BCD, 0x5339, 0x914D, 0x5230, 0x65B0, 0x589E,
    0x7528, 0x6237, 0x67E5, 0x8BE2, 0xFF0C, 0x4ECE] @ '' users '' @ utf8 [0x8868, 0x7EDF,
    0x8BA1, 0x672C, 0x6708, 0x6CE8, 0x518C, 0x7528, 0x6237]"

definition tx_gen_orders :: "string" where \<comment> \<open>orders query\<close>
  "tx_gen_orders =
    utf8 [0x6839, 0x636E, 0x5173, 0x952E, 0x8BCD, 0x5339, 0x914D, 0x5230, 0x8BA2, 0x5355,
    0x67E5, 0x8BE2, 0xFF0C, 0x4ECE] @ '' orders '' @ utf8 [0x8868, 0x83B7, 0x53D6, 0x5F53,
    0x65E5, 0x8BA2, 0x5355, 0x7EDF, 0x8BA1]"

definition tx_gen_products :: "string" where \<comment> \<open>product ranking query\<close>
  "tx_gen_products =
    utf8 [0x6839, 0x636E, 0x5173, 0x952E, 0x8BCD, 0x5339, 0x914D, 0x5230, 0x5546, 0x54C1,
    0x6392, 0x540D, 0x67E5, 0x8BE2, 0xFF0C, 0x5173, 0x8054] @ '' products '' @ utf8 [0x548C] @
    '' orders '' @ utf8 [0x8868]"

definition tx_gen_refund :: "string" where \<comment> \<open>refund rate query\<close>
  "tx_gen_refund =
    utf8 [0x6839, 0x636E, 0x5173, 0x952E, 0x8BCD, 0x5339, 0x914D, 0x5230, 0x9000, 0x6B3E,
    0x7387, 0x67E5, 0x8BE2, 0xFF0C, 0x4ECE] @ '' refund_orders '' @ utf8 [0x548C] @ '' orders ''
    @ utf8 [0x8868, 0x8BA1, 0x7B97, 0x6BD4, 0x7387]"

definition tx_gen_none :: "string" where \<comment> \<open>no template matches\<close>
  "tx_gen_none =
    utf8 [0x65E0, 0x6CD5, 0x751F, 0x6210] @ '' SQL'' @ utf8 [0xFF1A, 0x672A, 0x5339, 0x914D,
    0x5230, 0x67E5, 0x8BE2, 0x6A21, 0x677F]"

definition tx_gen_unmatched :: "string" where \<comment> \<open>no template matched\<close>
  "tx_gen_unmatched =
    utf8 [0x672A, 0x5339, 0x914D, 0x5230, 0x4EFB, 0x4F55, 0x67E5, 0x8BE2, 0x6A21, 0x677F]"

definition tx_prune_gmv :: "string" where \<comment> \<open>GMV tables\<close>
  "tx_prune_gmv =
    utf8 [0x67E5, 0x8BE2, 0x6D89, 0x53CA] @ '' GMV/'' @ utf8 [0x9500, 0x552E, 0x989D] @ ''/'' @
    utf8 [0x6307, 0x6807, 0xFF0C, 0x9009, 0x62E9] @ '' daily_metrics''"

definition tx_prune_orders :: "string" where \<comment> \<open>order tables\<close>
  "tx_prune_orders =
    utf8 [0x67E5, 0x8BE2, 0x6D89, 0x53CA, 0x8BA2, 0x5355, 0xFF0C, 0x9009, 0x62E9] @ '' orders''"

definition tx_prune_users :: "string" where \<comment> \<open>user tables\<close>
  "tx_prune_users =
    utf8 [0x67E5, 0x8BE2, 0x6D89, 0x53CA, 0x7528, 0x6237, 0xFF0C, 0x9009, 0x62E9] @ '' users''"

definition tx_prune_products :: "string" where \<comment> \<open>product tables\<close>
  "tx_prune_products =
    utf8 [0x67E5, 0x8BE2, 0x6D89, 0x53CA, 0x5546, 0x54C1, 0x6392, 0x540D, 0xFF0C, 0x9009,
    0x62E9] @ '' products + orders''"

definition tx_prune_refund :: "string" where \<comment> \<open>refund tables\<close>
  "tx_prune_refund =
    utf8 [0x67E5, 0x8BE2, 0x6D89, 0x53CA, 0x9000, 0x6B3E, 0xFF0C, 0x9009, 0x62E9] @
    '' refund_orders + orders''"

definition tx_prune_none :: "string" where \<comment> \<open>no rule, all tables\<close>
  "tx_prune_none =
    utf8 [0x672A, 0x5339, 0x914D, 0x5230, 0x5173, 0x952E, 0x8BCD, 0x89C4, 0x5219, 0xFF0C,
    0x8FD4, 0x56DE, 0x6240, 0x6709, 0x8868]"

definition tx_llm_failed :: "string \<Rightarrow> string" where \<comment> \<open>the LLM call failed\<close>
  "tx_llm_failed err =
    ''LLM '' @ utf8 [0x8C03, 0x7528, 0x5931, 0x8D25] @ '': '' @ err"

definition tx_bad_json :: "string \<Rightarrow> string" where \<comment> \<open>the LLM returned invalid JSON\<close>
  "tx_bad_json err =
    ''LLM '' @ utf8 [0x8FD4, 0x56DE, 0x975E, 0x6CD5] @ '' JSON: '' @ err"

definition tx_not_object :: "string" where \<comment> \<open>the JSON must be an object\<close>
  "tx_not_object =
    ''LLM '' @ utf8 [0x8FD4, 0x56DE] @ '' JSON '' @ utf8 [0x5FC5, 0x987B, 0x662F] @ '' object''"

definition tx_not_object_dot :: "string" where \<comment> \<open>the JSON must be an object\<close>
  "tx_not_object_dot =
    ''LLM '' @ utf8 [0x8FD4, 0x56DE] @ '' JSON '' @ utf8 [0x5FC5, 0x987B, 0x662F] @ '' object''
    @ utf8 [0x3002]"

definition tx_sql_not_string :: "string" where \<comment> \<open>sql must be a string\<close>
  "tx_sql_not_string =
    ''LLM '' @ utf8 [0x8FD4, 0x56DE] @ '' sql '' @ utf8 [0x5B57, 0x6BB5, 0x5FC5, 0x987B, 0x662F]
    @ '' string''"

definition tx_sql_not_string_dot :: "string" where \<comment> \<open>sql must be a string\<close>
  "tx_sql_not_string_dot =
    ''LLM '' @ utf8 [0x8FD4, 0x56DE] @ '' sql '' @ utf8 [0x5B57, 0x6BB5, 0x5FC5, 0x987B, 0x662F]
    @ '' string'' @ utf8 [0x3002]"

definition tx_llm_sql_empty :: "string" where \<comment> \<open>empty SQL\<close>
  "tx_llm_sql_empty =
    ''LLM '' @ utf8 [0x8FD4, 0x56DE, 0x7A7A] @ '' SQL''"

definition tx_llm_sql_empty_dot :: "string" where \<comment> \<open>empty SQL\<close>
  "tx_llm_sql_empty_dot =
    ''LLM '' @ utf8 [0x8FD4, 0x56DE, 0x7A7A] @ '' SQL'' @ utf8 [0x3002]"

definition tx_bad_confidence :: "string" where \<comment> \<open>bad confidence\<close>
  "tx_bad_confidence =
    ''LLM '' @ utf8 [0x8FD4, 0x56DE] @ '' confidence '' @ utf8 [0x975E, 0x6CD5, 0xFF0C, 0x5DF2,
    0x4F7F, 0x7528, 0x9ED8, 0x8BA4, 0x503C] @ '' 0.0''"

definition tx_no_reasoning :: "string" where \<comment> \<open>no reasoning\<close>
  "tx_no_reasoning =
    ''LLM '' @ utf8 [0x672A, 0x63D0, 0x4F9B] @ '' reasoning'' @ utf8 [0xFF0C, 0x5DF2, 0x4F7F,
    0x7528, 0x9ED8, 0x8BA4, 0x503C, 0x3002]"

definition tx_dangerous_output :: "string" where \<comment> \<open>dangerous suggestion\<close>
  "tx_dangerous_output =
    ''LLM '' @ utf8 [0x8F93, 0x51FA, 0x5305, 0x542B, 0x5371, 0x9669, 0x64CD, 0x4F5C, 0x5EFA,
    0x8BAE]"

definition tx_tables_not_strings :: "string" where \<comment> \<open>non-string items ignored\<close>
  "tx_tables_not_strings =
    ''selected_tables '' @ utf8 [0x5305, 0x542B, 0x975E, 0x5B57, 0x7B26, 0x4E32, 0x9879, 0xFF0C,
    0x5DF2, 0x5FFD, 0x7565, 0x3002]"

definition tx_tables_not_list :: "string" where \<comment> \<open>not a list\<close>
  "tx_tables_not_list =
    ''selected_tables '' @ utf8 [0x975E] @ '' list'' @ utf8 [0xFF0C, 0x5DF2, 0x91CD, 0x7F6E,
    0x4E3A, 0x7A7A, 0x5217, 0x8868, 0x3002]"

definition tx_extra_tables :: "string \<Rightarrow> string" where \<comment> \<open>tables outside the pruned schema\<close>
  "tx_extra_tables ts =
    ''LLM '' @ utf8 [0x9009, 0x62E9, 0x4E86, 0x4E0D, 0x5728] @ '' pruned_schema '' @ utf8
    [0x7684, 0x8868] @ '': '' @ ts"

definition tx_guard_blocked :: "string \<Rightarrow> string" where \<comment> \<open>blocked by the SQL guard\<close>
  "tx_guard_blocked why =
    ''SQLGuard '' @ utf8 [0x62E6, 0x622A] @ '': '' @ why"

definition tx_from_fence :: "string" where \<comment> \<open>JSON taken from a code fence\<close>
  "tx_from_fence =
    utf8 [0x5DF2, 0x4ECE] @ '' markdown '' @ utf8 [0x4EE3, 0x7801, 0x56F4, 0x680F, 0x4E2D,
    0x63D0, 0x53D6] @ '' JSON''"

definition tx_from_text :: "string" where \<comment> \<open>JSON taken from surrounding text\<close>
  "tx_from_text =
    utf8 [0x5DF2, 0x4ECE, 0x542B, 0x524D, 0x540E, 0x7F00, 0x6587, 0x672C, 0x7684, 0x54CD,
    0x5E94, 0x4E2D, 0x63D0, 0x53D6] @ '' JSON''"

definition tx_budget_reasoning :: "string \<Rightarrow> string" where \<comment> \<open>blocked by the budget\<close>
  "tx_budget_reasoning reason =
    utf8 [0x9884, 0x7B97, 0x9650, 0x5236, 0x62E6, 0x622A] @ '': '' @ reason"

definition tx_table_desc :: "string \<Rightarrow> string \<Rightarrow> string \<Rightarrow> string" where \<comment> \<open>a table of the prompt\<close>
  "tx_table_desc name rows cols =
    utf8 [0x8868] @ '' '' @ name @ '' ('' @ rows @ '' '' @ utf8 [0x884C] @ ''): '' @ cols"

definition dg_delete :: "string" where \<comment> \<open>delete directly\<close>
  "dg_delete =
    utf8 [0x76F4, 0x63A5, 0x5220, 0x9664]"

definition dg_bypass :: "string" where \<comment> \<open>bypass approval\<close>
  "dg_bypass =
    utf8 [0x7ED5, 0x8FC7, 0x5BA1, 0x6279]"

definition dg_export :: "string" where \<comment> \<open>export all phone numbers\<close>
  "dg_export =
    utf8 [0x5BFC, 0x51FA, 0x5168, 0x90E8, 0x7528, 0x6237, 0x624B, 0x673A, 0x53F7]"

definition tx_ch_result :: "string" where \<comment> \<open>query result\<close>
  "tx_ch_result =
    utf8 [0x67E5, 0x8BE2, 0x7ED3, 0x679C]"

definition tx_ch_failed :: "string \<Rightarrow> string" where \<comment> \<open>failed, nothing to show\<close>
  "tx_ch_failed err =
    utf8 [0x6267, 0x884C, 0x5931, 0x8D25, 0xFF0C, 0x4E0D, 0x53EF, 0x89C6, 0x5316] @ '': '' @ err"

definition tx_ch_empty :: "string" where \<comment> \<open>no data\<close>
  "tx_ch_empty =
    utf8 [0x67E5, 0x8BE2, 0x6210, 0x529F, 0x4F46, 0x65E0, 0x6570, 0x636E]"

definition tx_ch_metric :: "string" where \<comment> \<open>one value\<close>
  "tx_ch_metric =
    utf8 [0x5355, 0x884C, 0x5355, 0x6307, 0x6807, 0xFF0C, 0x9002, 0x5408, 0x6307, 0x6807,
    0x5361, 0x7247, 0x5C55, 0x793A]"

definition tx_ch_trend :: "string" where \<comment> \<open>trend chart\<close>
  "tx_ch_trend =
    utf8 [0x8D8B, 0x52BF, 0x56FE]"

definition tx_ch_line :: "string \<Rightarrow> string" where \<comment> \<open>line chart\<close>
  "tx_ch_line col =
    utf8 [0x5305, 0x542B, 0x65E5, 0x671F, 0x5B57, 0x6BB5] @ '' '' @ col @ '' '' @ utf8 [0x548C,
    0x6570, 0x503C, 0x5B57, 0x6BB5, 0xFF0C, 0x9002, 0x5408, 0x6298, 0x7EBF, 0x56FE]"

definition tx_ch_compare :: "string" where \<comment> \<open>comparison chart\<close>
  "tx_ch_compare =
    utf8 [0x5BF9, 0x6BD4, 0x56FE]"

definition tx_ch_bar :: "string \<Rightarrow> string" where \<comment> \<open>bar chart\<close>
  "tx_ch_bar col =
    utf8 [0x5305, 0x542B, 0x5206, 0x7C7B, 0x5B57, 0x6BB5] @ '' '' @ col @ '' '' @ utf8 [0x548C,
    0x6570, 0x503C, 0x5B57, 0x6BB5, 0xFF0C, 0x9002, 0x5408, 0x67F1, 0x72B6, 0x56FE]"

definition tx_ch_bar_rows :: "string" where \<comment> \<open>bar chart of rows\<close>
  "tx_ch_bar_rows =
    utf8 [0x591A, 0x884C, 0x6570, 0x503C, 0x7ED3, 0x679C, 0xFF0C, 0x9002, 0x5408, 0x67F1,
    0x72B6, 0x56FE]"

definition tx_ch_table :: "string" where \<comment> \<open>table\<close>
  "tx_ch_table =
    utf8 [0x65E0, 0x6CD5, 0x5224, 0x65AD, 0x5408, 0x9002, 0x7684, 0x56FE, 0x8868, 0x7C7B,
    0x578B, 0xFF0C, 0x4F7F, 0x7528, 0x8868, 0x683C, 0x5C55, 0x793A]"

definition tx_tool_gmv :: "string" where \<comment> \<open>today's GMV\<close>
  "tx_tool_gmv =
    utf8 [0x83B7, 0x53D6, 0x4ECA, 0x65E5] @ '' GMV''"

definition tx_tool_users :: "string" where \<comment> \<open>new users of the month\<close>
  "tx_tool_users =
    utf8 [0x83B7, 0x53D6, 0x672C, 0x6708, 0x65B0, 0x589E, 0x7528, 0x6237, 0x6570]"

definition tx_tool_orders :: "string" where \<comment> \<open>number of orders\<close>
  "tx_tool_orders =
    utf8 [0x83B7, 0x53D6, 0x8BA2, 0x5355, 0x6570, 0x91CF]"

definition tx_tool_products :: "string" where \<comment> \<open>top products\<close>
  "tx_tool_products =
    utf8 [0x83B7, 0x53D6] @ '' Top '' @ utf8 [0x5546, 0x54C1]"

definition tx_tool_refund_rate :: "string" where \<comment> \<open>refund rate\<close>
  "tx_tool_refund_rate =
    utf8 [0x83B7, 0x53D6, 0x9000, 0x6B3E, 0x7387]"

definition tx_tool_simulate :: "string" where \<comment> \<open>simulated refund\<close>
  "tx_tool_simulate =
    utf8 [0x6A21, 0x62DF, 0x521B, 0x5EFA, 0x9000, 0x6B3E, 0x5355, 0xFF08, 0x7EAF, 0x5185,
    0x5B58, 0x4EFF, 0x771F, 0xFF0C, 0x7528, 0x4E8E, 0x9AD8, 0x98CE, 0x9669, 0x5BA1, 0x6279,
    0x94FE, 0x8DEF, 0x6F14, 0x793A, 0xFF09]"

definition tx_mcp_date :: "string" where \<comment> \<open>date of today\<close>
  "tx_mcp_date =
    utf8 [0x8FD4, 0x56DE, 0x4ECA, 0x5929, 0x65E5, 0x671F, 0x3001, 0x6708, 0x4EFD, 0x3001,
    0x5E74, 0x4EFD]"

definition tx_mcp_calc :: "string" where \<comment> \<open>calculator\<close>
  "tx_mcp_calc =
    utf8 [0x652F, 0x6301] @ '' add/subtract/percent_change '' @ utf8 [0x7684, 0x8BA1, 0x7B97,
    0x5668]"

definition tx_mcp_rule :: "string" where \<comment> \<open>rule lookup\<close>
  "tx_mcp_rule =
    utf8 [0x6839, 0x636E] @ '' keyword '' @ utf8 [0x8FD4, 0x56DE] @ '' mock '' @ utf8 [0x8FD0,
    0x8425, 0x89C4, 0x5219]"

definition tx_mcp_rule_kw :: "string" where \<comment> \<open>rule keyword\<close>
  "tx_mcp_rule_kw =
    utf8 [0x89C4, 0x5219, 0x5173, 0x952E, 0x8BCD]"

definition tx_mcp_missing :: "string \<Rightarrow> string" where \<comment> \<open>no such MCP tool\<close>
  "tx_mcp_missing tool =
    ''MCP '' @ utf8 [0x5DE5, 0x5177] @ '' '' @ utf8 [0x27] @ tool @ utf8 [0x27] @ '' '' @ utf8
    [0x4E0D, 0x5B58, 0x5728]"

definition tx_calc_args :: "string" where \<comment> \<open>missing arguments\<close>
  "tx_calc_args =
    utf8 [0x7F3A, 0x5C11, 0x5FC5, 0x8981, 0x53C2, 0x6570] @ '': operation, a, b''"

definition tx_calc_numbers :: "string" where \<comment> \<open>a and b must be numbers\<close>
  "tx_calc_numbers =
    ''a '' @ utf8 [0x548C] @ '' b '' @ utf8 [0x5FC5, 0x987B, 0x4E3A, 0x6570, 0x5B57]"

definition tx_calc_zero :: "string" where \<comment> \<open>b must not be 0\<close>
  "tx_calc_zero =
    ''percent_change '' @ utf8 [0x7684] @ '' b '' @ utf8 [0x4E0D, 0x80FD, 0x4E3A] @ '' 0''"

definition tx_calc_op :: "string \<Rightarrow> string" where \<comment> \<open>unsupported operation\<close>
  "tx_calc_op op =
    utf8 [0x4E0D, 0x652F, 0x6301, 0x7684, 0x64CD, 0x4F5C] @ '': '' @ op"

definition tx_rule_arg :: "string" where \<comment> \<open>missing keyword\<close>
  "tx_rule_arg =
    utf8 [0x7F3A, 0x5C11, 0x5FC5, 0x8981, 0x53C2, 0x6570] @ '': keyword''"

definition tx_rule_refund :: "string" where \<comment> \<open>refund rule\<close>
  "tx_rule_refund =
    utf8 [0x9000, 0x6B3E, 0x9700, 0x5728] @ '' 7 '' @ utf8 [0x5929, 0x5185, 0x7533, 0x8BF7,
    0xFF0C, 0x5BA1, 0x6838, 0x901A, 0x8FC7, 0x540E] @ '' 3 '' @ utf8 [0x4E2A, 0x5DE5, 0x4F5C,
    0x65E5, 0x5230, 0x8D26]"

definition tx_rule_promotion :: "string" where \<comment> \<open>promotion rule\<close>
  "tx_rule_promotion =
    utf8 [0x4FC3, 0x9500, 0x6D3B, 0x52A8, 0x9700, 0x63D0, 0x524D] @ '' 3 '' @ utf8 [0x5929,
    0x63D0, 0x4EA4, 0x5BA1, 0x6279, 0xFF0C, 0x6298, 0x6263, 0x4E0A, 0x9650] @ '' 50%''"

definition tx_rule_shipping :: "string" where \<comment> \<open>shipping rule\<close>
  "tx_rule_shipping =
    utf8 [0x6EE1] @ '' 99 '' @ utf8 [0x5143, 0x5305, 0x90AE, 0xFF0C, 0x504F, 0x8FDC, 0x5730,
    0x533A, 0x52A0, 0x6536] @ '' 15 '' @ utf8 [0x5143, 0x8FD0, 0x8D39]"

definition tx_rule_inventory :: "string" where \<comment> \<open>inventory rule\<close>
  "tx_rule_inventory =
    utf8 [0x5E93, 0x5B58, 0x4F4E, 0x4E8E] @ '' 10 '' @ utf8 [0x4EF6, 0x81EA, 0x52A8, 0x89E6,
    0x53D1, 0x8865, 0x8D27, 0x63D0, 0x9192]"

definition tx_rule_pricing :: "string" where \<comment> \<open>pricing rule\<close>
  "tx_rule_pricing =
    utf8 [0x4EF7, 0x683C, 0x8C03, 0x6574, 0x9700, 0x7ECF, 0x8FD0, 0x8425, 0x603B, 0x76D1,
    0x5BA1, 0x6279, 0xFF0C, 0x8C03, 0x4EF7, 0x5E45, 0x5EA6, 0x4E0D, 0x8D85, 0x8FC7] @ '' 20%''"

definition tx_rule_none :: "string \<Rightarrow> string" where \<comment> \<open>no rule found\<close>
  "tx_rule_none kw =
    utf8 [0x672A, 0x627E, 0x5230, 0x4E0E] @ '' '' @ utf8 [0x27] @ kw @ utf8 [0x27] @ '' '' @
    utf8 [0x76F8, 0x5173, 0x7684, 0x8FD0, 0x8425, 0x89C4, 0x5219]"

definition ij_disable :: "string" where \<comment> \<open>disable the policy\<close>
  "ij_disable =
    utf8 [0x5173, 0x95ED, 0x7B56, 0x7565]"

definition ij_autoapprove :: "string" where \<comment> \<open>approve automatically\<close>
  "ij_autoapprove =
    utf8 [0x81EA, 0x52A8, 0x6279, 0x51C6]"

definition ij_direct :: "string" where \<comment> \<open>call the tool directly\<close>
  "ij_direct =
    utf8 [0x76F4, 0x63A5, 0x8C03, 0x7528, 0x5DE5, 0x5177]"

definition ij_skip :: "string" where \<comment> \<open>skip validation\<close>
  "ij_skip =
    utf8 [0x8DF3, 0x8FC7, 0x6821, 0x9A8C]"

definition ij_drop :: "string" where \<comment> \<open>drop the table\<close>
  "ij_drop =
    utf8 [0x5220, 0x9664, 0x8868]"

definition ij_delete :: "string" where \<comment> \<open>delete data\<close>
  "ij_delete =
    utf8 [0x5220, 0x9664, 0x6570, 0x636E]"

definition ij_users :: "string" where \<comment> \<open>change user data\<close>
  "ij_users =
    utf8 [0x4FEE, 0x6539, 0x7528, 0x6237, 0x6570, 0x636E]"

definition ij_insert :: "string" where \<comment> \<open>insert data\<close>
  "ij_insert =
    utf8 [0x63D2, 0x5165, 0x6570, 0x636E]"

definition ij_db :: "string" where \<comment> \<open>change the database\<close>
  "ij_db =
    utf8 [0x4FEE, 0x6539, 0x6570, 0x636E, 0x5E93]"

definition ij_reveal :: "string" where \<comment> \<open>reveal the system prompt\<close>
  "ij_reveal =
    utf8 [0x6CC4, 0x9732, 0x7CFB, 0x7EDF, 0x63D0, 0x793A, 0x8BCD]"

definition ij_previous :: "string" where \<comment> \<open>ignore previous instructions\<close>
  "ij_previous =
    utf8 [0x5FFD, 0x7565, 0x4E4B, 0x524D, 0x7684, 0x6307, 0x4EE4]"

definition ij_above :: "string" where \<comment> \<open>ignore the instructions above\<close>
  "ij_above =
    utf8 [0x5FFD, 0x7565, 0x4EE5, 0x4E0A, 0x6307, 0x4EE4]"

definition ij_rules :: "string" where \<comment> \<open>ignore previous rules\<close>
  "ij_rules =
    utf8 [0x5FFD, 0x7565, 0x4E4B, 0x524D, 0x7684, 0x89C4, 0x5219]"

definition ij_vague :: "string" where \<comment> \<open>vague injection\<close>
  "ij_vague =
    utf8 [0x6A21, 0x7CCA, 0x63D0, 0x793A, 0x6CE8, 0x5165]"

definition tx_ij_high :: "string \<Rightarrow> string" where \<comment> \<open>high-risk injection\<close>
  "tx_ij_high ps =
    utf8 [0x68C0, 0x6D4B, 0x5230, 0x9AD8, 0x98CE, 0x9669, 0x6CE8, 0x5165, 0x6A21, 0x5F0F] @
    '': '' @ ps"

definition tx_ij_medium :: "string \<Rightarrow> string" where \<comment> \<open>injection\<close>
  "tx_ij_medium ps =
    utf8 [0x68C0, 0x6D4B, 0x5230, 0x63D0, 0x793A, 0x6CE8, 0x5165, 0x6A21, 0x5F0F] @ '': '' @ ps"

definition tx_ij_vague :: "string \<Rightarrow> string" where \<comment> \<open>possible injection\<close>
  "tx_ij_vague ps =
    utf8 [0x53EF, 0x80FD, 0x5B58, 0x5728, 0x63D0, 0x793A, 0x6CE8, 0x5165] @ '': '' @ ps"

end
