(* ===== verification/Risk_Intent.thy ===== *)
theory Risk_Intent
  imports Texts
begin

text \<open>
  \<open>RiskIntentGuard\<close> (\<open>app/harness/security/risk_intent_guard.py\<close>): the first gate of a multi-agent run.
  Its patterns are literal texts with at most one \<open>\\s+\<close> or \<open>.*\<close> between two of them, searched
  case-insensitively by \<open>re\<close>; they are written here as lists of items over the bytes of the text.
\<close>

subsection \<open>The regular expressions\<close>

datatype rx_item = RChar char | RSpaces | RAny

definition rx_lit :: "string \<Rightarrow> rx_item list" where
  "rx_lit s = map RChar s"

text \<open>What a lower-case letter of a pattern matches under \<open>re.IGNORECASE\<close>.\<close>

definition case_forms :: "char \<Rightarrow> string list" where
  "case_forms c = [[c], [upper_char c]] @
     (if c = CHR ''i'' then [utf8 [0x130], utf8 [0x131]] else if c = CHR ''s'' then [utf8 [0x17F]]
      else if c = CHR ''k'' then [utf8 [0x212A]] else [])"

text \<open>The whitespace of \<open>\\s\<close> on text.\<close>

definition space_forms :: "string list" where
  "space_forms = map (\<lambda>n. utf8 [n])
     [9, 10, 11, 12, 13, 28, 29, 30, 31, 32, 0x85, 0xA0, 0x1680, 0x2000, 0x2001, 0x2002, 0x2003, 0x2004,
      0x2005, 0x2006, 0x2007, 0x2008, 0x2009, 0x200A, 0x2028, 0x2029, 0x202F, 0x205F, 0x3000]"

text \<open>What is left after one of the given forms, if the text starts with one.\<close>

fun eat :: "string list \<Rightarrow> string \<Rightarrow> string option" where
  "eat [] s = None"
| "eat (f # fs) s = (if f \<noteq> [] \<and> prefix f s then Some (drop (length f) s) else eat fs s)"

lemma eat_shorter: "eat fs s = Some s' \<Longrightarrow> length s' < length s"
  by (induction fs) (auto simp: prefix_def split: if_splits)

function rx_match :: "rx_item list \<Rightarrow> string \<Rightarrow> bool" where
  "rx_match [] s = True"
| "rx_match (RChar c # ps) s =
     (case eat (case_forms c) s of None \<Rightarrow> False | Some s' \<Rightarrow> rx_match ps s')"
| "rx_match (RSpaces # ps) s =
     (case eat space_forms s of None \<Rightarrow> False
      | Some s' \<Rightarrow> rx_match ps s' \<or> rx_match (RSpaces # ps) s')"
| "rx_match (RAny # ps) [] = rx_match ps []"
| "rx_match (RAny # ps) (c # cs) =
     (rx_match ps (c # cs) \<or> (c \<noteq> char_of (10::nat) \<and> rx_match (RAny # ps) cs))"
  by pat_completeness auto
termination
  by (relation "measures [\<lambda>(ps, s). length ps + length s]") (auto dest: eat_shorter)

text \<open>\<open>pattern.search(text)\<close>.\<close>

fun rx_search :: "rx_item list \<Rightarrow> string \<Rightarrow> bool" where
  "rx_search ps [] = rx_match ps []"
| "rx_search ps (c # cs) = (rx_match ps (c # cs) \<or> rx_search ps cs)"

subsection \<open>The guard\<close>

definition RISK_INTENT_PATTERNS :: "(rx_item list \<times> string) list" where
  "RISK_INTENT_PATTERNS =
     [(rx_lit lb_delete, lb_delete_op), (rx_lit ''delete'', lb_delete_op), (rx_lit ''drop'', lb_delete_op),
      (rx_lit lb_modify, lb_modify_op), (rx_lit ''update'', lb_modify_op), (rx_lit ''alter'', lb_modify_op),
      (rx_lit lb_batch, lb_batch_op), (rx_lit ''batch'', lb_batch_op),
      (rx_lit lb_export, lb_export_op), (rx_lit ''export'', lb_export_op),
      (rx_lit lb_bypass, lb_bypass), (rx_lit ''bypass'' @ [RSpaces] @ rx_lit ''approval'', lb_bypass),
      (rx_lit lb_skip, lb_bypass), (rx_lit lb_direct, lb_direct),
      (rx_lit lb_ignore @ [RAny] @ rx_lit lb_instruction, lb_ignore_op),
      (rx_lit ''ignore'' @ [RAny] @ rx_lit ''instruction'', lb_ignore_op),
      (rx_lit lb_password, lb_password), (rx_lit ''system'' @ [RSpaces] @ rx_lit ''password'', lb_password),
      (rx_lit lb_prompt, lb_prompt_leak), (rx_lit ''system'' @ [RSpaces] @ rx_lit ''prompt'', lb_prompt_leak)]"

record risk_finding =
  rf_detected :: bool
  rf_reason :: string
  rf_matched :: "string list"

definition risk_check :: "string \<Rightarrow> risk_finding" where
  "risk_check text =
     (let matched = map snd (filter (\<lambda>p. rx_search (fst p) text) RISK_INTENT_PATTERNS)
      in if text = [] \<or> matched = [] then \<lparr>rf_detected = False, rf_reason = [], rf_matched = []\<rparr>
         else \<lparr>rf_detected = True, rf_reason = tx_risk_detected (str_join '', '' matched), rf_matched = matched\<rparr>)"

subsection \<open>Facts\<close>

lemma eat_self: "f \<noteq> [] \<Longrightarrow> eat (f # fs) (f @ s) = Some s"
  by simp

lemma rx_lit_matches: "rx_match (rx_lit w) (w @ s)"
  by (induction w) (simp_all add: rx_lit_def case_forms_def)

lemma rx_search_append: "rx_match ps (t @ s) \<Longrightarrow> rx_search ps (r @ t @ s)"
proof (induction r)
  case Nil
  then show ?case by (cases "t @ s") auto
qed simp

text \<open>A query that contains a literal pattern, anywhere, is detected.\<close>

lemma risk_check_literal:
  assumes "(rx_lit w, label) \<in> set RISK_INTENT_PATTERNS" and "w \<noteq> []" and "str_in w q"
  shows "rf_detected (risk_check q) \<and> label \<in> set (rf_matched (risk_check q))"
proof -
  obtain r s where q: "q = r @ w @ s"
    using assms(3) by (auto simp: str_in_iff_sublist sublist_def)
  have "rx_search (rx_lit w) q"
    unfolding q by (rule rx_search_append) (rule rx_lit_matches)
  then have "label \<in> set (map snd (filter (\<lambda>p. rx_search (fst p) q) RISK_INTENT_PATTERNS))"
    using assms(1) by force
  moreover have "q \<noteq> []" using q assms(2) by simp
  ultimately show ?thesis by (auto simp: risk_check_def Let_def filter_empty_conv)
qed

lemma risk_check_reason: "rf_detected (risk_check q) \<Longrightarrow> rf_matched (risk_check q) \<noteq> []"
  by (auto simp: risk_check_def Let_def split: if_splits)

end
