(* ===== verification/Schemas.thy ===== *)
theory Schemas
  imports Runtime_Prelude
begin

text \<open>
  The data of the runtime (\<open>app/models/schemas.py\<close> and the row types of the stores under
  \<open>app/storage\<close>): enumerations with their \<open>.value\<close> texts, Pydantic models as records with a
  constructor that fills the declared defaults.
\<close>

subsection \<open>Enumerations\<close>

datatype task_status =
  TCreated | TPending | TRunning | TWaitingApproval | TCompleted | TFailed | TCancelled

fun task_status_value :: "task_status \<Rightarrow> string" where
  "task_status_value TCreated = ''created''"
| "task_status_value TPending = ''pending''"
| "task_status_value TRunning = ''running''"
| "task_status_value TWaitingApproval = ''waiting_approval''"
| "task_status_value TCompleted = ''completed''"
| "task_status_value TFailed = ''failed''"
| "task_status_value TCancelled = ''cancelled''"

datatype risk_level = RLow | RMedium | RHigh

fun risk_level_value :: "risk_level \<Rightarrow> string" where
  "risk_level_value RLow = ''low''"
| "risk_level_value RMedium = ''medium''"
| "risk_level_value RHigh = ''high''"

datatype tool_call_status = CPending | CRunning | CCompleted | CFailed

fun tool_call_status_value :: "tool_call_status \<Rightarrow> string" where
  "tool_call_status_value CPending = ''pending''"
| "tool_call_status_value CRunning = ''running''"
| "tool_call_status_value CCompleted = ''completed''"
| "tool_call_status_value CFailed = ''failed''"

datatype approval_status = APending | AApproved | ARejected | AExpired

fun approval_status_value :: "approval_status \<Rightarrow> string" where
  "approval_status_value APending = ''pending''"
| "approval_status_value AApproved = ''approved''"
| "approval_status_value ARejected = ''rejected''"
| "approval_status_value AExpired = ''expired''"

text \<open>The order of the risk levels, for statements that compare them.\<close>

fun risk_rank :: "risk_level \<Rightarrow> nat" where
  "risk_rank RLow = 0"
| "risk_rank RMedium = 1"
| "risk_rank RHigh = 2"

lemma risk_rank_inject [simp]: "risk_rank a = risk_rank b \<longleftrightarrow> a = b"
  by (cases a; cases b) simp_all

instantiation risk_level :: linorder
begin

definition less_eq_risk_level :: "risk_level \<Rightarrow> risk_level \<Rightarrow> bool" where
  "less_eq_risk_level a b = (risk_rank a \<le> risk_rank b)"

definition less_risk_level :: "risk_level \<Rightarrow> risk_level \<Rightarrow> bool" where
  "less_risk_level a b = (risk_rank a < risk_rank b)"

instance
  by standard (auto simp: less_eq_risk_level_def less_risk_level_def)

end

lemma risk_le_high [simp]: "a \<le> RHigh"
  by (cases a) (simp_all add: less_eq_risk_level_def)

subsection \<open>Tasks\<close>

record task_run =
  tk_id :: string
  tk_query :: string
  tk_status :: task_status
  tk_result :: json
  tk_error :: "string option"
  tk_created_at :: string
  tk_updated_at :: string

definition new_task :: "string \<Rightarrow> string \<Rightarrow> string \<Rightarrow> task_run" where
  "new_task tid query now =
     \<lparr>tk_id = tid, tk_query = query, tk_status = TCreated, tk_result = JNull, tk_error = None,
      tk_created_at = now, tk_updated_at = now\<rparr>"

record agent_context =
  cx_task_id :: string
  cx_user_query :: string
  cx_user_info :: jdict
  cx_available_tools :: "string list"
  cx_policies :: jdict
  cx_trace_context :: jdict
  cx_metadata :: jdict
  cx_assembled_at :: "string option"

subsection \<open>Tools\<close>

text \<open>
  \<open>retry_policy\<close> is declared \<open>dict[str, Any]\<close>; its one reader expects an integer under
  \<open>max_retries\<close>, so its values are integers here.
\<close>

record tool_spec =
  sp_tool_name :: string
  sp_description :: string
  sp_input_schema :: jdict
  sp_output_schema :: jdict
  sp_risk_level :: risk_level
  sp_permission_scope :: string
  sp_timeout_seconds :: rat
  sp_retry_policy :: "(string \<times> int) list"
  sp_is_local :: bool
  sp_source :: string
  sp_server_name :: "string option"
  sp_mcp_tool_name :: "string option"

definition new_spec :: "string \<Rightarrow> tool_spec" where
  "new_spec name =
     \<lparr>sp_tool_name = name, sp_description = [], sp_input_schema = [], sp_output_schema = [],
      sp_risk_level = RLow, sp_permission_scope = ''read'', sp_timeout_seconds = 30,
      sp_retry_policy = [], sp_is_local = True, sp_source = ''local'', sp_server_name = None,
      sp_mcp_tool_name = None\<rparr>"

record tool_call_record =
  cr_call_id :: string
  cr_tool_name :: string
  cr_arguments :: jdict
  cr_result :: json
  cr_status :: tool_call_status
  cr_success :: bool
  cr_latency_ms :: rat
  cr_retry_count :: int
  cr_error :: json
  cr_called_at :: string

definition new_call_record :: "string \<Rightarrow> string \<Rightarrow> jdict \<Rightarrow> string \<Rightarrow> tool_call_record" where
  "new_call_record cid tool args now =
     \<lparr>cr_call_id = cid, cr_tool_name = tool, cr_arguments = args, cr_result = JNull,
      cr_status = CPending, cr_success = True, cr_latency_ms = 0, cr_retry_count = 0,
      cr_error = JNull, cr_called_at = now\<rparr>"

text \<open>\<open>record.model_dump(mode="json")\<close>.\<close>

definition call_record_dump :: "tool_call_record \<Rightarrow> jdict" where
  "call_record_dump r =
     [(''call_id'', JStr (cr_call_id r)), (''tool_name'', JStr (cr_tool_name r)),
      (''arguments'', JObj (cr_arguments r)), (''result'', cr_result r),
      (''status'', JStr (tool_call_status_value (cr_status r))),
      (''success'', JBool (cr_success r)), (''latency_ms'', JFloat (cr_latency_ms r)),
      (''retry_count'', JInt (cr_retry_count r)), (''error'', cr_error r),
      (''called_at'', JStr (cr_called_at r))]"

text \<open>\<open>ctx.model_dump(mode="json")\<close>.\<close>

definition context_dump :: "agent_context \<Rightarrow> jdict" where
  "context_dump c =
     [(''task_id'', JStr (cx_task_id c)), (''user_query'', JStr (cx_user_query c)),
      (''user_info'', JObj (cx_user_info c)), (''available_tools'', jstrs (cx_available_tools c)),
      (''policies'', JObj (cx_policies c)), (''trace_context'', JObj (cx_trace_context c)),
      (''metadata'', JObj (cx_metadata c)), (''assembled_at'', opt_str (cx_assembled_at c))]"

subsection \<open>Events\<close>

record audit_event =
  ev_event_id :: string
  ev_event_type :: string
  ev_timestamp :: string
  ev_actor :: string
  ev_task_id :: "string option"
  ev_approval_id :: "string option"
  ev_tool_name :: "string option"
  ev_action :: string
  ev_outcome :: string
  ev_reason :: "string option"
  ev_severity :: "string option"
  ev_detail :: jdict

definition new_event :: "string \<Rightarrow> string \<Rightarrow> string \<Rightarrow> audit_event" where
  "new_event eid etype now =
     \<lparr>ev_event_id = eid, ev_event_type = etype, ev_timestamp = now, ev_actor = ''system'',
      ev_task_id = None, ev_approval_id = None, ev_tool_name = None, ev_action = [],
      ev_outcome = ''success'', ev_reason = None, ev_severity = None, ev_detail = []\<rparr>"

subsection \<open>Rows of the stores\<close>

text \<open>
  The JSON columns hold the decoded value: \<open>json.loads\<close> after \<open>json.dumps\<close> is the identity on
  the values that occur (dicts with text keys, lists, texts, numbers, booleans, null).
\<close>

record approval_row =
  ar_id :: string
  ar_task_id :: string
  ar_tool_name :: string
  ar_action :: string
  ar_risk_level :: risk_level
  ar_impact_scope :: string
  ar_agent_reason :: string
  ar_status :: approval_status
  ar_requested_at :: string
  ar_decided_at :: "string option"
  ar_decided_by :: "string option"
  ar_decision_reason :: "string option"
  ar_payload :: "jdict option"

record task_row =
  tr_id :: string
  tr_query :: string
  tr_mode :: string
  tr_status :: task_status
  tr_result :: "jdict option"
  tr_error :: "string option"
  tr_created_at :: string
  tr_updated_at :: string

datatype ckpt_status =
    KRunning | KInterrupted | KResuming | KResumed | KCancelled | KExpired | KCompleted | KFailed
  | KBlocked

fun ckpt_status_value :: "ckpt_status \<Rightarrow> string" where
  "ckpt_status_value KRunning = ''running''"
| "ckpt_status_value KInterrupted = ''interrupted''"
| "ckpt_status_value KResuming = ''resuming''"
| "ckpt_status_value KResumed = ''resumed''"
| "ckpt_status_value KCancelled = ''cancelled''"
| "ckpt_status_value KExpired = ''expired''"
| "ckpt_status_value KCompleted = ''completed''"
| "ckpt_status_value KFailed = ''failed''"
| "ckpt_status_value KBlocked = ''blocked''"

record ckpt_row =
  ck_id :: string
  ck_task_id :: string
  ck_approval_id :: "string option"
  ck_graph_thread_id :: "string option"
  ck_run_id :: "string option"
  ck_status :: ckpt_status
  ck_current_node :: "string option"
  ck_graph_state :: jdict
  ck_pending_interrupt :: "jdict option"
  ck_resume_payload :: "jdict option"
  ck_result_snapshot :: "jdict option"
  ck_consumed :: bool
  ck_resumed_at :: "string option"
  ck_created_at :: string
  ck_updated_at :: string
  ck_expires_at :: "string option"
  ck_schema_version :: int
  ck_resume_attempt_count :: int
  ck_last_resume_error :: "string option"
  ck_locked_by :: "string option"
  ck_locked_at :: "string option"

text \<open>Distinct statuses have distinct texts, so a stored text identifies its status.\<close>

lemma task_status_value_inject [simp]: "task_status_value a = task_status_value b \<longleftrightarrow> a = b"
  by (cases a; cases b) simp_all

lemma approval_status_value_inject [simp]:
  "approval_status_value a = approval_status_value b \<longleftrightarrow> a = b"
  by (cases a; cases b) simp_all

lemma ckpt_status_value_inject [simp]: "ckpt_status_value a = ckpt_status_value b \<longleftrightarrow> a = b"
  by (cases a; cases b) simp_all

end
