(* ===== verification/Recorders.thy ===== *)
theory Recorders
  imports Schemas
begin

text \<open>
  The bookkeeping components: \<open>TraceRecorder\<close> (\<open>app/harness/trace/recorder.py\<close>),
  \<open>HookPipeline\<close> (\<open>app/harness/hooks/pipeline.py\<close>), \<open>ShortTermMemory\<close>
  (\<open>app/harness/memory/short_term.py\<close>), \<open>RuntimeMetricsRecorder\<close>
  (\<open>app/harness/metrics/runtime_metrics.py\<close>) and \<open>ContextAssembler\<close>
  (\<open>app/harness/context/assembler.py\<close>). Each is a pure transformer of its own state.
\<close>

subsection \<open>Trace\<close>

definition trace_event :: "string \<Rightarrow> string \<Rightarrow> string \<Rightarrow> string option \<Rightarrow> string \<Rightarrow> jdict \<Rightarrow> audit_event" where
  "trace_event eid now etype tid actor detail =
     (new_event eid etype now)\<lparr>ev_task_id := tid, ev_actor := actor, ev_detail := detail\<rparr>"

definition trace_record ::
  "string \<Rightarrow> string \<Rightarrow> string \<Rightarrow> string option \<Rightarrow> string \<Rightarrow> jdict \<Rightarrow> audit_event list \<Rightarrow> audit_event list"
where
  "trace_record eid now etype tid actor detail events =
     events @ [trace_event eid now etype tid actor detail]"

definition trace_get :: "string option \<Rightarrow> string option \<Rightarrow> audit_event list \<Rightarrow> audit_event list" where
  "trace_get tid etype events =
     (let es = (case tid of None \<Rightarrow> events | Some t \<Rightarrow> filter (\<lambda>e. ev_task_id e = Some t) events)
      in case etype of None \<Rightarrow> es | Some y \<Rightarrow> filter (\<lambda>e. ev_event_type e = y) es)"

definition trace_clear :: "audit_event list \<Rightarrow> audit_event list" where
  "trace_clear events = []"

text \<open>Recording appends: what was recorded before stays, in order, under every query.\<close>

lemma trace_get_record:
  "trace_get tid ety (trace_record eid now etype t actor d es) =
     trace_get tid ety es @
       (if (\<forall>x. tid = Some x \<longrightarrow> t = Some x) \<and> (\<forall>y. ety = Some y \<longrightarrow> y = etype)
        then [trace_event eid now etype t actor d] else [])"
  by (auto simp: trace_get_def trace_record_def trace_event_def new_event_def Let_def
      split: option.splits)

subsection \<open>Hooks\<close>

text \<open>A hook takes the payload and returns a new one, or raises (\<open>Inl\<close>).\<close>

type_synonym hook = "jdict \<Rightarrow> string + jdict"
type_synonym hooks = "(string \<times> hook list) list"

definition hooks_init :: hooks where
  "hooks_init = [(''before_task'', []), (''before_tool_call'', []), (''after_tool_call'', []),
     (''after_task'', []), (''on_error'', [])]"

definition hook_register :: "string \<Rightarrow> hook \<Rightarrow> hooks \<Rightarrow> hooks" where
  "hook_register stage h hs =
     dput hs stage ((case map_of hs stage of None \<Rightarrow> [] | Some l \<Rightarrow> l) @ [h])"

fun run_hooks :: "string \<Rightarrow> hook list \<Rightarrow> jdict \<Rightarrow> json list \<Rightarrow> jdict \<times> json list" where
  "run_hooks stage [] p errs = (p, errs)"
| "run_hooks stage (h # hs) p errs =
     (case h p of
        Inr p' \<Rightarrow> run_hooks stage hs p' errs
      | Inl e \<Rightarrow> run_hooks stage hs p
          (errs @ [JObj [(''stage'', JStr stage), (''error'', JStr e)]]))"

definition hook_run :: "hooks \<Rightarrow> string \<Rightarrow> jdict \<Rightarrow> jdict" where
  "hook_run hs stage p =
     (let (p', errs) = run_hooks stage (case map_of hs stage of None \<Rightarrow> [] | Some l \<Rightarrow> l) p []
      in if errs \<noteq> [] then dput p' ''hook_errors'' (JList (or_list (dget p' ''hook_errors'') @ errs))
         else p')"

text \<open>A failing hook is reported once, and the payload it saw goes on to the next hook.\<close>

lemma run_hooks_errors:
  "snd (run_hooks stage hs p errs) = errs @ snd (run_hooks stage hs p [])"
proof (induction hs arbitrary: p errs)
  case (Cons h hs)
  show ?case
  proof (cases "h p")
    case (Inl e)
    let ?d = "JObj [(''stage'', JStr stage), (''error'', JStr e)]"
    have "snd (run_hooks stage hs p (errs @ [?d])) = (errs @ [?d]) @ snd (run_hooks stage hs p [])"
      by (rule Cons.IH)
    moreover have "snd (run_hooks stage hs p [?d]) = [?d] @ snd (run_hooks stage hs p [])"
      by (rule Cons.IH)
    ultimately show ?thesis using Inl by simp
  next
    case (Inr p')
    then show ?thesis by (simp add: Cons.IH [of p' errs])
  qed
qed simp

lemma run_hooks_fst: "fst (run_hooks stage hs p errs) = fst (run_hooks stage hs p [])"
proof (induction hs arbitrary: p errs)
  case (Cons h hs)
  show ?case
  proof (cases "h p")
    case (Inl e)
    then show ?thesis
      using Cons.IH [of p "errs @ [JObj [(''stage'', JStr stage), (''error'', JStr e)]]"]
        Cons.IH [of p "[JObj [(''stage'', JStr stage), (''error'', JStr e)]]"] by simp
  next
    case (Inr p')
    then show ?thesis using Cons.IH [of p' errs] by simp
  qed
qed simp

lemma hook_run_no_hooks: "map_of hs stage = None \<or> map_of hs stage = Some [] \<Longrightarrow> hook_run hs stage p = p"
  by (auto simp: hook_run_def)

subsection \<open>Short-term memory\<close>

record memory_message =
  mm_role :: string
  mm_content :: string
  mm_timestamp :: string
  mm_metadata :: jdict

type_synonym memory = "(string \<times> memory_message list) list"

definition memory_message_dict :: "memory_message \<Rightarrow> jdict" where
  "memory_message_dict m =
     [(''role'', JStr (mm_role m)), (''content'', JStr (mm_content m)),
      (''timestamp'', JStr (mm_timestamp m)), (''metadata'', JObj (mm_metadata m))]"

definition memory_of :: "memory \<Rightarrow> string \<Rightarrow> memory_message list" where
  "memory_of mem sid = (case map_of mem sid of None \<Rightarrow> [] | Some ms \<Rightarrow> ms)"

definition memory_add :: "string \<Rightarrow> string \<Rightarrow> string \<Rightarrow> string \<Rightarrow> jdict \<Rightarrow> memory \<Rightarrow> memory" where
  "memory_add now sid role content meta mem =
     dput mem sid (memory_of mem sid @
       [\<lparr>mm_role = role, mm_content = content, mm_timestamp = now, mm_metadata = meta\<rparr>])"

text \<open>\<open>messages[-limit:]\<close> with the limit clamped to 1..50.\<close>

definition memory_get :: "memory \<Rightarrow> string \<Rightarrow> int \<Rightarrow> jdict list" where
  "memory_get mem sid limit =
     (let ms = memory_of mem sid; n = clamp_limit 10 50 limit
      in map memory_message_dict (drop (length ms - n) ms))"

definition memory_summarize :: "memory \<Rightarrow> string \<Rightarrow> nat \<Rightarrow> string" where
  "memory_summarize mem sid max_chars =
     (let ms = memory_of mem sid
      in if ms = [] then []
         else let full = str_join [char_of (10::nat)]
                (map (\<lambda>m. ''['' @ mm_role m @ ''] '' @ mm_content m) ms)
              in if py_len full \<le> max_chars then full else py_take max_chars full @ ''...'')"

definition memory_clear :: "string \<Rightarrow> memory \<Rightarrow> memory" where
  "memory_clear sid mem = AList.delete sid mem"

definition memory_context :: "memory \<Rightarrow> string \<Rightarrow> jdict" where
  "memory_context mem sid =
     [(''session_id'', JStr sid), (''message_count'', JInt (int (length (memory_of mem sid)))),
      (''summary'', JStr (memory_summarize mem sid 500))]"

definition memory_total :: "memory \<Rightarrow> nat" where
  "memory_total mem = sum_list (map (\<lambda>p. length (snd p)) mem)"

definition memory_summary :: "memory \<Rightarrow> jdict" where
  "memory_summary mem =
     [(''session_count'', JInt (int (length mem))),
      (''message_count'', JInt (int (memory_total mem))),
      (''sessions'', JList (map (\<lambda>p. JObj [(''session_id'', JStr (fst p)),
         (''message_count'', JInt (int (length (snd p))))]) mem))]"

lemma memory_of_add:
  "memory_of (memory_add now sid role content meta mem) s =
     memory_of mem s @ (if s = sid
       then [\<lparr>mm_role = role, mm_content = content, mm_timestamp = now, mm_metadata = meta\<rparr>] else [])"
  by (simp add: memory_add_def memory_of_def)

lemma memory_of_clear: "memory_of (memory_clear sid mem) s = (if s = sid then [] else memory_of mem s)"
  by (simp add: memory_clear_def memory_of_def delete_conv' split: option.splits)

lemma memory_get_bounds:
  "length (memory_get mem sid limit) \<le> 50 \<and> length (memory_get mem sid limit) \<le> length (memory_of mem sid)"
  using clamp_limit_bounds [of 10 50 limit] by (simp add: memory_get_def Let_def) arith

lemma py_len_take: "py_len (py_take n s) \<le> n"
proof (induction n s rule: py_take.induct)
  case (2 n c cs)
  then show ?case by (cases n) (auto simp: py_len_def)
qed (simp add: py_len_def)

lemma memory_summarize_bound: "py_len (memory_summarize mem sid k) \<le> k + 3"
proof -
  have "py_len (py_take k s @ ''...'') \<le> k + 3" for s
    using py_len_take [of k s] by (simp add: py_len_def is_cont_def)
  then show ?thesis by (auto simp: memory_summarize_def Let_def py_len_def)
qed

subsection \<open>Runtime metrics\<close>

text \<open>
  The counters of \<open>RuntimeMetricsRecorder\<close> and the rows it hands to its optional SQLite sink
  (\<open>append_task_metric\<close> and its siblings), without the identifier and time the sink adds.
\<close>

datatype metric_row =
    TaskMetric string string string "rat option"
  | ToolMetric string bool rat int string
  | TokenUsage string int int rat

record metrics =
  mt_task_count :: int
  mt_success_count :: int
  mt_failed_count :: int
  mt_waiting_approval_count :: int
  mt_cancelled_count :: int
  mt_unknown_status_count :: int
  mt_tool_call_count :: int
  mt_tool_failure_count :: int
  mt_total_prompt_tokens :: int
  mt_total_completion_tokens :: int
  mt_total_cost :: rat
  mt_reflection_count :: int
  mt_reflection_failed_count :: int
  mt_skill_match_count :: int
  mt_llm_cache_hit_count :: int
  mt_llm_cache_miss_count :: int
  mt_budget_status_by_mode :: "(string \<times> json) list"
  mt_task_latencies :: "rat list"
  mt_sink :: "metric_row list option"

definition metrics_init :: metrics where
  "metrics_init =
     \<lparr>mt_task_count = 0, mt_success_count = 0, mt_failed_count = 0, mt_waiting_approval_count = 0,
      mt_cancelled_count = 0, mt_unknown_status_count = 0, mt_tool_call_count = 0,
      mt_tool_failure_count = 0, mt_total_prompt_tokens = 0, mt_total_completion_tokens = 0,
      mt_total_cost = 0, mt_reflection_count = 0, mt_reflection_failed_count = 0,
      mt_skill_match_count = 0, mt_llm_cache_hit_count = 0, mt_llm_cache_miss_count = 0,
      mt_budget_status_by_mode = [], mt_task_latencies = [],
      mt_sink = None\<rparr>"

definition metrics_sink :: "metric_row \<Rightarrow> metrics \<Rightarrow> metrics" where
  "metrics_sink row m = m\<lparr>mt_sink := map_option (\<lambda>rows. rows @ [row]) (mt_sink m)\<rparr>"

definition metrics_record_task ::
  "string \<Rightarrow> string \<Rightarrow> string \<Rightarrow> rat option \<Rightarrow> metrics \<Rightarrow> metrics"
where
  "metrics_record_task tid mode status lat m =
     (let m1 = m\<lparr>mt_task_count := mt_task_count m + 1\<rparr>;
          m2 = (if status \<in> {''completed'', ''success''} then m1\<lparr>mt_success_count := mt_success_count m1 + 1\<rparr>
                else if status \<in> {''failed'', ''error''} then m1\<lparr>mt_failed_count := mt_failed_count m1 + 1\<rparr>
                else if status = ''waiting_approval''
                  then m1\<lparr>mt_waiting_approval_count := mt_waiting_approval_count m1 + 1\<rparr>
                else if status = ''cancelled'' then m1\<lparr>mt_cancelled_count := mt_cancelled_count m1 + 1\<rparr>
                else m1\<lparr>mt_unknown_status_count := mt_unknown_status_count m1 + 1\<rparr>);
          m3 = (case lat of None \<Rightarrow> m2 | Some l \<Rightarrow> m2\<lparr>mt_task_latencies := mt_task_latencies m2 @ [l]\<rparr>)
      in metrics_sink (TaskMetric tid mode status lat) m3)"

definition metrics_record_tool_call ::
  "string \<Rightarrow> bool \<Rightarrow> rat \<Rightarrow> int \<Rightarrow> string \<Rightarrow> metrics \<Rightarrow> metrics"
where
  "metrics_record_tool_call tool success lat retries tid m =
     (let m1 = m\<lparr>mt_tool_call_count := mt_tool_call_count m + 1\<rparr>;
          m2 = (if success then m1 else m1\<lparr>mt_tool_failure_count := mt_tool_failure_count m1 + 1\<rparr>)
      in metrics_sink (ToolMetric tool success lat retries tid) m2)"

definition metrics_record_token_usage :: "string \<Rightarrow> int \<Rightarrow> int \<Rightarrow> rat \<Rightarrow> metrics \<Rightarrow> metrics" where
  "metrics_record_token_usage tid p c cost m =
     metrics_sink (TokenUsage tid p c cost)
       (m\<lparr>mt_total_prompt_tokens := mt_total_prompt_tokens m + p,
          mt_total_completion_tokens := mt_total_completion_tokens m + c,
          mt_total_cost := mt_total_cost m + cost\<rparr>)"

definition metrics_record_skill_match :: "int \<Rightarrow> metrics \<Rightarrow> metrics" where
  "metrics_record_skill_match n m = m\<lparr>mt_skill_match_count := mt_skill_match_count m + n\<rparr>"

definition metrics_cache_hit :: "metrics \<Rightarrow> metrics" where
  "metrics_cache_hit m = m\<lparr>mt_llm_cache_hit_count := mt_llm_cache_hit_count m + 1\<rparr>"

definition metrics_cache_miss :: "metrics \<Rightarrow> metrics" where
  "metrics_cache_miss m = m\<lparr>mt_llm_cache_miss_count := mt_llm_cache_miss_count m + 1\<rparr>"

definition metrics_set_budget :: "string \<Rightarrow> jdict \<Rightarrow> metrics \<Rightarrow> metrics" where
  "metrics_set_budget mode status m =
     (let k = (if mode = [] then ''unknown'' else mode)
      in m\<lparr>mt_budget_status_by_mode := dput (mt_budget_status_by_mode m) k (JObj status)\<rparr>)"

definition metrics_avg_latency :: "metrics \<Rightarrow> rat" where
  "metrics_avg_latency m =
     (if mt_task_latencies m = [] then 0
      else sum_list (mt_task_latencies m) / of_nat (length (mt_task_latencies m)))"

definition metrics_summary :: "metrics \<Rightarrow> jdict" where
  "metrics_summary m =
     [(''task_count'', JInt (mt_task_count m)), (''success_count'', JInt (mt_success_count m)),
      (''failed_count'', JInt (mt_failed_count m)),
      (''waiting_approval_count'', JInt (mt_waiting_approval_count m)),
      (''cancelled_count'', JInt (mt_cancelled_count m)),
      (''unknown_status_count'', JInt (mt_unknown_status_count m)),
      (''tool_call_count'', JInt (mt_tool_call_count m)),
      (''tool_failure_count'', JInt (mt_tool_failure_count m)),
      (''total_prompt_tokens'', JInt (mt_total_prompt_tokens m)),
      (''total_completion_tokens'', JInt (mt_total_completion_tokens m)),
      (''total_cost'', JFloat (mt_total_cost m)),
      (''avg_task_latency_ms'', JFloat (metrics_avg_latency m)),
      (''reflection_count'', JInt (mt_reflection_count m)),
      (''reflection_failed_count'', JInt (mt_reflection_failed_count m)),
      (''skill_match_count'', JInt (mt_skill_match_count m)),
      (''cache_hit_count'', JInt (mt_llm_cache_hit_count m)),
      (''cache_miss_count'', JInt (mt_llm_cache_miss_count m)),
      (''budget_status'', JObj (mt_budget_status_by_mode m))]"

text \<open>Every task is counted under exactly one status.\<close>

definition metrics_balanced :: "metrics \<Rightarrow> bool" where
  "metrics_balanced m \<longleftrightarrow>
     mt_task_count m = mt_success_count m + mt_failed_count m + mt_waiting_approval_count m +
       mt_cancelled_count m + mt_unknown_status_count m \<and>
     0 \<le> mt_tool_failure_count m \<and> mt_tool_failure_count m \<le> mt_tool_call_count m"

lemma metrics_balanced_init: "metrics_balanced metrics_init"
  by (simp add: metrics_balanced_def metrics_init_def)

lemma metrics_balanced_record_task [intro]:
  "metrics_balanced m \<Longrightarrow> metrics_balanced (metrics_record_task tid mode status lat m)"
  by (cases lat) (simp_all add: metrics_balanced_def metrics_record_task_def metrics_sink_def Let_def)

lemma metrics_balanced_record_tool [intro]:
  "metrics_balanced m \<Longrightarrow> metrics_balanced (metrics_record_tool_call tool ok lat n tid m)"
  by (simp add: metrics_balanced_def metrics_record_tool_call_def metrics_sink_def Let_def)

subsection \<open>Context\<close>

definition mock_user :: jdict where
  "mock_user = [(''user_id'', JStr ''mock_user_001''), (''role'', JStr ''ops_analyst''),
     (''department'', JStr (utf8 [0x8FD0, 0x8425, 0x90E8]))]"

definition mock_policy :: jdict where
  "mock_policy = [(''allow_high_risk'', JBool False), (''max_retries'', JInt 1),
     (''timeout_seconds'', JInt 30)]"

definition or_dflt :: "jdict option \<Rightarrow> jdict \<Rightarrow> jdict" where
  "or_dflt x d = (case x of None \<Rightarrow> d | Some [] \<Rightarrow> d | Some y \<Rightarrow> y)"

definition assemble ::
  "string \<Rightarrow> task_run \<Rightarrow> jdict option \<Rightarrow> string list \<Rightarrow> jdict option \<Rightarrow> jdict option \<Rightarrow> jdict option \<Rightarrow> agent_context"
where
  "assemble now task user tools policies trace mem =
     (let md = [(''source'', JStr ''context_assembler'')];
          md' = (case mem of None \<Rightarrow> md | Some [] \<Rightarrow> md
                 | Some m \<Rightarrow> md @ [(''memory_used'', JBool True),
                     (''memory_message_count'', dget_or m ''message_count'' (JInt 0))])
      in \<lparr>cx_task_id = tk_id task, cx_user_query = tk_query task,
          cx_user_info = or_dflt user mock_user, cx_available_tools = tools,
          cx_policies = or_dflt policies mock_policy, cx_trace_context = or_dflt trace [],
          cx_metadata = md', cx_assembled_at = Some now\<rparr>)"

lemma assemble_simps [simp]:
  "cx_task_id (assemble now task u ts p tr m) = tk_id task"
  "cx_user_query (assemble now task u ts p tr m) = tk_query task"
  "cx_available_tools (assemble now task u ts p tr m) = ts"
  by (simp_all add: assemble_def Let_def)

end
