(* ===== verification/System_State.thy ===== *)
theory System_State
  imports Recorders
begin

text \<open>
  The state the runtime's objects share, and the two recorders every handler writes to: the
  in-memory trace and the audit store behind \<open>AuditRecorder\<close>
  (\<open>app/harness/audit/recorder.py\<close>, \<open>app/storage/audit_store.py\<close>). The shared objects of the
  source (one metrics recorder, one approval store, one database) are fields of one record, so
  a change made through one component is seen by the others.
\<close>

record 'w sys =
  sy_world :: 'w
  sy_metrics :: "metrics option"
  sy_trace :: "audit_event list"
  sy_audit :: "audit_event list"
  sy_memory :: "memory option"
  sy_approvals :: "approval_row list"
  sy_tasks :: "task_row list"
  sy_ckpts :: "ckpt_row list"

definition sys_init :: "'w \<Rightarrow> 'w sys" where
  "sys_init w = \<lparr>sy_world = w, sy_metrics = Some metrics_init, sy_trace = [], sy_audit = [],
     sy_memory = Some [], sy_approvals = [], sy_tasks = [], sy_ckpts = []\<rparr>"

subsection \<open>Identifiers\<close>

definition sys_fresh :: "'w env \<Rightarrow> 'w sys \<Rightarrow> string \<times> 'w sys" where
  "sys_fresh env s = (let (h, w) = fresh_hex env (sy_world s) in (h, s\<lparr>sy_world := w\<rparr>))"

definition sys_now :: "'w env \<Rightarrow> 'w sys \<Rightarrow> string" where
  "sys_now env s = now_iso env (sy_world s)"

subsection \<open>Trace\<close>

definition sys_trace :: "'w env \<Rightarrow> string \<Rightarrow> string \<Rightarrow> jdict \<Rightarrow> 'w sys \<Rightarrow> 'w sys" where
  "sys_trace env etype tid detail s =
     (let (h, s1) = sys_fresh env s
      in s1\<lparr>sy_trace := trace_record (uuid_text h) (sys_now env s1) etype (Some tid) ''system''
           detail (sy_trace s1)\<rparr>)"

text \<open>The guarded forms: \<open>if self._trace_recorder\<close> and \<open>if self._trace_recorder and task_id\<close>.\<close>

definition sys_trace_if :: "bool \<Rightarrow> 'w env \<Rightarrow> string \<Rightarrow> string \<Rightarrow> jdict \<Rightarrow> 'w sys \<Rightarrow> 'w sys" where
  "sys_trace_if on env etype tid detail s = (if on then sys_trace env etype tid detail s else s)"

subsection \<open>Audit store\<close>

text \<open>\<open>INSERT\<close> raises on a duplicate primary key.\<close>

definition audit_append :: "audit_event \<Rightarrow> audit_event list \<Rightarrow> string + audit_event list" where
  "audit_append e rows =
     (if ev_event_id e \<in> ev_event_id ` set rows then Inl ''UNIQUE constraint failed: audit_events.event_id''
      else Inr (rows @ [e]))"

definition audit_get :: "string \<Rightarrow> audit_event list \<Rightarrow> audit_event option" where
  "audit_get eid rows = lookup_by ev_event_id eid rows"

text \<open>
  \<open>query_events\<close>: each given filter is one conjunct; a time bound that \<open>datetime.fromisoformat\<close>
  does not parse (\<open>valid_iso\<close>) is dropped.
\<close>

record audit_query =
  aq_event_type :: "string option"
  aq_actor :: "string option"
  aq_task_id :: "string option"
  aq_approval_id :: "string option"
  aq_outcome :: "string option"
  aq_severity :: "string option"
  aq_start_time :: "string option"
  aq_end_time :: "string option"

definition audit_matches :: "(string \<Rightarrow> bool) \<Rightarrow> audit_query \<Rightarrow> audit_event \<Rightarrow> bool" where
  "audit_matches valid_iso q e \<longleftrightarrow>
     (case aq_event_type q of None \<Rightarrow> True | Some x \<Rightarrow> ev_event_type e = x) \<and>
     (case aq_actor q of None \<Rightarrow> True | Some x \<Rightarrow> ev_actor e = x) \<and>
     (case aq_task_id q of None \<Rightarrow> True | Some x \<Rightarrow> ev_task_id e = Some x) \<and>
     (case aq_approval_id q of None \<Rightarrow> True | Some x \<Rightarrow> ev_approval_id e = Some x) \<and>
     (case aq_outcome q of None \<Rightarrow> True | Some x \<Rightarrow> ev_outcome e = x) \<and>
     (case aq_severity q of None \<Rightarrow> True | Some x \<Rightarrow> ev_severity e = Some x) \<and>
     (case aq_start_time q of None \<Rightarrow> True | Some x \<Rightarrow> valid_iso x \<longrightarrow> x \<le> ev_timestamp e) \<and>
     (case aq_end_time q of None \<Rightarrow> True | Some x \<Rightarrow> valid_iso x \<longrightarrow> ev_timestamp e \<le> x)"

definition audit_query_events ::
  "(string \<Rightarrow> bool) \<Rightarrow> audit_query \<Rightarrow> int \<Rightarrow> audit_event list \<Rightarrow> audit_event list"
where
  "audit_query_events valid_iso q limit rows =
     take (clamp_limit 100 10000 limit)
       (order_desc ev_timestamp (filter (audit_matches valid_iso q) rows))"

lemma audit_append_get:
  "audit_append e rows = Inr rows' \<Longrightarrow> audit_get (ev_event_id e) rows' = Some e"
  by (auto simp: audit_append_def audit_get_def lookup_by_fresh split: if_splits)

lemma audit_append_keeps:
  "audit_append e rows = Inr rows' \<Longrightarrow> audit_get k rows = Some x \<Longrightarrow> audit_get k rows' = Some x"
  by (auto simp: audit_append_def audit_get_def lookup_by_append split: if_splits)

lemma audit_append_distinct:
  "audit_append e rows = Inr rows' \<Longrightarrow> distinct (map ev_event_id rows) \<Longrightarrow>
     distinct (map ev_event_id rows')"
  by (auto simp: audit_append_def split: if_splits)

lemma audit_query_sound:
  "e \<in> set (audit_query_events v q limit rows) \<Longrightarrow> e \<in> set rows \<and> audit_matches v q e"
  by (auto simp: audit_query_events_def dest: in_set_takeD)

lemma audit_query_bounds:
  "length (audit_query_events v q limit rows) \<le> 10000"
  using clamp_limit_bounds [of 100 10000 limit] by (simp add: audit_query_events_def) arith

lemma sorted_wrt_take_pre: "sorted_wrt P xs \<Longrightarrow> sorted_wrt P (take n xs)"
  by (metis append_take_drop_id sorted_wrt_append)

lemma audit_query_newest_first:
  "sorted_wrt (\<lambda>x y. ev_timestamp y \<le> ev_timestamp x) (audit_query_events v q limit rows)"
  by (simp add: audit_query_events_def sorted_wrt_take_pre sorted_order_desc)

subsection \<open>Audit recorder\<close>

text \<open>
  \<open>AuditRecorder.record\<close> builds the event and swallows a failed write. Its keyword arguments
  are the fields of the given event; the identifier and the time are filled in here.
\<close>

definition sys_audit :: "'w env \<Rightarrow> audit_event \<Rightarrow> 'w sys \<Rightarrow> 'w sys" where
  "sys_audit env proto s =
     (let (h, s1) = sys_fresh env s;
          e = proto\<lparr>ev_event_id := ''aud_'' @ hex12 h, ev_timestamp := utc_iso env (sy_world s1)\<rparr>
      in case audit_append e (sy_audit s1) of Inl _ \<Rightarrow> s1 | Inr rows \<Rightarrow> s1\<lparr>sy_audit := rows\<rparr>)"

definition sys_audit_if :: "bool \<Rightarrow> 'w env \<Rightarrow> audit_event \<Rightarrow> 'w sys \<Rightarrow> 'w sys" where
  "sys_audit_if on env proto s = (if on then sys_audit env proto s else s)"

definition audit_proto ::
  "string \<Rightarrow> string option \<Rightarrow> string option \<Rightarrow> string option \<Rightarrow> string \<Rightarrow> string \<Rightarrow>
     string option \<Rightarrow> string option \<Rightarrow> jdict \<Rightarrow> audit_event"
where
  "audit_proto etype tid aid tool action outcome reason severity detail =
     (new_event [] etype [])\<lparr>ev_task_id := tid, ev_approval_id := aid, ev_tool_name := tool,
        ev_action := action, ev_outcome := outcome, ev_reason := reason, ev_severity := severity,
        ev_detail := detail\<rparr>"

subsection \<open>What recording leaves alone\<close>

text \<open>
  Recording an event changes the world (an identifier is drawn) and its own log, nothing else.
  The collection \<open>frame\<close> carries these facts into every handler's proof.
\<close>

named_theorems frame "fields an operation leaves unchanged"

lemma sys_fresh_frame [frame, simp]:
  "sy_metrics (snd (sys_fresh env s)) = sy_metrics s"
  "sy_trace (snd (sys_fresh env s)) = sy_trace s"
  "sy_audit (snd (sys_fresh env s)) = sy_audit s"
  "sy_memory (snd (sys_fresh env s)) = sy_memory s"
  "sy_approvals (snd (sys_fresh env s)) = sy_approvals s"
  "sy_tasks (snd (sys_fresh env s)) = sy_tasks s"
  "sy_ckpts (snd (sys_fresh env s)) = sy_ckpts s"
  by (simp_all add: sys_fresh_def split: prod.splits)

lemma sys_trace_frame [frame, simp]:
  "sy_metrics (sys_trace env e t d s) = sy_metrics s"
  "sy_audit (sys_trace env e t d s) = sy_audit s"
  "sy_memory (sys_trace env e t d s) = sy_memory s"
  "sy_approvals (sys_trace env e t d s) = sy_approvals s"
  "sy_tasks (sys_trace env e t d s) = sy_tasks s"
  "sy_ckpts (sys_trace env e t d s) = sy_ckpts s"
  by (simp_all add: sys_trace_def sys_fresh_def split: prod.splits)

lemma sys_trace_if_frame [frame, simp]:
  "sy_metrics (sys_trace_if on env e t d s) = sy_metrics s"
  "sy_audit (sys_trace_if on env e t d s) = sy_audit s"
  "sy_memory (sys_trace_if on env e t d s) = sy_memory s"
  "sy_approvals (sys_trace_if on env e t d s) = sy_approvals s"
  "sy_tasks (sys_trace_if on env e t d s) = sy_tasks s"
  "sy_ckpts (sys_trace_if on env e t d s) = sy_ckpts s"
  by (simp_all add: sys_trace_if_def)

lemma sys_audit_frame [frame, simp]:
  "sy_metrics (sys_audit env p s) = sy_metrics s"
  "sy_trace (sys_audit env p s) = sy_trace s"
  "sy_memory (sys_audit env p s) = sy_memory s"
  "sy_approvals (sys_audit env p s) = sy_approvals s"
  "sy_tasks (sys_audit env p s) = sy_tasks s"
  "sy_ckpts (sys_audit env p s) = sy_ckpts s"
  by (simp_all add: sys_audit_def sys_fresh_def Let_def split: prod.splits sum.splits)

lemma sys_audit_if_frame [frame, simp]:
  "sy_metrics (sys_audit_if on env p s) = sy_metrics s"
  "sy_trace (sys_audit_if on env p s) = sy_trace s"
  "sy_memory (sys_audit_if on env p s) = sy_memory s"
  "sy_approvals (sys_audit_if on env p s) = sy_approvals s"
  "sy_tasks (sys_audit_if on env p s) = sy_tasks s"
  "sy_ckpts (sys_audit_if on env p s) = sy_ckpts s"
  by (simp_all add: sys_audit_if_def)

text \<open>The event types of the trace, oldest first: the form in which properties read it.\<close>

definition trace_types :: "'w sys \<Rightarrow> string list" where
  "trace_types s = map ev_event_type (sy_trace s)"

lemma trace_types_trace [simp]: "trace_types (sys_trace env e t d s) = trace_types s @ [e]"
  by (simp add: trace_types_def sys_trace_def trace_record_def trace_event_def new_event_def
      sys_fresh_def split: prod.splits)

lemma trace_types_audit [simp]: "trace_types (sys_audit env p s) = trace_types s"
  by (simp add: trace_types_def)

end
