(* ===== verification/Demo_World.thy ===== *)
theory Demo_World
  imports System_State
begin

text \<open>
  A concrete outside, for the witnesses: the world is a counter, each fresh identifier advances
  it (the identifiers of the first twelve draws differ in their first twelve digits), the clock
  reads the same instant, and values render as an empty text or themselves.
\<close>

definition demo_fresh :: "nat \<Rightarrow> string \<times> nat" where
  "demo_fresh n = (replicate n (CHR ''f'') @ replicate (32 - n) (CHR ''0''), n + 1)"

definition demo_env :: "nat env" where
  "demo_env = \<lparr>fresh_hex = demo_fresh, now_iso = (\<lambda>w. ''2026-01-02T03:04:05''),
     utc_iso = (\<lambda>w. ''2026-01-02T03:04:05+00:00''), mono_clock = (\<lambda>w. of_nat w),
     py_str = (\<lambda>v. or_str v), py_attr = (\<lambda>v a. None)\<rparr>"

lemma demo_env_simps [simp]:
  "fresh_hex demo_env = demo_fresh"
  "now_iso demo_env w = ''2026-01-02T03:04:05''"
  "utc_iso demo_env w = ''2026-01-02T03:04:05+00:00''"
  "py_str demo_env = or_str"
  "py_attr demo_env = (\<lambda>v a. None)"
  by (simp_all add: demo_env_def fun_eq_iff)

end
