(* ===== verification/Tool_Gateway.thy ===== *)
theory Tool_Gateway
  imports Demo_World Texts
begin

text \<open>
  \<open>ToolGateway\<close> (\<open>app/harness/gateway/tool_gateway.py\<close>): one registry for local tools and
  tools of MCP servers, and one entry point that calls them with retries. A tool and an MCP
  client are code the gateway only calls: a function of its arguments and the world that
  returns a value (\<open>Inr\<close>) or raises (\<open>Inl\<close>).
\<close>

subsection \<open>State\<close>

type_synonym 'w callable = "jdict \<Rightarrow> 'w \<Rightarrow> (string + json) \<times> 'w"

record mcp_tool_info =
  mi_name :: string
  mi_description :: string
  mi_input_schema :: jdict
  mi_output_schema :: jdict
  mi_risk_level :: risk_level
  mi_permission_scope :: string

record 'w mcp_client =
  mc_list_tools :: "'w \<Rightarrow> (string + mcp_tool_info list) \<times> 'w"
  mc_call_tool :: "string \<Rightarrow> 'w callable"

record 'w gateway =
  gw_registry :: "(string \<times> tool_spec) list"
  gw_callables :: "(string \<times> 'w callable option) list"
  gw_mcp_clients :: "(string \<times> 'w mcp_client) list"
  gw_mcp_tool_allowlists :: "(string \<times> string list) list"
  gw_current_task_id :: string

definition gateway_init :: "'w gateway" where
  "gateway_init = \<lparr>gw_registry = [], gw_callables = [], gw_mcp_clients = [],
     gw_mcp_tool_allowlists = [], gw_current_task_id = []\<rparr>"

subsection \<open>Registration\<close>

definition gw_register :: "tool_spec \<Rightarrow> 'w callable \<Rightarrow> 'w gateway \<Rightarrow> 'w gateway" where
  "gw_register spec f g =
     g\<lparr>gw_registry := dput (gw_registry g) (sp_tool_name spec) spec,
       gw_callables := dput (gw_callables g) (sp_tool_name spec) (Some f)\<rparr>"

text \<open>\<open>_parse_allowlist\<close>: a comma-separated text, or a collection of texts, or nothing.\<close>

datatype allowlist_raw = ANone | AText string | AItems "string list"

definition parse_allowlist :: "allowlist_raw \<Rightarrow> string list" where
  "parse_allowlist raw =
     (case raw of ANone \<Rightarrow> []
      | AText t \<Rightarrow> remdups (filter (\<lambda>v. v \<noteq> []) (map strip (split_on (CHR '','') t)))
      | AItems xs \<Rightarrow> remdups (filter (\<lambda>v. v \<noteq> []) (map strip xs)))"

definition gw_register_mcp_server ::
  "string \<Rightarrow> 'w mcp_client \<Rightarrow> allowlist_raw \<Rightarrow> 'w gateway \<Rightarrow> 'w gateway"
where
  "gw_register_mcp_server server client raw g =
     (let al = parse_allowlist raw
      in g\<lparr>gw_mcp_clients := dput (gw_mcp_clients g) server client,
           gw_mcp_tool_allowlists :=
             (if al \<noteq> [] then dput (gw_mcp_tool_allowlists g) server al
              else AList.delete server (gw_mcp_tool_allowlists g))\<rparr>)"

definition is_mcp_tool_allowed :: "'w gateway \<Rightarrow> string \<Rightarrow> string \<Rightarrow> bool" where
  "is_mcp_tool_allowed g server tool =
     (case map_of (gw_mcp_tool_allowlists g) server of
        None \<Rightarrow> True | Some al \<Rightarrow> al = [] \<or> tool \<in> set al)"

definition mcp_spec :: "string \<Rightarrow> mcp_tool_info \<Rightarrow> tool_spec" where
  "mcp_spec server ti =
     (new_spec (mi_name ti))\<lparr>sp_description := mi_description ti,
        sp_input_schema := mi_input_schema ti, sp_output_schema := mi_output_schema ti,
        sp_risk_level := mi_risk_level ti, sp_permission_scope := mi_permission_scope ti,
        sp_source := ''mcp'', sp_server_name := Some server, sp_mcp_tool_name := Some (mi_name ti),
        sp_is_local := False\<rparr>"

definition gw_add_mcp :: "tool_spec \<Rightarrow> 'w gateway \<Rightarrow> 'w gateway" where
  "gw_add_mcp spec g =
     g\<lparr>gw_registry := dput (gw_registry g) (sp_tool_name spec) spec,
       gw_callables := dput (gw_callables g) (sp_tool_name spec) None\<rparr>"

fun discover_loop :: "string \<Rightarrow> mcp_tool_info list \<Rightarrow> 'w gateway \<Rightarrow> tool_spec list \<times> 'w gateway" where
  "discover_loop server [] g = ([], g)"
| "discover_loop server (ti # tis) g =
     (if \<not> is_mcp_tool_allowed g server (mi_name ti) then discover_loop server tis g
      else let spec = mcp_spec server ti;
               (specs, g2) = discover_loop server tis (gw_add_mcp spec g)
           in (spec # specs, g2))"

definition gw_discover_mcp_tools ::
  "string \<Rightarrow> 'w gateway \<Rightarrow> 'w \<Rightarrow> (string + tool_spec list) \<times> 'w gateway \<times> 'w"
where
  "gw_discover_mcp_tools server g w =
     (case map_of (gw_mcp_clients g) server of
        None \<Rightarrow> (Inr [], g, w)
      | Some client \<Rightarrow>
          (case mc_list_tools client w of
             (Inl e, w') \<Rightarrow> (Inl e, g, w')
           | (Inr tis, w') \<Rightarrow> (let (specs, g') = discover_loop server tis g in (Inr specs, g', w'))))"

definition gw_list_tools :: "'w gateway \<Rightarrow> tool_spec list" where
  "gw_list_tools g = map snd (gw_registry g)"

definition gw_get_tool :: "'w gateway \<Rightarrow> string \<Rightarrow> tool_spec option" where
  "gw_get_tool g name = map_of (gw_registry g) name"

subsection \<open>One attempt\<close>

text \<open>
  The common tail of \<open>_call_local\<close> and \<open>_call_mcp\<close>: run the callable between two reads of the
  monotonic clock and file its outcome. A dict with a true \<open>error\<close> entry counts as a failure.
\<close>

definition finish_call ::
  "'w env \<Rightarrow> tool_call_record \<Rightarrow> rat \<Rightarrow> (string + json) \<times> 'w \<Rightarrow> tool_call_record \<times> 'w"
where
  "finish_call env r start out =
     (let (res, w) = out;
          lat = py_round 2 ((mono_clock env w - start) * 1000);
          r1 = (case res of
                  Inl e \<Rightarrow> r\<lparr>cr_result := JNull, cr_success := False, cr_status := CFailed,
                            cr_error := JStr e\<rparr>
                | Inr v \<Rightarrow>
                    (if truthy (dget (or_dict v) ''error'')
                     then r\<lparr>cr_result := v, cr_status := CFailed, cr_success := False,
                            cr_error := dget (or_dict v) ''error''\<rparr>
                     else r\<lparr>cr_result := v, cr_status := CCompleted, cr_success := True\<rparr>))
      in (r1\<lparr>cr_latency_ms := lat\<rparr>, w))"

definition refuse_call :: "string \<Rightarrow> tool_call_record \<Rightarrow> tool_call_record" where
  "refuse_call msg r =
     r\<lparr>cr_status := CFailed, cr_success := False, cr_error := JStr msg, cr_result := JNull\<rparr>"

definition running_record :: "'w env \<Rightarrow> string \<Rightarrow> jdict \<Rightarrow> 'w \<Rightarrow> tool_call_record \<times> 'w" where
  "running_record env tool args w =
     (let (h, w1) = fresh_hex env w
      in ((new_call_record (uuid_text h) tool args (now_iso env w1))\<lparr>cr_status := CRunning\<rparr>, w1))"

definition call_local ::
  "'w env \<Rightarrow> 'w gateway \<Rightarrow> string \<Rightarrow> jdict \<Rightarrow> 'w \<Rightarrow> tool_call_record \<times> 'w"
where
  "call_local env g tool args w =
     (let (r, w1) = running_record env tool args w
      in case map_of (gw_callables g) tool of
           Some (Some f) \<Rightarrow> finish_call env r (mono_clock env w1) (f args w1)
         | _ \<Rightarrow> (refuse_call (tx_no_callable tool) r, w1))"

definition call_mcp ::
  "'w env \<Rightarrow> 'w gateway \<Rightarrow> tool_spec \<Rightarrow> jdict \<Rightarrow> 'w \<Rightarrow> tool_call_record \<times> 'w"
where
  "call_mcp env g spec args w =
     (let (r, w1) = running_record env (sp_tool_name spec) args w
      in case sp_server_name spec of
           None \<Rightarrow> (refuse_call (tx_mcp_no_server (sp_tool_name spec)) r, w1)
         | Some server \<Rightarrow>
             (case map_of (gw_mcp_clients g) server of
                None \<Rightarrow> (refuse_call (tx_mcp_server_unregistered server) r, w1)
              | Some client \<Rightarrow>
                  (let mt = (case sp_mcp_tool_name spec of None \<Rightarrow> sp_tool_name spec
                             | Some n \<Rightarrow> if n = [] then sp_tool_name spec else n)
                   in if \<not> is_mcp_tool_allowed g server mt
                      then (refuse_call (tx_mcp_not_allowed mt) r, w1)
                      else finish_call env r (mono_clock env w1) (mc_call_tool client mt args w1))))"

subsection \<open>Retries\<close>

text \<open>
  \<open>while not record.success and retry_count < max_retries\<close>, shared by \<open>_call_local_with_retry\<close>
  and \<open>_call_mcp_with_retry\<close>; what shrinks is \<open>max_retries - retry_count\<close>.
\<close>

function retry_loop ::
  "('w \<Rightarrow> tool_call_record \<times> 'w) \<Rightarrow> int \<Rightarrow> int \<Rightarrow> tool_call_record \<Rightarrow> 'w \<Rightarrow> tool_call_record \<times> 'w"
where
  "retry_loop attempt maxr n r w =
     (if \<not> cr_success r \<and> n < maxr
      then (let (r', w') = attempt w in retry_loop attempt maxr (n + 1) r' w')
      else (r\<lparr>cr_retry_count := n\<rparr>, w))"
  by pat_completeness auto
termination
  by (relation "measure (\<lambda>(a, maxr, n, r, w). nat (maxr - n))") auto

declare retry_loop.simps [simp del]

definition with_retry :: "('w \<Rightarrow> tool_call_record \<times> 'w) \<Rightarrow> int \<Rightarrow> 'w \<Rightarrow> tool_call_record \<times> 'w" where
  "with_retry attempt maxr w = (let (r, w') = attempt w in retry_loop attempt maxr 0 r w')"

subsection \<open>The entry point\<close>

definition record_tool_metrics :: "string \<Rightarrow> tool_call_record \<Rightarrow> string \<Rightarrow> 'w sys \<Rightarrow> 'w sys" where
  "record_tool_metrics tool r tid s =
     s\<lparr>sy_metrics := map_option
         (metrics_record_tool_call tool (cr_success r) (cr_latency_ms r) (cr_retry_count r) tid)
         (sy_metrics s)\<rparr>"

definition max_retries :: "tool_spec \<Rightarrow> int" where
  "max_retries spec = (case map_of (sp_retry_policy spec) ''max_retries'' of None \<Rightarrow> 0 | Some n \<Rightarrow> n)"

definition gw_attempt ::
  "'w env \<Rightarrow> 'w gateway \<Rightarrow> string \<Rightarrow> tool_spec \<Rightarrow> jdict \<Rightarrow> 'w \<Rightarrow> tool_call_record \<times> 'w"
where
  "gw_attempt env g tool spec args =
     (if sp_source spec = ''mcp'' then call_mcp env g spec args else call_local env g tool args)"

definition gw_call ::
  "'w env \<Rightarrow> 'w gateway \<Rightarrow> string \<Rightarrow> jdict \<Rightarrow> string \<Rightarrow> 'w sys \<Rightarrow> tool_call_record \<times> 'w sys"
where
  "gw_call env g tool args tid s =
     (let etid = (if tid = [] then gw_current_task_id g else tid)
      in case gw_get_tool g tool of
           None \<Rightarrow>
             (let (h, s1) = sys_fresh env s;
                  r = (new_call_record (uuid_text h) tool args (sys_now env s1))
                        \<lparr>cr_status := CFailed, cr_success := False,
                         cr_error := JStr (tx_tool_unregistered tool)\<rparr>
              in (r, record_tool_metrics tool r etid s1))
         | Some spec \<Rightarrow>
             (let (r, w) = with_retry (gw_attempt env g tool spec args) (max_retries spec) (sy_world s)
              in (r, record_tool_metrics tool r etid (s\<lparr>sy_world := w\<rparr>))))"

subsection \<open>Registration facts\<close>

lemma gw_get_tool_register:
  "gw_get_tool (gw_register spec f g) n = (if n = sp_tool_name spec then Some spec else gw_get_tool g n)"
  by (simp add: gw_get_tool_def gw_register_def)

lemma parse_allowlist_clean: "v \<in> set (parse_allowlist raw) \<Longrightarrow> v \<noteq> []"
  by (cases raw) (auto simp: parse_allowlist_def)

text \<open>Every registered tool sits under its own name.\<close>

definition registry_ok :: "'w gateway \<Rightarrow> bool" where
  "registry_ok g \<longleftrightarrow> (\<forall>n spec. gw_get_tool g n = Some spec \<longrightarrow> sp_tool_name spec = n)"

lemma registry_ok_init: "registry_ok gateway_init"
  by (simp add: registry_ok_def gw_get_tool_def gateway_init_def)

lemma registry_ok_register: "registry_ok g \<Longrightarrow> registry_ok (gw_register spec f g)"
  by (simp add: registry_ok_def gw_get_tool_register)

lemma gw_add_mcp_simps [simp]:
  "gw_get_tool (gw_add_mcp spec g) n = (if n = sp_tool_name spec then Some spec else gw_get_tool g n)"
  "is_mcp_tool_allowed (gw_add_mcp spec g) = is_mcp_tool_allowed g"
  by (simp_all add: gw_add_mcp_def gw_get_tool_def is_mcp_tool_allowed_def fun_eq_iff)

lemma mcp_spec_simps [simp]:
  "sp_tool_name (mcp_spec server ti) = mi_name ti"
  "sp_source (mcp_spec server ti) = ''mcp''"
  "sp_server_name (mcp_spec server ti) = Some server"
  "sp_mcp_tool_name (mcp_spec server ti) = Some (mi_name ti)"
  by (simp_all add: mcp_spec_def new_spec_def)

lemma registry_ok_add_mcp: "registry_ok g \<Longrightarrow> registry_ok (gw_add_mcp spec g)"
  by (simp add: registry_ok_def)

lemma registry_ok_discover_loop: "registry_ok g \<Longrightarrow> registry_ok (snd (discover_loop server tis g))"
  by (induction tis arbitrary: g) (simp_all add: unlet registry_ok_add_mcp)

text \<open>Discovery registers exactly the allowed tools, in the server's order.\<close>

lemma discover_loop_specs:
  "fst (discover_loop server tis g) =
     map (mcp_spec server) (filter (\<lambda>ti. is_mcp_tool_allowed g server (mi_name ti)) tis)"
  by (induction tis arbitrary: g) (simp_all add: unlet)

subsection \<open>Outcome of a call\<close>

text \<open>
  A finished record is consistent: completed exactly when successful, failed otherwise, and a
  successful one carries no error.
\<close>

definition record_ok :: "tool_call_record \<Rightarrow> bool" where
  "record_ok r \<longleftrightarrow>
     (if cr_success r then cr_status r = CCompleted \<and> cr_error r = JNull
      else cr_status r = CFailed)"

lemma record_ok_refuse [simp]: "record_ok (refuse_call msg r)"
  by (simp add: record_ok_def refuse_call_def)

lemma refuse_call_not_success [simp]: "\<not> cr_success (refuse_call msg r)"
  by (simp add: refuse_call_def)

lemma record_ok_retry_count [simp]: "record_ok (r\<lparr>cr_retry_count := n\<rparr>) = record_ok r"
  by (simp add: record_ok_def)

lemma running_record_error [simp]: "cr_error (fst (running_record env tool args w)) = JNull"
  by (simp add: running_record_def new_call_record_def unlet)

lemma record_ok_finish: "cr_error r = JNull \<Longrightarrow> record_ok (fst (finish_call env r t out))"
  by (simp add: finish_call_def record_ok_def unlet split: sum.split)

lemma record_ok_call_local: "record_ok (fst (call_local env g tool args w))"
  by (simp add: call_local_def unlet record_ok_finish split: option.split)

lemma record_ok_call_mcp: "record_ok (fst (call_mcp env g spec args w))"
  by (simp add: call_mcp_def unlet record_ok_finish Let_def split: option.split)

lemma record_ok_gw_attempt: "record_ok (fst (gw_attempt env g tool spec args w))"
  by (simp add: gw_attempt_def record_ok_call_local record_ok_call_mcp)

text \<open>The \<open>k\<close>-th attempt, counted from 0, when attempts follow one another.\<close>

primrec attempt_at :: "('w \<Rightarrow> tool_call_record \<times> 'w) \<Rightarrow> nat \<Rightarrow> 'w \<Rightarrow> tool_call_record \<times> 'w" where
  "attempt_at a 0 w = a w"
| "attempt_at a (Suc k) w = attempt_at a k (snd (a w))"

definition stamped :: "nat \<Rightarrow> tool_call_record \<times> 'w \<Rightarrow> tool_call_record \<times> 'w" where
  "stamped k out = ((fst out)\<lparr>cr_retry_count := int k\<rparr>, snd out)"

text \<open>The attempt a retried call reports: the first to succeed, or the last one allowed.\<close>

definition reported_attempt :: "('w \<Rightarrow> tool_call_record \<times> 'w) \<Rightarrow> nat \<Rightarrow> 'w \<Rightarrow> nat \<Rightarrow> bool" where
  "reported_attempt a m w k \<longleftrightarrow>
     k \<le> m \<and> (\<forall>j<k. \<not> cr_success (fst (attempt_at a j w))) \<and>
     (cr_success (fst (attempt_at a k w)) \<or> k = m)"

lemma retry_loop_reports:
  "\<exists>k. reported_attempt a (nat (maxr - n)) w k \<and>
       retry_loop a maxr n (fst (a w)) (snd (a w)) =
         ((fst (attempt_at a k w))\<lparr>cr_retry_count := n + int k\<rparr>, snd (attempt_at a k w))"
proof (induction "nat (maxr - n)" arbitrary: n w)
  case 0
  then have "\<not> n < maxr" by simp
  with 0 show ?case
    by (intro exI [of _ 0]) (simp add: reported_attempt_def retry_loop.simps)
next
  case (Suc m)
  then have lt: "n < maxr" and m: "m = nat (maxr - (n + 1))" by simp_all
  show ?case
  proof (cases "cr_success (fst (a w))")
    case True
    then show ?thesis
      by (intro exI [of _ 0]) (simp add: reported_attempt_def retry_loop.simps)
  next
    case False
    let ?w = "snd (a w)"
    obtain k where k: "reported_attempt a (nat (maxr - (n + 1))) ?w k"
      and eq: "retry_loop a maxr (n + 1) (fst (a ?w)) (snd (a ?w)) =
         ((fst (attempt_at a k ?w))\<lparr>cr_retry_count := n + 1 + int k\<rparr>, snd (attempt_at a k ?w))"
      using Suc.hyps(1) [OF m] by blast
    have "reported_attempt a (nat (maxr - n)) w (Suc k)"
      using k False Suc.hyps(2) m by (auto simp: reported_attempt_def less_Suc_eq_0_disj)
    moreover have "retry_loop a maxr n (fst (a w)) ?w =
        retry_loop a maxr (n + 1) (fst (a ?w)) (snd (a ?w))"
      using False lt by (simp add: retry_loop.simps [of a maxr n] unlet)
    ultimately show ?thesis
      using eq by (intro exI [of _ "Suc k"]) (simp add: add.assoc)
  qed
qed

lemma with_retry_reports:
  "\<exists>k. reported_attempt a (nat maxr) w k \<and> with_retry a maxr w = stamped k (attempt_at a k w)"
  using retry_loop_reports [of a maxr 0 w]
  by (simp add: with_retry_def unlet stamped_def)

lemma attempt_at_all: "(\<And>w. P (fst (a w))) \<Longrightarrow> P (fst (attempt_at a k w))"
  by (induction k arbitrary: w) auto

lemma record_ok_with_retry:
  assumes "\<And>w. record_ok (fst (a w))"
  shows "record_ok (fst (with_retry a maxr w))"
proof -
  obtain k where "with_retry a maxr w = stamped k (attempt_at a k w)"
    using with_retry_reports [of a maxr w] by blast
  with attempt_at_all [of record_ok a k w, OF assms] show ?thesis
    by (simp add: stamped_def)
qed

lemma record_ok_gw_call: "record_ok (fst (gw_call env g tool args tid s))"
proof (cases "gw_get_tool g tool")
  case None
  then show ?thesis
    by (simp add: gw_call_def unlet record_ok_def)
next
  case (Some spec)
  then show ?thesis
    by (simp add: gw_call_def unlet record_ok_with_retry record_ok_gw_attempt)
qed

lemma record_tool_metrics_frame [frame, simp]:
  "sy_world (record_tool_metrics tool r tid s) = sy_world s"
  "sy_trace (record_tool_metrics tool r tid s) = sy_trace s"
  "sy_audit (record_tool_metrics tool r tid s) = sy_audit s"
  "sy_memory (record_tool_metrics tool r tid s) = sy_memory s"
  "sy_approvals (record_tool_metrics tool r tid s) = sy_approvals s"
  "sy_tasks (record_tool_metrics tool r tid s) = sy_tasks s"
  "sy_ckpts (record_tool_metrics tool r tid s) = sy_ckpts s"
  by (simp_all add: record_tool_metrics_def)

text \<open>A call touches the world and the metrics only.\<close>

lemma gw_call_frame [frame, simp]:
  "sy_trace (snd (gw_call env g tool args tid s)) = sy_trace s"
  "sy_audit (snd (gw_call env g tool args tid s)) = sy_audit s"
  "sy_memory (snd (gw_call env g tool args tid s)) = sy_memory s"
  "sy_approvals (snd (gw_call env g tool args tid s)) = sy_approvals s"
  "sy_tasks (snd (gw_call env g tool args tid s)) = sy_tasks s"
  "sy_ckpts (snd (gw_call env g tool args tid s)) = sy_ckpts s"
  by (simp_all add: gw_call_def unlet split: option.split)

lemma gw_call_unregistered:
  "gw_get_tool g tool = None \<Longrightarrow>
     \<not> cr_success (fst (gw_call env g tool args tid s)) \<and>
     cr_error (fst (gw_call env g tool args tid s)) = JStr (tx_tool_unregistered tool)"
  by (simp add: gw_call_def unlet)

subsection \<open>The contract callers rely on\<close>

text \<open>
  What the pipelines and the resume services assume of the gateway they are given: a call
  always answers with a consistent record and leaves every table and log alone.
\<close>

locale tool_runner =
  fixes run :: "string \<Rightarrow> jdict \<Rightarrow> 'w sys \<Rightarrow> tool_call_record \<times> 'w sys"
  assumes run_record_ok: "record_ok (fst (run tool args s))"
    and run_trace: "sy_trace (snd (run tool args s)) = sy_trace s"
    and run_audit: "sy_audit (snd (run tool args s)) = sy_audit s"
    and run_memory: "sy_memory (snd (run tool args s)) = sy_memory s"
    and run_approvals: "sy_approvals (snd (run tool args s)) = sy_approvals s"
    and run_tasks: "sy_tasks (snd (run tool args s)) = sy_tasks s"
    and run_ckpts: "sy_ckpts (snd (run tool args s)) = sy_ckpts s"
begin

lemmas run_frame = run_trace run_audit run_memory run_approvals run_tasks run_ckpts

lemma run_success_no_error: "cr_success (fst (run tool args s)) \<Longrightarrow> cr_error (fst (run tool args s)) = JNull"
  using run_record_ok [of tool args s] by (simp add: record_ok_def)

end

interpretation gw: tool_runner "\<lambda>tool args s. gw_call env g tool args tid s" for env g tid
  by unfold_locales (simp_all add: record_ok_gw_call)

text \<open>
  C21. The gateway reports the first successful attempt among the first \<open>max_retries + 1\<close>, or the
  last one when none succeeds, stamped with the number of retries; the world is the one that
  attempt left.
\<close>

theorem gw_call_reports_first_success:
  assumes "gw_get_tool g tool = Some spec"
  shows "\<exists>k. reported_attempt (gw_attempt env g tool spec args) (nat (max_retries spec)) (sy_world s) k \<and>
           (fst (gw_call env g tool args tid s), sy_world (snd (gw_call env g tool args tid s))) =
             stamped k (attempt_at (gw_attempt env g tool spec args) k (sy_world s))"
proof -
  obtain k where k: "reported_attempt (gw_attempt env g tool spec args) (nat (max_retries spec)) (sy_world s) k"
    "with_retry (gw_attempt env g tool spec args) (max_retries spec) (sy_world s) =
       stamped k (attempt_at (gw_attempt env g tool spec args) k (sy_world s))"
    using with_retry_reports [of "gw_attempt env g tool spec args" "max_retries spec" "sy_world s"]
    by blast
  with assms show ?thesis
    by (intro exI [of _ k]) (simp add: gw_call_def unlet)
qed

definition flaky_tool :: "nat callable" where
  "flaky_tool args w = (if w < 4 then Inl ''boom'' else Inr (JInt 7), w + 1)"

definition flaky_gateway :: "nat gateway" where
  "flaky_gateway = gw_register
     ((new_spec ''flaky'')\<lparr>sp_retry_policy := [(''max_retries'', 2)]\<rparr>) flaky_tool gateway_init"

lemmas gateway_eval = gw_call_def gw_attempt_def call_local_def running_record_def finish_call_def
  with_retry_def retry_loop.simps unlet new_call_record_def gw_get_tool_def gw_register_def
  gateway_init_def dput_def new_spec_def max_retries_def refuse_call_def

lemma flaky_gateway_tool:
  "gw_get_tool flaky_gateway ''flaky'' =
     Some ((new_spec ''flaky'')\<lparr>sp_retry_policy := [(''max_retries'', 2)]\<rparr>)"
  by (simp add: flaky_gateway_def gw_get_tool_register new_spec_def)

theorem gw_call_reports_first_success_witness:
  "(\<exists>k. reported_attempt (gw_attempt demo_env flaky_gateway ''flaky''
        ((new_spec ''flaky'')\<lparr>sp_retry_policy := [(''max_retries'', 2)]\<rparr>) [])
      (nat (max_retries ((new_spec ''flaky'')\<lparr>sp_retry_policy := [(''max_retries'', 2)]\<rparr>)))
      (sy_world (sys_init 1)) k) \<and>
   cr_success (fst (gw_call demo_env flaky_gateway ''flaky'' [] [] (sys_init 1))) \<and>
   cr_retry_count (fst (gw_call demo_env flaky_gateway ''flaky'' [] [] (sys_init 1))) = 1"
proof -
  have "cr_success (fst (gw_call demo_env flaky_gateway ''flaky'' [] [] (sys_init 1))) \<and>
    cr_retry_count (fst (gw_call demo_env flaky_gateway ''flaky'' [] [] (sys_init 1))) = 1"
    by (simp add: gateway_eval flaky_gateway_def flaky_tool_def demo_env_def demo_fresh_def sys_init_def)
  then show ?thesis
    using gw_call_reports_first_success [OF flaky_gateway_tool, of demo_env "[]" "sys_init 1" "[]"]
    by blast
qed

text \<open>
  An MCP tool outside its server's allowlist is never sent to the server: the call fails, and
  its result and the state it leaves are the same whatever client is connected.
\<close>

lemma mcp_allowlist_enforced:
  assumes "gw_get_tool g tool = Some spec" and "sp_source spec = ''mcp''"
    and "sp_server_name spec = Some server" and "sp_mcp_tool_name spec = Some mt" and "mt \<noteq> []"
    and "map_of (gw_mcp_tool_allowlists g) server = Some al" and "al \<noteq> []" and "mt \<notin> set al"
    and "map_of (gw_mcp_clients g) server = Some client"
  shows "\<not> cr_success (fst (gw_call env g tool args tid s)) \<and>
         gw_call env (g\<lparr>gw_mcp_clients := dput (gw_mcp_clients g) server other\<rparr>) tool args tid s =
           gw_call env g tool args tid s"
proof -
  let ?g = "g\<lparr>gw_mcp_clients := dput (gw_mcp_clients g) server other\<rparr>"
  have refuse: "call_mcp env g spec args =
      (\<lambda>w. (refuse_call (tx_mcp_not_allowed mt) (fst (running_record env (sp_tool_name spec) args w)),
            snd (running_record env (sp_tool_name spec) args w)))"
    using assms by (simp add: call_mcp_def unlet is_mcp_tool_allowed_def fun_eq_iff)
  have other: "call_mcp env ?g spec args = call_mcp env g spec args"
    using assms by (simp add: call_mcp_def unlet is_mcp_tool_allowed_def fun_eq_iff)
  have "\<not> cr_success (fst (with_retry (call_mcp env g spec args) m w))" for m w
  proof -
    obtain k where "with_retry (call_mcp env g spec args) m w =
        stamped k (attempt_at (call_mcp env g spec args) k w)"
      using with_retry_reports [of "call_mcp env g spec args" m w] by blast
    moreover have "\<not> cr_success (fst (attempt_at (call_mcp env g spec args) k w))"
      by (rule attempt_at_all) (simp add: refuse)
    ultimately show ?thesis by (simp add: stamped_def)
  qed
  with assms(1,2) other show ?thesis
    by (simp add: gw_call_def gw_attempt_def unlet gw_get_tool_def)
qed

definition demo_client :: "nat mcp_client" where
  "demo_client = \<lparr>mc_list_tools = (\<lambda>w. (Inr [\<lparr>mi_name = ''wipe'', mi_description = [],
       mi_input_schema = [], mi_output_schema = [], mi_risk_level = RLow,
       mi_permission_scope = ''read''\<rparr>], w)),
     mc_call_tool = (\<lambda>t args w. (Inr (JStr ''wiped''), w + 100))\<rparr>"

definition demo_mcp_gateway :: "nat gateway" where
  "demo_mcp_gateway = \<lparr>gw_registry = [(''wipe'', (mcp_spec ''srv''
       \<lparr>mi_name = ''wipe'', mi_description = [], mi_input_schema = [], mi_output_schema = [],
        mi_risk_level = RLow, mi_permission_scope = ''read''\<rparr>))],
     gw_callables = [(''wipe'', None)], gw_mcp_clients = [(''srv'', demo_client)],
     gw_mcp_tool_allowlists = [(''srv'', [''search''])], gw_current_task_id = []\<rparr>"

end
