(* ===== verification/Policy.thy ===== *)
theory Policy
  imports Tool_Gateway
begin

text \<open>
  \<open>OperationWhitelist\<close> and \<open>PolicyEngine\<close> (\<open>app/harness/policy\<close>). The whitelist holds the gateway
  only to look tools up, so it holds that lookup.
\<close>

subsection \<open>Operation whitelist\<close>

record operation_decision =
  od_allowed :: bool
  od_reason :: string
  od_operation :: string
  od_scope :: "string option"

type_synonym tool_lookup = "string \<Rightarrow> tool_spec option"

record whitelist =
  wl_gateway :: "tool_lookup option"

definition restricted_scopes :: "string list" where
  "restricted_scopes = [''write'', ''admin'', ''schema'']"

definition wl_check_nl2sql :: "string \<Rightarrow> string option \<Rightarrow> operation_decision" where
  "wl_check_nl2sql tool scope =
     (case scope of
        Some sc \<Rightarrow>
          (if sc \<in> set restricted_scopes
           then \<lparr>od_allowed = False, od_reason = tx_nl2sql_scope sc, od_operation = tool, od_scope = scope\<rparr>
           else \<lparr>od_allowed = True, od_reason = [], od_operation = tool, od_scope = scope\<rparr>)
      | None \<Rightarrow> \<lparr>od_allowed = True, od_reason = [], od_operation = tool, od_scope = scope\<rparr>)"

definition wl_check_tool_registered ::
  "whitelist \<Rightarrow> string \<Rightarrow> string option \<Rightarrow> string option \<Rightarrow> operation_decision"
where
  "wl_check_tool_registered wl tool risk scope =
     (let ok = \<lparr>od_allowed = True, od_reason = [], od_operation = tool, od_scope = scope\<rparr>
      in case wl_gateway wl of
           None \<Rightarrow> ok
         | Some get_tool \<Rightarrow>
             (case get_tool tool of
                None \<Rightarrow> \<lparr>od_allowed = False, od_reason = tx_not_in_gateway tool,
                         od_operation = tool, od_scope = scope\<rparr>
              | Some spec \<Rightarrow>
                  (if sp_permission_scope spec \<in> set restricted_scopes \<and> risk \<noteq> Some ''high''
                   then \<lparr>od_allowed = False,
                         od_reason = tx_scope_not_direct tool (sp_permission_scope spec),
                         od_operation = tool, od_scope = Some (sp_permission_scope spec)\<rparr>
                   else ok)))"

definition wl_check_resume ::
  "whitelist \<Rightarrow> string \<Rightarrow> string option \<Rightarrow> string option \<Rightarrow> operation_decision"
where
  "wl_check_resume wl tool risk scope = wl_check_tool_registered wl tool risk scope"

definition wl_is_allowed ::
  "whitelist \<Rightarrow> string \<Rightarrow> string \<Rightarrow> string option \<Rightarrow> string option \<Rightarrow> operation_decision"
where
  "wl_is_allowed wl tool mode risk scope =
     (if mode = ''nl2sql'' then wl_check_nl2sql tool scope
      else if mode \<in> {''keyword'', ''multitool'', ''multi_agent''}
        then wl_check_tool_registered wl tool risk scope
      else if mode = ''approval_resume'' then wl_check_resume wl tool risk scope
      else wl_check_tool_registered wl tool risk scope)"

text \<open>\<open>check_payload_integrity\<close>: the resumed payload still names the approved tool and a planned step.\<close>

definition wl_check_payload_integrity :: "jdict \<Rightarrow> string \<Rightarrow> jdict list option \<Rightarrow> operation_decision" where
  "wl_check_payload_integrity payload approved_tool plan_steps =
     (let ptool = dget_or payload ''tool_name'' (JStr []);
          ok = \<lparr>od_allowed = True, od_reason = [], od_operation = approved_tool, od_scope = None\<rparr>
      in if truthy ptool \<and> ptool \<noteq> JStr approved_tool
         then \<lparr>od_allowed = False, od_reason = tx_payload_tool_mismatch (or_str ptool) approved_tool,
               od_operation = or_str ptool, od_scope = None\<rparr>
         else case plan_steps of
                None \<Rightarrow> ok
              | Some steps \<Rightarrow>
                  (let sid = dget_or payload ''step_id'' (JStr []);
                       found = list_ex (\<lambda>s. dget s ''step_id'' = sid) steps
                   in if truthy sid \<and> \<not> found
                      then \<lparr>od_allowed = False, od_reason = tx_step_not_in_plan (or_str sid),
                            od_operation = or_str sid, od_scope = None\<rparr>
                      else ok))"

subsection \<open>Policy engine\<close>

record policy_engine =
  pe_whitelist :: "whitelist option"

record policy_decision =
  pd_action :: string
  pd_risk_level :: "string option"
  pd_allowed :: bool
  pd_requires_approval :: bool
  pd_reason :: string
  pd_error_type :: "string option"

definition pe_check :: "string \<Rightarrow> risk_level option \<Rightarrow> bool" where
  "pe_check action risk = (if risk = Some RHigh then False else True)"

definition ctx_text :: "jdict option \<Rightarrow> string \<Rightarrow> string option" where
  "ctx_text ctx k =
     (case dget (case ctx of None \<Rightarrow> [] | Some c \<Rightarrow> c) k of JStr s \<Rightarrow> Some s | _ \<Rightarrow> None)"

definition pe_evaluate ::
  "policy_engine \<Rightarrow> string \<Rightarrow> risk_level option \<Rightarrow> jdict option \<Rightarrow> policy_decision"
where
  "pe_evaluate pe action risk ctx =
     (let rv = map_option risk_level_value risk;
          refused = (case pe_whitelist pe of
             None \<Rightarrow> None
           | Some wl \<Rightarrow>
               (let mode = (case ctx_text ctx ''mode'' of None \<Rightarrow> [] | Some m \<Rightarrow> m);
                    d = wl_is_allowed wl action mode rv (ctx_text ctx ''permission_scope'')
                in if od_allowed d then None else Some d))
      in case refused of
           Some d \<Rightarrow>
             \<lparr>pd_action = action, pd_risk_level = rv, pd_allowed = False,
              pd_requires_approval = False, pd_reason = tx_not_in_whitelist (od_reason d),
              pd_error_type = Some ''operation_not_whitelisted''\<rparr>
         | None \<Rightarrow>
             (let allowed = pe_check action risk
              in \<lparr>pd_action = action, pd_risk_level = rv, pd_allowed = allowed,
                  pd_requires_approval = \<not> allowed,
                  pd_reason = (if allowed then [] else tx_high_risk_needs_approval action),
                  pd_error_type = None\<rparr>))"

text \<open>The decision as the dict the source returns, with its key order.\<close>

definition policy_decision_dict :: "policy_decision \<Rightarrow> jdict" where
  "policy_decision_dict d =
     (case pd_error_type d of
        Some e \<Rightarrow>
          [(''action'', JStr (pd_action d)), (''risk_level'', opt_str (pd_risk_level d)),
           (''allowed'', JBool (pd_allowed d)), (''requires_approval'', JBool (pd_requires_approval d)),
           (''reason'', JStr (pd_reason d)), (''error_type'', JStr e)]
      | None \<Rightarrow>
          [(''action'', JStr (pd_action d)), (''risk_level'', opt_str (pd_risk_level d)),
           (''allowed'', JBool (pd_allowed d)), (''reason'', JStr (pd_reason d)),
           (''requires_approval'', JBool (pd_requires_approval d))])"

subsection \<open>Facts\<close>

lemma pe_evaluate_exclusive [simp]:
  "pd_allowed (pe_evaluate pe a r c) \<Longrightarrow> \<not> pd_requires_approval (pe_evaluate pe a r c)"
  by (auto simp: pe_evaluate_def Let_def split: option.splits if_splits)

lemma pe_evaluate_high: "\<not> pd_allowed (pe_evaluate pe a (Some RHigh) c)"
  by (simp add: pe_evaluate_def Let_def pe_check_def split: option.split)

lemma pe_evaluate_approval_high:
  "pd_requires_approval (pe_evaluate pe a r c) \<Longrightarrow> r = Some RHigh"
  by (auto simp: pe_evaluate_def Let_def pe_check_def split: option.splits if_splits)

lemma risk_value_high [simp]: "risk_level_value r = ''high'' \<longleftrightarrow> r = RHigh"
  by (cases r) simp_all

text \<open>The engine the runtime builds: a whitelist over the gateway itself.\<close>

definition runtime_policy :: "'w gateway \<Rightarrow> policy_engine" where
  "runtime_policy g = \<lparr>pe_whitelist = Some \<lparr>wl_gateway = Some (gw_get_tool g)\<rparr>\<rparr>"

lemma runtime_policy_cases:
  "pd_allowed (pe_evaluate (runtime_policy g) tool (Some r) None) \<longleftrightarrow>
     (\<exists>spec. gw_get_tool g tool = Some spec \<and> r \<noteq> RHigh \<and>
        sp_permission_scope spec \<notin> set restricted_scopes)"
  "pd_requires_approval (pe_evaluate (runtime_policy g) tool (Some r) None) \<longleftrightarrow>
     gw_get_tool g tool \<noteq> None \<and> r = RHigh"
  by (auto simp: pe_evaluate_def runtime_policy_def wl_is_allowed_def wl_check_tool_registered_def
      ctx_text_def pe_check_def Let_def split: option.splits if_splits)

text \<open>
  The three-way decision of the runtime's policy on a registered tool, evaluated at the tool's
  own risk level: run it directly exactly when it is neither high-risk nor of a write, admin or
  schema scope; ask for approval exactly when it is high-risk; refuse it otherwise.
\<close>

lemma policy_decides_registered_tool:
  assumes "gw_get_tool g tool = Some spec"
  shows "let d = pe_evaluate (runtime_policy g) tool (Some (sp_risk_level spec)) None in
     (pd_allowed d \<longleftrightarrow> sp_risk_level spec \<noteq> RHigh \<and> sp_permission_scope spec \<notin> {''write'', ''admin'', ''schema''}) \<and>
     (pd_requires_approval d \<longleftrightarrow> sp_risk_level spec = RHigh) \<and>
     (pd_error_type d = Some ''operation_not_whitelisted'' \<longleftrightarrow>
        sp_risk_level spec \<noteq> RHigh \<and> sp_permission_scope spec \<in> {''write'', ''admin'', ''schema''})"
  using assms
  by (auto simp: pe_evaluate_def runtime_policy_def wl_is_allowed_def wl_check_tool_registered_def
      ctx_text_def pe_check_def Let_def restricted_scopes_def)

definition refund_spec :: tool_spec where
  "refund_spec = (new_spec ''simulate_refund_order'')\<lparr>sp_risk_level := RHigh, sp_permission_scope := ''write''\<rparr>"

definition refund_gateway :: "nat gateway" where
  "refund_gateway = gw_register refund_spec (\<lambda>args w. (Inr (JObj [(''simulated'', JBool True)]), w + 1)) gateway_init"

lemma refund_gateway_tool [simp]: "gw_get_tool refund_gateway ''simulate_refund_order'' = Some refund_spec"
  by (simp add: refund_gateway_def gw_get_tool_register refund_spec_def new_spec_def)

text \<open>
  Payload integrity: whatever passes the check names the approved tool or no tool, and, when a
  plan is given, a step of that plan or no step.
\<close>

lemma payload_integrity_sound:
  assumes "od_allowed (wl_check_payload_integrity payload approved_tool plan_steps)"
  shows "(\<not> truthy (dget payload ''tool_name'') \<or> dget payload ''tool_name'' = JStr approved_tool) \<and>
         (\<forall>steps. plan_steps = Some steps \<longrightarrow>
            \<not> truthy (dget payload ''step_id'') \<or>
            (\<exists>s \<in> set steps. dget s ''step_id'' = dget payload ''step_id''))"
  using assms
  by (auto simp: wl_check_payload_integrity_def Let_def dget_or_truthy list_ex_iff
      split: if_splits option.splits)

subsection \<open>Gateways of the witnesses\<close>

lemma refund_gateway_tools:
  "gw_get_tool refund_gateway t = (if t = ''simulate_refund_order'' then Some refund_spec else None)"
  by (simp add: refund_gateway_def gw_get_tool_register refund_spec_def new_spec_def)
     (simp add: gw_get_tool_def gateway_init_def)

definition promo_gateway :: "nat gateway" where
  "promo_gateway = gw_register (new_spec ''rule_lookup'')
     (\<lambda>args w. (Inr (JObj [(''rule'', JStr ''half price'')]), w + 1)) refund_gateway"

lemma promo_gateway_tools:
  "gw_get_tool promo_gateway t =
     (if t = ''rule_lookup'' then Some (new_spec t)
      else if t = ''simulate_refund_order'' then Some refund_spec else None)"
  by (simp add: promo_gateway_def refund_gateway_def gw_get_tool_register refund_spec_def new_spec_def)
     (simp add: gw_get_tool_def gateway_init_def)

lemma promo_call:
  "\<exists>r s'. gw_call demo_env promo_gateway ''rule_lookup'' args [] s = (r, s') \<and> cr_success r \<and>
     cr_result r = JObj [(''rule'', JStr ''half price'')]"
proof -
  have "gw_get_tool promo_gateway ''rule_lookup'' = Some (new_spec ''rule_lookup'')"
    by (simp add: promo_gateway_tools)
  moreover have "map_of (gw_callables promo_gateway) ''rule_lookup'' =
      Some (Some (\<lambda>args w. (Inr (JObj [(''rule'', JStr ''half price'')]), w + 1)))"
    by (simp add: promo_gateway_def gw_register_def new_spec_def dput_def update_conv')
  ultimately show ?thesis
    by (simp add: gw_call_def gw_attempt_def call_local_def running_record_def finish_call_def
        with_retry_def retry_loop.simps unlet new_call_record_def new_spec_def max_retries_def)
qed

text \<open>A tool of a write scope that is not high-risk: the policy refuses it outright.\<close>

definition write_gateway :: "nat gateway" where
  "write_gateway = gw_register ((new_spec ''date_lookup'')\<lparr>sp_permission_scope := ''write''\<rparr>)
     (\<lambda>args w. (Inr (JObj [(''date'', JStr ''2026'')]), w + 1)) gateway_init"

lemma write_gateway_tools:
  "gw_get_tool write_gateway t =
     (if t = ''date_lookup'' then Some ((new_spec t)\<lparr>sp_permission_scope := ''write''\<rparr>) else None)"
  by (simp add: write_gateway_def gw_get_tool_register new_spec_def)
     (simp add: gw_get_tool_def gateway_init_def)

end
