(* ===== verification/Planner.thy ===== *)
theory Planner
  imports Texts Schemas
begin

text \<open>
  The keyword planner and the rule table it shares with the coordinator
  (\<open>app/agent/nodes/planner.py\<close>), and the multi-tool planner with its three fixed plans
  (\<open>app/agent/nodes/multitool_planner.py\<close>). The boolean switches of \<open>settings\<close> are a function from
  their names, false for a name the settings do not have.
\<close>

subsection \<open>Routing rules\<close>

record routing_rule =
  rr_keywords :: "string list"
  rr_tool_name :: "string option"
  rr_label :: "string option"
  rr_action :: string
  rr_selected_mode :: string
  rr_switch :: "string option"

definition ROUTING_RULE_SOURCE :: "routing_rule list" where
  "ROUTING_RULE_SOURCE =
   [\<lparr>rr_keywords = [kw_gmv_mom, kw_mom_growth, kw_refund_rule, kw_refund_policy, kw_promotion_rule],
     rr_tool_name = None, rr_label = None, rr_action = ''compound_tool_query'',
     rr_selected_mode = ''multitool'', rr_switch = None\<rparr>,
    \<lparr>rr_keywords = [kw_simulate_refund, kw_refund_drill],
     rr_tool_name = Some ''simulate_refund_order'', rr_label = Some lb_simulate_refund,
     rr_action = ''high_risk_operation'', rr_selected_mode = ''keyword'',
     rr_switch = Some ''demo_high_risk_tool_enabled''\<rparr>,
    \<lparr>rr_keywords = [kw_what_date, kw_current_date, kw_date],
     rr_tool_name = Some ''date_lookup'', rr_label = Some lb_date,
     rr_action = ''simple_query'', rr_selected_mode = ''keyword'', rr_switch = None\<rparr>,
    \<lparr>rr_keywords = [kw_gmv_upper, kw_gmv_lower, kw_sales],
     rr_tool_name = Some ''get_today_gmv'', rr_label = Some lb_today_gmv,
     rr_action = ''data_query'', rr_selected_mode = ''nl2sql'', rr_switch = None\<rparr>,
    \<lparr>rr_keywords = [kw_new_users, kw_users],
     rr_tool_name = Some ''get_month_new_users'', rr_label = Some lb_month_new_users,
     rr_action = ''data_query'', rr_selected_mode = ''nl2sql'', rr_switch = None\<rparr>,
    \<lparr>rr_keywords = [kw_orders, kw_order_volume],
     rr_tool_name = Some ''get_order_count'', rr_label = Some lb_order_count,
     rr_action = ''data_query'', rr_selected_mode = ''nl2sql'', rr_switch = None\<rparr>,
    \<lparr>rr_keywords = [kw_top_products, kw_best_selling, kw_popular_products, kw_top_products_lower],
     rr_tool_name = Some ''get_top_products'', rr_label = Some lb_top_products,
     rr_action = ''data_query'', rr_selected_mode = ''nl2sql'', rr_switch = None\<rparr>,
    \<lparr>rr_keywords = [kw_refund_rate, kw_refund],
     rr_tool_name = Some ''get_refund_rate'', rr_label = Some lb_refund_rate,
     rr_action = ''data_query'', rr_selected_mode = ''nl2sql'', rr_switch = None\<rparr>]"

type_synonym switches = "string \<Rightarrow> bool"

definition rule_enabled :: "switches \<Rightarrow> routing_rule \<Rightarrow> bool" where
  "rule_enabled sw r = (case rr_switch r of None \<Rightarrow> True | Some s \<Rightarrow> if s = [] then True else sw s)"

definition has_tool :: "routing_rule \<Rightarrow> bool" where
  "has_tool r = (case rr_tool_name r of None \<Rightarrow> False | Some t \<Rightarrow> t \<noteq> [])"

definition build_planner_rules :: "routing_rule list" where
  "build_planner_rules = filter has_tool ROUTING_RULE_SOURCE"

definition build_coordinator_rules :: "routing_rule list" where
  "build_coordinator_rules = ROUTING_RULE_SOURCE"

definition matched_keywords :: "routing_rule \<Rightarrow> string \<Rightarrow> string list" where
  "matched_keywords r q = filter (\<lambda>kw. str_in kw q) (rr_keywords r)"

subsection \<open>Keyword planner\<close>

fun planner_scan :: "switches \<Rightarrow> routing_rule list \<Rightarrow> string \<Rightarrow> jdict" where
  "planner_scan sw [] q = [(''tool_name'', JNull), (''matched'', JBool False), (''label'', JNull)]"
| "planner_scan sw (r # rs) q =
     (if \<not> rule_enabled sw r then planner_scan sw rs q
      else if list_ex (\<lambda>kw. str_in kw q) (rr_keywords r)
      then [(''tool_name'', opt_str (rr_tool_name r)), (''matched'', JBool True),
            (''label'', opt_str (rr_label r))]
      else planner_scan sw rs q)"

definition keyword_plan :: "switches \<Rightarrow> string \<Rightarrow> jdict" where
  "keyword_plan sw q = planner_scan sw build_planner_rules q"

fun label_scan :: "routing_rule list \<Rightarrow> string \<Rightarrow> json" where
  "label_scan [] t = JStr t"
| "label_scan (r # rs) t = (if rr_tool_name r = Some t then opt_str (rr_label r) else label_scan rs t)"

definition keyword_get_label :: "json \<Rightarrow> json" where
  "keyword_get_label tool =
     (if \<not> truthy tool then JStr lb_unknown else label_scan build_planner_rules (or_str tool))"

subsection \<open>The rule both planners pick\<close>

text \<open>\<open>_match_rule\<close> of the coordinator: the first enabled rule with a keyword in the query.\<close>

fun match_rule :: "switches \<Rightarrow> routing_rule list \<Rightarrow> string \<Rightarrow> (routing_rule \<times> string list) option" where
  "match_rule sw [] q = None"
| "match_rule sw (r # rs) q =
     (if \<not> rule_enabled sw r then match_rule sw rs q
      else if matched_keywords r q \<noteq> [] then Some (r, matched_keywords r q)
      else match_rule sw rs q)"

lemma matched_keywords_ex: "list_ex (\<lambda>kw. str_in kw q) (rr_keywords r) \<longleftrightarrow> matched_keywords r q \<noteq> []"
  by (auto simp: matched_keywords_def list_ex_iff filter_empty_conv)

lemma match_rule_in: "match_rule sw rs q = Some (r, kws) \<Longrightarrow> r \<in> set rs \<and> rule_enabled sw r \<and> kws = matched_keywords r q \<and> kws \<noteq> []"
  by (induction rs) (auto split: if_splits)

lemma planner_scan_filter:
  "match_rule sw rs q = Some (r, kws) \<Longrightarrow> has_tool r \<Longrightarrow>
     planner_scan sw (filter has_tool rs) q =
       [(''tool_name'', opt_str (rr_tool_name r)), (''matched'', JBool True), (''label'', opt_str (rr_label r))]"
  by (induction rs) (auto simp: matched_keywords_ex split: if_splits)

lemma planner_scan_unmatched:
  "match_rule sw rs q = None \<Longrightarrow>
     planner_scan sw (filter P rs) q = [(''tool_name'', JNull), (''matched'', JBool False), (''label'', JNull)]"
  by (induction rs) (auto simp: matched_keywords_ex split: if_splits)

text \<open>
  One rule table, one routing: where the coordinator's rule has a tool, the keyword planner
  picks that tool and label, and where the coordinator matches no rule the planner matches none.
\<close>

lemma planner_agrees_with_coordinator:
  "(case match_rule sw build_coordinator_rules q of
      None \<Rightarrow> dget (keyword_plan sw q) ''matched'' = JBool False
    | Some (r, kws) \<Rightarrow> has_tool r \<longrightarrow>
        dget (keyword_plan sw q) ''matched'' = JBool True \<and>
        dget (keyword_plan sw q) ''tool_name'' = opt_str (rr_tool_name r) \<and>
        dget (keyword_plan sw q) ''label'' = opt_str (rr_label r))"
proof (cases "match_rule sw build_coordinator_rules q")
  case None
  then show ?thesis
    by (simp add: keyword_plan_def build_planner_rules_def build_coordinator_rules_def planner_scan_unmatched)
next
  case (Some p)
  obtain r kws where "p = (r, kws)" by (cases p)
  with Some show ?thesis
    by (auto simp: keyword_plan_def build_planner_rules_def build_coordinator_rules_def
        dest: planner_scan_filter)
qed

definition rule_tool :: "(routing_rule \<times> string list) option \<Rightarrow> string option" where
  "rule_tool m = (case m of None \<Rightarrow> None | Some (r, kws) \<Rightarrow> if has_tool r then rr_tool_name r else None)"

text \<open>What a plan can name.\<close>

lemma planner_scan_tools:
  "dget (planner_scan sw rs q) ''matched'' = JBool True \<Longrightarrow>
     \<exists>r \<in> set rs. rule_enabled sw r \<and> dget (planner_scan sw rs q) ''tool_name'' = opt_str (rr_tool_name r)"
  by (induction rs) (auto split: if_splits)

lemma planner_rules_tools:
  "map rr_tool_name build_planner_rules =
     map Some [''simulate_refund_order'', ''date_lookup'', ''get_today_gmv'', ''get_month_new_users'',
       ''get_order_count'', ''get_top_products'', ''get_refund_rate'']"
  by (simp add: build_planner_rules_def ROUTING_RULE_SOURCE_def has_tool_def)

lemma planner_scan_tool_in:
  "dget (planner_scan sw rs q) ''tool_name'' = JStr t \<Longrightarrow> Some t \<in> rr_tool_name ` set rs"
  by (induction rs) (auto simp: opt_str_def split: if_splits option.splits)

lemma planner_tools_distinct: "distinct (map rr_tool_name build_planner_rules)"
  by (simp add: planner_rules_tools)

lemma planner_rules_hd:
  "hd build_planner_rules =
     \<lparr>rr_keywords = [kw_simulate_refund, kw_refund_drill],
      rr_tool_name = Some ''simulate_refund_order'', rr_label = Some lb_simulate_refund,
      rr_action = ''high_risk_operation'', rr_selected_mode = ''keyword'',
      rr_switch = Some ''demo_high_risk_tool_enabled''\<rparr>"
  by (simp add: build_planner_rules_def ROUTING_RULE_SOURCE_def has_tool_def)

lemma planner_scan_matched: "dget (planner_scan sw rs q) ''matched'' \<in> {JBool True, JBool False}"
  by (induction rs) auto

text \<open>
  The high-risk demo tool is planned exactly when its switch is on and the query holds one of
  its two phrases, whatever other phrases the query holds: it outranks the refund rule that its
  phrases contain.
\<close>

lemma high_risk_tool_planned_iff:
  "dget (keyword_plan sw q) ''tool_name'' = JStr ''simulate_refund_order'' \<longleftrightarrow>
     sw ''demo_high_risk_tool_enabled'' \<and> (str_in kw_simulate_refund q \<or> str_in kw_refund_drill q)"
proof -
  obtain r rest where split: "build_planner_rules = r # rest"
    by (cases build_planner_rules) (use planner_rules_tools in auto)
  have r: "rr_keywords r = [kw_simulate_refund, kw_refund_drill]"
    "rr_tool_name r = Some ''simulate_refund_order''" "rr_switch r = Some ''demo_high_risk_tool_enabled''"
    using planner_rules_hd by (simp_all add: split)
  have "rr_tool_name r \<notin> rr_tool_name ` set rest"
    using planner_tools_distinct by (simp add: split)
  then have "dget (planner_scan sw rest q) ''tool_name'' \<noteq> JStr ''simulate_refund_order''"
    using planner_scan_tool_in r(2) by metis
  then show ?thesis
    by (simp add: keyword_plan_def rule_enabled_def split r)
qed

subsection \<open>Multi-tool plans\<close>

record plan_step =
  ms_step_id :: string
  ms_tool_name :: string
  ms_arguments :: jdict
  ms_depends_on :: "string list"
  ms_save_as :: "string option"

record multi_tool_plan =
  mp_matched :: bool
  mp_intent :: string
  mp_steps :: "plan_step list"
  mp_response_template :: string
  mp_reason :: string

definition plan_step_dump :: "plan_step \<Rightarrow> jdict" where
  "plan_step_dump st =
     [(''step_id'', JStr (ms_step_id st)), (''tool_name'', JStr (ms_tool_name st)),
      (''arguments'', JObj (ms_arguments st)), (''depends_on'', jstrs (ms_depends_on st)),
      (''save_as'', opt_str (ms_save_as st))]"

definition plan_dump :: "multi_tool_plan \<Rightarrow> jdict" where
  "plan_dump p =
     [(''matched'', JBool (mp_matched p)), (''intent'', JStr (mp_intent p)),
      (''steps'', JList (map (\<lambda>st. JObj (plan_step_dump st)) (mp_steps p))),
      (''response_template'', JStr (mp_response_template p)), (''reason'', JStr (mp_reason p))]"

definition GMV_MOM_PLAN :: multi_tool_plan where
  "GMV_MOM_PLAN =
     \<lparr>mp_matched = True, mp_intent = ''gmv_mom'',
      mp_steps =
        [\<lparr>ms_step_id = ''step_date'', ms_tool_name = ''date_lookup'', ms_arguments = [],
          ms_depends_on = [], ms_save_as = Some ''date_info''\<rparr>,
         \<lparr>ms_step_id = ''step_gmv'', ms_tool_name = ''get_today_gmv'', ms_arguments = [],
          ms_depends_on = [], ms_save_as = Some ''current_gmv''\<rparr>,
         \<lparr>ms_step_id = ''step_calc'', ms_tool_name = ''calculator'',
          ms_arguments = [(''operation'', JStr ''percent_change''),
            (''a'', JStr ''$current_gmv.result.gmv''), (''b'', JInt 100000)],
          ms_depends_on = [''step_date'', ''step_gmv''], ms_save_as = Some ''mom_change''\<rparr>],
      mp_response_template = tx_plan_gmv_template, mp_reason = tx_plan_gmv_reason\<rparr>"

definition REFUND_RULE_PLAN :: multi_tool_plan where
  "REFUND_RULE_PLAN =
     \<lparr>mp_matched = True, mp_intent = ''refund_rule'',
      mp_steps =
        [\<lparr>ms_step_id = ''step_rule'', ms_tool_name = ''rule_lookup'',
          ms_arguments = [(''keyword'', JStr ''refund'')], ms_depends_on = [],
          ms_save_as = Some ''refund_rule''\<rparr>,
         \<lparr>ms_step_id = ''step_rate'', ms_tool_name = ''get_refund_rate'', ms_arguments = [],
          ms_depends_on = [], ms_save_as = Some ''refund_rate''\<rparr>],
      mp_response_template = tx_plan_refund_template, mp_reason = tx_plan_refund_reason\<rparr>"

definition PROMOTION_RULE_PLAN :: multi_tool_plan where
  "PROMOTION_RULE_PLAN =
     \<lparr>mp_matched = True, mp_intent = ''promotion_rule'',
      mp_steps =
        [\<lparr>ms_step_id = ''step_rule'', ms_tool_name = ''rule_lookup'',
          ms_arguments = [(''keyword'', JStr ''promotion'')], ms_depends_on = [],
          ms_save_as = Some ''promotion_rule''\<rparr>],
      mp_response_template = tx_plan_promotion_template, mp_reason = tx_plan_promotion_reason\<rparr>"

definition UNMATCHED_PLAN :: multi_tool_plan where
  "UNMATCHED_PLAN =
     \<lparr>mp_matched = False, mp_intent = [], mp_steps = [], mp_response_template = [],
      mp_reason = tx_plan_unmatched_reason\<rparr>"

definition MULTITOOL_RULES :: "(string list \<times> multi_tool_plan) list" where
  "MULTITOOL_RULES =
     [([kw_gmv_mom, kw_mom_growth], GMV_MOM_PLAN),
      ([kw_refund_rule, kw_refund_policy], REFUND_RULE_PLAN),
      ([kw_promotion_rule], PROMOTION_RULE_PLAN)]"

fun multitool_scan :: "(string list \<times> multi_tool_plan) list \<Rightarrow> string \<Rightarrow> multi_tool_plan" where
  "multitool_scan [] q = UNMATCHED_PLAN"
| "multitool_scan ((kws, p) # rs) q =
     (if list_ex (\<lambda>kw. str_in kw q) kws then p else multitool_scan rs q)"

definition multitool_plan :: "string \<Rightarrow> multi_tool_plan" where
  "multitool_plan q = multitool_scan MULTITOOL_RULES q"

text \<open>
  A plan is well formed when its step ids are distinct and each step depends only on steps
  before it.
\<close>

fun steps_ok :: "string list \<Rightarrow> plan_step list \<Rightarrow> bool" where
  "steps_ok done [] = True"
| "steps_ok done (st # sts) =
     (ms_step_id st \<notin> set done \<and> set (ms_depends_on st) \<subseteq> set done \<and> steps_ok (ms_step_id st # done) sts)"

lemmas plan_defs = GMV_MOM_PLAN_def REFUND_RULE_PLAN_def PROMOTION_RULE_PLAN_def UNMATCHED_PLAN_def

lemma multitool_plan_cases:
  "multitool_plan q \<in> {GMV_MOM_PLAN, REFUND_RULE_PLAN, PROMOTION_RULE_PLAN, UNMATCHED_PLAN}"
  by (simp add: multitool_plan_def MULTITOOL_RULES_def)

lemma multitool_plan_steps_ok: "steps_ok [] (mp_steps (multitool_plan q))"
  using multitool_plan_cases [of q] by (auto simp: plan_defs)

lemma multitool_plan_matched_iff:
  "mp_matched (multitool_plan q) \<longleftrightarrow>
     list_ex (\<lambda>kw. str_in kw q) (rr_keywords (hd ROUTING_RULE_SOURCE))"
  by (auto simp: multitool_plan_def MULTITOOL_RULES_def plan_defs ROUTING_RULE_SOURCE_def)

end
