(* ===== verification/Keyed_Store.thy ===== *)
theory Keyed_Store
  imports Runtime_Prelude
begin

text \<open>
  The contract every SQLite store of the runtime has over its primary key: \<open>INSERT\<close> of a fresh key
  succeeds and of a used key raises, an \<open>UPDATE ... WHERE key = ?\<close> changes that row only, and
  no operation loses or duplicates a key. The table operations of the prelude provide it.
\<close>

definition table_insert :: "string \<Rightarrow> ('r \<Rightarrow> 'k) \<Rightarrow> 'r \<Rightarrow> 'r list \<Rightarrow> string + 'r list" where
  "table_insert msg key r rows =
     (if key r \<in> key ` set rows then Inl msg else Inr (rows @ [r]))"

definition table_modify :: "('r \<Rightarrow> 'k) \<Rightarrow> 'k \<Rightarrow> ('r \<Rightarrow> 'r) \<Rightarrow> 'r list \<Rightarrow> 'r list" where
  "table_modify key k f rows = update_where (\<lambda>r. key r = k) f rows"

text \<open>\<open>INSERT OR REPLACE\<close>: the old row with the key goes, the new one is appended.\<close>

definition table_replace :: "('r \<Rightarrow> 'k) \<Rightarrow> 'r \<Rightarrow> 'r list \<Rightarrow> 'r list" where
  "table_replace key r rows = filter (\<lambda>x. key x \<noteq> key r) rows @ [r]"

locale keyed_store =
  fixes key :: "'r \<Rightarrow> 'k"
    and get :: "'k \<Rightarrow> 's \<Rightarrow> 'r option"
    and ins :: "'r \<Rightarrow> 's \<Rightarrow> string + 's"
    and upd :: "'k \<Rightarrow> ('r \<Rightarrow> 'r) \<Rightarrow> 's \<Rightarrow> 's"
    and ok :: "'s \<Rightarrow> bool"
  assumes ins_dup: "ok s \<Longrightarrow> get (key r) s \<noteq> None \<Longrightarrow> \<exists>e. ins r s = Inl e"
    and ins_fresh: "ok s \<Longrightarrow> get (key r) s = None \<Longrightarrow> \<exists>s'. ins r s = Inr s'"
    and ins_get: "ok s \<Longrightarrow> ins r s = Inr s' \<Longrightarrow> get k s' = (if k = key r then Some r else get k s)"
    and ins_ok: "ok s \<Longrightarrow> ins r s = Inr s' \<Longrightarrow> ok s'"
    and upd_get: "ok s \<Longrightarrow> (\<And>r. key (f r) = key r) \<Longrightarrow>
      get k' (upd k f s) = (if k' = k then map_option f (get k s) else get k' s)"
    and upd_ok: "ok s \<Longrightarrow> (\<And>r. key (f r) = key r) \<Longrightarrow> ok (upd k f s)"
    and get_key: "ok s \<Longrightarrow> get k s = Some r \<Longrightarrow> key r = k"
begin

lemma ins_keeps: "ok s \<Longrightarrow> ins r s = Inr s' \<Longrightarrow> get k s = Some x \<Longrightarrow> get k s' = Some x"
  using ins_dup [of s r] ins_get [of s r s' k] by (cases "k = key r") auto

lemma upd_present: "ok s \<Longrightarrow> (\<And>r. key (f r) = key r) \<Longrightarrow> get k' (upd k f s) = None \<longleftrightarrow> get k' s = None"
  by (simp add: upd_get)

lemma ins_upd:
  assumes "ok s" and "ins r s = Inr s'" and "\<And>r. key (f r) = key r"
  shows "get (key r) (upd (key r) f s') = Some (f r)"
  using assms by (simp add: upd_get ins_ok ins_get)

lemma upd_twice:
  assumes "ok s" and "\<And>r. key (f r) = key r" and "\<And>r. key (h r) = key r"
  shows "get k' (upd k h (upd k f s)) = get k' (upd k (h \<circ> f) s)"
  using assms by (simp add: upd_get upd_ok option.map_comp comp_def)

end

lemma table_insert_cases [tbl]:
  "table_insert msg key r rows = Inr rows' \<longleftrightarrow> key r \<notin> key ` set rows \<and> rows' = rows @ [r]"
  by (auto simp: table_insert_def)

lemma table_insert_lookup [tbl]:
  "table_insert msg key r rows = Inr rows' \<Longrightarrow>
     lookup_by key k rows' = (if k = key r then Some r else lookup_by key k rows)"
  by (cases "k = key r")
     (auto simp: table_insert_cases lookup_by_fresh, simp add: lookup_by_append split: option.split)

lemma table_insert_fresh:
  "lookup_by key (key r) rows = None \<Longrightarrow> table_insert msg key r rows = Inr (rows @ [r])"
  by (simp add: table_insert_def lookup_by_None)

lemma table_insert_dup: "lookup_by key (key r) rows \<noteq> None \<Longrightarrow> table_insert msg key r rows = Inl msg"
  by (auto simp: table_insert_def lookup_by_None)

lemma table_modify_lookup [tbl]:
  "(\<And>r. key (f r) = key r) \<Longrightarrow>
     lookup_by key k' (table_modify key k f rows) =
       (if k' = k then map_option f (lookup_by key k rows) else lookup_by key k' rows)"
  by (induction rows) (auto simp: table_modify_def)

lemma table_modify_keys [tbl]:
  "(\<And>r. key (f r) = key r) \<Longrightarrow> map key (table_modify key k f rows) = map key rows"
  by (simp add: table_modify_def keys_update_where)

lemma table_replace_lookup [tbl]:
  "lookup_by key k (table_replace key r rows) = (if k = key r then Some r else lookup_by key k rows)"
  by (induction rows) (auto simp: table_replace_def)

lemma table_replace_distinct:
  "distinct (map key rows) \<Longrightarrow> distinct (map key (table_replace key r rows))"
  by (induction rows) (auto simp: table_replace_def)

lemma table_modify_absent: "lookup_by key k rows = None \<Longrightarrow> table_modify key k f rows = rows"
  by (induction rows) (auto simp: table_modify_def split: if_splits)

end
