(* ===== verification/Approval_Store.thy ===== *)
theory Approval_Store
  imports Keyed_Store Demo_World Texts
begin

text \<open>
  \<open>SQLiteApprovalStore\<close> (\<open>app/storage/approval_store.py\<close>): the requests for human approval, their
  single decision and the payload from which an approved action is resumed. \<open>decide_approval\<close>
  reads and then writes under \<open>status = 'pending'\<close>; the write is its own operation here, so that
  deciders can interleave.
\<close>

type_synonym approvals = "approval_row list"

definition unique_approval :: string where
  "unique_approval = ''UNIQUE constraint failed: approvals.approval_id''"

definition ap_get :: "string \<Rightarrow> approvals \<Rightarrow> approval_row option" where
  "ap_get aid rows = lookup_by ar_id aid rows"

definition ap_insert :: "approval_row \<Rightarrow> approvals \<Rightarrow> string + approvals" where
  "ap_insert r rows = table_insert unique_approval ar_id r rows"

definition ap_new_row ::
  "string \<Rightarrow> string \<Rightarrow> string \<Rightarrow> string \<Rightarrow> string \<Rightarrow> risk_level \<Rightarrow> string \<Rightarrow> string \<Rightarrow> jdict option \<Rightarrow> approval_row"
where
  "ap_new_row aid now tid tool action risk scope reason payload =
     \<lparr>ar_id = aid, ar_task_id = tid, ar_tool_name = tool, ar_action = action,
      ar_risk_level = risk, ar_impact_scope = scope, ar_agent_reason = reason,
      ar_status = APending, ar_requested_at = now, ar_decided_at = None, ar_decided_by = None,
      ar_decision_reason = None,
      ar_payload = (case payload of None \<Rightarrow> None | Some [] \<Rightarrow> None | Some p \<Rightarrow> Some p)\<rparr>"

lemma ap_new_row_simps [simp]:
  "ar_id (ap_new_row aid now tid tool action risk scope reason payload) = aid"
  "ar_task_id (ap_new_row aid now tid tool action risk scope reason payload) = tid"
  "ar_tool_name (ap_new_row aid now tid tool action risk scope reason payload) = tool"
  "ar_risk_level (ap_new_row aid now tid tool action risk scope reason payload) = risk"
  "ar_status (ap_new_row aid now tid tool action risk scope reason payload) = APending"
  by (simp_all add: ap_new_row_def)

text \<open>\<open>create_approval\<close>: the identifier is \<open>apr_\<close> and twelve fresh digits.\<close>

definition create_approval ::
  "'w env \<Rightarrow> string \<Rightarrow> string \<Rightarrow> string \<Rightarrow> risk_level \<Rightarrow> string \<Rightarrow> string \<Rightarrow> jdict option \<Rightarrow>
     'w sys \<Rightarrow> (string + approval_row) \<times> 'w sys"
where
  "create_approval env tid tool action risk scope reason payload s =
     (let (h, s1) = sys_fresh env s;
          row = ap_new_row (''apr_'' @ hex12 h) (sys_now env s1) tid tool action risk scope reason payload
      in case ap_insert row (sy_approvals s1) of
           Inl e \<Rightarrow> (Inl e, s1)
         | Inr rows \<Rightarrow> (Inr row, s1\<lparr>sy_approvals := rows\<rparr>))"

definition ap_list :: "approval_status option \<Rightarrow> int \<Rightarrow> approvals \<Rightarrow> approvals" where
  "ap_list status limit rows =
     take (clamp_limit 20 100 limit)
       (order_desc ar_requested_at
          (case status of None \<Rightarrow> rows | Some st \<Rightarrow> filter (\<lambda>r. ar_status r = st) rows))"

subsection \<open>Decision\<close>

definition decided_row :: "bool \<Rightarrow> string \<Rightarrow> string \<Rightarrow> string \<Rightarrow> approval_row \<Rightarrow> approval_row" where
  "decided_row approved who reason now r =
     r\<lparr>ar_status := (if approved then AApproved else ARejected), ar_decided_at := Some now,
       ar_decided_by := Some who, ar_decision_reason := Some reason\<rparr>"

text \<open>\<open>UPDATE ... WHERE approval_id = ? AND status = 'pending'\<close>.\<close>

definition ap_decide_write :: "string \<Rightarrow> bool \<Rightarrow> string \<Rightarrow> string \<Rightarrow> string \<Rightarrow> approvals \<Rightarrow> approvals" where
  "ap_decide_write aid approved who reason now rows =
     update_where (\<lambda>r. ar_id r = aid \<and> ar_status r = APending) (decided_row approved who reason now) rows"

datatype decide_result =
    DMissing
  | DAlready approval_row string
  | DDone approval_row

definition ap_decide ::
  "string \<Rightarrow> bool \<Rightarrow> string \<Rightarrow> string \<Rightarrow> string \<Rightarrow> approvals \<Rightarrow> decide_result \<times> approvals"
where
  "ap_decide aid approved who reason now rows =
     (case ap_get aid rows of
        None \<Rightarrow> (DMissing, rows)
      | Some cur \<Rightarrow>
          (if ar_status cur \<noteq> APending
           then (DAlready cur (tx_already_decided (approval_status_value (ar_status cur))), rows)
           else let rows' = ap_decide_write aid approved who reason now rows
                in (case ap_get aid rows' of None \<Rightarrow> DMissing | Some r \<Rightarrow> DDone r, rows')))"

subsection \<open>Payload\<close>

definition payload_of :: "approval_row \<Rightarrow> jdict" where
  "payload_of r = (case ar_payload r of None \<Rightarrow> [] | Some p \<Rightarrow> p)"

text \<open>\<open>update_payload\<close>: read, merge, write; the merged dict replaces the column.\<close>

definition ap_update_payload :: "string \<Rightarrow> jdict \<Rightarrow> approvals \<Rightarrow> approval_row option \<times> approvals" where
  "ap_update_payload aid upd rows =
     (case ap_get aid rows of
        None \<Rightarrow> (None, rows)
      | Some cur \<Rightarrow>
          (let p = dupd (payload_of cur) upd;
               rows' = table_modify ar_id aid (\<lambda>r. r\<lparr>ar_payload := Some p\<rparr>) rows
           in (ap_get aid rows', rows')))"

definition update_payload :: "string \<Rightarrow> jdict \<Rightarrow> 'w sys \<Rightarrow> 'w sys" where
  "update_payload aid upd s = s\<lparr>sy_approvals := snd (ap_update_payload aid upd (sy_approvals s))\<rparr>"

subsection \<open>Facts\<close>

definition approvals_ok :: "approvals \<Rightarrow> bool" where
  "approvals_ok rows \<longleftrightarrow> distinct (map ar_id rows)"

interpretation approval_table: keyed_store ar_id ap_get ap_insert "table_modify ar_id" approvals_ok
proof (unfold_locales, goal_cases)
  case (1 s r)
  then show ?case by (auto simp: ap_insert_def ap_get_def table_insert_dup)
next
  case (2 s r)
  then show ?case by (auto simp: ap_insert_def ap_get_def table_insert_fresh)
next
  case (3 s r s' k)
  then show ?case by (simp add: ap_insert_def ap_get_def table_insert_lookup)
next
  case (4 s r s')
  then show ?case by (auto simp: ap_insert_def approvals_ok_def table_insert_cases)
next
  case (5 s f k' k)
  then show ?case by (simp add: ap_get_def table_modify_lookup)
next
  case (6 s f k)
  then show ?case by (simp add: approvals_ok_def table_modify_keys)
next
  case (7 s k r)
  then show ?case by (auto simp: ap_get_def dest: lookup_by_key)
qed

lemma decided_row_id [simp]: "ar_id (decided_row a w r n row) = ar_id row"
  by (simp add: decided_row_def)

lemma ap_get_decide_write:
  "ap_get k (ap_decide_write aid a who reason now rows) =
     map_option (\<lambda>r. if k = aid \<and> ar_status r = APending then decided_row a who reason now r else r)
       (ap_get k rows)"
  by (auto simp: ap_get_def ap_decide_write_def lookup_update_where option.map_comp
      dest: lookup_by_key intro!: map_option_cong)

lemma approvals_ok_decide_write:
  "approvals_ok rows \<Longrightarrow> approvals_ok (ap_decide_write aid a who reason now rows)"
  by (simp add: approvals_ok_def ap_decide_write_def keys_update_where)

lemma ap_get_update_payload:
  "ap_get k (snd (ap_update_payload aid upd rows)) =
     map_option (\<lambda>r. if k = aid then r\<lparr>ar_payload := Some (dupd (payload_of r) upd)\<rparr> else r) (ap_get k rows)"
proof (cases "ap_get aid rows")
  case None
  then show ?thesis by (cases "k = aid"; cases "ap_get k rows") (auto simp: ap_update_payload_def)
next
  case (Some cur)
  then show ?thesis
    by (cases "ap_get k rows") (auto simp: ap_update_payload_def Let_def ap_get_def table_modify_lookup)
qed

lemma approvals_ok_update_payload:
  "approvals_ok rows \<Longrightarrow> approvals_ok (snd (ap_update_payload aid upd rows))"
  by (simp add: approvals_ok_def ap_update_payload_def Let_def table_modify_keys split: option.split)

lemma ap_insert_self: "ap_insert r rows = Inr rows' \<Longrightarrow> ap_get (ar_id r) rows' = Some r"
  by (simp add: ap_insert_def ap_get_def table_insert_lookup)

lemma create_approval_ok:
  "approvals_ok (sy_approvals s) \<Longrightarrow>
     approvals_ok (sy_approvals (snd (create_approval env tid tool action risk scope reason payload s)))"
  by (auto simp: create_approval_def unlet split: sum.split dest: approval_table.ins_ok)

lemma create_approval_get:
  "create_approval env tid tool action risk scope reason payload s = (Inr row, s') \<Longrightarrow>
     ap_get (ar_id row) (sy_approvals s') = Some row \<and> ar_status row = APending \<and>
     ar_task_id row = tid \<and> ar_tool_name row = tool \<and> ar_risk_level row = risk"
  by (auto simp: create_approval_def unlet split: sum.splits dest!: ap_insert_self)

lemma create_approval_payload:
  "create_approval env tid tool action risk scope reason (Some p) s = (Inr row, s') \<Longrightarrow> payload_of row = p"
  by (auto simp: create_approval_def unlet ap_new_row_def payload_of_def split: sum.splits list.splits)

lemma create_approval_keeps:
  "ap_get k (sy_approvals s) = Some r \<Longrightarrow>
     ap_get k (sy_approvals (snd (create_approval env tid tool action risk scope reason payload s))) = Some r"
  by (auto simp: create_approval_def unlet ap_insert_def ap_get_def table_insert_cases lookup_by_append
      split: sum.split)

lemma create_approval_frame [frame, simp]:
  "sy_metrics (snd (create_approval env tid tool action risk scope reason payload s)) = sy_metrics s"
  "sy_trace (snd (create_approval env tid tool action risk scope reason payload s)) = sy_trace s"
  "sy_audit (snd (create_approval env tid tool action risk scope reason payload s)) = sy_audit s"
  "sy_memory (snd (create_approval env tid tool action risk scope reason payload s)) = sy_memory s"
  "sy_tasks (snd (create_approval env tid tool action risk scope reason payload s)) = sy_tasks s"
  "sy_ckpts (snd (create_approval env tid tool action risk scope reason payload s)) = sy_ckpts s"
  by (simp_all add: create_approval_def unlet split: sum.split)

lemma update_payload_frame [frame, simp]:
  "sy_world (update_payload aid upd s) = sy_world s"
  "sy_metrics (update_payload aid upd s) = sy_metrics s"
  "sy_trace (update_payload aid upd s) = sy_trace s"
  "sy_audit (update_payload aid upd s) = sy_audit s"
  "sy_memory (update_payload aid upd s) = sy_memory s"
  "sy_tasks (update_payload aid upd s) = sy_tasks s"
  "sy_ckpts (update_payload aid upd s) = sy_ckpts s"
  by (simp_all add: update_payload_def)

subsection \<open>Runs of the store\<close>

text \<open>
  One write by any client: a creation, the conditional write of a decision (whatever its caller
  read before), or a payload update.
\<close>

inductive ap_step :: "approvals \<Rightarrow> approvals \<Rightarrow> bool" where
  create: "ap_insert row rows = Inr rows' \<Longrightarrow> ar_status row = APending \<Longrightarrow> ap_step rows rows'"
| decide: "ap_step rows (ap_decide_write aid a who reason now rows)"
| payload: "ap_step rows (snd (ap_update_payload aid upd rows))"

inductive ap_run :: "approvals \<Rightarrow> approvals \<Rightarrow> bool" where
  refl: "ap_run rows rows"
| step: "ap_run rows rows' \<Longrightarrow> ap_step rows' rows'' \<Longrightarrow> ap_run rows rows''"

definition decision_of :: "approval_row \<Rightarrow> approval_status \<times> string option \<times> string option \<times> string option" where
  "decision_of r = (ar_status r, ar_decided_at r, ar_decided_by r, ar_decision_reason r)"

lemma ap_step_ok: "ap_step rows rows' \<Longrightarrow> approvals_ok rows \<Longrightarrow> approvals_ok rows'"
  by (induction rule: ap_step.induct)
     (auto intro: approval_table.ins_ok approvals_ok_decide_write approvals_ok_update_payload)

lemma ap_step_decided:
  assumes "ap_step rows rows'" and "approvals_ok rows"
    and "ap_get aid rows = Some r" and "ar_status r \<noteq> APending"
  shows "\<exists>r'. ap_get aid rows' = Some r' \<and> decision_of r' = decision_of r"
  using assms
proof (induction rule: ap_step.induct)
  case (create row rows rows')
  then show ?case using approval_table.ins_keeps by blast
qed (auto simp: ap_get_decide_write ap_get_update_payload decision_of_def)

text \<open>
  A decision is final: in every run of the store, however the writes of its clients
  interleave, an approval that is no longer pending keeps its status, its decider, its time
  and its reason.
\<close>

lemma decision_is_final:
  assumes "ap_run rows rows'" and "approvals_ok rows"
    and "ap_get aid rows = Some r" and "ar_status r \<noteq> APending"
  shows "\<exists>r'. ap_get aid rows' = Some r' \<and> decision_of r' = decision_of r"
proof -
  have "approvals_ok rows' \<and> (\<exists>r'. ap_get aid rows' = Some r' \<and> decision_of r' = decision_of r)"
    using assms
  proof (induction rule: ap_run.induct)
    case (step rows rows' rows'')
    then obtain r' where r': "approvals_ok rows'" "ap_get aid rows' = Some r'" "decision_of r' = decision_of r"
      by blast
    with step.prems have "ar_status r' \<noteq> APending" by (simp add: decision_of_def)
    with r' step.hyps(2) show ?case
      using ap_step_decided ap_step_ok by metis
  qed auto
  then show ?thesis by blast
qed

definition demo_approval :: approval_row where
  "demo_approval = ap_new_row ''apr_1'' ''t0'' ''task'' ''tool'' ''act'' RHigh ''write'' ''why'' None"

lemma demo_approval_get:
  "ap_get ''apr_1'' [demo_approval] = Some demo_approval" "ar_status demo_approval = APending"
  by (simp_all add: ap_get_def demo_approval_def)

text \<open>
  \<open>decide_approval\<close> answers by the state it finds: nothing for an unknown request, the stored
  row and an error for a decided one, and for a pending one the row with the new decision; only in
  the last case is anything written, and to that row alone.
\<close>

lemma decide_approval_outcome:
  "ap_decide aid a who reason now rows =
     (case ap_get aid rows of
        None \<Rightarrow> (DMissing, rows)
      | Some r \<Rightarrow>
          if ar_status r = APending
          then (DDone (decided_row a who reason now r), ap_decide_write aid a who reason now rows)
          else (DAlready r (tx_already_decided (approval_status_value (ar_status r))), rows))"
  by (simp add: ap_decide_def ap_get_decide_write Let_def split: option.split)

end
