(* ===== verification/Multitool_Pipeline.thy ===== *)
theory Multitool_Pipeline
  imports Policy Planner Approval_Store
begin

text \<open>
  \<open>MultiToolPipeline\<close> (\<open>app/services/multitool_pipeline.py\<close>): runs the steps of a plan in order,
  each behind its dependencies, the tool registry and the policy, with \<open>$var.path\<close> arguments
  resolved from the records of earlier steps. A high-risk step ends the run with an approval
  request whose payload holds all that is needed to go on.
\<close>

subsection \<open>Variables\<close>

text \<open>
  A path is followed through dicts by key, through a call record by field and through a builtin
  value by \<open>getattr\<close>. The methods a record also has as attributes are left out: no plan names one.
\<close>

datatype pyval = VRecord tool_call_record | VJson json

definition record_attr :: "tool_call_record \<Rightarrow> string \<Rightarrow> json option" where
  "record_attr r a = map_of (call_record_dump r) a"

definition path_step :: "'w env \<Rightarrow> pyval \<Rightarrow> string \<Rightarrow> json option" where
  "path_step env v part =
     (case v of
        VRecord r \<Rightarrow> record_attr r part
      | VJson (JObj d) \<Rightarrow> map_of d part
      | VJson j \<Rightarrow> py_attr env j part)"

fun follow_path :: "'w env \<Rightarrow> pyval \<Rightarrow> string list \<Rightarrow> pyval option" where
  "follow_path env v [] = Some v"
| "follow_path env v (p # ps) =
     (case path_step env v p of None \<Rightarrow> None | Some j \<Rightarrow> follow_path env (VJson j) ps)"

text \<open>\<open>_resolve_variable\<close>: \<open>None\<close> for \<open>_UNRESOLVED\<close>.\<close>

definition resolve_variable :: "'w env \<Rightarrow> (string \<times> pyval) list \<Rightarrow> string \<Rightarrow> json option" where
  "resolve_variable env saved path =
     (let parts = split_on (CHR ''.'') path
      in if length parts < 2 then None
         else case map_of saved (hd parts) of
                None \<Rightarrow> None
              | Some v \<Rightarrow>
                  (case follow_path env v (tl parts) of Some (VJson j) \<Rightarrow> Some j | _ \<Rightarrow> None))"

text \<open>\<open>_resolve_value\<close>, raising (\<open>Inl\<close>) with the path of the first unresolved variable.\<close>

function (sequential) resolve_value :: "(string \<Rightarrow> json option) \<Rightarrow> json \<Rightarrow> string + json" where
  "resolve_value lk (JStr (c # path)) =
     (if c = CHR ''$'' then (case lk path of None \<Rightarrow> Inl path | Some v \<Rightarrow> Inr v) else Inr (JStr (c # path)))"
| "resolve_value lk (JObj d) =
     (case seq_sum (map (\<lambda>kv. resolve_value lk (snd kv)) d) of
        Inl e \<Rightarrow> Inl e | Inr vs \<Rightarrow> Inr (JObj (zip (map fst d) vs)))"
| "resolve_value lk (JList xs) =
     (case seq_sum (map (resolve_value lk) xs) of Inl e \<Rightarrow> Inl e | Inr vs \<Rightarrow> Inr (JList vs))"
| "resolve_value lk v = Inr v"
  by pat_completeness auto
termination
proof (relation "measure (\<lambda>(lk, v). size v)", goal_cases)
  case (2 lk d kv)
  obtain k v where kv: "kv = (k, v)" by (cases kv)
  from 2 have "size_prod (\<lambda>_. 0) size kv \<le> size_list (size_prod (\<lambda>_. 0) size) d"
    by (rule size_list_estimation') simp
  with kv show ?case by simp
next
  case (3 lk xs x)
  then show ?case by (auto dest!: size_list_estimation' [where f = size, OF _ order_refl])
qed simp

definition resolve_arguments :: "(string \<Rightarrow> json option) \<Rightarrow> jdict \<Rightarrow> string + jdict" where
  "resolve_arguments lk args =
     (case resolve_value lk (JObj args) of Inl e \<Rightarrow> Inl e | Inr v \<Rightarrow> Inr (or_dict v))"

subsection \<open>Answer\<close>

text \<open>\<open>x.result.get(k, dflt) if x and x.result else dflt\<close>; a result that is no dict raises.\<close>

definition result_get :: "tool_call_record option \<Rightarrow> string \<Rightarrow> json \<Rightarrow> string + json" where
  "result_get r k dflt =
     (case r of None \<Rightarrow> Inr dflt
      | Some rec \<Rightarrow>
          (if \<not> truthy (cr_result rec) then Inr dflt
           else case cr_result rec of
                  JObj d \<Rightarrow> Inr (dget_or d k dflt)
                | v \<Rightarrow> Inl (attr_error v ''get'')))"

definition generate_answer ::
  "'w env \<Rightarrow> multi_tool_plan \<Rightarrow> (string \<times> tool_call_record) list \<Rightarrow> string + string"
where
  "generate_answer env plan saved =
     (if mp_intent plan = ''gmv_mom'' then
        (case seq_sum [result_get (map_of saved ''date_info'') ''date'' (JStr lb_unknown),
                       result_get (map_of saved ''current_gmv'') ''gmv'' (JInt 0),
                       result_get (map_of saved ''mom_change'') ''result'' (JInt 0)] of
           Inl e \<Rightarrow> Inl e
         | Inr vs \<Rightarrow> Inr (tx_answer_gmv (py_str env (vs ! 0)) (py_str env (vs ! 1)) (py_str env (vs ! 2))))
      else if mp_intent plan = ''refund_rule'' then
        (case seq_sum [result_get (map_of saved ''refund_rule'') ''rule'' (JStr lb_unknown),
                       result_get (map_of saved ''refund_rate'') ''refund_rate_percent'' (JInt 0)] of
           Inl e \<Rightarrow> Inl e
         | Inr vs \<Rightarrow> Inr (tx_answer_refund (py_str env (vs ! 0)) (py_str env (vs ! 1))))
      else if mp_intent plan = ''promotion_rule'' then
        (case result_get (map_of saved ''promotion_rule'') ''rule'' (JStr lb_unknown) of
           Inl e \<Rightarrow> Inl e | Inr v \<Rightarrow> Inr (tx_answer_promotion (py_str env v)))
      else Inr (mp_response_template plan))"

subsection \<open>One step\<close>

text \<open>
  What the pipeline was built with: the registry lookup and the call of its gateway, its policy
  engine, and whether it has a trace recorder, an approval store and an audit recorder.
\<close>

record 'w pipeline =
  pl_lookup :: tool_lookup
  pl_run :: "string \<Rightarrow> jdict \<Rightarrow> 'w sys \<Rightarrow> tool_call_record \<times> 'w sys"
  pl_policy :: "policy_engine option"
  pl_trace :: bool
  pl_store :: bool
  pl_audit :: bool

definition pl_tracing :: "'w pipeline \<Rightarrow> string option \<Rightarrow> bool" where
  "pl_tracing pl tid \<longleftrightarrow> pl_trace pl \<and> (case tid of None \<Rightarrow> False | Some t \<Rightarrow> t \<noteq> [])"

definition tid_text :: "string option \<Rightarrow> string" where
  "tid_text tid = (case tid of None \<Rightarrow> [] | Some t \<Rightarrow> t)"

definition mt_trace :: "'w env \<Rightarrow> 'w pipeline \<Rightarrow> string option \<Rightarrow> string \<Rightarrow> jdict \<Rightarrow> 'w sys \<Rightarrow> 'w sys" where
  "mt_trace env pl tid etype detail s = sys_trace_if (pl_tracing pl tid) env etype (tid_text tid) detail s"

record mt_state =
  mt_saved :: "(string \<times> tool_call_record) list"
  mt_completed :: "string list"
  mt_calls :: "json list"

definition mt_start :: mt_state where
  "mt_start = \<lparr>mt_saved = [], mt_completed = [], mt_calls = []\<rparr>"

text \<open>A step goes on with a new loop state, returns a result, or raises.\<close>

datatype mt_outcome = MGo mt_state | MStop jdict | MRaise string

definition check_depends_on :: "string list \<Rightarrow> string list \<Rightarrow> string list option" where
  "check_depends_on deps completed =
     (let missing = filter (\<lambda>d. d \<notin> set completed) deps in if missing \<noteq> [] then Some missing else None)"

definition mt_failure ::
  "multi_tool_plan \<Rightarrow> plan_step \<Rightarrow> string \<Rightarrow> jdict \<Rightarrow> string \<Rightarrow> json list \<Rightarrow> jdict"
where
  "mt_failure plan st etype extra answer calls =
     [(''mode'', JStr ''multitool''), (''success'', JBool False), (''intent'', JStr (mp_intent plan)),
      (''error_type'', JStr etype)] @ extra @
     [(''answer'', JStr answer), (''plan'', JObj (plan_dump plan)), (''tool_calls'', JList calls),
      (''failed_step'', JStr (ms_step_id st))]"

definition blocked_call :: "plan_step \<Rightarrow> string \<Rightarrow> jdict" where
  "blocked_call st err =
     [(''step_id'', JStr (ms_step_id st)), (''tool_name'', JStr (ms_tool_name st)),
      (''arguments'', JObj (ms_arguments st)), (''success'', JBool False), (''result'', JNull),
      (''latency_ms'', JFloat 0), (''error'', JStr err), (''policy_blocked'', JBool True)]"

definition mt_payload :: "string \<Rightarrow> multi_tool_plan \<Rightarrow> plan_step \<Rightarrow> mt_state \<Rightarrow> jdict" where
  "mt_payload query plan st m =
     [(''mode'', JStr ''multitool''), (''query'', JStr query), (''step_id'', JStr (ms_step_id st)),
      (''tool_name'', JStr (ms_tool_name st)), (''arguments'', JObj (ms_arguments st)),
      (''plan'', JObj (plan_dump plan)), (''completed_step_ids'', jstrs (mt_completed m)),
      (''tool_calls'', JList (mt_calls m))]"

text \<open>The branch that asks for approval.\<close>

definition mt_request_approval ::
  "'w env \<Rightarrow> 'w pipeline \<Rightarrow> string \<Rightarrow> multi_tool_plan \<Rightarrow> string option \<Rightarrow> plan_step \<Rightarrow> tool_spec \<Rightarrow>
     string \<Rightarrow> mt_state \<Rightarrow> 'w sys \<Rightarrow> mt_outcome \<times> 'w sys"
where
  "mt_request_approval env pl query plan tid st spec reason m s =
     (case create_approval env (tid_text tid) (ms_tool_name st)
             (tx_mt_step_action (ms_step_id st) (ms_tool_name st)) (sp_risk_level spec)
             (sp_permission_scope spec) reason (Some (mt_payload query plan st m)) s of
        (Inl e, s1) \<Rightarrow> (MRaise e, s1)
      | (Inr row, s1) \<Rightarrow>
          (let s2 = mt_trace env pl tid ''multitool_approval_required''
                 [(''step_id'', JStr (ms_step_id st)), (''tool_name'', JStr (ms_tool_name st)),
                  (''approval_id'', JStr (ar_id row)), (''reason'', JStr reason)] s1;
               s3 = sys_audit_if (pl_audit pl) env
                 (audit_proto ''approval_requested'' tid (Some (ar_id row)) (Some (ms_tool_name st))
                    ''multitool_step'' ''waiting_approval'' (Some reason) None
                    [(''step_id'', JStr (ms_step_id st))]) s2;
               call = blocked_call st reason @
                 [(''requires_approval'', JBool True), (''approval_id'', JStr (ar_id row))]
           in (MStop (mt_failure plan st ''approval_required''
                 [(''requires_approval'', JBool True), (''approval_id'', JStr (ar_id row))]
                 (tx_step_needs_approval (ms_step_id st) reason) (mt_calls m @ [JObj call])), s3)))"

text \<open>The branch that runs the tool, after every gate.\<close>

definition mt_run_tool ::
  "'w env \<Rightarrow> 'w pipeline \<Rightarrow> multi_tool_plan \<Rightarrow> string option \<Rightarrow> plan_step \<Rightarrow> mt_state \<Rightarrow> 'w sys \<Rightarrow>
     mt_outcome \<times> 'w sys"
where
  "mt_run_tool env pl plan tid st m s =
     (case resolve_arguments
             (resolve_variable env (map (\<lambda>p. (fst p, VRecord (snd p))) (mt_saved m)))
             (ms_arguments st) of
        Inl path \<Rightarrow>
          (MStop (mt_failure plan st ''variable_resolution_failed'' [(''error_path'', JStr path)]
             (tx_step_var_failed (ms_step_id st) path) (mt_calls m)),
           mt_trace env pl tid ''multitool_step_failed''
             [(''step_id'', JStr (ms_step_id st)), (''error_type'', JStr ''variable_resolution_failed''),
              (''error_path'', JStr path)] s)
      | Inr args \<Rightarrow>
          (let s1 = mt_trace env pl tid ''multitool_step_started''
                 [(''step_id'', JStr (ms_step_id st)), (''tool_name'', JStr (ms_tool_name st))] s;
               (r, s2) = pl_run pl (ms_tool_name st) args s1;
               call = [(''step_id'', JStr (ms_step_id st)), (''tool_name'', JStr (cr_tool_name r)),
                  (''arguments'', JObj (cr_arguments r)), (''success'', JBool (cr_success r)),
                  (''result'', cr_result r), (''latency_ms'', JFloat (cr_latency_ms r)),
                  (''error'', cr_error r), (''retry_count'', JInt (cr_retry_count r)),
                  (''save_as'', opt_str (ms_save_as st))];
               calls = mt_calls m @ [JObj call]
           in if \<not> cr_success r
              then (MStop (mt_failure plan st ''tool_call_failed'' []
                      (tx_step_call_failed (ms_step_id st) (py_str env (cr_error r))) calls),
                    mt_trace env pl tid ''multitool_step_failed''
                      [(''step_id'', JStr (ms_step_id st)), (''tool_name'', JStr (ms_tool_name st)),
                       (''error_type'', JStr ''tool_call_failed''), (''error'', cr_error r)] s2)
              else (MGo \<lparr>mt_saved = (case ms_save_as st of None \<Rightarrow> mt_saved m
                            | Some v \<Rightarrow> if v = [] then mt_saved m else dput (mt_saved m) v r),
                         mt_completed = List.insert (ms_step_id st) (mt_completed m),
                         mt_calls = calls\<rparr>,
                    mt_trace env pl tid ''multitool_step_completed''
                      [(''step_id'', JStr (ms_step_id st)), (''tool_name'', JStr (ms_tool_name st))] s2)))"

definition mt_step ::
  "'w env \<Rightarrow> 'w pipeline \<Rightarrow> string \<Rightarrow> multi_tool_plan \<Rightarrow> string option \<Rightarrow> plan_step \<Rightarrow> mt_state \<Rightarrow>
     'w sys \<Rightarrow> mt_outcome \<times> 'w sys"
where
  "mt_step env pl query plan tid st m s =
     (case check_depends_on (ms_depends_on st) (mt_completed m) of
        Some missing \<Rightarrow>
          (MStop (mt_failure plan st ''dependency_not_satisfied'' [(''missing_depends_on'', jstrs missing)]
             (tx_step_dep_missing (ms_step_id st) (py_str env (jstrs missing))) (mt_calls m)),
           mt_trace env pl tid ''multitool_step_failed''
             [(''step_id'', JStr (ms_step_id st)), (''error_type'', JStr ''dependency_not_satisfied''),
              (''missing_depends_on'', jstrs missing)] s)
      | None \<Rightarrow>
          (case pl_lookup pl (ms_tool_name st) of
             None \<Rightarrow>
               (let why = tx_not_in_gateway (ms_tool_name st);
                    s1 = mt_trace env pl tid ''operation_whitelist_blocked''
                      [(''step_id'', JStr (ms_step_id st)), (''tool_name'', JStr (ms_tool_name st)),
                       (''mode'', JStr ''multitool''), (''reason'', JStr why)] s;
                    s2 = sys_audit_if (pl_audit pl) env
                      (audit_proto ''operation_whitelist_blocked'' tid None (Some (ms_tool_name st))
                         ''multitool_step'' ''blocked'' (Some why) (Some ''high'')
                         [(''step_id'', JStr (ms_step_id st)), (''mode'', JStr ''multitool'')]) s1
                in (MStop (mt_failure plan st ''operation_not_whitelisted'' []
                      (tx_step_unregistered (ms_step_id st) (ms_tool_name st))
                      (mt_calls m @ [JObj (blocked_call st why)])), s2))
           | Some spec \<Rightarrow>
               (case pl_policy pl of
                  None \<Rightarrow> mt_run_tool env pl plan tid st m s
                | Some pe \<Rightarrow>
                    (let d = pe_evaluate pe (ms_tool_name st) (Some (sp_risk_level spec)) None
                     in if pd_allowed d then mt_run_tool env pl plan tid st m s
                        else if pd_requires_approval d \<and> pl_store pl
                        then mt_request_approval env pl query plan tid st spec (pd_reason d) m s
                        else
                          (MStop (mt_failure plan st ''policy_blocked'' []
                             (tx_step_policy_blocked (ms_step_id st) (pd_reason d))
                             (mt_calls m @ [JObj (blocked_call st (pd_reason d))])),
                           mt_trace env pl tid ''multitool_policy_blocked''
                             [(''step_id'', JStr (ms_step_id st)), (''tool_name'', JStr (ms_tool_name st)),
                              (''reason'', JStr (pd_reason d))] s)))))"

subsection \<open>The run\<close>

fun mt_loop ::
  "'w env \<Rightarrow> 'w pipeline \<Rightarrow> string \<Rightarrow> multi_tool_plan \<Rightarrow> string option \<Rightarrow> plan_step list \<Rightarrow> mt_state \<Rightarrow>
     'w sys \<Rightarrow> mt_outcome \<times> 'w sys"
where
  "mt_loop env pl query plan tid [] m s = (MGo m, s)"
| "mt_loop env pl query plan tid (st # sts) m s =
     (case mt_step env pl query plan tid st m s of
        (MGo m', s') \<Rightarrow> mt_loop env pl query plan tid sts m' s'
      | stop \<Rightarrow> stop)"

definition run_plan ::
  "'w env \<Rightarrow> 'w pipeline \<Rightarrow> string \<Rightarrow> multi_tool_plan \<Rightarrow> string option \<Rightarrow> 'w sys \<Rightarrow> (string + jdict) \<times> 'w sys"
where
  "run_plan env pl query plan tid s =
     (if \<not> mp_matched plan
      then (Inr [(''mode'', JStr ''multitool''), (''success'', JBool False), (''intent'', JStr []),
              (''answer'', JStr tx_mt_unmatched), (''plan'', JObj (plan_dump plan)),
              (''tool_calls'', JList [])], s)
      else case mt_loop env pl query plan tid (mp_steps plan) mt_start s of
             (MRaise e, s') \<Rightarrow> (Inl e, s')
           | (MStop d, s') \<Rightarrow> (Inr d, s')
           | (MGo m, s') \<Rightarrow>
               (case generate_answer env plan (mt_saved m) of
                  Inl e \<Rightarrow> (Inl e, s')
                | Inr answer \<Rightarrow>
                    (Inr [(''mode'', JStr ''multitool''), (''success'', JBool True),
                          (''intent'', JStr (mp_intent plan)), (''answer'', JStr answer),
                          (''plan'', JObj (plan_dump plan)), (''tool_calls'', JList (mt_calls m))], s')))"

definition multitool_run ::
  "'w env \<Rightarrow> 'w pipeline \<Rightarrow> string \<Rightarrow> string option \<Rightarrow> 'w sys \<Rightarrow> (string + jdict) \<times> 'w sys"
where
  "multitool_run env pl query tid s = run_plan env pl query (multitool_plan query) tid s"

text \<open>The pipeline the runtime builds over a gateway.\<close>

definition runtime_pipeline :: "'w env \<Rightarrow> 'w gateway \<Rightarrow> 'w pipeline" where
  "runtime_pipeline env g =
     \<lparr>pl_lookup = gw_get_tool g, pl_run = (\<lambda>tool args s. gw_call env g tool args [] s),
      pl_policy = Some (runtime_policy g), pl_trace = True, pl_store = True, pl_audit = True\<rparr>"

subsection \<open>Gates\<close>

text \<open>The tools a pipeline may call: registered and allowed by its policy at their own risk.\<close>

definition mt_allows :: "'w pipeline \<Rightarrow> string \<Rightarrow> bool" where
  "mt_allows pl t \<longleftrightarrow>
     (case pl_lookup pl t of None \<Rightarrow> False
      | Some spec \<Rightarrow>
          (case pl_policy pl of None \<Rightarrow> True
           | Some pe \<Rightarrow> pd_allowed (pe_evaluate pe t (Some (sp_risk_level spec)) None)))"

lemma mt_trace_run [simp]: "mt_trace env (pl\<lparr>pl_run := r\<rparr>) = mt_trace env pl"
  by (simp add: mt_trace_def pl_tracing_def fun_eq_iff)

lemma mt_request_approval_run [simp]:
  "mt_request_approval env (pl\<lparr>pl_run := r\<rparr>) = mt_request_approval env pl"
  by (simp add: mt_request_approval_def fun_eq_iff split: sum.split prod.split)

lemma mt_run_tool_cong:
  "(\<And>args s. pl_run pl (ms_tool_name st) args s = run' (ms_tool_name st) args s) \<Longrightarrow>
     mt_run_tool env (pl\<lparr>pl_run := run'\<rparr>) plan tid st m s = mt_run_tool env pl plan tid st m s"
  by (simp add: mt_run_tool_def Let_def split: sum.split prod.split)

lemma mt_step_cong:
  assumes "\<And>t args s. mt_allows pl t \<Longrightarrow> pl_run pl t args s = run' t args s"
  shows "mt_step env (pl\<lparr>pl_run := run'\<rparr>) query plan tid st m s = mt_step env pl query plan tid st m s"
proof (cases "mt_allows pl (ms_tool_name st)")
  case True
  have "mt_run_tool env (pl\<lparr>pl_run := run'\<rparr>) plan tid st m s = mt_run_tool env pl plan tid st m s"
    by (rule mt_run_tool_cong) (rule assms [OF True])
  then show ?thesis by (simp add: mt_step_def Let_def split: option.split)
next
  case False
  then show ?thesis
    by (auto simp: mt_step_def mt_allows_def Let_def split: option.split option.split_asm)
qed

lemma mt_loop_cong:
  assumes "\<And>t args s. mt_allows pl t \<Longrightarrow> pl_run pl t args s = run' t args s"
  shows "mt_loop env (pl\<lparr>pl_run := run'\<rparr>) query plan tid sts m s = mt_loop env pl query plan tid sts m s"
  by (induction sts arbitrary: m s)
     (simp_all add: mt_step_cong [OF assms] split: prod.split mt_outcome.split)

lemma multitool_run_cong:
  assumes "\<And>t spec args s. gw_get_tool g t = Some spec \<Longrightarrow> sp_risk_level spec \<noteq> RHigh \<Longrightarrow>
      sp_permission_scope spec \<notin> {''write'', ''admin'', ''schema''} \<Longrightarrow>
      gw_call env g t args [] s = run' t args s"
  shows "multitool_run env ((runtime_pipeline env g)\<lparr>pl_run := run'\<rparr>) query tid s =
         multitool_run env (runtime_pipeline env g) query tid s"
proof -
  have "pl_run (runtime_pipeline env g) t args s = run' t args s"
    if "mt_allows (runtime_pipeline env g) t" for t args s
    using that assms
    by (auto simp: mt_allows_def runtime_pipeline_def runtime_policy_cases restricted_scopes_def
        split: option.splits)
  then show ?thesis
    by (simp add: multitool_run_def run_plan_def mt_loop_cong)
qed

text \<open>
  C6. The policy gates every tool of a multi-tool run. If two ways of calling tools agree on the
  registered tools that are neither high-risk nor of a write, admin or schema scope, the run has
  the same result and leaves the same state: no other tool is ever called.
\<close>

theorem multitool_calls_only_allowed_tools:
  assumes "\<And>t spec args s. gw_get_tool g t = Some spec \<Longrightarrow> sp_risk_level (spec) \<noteq> RHigh \<Longrightarrow>
      sp_permission_scope spec \<notin> {''write'', ''admin'', ''schema''} \<Longrightarrow>
      gw_call env g t args [] s = run' t args s"
  shows "multitool_run env ((runtime_pipeline env g)\<lparr>pl_run := run'\<rparr>) query tid s =
         multitool_run env (runtime_pipeline env g) query tid s"
  by (rule multitool_run_cong) (rule assms)

theorem multitool_calls_only_allowed_tools_witness:
  "multitool_run demo_env ((runtime_pipeline demo_env promo_gateway)
       \<lparr>pl_run := (\<lambda>t args s. if t = ''rule_lookup'' then gw_call demo_env promo_gateway t args [] s
                    else (new_call_record [] t args [], s))\<rparr>) kw_promotion_rule None (sys_init 0) =
   multitool_run demo_env (runtime_pipeline demo_env promo_gateway) kw_promotion_rule None (sys_init 0)"
  by (rule multitool_calls_only_allowed_tools)
     (auto simp: promo_gateway_tools refund_spec_def new_spec_def split: if_splits)

subsection \<open>Dependencies\<close>

lemma mt_failure_fields [simp]:
  "dget (mt_failure plan st etype extra ans calls) ''error_type'' = JStr etype"
  "dget (mt_failure plan st etype extra ans calls) ''success'' = JBool False"
  by (simp_all add: mt_failure_def)

definition mt_stop_types :: "json set" where
  "mt_stop_types = JStr ` {''operation_not_whitelisted'', ''approval_required'', ''policy_blocked'',
     ''variable_resolution_failed'', ''tool_call_failed''}"

lemma mt_run_tool_outcome:
  "mt_run_tool env pl plan tid st m s = (out, s') \<Longrightarrow>
     (case out of
        MGo m' \<Rightarrow> set (mt_completed m') = insert (ms_step_id st) (set (mt_completed m)) \<and>
          (\<exists>d. mt_calls m' = mt_calls m @ [JObj d] \<and> dget d ''success'' = JBool True \<and>
             dget d ''step_id'' = JStr (ms_step_id st))
      | MStop d \<Rightarrow> dget d ''success'' = JBool False \<and> dget d ''error_type'' \<in> mt_stop_types
      | MRaise e \<Rightarrow> False)"
  by (auto simp: mt_run_tool_def mt_stop_types_def unlet split: sum.splits if_splits)

lemma mt_request_approval_outcome:
  "mt_request_approval env pl query plan tid st spec reason m s = (out, s') \<Longrightarrow>
     (case out of
        MGo m' \<Rightarrow> False
      | MStop d \<Rightarrow> dget d ''success'' = JBool False \<and> dget d ''error_type'' \<in> mt_stop_types
      | MRaise e \<Rightarrow> True)"
  by (auto simp: mt_request_approval_def mt_stop_types_def Let_def split: sum.splits prod.splits)

lemma mt_step_outcome:
  assumes "mt_step env pl query plan tid st m s = (out, s')"
  shows "case out of
        MGo m' \<Rightarrow> set (mt_completed m') = insert (ms_step_id st) (set (mt_completed m)) \<and>
          (\<exists>d. mt_calls m' = mt_calls m @ [JObj d] \<and> dget d ''success'' = JBool True \<and>
             dget d ''step_id'' = JStr (ms_step_id st)) \<and> mt_allows pl (ms_tool_name st)
      | MStop d \<Rightarrow> dget d ''success'' = JBool False \<and>
          (dget d ''error_type'' \<in> mt_stop_types \<or>
           check_depends_on (ms_depends_on st) (mt_completed m) \<noteq> None)
      | MRaise e \<Rightarrow> True"
  using assms mt_run_tool_outcome [of env pl plan tid st m s out s']
    mt_request_approval_outcome [of env pl query plan tid st _ _ m s out s']
  by (cases out)
     (auto simp: mt_step_def mt_allows_def Let_def mt_stop_types_def split: option.splits if_splits)

lemma check_depends_on_None: "check_depends_on deps done = None \<longleftrightarrow> set deps \<subseteq> set done"
  by (auto simp: check_depends_on_def Let_def filter_empty_conv)

lemma mt_loop_no_dependency_error:
  "mt_loop env pl query plan tid sts m s = (MStop d, s') \<Longrightarrow> steps_ok ids sts \<Longrightarrow>
     set ids \<subseteq> set (mt_completed m) \<Longrightarrow>
     dget d ''success'' = JBool False \<and> dget d ''error_type'' \<in> mt_stop_types"
proof (induction sts arbitrary: ids m s)
  case (Cons st sts)
  obtain out s1 where step: "mt_step env pl query plan tid st m s = (out, s1)"
    by (cases "mt_step env pl query plan tid st m s")
  note outcome = mt_step_outcome [OF step]
  show ?case
  proof (cases out)
    case (MGo m')
    then have "set (ms_step_id st # ids) \<subseteq> set (mt_completed m')"
      using Cons.prems(3) outcome by auto
    then show ?thesis
      using Cons.IH [of m' s1 "ms_step_id st # ids"] Cons.prems MGo step by simp
  next
    case (MStop d')
    have "check_depends_on (ms_depends_on st) (mt_completed m) = None"
      using Cons.prems(2,3) by (auto simp: check_depends_on_None)
    then show ?thesis
      using outcome step MStop Cons.prems(1) by simp
  next
    case (MRaise e)
    then show ?thesis using Cons.prems(1) step by simp
  qed
qed simp

lemma mt_loop_go:
  "mt_loop env pl query plan tid sts m s = (MGo m', s') \<Longrightarrow>
     (\<exists>ds. mt_calls m' = mt_calls m @ map JObj ds \<and> length ds = length sts \<and>
        (\<forall>d \<in> set ds. dget d ''success'' = JBool True) \<and>
        map (\<lambda>d. dget d ''step_id'') ds = map (\<lambda>st. JStr (ms_step_id st)) sts) \<and>
     (\<forall>st \<in> set sts. mt_allows pl (ms_tool_name st))"
proof (induction sts arbitrary: m s)
  case (Cons st sts)
  obtain m1 s1 where step: "mt_step env pl query plan tid st m s = (MGo m1, s1)"
    and rest: "mt_loop env pl query plan tid sts m1 s1 = (MGo m', s')"
    using Cons.prems by (auto split: prod.splits mt_outcome.splits)
  obtain d where d: "mt_calls m1 = mt_calls m @ [JObj d]" "dget d ''success'' = JBool True"
    "dget d ''step_id'' = JStr (ms_step_id st)" "mt_allows pl (ms_tool_name st)"
    using mt_step_outcome [OF step] by auto
  obtain ds where ds: "mt_calls m' = mt_calls m1 @ map JObj ds" "length ds = length sts"
    "\<forall>d \<in> set ds. dget d ''success'' = JBool True"
    "map (\<lambda>d. dget d ''step_id'') ds = map (\<lambda>st. JStr (ms_step_id st)) sts"
    "\<forall>st \<in> set sts. mt_allows pl (ms_tool_name st)"
    using Cons.IH [OF rest] by blast
  show ?case
    using d ds by (intro conjI exI [of _ "d # ds"]) simp_all
qed simp

text \<open>
  The planner's plans never fail on their own dependencies, for any query, pipeline and tools:
  a run that stops early stops for one of the five other reasons.
\<close>

lemma planned_dependencies_always_met:
  assumes "multitool_run env pl query tid s = (Inr d, s')" and "map_of d ''error_type'' = Some e"
  shows "e \<in> JStr ` {''operation_not_whitelisted'', ''approval_required'', ''policy_blocked'',
            ''variable_resolution_failed'', ''tool_call_failed''}"
proof -
  have "mt_loop env pl query (multitool_plan query) tid (mp_steps (multitool_plan query)) mt_start s = (MStop d, s')"
    using assms
    by (auto simp: multitool_run_def run_plan_def split: if_splits prod.splits mt_outcome.splits sum.splits)
  then have "dget d ''error_type'' \<in> mt_stop_types"
    by (auto dest!: mt_loop_no_dependency_error [OF _ multitool_plan_steps_ok])
  with assms(2) show ?thesis by (simp add: dget_def dget_or_def mt_stop_types_def)
qed

lemma kw_promotion_plan: "multitool_plan kw_promotion_rule = PROMOTION_RULE_PLAN"
  by (simp add: multitool_plan_def MULTITOOL_RULES_def kw_gmv_mom_def kw_mom_growth_def kw_refund_rule_def
      kw_refund_policy_def kw_promotion_rule_def utf8_def utf8_char_def char_of_def)

text \<open>
  A run that reports success ran every step of its plan, in order: the log has one entry per
  step, each of that step and each successful, and every step's tool was allowed.
\<close>

lemma multitool_success_is_complete:
  assumes "multitool_run env pl query tid s = (Inr d, s')" and "dget d ''success'' = JBool True"
  shows "mp_matched (multitool_plan query) \<and>
     (\<exists>ds. dget d ''tool_calls'' = JList (map JObj ds) \<and>
        map (\<lambda>c. dget c ''step_id'') ds = map (\<lambda>st. JStr (ms_step_id st)) (mp_steps (multitool_plan query)) \<and>
        (\<forall>c \<in> set ds. dget c ''success'' = JBool True)) \<and>
     (\<forall>st \<in> set (mp_steps (multitool_plan query)). mt_allows pl (ms_tool_name st))"
proof -
  let ?plan = "multitool_plan query"
  have matched: "mp_matched ?plan"
  proof (rule ccontr)
    assume "\<not> mp_matched ?plan"
    with assms(1) have "dget d ''success'' = JBool False"
      by (auto simp: multitool_run_def run_plan_def)
    with assms(2) show False by simp
  qed
  have "dget d ''success'' = JBool False"
    if "mt_loop env pl query ?plan tid (mp_steps ?plan) mt_start s = (MStop d, s')"
    using mt_loop_no_dependency_error [OF that multitool_plan_steps_ok] by simp
  then have no_stop: "mt_loop env pl query ?plan tid (mp_steps ?plan) mt_start s \<noteq> (MStop d, s')"
    using assms(2) by auto
  obtain m where loop: "mt_loop env pl query ?plan tid (mp_steps ?plan) mt_start s = (MGo m, s')"
    and calls: "dget d ''tool_calls'' = JList (mt_calls m)"
  proof (cases "mt_loop env pl query ?plan tid (mp_steps ?plan) mt_start s")
    case (Pair out s1)
    with assms(1) matched no_stop show ?thesis
      by (cases out) (auto simp: multitool_run_def run_plan_def split: sum.splits intro: that)
  qed
  show ?thesis
    using mt_loop_go [OF loop] matched calls by (auto simp: mt_start_def)
qed

end
