(* ===== verification/Multi_Agent.thy ===== *)
theory Multi_Agent
  imports Risk_Intent Multitool_Pipeline
begin

text \<open>
  The multi-agent mode (\<open>app/agent/multi_agent\<close>): a coordinator picks a mode, an analyst notes it, an
  executor runs it, a reviewer judges the result and may ask for one fallback, and the orchestrator
  strings them together behind the risk guard. The NL2SQL pipeline and the LLM provider are what
  the agents were given.
\<close>

record agent_decision =
  ad_role :: string
  ad_action :: string
  ad_reason :: string
  ad_confidence :: rat
  ad_metadata :: jdict

definition decision_dump :: "agent_decision \<Rightarrow> jdict" where
  "decision_dump d =
     [(''role'', JStr (ad_role d)), (''action'', JStr (ad_action d)), (''reason'', JStr (ad_reason d)),
      (''confidence'', JFloat (ad_confidence d)), (''metadata'', JObj (ad_metadata d))]"

record multi_agent_run_result =
  ma_mode :: string
  ma_success :: bool
  ma_requested_mode :: string
  ma_executed_mode :: string
  ma_final_answer :: string
  ma_decisions :: "agent_decision list"
  ma_execution_result :: jdict
  ma_review_result :: jdict
  ma_fallback_chain :: "string list"

definition run_result_dump :: "multi_agent_run_result \<Rightarrow> jdict" where
  "run_result_dump r =
     [(''mode'', JStr (ma_mode r)), (''success'', JBool (ma_success r)),
      (''requested_mode'', JStr (ma_requested_mode r)), (''executed_mode'', JStr (ma_executed_mode r)),
      (''final_answer'', JStr (ma_final_answer r)),
      (''decisions'', JList (map (\<lambda>d. JObj (decision_dump d)) (ma_decisions r))),
      (''execution_result'', JObj (ma_execution_result r)),
      (''review_result'', JObj (ma_review_result r)), (''fallback_chain'', jstrs (ma_fallback_chain r))]"

subsection \<open>Coordinator\<close>

text \<open>What an LLM provider answers: tool calls, its name and its model.\<close>

record llm_metadata =
  lm_tool_calls :: "json list"
  lm_provider :: string
  lm_model :: string

type_synonym 'w llm_provider = "string \<Rightarrow> json \<Rightarrow> 'w sys \<Rightarrow> (string + llm_metadata) \<times> 'w sys"

record 'w coordinator =
  co_switches :: switches
  co_provider :: "'w llm_provider"

definition CANDIDATE_MODES :: "string list" where
  "CANDIDATE_MODES = [''nl2sql'', ''multitool'', ''keyword'', ''auto'']"

definition ROUTE_MODE_DESCRIPTIONS :: "(string \<times> string) list" where
  "ROUTE_MODE_DESCRIPTIONS =
     [(''nl2sql'', tx_route_nl2sql), (''multitool'', tx_route_multitool), (''keyword'', tx_route_keyword),
      (''auto'', tx_route_auto)]"

definition route_tools :: json where
  "route_tools = JList (map (\<lambda>p. JObj [(''type'', JStr ''function''),
     (''function'', JObj [(''name'', JStr (''route_to_'' @ fst p)), (''description'', JStr (snd p)),
        (''parameters'', JObj [(''type'', JStr ''object''),
           (''properties'', JObj [(''reason'', JObj [(''type'', JStr ''string'')])])])])]) ROUTE_MODE_DESCRIPTIONS)"

definition route_prompt :: "string \<Rightarrow> string" where
  "route_prompt query = tx_route_prompt_head @ [char_of (10::nat)] @ tx_route_prompt_query query"

definition route_confidence :: "string list \<Rightarrow> rat" where
  "route_confidence matched =
     (let count_bonus = of_nat (min (length matched) 2) * (1/10);
          length_bonus = (if list_ex (\<lambda>kw. 4 \<le> py_len kw) matched then 1/10 else 5/100)
      in py_round 2 (min (6/10 + count_bonus + length_bonus) (95/100)))"

definition decide_with_rules :: "switches \<Rightarrow> string \<Rightarrow> string option \<Rightarrow> agent_decision" where
  "decide_with_rules sw query why =
     (let extra = (case why of None \<Rightarrow> [] | Some r \<Rightarrow> [(''llm_fallback_reason'', JStr r)])
      in case match_rule sw build_coordinator_rules query of
           Some (rule, matched) \<Rightarrow>
             \<lparr>ad_role = ''coordinator'', ad_action = rr_action rule,
              ad_reason = tx_rule_matched (hd matched) (rr_selected_mode rule),
              ad_confidence = route_confidence matched,
              ad_metadata = [(''selected_mode'', JStr (rr_selected_mode rule)), (''matched_keywords'', jstrs matched),
                (''decision_source'', JStr ''rule''),
                (''confidence_basis'', JStr ''keyword_match_count_and_length'')] @ extra\<rparr>
         | None \<Rightarrow>
             \<lparr>ad_role = ''coordinator'', ad_action = ''unknown'', ad_reason = tx_no_rule, ad_confidence = 5/10,
              ad_metadata = [(''selected_mode'', JStr ''auto''), (''decision_source'', JStr ''rule''),
                (''confidence_basis'', JStr ''no_rule_matched'')] @ extra\<rparr>)"

text \<open>
  The name of the called function: \<open>str((function or {}).get("name") or "")\<close> of the first tool call. A
  function entry that is neither a dict nor false raises.
\<close>

definition called_name :: "'w env \<Rightarrow> json \<Rightarrow> string + string" where
  "called_name env call =
     (let f = (case call of JObj d \<Rightarrow> dget d ''function'' | _ \<Rightarrow> JNull)
      in if \<not> truthy f then Inr []
         else case f of
                JObj d \<Rightarrow> Inr (py_str env (or_else (dget d ''name'') (JStr [])))
              | v \<Rightarrow> Inl (attr_error v ''get''))"

definition route_mode :: "string \<Rightarrow> string" where
  "route_mode name = (if prefix ''route_to_'' name then drop 9 name else [])"

datatype llm_decision = LRaise string | LFallback string | LDecide agent_decision

definition decide_with_llm ::
  "'w env \<Rightarrow> 'w coordinator \<Rightarrow> string \<Rightarrow> 'w sys \<Rightarrow> llm_decision \<times> 'w sys"
where
  "decide_with_llm env co query s =
     (case co_provider co (route_prompt query) route_tools s of
        (Inl e, s1) \<Rightarrow> (LFallback (''provider_error: '' @ e), s1)
      | (Inr md, s1) \<Rightarrow>
          (case lm_tool_calls md of
             [] \<Rightarrow> (LFallback tx_no_tool_call, s1)
           | call # _ \<Rightarrow>
               (case called_name env call of
                  Inl e \<Rightarrow> (LRaise e, s1)
                | Inr name \<Rightarrow>
                    (let mode = route_mode name
                     in if mode \<notin> set CANDIDATE_MODES then (LFallback (tx_invalid_mode name), s1)
                        else let (conf, basis, action) =
                               (case match_rule (co_switches co) build_coordinator_rules query of
                                  Some (rule, _) \<Rightarrow>
                                    (if rr_selected_mode rule = mode then (9/10, ''llm_rule_agree'', rr_action rule)
                                     else (7/10, ''llm_only'', ''llm_route''))
                                | None \<Rightarrow> (7/10, ''llm_only'', ''llm_route''))
                             in (LDecide \<lparr>ad_role = ''coordinator'', ad_action = action,
                                   ad_reason = tx_llm_route mode, ad_confidence = conf,
                                   ad_metadata = [(''selected_mode'', JStr mode), (''decision_source'', JStr ''llm''),
                                     (''confidence_basis'', JStr basis), (''provider'', JStr (lm_provider md)),
                                     (''model'', JStr (lm_model md))]\<rparr>, s1)))))"

definition coordinator_decide ::
  "'w env \<Rightarrow> 'w coordinator \<Rightarrow> string \<Rightarrow> 'w sys \<Rightarrow> (string + agent_decision) \<times> 'w sys"
where
  "coordinator_decide env co query s =
     (if co_switches co ''coordinator_llm_enabled''
      then (case decide_with_llm env co query s of
              (LRaise e, s1) \<Rightarrow> (Inl e, s1)
            | (LDecide d, s1) \<Rightarrow> (Inr d, s1)
            | (LFallback why, s1) \<Rightarrow> (Inr (decide_with_rules (co_switches co) query (Some why)), s1))
      else (Inr (decide_with_rules (co_switches co) query None), s))"

subsection \<open>Analyst\<close>

definition analyze :: "string \<Rightarrow> agent_decision \<Rightarrow> agent_decision" where
  "analyze query cd =
     (let mode = dget_or (ad_metadata cd) ''selected_mode'' (JStr ''auto'');
          needs_schema = (mode = JStr ''nl2sql'');
          needs_multitool = (mode = JStr ''multitool'');
          parts0 = (if needs_schema then [tx_needs_schema] else []) @
                   (if needs_multitool then [tx_needs_multitool] else []);
          parts = (if parts0 = [] then [tx_simple_query] else parts0);
          summary = tx_plan_summary query (ad_action cd) (str_join '', '' parts)
      in \<lparr>ad_role = ''analyst'', ad_action = ''plan_analysis'', ad_reason = summary,
          ad_confidence = ad_confidence cd,
          ad_metadata = [(''selected_mode'', mode), (''needs_schema'', JBool needs_schema),
            (''needs_multitool'', JBool needs_multitool), (''plan_summary'', JStr summary)]\<rparr>)"

subsection \<open>Executor\<close>

text \<open>\<open>pipeline.run(query, generator, provider, fallback_to_mock)\<close>.\<close>

record nl2sql_opts =
  no_generator :: string
  no_provider :: "string option"
  no_fallback_to_mock :: bool

type_synonym 'w nl2sql_run = "string \<Rightarrow> nl2sql_opts \<Rightarrow> 'w sys \<Rightarrow> (string + jdict) \<times> 'w sys"

record 'w executor =
  ex_nl2sql :: "'w nl2sql_run"
  ex_multitool :: "string \<Rightarrow> string option \<Rightarrow> 'w sys \<Rightarrow> (string + jdict) \<times> 'w sys"
  ex_gateway :: "(tool_lookup \<times> (string \<Rightarrow> jdict \<Rightarrow> 'w sys \<Rightarrow> tool_call_record \<times> 'w sys)) option"
  ex_policy :: "policy_engine option"
  ex_switches :: switches

text \<open>\<open>result["success"]\<close>, with the text of the \<open>KeyError\<close>.\<close>

definition success_item :: "jdict \<Rightarrow> string + bool" where
  "success_item d =
     (case map_of d ''success'' of None \<Rightarrow> Inl (utf8 [39] @ ''success'' @ utf8 [39]) | Some v \<Rightarrow> Inr (truthy v))"

definition how_text :: "bool \<Rightarrow> string" where
  "how_text ok = (if ok then tx_success else tx_failure)"

definition exec_decision :: "string \<Rightarrow> string \<Rightarrow> rat \<Rightarrow> jdict \<Rightarrow> agent_decision" where
  "exec_decision action reason conf md =
     \<lparr>ad_role = ''executor'', ad_action = action, ad_reason = reason, ad_confidence = conf, ad_metadata = md\<rparr>"

definition execute_nl2sql ::
  "'w executor \<Rightarrow> string \<Rightarrow> nl2sql_opts \<Rightarrow> 'w sys \<Rightarrow> (string + jdict \<times> agent_decision) \<times> 'w sys"
where
  "execute_nl2sql ex query opts s =
     bind_out (ex_nl2sql ex query opts s) (\<lambda>res s1.
       (case success_item res of
          Inl e \<Rightarrow> (Inl e, s1)
        | Inr ok \<Rightarrow>
            (Inr (res, exec_decision ''execute_nl2sql'' (tx_exec_nl2sql (how_text ok))
               (if ok then 9/10 else 5/10) [(''selected_mode'', JStr ''nl2sql'')]), s1)))"

definition execute_multitool ::
  "'w executor \<Rightarrow> string \<Rightarrow> string option \<Rightarrow> 'w sys \<Rightarrow> (string + jdict \<times> agent_decision) \<times> 'w sys"
where
  "execute_multitool ex query tid s =
     bind_out (ex_multitool ex query tid s) (\<lambda>res s1.
       (case success_item res of
          Inl e \<Rightarrow> (Inl e, s1)
        | Inr ok \<Rightarrow>
            (Inr (res, exec_decision ''execute_multitool'' (tx_exec_multitool (how_text ok))
               (if ok then 9/10 else 5/10) [(''selected_mode'', JStr ''multitool'')]), s1)))"

definition kw_finish :: "jdict \<Rightarrow> jdict \<times> agent_decision" where
  "kw_finish res =
     (let ok = truthy (dget res ''success'')
      in (res, exec_decision ''execute_keyword'' (tx_exec_keyword (how_text ok)) (if ok then 9/10 else 5/10)
            [(''selected_mode'', JStr ''keyword''), (''policy_blocked'', JBool False)]))"

definition kw_failure :: "string \<Rightarrow> jdict" where
  "kw_failure answer = [(''mode'', JStr ''keyword''), (''success'', JBool False), (''answer'', JStr answer)]"

definition kw_blocked :: "string \<Rightarrow> string \<Rightarrow> jdict \<times> agent_decision" where
  "kw_blocked tool reason =
     (kw_failure (tx_policy_blocked reason) @
        [(''tool_called'', JStr tool), (''error_type'', JStr ''policy_blocked''), (''blocked'', JBool True)],
      exec_decision ''execute_keyword'' tx_exec_blocked (3/10)
        [(''selected_mode'', JStr ''keyword''), (''policy_blocked'', JBool True)])"

definition kw_called :: "'w env \<Rightarrow> string \<Rightarrow> tool_call_record \<Rightarrow> jdict" where
  "kw_called env tool r =
     (if cr_success r
      then [(''mode'', JStr ''keyword''), (''success'', JBool True),
            (''answer'', JStr (tx_query_result (py_str env (keyword_get_label (JStr tool))) (py_str env (cr_result r)))),
            (''data'', cr_result r), (''tool_called'', JStr tool)]
      else kw_failure (tx_kw_call_failed (py_str env (cr_error r))) @ [(''tool_called'', JStr tool)])"

definition execute_keyword ::
  "'w env \<Rightarrow> 'w executor \<Rightarrow> string \<Rightarrow> 'w sys \<Rightarrow> (jdict \<times> agent_decision) \<times> 'w sys"
where
  "execute_keyword env ex query s =
     (let plan = keyword_plan (ex_switches ex) query; tool = or_str (dget plan ''tool_name'')
      in if \<not> truthy (dget plan ''matched'') then (kw_finish (kw_failure tx_kw_unmatched), s)
         else if \<not> truthy (dget plan ''tool_name'') then (kw_finish (kw_failure tx_no_tool), s)
         else case ex_gateway ex of
                None \<Rightarrow> (kw_finish (kw_failure tx_no_tool), s)
              | Some (lookup, run) \<Rightarrow>
                  (let d = (case lookup tool of
                              None \<Rightarrow> None
                            | Some spec \<Rightarrow> map_option (\<lambda>pe. pe_evaluate pe tool (Some (sp_risk_level spec)) None)
                                             (ex_policy ex))
                   in if (case d of None \<Rightarrow> False | Some d \<Rightarrow> \<not> pd_allowed d)
                      then (kw_blocked tool (case d of None \<Rightarrow> [] | Some d \<Rightarrow> pd_reason d), s)
                      else (case run tool [] s of (r, s1) \<Rightarrow> (kw_finish (kw_called env tool r), s1))))"

definition chained :: "jdict \<Rightarrow> string list \<Rightarrow> jdict" where
  "chained res chain = dput (dput res ''executed_mode'' (JStr (last chain))) ''fallback_chain'' (jstrs chain)"

definition auto_decision :: "string \<Rightarrow> rat \<Rightarrow> string \<Rightarrow> agent_decision" where
  "auto_decision reason conf mode =
     exec_decision ''execute_auto'' reason conf [(''selected_mode'', JStr ''auto''), (''executed_mode'', JStr mode)]"

definition execute_auto ::
  "'w env \<Rightarrow> 'w executor \<Rightarrow> string \<Rightarrow> nl2sql_opts \<Rightarrow> string option \<Rightarrow> 'w sys \<Rightarrow>
     (string + jdict \<times> agent_decision) \<times> 'w sys"
where
  "execute_auto env ex query opts tid s =
     bind_out (execute_nl2sql ex query opts s) (\<lambda>out s1.
       (let res = fst out
        in if truthy (dget res ''success'')
           then (Inr (chained res [''nl2sql''], auto_decision tx_auto_nl2sql (9/10) ''nl2sql''), s1)
           else bind_out (execute_multitool ex query tid s1) (\<lambda>out2 s2.
             (let res2 = fst out2
              in if truthy (dget res2 ''success'')
                 then (Inr (chained res2 [''nl2sql'', ''multitool''],
                            auto_decision tx_auto_multitool (7/10) ''multitool''), s2)
                 else (case execute_keyword env ex query s2 of
                         ((res3, _), s3) \<Rightarrow>
                           (Inr (chained res3 [''nl2sql'', ''multitool'', ''keyword''],
                                 auto_decision tx_auto_keyword (5/10) ''keyword''), s3))))))"

definition executor_execute ::
  "'w env \<Rightarrow> 'w executor \<Rightarrow> string \<Rightarrow> string \<Rightarrow> nl2sql_opts \<Rightarrow> string option \<Rightarrow> 'w sys \<Rightarrow>
     (string + jdict \<times> agent_decision) \<times> 'w sys"
where
  "executor_execute env ex query mode opts tid s =
     (if mode = ''nl2sql'' then execute_nl2sql ex query opts s
      else if mode = ''multitool'' then execute_multitool ex query tid s
      else if mode = ''keyword'' then (case execute_keyword env ex query s of (out, s1) \<Rightarrow> (Inr out, s1))
      else execute_auto env ex query opts tid s)"

subsection \<open>Reviewer\<close>

definition suggest_fallback :: "string \<Rightarrow> string" where
  "suggest_fallback mode =
     (if mode = ''nl2sql'' then ''multitool'' else if mode = ''multitool'' then ''keyword''
      else if mode = ''keyword'' then ''auto'' else ''keyword'')"

definition review_out :: "bool \<Rightarrow> string \<Rightarrow> string option \<Rightarrow> string \<Rightarrow> rat \<Rightarrow> jdict \<Rightarrow> jdict \<times> agent_decision" where
  "review_out ok reason fb action conf md =
     ([(''approved'', JBool ok), (''reason'', JStr reason), (''suggested_fallback_mode'', opt_str fb)],
      \<lparr>ad_role = ''reviewer'', ad_action = action, ad_reason = reason, ad_confidence = conf, ad_metadata = md\<rparr>)"

definition review :: "jdict \<Rightarrow> string \<Rightarrow> jdict \<times> agent_decision" where
  "review res mode =
     (let success = truthy (dget res ''success'');
          has_answer = truthy (dget res ''answer'') \<or> truthy (dget res ''final_answer'');
          blocked = truthy (dget res ''blocked'') \<or> truthy (dget res ''requires_approval'')
      in if success \<and> has_answer
         then review_out True tx_review_ok None ''approve'' (95/100) [(''approved'', JBool True)]
         else if blocked
         then review_out False tx_review_blocked None ''reject'' (85/100)
                [(''approved'', JBool False), (''suggested_fallback_mode'', JNull), (''policy_blocked'', JBool True)]
         else if \<not> success \<and> mode = ''auto''
         then review_out False tx_review_auto None ''reject'' (8/10)
                [(''approved'', JBool False), (''suggested_fallback_mode'', JNull)]
         else if \<not> success
         then review_out False (tx_review_fallback (suggest_fallback mode)) (Some (suggest_fallback mode))
                ''suggest_fallback'' (7/10)
                [(''approved'', JBool False), (''suggested_fallback_mode'', JStr (suggest_fallback mode))]
         else review_out False tx_review_no_answer (Some ''keyword'') ''reject'' (6/10)
                [(''approved'', JBool False), (''suggested_fallback_mode'', JStr ''keyword'')])"

subsection \<open>Orchestrator\<close>

record 'w orchestrator =
  or_coordinator :: "'w coordinator"
  or_executor :: "'w executor"
  or_trace :: bool

definition ma_trace :: "'w env \<Rightarrow> 'w orchestrator \<Rightarrow> string option \<Rightarrow> string \<Rightarrow> jdict \<Rightarrow> 'w sys \<Rightarrow> 'w sys" where
  "ma_trace env orc tid etype detail s =
     sys_trace_if (or_trace orc \<and> tid_text tid \<noteq> []) env etype (tid_text tid) detail s"

definition executor_detail :: "jdict \<Rightarrow> jdict \<Rightarrow> jdict" where
  "executor_detail head res =
     head @ (if truthy (dget res ''tool_called'') then [(''tool_called'', dget res ''tool_called'')] else []) @
     (if truthy (dget res ''tool_calls'') then [(''tool_calls'', dget res ''tool_calls'')] else [])"

definition mark_fallback :: "agent_decision \<Rightarrow> agent_decision" where
  "mark_fallback d = d\<lparr>ad_metadata := dput (ad_metadata d) ''fallback'' (JBool True)\<rparr>"

text \<open>\<open>execution_result.get("answer", "") or execution_result.get("formatted_result", {}).get("summary", "")\<close>.\<close>

definition final_answer_of :: "jdict \<Rightarrow> string + json" where
  "final_answer_of res =
     (if truthy (dget res ''answer'') then Inr (dget res ''answer'')
      else case dget_or res ''formatted_result'' (JObj []) of
             JObj d \<Rightarrow> Inr (dget_or d ''summary'' (JStr []))
           | v \<Rightarrow> Inl (attr_error v ''get''))"

text \<open>What a run holds after its execution: result, review, mode, decisions and chain.\<close>

record ma_point =
  mp_res :: jdict
  mp_review :: jdict
  mp_mode :: string
  mp_decs :: "agent_decision list"
  mp_chain :: "string list"

definition ma_blocked :: "risk_finding \<Rightarrow> multi_agent_run_result" where
  "ma_blocked f =
     \<lparr>ma_mode = ''multi_agent'', ma_success = False, ma_requested_mode = ''multi_agent'',
      ma_executed_mode = ''blocked'', ma_final_answer = tx_risk_blocked (rf_reason f), ma_decisions = [],
      ma_execution_result = [(''success'', JBool False), (''answer'', JStr (tx_risk_blocked (rf_reason f))),
        (''blocked'', JBool True), (''blocked_reason'', JStr (rf_reason f))],
      ma_review_result = [(''approved'', JBool False), (''reason'', JStr (rf_reason f))],
      ma_fallback_chain = []\<rparr>"

text \<open>The fallback, when the review asks for one; its result stands only if it is approved.\<close>

definition ma_fallback ::
  "'w env \<Rightarrow> 'w orchestrator \<Rightarrow> string \<Rightarrow> string option \<Rightarrow> nl2sql_opts \<Rightarrow> ma_point \<Rightarrow> 'w sys \<Rightarrow>
     (string + ma_point) \<times> 'w sys"
where
  "ma_fallback env orc query tid opts m s =
     (if truthy (dget (mp_review m) ''approved'') \<or> \<not> truthy (dget (mp_review m) ''suggested_fallback_mode'')
      then (Inr m, s)
      else
        (let fb = or_str (dget (mp_review m) ''suggested_fallback_mode'');
             s1 = ma_trace env orc tid ''multi_agent_fallback_started''
                    [(''original_mode'', JStr (mp_mode m)), (''fallback_mode'', JStr fb)] s
         in bind_out (executor_execute env (or_executor orc) query fb opts tid s1) (\<lambda>(res, d) s2.
              (let s3 = ma_trace env orc tid ''executor_completed''
                     (executor_detail [(''success'', dget_or res ''success'' (JBool False)),
                        (''executed_mode'', JStr fb), (''fallback'', JBool True)] res) s2;
                   (rev, rd) = review res fb;
                   s4 = ma_trace env orc tid ''reviewer_completed''
                     [(''approved'', dget rev ''approved''), (''fallback'', JBool True)] s3;
                   ok = truthy (dget rev ''approved'');
                   s5 = ma_trace env orc tid ''multi_agent_fallback_completed''
                     [(''fallback_mode'', JStr fb), (''success'', JBool ok)] s4;
                   m1 = m\<lparr>mp_decs := mp_decs m @ [mark_fallback d, mark_fallback rd],
                          mp_chain := mp_chain m @ [fb]\<rparr>
               in (Inr (if ok then m1\<lparr>mp_res := res, mp_review := rev, mp_mode := fb\<rparr> else m1), s5)))))"

definition ma_finish ::
  "'w env \<Rightarrow> 'w orchestrator \<Rightarrow> string option \<Rightarrow> ma_point \<Rightarrow> 'w sys \<Rightarrow> (string + multi_agent_run_result) \<times> 'w sys"
where
  "ma_finish env orc tid m s =
     (case final_answer_of (mp_res m) of
        Inl e \<Rightarrow> (Inl e, s)
      | Inr answer \<Rightarrow>
          (let mode = or_str (dget_or (mp_res m) ''executed_mode'' (JStr (mp_mode m)));
               ok = truthy (dget (mp_res m) ''success'')
           in (Inr \<lparr>ma_mode = ''multi_agent'', ma_success = ok, ma_requested_mode = ''multi_agent'',
                    ma_executed_mode = mode, ma_final_answer = py_str env answer, ma_decisions = mp_decs m,
                    ma_execution_result = mp_res m, ma_review_result = mp_review m,
                    ma_fallback_chain = mp_chain m\<rparr>,
               if ok then ma_trace env orc tid ''multi_agent_completed'' [(''executed_mode'', JStr mode)] s
               else ma_trace env orc tid ''multi_agent_failed''
                      [(''reason'', or_else answer (JStr tx_exec_failed))] s)))"

definition multi_agent_run ::
  "'w env \<Rightarrow> 'w orchestrator \<Rightarrow> string \<Rightarrow> string option \<Rightarrow> nl2sql_opts \<Rightarrow> 'w sys \<Rightarrow>
     (string + multi_agent_run_result) \<times> 'w sys"
where
  "multi_agent_run env orc query tid opts s =
     (let s1 = ma_trace env orc tid ''multi_agent_started'' [(''query'', JStr query)] s;
          f = risk_check query
      in if rf_detected f
         then (let s2 = ma_trace env orc tid ''risk_intent_blocked''
                     [(''reason'', JStr (rf_reason f)), (''matched_keywords'', jstrs (rf_matched f))] s1
               in (Inr (ma_blocked f),
                   ma_trace env orc tid ''multi_agent_failed'' [(''reason'', JStr (rf_reason f))] s2))
         else bind_out (coordinator_decide env (or_coordinator orc) query s1) (\<lambda>cd s2.
           (let s3 = ma_trace env orc tid ''coordinator_decided''
                  [(''action'', JStr (ad_action cd)), (''selected_mode'', dget (ad_metadata cd) ''selected_mode'')] s2;
                an = analyze query cd;
                s4 = ma_trace env orc tid ''analyst_planned''
                  [(''plan_summary'', dget_or (ad_metadata an) ''plan_summary'' (JStr []))] s3;
                mode = or_str (dget_or (ad_metadata cd) ''selected_mode'' (JStr ''auto''))
            in bind_out (executor_execute env (or_executor orc) query mode opts tid s4) (\<lambda>(res, d) s5.
                 (let s6 = ma_trace env orc tid ''executor_completed''
                        (executor_detail [(''success'', dget_or res ''success'' (JBool False)),
                           (''executed_mode'', dget_or res ''executed_mode'' (JStr mode))] res) s5;
                      (rev, rd) = review res mode;
                      s7 = ma_trace env orc tid ''reviewer_completed'' [(''approved'', dget rev ''approved'')] s6
                  in bind_out (ma_fallback env orc query tid opts
                         \<lparr>mp_res = res, mp_review = rev, mp_mode = mode, mp_decs = [cd, an, d, rd],
                          mp_chain = [mode]\<rparr> s7)
                       (\<lambda>m s8. ma_finish env orc tid m s8))))))"

text \<open>The executor and the orchestrator the runtime builds over a gateway.\<close>

definition runtime_executor :: "'w env \<Rightarrow> 'w gateway \<Rightarrow> switches \<Rightarrow> 'w nl2sql_run \<Rightarrow> 'w executor" where
  "runtime_executor env g sw nl =
     \<lparr>ex_nl2sql = nl, ex_multitool = multitool_run env (runtime_pipeline env g),
      ex_gateway = Some (gw_get_tool g, \<lambda>tool args s. gw_call env g tool args [] s),
      ex_policy = Some (runtime_policy g), ex_switches = sw\<rparr>"

definition runtime_orchestrator ::
  "'w env \<Rightarrow> 'w gateway \<Rightarrow> switches \<Rightarrow> 'w llm_provider \<Rightarrow> 'w nl2sql_run \<Rightarrow> 'w orchestrator"
where
  "runtime_orchestrator env g sw llm nl =
     \<lparr>or_coordinator = \<lparr>co_switches = sw, co_provider = llm\<rparr>, or_executor = runtime_executor env g sw nl,
      or_trace = True\<rparr>"

definition demo_orchestrator :: "nat orchestrator" where
  "demo_orchestrator = runtime_orchestrator demo_env promo_gateway (\<lambda>_. False)
     (\<lambda>prompt tools s. (Inl ''offline'', s)) (\<lambda>query opts s. (Inr [(''success'', JBool False)], s))"

definition demo_opts :: nl2sql_opts where
  "demo_opts = \<lparr>no_generator = ''mock'', no_provider = None, no_fallback_to_mock = True\<rparr>"

subsection \<open>Risk\<close>

text \<open>
  A query with a risk phrase is refused before any agent acts. Wherever one of the literal
  phrases stands in the query, the run answers that it is blocked, with no decision and no fallback,
  and the coordinator and the executor are never asked: replacing them changes nothing.
\<close>

lemma risk_phrase_never_executes:
  assumes "(rx_lit w, label) \<in> set RISK_INTENT_PATTERNS" and "w \<noteq> []" and "str_in w query"
  shows "fst (multi_agent_run env orc query tid opts s) = Inr (ma_blocked (risk_check query)) \<and>
     label \<in> set (rf_matched (risk_check query)) \<and>
     multi_agent_run env (orc\<lparr>or_coordinator := co, or_executor := ex\<rparr>) query tid opts s =
     multi_agent_run env orc query tid opts s"
proof -
  have "ma_trace env (orc\<lparr>or_coordinator := co, or_executor := ex\<rparr>) = ma_trace env orc"
    by (simp add: ma_trace_def fun_eq_iff)
  then show ?thesis
    using risk_check_literal [OF assms] by (simp add: multi_agent_run_def Let_def)
qed

subsection \<open>Fallback\<close>

lemma review_cases:
  "truthy (dget (fst (review res mode)) ''approved'') \<longleftrightarrow>
     truthy (dget res ''success'') \<and> (truthy (dget res ''answer'') \<or> truthy (dget res ''final_answer''))"
  by (simp add: review_def review_out_def Let_def)

lemma review_fallback:
  "dget (fst (review res mode)) ''suggested_fallback_mode'' \<in> {JNull, JStr (suggest_fallback mode), JStr ''keyword''}"
  by (simp add: review_def review_out_def Let_def)

lemma review_blocked:
  "truthy (dget res ''blocked'') \<or> truthy (dget res ''requires_approval'') \<Longrightarrow>
     dget (fst (review res mode)) ''suggested_fallback_mode'' = JNull"
  by (auto simp: review_def review_out_def Let_def)

lemma review_auto_failed:
  "\<not> truthy (dget res ''success'') \<Longrightarrow> dget (fst (review res ''auto'')) ''suggested_fallback_mode'' = JNull"
  by (simp add: review_def review_out_def Let_def)

text \<open>
  No fallback goes around an approval or a refusal: when the first result is blocked, waits for
  approval, or is the failure of the automatic cascade, the run ends with it, and nothing further is
  executed.
\<close>

lemma no_fallback_around_approval:
  assumes "truthy (dget res ''blocked'') \<or> truthy (dget res ''requires_approval'') \<or>
      (mode = ''auto'' \<and> \<not> truthy (dget res ''success''))"
    and "mp_review m = fst (review res mode)"
  shows "ma_fallback env orc query tid opts m s = (Inr m, s)"
proof -
  have "dget (mp_review m) ''suggested_fallback_mode'' = JNull"
    using assms review_blocked review_auto_failed by metis
  then show ?thesis by (simp add: ma_fallback_def)
qed

lemma exec_decision_role [simp]:
  "ad_role (exec_decision a r c md) = ''executor''" "ad_role (auto_decision r c mode) = ''executor''"
  by (simp_all add: exec_decision_def auto_decision_def)

lemma execute_keyword_role: "ad_role (snd (fst (execute_keyword env ex query s))) = ''executor''"
  by (simp add: execute_keyword_def kw_finish_def kw_blocked_def Let_def split: option.split prod.split)

lemma execute_nl2sql_role: "execute_nl2sql ex query opts s = (Inr (res, d), s') \<Longrightarrow> ad_role d = ''executor''"
  by (auto simp: execute_nl2sql_def elim!: bind_out_InrE split: sum.split_asm)

lemma execute_multitool_role:
  "execute_multitool ex query tid s = (Inr (res, d), s') \<Longrightarrow> ad_role d = ''executor''"
  by (auto simp: execute_multitool_def elim!: bind_out_InrE split: sum.split_asm)

lemma execute_auto_role:
  "execute_auto env ex query opts tid s = (Inr (res, d), s') \<Longrightarrow> ad_role d = ''executor''"
  by (auto simp: execute_auto_def Let_def elim!: bind_out_InrE split: if_split_asm prod.split_asm)

lemma executor_execute_role:
  "executor_execute env ex query mode opts tid s = (Inr (res, d), s') \<Longrightarrow> ad_role d = ''executor''"
  using execute_keyword_role [of env ex query s] execute_nl2sql_role execute_multitool_role execute_auto_role
  by (auto simp: executor_execute_def split: if_splits prod.splits)

lemma review_role: "ad_role (snd (review res mode)) = ''reviewer''"
  by (simp add: review_def review_out_def Let_def)

lemma mark_fallback_role [simp]: "ad_role (mark_fallback d) = ad_role d"
  by (simp add: mark_fallback_def)

lemma ma_fallback_Inr:
  assumes "ma_fallback env orc query tid opts m s = (Inr m', s')"
  shows "m' = m \<or>
     (\<exists>d rd. mp_decs m' = mp_decs m @ [mark_fallback d, mark_fallback rd] \<and>
        mp_chain m' = mp_chain m @ [or_str (dget (mp_review m) ''suggested_fallback_mode'')] \<and>
        ad_role d = ''executor'' \<and> ad_role rd = ''reviewer'')"
proof (cases "truthy (dget (mp_review m) ''approved'') \<or> \<not> truthy (dget (mp_review m) ''suggested_fallback_mode'')")
  case True
  with assms show ?thesis by (simp add: ma_fallback_def)
next
  case False
  define fb where "fb = or_str (dget (mp_review m) ''suggested_fallback_mode'')"
  from assms False obtain res d t where ex: "executor_execute env (or_executor orc) query fb opts tid
        (ma_trace env orc tid ''multi_agent_fallback_started''
           [(''original_mode'', JStr (mp_mode m)), (''fallback_mode'', JStr fb)] s) = (Inr (res, d), t)"
    by (cases "executor_execute env (or_executor orc) query fb opts tid
        (ma_trace env orc tid ''multi_agent_fallback_started''
           [(''original_mode'', JStr (mp_mode m)), (''fallback_mode'', JStr fb)] s)")
       (auto simp: ma_fallback_def fb_def bind_out_def Let_def split: sum.splits)
  have "mp_decs m' = mp_decs m @ [mark_fallback d, mark_fallback (snd (review res fb))] \<and>
      mp_chain m' = mp_chain m @ [fb]"
    using assms False ex
    by (auto simp: ma_fallback_def fb_def [symmetric] Let_def split: prod.splits if_splits)
  then show ?thesis
    using executor_execute_role [OF ex] review_role unfolding fb_def by blast
qed

lemma ma_finish_Inr:
  "ma_finish env orc tid m s = (Inr r, s') \<Longrightarrow>
     ma_decisions r = mp_decs m \<and> ma_fallback_chain r = mp_chain m \<and> ma_execution_result r = mp_res m \<and>
     ma_review_result r = mp_review m \<and> (ma_success r \<longleftrightarrow> truthy (dget (mp_res m) ''success''))"
  by (auto simp: ma_finish_def Let_def split: sum.split_asm)

lemma decide_with_rules_role [simp]: "ad_role (decide_with_rules sw query why) = ''coordinator''"
  by (simp add: decide_with_rules_def Let_def split: option.split prod.split)

lemma decide_with_llm_role:
  "decide_with_llm env co query s = (LDecide d, s') \<Longrightarrow> ad_role d = ''coordinator''"
  by (auto simp: decide_with_llm_def Let_def split: prod.splits sum.split_asm list.split_asm if_split_asm)

lemma coordinator_decide_role:
  "coordinator_decide env co query s = (Inr d, s') \<Longrightarrow> ad_role d = ''coordinator''"
  using decide_with_llm_role
  by (auto simp: coordinator_decide_def split: prod.splits llm_decision.split_asm if_split_asm)

lemma analyze_role [simp]: "ad_role (analyze query cd) = ''analyst''"
  by (simp add: analyze_def Let_def)

lemma ma_fallback_reviewed:
  assumes "ma_fallback env orc query tid opts m s = (Inr m', s')"
    and "mp_review m = fst (review (mp_res m) (mp_mode m))" and "mp_mode m \<in> set (mp_chain m)"
  shows "mp_review m' = fst (review (mp_res m') (mp_mode m')) \<and> mp_mode m' \<in> set (mp_chain m')"
proof (cases "truthy (dget (mp_review m) ''approved'') \<or> \<not> truthy (dget (mp_review m) ''suggested_fallback_mode'')")
  case True
  with assms show ?thesis by (simp add: ma_fallback_def)
next
  case False
  then show ?thesis
    using assms by (auto simp: ma_fallback_def Let_def elim!: bind_out_InrE split: prod.splits if_splits)
qed

text \<open>
  The record of a run. A run that returns either was blocked before any agent acted, with no
  decision, or carries the decisions of coordinator, analyst, executor and reviewer in this order,
  followed by those of one more executor and reviewer when there was a fallback; the chain names one
  mode per execution, so there is never a second fallback. The review reported is the review of the
  result reported, and the run succeeds exactly when that result does.
\<close>

lemma run_record_is_consistent:
  assumes "multi_agent_run env orc query tid opts s = (Inr r, s')"
  shows "(map ad_role (ma_decisions r), length (ma_fallback_chain r)) \<in>
      {([], 0), ([''coordinator'', ''analyst'', ''executor'', ''reviewer''], 1),
       ([''coordinator'', ''analyst'', ''executor'', ''reviewer'', ''executor'', ''reviewer''], 2)} \<and>
     (ma_decisions r = [] \<longleftrightarrow> rf_detected (risk_check query)) \<and>
     (ma_decisions r \<noteq> [] \<longrightarrow> (\<exists>mode \<in> set (ma_fallback_chain r).
        ma_review_result r = fst (review (ma_execution_result r) mode))) \<and>
     (ma_success r \<longleftrightarrow> truthy (dget (ma_execution_result r) ''success''))"
proof (cases "rf_detected (risk_check query)")
  case True
  with assms show ?thesis by (auto simp: multi_agent_run_def ma_blocked_def Let_def)
next
  case False
  let ?mode = "\<lambda>cd. or_str (dget_or (ad_metadata cd) ''selected_mode'' (JStr ''auto''))"
  obtain cd s1 s2 s3 out s4 s5 m s6
    where c: "coordinator_decide env (or_coordinator orc) query s1 = (Inr cd, s2)"
      and x': "executor_execute env (or_executor orc) query (?mode cd) opts tid s3 = (Inr out, s4)"
      and f': "ma_fallback env orc query tid opts
           \<lparr>mp_res = fst out, mp_review = fst (review (fst out) (?mode cd)), mp_mode = ?mode cd,
            mp_decs = [cd, analyze query cd, snd out, snd (review (fst out) (?mode cd))],
            mp_chain = [?mode cd]\<rparr> s5 = (Inr m, s6)"
      and g: "ma_finish env orc tid m s6 = (Inr r, s')"
    using assms False
    unfolding multi_agent_run_def Let_def case_prod_beta
    by (simp only: if_False) (elim bind_out_InrE, blast)
  obtain res d mode where x: "executor_execute env (or_executor orc) query mode opts tid s3 = (Inr (res, d), s4)"
    and f: "ma_fallback env orc query tid opts
           \<lparr>mp_res = res, mp_review = fst (review res mode), mp_mode = mode,
            mp_decs = [cd, analyze query cd, d, snd (review res mode)], mp_chain = [mode]\<rparr> s5 = (Inr m, s6)"
    using x' f' by (cases out) auto
  have roles: "ad_role cd = ''coordinator''" "ad_role d = ''executor''"
    using coordinator_decide_role [OF c] executor_execute_role [OF x] by auto
  show ?thesis
    using ma_fallback_Inr [OF f] ma_fallback_reviewed [OF f] ma_finish_Inr [OF g] roles False
    by (auto simp: review_role)
qed

definition run_roles :: "string + multi_agent_run_result \<Rightarrow> string list" where
  "run_roles out = (case out of Inl _ \<Rightarrow> [] | Inr r \<Rightarrow> map ad_role (ma_decisions r))"

subsection \<open>Gates\<close>

text \<open>
  The tools the policy does not hold back: those it would run and the unregistered ones, whose calls
  the gateway answers itself.
\<close>

definition not_held_back :: "'w gateway \<Rightarrow> string \<Rightarrow> bool" where
  "not_held_back g t \<longleftrightarrow>
     (case gw_get_tool g t of
        None \<Rightarrow> True
      | Some spec \<Rightarrow> sp_risk_level spec \<noteq> RHigh \<and> sp_permission_scope spec \<notin> set restricted_scopes)"

definition with_run :: "(string \<Rightarrow> jdict \<Rightarrow> 'w sys \<Rightarrow> tool_call_record \<times> 'w sys) \<Rightarrow> 'w env \<Rightarrow> 'w gateway \<Rightarrow>
     'w executor \<Rightarrow> 'w executor" where
  "with_run run' env g ex =
     ex\<lparr>ex_gateway := Some (gw_get_tool g, run'),
        ex_multitool := multitool_run env ((runtime_pipeline env g)\<lparr>pl_run := run'\<rparr>)\<rparr>"

lemma execute_keyword_cong:
  assumes "\<And>t args s. not_held_back g t \<Longrightarrow> gw_call env g t args [] s = run' t args s"
  shows "execute_keyword env (with_run run' env g (runtime_executor env g sw nl)) query s =
     execute_keyword env (runtime_executor env g sw nl) query s"
proof -
  let ?plan = "keyword_plan sw query" and ?tool = "or_str (dget (keyword_plan sw query) ''tool_name'')"
  show ?thesis
  proof (cases "not_held_back g ?tool")
    case True
    then show ?thesis
      using assms [OF True]
      by (simp add: execute_keyword_def with_run_def runtime_executor_def Let_def cong: option.case_cong)
  next
    case False
    then obtain spec where "gw_get_tool g ?tool = Some spec"
      "\<not> pd_allowed (pe_evaluate (runtime_policy g) ?tool (Some (sp_risk_level spec)) None)"
      by (auto simp: not_held_back_def runtime_policy_cases split: option.splits)
    then show ?thesis
      by (simp add: execute_keyword_def with_run_def runtime_executor_def Let_def)
  qed
qed

lemma executor_execute_cong:
  assumes "\<And>t args s. not_held_back g t \<Longrightarrow> gw_call env g t args [] s = run' t args s"
  shows "executor_execute env (with_run run' env g (runtime_executor env g sw nl)) query mode opts tid s =
     executor_execute env (runtime_executor env g sw nl) query mode opts tid s"
proof -
  have mt: "multitool_run env ((runtime_pipeline env g)\<lparr>pl_run := run'\<rparr>) = multitool_run env (runtime_pipeline env g)"
    by (intro ext multitool_run_cong assms) (simp add: not_held_back_def restricted_scopes_def)
  let ?ex = "runtime_executor env g sw nl"
  have kw: "execute_keyword env (with_run run' env g ?ex) = execute_keyword env ?ex"
    by (intro ext execute_keyword_cong) (rule assms)
  have "execute_nl2sql (with_run run' env g ?ex) = execute_nl2sql ?ex"
    by (intro ext) (simp add: execute_nl2sql_def with_run_def)
  moreover have "execute_multitool (with_run run' env g ?ex) = execute_multitool ?ex"
    by (intro ext) (simp add: execute_multitool_def with_run_def mt, simp add: runtime_executor_def)
  ultimately show ?thesis
    by (simp only: executor_execute_def execute_auto_def kw)
qed

lemma multi_agent_run_cong:
  assumes "\<And>t args s. not_held_back g t \<Longrightarrow> gw_call env g t args [] s = run' t args s"
    and "orc = runtime_orchestrator env g sw llm nl"
  shows "multi_agent_run env (orc\<lparr>or_executor := with_run run' env g (or_executor orc)\<rparr>) query tid opts s =
     multi_agent_run env orc query tid opts s"
proof -
  let ?orc = "orc\<lparr>or_executor := with_run run' env g (or_executor orc)\<rparr>"
  have tr: "ma_trace env ?orc = ma_trace env orc"
    by (simp add: ma_trace_def fun_eq_iff)
  have ex: "executor_execute env (or_executor ?orc) = executor_execute env (or_executor orc)"
    using executor_execute_cong [OF assms(1)] assms(2)
    by (simp add: fun_eq_iff runtime_orchestrator_def)
  have fb: "ma_fallback env ?orc = ma_fallback env orc"
    by (intro ext) (simp only: ma_fallback_def tr ex)
  have fin: "ma_finish env ?orc = ma_finish env orc"
    by (intro ext) (simp only: ma_finish_def tr)
  have co: "or_coordinator ?orc = or_coordinator orc" by simp
  show ?thesis
    by (simp only: multi_agent_run_def tr ex fb fin co)
qed

text \<open>
  No agent goes around the policy. Whatever mode the coordinator picks and whatever fallback the
  reviewer asks for, a tool the policy holds back (high-risk, or of a write, admin or schema scope)
  is never called: two ways of calling tools that agree on the others give the same run.
\<close>

lemma multi_agent_calls_only_allowed_tools:
  assumes "\<And>t args s. not_held_back g t \<Longrightarrow> gw_call env g t args [] s = run' t args s"
    and "orc = runtime_orchestrator env g sw llm nl"
  shows "multi_agent_run env (orc\<lparr>or_executor := with_run run' env g (or_executor orc)\<rparr>) query tid opts s =
     multi_agent_run env orc query tid opts s"
  by (rule multi_agent_run_cong [OF assms])

end
