(* ===== verification/LLM_Planner.thy ===== *)
theory LLM_Planner
  imports Query_Texts Multi_Agent
begin

text \<open>
  The planner that lets an LLM pick a tool by function calling
  (\<open>app/agent/nodes/llm_planner.py\<close>): the tools offered, the validation of the arguments against a
  tool's input schema, and the fallback to the keyword planner. \<open>json.loads\<close> and the provider are
  what the planner is given.
\<close>

text \<open>What \<open>plan\<close> catches (\<open>ValueError\<close>) and what it lets through.\<close>

datatype raised = RValue string | ROther string

record 'w llm_planner =
  lp_tools :: "tool_spec list"
  lp_lookup :: tool_lookup
  lp_provider :: "'w llm_provider"
  lp_switches :: switches
  lp_loads :: "string \<Rightarrow> string + json"

subsection \<open>Tools offered\<close>

definition tool_entry :: "tool_spec \<Rightarrow> json" where
  "tool_entry spec =
     JObj [(''type'', JStr ''function''),
       (''function'', JObj
          [(''name'', JStr (sp_tool_name spec)),
           (''description'', JStr (tx_tool_desc
              (if sp_description spec = [] then sp_tool_name spec else sp_description spec)
              (risk_level_value (sp_risk_level spec)))),
           (''parameters'',
              if sp_input_schema spec \<noteq> [] then JObj (sp_input_schema spec)
              else JObj [(''type'', JStr ''object''), (''properties'', JObj [])])])]"

definition build_tools_from_gateway :: "tool_spec list \<Rightarrow> json list" where
  "build_tools_from_gateway specs = map tool_entry specs"

subsection \<open>Arguments\<close>

text \<open>The type checks of JSON Schema; \<open>bool\<close> is no number. An unknown type name checks nothing.\<close>

definition json_type_ok :: "string \<Rightarrow> json \<Rightarrow> bool" where
  "json_type_ok t v =
     (if t = ''string'' then (case v of JStr _ \<Rightarrow> True | _ \<Rightarrow> False)
      else if t = ''integer'' then (case v of JInt _ \<Rightarrow> True | _ \<Rightarrow> False)
      else if t = ''number'' then (case v of JInt _ \<Rightarrow> True | JFloat _ \<Rightarrow> True | _ \<Rightarrow> False)
      else if t = ''boolean'' then (case v of JBool _ \<Rightarrow> True | _ \<Rightarrow> False)
      else if t = ''array'' then (case v of JList _ \<Rightarrow> True | _ \<Rightarrow> False)
      else if t = ''object'' then (case v of JObj _ \<Rightarrow> True | _ \<Rightarrow> False)
      else if t = ''null'' then v = JNull
      else True)"

definition expected_type :: "json \<Rightarrow> string option" where
  "expected_type prop =
     (case prop of JObj d \<Rightarrow> (case dget d ''type'' of JStr t \<Rightarrow> Some t | _ \<Rightarrow> None) | _ \<Rightarrow> None)"

definition fits_schema :: "json \<Rightarrow> json \<Rightarrow> bool" where
  "fits_schema prop v \<longleftrightarrow> (case expected_type prop of None \<Rightarrow> True | Some t \<Rightarrow> json_type_ok t v)"

fun clean_arguments :: "jdict \<Rightarrow> jdict \<Rightarrow> raised + jdict \<times> string list" where
  "clean_arguments props [] = Inr ([], [])"
| "clean_arguments props ((k, v) # rest) =
     (case map_of props k of
        None \<Rightarrow>
          (case clean_arguments props rest of Inl e \<Rightarrow> Inl e | Inr (cleaned, ignored) \<Rightarrow> Inr (cleaned, k # ignored))
      | Some prop \<Rightarrow>
          if \<not> fits_schema prop v
          then Inl (RValue (tx_arg_type k (case expected_type prop of None \<Rightarrow> [] | Some t \<Rightarrow> t)))
          else (case clean_arguments props rest of Inl e \<Rightarrow> Inl e
                | Inr (cleaned, ignored) \<Rightarrow> Inr ((k, v) # cleaned, ignored)))"

text \<open>
  \<open>[key for key in required if key not in cleaned]\<close>: an entry of \<open>required\<close> that cannot be hashed
  raises a \<open>TypeError\<close>, as does joining a missing entry that is not a string.
\<close>

fun missing_required :: "jdict \<Rightarrow> json list \<Rightarrow> raised + json list" where
  "missing_required cleaned [] = Inr []"
| "missing_required cleaned (r # rs) =
     (case r of
        JList _ \<Rightarrow> Inl (ROther (''unhashable type: '' @ utf8 [39] @ ''list'' @ utf8 [39]))
      | JObj _ \<Rightarrow> Inl (ROther (''unhashable type: '' @ utf8 [39] @ ''dict'' @ utf8 [39]))
      | _ \<Rightarrow>
          (case missing_required cleaned rs of Inl e \<Rightarrow> Inl e
           | Inr ms \<Rightarrow> Inr (if (case r of JStr k \<Rightarrow> map_of cleaned k \<noteq> None | _ \<Rightarrow> False) then ms else r # ms)))"

fun join_keys :: "nat \<Rightarrow> json list \<Rightarrow> raised + string list" where
  "join_keys i [] = Inr []"
| "join_keys i (JStr k # ks) = (case join_keys (i + 1) ks of Inl e \<Rightarrow> Inl e | Inr xs \<Rightarrow> Inr (k # xs))"
| "join_keys i (v # ks) =
     Inl (ROther (''sequence item '' @ nat_text i @ '': expected str instance, '' @ type_name v @ '' found''))"

definition schema_properties :: "jdict \<Rightarrow> jdict" where
  "schema_properties schema = or_dict (dget schema ''properties'')"

definition schema_required :: "jdict \<Rightarrow> json list" where
  "schema_required schema = or_list (dget schema ''required'')"

definition validate_tool_arguments :: "jdict \<Rightarrow> jdict \<Rightarrow> raised + jdict \<times> string list" where
  "validate_tool_arguments schema args =
     (case clean_arguments (schema_properties schema) args of
        Inl e \<Rightarrow> Inl e
      | Inr (cleaned, ignored) \<Rightarrow>
          (case missing_required cleaned (schema_required schema) of
             Inl e \<Rightarrow> Inl e
           | Inr [] \<Rightarrow> Inr (cleaned, ignored)
           | Inr ms \<Rightarrow>
               (case join_keys 0 ms of Inl e \<Rightarrow> Inl e
                | Inr ks \<Rightarrow> Inl (RValue (tx_args_missing (str_join '', '' ks))))))"

definition parse_arguments :: "'w llm_planner \<Rightarrow> json \<Rightarrow> raised + jdict" where
  "parse_arguments lp raw =
     (case raw of
        JNull \<Rightarrow> Inr []
      | JObj d \<Rightarrow> Inr d
      | JStr s \<Rightarrow>
          (if strip s = [] then Inr []
           else case lp_loads lp s of
                  Inl e \<Rightarrow> Inl (RValue (tx_args_bad_json e))
                | Inr (JObj d) \<Rightarrow> Inr d
                | Inr _ \<Rightarrow> Inl (RValue tx_args_not_object))
      | v \<Rightarrow> Inl (RValue (tx_args_type (type_name v))))"

subsection \<open>The plan\<close>

definition planner_prompt :: "string \<Rightarrow> string" where
  "planner_prompt query = tx_lp_prompt_head @ [char_of (10::nat)] @ tx_route_prompt_query query"

definition fallback_plan :: "'w llm_planner \<Rightarrow> string \<Rightarrow> string \<Rightarrow> jdict" where
  "fallback_plan lp query reason =
     dput (dput (keyword_plan (lp_switches lp) query) ''planner'' (JStr ''keyword'')) ''fallback_reason'' (JStr reason)"

definition called_arguments :: "json \<Rightarrow> json" where
  "called_arguments call =
     (case call of JObj d \<Rightarrow> (case dget d ''function'' of JObj f \<Rightarrow> dget f ''arguments'' | _ \<Rightarrow> JNull) | _ \<Rightarrow> JNull)"

definition llm_plan_call :: "'w env \<Rightarrow> 'w llm_planner \<Rightarrow> string \<Rightarrow> llm_metadata \<Rightarrow> json \<Rightarrow> string + jdict" where
  "llm_plan_call env lp query md call =
     (case called_name env call of
        Inl e \<Rightarrow> Inl e
      | Inr tool \<Rightarrow>
          (case lp_lookup lp tool of
             None \<Rightarrow> Inr (fallback_plan lp query (tx_lp_unknown tool))
           | Some spec \<Rightarrow>
               (case (case parse_arguments lp (called_arguments call) of
                        Inl e \<Rightarrow> Inl e
                      | Inr args \<Rightarrow> validate_tool_arguments (sp_input_schema spec) args) of
                  Inl (RValue e) \<Rightarrow> Inr (fallback_plan lp query (''invalid_arguments: '' @ e))
                | Inl (ROther e) \<Rightarrow> Inl e
                | Inr (cleaned, ignored) \<Rightarrow>
                    Inr ([(''tool_name'', JStr tool), (''matched'', JBool True),
                          (''label'', keyword_get_label (JStr tool)), (''planner'', JStr ''llm''),
                          (''arguments'', JObj cleaned), (''provider'', JStr (lm_provider md)),
                          (''model'', JStr (lm_model md))] @
                         (if ignored \<noteq> [] then [(''ignored_arguments'', jstrs ignored)] else [])))))"

definition llm_plan :: "'w env \<Rightarrow> 'w llm_planner \<Rightarrow> string \<Rightarrow> 'w sys \<Rightarrow> (string + jdict) \<times> 'w sys" where
  "llm_plan env lp query s =
     (let tools = build_tools_from_gateway (lp_tools lp)
      in if tools = [] then (Inr (fallback_plan lp query tx_lp_no_tools), s)
         else case lp_provider lp (planner_prompt query) (JList tools) s of
                (Inl e, s1) \<Rightarrow> (Inr (fallback_plan lp query (''provider_error: '' @ e)), s1)
              | (Inr md, s1) \<Rightarrow>
                  (case lm_tool_calls md of
                     [] \<Rightarrow> (Inr (fallback_plan lp query tx_lp_no_call), s1)
                   | call # _ \<Rightarrow> (llm_plan_call env lp query md call, s1)))"

subsection \<open>What a plan may hold\<close>

text \<open>The arguments a tool's schema admits: declared, of the declared type, none required missing.\<close>

definition declared_arg :: "jdict \<Rightarrow> string \<times> json \<Rightarrow> bool" where
  "declared_arg props kv = (case map_of props (fst kv) of None \<Rightarrow> False | Some p \<Rightarrow> fits_schema p (snd kv))"

definition schema_admits :: "jdict \<Rightarrow> jdict \<Rightarrow> bool" where
  "schema_admits schema args \<longleftrightarrow>
     list_all (declared_arg (schema_properties schema)) args \<and>
     list_all (\<lambda>r. case r of JStr k \<Rightarrow> map_of args k \<noteq> None | _ \<Rightarrow> False) (schema_required schema)"

lemma clean_arguments_admits:
  "clean_arguments props args = Inr (cleaned, ignored) \<Longrightarrow>
     list_all (declared_arg props) cleaned \<and> subseq cleaned args"
  by (induction props args arbitrary: cleaned ignored rule: clean_arguments.induct)
     (fastforce simp: declared_arg_def split: option.splits sum.splits if_splits)+

lemma missing_required_none:
  "missing_required cleaned rs = Inr [] \<Longrightarrow>
     list_all (\<lambda>r. case r of JStr k \<Rightarrow> map_of cleaned k \<noteq> None | _ \<Rightarrow> False) rs"
  by (induction cleaned rs rule: missing_required.induct)
     (auto split: json.splits sum.splits if_splits)

lemma validate_admits:
  "validate_tool_arguments schema args = Inr (cleaned, ignored) \<Longrightarrow>
     schema_admits schema cleaned \<and> subseq cleaned args"
  by (auto simp: validate_tool_arguments_def schema_admits_def
      dest!: clean_arguments_admits missing_required_none split: sum.splits list.splits)

text \<open>
  C34. What the LLM planner hands on. A plan marked as the LLM's names a registered tool, and its
  arguments are admitted by that tool's input schema: each is declared and of the declared type, and
  none required is missing. Any other plan is the keyword planner's, marked with the reason.
\<close>

theorem llm_plan_is_validated:
  assumes "llm_plan env lp query s = (Inr plan, s')"
  shows "(\<exists>reason. plan = fallback_plan lp query reason) \<or>
     (\<exists>tool spec args. dget plan ''planner'' = JStr ''llm'' \<and> dget plan ''tool_name'' = JStr tool \<and>
        lp_lookup lp tool = Some spec \<and> dget plan ''arguments'' = JObj args \<and>
        schema_admits (sp_input_schema spec) args)"
proof -
  have "(\<exists>reason. plan = fallback_plan lp query reason) \<or>
     (\<exists>tool spec args. dget plan ''planner'' = JStr ''llm'' \<and> dget plan ''tool_name'' = JStr tool \<and>
        lp_lookup lp tool = Some spec \<and> dget plan ''arguments'' = JObj args \<and>
        schema_admits (sp_input_schema spec) args)"
    if call: "llm_plan_call env lp query md call = Inr plan" for md call
  proof (cases "\<exists>reason. plan = fallback_plan lp query reason")
    case False
    with call show ?thesis
      by (auto simp: llm_plan_call_def dest!: validate_admits
          split: sum.splits option.splits raised.splits prod.splits)
  qed blast
  with assms show ?thesis
    by (auto simp: llm_plan_def Let_def split: if_splits prod.splits sum.splits list.splits)
qed

definition demo_llm_planner :: "nat llm_planner" where
  "demo_llm_planner =
     \<lparr>lp_tools = [(new_spec ''rule_lookup'')\<lparr>sp_input_schema :=
          [(''properties'', JObj [(''rule'', JObj [(''type'', JStr ''string'')])]), (''required'', JList [JStr ''rule''])]\<rparr>],
      lp_lookup = (\<lambda>t. if t = ''rule_lookup'' then Some ((new_spec ''rule_lookup'')\<lparr>sp_input_schema :=
          [(''properties'', JObj [(''rule'', JObj [(''type'', JStr ''string'')])]), (''required'', JList [JStr ''rule''])]\<rparr>)
          else None),
      lp_provider = (\<lambda>prompt tools s. (Inr \<lparr>lm_tool_calls =
          [JObj [(''function'', JObj [(''name'', JStr ''rule_lookup''),
             (''arguments'', JObj [(''rule'', JStr ''refund''), (''inject'', JInt 1)])])]],
          lm_provider = ''p'', lm_model = ''m''\<rparr>, s)),
      lp_switches = (\<lambda>_. False), lp_loads = (\<lambda>s. Inl s)\<rparr>"

definition is_llm_plan :: "string + jdict \<Rightarrow> bool" where
  "is_llm_plan out = (case out of Inl _ \<Rightarrow> False | Inr plan \<Rightarrow> dget plan ''planner'' = JStr ''llm'')"

theorem llm_plan_is_validated_witness:
  "\<exists>plan s'. llm_plan demo_env demo_llm_planner ''q'' (sys_init 0) = (Inr plan, s') \<and>
     (\<exists>args. dget plan ''arguments'' = JObj args \<and> map_of args ''inject'' = None)"
proof -
  have "is_llm_plan (fst (llm_plan demo_env demo_llm_planner ''q'' (sys_init 0)))" by code_simp
  then obtain plan s' where p: "llm_plan demo_env demo_llm_planner ''q'' (sys_init 0) = (Inr plan, s')"
    and k: "dget plan ''planner'' = JStr ''llm''"
    by (cases "llm_plan demo_env demo_llm_planner ''q'' (sys_init 0)")
       (auto simp: is_llm_plan_def split: sum.splits)
  have "fallback_plan demo_llm_planner ''q'' reason \<noteq> plan" for reason
    using k by (auto simp: fallback_plan_def)
  then obtain tool spec args where t: "lp_lookup demo_llm_planner tool = Some spec"
    and a: "dget plan ''arguments'' = JObj args" and ok: "schema_admits (sp_input_schema spec) args"
    using llm_plan_is_validated [OF p] by metis
  from t ok have "map_of args ''inject'' = None"
    by (auto simp: demo_llm_planner_def schema_admits_def schema_properties_def list_all_iff or_dict_def
        declared_arg_def map_of_eq_None_iff split: if_splits)
  with p a show ?thesis by blast
qed

end
