(* ===== verification/Self_Check.thy ===== *)
theory Self_Check
  imports Query_Texts System_State
begin

text \<open>
  The self check of a task's result (\<open>app/harness/reflection/self_check.py\<close>): eight checks, each of
  which notes its name and may add an issue with a suggestion; the score and the verdict follow from
  the number of issues. The kernel calls it without trace and audit events.
\<close>

record reflection =
  rl_passed :: bool
  rl_score :: rat
  rl_issues :: "string list"
  rl_suggestions :: "string list"
  rl_checked_items :: "string list"

definition reflection_dump :: "reflection \<Rightarrow> jdict" where
  "reflection_dump r =
     [(''passed'', JBool (rl_passed r)), (''score'', JFloat (rl_score r)), (''issues'', jstrs (rl_issues r)),
      (''suggestions'', jstrs (rl_suggestions r)), (''checked_items'', jstrs (rl_checked_items r))]"

text \<open>What one check adds: an issue with its suggestion, or nothing. Reading an event may raise.\<close>

type_synonym check_result = "string + (string \<times> string) option"

definition check_result_success :: "jdict \<Rightarrow> check_result" where
  "check_result_success r =
     Inr (if \<not> truthy (dget r ''requires_approval'') \<and> dget r ''success'' = JBool False
          then Some (''task_result.success is false'', tx_sc_success) else None)"

definition check_approval_consistency :: "jdict \<Rightarrow> check_result" where
  "check_approval_consistency r =
     Inr (if truthy (dget r ''requires_approval'') \<and> \<not> truthy (dget r ''approval_id'')
          then Some (''requires_approval=true but no approval_id'', tx_sc_approval) else None)"

definition check_injection_consistency :: "jdict \<Rightarrow> jdict list \<Rightarrow> check_result" where
  "check_injection_consistency r events =
     Inr (if list_ex (\<lambda>e. dget e ''event_type'' = JStr ''prompt_injection_blocked'') events \<and>
             dget r ''success'' = JBool True
          then Some (''prompt_injection_blocked but task completed successfully'', tx_sc_injection) else None)"

text \<open>\<open>any(...)\<close> over the events; an event of a tool call whose detail is not a dict raises.\<close>

fun any_tool_failed :: "jdict list \<Rightarrow> string + bool" where
  "any_tool_failed [] = Inr False"
| "any_tool_failed (e # es) =
     (if dget e ''event_type'' \<noteq> JStr ''tool_called'' then any_tool_failed es
      else case dget_or e ''detail'' (JObj []) of
             JObj d \<Rightarrow> (if dget d ''success'' = JBool False then Inr True else any_tool_failed es)
           | v \<Rightarrow> Inl (attr_error v ''get''))"

definition check_tool_call_consistency :: "jdict \<Rightarrow> jdict list \<Rightarrow> check_result" where
  "check_tool_call_consistency r events =
     (case any_tool_failed events of
        Inl e \<Rightarrow> Inl e
      | Inr failed \<Rightarrow>
          Inr (if failed \<and> dget r ''success'' = JBool True
               then Some (''tool_call failed but task claims success'', tx_sc_tool) else None))"

definition check_nl2sql_consistency :: "jdict \<Rightarrow> check_result" where
  "check_nl2sql_consistency r =
     Inr (if dget r ''guard_allowed'' = JBool False \<and> dget r ''success'' = JBool True
          then Some (''nl2sql guard_allowed=false but execution success'', tx_sc_nl2sql) else None)"

fun security_events :: "jdict list \<Rightarrow> string + jdict list" where
  "security_events [] = Inr []"
| "security_events (e # es) =
     (case dget_or e ''event_type'' (JStr []) of
        JStr t \<Rightarrow>
          (case security_events es of
             Inl x \<Rightarrow> Inl x
           | Inr xs \<Rightarrow> Inr (if prefix ''prompt_injection'' t then e # xs else xs))
      | v \<Rightarrow> Inl (attr_error v ''startswith''))"

definition check_audit_consistency :: "jdict \<Rightarrow> jdict list option \<Rightarrow> check_result" where
  "check_audit_consistency r audit =
     (case audit of
        None \<Rightarrow> Inr None
      | Some events \<Rightarrow>
          (case security_events events of
             Inl e \<Rightarrow> Inl e
           | Inr xs \<Rightarrow>
               Inr (if xs \<noteq> [] \<and>
                       \<not> list_ex (\<lambda>e. dget e ''event_type'' = JStr ''prompt_injection_blocked'') xs
                    then Some (''security event found but no prompt_injection_blocked audit'', tx_sc_audit)
                    else None)))"

text \<open>\<open>v and str(v).strip()\<close>.\<close>

definition shows_text :: "'w env \<Rightarrow> json \<Rightarrow> bool" where
  "shows_text env v \<longleftrightarrow> truthy v \<and> strip (py_str env v) \<noteq> []"

definition has_presentable_result :: "'w env \<Rightarrow> jdict \<Rightarrow> bool" where
  "has_presentable_result env r \<longleftrightarrow>
     shows_text env (dget r ''answer'') \<or> shows_text env (dget r ''summary'') \<or>
     (case dget r ''formatted_result'' of JObj d \<Rightarrow> shows_text env (dget d ''summary'') | _ \<Rightarrow> False) \<or>
     (case dget r ''execution'' of JObj d \<Rightarrow> truthy (dget d ''rows'') | _ \<Rightarrow> False) \<or>
     shows_text env (dget r ''chart_spec'') \<or>
     (shows_text env (dget r ''result'') \<and> dget r ''result'' \<notin> {JBool True, JBool False})"

definition check_empty_result :: "'w env \<Rightarrow> jdict \<Rightarrow> check_result" where
  "check_empty_result env r =
     Inr (if \<not> has_presentable_result env r
          then Some (''no presentable result in task result'', tx_sc_empty) else None)"

definition check_waiting_approval :: "'w env \<Rightarrow> jdict \<Rightarrow> check_result" where
  "check_waiting_approval env r =
     Inr (if truthy (dget r ''requires_approval'') \<and>
             str_in ''failed'' (lower (py_str env (dget_or r ''status'' (JStr []))))
          then Some (''waiting_approval task marked as failed'', tx_sc_waiting) else None)"

definition CHECKED_ITEMS :: "string list" where
  "CHECKED_ITEMS = [''result_success'', ''approval_consistency'', ''injection_consistency'',
     ''tool_call_consistency'', ''nl2sql_consistency'', ''audit_consistency'', ''empty_result'',
     ''waiting_approval'']"

definition reflection_score :: "nat \<Rightarrow> rat" where
  "reflection_score n = py_round 2 (if n = 0 then 1 else max 0 (1 - of_nat n * (1/5)))"

definition self_check ::
  "'w env \<Rightarrow> jdict \<Rightarrow> jdict list option \<Rightarrow> jdict list option \<Rightarrow> string + reflection"
where
  "self_check env r trace audit =
     (let events = (case trace of None \<Rightarrow> [] | Some es \<Rightarrow> es)
      in case seq_sum
           [check_result_success r, check_approval_consistency r, check_injection_consistency r events,
            check_tool_call_consistency r events, check_nl2sql_consistency r, check_audit_consistency r audit,
            check_empty_result env r, check_waiting_approval env r] of
           Inl e \<Rightarrow> Inl e
         | Inr found \<Rightarrow>
             (let hits = concat (map (\<lambda>f. case f of None \<Rightarrow> [] | Some h \<Rightarrow> [h]) found)
              in Inr \<lparr>rl_passed = (hits = []), rl_score = reflection_score (length hits),
                      rl_issues = map fst hits, rl_suggestions = map snd hits,
                      rl_checked_items = CHECKED_ITEMS\<rparr>))"

subsection \<open>What a verdict says\<close>

text \<open>The contract of the check the kernel makes, on the result alone.\<close>

definition sound_result :: "'w env \<Rightarrow> jdict \<Rightarrow> bool" where
  "sound_result env r \<longleftrightarrow>
     has_presentable_result env r \<and>
     \<not> (dget r ''guard_allowed'' = JBool False \<and> dget r ''success'' = JBool True) \<and>
     (if truthy (dget r ''requires_approval'')
      then truthy (dget r ''approval_id'') \<and>
        \<not> str_in ''failed'' (lower (py_str env (dget_or r ''status'' (JStr []))))
      else dget r ''success'' \<noteq> JBool False)"

lemmas check_defs = check_result_success_def check_approval_consistency_def check_injection_consistency_def
  check_tool_call_consistency_def check_nl2sql_consistency_def check_audit_consistency_def
  check_empty_result_def check_waiting_approval_def

lemma seq_sum_length: "seq_sum xs = Inr ys \<Longrightarrow> length ys = length xs"
  by (induction xs arbitrary: ys rule: seq_sum.induct) (auto split: sum.splits)

lemma length_hits: "length (concat (map (\<lambda>f. case f of None \<Rightarrow> [] | Some h \<Rightarrow> [h]) xs)) \<le> length xs"
  by (induction xs) (auto split: option.split)

text \<open>One issue costs 0.2, five or more leave nothing.\<close>

lemma reflection_score_values:
  "n \<le> 8 \<Longrightarrow> reflection_score n = (if n \<ge> 5 then 0 else 1 - of_nat n / 5)"
proof -
  assume "n \<le> 8"
  then have "n \<in> {0,1,2,3,4,5,6,7,8}" by auto
  then show ?thesis
    by (elim insertE emptyE) (simp_all add: reflection_score_def py_round_def round_half_even_def Let_def)
qed

text \<open>
  The self check of a result, as the kernel makes it, never raises; it passes exactly the
  sound results (something to show, no success past the SQL guard, no plain failure, and an approval
  identifier where an approval is awaited); each issue carries a suggestion, and the score is one
  minus a fifth per issue, never below zero.
\<close>

lemma self_check_verdict:
  "\<exists>ref. self_check env r None None = Inr ref \<and> (rl_passed ref \<longleftrightarrow> sound_result env r) \<and>
     (rl_passed ref \<longleftrightarrow> rl_issues ref = []) \<and>
     length (rl_suggestions ref) = length (rl_issues ref) \<and>
     rl_score ref = max 0 (1 - of_nat (length (rl_issues ref)) / 5)"
proof -
  let ?cs = "[check_result_success r, check_approval_consistency r, check_injection_consistency r [],
       check_tool_call_consistency r [], check_nl2sql_consistency r, check_audit_consistency r None,
       check_empty_result env r, check_waiting_approval env r]"
  obtain found where f: "seq_sum ?cs = Inr found" and n: "length found = 8"
    by (simp add: check_defs)
  let ?hits = "concat (map (\<lambda>f. case f of None \<Rightarrow> [] | Some h \<Rightarrow> [h]) found)"
  have "length ?hits \<le> 8" using length_hits [of found] n by simp
  then have "reflection_score (length ?hits) = max 0 (1 - of_nat (length ?hits) / 5)"
    by (simp add: reflection_score_values)
  moreover have "?hits = [] \<longleftrightarrow> sound_result env r"
    using f by (auto simp: check_defs sound_result_def split: if_splits)
  ultimately show ?thesis
    using f by (simp add: self_check_def Let_def)
qed

end
