(* ===== verification/Task_Store.thy ===== *)
theory Task_Store
  imports Keyed_Store Demo_World
begin

text \<open>
  \<open>SQLiteTaskStore\<close> (\<open>app/storage/task_store.py\<close>): the task rows. \<open>update_task_status\<close> merges the
  given result into the stored one, key by key.
\<close>

type_synonym tasks = "task_row list"

definition tk_get :: "string \<Rightarrow> tasks \<Rightarrow> task_row option" where
  "tk_get tid rows = lookup_by tr_id tid rows"

definition task_row_of :: "task_run \<Rightarrow> string option \<Rightarrow> task_row" where
  "task_row_of t mode =
     \<lparr>tr_id = tk_id t, tr_query = tk_query t, tr_mode = (case mode of None \<Rightarrow> [] | Some m \<Rightarrow> m),
      tr_status = tk_status t,
      tr_result = (if truthy (tk_result t) then Some (or_dict (tk_result t)) else None),
      tr_error = tk_error t, tr_created_at = tk_created_at t, tr_updated_at = tk_updated_at t\<rparr>"

definition save_task :: "task_run \<Rightarrow> string option \<Rightarrow> tasks \<Rightarrow> tasks" where
  "save_task t mode rows = table_replace tr_id (task_row_of t mode) rows"

definition tk_list :: "int \<Rightarrow> tasks \<Rightarrow> tasks" where
  "tk_list limit rows = take (clamp_limit 20 100 limit) (order_desc tr_created_at rows)"

definition merged_result :: "task_row \<Rightarrow> jdict option \<Rightarrow> jdict option" where
  "merged_result r res =
     (let existing = (case tr_result r of None \<Rightarrow> [] | Some d \<Rightarrow> d)
      in case res of
           Some d \<Rightarrow> Some (dupd existing d)
         | None \<Rightarrow> if existing \<noteq> [] then Some existing else None)"

definition tk_update ::
  "string \<Rightarrow> task_status \<Rightarrow> jdict option \<Rightarrow> string \<Rightarrow> tasks \<Rightarrow> task_row option \<times> tasks"
where
  "tk_update tid status res now rows =
     (case tk_get tid rows of
        None \<Rightarrow> (None, rows)
      | Some cur \<Rightarrow>
          (let d = merged_result cur res;
               rows' = table_modify tr_id tid
                 (\<lambda>r. r\<lparr>tr_status := status, tr_result := d, tr_updated_at := now\<rparr>) rows
           in (tk_get tid rows', rows')))"

definition update_task_status ::
  "'w env \<Rightarrow> string \<Rightarrow> task_status \<Rightarrow> jdict option \<Rightarrow> 'w sys \<Rightarrow> 'w sys"
where
  "update_task_status env tid status res s =
     s\<lparr>sy_tasks := snd (tk_update tid status res (sys_now env s) (sy_tasks s))\<rparr>"

definition tasks_ok :: "tasks \<Rightarrow> bool" where
  "tasks_ok rows \<longleftrightarrow> distinct (map tr_id rows)"

interpretation task_table: keyed_store tr_id tk_get "table_insert [] tr_id" "table_modify tr_id" tasks_ok
proof (unfold_locales, goal_cases)
  case (1 s r)
  then show ?case by (auto simp: tk_get_def table_insert_dup)
next
  case (2 s r)
  then show ?case by (auto simp: tk_get_def table_insert_fresh)
next
  case (3 s r s' k)
  then show ?case by (simp add: tk_get_def table_insert_lookup)
next
  case (4 s r s')
  then show ?case by (auto simp: tasks_ok_def table_insert_cases)
next
  case (5 s f k' k)
  then show ?case by (simp add: tk_get_def table_modify_lookup)
next
  case (6 s f k)
  then show ?case by (simp add: tasks_ok_def table_modify_keys)
next
  case (7 s k r)
  then show ?case by (auto simp: tk_get_def dest: lookup_by_key)
qed

lemma tk_get_save: "tk_get k (save_task t mode rows) = (if k = tk_id t then Some (task_row_of t mode) else tk_get k rows)"
  by (simp add: tk_get_def save_task_def table_replace_lookup) (simp add: task_row_of_def)

lemma tasks_ok_save: "tasks_ok rows \<Longrightarrow> tasks_ok (save_task t mode rows)"
  by (simp add: tasks_ok_def save_task_def table_replace_distinct)

lemma tk_get_update:
  "tk_get k (snd (tk_update tid status res now rows)) =
     map_option (\<lambda>r. if k = tid
       then r\<lparr>tr_status := status, tr_result := merged_result r res, tr_updated_at := now\<rparr> else r)
       (tk_get k rows)"
proof (cases "tk_get tid rows")
  case None
  then show ?thesis by (cases "k = tid"; cases "tk_get k rows") (auto simp: tk_update_def)
next
  case (Some cur)
  then show ?thesis
    by (cases "tk_get k rows") (auto simp: tk_update_def Let_def tk_get_def table_modify_lookup)
qed

lemma tasks_ok_update: "tasks_ok rows \<Longrightarrow> tasks_ok (snd (tk_update tid status res now rows))"
  by (simp add: tasks_ok_def tk_update_def Let_def table_modify_keys split: option.split)

lemma update_task_status_frame [frame, simp]:
  "sy_world (update_task_status env tid st res s) = sy_world s"
  "sy_metrics (update_task_status env tid st res s) = sy_metrics s"
  "sy_trace (update_task_status env tid st res s) = sy_trace s"
  "sy_audit (update_task_status env tid st res s) = sy_audit s"
  "sy_memory (update_task_status env tid st res s) = sy_memory s"
  "sy_approvals (update_task_status env tid st res s) = sy_approvals s"
  "sy_ckpts (update_task_status env tid st res s) = sy_ckpts s"
  by (simp_all add: update_task_status_def)

lemma tk_list_bounds: "length (tk_list limit rows) \<le> 100"
  using clamp_limit_bounds [of 20 100 limit] by (simp add: tk_list_def) arith

text \<open>
  A status update reaches an existing task and no other: its status is the given one, every
  key of the given result has the given value, every other key of the stored result survives.
\<close>

lemma update_task_status_merges:
  assumes "tk_get tid (sy_tasks s) = Some r" and "distinct (map fst d)"
  shows "\<exists>r'. tk_get tid (sy_tasks (update_task_status env tid status (Some d) s)) = Some r' \<and>
           tr_status r' = status \<and> tr_query r' = tr_query r \<and> tr_created_at r' = tr_created_at r \<and>
           (\<exists>d'. tr_result r' = Some d' \<and>
              (\<forall>k. map_of d' k = (case map_of d k of Some v \<Rightarrow> Some v
                     | None \<Rightarrow> map_of (case tr_result r of None \<Rightarrow> [] | Some e \<Rightarrow> e) k))) \<and>
           (\<forall>k. k \<noteq> tid \<longrightarrow>
              tk_get k (sy_tasks (update_task_status env tid status (Some d) s)) = tk_get k (sy_tasks s))"
  using assms
  by (auto simp: update_task_status_def tk_get_update merged_result_def Let_def map_of_dupd
      map_of_rev_distinct split: option.split intro!: option.map_ident_strong)

end
