(* ===== verification/Checkpoint_Store.thy ===== *)
theory Checkpoint_Store
  imports Keyed_Store Demo_World
begin

text \<open>
  \<open>SQLiteGraphCheckpointStore\<close> (\<open>app/storage/graph_checkpoint_store.py\<close>): the states of graph runs.
  A checkpoint is claimed for resumption by one conditional \<open>UPDATE\<close>, which is what keeps an
  approved action from running twice. Times compare as their ISO texts, as in SQL.
\<close>

type_synonym ckpts = "ckpt_row list"

definition ck_get :: "string \<Rightarrow> ckpts \<Rightarrow> ckpt_row option" where
  "ck_get cid rows = lookup_by ck_id cid rows"

text \<open>\<open>raise ValueError(f"{checkpoint_id} already exists")\<close> on a used key.\<close>

definition ck_insert :: "ckpt_row \<Rightarrow> ckpts \<Rightarrow> string + ckpts" where
  "ck_insert r rows = table_insert (ck_id r @ '' already exists'') ck_id r rows"

text \<open>
  \<open>create_checkpoint\<close> as its callers use it: \<open>created_at\<close> given or the present, \<open>updated_at\<close> the
  same, every column they leave out at its default.
\<close>

definition ck_new_row ::
  "string \<Rightarrow> string \<Rightarrow> jdict \<Rightarrow> ckpt_status \<Rightarrow> string option \<Rightarrow> string option \<Rightarrow> string option \<Rightarrow> string \<Rightarrow> ckpt_row"
where
  "ck_new_row cid tid gstate status node thread run created =
     \<lparr>ck_id = cid, ck_task_id = tid, ck_approval_id = None, ck_graph_thread_id = thread,
      ck_run_id = run, ck_status = status, ck_current_node = node, ck_graph_state = gstate,
      ck_pending_interrupt = None, ck_resume_payload = None, ck_result_snapshot = None,
      ck_consumed = False, ck_resumed_at = None, ck_created_at = created,
      ck_updated_at = created, ck_expires_at = None, ck_schema_version = 1,
      ck_resume_attempt_count = 0, ck_last_resume_error = None, ck_locked_by = None,
      ck_locked_at = None\<rparr>"

definition ck_latest_for_task :: "string \<Rightarrow> ckpts \<Rightarrow> ckpt_row option" where
  "ck_latest_for_task tid rows =
     (case order_desc ck_created_at (filter (\<lambda>r. ck_task_id r = tid) rows) of
        [] \<Rightarrow> None | r # _ \<Rightarrow> Some r)"

definition interrupted_row :: "string \<Rightarrow> jdict \<Rightarrow> jdict option \<Rightarrow> string \<Rightarrow> ckpt_row \<Rightarrow> ckpt_row" where
  "interrupted_row aid payload gstate now r =
     r\<lparr>ck_approval_id := Some aid, ck_pending_interrupt := Some payload, ck_status := KInterrupted,
       ck_updated_at := now,
       ck_graph_state := (case gstate of None \<Rightarrow> ck_graph_state r | Some g \<Rightarrow> g)\<rparr>"

definition ck_mark_pending_interrupt ::
  "string \<Rightarrow> string \<Rightarrow> jdict \<Rightarrow> jdict option \<Rightarrow> string \<Rightarrow> ckpts \<Rightarrow> ckpts"
where
  "ck_mark_pending_interrupt cid aid payload gstate now rows =
     table_modify ck_id cid (interrupted_row aid payload gstate now) rows"

subsection \<open>Claiming\<close>

definition not_expired :: "string \<Rightarrow> ckpt_row \<Rightarrow> bool" where
  "not_expired now r = (case ck_expires_at r of None \<Rightarrow> True | Some e \<Rightarrow> e = [] \<or> now < e)"

definition claimable :: "string \<Rightarrow> string \<Rightarrow> string \<Rightarrow> ckpt_row \<Rightarrow> bool" where
  "claimable cid aid now r \<longleftrightarrow>
     ck_id r = cid \<and> ck_approval_id r = Some aid \<and> \<not> ck_consumed r \<and>
     ck_status r = KInterrupted \<and> not_expired now r"

definition claimed_row :: "string \<Rightarrow> ckpt_row \<Rightarrow> ckpt_row" where
  "claimed_row now r =
     r\<lparr>ck_status := KResuming, ck_locked_at := Some now, ck_updated_at := now,
       ck_resume_attempt_count := ck_resume_attempt_count r + 1\<rparr>"

definition ck_claim_for_resume :: "string \<Rightarrow> string \<Rightarrow> string \<Rightarrow> ckpts \<Rightarrow> ckpt_row option \<times> ckpts" where
  "ck_claim_for_resume cid aid now rows =
     (let rows' = update_where (claimable cid aid now) (claimed_row now) rows
      in (if count_where (claimable cid aid now) rows \<noteq> 1 then None else ck_get cid rows', rows'))"

subsection \<open>Closing\<close>

definition resumed_row :: "jdict \<Rightarrow> jdict option \<Rightarrow> string \<Rightarrow> ckpt_row \<Rightarrow> ckpt_row" where
  "resumed_row payload snap now r =
     r\<lparr>ck_status := KResumed, ck_consumed := True, ck_resumed_at := Some now, ck_updated_at := now,
       ck_resume_payload := Some payload, ck_result_snapshot := snap\<rparr>"

definition ck_mark_resumed :: "string \<Rightarrow> jdict \<Rightarrow> jdict option \<Rightarrow> string \<Rightarrow> ckpts \<Rightarrow> ckpts" where
  "ck_mark_resumed cid payload snap now rows = table_modify ck_id cid (resumed_row payload snap now) rows"

definition cancelled_row :: "string \<Rightarrow> string \<Rightarrow> ckpt_row \<Rightarrow> ckpt_row" where
  "cancelled_row reason now r =
     r\<lparr>ck_status := KCancelled, ck_consumed := True, ck_updated_at := now, ck_last_resume_error := Some reason\<rparr>"

definition ck_mark_cancelled :: "string \<Rightarrow> string \<Rightarrow> string \<Rightarrow> ckpts \<Rightarrow> ckpts" where
  "ck_mark_cancelled cid reason now rows = table_modify ck_id cid (cancelled_row reason now) rows"

definition overdue :: "string \<Rightarrow> ckpt_row \<Rightarrow> bool" where
  "overdue now r \<longleftrightarrow>
     \<not> ck_consumed r \<and> (case ck_expires_at r of None \<Rightarrow> False | Some e \<Rightarrow> e \<noteq> [] \<and> e \<le> now)"

definition expired_row :: "string \<Rightarrow> ckpt_row \<Rightarrow> ckpt_row" where
  "expired_row now r = r\<lparr>ck_status := KExpired, ck_consumed := True, ck_updated_at := now\<rparr>"

definition ck_expire_old :: "string \<Rightarrow> ckpts \<Rightarrow> nat \<times> ckpts" where
  "ck_expire_old now rows = (count_where (overdue now) rows, update_where (overdue now) (expired_row now) rows)"

subsection \<open>Facts\<close>

definition ckpts_ok :: "ckpts \<Rightarrow> bool" where
  "ckpts_ok rows \<longleftrightarrow> distinct (map ck_id rows)"

interpretation ckpt_table: keyed_store ck_id ck_get ck_insert "table_modify ck_id" ckpts_ok
proof (unfold_locales, goal_cases)
  case (1 s r)
  then show ?case by (auto simp: ck_insert_def ck_get_def table_insert_dup)
next
  case (2 s r)
  then show ?case by (auto simp: ck_insert_def ck_get_def table_insert_fresh)
next
  case (3 s r s' k)
  then show ?case by (simp add: ck_insert_def ck_get_def table_insert_lookup)
next
  case (4 s r s')
  then show ?case by (auto simp: ck_insert_def ckpts_ok_def table_insert_cases)
next
  case (5 s f k' k)
  then show ?case by (simp add: ck_get_def table_modify_lookup)
next
  case (6 s f k)
  then show ?case by (simp add: ckpts_ok_def table_modify_keys)
next
  case (7 s k r)
  then show ?case by (auto simp: ck_get_def dest: lookup_by_key)
qed

lemma row_updates_id [simp]:
  "ck_id (interrupted_row aid p g now r) = ck_id r"
  "ck_id (claimed_row now r) = ck_id r"
  "ck_id (resumed_row p sn now r) = ck_id r"
  "ck_id (cancelled_row reason now r) = ck_id r"
  "ck_id (expired_row now r) = ck_id r"
  by (simp_all add: interrupted_row_def claimed_row_def resumed_row_def cancelled_row_def expired_row_def)

lemma ck_get_id: "ck_get cid rows = Some r \<Longrightarrow> ck_id r = cid"
  by (auto simp: ck_get_def dest: lookup_by_key)

lemma ck_get_claim:
  "ck_get k (snd (ck_claim_for_resume cid aid now rows)) =
     map_option (\<lambda>r. if claimable cid aid now r then claimed_row now r else r) (ck_get k rows)"
  by (simp add: ck_claim_for_resume_def Let_def ck_get_def lookup_update_where)

lemma ck_claim_result:
  assumes "ckpts_ok rows"
  shows "fst (ck_claim_for_resume cid aid now rows) =
     (case ck_get cid rows of None \<Rightarrow> None
      | Some r \<Rightarrow> if claimable cid aid now r then Some (claimed_row now r) else None)"
proof -
  have "count_where (claimable cid aid now) rows =
      (case lookup_by ck_id cid rows of None \<Rightarrow> 0 | Some r \<Rightarrow> if claimable cid aid now r then 1 else 0)"
    using assms by (intro count_where_unique) (auto simp: ckpts_ok_def claimable_def)
  moreover have "ck_get cid (update_where (claimable cid aid now) (claimed_row now) rows) =
      map_option (\<lambda>r. if claimable cid aid now r then claimed_row now r else r) (ck_get cid rows)"
    by (simp add: ck_get_def lookup_update_where)
  ultimately show ?thesis
    by (simp add: ck_claim_for_resume_def Let_def ck_get_def split: option.split)
qed

lemma ckpts_ok_claim: "ckpts_ok rows \<Longrightarrow> ckpts_ok (snd (ck_claim_for_resume cid aid now rows))"
  by (simp add: ckpts_ok_def ck_claim_for_resume_def Let_def keys_update_where)

lemma ck_get_expire:
  "ck_get k (snd (ck_expire_old now rows)) =
     map_option (\<lambda>r. if overdue now r then expired_row now r else r) (ck_get k rows)"
  by (simp add: ck_expire_old_def ck_get_def lookup_update_where)

lemma ckpts_ok_expire: "ckpts_ok rows \<Longrightarrow> ckpts_ok (snd (ck_expire_old now rows))"
  by (simp add: ckpts_ok_def ck_expire_old_def keys_update_where)

lemma ck_get_modify:
  "(\<And>r. ck_id (f r) = ck_id r) \<Longrightarrow>
     ck_get k (table_modify ck_id cid f rows) = (if k = cid then map_option f (ck_get cid rows) else ck_get k rows)"
  by (simp add: ck_get_def table_modify_lookup)

lemma ck_latest_for_task_sound:
  "ck_latest_for_task tid rows = Some r \<Longrightarrow>
     r \<in> set rows \<and> ck_task_id r = tid \<and>
     (\<forall>x \<in> set rows. ck_task_id x = tid \<longrightarrow> ck_created_at x \<le> ck_created_at r)"
proof -
  assume a: "ck_latest_for_task tid rows = Some r"
  let ?ys = "order_desc ck_created_at (filter (\<lambda>r. ck_task_id r = tid) rows)"
  from a obtain rest where ys: "?ys = r # rest"
    by (auto simp: ck_latest_for_task_def split: list.splits)
  have "sorted_wrt (\<lambda>x y. ck_created_at y \<le> ck_created_at x) (r # rest)"
    using sorted_order_desc [of ck_created_at] ys by metis
  moreover have "set (r # rest) = {x \<in> set rows. ck_task_id x = tid}"
    using set_order_desc [of ck_created_at "filter (\<lambda>r. ck_task_id r = tid) rows"] by (simp add: ys)
  ultimately show ?thesis by auto
qed

subsection \<open>Runs of the store\<close>

text \<open>The writes of any client, labelled by what they do to a checkpoint.\<close>

datatype ck_op =
    OpCreate ckpt_row
  | OpInterrupt string string jdict "jdict option" string
  | OpClaim string string string
  | OpResumed string jdict "jdict option" string
  | OpCancelled string string string
  | OpExpire string

fun ck_apply :: "ck_op \<Rightarrow> ckpts \<Rightarrow> ckpts" where
  "ck_apply (OpCreate r) rows = (case ck_insert r rows of Inl _ \<Rightarrow> rows | Inr rows' \<Rightarrow> rows')"
| "ck_apply (OpInterrupt cid aid p g now) rows = ck_mark_pending_interrupt cid aid p g now rows"
| "ck_apply (OpClaim cid aid now) rows = snd (ck_claim_for_resume cid aid now rows)"
| "ck_apply (OpResumed cid p sn now) rows = ck_mark_resumed cid p sn now rows"
| "ck_apply (OpCancelled cid reason now) rows = ck_mark_cancelled cid reason now rows"
| "ck_apply (OpExpire now) rows = snd (ck_expire_old now rows)"

text \<open>An operation wins the claim of \<open>cid\<close> when it is a claim that returns the row.\<close>

fun wins :: "string \<Rightarrow> ck_op \<Rightarrow> ckpts \<Rightarrow> bool" where
  "wins cid (OpClaim c aid now) rows \<longleftrightarrow> c = cid \<and> fst (ck_claim_for_resume c aid now rows) \<noteq> None"
| "wins cid _ rows \<longleftrightarrow> False"

fun reopens :: "string \<Rightarrow> ck_op \<Rightarrow> bool" where
  "reopens cid (OpInterrupt c aid p g now) \<longleftrightarrow> c = cid"
| "reopens cid _ \<longleftrightarrow> False"

fun count_wins :: "string \<Rightarrow> ck_op list \<Rightarrow> ckpts \<Rightarrow> nat" where
  "count_wins cid [] rows = 0"
| "count_wins cid (op # ops) rows =
     (if wins cid op rows then 1 else 0) + count_wins cid ops (ck_apply op rows)"

lemma ck_apply_ok: "ckpts_ok rows \<Longrightarrow> ckpts_ok (ck_apply op rows)"
  by (cases op)
     (auto simp: ck_mark_pending_interrupt_def ck_mark_resumed_def ck_mark_cancelled_def
      ckpts_ok_claim ckpts_ok_expire ckpt_table.upd_ok dest: ckpt_table.ins_ok split: sum.split)

lemma ck_apply_present:
  assumes "ckpts_ok rows" and "ck_get cid rows = Some r"
  shows "\<exists>r'. ck_get cid (ck_apply op rows) = Some r' \<and>
      (ck_consumed r \<longrightarrow> ck_consumed r') \<and>
      (ck_status r' = KInterrupted \<longrightarrow> ck_status r = KInterrupted \<or> reopens cid op)"
proof (cases op)
  case (OpCreate x)
  then show ?thesis
    using assms ckpt_table.ins_keeps [of rows x] by (auto split: sum.split)
qed (use assms in \<open>auto simp: ck_mark_pending_interrupt_def ck_mark_resumed_def ck_mark_cancelled_def
      ck_get_modify ck_get_claim ck_get_expire interrupted_row_def claimed_row_def resumed_row_def
      cancelled_row_def expired_row_def\<close>)

lemma wins_iff:
  "ckpts_ok rows \<Longrightarrow> wins cid op rows \<longleftrightarrow>
     (\<exists>aid now r. op = OpClaim cid aid now \<and> ck_get cid rows = Some r \<and> claimable cid aid now r)"
  by (cases op) (auto simp: ck_claim_result split: option.splits if_splits)

lemma wins_then_resuming:
  "ckpts_ok rows \<Longrightarrow> wins cid op rows \<Longrightarrow>
     \<exists>r. ck_get cid (ck_apply op rows) = Some r \<and> ck_status r = KResuming"
  by (auto simp: wins_iff ck_get_claim claimed_row_def)

lemma no_win_when_blocked:
  assumes "ckpts_ok rows" and "ck_get cid rows = Some r"
    and "ck_consumed r \<or> (ck_status r \<noteq> KInterrupted \<and> list_all (\<lambda>op. \<not> reopens cid op) ops)"
  shows "count_wins cid ops rows = 0"
  using assms
proof (induction ops arbitrary: rows r)
  case (Cons op ops)
  obtain r' where r': "ck_get cid (ck_apply op rows) = Some r'"
    "ck_consumed r \<longrightarrow> ck_consumed r'"
    "ck_status r' = KInterrupted \<longrightarrow> ck_status r = KInterrupted \<or> reopens cid op"
    using ck_apply_present [OF Cons.prems(1,2)] by blast
  have "\<not> wins cid op rows"
    using Cons.prems by (auto simp: wins_iff claimable_def)
  moreover have "count_wins cid ops (ck_apply op rows) = 0"
    using Cons.prems(3) r'
    by (intro Cons.IH [OF ck_apply_ok [OF Cons.prems(1)] r'(1)]) auto
  ultimately show ?case by simp
qed simp

text \<open>
  At most one claim of a checkpoint wins in any sequence of store operations that does not
  put it back to interrupted: racing resumers cannot both run the approved action.
\<close>

lemma claim_wins_at_most_once:
  assumes "ckpts_ok rows" and "list_all (\<lambda>op. \<not> reopens cid op) ops"
  shows "count_wins cid ops rows \<le> 1"
  using assms
proof (induction ops arbitrary: rows)
  case (Cons op ops)
  show ?case
  proof (cases "wins cid op rows")
    case True
    then obtain r where "ck_get cid (ck_apply op rows) = Some r" "ck_status r = KResuming"
      using wins_then_resuming Cons.prems(1) by blast
    with Cons.prems have "count_wins cid ops (ck_apply op rows) = 0"
      by (intro no_win_when_blocked [of _ _ r]) (auto intro: ck_apply_ok)
    with True show ?thesis by simp
  next
    case False
    with Cons show ?thesis by (simp add: ck_apply_ok)
  qed
qed simp

definition demo_ckpt :: ckpt_row where
  "demo_ckpt = interrupted_row ''apr_1'' [] None ''t1''
     (ck_new_row ''ck1'' ''task'' [] KInterrupted (Some ''execute'') None None ''t0'')"

lemma demo_ckpt_ok [simp]: "ckpts_ok [demo_ckpt]"
  by (simp add: ckpts_ok_def)

text \<open>
  A consumed checkpoint (resumed, cancelled or expired) is never claimed again, by any later
  sequence of operations, one that marks it interrupted again included.
\<close>

lemma consumed_never_claimed:
  assumes "ckpts_ok rows" and "ck_get cid rows = Some r" and "ck_consumed r"
  shows "count_wins cid ops rows = 0"
  using no_win_when_blocked [OF assms(1,2)] assms(3) by blast

end
