(* ===== verification/Graph_Runtime.thy ===== *)
theory Graph_Runtime
  imports Policy Planner Approval_Store Task_Store Checkpoint_Store
begin

text \<open>
  The feature-flagged graph runtime of the keyword mode: \<open>GraphRuntimeAdapter\<close>
  (\<open>app/agent/graph/runtime_adapter.py\<close>) runs a query stage by stage, writes a checkpoint after each
  stage and stops at a high-risk tool with an approval request; \<open>GraphResumeAdapter\<close>
  (\<open>app/agent/graph/resume_adapter.py\<close>) claims that checkpoint and runs the tool once it is approved.
  The graph state is the dict of the source, in its key order.
\<close>

subsection \<open>Interrupts\<close>

definition build_tool_approval_interrupt_payload ::
  "'w env \<Rightarrow> string \<Rightarrow> string \<Rightarrow> string \<Rightarrow> string \<Rightarrow> string \<Rightarrow> jdict \<Rightarrow> string \<Rightarrow> jdict \<Rightarrow> jdict \<Rightarrow> 'w \<Rightarrow> jdict"
where
  "build_tool_approval_interrupt_payload env tid cid tool risk scope decision reason args trace w =
     [(''schema_version'', JInt 1), (''interrupt_type'', JStr ''tool_approval''),
      (''task_id'', JStr tid), (''checkpoint_id'', JStr cid), (''node'', JStr ''execute''),
      (''mode'', JStr ''keyword''), (''tool_name'', JStr tool), (''arguments'', JObj args),
      (''risk_level'', JStr risk), (''permission_scope'', JStr scope),
      (''policy_decision'', JObj decision), (''agent_reason'', JStr reason),
      (''trace_context'', JObj trace), (''created_at'', JStr (utc_iso env w))]"

subsection \<open>Checkpoints\<close>

text \<open>\<open>gateway.call(tool_name, arguments, task_id=task_id)\<close>, of a gateway that may raise.\<close>

type_synonym 'w task_call =
  "string \<Rightarrow> jdict \<Rightarrow> string \<Rightarrow> 'w sys \<Rightarrow> (string + tool_call_record) \<times> 'w sys"

text \<open>
  What the adapter was built with: the gateway's tool names, lookup and call, the context
  assembler (which may raise), the policy, the settings, and whether it has a trace recorder, an
  approval store and an audit recorder.
\<close>

record 'w graph_runtime =
  gr_tools :: "string list"
  gr_lookup :: tool_lookup
  gr_run :: "'w task_call"
  gr_assemble :: "task_run \<Rightarrow> string list \<Rightarrow> 'w sys \<Rightarrow> string + agent_context"
  gr_policy :: policy_engine
  gr_switches :: switches
  gr_trace :: bool
  gr_store :: bool
  gr_audit :: bool

text \<open>\<open>str(snapshot.get("context", {}).get("trace_context", {}).get("run_id", "")) or None\<close>.\<close>

definition snapshot_run_id :: "'w env \<Rightarrow> jdict \<Rightarrow> string + string option" where
  "snapshot_run_id env snap =
     (case dget_or snap ''context'' (JObj []) of
        JObj c \<Rightarrow>
          (case dget_or c ''trace_context'' (JObj []) of
             JObj t \<Rightarrow>
               (let r = py_str env (dget_or t ''run_id'' (JStr [])) in Inr (if r = [] then None else Some r))
           | v \<Rightarrow> Inl (attr_error v ''get''))
      | v \<Rightarrow> Inl (attr_error v ''get''))"

type_synonym 'w graph_point = "jdict \<times> 'w sys"

definition gk_checkpoint ::
  "'w env \<Rightarrow> 'w graph_runtime \<Rightarrow> string \<Rightarrow> ckpt_status \<Rightarrow> 'w graph_point \<Rightarrow> (string + string) \<times> 'w graph_point"
where
  "gk_checkpoint env rt stage status p =
     (let st = fst p;
          tid = or_str (dget st ''task_id'');
          (h, s1) = sys_fresh env (snd p);
          cid = ''graph-'' @ tid @ ''-'' @ stage @ ''-'' @ hex12 h;
          stamp = (\<lambda>d. dput (dput d ''checkpoint_id'' (JStr cid)) ''checkpoint_status''
                    (JStr (ckpt_status_value status)));
          snap = stamp (dput st ''stage'' (JStr stage))
      in case snapshot_run_id env snap of
           Inl e \<Rightarrow> (Inl e, (st, s1))
         | Inr run \<Rightarrow>
             (case ck_insert (ck_new_row cid tid snap status (Some stage) (Some (''graph-'' @ tid)) run
                     (sys_now env s1)) (sy_ckpts s1) of
                Inl e \<Rightarrow> (Inl e, (st, s1))
              | Inr rows \<Rightarrow>
                  (Inr cid, (stamp st,
                     sys_trace_if (gr_trace rt) env ''graph_checkpoint_created'' tid
                       [(''checkpoint_id'', JStr cid), (''stage'', JStr stage),
                        (''status'', JStr (ckpt_status_value status))]
                       (s1\<lparr>sy_ckpts := rows\<rparr>)))))"

subsection \<open>Stages\<close>

definition graph_state_init :: "string \<Rightarrow> string \<Rightarrow> jdict" where
  "graph_state_init tid query =
     [(''task_id'', JStr tid), (''query'', JStr query), (''mode'', JStr ''keyword''),
      (''stage'', JStr ''created''), (''context'', JNull), (''plan'', JNull),
      (''execution_result'', JNull), (''response'', JNull), (''error'', JNull),
      (''checkpoint_id'', JNull), (''checkpoint_status'', JNull)]"

definition gk_set :: "(string \<times> json) list \<Rightarrow> 'w graph_point \<Rightarrow> 'w graph_point" where
  "gk_set upd p = (dupd (fst p) upd, snd p)"

text \<open>The last stage: file the response and return it.\<close>

definition gk_respond ::
  "'w env \<Rightarrow> 'w graph_runtime \<Rightarrow> jdict \<Rightarrow> jdict \<Rightarrow> ckpt_status \<Rightarrow> 'w graph_point \<Rightarrow> (string + jdict) \<times> 'w graph_point"
where
  "gk_respond env rt extra resp status p =
     bind_out (gk_checkpoint env rt ''respond'' status
        (gk_set ([(''stage'', JStr ''respond'')] @ extra @ [(''response'', JObj resp)]) p))
       (\<lambda>_ p'. (Inr resp, p'))"

definition gk_unmatched_response :: jdict where
  "gk_unmatched_response =
     [(''answer'', JStr tx_unrecognized), (''tool_called'', JNull), (''success'', JBool False),
      (''graph_runtime'', JBool True)]"

definition gk_unregistered_response :: "string \<Rightarrow> jdict" where
  "gk_unregistered_response tool =
     [(''answer'', JStr (tx_tool_unregistered tool)), (''tool_called'', JStr tool),
      (''success'', JBool False), (''graph_runtime'', JBool True),
      (''error'', JStr (tx_tool_unregistered tool))]"

definition gk_base_response :: "string \<Rightarrow> tool_spec \<Rightarrow> policy_decision \<Rightarrow> jdict" where
  "gk_base_response tool spec d =
     [(''tool_called'', JStr tool), (''success'', JBool False), (''requires_approval'', JBool True),
      (''not_supported'', JBool True), (''graph_runtime'', JBool True),
      (''risk_level'', JStr (risk_level_value (sp_risk_level spec))), (''reason'', JStr (pd_reason d))]"

text \<open>The payload from which the approved tool is resumed.\<close>

definition gk_payload :: "string \<Rightarrow> jdict \<Rightarrow> string \<Rightarrow> string \<Rightarrow> jdict" where
  "gk_payload cid interrupt query tool =
     [(''mode'', JStr ''graph_keyword''), (''checkpoint_id'', JStr cid), (''graph_runtime'', JBool True),
      (''interrupt_payload'', JObj interrupt), (''query'', JStr query), (''tool_name'', JStr tool),
      (''arguments'', JObj [])]"

definition gk_approval_response :: "jdict \<Rightarrow> string \<Rightarrow> string \<Rightarrow> string \<Rightarrow> jdict" where
  "gk_approval_response base tool aid cid =
     base @ [(''answer'', JStr (tx_graph_approval_created tool)), (''approval_id'', JStr aid),
       (''checkpoint_id'', JStr cid), (''graph_interrupt'', JBool True)]"

definition gk_no_store_response :: "jdict \<Rightarrow> string \<Rightarrow> string \<Rightarrow> jdict" where
  "gk_no_store_response base tool cid =
     base @ [(''answer'', JStr (tx_graph_no_store tool)), (''approval_id'', JNull),
       (''checkpoint_id'', JStr cid), (''graph_interrupt'', JBool False)]"

text \<open>The branch of a tool that needs approval.\<close>

definition gk_interrupt ::
  "'w env \<Rightarrow> 'w graph_runtime \<Rightarrow> string \<Rightarrow> string \<Rightarrow> string \<Rightarrow> tool_spec \<Rightarrow> policy_decision \<Rightarrow>
     'w graph_point \<Rightarrow> (string + jdict) \<times> 'w graph_point"
where
  "gk_interrupt env rt tid query tool spec d p =
     (let base = gk_base_response tool spec d
      in bind_out (gk_checkpoint env rt ''execute'' (if gr_store rt then KInterrupted else KBlocked)
             (gk_set [(''stage'', JStr ''execute''), (''execution_result'', JObj base)] p))
           (\<lambda>cid p2.
             (let interrupt = build_tool_approval_interrupt_payload env tid cid tool
                    (risk_level_value (sp_risk_level spec)) (sp_permission_scope spec)
                    (policy_decision_dict d) (pd_reason d) [] [(''checkpoint_id'', JStr cid)]
                    (sy_world (snd p2))
              in if \<not> gr_store rt
                 then (let resp = gk_no_store_response base tool cid
                       in (Inr resp, gk_set [(''response'', JObj resp)] p2))
                 else case create_approval env tid tool (tx_graph_action tool) (sp_risk_level spec)
                             (sp_permission_scope spec) (pd_reason d)
                             (Some (gk_payload cid interrupt query tool)) (snd p2) of
                        (Inl e, s3) \<Rightarrow> (Inl e, (fst p2, s3))
                      | (Inr row, s3) \<Rightarrow>
                          (let resp = gk_approval_response base tool (ar_id row) cid;
                               st = dupd (fst p2) [(''execution_result'', JObj resp), (''response'', JObj resp)];
                               s4 = s3\<lparr>sy_ckpts := ck_mark_pending_interrupt cid (ar_id row) interrupt
                                      (Some st) (sys_now env s3) (sy_ckpts s3)\<rparr>
                           in (Inr resp, (st, sys_audit_if (gr_audit rt) env
                                (audit_proto ''graph_interrupt_approval_created'' (Some tid)
                                   (Some (ar_id row)) (Some tool) ''graph_interrupt'' ''success'' None None
                                   [(''task_id'', JStr tid), (''approval_id'', JStr (ar_id row)),
                                    (''tool_name'', JStr tool), (''checkpoint_id'', JStr cid)]) s4))))))"

text \<open>The branch of a tool that may run: call, verify, respond.\<close>

definition gk_call_response :: "'w env \<Rightarrow> string \<Rightarrow> tool_call_record \<Rightarrow> jdict" where
  "gk_call_response env tool r =
     (if cr_success r
      then [(''answer'', JStr (tx_query_result (py_str env (keyword_get_label (JStr tool)))
               (py_str env (cr_result r)))),
            (''tool_called'', JStr tool), (''data'', cr_result r), (''success'', JBool True),
            (''graph_runtime'', JBool True)]
      else [(''answer'', JStr (if truthy (cr_error r) then tx_call_failed_why (py_str env (cr_error r))
               else tx_call_failed)),
            (''tool_called'', JStr tool), (''success'', JBool False), (''graph_runtime'', JBool True),
            (''error'', cr_error r)])"

definition gk_execute ::
  "'w env \<Rightarrow> 'w graph_runtime \<Rightarrow> string \<Rightarrow> string \<Rightarrow> 'w graph_point \<Rightarrow> (string + jdict) \<times> 'w graph_point"
where
  "gk_execute env rt tid tool p =
     (case gr_run rt tool [] tid (snd p) of
        (Inl e, s1) \<Rightarrow> (Inl e, (fst p, s1))
      | (Inr r, s1) \<Rightarrow>
          (let dump = call_record_dump r
           in bind_out (gk_checkpoint env rt ''execute'' KRunning
                 (gk_set [(''stage'', JStr ''execute''), (''execution_result'', JObj dump)] (fst p, s1)))
               (\<lambda>_ p2. bind_out (gk_checkpoint env rt ''verify'' KRunning
                   (gk_set [(''stage'', JStr ''verify''),
                      (''execution_result'', JObj (dput dump ''verified'' (JBool (cr_success r))))] p2))
                 (\<lambda>_ p3. gk_respond env rt [] (gk_call_response env tool r)
                   (if cr_success r then KCompleted else KFailed) p3))))"

subsection \<open>The run\<close>

text \<open>After planning: answer, or look the tool up, ask the policy and take its branch.\<close>

definition gk_dispatch ::
  "'w env \<Rightarrow> 'w graph_runtime \<Rightarrow> string \<Rightarrow> string \<Rightarrow> jdict \<Rightarrow> 'w graph_point \<Rightarrow> (string + jdict) \<times> 'w graph_point"
where
  "gk_dispatch env rt tid query plan p =
     (let tool = or_str (dget plan ''tool_name'')
      in if \<not> truthy (dget plan ''matched'') \<or> \<not> truthy (dget plan ''tool_name'')
         then gk_respond env rt [] gk_unmatched_response KCompleted p
         else case gr_lookup rt tool of
                None \<Rightarrow>
                  gk_respond env rt [(''error'', JStr (tx_tool_unregistered tool))]
                    (gk_unregistered_response tool) KFailed p
              | Some spec \<Rightarrow>
                  (let d = pe_evaluate (gr_policy rt) tool (Some (sp_risk_level spec)) None
                   in if sp_risk_level spec = RHigh \<or> pd_requires_approval d
                      then gk_interrupt env rt tid query tool spec d p
                      else gk_execute env rt tid tool p))"

definition gk_body ::
  "'w env \<Rightarrow> 'w graph_runtime \<Rightarrow> string \<Rightarrow> string \<Rightarrow> 'w graph_point \<Rightarrow> (string + jdict) \<times> 'w graph_point"
where
  "gk_body env rt tid query p =
     (case gr_assemble rt (new_task tid query (sys_now env (snd p))) (gr_tools rt) (snd p) of
        Inl e \<Rightarrow> (Inl e, p)
      | Inr ctx \<Rightarrow>
          bind_out (gk_checkpoint env rt ''assemble_context'' KRunning
             (gk_set [(''stage'', JStr ''assemble_context''), (''context'', JObj (context_dump ctx))] p))
           (\<lambda>_ p1.
             (let plan = keyword_plan (gr_switches rt) query
              in bind_out (gk_checkpoint env rt ''plan'' KRunning
                    (gk_set [(''stage'', JStr ''plan''), (''plan'', JObj plan)] p1))
                  (\<lambda>_ p2. gk_dispatch env rt tid query plan p2))))"

definition run_keyword ::
  "'w env \<Rightarrow> 'w graph_runtime \<Rightarrow> string \<Rightarrow> string \<Rightarrow> 'w sys \<Rightarrow> (string + jdict) \<times> 'w sys"
where
  "run_keyword env rt tid query s =
     (case gk_body env rt tid query (graph_state_init tid query, s) of
        (Inr resp, p) \<Rightarrow> (Inr resp, snd p)
      | (Inl e, p) \<Rightarrow>
          (let resp = [(''success'', JBool False), (''error'', JStr e), (''graph_runtime'', JBool True)];
               p1 = gk_set [(''error'', JStr e), (''response'', JObj resp)] p;
               stage = (if truthy (dget (fst p1) ''stage'') then or_str (dget (fst p1) ''stage'') else ''error'')
           in case gk_checkpoint env rt stage KFailed p1 of
                (Inl e2, p2) \<Rightarrow> (Inl e2, snd p2)
              | (Inr _, p2) \<Rightarrow> (Inr resp, snd p2)))"

subsection \<open>Resumption\<close>

record 'w graph_resumer =
  gs_run :: "'w task_call"
  gs_trace :: bool
  gs_audit :: bool

definition gs_build_result ::
  "string \<Rightarrow> string \<Rightarrow> string \<Rightarrow> tool_call_record option \<Rightarrow> string option \<Rightarrow> string option \<Rightarrow> jdict"
where
  "gs_build_result aid cid tool rec error etype =
     (let err = (case error of None \<Rightarrow> [] | Some e \<Rightarrow> e);
          success = (case rec of None \<Rightarrow> False | Some r \<Rightarrow> cr_success r \<and> err = []);
          rec_error = (case rec of None \<Rightarrow> JNull | Some r \<Rightarrow> cr_error r)
      in [(''mode'', JStr ''graph_keyword''), (''graph_resumed'', JBool True),
          (''resumed_from_approval'', JBool True), (''approval_id'', JStr aid),
          (''checkpoint_id'', JStr cid), (''tool_called'', JStr tool),
          (''data'', (case rec of None \<Rightarrow> JNull | Some r \<Rightarrow> cr_result r)),
          (''success'', JBool success), (''approved_step_executed'', JBool (rec \<noteq> None)),
          (''approval_consumed'', JBool True),
          (''resume_status'', JStr (if success then ''completed'' else ''failed''))] @
         (if err \<noteq> [] \<or> truthy rec_error
          then [(''error'', if err \<noteq> [] then JStr err else rec_error),
                (''error_type'', JStr (case etype of None \<Rightarrow> ''tool_call_failed''
                   | Some t \<Rightarrow> if t = [] then ''tool_call_failed'' else t))]
          else []))"

definition gs_failure :: "string \<Rightarrow> string \<Rightarrow> string \<Rightarrow> string \<Rightarrow> jdict" where
  "gs_failure aid cid error etype =
     [(''resumed'', JBool False), (''approval_id'', JStr aid), (''checkpoint_id'', JStr cid),
      (''error'', JStr error), (''error_type'', JStr etype)]"

definition gs_already :: "string \<Rightarrow> string \<Rightarrow> json \<Rightarrow> jdict" where
  "gs_already aid cid res =
     [(''already_resumed'', JBool True), (''approval_id'', JStr aid), (''checkpoint_id'', JStr cid),
      (''resume_result'', res)]"

definition opt_obj :: "jdict option \<Rightarrow> json" where
  "opt_obj x = (case x of None \<Rightarrow> JNull | Some d \<Rightarrow> JObj d)"

definition gs_handle_claim_failed :: "string \<Rightarrow> string \<Rightarrow> ckpts \<Rightarrow> jdict" where
  "gs_handle_claim_failed aid cid rows =
     (case ck_get cid rows of
        None \<Rightarrow> gs_failure aid cid ''checkpoint claim failed'' ''checkpoint_claim_failed''
      | Some r \<Rightarrow>
          (if ck_consumed r \<and> ck_status r \<in> {KResumed, KCompleted}
           then gs_already aid cid (opt_obj (ck_result_snapshot r))
           else if ck_status r \<in> {KCancelled, KExpired}
           then gs_failure aid cid (''checkpoint '' @ ckpt_status_value (ck_status r))
                  (''checkpoint_'' @ ckpt_status_value (ck_status r))
           else gs_failure aid cid ''checkpoint claim failed'' ''checkpoint_claim_failed''))"

text \<open>What runs after the claim has been won.\<close>

definition gs_tool :: "jdict \<Rightarrow> approval_row \<Rightarrow> ckpt_row \<Rightarrow> string \<times> jdict" where
  "gs_tool payload row claimed =
     (let ip = or_dict (or_else (dget payload ''interrupt_payload'') (opt_obj (ck_pending_interrupt claimed)))
      in (or_str (or_else (dget ip ''tool_name'')
            (or_else (dget payload ''tool_name'') (JStr (ar_tool_name row)))),
          or_dict (or_else (dget ip ''arguments'') (dget payload ''arguments''))))"

definition gs_execute ::
  "'w env \<Rightarrow> 'w graph_resumer \<Rightarrow> string \<Rightarrow> approval_row \<Rightarrow> string \<Rightarrow> ckpt_row \<Rightarrow> 'w sys \<Rightarrow> jdict \<times> 'w sys"
where
  "gs_execute env gs aid row cid claimed s =
     (let (tool, args) = gs_tool (payload_of row) row claimed;
          tid = ar_task_id row;
          s1 = sys_trace_if (gs_trace gs) env ''graph_resume_started'' tid
                 [(''approval_id'', JStr aid), (''checkpoint_id'', JStr cid), (''tool_name'', JStr tool)] s;
          (out, s2) = gs_run gs tool args tid s1;
          res = (case out of
                   Inr r \<Rightarrow> gs_build_result aid cid tool (Some r) None None
                 | Inl e \<Rightarrow> gs_build_result aid cid tool None (Some e) (Some ''tool_call_exception''));
          ok = truthy (dget res ''success'');
          s3 = update_task_status env tid (if ok then TCompleted else TFailed) (Some res) s2;
          s4 = s3\<lparr>sy_ckpts := ck_mark_resumed cid
                 [(''decision'', JStr ''approved''), (''approval_id'', JStr aid)] (Some res)
                 (sys_now env s3) (sy_ckpts s3)\<rparr>;
          s5 = update_payload aid
                 [(''resumed'', JBool True), (''resume_status'', dget res ''resume_status''),
                  (''resume_result'', JObj res), (''approval_consumed'', JBool True)] s4;
          s6 = sys_trace_if (gs_trace gs) env ''graph_resume_completed'' tid
                 [(''approval_id'', JStr aid), (''checkpoint_id'', JStr cid), (''tool_name'', JStr tool),
                  (''success'', dget res ''success'')] s5;
          s7 = sys_audit_if (gs_audit gs) env
                 (audit_proto ''graph_resume_completed'' (Some tid) (Some aid) (Some tool) ''graph_resume''
                    (if ok then ''success'' else ''failed'') None None
                    [(''checkpoint_id'', JStr cid), (''resume_status'', dget res ''resume_status'')]) s6
      in (res, s7))"

definition graph_resume ::
  "'w env \<Rightarrow> 'w graph_resumer \<Rightarrow> string \<Rightarrow> approval_row \<Rightarrow> 'w sys \<Rightarrow> jdict \<times> 'w sys"
where
  "graph_resume env gs aid row s =
     (let payload = payload_of row; cid = or_str (dget payload ''checkpoint_id'')
      in if dget payload ''mode'' \<noteq> JStr ''graph_keyword''
         then ([(''resumed'', JBool False), (''approval_id'', JStr aid),
                (''error'', JStr ''unsupported graph resume mode''),
                (''error_type'', JStr ''unsupported_graph_resume_mode'')], s)
         else if \<not> truthy (dget payload ''checkpoint_id'')
         then ([(''resumed'', JBool False), (''approval_id'', JStr aid),
                (''error'', JStr ''graph_keyword approval missing checkpoint_id''),
                (''error_type'', JStr ''missing_checkpoint_id'')], s)
         else if truthy (dget payload ''resumed'')
         then (gs_already aid cid (dget payload ''resume_result''), s)
         else case ck_claim_for_resume cid aid (sys_now env s) (sy_ckpts s) of
                (None, rows) \<Rightarrow> (gs_handle_claim_failed aid cid rows, s\<lparr>sy_ckpts := rows\<rparr>)
              | (Some claimed, rows) \<Rightarrow> gs_execute env gs aid row cid claimed (s\<lparr>sy_ckpts := rows\<rparr>))"

text \<open>The adapters the runtime builds over a gateway.\<close>

definition runtime_graph :: "'w env \<Rightarrow> 'w gateway \<Rightarrow> switches \<Rightarrow> 'w graph_runtime" where
  "runtime_graph env g sw =
     \<lparr>gr_tools = map sp_tool_name (gw_list_tools g), gr_lookup = gw_get_tool g,
      gr_run = (\<lambda>t a tid s. (case gw_call env g t a tid s of (r, s') \<Rightarrow> (Inr r, s'))),
      gr_assemble = (\<lambda>task tools s. Inr (assemble (sys_now env s) task None tools None None None)),
      gr_policy = runtime_policy g, gr_switches = sw, gr_trace = True, gr_store = True, gr_audit = True\<rparr>"

definition runtime_graph_resumer :: "'w env \<Rightarrow> 'w gateway \<Rightarrow> 'w graph_resumer" where
  "runtime_graph_resumer env g =
     \<lparr>gs_run = (\<lambda>t a tid s. (case gw_call env g t a tid s of (r, s') \<Rightarrow> (Inr r, s'))),
      gs_trace = True, gs_audit = True\<rparr>"

subsection \<open>Facts about the run\<close>

lemma gk_set_simps [simp]: "snd (gk_set upd p) = snd p" "fst (gk_set upd p) = dupd (fst p) upd"
  by (simp_all add: gk_set_def)

text \<open>A checkpoint that was written is there, open and of the given status.\<close>

lemma gk_checkpoint_Inr:
  assumes "gk_checkpoint env rt stage status p = (Inr cid, p')" and "ckpts_ok (sy_ckpts (snd p))"
  shows "ckpts_ok (sy_ckpts (snd p')) \<and> sy_approvals (snd p') = sy_approvals (snd p) \<and> cid \<noteq> [] \<and>
     (\<exists>c. ck_get cid (sy_ckpts (snd p')) = Some c \<and> ck_status c = status \<and> \<not> ck_consumed c \<and>
        ck_expires_at c = None)"
proof -
  obtain row rows where "ck_insert row (sy_ckpts (snd p)) = Inr rows" "sy_ckpts (snd p') = rows"
    and row: "ck_id row = cid" "ck_status row = status" "\<not> ck_consumed row" "ck_expires_at row = None"
    and rest: "sy_approvals (snd p') = sy_approvals (snd p)" "cid \<noteq> []"
    using assms(1)
    by (auto simp: gk_checkpoint_def unlet ck_new_row_def split: sum.splits)
  then have "ckpts_ok rows" "ck_get cid rows = Some row"
    using assms(2) ckpt_table.ins_ok ckpt_table.ins_get by auto
  with row rest show ?thesis using \<open>sy_ckpts (snd p') = rows\<close> by simp
qed

lemma gk_respond_resp: "gk_respond env rt extra resp status p = (Inr r, p') \<Longrightarrow> r = resp"
  by (auto simp: gk_respond_def bind_out_Inr)

lemma gk_execute_resp: "gk_execute env rt tid tool p = (Inr r, p') \<Longrightarrow> \<exists>rec. r = gk_call_response env tool rec"
  by (auto simp: gk_execute_def bind_out_Inr Let_def dest!: gk_respond_resp split: prod.splits sum.splits)

lemma no_interrupt_responses [simp]:
  "dget gk_unmatched_response ''graph_interrupt'' = JNull"
  "dget (gk_unregistered_response tool) ''graph_interrupt'' = JNull"
  "dget (gk_call_response env tool rec) ''graph_interrupt'' = JNull"
  by (simp_all add: gk_unmatched_response_def gk_unregistered_response_def gk_call_response_def)

lemma gk_interrupt_resumable:
  assumes "gk_interrupt env rt tid query tool spec d p = (Inr resp, p')"
    and "dget resp ''graph_interrupt'' = JBool True" and "ckpts_ok (sy_ckpts (snd p))"
    and "approvals_ok (sy_approvals (snd p))"
  shows "\<exists>aid cid row c. dget resp ''approval_id'' = JStr aid \<and> dget resp ''checkpoint_id'' = JStr cid \<and>
     ap_get aid (sy_approvals (snd p')) = Some row \<and> ar_status row = APending \<and> ar_task_id row = tid \<and>
     dget (payload_of row) ''mode'' = JStr ''graph_keyword'' \<and>
     dget (payload_of row) ''checkpoint_id'' = JStr cid \<and> \<not> truthy (dget (payload_of row) ''resumed'') \<and>
     ck_get cid (sy_ckpts (snd p')) = Some c \<and> (\<forall>now. claimable cid aid now c) \<and>
     dget resp ''tool_called'' = JStr tool \<and> ar_tool_name row = tool \<and> (tool \<noteq> [] \<longrightarrow> gs_tool (payload_of row) row c = (tool, []))"
proof -
  let ?base = "gk_base_response tool spec d"
  obtain cid p2 where ck: "gk_checkpoint env rt ''execute'' (if gr_store rt then KInterrupted else KBlocked)
      (gk_set [(''stage'', JStr ''execute''), (''execution_result'', JObj ?base)] p) = (Inr cid, p2)"
    using assms(1) by (auto simp: gk_interrupt_def bind_out_Inr Let_def)
  define interrupt where "interrupt = build_tool_approval_interrupt_payload env tid cid tool
    (risk_level_value (sp_risk_level spec)) (sp_permission_scope spec) (policy_decision_dict d)
    (pd_reason d) [] [(''checkpoint_id'', JStr cid)] (sy_world (snd p2))"
  have store: "gr_store rt"
    using assms(1,2) ck by (auto simp: gk_interrupt_def bind_out_Inr Let_def gk_no_store_response_def
        gk_base_response_def split: if_splits)
  obtain c where c: "ck_get cid (sy_ckpts (snd p2)) = Some c" "ck_status c = KInterrupted"
      "\<not> ck_consumed c" "ck_expires_at c = None" "ckpts_ok (sy_ckpts (snd p2))" "cid \<noteq> []"
      "sy_approvals (snd p2) = sy_approvals (snd p)"
    using gk_checkpoint_Inr [OF ck] assms(3) store by auto
  obtain row s3 where cr: "create_approval env tid tool (tx_graph_action tool) (sp_risk_level spec)
      (sp_permission_scope spec) (pd_reason d) (Some (gk_payload cid interrupt query tool)) (snd p2) = (Inr row, s3)"
    using assms(1) ck store
    by (auto simp: gk_interrupt_def Let_def interrupt_def split: prod.splits sum.splits)
  have resp: "resp = gk_approval_response ?base tool (ar_id row) cid"
    and p': "sy_approvals (snd p') = sy_approvals s3"
    and p'_ck: "sy_ckpts (snd p') = ck_mark_pending_interrupt cid (ar_id row) interrupt
      (Some (dupd (fst p2) [(''execution_result'', JObj resp), (''response'', JObj resp)]))
      (sys_now env s3) (sy_ckpts s3)"
    using assms(1) ck store cr by (auto simp: gk_interrupt_def Let_def interrupt_def)
  have row: "payload_of row = gk_payload cid interrupt query tool"
    by (rule create_approval_payload [OF cr])
  have s3: "sy_ckpts s3 = sy_ckpts (snd p2)" "sy_approvals (snd p2) = sy_approvals (snd p)"
    using create_approval_frame(6) cr c by (metis snd_conv)+
  obtain st now where after: "sy_ckpts (snd p') = ck_mark_pending_interrupt cid (ar_id row) interrupt (Some st) now (sy_ckpts (snd p2))"
    using p'_ck s3 by auto
  have get: "ck_get cid (sy_ckpts (snd p')) = Some (interrupted_row (ar_id row) interrupt (Some st) now c)"
    unfolding after using c(1) by (simp add: ck_mark_pending_interrupt_def ck_get_modify)
  have cl: "claimable cid (ar_id row) now' (interrupted_row (ar_id row) interrupt (Some st) now c)" for now'
    using c ck_get_id [OF c(1)] by (simp add: claimable_def interrupted_row_def not_expired_def)
  have tool: "gs_tool (payload_of row) row x = (tool, [])" if "tool \<noteq> []" for x
    using that
    by (simp add: gs_tool_def row gk_payload_def interrupt_def build_tool_approval_interrupt_payload_def
        or_else_def Let_def)
  show ?thesis
    using create_approval_get [OF cr] get cl tool resp c(6)
    by (intro exI [of _ "ar_id row"] exI [of _ cid] exI [of _ row]
          exI [of _ "interrupted_row (ar_id row) interrupt (Some st) now c"])
       (simp add: p' row gk_payload_def gk_approval_response_def gk_base_response_def)
qed

lemma gk_dispatch_interrupt:
  assumes "gk_dispatch env rt tid query plan p = (Inr resp, p')"
    and "dget resp ''graph_interrupt'' = JBool True"
  shows "\<exists>spec d. truthy (dget plan ''tool_name'') \<and>
     gk_interrupt env rt tid query (or_str (dget plan ''tool_name'')) spec d p = (Inr resp, p')"
  using assms
  by (auto simp: gk_dispatch_def Let_def dest!: gk_respond_resp gk_execute_resp
      split: if_splits option.splits)

lemma gk_body_Inr:
  assumes "gk_body env rt tid query p = (Inr resp, p')" and "ckpts_ok (sy_ckpts (snd p))"
  shows "\<exists>p2. gk_dispatch env rt tid query (keyword_plan (gr_switches rt) query) p2 = (Inr resp, p') \<and>
     ckpts_ok (sy_ckpts (snd p2)) \<and> sy_approvals (snd p2) = sy_approvals (snd p)"
proof -
  obtain ctx c1 p1 c2 p2 where
      1: "gk_checkpoint env rt ''assemble_context'' KRunning
        (gk_set [(''stage'', JStr ''assemble_context''), (''context'', JObj (context_dump ctx))] p) = (Inr c1, p1)"
    and 2: "gk_checkpoint env rt ''plan'' KRunning
        (gk_set [(''stage'', JStr ''plan''), (''plan'', JObj (keyword_plan (gr_switches rt) query))] p1) = (Inr c2, p2)"
    and 3: "gk_dispatch env rt tid query (keyword_plan (gr_switches rt) query) p2 = (Inr resp, p')"
    using assms(1) by (auto simp: gk_body_def bind_out_Inr Let_def split: sum.splits)
  then show ?thesis
    using gk_checkpoint_Inr [OF 1] gk_checkpoint_Inr [OF 2] assms(2) by (intro exI [of _ p2]) simp
qed

lemma planned_tool_text:
  "truthy (dget (keyword_plan sw q) ''tool_name'') \<Longrightarrow> or_str (dget (keyword_plan sw q) ''tool_name'') \<noteq> []"
proof -
  have "truthy (dget (planner_scan sw rs q) ''tool_name'') \<Longrightarrow> or_str (dget (planner_scan sw rs q) ''tool_name'') \<noteq> []" for rs
    by (induction rs) (auto simp: opt_str_def split: option.splits)
  then show "truthy (dget (keyword_plan sw q) ''tool_name'') \<Longrightarrow> ?thesis" by (simp add: keyword_plan_def)
qed

text \<open>
  C20. The request for approval of a graph run can be resumed: the answer names a pending approval
  of this task and an open checkpoint that the approval can claim at any time, and what would then
  run is the tool of the request, with no arguments.
\<close>

theorem graph_interrupt_is_resumable:
  assumes "run_keyword env rt tid query s = (Inr resp, s')"
    and "dget resp ''graph_interrupt'' = JBool True"
    and "ckpts_ok (sy_ckpts s)" and "approvals_ok (sy_approvals s)"
  shows "\<exists>aid cid row c. dget resp ''approval_id'' = JStr aid \<and> dget resp ''checkpoint_id'' = JStr cid \<and>
     ap_get aid (sy_approvals s') = Some row \<and> ar_status row = APending \<and> ar_task_id row = tid \<and>
     dget (payload_of row) ''mode'' = JStr ''graph_keyword'' \<and>
     dget (payload_of row) ''checkpoint_id'' = JStr cid \<and> \<not> truthy (dget (payload_of row) ''resumed'') \<and>
     ck_get cid (sy_ckpts s') = Some c \<and> (\<forall>now. claimable cid aid now c) \<and>
     dget resp ''tool_called'' = JStr (ar_tool_name row) \<and>
     gs_tool (payload_of row) row c = (ar_tool_name row, [])"
proof -
  obtain p where body: "gk_body env rt tid query (graph_state_init tid query, s) = (Inr resp, p)"
    and s': "s' = snd p"
    using assms(1,2) by (auto simp: run_keyword_def Let_def split: prod.splits sum.splits)
  let ?tool = "or_str (dget (keyword_plan (gr_switches rt) query) ''tool_name'')"
  obtain p2 spec d where int: "gk_interrupt env rt tid query ?tool spec d p2 = (Inr resp, p)"
    and inv: "ckpts_ok (sy_ckpts (snd p2))" "sy_approvals (snd p2) = sy_approvals s"
    and tool: "?tool \<noteq> []"
    using gk_body_Inr [OF body] gk_dispatch_interrupt assms(2,3) planned_tool_text
    by (metis snd_conv)
  show ?thesis
    using gk_interrupt_resumable [OF int assms(2) inv(1)] inv(2) assms(4) tool s'
    by metis
qed

definition is_interrupt :: "string + jdict \<Rightarrow> bool" where
  "is_interrupt out = (case out of Inr resp \<Rightarrow> dget resp ''graph_interrupt'' = JBool True | Inl _ \<Rightarrow> False)"

lemma demo_interrupt:
  "is_interrupt (fst (run_keyword demo_env (runtime_graph demo_env refund_gateway (\<lambda>_. True)) ''t1''
     kw_simulate_refund (sys_init 0)))"
  by code_simp

theorem graph_interrupt_is_resumable_witness:
  "\<exists>aid row. ap_get aid (sy_approvals (snd (run_keyword demo_env
       (runtime_graph demo_env refund_gateway (\<lambda>_. True)) ''t1'' kw_simulate_refund (sys_init 0)))) = Some row \<and>
     ar_status row = APending"
proof -
  let ?out = "run_keyword demo_env (runtime_graph demo_env refund_gateway (\<lambda>_. True)) ''t1''
     kw_simulate_refund (sys_init 0)"
  obtain resp s' where out: "?out = (Inr resp, s')" and int: "dget resp ''graph_interrupt'' = JBool True"
    using demo_interrupt by (cases ?out) (auto simp: is_interrupt_def split: sum.splits)
  have "ckpts_ok (sy_ckpts (sys_init 0))" "approvals_ok (sy_approvals (sys_init 0))"
    by (simp_all add: sys_init_def ckpts_ok_def approvals_ok_def)
  from graph_interrupt_is_resumable [OF out int this] show ?thesis
    unfolding out by auto
qed

subsection \<open>Which tools run\<close>

lemma gk_checkpoint_upd [simp]:
  "gk_checkpoint env (rt\<lparr>gr_run := r\<rparr>) = gk_checkpoint env rt"
  "gk_checkpoint env (rt\<lparr>gr_policy := pe\<rparr>) = gk_checkpoint env rt"
  by (intro ext, simp add: gk_checkpoint_def unlet cong: sum.case_cong)+

lemma gk_respond_upd [simp]:
  "gk_respond env (rt\<lparr>gr_run := r\<rparr>) = gk_respond env rt"
  "gk_respond env (rt\<lparr>gr_policy := pe\<rparr>) = gk_respond env rt"
  by (simp_all add: gk_respond_def fun_eq_iff)

lemma gk_interrupt_upd [simp]: "gk_interrupt env (rt\<lparr>gr_run := r\<rparr>) = gk_interrupt env rt"
  by (intro ext) (simp add: gk_interrupt_def Let_def cong: sum.case_cong prod.case_cong)

lemma gk_execute_upd [simp]: "gk_execute env (rt\<lparr>gr_policy := pe\<rparr>) = gk_execute env rt"
  by (intro ext) (simp add: gk_execute_def Let_def cong: sum.case_cong prod.case_cong)

lemma gk_body_upd:
  "gk_dispatch env (rt\<lparr>gr_run := r\<rparr>) tid q = gk_dispatch env rt tid q \<Longrightarrow>
     gk_body env (rt\<lparr>gr_run := r\<rparr>) tid q p = gk_body env rt tid q p"
  "gk_dispatch env (rt\<lparr>gr_policy := pe\<rparr>) tid q = gk_dispatch env rt tid q \<Longrightarrow>
     gk_body env (rt\<lparr>gr_policy := pe\<rparr>) tid q p = gk_body env rt tid q p"
  by (simp_all add: gk_body_def Let_def cong: sum.case_cong)

lemma run_keyword_run_cong:
  assumes "\<And>t spec a tid s. gr_lookup rt t = Some spec \<Longrightarrow> sp_risk_level spec \<noteq> RHigh \<Longrightarrow>
      gr_run rt t a tid s = run' t a tid s"
  shows "run_keyword env (rt\<lparr>gr_run := run'\<rparr>) tid q s = run_keyword env rt tid q s"
proof -
  have ex: "gk_execute env (rt\<lparr>gr_run := run'\<rparr>) tid t p = gk_execute env rt tid t p"
    if "gr_lookup rt t = Some spec" "sp_risk_level spec \<noteq> RHigh" for t p spec
    using assms [OF that] by (simp add: gk_execute_def Let_def cong: sum.case_cong prod.case_cong)
  have "gk_dispatch env (rt\<lparr>gr_run := run'\<rparr>) tid q = gk_dispatch env rt tid q"
    by (intro ext) (simp add: gk_dispatch_def Let_def ex split: option.split)
  then show ?thesis by (simp add: run_keyword_def gk_body_upd Let_def cong: sum.case_cong prod.case_cong)
qed

text \<open>
  A graph run never calls a high-risk tool: two ways of calling tools that agree on the
  registered tools below high risk give the same run, with the same answer and the same state.
\<close>

lemma graph_never_runs_high_risk:
  assumes "\<And>t spec a tid s. gr_lookup rt t = Some spec \<Longrightarrow> sp_risk_level spec \<noteq> RHigh \<Longrightarrow>
      gr_run rt t a tid s = run' t a tid s"
  shows "run_keyword env (rt\<lparr>gr_run := run'\<rparr>) tid q s = run_keyword env rt tid q s"
  by (rule run_keyword_run_cong) (rule assms)

text \<open>
  The graph runtime reads only \<open>requires_approval\<close> of the policy's decision, not \<open>allowed\<close>: with
  no high-risk tool registered, its runs are the same under every policy, one that refuses the
  planned tool (an unlisted tool, or one of a write, admin or schema scope) included.
\<close>

lemma graph_ignores_policy_refusal:
  assumes "\<And>t spec. gr_lookup rt t = Some spec \<Longrightarrow> sp_risk_level spec \<noteq> RHigh"
  shows "run_keyword env (rt\<lparr>gr_policy := pe\<rparr>) tid q s = run_keyword env rt tid q s"
proof -
  have "\<not> pd_requires_approval (pe_evaluate e t (Some (sp_risk_level spec)) None)"
    if "gr_lookup rt t = Some spec" for e t spec
    using pe_evaluate_approval_high assms [OF that] by blast
  then have "gk_dispatch env (rt\<lparr>gr_policy := pe\<rparr>) tid q = gk_dispatch env rt tid q"
    by (intro ext) (simp add: gk_dispatch_def Let_def assms split: option.split)
  then show ?thesis by (simp add: run_keyword_def gk_body_upd Let_def cong: sum.case_cong prod.case_cong)
qed

definition denied_graph :: "nat graph_runtime" where
  "denied_graph = (runtime_graph demo_env write_gateway (\<lambda>_. True))
     \<lparr>gr_run := (\<lambda>t a tid s. (Inr (new_call_record ''c1'' t a []), s))\<rparr>"

definition is_success :: "string + jdict \<Rightarrow> bool" where
  "is_success out = (case out of Inr resp \<Rightarrow> dget resp ''success'' = JBool True | Inl _ \<Rightarrow> False)"

lemma demo_denied_run: "is_success (fst (run_keyword demo_env denied_graph ''t1'' kw_date (sys_init 0)))"
  by code_simp

text \<open>
  An exception of the context assembler escapes the run: the handler writes a checkpoint, which
  reads the run id through the context that is still None, so \<open>run_keyword\<close> raises
  \<open>AttributeError\<close> instead of answering, and no checkpoint is left.
\<close>

lemma graph_assembler_exception_escapes:
  assumes "gr_assemble rt (new_task tid q (sys_now env s)) (gr_tools rt) s = Inl e"
  shows "run_keyword env rt tid q s = (Inl (attr_error JNull ''get''), snd (sys_fresh env s))"
  using assms
  by (simp add: run_keyword_def gk_body_def gk_checkpoint_def gk_set_def dupd_def graph_state_init_def
      snapshot_run_id_def unlet dput_def)

subsection \<open>How often an approved tool runs\<close>

lemma claim_lost:
  assumes "ckpts_ok rows" and "fst (ck_claim_for_resume cid aid now rows) = None"
  shows "snd (ck_claim_for_resume cid aid now rows) = rows"
proof -
  have "\<not> claimable cid aid now r" if "r \<in> set rows" for r
  proof
    assume cl: "claimable cid aid now r"
    then have "ck_get cid rows = Some r"
      using that assms(1) lookup_by_mem [of ck_id rows r] by (simp add: ck_get_def ckpts_ok_def claimable_def)
    with cl show False using assms(2) by (simp add: ck_claim_result [OF assms(1)])
  qed
  then have "map (\<lambda>r. if claimable cid aid now r then claimed_row now r else r) rows = map (\<lambda>r. r) rows"
    by (intro map_cong) auto
  then show ?thesis by (simp add: ck_claim_for_resume_def Let_def update_where_def)
qed

lemma ck_ops_consumed:
  "ckpts_ok rows \<Longrightarrow> ck_get cid rows = Some r \<Longrightarrow> ck_consumed r \<Longrightarrow>
     ckpts_ok (foldl (\<lambda>rows op. ck_apply op rows) rows ops) \<and>
     (\<exists>r'. ck_get cid (foldl (\<lambda>rows op. ck_apply op rows) rows ops) = Some r' \<and> ck_consumed r')"
proof (induction ops arbitrary: rows r)
  case (Cons op ops)
  then show ?case
    using ck_apply_present [OF Cons.prems(1,2), of op] ck_apply_ok [OF Cons.prems(1), of op] by auto
qed auto

text \<open>A won claim ends with the checkpoint consumed and the approval marked.\<close>

lemma graph_resume_closes:
  assumes "ckpts_ok (sy_ckpts s)"
    and "fst (ck_claim_for_resume cid aid (sys_now env s) (sy_ckpts s)) \<noteq> None"
    and "dget (payload_of row) ''mode'' = JStr ''graph_keyword''"
    and "dget (payload_of row) ''checkpoint_id'' = JStr cid" and "cid \<noteq> []"
    and "\<not> truthy (dget (payload_of row) ''resumed'')"
    and "\<And>t a tid s. sy_ckpts (snd (gs_run gs t a tid s)) = sy_ckpts s"
  shows "ckpts_ok (sy_ckpts (snd (graph_resume env gs aid row s))) \<and>
     (\<exists>r. ck_get cid (sy_ckpts (snd (graph_resume env gs aid row s))) = Some r \<and> ck_consumed r \<and>
        ck_status r = KResumed \<and> ck_result_snapshot r = Some (fst (graph_resume env gs aid row s)))"
proof -
  let ?rows = "snd (ck_claim_for_resume cid aid (sys_now env s) (sy_ckpts s))"
  obtain claimed where won: "fst (ck_claim_for_resume cid aid (sys_now env s) (sy_ckpts s)) = Some claimed"
    using assms(2) by blast
  then have rows: "ckpts_ok ?rows" "ck_get cid ?rows = Some claimed"
    using ckpts_ok_claim [OF assms(1)] assms(1)
    by (auto simp: ck_claim_result ck_get_claim split: option.splits if_splits)
  have run: "graph_resume env gs aid row s = gs_execute env gs aid row cid claimed (s\<lparr>sy_ckpts := ?rows\<rparr>)"
    using won assms(3-6)
    by (cases "ck_claim_for_resume cid aid (sys_now env s) (sy_ckpts s)") (simp add: graph_resume_def Let_def)
  obtain now res where "sy_ckpts (snd (graph_resume env gs aid row s)) =
      ck_mark_resumed cid [(''decision'', JStr ''approved''), (''approval_id'', JStr aid)] (Some res) now ?rows"
    and "res = fst (graph_resume env gs aid row s)"
    by (simp add: run gs_execute_def unlet assms(7))
  then show ?thesis
    using rows by (simp add: ck_mark_resumed_def ckpt_table.upd_ok ck_get_modify resumed_row_def)
qed

lemma graph_resume_consumed:
  assumes "ckpts_ok (sy_ckpts t)" and "ck_get cid (sy_ckpts t) = Some r" and "ck_consumed r"
    and "dget (payload_of row) ''checkpoint_id'' = JStr cid"
  shows "snd (graph_resume env gs aid row t) = t"
proof -
  let ?c = "ck_claim_for_resume cid aid (sys_now env t) (sy_ckpts t)"
  have "fst ?c = None" using assms(1-3) by (simp add: ck_claim_result claimable_def)
  with claim_lost [OF assms(1) this] have "?c = (None, sy_ckpts t)" by (metis prod.collapse)
  with assms(4) show ?thesis by (simp add: graph_resume_def Let_def)
qed

text \<open>
  C3. An approved graph action runs at most once. Once a resumption has won the claim of its
  checkpoint, any later resumption that names this checkpoint, by whatever approval row, stale ones
  included, and after any operations on the checkpoint store, changes nothing: no tool is called,
  nothing is written.
\<close>

theorem graph_resume_at_most_once:
  assumes "ckpts_ok (sy_ckpts s)"
    and "fst (ck_claim_for_resume cid aid (sys_now env s) (sy_ckpts s)) \<noteq> None"
    and "dget (payload_of row) ''mode'' = JStr ''graph_keyword''"
    and "dget (payload_of row) ''checkpoint_id'' = JStr cid" and "cid \<noteq> []"
    and "\<not> truthy (dget (payload_of row) ''resumed'')"
    and "\<And>t a tid s. sy_ckpts (snd (gs_run gs t a tid s)) = sy_ckpts s"
    and "sy_ckpts t = foldl (\<lambda>rows op. ck_apply op rows) (sy_ckpts (snd (graph_resume env gs aid row s))) ops"
    and "dget (payload_of row') ''checkpoint_id'' = JStr cid"
  shows "snd (graph_resume env gs' aid' row' t) = t"
proof -
  obtain r where "ckpts_ok (sy_ckpts t)" "ck_get cid (sy_ckpts t) = Some r" "ck_consumed r"
    using graph_resume_closes [OF assms(1-7)] ck_ops_consumed assms(8) by metis
  with assms(9) show ?thesis by (intro graph_resume_consumed)
qed

theorem graph_resume_at_most_once_witness:
  "let s = (sys_init 0)\<lparr>sy_ckpts := [demo_ckpt]\<rparr>;
       row = demo_approval\<lparr>ar_payload := Some [(''mode'', JStr ''graph_keyword''), (''checkpoint_id'', JStr ''ck1'')]\<rparr>;
       gs = runtime_graph_resumer demo_env refund_gateway;
       t = snd (graph_resume demo_env gs ''apr_1'' row s)
   in snd (graph_resume demo_env gs ''apr_1'' row t) = t"
proof -
  let ?s = "(sys_init 0)\<lparr>sy_ckpts := [demo_ckpt]\<rparr>" and ?gs = "runtime_graph_resumer demo_env refund_gateway"
  let ?row = "demo_approval\<lparr>ar_payload := Some [(''mode'', JStr ''graph_keyword''), (''checkpoint_id'', JStr ''ck1'')]\<rparr>"
  have "fst (ck_claim_for_resume ''ck1'' ''apr_1'' (sys_now demo_env ?s) (sy_ckpts ?s)) \<noteq> None"
    by (simp add: ck_claim_for_resume_def count_where_def ck_get_def claimable_def demo_ckpt_def
        interrupted_row_def ck_new_row_def not_expired_def Let_def claimed_row_def)
  then show ?thesis
    unfolding Let_def
    by (intro graph_resume_at_most_once [where cid = "''ck1''" and ops = "[]" and row = ?row and row' = ?row])
       (simp_all add: payload_of_def runtime_graph_resumer_def gw_call_def unlet record_tool_metrics_def
          split: option.split)
qed

end
