(* ===== verification/Kernel.thy ===== *)
theory Kernel
  imports LLM_Planner Self_Check Graph_Runtime
begin

text \<open>
  The agent kernel (\<open>app/agent/graph/kernel.py\<close>): the keyword main path (assemble, plan, execute,
  verify, respond), run through a LangGraph graph or in sequence, the pipeline modes, the automatic
  cascade, and what surrounds them: memory, hooks, trace, metrics and the self check. A task is
  threaded beside the shared state, since the methods change it in place.
\<close>

text \<open>
  What the kernel was built with. The pipelines, the orchestrator and the graph runtime are the calls
  it makes of them; \<open>kn_invoke\<close> is LangGraph's execution of a compiled graph from a node, absent when
  LangGraph is not installed.
\<close>

text \<open>What \<open>_execute\<close> returns: None, a dict (blocked or waiting), or a call record.\<close>

datatype tool_out = ONone | ODict jdict | ORecord tool_call_record

text \<open>\<open>KeywordGraphState\<close>, with the shared state the nodes act on.\<close>

record 'w kstate =
  ks_task :: task_run
  ks_sys :: "'w sys"
  ks_ctx :: "agent_context option"
  ks_plan :: "jdict option"
  ks_record :: tool_out
  ks_waiting :: bool
  ks_verified :: bool
  ks_result :: "jdict option"

text \<open>A compiled \<open>StateGraph\<close>: nodes, plain edges and conditional edges with their targets.\<close>

record 'st state_graph =
  sg_nodes :: "(string \<times> ('st \<Rightarrow> (string + unit) \<times> 'st)) list"
  sg_edges :: "(string \<times> string) list"
  sg_cond :: "(string \<times> ('st \<Rightarrow> string) \<times> (string \<times> string) list) list"

type_synonym 'st graph_runner = "'st state_graph \<Rightarrow> string \<Rightarrow> 'st \<Rightarrow> (string + unit) \<times> 'st"

record 'w kernel =
  kn_tools :: "string list"
  kn_lookup :: tool_lookup
  kn_run :: "'w task_call"
  kn_hooks :: hooks
  kn_policy :: policy_engine
  kn_assemble :: "task_run \<Rightarrow> string list \<Rightarrow> 'w sys \<Rightarrow> string + agent_context"
  kn_switches :: switches
  kn_planner_mode :: string
  kn_llm_planner :: "'w llm_planner"
  kn_nl2sql :: "'w nl2sql_run"
  kn_multitool :: "string \<Rightarrow> string option \<Rightarrow> 'w sys \<Rightarrow> (string + jdict) \<times> 'w sys"
  kn_multi_agent :: "string \<Rightarrow> string option \<Rightarrow> nl2sql_opts \<Rightarrow> 'w sys \<Rightarrow> (string + multi_agent_run_result) \<times> 'w sys"
  kn_store :: bool
  kn_graph_enabled :: bool
  kn_graph_runtime :: "(string \<Rightarrow> string \<Rightarrow> 'w sys \<Rightarrow> (string + jdict) \<times> 'w sys) option"
  kn_self_check :: "(jdict \<Rightarrow> string + reflection) option"
  kn_invoke :: "'w kstate graph_runner option"

type_synonym 'w kpoint = "task_run \<times> 'w sys"

subsection \<open>Metrics, memory, self check, hooks\<close>

definition kn_trace :: "'w env \<Rightarrow> string \<Rightarrow> jdict \<Rightarrow> 'w kpoint \<Rightarrow> 'w kpoint" where
  "kn_trace env etype detail p = (fst p, sys_trace env etype (tk_id (fst p)) detail (snd p))"

definition kn_set_status :: "task_status \<Rightarrow> 'w kpoint \<Rightarrow> 'w kpoint" where
  "kn_set_status st p = ((fst p)\<lparr>tk_status := st\<rparr>, snd p)"

definition kn_set_result :: "jdict \<Rightarrow> 'w kpoint \<Rightarrow> 'w kpoint" where
  "kn_set_result r p = ((fst p)\<lparr>tk_result := JObj r\<rparr>, snd p)"

definition kn_touch :: "'w env \<Rightarrow> 'w kpoint \<Rightarrow> 'w kpoint" where
  "kn_touch env p = ((fst p)\<lparr>tk_updated_at := sys_now env (snd p)\<rparr>, snd p)"

definition record_task_metrics :: "string \<Rightarrow> 'w kpoint \<Rightarrow> 'w kpoint" where
  "record_task_metrics mode p =
     (let status = (if tk_status (fst p) = TCompleted then ''completed'' else ''failed'')
      in (fst p, (snd p)\<lparr>sy_metrics := map_option (metrics_record_task (tk_id (fst p)) mode status None)
            (sy_metrics (snd p))\<rparr>))"

definition kn_memory_add :: "'w env \<Rightarrow> string \<Rightarrow> string \<Rightarrow> string \<Rightarrow> 'w sys \<Rightarrow> 'w sys" where
  "kn_memory_add env sid role content s =
     (case sy_memory s of
        None \<Rightarrow> s
      | Some m \<Rightarrow>
          sys_trace env ''memory_message_added'' sid [(''role'', JStr role)]
            (s\<lparr>sy_memory := Some (memory_add (sys_now env s) sid role content [] m)\<rparr>))"

definition kn_remember :: "'w env \<Rightarrow> string \<Rightarrow> string \<Rightarrow> string \<Rightarrow> 'w kpoint \<Rightarrow> 'w kpoint" where
  "kn_remember env sid role content p = (fst p, kn_memory_add env sid role content (snd p))"

definition count_reflection :: "reflection \<Rightarrow> metrics \<Rightarrow> metrics" where
  "count_reflection r m =
     (let m1 = m\<lparr>mt_reflection_count := mt_reflection_count m + 1\<rparr>
      in if rl_passed r then m1 else m1\<lparr>mt_reflection_failed_count := mt_reflection_failed_count m1 + 1\<rparr>)"

text \<open>\<open>_run_self_check\<close>: whatever the check raises is dropped, as is a result that is no dict.\<close>

definition run_self_check :: "'w env \<Rightarrow> 'w kernel \<Rightarrow> 'w kpoint \<Rightarrow> 'w kpoint" where
  "run_self_check env kn p =
     (case kn_self_check kn of
        None \<Rightarrow> p
      | Some check \<Rightarrow>
          (case (case tk_result (fst p) of JNull \<Rightarrow> Some [] | JObj d \<Rightarrow> Some d | _ \<Rightarrow> None) of
             None \<Rightarrow> p
           | Some res \<Rightarrow>
               (case check res of
                  Inl _ \<Rightarrow> p
                | Inr r \<Rightarrow>
                    (let p1 = kn_set_result (dput res ''reflection'' (JObj (reflection_dump r))) p;
                         p2 = kn_trace env ''reflection_completed''
                           [(''passed'', JBool (rl_passed r)), (''score'', JFloat (rl_score r)),
                            (''issue_count'', JInt (int (length (rl_issues r))))] p1
                     in (fst p2, (snd p2)\<lparr>sy_metrics := map_option (count_reflection r) (sy_metrics (snd p2))\<rparr>)))))"

definition check_hook_errors :: "'w env \<Rightarrow> jdict \<Rightarrow> 'w kpoint \<Rightarrow> 'w kpoint" where
  "check_hook_errors env payload p =
     (if truthy (dget payload ''hook_errors'')
      then kn_trace env ''hook_failed'' [(''hook_errors'', dget payload ''hook_errors'')] p
      else p)"

definition kn_hook :: "'w env \<Rightarrow> 'w kernel \<Rightarrow> string \<Rightarrow> jdict \<Rightarrow> 'w kpoint \<Rightarrow> 'w kpoint" where
  "kn_hook env kn stage payload p = check_hook_errors env (hook_run (kn_hooks kn) stage payload) p"

subsection \<open>The nodes of the main path\<close>

definition kn_assemble_context :: "'w env \<Rightarrow> 'w kernel \<Rightarrow> 'w kpoint \<Rightarrow> (string + agent_context) \<times> 'w kpoint" where
  "kn_assemble_context env kn p =
     (case kn_assemble kn (fst p) (kn_tools kn) (snd p) of
        Inl e \<Rightarrow> (Inl e, p)
      | Inr ctx \<Rightarrow>
          (Inr ctx, kn_trace env ''context_assembled'' [(''available_tools'', jstrs (cx_available_tools ctx))] p))"

definition active_plan :: "'w env \<Rightarrow> 'w kernel \<Rightarrow> string \<Rightarrow> 'w sys \<Rightarrow> (string + jdict) \<times> 'w sys" where
  "active_plan env kn query s =
     (if kn_planner_mode kn \<noteq> ''llm'' then (Inr (keyword_plan (kn_switches kn) query), s)
      else llm_plan env (kn_llm_planner kn) query s)"

definition kn_plan :: "'w env \<Rightarrow> 'w kernel \<Rightarrow> agent_context \<Rightarrow> 'w kpoint \<Rightarrow> (string + jdict) \<times> 'w kpoint" where
  "kn_plan env kn ctx p =
     (case active_plan env kn (cx_user_query ctx) (snd p) of
        (Inl e, s) \<Rightarrow> (Inl e, (fst p, s))
      | (Inr plan, s) \<Rightarrow> (Inr plan, (fst p, sys_trace env ''plan_created'' (cx_task_id ctx) plan s)))"

definition kn_payload :: "task_run \<Rightarrow> string \<Rightarrow> json \<Rightarrow> jdict \<Rightarrow> jdict" where
  "kn_payload task tool args plan =
     [(''mode'', JStr ''keyword''), (''query'', JStr (tk_query task)), (''tool_name'', JStr tool),
      (''arguments'', args), (''plan_result'', JObj plan)]"

definition kn_request_approval ::
  "'w env \<Rightarrow> string \<Rightarrow> json \<Rightarrow> jdict \<Rightarrow> tool_spec \<Rightarrow> string \<Rightarrow> 'w kpoint \<Rightarrow> (string + tool_out) \<times> 'w kpoint"
where
  "kn_request_approval env tool args plan spec reason p =
     (case create_approval env (tk_id (fst p)) tool (tx_kn_approval_action tool) (sp_risk_level spec)
             (sp_permission_scope spec) reason (Some (kn_payload (fst p) tool args plan)) (snd p) of
        (Inl e, s) \<Rightarrow> (Inl e, (fst p, s))
      | (Inr row, s) \<Rightarrow>
          (Inr (ODict [(''blocked'', JBool True), (''requires_approval'', JBool True),
                 (''approval_id'', JStr (ar_id row)), (''tool_name'', JStr tool),
                 (''risk_level'', JStr (risk_level_value (sp_risk_level spec))), (''reason'', JStr reason)]),
           kn_set_status TWaitingApproval (kn_trace env ''approval_requested''
             [(''approval_id'', JStr (ar_id row)), (''tool_name'', JStr tool),
              (''risk_level'', JStr (risk_level_value (sp_risk_level spec)))] (fst p, s))))"

definition kn_blocked :: "'w env \<Rightarrow> string \<Rightarrow> string \<Rightarrow> 'w kpoint \<Rightarrow> (string + tool_out) \<times> 'w kpoint" where
  "kn_blocked env tool reason p =
     (Inr (ODict [(''blocked'', JBool True), (''reason'', JStr reason), (''tool_name'', JStr tool)]),
      kn_trace env ''tool_called''
        [(''tool_name'', JStr tool), (''blocked'', JBool True), (''reason'', JStr reason)] p)"

definition kn_call :: "'w env \<Rightarrow> 'w kernel \<Rightarrow> string \<Rightarrow> json \<Rightarrow> 'w kpoint \<Rightarrow> (string + tool_out) \<times> 'w kpoint" where
  "kn_call env kn tool args p =
     (let tid = tk_id (fst p);
          p1 = kn_hook env kn ''before_tool_call'' [(''task_id'', JStr tid), (''tool_name'', JStr tool)] p
      in case kn_run kn tool (or_dict args) tid (snd p1) of
           (Inl e, s) \<Rightarrow> (Inl e, (fst p1, s))
         | (Inr r, s) \<Rightarrow>
             (Inr (ORecord r),
              kn_trace env ''tool_called''
                [(''tool_name'', JStr tool), (''success'', JBool (cr_success r)),
                 (''latency_ms'', JFloat (cr_latency_ms r)), (''error'', cr_error r)]
                (kn_hook env kn ''after_tool_call''
                   [(''task_id'', JStr tid), (''tool_name'', JStr tool), (''success'', JBool (cr_success r))]
                   (fst p1, s))))"

definition kn_execute :: "'w env \<Rightarrow> 'w kernel \<Rightarrow> jdict \<Rightarrow> 'w kpoint \<Rightarrow> (string + tool_out) \<times> 'w kpoint" where
  "kn_execute env kn plan p =
     (if \<not> truthy (dget plan ''tool_name'') then (Inr ONone, p)
      else
        (let tool = or_str (dget plan ''tool_name''); args = or_else (dget plan ''arguments'') (JObj [])
         in case kn_lookup kn tool of
              None \<Rightarrow> kn_call env kn tool args p
            | Some spec \<Rightarrow>
                (let d = pe_evaluate (kn_policy kn) tool (Some (sp_risk_level spec)) None
                 in if pd_allowed d then kn_call env kn tool args p
                    else if pd_requires_approval d \<and> kn_store kn
                    then kn_request_approval env tool args plan spec (pd_reason d) p
                    else kn_blocked env tool (pd_reason d) p)))"

fun kn_verify :: "tool_out \<Rightarrow> bool" where
  "kn_verify ONone = False"
| "kn_verify (ODict d) = (\<not> truthy (dget d ''blocked''))"
| "kn_verify (ORecord r) = cr_success r"

definition kn_respond :: "'w env \<Rightarrow> jdict \<Rightarrow> tool_out \<Rightarrow> bool \<Rightarrow> jdict" where
  "kn_respond env plan out verified =
     (let d = (case out of ODict d \<Rightarrow> d | _ \<Rightarrow> [])
      in if \<not> truthy (dget plan ''matched'')
         then [(''answer'', JStr tx_unrecognized), (''tool_called'', JNull), (''success'', JBool False)]
         else if truthy (dget d ''requires_approval'')
         then [(''answer'', JStr (tx_kn_needs_approval (py_str env (dget d ''reason'')))),
               (''tool_called'', dget d ''tool_name''), (''success'', JBool False),
               (''requires_approval'', JBool True), (''approval_id'', dget d ''approval_id''),
               (''risk_level'', dget d ''risk_level''), (''blocked'', JBool True)]
         else if truthy (dget d ''blocked'')
         then [(''answer'', JStr (tx_kn_blocked (py_str env (dget d ''reason'')))),
               (''tool_called'', dget d ''tool_name''), (''success'', JBool False), (''blocked'', JBool True)]
         else if \<not> verified
         then (let why = (case out of
                            ORecord r \<Rightarrow> if truthy (cr_error r) then tx_kn_why (py_str env (cr_error r)) else []
                          | _ \<Rightarrow> [])
               in [(''answer'', JStr (tx_kn_failed why)), (''tool_called'', dget plan ''tool_name''),
                   (''success'', JBool False)])
         else (let data = (case out of ORecord r \<Rightarrow> cr_result r | ODict d \<Rightarrow> JObj d | ONone \<Rightarrow> JNull)
               in [(''answer'', JStr (tx_query_result
                      (py_str env (keyword_get_label (dget plan ''tool_name''))) (py_str env data))),
                   (''tool_called'', dget plan ''tool_name''), (''data'', data), (''success'', JBool True)]))"

subsection \<open>The main path in sequence and as a graph\<close>

definition run_sequential :: "'w env \<Rightarrow> 'w kernel \<Rightarrow> 'w kpoint \<Rightarrow> (string + jdict) \<times> 'w kpoint" where
  "run_sequential env kn p =
     bind_out (kn_assemble_context env kn p) (\<lambda>ctx p1.
     bind_out (kn_plan env kn ctx p1) (\<lambda>plan p2.
     bind_out (kn_execute env kn plan p2) (\<lambda>out p3.
       (if tk_status (fst p3) = TWaitingApproval then (Inr (kn_respond env plan out False), p3)
        else (Inr (kn_respond env plan out (kn_verify out)), p3)))))"

definition kg_point :: "'w kstate \<Rightarrow> 'w kpoint" where
  "kg_point st = (ks_task st, ks_sys st)"

definition kg_at :: "'w kpoint \<Rightarrow> 'w kstate \<Rightarrow> 'w kstate" where
  "kg_at p st = st\<lparr>ks_task := fst p, ks_sys := snd p\<rparr>"

text \<open>A node runs a method on the task and merges what it returns into the state.\<close>

definition kg_node ::
  "('w kpoint \<Rightarrow> (string + 'a) \<times> 'w kpoint) \<Rightarrow> ('a \<Rightarrow> 'w kstate \<Rightarrow> 'w kstate) \<Rightarrow> 'w kstate \<Rightarrow>
     (string + unit) \<times> 'w kstate"
where
  "kg_node f merge st =
     (case f (kg_point st) of (Inl e, p) \<Rightarrow> (Inl e, kg_at p st) | (Inr a, p) \<Rightarrow> (Inr (), merge a (kg_at p st)))"

definition keyword_graph :: "'w env \<Rightarrow> 'w kernel \<Rightarrow> 'w kstate state_graph" where
  "keyword_graph env kn =
     \<lparr>sg_nodes =
        [(''assemble_context'', kg_node (kn_assemble_context env kn) (\<lambda>ctx. ks_ctx_update (\<lambda>_. Some ctx))),
         (''plan'', \<lambda>st. case ks_ctx st of
             None \<Rightarrow> (Inl (utf8 [39] @ ''ctx'' @ utf8 [39]), st)
           | Some ctx \<Rightarrow> kg_node (kn_plan env kn ctx) (\<lambda>plan. ks_plan_update (\<lambda>_. Some plan)) st),
         (''execute'', \<lambda>st. case ks_plan st of
             None \<Rightarrow> (Inl (utf8 [39] @ ''plan_result'' @ utf8 [39]), st)
           | Some plan \<Rightarrow> kg_node (kn_execute env kn plan)
               (\<lambda>out st'. st'\<lparr>ks_record := out, ks_waiting := (tk_status (ks_task st') = TWaitingApproval)\<rparr>) st),
         (''verify'', \<lambda>st. (Inr (), st\<lparr>ks_verified := kn_verify (ks_record st)\<rparr>)),
         (''respond'', \<lambda>st. case ks_plan st of
             None \<Rightarrow> (Inl (utf8 [39] @ ''plan_result'' @ utf8 [39]), st)
           | Some plan \<Rightarrow>
               (let verified = (if ks_waiting st then False else ks_verified st)
                in (Inr (), st\<lparr>ks_result := Some (kn_respond env plan (ks_record st) verified)\<rparr>)))],
      sg_edges =
        [(''__start__'', ''assemble_context''), (''assemble_context'', ''plan''), (''plan'', ''execute''),
         (''verify'', ''respond''), (''respond'', ''__end__'')],
      sg_cond =
        [(''execute'', \<lambda>st. if ks_waiting st then ''respond'' else ''verify'',
          [(''verify'', ''verify''), (''respond'', ''respond'')])]\<rparr>"

definition graph_start :: "'w kpoint \<Rightarrow> 'w kstate" where
  "graph_start p =
     \<lparr>ks_task = fst p, ks_sys = snd p, ks_ctx = None, ks_plan = None, ks_record = ONone,
      ks_waiting = False, ks_verified = False, ks_result = None\<rparr>"

text \<open>\<open>self._graph.invoke({"task": task})["result"]\<close>.\<close>

definition run_graph :: "'w kstate graph_runner \<Rightarrow> 'w env \<Rightarrow> 'w kernel \<Rightarrow> 'w kpoint \<Rightarrow> (string + jdict) \<times> 'w kpoint" where
  "run_graph go env kn p =
     (case go (keyword_graph env kn) ''__start__'' (graph_start p) of
        (Inl e, st) \<Rightarrow> (Inl e, kg_point st)
      | (Inr _, st) \<Rightarrow>
          (case ks_result st of
             None \<Rightarrow> (Inl (utf8 [39] @ ''result'' @ utf8 [39]), kg_point st)
           | Some r \<Rightarrow> (Inr r, kg_point st)))"

text \<open>
  What the kernel relies on of LangGraph: the runner starts at the successor of the start node, runs
  a node, follows its conditional edge or else its plain edge on the state the node left, stops at
  the end node, and lets an exception of a node escape.
\<close>

definition successor :: "'st state_graph \<Rightarrow> string \<Rightarrow> 'st \<Rightarrow> string option" where
  "successor g n st =
     (case map_of (sg_cond g) n of
        Some (route, targets) \<Rightarrow> map_of targets (route st)
      | None \<Rightarrow> map_of (sg_edges g) n)"

definition follows :: "'st graph_runner \<Rightarrow> 'st state_graph \<Rightarrow> string \<Rightarrow> 'st \<Rightarrow> (string + unit) \<times> 'st" where
  "follows go g n st = (case successor g n st of None \<Rightarrow> (Inr (), st) | Some m \<Rightarrow> go g m st)"

definition graph_laws :: "'st graph_runner \<Rightarrow> 'st state_graph \<Rightarrow> bool" where
  "graph_laws go g \<longleftrightarrow>
     (\<forall>st. go g ''__end__'' st = (Inr (), st)) \<and>
     (\<forall>st. go g ''__start__'' st = follows go g ''__start__'' st) \<and>
     (\<forall>n f st. map_of (sg_nodes g) n = Some f \<longrightarrow> go g n st = bind_out (f st) (\<lambda>_. follows go g n))"

text \<open>A runner of this kind, with LangGraph's default limit of 25 steps.\<close>

fun sg_steps :: "nat \<Rightarrow> 'st graph_runner" where
  "sg_steps 0 g n st = (Inl ''GraphRecursionError'', st)"
| "sg_steps (Suc k) g n st =
     (if n = ''__end__'' then (Inr (), st)
      else case map_of (sg_nodes g) n of
             Some f \<Rightarrow> bind_out (f st) (\<lambda>_. follows (sg_steps k) g n)
           | None \<Rightarrow> follows (sg_steps k) g n st)"

definition sg_invoke :: "'st graph_runner" where
  "sg_invoke = sg_steps 25"

lemma successor_keyword_graph [simp]:
  "successor (keyword_graph env kn) ''__start__'' st = Some ''assemble_context''"
  "successor (keyword_graph env kn) ''assemble_context'' st = Some ''plan''"
  "successor (keyword_graph env kn) ''plan'' st = Some ''execute''"
  "successor (keyword_graph env kn) ''execute'' st = Some (if ks_waiting st then ''respond'' else ''verify'')"
  "successor (keyword_graph env kn) ''verify'' st = Some ''respond''"
  "successor (keyword_graph env kn) ''respond'' st = Some ''__end__''"
  by (simp_all add: successor_def keyword_graph_def)

text \<open>Every node is at most five steps from the end, so the limit is never reached.\<close>

definition kg_rank :: "(string \<times> nat) list" where
  "kg_rank = [(''__end__'', 1), (''respond'', 2), (''verify'', 3), (''execute'', 4), (''plan'', 5),
     (''assemble_context'', 6), (''__start__'', 7)]"

lemma successor_rank:
  assumes "(n, r) \<in> set kg_rank" and "n \<noteq> ''__end__''"
  shows "\<exists>m r'. successor (keyword_graph env kn) n st = Some m \<and> (m, r') \<in> set kg_rank \<and> r' < r"
  using assms unfolding kg_rank_def set_simps insert_iff prod.inject empty_iff
  by (elim disjE conjE FalseE; hypsubst; simp)

lemma sg_steps_enough:
  assumes "(n, r) \<in> set kg_rank" and "r \<le> k" and "k \<le> k'"
  shows "sg_steps k' (keyword_graph env kn) n st = sg_steps k (keyword_graph env kn) n st"
  using assms
proof (induction k arbitrary: k' n r st)
  case 0
  then show ?case by (auto simp: kg_rank_def)
next
  case (Suc k)
  obtain k'' where k': "k' = Suc k''" "k \<le> k''" using Suc.prems(3) by (cases k') auto
  show ?case
  proof (cases "n = ''__end__''")
    case True
    then show ?thesis by (simp add: k')
  next
    case False
    have "follows (sg_steps k'') (keyword_graph env kn) n = follows (sg_steps k) (keyword_graph env kn) n"
    proof
      fix st'
      obtain m r' where m: "successor (keyword_graph env kn) n st' = Some m" "(m, r') \<in> set kg_rank" "r' < r"
        using successor_rank [OF Suc.prems(1) False] by blast
      from m(3) Suc.prems(2) have "r' \<le> k" by simp
      from Suc.IH [OF m(2) this k'(2)] m(1)
      show "follows (sg_steps k'') (keyword_graph env kn) n st' = follows (sg_steps k) (keyword_graph env kn) n st'"
        by (simp add: follows_def)
    qed
    then show ?thesis by (simp only: k' sg_steps.simps)
  qed
qed

lemma graph_laws_sg_invoke: "graph_laws sg_invoke (keyword_graph env kn)"
proof -
  let ?g = "keyword_graph env kn"
  have small: "r \<le> 24" if "(n, r) \<in> set kg_rank" for n r
    using that by (auto simp: kg_rank_def)
  have enough: "follows (sg_steps 24) ?g n st = follows sg_invoke ?g n st"
    if n: "(n, r) \<in> set kg_rank" "n \<noteq> ''__end__''" for n r st
  proof -
    obtain m r' where m: "successor ?g n st = Some m" "(m, r') \<in> set kg_rank"
      using successor_rank [OF n] by blast
    then show ?thesis
      by (simp add: follows_def sg_invoke_def sg_steps_enough [OF m(2) small [OF m(2)], of 25])
  qed
  have names: "\<exists>r. (n, r) \<in> set kg_rank \<and> n \<noteq> ''__end__''" if "map_of (sg_nodes ?g) n = Some f" for n f
  proof -
    have "n \<in> fst ` set (sg_nodes ?g)" using that by (force dest: map_of_SomeD)
    also have "fst ` set (sg_nodes ?g) = {''assemble_context'', ''plan'', ''execute'', ''verify'', ''respond''}"
      by (simp add: keyword_graph_def)
    finally show ?thesis
      unfolding kg_rank_def insert_iff empty_iff
      by (elim disjE FalseE; hypsubst; simp)
  qed
  have st: "map_of (sg_nodes ?g) ''__start__'' = None" by (simp add: keyword_graph_def)
  have step: "sg_invoke ?g n st = (if n = ''__end__'' then (Inr (), st)
      else case map_of (sg_nodes ?g) n of
             Some f \<Rightarrow> bind_out (f st) (\<lambda>_. follows (sg_steps 24) ?g n)
           | None \<Rightarrow> follows (sg_steps 24) ?g n st)" for n st
  proof -
    have "(25::nat) = Suc 24" by simp
    then show ?thesis unfolding sg_invoke_def by (simp only: sg_steps.simps)
  qed
  show ?thesis
    unfolding graph_laws_def
  proof (intro conjI allI impI)
    show "sg_invoke ?g ''__end__'' st = (Inr (), st)" for st by (simp add: step)
    show "sg_invoke ?g ''__start__'' st = follows sg_invoke ?g ''__start__'' st" for st
      using enough [of "''__start__''" 7 st] by (simp add: step st kg_rank_def)
    fix n f st assume f: "map_of (sg_nodes ?g) n = Some f"
    have "(\<lambda>_. follows (sg_steps 24) ?g n) = (\<lambda>_::unit. follows sg_invoke ?g n)"
      using enough names [OF f] by (metis (no_types, lifting) ext)
    with f names [OF f] show "sg_invoke ?g n st = bind_out (f st) (\<lambda>_. follows sg_invoke ?g n)"
      by (simp add: step)
  qed
qed

subsection \<open>A task in keyword mode\<close>

definition or_sid :: "string option \<Rightarrow> task_run \<Rightarrow> string" where
  "or_sid session task = (case session of None \<Rightarrow> tk_id task | Some [] \<Rightarrow> tk_id task | Some sid \<Rightarrow> sid)"

text \<open>The body of the \<open>try\<close>: True when the task now waits for an approval and \<open>run\<close> returns at once.\<close>

definition kn_body :: "'w env \<Rightarrow> 'w kernel \<Rightarrow> string \<Rightarrow> 'w kpoint \<Rightarrow> (string + bool) \<times> 'w kpoint" where
  "kn_body env kn sid p =
     (let task = fst p;
          engine = (case kn_invoke kn of None \<Rightarrow> ''sequential'' | Some _ \<Rightarrow> ''langgraph'');
          p1 = kn_trace env ''task_started'' [(''query'', JStr (tk_query task)), (''engine'', JStr engine)] p;
          p2 = kn_hook env kn ''before_task'' [(''task_id'', JStr (tk_id task)), (''query'', JStr (tk_query task))] p1
      in bind_out (case kn_invoke kn of None \<Rightarrow> run_sequential env kn p2 | Some go \<Rightarrow> run_graph go env kn p2)
           (\<lambda>result p3.
             (if tk_status (fst p3) = TWaitingApproval
              then (Inr True, kn_touch env (kn_set_result result p3))
              else
                (let p4 = kn_hook env kn ''after_task''
                       [(''task_id'', JStr (tk_id task)), (''result'', JObj result)] (kn_set_result result p3);
                     p5 = kn_trace env ''task_completed''
                       [(''result_summary'', JStr (py_take 200 (py_str env (JObj result))))]
                       (kn_set_status TCompleted p4)
                 in (Inr False, kn_remember env sid ''assistant''
                       (py_take 200 (py_str env (dget_or result ''answer'' (JStr [])))) p5)))))"

text \<open>The \<open>except\<close> branch; what the \<open>on_error\<close> hooks return is not used.\<close>

definition kn_fail :: "'w env \<Rightarrow> string \<Rightarrow> 'w kpoint \<Rightarrow> 'w kpoint" where
  "kn_fail env e p =
     kn_trace env ''task_failed'' [(''error'', JStr e)]
       ((fst p)\<lparr>tk_status := TFailed, tk_error := Some e\<rparr>, snd p)"

definition kernel_run :: "'w env \<Rightarrow> 'w kernel \<Rightarrow> string option \<Rightarrow> 'w kpoint \<Rightarrow> 'w kpoint" where
  "kernel_run env kn session p =
     (let sid = or_sid session (fst p);
          p1 = kn_remember env sid ''user'' (tk_query (fst p)) (kn_touch env (kn_set_status TRunning p));
          finish = (\<lambda>q. kn_touch env (run_self_check env kn (record_task_metrics ''keyword'' q)))
      in case kn_body env kn sid p1 of
           (Inr True, p2) \<Rightarrow> p2
         | (Inr False, p2) \<Rightarrow> finish p2
         | (Inl e, p2) \<Rightarrow> finish (kn_fail env e p2))"

subsection \<open>The pipeline modes\<close>

definition item :: "jdict \<Rightarrow> string \<Rightarrow> string + json" where
  "item d k = (case map_of d k of None \<Rightarrow> Inl (utf8 [39] @ k @ utf8 [39]) | Some v \<Rightarrow> Inr v)"

text \<open>\<open>v[:n]\<close> and \<open>len(v)\<close> on a dynamic value.\<close>

fun py_slice :: "nat \<Rightarrow> json \<Rightarrow> string + json" where
  "py_slice n (JStr s) = Inr (JStr (py_take n s))"
| "py_slice n (JList xs) = Inr (JList (take n xs))"
| "py_slice n (JObj d) = Inl (''unhashable type: '' @ utf8 [39] @ ''slice'' @ utf8 [39])"
| "py_slice n v = Inl (utf8 [39] @ type_name v @ utf8 [39] @ '' object is not subscriptable'')"

fun py_length :: "json \<Rightarrow> string + nat" where
  "py_length (JStr s) = Inr (py_len s)"
| "py_length (JList xs) = Inr (length xs)"
| "py_length (JObj d) = Inr (length d)"
| "py_length v = Inl (''object of type '' @ utf8 [39] @ type_name v @ utf8 [39] @ '' has no len()'')"

definition kn_summary :: "'w env \<Rightarrow> json \<Rightarrow> 'w kpoint \<Rightarrow> 'w kpoint" where
  "kn_summary env v p =
     kn_trace env ''task_completed'' [(''result_summary'', JStr (py_take 200 (py_str env v)))]
       (kn_set_status TCompleted p)"

definition kn_start :: "'w env \<Rightarrow> string \<Rightarrow> 'w kpoint \<Rightarrow> 'w kpoint" where
  "kn_start env mode p =
     kn_trace env ''task_started'' [(''query'', JStr (tk_query (fst p))), (''mode'', JStr mode)]
       (kn_touch env (kn_set_status TRunning p))"

definition on_sys :: "('w sys \<Rightarrow> 'r \<times> 'w sys) \<Rightarrow> 'w kpoint \<Rightarrow> 'r \<times> 'w kpoint" where
  "on_sys f p = (case f (snd p) of (r, s) \<Rightarrow> (r, (fst p, s)))"

definition nl2sql_detail :: "jdict \<Rightarrow> string + jdict" where
  "nl2sql_detail res =
     (case item res ''success'' of Inl e \<Rightarrow> Inl e
      | Inr ok \<Rightarrow>
          (case item res ''generator_used'' of Inl e \<Rightarrow> Inl e
           | Inr gen \<Rightarrow>
               (case py_slice 100 (dget_or res ''sql'' (JStr [])) of Inl e \<Rightarrow> Inl e
                | Inr sql \<Rightarrow> Inr [(''success'', ok), (''generator_used'', gen), (''sql'', sql)])))"

definition started_detail :: "nl2sql_opts \<Rightarrow> jdict" where
  "started_detail opts = [(''generator'', JStr (no_generator opts)), (''provider'', opt_str (no_provider opts))]"

definition run_nl2sql :: "'w env \<Rightarrow> 'w kernel \<Rightarrow> nl2sql_opts \<Rightarrow> 'w kpoint \<Rightarrow> 'w kpoint" where
  "run_nl2sql env kn opts p =
     (let p1 = kn_trace env ''nl2sql_started'' (started_detail opts) (kn_start env ''nl2sql'' p);
          failed = (\<lambda>e q. kn_trace env ''nl2sql_failed'' [(''error'', JStr e)]
             (kn_set_result [(''mode'', JStr ''nl2sql''), (''success'', JBool False),
                (''answer'', JStr (tx_nl2sql_exception e))] (kn_set_status TCompleted q)))
      in kn_touch env
           (case on_sys (kn_nl2sql kn (tk_query (fst p)) opts) p1 of
              (Inl e, p2) \<Rightarrow> failed e p2
            | (Inr res, p2) \<Rightarrow>
                (let p3 = kn_set_result res p2
                 in case nl2sql_detail res of
                      Inl e \<Rightarrow> failed e p3
                    | Inr detail \<Rightarrow> kn_summary env (JObj res) (kn_trace env ''nl2sql_completed'' detail p3))))"

definition multitool_detail :: "jdict \<Rightarrow> string + string \<times> jdict" where
  "multitool_detail res =
     (case item res ''success'' of Inl e \<Rightarrow> Inl e
      | Inr ok \<Rightarrow>
          if truthy ok
          then (case py_length (dget_or res ''tool_calls'' (JList [])) of Inl e \<Rightarrow> Inl e
                | Inr n \<Rightarrow> Inr (''multitool_completed'',
                    [(''intent'', dget_or res ''intent'' (JStr [])), (''steps'', JInt (int n))]))
          else Inr (''multitool_failed'',
                 [(''intent'', dget_or res ''intent'' (JStr [])), (''reason'', dget_or res ''answer'' (JStr []))]))"

definition run_multitool :: "'w env \<Rightarrow> 'w kernel \<Rightarrow> 'w kpoint \<Rightarrow> 'w kpoint" where
  "run_multitool env kn p =
     (let task = fst p;
          p1 = kn_trace env ''multitool_started'' [(''query'', JStr (tk_query task))] (kn_start env ''multitool'' p);
          failed = (\<lambda>e q. kn_trace env ''multitool_failed'' [(''error'', JStr e)]
             (kn_set_result [(''mode'', JStr ''multitool''), (''success'', JBool False),
                (''answer'', JStr (tx_multitool_exception e))] (kn_set_status TCompleted q)))
      in kn_touch env
           (case on_sys (kn_multitool kn (tk_query task) (Some (tk_id task))) p1 of
              (Inl e, p2) \<Rightarrow> failed e p2
            | (Inr res, p2) \<Rightarrow>
                (let p3 = kn_set_result res p2
                 in if truthy (dget res ''requires_approval'')
                    then kn_trace env ''multitool_waiting_approval''
                           [(''approval_id'', dget res ''approval_id''), (''failed_step'', dget res ''failed_step'')]
                           (kn_set_status TWaitingApproval p3)
                    else case multitool_detail res of
                           Inl e \<Rightarrow> failed e p3
                         | Inr (etype, detail) \<Rightarrow> kn_summary env (JObj res) (kn_trace env etype detail p3))))"

definition run_multi_agent :: "'w env \<Rightarrow> 'w kernel \<Rightarrow> nl2sql_opts \<Rightarrow> 'w kpoint \<Rightarrow> 'w kpoint" where
  "run_multi_agent env kn opts p =
     (let task = fst p; p1 = kn_start env ''multi_agent'' p
      in kn_touch env
           (case on_sys (kn_multi_agent kn (tk_query task) (Some (tk_id task)) opts) p1 of
              (Inl e, p2) \<Rightarrow>
                kn_trace env ''multi_agent_failed'' [(''error'', JStr e)]
                  (kn_set_result [(''mode'', JStr ''multi_agent''), (''success'', JBool False),
                     (''final_answer'', JStr (tx_multi_agent_exception e))] (kn_set_status TCompleted p2))
            | (Inr r, p2) \<Rightarrow>
                kn_summary env (JStr (ma_final_answer r)) (kn_set_result (run_result_dump r) p2)))"

subsection \<open>The automatic cascade\<close>

definition auto_mark :: "string \<Rightarrow> string list \<Rightarrow> string option \<Rightarrow> jdict \<Rightarrow> jdict" where
  "auto_mark mode chain why res =
     dupd res ([(''requested_mode'', JStr ''auto''), (''executed_mode'', JStr mode), (''fallback_chain'', jstrs chain)] @
       (case why of None \<Rightarrow> [] | Some w \<Rightarrow> [(''auto_fallback'', JBool True), (''auto_fallback_reason'', JStr w)]))"

definition auto_keyword :: "'w env \<Rightarrow> 'w kernel \<Rightarrow> string list \<Rightarrow> string \<Rightarrow> json \<Rightarrow> 'w kpoint \<Rightarrow> 'w kpoint" where
  "auto_keyword env kn chain why reason p =
     (let p1 = kernel_run env kn None (kn_trace env ''auto_fallback_keyword'' [(''reason'', reason)] p)
      in kn_set_result (auto_mark ''keyword'' (chain @ [''keyword'']) (Some why) (or_dict (tk_result (fst p1)))) p1)"

definition auto_failed :: "'w env \<Rightarrow> 'w kernel \<Rightarrow> string list \<Rightarrow> string \<Rightarrow> 'w kpoint \<Rightarrow> 'w kpoint" where
  "auto_failed env kn chain e p =
     auto_keyword env kn chain (tx_auto_reason_exception e) (JStr e)
       (kn_trace env ''nl2sql_failed'' [(''error'', JStr e)] p)"

definition auto_multitool :: "'w env \<Rightarrow> 'w kernel \<Rightarrow> 'w kpoint \<Rightarrow> 'w kpoint" where
  "auto_multitool env kn p =
     (let task = fst p; chain = [''nl2sql'', ''multitool''];
          p1 = kn_trace env ''multitool_started'' [(''query'', JStr (tk_query task))]
             (kn_trace env ''auto_fallback_multitool'' [(''reason'', JStr ''nl2sql failed'')] p)
      in case on_sys (kn_multitool kn (tk_query task) (Some (tk_id task))) p1 of
           (Inl e, p2) \<Rightarrow> auto_failed env kn chain e p2
         | (Inr res, p2) \<Rightarrow>
             (case item res ''success'' of
                Inl e \<Rightarrow> auto_failed env kn chain e p2
              | Inr ok \<Rightarrow>
                  if truthy ok
                  then (let res' = auto_mark ''multitool'' chain (Some tx_auto_reason_multitool) res
                        in kn_summary env (JObj res')
                             (kn_trace env ''multitool_completed'' [(''intent'', dget_or res' ''intent'' (JStr []))]
                                (kn_set_result res' p2)))
                  else auto_keyword env kn chain tx_auto_reason_keyword (JStr ''multitool failed'')
                         (kn_trace env ''multitool_failed'' [(''reason'', dget_or res ''answer'' (JStr []))] p2)))"

definition run_auto :: "'w env \<Rightarrow> 'w kernel \<Rightarrow> nl2sql_opts \<Rightarrow> 'w kpoint \<Rightarrow> 'w kpoint" where
  "run_auto env kn opts p =
     (let p1 = kn_trace env ''nl2sql_started'' (started_detail opts) (kn_start env ''auto'' p)
      in kn_touch env
           (case on_sys (kn_nl2sql kn (tk_query (fst p)) opts) p1 of
              (Inl e, p2) \<Rightarrow> auto_failed env kn [''nl2sql''] e p2
            | (Inr res, p2) \<Rightarrow>
                (case item res ''success'' of
                   Inl e \<Rightarrow> auto_failed env kn [''nl2sql''] e p2
                 | Inr ok \<Rightarrow>
                     if truthy ok
                     then (let res' = auto_mark ''nl2sql'' [''nl2sql''] None res
                           in kn_summary env (JObj res')
                                (kn_trace env ''nl2sql_completed'' [(''success'', JBool True)] (kn_set_result res' p2)))
                     else auto_multitool env kn
                            (kn_trace env ''nl2sql_completed''
                               [(''success'', JBool False), (''reason'', dget_or res ''guard_reason'' (JStr []))] p2))))"

subsection \<open>The entry\<close>

definition result_answer :: "'w env \<Rightarrow> task_run \<Rightarrow> string" where
  "result_answer env task =
     (if truthy (tk_result task)
      then py_take 200 (py_str env (dget_or (or_dict (tk_result task)) ''answer'' (JStr []))) else [])"

definition kn_wrap_up :: "'w env \<Rightarrow> 'w kernel \<Rightarrow> string \<Rightarrow> string \<Rightarrow> 'w kpoint \<Rightarrow> 'w kpoint" where
  "kn_wrap_up env kn mode sid p =
     (let p1 = record_task_metrics mode p
      in run_self_check env kn (kn_remember env sid ''assistant'' (result_answer env (fst p1)) p1))"

definition graph_outcome :: "jdict \<Rightarrow> task_status" where
  "graph_outcome res =
     (if truthy (dget res ''requires_approval'')
      then (if truthy (dget res ''approval_id'') then TWaitingApproval else TFailed)
      else if truthy (dget res ''success'') then TCompleted else TFailed)"

definition run_graph_runtime ::
  "'w env \<Rightarrow> 'w kernel \<Rightarrow> (string \<Rightarrow> string \<Rightarrow> 'w sys \<Rightarrow> (string + jdict) \<times> 'w sys) \<Rightarrow> string \<Rightarrow> 'w kpoint \<Rightarrow>
     (string + unit) \<times> 'w kpoint"
where
  "run_graph_runtime env kn gr sid p =
     (case on_sys (gr (tk_id (fst p)) (tk_query (fst p))) p of
        (Inl e, p1) \<Rightarrow> (Inl e, p1)
      | (Inr res, p1) \<Rightarrow>
          (let p2 = record_task_metrics ''keyword''
                 (kn_touch env (kn_set_status (graph_outcome res) (kn_set_result res p1)));
               p3 = kn_remember env sid ''assistant''
                 (py_take 200 (py_str env (dget_or res ''answer'' (JStr [])))) p2
           in (Inr (), run_self_check env kn p3)))"

text \<open>\<open>run_with_options\<close>; only the graph runtime can raise out of it.\<close>

definition run_with_options ::
  "'w env \<Rightarrow> 'w kernel \<Rightarrow> string \<Rightarrow> nl2sql_opts \<Rightarrow> string option \<Rightarrow> 'w kpoint \<Rightarrow> (string + unit) \<times> 'w kpoint"
where
  "run_with_options env kn mode opts session p =
     (let sid = or_sid session (fst p); p1 = kn_remember env sid ''user'' (tk_query (fst p)) p
      in case (if mode = ''keyword'' \<and> kn_graph_enabled kn then kn_graph_runtime kn else None) of
           Some gr \<Rightarrow> run_graph_runtime env kn gr sid p1
         | None \<Rightarrow>
             (Inr (),
              if mode = ''nl2sql'' then kn_wrap_up env kn mode sid (run_nl2sql env kn opts p1)
              else if mode = ''multitool'' then kn_wrap_up env kn mode sid (run_multitool env kn p1)
              else if mode = ''multi_agent'' then kn_wrap_up env kn mode sid (run_multi_agent env kn opts p1)
              else if mode = ''auto'' then kn_wrap_up env kn mode sid (run_auto env kn opts p1)
              else kernel_run env kn session p1))"

subsection \<open>The graph is the sequence\<close>

lemma kg_point_at [simp]: "kg_point (kg_at p st) = p"
  by (simp add: kg_point_def kg_at_def)

lemma graph_laws_step:
  assumes "graph_laws go (keyword_graph env kn)"
  shows "go (keyword_graph env kn) ''__start__'' st = go (keyword_graph env kn) ''assemble_context'' st"
    and "go (keyword_graph env kn) ''__end__'' st = (Inr (), st)"
    and "map_of (sg_nodes (keyword_graph env kn)) n = Some f \<Longrightarrow>
       go (keyword_graph env kn) n st = bind_out (f st) (\<lambda>_. follows go (keyword_graph env kn) n)"
  using assms by (auto simp: graph_laws_def follows_def)

lemma keyword_graph_nodes:
  "map_of (sg_nodes (keyword_graph env kn)) ''assemble_context'' =
     Some (kg_node (kn_assemble_context env kn) (\<lambda>ctx. ks_ctx_update (\<lambda>_. Some ctx)))"
  "map_of (sg_nodes (keyword_graph env kn)) ''plan'' =
     Some (\<lambda>st. case ks_ctx st of
         None \<Rightarrow> (Inl (utf8 [39] @ ''ctx'' @ utf8 [39]), st)
       | Some ctx \<Rightarrow> kg_node (kn_plan env kn ctx) (\<lambda>plan. ks_plan_update (\<lambda>_. Some plan)) st)"
  "map_of (sg_nodes (keyword_graph env kn)) ''execute'' =
     Some (\<lambda>st. case ks_plan st of
         None \<Rightarrow> (Inl (utf8 [39] @ ''plan_result'' @ utf8 [39]), st)
       | Some plan \<Rightarrow> kg_node (kn_execute env kn plan)
           (\<lambda>out st'. st'\<lparr>ks_record := out, ks_waiting := (tk_status (ks_task st') = TWaitingApproval)\<rparr>) st)"
  "map_of (sg_nodes (keyword_graph env kn)) ''verify'' =
     Some (\<lambda>st. (Inr (), st\<lparr>ks_verified := kn_verify (ks_record st)\<rparr>))"
  "map_of (sg_nodes (keyword_graph env kn)) ''respond'' =
     Some (\<lambda>st. case ks_plan st of
         None \<Rightarrow> (Inl (utf8 [39] @ ''plan_result'' @ utf8 [39]), st)
       | Some plan \<Rightarrow>
           (let verified = (if ks_waiting st then False else ks_verified st)
            in (Inr (), st\<lparr>ks_result := Some (kn_respond env plan (ks_record st) verified)\<rparr>)))"
  by (simp_all add: keyword_graph_def)

text \<open>One step of a lawful runner from each node.\<close>

lemma graph_run_nodes:
  assumes "graph_laws go (keyword_graph env kn)"
  defines "g \<equiv> keyword_graph env kn"
  shows "go g ''__start__'' st = go g ''assemble_context'' st"
    and "go g ''assemble_context'' st =
       bind_out (kg_node (kn_assemble_context env kn) (\<lambda>ctx. ks_ctx_update (\<lambda>_. Some ctx)) st) (\<lambda>_. go g ''plan'')"
    and "ks_ctx st = Some ctx \<Longrightarrow> go g ''plan'' st =
       bind_out (kg_node (kn_plan env kn ctx) (\<lambda>plan. ks_plan_update (\<lambda>_. Some plan)) st) (\<lambda>_. go g ''execute'')"
    and "ks_plan st = Some plan \<Longrightarrow> go g ''execute'' st =
       bind_out (kg_node (kn_execute env kn plan)
           (\<lambda>out st'. st'\<lparr>ks_record := out, ks_waiting := (tk_status (ks_task st') = TWaitingApproval)\<rparr>) st)
         (\<lambda>_ st'. if ks_waiting st' then go g ''respond'' st' else go g ''verify'' st')"
    and "go g ''verify'' st = go g ''respond'' (st\<lparr>ks_verified := kn_verify (ks_record st)\<rparr>)"
    and "ks_plan st = Some plan \<Longrightarrow> go g ''respond'' st =
       (Inr (), st\<lparr>ks_result := Some (kn_respond env plan (ks_record st) (\<not> ks_waiting st \<and> ks_verified st))\<rparr>)"
proof -
  have edge: "follows go g n = (\<lambda>st. case successor g n st of None \<Rightarrow> (Inr (), st) | Some m \<Rightarrow> go g m st)" for n
    by (simp add: follows_def fun_eq_iff)
  have node: "map_of (sg_nodes g) n = Some f \<Longrightarrow> go g n st = bind_out (f st) (\<lambda>_. follows go g n)" for n f st
    using assms by (simp add: graph_laws_def)
  have fin: "go g ''__end__'' st = (Inr (), st)" for st using assms by (simp add: graph_laws_def)
  note succ = successor_keyword_graph [of env kn, folded g_def]
  show "go g ''__start__'' st = go g ''assemble_context'' st"
    using assms by (simp add: graph_laws_def follows_def)
  show "go g ''assemble_context'' st =
       bind_out (kg_node (kn_assemble_context env kn) (\<lambda>ctx. ks_ctx_update (\<lambda>_. Some ctx)) st) (\<lambda>_. go g ''plan'')"
    by (simp add: node [OF keyword_graph_nodes(1) [of env kn, folded g_def]] edge succ)
  show "go g ''plan'' st =
       bind_out (kg_node (kn_plan env kn ctx) (\<lambda>plan. ks_plan_update (\<lambda>_. Some plan)) st) (\<lambda>_. go g ''execute'')"
    if "ks_ctx st = Some ctx"
    using that by (simp add: node [OF keyword_graph_nodes(2) [of env kn, folded g_def]] edge succ)
  show "go g ''execute'' st =
       bind_out (kg_node (kn_execute env kn plan)
           (\<lambda>out st'. st'\<lparr>ks_record := out, ks_waiting := (tk_status (ks_task st') = TWaitingApproval)\<rparr>) st)
         (\<lambda>_ st'. if ks_waiting st' then go g ''respond'' st' else go g ''verify'' st')"
    if "ks_plan st = Some plan"
    using that by (simp add: node [OF keyword_graph_nodes(3) [of env kn, folded g_def]] edge succ
        if_distrib [of "\<lambda>n. go _ n _"] cong: if_cong)
  show "go g ''verify'' st = go g ''respond'' (st\<lparr>ks_verified := kn_verify (ks_record st)\<rparr>)"
    by (simp add: node [OF keyword_graph_nodes(4) [of env kn, folded g_def]] edge succ)
  show "go g ''respond'' st =
       (Inr (), st\<lparr>ks_result := Some (kn_respond env plan (ks_record st) (\<not> ks_waiting st \<and> ks_verified st))\<rparr>)"
    if "ks_plan st = Some plan"
    using that by (simp add: node [OF keyword_graph_nodes(5) [of env kn, folded g_def]] edge succ fin Let_def)
qed

lemma graph_run_sequential:
  assumes "graph_laws go (keyword_graph env kn)"
  shows "run_graph go env kn p = run_sequential env kn p"
proof -
  note step = graph_run_nodes [OF assms]
  show ?thesis
    by (auto simp: run_graph_def run_sequential_def step graph_start_def kg_node_def kg_point_def kg_at_def
        bind_out_def split: prod.split sum.split)
qed

text \<open>
  C18. The compiled graph and the sequential fallback do the same. Whatever runner executes the
  graph by LangGraph's rules, a task run through it has the result, the exception, the task and the
  state that \<open>_run_sequential\<close> gives; in particular a task that comes to wait for an approval is
  answered without verification on both ways.
\<close>

theorem graph_equals_sequential:
  assumes "graph_laws go (keyword_graph env kn)"
  shows "run_graph go env kn p = run_sequential env kn p"
  by (rule graph_run_sequential) (rule assms)

end
