(* ===== verification/Approval_Resume.thy ===== *)
theory Approval_Resume
  imports Graph_Runtime Multitool_Pipeline
begin

text \<open>
  \<open>ApprovalResumeService\<close> (\<open>app/services/approval_resume.py\<close>): runs what an approved request was made
  for, from its stored payload: one keyword tool, the rest of a multi-tool plan, or a graph
  checkpoint. The parts of a payload are read at the types the service declares for them (dicts,
  lists of dicts, texts); a part that is missing reads as empty.
\<close>

record 'w resumer =
  rs_lookup :: tool_lookup
  rs_run :: "'w task_call"
  rs_policy :: "policy_engine option"
  rs_trace :: bool
  rs_audit :: bool

definition as_trace :: "'w env \<Rightarrow> 'w resumer \<Rightarrow> string \<Rightarrow> string \<Rightarrow> jdict \<Rightarrow> 'w sys \<Rightarrow> 'w sys" where
  "as_trace env rs tid etype detail s = sys_trace_if (rs_trace rs \<and> tid \<noteq> []) env etype tid detail s"

text \<open>\<open>AuditEvent\<close> declares its reason a text: an event with another true reason is dropped.\<close>

definition reason_of :: "json \<Rightarrow> string option" where
  "reason_of v = (case v of JStr e \<Rightarrow> if e = [] then None else Some e | _ \<Rightarrow> None)"

definition reason_valid :: "json \<Rightarrow> bool" where
  "reason_valid v = (case v of JStr e \<Rightarrow> True | _ \<Rightarrow> \<not> truthy v)"

definition error_entry :: "json \<Rightarrow> jdict" where
  "error_entry err = (if truthy err then [(''error'', err)] else [])"

subsection \<open>Keyword\<close>

definition resume_keyword ::
  "'w env \<Rightarrow> 'w resumer \<Rightarrow> string \<Rightarrow> string \<Rightarrow> jdict \<Rightarrow> 'w sys \<Rightarrow> jdict \<times> 'w sys"
where
  "resume_keyword env rs aid tid payload s =
     (let tool = or_str (dget payload ''tool_name'');
          args = or_dict (dget payload ''arguments'');
          s1 = as_trace env rs tid ''approval_resume_tool_called''
                 [(''approval_id'', JStr aid), (''tool_name'', JStr tool), (''mode'', JStr ''keyword'')] s
      in case rs_run rs tool args [] s1 of
           (Inr r, s2) \<Rightarrow>
             (let ok = cr_success r;
                  res = [(''resumed_from_approval'', JBool True), (''approval_id'', JStr aid),
                         (''tool_called'', JStr tool), (''data'', cr_result r), (''success'', JBool ok),
                         (''approved_step_executed'', JBool True), (''approval_consumed'', JBool ok)] @
                        error_entry (cr_error r);
                  s3 = update_task_status env tid (if ok then TCompleted else TFailed) (Some res) s2;
                  s4 = as_trace env rs tid ''approval_resume_completed''
                         [(''approval_id'', JStr aid), (''tool_name'', JStr tool), (''success'', JBool ok)] s3;
                  s5 = sys_audit_if (rs_audit rs \<and> reason_valid (cr_error r)) env
                         (audit_proto ''approval_resume_completed'' (Some tid) (Some aid) (Some tool)
                            ''resume_keyword'' (if ok then ''success'' else ''failed'')
                            (reason_of (cr_error r)) None []) s4
              in (res, s5))
         | (Inl e, s2) \<Rightarrow>
             (let res = [(''resumed_from_approval'', JBool True), (''approval_id'', JStr aid),
                         (''tool_called'', JStr tool), (''success'', JBool False), (''error'', JStr e),
                         (''approved_step_executed'', JBool False), (''approval_consumed'', JBool False)];
                  s3 = update_task_status env tid TFailed (Some res) s2;
                  s4 = as_trace env rs tid ''approval_resume_failed''
                         [(''approval_id'', JStr aid), (''error'', JStr e)] s3;
                  s5 = sys_audit_if (rs_audit rs) env
                         (audit_proto ''approval_resume_failed'' (Some tid) (Some aid) (Some tool)
                            ''resume_keyword'' ''failed'' (Some e) None []) s4
              in (res, s5)))"

subsection \<open>Variables\<close>

definition rebuild_saved :: "jdict list \<Rightarrow> (string \<times> pyval) list" where
  "rebuild_saved calls =
     foldl (\<lambda>saved tc.
        (let key = or_else (dget tc ''save_as'') (dget tc ''step_id'')
         in if truthy key \<and> truthy (dget tc ''success'') \<and> dget tc ''result'' \<noteq> JNull
            then dput saved (or_str key) (VJson (JObj tc)) else saved)) [] calls"

text \<open>Here an unresolved variable and one whose value is None are the same.\<close>

definition resume_variable :: "'w env \<Rightarrow> (string \<times> pyval) list \<Rightarrow> string \<Rightarrow> json option" where
  "resume_variable env saved path =
     (case resolve_variable env saved path of Some JNull \<Rightarrow> None | x \<Rightarrow> x)"

definition find_save_as :: "jdict list \<Rightarrow> string \<Rightarrow> json" where
  "find_save_as steps sid =
     (case find (\<lambda>st. dget st ''step_id'' = JStr sid) steps of None \<Rightarrow> JNull | Some st \<Rightarrow> dget st ''save_as'')"

subsection \<open>The steps after the approved one\<close>

record rs_state =
  rs_saved :: "(string \<times> pyval) list"
  rs_completed :: "string list"
  rs_calls :: "json list"

datatype rs_outcome = RGo rs_state | RStop jdict | RRaise string

definition resumed_call :: "string \<Rightarrow> string \<Rightarrow> tool_call_record \<Rightarrow> json \<Rightarrow> jdict" where
  "resumed_call sid tool r save_as =
     [(''step_id'', JStr sid), (''tool_name'', JStr tool), (''success'', JBool (cr_success r)),
      (''result'', cr_result r), (''save_as'', save_as)] @ error_entry (cr_error r)"

definition sub_failure :: "string \<Rightarrow> jdict \<Rightarrow> json list \<Rightarrow> jdict \<Rightarrow> jdict" where
  "sub_failure err mid calls post =
     [(''success'', JBool False), (''error'', JStr err)] @ mid @ [(''tool_calls'', JList calls)] @ post"

text \<open>The payload of a further approval: what is left to resume.\<close>

definition sub_payload :: "string \<Rightarrow> string \<Rightarrow> jdict \<Rightarrow> jdict list \<Rightarrow> rs_state \<Rightarrow> jdict" where
  "sub_payload sid tool args steps m =
     [(''mode'', JStr ''multitool''), (''query'', JStr []), (''step_id'', JStr sid),
      (''tool_name'', JStr tool), (''arguments'', JObj args),
      (''plan'', JObj [(''steps'', JList (map JObj steps))]),
      (''completed_step_ids'', jstrs (rs_completed m)), (''tool_calls'', JList (rs_calls m))]"

definition sub_run ::
  "'w env \<Rightarrow> 'w resumer \<Rightarrow> string \<Rightarrow> string \<Rightarrow> jdict \<Rightarrow> rs_state \<Rightarrow> 'w sys \<Rightarrow> rs_outcome \<times> 'w sys"
where
  "sub_run env rs tid aid st m s =
     (let sid = or_str (dget st ''step_id''); tool = or_str (dget st ''tool_name'')
      in case resolve_arguments (resume_variable env (rs_saved m)) (or_dict (dget st ''arguments'')) of
           Inl path \<Rightarrow> (RStop (sub_failure (tx_step_var_failed sid path) [] (rs_calls m) []), s)
         | Inr args \<Rightarrow>
             (let s1 = as_trace env rs tid ''multitool_resume_step_started''
                    [(''approval_id'', JStr aid), (''step_id'', JStr sid), (''tool_name'', JStr tool)] s
              in case rs_run rs tool args [] s1 of
                   (Inl e, s2) \<Rightarrow> (RRaise e, s2)
                 | (Inr r, s2) \<Rightarrow>
                     (let calls = rs_calls m @ [JObj (resumed_call sid tool r (dget st ''save_as''))]
                      in if \<not> cr_success r
                         then (RStop (sub_failure (tx_step_call_failed sid (py_str env (cr_error r))) [] calls []),
                               as_trace env rs tid ''multitool_resume_step_failed''
                                 [(''approval_id'', JStr aid), (''step_id'', JStr sid), (''error'', cr_error r)] s2)
                         else (RGo \<lparr>rs_saved = (if truthy (dget st ''save_as'')
                                       then dput (rs_saved m) (or_str (dget st ''save_as'')) (VRecord r)
                                       else rs_saved m),
                                    rs_completed = List.insert sid (rs_completed m), rs_calls = calls\<rparr>,
                               as_trace env rs tid ''multitool_resume_step_completed''
                                 [(''approval_id'', JStr aid), (''step_id'', JStr sid), (''tool_name'', JStr tool)] s2))))"

definition sub_request_approval ::
  "'w env \<Rightarrow> string \<Rightarrow> jdict list \<Rightarrow> jdict \<Rightarrow> tool_spec \<Rightarrow> string \<Rightarrow> rs_state \<Rightarrow> 'w sys \<Rightarrow> rs_outcome \<times> 'w sys"
where
  "sub_request_approval env tid steps st spec reason m s =
     (let sid = or_str (dget st ''step_id''); tool = or_str (dget st ''tool_name'')
      in case create_approval env tid tool (tx_mt_resume_action sid tool) (sp_risk_level spec)
                (sp_permission_scope spec) reason
                (Some (sub_payload sid tool (or_dict (dget st ''arguments'')) steps m)) s of
           (Inl e, s1) \<Rightarrow> (RRaise e, s1)
         | (Inr row, s1) \<Rightarrow>
             (RStop [(''waiting_approval'', JBool True), (''new_approval_id'', JStr (ar_id row)),
                     (''tool_calls'', JList (rs_calls m))], s1))"

definition sub_step ::
  "'w env \<Rightarrow> 'w resumer \<Rightarrow> string \<Rightarrow> string \<Rightarrow> jdict list \<Rightarrow> jdict \<Rightarrow> rs_state \<Rightarrow> 'w sys \<Rightarrow> rs_outcome \<times> 'w sys"
where
  "sub_step env rs tid aid steps st m s =
     (let sid = or_str (dget st ''step_id''); tool = or_str (dget st ''tool_name'')
      in if sid \<in> set (rs_completed m) then (RGo m, s)
         else case check_depends_on (map or_str (or_list (dget st ''depends_on''))) (rs_completed m) of
           Some missing \<Rightarrow>
             (RStop (sub_failure (tx_step_dep_missing sid (py_str env (jstrs missing)))
                [(''error_type'', JStr ''resume_dependency_not_satisfied''),
                 (''missing_depends_on'', jstrs missing)] (rs_calls m) [(''dependency_error'', JBool True)]),
              as_trace env rs tid ''multitool_resume_step_failed''
                [(''approval_id'', JStr aid), (''step_id'', JStr sid),
                 (''error_type'', JStr ''resume_dependency_not_satisfied''),
                 (''missing_depends_on'', jstrs missing)] s)
         | None \<Rightarrow>
             (case rs_lookup rs tool of
                None \<Rightarrow>
                  (RStop (sub_failure (tx_step_unregistered sid tool)
                     [(''error_type'', JStr ''operation_not_whitelisted'')] (rs_calls m) []),
                   as_trace env rs tid ''operation_whitelist_blocked''
                     [(''approval_id'', JStr aid), (''step_id'', JStr sid), (''tool_name'', JStr tool),
                      (''mode'', JStr ''multitool_resume''), (''reason'', JStr (tx_not_in_gateway tool))] s)
              | Some spec \<Rightarrow>
                  (case rs_policy rs of
                     None \<Rightarrow> sub_run env rs tid aid st m s
                   | Some pe \<Rightarrow>
                       (let d = pe_evaluate pe tool (Some (sp_risk_level spec)) None
                        in if pd_allowed d then sub_run env rs tid aid st m s
                           else if pd_requires_approval d
                           then sub_request_approval env tid steps st spec (pd_reason d) m s
                           else (RStop (sub_failure (tx_step_policy_blocked sid (pd_reason d)) [] (rs_calls m) []), s)))))"

fun sub_loop ::
  "'w env \<Rightarrow> 'w resumer \<Rightarrow> string \<Rightarrow> string \<Rightarrow> jdict list \<Rightarrow> jdict list \<Rightarrow> rs_state \<Rightarrow> 'w sys \<Rightarrow> rs_outcome \<times> 'w sys"
where
  "sub_loop env rs tid aid steps [] m s = (RGo m, s)"
| "sub_loop env rs tid aid steps (st # sts) m s =
     (case sub_step env rs tid aid steps st m s of
        (RGo m', s') \<Rightarrow> sub_loop env rs tid aid steps sts m' s'
      | stop \<Rightarrow> stop)"

definition execute_subsequent_steps ::
  "'w env \<Rightarrow> 'w resumer \<Rightarrow> string \<Rightarrow> string \<Rightarrow> jdict list \<Rightarrow> rs_state \<Rightarrow> 'w sys \<Rightarrow> (string + jdict) \<times> 'w sys"
where
  "execute_subsequent_steps env rs tid aid steps m s =
     (case sub_loop env rs tid aid steps steps m s of
        (RGo m', s') \<Rightarrow> (Inr [(''success'', JBool True), (''tool_calls'', JList (rs_calls m'))], s')
      | (RStop d, s') \<Rightarrow> (Inr d, s')
      | (RRaise e, s') \<Rightarrow> (Inl e, s'))"

subsection \<open>Multi-tool\<close>

definition mt_resume_head :: "string \<Rightarrow> string \<Rightarrow> bool \<Rightarrow> jdict" where
  "mt_resume_head aid sid ok =
     [(''mode'', JStr ''multitool''), (''resumed_from_approval'', JBool True), (''approval_id'', JStr aid),
      (''resumed_step_id'', JStr sid), (''success'', JBool ok)]"

definition mt_resume_tail :: "bool \<Rightarrow> bool \<Rightarrow> jdict" where
  "mt_resume_tail executed consumed =
     [(''approved_step_executed'', JBool executed), (''approval_consumed'', JBool consumed)]"

text \<open>After the approved step has succeeded: the remaining steps and the final result.\<close>

definition mt_resume_rest ::
  "'w env \<Rightarrow> 'w resumer \<Rightarrow> string \<Rightarrow> string \<Rightarrow> string \<Rightarrow> string \<Rightarrow> jdict list \<Rightarrow> rs_state \<Rightarrow> 'w sys \<Rightarrow>
     (string + jdict) \<times> 'w sys"
where
  "mt_resume_rest env rs aid tid sid tool steps m s =
     bind_out (execute_subsequent_steps env rs tid aid steps m s) (\<lambda>sub s1.
       if truthy (dget sub ''waiting_approval'')
       then (let res = mt_resume_head aid sid False @
                   [(''waiting_approval'', JBool True), (''new_approval_id'', dget sub ''new_approval_id''),
                    (''tool_calls'', dget_or sub ''tool_calls'' (JList (rs_calls m)))] @
                   mt_resume_tail True True @ [(''resume_status'', JStr ''waiting_approval'')];
                 s2 = update_task_status env tid TWaitingApproval (Some res) s1
             in (Inr res, as_trace env rs tid ''multitool_resume_waiting_approval''
                   [(''approval_id'', JStr aid), (''new_approval_id'', dget sub ''new_approval_id'')] s2))
       else (let ok = truthy (dget_or sub ''success'' (JBool True));
                 failed = truthy (dget sub ''dependency_error'') \<or> \<not> ok;
                 rstatus = (if failed then ''downstream_failed'' else ''completed'');
                 res = mt_resume_head aid sid ok @
                   [(''tool_calls'', dget_or sub ''tool_calls'' (JList (rs_calls m)))] @
                   mt_resume_tail True True @ [(''resume_status'', JStr rstatus)] @
                   (if \<not> ok then error_entry (dget sub ''error'') else []) @
                   (if truthy (dget sub ''error_type'') then [(''error_type'', dget sub ''error_type'')] else []) @
                   (if truthy (dget sub ''missing_depends_on'')
                    then [(''missing_depends_on'', dget sub ''missing_depends_on'')] else []);
                 s2 = update_task_status env tid (if failed then TFailed else TCompleted) (Some res) s1;
                 s3 = as_trace env rs tid ''multitool_resume_completed''
                        [(''approval_id'', JStr aid), (''success'', JBool ok)] s2
             in (Inr res, sys_audit_if (rs_audit rs) env
                   (audit_proto ''approval_resume_completed'' (Some tid) (Some aid) (Some tool)
                      ''resume_multitool'' (if ok then ''success'' else ''failed'')
                      (reason_of (dget res ''error'')) None [(''resume_status'', JStr rstatus)]) s3)))"

definition payload_steps :: "jdict \<Rightarrow> jdict list" where
  "payload_steps payload = map or_dict (or_list (dget (or_dict (dget payload ''plan'')) ''steps''))"

definition resume_multitool ::
  "'w env \<Rightarrow> 'w resumer \<Rightarrow> string \<Rightarrow> string \<Rightarrow> jdict \<Rightarrow> 'w sys \<Rightarrow> (string + jdict) \<times> 'w sys"
where
  "resume_multitool env rs aid tid payload s =
     (let steps = payload_steps payload;
          sid = or_str (dget payload ''step_id'');
          tool = or_str (dget payload ''tool_name'');
          done_calls = or_list (dget payload ''tool_calls'');
          saved = rebuild_saved (map or_dict done_calls);
          s1 = as_trace env rs tid ''multitool_resume_started''
                 [(''approval_id'', JStr aid), (''step_id'', JStr sid)] s
      in case resolve_arguments (resume_variable env saved) (or_dict (dget payload ''arguments'')) of
           Inl path \<Rightarrow>
             (Inr (mt_resume_head aid sid False @
                [(''error_type'', JStr ''resume_variable_resolution_failed''), (''error_path'', JStr path)] @
                mt_resume_tail False False),
              as_trace env rs tid ''approval_resume_failed''
                [(''approval_id'', JStr aid), (''error'', JStr (tx_var_failed path))] s1)
         | Inr args \<Rightarrow>
             (let s2 = as_trace env rs tid ''multitool_resume_step_started''
                    [(''approval_id'', JStr aid), (''step_id'', JStr sid), (''tool_name'', JStr tool)] s1
              in case rs_run rs tool args [] s2 of
                   (Inl e, s3) \<Rightarrow>
                     (let res = mt_resume_head aid sid False @ [(''error'', JStr e)] @ mt_resume_tail False False
                      in (Inr res, as_trace env rs tid ''multitool_resume_step_failed''
                            [(''approval_id'', JStr aid), (''step_id'', JStr sid), (''error'', JStr e)]
                            (update_task_status env tid TFailed (Some res) s3)))
                 | (Inr r, s3) \<Rightarrow>
                     (let save_as = find_save_as steps sid;
                          calls = done_calls @ [JObj (resumed_call sid tool r save_as)]
                      in if \<not> cr_success r
                         then (let res = mt_resume_head aid sid False @
                                     [(''error'', cr_error r), (''tool_calls'', JList calls)] @
                                     mt_resume_tail True False
                               in (Inr res, as_trace env rs tid ''multitool_resume_step_failed''
                                     [(''approval_id'', JStr aid), (''step_id'', JStr sid), (''error'', cr_error r)]
                                     (update_task_status env tid TFailed (Some res) s3)))
                         else mt_resume_rest env rs aid tid sid tool steps
                                \<lparr>rs_saved = (if truthy save_as then dput saved (or_str save_as) (VRecord r) else saved),
                                 rs_completed = List.insert sid
                                   (map or_str (or_list (dget payload ''completed_step_ids''))),
                                 rs_calls = calls\<rparr>
                                (as_trace env rs tid ''multitool_resume_step_completed''
                                   [(''approval_id'', JStr aid), (''step_id'', JStr sid), (''tool_name'', JStr tool)] s3))))"

subsection \<open>The entry point\<close>

definition integrity_steps :: "jdict \<Rightarrow> jdict list option" where
  "integrity_steps payload =
     (if dget payload ''mode'' = JStr ''multitool''
      then (case dget (or_dict (dget payload ''plan'')) ''steps'' of
              JList xs \<Rightarrow> Some (map or_dict xs) | _ \<Rightarrow> None)
      else None)"

text \<open>Filing the result in the approval's payload.\<close>

definition file_result :: "string \<Rightarrow> jdict \<Rightarrow> 'w sys \<Rightarrow> 'w sys" where
  "file_result aid res s =
     (if truthy (dget res ''approval_consumed'')
      then update_payload aid
             [(''resumed'', JBool True), (''resume_status'', dget_or res ''resume_status'' (JStr ''completed'')),
              (''resume_result'', JObj res), (''approval_consumed'', JBool True)] s
      else let cur = (case ap_get aid (sy_approvals s) of None \<Rightarrow> [] | Some r \<Rightarrow> payload_of r);
               n = (case dget cur ''resume_attempt_count'' of JInt i \<Rightarrow> i | _ \<Rightarrow> 0)
           in update_payload aid
                [(''resume_status'', JStr ''failed''), (''last_resume_result'', JObj res),
                 (''last_resume_error'', dget_or res ''error'' (JStr [])),
                 (''resume_attempt_count'', JInt (n + 1))] s)"

definition resume_mode ::
  "'w env \<Rightarrow> 'w resumer \<Rightarrow> string \<Rightarrow> approval_row \<Rightarrow> 'w sys \<Rightarrow> (string + jdict) \<times> 'w sys"
where
  "resume_mode env rs aid row s =
     (let payload = payload_of row; mode = or_str (dget payload ''mode'')
      in if mode = ''keyword''
         then (case resume_keyword env rs aid (ar_task_id row) payload s of (res, s') \<Rightarrow> (Inr res, s'))
         else if mode = ''multitool'' then resume_multitool env rs aid (ar_task_id row) payload s
         else (Inr [(''resumed'', JBool False), (''error'', JStr (tx_resume_mode_unsupported mode)),
                 (''approval_id'', JStr aid)], s))"

definition resume ::
  "'w env \<Rightarrow> 'w resumer \<Rightarrow> string \<Rightarrow> 'w sys \<Rightarrow> (string + jdict) \<times> 'w sys"
where
  "resume env rs aid s =
     (case ap_get aid (sy_approvals s) of
        None \<Rightarrow> (Inr [(''error'', JStr (tx_approval_missing aid)), (''resumed'', JBool False)], s)
      | Some row \<Rightarrow>
          if ar_status row \<noteq> AApproved
          then (Inr [(''error'', JStr (tx_approval_not_approved (approval_status_value (ar_status row)))),
                  (''resumed'', JBool False)], s)
          else let payload = payload_of row; tid = ar_task_id row
          in if truthy (dget payload ''resumed'')
             then (Inr [(''already_resumed'', JBool True), (''approval_id'', JStr aid), (''task_id'', JStr tid),
                     (''resume_result'', dget payload ''resume_result'')], s)
             else
               (let mode = dget_or payload ''mode'' (JStr []);
                    s1 = as_trace env rs tid ''approval_resume_started''
                           [(''approval_id'', JStr aid), (''mode'', mode)] s;
                    s2 = sys_audit_if (rs_audit rs) env
                           (audit_proto ''approval_resume_started'' (Some tid) (Some aid) None ''resume''
                              ''success'' None None [(''mode'', mode)]) s1
                in if mode = JStr ''graph_keyword''
                   then if \<not> truthy (dget payload ''checkpoint_id'')
                        then (Inr [(''resumed'', JBool False),
                                (''error'', JStr ''graph_keyword approval missing checkpoint_id''),
                                (''error_type'', JStr ''missing_checkpoint_id''),
                                (''approval_id'', JStr aid)], s2)
                        else (case graph_resume env
                                 \<lparr>gs_run = rs_run rs, gs_trace = rs_trace rs, gs_audit = rs_audit rs\<rparr> aid row s2
                               of (res, s3) \<Rightarrow> (Inr res, s3))
                   else
                     (let d = wl_check_payload_integrity payload (ar_tool_name row) (integrity_steps payload)
                      in if \<not> od_allowed d
                         then (Inr [(''resumed'', JBool False), (''error'', JStr (od_reason d)),
                                 (''error_type'', JStr ''approval_payload_tampered''),
                                 (''approval_id'', JStr aid), (''approval_consumed'', JBool False)],
                               sys_audit_if (rs_audit rs) env
                                 (audit_proto ''approval_payload_tampered'' (Some tid) (Some aid) None ''resume''
                                    ''blocked'' (Some (od_reason d)) (Some ''critical'')
                                    [(''operation'', JStr (od_operation d)),
                                     (''error_type'', JStr ''approval_payload_tampered'')])
                                 (as_trace env rs tid ''approval_payload_tampered''
                                    [(''approval_id'', JStr aid), (''reason'', JStr (od_reason d)),
                                     (''operation'', JStr (od_operation d)),
                                     (''error_type'', JStr ''approval_payload_tampered'')] s2))
                         else bind_out (resume_mode env rs aid row s2)
                                (\<lambda>res s3. (Inr res, file_result aid res s3)))))"

subsection \<open>When a resumption does anything\<close>

text \<open>
  Only an approved request that has not been resumed is resumed: in every other case the state
  is left as it was, no event recorded and no tool called.
\<close>

lemma resume_only_when_approved:
  assumes "snd (resume env rs aid s) \<noteq> s"
  shows "\<exists>row. ap_get aid (sy_approvals s) = Some row \<and> ar_status row = AApproved \<and>
     \<not> truthy (dget (payload_of row) ''resumed'')"
  using assms by (auto simp: resume_def Let_def split: option.splits if_splits)

definition demo_approved :: "string \<Rightarrow> jdict \<Rightarrow> nat sys" where
  "demo_approved tool payload = (sys_init 0)\<lparr>sy_approvals :=
     [demo_approval\<lparr>ar_status := AApproved, ar_tool_name := tool, ar_payload := Some payload\<rparr>],
     sy_ckpts := [demo_ckpt]\<rparr>"

definition demo_resumer :: "nat resumer" where
  "demo_resumer = \<lparr>rs_lookup = gw_get_tool promo_gateway,
     rs_run = (\<lambda>t a tid s. (Inr (new_call_record ''c1'' t a []), s)),
     rs_policy = Some (runtime_policy promo_gateway), rs_trace = True, rs_audit = True\<rparr>"

definition rule_payload :: jdict where
  "rule_payload = [(''mode'', JStr ''keyword''), (''tool_name'', JStr ''rule_lookup''), (''arguments'', JObj [])]"

lemma demo_approved_get:
  "ap_get ''apr_1'' (sy_approvals (demo_approved tool payload)) =
     Some (demo_approval\<lparr>ar_status := AApproved, ar_tool_name := tool, ar_payload := Some payload\<rparr>)"
  by (simp add: demo_approved_def ap_get_def demo_approval_def)

subsection \<open>Stored approvals are kept\<close>

definition keeps :: "'w sys \<Rightarrow> 'w sys \<Rightarrow> bool" where
  "keeps s s' \<longleftrightarrow> (\<forall>k r. ap_get k (sy_approvals s) = Some r \<longrightarrow> ap_get k (sy_approvals s') = Some r)"

lemma keeps_refl [simp, intro]: "keeps s s"
  by (simp add: keeps_def)

lemma keeps_trans [trans]: "keeps s t \<Longrightarrow> keeps t u \<Longrightarrow> keeps s u"
  by (simp add: keeps_def)

lemma keeps_same: "sy_approvals s' = sy_approvals s \<Longrightarrow> keeps s s'"
  by (simp add: keeps_def)

lemma as_trace_frame [frame, simp]:
  "sy_approvals (as_trace env rs tid e d s) = sy_approvals s"
  "sy_ckpts (as_trace env rs tid e d s) = sy_ckpts s"
  by (simp_all add: as_trace_def)

lemma sub_request_approval_keeps: "keeps s (snd (sub_request_approval env tid steps st spec reason m s))"
proof -
  have "keeps s (snd (create_approval env tid tool action risk scope reason p s))" for tool action risk scope p
    by (simp add: keeps_def create_approval_keeps)
  then show ?thesis
    by (simp add: sub_request_approval_def Let_def split: prod.split sum.split) (metis snd_conv)
qed

locale quiet_resumer =
  fixes rs :: "'w resumer"
  assumes run_approvals: "sy_approvals (snd (rs_run rs t a tid s)) = sy_approvals s"
begin

lemma run_out: "rs_run rs t a tid s = (out, s') \<Longrightarrow> sy_approvals s' = sy_approvals s"
  using run_approvals [of t a tid s] by simp

lemma sub_run_quiet:
  "sy_approvals (snd (sub_run env rs tid aid st m s)) = sy_approvals s"
  by (auto simp: sub_run_def Let_def dest: run_out split: sum.split prod.split)

lemma sub_step_keeps:
  "keeps s (snd (sub_step env rs tid aid steps st m s))"
  by (simp add: sub_step_def Let_def keeps_same sub_run_quiet sub_request_approval_keeps split: option.split)

lemma sub_loop_keeps:
  "keeps s (snd (sub_loop env rs tid aid steps sts m s))"
proof (induction sts arbitrary: m s)
  case (Cons st sts)
  obtain out s1 where step: "sub_step env rs tid aid steps st m s = (out, s1)"
    by (cases "sub_step env rs tid aid steps st m s")
  have "keeps s s1" using sub_step_keeps [of s env tid aid steps st m] step by simp
  then show ?case
    using Cons.IH [of s1] step by (cases out) (auto intro: keeps_trans)
qed simp

lemma execute_subsequent_keeps:
  "keeps s (snd (execute_subsequent_steps env rs tid aid steps m s))"
  using sub_loop_keeps [of s env tid aid steps steps m]
  by (auto simp: execute_subsequent_steps_def split: prod.split rs_outcome.split)

lemma mt_resume_rest_keeps:
  "keeps s (snd (mt_resume_rest env rs aid tid sid tool steps m s))"
  using execute_subsequent_keeps [of s env tid aid steps m]
  by (cases "execute_subsequent_steps env rs tid aid steps m s"; cases "fst (execute_subsequent_steps env rs tid aid steps m s)")
     (auto simp: mt_resume_rest_def Let_def keeps_def)

lemma resume_multitool_keeps:
  "keeps s (snd (resume_multitool env rs aid tid payload s))"
  by (auto simp: resume_multitool_def Let_def keeps_same dest!: run_out
      intro!: keeps_trans [OF keeps_same mt_resume_rest_keeps] split: sum.split prod.split)

lemma resume_keyword_keeps:
  "keeps s (snd (resume_keyword env rs aid tid payload s))"
  by (auto simp: resume_keyword_def Let_def keeps_same dest!: run_out split: sum.split prod.split)

lemma resume_mode_keeps:
  "keeps s (snd (resume_mode env rs aid row s))"
  using resume_keyword_keeps [of s env aid "ar_task_id row" "payload_of row"]
  by (auto simp: resume_mode_def Let_def resume_multitool_keeps split: prod.split)

end

text \<open>The service the runtime builds over a gateway; its calls leave the stores alone.\<close>

definition runtime_resumer :: "'w env \<Rightarrow> 'w gateway \<Rightarrow> 'w resumer" where
  "runtime_resumer env g =
     \<lparr>rs_lookup = gw_get_tool g,
      rs_run = (\<lambda>t a tid s. (case gw_call env g t a tid s of (r, s') \<Rightarrow> (Inr r, s'))),
      rs_policy = Some (runtime_policy g), rs_trace = True, rs_audit = True\<rparr>"

interpretation runtime: quiet_resumer "runtime_resumer env g" for env :: "'w env" and g
  by unfold_locales (simp add: runtime_resumer_def case_prod_unfold)

subsection \<open>An approval is consumed once\<close>

definition marked_row :: "approval_row \<Rightarrow> json \<Rightarrow> jdict \<Rightarrow> approval_row" where
  "marked_row row st res =
     row\<lparr>ar_payload := Some (dupd (payload_of row) [(''resumed'', JBool True), (''resume_status'', st),
       (''resume_result'', JObj res), (''approval_consumed'', JBool True)])\<rparr>"

lemma marked_row_simps [simp]:
  "ar_status (marked_row row st res) = ar_status row"
  "ar_task_id (marked_row row st res) = ar_task_id row"
  "dget (payload_of (marked_row row st res)) ''resumed'' = JBool True"
  "dget (payload_of (marked_row row st res)) ''resume_result'' = JObj res"
  by (simp_all add: marked_row_def payload_of_def dget_dupd)

lemma file_result_get:
  "truthy (dget res ''approval_consumed'') \<Longrightarrow> ap_get aid (sy_approvals s) = Some row \<Longrightarrow>
     \<exists>st. ap_get aid (sy_approvals (file_result aid res s)) = Some (marked_row row st res)"
  by (auto simp: file_result_def update_payload_def ap_get_update_payload marked_row_def)

lemma gs_execute_files:
  assumes "\<And>t a tid s. sy_approvals (snd (gs_run gs t a tid s)) = sy_approvals s"
    and "ap_get aid (sy_approvals s) = Some row"
  shows "ap_get aid (sy_approvals (snd (gs_execute env gs aid r cid claimed s))) =
     Some (marked_row row (dget (fst (gs_execute env gs aid r cid claimed s)) ''resume_status'')
       (fst (gs_execute env gs aid r cid claimed s)))"
  using assms
  by (simp add: gs_execute_def unlet update_payload_def ap_get_update_payload marked_row_def)

lemma graph_resume_files:
  assumes "graph_resume env gs aid row s = (res, s')" and "truthy (dget res ''approval_consumed'')"
    and "ap_get aid (sy_approvals s) = Some row"
    and "\<And>t a tid s. sy_approvals (snd (gs_run gs t a tid s)) = sy_approvals s"
  shows "\<exists>st. ap_get aid (sy_approvals s') = Some (marked_row row st res)"
proof -
  have fail: "\<not> truthy (dget (gs_handle_claim_failed aid cid rows) ''approval_consumed'')" for cid rows
    by (simp add: gs_handle_claim_failed_def gs_failure_def gs_already_def split: option.split)
  obtain cid claimed rows where "gs_execute env gs aid row cid claimed (s\<lparr>sy_ckpts := rows\<rparr>) = (res, s')"
    using assms(1,2) fail
    by (auto simp: graph_resume_def gs_already_def Let_def split: if_splits prod.splits option.splits)
  then show ?thesis
    using gs_execute_files [where s = "s\<lparr>sy_ckpts := rows\<rparr>" and gs = gs and env = env, OF assms(4), of aid row row cid claimed]
      assms(3) by auto
qed

lemma resume_files:
  assumes "resume env rs aid s = (Inr res, s')" and cons: "truthy (dget res ''approval_consumed'')"
    and quiet: "\<And>t a tid s. sy_approvals (snd (rs_run rs t a tid s)) = sy_approvals s"
  shows "\<exists>row st. ar_status row = AApproved \<and> ap_get aid (sy_approvals s') = Some (marked_row row st res)"
proof -
  have keep: "keeps t (snd (resume_mode env rs aid row t))" for row t
    using quiet_resumer.resume_mode_keeps [OF quiet_resumer.intro] quiet by blast
  obtain row where row: "ap_get aid (sy_approvals s) = Some row" "ar_status row = AApproved"
    using assms(1,2) by (auto simp: resume_def split: option.splits if_splits)
  obtain t where t: "sy_approvals t = sy_approvals s"
    and cases: "graph_resume env \<lparr>gs_run = rs_run rs, gs_trace = rs_trace rs, gs_audit = rs_audit rs\<rparr> aid row t = (res, s') \<or>
      bind_out (resume_mode env rs aid row t) (\<lambda>res s3. (Inr res, file_result aid res s3)) = (Inr res, s')"
  proof -
    let ?t = "sys_audit_if (rs_audit rs) env
       (audit_proto ''approval_resume_started'' (Some (ar_task_id row)) (Some aid) None ''resume''
          ''success'' None None [(''mode'', dget_or (payload_of row) ''mode'' (JStr []))])
       (as_trace env rs (ar_task_id row) ''approval_resume_started''
          [(''approval_id'', JStr aid), (''mode'', dget_or (payload_of row) ''mode'' (JStr []))] s)"
    show ?thesis
      using assms(1,2) row
      by (intro that [of ?t]) (auto simp: resume_def Let_def split: if_splits prod.splits)
  qed
  from cases show ?thesis
  proof
    assume "graph_resume env \<lparr>gs_run = rs_run rs, gs_trace = rs_trace rs, gs_audit = rs_audit rs\<rparr> aid row t = (res, s')"
    from graph_resume_files [OF this cons] row t quiet show ?thesis by auto
  next
    assume "bind_out (resume_mode env rs aid row t) (\<lambda>res s3. (Inr res, file_result aid res s3)) = (Inr res, s')"
    then obtain t' where "resume_mode env rs aid row t = (Inr res, t')" "s' = file_result aid res t'"
      by (auto simp: bind_out_Inr)
    moreover from this keep [of t row] row t have "ap_get aid (sy_approvals t') = Some row"
      by (simp add: keeps_def)
    ultimately show ?thesis using file_result_get [OF cons] row(2) by blast
  qed
qed

text \<open>
  C5. An approval is consumed once. When a resumption reports the approval consumed, the next one,
  by any service over the same stores, answers with the filed result and changes nothing.
\<close>

theorem resume_consumed_once:
  assumes "resume env rs aid s = (Inr res, s')" and "truthy (dget res ''approval_consumed'')"
    and "\<And>t a tid s. sy_approvals (snd (rs_run rs t a tid s)) = sy_approvals s"
  shows "\<exists>tid. resume env' rs' aid s' =
     (Inr [(''already_resumed'', JBool True), (''approval_id'', JStr aid), (''task_id'', JStr tid),
           (''resume_result'', JObj res)], s')"
proof -
  obtain row st where "ar_status row = AApproved" "ap_get aid (sy_approvals s') = Some (marked_row row st res)"
    using resume_files [OF assms] by blast
  then show ?thesis by (simp add: resume_def Let_def)
qed

definition is_consumed :: "string + jdict \<Rightarrow> bool" where
  "is_consumed out = (case out of Inr res \<Rightarrow> truthy (dget res ''approval_consumed'') | Inl _ \<Rightarrow> False)"

theorem resume_consumed_once_witness:
  "let s1 = snd (resume demo_env demo_resumer ''apr_1'' (demo_approved ''rule_lookup'' rule_payload))
   in snd (resume demo_env demo_resumer ''apr_1'' s1) = s1"
proof -
  let ?out = "resume demo_env demo_resumer ''apr_1'' (demo_approved ''rule_lookup'' rule_payload)"
  have "is_consumed (fst ?out)" by code_simp
  then obtain res s' where out: "?out = (Inr res, s')" "truthy (dget res ''approval_consumed'')"
    by (cases ?out) (auto simp: is_consumed_def split: sum.splits)
  have "sy_approvals (snd (rs_run demo_resumer t a tid s)) = sy_approvals s" for t a tid s
    by (simp add: demo_resumer_def)
  from resume_consumed_once [OF out this, of demo_env demo_resumer] show ?thesis
    by (auto simp: out(1))
qed

subsection \<open>What a resumption may run\<close>

text \<open>The tools of later steps: registered, and allowed by the policy at their own risk.\<close>

definition rs_allows :: "'w resumer \<Rightarrow> string \<Rightarrow> bool" where
  "rs_allows rs t \<longleftrightarrow>
     (case rs_lookup rs t of None \<Rightarrow> False
      | Some spec \<Rightarrow>
          (case rs_policy rs of None \<Rightarrow> True
           | Some pe \<Rightarrow> pd_allowed (pe_evaluate pe t (Some (sp_risk_level spec)) None)))"

lemma as_trace_upd [simp]: "as_trace env (rs\<lparr>rs_run := f\<rparr>) = as_trace env rs"
  by (simp add: as_trace_def fun_eq_iff)

lemma sub_run_cong:
  "(\<And>a tid s. rs_run rs (or_str (dget st ''tool_name'')) a tid s = f (or_str (dget st ''tool_name'')) a tid s) \<Longrightarrow>
     sub_run env (rs\<lparr>rs_run := f\<rparr>) tid aid st m s = sub_run env rs tid aid st m s"
  by (simp add: sub_run_def Let_def cong: sum.case_cong prod.case_cong if_cong)

lemma sub_step_cong:
  assumes "\<And>t a tid s. rs_allows rs t \<Longrightarrow> rs_run rs t a tid s = f t a tid s"
  shows "sub_step env (rs\<lparr>rs_run := f\<rparr>) tid aid steps st m s = sub_step env rs tid aid steps st m s"
proof (cases "rs_allows rs (or_str (dget st ''tool_name''))")
  case True
  have "sub_run env (rs\<lparr>rs_run := f\<rparr>) tid aid st m s = sub_run env rs tid aid st m s"
    by (rule sub_run_cong) (rule assms [OF True])
  then show ?thesis by (simp add: sub_step_def Let_def cong: option.case_cong if_cong)
next
  case False
  then show ?thesis
    by (auto simp: sub_step_def sub_request_approval_def rs_allows_def Let_def cong: option.case_cong split: option.split_asm option.split)
qed

lemma execute_subsequent_cong:
  assumes "\<And>t a tid s. rs_allows rs t \<Longrightarrow> rs_run rs t a tid s = f t a tid s"
  shows "execute_subsequent_steps env (rs\<lparr>rs_run := f\<rparr>) tid aid steps m s =
         execute_subsequent_steps env rs tid aid steps m s"
proof -
  have "sub_loop env (rs\<lparr>rs_run := f\<rparr>) tid aid steps sts m s = sub_loop env rs tid aid steps sts m s" for sts m s
    by (induction sts arbitrary: m s)
       (simp_all add: sub_step_cong [OF assms] cong: prod.case_cong rs_outcome.case_cong)
  then show ?thesis by (simp add: execute_subsequent_steps_def)
qed

lemma resume_mode_cong:
  assumes "\<And>t a tid s. rs_allows rs t \<Longrightarrow> rs_run rs t a tid s = f t a tid s"
    and "\<And>a tid s. rs_run rs (or_str (dget (payload_of row) ''tool_name'')) a tid s =
      f (or_str (dget (payload_of row) ''tool_name'')) a tid s"
  shows "resume_mode env (rs\<lparr>rs_run := f\<rparr>) aid row s = resume_mode env rs aid row s"
proof -
  have "mt_resume_rest env (rs\<lparr>rs_run := f\<rparr>) aid tid sid tool steps m s =
      mt_resume_rest env rs aid tid sid tool steps m s" for tid sid tool steps m s
    by (simp add: mt_resume_rest_def execute_subsequent_cong [OF assms(1)] Let_def cong: if_cong)
  then show ?thesis
    by (simp add: resume_mode_def resume_keyword_def resume_multitool_def assms(2) Let_def
        cong: sum.case_cong prod.case_cong if_cong)
qed

lemma integrity_tool:
  "od_allowed (wl_check_payload_integrity payload approved steps) \<Longrightarrow>
     or_str (dget payload ''tool_name'') \<in> {approved, []}"
  by (auto simp: wl_check_payload_integrity_def Let_def or_str_def dget_or_truthy
      split: if_splits json.splits)

text \<open>
  C4. Outside the graph mode, a resumption calls the approved tool and tools the policy allows, and
  nothing else, whatever the stored payload says: two ways of calling tools that agree on those
  (and on the empty name, which no tool has) give the same answer and the same state.
\<close>

theorem resume_runs_only_approved:
  assumes "\<And>row. ap_get aid (sy_approvals s) = Some row \<Longrightarrow>
      dget (payload_of row) ''mode'' \<noteq> JStr ''graph_keyword''"
    and "\<And>row a tid s'. ap_get aid (sy_approvals s) = Some row \<Longrightarrow>
      rs_run rs (ar_tool_name row) a tid s' = f (ar_tool_name row) a tid s'"
    and "\<And>a tid s'. rs_run rs [] a tid s' = f [] a tid s'"
    and "\<And>t a tid s'. rs_allows rs t \<Longrightarrow> rs_run rs t a tid s' = f t a tid s'"
  shows "resume env (rs\<lparr>rs_run := f\<rparr>) aid s = resume env rs aid s"
proof (cases "ap_get aid (sy_approvals s)")
  case None
  then show ?thesis by (simp add: resume_def)
next
  case (Some row)
  note mode = assms(1) [OF Some]
  have gk: "dget_or (payload_of row) ''mode'' (JStr []) \<noteq> JStr ''graph_keyword''"
    using mode by (simp add: dget_def dget_or_def split: option.splits)
  show ?thesis
  proof (cases "od_allowed (wl_check_payload_integrity (payload_of row) (ar_tool_name row) (integrity_steps (payload_of row)))")
    case True
    have "resume_mode env (rs\<lparr>rs_run := f\<rparr>) aid row t = resume_mode env rs aid row t" for t
      using integrity_tool [OF True] assms(2) [OF Some] assms(3)
      by (intro resume_mode_cong) (auto intro: assms(4))
    with Some gk show ?thesis by (simp add: resume_def Let_def cong: if_cong)
  next
    case False
    with Some gk show ?thesis by (simp add: resume_def Let_def cong: if_cong)
  qed
qed

theorem resume_runs_only_approved_witness:
  "resume demo_env (demo_resumer\<lparr>rs_run := (\<lambda>t a tid s. if t \<in> {[], ''rule_lookup''} then rs_run demo_resumer t a tid s
       else (Inl ''never called'', s))\<rparr>) ''apr_1'' (demo_approved ''rule_lookup'' rule_payload) =
   resume demo_env demo_resumer ''apr_1'' (demo_approved ''rule_lookup'' rule_payload)"
  by (rule resume_runs_only_approved)
     (auto simp: demo_approved_get payload_of_def rule_payload_def rs_allows_def demo_resumer_def
        promo_gateway_tools runtime_policy_cases refund_spec_def split: if_splits)

text \<open>
  The graph mode skips the integrity check: it runs the tool its payload's interrupt names, not
  the tool the approval was given for.
\<close>

lemma graph_resume_trusts_payload:
  assumes "ap_get aid (sy_approvals s) = Some row" and "ar_status row = AApproved"
    and "\<not> truthy (dget (payload_of row) ''resumed'')"
    and "dget (payload_of row) ''mode'' = JStr ''graph_keyword''"
    and "dget (payload_of row) ''checkpoint_id'' = JStr cid" and "cid \<noteq> []"
    and "dget (payload_of row) ''interrupt_payload'' = JObj ip"
    and "dget ip ''tool_name'' = JStr t" and "t \<noteq> []"
    and "ckpts_ok (sy_ckpts s)" and "ck_get cid (sy_ckpts s) = Some c" and "\<And>now. claimable cid aid now c"
  shows "\<exists>res s'. resume env rs aid s = (Inr res, s') \<and> dget res ''tool_called'' = JStr t"
proof -
  have mode: "dget_or (payload_of row) ''mode'' (JStr []) = JStr ''graph_keyword''"
    using assms(4) by (simp add: dget_def dget_or_def split: option.splits)
  have ip: "ip \<noteq> []" using assms(8) by auto
  have tool: "fst (gs_tool (payload_of row) row x) = t" for x
    using assms(7-9) ip by (simp add: gs_tool_def or_else_def Let_def)
  have called: "dget (fst (gs_execute env gs aid row cid x u)) ''tool_called'' = JStr t" for gs x u
    by (simp add: gs_execute_def unlet tool gs_build_result_def split: sum.split)
  have won: "\<exists>rows. ck_claim_for_resume cid aid now (sy_ckpts s) = (Some (claimed_row now c), rows)" for now
    using ck_claim_result [OF assms(10), of cid aid now] assms(11,12) by (cases "ck_claim_for_resume cid aid now (sy_ckpts s)") simp
  have "dget (fst (graph_resume env gs aid row u)) ''tool_called'' = JStr t" if "sy_ckpts u = sy_ckpts s" for gs u
    using won [of "sys_now env u"] that assms(3-6) called by (auto simp: graph_resume_def Let_def)
  with assms(1-6) mode show ?thesis
    by (simp add: resume_def Let_def case_prod_unfold)
qed

definition tampered_payload :: jdict where
  "tampered_payload = [(''mode'', JStr ''graph_keyword''), (''checkpoint_id'', JStr ''ck1''),
     (''interrupt_payload'', JObj [(''tool_name'', JStr ''other'')]), (''tool_name'', JStr ''other'')]"

subsection \<open>Approvals of the pipeline can be resumed\<close>

lemma mt_loop_stop:
  "mt_loop env pl query plan tid sts m s = (MStop d, s') \<Longrightarrow>
     \<exists>st \<in> set sts. \<exists>m1 s1. mt_step env pl query plan tid st m1 s1 = (MStop d, s')"
proof (induction sts arbitrary: m s)
  case (Cons st sts)
  obtain out s1 where "mt_step env pl query plan tid st m s = (out, s1)"
    by (cases "mt_step env pl query plan tid st m s")
  with Cons show ?case by (cases out) fastforce+
qed simp

lemma mt_step_approval:
  "mt_step env pl query plan tid st m s = (MStop d, s') \<Longrightarrow> dget d ''error_type'' = JStr ''approval_required'' \<Longrightarrow>
     \<exists>spec reason. mt_request_approval env pl query plan tid st spec reason m s = (MStop d, s')"
  by (auto simp: mt_step_def mt_run_tool_def Let_def split: option.splits if_splits sum.splits prod.splits)

lemma mt_request_approval_row:
  assumes "mt_request_approval env pl query plan tid st spec reason m s = (MStop d, s')"
  shows "\<exists>aid row. dget d ''approval_id'' = JStr aid \<and> ap_get aid (sy_approvals s') = Some row \<and>
     ar_status row = APending \<and> ar_tool_name row = ms_tool_name st \<and>
     payload_of row = mt_payload query plan st m"
proof -
  obtain row s1 where cr: "create_approval env (tid_text tid) (ms_tool_name st)
      (tx_mt_step_action (ms_step_id st) (ms_tool_name st)) (sp_risk_level spec)
      (sp_permission_scope spec) reason (Some (mt_payload query plan st m)) s = (Inr row, s1)"
    using assms by (auto simp: mt_request_approval_def split: sum.splits prod.splits)
  then have "dget d ''approval_id'' = JStr (ar_id row) \<and> sy_approvals s' = sy_approvals s1"
    using assms by (auto simp: mt_request_approval_def mt_failure_def mt_trace_def Let_def)
  then show ?thesis
    using create_approval_get [OF cr] create_approval_payload [OF cr] by auto
qed

lemma mt_payload_integrity:
  assumes "st \<in> set (mp_steps plan)"
  shows "od_allowed (wl_check_payload_integrity (mt_payload query plan st m) (ms_tool_name st)
           (integrity_steps (mt_payload query plan st m)))"
    and "payload_steps (mt_payload query plan st m) = map plan_step_dump (mp_steps plan)"
proof -
  have "integrity_steps (mt_payload query plan st m) = Some (map plan_step_dump (mp_steps plan))"
    by (simp add: integrity_steps_def mt_payload_def plan_dump_def)
  moreover have "\<exists>d \<in> set (map plan_step_dump (mp_steps plan)). dget d ''step_id'' = JStr (ms_step_id st)"
    using assms by (force simp: plan_step_dump_def)
  ultimately show "od_allowed (wl_check_payload_integrity (mt_payload query plan st m) (ms_tool_name st)
      (integrity_steps (mt_payload query plan st m)))"
    by (simp add: wl_check_payload_integrity_def mt_payload_def Let_def list_ex_iff)
  show "payload_steps (mt_payload query plan st m) = map plan_step_dump (mp_steps plan)"
    by (simp add: payload_steps_def mt_payload_def plan_dump_def)
qed

text \<open>
  What the pipeline files for approval, the resume service accepts: a run that stops for
  approval leaves a pending request for a step of its plan whose payload passes the integrity
  check, and the plan is read back from it step for step.
\<close>

lemma pipeline_approval_can_be_resumed:
  assumes "multitool_run env pl query tid s = (Inr d, s')"
    and "dget d ''error_type'' = JStr ''approval_required''"
  shows "\<exists>aid row. dget d ''approval_id'' = JStr aid \<and> ap_get aid (sy_approvals s') = Some row \<and>
     ar_status row = APending \<and> ar_tool_name row \<in> ms_tool_name ` set (mp_steps (multitool_plan query)) \<and>
     od_allowed (wl_check_payload_integrity (payload_of row) (ar_tool_name row) (integrity_steps (payload_of row))) \<and>
     payload_steps (payload_of row) = map plan_step_dump (mp_steps (multitool_plan query))"
proof -
  have "mt_loop env pl query (multitool_plan query) tid (mp_steps (multitool_plan query)) mt_start s = (MStop d, s')"
    using assms
    by (auto simp: multitool_run_def run_plan_def split: if_splits prod.splits mt_outcome.splits sum.splits)
  then obtain st m1 s1 where st: "st \<in> set (mp_steps (multitool_plan query))"
    "mt_step env pl query (multitool_plan query) tid st m1 s1 = (MStop d, s')"
    using mt_loop_stop by metis
  then obtain spec reason where
    "mt_request_approval env pl query (multitool_plan query) tid st spec reason m1 s1 = (MStop d, s')"
    using mt_step_approval assms(2) by metis
  from mt_request_approval_row [OF this] show ?thesis
    using mt_payload_integrity [OF st(1)] st(1) by (metis imageI)
qed

definition high_gateway :: "nat gateway" where
  "high_gateway = gw_register ((new_spec ''rule_lookup'')\<lparr>sp_risk_level := RHigh\<rparr>)
     (\<lambda>args w. (Inr (JObj []), w + 1)) gateway_init"

definition asks_approval :: "string + jdict \<Rightarrow> bool" where
  "asks_approval out = (case out of Inr d \<Rightarrow> dget d ''error_type'' = JStr ''approval_required'' | Inl _ \<Rightarrow> False)"

end
