(* ===== verification/Runtime.thy ===== *)
theory Runtime
  imports Kernel Approval_Resume
begin

text \<open>
  The runtime as the application assembles it (\<open>_build_runtime\<close> in \<open>app/main.py\<close>): one gateway, one
  policy over its whitelist, and the pipelines, the multi-agent orchestrator, the graph runtime and
  the kernel that share them. The theorems here span components.
\<close>

text \<open>What the settings and the outside decide: switches, planner, graph runtime, LLM and NL2SQL.\<close>

record 'w runtime_cfg =
  rc_switches :: switches
  rc_planner_mode :: string
  rc_graph_enabled :: bool
  rc_llm :: "'w llm_provider"
  rc_loads :: "string \<Rightarrow> string + json"
  rc_nl2sql :: "'w nl2sql_run"
  rc_hooks :: hooks
  rc_invoke :: "'w kstate graph_runner option"

text \<open>How the gateway's tools are called: tool, arguments, task.\<close>

type_synonym 'w caller = "string \<Rightarrow> jdict \<Rightarrow> string \<Rightarrow> 'w sys \<Rightarrow> tool_call_record \<times> 'w sys"

definition as_task_call :: "'w caller \<Rightarrow> 'w task_call" where
  "as_task_call run = (\<lambda>t a tid s. (case run t a tid s of (r, s') \<Rightarrow> (Inr r, s')))"

definition runtime_multitool :: "'w env \<Rightarrow> 'w gateway \<Rightarrow> 'w caller \<Rightarrow> 'w pipeline" where
  "runtime_multitool env g run = (runtime_pipeline env g)\<lparr>pl_run := (\<lambda>t a s. run t a [] s)\<rparr>"

definition runtime_agents :: "'w env \<Rightarrow> 'w gateway \<Rightarrow> 'w caller \<Rightarrow> 'w runtime_cfg \<Rightarrow> 'w orchestrator" where
  "runtime_agents env g run c =
     (let orc = runtime_orchestrator env g (rc_switches c) (rc_llm c) (rc_nl2sql c)
      in orc\<lparr>or_executor := with_run (\<lambda>t a s. run t a [] s) env g (or_executor orc)\<rparr>)"

definition runtime_kernel :: "'w env \<Rightarrow> 'w gateway \<Rightarrow> 'w caller \<Rightarrow> 'w runtime_cfg \<Rightarrow> 'w kernel" where
  "runtime_kernel env g run c =
     \<lparr>kn_tools = map sp_tool_name (gw_list_tools g), kn_lookup = gw_get_tool g, kn_run = as_task_call run,
      kn_hooks = rc_hooks c, kn_policy = runtime_policy g,
      kn_assemble = (\<lambda>task tools s. Inr (assemble (sys_now env s) task None tools None None None)),
      kn_switches = rc_switches c, kn_planner_mode = rc_planner_mode c,
      kn_llm_planner = \<lparr>lp_tools = gw_list_tools g, lp_lookup = gw_get_tool g, lp_provider = rc_llm c,
                        lp_switches = rc_switches c, lp_loads = rc_loads c\<rparr>,
      kn_nl2sql = rc_nl2sql c, kn_multitool = multitool_run env (runtime_multitool env g run),
      kn_multi_agent = multi_agent_run env (runtime_agents env g run c), kn_store = True,
      kn_graph_enabled = rc_graph_enabled c,
      kn_graph_runtime = Some (run_keyword env
        ((runtime_graph env g (rc_switches c))\<lparr>gr_run := as_task_call run\<rparr>)),
      kn_self_check = Some (\<lambda>r. self_check env r None None), kn_invoke = rc_invoke c\<rparr>"

subsection \<open>The kernel and its tool calls\<close>

text \<open>The tools the kernel's main path may call.\<close>

definition kn_may_call :: "'w kernel \<Rightarrow> string \<Rightarrow> bool" where
  "kn_may_call kn t \<longleftrightarrow>
     (case kn_lookup kn t of
        None \<Rightarrow> True
      | Some spec \<Rightarrow> pd_allowed (pe_evaluate (kn_policy kn) t (Some (sp_risk_level spec)) None))"

lemma kn_execute_run_cong:
  assumes "\<And>t a tid s. kn_may_call kn t \<Longrightarrow> kn_run kn t a tid s = run' t a tid s"
  shows "kn_execute env (kn\<lparr>kn_run := run'\<rparr>) = kn_execute env kn"
proof (intro ext)
  fix plan and p :: "'a kpoint"
  have hook: "kn_hook env (kn\<lparr>kn_run := run'\<rparr>) = kn_hook env kn"
    by (intro ext) (simp add: kn_hook_def)
  have call: "kn_call env (kn\<lparr>kn_run := run'\<rparr>) t a p = kn_call env kn t a p" if "kn_may_call kn t" for t a
    unfolding kn_call_def hook using assms [OF that] by (simp add: Let_def)
  show "kn_execute env (kn\<lparr>kn_run := run'\<rparr>) plan p = kn_execute env kn plan p"
    using call by (auto simp: kn_execute_def kn_may_call_def Let_def split: option.split)
qed

lemma kernel_run_run_cong:
  assumes "kn_execute env (kn\<lparr>kn_run := run'\<rparr>) = kn_execute env kn"
  shows "kernel_run env (kn\<lparr>kn_run := run'\<rparr>) = kernel_run env kn"
proof -
  let ?kn = "kn\<lparr>kn_run := run'\<rparr>"
  have plan: "kn_plan env ?kn = kn_plan env kn"
    by (intro ext) (simp add: kn_plan_def active_plan_def)
  have ctx: "kn_assemble_context env ?kn = kn_assemble_context env kn"
    by (intro ext) (simp add: kn_assemble_context_def)
  have "keyword_graph env ?kn = keyword_graph env kn"
    by (simp only: keyword_graph_def plan ctx assms)
  then have graph: "run_graph go env ?kn = run_graph go env kn" for go
    by (intro ext) (simp add: run_graph_def)
  have seq: "run_sequential env ?kn = run_sequential env kn"
    by (intro ext) (simp only: run_sequential_def plan ctx assms)
  have hook: "kn_hook env ?kn = kn_hook env kn" by (intro ext) (simp add: kn_hook_def)
  have inv: "kn_invoke ?kn = kn_invoke kn" by simp
  have body: "kn_body env ?kn = kn_body env kn"
    by (intro ext) (simp only: kn_body_def hook graph seq inv)
  have "run_self_check env ?kn = run_self_check env kn"
    by (intro ext) (simp add: run_self_check_def)
  then show ?thesis
    by (intro ext) (simp only: kernel_run_def body)
qed

lemma run_with_options_run_cong:
  assumes "kn_execute env (kn\<lparr>kn_run := run'\<rparr>) = kn_execute env kn"
  shows "run_with_options env (kn\<lparr>kn_run := run'\<rparr>) = run_with_options env kn"
proof -
  let ?kn = "kn\<lparr>kn_run := run'\<rparr>"
  note kr = kernel_run_run_cong [OF assms]
  have sc: "run_self_check env ?kn = run_self_check env kn"
    by (intro ext) (simp add: run_self_check_def)
  have wrap: "kn_wrap_up env ?kn = kn_wrap_up env kn"
    by (intro ext) (simp only: kn_wrap_up_def sc)
  have auto: "auto_keyword env ?kn = auto_keyword env kn"
    by (intro ext) (simp only: auto_keyword_def kr)
  then have fail: "auto_failed env ?kn = auto_failed env kn"
    by (intro ext) (simp only: auto_failed_def)
  have mt: "kn_multitool ?kn = kn_multitool kn" and nl: "kn_nl2sql ?kn = kn_nl2sql kn"
    and ma: "kn_multi_agent ?kn = kn_multi_agent kn" and ge: "kn_graph_enabled ?kn = kn_graph_enabled kn"
    and gr: "kn_graph_runtime ?kn = kn_graph_runtime kn"
    by simp_all
  have "auto_multitool env ?kn = auto_multitool env kn"
    by (intro ext) (simp only: auto_multitool_def mt fail auto)
  then have ra: "run_auto env ?kn = run_auto env kn"
    by (intro ext) (simp only: run_auto_def nl fail)
  have rg: "run_graph_runtime env ?kn = run_graph_runtime env kn"
    by (intro ext) (simp only: run_graph_runtime_def sc)
  have "run_nl2sql env ?kn = run_nl2sql env kn" "run_multitool env ?kn = run_multitool env kn"
    "run_multi_agent env ?kn = run_multi_agent env kn"
    by (intro ext; simp only: run_nl2sql_def run_multitool_def run_multi_agent_def nl mt ma)+
  then show ?thesis
    by (intro ext) (simp only: run_with_options_def wrap ra rg kr ge gr)
qed

text \<open>The tools below high risk, unregistered names included.\<close>

definition below_high_risk :: "'w gateway \<Rightarrow> string \<Rightarrow> bool" where
  "below_high_risk g t \<longleftrightarrow> (case gw_get_tool g t of None \<Rightarrow> True | Some spec \<Rightarrow> sp_risk_level spec \<noteq> RHigh)"

lemma runtime_multitool_gateway [simp]: "runtime_multitool env g (gw_call env g) = runtime_pipeline env g"
  by (simp add: runtime_multitool_def runtime_pipeline_def)

lemma runtime_agents_gateway:
  "runtime_agents env g (gw_call env g) c =
     runtime_orchestrator env g (rc_switches c) (rc_llm c) (rc_nl2sql c)"
  by (simp add: runtime_agents_def runtime_orchestrator_def with_run_def runtime_executor_def
      runtime_pipeline_def Let_def)

lemma as_task_call_gateway: "gr_run (runtime_graph env g sw) = as_task_call (gw_call env g)"
  by (simp add: runtime_graph_def as_task_call_def)

text \<open>
  C1. No entry of the runtime calls a high-risk tool. In every mode (keyword, through the graph
  runtime, the LangGraph graph or in sequence, with either planner; nl2sql; multitool; multi_agent;
  auto) two ways of calling the gateway's tools that agree on the tools below high risk give the
  same outcome and leave the same task and state: a high-risk tool runs only through a resumption
  of an approval.
\<close>

theorem no_mode_runs_high_risk:
  assumes "\<And>t a tid s. below_high_risk g t \<Longrightarrow> gw_call env g t a tid s = run' t a tid s"
  shows "run_with_options env (runtime_kernel env g run' c) mode opts session p =
     run_with_options env (runtime_kernel env g (gw_call env g) c) mode opts session p"
proof -
  have mt: "multitool_run env (runtime_multitool env g run') = multitool_run env (runtime_pipeline env g)"
    unfolding runtime_multitool_def
    by (intro ext multitool_run_cong) (simp add: assms below_high_risk_def)
  have ma: "multi_agent_run env (runtime_agents env g run' c) =
      multi_agent_run env (runtime_agents env g (gw_call env g) c)"
    unfolding runtime_agents_gateway unfolding runtime_agents_def Let_def
    by (intro ext multi_agent_run_cong [OF _ HOL.refl])
       (simp add: assms below_high_risk_def not_held_back_def split: option.splits)
  have gr: "run_keyword env ((runtime_graph env g sw)\<lparr>gr_run := as_task_call run'\<rparr>) =
      run_keyword env ((runtime_graph env g sw)\<lparr>gr_run := as_task_call (gw_call env g)\<rparr>)" for sw
  proof -
    have "run_keyword env ((runtime_graph env g sw)\<lparr>gr_run := as_task_call run'\<rparr>) =
        run_keyword env (runtime_graph env g sw)"
      by (intro ext run_keyword_run_cong)
         (simp add: as_task_call_gateway, simp add: runtime_graph_def as_task_call_def assms below_high_risk_def)
    moreover have "(runtime_graph env g sw)\<lparr>gr_run := as_task_call (gw_call env g)\<rparr> = runtime_graph env g sw"
      by (simp add: runtime_graph_def as_task_call_def)
    ultimately show ?thesis by simp
  qed
  let ?k = "runtime_kernel env g (gw_call env g) c"
  have k: "runtime_kernel env g run' c = ?k\<lparr>kn_run := as_task_call run'\<rparr>"
    unfolding runtime_kernel_def mt ma gr by simp
  have "kn_execute env (?k\<lparr>kn_run := as_task_call run'\<rparr>) = kn_execute env ?k"
    by (rule kn_execute_run_cong)
       (auto simp: runtime_kernel_def kn_may_call_def runtime_policy_cases as_task_call_def below_high_risk_def
          assms split: option.splits)
  from run_with_options_run_cong [OF this] show ?thesis by (simp add: k)
qed

definition demo_cfg :: "nat runtime_cfg" where
  "demo_cfg = \<lparr>rc_switches = (\<lambda>_. True), rc_planner_mode = ''keyword'', rc_graph_enabled = False,
     rc_llm = (\<lambda>prompt tools s. (Inl ''offline'', s)), rc_loads = (\<lambda>s. Inl s),
     rc_nl2sql = (\<lambda>query opts s. (Inr [(''success'', JBool False)], s)), rc_hooks = hooks_init,
     rc_invoke = Some sg_invoke\<rparr>"

definition demo_task :: "string \<Rightarrow> task_run" where
  "demo_task query = new_task ''t1'' query ''2026''"

theorem no_mode_runs_high_risk_witness:
  "run_with_options demo_env (runtime_kernel demo_env promo_gateway
       (\<lambda>t a tid s. if t = ''simulate_refund_order'' then (new_call_record [] t a [], s)
                    else gw_call demo_env promo_gateway t a tid s) demo_cfg)
     ''auto'' demo_opts None (demo_task kw_simulate_refund, sys_init 0) =
   run_with_options demo_env (runtime_kernel demo_env promo_gateway (gw_call demo_env promo_gateway) demo_cfg)
     ''auto'' demo_opts None (demo_task kw_simulate_refund, sys_init 0)"
  by (rule no_mode_runs_high_risk) (auto simp: below_high_risk_def promo_gateway_tools refund_spec_def)

text \<open>The runner of at most 25 steps is one of those: the demo runtime, its graph switched on.\<close>

theorem graph_equals_sequential_witness:
  "run_graph sg_invoke demo_env (runtime_kernel demo_env promo_gateway (gw_call demo_env promo_gateway) demo_cfg)
     (demo_task kw_simulate_refund, sys_init 0) =
   run_sequential demo_env (runtime_kernel demo_env promo_gateway (gw_call demo_env promo_gateway) demo_cfg)
     (demo_task kw_simulate_refund, sys_init 0)"
  by (rule graph_equals_sequential) (rule graph_laws_sg_invoke)

end
