(* ===== verification/Kernel_Facts.thy ===== *)
theory Kernel_Facts
  imports Runtime
begin

text \<open>
  What a run of the kernel leaves behind: the status and the identity of the task, the approval a
  waiting task refers to, the record of the automatic cascade, and the marks of the cascade on the
  result.
\<close>

named_theorems kn_frame "what the kernel's bookkeeping leaves alone"

lemma kn_trace_frame [kn_frame, simp]:
  "fst (kn_trace env e d p) = fst p" "sy_approvals (snd (kn_trace env e d p)) = sy_approvals (snd p)"
  by (simp_all add: kn_trace_def)

lemma check_hook_errors_frame [kn_frame, simp]:
  "fst (check_hook_errors env d p) = fst p"
  "sy_approvals (snd (check_hook_errors env d p)) = sy_approvals (snd p)"
  by (simp_all add: check_hook_errors_def)

lemma kn_hook_frame [kn_frame, simp]:
  "fst (kn_hook env kn st d p) = fst p" "sy_approvals (snd (kn_hook env kn st d p)) = sy_approvals (snd p)"
  by (simp_all add: kn_hook_def)

lemma kn_memory_add_frame [kn_frame, simp]:
  "sy_approvals (kn_memory_add env sid role c s) = sy_approvals s"
  by (simp add: kn_memory_add_def split: option.split)

lemma kn_remember_frame [kn_frame, simp]:
  "fst (kn_remember env sid role c p) = fst p"
  "sy_approvals (snd (kn_remember env sid role c p)) = sy_approvals (snd p)"
  by (simp_all add: kn_remember_def)

lemma kn_set_frame [kn_frame, simp]:
  "snd (kn_set_status st p) = snd p" "snd (kn_set_result r p) = snd p" "snd (kn_touch env p) = snd p"
  "tk_status (fst (kn_set_status st p)) = st" "tk_status (fst (kn_set_result r p)) = tk_status (fst p)"
  "tk_status (fst (kn_touch env p)) = tk_status (fst p)"
  "tk_result (fst (kn_set_result r p)) = JObj r" "tk_result (fst (kn_touch env p)) = tk_result (fst p)"
  "tk_result (fst (kn_set_status st p)) = tk_result (fst p)"
  by (simp_all add: kn_set_status_def kn_set_result_def kn_touch_def)

lemma record_task_metrics_frame [kn_frame, simp]:
  "fst (record_task_metrics mode p) = fst p"
  "sy_approvals (snd (record_task_metrics mode p)) = sy_approvals (snd p)"
  by (simp_all add: record_task_metrics_def Let_def)

lemma run_self_check_status [kn_frame, simp]:
  "tk_status (fst (run_self_check env kn p)) = tk_status (fst p)"
  by (simp add: run_self_check_def Let_def split: option.split json.split sum.split)

subsection \<open>Identity\<close>

text \<open>The task keeps its identity: identifier, query and creation time.\<close>

definition same_task :: "task_run \<Rightarrow> task_run \<Rightarrow> bool" where
  "same_task t t' \<longleftrightarrow> tk_id t' = tk_id t \<and> tk_query t' = tk_query t \<and> tk_created_at t' = tk_created_at t"

lemma same_task_refl [simp]: "same_task t t" by (simp add: same_task_def)

lemma same_task_trans: "same_task a b \<Longrightarrow> same_task b c \<Longrightarrow> same_task a c" by (simp add: same_task_def)

lemma same_task_steps [simp]:
  "same_task t (fst (kn_set_status st p)) = same_task t (fst p)"
  "same_task t (fst (kn_set_result r p)) = same_task t (fst p)"
  "same_task t (fst (kn_touch env p)) = same_task t (fst p)"
  "same_task t (fst (kn_fail env e p)) = same_task t (fst p)"
  by (simp_all add: same_task_def kn_set_status_def kn_set_result_def kn_touch_def kn_fail_def)

lemma same_task_self_check [simp]: "same_task t (fst (run_self_check env kn p)) = same_task t (fst p)"
  by (simp add: run_self_check_def Let_def split: option.split json.split sum.split)

lemma same_task_execute: "same_task (fst p) (fst (snd (kn_execute env kn plan p)))"
  by (simp add: kn_execute_def kn_call_def kn_request_approval_def kn_blocked_def Let_def
      split: option.split prod.split sum.split)

lemma same_task_plan: "fst (snd (kn_plan env kn ctx p)) = fst p"
  by (simp add: kn_plan_def split: prod.split sum.split)

lemma same_task_context: "fst (snd (kn_assemble_context env kn p)) = fst p"
  by (simp add: kn_assemble_context_def split: sum.split)

lemma same_task_sequential: "same_task (fst p) (fst (snd (run_sequential env kn p)))"
proof -
  have "same_task (fst p) (fst (snd (bind_out m f)))"
    if "same_task (fst p) (fst (snd m))" "\<And>a q. same_task (fst p) (fst q) \<Longrightarrow> same_task (fst p) (fst (snd (f a q)))"
    for m :: "(string + 'x) \<times> 'a kpoint" and f :: "'x \<Rightarrow> 'a kpoint \<Rightarrow> (string + jdict) \<times> 'a kpoint"
    using that by (auto simp: bind_out_def split: prod.split sum.split)
  note bind = this
  show ?thesis
    unfolding run_sequential_def
    by (rule bind, simp add: same_task_context, rule bind, simp add: same_task_plan, rule bind)
       (use same_task_execute same_task_trans in blast, simp)
qed

text \<open>The kernel runs its graph by LangGraph's rules, or has none.\<close>

definition lawful :: "'w env \<Rightarrow> 'w kernel \<Rightarrow> bool" where
  "lawful env kn \<longleftrightarrow> (case kn_invoke kn of None \<Rightarrow> True | Some go \<Rightarrow> graph_laws go (keyword_graph env kn))"

lemma lawful_main_path:
  "lawful env kn \<Longrightarrow>
     (case kn_invoke kn of None \<Rightarrow> run_sequential env kn p | Some go \<Rightarrow> run_graph go env kn p) =
     run_sequential env kn p"
  by (auto simp: lawful_def graph_run_sequential split: option.splits)

lemma kn_body_cases:
  assumes "lawful env kn" and "kn_body env kn sid p = (out, q)"
  obtains (raised) e r where "out = Inl e" "run_sequential env kn r = (Inl e, q)" "fst r = fst p"
  | (waiting) res r q' where "out = Inr True" "run_sequential env kn r = (Inr res, q')" "fst r = fst p"
      "tk_status (fst q') = TWaitingApproval" "q = kn_touch env (kn_set_result res q')"
  | (finished) res r q' where "out = Inr False" "run_sequential env kn r = (Inr res, q')" "fst r = fst p"
      "tk_status (fst q') \<noteq> TWaitingApproval" "tk_status (fst q) = TCompleted"
      "tk_result (fst q) = JObj res" "same_task (fst q') (fst q)"
proof -
  define r where "r = kn_hook env kn ''before_task''
      [(''task_id'', JStr (tk_id (fst p))), (''query'', JStr (tk_query (fst p)))]
      (kn_trace env ''task_started'' [(''query'', JStr (tk_query (fst p))),
         (''engine'', JStr (case kn_invoke kn of None \<Rightarrow> ''sequential'' | Some _ \<Rightarrow> ''langgraph''))] p)"
  have r: "fst r = fst p" by (simp add: r_def)
  note body = assms(2) [unfolded kn_body_def Let_def lawful_main_path [OF assms(1)], folded r_def]
  obtain o' q' where seq: "run_sequential env kn r = (o', q')" by (cases "run_sequential env kn r")
  show thesis
  proof (cases o')
    case (Inl e)
    with body seq r show thesis by (intro raised [of e r]) auto
  next
    case (Inr res)
    show thesis
    proof (cases "tk_status (fst q') = TWaitingApproval")
      case True
      with body seq Inr r show thesis by (intro waiting [of r res q']) auto
    next
      case False
      with body seq Inr r show thesis
        by (intro finished [of r res q']) (auto simp: same_task_def kn_set_status_def kn_set_result_def)
    qed
  qed
qed

lemma kernel_run_status:
  assumes "lawful env kn"
  shows "tk_status (fst (kernel_run env kn session p)) \<in> {TCompleted, TFailed, TWaitingApproval} \<and>
     same_task (fst p) (fst (kernel_run env kn session p))"
proof -
  define p1 where "p1 = kn_remember env (or_sid session (fst p)) ''user'' (tk_query (fst p))
      (kn_touch env (kn_set_status TRunning p))"
  have p1: "same_task (fst p) (fst p1)" by (simp add: p1_def)
  obtain out q where b: "kn_body env kn (or_sid session (fst p)) p1 = (out, q)"
    by (cases "kn_body env kn (or_sid session (fst p)) p1")
  note run = kernel_run_def [of env kn session p, unfolded Let_def, folded p1_def, unfolded b]
  from assms b show ?thesis
  proof (cases rule: kn_body_cases)
    case (raised e r)
    then have "same_task (fst p) (fst q)"
      using p1 same_task_sequential [of r env kn] same_task_trans by fastforce
    with raised run show ?thesis by (simp add: kn_fail_def) (simp add: same_task_def)
  next
    case (waiting res r q')
    then have "same_task (fst p) (fst q')"
      using p1 same_task_sequential [of r env kn] same_task_trans by fastforce
    with waiting run show ?thesis by simp
  next
    case (finished res r q')
    then have "same_task (fst p) (fst q)"
      using p1 same_task_sequential [of r env kn] same_task_trans by fastforce
    with finished run show ?thesis by simp
  qed
qed

subsection \<open>The status a run ends with\<close>

definition final_statuses :: "task_status set" where
  "final_statuses = {TCompleted, TFailed, TWaitingApproval}"

definition ends_well :: "task_run \<Rightarrow> 'w kpoint \<Rightarrow> bool" where
  "ends_well t q \<longleftrightarrow> tk_status (fst q) \<in> final_statuses \<and> same_task t (fst q)"

lemma ends_well_steps [simp]:
  "ends_well t (kn_touch env q) = ends_well t q"
  "ends_well t (kn_set_result r q) = ends_well t q"
  "ends_well t (kn_trace env e d q) = ends_well t q"
  "ends_well t (run_self_check env kn q) = ends_well t q"
  "ends_well t (record_task_metrics m q) = ends_well t q"
  "ends_well t (kn_remember env sid role c q) = ends_well t q"
  "ends_well t (kn_summary env v q) = same_task t (fst q)"
  "ends_well t (kn_wrap_up env kn mode sid q) = ends_well t q"
  by (simp_all add: ends_well_def kn_summary_def kn_wrap_up_def Let_def final_statuses_def)

lemma same_task_start [simp]: "same_task t (fst (kn_start env mode p)) = same_task t (fst p)"
  by (simp add: kn_start_def)

lemma on_sys_fst: "on_sys f p = (out, q) \<Longrightarrow> fst q = fst p"
  by (auto simp: on_sys_def split: prod.splits)

lemma ends_well_status [simp]:
  "st \<in> final_statuses \<Longrightarrow> ends_well t (kn_set_status st q) = same_task t (fst q)"
  by (simp add: ends_well_def)

lemma final_statuses_simps [simp]:
  "TCompleted \<in> final_statuses" "TFailed \<in> final_statuses" "TWaitingApproval \<in> final_statuses"
  by (simp_all add: final_statuses_def)

lemma ends_well_run:
  "lawful env kn \<Longrightarrow> same_task t (fst p) \<Longrightarrow> ends_well t (kernel_run env kn session p)"
  using kernel_run_status [of env kn session p] same_task_trans
  by (auto simp: ends_well_def final_statuses_def)

lemma ends_well_auto_keyword:
  "lawful env kn \<Longrightarrow> same_task t (fst p) \<Longrightarrow> ends_well t (auto_keyword env kn chain why reason p)"
  by (simp add: auto_keyword_def Let_def ends_well_run)

lemma ends_well_modes:
  assumes "lawful env kn"
  shows "ends_well (fst p) (run_nl2sql env kn opts p)" "ends_well (fst p) (run_multitool env kn p)"
    "ends_well (fst p) (run_multi_agent env kn opts p)" "ends_well (fst p) (run_auto env kn opts p)"
proof -
  show "ends_well (fst p) (run_nl2sql env kn opts p)"
    by (auto simp: run_nl2sql_def Let_def dest!: on_sys_fst split: prod.split sum.split)
  show "ends_well (fst p) (run_multitool env kn p)"
    by (auto simp: run_multitool_def Let_def dest!: on_sys_fst split: prod.split sum.split)
  show "ends_well (fst p) (run_multi_agent env kn opts p)"
    by (auto simp: run_multi_agent_def Let_def dest!: on_sys_fst split: prod.split sum.split)
  have fail: "same_task t (fst q) \<Longrightarrow> ends_well t (auto_failed env kn chain e q)" for t chain e q
    by (simp add: auto_failed_def ends_well_auto_keyword assms)
  have mt: "same_task t (fst q) \<Longrightarrow> ends_well t (auto_multitool env kn q)" for t q
    by (auto simp: auto_multitool_def Let_def fail ends_well_auto_keyword assms
        dest!: on_sys_fst split: prod.split sum.split)
  show "ends_well (fst p) (run_auto env kn opts p)"
    by (auto simp: run_auto_def Let_def fail mt dest!: on_sys_fst split: prod.split sum.split)
qed

text \<open>
  C19. Every run settles its task. Whatever the pipelines, the tools, the planner and the hooks do,
  exceptions included, a run that returns leaves the task completed, failed or waiting for an
  approval, never running, and with its identifier, query and creation time; the nl2sql and
  multi_agent modes always leave it completed.
\<close>

theorem run_settles_task:
  assumes "lawful env kn" and "run_with_options env kn mode opts session p = (Inr (), q)"
  shows "tk_status (fst q) \<in> {TCompleted, TFailed, TWaitingApproval} \<and> same_task (fst p) (fst q) \<and>
     (mode \<in> {''nl2sql'', ''multi_agent''} \<longrightarrow> tk_status (fst q) = TCompleted)"
proof -
  define sid where "sid = or_sid session (fst p)"
  define p1 where "p1 = kn_remember env sid ''user'' (tk_query (fst p)) p"
  have p1: "fst p1 = fst p" by (simp add: p1_def)
  note run = assms(2) [unfolded run_with_options_def Let_def, folded sid_def, folded p1_def]
  have always: "tk_status (fst (run_nl2sql env kn opts p1)) = TCompleted"
    "tk_status (fst (run_multi_agent env kn opts p1)) = TCompleted"
    by (auto simp: run_nl2sql_def run_multi_agent_def kn_summary_def Let_def split: prod.split sum.split)
  have "ends_well (fst p) q"
  proof (cases "if mode = ''keyword'' \<and> kn_graph_enabled kn then kn_graph_runtime kn else None")
    case None
    with run have "q = (if mode = ''nl2sql'' then kn_wrap_up env kn mode sid (run_nl2sql env kn opts p1)
              else if mode = ''multitool'' then kn_wrap_up env kn mode sid (run_multitool env kn p1)
              else if mode = ''multi_agent'' then kn_wrap_up env kn mode sid (run_multi_agent env kn opts p1)
              else if mode = ''auto'' then kn_wrap_up env kn mode sid (run_auto env kn opts p1)
              else kernel_run env kn session p1)" by (simp only: option.case prod.inject)
    then show ?thesis
      using ends_well_modes [OF assms(1), of p1] ends_well_run [OF assms(1), of "fst p1" p1] p1
      by (simp split: if_splits)
  next
    case (Some gr)
    have "ends_well (fst p) (snd (run_graph_runtime env kn gr sid p1))" if "fst (run_graph_runtime env kn gr sid p1) = Inr ()"
      using that p1
      by (auto simp: run_graph_runtime_def Let_def graph_outcome_def dest!: on_sys_fst split: prod.splits sum.splits)
    with run Some show ?thesis by simp
  qed
  moreover have "tk_status (fst q) = TCompleted" if "mode \<in> {''nl2sql'', ''multi_agent''}"
    using run that always by (auto simp: kn_wrap_up_def Let_def)
  ultimately show ?thesis by (auto simp: ends_well_def final_statuses_def)
qed

theorem run_settles_task_witness:
  "\<exists>q. run_with_options demo_env (runtime_kernel demo_env promo_gateway (gw_call demo_env promo_gateway) demo_cfg)
      ''nl2sql'' demo_opts None (demo_task ''hello'', sys_init 0) = (Inr (), q) \<and> tk_status (fst q) = TCompleted"
proof -
  let ?kn = "runtime_kernel demo_env promo_gateway (gw_call demo_env promo_gateway) demo_cfg"
  have law: "lawful demo_env ?kn"
    by (simp add: lawful_def runtime_kernel_def demo_cfg_def graph_laws_sg_invoke)
  obtain q where "run_with_options demo_env ?kn ''nl2sql'' demo_opts None (demo_task ''hello'', sys_init 0) = (Inr (), q)"
    by (simp add: run_with_options_def Let_def)
  with run_settles_task [OF law this] show ?thesis by simp
qed

subsection \<open>A waiting task and its approval\<close>

lemma keyword_plan_matched: "truthy (dget (keyword_plan sw q) ''tool_name'') \<Longrightarrow> truthy (dget (keyword_plan sw q) ''matched'')"
proof -
  have "truthy (dget (planner_scan sw rs q) ''tool_name'') \<Longrightarrow> truthy (dget (planner_scan sw rs q) ''matched'')" for rs
    by (induction rs) auto
  then show "truthy (dget (keyword_plan sw q) ''tool_name'') \<Longrightarrow> truthy (dget (keyword_plan sw q) ''matched'')"
    by (simp add: keyword_plan_def)
qed

lemma active_plan_matched:
  "active_plan env kn q s = (Inr plan, s') \<Longrightarrow> truthy (dget plan ''tool_name'') \<Longrightarrow> truthy (dget plan ''matched'')"
  by (auto simp: active_plan_def llm_plan_def llm_plan_call_def fallback_plan_def keyword_plan_matched Let_def
      split: if_splits prod.splits sum.splits list.splits option.splits raised.splits)

definition awaited :: "task_run \<Rightarrow> jdict \<Rightarrow> approval_row \<Rightarrow> bool" where
  "awaited task plan row \<longleftrightarrow>
     ar_status row = APending \<and> ar_task_id row = tk_id task \<and>
     payload_of row = kn_payload task (ar_tool_name row) (or_else (dget plan ''arguments'') (JObj [])) plan"

lemma create_approval_row:
  "create_approval env tid tool action risk scope reason (Some pl) s = (Inr row, s') \<Longrightarrow>
     ap_get (ar_id row) (sy_approvals s') = Some row \<and> ar_status row = APending \<and>
     ar_task_id row = tid \<and> ar_tool_name row = tool \<and> payload_of row = pl"
  using create_approval_get create_approval_payload by metis

lemma kn_execute_waiting:
  assumes "kn_execute env kn plan p = (Inr out, q)" and "tk_status (fst p) \<noteq> TWaitingApproval"
    and "tk_status (fst q) = TWaitingApproval"
  shows "truthy (dget plan ''tool_name'') \<and>
     (\<exists>row d. out = ODict d \<and> truthy (dget d ''requires_approval'') \<and> dget d ''approval_id'' = JStr (ar_id row) \<and>
        ap_get (ar_id row) (sy_approvals (snd q)) = Some row \<and> awaited (fst p) plan row)"
  using assms
  by (auto simp: kn_execute_def kn_call_def kn_blocked_def kn_request_approval_def awaited_def Let_def
      dest!: create_approval_row split: if_splits option.splits prod.splits sum.splits)
     metis

lemma awaited_task: "same_task t t' \<Longrightarrow> awaited t' plan row = awaited t plan row"
  by (simp add: awaited_def same_task_def kn_payload_def)

lemma sequential_waiting:
  assumes "run_sequential env kn p = (Inr res, q)" and "tk_status (fst p) \<noteq> TWaitingApproval"
    and "tk_status (fst q) = TWaitingApproval"
  shows "\<exists>row plan. dget res ''approval_id'' = JStr (ar_id row) \<and> truthy (dget res ''requires_approval'') \<and>
     ap_get (ar_id row) (sy_approvals (snd q)) = Some row \<and> awaited (fst p) plan row"
proof -
  from assms(1) obtain ctx p1 plan p2 out
    where c: "kn_assemble_context env kn p = (Inr ctx, p1)"
      and pl: "kn_plan env kn ctx p1 = (Inr plan, p2)"
      and ex: "kn_execute env kn plan p2 = (Inr out, q)"
      and res: "res = kn_respond env plan out (if tk_status (fst q) = TWaitingApproval then False else kn_verify out)"
    by (auto simp: run_sequential_def elim!: bind_out_InrE split: if_splits)
  have same: "fst p1 = fst p" "fst p2 = fst p"
    using same_task_context [of env kn p] same_task_plan [of env kn ctx p1] c pl by simp_all
  from kn_execute_waiting [OF ex] assms(2,3) same obtain row d where
    t: "truthy (dget plan ''tool_name'')" and o: "out = ODict d" "truthy (dget d ''requires_approval'')"
      "dget d ''approval_id'' = JStr (ar_id row)" "ap_get (ar_id row) (sy_approvals (snd q)) = Some row"
      "awaited (fst p) plan row"
    by auto
  have "truthy (dget plan ''matched'')"
    using pl t active_plan_matched by (auto simp: kn_plan_def split: prod.splits sum.splits)
  with o res show ?thesis by (intro exI [of _ row] exI [of _ plan]) (simp add: kn_respond_def Let_def)
qed

lemma kn_payload_integrity:
  "payload_of row = kn_payload task (ar_tool_name row) args plan \<Longrightarrow>
     od_allowed (wl_check_payload_integrity (payload_of row) (ar_tool_name row) (integrity_steps (payload_of row)))"
  by (simp add: wl_check_payload_integrity_def integrity_steps_def kn_payload_def Let_def)


definition is_waiting :: "'w kpoint \<Rightarrow> bool" where
  "is_waiting q \<longleftrightarrow> tk_status (fst q) = TWaitingApproval"


subsection \<open>The automatic cascade\<close>

definition auto_chains :: "string list list" where
  "auto_chains = [[''nl2sql''], [''nl2sql'', ''multitool''], [''nl2sql'', ''multitool'', ''keyword''],
     [''nl2sql'', ''keyword'']]"

definition records_auto :: "json \<Rightarrow> bool" where
  "records_auto res \<longleftrightarrow>
     (\<exists>d. res = JObj d \<and> dget d ''requested_mode'' = JStr ''auto'' \<and>
        (\<exists>chain \<in> set auto_chains. dget d ''fallback_chain'' = jstrs chain \<and>
           dget d ''executed_mode'' = JStr (last chain)))"

lemma records_auto_mark:
  "chain \<in> set auto_chains \<Longrightarrow> records_auto (JObj (auto_mark (last chain) chain why res))"
  by (auto simp: records_auto_def auto_mark_def dupd_def split: option.split)

lemma records_auto_self_check:
  "records_auto (tk_result (fst p)) \<Longrightarrow> records_auto (tk_result (fst (run_self_check env kn p)))"
  by (auto simp: run_self_check_def records_auto_def Let_def split: option.split sum.split)

lemma auto_chains_mem [simp]:
  "[''nl2sql''] \<in> set auto_chains" "[''nl2sql'', ''multitool''] \<in> set auto_chains"
  "[''nl2sql'', ''multitool'', ''keyword''] \<in> set auto_chains" "[''nl2sql'', ''keyword''] \<in> set auto_chains"
  by (simp_all add: auto_chains_def)

lemma records_auto_keyword:
  "chain @ [''keyword''] \<in> set auto_chains \<Longrightarrow>
     records_auto (tk_result (fst (auto_keyword env kn chain why reason p)))"
  using records_auto_mark [of "chain @ [''keyword'']" "Some why"] by (simp add: auto_keyword_def Let_def)

lemma tk_result_summary [simp]: "tk_result (fst (kn_summary env v p)) = tk_result (fst p)"
  by (simp add: kn_summary_def)

lemma records_auto_run: "records_auto (tk_result (fst (run_auto env kn opts p)))"
proof -
  have fail: "records_auto (tk_result (fst (auto_failed env kn chain e q)))"
    if "chain @ [''keyword''] \<in> set auto_chains" for chain e q
    using that by (simp add: auto_failed_def records_auto_keyword)
  have "records_auto (tk_result (fst (auto_multitool env kn q)))" for q
    using records_auto_mark [of "[''nl2sql'', ''multitool'']" "Some tx_auto_reason_multitool"]
    by (simp add: auto_multitool_def Let_def fail records_auto_keyword split: prod.split sum.split)
  then show ?thesis
    using records_auto_mark [of "[''nl2sql'']" None]
    by (simp add: run_auto_def Let_def fail split: prod.split sum.split)
qed

text \<open>
  The automatic mode reports what it did. Its result is a dict marked as requested in auto mode;
  the recorded chain is one of the four the cascade can take (a failure goes on to the next mode, an
  exception straight to keyword), and the executed mode is the chain's last.
\<close>

lemma auto_records_its_cascade:
  "records_auto (tk_result (fst (snd (run_with_options env kn ''auto'' opts session p))))"
  by (simp add: run_with_options_def kn_wrap_up_def Let_def records_auto_self_check records_auto_run)

text \<open>A pipeline whose failed results are cut down to their answer.\<close>

definition only_answer :: "(string + jdict) \<times> 'w sys \<Rightarrow> (string + jdict) \<times> 'w sys" where
  "only_answer out =
     (case out of
        (Inr res, s) \<Rightarrow>
          (case item res ''success'' of
             Inr ok \<Rightarrow>
               if truthy ok then out
               else (Inr [(''success'', JBool False), (''answer'', dget_or res ''answer'' (JStr []))], s)
           | Inl _ \<Rightarrow> out)
      | _ \<Rightarrow> out)"

lemma kernel_run_multitool_upd:
  "kernel_run env (kn\<lparr>kn_multitool := m\<rparr>) = kernel_run env kn"
proof -
  let ?kn = "kn\<lparr>kn_multitool := m\<rparr>"
  have plan: "kn_plan env ?kn = kn_plan env kn" by (intro ext) (simp add: kn_plan_def active_plan_def)
  have ctx: "kn_assemble_context env ?kn = kn_assemble_context env kn"
    by (intro ext) (simp add: kn_assemble_context_def)
  have hook: "kn_hook env ?kn = kn_hook env kn" by (intro ext) (simp add: kn_hook_def)
  have run: "kn_run ?kn = kn_run kn" and look: "kn_lookup ?kn = kn_lookup kn"
    and pol: "kn_policy ?kn = kn_policy kn" and st: "kn_store ?kn = kn_store kn"
    and inv: "kn_invoke ?kn = kn_invoke kn" by simp_all
  have "kn_call env ?kn = kn_call env kn"
    by (intro ext) (simp only: kn_call_def hook run)
  then have exec: "kn_execute env ?kn = kn_execute env kn"
    by (intro ext) (simp only: kn_execute_def look pol st)
  have "keyword_graph env ?kn = keyword_graph env kn"
    by (simp only: keyword_graph_def plan ctx exec)
  then have graph: "run_graph go env ?kn = run_graph go env kn" for go
    by (intro ext) (simp add: run_graph_def)
  have seq: "run_sequential env ?kn = run_sequential env kn"
    by (intro ext) (simp only: run_sequential_def plan ctx exec)
  have body: "kn_body env ?kn = kn_body env kn"
    by (intro ext) (simp only: kn_body_def hook graph seq inv)
  have "run_self_check env ?kn = run_self_check env kn"
    by (intro ext) (simp add: run_self_check_def)
  then show ?thesis
    by (intro ext) (simp only: kernel_run_def body)
qed

text \<open>
  The automatic mode overlooks an approval its multi-tool step asked for. Of a multi-tool result
  that is no success it reads the answer and nothing else: a pipeline that cuts such results down to
  their answer gives the same run, so whether an approval is awaited, and which, never reaches the
  task, which goes on to the keyword path with the request left pending.
\<close>

lemma auto_overlooks_pending_approval:
  "run_with_options env (kn\<lparr>kn_multitool := (\<lambda>q tid s. only_answer (kn_multitool kn q tid s))\<rparr>) ''auto'' opts session p =
   run_with_options env kn ''auto'' opts session p"
proof -
  let ?kn = "kn\<lparr>kn_multitool := (\<lambda>q tid s. only_answer (kn_multitool kn q tid s))\<rparr>"
  have ak: "auto_keyword env ?kn = auto_keyword env kn"
    by (intro ext) (simp only: auto_keyword_def kernel_run_multitool_upd)
  have af: "auto_failed env ?kn = auto_failed env kn"
    by (intro ext) (simp only: auto_failed_def ak)
  have ev: "kn_multitool ?kn = (\<lambda>q tid s. only_answer (kn_multitool kn q tid s))" by simp
  have mt: "auto_multitool env ?kn = auto_multitool env kn"
    unfolding auto_multitool_def af ak ev
    by (intro ext)
       (auto simp: on_sys_def only_answer_def item_def dget_or_def Let_def
         split: prod.split sum.split option.split)
  have nl: "kn_nl2sql ?kn = kn_nl2sql kn" by simp
  have "run_auto env ?kn = run_auto env kn"
    by (intro ext) (simp only: run_auto_def nl mt af)
  moreover have "kn_wrap_up env ?kn = kn_wrap_up env kn"
    by (intro ext) (simp add: kn_wrap_up_def run_self_check_def)
  ultimately show ?thesis by (simp add: run_with_options_def Let_def)
qed

end
