(* ===== verification/Runtime_Tools.thy ===== *)
theory Runtime_Tools
  imports Runtime
begin

text \<open>
  The tools of the shipped runtime: the local ones that \<open>_register_tools\<close> of \<open>app/main.py\<close> declares
  (their database queries are what the gateway is given), and the fake MCP server of
  \<open>app/tools/mcp/client.py\<close> with its date, calculator and rule tools.
\<close>

definition type_schema :: "string \<Rightarrow> json" where
  "type_schema t = JObj [(''type'', JStr t)]"

definition object_schema :: "jdict \<Rightarrow> jdict" where
  "object_schema props = [(''type'', JStr ''object''), (''properties'', JObj props)]"

subsection \<open>Local tools\<close>

definition local_spec :: "string \<Rightarrow> string \<Rightarrow> jdict \<Rightarrow> jdict \<Rightarrow> risk_level \<Rightarrow> string \<Rightarrow> tool_spec" where
  "local_spec name desc inp outp risk scope =
     (new_spec name)\<lparr>sp_description := desc, sp_input_schema := object_schema inp,
        sp_output_schema := object_schema outp, sp_risk_level := risk, sp_permission_scope := scope,
        sp_timeout_seconds := 10\<rparr>"

definition LOCAL_TOOLS :: "tool_spec list" where
  "LOCAL_TOOLS =
     [local_spec ''get_today_gmv'' tx_tool_gmv []
        [(''date'', type_schema ''string''), (''gmv'', type_schema ''number''), (''currency'', type_schema ''string'')]
        RLow ''read'',
      local_spec ''get_month_new_users'' tx_tool_users []
        [(''year'', type_schema ''integer''), (''month'', type_schema ''integer''),
         (''new_users'', type_schema ''integer'')] RLow ''read'',
      local_spec ''get_order_count'' tx_tool_orders []
        [(''date'', type_schema ''string''), (''order_count'', type_schema ''integer'')] RLow ''read'',
      local_spec ''get_top_products'' tx_tool_products
        [(''limit'', JObj [(''type'', JStr ''integer''), (''default'', JInt 5)])]
        [(''top_products'', type_schema ''array''), (''count'', type_schema ''integer'')] RLow ''read'',
      local_spec ''get_refund_rate'' tx_tool_refund_rate []
        [(''total_orders'', type_schema ''integer''), (''refund_count'', type_schema ''integer''),
         (''refund_rate_percent'', type_schema ''number'')] RMedium ''read'']"

definition REFUND_TOOL :: tool_spec where
  "REFUND_TOOL = local_spec ''simulate_refund_order'' tx_tool_simulate
     [(''order_id'', type_schema ''string''), (''amount'', type_schema ''number'')]
     [(''simulated'', type_schema ''boolean''), (''refund_id'', type_schema ''string''),
      (''order_id'', type_schema ''string''), (''amount'', type_schema ''number''), (''status'', type_schema ''string'')]
     RHigh ''write''"

definition register_tools :: "switches \<Rightarrow> (string \<Rightarrow> 'w callable) \<Rightarrow> 'w gateway \<Rightarrow> 'w gateway" where
  "register_tools sw tools g =
     fold (\<lambda>spec. gw_register spec (tools (sp_tool_name spec)))
       (LOCAL_TOOLS @ (if sw ''demo_high_risk_tool_enabled'' then [REFUND_TOOL] else [])) g"

subsection \<open>The fake MCP server\<close>

definition DATE_LOOKUP_INFO :: mcp_tool_info where
  "DATE_LOOKUP_INFO =
     \<lparr>mi_name = ''date_lookup'', mi_description = tx_mcp_date, mi_input_schema = object_schema [],
      mi_output_schema = object_schema [(''date'', type_schema ''string''), (''month'', type_schema ''integer''),
        (''year'', type_schema ''integer'')],
      mi_risk_level = RLow, mi_permission_scope = ''read''\<rparr>"

definition CALCULATOR_INFO :: mcp_tool_info where
  "CALCULATOR_INFO =
     \<lparr>mi_name = ''calculator'', mi_description = tx_mcp_calc,
      mi_input_schema = object_schema
        [(''operation'', JObj [(''type'', JStr ''string''),
            (''enum'', jstrs [''add'', ''subtract'', ''percent_change''])]),
         (''a'', type_schema ''number''), (''b'', type_schema ''number'')] @
        [(''required'', jstrs [''operation'', ''a'', ''b''])],
      mi_output_schema = object_schema [(''result'', type_schema ''number''), (''operation'', type_schema ''string'')],
      mi_risk_level = RLow, mi_permission_scope = ''read''\<rparr>"

definition RULE_LOOKUP_INFO :: mcp_tool_info where
  "RULE_LOOKUP_INFO =
     \<lparr>mi_name = ''rule_lookup'', mi_description = tx_mcp_rule,
      mi_input_schema = object_schema
        [(''keyword'', JObj [(''type'', JStr ''string''), (''description'', JStr tx_mcp_rule_kw)])] @
        [(''required'', jstrs [''keyword''])],
      mi_output_schema = object_schema [(''keyword'', type_schema ''string''), (''rule'', type_schema ''string'')],
      mi_risk_level = RLow, mi_permission_scope = ''read''\<rparr>"

definition MOCK_RULES :: "(string \<times> string) list" where
  "MOCK_RULES = [(''refund'', tx_rule_refund), (''promotion'', tx_rule_promotion), (''shipping'', tx_rule_shipping),
     (''inventory'', tx_rule_inventory), (''pricing'', tx_rule_pricing)]"

definition fake_calculator :: "'w env \<Rightarrow> (string \<Rightarrow> rat option) \<Rightarrow> jdict \<Rightarrow> jdict" where
  "fake_calculator env rd args =
     (let op = dget args ''operation''; a = dget args ''a''; b = dget args ''b''
      in if op = JNull \<or> a = JNull \<or> b = JNull then [(''error'', JStr tx_calc_args)]
         else case (py_float rd a, py_float rd b) of
                (Some x, Some y) \<Rightarrow>
                  (if op = JStr ''add'' then [(''result'', JFloat (x + y)), (''operation'', JStr ''add'')]
                   else if op = JStr ''subtract''
                   then [(''result'', JFloat (x - y)), (''operation'', JStr ''subtract'')]
                   else if op = JStr ''percent_change''
                   then (if y = 0 then [(''error'', JStr tx_calc_zero)]
                         else [(''result'', JFloat (py_round 2 ((x - y) / \<bar>y\<bar> * 100))),
                               (''operation'', JStr ''percent_change'')])
                   else [(''error'', JStr (tx_calc_op (py_str env op)))])
              | _ \<Rightarrow> [(''error'', JStr tx_calc_numbers)])"

text \<open>\<open>k in v\<close> on a dynamic value.\<close>

fun py_in :: "string \<Rightarrow> json \<Rightarrow> string + bool" where
  "py_in k (JStr s) = Inr (str_in k s)"
| "py_in k (JList xs) = Inr (JStr k \<in> set xs)"
| "py_in k (JObj d) = Inr (map_of d k \<noteq> None)"
| "py_in k v = Inl (''argument of type '' @ utf8 [39] @ type_name v @ utf8 [39] @ '' is not iterable'')"

fun rule_scan :: "'w env \<Rightarrow> (string \<times> string) list \<Rightarrow> json \<Rightarrow> string + jdict" where
  "rule_scan env [] kw =
     Inr [(''keyword'', kw), (''rule'', JStr (tx_rule_none (py_str env kw)))]"
| "rule_scan env ((k, v) # rs) kw =
     (case py_in k kw of
        Inl e \<Rightarrow> Inl e
      | Inr True \<Rightarrow> Inr [(''keyword'', kw), (''rule'', JStr v)]
      | Inr False \<Rightarrow> rule_scan env rs kw)"

definition fake_rule_lookup :: "'w env \<Rightarrow> jdict \<Rightarrow> string + jdict" where
  "fake_rule_lookup env args =
     (let kw = dget_or args ''keyword'' (JStr [])
      in if \<not> truthy kw then Inr [(''error'', JStr tx_rule_arg)] else rule_scan env MOCK_RULES kw)"

definition digits_value :: "string \<Rightarrow> int" where
  "digits_value s = foldl (\<lambda>n c. 10 * n + (int (of_char c) - 48)) 0 s"

definition fake_date_lookup :: "string \<Rightarrow> jdict" where
  "fake_date_lookup now =
     [(''date'', JStr (take 10 now)), (''month'', JInt (digits_value (take 2 (drop 5 now)))),
      (''year'', JInt (digits_value (take 4 now)))]"

definition fake_call_tool :: "'w env \<Rightarrow> (string \<Rightarrow> rat option) \<Rightarrow> string \<Rightarrow> 'w callable" where
  "fake_call_tool env rd name args w =
     (if name = ''date_lookup'' then (Inr (JObj (fake_date_lookup (now_iso env w))), w)
      else if name = ''calculator'' then (Inr (JObj (fake_calculator env rd args)), w)
      else if name = ''rule_lookup'' then (map_sum id JObj (fake_rule_lookup env args), w)
      else (Inr (JObj [(''error'', JStr (tx_mcp_missing name))]), w))"

definition fake_mcp_client :: "'w env \<Rightarrow> (string \<Rightarrow> rat option) \<Rightarrow> 'w mcp_client" where
  "fake_mcp_client env rd =
     \<lparr>mc_list_tools = (\<lambda>w. (Inr [DATE_LOOKUP_INFO, CALCULATOR_INFO, RULE_LOOKUP_INFO], w)),
      mc_call_tool = fake_call_tool env rd\<rparr>"

text \<open>The branch of \<open>_register_mcp_tools\<close> for a mode other than \<open>real\<close>.\<close>

definition register_fake_mcp :: "'w env \<Rightarrow> (string \<Rightarrow> rat option) \<Rightarrow> 'w gateway \<Rightarrow> 'w \<Rightarrow> 'w gateway \<times> 'w" where
  "register_fake_mcp env rd g w =
     (let g1 = gw_register_mcp_server ''fake_ops_mcp'' (fake_mcp_client env rd) ANone g
      in case gw_discover_mcp_tools ''fake_ops_mcp'' g1 w of (_, g2, w2) \<Rightarrow> (g2, w2))"

definition shipped_gateway :: "'w env \<Rightarrow> (string \<Rightarrow> rat option) \<Rightarrow> switches \<Rightarrow> (string \<Rightarrow> 'w callable) \<Rightarrow> 'w \<Rightarrow> 'w gateway" where
  "shipped_gateway env rd sw tools w = fst (register_fake_mcp env rd (register_tools sw tools gateway_init) w)"

subsection \<open>The shipped registry\<close>

definition shipped_specs :: "switches \<Rightarrow> tool_spec list" where
  "shipped_specs sw =
     LOCAL_TOOLS @ (if sw ''demo_high_risk_tool_enabled'' then [REFUND_TOOL] else []) @
     map (mcp_spec ''fake_ops_mcp'') [DATE_LOOKUP_INFO, CALCULATOR_INFO, RULE_LOOKUP_INFO]"

lemma dput_fresh: "k \<notin> fst ` set d \<Longrightarrow> dput d k v = d @ [(k, v)]"
  by (induction d) (auto simp: dput_def)

definition named :: "tool_spec list \<Rightarrow> (string \<times> tool_spec) list" where
  "named specs = map (\<lambda>s. (sp_tool_name s, s)) specs"

lemma fst_named: "fst ` set (named specs) = set (map sp_tool_name specs)"
  by (simp add: named_def image_image)

lemma registry_register_fold:
  "distinct (map sp_tool_name (pre @ specs)) \<Longrightarrow> gw_registry g = named pre \<Longrightarrow>
   gw_registry (fold (\<lambda>s. gw_register s (h s)) specs g) = named (pre @ specs)"
proof (induction specs arbitrary: pre g)
  case (Cons s specs)
  have "gw_registry (gw_register s (h s) g) = named (pre @ [s])"
    using Cons.prems fst_named [of pre] by (simp add: gw_register_def dput_fresh) (simp add: named_def)
  with Cons.IH [of "pre @ [s]" "gw_register s (h s) g"] Cons.prems(1) show ?case by simp
qed simp

lemma registry_discover_loop:
  "distinct (map sp_tool_name pre @ map mi_name tis) \<Longrightarrow> gw_registry g = named pre \<Longrightarrow>
   \<forall>n. is_mcp_tool_allowed g server n \<Longrightarrow>
   gw_registry (snd (discover_loop server tis g)) = named (pre @ map (mcp_spec server) tis)"
proof (induction tis arbitrary: pre g)
  case (Cons ti tis)
  let ?g = "gw_add_mcp (mcp_spec server ti) g"
  have name: "sp_tool_name (mcp_spec server ti) = mi_name ti" by (simp add: mcp_spec_def new_spec_def)
  have reg: "gw_registry ?g = named (pre @ [mcp_spec server ti])"
    using Cons.prems fst_named [of pre] by (simp add: gw_add_mcp_def dput_fresh name) (simp add: named_def)
  have "\<forall>n. is_mcp_tool_allowed ?g server n"
    using Cons.prems(3) by (simp add: is_mcp_tool_allowed_def gw_add_mcp_def)
  with Cons.IH [of "pre @ [mcp_spec server ti]" ?g] Cons.prems reg show ?case
    by (simp add: split_beta Let_def name gw_add_mcp_def)
qed simp

lemma local_names:
  "map sp_tool_name (LOCAL_TOOLS @ (if b then [REFUND_TOOL] else [])) =
     [''get_today_gmv'', ''get_month_new_users'', ''get_order_count'', ''get_top_products'', ''get_refund_rate''] @
     (if b then [''simulate_refund_order''] else [])"
  by (simp add: LOCAL_TOOLS_def REFUND_TOOL_def local_spec_def new_spec_def)

lemma shipped_registry:
  "gw_registry (shipped_gateway env rd sw tools w) = named (shipped_specs sw)"
proof -
  let ?pre = "LOCAL_TOOLS @ (if sw ''demo_high_risk_tool_enabled'' then [REFUND_TOOL] else [])"
  let ?g = "register_tools sw tools gateway_init"
  let ?g1 = "gw_register_mcp_server ''fake_ops_mcp'' (fake_mcp_client env rd) ANone ?g"
  let ?tis = "[DATE_LOOKUP_INFO, CALCULATOR_INFO, RULE_LOOKUP_INFO]"
  have names: "map mi_name ?tis = [''date_lookup'', ''calculator'', ''rule_lookup'']"
    by (simp add: DATE_LOOKUP_INFO_def CALCULATOR_INFO_def RULE_LOOKUP_INFO_def)
  have dist: "distinct (map sp_tool_name ?pre @ map mi_name ?tis)"
    by (simp only: names local_names) simp
  have "gw_registry ?g = named ([] @ ?pre)"
    unfolding register_tools_def
    by (rule registry_register_fold) (use dist in \<open>simp_all add: gateway_init_def named_def\<close>)
  then have reg: "gw_registry ?g1 = named ?pre" by (simp add: gw_register_mcp_server_def Let_def)
  have all: "\<forall>n. is_mcp_tool_allowed ?g1 ''fake_ops_mcp'' n"
    by (simp add: is_mcp_tool_allowed_def gw_register_mcp_server_def parse_allowlist_def Let_def delete_conv')
  have "gw_registry (snd (discover_loop ''fake_ops_mcp'' ?tis ?g1)) = named (?pre @ map (mcp_spec ''fake_ops_mcp'') ?tis)"
    by (rule registry_discover_loop [OF dist reg all])
  then show ?thesis
    by (simp add: shipped_gateway_def register_fake_mcp_def gw_discover_mcp_tools_def gw_register_mcp_server_def
        fake_mcp_client_def shipped_specs_def split_beta Let_def)
qed

lemma shipped_get_tool:
  "gw_get_tool (shipped_gateway env rd sw tools w) t =
     map_of (named (shipped_specs sw)) t"
  by (simp add: gw_get_tool_def shipped_registry)

definition rule_tools :: "switches \<Rightarrow> string set" where
  "rule_tools sw = {t. \<exists>r \<in> set build_planner_rules. rule_enabled sw r \<and> rr_tool_name r = Some t}"

definition plan_tools :: "string set" where
  "plan_tools = {t. \<exists>q. t \<in> ms_tool_name ` set (mp_steps (multitool_plan q))}"

lemma shipped_names:
  "sp_tool_name ` set (shipped_specs sw) =
     {''get_today_gmv'', ''get_month_new_users'', ''get_order_count'', ''get_top_products'', ''get_refund_rate'',
      ''date_lookup'', ''calculator'', ''rule_lookup''} \<union>
     (if sw ''demo_high_risk_tool_enabled'' then {''simulate_refund_order''} else {})"
  by (simp add: shipped_specs_def LOCAL_TOOLS_def REFUND_TOOL_def local_spec_def new_spec_def mcp_spec_def
      DATE_LOOKUP_INFO_def CALCULATOR_INFO_def RULE_LOOKUP_INFO_def) blast?

lemma shipped_dom:
  "dom (gw_get_tool (shipped_gateway env rd sw tools w)) = sp_tool_name ` set (shipped_specs sw)"
proof -
  have "gw_get_tool (shipped_gateway env rd sw tools w) =
      map_of (named (shipped_specs sw))"
    by (rule ext) (rule shipped_get_tool)
  then show ?thesis by (simp add: dom_map_of_conv_image_fst named_def image_image)
qed

lemma rule_tools_shipped:
  "rule_tools sw \<subseteq> {''date_lookup'', ''get_today_gmv'', ''get_month_new_users'', ''get_order_count'',
     ''get_top_products'', ''get_refund_rate''} \<union>
     (if sw ''demo_high_risk_tool_enabled'' then {''simulate_refund_order''} else {})"
  by (auto simp: rule_tools_def build_planner_rules_def ROUTING_RULE_SOURCE_def has_tool_def rule_enabled_def)

lemma shipped_held_back:
  "not_held_back (shipped_gateway env rd sw tools w) t \<longleftrightarrow>
     \<not> (t = ''simulate_refund_order'' \<and> sw ''demo_high_risk_tool_enabled'')"
  by (simp add: not_held_back_def shipped_get_tool named_def restricted_scopes_def shipped_specs_def LOCAL_TOOLS_def REFUND_TOOL_def local_spec_def
      new_spec_def mcp_spec_def DATE_LOOKUP_INFO_def CALCULATOR_INFO_def RULE_LOOKUP_INFO_def)

lemma plan_tools_shipped:
  "plan_tools \<subseteq> {''get_today_gmv'', ''get_refund_rate'', ''date_lookup'', ''calculator'', ''rule_lookup''}"
proof
  fix t assume "t \<in> plan_tools"
  then obtain q where "t \<in> ms_tool_name ` set (mp_steps (multitool_plan q))"
    by (auto simp: plan_tools_def)
  then show "t \<in> {''get_today_gmv'', ''get_refund_rate'', ''date_lookup'', ''calculator'', ''rule_lookup''}"
    using multitool_plan_cases [of q] by (auto simp: plan_defs)
qed

text \<open>The shipped registry fits the planners: every tool that the enabled keyword rules or any multi-tool
  plan can name is registered, and the only tool of the registry the gates hold back is the demo refund, which is
  there exactly when its switch is on.\<close>

lemma shipped_tools_cover_plans:
  "rule_tools sw \<union> plan_tools \<subseteq> dom (gw_get_tool (shipped_gateway env rd sw tools w)) \<and>
   {t. \<not> not_held_back (shipped_gateway env rd sw tools w) t} =
     (if sw ''demo_high_risk_tool_enabled'' then {''simulate_refund_order''} else {})"
proof
  have names: "dom (gw_get_tool (shipped_gateway env rd sw tools w)) =
     {''get_today_gmv'', ''get_month_new_users'', ''get_order_count'', ''get_top_products'', ''get_refund_rate'',
      ''date_lookup'', ''calculator'', ''rule_lookup''} \<union>
     (if sw ''demo_high_risk_tool_enabled'' then {''simulate_refund_order''} else {})" (is "_ = ?shipped")
    unfolding shipped_dom shipped_names ..
  have "rule_tools sw \<subseteq> ?shipped"
    by (rule subset_trans [OF rule_tools_shipped], rule Un_mono [OF _ subset_refl])
       (simp only: insert_subset insert_iff HOL.refl simp_thms empty_subsetI)
  moreover have "plan_tools \<subseteq> ?shipped"
    by (rule subset_trans [OF plan_tools_shipped], rule le_supI1)
       (simp only: insert_subset insert_iff HOL.refl simp_thms empty_subsetI)
  ultimately show "rule_tools sw \<union> plan_tools \<subseteq> dom (gw_get_tool (shipped_gateway env rd sw tools w))"
    unfolding names by (rule Un_least)
qed (simp add: shipped_held_back)

end
