(* ===== verification/Unicode_Text.thy ===== *)
theory Unicode_Text
  imports Runtime_Prelude
begin

text \<open>
  Texts as Python's regular expressions and string methods see them: lists of characters, each the bytes
  of one code point. What Python knows of a character outside ASCII (\<open>str.isspace\<close>, whether \<open>re\<close> counts
  it as a digit or as part of a word, \<open>str.upper\<close> and \<open>str.lower\<close>) is the parameter \<open>unicode\<close>.
\<close>

subsection \<open>Characters\<close>

type_synonym uchar = string

function py_chars :: "string \<Rightarrow> uchar list" where
  "py_chars [] = []"
| "py_chars (c # cs) = (c # takeWhile is_cont cs) # py_chars (dropWhile is_cont cs)"
  by pat_completeness auto
termination by (relation "measure length") (auto simp: le_imp_less_Suc length_dropWhile_le)

record unicode =
  un_word :: "uchar \<Rightarrow> bool"
  un_space :: "uchar \<Rightarrow> bool"
  un_digit :: "uchar \<Rightarrow> bool"
  un_upper :: "uchar \<Rightarrow> uchar list"
  un_lower :: "uchar \<Rightarrow> uchar list"

definition ascii :: "uchar \<Rightarrow> bool" where
  "ascii ch = (case ch of [c] \<Rightarrow> (of_char c :: nat) < 128 | _ \<Rightarrow> False)"

definition word_char :: "char \<Rightarrow> bool" where
  "word_char c = (let n = (of_char c :: nat)
     in (48 \<le> n \<and> n \<le> 57) \<or> (65 \<le> n \<and> n \<le> 90) \<or> (97 \<le> n \<and> n \<le> 122) \<or> n = 95)"

definition is_word :: "unicode \<Rightarrow> uchar \<Rightarrow> bool" where
  "is_word u ch = (if ascii ch then word_char (hd ch) else un_word u ch)"

definition is_space :: "unicode \<Rightarrow> uchar \<Rightarrow> bool" where
  "is_space u ch = (if ascii ch then py_space (hd ch) else un_space u ch)"

definition upper_of :: "unicode \<Rightarrow> uchar \<Rightarrow> uchar list" where
  "upper_of u ch = (if ascii ch then [[upper_char (hd ch)]] else un_upper u ch)"

definition u_upper :: "unicode \<Rightarrow> uchar list \<Rightarrow> uchar list" where
  "u_upper u s = concat (map (upper_of u) s)"

definition strip_end :: "('a \<Rightarrow> bool) \<Rightarrow> 'a list \<Rightarrow> 'a list" where
  "strip_end P s = rev (dropWhile P (rev s))"

definition u_strip :: "unicode \<Rightarrow> uchar list \<Rightarrow> uchar list" where
  "u_strip u s = strip_end (is_space u) (dropWhile (is_space u) s)"

definition chars :: "string \<Rightarrow> uchar list" where
  "chars s = map (\<lambda>c. [c]) s"

text \<open>\<open>s.split()[0]\<close>, empty when there is none.\<close>

definition first_word :: "unicode \<Rightarrow> uchar list \<Rightarrow> string" where
  "first_word u s = concat (takeWhile (\<lambda>c. \<not> is_space u c) (dropWhile (is_space u) s))"

subsection \<open>Characters and stripping\<close>

text \<open>
  What the guard relies on of the Unicode tables: a space is no part of a word and its own upper case,
  and the upper case of any other character is not empty and has no space.
\<close>

definition unicode_ok :: "unicode \<Rightarrow> bool" where
  "unicode_ok u \<longleftrightarrow>
     (\<forall>c. \<not> ascii c \<longrightarrow> (if un_space u c then \<not> un_word u c \<and> un_upper u c = [c]
        else un_upper u c \<noteq> [] \<and> list_all (\<lambda>d. \<not> is_space u d) (un_upper u c)))"

definition chars_ok :: "uchar list \<Rightarrow> bool" where
  "chars_ok s \<longleftrightarrow>
     (\<forall>ch \<in> set s. ch \<noteq> [] \<and> list_all is_cont (tl ch)) \<and> (\<forall>ch \<in> set (tl s). \<not> is_cont (hd ch))"

lemma dropWhile_hd: "dropWhile P s = c # cs \<Longrightarrow> \<not> P c"
  by (metis hd_dropWhile list.distinct(1) list.sel(1))

lemma in_tl: "x \<in> set (tl s) \<Longrightarrow> x \<in> set s"
  by (cases s) auto

lemma py_chars_hd: "\<forall>ch \<in> set (py_chars s). s \<noteq> [] \<and> (\<not> is_cont (hd s) \<longrightarrow> \<not> is_cont (hd ch))"
proof (induction s rule: py_chars.induct)
  case (2 c cs)
  show ?case
  proof (cases "dropWhile is_cont cs")
    case (Cons d ds)
    with 2 dropWhile_hd [OF Cons] show ?thesis by auto
  next
    case Nil
    show ?thesis unfolding py_chars.simps Nil by simp
  qed
qed simp

lemma py_chars_tl: "ch \<in> set (tl (py_chars s)) \<Longrightarrow> \<not> is_cont (hd ch)"
proof (cases s)
  case (Cons c cs)
  assume ch: "ch \<in> set (tl (py_chars s))"
  show ?thesis
  proof (cases "dropWhile is_cont cs")
    case (Cons d ds)
    with ch \<open>s = c # cs\<close> py_chars_hd [of "d # ds"] dropWhile_hd [OF Cons] show ?thesis by auto
  next
    case Nil
    with ch \<open>s = c # cs\<close> show ?thesis by simp
  qed
qed simp

lemma chars_ok_py_chars: "chars_ok (py_chars s)"
proof -
  have "\<forall>ch \<in> set (py_chars s). ch \<noteq> [] \<and> list_all is_cont (tl ch)"
    by (induction s rule: py_chars.induct) (auto simp: list_all_iff dest: set_takeWhileD)
  then show ?thesis by (simp add: chars_ok_def py_chars_tl)
qed

lemma py_chars_concat: "chars_ok s \<Longrightarrow> py_chars (concat s) = s"
proof (induction s)
  case (Cons ch s)
  then obtain c cs where ch: "ch = c # cs" "\<forall>x \<in> set cs. is_cont x"
    by (cases ch) (auto simp: chars_ok_def list_all_iff)
  have ok: "chars_ok s" using Cons.prems by (auto simp: chars_ok_def dest: in_tl)
  have rest: "takeWhile is_cont (concat s) = [] \<and> dropWhile is_cont (concat s) = concat s"
  proof (cases s)
    case (Cons d ds)
    with \<open>chars_ok (ch # s)\<close> show ?thesis by (cases d) (auto simp: chars_ok_def)
  qed simp
  show ?case using ch rest Cons.IH [OF ok] by (simp add: takeWhile_append2 dropWhile_append2)
qed simp

lemma chars_ok_part: "chars_ok (a @ b @ c) \<Longrightarrow> chars_ok b"
  by (cases a; cases b) (auto simp: chars_ok_def)

lemma chars_ok_append_ascii: "chars_ok s \<Longrightarrow> \<forall>c \<in> set t. \<not> is_cont c \<Longrightarrow> chars_ok (s @ chars t)"
  by (cases s; cases t) (auto simp: chars_ok_def chars_def)

lemma strip_end_split: "\<exists>t. s = strip_end P s @ t \<and> (\<forall>c \<in> set t. P c)"
proof -
  have "s = rev (dropWhile P (rev s)) @ rev (takeWhile P (rev s))"
    by (metis rev_append rev_rev_ident takeWhile_dropWhile_id)
  then show ?thesis by (auto simp: strip_end_def dest: set_takeWhileD intro!: exI [of _ "rev (takeWhile P (rev s))"])
qed

lemma strip_end_last: "strip_end P s \<noteq> [] \<Longrightarrow> \<not> P (last (strip_end P s))"
  by (simp add: strip_end_def last_rev hd_dropWhile)

lemma strip_end_id: "s = [] \<or> \<not> P (last s) \<Longrightarrow> strip_end P s = s"
  by (cases s rule: rev_cases) (simp_all add: strip_end_def)

lemma strip_end_hd: "strip_end P s \<noteq> [] \<Longrightarrow> hd (strip_end P s) = hd s"
  using strip_end_split [of s P] by (metis hd_append2)

lemma u_strip_ends:
  assumes "u_strip u s \<noteq> []"
  shows "\<not> is_space u (hd (u_strip u s)) \<and> \<not> is_space u (last (u_strip u s))"
proof -
  let ?t = "dropWhile (is_space u) s"
  have "?t \<noteq> []" using assms by (cases "?t = []") (simp_all add: u_strip_def strip_end_def)
  then show ?thesis
    using assms strip_end_last [of "is_space u" ?t] strip_end_hd [of "is_space u" ?t] hd_dropWhile [of "is_space u" s]
    by (simp add: u_strip_def)
qed

lemma u_strip_id: "s = [] \<or> \<not> is_space u (hd s) \<and> \<not> is_space u (last s) \<Longrightarrow> u_strip u s = s"
  by (cases s) (auto simp: u_strip_def strip_end_id)

lemma u_strip_part: "\<exists>a b. s = a @ u_strip u s @ b"
  using strip_end_split [of "dropWhile (is_space u) s" "is_space u"]
  by (metis takeWhile_dropWhile_id u_strip_def)

lemma ascii_single [simp]: "(of_char c :: nat) < 128 \<Longrightarrow> ascii [c]"
  by (simp add: ascii_def)

lemma u_upper_simps [simp]:
  "u_upper u [] = []" "u_upper u (c # s) = upper_of u c @ u_upper u s" "u_upper u (s @ t) = u_upper u s @ u_upper u t"
  by (simp_all add: u_upper_def)

lemma ascii_marks [simp]:
  "is_word u ''-'' = False" "is_word u ''*'' = False" "is_word u '';'' = False" "is_word u '' '' = False"
  "is_word u [char_of (10::nat)] = False" "is_space u '' '' = True" "is_space u '';'' = False"
  "upper_of u ''-'' = [''-'']" "upper_of u ''*'' = [''*'']" "upper_of u '';'' = ['';'']" "upper_of u '' '' = ['' '']"
  "upper_of u [char_of (10::nat)] = [[char_of (10::nat)]]"
  by (simp_all add: is_word_def is_space_def upper_of_def ascii_def word_char_def py_space_def upper_char_def)

lemma upper_of_space: "unicode_ok u \<Longrightarrow> is_space u c \<Longrightarrow> upper_of u c = [c] \<and> \<not> is_word u c"
  by (auto simp: is_space_def upper_of_def is_word_def unicode_ok_def ascii_def py_space_def upper_char_def
      word_char_def Let_def split: list.splits if_splits)

lemma upper_of_other:
  "unicode_ok u \<Longrightarrow> \<not> is_space u c \<Longrightarrow> upper_of u c \<noteq> [] \<and> (\<forall>d \<in> set (upper_of u c). \<not> is_space u d)"
proof (cases "ascii c")
  case True
  assume "\<not> is_space u c"
  with True have "\<not> py_space (hd c)" "(of_char (hd c) :: nat) < 128"
    by (auto simp: is_space_def ascii_def split: list.splits)
  then have "\<not> py_space (upper_char (hd c)) \<and> (of_char (upper_char (hd c)) :: nat) < 128"
    by (auto simp: py_space_def upper_char_def Let_def)
  with True show ?thesis by (simp add: upper_of_def is_space_def)
next
  case False
  assume u: "unicode_ok u" and c: "\<not> is_space u c"
  have "if un_space u c then \<not> un_word u c \<and> un_upper u c = [c]
      else un_upper u c \<noteq> [] \<and> list_all (\<lambda>d. \<not> is_space u d) (un_upper u c)"
    using u False by (simp add: unicode_ok_def)
  with c False show ?thesis by (simp add: is_space_def upper_of_def list_all_iff)
qed

text \<open>Unicode cut down to the ideographic space, every other character a letter.\<close>

definition demo_unicode :: unicode where
  "demo_unicode = \<lparr>un_word = (\<lambda>c. c \<noteq> utf8 [0x3000]), un_space = (\<lambda>c. c = utf8 [0x3000]),
     un_digit = (\<lambda>c. False), un_upper = (\<lambda>c. [c]), un_lower = (\<lambda>c. [c])\<rparr>"

lemma demo_unicode_ok: "unicode_ok demo_unicode"
  by (simp add: unicode_ok_def demo_unicode_def is_space_def)

end
