(* ===== verification/Sql_Guard.thy ===== *)
theory Sql_Guard
  imports Query_Texts Risk_Intent Unicode_Text
begin

text \<open>
  \<open>SQLGuard\<close> (\<open>app/agent/nl2sql/sql_guard.py\<close>): the check that a generated text is one read-only
  statement, and the limit it adds, over the characters of the text.
\<close>

subsection \<open>Words\<close>

text \<open>
  \<open>re.search(r'\bKW\b', s)\<close>, the pattern given by the characters each of its letters matches. The
  patterns begin and end with an ASCII letter, so the two boundaries say that no word character comes
  before the match and none after it.
\<close>

fun rx_here :: "uchar list list \<Rightarrow> uchar list \<Rightarrow> bool" where
  "rx_here [] s = True"
| "rx_here (f # fs) [] = False"
| "rx_here (f # fs) (c # cs) = (c \<in> set f \<and> rx_here fs cs)"

definition word_next :: "unicode \<Rightarrow> uchar list \<Rightarrow> bool" where
  "word_next u s = (case s of [] \<Rightarrow> False | c # _ \<Rightarrow> is_word u c)"

fun word_search :: "unicode \<Rightarrow> uchar list list \<Rightarrow> bool \<Rightarrow> uchar list \<Rightarrow> bool" where
  "word_search u fs before [] = False"
| "word_search u fs before (c # cs) =
     ((\<not> before \<and> rx_here fs (c # cs) \<and> \<not> word_next u (drop (length fs) (c # cs))) \<or>
      word_search u fs (is_word u c) cs)"

definition kw_forms :: "string \<Rightarrow> uchar list list" where
  "kw_forms kw = map (\<lambda>c. [[c]]) kw"

definition has_word :: "unicode \<Rightarrow> string \<Rightarrow> uchar list \<Rightarrow> bool" where
  "has_word u kw s = word_search u (kw_forms kw) False s"

text \<open>\<open>\bLIMIT\b\<close> under \<open>re.IGNORECASE\<close>.\<close>

definition has_limit :: "unicode \<Rightarrow> uchar list \<Rightarrow> bool" where
  "has_limit u s = word_search u (map case_forms ''limit'') False s"

subsection \<open>The guard\<close>

record guard_result =
  gr_allowed :: bool
  gr_sql :: string
  gr_reason :: string

definition blocked :: "string \<Rightarrow> string \<Rightarrow> guard_result" where
  "blocked sql why = \<lparr>gr_allowed = False, gr_sql = sql, gr_reason = why\<rparr>"

definition BLOCKED_KEYWORDS :: "string list" where
  "BLOCKED_KEYWORDS =
     [''DELETE'', ''UPDATE'', ''INSERT'', ''DROP'', ''TRUNCATE'', ''ALTER'', ''CREATE'', ''PRAGMA'']"

definition find_blocked :: "unicode \<Rightarrow> uchar list \<Rightarrow> string option" where
  "find_blocked u s = List.find (\<lambda>kw. has_word u kw s) BLOCKED_KEYWORDS"

definition check_multi_statement :: "unicode \<Rightarrow> uchar list \<Rightarrow> guard_result option" where
  "check_multi_statement u sql =
     (let without_trailing = strip_end (\<lambda>c. c = '';'') (strip_end (is_space u) sql)
      in if '';'' \<in> set without_trailing then Some (blocked (concat sql) tx_sql_multi) else None)"

text \<open>\<open>line[line.find("--") + 2:]\<close>.\<close>

fun line_comment :: "uchar list \<Rightarrow> uchar list option" where
  "line_comment (x # y # zs) = (if x = ''-'' \<and> y = ''-'' then Some zs else line_comment (y # zs))"
| "line_comment s = None"

text \<open>The matches of \<open>/\*(.*?)\*/\<close> under \<open>re.DOTALL\<close>.\<close>

fun until_close :: "uchar list \<Rightarrow> (uchar list \<times> uchar list) option" where
  "until_close (x # y # zs) =
     (if x = ''*'' \<and> y = ''/'' then Some ([], zs) else map_option (apfst (Cons x)) (until_close (y # zs)))"
| "until_close s = None"

lemma until_close_parts: "until_close s = Some (g, rest) \<Longrightarrow> s = g @ [''*'', ''/''] @ rest"
  by (induction s arbitrary: g rest rule: until_close.induct) (auto split: if_splits)

function block_comments :: "uchar list \<Rightarrow> uchar list list" where
  "block_comments (x # y # zs) =
     (if x = ''/'' \<and> y = ''*''
      then (case until_close zs of Some (g, rest) \<Rightarrow> g # block_comments rest | None \<Rightarrow> block_comments (y # zs))
      else block_comments (y # zs))"
| "block_comments [] = []"
| "block_comments [x] = []"
  by pat_completeness auto
termination by (relation "measure length") (auto dest: until_close_parts)

definition extract_comment_text :: "uchar list \<Rightarrow> uchar list" where
  "extract_comment_text sql =
     str_join ['' ''] (List.map_filter line_comment (split_on [char_of (10::nat)] sql) @ block_comments sql)"

definition check_comments :: "unicode \<Rightarrow> uchar list \<Rightarrow> guard_result option" where
  "check_comments u sql =
     (let comment = extract_comment_text sql
      in if comment = [] then None
         else map_option (\<lambda>kw. blocked (concat sql) (tx_sql_comment_keyword kw)) (find_blocked u (u_upper u comment)))"

definition validate_cte :: "uchar list \<Rightarrow> uchar list \<Rightarrow> guard_result option" where
  "validate_cte sql normalized =
     (if \<not> str_in (chars ''SELECT'') normalized then Some (blocked (concat sql) tx_sql_cte) else None)"

definition ensure_limit :: "unicode \<Rightarrow> uchar list \<Rightarrow> uchar list" where
  "ensure_limit u sql =
     (if has_limit u sql then sql else u_strip u (strip_end (\<lambda>c. c = '';'') sql) @ chars '' LIMIT 100;'')"

definition sg_check :: "unicode \<Rightarrow> string \<Rightarrow> guard_result" where
  "sg_check u sql =
     (let stripped = u_strip u (py_chars sql) in
      if sql = [] \<or> stripped = [] then blocked sql tx_sql_empty
      else case check_multi_statement u stripped of
        Some r \<Rightarrow> r
      | None \<Rightarrow>
          (case check_comments u stripped of
             Some r \<Rightarrow> r
           | None \<Rightarrow>
               (let normalized = u_upper u stripped in
                case find_blocked u normalized of
                  Some kw \<Rightarrow> blocked sql (tx_sql_keyword kw)
                | None \<Rightarrow>
                    (let fw = first_word u normalized in
                     if fw \<noteq> ''SELECT'' \<and> fw \<noteq> ''WITH'' then blocked sql (tx_sql_first_word fw)
                     else case (if fw = ''WITH'' then validate_cte stripped normalized else None) of
                         Some r \<Rightarrow> r
                       | None \<Rightarrow>
                           \<lparr>gr_allowed = True, gr_sql = concat (ensure_limit u stripped), gr_reason = []\<rparr>))))"

subsection \<open>Finding words\<close>

lemma rx_here_length: "rx_here fs s \<Longrightarrow> length fs \<le> length s"
  by (induction fs s rule: rx_here.induct) auto

lemma rx_here_append: "rx_here fs s \<Longrightarrow> rx_here fs (s @ t)"
  by (induction fs s rule: rx_here.induct) auto

lemma rx_here_split: "x \<notin> \<Union> (set ` set fs) \<Longrightarrow> rx_here fs (s @ x # t) = rx_here fs s"
proof (induction fs s rule: rx_here.induct)
  case (2 f fs)
  then show ?case by auto
qed auto

lemma word_next_split: "\<not> is_word u x \<Longrightarrow> word_next u (r @ x # t) = word_next u r"
  by (cases r) (auto simp: word_next_def)

text \<open>A character that is no part of a word separates the search.\<close>

lemma word_search_split:
  assumes x: "\<not> is_word u x" "x \<notin> \<Union> (set ` set fs)" and fs: "fs \<noteq> []"
  shows "word_search u fs b (s @ x # t) \<longleftrightarrow> word_search u fs b s \<or> word_search u fs False t"
proof (induction s arbitrary: b)
  case Nil
  have "\<not> rx_here fs (x # t)" using x(2) fs by (cases fs) auto
  then show ?case using x(1) by simp
next
  case (Cons c s)
  have "(rx_here fs (c # s @ x # t) \<and> \<not> word_next u (drop (length fs) (c # s @ x # t))) =
      (rx_here fs (c # s) \<and> \<not> word_next u (drop (length fs) (c # s)))"
    using rx_here_split [OF x(2), of "c # s" t] rx_here_length [of fs "c # s"] word_next_split [OF x(1)]
    by (auto simp flip: append_Cons)
  then show ?case using Cons.IH [of "is_word u c"] by auto
qed

text \<open>The keywords consist of ASCII letters.\<close>

lemma keyword_letters:
  "kw \<in> set BLOCKED_KEYWORDS \<Longrightarrow> kw \<noteq> [] \<and> (\<forall>c \<in> set kw. (of_char c :: nat) < 128 \<and> word_char c)"
  unfolding BLOCKED_KEYWORDS_def list.set insert_iff empty_iff
  by (elim disjE FalseE; hypsubst; simp add: word_char_def)

lemma has_word_split:
  assumes "kw \<in> set BLOCKED_KEYWORDS" and "\<not> is_word u x"
  shows "has_word u kw (s @ x # t) \<longleftrightarrow> has_word u kw s \<or> has_word u kw t"
proof -
  have "x \<notin> \<Union> (set ` set (kw_forms kw))"
    using assms keyword_letters [OF assms(1)] by (auto simp: kw_forms_def is_word_def)
  then show ?thesis
    unfolding has_word_def using assms keyword_letters [OF assms(1)]
    by (intro word_search_split) (auto simp: kw_forms_def)
qed

lemma has_word_Nil [simp]: "\<not> has_word u kw []"
  by (simp add: has_word_def)

definition clean :: "unicode \<Rightarrow> uchar list \<Rightarrow> bool" where
  "clean u s \<longleftrightarrow> (\<forall>kw \<in> set BLOCKED_KEYWORDS. \<not> has_word u kw s)"

lemma find_blocked_None: "find_blocked u s = None \<longleftrightarrow> clean u s"
  by (auto simp: find_blocked_def find_None_iff clean_def)

lemma clean_Nil [simp]: "clean u []"
  by (simp add: clean_def)

lemma clean_split: "\<not> is_word u x \<Longrightarrow> clean u (s @ x # t) \<longleftrightarrow> clean u s \<and> clean u t"
  by (auto simp: clean_def has_word_split)

subsection \<open>Comments are covered\<close>

lemma line_comment_parts: "line_comment s = Some c \<Longrightarrow> \<exists>p. s = p @ [''-'', ''-''] @ c"
proof (induction s rule: line_comment.induct)
  case (1 x y zs)
  show ?case
  proof (cases "x = ''-'' \<and> y = ''-''")
    case False
    with 1 obtain p where "y # zs = p @ [''-'', ''-''] @ c" by auto
    then have "x # y # zs = (x # p) @ [''-'', ''-''] @ c" by simp
    then show ?thesis by blast
  qed (use 1 in auto)
qed auto

lemma split_on_parts: "w \<in> set (split_on d s) \<Longrightarrow> \<exists>a b. s = a @ w @ b \<and> (b = [] \<or> hd b = d)"
proof (induction s arbitrary: w)
  case (Cons c s)
  obtain v vs where v: "split_on d s = v # vs" by (cases "split_on d s") auto
  show ?case
  proof (cases "c = d")
    case True
    with Cons.prems consider "w = []" | "w \<in> set (split_on d s)" by auto
    then show ?thesis
    proof cases
      case 1
      then show ?thesis using True by (intro exI [of _ "[]"] exI [of _ "c # s"]) simp
    next
      case 2
      with Cons.IH obtain a b where "s = a @ w @ b" "b = [] \<or> hd b = d" by blast
      then show ?thesis by (intro exI [of _ "c # a"] exI [of _ b]) simp
    qed
  next
    case False
    have "hd (split_on d s) = takeWhile (\<lambda>x. x \<noteq> d) s"
      by (induction s) (auto split: list.split)
    then have "s = v @ dropWhile (\<lambda>x. x \<noteq> d) s" using v by simp
    then have head: "\<exists>b. c # s = [] @ (c # v) @ b \<and> (b = [] \<or> hd b = d)"
      using hd_dropWhile [of "\<lambda>x. x \<noteq> d" s] by (intro exI [of _ "dropWhile (\<lambda>x. x \<noteq> d) s"]) auto
    from Cons.prems False v consider "w = c # v" | "w \<in> set (split_on d s)" by auto
    then show ?thesis
    proof cases
      case 1
      with head show ?thesis by blast
    next
      case 2
      with Cons.IH obtain a b where "s = a @ w @ b" "b = [] \<or> hd b = d" by blast
      then have "c # s = (c # a) @ w @ b \<and> (b = [] \<or> hd b = d)" by simp
      then show ?thesis by blast
    qed
  qed
qed simp

lemma block_comments_parts: "g \<in> set (block_comments s) \<Longrightarrow> \<exists>a b. s = a @ [''*''] @ g @ [''*''] @ b"
proof (induction s rule: block_comments.induct)
  case (1 x y zs)
  have more: "\<exists>a b. x # y # zs = a @ [''*''] @ g @ [''*''] @ b"
    if "\<exists>a b. y # zs = a @ [''*''] @ g @ [''*''] @ b" for g
    using that by (metis append_Cons)
  show ?case
  proof (cases "x = ''/'' \<and> y = ''*''")
    case True
    show ?thesis
    proof (cases "until_close zs")
      case None
      with True 1 more show ?thesis by auto
    next
      case (Some p)
      obtain h rest where p: "p = (h, rest)" by (cases p)
      have zs: "zs = h @ [''*'', ''/''] @ rest" using until_close_parts [OF Some [unfolded p]] .
      from 1(4) True Some p consider "g = h" | "g \<in> set (block_comments rest)" by auto
      then show ?thesis
      proof cases
        case 1
        then show ?thesis using True zs by (intro exI [of _ "[x]"] exI [of _ "''/'' # rest"]) simp
      next
        case 2
        then obtain a b where "rest = a @ [''*''] @ g @ [''*''] @ b"
          using "1.IH"(2) [OF True Some p [symmetric] 2] by blast
        then show ?thesis using zs
          by (intro exI [of _ "x # y # h @ [''*'', ''/''] @ a"] exI [of _ b]) simp
      qed
    qed
  qed (use 1 more in auto)
qed auto

lemma line_comment_covered:
  assumes "w \<in> set (split_on [char_of (10::nat)] s)" "line_comment w = Some c" "clean u (u_upper u s)"
  shows "clean u (u_upper u c)"
proof -
  obtain a b where s: "s = a @ w @ b" and b: "b = [] \<or> hd b = [char_of (10::nat)]"
    using split_on_parts [OF assms(1)] by blast
  obtain p where "w = p @ [''-'', ''-''] @ c" using line_comment_parts [OF assms(2)] by blast
  then have "clean u (u_upper u (a @ p @ [''-'']) @ ''-'' # u_upper u (c @ b))" using assms(3) s by simp
  then have cb: "clean u (u_upper u (c @ b))" by (simp only: clean_split ascii_marks simp_thms)
  show ?thesis
  proof (cases b)
    case (Cons x b')
    with b cb have "clean u (u_upper u c @ [char_of (10::nat)] # u_upper u b')" by simp
    then show ?thesis by (simp only: clean_split ascii_marks simp_thms)
  qed (use cb in simp)
qed

lemma block_comment_covered:
  assumes "g \<in> set (block_comments s)" "clean u (u_upper u s)"
  shows "clean u (u_upper u g)"
proof -
  obtain a b where "s = a @ [''*''] @ g @ [''*''] @ b" using block_comments_parts [OF assms(1)] by blast
  then have "clean u (u_upper u a @ ''*'' # u_upper u g @ ''*'' # u_upper u b)" using assms(2) by simp
  then show ?thesis by (simp only: clean_split ascii_marks simp_thms)
qed

lemma clean_join:
  "\<forall>p \<in> set ps. clean u (u_upper u p) \<Longrightarrow> clean u (u_upper u (str_join ['' ''] ps))"
proof (induction "['' '']" ps rule: str_join.induct)
  case (3 x y xs)
  then have "clean u (u_upper u x @ '' '' # u_upper u (str_join ['' ''] (y # xs)))"
    by (simp add: clean_split)
  then show ?case by simp
qed auto

text \<open>A forbidden word of a comment is a forbidden word of the text.\<close>

lemma comments_covered:
  assumes "clean u (u_upper u s)"
  shows "check_comments u s = None"
proof -
  have "clean u (u_upper u (extract_comment_text s))"
    unfolding extract_comment_text_def
    by (rule clean_join)
       (auto simp: List.map_filter_def dest: line_comment_covered [OF _ _ assms] block_comment_covered [OF _ assms])
  then show ?thesis by (simp add: check_comments_def Let_def find_blocked_None)
qed

subsection \<open>What passes\<close>

definition sg_passes :: "unicode \<Rightarrow> uchar list \<Rightarrow> bool" where
  "sg_passes u s \<longleftrightarrow>
     s \<noteq> [] \<and> '';'' \<notin> set (strip_end (\<lambda>c. c = '';'') (strip_end (is_space u) s)) \<and>
     clean u (u_upper u s) \<and>
     (first_word u (u_upper u s) = ''SELECT'' \<or>
      first_word u (u_upper u s) = ''WITH'' \<and> sublist (chars ''SELECT'') (u_upper u s))"

lemma sg_check_passes:
  "sg_check u sql =
     (if sg_passes u (u_strip u (py_chars sql))
      then \<lparr>gr_allowed = True, gr_sql = concat (ensure_limit u (u_strip u (py_chars sql))), gr_reason = []\<rparr>
      else sg_check u sql)"
proof (cases "sg_passes u (u_strip u (py_chars sql))")
  case True
  define s where "s = u_strip u (py_chars sql)"
  have "sql \<noteq> []" using True by (auto simp: sg_passes_def u_strip_def strip_end_def)
  moreover have "check_multi_statement u s = None" "find_blocked u (u_upper u s) = None" "s \<noteq> []"
      "check_comments u s = None"
    using True by (auto simp: sg_passes_def check_multi_statement_def Let_def find_blocked_None s_def comments_covered)
  moreover have "(if first_word u (u_upper u s) = ''WITH'' then validate_cte s (u_upper u s) else None) = None"
    using True by (auto simp: sg_passes_def validate_cte_def str_in_iff_sublist s_def)
  ultimately have "sg_check u sql = \<lparr>gr_allowed = True, gr_sql = concat (ensure_limit u s), gr_reason = []\<rparr>"
    using True unfolding sg_check_def sg_passes_def s_def [symmetric] Let_def by auto
  then show ?thesis using True by (simp add: s_def)
qed simp

lemma sg_allowed_iff: "gr_allowed (sg_check u sql) \<longleftrightarrow> sg_passes u (u_strip u (py_chars sql))"
proof
  assume a: "gr_allowed (sg_check u sql)"
  show "sg_passes u (u_strip u (py_chars sql))"
    using a by (auto simp: sg_check_def Let_def sg_passes_def blocked_def check_multi_statement_def
        validate_cte_def str_in_iff_sublist find_blocked_None [symmetric] check_comments_def
        split: if_splits option.splits)
qed (subst sg_check_passes, simp)

subsection \<open>The text the guard lets through\<close>

text \<open>The limit the guard appends is found as a word, whatever comes before it.\<close>

lemma word_search_append:
  "word_search u fs False t \<Longrightarrow> \<not> is_word u x \<Longrightarrow> word_search u fs b (s @ x # t)"
  by (induction s arbitrary: b) simp_all

lemma limit_letters:
  "upper_char CHR ''l'' = CHR ''L''" "upper_char CHR ''i'' = CHR ''I''" "upper_char CHR ''m'' = CHR ''M''"
  "upper_char CHR ''t'' = CHR ''T''"
  by code_simp+

lemma has_limit_appended: "has_limit u (s @ chars '' LIMIT 100;'')"
proof -
  have "word_search u (map case_forms ''limit'') False (chars ''LIMIT 100;'')"
    by (simp add: chars_def case_forms_def limit_letters word_next_def)
  then have "has_limit u (s @ '' '' # chars ''LIMIT 100;'')"
    unfolding has_limit_def by (rule word_search_append) simp
  then show ?thesis by (simp add: chars_def)
qed

lemma first_word_upper:
  assumes "unicode_ok u"
  shows "first_word u (u_upper u s) =
    concat (u_upper u (takeWhile (\<lambda>c. \<not> is_space u c) (dropWhile (is_space u) s)))"
proof -
  note sp = upper_of_space [OF assms] and ot = upper_of_other [OF assms]
  have drop: "dropWhile (is_space u) (u_upper u s) = u_upper u (dropWhile (is_space u) s)" for s
  proof (induction s)
    case (Cons c s)
    then show ?case using sp [of c] ot [of c] by (cases "upper_of u c") auto
  qed simp
  have take: "takeWhile (\<lambda>c. \<not> is_space u c) (u_upper u s) = u_upper u (takeWhile (\<lambda>c. \<not> is_space u c) s)" for s
  proof (induction s)
    case (Cons c s)
    then show ?case using sp [of c] ot [of c] by (cases "is_space u c") (auto simp: takeWhile_append2)
  qed simp
  show ?thesis unfolding first_word_def by (simp only: drop take)
qed

text \<open>
  A text that passes is one statement: a body without semicolons, then spaces and semicolons.
\<close>

lemma passes_decompose:
  assumes u: "unicode_ok u" and p: "sg_passes u s" and ends: "\<not> is_space u (hd s)" "\<not> is_space u (last s)"
  obtains sp semis where "s = u_strip u (strip_end (\<lambda>c. c = '';'') s) @ sp @ semis"
    and "\<forall>c \<in> set sp. is_space u c" and "\<forall>c \<in> set semis. c = '';''"
    and "'';'' \<notin> set (u_strip u (strip_end (\<lambda>c. c = '';'') s))"
    and "u_strip u (strip_end (\<lambda>c. c = '';'') s) \<noteq> []"
proof -
  define w where "w = strip_end (\<lambda>c. c = '';'') s"
  define body where "body = u_strip u w"
  have s: "s \<noteq> []" using p by (simp add: sg_passes_def)
  obtain semis where semis: "s = w @ semis" "\<forall>c \<in> set semis. c = '';''"
    using strip_end_split [of s "\<lambda>c. c = '';''"] by (auto simp: w_def)
  have "strip_end (is_space u) s = s" using ends by (simp add: strip_end_id)
  then have no: "'';'' \<notin> set w" using p by (simp add: sg_passes_def w_def)
  have "w \<noteq> []"
  proof
    assume "w = []"
    then have "hd s = '';''" using semis s by (cases s) auto
    then obtain s' where "s = '';'' # s'" using s by (cases s) auto
    then have "first_word u (u_upper u s) = CHR '';'' # concat (u_upper u (takeWhile (\<lambda>c. \<not> is_space u c) s'))"
      by (simp only: first_word_upper [OF u]) simp
    then show False using p by (auto simp: sg_passes_def)
  qed
  then have hw: "\<not> is_space u (hd w)" using semis ends by simp
  then have body: "body = strip_end (is_space u) w" using \<open>w \<noteq> []\<close> by (cases w) (simp_all add: body_def u_strip_def)
  obtain sp where sp: "w = body @ sp" "\<forall>c \<in> set sp. is_space u c"
    using strip_end_split [of w "is_space u"] by (auto simp: body)
  have "body \<noteq> []" using sp hw \<open>w \<noteq> []\<close> by (cases w) auto
  moreover have "s = body @ sp @ semis" using semis(1) sp(1) by (metis append.assoc)
  moreover have "'';'' \<notin> set body" using no sp(1) by (metis UnI1 set_append)
  ultimately show thesis using that [folded w_def, folded body_def] sp(2) semis(2) by blast
qed

lemma sublist_other_tail:
  assumes "sublist xs (ys @ zs)" and "\<And>x. x \<in> set zs \<Longrightarrow> x \<notin> set xs"
  shows "xs = [] \<or> sublist xs ys"
proof -
  from assms(1) consider "sublist xs ys" | "sublist xs zs"
    | a b where "xs = a @ b" "suffix a ys" "prefix b zs"
    unfolding sublist_append by blast
  then show ?thesis
  proof cases
    case 2
    then have "set xs \<subseteq> set zs" by (rule set_mono_sublist)
    then show ?thesis using assms(2) by (cases xs) auto
  next
    case 3
    then have "set b \<subseteq> set zs" by (auto dest: set_mono_prefix)
    then have "b = []" using assms(2) 3(1) by (cases b) auto
    then show ?thesis using 3 by (auto dest: suffix_imp_sublist)
  qed simp
qed

text \<open>The added limit keeps a passing text passing.\<close>

lemma limit_passes:
  assumes u: "unicode_ok u" and p: "sg_passes u s" and ends: "\<not> is_space u (hd s)" "\<not> is_space u (last s)"
    and out: "out = u_strip u (strip_end (\<lambda>c. c = '';'') s) @ chars '' LIMIT 100;''"
  shows "sg_passes u out \<and> \<not> is_space u (hd out) \<and> \<not> is_space u (last out)"
proof -
  define b where "b = u_strip u (strip_end (\<lambda>c. c = '';'') s)"
  obtain sp semis where s: "s = b @ sp @ semis" and sp: "\<forall>c \<in> set sp. is_space u c"
    and semis: "\<forall>c \<in> set semis. c = '';''" and no: "'';'' \<notin> set b" and b: "b \<noteq> []"
    using passes_decompose [OF u p ends] unfolding b_def by blast
  have hb: "\<not> is_space u (hd b)" using s b ends by simp
  let ?word = "\<lambda>s. takeWhile (\<lambda>c. \<not> is_space u c) s"
  have fw: "first_word u (u_upper u t) = concat (u_upper u (?word t))" if "\<not> is_space u (hd t)" for t
    using that unfolding first_word_upper [OF u] by (cases t) simp_all
  have lim: "chars '' LIMIT 100;'' = '' '' # chars ''LIMIT 100;''" by (simp add: chars_def)
  have passes_s: "clean u (u_upper u s)"
      "concat (u_upper u (?word s)) = ''SELECT'' \<or>
       concat (u_upper u (?word s)) = ''WITH'' \<and> sublist (chars ''SELECT'') (u_upper u s)"
    using p ends fw [of s] by (auto simp: sg_passes_def)
  have word: "?word (b @ '' '' # t) = ?word s" for t
  proof (cases "\<exists>c \<in> set b. is_space u c")
    case True
    then show ?thesis unfolding s by (auto simp: takeWhile_append1)
  next
    case False
    show ?thesis
    proof (cases sp)
      case (Cons x xs)
      then show ?thesis using False sp unfolding s by (simp add: takeWhile_append2)
    next
      case Nil
      show ?thesis
      proof (cases semis)
        case (Cons y ys)
        then have "?word s = b @ '';'' # ?word ys" using Nil False semis unfolding s by (simp add: takeWhile_append2)
        then have "CHR '';'' \<in> set (concat (u_upper u (?word s)))" by simp
        with passes_s(2) show ?thesis by (elim disjE conjE) (simp_all del: set_concat)
      next
        assume "semis = []"
        with Nil s have "s = b" by simp
        moreover have "?word b = b" using False by (simp add: takeWhile_eq_all_conv)
        moreover have "?word (b @ '' '' # t) = b" using False by (simp add: takeWhile_append2)
        ultimately show ?thesis by metis
      qed
    qed
  qed
  have out': "out = b @ '' '' # chars ''LIMIT 100;''" using out lim by (simp add: b_def)
  have ends': "\<not> is_space u (hd out)" "\<not> is_space u (last out)"
    using hb b by (simp_all add: out' chars_def)
  have multi: "'';'' \<notin> set (strip_end (\<lambda>c. c = '';'') (strip_end (is_space u) out))"
  proof -
    have "strip_end (is_space u) out = out" using ends' by (simp add: strip_end_id)
    moreover have "strip_end (\<lambda>c. c = '';'') out = b @ chars '' LIMIT 100''"
      by (simp add: out' strip_end_def chars_def)
    ultimately show ?thesis using no by (simp add: chars_def)
  qed
  have clean_b: "clean u (u_upper u b)"
  proof (cases "sp @ semis")
    case (Cons x xs)
    then have "upper_of u x = [x] \<and> \<not> is_word u x"
      using sp semis upper_of_space [OF u, of x] by (cases sp) auto
    then have "clean u (u_upper u b @ x # u_upper u xs)" using passes_s(1) Cons s by simp
    then show ?thesis using \<open>upper_of u x = [x] \<and> \<not> is_word u x\<close> by (simp add: clean_split)
  qed (use passes_s s in simp)
  have up: "u_upper u (chars ''LIMIT 100;'') = chars ''LIMIT 100;''"
    by (simp add: chars_def upper_of_def upper_char_def)
  have "clean u (chars ''LIMIT 100;'')"
    by (simp add: clean_def BLOCKED_KEYWORDS_def has_word_def kw_forms_def chars_def)
  then have "clean u (u_upper u out)" using clean_b by (simp add: out' up clean_split)
  moreover have "sublist (chars ''SELECT'') (u_upper u s) \<Longrightarrow> sublist (chars ''SELECT'') (u_upper u out)"
  proof -
    assume sub: "sublist (chars ''SELECT'') (u_upper u s)"
    have tail: "u_upper u (sp @ semis) = sp @ semis"
    proof -
      have "u_upper u t = t" if "\<forall>c \<in> set t. upper_of u c = [c]" for t using that by (induction t) auto
      then show ?thesis using sp semis upper_of_space [OF u] by (metis Un_iff ascii_marks(10) set_append)
    qed
    have "x \<notin> set (chars ''SELECT'')" if "x \<in> set (sp @ semis)" for x
      using that sp semis by (auto simp: chars_def is_space_def py_space_def)
    moreover have "sublist (chars ''SELECT'') (u_upper u b @ (sp @ semis))"
      using sub tail by (simp add: s)
    ultimately have "chars ''SELECT'' = [] \<or> sublist (chars ''SELECT'') (u_upper u b)"
      using sublist_other_tail by blast
    then have "sublist (chars ''SELECT'') (u_upper u b)" by (simp add: chars_def)
    then show ?thesis unfolding out' u_upper_simps(3) by (auto simp: sublist_append)
  qed
  ultimately show ?thesis
    using passes_s(2) fw [OF ends'(1)] word multi ends' b unfolding sg_passes_def out' by auto
qed

subsection \<open>The guard is sound and stable\<close>

lemma guarded_passes:
  fixes u sql
  defines "s \<equiv> u_strip u (py_chars sql)" and "out \<equiv> ensure_limit u (u_strip u (py_chars sql))"
  assumes u: "unicode_ok u" and a: "gr_allowed (sg_check u sql)"
  shows "sg_passes u out \<and> has_limit u out \<and> u_strip u out = out \<and> py_chars (concat out) = out \<and>
    sg_check u sql = \<lparr>gr_allowed = True, gr_sql = concat out, gr_reason = []\<rparr>"
proof -
  have p: "sg_passes u s" using a by (simp add: sg_allowed_iff s_def)
  then have "s \<noteq> []" by (simp add: sg_passes_def)
  then have ends: "\<not> is_space u (hd s)" "\<not> is_space u (last s)" using u_strip_ends by (auto simp: s_def)
  have oks: "chars_ok s"
    using u_strip_part [of "py_chars sql" u] chars_ok_py_chars [of sql] by (metis chars_ok_part s_def)
  have res: "sg_check u sql = \<lparr>gr_allowed = True, gr_sql = concat out, gr_reason = []\<rparr>"
    using p by (subst sg_check_passes) (simp add: s_def out_def)
  show ?thesis
  proof (cases "has_limit u s")
    case True
    then have "out = s" by (simp add: out_def ensure_limit_def s_def)
    then show ?thesis using True p res ends oks by (simp add: u_strip_id py_chars_concat)
  next
    case False
    let ?b = "u_strip u (strip_end (\<lambda>c. c = '';'') s)"
    have out: "out = ?b @ chars '' LIMIT 100;''" using False by (simp add: out_def ensure_limit_def s_def)
    note lim = limit_passes [OF u p ends out]
    obtain sp semis where "s = [] @ ?b @ (sp @ semis)"
      using passes_decompose [OF u p ends] by (metis append_Nil)
    then have "chars_ok ?b" using oks by (metis chars_ok_part)
    then have "chars_ok out" unfolding out by (rule chars_ok_append_ascii) (simp add: is_cont_def)
    moreover have "has_limit u out" unfolding out by (rule has_limit_appended)
    ultimately show ?thesis using lim res by (blast intro: u_strip_id py_chars_concat)
  qed
qed

text \<open>
  C7. What the SQL guard lets through is one bounded read: the text it returns has none of the blocked
  keywords as a word in upper case, begins with SELECT or WITH, has no semicolon before its end, and has the
  word LIMIT.
\<close>

theorem sql_guard_admits_only_reads:
  assumes "unicode_ok u" and "gr_allowed (sg_check u sql)"
  defines "out \<equiv> py_chars (gr_sql (sg_check u sql))"
  shows "list_all (\<lambda>kw. \<not> has_word u kw (u_upper u out)) BLOCKED_KEYWORDS \<and>
    first_word u (u_upper u out) \<in> {''SELECT'', ''WITH''} \<and>
    '';'' \<notin> set (strip_end (\<lambda>c. c = '';'') out) \<and> has_limit u out"
proof -
  have g: "sg_passes u out \<and> has_limit u out \<and> u_strip u out = out"
    using guarded_passes [OF assms(1,2)] by (auto simp: out_def)
  then have "strip_end (is_space u) out = out"
    using u_strip_ends [of u out] by (auto simp: sg_passes_def intro: strip_end_id)
  with g show ?thesis by (auto simp: sg_passes_def clean_def list_all_iff)
qed

theorem sql_guard_admits_only_reads_witness:
  "list_all (\<lambda>kw. \<not> has_word demo_unicode kw
      (u_upper demo_unicode (py_chars (gr_sql (sg_check demo_unicode ''select a from t; ''))))) BLOCKED_KEYWORDS"
proof -
  have "gr_allowed (sg_check demo_unicode ''select a from t; '')" by code_simp
  from sql_guard_admits_only_reads [OF demo_unicode_ok this] show ?thesis by simp
qed

text \<open>
  The guard is stable: the text it returns passes a second check unchanged. The generators check
  what they produce and the executor checks it again, so the executor runs exactly the text that was shown.
\<close>

lemma sql_guard_stable:
  assumes "unicode_ok u" and "gr_allowed (sg_check u sql)"
  shows "sg_check u (gr_sql (sg_check u sql)) = sg_check u sql"
proof -
  obtain out where g: "sg_passes u out" "has_limit u out" "u_strip u out = out" "py_chars (concat out) = out"
      "sg_check u sql = \<lparr>gr_allowed = True, gr_sql = concat out, gr_reason = []\<rparr>"
    using guarded_passes [OF assms] by blast
  have "ensure_limit u out = out" using g(2) by (simp add: ensure_limit_def)
  then have "sg_check u (concat out) = \<lparr>gr_allowed = True, gr_sql = concat out, gr_reason = []\<rparr>"
    by (subst sg_check_passes) (simp add: g(1,3,4))
  then show ?thesis by (simp add: g(5))
qed

text \<open>
  The limit can land inside a comment: a query that ends in a line comment is let through with its
  LIMIT as a part of that comment.
\<close>

lemma sql_guard_limit_in_comment:
  "sg_check u ''SELECT a FROM t -- all'' =
     \<lparr>gr_allowed = True, gr_sql = ''SELECT a FROM t -- all LIMIT 100;'', gr_reason = []\<rparr> \<and>
   line_comment (chars ''SELECT a FROM t -- all LIMIT 100;'') = Some (chars '' all LIMIT 100;'')"
  by code_simp

end
