(* ===== verification/Sql_Execution.thy ===== *)
theory Sql_Execution
  imports Sql_Guard System_State
begin

text \<open>
  The way of a guarded query through the read-only executor (\<open>app/agent/nl2sql/executor.py\<close>), the
  formatter of its result (\<open>formatter.py\<close>) and the choice of a chart
  (\<open>app/visualization/chart_planner.py\<close>). SQLite is the parameter \<open>database\<close>.
\<close>

subsection \<open>The executor\<close>

record exec_result =
  xr_sql :: string
  xr_columns :: "string list"
  xr_rows :: "jdict list"
  xr_row_count :: nat
  xr_truncated :: bool
  xr_success :: bool
  xr_error :: "string option"
  xr_latency_ms :: rat

definition failed_execution :: "string \<Rightarrow> string \<Rightarrow> exec_result" where
  "failed_execution sql why =
     \<lparr>xr_sql = sql, xr_columns = [], xr_rows = [], xr_row_count = 0, xr_truncated = False, xr_success = False,
      xr_error = Some why, xr_latency_ms = 0\<rparr>"

definition exec_dump :: "exec_result \<Rightarrow> jdict" where
  "exec_dump x =
     [(''sql'', JStr (xr_sql x)), (''columns'', jstrs (xr_columns x)), (''rows'', JList (map JObj (xr_rows x))),
      (''row_count'', JInt (int (xr_row_count x))), (''truncated'', JBool (xr_truncated x)),
      (''success'', JBool (xr_success x)), (''error'', opt_str (xr_error x)),
      (''latency_ms'', JFloat (xr_latency_ms x))]"

text \<open>
  A database file: its path, whether it exists, and the answer of a read-only connection to a
  statement, the names of the columns and all rows.
\<close>

record 'w database =
  db_path :: string
  db_exists :: "'w \<Rightarrow> bool"
  db_query :: "string \<Rightarrow> 'w \<Rightarrow> (string + string list \<times> json list list) \<times> 'w"

definition MAX_ROWS :: nat where "MAX_ROWS = 100"

text \<open>\<open>dict(row)\<close> of a \<open>sqlite3.Row\<close>: a name finds the first column that equals it up to ASCII case.\<close>

fun row_item :: "string list \<Rightarrow> json list \<Rightarrow> string \<Rightarrow> json" where
  "row_item (c # cols) (v # vals) name = (if lower c = lower name then v else row_item cols vals name)"
| "row_item cols vals name = JNull"

definition row_dict :: "string list \<Rightarrow> json list \<Rightarrow> jdict" where
  "row_dict cols vals = dupd [] (map (\<lambda>c. (c, row_item cols vals c)) cols)"

definition sql_execute :: "unicode \<Rightarrow> 'w env \<Rightarrow> 'w database \<Rightarrow> string \<Rightarrow> 'w \<Rightarrow> exec_result \<times> 'w" where
  "sql_execute u env db sql w =
     (let g = sg_check u sql; safe = gr_sql g
      in if \<not> gr_allowed g then (failed_execution sql (gr_reason g), w)
         else if \<not> db_exists db w then (failed_execution safe (tx_db_missing (db_path db)), w)
         else (case db_query db safe w of
             (res, w') \<Rightarrow>
               (let lat = py_round 2 ((mono_clock env w' - mono_clock env w) * 1000)
                in (case res of
                      Inl e \<Rightarrow> (failed_execution safe e)\<lparr>xr_latency_ms := lat\<rparr>
                    | Inr (cols, rows) \<Rightarrow>
                        \<lparr>xr_sql = safe, xr_columns = cols, xr_rows = map (row_dict cols) (take MAX_ROWS rows),
                         xr_row_count = length rows, xr_truncated = MAX_ROWS < length rows, xr_success = True,
                         xr_error = None, xr_latency_ms = lat\<rparr>, w'))))"

subsection \<open>The formatter\<close>

definition error_text :: "exec_result \<Rightarrow> string" where
  "error_text x = (case xr_error x of None \<Rightarrow> ''None'' | Some e \<Rightarrow> e)"

definition summary_dict :: "string \<Rightarrow> string list \<Rightarrow> jdict list \<Rightarrow> nat \<Rightarrow> bool \<Rightarrow> jdict" where
  "summary_dict s cols rows n trunc =
     [(''summary'', JStr s), (''columns'', jstrs cols), (''rows'', JList (map JObj rows)),
      (''row_count'', JInt (int n)), (''truncated'', JBool trunc)]"

text \<open>\<open>rows[0][columns[0]]\<close>.\<close>

definition first_value :: "exec_result \<Rightarrow> string + json" where
  "first_value x =
     (case (xr_rows x, xr_columns x) of
        (r # _, c # _) \<Rightarrow> (case map_of r c of None \<Rightarrow> Inl (utf8 [39] @ c @ utf8 [39]) | Some v \<Rightarrow> Inr v)
      | _ \<Rightarrow> Inl ''list index out of range'')"

definition single_value :: "exec_result \<Rightarrow> bool" where
  "single_value x \<longleftrightarrow> xr_row_count x = 1 \<and> length (xr_columns x) = 1"

definition format_summary :: "'w env \<Rightarrow> exec_result \<Rightarrow> string + jdict" where
  "format_summary env x =
     (if \<not> xr_success x then Inr (summary_dict (tx_query_failed (error_text x)) [] [] 0 False)
      else if xr_row_count x = 0 then Inr (summary_dict tx_query_empty (xr_columns x) [] 0 (xr_truncated x))
      else if single_value x
      then (case first_value x of
              Inl e \<Rightarrow> Inl e
            | Inr v \<Rightarrow> Inr (summary_dict (hd (xr_columns x) @ '': '' @ py_str env v)
                 (xr_columns x) (xr_rows x) (xr_row_count x) (xr_truncated x)))
      else Inr (summary_dict (tx_query_rows (nat_text (xr_row_count x)))
             (xr_columns x) (xr_rows x) (xr_row_count x) (xr_truncated x)))"

subsection \<open>The chart\<close>

datatype chart_type = CTable | CBar | CLine | CPie | CMetric

fun chart_type_value :: "chart_type \<Rightarrow> string" where
  "chart_type_value CTable = ''table''"
| "chart_type_value CBar = ''bar''"
| "chart_type_value CLine = ''line''"
| "chart_type_value CPie = ''pie''"
| "chart_type_value CMetric = ''metric''"

record chart_spec =
  ch_type :: chart_type
  ch_title :: string
  ch_x :: "string option"
  ch_y :: "string list"
  ch_data :: "jdict list"
  ch_reason :: string

definition chart_dump :: "chart_spec \<Rightarrow> jdict" where
  "chart_dump c =
     [(''chart_type'', JStr (chart_type_value (ch_type c))), (''title'', JStr (ch_title c)),
      (''x_field'', opt_str (ch_x c)), (''y_fields'', jstrs (ch_y c)), (''data'', JList (map JObj (ch_data c))),
      (''reason'', JStr (ch_reason c))]"

definition DATE_KEYWORDS :: "string list" where
  "DATE_KEYWORDS = [''date'', ''metric_date'', ''order_date'', ''created_at'', ''updated_at'']"

definition CATEGORY_KEYWORDS :: "string list" where
  "CATEGORY_KEYWORDS = [''name'', ''category'', ''type'', ''label'', ''product_name'', ''metric_name'']"

definition date_column :: "string \<Rightarrow> bool" where "date_column c \<longleftrightarrow> lower c \<in> set DATE_KEYWORDS"
definition category_column :: "string \<Rightarrow> bool" where "category_column c \<longleftrightarrow> lower c \<in> set CATEGORY_KEYWORDS"

text \<open>\<open>isinstance(v, (int, float))\<close>; a bool is an int.\<close>

fun is_number :: "json \<Rightarrow> bool" where
  "is_number (JInt i) = True"
| "is_number (JFloat q) = True"
| "is_number (JBool b) = True"
| "is_number v = False"

definition sample_values :: "jdict list \<Rightarrow> string \<Rightarrow> json list" where
  "sample_values rows c = filter (\<lambda>v. v \<noteq> JNull) (map (\<lambda>r. dget r c) (take 5 rows))"

definition numeric_column :: "jdict list \<Rightarrow> string \<Rightarrow> bool" where
  "numeric_column rows c \<longleftrightarrow>
     \<not> date_column c \<and> \<not> category_column c \<and>
     (let vs = sample_values rows c in vs \<noteq> [] \<and> length vs < 2 * length (filter is_number vs))"

definition detect_numeric_fields :: "string list \<Rightarrow> jdict list \<Rightarrow> string list" where
  "detect_numeric_fields cols rows = filter (numeric_column rows) cols"

definition or_title :: "string \<Rightarrow> string \<Rightarrow> string" where
  "or_title query title = (if query = [] then title else query)"

definition table_chart :: "string \<Rightarrow> string \<Rightarrow> jdict list \<Rightarrow> chart_spec" where
  "table_chart query why rows =
     \<lparr>ch_type = CTable, ch_title = or_title query tx_ch_result, ch_x = None, ch_y = [], ch_data = rows, ch_reason = why\<rparr>"

definition chart_plan :: "exec_result \<Rightarrow> string \<Rightarrow> string + chart_spec" where
  "chart_plan x query =
     (let cols = xr_columns x; rows = xr_rows x; dates = filter date_column cols;
          nums = detect_numeric_fields cols rows; cats = filter category_column cols;
          compare = (\<lambda>xf why. \<lparr>ch_type = CBar, ch_title = or_title query tx_ch_compare, ch_x = xf, ch_y = nums,
             ch_data = rows, ch_reason = why\<rparr>)
      in if \<not> xr_success x then Inr (table_chart query (tx_ch_failed (error_text x)) [])
         else if xr_row_count x = 0 then Inr (table_chart query tx_ch_empty [])
         else if single_value x
         then (case first_value x of
                 Inl e \<Rightarrow> Inl e
               | Inr v \<Rightarrow> Inr \<lparr>ch_type = CMetric, ch_title = or_title query (hd cols), ch_x = None, ch_y = cols,
                    ch_data = rows, ch_reason = tx_ch_metric\<rparr>)
         else if dates \<noteq> [] \<and> nums \<noteq> []
         then Inr \<lparr>ch_type = CLine, ch_title = or_title query tx_ch_trend, ch_x = Some (hd dates), ch_y = nums,
                ch_data = rows, ch_reason = tx_ch_line (hd dates)\<rparr>
         else if cats \<noteq> [] \<and> nums \<noteq> [] \<and> 1 < xr_row_count x
         then Inr (compare (Some (hd cats)) (tx_ch_bar (hd cats)))
         else if 1 < xr_row_count x \<and> nums \<noteq> []
         then Inr (compare (case cols of [] \<Rightarrow> None | c # _ \<Rightarrow> Some c) tx_ch_bar_rows)
         else Inr (table_chart query tx_ch_table rows))"

subsection \<open>Facts\<close>

lemma map_of_dupd_keys:
  "c \<in> set cols \<Longrightarrow> map_of (dupd d (map (\<lambda>c. (c, f c)) cols)) c = Some (f c)"
proof -
  assume "c \<in> set cols"
  moreover have "map_of (rev (map (\<lambda>c. (c, f c)) cols)) = map_of (map (\<lambda>c. (c, f c)) (rev cols))"
    by (simp add: rev_map)
  ultimately show ?thesis by (simp add: map_of_dupd map_of_map_restrict)
qed

text \<open>
  What an executed query gives: consistent counts, at most the row limit, and a value in the first
  column of every row, so neither the formatter nor the chart planner raises on it.
\<close>

definition exec_ok :: "exec_result \<Rightarrow> bool" where
  "exec_ok x \<longleftrightarrow>
     length (xr_rows x) \<le> MAX_ROWS \<and> length (xr_rows x) = min MAX_ROWS (xr_row_count x) \<and>
     (xr_truncated x \<longleftrightarrow> MAX_ROWS < xr_row_count x) \<and> (xr_success x \<longleftrightarrow> xr_error x = None) \<and>
     list_all (\<lambda>r. set (xr_columns x) \<subseteq> dom (map_of r)) (xr_rows x)"

lemma exec_ok_failed: "exec_ok (failed_execution sql why)"
  by (simp add: exec_ok_def failed_execution_def MAX_ROWS_def)

lemma exec_ok_latency: "exec_ok (x\<lparr>xr_latency_ms := l\<rparr>) = exec_ok x"
  by (simp add: exec_ok_def)

lemma sql_execute_ok: "exec_ok (fst (sql_execute u env db sql w))"
proof -
  have row: "set cols \<subseteq> dom (map_of (row_dict cols vals))" for cols vals
    by (auto simp: row_dict_def map_of_dupd_keys)
  show ?thesis
    by (auto simp: sql_execute_def Let_def exec_ok_failed exec_ok_latency split: prod.splits sum.splits)
       (auto simp: exec_ok_def list_all_iff MAX_ROWS_def dest!: subsetD [OF row])
qed

lemma exec_ok_first_value:
  assumes "exec_ok x" and "single_value x"
  shows "\<exists>v. first_value x = Inr v"
proof -
  obtain r where "xr_rows x = [r]"
    using assms by (cases "xr_rows x") (auto simp: exec_ok_def single_value_def MAX_ROWS_def)
  moreover obtain c where "xr_columns x = [c]"
    using assms(2) by (cases "xr_columns x") (auto simp: single_value_def)
  ultimately show ?thesis using assms(1) by (auto simp: exec_ok_def first_value_def)
qed

lemma exec_ok_format: "exec_ok x \<Longrightarrow> \<exists>d. format_summary env x = Inr d"
  using exec_ok_first_value [of x] by (auto simp: format_summary_def)

lemma exec_ok_chart: "exec_ok x \<Longrightarrow> \<exists>c. chart_plan x query = Inr c"
  using exec_ok_first_value [of x] by (auto simp: chart_plan_def Let_def)

text \<open>Only the texts the guard returns reach the database.\<close>

definition guarded :: "unicode \<Rightarrow> string \<Rightarrow> bool" where
  "guarded u t \<longleftrightarrow> gr_allowed (sg_check u t) \<and> gr_sql (sg_check u t) = t"

lemma guarded_checked: "unicode_ok u \<Longrightarrow> gr_allowed (sg_check u sql) \<Longrightarrow> guarded u (gr_sql (sg_check u sql))"
proof -
  assume u: "unicode_ok u" "gr_allowed (sg_check u sql)"
  then obtain out where g: "sg_passes u out" "has_limit u out" "u_strip u out = out" "py_chars (concat out) = out"
      "sg_check u sql = \<lparr>gr_allowed = True, gr_sql = concat out, gr_reason = []\<rparr>"
    using guarded_passes by blast
  then show ?thesis
    by (subst guarded_def, subst (1 2) sg_check_passes) (simp add: ensure_limit_def)
qed

lemma sql_execute_guarded:
  assumes "unicode_ok u" and "\<And>t w. guarded u t \<Longrightarrow> db_query db t w = q t w"
  shows "sql_execute u env (db\<lparr>db_query := q\<rparr>) sql w = sql_execute u env db sql w"
  using guarded_checked [OF assms(1), of sql] assms(2) by (simp add: sql_execute_def Let_def)

end
