(* ===== verification/Sql_Generation.thy ===== *)
theory Sql_Generation
  imports Sql_Execution
begin

text \<open>
  Generation of SQL without a model: the schema of the database (\<open>app/agent/nl2sql/metadata.py\<close>, read
  by the extractor, which is the outside here), the pruning of it by keywords (\<open>pruner.py\<close>) and the
  templates of the mock generator (\<open>generator.py\<close>).
\<close>

subsection \<open>Schema\<close>

record schema_field =
  sf_name :: string
  sf_type :: string
  sf_primary :: bool
  sf_samples :: "json list"

record schema_table =
  st_name :: string
  st_fields :: "schema_field list"
  st_row_count :: int

subsection \<open>Pruning\<close>

record pruned_schema =
  ps_tables :: "schema_table list"
  ps_fallback :: bool
  ps_reason :: string
  ps_matched :: "string list"

record pruning_rule =
  pr_keywords :: "string list"
  pr_tables :: "string list"
  pr_reason :: string

definition PRUNING_RULES :: "pruning_rule list" where
  "PRUNING_RULES =
     [\<lparr>pr_keywords = [kw_gmv_upper, kw_gmv_lower, kw_sales, kw_indicator], pr_tables = [''daily_metrics''],
       pr_reason = tx_prune_gmv\<rparr>,
      \<lparr>pr_keywords = [kw_orders, kw_order_volume], pr_tables = [''orders''], pr_reason = tx_prune_orders\<rparr>,
      \<lparr>pr_keywords = [kw_users, kw_new_users], pr_tables = [''users''], pr_reason = tx_prune_users\<rparr>,
      \<lparr>pr_keywords = [kw_product, kw_top_product_cn, kw_hot, kw_hot_product, kw_top_product_lc],
       pr_tables = [''products'', ''orders''], pr_reason = tx_prune_products\<rparr>,
      \<lparr>pr_keywords = [kw_refund, kw_refund_rate], pr_tables = [''refund_orders'', ''orders''],
       pr_reason = tx_prune_refund\<rparr>]"

text \<open>The first entry one of whose keywords is in the query.\<close>

definition first_match :: "('r \<Rightarrow> string list) \<Rightarrow> 'r list \<Rightarrow> string \<Rightarrow> 'r option" where
  "first_match kws rules query = List.find (\<lambda>r. list_ex (\<lambda>kw. str_in kw query) (kws r)) rules"

definition prune :: "string \<Rightarrow> schema_table list \<Rightarrow> pruned_schema" where
  "prune query tables =
     (case first_match pr_keywords PRUNING_RULES query of
        None \<Rightarrow> \<lparr>ps_tables = tables, ps_fallback = True, ps_reason = tx_prune_none, ps_matched = []\<rparr>
      | Some r \<Rightarrow>
          \<lparr>ps_tables = filter (\<lambda>t. st_name t \<in> set (pr_tables r)) tables, ps_fallback = False,
           ps_reason = pr_reason r, ps_matched = filter (\<lambda>kw. str_in kw query) (pr_keywords r)\<rparr>)"

subsection \<open>Templates\<close>

text \<open>\<open>s.replace(old, new)\<close> for a non-empty \<open>old\<close>.\<close>

function str_replace :: "string \<Rightarrow> string \<Rightarrow> string \<Rightarrow> string" where
  "str_replace old new [] = []"
| "str_replace old new (c # cs) =
     (if old \<noteq> [] \<and> prefix old (c # cs) then new @ str_replace old new (drop (length old) (c # cs))
      else c # str_replace old new cs)"
  by pat_completeness auto
termination by (relation "measure (\<lambda>(old, new, s). length s)") auto

record sql_template =
  te_keywords :: "string list"
  te_sql :: string
  te_confidence :: rat
  te_reasoning :: string

definition quoted :: "string \<Rightarrow> string" where "quoted s = utf8 [39] @ s @ utf8 [39]"

definition SQL_TEMPLATES :: "sql_template list" where
  "SQL_TEMPLATES =
     [\<lparr>te_keywords = [kw_gmv_upper, kw_gmv_lower, kw_sales],
       te_sql = ''SELECT metric_date, gmv, order_count FROM daily_metrics WHERE metric_date = '' @ quoted ''{today}'',
       te_confidence = 9 / 10, te_reasoning = tx_gen_gmv\<rparr>,
      \<lparr>te_keywords = [kw_new_users, kw_users],
       te_sql = ''SELECT COUNT(*) as new_users FROM users WHERE registered_date LIKE '' @ quoted ''{month_prefix}%'',
       te_confidence = 85 / 100, te_reasoning = tx_gen_users\<rparr>,
      \<lparr>te_keywords = [kw_orders, kw_order_volume],
       te_sql = ''SELECT COUNT(*) as order_count, COALESCE(SUM(total_amount), 0) as total_amount '' @
         ''FROM orders WHERE order_date = '' @ quoted ''{today}'',
       te_confidence = 85 / 100, te_reasoning = tx_gen_orders\<rparr>,
      \<lparr>te_keywords = [kw_product, kw_top_product_cn, kw_hot, kw_hot_product, kw_top_product_lc],
       te_sql = ''SELECT p.name, p.category, SUM(o.quantity) as total_qty, SUM(o.total_amount) as total_revenue '' @
         ''FROM orders o JOIN products p ON o.product_id = p.id WHERE o.status = '' @ quoted ''completed'' @
         '' GROUP BY o.product_id ORDER BY total_revenue DESC LIMIT 5'',
       te_confidence = 8 / 10, te_reasoning = tx_gen_products\<rparr>,
      \<lparr>te_keywords = [kw_refund, kw_refund_rate],
       te_sql = ''SELECT (SELECT COUNT(*) FROM refund_orders) * 100.0 / (SELECT COUNT(*) FROM orders) as refund_rate_percent'',
       te_confidence = 8 / 10, te_reasoning = tx_gen_refund\<rparr>]"

text \<open>Today and its month, from the local date of the ISO time.\<close>

definition fill_template :: "string \<Rightarrow> string \<Rightarrow> string" where
  "fill_template now template =
     str_replace ''{month_prefix}'' (take 7 now) (str_replace ''{today}'' (take 10 now) template)"

record nl2sql_result =
  nl_query :: string
  nl_pruned :: pruned_schema
  nl_sql :: string
  nl_confidence :: rat
  nl_reasoning :: string
  nl_guard :: guard_result
  nl_generator :: string
  nl_provider :: "string option"
  nl_fallback :: bool
  nl_fallback_reason :: "string option"
  nl_warnings :: "string list"

definition mock_generate :: "unicode \<Rightarrow> string \<Rightarrow> string \<Rightarrow> schema_table list \<Rightarrow> nl2sql_result" where
  "mock_generate u now query tables =
     (let base = \<lparr>nl_query = query, nl_pruned = prune query tables, nl_sql = [], nl_confidence = 0,
                  nl_reasoning = tx_gen_unmatched, nl_guard = blocked [] tx_gen_none, nl_generator = ''mock'',
                  nl_provider = None, nl_fallback = False, nl_fallback_reason = None, nl_warnings = []\<rparr>
      in case first_match te_keywords SQL_TEMPLATES query of
           None \<Rightarrow> base
         | Some t \<Rightarrow>
             (let g = sg_check u (fill_template now (te_sql t))
              in base\<lparr>nl_sql := gr_sql g, nl_confidence := te_confidence t, nl_reasoning := te_reasoning t,
                   nl_guard := g\<rparr>))"

subsection \<open>Facts\<close>

text \<open>What is allowed has been checked: the SQL of a result is the text the guard returned.\<close>

definition result_guarded :: "unicode \<Rightarrow> nl2sql_result \<Rightarrow> bool" where
  "result_guarded u r \<longleftrightarrow> (gr_allowed (nl_guard r) \<longrightarrow> guarded u (nl_sql r) \<and> gr_sql (nl_guard r) = nl_sql r)"

lemma mock_generate_guarded: "unicode_ok u \<Longrightarrow> result_guarded u (mock_generate u now query tables)"
  by (auto simp: mock_generate_def Let_def result_guarded_def blocked_def guarded_checked split: option.splits)

lemma prune_tables: "set (ps_tables (prune query tables)) \<subseteq> set tables"
  by (auto simp: prune_def split: option.splits)

end
