(* ===== verification/Pattern.thy ===== *)
theory Pattern
  imports Unicode_Text
begin

text \<open>
  The part of \<open>re\<close> the security filters use: sequences of repeated character classes with word
  boundaries, negative look-around for one character and alternatives, matched greedily with
  backtracking. A match is found as its length, the possible ones in the order \<open>re\<close> tries them.
\<close>

datatype rx =
    Rep "uchar \<Rightarrow> bool" nat "nat option"
  | Behind "uchar \<Rightarrow> bool"
  | Ahead "uchar \<Rightarrow> bool"
  | Edge
  | Alt "rx list list"

abbreviation One :: "(uchar \<Rightarrow> bool) \<Rightarrow> rx" where "One P \<equiv> Rep P 1 (Some 1)"

definition literal :: "string \<Rightarrow> rx list" where
  "literal s = map (\<lambda>c. One (\<lambda>x. x = c)) (py_chars s)"

text \<open>\<open>rev [lo..<Suc hi]\<close>: the numbers of repetitions, most first.\<close>

definition counts_down :: "nat \<Rightarrow> nat \<Rightarrow> nat list" where
  "counts_down lo hi = rev [lo..<Suc hi]"

definition longest :: "(uchar \<Rightarrow> bool) \<Rightarrow> nat option \<Rightarrow> uchar list \<Rightarrow> nat" where
  "longest P hi s = (let n = length (takeWhile P s) in case hi of None \<Rightarrow> n | Some h \<Rightarrow> min h n)"

definition before_at :: "uchar option \<Rightarrow> nat \<Rightarrow> uchar list \<Rightarrow> uchar option" where
  "before_at before k s = (if k = 0 \<or> s = [] then before else Some (last (take k s)))"

definition edge :: "unicode \<Rightarrow> uchar option \<Rightarrow> uchar list \<Rightarrow> bool" where
  "edge u before s \<longleftrightarrow>
     (case before of None \<Rightarrow> False | Some c \<Rightarrow> is_word u c) \<noteq> (case s of [] \<Rightarrow> False | c # _ \<Rightarrow> is_word u c)"

function rx_ends :: "unicode \<Rightarrow> rx list \<Rightarrow> uchar option \<Rightarrow> uchar list \<Rightarrow> nat list" where
  "rx_ends u [] before s = [0]"
| "rx_ends u (Rep P lo hi # rs) before s =
     concat (map (\<lambda>k. map ((+) k) (rx_ends u rs (before_at before k s) (drop k s))) (counts_down lo (longest P hi s)))"
| "rx_ends u (Behind P # rs) before s =
     (if (case before of None \<Rightarrow> False | Some c \<Rightarrow> P c) then [] else rx_ends u rs before s)"
| "rx_ends u (Ahead P # rs) before s =
     (if (case s of [] \<Rightarrow> False | c # _ \<Rightarrow> P c) then [] else rx_ends u rs before s)"
| "rx_ends u (Edge # rs) before s = (if edge u before s then rx_ends u rs before s else [])"
| "rx_ends u (Alt qss # rs) before s = concat (map (\<lambda>qs. rx_ends u (qs @ rs) before s) qss)"
  by pat_completeness auto
termination
  by (relation "measure (\<lambda>(u, rs, before, s). size_list size rs)")
     (auto simp: size_list_append less_Suc_eq_le intro!: le_SucI size_list_estimation' [OF _ order_refl])

definition rx_match_at :: "unicode \<Rightarrow> rx list \<Rightarrow> uchar option \<Rightarrow> uchar list \<Rightarrow> nat option" where
  "rx_match_at u rs before s = (case rx_ends u rs before s of [] \<Rightarrow> None | k # _ \<Rightarrow> Some k)"

text \<open>\<open>pattern.finditer(text)\<close> for a pattern that does not match the empty text: starts and lengths.\<close>

function rx_finditer :: "unicode \<Rightarrow> rx list \<Rightarrow> uchar option \<Rightarrow> nat \<Rightarrow> uchar list \<Rightarrow> (nat \<times> nat) list" where
  "rx_finditer u rs before pos [] = []"
| "rx_finditer u rs before pos (c # cs) =
     (case rx_match_at u rs before (c # cs) of
        Some (Suc k) \<Rightarrow> (pos, Suc k) # rx_finditer u rs (Some (last (c # take k cs))) (pos + Suc k) (drop k cs)
      | _ \<Rightarrow> rx_finditer u rs (Some c) (Suc pos) cs)"
  by pat_completeness auto
termination by (relation "measure (\<lambda>(u, rs, before, pos, s). length s)") auto

text \<open>\<open>pattern.search(text)\<close> as a truth value.\<close>

fun rx_found :: "unicode \<Rightarrow> rx list \<Rightarrow> uchar option \<Rightarrow> uchar list \<Rightarrow> bool" where
  "rx_found u rs before [] = (rx_match_at u rs before [] \<noteq> None)"
| "rx_found u rs before (c # cs) = (rx_match_at u rs before (c # cs) \<noteq> None \<or> rx_found u rs (Some c) cs)"

subsection \<open>Facts\<close>

lemma longest_le: "longest P hi s \<le> length s"
  using length_takeWhile_le [of P s] by (auto simp: longest_def Let_def split: option.splits)

text \<open>A match stays within the text.\<close>

lemma rx_ends_le: "\<forall>k \<in> set (rx_ends u rs before s). k \<le> length s"
proof (induction u rs before s rule: rx_ends.induct)
  case (2 u P lo hi rs before s)
  show ?case
  proof
    fix n assume "n \<in> set (rx_ends u (Rep P lo hi # rs) before s)"
    then obtain k m where k: "k \<in> set (counts_down lo (longest P hi s))" "n = k + m"
        "m \<in> set (rx_ends u rs (before_at before k s) (drop k s))" by auto
    then have "m \<le> length (drop k s)" using 2 by blast
    moreover have "k \<le> length s" using k(1) longest_le [of P hi s] by (auto simp: counts_down_def)
    ultimately show "n \<le> length s" using k(2) by simp
  qed
qed auto

lemma rx_match_at_le: "rx_match_at u rs before s = Some k \<Longrightarrow> k \<le> length s"
  using rx_ends_le [of u rs before s] by (auto simp: rx_match_at_def split: list.splits)

text \<open>The matches \<open>finditer\<close> yields are not empty, lie within the text, and follow one another.\<close>

lemma rx_finditer_spans:
  "list_all (\<lambda>(a, n). pos \<le> a \<and> 0 < n \<and> a + n \<le> pos + length s) (rx_finditer u rs before pos s)"
proof (induction u rs before pos s rule: rx_finditer.induct)
  case (2 u rs before pos c cs)
  show ?case
  proof (cases "rx_match_at u rs before (c # cs)")
    case None
    then have "list_all (\<lambda>(a, n). Suc pos \<le> a \<and> 0 < n \<and> a + n \<le> Suc pos + length cs)
        (rx_finditer u rs (Some c) (Suc pos) cs)"
      by (rule 2)
    then show ?thesis using None by (auto simp: list_all_iff)
  next
    case (Some k)
    then show ?thesis
      using 2 rx_match_at_le [OF Some] by (cases k) (auto simp: list_all_iff; fastforce)+
  qed
qed simp

end
