(* ===== verification/Pii_Guard.thy ===== *)
theory Pii_Guard
  imports Pattern Query_Texts Risk_Intent
begin

text \<open>
  Detection and redaction of personal data and secrets (\<open>app/harness/security/pii_guard.py\<close>): seven
  patterns, the masks of their matches, and the text with the matches masked. Positions are those of the
  characters of the text.
\<close>

subsection \<open>Patterns\<close>

definition is_digit :: "unicode \<Rightarrow> uchar \<Rightarrow> bool" where
  "is_digit u c = (if ascii c then (48 \<le> (of_char (hd c) :: nat) \<and> (of_char (hd c) :: nat) \<le> 57) else un_digit u c)"

definition ascii_alnum :: "uchar \<Rightarrow> bool" where
  "ascii_alnum c \<longleftrightarrow> ascii c \<and> word_char (hd c) \<and> hd c \<noteq> CHR ''_''"

definition ascii_alpha :: "uchar \<Rightarrow> bool" where
  "ascii_alpha c \<longleftrightarrow> ascii_alnum c \<and> 65 \<le> (of_char (hd c) :: nat)"

text \<open>A class of ASCII letters and digits with some more characters.\<close>

definition alnum_or :: "string \<Rightarrow> uchar \<Rightarrow> bool" where
  "alnum_or extra c \<longleftrightarrow> ascii_alnum c \<or> c \<in> set (chars extra)"

text \<open>What such a class also matches under \<open>re.IGNORECASE\<close>.\<close>

definition fold_extras :: "uchar list" where
  "fold_extras = map (\<lambda>n. utf8 [n]) [0x130, 0x131, 0x17F, 0x212A]"

text \<open>A literal under \<open>re.IGNORECASE\<close>; its ASCII letters are given in lower case.\<close>

definition literal_ic :: "string \<Rightarrow> rx list" where
  "literal_ic s = map (\<lambda>c. One (\<lambda>x. if ascii c then x \<in> set (case_forms (hd c)) else x = c)) (py_chars s)"

definition EMAIL :: "rx list" where
  "EMAIL = [Edge, One (alnum_or ''._%+-''), Rep (alnum_or ''._%+-'') 0 (Some 30)] @ literal ''@'' @
     [Rep (alnum_or ''.-'') 1 None] @ literal ''.'' @ [Rep ascii_alpha 2 None, Edge]"

definition CN_MOBILE :: "unicode \<Rightarrow> rx list" where
  "CN_MOBILE u = [Behind (is_digit u)] @ literal ''1'' @
     [One (\<lambda>c. c \<in> set (chars ''3456789'')), Rep (is_digit u) 9 (Some 9), Ahead (is_digit u)]"

definition CN_ID :: "unicode \<Rightarrow> rx list" where
  "CN_ID u = [Behind (is_digit u), Rep (is_digit u) 17 (Some 17),
     One (\<lambda>c. is_digit u c \<or> c = ''X'' \<or> c = ''x''), Ahead (is_digit u)]"

definition BANK_CARD :: "unicode \<Rightarrow> rx list" where
  "BANK_CARD u = [Behind (is_digit u), Rep (is_digit u) 16 (Some 19), Ahead (is_digit u)]"

definition SK_KEY :: "rx list" where
  "SK_KEY = [Edge] @ literal ''sk-'' @ [Rep (alnum_or ''_-'') 10 None, Edge]"

definition BEARER :: "unicode \<Rightarrow> rx list" where
  "BEARER u = [Edge] @ literal_ic ''bearer'' @
     [Rep (is_space u) 1 None, Rep (\<lambda>c. alnum_or ''._-'' c \<or> c \<in> set fold_extras) 10 None, Edge]"

definition LONG_SECRET :: "rx list" where
  "LONG_SECRET = [Edge, Rep (alnum_or ''_-'') 24 None, Edge]"

subsection \<open>Findings\<close>

record pii_finding =
  pf_type :: string
  pf_value :: "uchar list"
  pf_masked :: "uchar list"
  pf_risk :: string
  pf_start :: nat
  pf_end :: nat

definition stars :: "nat \<Rightarrow> uchar list" where "stars n = replicate n ''*''"

text \<open>\<open>s[:a] + '*' * n + s[-b:]\<close> for a text longer than \<open>a + b\<close>.\<close>

definition mask_middle :: "nat \<Rightarrow> nat \<Rightarrow> nat \<Rightarrow> uchar list \<Rightarrow> uchar list" where
  "mask_middle a b n v = take a v @ stars n @ drop (length v - b) v"

definition mask_secret :: "uchar list \<Rightarrow> uchar list" where
  "mask_secret v = (if length v \<le> 8 then stars (length v) else mask_middle 4 4 (length v - 8) v)"

text \<open>The first character, and what follows the only \<open>@\<close> of a matched address.\<close>

definition mask_email :: "uchar list \<Rightarrow> uchar list" where
  "mask_email v = take 1 v @ stars 3 @ dropWhile (\<lambda>c. c \<noteq> ''@'') v"

definition found ::
  "unicode \<Rightarrow> rx list \<Rightarrow> string \<Rightarrow> string \<Rightarrow> (uchar list \<Rightarrow> uchar list) \<Rightarrow> uchar list \<Rightarrow> pii_finding list"
where
  "found u rs kind risk hide s =
     map (\<lambda>(a, n). let v = take n (drop a s) in
       \<lparr>pf_type = kind, pf_value = v, pf_masked = hide v, pf_risk = risk, pf_start = a, pf_end = a + n\<rparr>)
       (rx_finditer u rs None 0 s)"

definition looks_harmless :: "unicode \<Rightarrow> uchar list \<Rightarrow> bool" where
  "looks_harmless u v =
     list_ex (\<lambda>p. prefix (chars p) (concat (map (\<lambda>c. if ascii c then [[lower_char (hd c)]] else un_lower u c) v)))
       [''http'', ''select'', ''insert'', ''delete'', ''update'']"

definition find_email :: "unicode \<Rightarrow> uchar list \<Rightarrow> pii_finding list" where
  "find_email u = found u EMAIL ''email'' ''medium'' mask_email"

definition find_mobile :: "unicode \<Rightarrow> uchar list \<Rightarrow> pii_finding list" where
  "find_mobile u = found u (CN_MOBILE u) ''mobile_cn'' ''high'' (mask_middle 3 4 4)"

definition find_cn_id :: "unicode \<Rightarrow> uchar list \<Rightarrow> pii_finding list" where
  "find_cn_id u = found u (CN_ID u) ''id_cn'' ''high'' (\<lambda>v. mask_middle 3 2 (length v - 5) v)"

definition find_bank_card :: "unicode \<Rightarrow> uchar list \<Rightarrow> pii_finding list" where
  "find_bank_card u s =
     filter (\<lambda>f. \<not> (take 1 (pf_value f) = [''1''] \<and> length (pf_value f) = 18))
       (found u (BANK_CARD u) ''bank_card'' ''high'' (\<lambda>v. mask_middle 4 4 (length v - 8) v) s)"

definition find_token_like :: "unicode \<Rightarrow> uchar list \<Rightarrow> pii_finding list" where
  "find_token_like u s =
     found u SK_KEY ''api_key'' ''high'' mask_secret s @
     found u (BEARER u) ''bearer_token'' ''high'' mask_secret s @
     filter (\<lambda>f. \<not> looks_harmless u (pf_value f)) (found u LONG_SECRET ''secret_like'' ''medium'' mask_secret s)"

text \<open>The findings by position; the sort is stable.\<close>

definition pii_detect :: "unicode \<Rightarrow> uchar list \<Rightarrow> pii_finding list" where
  "pii_detect u s =
     sort_key (\<lambda>f. [pf_start f, pf_end f])
       (find_email u s @ find_mobile u s @ find_cn_id u s @ find_bank_card u s @ find_token_like u s)"

fun dedup_overlap :: "nat \<Rightarrow> pii_finding list \<Rightarrow> pii_finding list" where
  "dedup_overlap last_end [] = []"
| "dedup_overlap last_end (f # fs) =
     (if pf_start f < last_end then dedup_overlap last_end fs else f # dedup_overlap (pf_end f) fs)"

fun pieces :: "nat \<Rightarrow> uchar list \<Rightarrow> pii_finding list \<Rightarrow> uchar list" where
  "pieces cursor s [] = drop cursor s"
| "pieces cursor s (f # fs) = take (pf_start f - cursor) (drop cursor s) @ pf_masked f @ pieces (pf_end f) s fs"

definition pii_redact :: "unicode \<Rightarrow> uchar list \<Rightarrow> uchar list \<times> pii_finding list" where
  "pii_redact u s =
     (let fs = pii_detect u s in
      if fs = [] then (s, []) else (let kept = dedup_overlap 0 fs in (pieces 0 s kept, kept)))"

subsection \<open>Redaction changes the matches only\<close>

text \<open>A finding whose value is the part of the text it spans, in order and apart from the others.\<close>

definition spans :: "uchar list \<Rightarrow> pii_finding \<Rightarrow> bool" where
  "spans s f \<longleftrightarrow>
     pf_start f < pf_end f \<and> pf_end f \<le> length s \<and> pf_value f = take (pf_end f - pf_start f) (drop (pf_start f) s)"

lemma found_spans: "f \<in> set (found u rs kind risk hide s) \<Longrightarrow> spans s f"
  using rx_finditer_spans [of 0 s u rs None] by (auto simp: found_def spans_def list_all_iff Let_def)

lemma detect_spans: "f \<in> set (pii_detect u s) \<Longrightarrow> spans s f"
  by (auto simp: pii_detect_def find_email_def find_mobile_def find_cn_id_def find_bank_card_def find_token_like_def
      intro: found_spans)

fun apart :: "nat \<Rightarrow> pii_finding list \<Rightarrow> bool" where
  "apart cursor [] = True"
| "apart cursor (f # fs) = (cursor \<le> pf_start f \<and> pf_start f < pf_end f \<and> apart (pf_end f) fs)"

lemma dedup_set: "set (dedup_overlap n fs) \<subseteq> set fs"
  by (induction fs arbitrary: n) (simp_all, blast)

lemma dedup_apart: "\<forall>f \<in> set fs. pf_start f < pf_end f \<Longrightarrow> apart n (dedup_overlap n fs)"
  by (induction fs arbitrary: n) auto

text \<open>The text with each match replaced by a function of it.\<close>

fun replaced :: "(pii_finding \<Rightarrow> uchar list) \<Rightarrow> nat \<Rightarrow> uchar list \<Rightarrow> pii_finding list \<Rightarrow> uchar list" where
  "replaced g cursor s [] = drop cursor s"
| "replaced g cursor s (f # fs) = take (pf_start f - cursor) (drop cursor s) @ g f @ replaced g (pf_end f) s fs"

lemma pieces_replaced: "pieces cursor s fs = replaced pf_masked cursor s fs"
  by (induction fs arbitrary: cursor) simp_all

lemma replaced_value:
  "apart cursor fs \<Longrightarrow> \<forall>f \<in> set fs. spans s f \<Longrightarrow> replaced pf_value cursor s fs = drop cursor s"
proof (induction fs arbitrary: cursor)
  case (Cons f fs)
  have "take (pf_start f - cursor) (drop cursor s) @ drop (pf_start f) s = drop cursor s"
    using Cons.prems(1) by (metis append_take_drop_id apart.simps(2) drop_drop le_add_diff_inverse2)
  moreover have "pf_value f @ drop (pf_end f) s = drop (pf_start f) s"
    using Cons.prems
    by (simp add: spans_def) (metis append_take_drop_id drop_drop le_add_diff_inverse2 less_imp_le_nat)
  ultimately show ?case using Cons by simp
qed simp

text \<open>
  Redaction touches the matches and nothing else: the findings it reports are parts of the text, in
  order and apart from each other; putting their values back in gives the text, their masks the redacted text.
\<close>

lemma redaction_is_local:
  "case pii_redact u s of (redacted, fs) \<Rightarrow>
     apart 0 fs \<and> list_all (spans s) fs \<and> replaced pf_value 0 s fs = s \<and> replaced pf_masked 0 s fs = redacted"
proof (cases "pii_detect u s = []")
  case False
  let ?fs = "dedup_overlap 0 (pii_detect u s)"
  have sp: "\<forall>f \<in> set ?fs. spans s f" using dedup_set detect_spans by blast
  have "apart 0 ?fs" by (rule dedup_apart) (auto dest: detect_spans simp: spans_def)
  then show ?thesis
    using False sp replaced_value [of 0 ?fs s] by (simp add: pii_redact_def Let_def pieces_replaced list_all_iff)
qed (simp add: pii_redact_def)

text \<open>
  What a redaction leaves readable: an overlap is decided by position, so a mobile number inside the
  domain of an address stays in the text although it is detected.
\<close>

lemma redaction_keeps_overlapped_mobile:
  "let s = chars ''a@13812345678.cn'' in
     list_ex (\<lambda>f. pf_type f = ''mobile_cn'') (pii_detect u s) \<and>
     concat (fst (pii_redact u s)) = ''a***@13812345678.cn''"
  by code_simp

end
