(* ===== verification/Guardrails.thy ===== *)
theory Guardrails
  imports Pii_Guard Sql_Guard
begin

text \<open>
  The prompt-injection guard (\<open>app/harness/security/injection_guard.py\<close>) and the guardrails over it, the
  PII guard and the SQL guard (\<open>guardrails.py\<close>).
\<close>

subsection \<open>Prompt injection\<close>

record injection_finding =
  if_detected :: bool
  if_severity :: string
  if_reason :: string
  if_matched :: "string list"
  if_action :: string

text \<open>Words with \<open>\s+\<close> between them.\<close>

fun spaced :: "unicode \<Rightarrow> string list \<Rightarrow> rx list" where
  "spaced u [] = []"
| "spaced u [w] = literal_ic w"
| "spaced u (w # x # ws) = literal_ic w @ [Rep (is_space u) 1 None] @ spaced u (x # ws)"

definition HIGH_BLOCK_PATTERNS :: "unicode \<Rightarrow> (rx list \<times> string) list" where
  "HIGH_BLOCK_PATTERNS u =
     [(spaced u [''bypass'', ''approval''], dg_bypass), (spaced u [''disable'', ''policy''], ij_disable),
      (spaced u [''approve'', ''yourself''], ij_autoapprove), (literal_ic dg_bypass, dg_bypass),
      (literal_ic ij_autoapprove, ij_autoapprove), (literal_ic ij_disable, ij_disable),
      (literal_ic ij_direct, ij_direct), (spaced u [''call'', ''tool'', ''directly''], ij_direct),
      (spaced u [''skip'', ''validation''], ij_skip), (spaced u [''drop'', ''table''], ij_drop),
      (spaced u [''delete'', ''from''], ij_delete), (spaced u [''update'', ''users''], ij_users),
      (spaced u [''insert'', ''into''], ij_insert), (literal_ic ij_drop, ij_drop), (literal_ic ij_db, ij_db)]"

definition plural :: "string \<Rightarrow> rx list" where
  "plural w = literal_ic w @ [Alt [literal_ic ''s'', []]]"

definition MEDIUM_BLOCK_PATTERNS :: "unicode \<Rightarrow> (rx list \<times> string) list" where
  "MEDIUM_BLOCK_PATTERNS u =
     (let sp = [Rep (is_space u) 1 None] in
     [(spaced u [''reveal'', ''system'', ''prompt''], ij_reveal), (literal_ic ij_reveal, ij_reveal),
      (spaced u [''show'', ''system'', ''prompt''], ij_reveal),
      (spaced u [''ignore'', ''previous''] @ sp @ plural ''instruction'', ij_previous),
      (spaced u [''ignore'', ''above''] @ sp @ plural ''instruction'', ij_above),
      (literal_ic ij_above, ij_above), (literal_ic ij_rules, ij_rules)])"

definition MEDIUM_WARN_PATTERNS :: "unicode \<Rightarrow> (rx list \<times> string) list" where
  "MEDIUM_WARN_PATTERNS u =
     (let sp = [Rep (is_space u) 1 None];
          earlier = [Alt [literal_ic ''all'' @ sp, []], Alt (map literal_ic [''previous'', ''prior'', ''above''])] in
     [(literal_ic ''ignore'' @ sp @ earlier @ sp @ [Alt [plural ''rule'', plural ''instruction'', plural ''prompt'']],
        ij_vague),
      (literal_ic ''forget'' @ sp @ earlier, ij_vague), (literal_ic ''disregard'' @ sp @ earlier, ij_vague)])"

definition labels_found :: "unicode \<Rightarrow> (rx list \<times> string) list \<Rightarrow> uchar list \<Rightarrow> string list" where
  "labels_found u ps s = map snd (filter (\<lambda>p. rx_found u (fst p) None s) ps)"

definition no_injection :: injection_finding where
  "no_injection = \<lparr>if_detected = False, if_severity = ''low'', if_reason = [], if_matched = [], if_action = ''allow''\<rparr>"

definition check_text :: "unicode \<Rightarrow> string \<Rightarrow> injection_finding" where
  "check_text u text =
     (let s = py_chars text; high = labels_found u (HIGH_BLOCK_PATTERNS u) s;
          medium = labels_found u (MEDIUM_BLOCK_PATTERNS u) s; vague = labels_found u (MEDIUM_WARN_PATTERNS u) s;
          finding = (\<lambda>sev why ls act. \<lparr>if_detected = True, if_severity = sev, if_reason = why (str_join '', '' ls),
             if_matched = ls, if_action = act\<rparr>)
      in if text = [] then no_injection
         else if high \<noteq> [] then finding ''high'' tx_ij_high high ''block''
         else if medium \<noteq> [] then finding ''medium'' tx_ij_medium medium ''block''
         else if vague \<noteq> [] then finding ''medium'' tx_ij_vague vague ''warn''
         else no_injection)"

text \<open>The texts inside a payload, in order.\<close>

fun collect_strings :: "json \<Rightarrow> string list" where
  "collect_strings (JStr s) = (if s = [] then [] else [s])"
| "collect_strings (JObj kvs) = concat (map (\<lambda>kv. collect_strings (snd kv)) kvs)"
| "collect_strings (JList vs) = concat (map collect_strings vs)"
| "collect_strings v = []"

definition worse :: "injection_finding \<Rightarrow> injection_finding option \<Rightarrow> bool" where
  "worse f worst =
     (case worst of None \<Rightarrow> True
      | Some w \<Rightarrow> (if_action f = ''block'' \<and> if_action w \<noteq> ''block'') \<or>
                  (if_severity f = ''high'' \<and> if_severity w \<noteq> ''high''))"

fun worst_finding :: "injection_finding option \<Rightarrow> injection_finding list \<Rightarrow> injection_finding option" where
  "worst_finding worst [] = worst"
| "worst_finding worst (f # fs) = worst_finding (if if_detected f \<and> worse f worst then Some f else worst) fs"

definition check_payload :: "unicode \<Rightarrow> jdict \<Rightarrow> injection_finding" where
  "check_payload u payload =
     (case worst_finding None (map (check_text u) (collect_strings (JObj payload))) of
        None \<Rightarrow> no_injection | Some f \<Rightarrow> f)"

subsection \<open>Guardrails\<close>

record guard_verdict =
  gv_allowed :: bool
  gv_action :: string
  gv_reason :: string
  gv_findings :: "jdict list"
  gv_sanitized :: "string option"
  gv_risk :: string

definition verdict_dump :: "guard_verdict \<Rightarrow> jdict" where
  "verdict_dump v =
     [(''allowed'', JBool (gv_allowed v)), (''action'', JStr (gv_action v)), (''reason'', JStr (gv_reason v)),
      (''findings'', JList (map JObj (gv_findings v))), (''sanitized_text'', opt_str (gv_sanitized v)),
      (''risk_level'', JStr (gv_risk v))]"

definition build_result ::
  "bool \<Rightarrow> string \<Rightarrow> string \<Rightarrow> jdict list \<Rightarrow> string option \<Rightarrow> string \<Rightarrow> guard_verdict"
where
  "build_result allowed action reason items sanitized risk =
     \<lparr>gv_allowed = allowed, gv_action = action, gv_reason = reason, gv_findings = items, gv_sanitized = sanitized,
      gv_risk = risk\<rparr>"

definition pii_to_dict :: "pii_finding \<Rightarrow> jdict" where
  "pii_to_dict f =
     [(''type'', JStr (pf_type f)), (''masked_value'', JStr (concat (pf_masked f))), (''risk_level'', JStr (pf_risk f)),
      (''span'', JList [JInt (int (pf_start f)), JInt (int (pf_end f))])]"

definition injection_dict :: "string \<Rightarrow> injection_finding \<Rightarrow> jdict" where
  "injection_dict kind f =
     [(''type'', JStr kind), (''severity'', JStr (if_severity f)), (''reason'', JStr (if_reason f)),
      (''matched_patterns'', jstrs (if_matched f))]"

definition or_reason :: "string \<Rightarrow> string \<Rightarrow> string" where
  "or_reason s dflt = (if s = [] then dflt else s)"

definition check_input :: "unicode \<Rightarrow> string \<Rightarrow> guard_verdict" where
  "check_input u text =
     (let f = check_text u text; s = py_chars text; pii = pii_detect u s; found = map pii_to_dict pii;
          redacted = concat (fst (pii_redact u s))
      in if if_action f = ''block''
         then build_result False ''block'' (or_reason (if_reason f) ''prompt injection blocked'')
                (found @ [injection_dict ''prompt_injection'' f]) (if pii \<noteq> [] then Some redacted else None) ''high''
         else if pii \<noteq> [] then build_result True ''warn'' ''PII detected in input'' found (Some redacted) ''medium''
         else if if_action f = ''warn''
         then build_result True ''warn'' (or_reason (if_reason f) ''potential prompt injection'')
                (found @ [injection_dict ''prompt_injection_warn'' f]) None ''medium''
         else build_result True ''allow'' [] found None ''low'')"

definition DANGEROUS_OUTPUT_RULES :: "(string \<times> string) list" where
  "DANGEROUS_OUTPUT_RULES =
     [(dg_delete, ''dangerous_delete_suggestion''), (dg_bypass, ''bypass_approval_suggestion''),
      (dg_export, ''bulk_pii_export_suggestion''), (''disable policy'', ''disable_policy_suggestion''),
      (''bypass approval'', ''bypass_approval_suggestion_en''), (''delete from'', ''dangerous_sql_suggestion_en''),
      (''drop table'', ''dangerous_ddl_suggestion_en'')]"

definition u_lower :: "unicode \<Rightarrow> uchar list \<Rightarrow> uchar list" where
  "u_lower u s = concat (map (\<lambda>c. if ascii c then [[lower_char (hd c)]] else un_lower u c) s)"

definition dangerous_rules :: "unicode \<Rightarrow> uchar list \<Rightarrow> string list" where
  "dangerous_rules u s =
     map snd (filter (\<lambda>r. str_in (u_lower u (py_chars (fst r))) (u_lower u s)) DANGEROUS_OUTPUT_RULES)"

definition check_llm_output :: "unicode \<Rightarrow> string \<Rightarrow> guard_verdict" where
  "check_llm_output u text =
     (let s = py_chars text; (redacted, pii) = pii_redact u s; hits = dangerous_rules u s; bad = hits \<noteq> [];
          found = map pii_to_dict pii @ (if bad then [[(''type'', JStr ''dangerous_output_suggestion''),
             (''matched_rules'', jstrs hits)]] else [])
      in build_result True (if bad then ''warn'' else if pii \<noteq> [] then ''redact'' else ''allow'')
           (if bad then ''dangerous operation suggestion detected''
            else if pii \<noteq> [] then ''PII detected in LLM output'' else [])
           found (if pii \<noteq> [] then Some (concat redacted) else None)
           (if bad then ''high'' else if pii \<noteq> [] then ''medium'' else ''low''))"

definition check_sql :: "unicode \<Rightarrow> string \<Rightarrow> guard_verdict" where
  "check_sql u sql =
     (let g = sg_check u sql
      in if \<not> gr_allowed g
         then build_result False ''block'' (gr_reason g)
                [[(''type'', JStr ''sql_guard_blocked''), (''reason'', JStr (gr_reason g))]] (Some (gr_sql g)) ''high''
         else build_result True ''allow'' [] [] (Some (gr_sql g)) ''low'')"

definition sanitize_response :: "unicode \<Rightarrow> string \<Rightarrow> guard_verdict" where
  "sanitize_response u text =
     (let (redacted, found) = pii_redact u (py_chars text)
      in if found = [] then build_result True ''allow'' [] [] (Some text) ''low''
         else build_result True ''redact'' ''response contains PII'' (map pii_to_dict found) (Some (concat redacted)) ''medium'')"

subsection \<open>Facts\<close>

lemma check_text_actions:
  "if_action (check_text u t) \<in> {''block'', ''warn'', ''allow''} \<and>
   (if_detected (check_text u t) \<longleftrightarrow> if_action (check_text u t) \<noteq> ''allow'')"
  by (simp add: check_text_def Let_def no_injection_def)

text \<open>The finding kept is as bad as any: a blocked text anywhere in the payload blocks it.\<close>

lemma worst_finding_block:
  "(\<exists>w. worst = Some w \<and> if_action w = ''block'') \<or> (\<exists>f \<in> set fs. if_detected f \<and> if_action f = ''block'') \<Longrightarrow>
   \<forall>f \<in> set fs. if_severity f = ''high'' \<longrightarrow> if_action f = ''block'' \<Longrightarrow>
   \<exists>w. worst_finding worst fs = Some w \<and> if_action w = ''block''"
proof (induction fs arbitrary: worst)
  case (Cons f fs)
  show ?case
  proof (cases "if_detected f \<and> worse f worst")
    case True
    show ?thesis
    proof (cases "if_action f = ''block''")
      case True
      with \<open>if_detected f \<and> worse f worst\<close> Cons show ?thesis by simp
    next
      case False
      then have "worst = None \<or> (\<exists>w. worst = Some w \<and> if_action w \<noteq> ''block'') \<or> if_severity f = ''high''"
        using True by (auto simp: worse_def split: option.splits)
      then have no: "\<not> (\<exists>w. worst = Some w \<and> if_action w = ''block'')" using False Cons.prems(2) True
        by (auto simp: worse_def)
      with False Cons.prems(1) have "\<exists>g \<in> set fs. if_detected g \<and> if_action g = ''block''" by auto
      with True Cons show ?thesis by simp
    qed
  next
    case False
    show ?thesis
    proof (cases "if_detected f \<and> if_action f = ''block''")
      case True
      with False have "\<exists>w. worst = Some w \<and> if_action w = ''block''"
        by (auto simp: worse_def split: option.splits)
      then have "\<exists>w. worst_finding worst fs = Some w \<and> if_action w = ''block''" using Cons by simp
      with False show ?thesis by auto
    next
      case not_f: False
      then have "\<exists>w. worst_finding worst fs = Some w \<and> if_action w = ''block''" using Cons by auto
      with False show ?thesis by auto
    qed
  qed
qed auto

text \<open>
  A payload is blocked as soon as one text inside it, at any depth, is: the finding of
  \<open>check_payload\<close> has the action \<open>block\<close> exactly when some non-empty text of the payload is blocked.
\<close>

lemma payload_blocked_iff:
  "if_action (check_payload u payload) = ''block'' \<longleftrightarrow>
     list_ex (\<lambda>t. if_action (check_text u t) = ''block'') (collect_strings (JObj payload))"
proof -
  let ?fs = "map (check_text u) (collect_strings (JObj payload))"
  have high: "\<forall>f \<in> set ?fs. if_severity f = ''high'' \<longrightarrow> if_action f = ''block''"
    by (auto simp: check_text_def Let_def no_injection_def)
  have mem: "worst_finding w fs = Some f \<Longrightarrow> w = Some f \<or> f \<in> set fs" for w fs f
    by (induction fs arbitrary: w) (auto split: if_splits)
  show ?thesis
  proof
    assume "if_action (check_payload u payload) = ''block''"
    then obtain f where "worst_finding None ?fs = Some f" "if_action f = ''block''"
      by (auto simp: check_payload_def no_injection_def split: option.splits)
    then show "list_ex (\<lambda>t. if_action (check_text u t) = ''block'') (collect_strings (JObj payload))"
      using mem [of None ?fs f] by (auto simp: list_ex_iff)
  next
    assume "list_ex (\<lambda>t. if_action (check_text u t) = ''block'') (collect_strings (JObj payload))"
    then have "\<exists>f \<in> set ?fs. if_detected f \<and> if_action f = ''block''"
      unfolding list_ex_iff list.set_map bex_simps using check_text_actions [of u] by force
    then have "\<exists>w. worst_finding None ?fs = Some w \<and> if_action w = ''block''"
      by (intro worst_finding_block high) blast
    then show "if_action (check_payload u payload) = ''block''" by (auto simp: check_payload_def)
  qed
qed

end
