(* ===== verification/Sql_Llm.thy ===== *)
theory Sql_Llm
  imports Sql_Generation Guardrails
begin

text \<open>
  The generator over a language model (\<open>app/agent/nl2sql/llm_generator.py\<close>): the prompt, the tolerant
  reading of the answer, its checks, and the fallback to the mock generator. The provider and \<open>json.loads\<close>
  are parameters.
\<close>

subsection \<open>The provider's answer\<close>

record llm_reply =
  lr_content :: string
  lr_provider :: string
  lr_model :: string
  lr_prompt_tokens :: int
  lr_completion_tokens :: int
  lr_total_tokens :: int
  lr_cost :: rat
  lr_request_id :: string
  lr_latency_ms :: rat
  lr_error_type :: "string option"
  lr_tool_calls :: json

definition reply_dump :: "llm_reply \<Rightarrow> jdict" where
  "reply_dump r =
     [(''content'', JStr (lr_content r)), (''provider'', JStr (lr_provider r)), (''model'', JStr (lr_model r)),
      (''prompt_tokens'', JInt (lr_prompt_tokens r)), (''completion_tokens'', JInt (lr_completion_tokens r)),
      (''total_tokens'', JInt (lr_total_tokens r)), (''cost'', JFloat (lr_cost r)),
      (''request_id'', JStr (lr_request_id r)), (''latency_ms'', JFloat (lr_latency_ms r)),
      (''error_type'', opt_str (lr_error_type r)), (''tool_calls'', lr_tool_calls r)]"

text \<open>A provider: its name, its model, and its answer to a prompt; an exception is its class and its text.\<close>

record 'w sql_provider =
  pv_name :: string
  pv_model :: string
  pv_generate :: "string \<Rightarrow> 'w \<Rightarrow> (string \<times> string + llm_reply) \<times> 'w"

record 'w sql_generator =
  sg_unicode :: unicode
  sg_provider :: "'w sql_provider"
  sg_fallback :: bool
  sg_template :: "string option"
  sg_loads :: "string \<Rightarrow> string + json"
  sg_float :: "string \<Rightarrow> rat option"

subsection \<open>The prompt\<close>

definition field_desc :: "'w env \<Rightarrow> schema_field \<Rightarrow> string" where
  "field_desc env f =
     sf_name f @ ''('' @ sf_type f @ '')'' @ (if sf_primary f then '' PK'' else []) @
     (if sf_samples f \<noteq> [] then '' samples='' @ py_str env (JList (sf_samples f)) else [])"

definition format_schema :: "'w env \<Rightarrow> schema_table list \<Rightarrow> string" where
  "format_schema env tables =
     str_join [char_of (10::nat)]
       (map (\<lambda>t. tx_table_desc (st_name t) (int_text (st_row_count t))
          (str_join '', '' (map (field_desc env) (st_fields t)))) tables)"

definition render_prompt :: "'w env \<Rightarrow> string option \<Rightarrow> string \<Rightarrow> pruned_schema \<Rightarrow> string" where
  "render_prompt env template query pruned =
     (let t = (case template of None \<Rightarrow> [] | Some t \<Rightarrow> t);
          t' = (if t = [] then ''{query}'' @ [char_of (10::nat)] @ ''{schema_text}'' else t)
      in str_replace ''{schema_text}'' (format_schema env (ps_tables pruned)) (str_replace ''{query}'' query t'))"

subsection \<open>Reading the answer\<close>

definition strip_text :: "unicode \<Rightarrow> string \<Rightarrow> string" where
  "strip_text u s = concat (u_strip u (py_chars s))"

definition rstrip_text :: "unicode \<Rightarrow> string \<Rightarrow> string" where
  "rstrip_text u s = concat (strip_end (is_space u) (py_chars s))"

definition fence :: string where "fence = utf8 [96, 96, 96]"

text \<open>The text inside a code fence that opens the answer.\<close>

definition unfence :: "unicode \<Rightarrow> string \<Rightarrow> string" where
  "unfence u text =
     (let nl = char_of (10::nat); t1 = (if nl \<in> set text then drop 1 (dropWhile (\<lambda>c. c \<noteq> nl) text) else text);
          t2 = rstrip_text u t1
      in if suffix fence t2 then take (length t2 - 3) t2 else t1)"

text \<open>From the first opening to the last closing brace.\<close>

definition braces :: "string \<Rightarrow> string option" where
  "braces raw =
     (let rest = dropWhile (\<lambda>c. c \<noteq> CHR ''{'') raw
      in if CHR ''}'' \<in> set rest then Some (strip_end (\<lambda>c. c \<noteq> CHR ''}'') rest) else None)"

definition loads_tolerant :: "unicode \<Rightarrow> (string \<Rightarrow> string + json) \<Rightarrow> string \<Rightarrow> string + json \<times> string option" where
  "loads_tolerant u loads raw =
     (case loads raw of
        Inr v \<Rightarrow> Inr (v, None)
      | Inl first \<Rightarrow>
          (let text = strip_text u raw;
               last_try = (case braces raw of
                   None \<Rightarrow> Inl first
                 | Some t \<Rightarrow> (case loads t of Inr v \<Rightarrow> Inr (v, Some tx_from_text) | Inl _ \<Rightarrow> Inl first))
           in if prefix fence text
              then (case loads (unfence u text) of Inr v \<Rightarrow> Inr (v, Some tx_from_fence) | Inl _ \<Rightarrow> last_try)
              else last_try))"

subsection \<open>Fallback and failure\<close>

definition fallback_to_mock ::
  "unicode \<Rightarrow> string \<Rightarrow> string \<Rightarrow> schema_table list \<Rightarrow> string \<Rightarrow> string \<Rightarrow> string list \<Rightarrow> nl2sql_result"
where
  "fallback_to_mock u now query tables provider why extra =
     (let m = mock_generate u now query tables
      in m\<lparr>nl_reasoning := ''[fallback from LLM error: '' @ why @ ''] '' @ nl_reasoning m,
           nl_generator := ''mock_fallback'', nl_provider := Some provider, nl_fallback := True,
           nl_fallback_reason := Some why, nl_warnings := nl_warnings m @ extra\<rparr>)"

definition llm_failure ::
  "string \<Rightarrow> pruned_schema \<Rightarrow> string \<Rightarrow> string \<Rightarrow> string \<Rightarrow> string list \<Rightarrow> nl2sql_result"
where
  "llm_failure query pruned provider text why warnings =
     \<lparr>nl_query = query, nl_pruned = pruned, nl_sql = [], nl_confidence = 0, nl_reasoning = text,
      nl_guard = blocked [] text, nl_generator = ''llm'', nl_provider = Some provider, nl_fallback = False,
      nl_fallback_reason = Some why, nl_warnings = warnings\<rparr>"

definition after_colon :: "string \<Rightarrow> string" where
  "after_colon s = drop 1 (dropWhile (\<lambda>c. c \<noteq> CHR '':'') s)"

definition human_readable_reason :: "string \<Rightarrow> string" where
  "human_readable_reason why =
     (if prefix ''invalid_json:'' why then tx_bad_json (after_colon why)
      else if prefix ''invalid_payload:not_object'' why then tx_not_object_dot
      else if prefix ''invalid_sql:not_string'' why then tx_sql_not_string_dot
      else if prefix ''empty_sql'' why then tx_llm_sql_empty_dot
      else if prefix ''guard_blocked:'' why then tx_guard_blocked (after_colon why)
      else why)"

definition fallback_or_failure ::
  "'w sql_generator \<Rightarrow> string \<Rightarrow> string \<Rightarrow> schema_table list \<Rightarrow> string \<Rightarrow> string list \<Rightarrow> nl2sql_result"
where
  "fallback_or_failure g now query tables why warnings =
     (let provider = pv_name (sg_provider g)
      in if sg_fallback g then fallback_to_mock (sg_unicode g) now query tables provider why warnings
         else llm_failure query (prune query tables) provider (human_readable_reason why) why warnings)"

definition generation_error ::
  "'w sql_generator \<Rightarrow> string \<Rightarrow> string \<Rightarrow> schema_table list \<Rightarrow> string \<times> string \<Rightarrow> nl2sql_result"
where
  "generation_error g now query tables e =
     (let provider = pv_name (sg_provider g); why = ''provider_error:'' @ fst e @ '':'' @ snd e
      in if sg_fallback g then fallback_to_mock (sg_unicode g) now query tables provider why []
         else llm_failure query (prune query tables) provider (tx_llm_failed (snd e)) why [why])"

subsection \<open>The checks of an answer\<close>

definition answer_confidence :: "(string \<Rightarrow> rat option) \<Rightarrow> jdict \<Rightarrow> rat \<times> string list" where
  "answer_confidence rd data =
     (case py_float rd (dget_or data ''confidence'' (JFloat 0)) of
        None \<Rightarrow> (0, [tx_bad_confidence]) | Some q \<Rightarrow> (max 0 (min 1 q), []))"

definition answer_reasoning :: "jdict \<Rightarrow> string" where
  "answer_reasoning data =
     (case dget_or data ''reasoning'' (JStr []) of JStr (c # cs) \<Rightarrow> c # cs | _ \<Rightarrow> tx_no_reasoning)"

fun json_strings :: "json list \<Rightarrow> string list" where
  "json_strings [] = []"
| "json_strings (JStr s # vs) = s # json_strings vs"
| "json_strings (v # vs) = json_strings vs"

definition answer_tables :: "'w env \<Rightarrow> pruned_schema \<Rightarrow> jdict \<Rightarrow> string list" where
  "answer_tables env pruned data =
     (let raw = dget_or data ''selected_tables'' (JList []);
          (sel, warn) = (case raw of
             JList vs \<Rightarrow> (json_strings vs, if length (json_strings vs) \<noteq> length vs then [tx_tables_not_strings] else [])
           | _ \<Rightarrow> ([], [tx_tables_not_list]));
          extra = filter (\<lambda>t. t \<notin> st_name ` set (ps_tables pruned)) sel
      in warn @ (if extra \<noteq> [] then [tx_extra_tables (py_str env (jstrs extra))] else []))"

definition llm_answer ::
  "'w env \<Rightarrow> 'w sql_generator \<Rightarrow> string \<Rightarrow> string \<Rightarrow> schema_table list \<Rightarrow> jdict \<Rightarrow> string list \<Rightarrow> string \<Rightarrow> nl2sql_result"
where
  "llm_answer env g now query tables data warnings sql =
     (let u = sg_unicode g; pruned = prune query tables; fail = fallback_or_failure g now query tables;
          (confidence, w1) = answer_confidence (sg_float g) data;
          text = answer_reasoning data; v = check_llm_output u text;
          reasoning = (case gv_sanitized v of Some (c # cs) \<Rightarrow> c # cs | _ \<Rightarrow> text);
          w2 = (if gv_action v \<in> {''warn'', ''redact''}
                then [''guardrails_output_'' @ gv_action v @ '': '' @ gv_reason v] else []);
          ws = warnings @ w1 @ w2
      in if gv_risk v = ''high'' then fail ''dangerous_output_suggestion'' (ws @ [tx_dangerous_output])
         else
           (let ws' = ws @ answer_tables env pruned data; r = sg_check u sql
            in if \<not> gr_allowed r
               then fail (''guard_blocked:'' @ gr_reason r) (ws' @ [tx_guard_blocked (gr_reason r)])
               else \<lparr>nl_query = query, nl_pruned = pruned, nl_sql = gr_sql r, nl_confidence = confidence,
                     nl_reasoning = reasoning, nl_guard = r, nl_generator = ''llm'',
                     nl_provider = Some (pv_name (sg_provider g)), nl_fallback = False, nl_fallback_reason = None,
                     nl_warnings = ws'\<rparr>))"

definition parse_response ::
  "'w env \<Rightarrow> 'w sql_generator \<Rightarrow> string \<Rightarrow> string \<Rightarrow> schema_table list \<Rightarrow> string \<Rightarrow> nl2sql_result"
where
  "parse_response env g now query tables raw =
     (let fail = fallback_or_failure g now query tables in
      case loads_tolerant (sg_unicode g) (sg_loads g) raw of
        Inl e \<Rightarrow> fail (''invalid_json:'' @ e) [tx_bad_json e]
      | Inr (JObj data, warn) \<Rightarrow>
          (case dget data ''sql'' of
             JStr s \<Rightarrow>
               (let sql = strip_text (sg_unicode g) s in
                if sql = [] then fail ''empty_sql'' [tx_llm_sql_empty]
                else llm_answer env g now query tables data (case warn of None \<Rightarrow> [] | Some w \<Rightarrow> [w]) sql)
           | _ \<Rightarrow> fail ''invalid_sql:not_string'' [tx_sql_not_string])
      | Inr _ \<Rightarrow> fail ''invalid_payload:not_object'' [tx_not_object])"

text \<open>The result with the metadata of the last answer.\<close>

definition llm_generate ::
  "'w env \<Rightarrow> 'w sql_generator \<Rightarrow> string \<Rightarrow> schema_table list \<Rightarrow> 'w \<Rightarrow> (nl2sql_result \<times> jdict option) \<times> 'w"
where
  "llm_generate env g query tables w =
     (case pv_generate (sg_provider g) (render_prompt env (sg_template g) query (prune query tables)) w of
        (Inl e, w') \<Rightarrow> ((generation_error g (now_iso env w') query tables e, None), w')
      | (Inr r, w') \<Rightarrow>
          ((parse_response env g (now_iso env w') query tables (lr_content r), Some (reply_dump r)), w'))"

subsection \<open>What an answer can do\<close>

lemma fallback_to_mock_guarded: "unicode_ok u \<Longrightarrow> result_guarded u (fallback_to_mock u now query tables p why ws)"
  using mock_generate_guarded by (auto simp: fallback_to_mock_def Let_def result_guarded_def)

lemma llm_failure_guarded: "result_guarded u (llm_failure query pruned p text why ws)"
  by (simp add: llm_failure_def result_guarded_def blocked_def)

lemma fallback_or_failure_guarded:
  "unicode_ok (sg_unicode g) \<Longrightarrow> result_guarded (sg_unicode g) (fallback_or_failure g now query tables why ws)"
  by (simp add: fallback_or_failure_def Let_def fallback_to_mock_guarded llm_failure_guarded)

lemma generation_error_guarded:
  "unicode_ok (sg_unicode g) \<Longrightarrow> result_guarded (sg_unicode g) (generation_error g now query tables e)"
  by (simp add: generation_error_def Let_def fallback_to_mock_guarded llm_failure_guarded)

lemma llm_answer_guarded:
  assumes "unicode_ok (sg_unicode g)"
  shows "result_guarded (sg_unicode g) (llm_answer env g now query tables data ws sql)"
  using guarded_checked [OF assms, of sql] fallback_or_failure_guarded [OF assms]
  by (simp add: llm_answer_def Let_def split_beta result_guarded_def)

lemma parse_response_guarded:
  assumes "unicode_ok (sg_unicode g)"
  shows "result_guarded (sg_unicode g) (parse_response env g now query tables raw)"
  using fallback_or_failure_guarded [OF assms] llm_answer_guarded [OF assms]
  by (simp add: parse_response_def Let_def split: sum.split json.split prod.split)

lemma llm_generate_guarded:
  assumes "unicode_ok (sg_unicode g)"
  shows "result_guarded (sg_unicode g) (fst (fst (llm_generate env g query tables w)))"
  using generation_error_guarded [OF assms] parse_response_guarded [OF assms]
  by (simp add: llm_generate_def split: prod.split sum.split)

end
