(* ===== verification/Llm_Governance.thy ===== *)
theory Llm_Governance
  imports System_State
begin

text \<open>
  The controls on calls of a language model: the budget (\<open>app/harness/llm/budget.py\<close>), the cache of
  results (\<open>cache.py\<close>) and the summary of one call (\<open>acceptance.py\<close>). Floats are rationals.
\<close>

subsection \<open>Estimates\<close>

record pricing =
  pc_enabled :: bool
  pc_completion_tokens :: int
  pc_prompt_price :: rat
  pc_completion_price :: rat

definition estimate_prompt_tokens :: "string \<Rightarrow> int" where
  "estimate_prompt_tokens text = (if text = [] then 0 else max 1 (int (py_len text) div 4))"

definition estimate_llm_cost_usd :: "pricing \<Rightarrow> int \<Rightarrow> int option \<Rightarrow> rat" where
  "estimate_llm_cost_usd pc prompt completion =
     (if \<not> pc_enabled pc then 0
      else
        (let c = (case completion of None \<Rightarrow> max 0 (pc_completion_tokens pc) | Some n \<Rightarrow> n)
         in of_int (max 0 prompt) / 1000 * max 0 (pc_prompt_price pc) +
            of_int (max 0 c) / 1000 * max 0 (pc_completion_price pc)))"

subsection \<open>The budget\<close>

record usage =
  us_scope :: string
  us_mode :: string
  us_provider :: string
  us_model :: string
  us_prompt_tokens :: int
  us_completion_tokens :: int
  us_cost :: rat

record budget =
  bu_enabled :: bool
  bu_soft :: rat
  bu_hard :: rat
  bu_scope :: string
  bu_costs :: "(string \<times> rat) list"
  bu_events :: "usage list"

definition budget_init :: "bool \<Rightarrow> rat \<Rightarrow> rat \<Rightarrow> string \<Rightarrow> budget" where
  "budget_init enabled soft hard scope =
     \<lparr>bu_enabled = enabled, bu_soft = soft, bu_hard = hard,
      bu_scope = (let s = lower (strip scope) in if s = [] then ''daily'' else s), bu_costs = [], bu_events = []\<rparr>"

text \<open>\<open>strftime\<close> of the UTC time, a prefix of its ISO text.\<close>

definition scope_key :: "string \<Rightarrow> budget \<Rightarrow> string" where
  "scope_key utc b =
     (if bu_scope b = ''global'' then ''global'' else if bu_scope b = ''hourly'' then take 13 utc else take 10 utc)"

definition current_cost :: "string \<Rightarrow> budget \<Rightarrow> rat" where
  "current_cost key b = (case map_of (bu_costs b) key of None \<Rightarrow> 0 | Some c \<Rightarrow> c)"

definition budget_decision :: "budget \<Rightarrow> bool \<Rightarrow> string \<Rightarrow> string \<Rightarrow> rat \<Rightarrow> rat \<Rightarrow> jdict" where
  "budget_decision b allowed action reason current estimated =
     [(''allowed'', JBool allowed), (''action'', JStr action), (''reason'', JStr reason),
      (''budget_scope'', JStr (bu_scope b)), (''current_cost'', JFloat current), (''soft_limit'', JFloat (bu_soft b)),
      (''hard_limit'', JFloat (bu_hard b)), (''estimated_cost'', JFloat estimated)]"

definition estimated_cost :: "pricing \<Rightarrow> rat \<Rightarrow> string option \<Rightarrow> rat" where
  "estimated_cost pc cost prompt =
     (let c = max 0 cost in
      case prompt of
        None \<Rightarrow> c
      | Some p \<Rightarrow> if c \<le> 0 then estimate_llm_cost_usd pc (estimate_prompt_tokens p) None else c)"

definition check_budget ::
  "'w env \<Rightarrow> pricing \<Rightarrow> string \<Rightarrow> rat \<Rightarrow> string option \<Rightarrow> budget \<Rightarrow> jdict"
where
  "check_budget env pc utc cost prompt b =
     (if \<not> bu_enabled b then budget_decision b True ''allow'' ''budget_disabled'' 0 0
      else
        (let est = estimated_cost pc cost prompt; cur = current_cost (scope_key utc b) b; total = cur + est in
         if 0 < bu_hard b \<and> bu_hard b \<le> total
         then budget_decision b False ''fallback''
                (''budget_blocked:hard_limit_exceeded:'' @ py_str env (JFloat (bu_hard b))) cur est
         else if 0 < bu_soft b \<and> bu_soft b \<le> total
         then budget_decision b True ''warn''
                (''budget_soft_limit_reached:'' @ py_str env (JFloat (bu_soft b))) cur est
         else budget_decision b True ''allow'' ''budget_ok'' cur est))"

definition or_unknown :: "string \<Rightarrow> string" where
  "or_unknown s = (if s = [] then ''unknown'' else s)"

definition record_usage ::
  "string \<Rightarrow> string \<Rightarrow> string \<Rightarrow> string \<Rightarrow> int \<Rightarrow> int \<Rightarrow> rat \<Rightarrow> budget \<Rightarrow> budget"
where
  "record_usage utc mode provider model prompt completion cost b =
     (if \<not> bu_enabled b then b
      else
        (let key = scope_key utc b;
             u = \<lparr>us_scope = key, us_mode = mode, us_provider = or_unknown provider, us_model = or_unknown model,
                  us_prompt_tokens = max 0 prompt, us_completion_tokens = max 0 completion, us_cost = max 0 cost\<rparr>
         in b\<lparr>bu_costs := dput (bu_costs b) key (current_cost key b + us_cost u), bu_events := bu_events b @ [u]\<rparr>))"

text \<open>\<open>d[k] = d.get(k, 0.0) + c\<close> over the events.\<close>

definition add_cost :: "string \<Rightarrow> rat \<Rightarrow> (string \<times> rat) list \<Rightarrow> (string \<times> rat) list" where
  "add_cost k c d = dput d k ((case map_of d k of None \<Rightarrow> 0 | Some x \<Rightarrow> x) + c)"

definition costs_by :: "(usage \<Rightarrow> string) \<Rightarrow> usage list \<Rightarrow> (string \<times> rat) list" where
  "costs_by key us = fold (\<lambda>u. add_cost (or_unknown (key u)) (us_cost u)) us []"

definition budget_summary :: "string \<Rightarrow> budget \<Rightarrow> jdict" where
  "budget_summary utc b =
     (let key = scope_key utc b; us = filter (\<lambda>u. us_scope u = key) (bu_events b);
          costs = (\<lambda>d. JObj (map (\<lambda>(k, c). (k, JFloat c)) d)); on = bu_enabled b
      in [(''enabled'', JBool on), (''scope'', JStr (bu_scope b)),
          (''current_cost'', JFloat (if on then current_cost key b else 0)),
          (''soft_limit'', JFloat (bu_soft b)), (''hard_limit'', JFloat (bu_hard b)),
          (''by_provider'', costs (if on then costs_by us_provider us else [])),
          (''by_model'', costs (if on then costs_by us_model us else []))])"

subsection \<open>The cache\<close>

record 'v cache =
  ca_enabled :: bool
  ca_ttl :: int
  ca_store :: "(string \<times> rat \<times> 'v) list"
  ca_hits :: nat
  ca_misses :: nat

definition cache_init :: "bool \<Rightarrow> int \<Rightarrow> 'v cache" where
  "cache_init enabled ttl = \<lparr>ca_enabled = enabled, ca_ttl = ttl, ca_store = [], ca_hits = 0, ca_misses = 0\<rparr>"

definition cache_get :: "string \<Rightarrow> rat \<Rightarrow> 'v cache \<Rightarrow> 'v option \<times> 'v cache" where
  "cache_get key now c =
     (if \<not> ca_enabled c then (None, c)
      else
        (case map_of (ca_store c) key of
           None \<Rightarrow> (None, c\<lparr>ca_misses := ca_misses c + 1\<rparr>)
         | Some (expire, v) \<Rightarrow>
             if 0 < expire \<and> expire < now
             then (None, c\<lparr>ca_store := AList.delete key (ca_store c), ca_misses := ca_misses c + 1\<rparr>)
             else (Some v, c\<lparr>ca_hits := ca_hits c + 1\<rparr>)))"

definition cache_set :: "string \<Rightarrow> 'v \<Rightarrow> int option \<Rightarrow> rat \<Rightarrow> 'v cache \<Rightarrow> 'v cache" where
  "cache_set key v ttl now c =
     (if \<not> ca_enabled c then c
      else
        (let t = (case ttl of None \<Rightarrow> ca_ttl c | Some n \<Rightarrow> n)
         in c\<lparr>ca_store := dput (ca_store c) key (if t \<le> 0 then 0 else now + of_int t, v)\<rparr>))"

definition cache_stats :: "'v cache \<Rightarrow> jdict" where
  "cache_stats c =
     [(''enabled'', JBool (ca_enabled c)), (''ttl_seconds'', JInt (ca_ttl c)),
      (''size'', JInt (int (length (ca_store c)))), (''cache_hit_count'', JInt (int (ca_hits c))),
      (''cache_miss_count'', JInt (int (ca_misses c)))]"

subsection \<open>The summary of a call\<close>

record acceptance =
  ac_mode :: string
  ac_provider :: string
  ac_model :: string
  ac_attempted :: bool
  ac_succeeded :: bool
  ac_fallback_used :: bool
  ac_fallback_reason :: string
  ac_prompt_tokens :: int
  ac_completion_tokens :: int
  ac_total_tokens :: int
  ac_cost :: rat
  ac_latency_ms :: rat
  ac_cache_hit :: bool
  ac_budget_action :: string
  ac_request_id :: string
  ac_error_type :: string
  ac_warnings :: "string list"

definition acceptance_dump :: "acceptance \<Rightarrow> jdict" where
  "acceptance_dump a =
     [(''mode'', JStr (ac_mode a)), (''provider'', JStr (ac_provider a)), (''model'', JStr (ac_model a)),
      (''real_call_attempted'', JBool (ac_attempted a)), (''real_call_succeeded'', JBool (ac_succeeded a)),
      (''fallback_used'', JBool (ac_fallback_used a)), (''fallback_reason'', JStr (ac_fallback_reason a)),
      (''prompt_tokens'', JInt (ac_prompt_tokens a)), (''completion_tokens'', JInt (ac_completion_tokens a)),
      (''total_tokens'', JInt (ac_total_tokens a)), (''cost'', JFloat (ac_cost a)),
      (''latency_ms'', JFloat (ac_latency_ms a)), (''cache_hit'', JBool (ac_cache_hit a)),
      (''budget_action'', JStr (ac_budget_action a)), (''request_id'', JStr (ac_request_id a)),
      (''error_type'', JStr (ac_error_type a)), (''warnings'', jstrs (ac_warnings a))]"

text \<open>
  \<open>int(d.get(k) or 0)\<close>, \<open>float(d.get(k) or 0.0)\<close> and \<open>str(d.get(k) or "")\<close> of a dict whose numbers
  are numbers, as those of \<open>LLMGenerateMetadata\<close> are.
\<close>

fun int_of :: "json \<Rightarrow> int" where
  "int_of (JInt i) = i"
| "int_of (JFloat q) = (if q < 0 then - \<lfloor>- q\<rfloor> else \<lfloor>q\<rfloor>)"
| "int_of (JBool b) = (if b then 1 else 0)"
| "int_of v = 0"

fun rat_of :: "json \<Rightarrow> rat" where
  "rat_of (JInt i) = of_int i"
| "rat_of (JFloat q) = q"
| "rat_of (JBool b) = (if b then 1 else 0)"
| "rat_of v = 0"

definition str_at :: "'w env \<Rightarrow> jdict \<Rightarrow> string \<Rightarrow> string" where
  "str_at env d k = (case dget d k of JStr s \<Rightarrow> s | v \<Rightarrow> if truthy v then py_str env v else [])"

definition summarize_llm_acceptance ::
  "'w env \<Rightarrow> string \<Rightarrow> string \<Rightarrow> string \<Rightarrow> jdict \<Rightarrow> bool \<Rightarrow> string \<Rightarrow> jdict \<Rightarrow> string list \<Rightarrow> string \<Rightarrow>
     bool option \<Rightarrow> acceptance"
where
  "summarize_llm_acceptance env mode provider model meta fallback why budget warnings err attempt =
     (let p = int_of (dget meta ''prompt_tokens''); c = int_of (dget meta ''completion_tokens'');
          total = int_of (dget_or meta ''total_tokens'' (JInt (p + c)));
          hit = truthy (dget meta ''cache_hit'');
          name = (if provider = [] then str_at env meta ''provider'' else provider);
          act = str_at env budget ''action''; reason = strip why;
          attempted = (case attempt of Some b \<Rightarrow> b
             | None \<Rightarrow> \<not> fallback \<and> \<not> hit \<and> name \<notin> {[], ''fake'', ''mock''})
      in \<lparr>ac_mode = mode, ac_provider = name,
          ac_model = (if model = [] then str_at env meta ''model'' else model),
          ac_attempted = attempted,
          ac_succeeded = (attempted \<and> \<not> fallback \<and> err = [] \<and> (p \<noteq> 0 \<or> c \<noteq> 0 \<or> meta \<noteq> [])),
          ac_fallback_used = fallback,
          ac_fallback_reason =
            (if fallback \<and> reason = []
             then if err \<noteq> [] then ''fallback_due_to_'' @ err
                  else if act = ''fallback'' then ''budget_blocked'' else ''fallback_unspecified''
             else reason),
          ac_prompt_tokens = p, ac_completion_tokens = c, ac_total_tokens = total,
          ac_cost = rat_of (dget meta ''cost''), ac_latency_ms = rat_of (dget meta ''latency_ms''),
          ac_cache_hit = hit, ac_budget_action = act, ac_request_id = str_at env meta ''request_id'',
          ac_error_type = strip err, ac_warnings = warnings\<rparr>)"

subsection \<open>The account\<close>

text \<open>A report of one call: the time, the names, the tokens and the cost.\<close>

record usage_report =
  ur_utc :: string
  ur_mode :: string
  ur_provider :: string
  ur_model :: string
  ur_prompt_tokens :: int
  ur_completion_tokens :: int
  ur_cost :: rat

definition report :: "usage_report \<Rightarrow> budget \<Rightarrow> budget" where
  "report r = record_usage (ur_utc r) (ur_mode r) (ur_provider r) (ur_model r) (ur_prompt_tokens r)
     (ur_completion_tokens r) (ur_cost r)"

definition cost_in :: "string \<Rightarrow> usage list \<Rightarrow> rat" where
  "cost_in key us = sum_list (map us_cost (filter (\<lambda>u. us_scope u = key) us))"

definition account_ok :: "budget \<Rightarrow> bool" where
  "account_ok b \<longleftrightarrow> (\<forall>key. current_cost key b = cost_in key (bu_events b)) \<and> (\<forall>u \<in> set (bu_events b). 0 \<le> us_cost u)"

lemma account_ok_record:
  "account_ok b \<Longrightarrow> account_ok (record_usage utc mode provider model p c cost b)"
  by (auto simp: account_ok_def record_usage_def Let_def current_cost_def cost_in_def split: option.splits)

lemma record_usage_frame [simp]:
  "bu_enabled (record_usage utc mode provider model p c cost b) = bu_enabled b"
  "bu_hard (record_usage utc mode provider model p c cost b) = bu_hard b"
  "bu_soft (record_usage utc mode provider model p c cost b) = bu_soft b"
  "bu_scope (record_usage utc mode provider model p c cost b) = bu_scope b"
  by (simp_all add: record_usage_def Let_def)

lemma report_frame [simp]:
  "bu_enabled (report r b) = bu_enabled b" "bu_hard (report r b) = bu_hard b" "bu_scope (report r b) = bu_scope b"
  by (simp_all add: report_def)

lemma scope_key_report [simp]: "scope_key utc (report r b) = scope_key utc b"
  by (simp add: scope_key_def)

lemma reports_account:
  "bu_enabled b \<Longrightarrow>
   bu_events (fold report rs b) =
     bu_events b @ map (\<lambda>r. \<lparr>us_scope = scope_key (ur_utc r) b, us_mode = ur_mode r, us_provider = or_unknown (ur_provider r),
        us_model = or_unknown (ur_model r), us_prompt_tokens = max 0 (ur_prompt_tokens r),
        us_completion_tokens = max 0 (ur_completion_tokens r), us_cost = max 0 (ur_cost r)\<rparr>) rs"
  by (induction rs arbitrary: b) (simp_all, simp add: report_def record_usage_def Let_def)

lemma reports_ok: "account_ok b \<Longrightarrow> account_ok (fold report rs b)"
  by (induction rs arbitrary: b) (simp_all add: report_def account_ok_record)

lemma reports_frame:
  "bu_enabled (fold report rs b) = bu_enabled b \<and> bu_hard (fold report rs b) = bu_hard b \<and>
   bu_scope (fold report rs b) = bu_scope b"
  by (induction rs arbitrary: b) simp_all

lemma account_ok_init: "account_ok (budget_init enabled soft hard scope)"
  by (simp add: account_ok_def budget_init_def current_cost_def cost_in_def)


text \<open>
  A cached result comes back until it expires: after \<open>set\<close>, \<open>get\<close> of the same key gives the value, unless
  the cache is off or the entry's time to live is positive and has passed.
\<close>

lemma cache_returns_until_expiry:
  "fst (cache_get key now (cache_set key v ttl t c)) =
     (let n = (case ttl of None \<Rightarrow> ca_ttl c | Some n \<Rightarrow> n)
      in if ca_enabled c \<and> \<not> (0 < n \<and> 0 < t + of_int n \<and> t + of_int n < now) then Some v else None)"
  by (simp add: cache_get_def cache_set_def Let_def)

end
