(* ===== verification/Sql_Pipeline.thy ===== *)
theory Sql_Pipeline
  imports Sql_Llm Llm_Governance Multi_Agent
begin

text \<open>
  The NL2SQL service (\<open>app/services/nl2sql_pipeline.py\<close>): generation under budget and cache, the filter on
  the explanation, and the guarded execution. The process-wide budget manager and cache are a part of the
  world, read and written through two accessors. The cache holds the dict the service returns, not a copy:
  what the service later changes in it is changed in the cache too.
\<close>

subsection \<open>The output of a generation\<close>

record gen_output =
  go_tables :: "string list"
  go_sql :: string
  go_guard_allowed :: bool
  go_guard_reason :: string
  go_reasoning :: string
  go_confidence :: rat
  go_generator :: string
  go_provider :: "string option"
  go_fallback :: bool
  go_fallback_reason :: "string option"
  go_warnings :: "string list"
  go_metadata :: "jdict option"
  go_budget :: "jdict option"
  go_acceptance :: "jdict option"

definition dict_or_null :: "jdict option \<Rightarrow> json" where
  "dict_or_null d = (case d of None \<Rightarrow> JNull | Some x \<Rightarrow> JObj x)"

definition output_of :: "nl2sql_result \<Rightarrow> gen_output" where
  "output_of r =
     \<lparr>go_tables = map st_name (ps_tables (nl_pruned r)), go_sql = nl_sql r,
      go_guard_allowed = gr_allowed (nl_guard r), go_guard_reason = gr_reason (nl_guard r),
      go_reasoning = nl_reasoning r, go_confidence = nl_confidence r, go_generator = nl_generator r,
      go_provider = nl_provider r, go_fallback = nl_fallback r, go_fallback_reason = nl_fallback_reason r,
      go_warnings = nl_warnings r, go_metadata = None, go_budget = None, go_acceptance = None\<rparr>"

text \<open>A refusal before any generation.\<close>

definition refusal :: "string \<Rightarrow> string \<Rightarrow> string option \<Rightarrow> string list \<Rightarrow> gen_output" where
  "refusal why reasoning provider warnings =
     \<lparr>go_tables = [], go_sql = [], go_guard_allowed = False, go_guard_reason = why, go_reasoning = reasoning,
      go_confidence = 0, go_generator = ''llm'', go_provider = provider, go_fallback = False,
      go_fallback_reason = Some why, go_warnings = warnings, go_metadata = None, go_budget = None,
      go_acceptance = None\<rparr>"

subsection \<open>The service\<close>

text \<open>\<open>create_provider\<close>: an unknown name, a missing configuration, or a provider.\<close>

datatype 'w provider_choice = PUnknown string | PConfig string | PReady "'w sql_provider"

type_synonym llm_state = "budget \<times> gen_output cache"

record 'w sql_pipeline =
  sq_unicode :: unicode
  sq_extract :: "'w \<Rightarrow> (string + schema_table list) \<times> 'w"
  sq_database :: "'w database"
  sq_create :: "string option \<Rightarrow> 'w provider_choice"
  sq_template :: "string option"
  sq_loads :: "string \<Rightarrow> string + json"
  sq_float :: "string \<Rightarrow> rat option"
  sq_pricing :: pricing
  sq_default_model :: string
  sq_wall :: "'w \<Rightarrow> rat"
  sq_schema_digest :: "json \<Rightarrow> string"
  sq_stable_digest :: "json \<Rightarrow> string"
  sq_llm :: "'w \<Rightarrow> llm_state"
  sq_set_llm :: "llm_state \<Rightarrow> 'w \<Rightarrow> 'w"

definition on_world :: "('w \<Rightarrow> 'a \<times> 'w) \<Rightarrow> 'w sys \<Rightarrow> 'a \<times> 'w sys" where
  "on_world f s = (case f (sy_world s) of (x, w) \<Rightarrow> (x, s\<lparr>sy_world := w\<rparr>))"

definition on_metrics :: "(metrics \<Rightarrow> metrics) \<Rightarrow> 'w sys \<Rightarrow> 'w sys" where
  "on_metrics f s = s\<lparr>sy_metrics := map_option f (sy_metrics s)\<rparr>"

definition with_budget :: "'w sql_pipeline \<Rightarrow> (budget \<Rightarrow> budget) \<Rightarrow> 'w sys \<Rightarrow> 'w sys" where
  "with_budget pl f s =
     s\<lparr>sy_world := sq_set_llm pl (case sq_llm pl (sy_world s) of (b, c) \<Rightarrow> (f b, c)) (sy_world s)\<rparr>"

definition with_cache :: "'w sql_pipeline \<Rightarrow> (gen_output cache \<Rightarrow> gen_output cache) \<Rightarrow> 'w sys \<Rightarrow> 'w sys" where
  "with_cache pl f s =
     s\<lparr>sy_world := sq_set_llm pl (case sq_llm pl (sy_world s) of (b, c) \<Rightarrow> (b, f c)) (sy_world s)\<rparr>"

definition record_token_usage :: "jdict option \<Rightarrow> 'w sys \<Rightarrow> 'w sys" where
  "record_token_usage meta s =
     (let m = (case meta of None \<Rightarrow> [] | Some d \<Rightarrow> d)
      in on_metrics (metrics_record_token_usage ''nl2sql'' (int_of (dget m ''prompt_tokens''))
           (int_of (dget m ''completion_tokens'')) (rat_of (dget m ''cost''))) s)"

definition or_dict_opt :: "jdict option \<Rightarrow> jdict" where
  "or_dict_opt d = (case d of None \<Rightarrow> [] | Some x \<Rightarrow> x)"

definition finalize_llm_result ::
  "'w env \<Rightarrow> bool \<Rightarrow> string \<Rightarrow> string \<Rightarrow> string \<Rightarrow> gen_output \<Rightarrow> gen_output"
where
  "finalize_llm_result env llm provider model err out =
     (let meta = or_dict_opt (go_metadata out);
          why = (case go_fallback_reason out of None \<Rightarrow> [] | Some w \<Rightarrow> w);
          summarize = (\<lambda>p m e a. acceptance_dump (summarize_llm_acceptance env ''nl2sql'' p m meta (go_fallback out) why
             (or_dict_opt (go_budget out)) (go_warnings out) e a))
      in out\<lparr>go_acceptance := Some
           (if \<not> llm then summarize ''mock'' [] err (Some False)
            else summarize (if provider = [] then (case go_provider out of None \<Rightarrow> [] | Some p \<Rightarrow> p) else provider)
                   model (if err = [] then str_at env meta ''error_type'' else err) None)\<rparr>)"

definition mock_output :: "'w env \<Rightarrow> 'w sql_pipeline \<Rightarrow> string \<Rightarrow> schema_table list \<Rightarrow> 'w sys \<Rightarrow> gen_output" where
  "mock_output env pl query tables s = output_of (mock_generate (sq_unicode pl) (sys_now env s) query tables)"

text \<open>The mock's output as a fallback, before any call or when the budget refuses it.\<close>

definition config_fallback ::
  "'w env \<Rightarrow> 'w sql_pipeline \<Rightarrow> string \<Rightarrow> schema_table list \<Rightarrow> string \<Rightarrow> 'w sys \<Rightarrow> gen_output \<times> 'w sys"
where
  "config_fallback env pl query tables why s =
     ((mock_output env pl query tables s)\<lparr>go_generator := ''mock_fallback'', go_provider := Some ''litellm'',
        go_fallback := True, go_fallback_reason := Some why\<rparr>, record_token_usage None s)"

definition mock_fallback_result ::
  "'w env \<Rightarrow> 'w sql_pipeline \<Rightarrow> string \<Rightarrow> schema_table list \<Rightarrow> string \<Rightarrow> string \<Rightarrow> 'w sys \<Rightarrow> gen_output \<times> 'w sys"
where
  "mock_fallback_result env pl query tables provider why s =
     (let m = mock_output env pl query tables s
      in (m\<lparr>go_generator := ''mock_fallback'', go_provider := Some provider, go_fallback := True,
            go_fallback_reason := Some why, go_warnings := go_warnings m @ [why]\<rparr>, record_token_usage None s))"

definition schema_payload :: "schema_table list \<Rightarrow> json" where
  "schema_payload tables =
     JList (map (\<lambda>t. JObj [(''name'', JStr (st_name t)),
        (''fields'', JList (map (\<lambda>f. JObj [(''name'', JStr (sf_name f)), (''type'', JStr (sf_type f))]) (st_fields t)))])
       tables)"

definition nl2sql_cache_key ::
  "'w sql_pipeline \<Rightarrow> string \<Rightarrow> schema_table list \<Rightarrow> 'w sql_provider \<Rightarrow> string \<Rightarrow> string"
where
  "nl2sql_cache_key pl query tables prov model =
     ''nl2sql:'' @ sq_stable_digest pl (JObj
       [(''query'', JStr query), (''schema_hash'', JStr (sq_schema_digest pl (schema_payload tables))),
        (''prompt_version'', JStr ''nl2sql_prompt_v1''), (''provider'', JStr (pv_name prov)), (''model'', JStr model)])"

text \<open>What a hit gives: a copy with the warning, no tokens and no cost, and the present budget.\<close>

definition cached_output :: "jdict \<Rightarrow> gen_output \<Rightarrow> gen_output" where
  "cached_output status out =
     out\<lparr>go_warnings := (if ''cache_hit:nl2sql'' \<in> set (go_warnings out) then go_warnings out
           else go_warnings out @ [''cache_hit:nl2sql'']),
         go_metadata := Some (dupd (or_dict_opt (go_metadata out))
           [(''cache_hit'', JBool True), (''prompt_tokens'', JInt 0), (''completion_tokens'', JInt 0),
            (''total_tokens'', JInt 0), (''cost'', JFloat 0)]),
         go_budget := Some status\<rparr>"

definition report_usage :: "'w env \<Rightarrow> 'w sql_pipeline \<Rightarrow> jdict \<Rightarrow> 'w sys \<Rightarrow> 'w sys" where
  "report_usage env pl meta s =
     with_budget pl (record_usage (utc_iso env (sy_world s)) ''nl2sql'' (str_at env meta ''provider'')
       (str_at env meta ''model'') (int_of (dget meta ''prompt_tokens'')) (int_of (dget meta ''completion_tokens''))
       (rat_of (dget meta ''cost''))) s"

text \<open>
  A call of the provider: its output, and the key under which the very object is cached.
\<close>

definition call_provider ::
  "'w env \<Rightarrow> 'w sql_pipeline \<Rightarrow> string \<Rightarrow> bool \<Rightarrow> 'w sql_provider \<Rightarrow> schema_table list \<Rightarrow> jdict \<Rightarrow> string \<Rightarrow> 'w sys \<Rightarrow>
     (gen_output \<times> string option) \<times> 'w sys"
where
  "call_provider env pl query fallback prov tables status key s =
     (let g = \<lparr>sg_unicode = sq_unicode pl, sg_provider = prov, sg_fallback = fallback, sg_template = sq_template pl,
               sg_loads = sq_loads pl, sg_float = sq_float pl\<rparr>;
          ((r, meta), s1) = on_world (llm_generate env g query tables) s;
          s2 = (case meta of None \<Rightarrow> s1 | Some m \<Rightarrow> report_usage env pl m s1);
          s3 = record_token_usage meta s2;
          out = (output_of r)\<lparr>go_metadata := meta, go_budget := Some status\<rparr>
      in if go_generator out = ''llm''
         then ((out, Some key), with_cache pl (cache_set key out None (sq_wall pl (sy_world s3))) s3)
         else ((out, None), s3))"

definition count_lookup :: "'w sql_pipeline \<Rightarrow> gen_output option \<Rightarrow> 'w sys \<Rightarrow> 'w sys" where
  "count_lookup pl hit s =
     (if \<not> ca_enabled (snd (sq_llm pl (sy_world s))) then s
      else on_metrics (case hit of None \<Rightarrow> metrics_cache_miss | Some _ \<Rightarrow> metrics_cache_hit) s)"

definition look_up :: "'w sql_pipeline \<Rightarrow> string \<Rightarrow> 'w sys \<Rightarrow> gen_output option \<times> 'w sys" where
  "look_up pl key s =
     (let (hit, c) = cache_get key (sq_wall pl (sy_world s)) (snd (sq_llm pl (sy_world s)))
      in (hit, count_lookup pl hit (with_cache pl (\<lambda>_. c) s)))"

definition generate_with_provider ::
  "'w env \<Rightarrow> 'w sql_pipeline \<Rightarrow> string \<Rightarrow> bool \<Rightarrow> 'w sql_provider \<Rightarrow> schema_table list \<Rightarrow> 'w sys \<Rightarrow>
     (gen_output \<times> string option) \<times> 'w sys"
where
  "generate_with_provider env pl query fallback prov tables s =
     (let model = (if pv_model prov = [] then sq_default_model pl else pv_model prov);
          status = check_budget env (sq_pricing pl) (utc_iso env (sy_world s)) 0 (Some query) (fst (sq_llm pl (sy_world s)));
          s1 = on_metrics (metrics_set_budget ''nl2sql'' status) s;
          fin = finalize_llm_result env True (pv_name prov) model
      in if \<not> truthy (dget_or status ''allowed'' (JBool True))
         then
           (let why = str_at env status ''reason''
            in if fallback
               then (let (out, s2) = mock_fallback_result env pl query tables (pv_name prov) why s1
                     in ((fin ''budget_blocked'' (out\<lparr>go_budget := Some status\<rparr>), None), s2))
               else ((fin ''budget_blocked'' ((refusal why (tx_budget_reasoning why) (Some (pv_name prov)) [why])
                        \<lparr>go_budget := Some status\<rparr>), None), s1))
         else
           (let key = nl2sql_cache_key pl query tables prov model; (hit, s2) = look_up pl key s1
            in case hit of
                 Some out \<Rightarrow>
                   (let out' = cached_output status out
                    in ((fin [] out', None), record_token_usage (go_metadata out') s2))
               | None \<Rightarrow>
                   (let ((out, stored), s3) = call_provider env pl query fallback prov tables status key s2
                    in ((fin [] out, stored), s3))))"

definition generate_sql ::
  "'w env \<Rightarrow> 'w sql_pipeline \<Rightarrow> string \<Rightarrow> nl2sql_opts \<Rightarrow> schema_table list \<Rightarrow> 'w sys \<Rightarrow>
     (gen_output \<times> string option) \<times> 'w sys"
where
  "generate_sql env pl query opts tables s =
     (if no_generator opts \<noteq> ''llm''
      then ((finalize_llm_result env False [] [] [] (mock_output env pl query tables s), None), record_token_usage None s)
      else
        (case sq_create pl (no_provider opts) of
           PUnknown why \<Rightarrow>
             ((finalize_llm_result env True (case no_provider opts of None \<Rightarrow> [] | Some p \<Rightarrow> p) [] []
                 (refusal why [] (no_provider opts) []), None), s)
         | PConfig why \<Rightarrow>
             (let fin = finalize_llm_result env True ''litellm'' [] ''ProviderConfigError''
              in if no_fallback_to_mock opts
                 then (let (out, s1) = config_fallback env pl query tables why s in ((fin out, None), s1))
                 else ((fin (refusal why [] (Some ''litellm'') []), None), s))
         | PReady prov \<Rightarrow> generate_with_provider env pl query (no_fallback_to_mock opts) prov tables s))"

subsection \<open>Preview and run\<close>

text \<open>A change to the cached object: the value of its entry, not the expiry.\<close>

definition cache_share :: "string option \<Rightarrow> gen_output \<Rightarrow> gen_output cache \<Rightarrow> gen_output cache" where
  "cache_share stored out c =
     (case stored of None \<Rightarrow> c
      | Some key \<Rightarrow> c\<lparr>ca_store := map (\<lambda>(k, e, v). (k, e, if k = key then out else v)) (ca_store c)\<rparr>)"

definition filter_output :: "guard_verdict \<Rightarrow> gen_output \<Rightarrow> gen_output" where
  "filter_output v out =
     (let out1 = (case gv_sanitized v of Some (c # cs) \<Rightarrow> out\<lparr>go_reasoning := c # cs\<rparr> | _ \<Rightarrow> out)
      in if gv_action v = ''redact''
         then out1\<lparr>go_warnings := go_warnings out1 @ [''guardrails_output_redact: '' @ gv_reason v]\<rparr> else out1)"

definition guardrails_info :: "guard_verdict \<Rightarrow> json" where
  "guardrails_info v = JObj [(''output'', JObj (verdict_dump v))]"

definition sql_preview ::
  "'w env \<Rightarrow> 'w sql_pipeline \<Rightarrow> string \<Rightarrow> nl2sql_opts \<Rightarrow> 'w sys \<Rightarrow> (string + gen_output \<times> guard_verdict) \<times> 'w sys"
where
  "sql_preview env pl query opts s =
     (case on_world (sq_extract pl) s of
        (Inl e, s1) \<Rightarrow> (Inl e, s1)
      | (Inr tables, s1) \<Rightarrow>
          (let ((out, stored), s2) = generate_sql env pl query opts tables s1;
               v = sanitize_response (sq_unicode pl) (go_reasoning out);
               out' = filter_output v out
           in (Inr (out', v), with_cache pl (cache_share stored out') s2)))"

definition preview_tail :: "gen_output \<Rightarrow> guard_verdict \<Rightarrow> jdict" where
  "preview_tail out v =
     [(''generator_used'', JStr (go_generator out)), (''provider_used'', opt_str (go_provider out)),
      (''fallback_used'', JBool (go_fallback out)), (''fallback_reason'', opt_str (go_fallback_reason out)),
      (''warnings'', jstrs (go_warnings out)), (''guardrails'', guardrails_info v),
      (''provider_metadata'', dict_or_null (go_metadata out)), (''budget_status'', dict_or_null (go_budget out)),
      (''acceptance_summary'', dict_or_null (go_acceptance out))]"

definition preview_dict :: "gen_output \<Rightarrow> guard_verdict \<Rightarrow> jdict" where
  "preview_dict out v =
     [(''mode'', JStr ''nl2sql_preview''), (''success'', JBool (go_guard_allowed out)), (''sql'', JStr (go_sql out)),
      (''selected_tables'', jstrs (go_tables out)), (''fallback'', JBool (\<not> go_guard_allowed out)),
      (''guard_allowed'', JBool (go_guard_allowed out)), (''guard_reason'', JStr (go_guard_reason out)),
      (''reasoning'', JStr (go_reasoning out)), (''confidence'', JFloat (go_confidence out))] @ preview_tail out v"

text \<open>The execution, its summary and the chart; a text the guard refused, or an empty one, is not executed.\<close>

definition run_sql ::
  "'w env \<Rightarrow> 'w sql_pipeline \<Rightarrow> string \<Rightarrow> gen_output \<Rightarrow> 'w sys \<Rightarrow> (string + string \<times> jdict \<times> jdict \<times> jdict) \<times> 'w sys"
where
  "run_sql env pl query out s =
     (let (x, s1) = (if go_guard_allowed out \<and> go_sql out \<noteq> []
            then on_world (sql_execute (sq_unicode pl) env (sq_database pl) (go_sql out)) s
            else (failed_execution (go_sql out) (go_guard_reason out), s))
      in case format_summary env x of
           Inl e \<Rightarrow> (Inl e, s1)
         | Inr formatted \<Rightarrow>
             (case chart_plan x query of
                Inl e \<Rightarrow> (Inl e, s1)
              | Inr chart \<Rightarrow> (Inr (or_str (dget formatted ''summary''), exec_dump x, formatted, chart_dump chart), s1)))"

definition sql_pipeline_run :: "'w env \<Rightarrow> 'w sql_pipeline \<Rightarrow> 'w nl2sql_run" where
  "sql_pipeline_run env pl query opts s =
     (case sql_preview env pl query opts s of
        (Inl e, s1) \<Rightarrow> (Inl e, s1)
      | (Inr (out, v), s1) \<Rightarrow>
          (case run_sql env pl query out s1 of
             (Inl e, s2) \<Rightarrow> (Inl e, s2)
           | (Inr (answer, execution, formatted, chart), s2) \<Rightarrow>
               (Inr ([(''mode'', JStr ''nl2sql''), (''success'', JBool (go_guard_allowed out)), (''answer'', JStr answer),
                  (''sql'', JStr (go_sql out)), (''selected_tables'', jstrs (go_tables out)),
                  (''guard_allowed'', JBool (go_guard_allowed out)), (''guard_reason'', JStr (go_guard_reason out)),
                  (''reasoning'', JStr (go_reasoning out)), (''confidence'', JFloat (go_confidence out)),
                  (''execution'', JObj execution), (''formatted_result'', JObj formatted), (''chart_spec'', JObj chart)] @
                  preview_tail out v), s2)))"

subsection \<open>Only guarded text is executed\<close>

definition output_guarded :: "unicode \<Rightarrow> gen_output \<Rightarrow> bool" where
  "output_guarded u out \<longleftrightarrow> (go_guard_allowed out \<longrightarrow> guarded u (go_sql out))"

lemma finalize_simps [simp]:
  "go_guard_allowed (finalize_llm_result env llm p m err out) = go_guard_allowed out"
  "go_sql (finalize_llm_result env llm p m err out) = go_sql out"
  "go_reasoning (finalize_llm_result env llm p m err out) = go_reasoning out"
  by (simp_all add: finalize_llm_result_def Let_def)

lemma filter_output_simps [simp]:
  "go_guard_allowed (filter_output v out) = go_guard_allowed out" "go_sql (filter_output v out) = go_sql out"
  by (simp_all add: filter_output_def Let_def split: option.split list.split)

text \<open>
  The execution does not see the difference between two databases that answer guarded texts alike; nor
  does a generation, which never asks the database.
\<close>

lemma sql_preview_database: "sql_preview env (pl\<lparr>sq_database := db\<rparr>) = sql_preview env pl"
proof -
  let ?pl = "pl\<lparr>sq_database := db\<rparr>"
  have sel: "sq_unicode ?pl = sq_unicode pl" "sq_extract ?pl = sq_extract pl" "sq_create ?pl = sq_create pl"
    "sq_template ?pl = sq_template pl" "sq_loads ?pl = sq_loads pl" "sq_float ?pl = sq_float pl"
    "sq_pricing ?pl = sq_pricing pl" "sq_default_model ?pl = sq_default_model pl" "sq_wall ?pl = sq_wall pl"
    "sq_schema_digest ?pl = sq_schema_digest pl" "sq_stable_digest ?pl = sq_stable_digest pl"
    "sq_llm ?pl = sq_llm pl" "sq_set_llm ?pl = sq_set_llm pl"
    by simp_all
  have a: "mock_output env ?pl = mock_output env pl" by (intro ext) (simp only: mock_output_def sel)
  have b: "with_budget ?pl = with_budget pl" "with_cache ?pl = with_cache pl"
    by (intro ext; simp only: with_budget_def with_cache_def sel)+
  have c: "config_fallback env ?pl = config_fallback env pl" "mock_fallback_result env ?pl = mock_fallback_result env pl"
    by (intro ext; simp only: config_fallback_def mock_fallback_result_def a)+
  have d: "look_up ?pl = look_up pl" by (intro ext) (simp only: look_up_def count_lookup_def b sel)
  have "report_usage env ?pl = report_usage env pl" by (intro ext) (simp only: report_usage_def b)
  then have e: "call_provider env ?pl = call_provider env pl" by (intro ext) (simp only: call_provider_def b sel)
  have f: "nl2sql_cache_key ?pl = nl2sql_cache_key pl" by (intro ext) (simp only: nl2sql_cache_key_def sel)
  have g: "generate_with_provider env ?pl = generate_with_provider env pl"
    by (intro ext) (simp only: generate_with_provider_def c d e f sel)
  have h: "generate_sql env ?pl = generate_sql env pl" by (intro ext) (simp only: generate_sql_def a c g sel)
  show ?thesis by (intro ext) (simp only: sql_preview_def b h sel)
qed

lemma run_sql_guarded:
  assumes "unicode_ok (sq_unicode pl)" and "\<And>t w. guarded (sq_unicode pl) t \<Longrightarrow> db_query (sq_database pl) t w = q t w"
  shows "run_sql env (pl\<lparr>sq_database := (sq_database pl)\<lparr>db_query := q\<rparr>\<rparr>) = run_sql env pl"
proof -
  have "sql_execute (sq_unicode pl) env ((sq_database pl)\<lparr>db_query := q\<rparr>) =
      sql_execute (sq_unicode pl) env (sq_database pl)"
    by (intro ext sql_execute_guarded assms)
  then show ?thesis by (intro ext) (simp add: run_sql_def)
qed

text \<open>
  Two databases that answer alike every text which passes the guard unchanged cannot be told apart by a
  run, whatever the query, the model's answer, the cache or the budget.
\<close>

lemma nl2sql_executes_only_guarded:
  assumes "unicode_ok (sq_unicode pl)"
    and "\<And>t w. guarded (sq_unicode pl) t \<Longrightarrow> db_query (sq_database pl) t w = q t w"
  shows "sql_pipeline_run env (pl\<lparr>sq_database := (sq_database pl)\<lparr>db_query := q\<rparr>\<rparr>) = sql_pipeline_run env pl"
proof -
  have "run_sql env (pl\<lparr>sq_database := (sq_database pl)\<lparr>db_query := q\<rparr>\<rparr>) = run_sql env pl"
    by (rule run_sql_guarded) (use assms in simp_all)
  then show ?thesis by (intro ext) (simp only: sql_pipeline_run_def sql_preview_database)
qed

subsection \<open>A run gives a result\<close>

lemma run_sql_total: "\<exists>r s'. run_sql env pl query out s = (Inr r, s')"
proof -
  obtain x s1 where x: "(if go_guard_allowed out \<and> go_sql out \<noteq> []
      then on_world (sql_execute (sq_unicode pl) env (sq_database pl) (go_sql out)) s
      else (failed_execution (go_sql out) (go_guard_reason out), s)) = (x, s1)"
    by (rule prod.exhaust)
  have "exec_ok (fst (on_world (sql_execute (sq_unicode pl) env (sq_database pl) (go_sql out)) s))"
    using sql_execute_ok by (simp add: on_world_def split_beta)
  then have "exec_ok x" using x exec_ok_failed by (auto split: if_splits)
  then obtain f c where "format_summary env x = Inr f" "chart_plan x query = Inr c"
    using exec_ok_format exec_ok_chart by blast
  then show ?thesis unfolding run_sql_def x by simp
qed

text \<open>
  The service raises only when the schema cannot be read. Otherwise a run returns a result, and its
  \<open>success\<close> is the guard's verdict, whatever became of the execution.
\<close>

lemma nl2sql_returns_guard_verdict:
  assumes "fst (on_world (sq_extract pl) s) = Inr tables"
  shows "\<exists>d. fst (sql_pipeline_run env pl query opts s) = Inr d \<and> dget d ''success'' = dget d ''guard_allowed''"
proof -
  obtain out v s1 where p: "sql_preview env pl query opts s = (Inr (out, v), s1)"
    using assms by (auto simp: sql_preview_def split_beta Let_def split: sum.splits)
  obtain r s2 where "run_sql env pl query out s1 = (Inr r, s2)" using run_sql_total by blast
  then show ?thesis by (cases r) (simp add: sql_pipeline_run_def p)
qed

subsection \<open>The budget stops calls\<close>

text \<open>
  C32. A refused call is not made. When the budget refuses, the provider's answer does not matter: any other
  provider of the same name and model gives the same output and leaves the same state.
\<close>

theorem budget_stops_calls:
  assumes "\<not> truthy (dget (check_budget env (sq_pricing pl) (utc_iso env (sy_world s)) 0 (Some query)
      (fst (sq_llm pl (sy_world s)))) ''allowed'')"
  shows "generate_with_provider env pl query fallback (prov\<lparr>pv_generate := answer\<rparr>) tables s =
    generate_with_provider env pl query fallback prov tables s"
proof -
  have "dget_or (check_budget env pc utc c p b) ''allowed'' (JBool True) = dget (check_budget env pc utc c p b) ''allowed''"
    for pc utc c p b
    by (simp add: check_budget_def budget_decision_def Let_def)
  then show ?thesis using assms by (simp add: generate_with_provider_def Let_def)
qed

subsection \<open>A concrete service\<close>

definition demo_database :: "nat database" where
  "demo_database =
     \<lparr>db_path = ''ops.sqlite'', db_exists = (\<lambda>w. True), db_query = (\<lambda>t w. (Inr ([''n''], [[JInt 1]]), w))\<rparr>"

text \<open>A budget of one dollar that is spent.\<close>

definition spent_budget :: budget where
  "spent_budget = (budget_init True 0 1 ''daily'')\<lparr>bu_costs := [(''2026-01-02'', 2)]\<rparr>"

definition demo_provider :: "nat sql_provider" where
  "demo_provider = \<lparr>pv_name = ''demo'', pv_model = [], pv_generate = (\<lambda>p w. (Inl (''E'', ''off''), w))\<rparr>"

definition demo_pipeline :: "nat sql_pipeline" where
  "demo_pipeline =
     \<lparr>sq_unicode = demo_unicode, sq_extract = (\<lambda>w. (Inr [], w)), sq_database = demo_database,
      sq_create = (\<lambda>p. PReady demo_provider), sq_template = None, sq_loads = (\<lambda>s. Inl s), sq_float = (\<lambda>s. None),
      sq_pricing = \<lparr>pc_enabled = False, pc_completion_tokens = 0, pc_prompt_price = 0, pc_completion_price = 0\<rparr>,
      sq_default_model = [], sq_wall = (\<lambda>w. 0), sq_schema_digest = (\<lambda>v. []), sq_stable_digest = (\<lambda>v. []),
      sq_llm = (\<lambda>w. (spent_budget, cache_init False 0)), sq_set_llm = (\<lambda>l w. w)\<rparr>"

theorem budget_stops_calls_witness:
  "generate_with_provider demo_env demo_pipeline ''gmv'' False
      (demo_provider\<lparr>pv_generate := (\<lambda>p w. (Inl (''E'', ''other''), w))\<rparr>) [] (sys_init 0) =
   generate_with_provider demo_env demo_pipeline ''gmv'' False demo_provider [] (sys_init 0)"
proof (rule budget_stops_calls)
  show "\<not> truthy (dget (check_budget demo_env (sq_pricing demo_pipeline) (utc_iso demo_env (sy_world (sys_init 0))) 0
      (Some ''gmv'') (fst (sq_llm demo_pipeline (sy_world (sys_init (0::nat)))))) ''allowed'')"
    by (simp add: check_budget_def budget_decision_def demo_pipeline_def spent_budget_def budget_init_def Let_def
        current_cost_def scope_key_def estimated_cost_def estimate_llm_cost_usd_def lower_def lower_char_def
        strip_def lstrip_def rstrip_def py_space_def)
qed

end
