(* ===== verification/Runtime_Sql.thy ===== *)
theory Runtime_Sql
  imports Runtime Sql_Pipeline
begin

text \<open>
  The runtime with its NL2SQL service (\<open>nl2sql_pipeline = NL2SQLPipeline()\<close> in \<open>app/main.py\<close>): which queries of
  that service every mode of the kernel can have executed. The local tools and the extraction of the schema have
  fixed texts of their own, which the guard does not see; they are not queries of the service.
\<close>

definition with_sql :: "'w env \<Rightarrow> 'w sql_pipeline \<Rightarrow> 'w runtime_cfg \<Rightarrow> 'w runtime_cfg" where
  "with_sql env pl c = c\<lparr>rc_nl2sql := sql_pipeline_run env pl\<rparr>"

text \<open>
  C2. No mode of the runtime has the NL2SQL service execute a query the guard has not passed. In every mode, with the
  shipped service, two executors that answer alike every text which passes the SQL guard unchanged give the same
  outcome and leave the same task and state: the model, the user and the cache choose the query, but the executor
  is only ever given texts the guard returns as they are. Held fixed, and outside the claim, are the other readers
  of the same database, whose texts are constants of the program: the local tools behind the gateway
  (\<open>ops_query.py\<close>) and the extraction of the schema (\<open>metadata.py\<close>).
\<close>

theorem no_mode_runs_unguarded_sql:
  assumes "unicode_ok (sq_unicode pl)"
    and "\<And>t w. guarded (sq_unicode pl) t \<Longrightarrow> db_query (sq_database pl) t w = q t w"
  shows "run_with_options env (runtime_kernel env g run
      (with_sql env (pl\<lparr>sq_database := (sq_database pl)\<lparr>db_query := q\<rparr>\<rparr>) c)) mode opts session p =
    run_with_options env (runtime_kernel env g run (with_sql env pl c)) mode opts session p"
  using nl2sql_executes_only_guarded [OF assms] by (simp add: with_sql_def)

theorem no_mode_runs_unguarded_sql_witness:
  "run_with_options demo_env (runtime_kernel demo_env promo_gateway (gw_call demo_env promo_gateway)
      (with_sql demo_env (demo_pipeline\<lparr>sq_database := demo_database\<lparr>db_query :=
         (\<lambda>t w. if guarded demo_unicode t then db_query demo_database t w else (Inl ''refused'', w))\<rparr>\<rparr>) demo_cfg))
      ''auto'' demo_opts None (demo_task kw_gmv_upper, sys_init 0) =
   run_with_options demo_env (runtime_kernel demo_env promo_gateway (gw_call demo_env promo_gateway)
      (with_sql demo_env demo_pipeline demo_cfg)) ''auto'' demo_opts None (demo_task kw_gmv_upper, sys_init 0)"
  using no_mode_runs_unguarded_sql [of demo_pipeline
      "\<lambda>t w. if guarded demo_unicode t then db_query demo_database t w else (Inl ''refused'', w)"]
  by (simp add: demo_pipeline_def demo_unicode_ok)

end
