(* ===== verification/Settings.thy ===== *)
theory Settings
  imports Runtime_Prelude
begin

text \<open>
  The settings of the program (\<open>app/core/config.py\<close>), one field per setting with the source's name, and
  their defaults. The environment, which may override each of them, chooses a value of the record.
\<close>

text \<open>Server, CORS and request guards.\<close>

record http_settings =
  st_app_name :: string
  st_app_env :: string
  st_debug :: bool
  st_cors_enabled :: bool
  st_cors_allow_origins :: string
  st_cors_allow_credentials :: bool
  st_cors_allow_methods :: string
  st_cors_allow_headers :: string
  st_security_headers_enabled :: bool
  st_rate_limit_enabled :: bool
  st_rate_limit_backend :: string
  st_rate_limit_requests_per_minute :: int
  st_rate_limit_burst :: int
  st_rate_limit_exempt_paths :: string
  st_request_size_limit_enabled :: bool
  st_request_size_limit_bytes :: int
  st_abuse_guard_enabled :: bool

text \<open>Logging and audit.\<close>

record log_settings = http_settings +
  st_structured_logging_enabled :: bool
  st_log_level :: string
  st_log_include_client_ip :: bool
  st_log_include_user_agent :: bool
  st_log_redaction_enabled :: bool
  st_audit_retention_enabled :: bool
  st_audit_retention_days :: int
  st_audit_export_enabled :: bool
  st_audit_export_max_rows :: int
  st_audit_export_format :: string
  st_audit_export_redaction_enabled :: bool

text \<open>OIDC and the database files.\<close>

record oidc_settings = log_settings +
  st_oidc_enabled :: bool
  st_oidc_issuer_url :: string
  st_oidc_client_id :: string
  st_oidc_client_secret_env :: string
  st_oidc_redirect_uri :: string
  st_oidc_scopes :: string
  st_oidc_role_claim :: string
  st_oidc_default_role :: string
  st_oidc_allowed_roles :: string
  st_oidc_require_https :: bool
  st_ops_db_path :: string
  st_runtime_db_path :: string
  st_metrics_db_path :: string

text \<open>Language models and judges.\<close>

record llm_settings = oidc_settings +
  st_nl2sql_generator :: string
  st_nl2sql_stream_enabled :: bool
  st_llm_provider :: string
  st_llm_model :: string
  st_llm_api_key :: string
  st_llm_api_key_env :: string
  st_llm_base_url :: string
  st_llm_timeout_seconds :: rat
  st_llm_max_retries :: int
  st_llm_retry_backoff_seconds :: rat
  st_llm_temperature :: rat
  st_llm_stream_chunk_chars :: int
  st_llm_cost_estimation_enabled :: bool
  st_llm_cost_per_1k_prompt_tokens_usd :: rat
  st_llm_cost_per_1k_completion_tokens_usd :: rat
  st_llm_estimated_completion_tokens :: int
  st_judge_provider :: string
  st_judge_fallback_to_fake :: bool
  st_judge_model :: string
  st_judge_base_url :: string
  st_judge_timeout_seconds :: rat
  st_judge_max_retries :: int
  st_judge_retry_backoff_seconds :: rat

text \<open>Budget, cache and the real provider.\<close>

record governed_settings = llm_settings +
  st_llm_budget_enabled :: bool
  st_llm_budget_soft_usd :: rat
  st_llm_budget_hard_usd :: rat
  st_llm_budget_scope :: string
  st_llm_cache_enabled :: bool
  st_llm_cache_ttl_seconds :: int
  st_real_llm_acceptance_enabled :: bool
  st_real_llm_preflight_enabled :: bool
  st_real_llm_provider :: string
  st_real_llm_model :: string
  st_real_llm_base_url :: string
  st_real_llm_api_key_env :: string
  st_real_llm_preflight_timeout_seconds :: rat
  st_real_llm_preflight_network_check :: bool
  st_real_llm_smoke_enabled :: bool

text \<open>The MCP server.\<close>

record mcp_settings = governed_settings +
  st_mcp_mode :: string
  st_mcp_server_name :: string
  st_mcp_server_command :: string
  st_mcp_server_args :: string
  st_mcp_server_timeout_seconds :: rat
  st_mcp_server_workdir :: string
  st_mcp_server_env_allowlist :: string
  st_mcp_server_command_allowlist :: string
  st_mcp_tool_allowlist :: string

text \<open>Storage, authentication and the runtime.\<close>

record settings = mcp_settings +
  st_database_url :: string
  st_redis_url :: string
  st_jwt_secret :: string
  st_jwt_algorithm :: string
  st_access_token_expire_minutes :: int
  st_auth_enabled :: bool
  st_rbac_enabled :: bool
  st_storage_backend :: string
  st_redis_enabled :: bool
  st_graph_runtime_enabled :: bool
  st_demo_high_risk_tool_enabled :: bool
  st_planner_mode :: string
  st_coordinator_llm_enabled :: bool

definition default_settings :: settings where
  "default_settings =
     \<lparr>st_app_name = ''project-b-multi-agent'', st_app_env = ''development'', st_debug = True,
      st_cors_enabled = True, st_cors_allow_origins = ''http://localhost:3000'',
      st_cors_allow_credentials = True,
      st_cors_allow_methods = ''GET,POST,PUT,PATCH,DELETE,OPTIONS'',
      st_cors_allow_headers = ''Authorization,Content-Type'', st_security_headers_enabled = True,
      st_rate_limit_enabled = False, st_rate_limit_backend = ''memory'',
      st_rate_limit_requests_per_minute = 120, st_rate_limit_burst = 60,
      st_rate_limit_exempt_paths = ''/health'', st_request_size_limit_enabled = True,
      st_request_size_limit_bytes = 1048576, st_abuse_guard_enabled = True,
      st_structured_logging_enabled = True, st_log_level = ''INFO'',
      st_log_include_client_ip = True, st_log_include_user_agent = True,
      st_log_redaction_enabled = True, st_audit_retention_enabled = True,
      st_audit_retention_days = 90, st_audit_export_enabled = True, st_audit_export_max_rows = 1000,
      st_audit_export_format = ''jsonl'', st_audit_export_redaction_enabled = True,
      st_oidc_enabled = False, st_oidc_issuer_url = [], st_oidc_client_id = [],
      st_oidc_client_secret_env = ''OIDC_CLIENT_SECRET'', st_oidc_redirect_uri = [],
      st_oidc_scopes = ''openid,email,profile'', st_oidc_role_claim = ''roles'',
      st_oidc_default_role = ''viewer'', st_oidc_allowed_roles = ''admin,operator,viewer,auditor'',
      st_oidc_require_https = True, st_ops_db_path = ''data/db/ops_demo.sqlite'',
      st_runtime_db_path = ''data/db/runtime.sqlite'',
      st_metrics_db_path = ''data/db/runtime_metrics.sqlite'', st_nl2sql_generator = ''mock'',
      st_nl2sql_stream_enabled = True, st_llm_provider = ''fake'', st_llm_model = [],
      st_llm_api_key = [], st_llm_api_key_env = [], st_llm_base_url = [],
      st_llm_timeout_seconds = 15, st_llm_max_retries = 0, st_llm_retry_backoff_seconds = 1 / 2,
      st_llm_temperature = 0, st_llm_stream_chunk_chars = 24, st_llm_cost_estimation_enabled = True,
      st_llm_cost_per_1k_prompt_tokens_usd = 0, st_llm_cost_per_1k_completion_tokens_usd = 0,
      st_llm_estimated_completion_tokens = 256, st_judge_provider = ''fake'',
      st_judge_fallback_to_fake = True, st_judge_model = [], st_judge_base_url = [],
      st_judge_timeout_seconds = 15, st_judge_max_retries = 0,
      st_judge_retry_backoff_seconds = 1 / 2, st_llm_budget_enabled = False,
      st_llm_budget_soft_usd = 0, st_llm_budget_hard_usd = 0, st_llm_budget_scope = ''daily'',
      st_llm_cache_enabled = False, st_llm_cache_ttl_seconds = 3600,
      st_real_llm_acceptance_enabled = False, st_real_llm_preflight_enabled = False,
      st_real_llm_provider = ''litellm'', st_real_llm_model = [], st_real_llm_base_url = [],
      st_real_llm_api_key_env = ''OPENAI_API_KEY'', st_real_llm_preflight_timeout_seconds = 10,
      st_real_llm_preflight_network_check = False, st_real_llm_smoke_enabled = False,
      st_mcp_mode = ''fake'', st_mcp_server_name = ''fake_ops_mcp'', st_mcp_server_command = [],
      st_mcp_server_args = [], st_mcp_server_timeout_seconds = 10, st_mcp_server_workdir = [],
      st_mcp_server_env_allowlist = [], st_mcp_server_command_allowlist = [],
      st_mcp_tool_allowlist = [], st_database_url = [], st_redis_url = ''redis://localhost:6379/0'',
      st_jwt_secret = ''dev-only-change-me-please-32-bytes'', st_jwt_algorithm = ''HS256'',
      st_access_token_expire_minutes = 60, st_auth_enabled = False, st_rbac_enabled = False,
      st_storage_backend = ''sqlite'', st_redis_enabled = False, st_graph_runtime_enabled = False,
      st_demo_high_risk_tool_enabled = True, st_planner_mode = ''keyword'',
      st_coordinator_llm_enabled = False\<rparr>"

end
