(* ===== verification/Request_Guards.thy ===== *)
theory Request_Guards
  imports Settings
begin

text \<open>
  What stands in front of every route: the abuse guard, the limit on the size of a request and the rate
  limiters (\<open>app/core/request_guards.py\<close>), the client of Redis they may use (\<open>app/cache/redis_client.py\<close>), and
  the security headers (\<open>app/core/security_headers.py\<close>). The state is that of the process: what lies behind
  the middleware and the world outside are one component \<open>'s\<close> of it.
\<close>

subsection \<open>Requests and responses\<close>

text \<open>Header names are in lower case, as the server hands them on.\<close>

record http_request =
  rq_method :: string
  rq_path :: string
  rq_client :: "string option"
  rq_headers :: "(string \<times> string) list"

record http_response =
  hr_status :: nat
  hr_body :: json
  hr_headers :: "(string \<times> string) list"

text \<open>\<open>response.headers[k] = v\<close>: the first entry of the name is set, further ones are dropped.\<close>

fun set_header :: "string \<Rightarrow> string \<Rightarrow> (string \<times> string) list \<Rightarrow> (string \<times> string) list" where
  "set_header k v [] = [(k, v)]"
| "set_header k v (h # hs) =
     (if fst h = k then (k, v) # filter (\<lambda>x. fst x \<noteq> k) hs else h # set_header k v hs)"

definition with_header :: "string \<Rightarrow> string \<Rightarrow> http_response \<Rightarrow> http_response" where
  "with_header k v r = r\<lparr>hr_headers := set_header k v (hr_headers r)\<rparr>"

definition json_response :: "nat \<Rightarrow> jdict \<Rightarrow> http_response" where
  "json_response code body = \<lparr>hr_status = code, hr_body = JObj body, hr_headers = []\<rparr>"

text \<open>A handler gives a response, or raises an exception of a class with a text.\<close>

type_synonym 's handler = "http_request \<Rightarrow> 's \<Rightarrow> (string \<times> string + http_response) \<times> 's"

definition parse_csv_config :: "string \<Rightarrow> string list" where
  "parse_csv_config value = filter (\<lambda>x. x \<noteq> []) (map strip (split_on CHR '','' value))"

subsection \<open>Numbers in headers\<close>

definition dec_digit :: "char \<Rightarrow> bool" where
  "dec_digit c \<longleftrightarrow> 48 \<le> (of_char c :: nat) \<and> (of_char c :: nat) \<le> 57"

definition read_digits :: "string \<Rightarrow> int" where
  "read_digits ds = foldl (\<lambda>n c. 10 * n + int (of_char c - 48 :: nat)) 0 ds"

text \<open>\<open>int(text)\<close>: a sign, and digits in groups with single underscores between them, 4300 at most.\<close>

definition read_int :: "string \<Rightarrow> int option" where
  "read_int text =
     (let t = strip text; signed = take 1 t = ''-'' \<or> take 1 t = ''+'';
          gs = split_on CHR ''_'' (if signed then drop 1 t else t); ds = concat gs
      in if list_all (\<lambda>g. g \<noteq> [] \<and> list_all dec_digit g) gs \<and> length ds \<le> 4300
         then Some (if take 1 t = ''-'' then - read_digits ds else read_digits ds)
         else None)"

subsection \<open>Size\<close>

definition request_size_limit :: "settings \<Rightarrow> 's handler \<Rightarrow> 's handler" where
  "request_size_limit cfg app rq s =
     (let limit = max 1 (st_request_size_limit_bytes cfg)
      in if \<not> st_request_size_limit_enabled cfg \<or> upper (rq_method rq) \<in> {''GET'', ''HEAD'', ''OPTIONS''} then app rq s
         else
           (case map_of (rq_headers rq) ''content-length'' of
              None \<Rightarrow> app rq s
            | Some t \<Rightarrow>
                if limit < (case read_int t of None \<Rightarrow> - 1 | Some n \<Rightarrow> n)
                then (Inr (json_response 413 [(''error'', JStr ''request_too_large''), (''limit_bytes'', JInt limit)]), s)
                else app rq s))"

subsection \<open>The limiter in memory\<close>

type_synonym limiter = "(string \<times> rat list) list"

definition hits_of :: "limiter \<Rightarrow> string \<Rightarrow> rat list" where
  "hits_of st key = (case map_of st key of None \<Rightarrow> [] | Some hs \<Rightarrow> hs)"

definition rate_capacity :: "int \<Rightarrow> int \<Rightarrow> int" where
  "rate_capacity max_requests burst = max 1 (max_requests + max 0 burst)"

text \<open>\<open>int(x)\<close> of a float.\<close>

definition truncated :: "rat \<Rightarrow> int" where
  "truncated q = (if q < 0 then - \<lfloor>- q\<rfloor> else \<lfloor>q\<rfloor>)"

definition memory_allow :: "rat \<Rightarrow> string \<Rightarrow> int \<Rightarrow> int \<Rightarrow> int \<Rightarrow> limiter \<Rightarrow> (bool \<times> int) \<times> limiter" where
  "memory_allow now key max_requests burst window st =
     (let hits = filter (\<lambda>ts. now - of_int window \<le> ts) (hits_of st key)
      in if rate_capacity max_requests burst \<le> int (length hits)
         then ((False, max 1 (truncated (of_int window - (now - hd hits)))), dput st key hits)
         else ((True, 0), dput st key (hits @ [now])))"

subsection \<open>The limiter over Redis\<close>

text \<open>
  The library behind the client: a connection that answers a ping or fails, the counter, and the expiry of a
  key; an exception is the left, or False.
\<close>

datatype redis_client = NoopRedis | ConnectedRedis

record 's redis =
  rd_connect :: "'s \<Rightarrow> bool \<times> 's"
  rd_incr :: "string \<Rightarrow> 's \<Rightarrow> (string + int) \<times> 's"
  rd_expire :: "string \<Rightarrow> int \<Rightarrow> 's \<Rightarrow> bool \<times> 's"

record 's front =
  fr_app :: 's
  fr_limiter :: limiter
  fr_redis :: "redis_client option"

definition front_init :: "'s \<Rightarrow> 's front" where
  "front_init s = \<lparr>fr_app = s, fr_limiter = [], fr_redis = None\<rparr>"

definition get_redis_client :: "settings \<Rightarrow> 's redis \<Rightarrow> 's front \<Rightarrow> redis_client \<times> 's front" where
  "get_redis_client cfg rd f =
     (case fr_redis f of
        Some c \<Rightarrow> (c, f)
      | None \<Rightarrow>
          if \<not> st_redis_enabled cfg then (NoopRedis, f\<lparr>fr_redis := Some NoopRedis\<rparr>)
          else
            (case rd_connect rd (fr_app f) of
               (up, s) \<Rightarrow>
                 let c = (if up then ConnectedRedis else NoopRedis) in (c, f\<lparr>fr_app := s, fr_redis := Some c\<rparr>)))"

definition memory_fallback :: "('s \<Rightarrow> rat) \<Rightarrow> string \<Rightarrow> int \<Rightarrow> int \<Rightarrow> int \<Rightarrow> 's front \<Rightarrow> (bool \<times> int) \<times> 's front" where
  "memory_fallback clock key max_requests burst window f =
     (case memory_allow (clock (fr_app f)) key max_requests burst window (fr_limiter f) of
        (r, st) \<Rightarrow> (r, f\<lparr>fr_limiter := st\<rparr>))"

definition redis_key :: "int \<Rightarrow> string \<Rightarrow> string" where
  "redis_key bucket key = ''rate_limit:'' @ int_text bucket @ '':'' @ key"

definition redis_allow ::
  "settings \<Rightarrow> 's redis \<Rightarrow> ('s \<Rightarrow> rat) \<Rightarrow> string \<Rightarrow> int \<Rightarrow> int \<Rightarrow> int \<Rightarrow> 's front \<Rightarrow> (bool \<times> int) \<times> 's front"
where
  "redis_allow cfg rd clock key max_requests burst window f =
     (case get_redis_client cfg rd f of
        (NoopRedis, f1) \<Rightarrow> memory_fallback clock key max_requests burst window f1
      | (ConnectedRedis, f1) \<Rightarrow>
          (let now = clock (fr_app f1); bucket = \<lfloor>now / of_int window\<rfloor>; k = redis_key bucket key;
               answer = (\<lambda>n. if rate_capacity max_requests burst < n
                 then (False, max 1 (truncated (of_int window - (now - of_int window * of_int bucket))))
                 else (True, 0))
           in case rd_incr rd k (fr_app f1) of
                (Inl e, s) \<Rightarrow> memory_fallback clock key max_requests burst window (f1\<lparr>fr_app := s\<rparr>)
              | (Inr n, s) \<Rightarrow>
                  if n \<noteq> 1 then (answer n, f1\<lparr>fr_app := s\<rparr>)
                  else
                    (case rd_expire rd k window s of
                       (True, s') \<Rightarrow> (answer n, f1\<lparr>fr_app := s'\<rparr>)
                     | (False, s') \<Rightarrow> memory_fallback clock key max_requests burst window (f1\<lparr>fr_app := s'\<rparr>))))"

definition rate_allow ::
  "settings \<Rightarrow> 's redis \<Rightarrow> ('s \<Rightarrow> rat) \<Rightarrow> string \<Rightarrow> int \<Rightarrow> int \<Rightarrow> int \<Rightarrow> 's front \<Rightarrow> (bool \<times> int) \<times> 's front"
where
  "rate_allow cfg rd clock =
     (if lower (strip (if st_rate_limit_backend cfg = [] then ''memory'' else st_rate_limit_backend cfg)) = ''redis''
      then redis_allow cfg rd clock else memory_fallback clock)"

subsection \<open>The middleware\<close>

definition rate_key :: "http_request \<Rightarrow> string" where
  "rate_key rq = (case rq_client rq of None \<Rightarrow> ''unknown'' | Some h \<Rightarrow> h) @ '':'' @ rq_path rq"

definition rate_limit ::
  "settings \<Rightarrow> 's redis \<Rightarrow> ('s \<Rightarrow> rat) \<Rightarrow> 's front handler \<Rightarrow> 's front handler"
where
  "rate_limit cfg rd clock app rq f =
     (if \<not> st_rate_limit_enabled cfg \<or> upper (rq_method rq) = ''OPTIONS'' \<or>
         rq_path rq \<in> set (parse_csv_config (st_rate_limit_exempt_paths cfg))
      then app rq f
      else
        (case rate_allow cfg rd clock (rate_key rq) (max 1 (st_rate_limit_requests_per_minute cfg))
                (max 0 (st_rate_limit_burst cfg)) 60 f of
           ((True, _), f1) \<Rightarrow> app rq f1
         | ((False, retry), f1) \<Rightarrow>
             (Inr ((json_response 429 [(''error'', JStr ''rate_limited''), (''retry_after_seconds'', JInt retry)])
                \<lparr>hr_headers := [(''retry-after'', int_text retry)]\<rparr>), f1)))"

definition rejected :: "nat \<Rightarrow> string \<Rightarrow> http_response" where
  "rejected code why = json_response code [(''error'', JStr ''request_rejected''), (''reason'', JStr why)]"

definition abuse_reason :: "http_request \<Rightarrow> (nat \<times> string) option" where
  "abuse_reason rq =
     (if 2048 < py_len (rq_path rq) then Some (414, ''path_too_long'')
      else if 120 < length (rq_headers rq) then Some (400, ''too_many_headers'')
      else if list_ex (\<lambda>h. 8192 < py_len (snd h)) (rq_headers rq) then Some (400, ''header_value_too_large'')
      else None)"

definition abuse_guard :: "settings \<Rightarrow> 's handler \<Rightarrow> 's handler" where
  "abuse_guard cfg app rq s =
     (if \<not> st_abuse_guard_enabled cfg \<or> upper (rq_method rq) = ''OPTIONS'' then app rq s
      else case abuse_reason rq of None \<Rightarrow> app rq s | Some (code, why) \<Rightarrow> (Inr (rejected code why), s))"

definition secured :: "http_response \<Rightarrow> http_response" where
  "secured r =
     with_header ''x-xss-protection'' ''0''
       (with_header ''permissions-policy'' ''camera=(), microphone=(), geolocation=()''
         (with_header ''referrer-policy'' ''no-referrer''
           (with_header ''x-frame-options'' ''DENY'' (with_header ''x-content-type-options'' ''nosniff'' r))))"

definition security_headers :: "settings \<Rightarrow> 's handler \<Rightarrow> 's handler" where
  "security_headers cfg app rq s =
     (case app rq s of
        (Inl e, s') \<Rightarrow> (Inl e, s')
      | (Inr r, s') \<Rightarrow> (Inr (if st_security_headers_enabled cfg then secured r else r), s'))"

definition build_cors_options :: "settings \<Rightarrow> jdict" where
  "build_cors_options cfg =
     (let methods = parse_csv_config (st_cors_allow_methods cfg); headers = parse_csv_config (st_cors_allow_headers cfg)
      in [(''allow_origins'', jstrs (parse_csv_config (st_cors_allow_origins cfg))),
          (''allow_credentials'', JBool (st_cors_allow_credentials cfg)),
          (''allow_methods'', jstrs (if methods = []
             then [''GET'', ''POST'', ''PUT'', ''PATCH'', ''DELETE'', ''OPTIONS''] else methods)),
          (''allow_headers'', jstrs (if headers = [] then [''Authorization'', ''Content-Type''] else headers))])"

text \<open>
  The stack as \<open>app/main.py\<close> builds it: what is added last runs first. The CORS middleware of the framework,
  which it adds when CORS is on, is a parameter.
\<close>

definition guard_stack ::
  "settings \<Rightarrow> 's redis \<Rightarrow> ('s \<Rightarrow> rat) \<Rightarrow> (jdict \<Rightarrow> 's front handler \<Rightarrow> 's front handler) \<Rightarrow>
     's front handler \<Rightarrow> 's front handler"
where
  "guard_stack cfg rd clock cors app =
     (if st_cors_enabled cfg then cors (build_cors_options cfg) else id)
       (security_headers cfg (rate_limit cfg rd clock (request_size_limit cfg (abuse_guard cfg app))))"

end
