(* ===== verification/Rate_Window.thy ===== *)
theory Rate_Window
  imports Request_Guards
begin

text \<open>
  What the limiter in memory promises. The interface of an admission over a sliding window is a locale; in
  it, an admission answers like the plain log of what it has admitted, and admits at most its capacity in
  any window. The limiter of \<open>app/core/request_guards.py\<close> is an instance.
\<close>

subsection \<open>Runs of calls\<close>

text \<open>A call is a key and a time. The answers to a sequence of calls, and the state after it.\<close>

fun answers :: "(rat \<Rightarrow> string \<Rightarrow> 'st \<Rightarrow> bool \<times> 'st) \<Rightarrow> (string \<times> rat) list \<Rightarrow> 'st \<Rightarrow> bool list \<times> 'st" where
  "answers f [] s = ([], s)"
| "answers f (c # cs) s =
     (let (b, s1) = f (snd c) (fst c) s; (bs, s2) = answers f cs s1 in (b # bs, s2))"

definition admitted :: "(string \<times> rat) list \<Rightarrow> bool list \<Rightarrow> (string \<times> rat) list" where
  "admitted cs bs = map fst (filter snd (zip cs bs))"

definition times_of :: "(string \<times> rat) list \<Rightarrow> string \<Rightarrow> rat list" where
  "times_of past k = map snd (filter (\<lambda>c. fst c = k) past)"

definition recent :: "rat \<Rightarrow> rat \<Rightarrow> rat list \<Rightarrow> rat list" where
  "recent window u ts = filter (\<lambda>h. u - window \<le> h) ts"

text \<open>The specification: a log of what was admitted, and fewer than the capacity in the window so far.\<close>

definition log_allow :: "rat \<Rightarrow> nat \<Rightarrow> rat \<Rightarrow> string \<Rightarrow> (string \<times> rat) list \<Rightarrow> bool \<times> (string \<times> rat) list" where
  "log_allow window capacity t k past =
     (if length (recent window t (times_of past k)) < capacity then (True, past @ [(k, t)]) else (False, past))"

lemma recent_append [simp]: "recent w u (xs @ ys) = recent w u xs @ recent w u ys"
  by (simp add: recent_def)

lemma recent_Nil [simp]: "recent w u [] = []"
  by (simp add: recent_def)

lemma recent_recent: "t \<le> u \<Longrightarrow> recent w u (recent w t ts) = recent w u ts"
  by (auto simp: recent_def intro!: filter_cong)

lemma times_of_append [simp]: "times_of (a @ b) k = times_of a k @ times_of b k"
  by (simp add: times_of_def)

lemma times_of_single [simp]: "times_of [(k, t)] k' = (if k' = k then [t] else [])" "times_of [] k' = []"
  by (simp_all add: times_of_def)

lemma length_answers [simp]: "length (fst (answers f cs s)) = length cs"
  by (induction cs arbitrary: s) (simp_all add: unlet)

lemma answers_snoc:
  "answers f (cs @ [c]) s =
     (let (bs, s1) = answers f cs s; (b, s2) = f (snd c) (fst c) s1 in (bs @ [b], s2))"
  by (induction cs arbitrary: s) (simp_all add: unlet)

lemma admitted_snoc:
  "length bs = length cs \<Longrightarrow> admitted (cs @ [c]) (bs @ [b]) = admitted cs bs @ (if b then [c] else [])"
  by (simp add: admitted_def)

lemma admitted_subset: "set (admitted cs bs) \<subseteq> set cs"
  by (auto simp: admitted_def dest: set_zip_leftD)

subsection \<open>The interface\<close>

locale sliding_window =
  fixes allow :: "rat \<Rightarrow> string \<Rightarrow> 'st \<Rightarrow> bool \<times> 'st"
    and times :: "'st \<Rightarrow> string \<Rightarrow> rat list"
    and window :: rat
    and capacity :: nat
    and start :: 'st
  assumes decides: "fst (allow t k s) \<longleftrightarrow> length (recent window t (times s k)) < capacity"
    and keeps: "t \<le> u \<Longrightarrow> recent window u (times (snd (allow t k s)) k') =
        recent window u (times s k' @ (if k' = k \<and> fst (allow t k s) then [t] else []))"
    and starts: "times start k = []"
begin

lemma log_after:
  assumes "sorted (map snd cs)" and "\<forall>c \<in> set cs. snd c \<le> u"
  shows "recent window u (times (snd (answers allow cs start)) k) =
    recent window u (times_of (admitted cs (fst (answers allow cs start))) k)"
  using assms
proof (induction cs arbitrary: u k rule: rev_induct)
  case (snoc c cs)
  obtain bs s where r: "answers allow cs start = (bs, s)" by (rule prod.exhaust)
  obtain key t where c: "c = (key, t)" by (rule prod.exhaust)
  obtain b s' where a: "allow t key s = (b, s')" by (rule prod.exhaust)
  have "length bs = length cs" using length_answers [of allow cs start] by (simp add: r)
  moreover have "recent window u (times s k) = recent window u (times_of (admitted cs bs) k)" for k
    using snoc.IH [of u k] snoc.prems by (simp add: sorted_append r)
  ultimately show ?case
    using keeps [of t u key s k] snoc.prems(2) by (simp add: answers_snoc r a c admitted_snoc)
qed (simp add: starts admitted_def)

lemma decides_by_log:
  assumes "sorted (map snd (cs @ [c]))"
  shows "fst (answers allow (cs @ [c]) start) = fst (answers allow cs start) @
    [length (recent window (snd c) (times_of (admitted cs (fst (answers allow cs start))) (fst c))) < capacity]"
proof -
  obtain bs s where r: "answers allow cs start = (bs, s)" by (rule prod.exhaust)
  have "recent window (snd c) (times s (fst c)) = recent window (snd c) (times_of (admitted cs bs) (fst c))"
    using log_after [of cs "snd c" "fst c"] assms by (simp add: sorted_append r)
  then show ?thesis using decides [of "snd c" "fst c" s] by (simp add: answers_snoc r unlet)
qed

lemma capacity_in_window:
  assumes "sorted (map snd cs)"
  shows "length (filter (\<lambda>h. h \<le> u) (recent window u (times_of (admitted cs (fst (answers allow cs start))) k))) \<le> capacity"
  using assms
proof (induction cs rule: rev_induct)
  case (snoc c cs)
  let ?log = "admitted cs (fst (answers allow cs start))"
  let ?in = "\<lambda>ts. filter (\<lambda>h. h \<le> u) (recent window u ts)"
  have IH: "length (?in (times_of ?log k)) \<le> capacity" using snoc by (simp add: sorted_append)
  obtain key t where c: "c = (key, t)" by (rule prod.exhaust)
  let ?b = "length (recent window t (times_of ?log key)) < capacity"
  have log: "admitted (cs @ [(key, t)]) (fst (answers allow (cs @ [(key, t)]) start)) =
      ?log @ (if ?b then [(key, t)] else [])"
    using decides_by_log [of cs "(key, t)"] snoc.prems by (simp add: admitted_snoc c)
  show ?case
  proof (cases "?b \<and> key = k \<and> t \<le> u")
    case True
    then have "recent window u (times_of ?log k) = recent window u (recent window t (times_of ?log k))"
      by (simp add: recent_recent)
    then have "length (?in (times_of ?log k)) \<le> length (recent window t (times_of ?log k))"
      unfolding recent_def by (metis length_filter_le order_trans)
    then have "Suc (length (?in (times_of ?log k))) \<le> capacity" using True by auto
    then show ?thesis using True unfolding c log by (simp add: recent_def)
  next
    case False
    then show ?thesis using IH unfolding c log by (auto simp: recent_def)
  qed
qed (simp add: admitted_def recent_def)

end

text \<open>Two admissions of one window and capacity give the same answers, whatever they store.\<close>

lemma same_window_same_answers:
  assumes "sliding_window f ft w n s0" and "sliding_window g gt w n s1" and "sorted (map snd cs)"
  shows "fst (answers f cs s0) = fst (answers g cs s1)"
  using assms(3)
proof (induction cs rule: rev_induct)
  case (snoc c cs)
  then have "fst (answers f cs s0) = fst (answers g cs s1)" by (simp add: sorted_append)
  then show ?case
    using sliding_window.decides_by_log [OF assms(1) snoc.prems] sliding_window.decides_by_log [OF assms(2) snoc.prems]
    by simp
qed simp

subsection \<open>The limiter in memory\<close>

definition memory_step :: "int \<Rightarrow> int \<Rightarrow> int \<Rightarrow> rat \<Rightarrow> string \<Rightarrow> limiter \<Rightarrow> bool \<times> limiter" where
  "memory_step max_requests burst window t k st =
     (case memory_allow t k max_requests burst window st of ((b, _), st') \<Rightarrow> (b, st'))"

lemma memory_step_simp:
  "memory_step m b w t k st =
     (let hits = recent (of_int w) t (hits_of st k); ok = length hits < nat (rate_capacity m b)
      in (ok, dput st k (if ok then hits @ [t] else hits)))"
  by (auto simp: memory_step_def memory_allow_def recent_def Let_def)

lemma hits_of_dput: "hits_of (dput st k v) k' = (if k' = k then v else hits_of st k')"
  by (simp add: hits_of_def)

interpretation memory: sliding_window "memory_step m b w" hits_of "of_int w" "nat (rate_capacity m b)" "[]" for m b w
proof unfold_locales
  fix t u :: rat and k k' st
  show "fst (memory_step m b w t k st) \<longleftrightarrow> length (recent (of_int w) t (hits_of st k)) < nat (rate_capacity m b)"
    by (simp add: memory_step_simp Let_def)
  assume "t \<le> u"
  then show "recent (of_int w) u (hits_of (snd (memory_step m b w t k st)) k') =
      recent (of_int w) u (hits_of st k' @ (if k' = k \<and> fst (memory_step m b w t k st) then [t] else []))"
    by (simp add: memory_step_simp Let_def hits_of_dput recent_recent)
qed (simp add: hits_of_def)

interpretation reference: sliding_window "log_allow w n" times_of w n "[]" for w n
  by unfold_locales (auto simp: log_allow_def)

text \<open>
  C22. The limiter in memory refines the log of admitted requests. Though it forgets every hit that has left
  the window, over any sequence of calls with a clock that does not go back it answers exactly as the
  specification that remembers all of them: a call passes if and only if fewer than the capacity,
  \<open>max(1, max_requests + max(0, burst))\<close>, were admitted for its key within the window.
\<close>

theorem limiter_refines_log:
  assumes "sorted (map snd cs)"
  shows "fst (answers (memory_step max_requests burst window) cs []) =
    fst (answers (log_allow (of_int window) (nat (rate_capacity max_requests burst))) cs [])"
  using same_window_same_answers [OF memory.sliding_window_axioms reference.sliding_window_axioms assms] .

theorem limiter_refines_log_witness:
  "fst (answers (memory_step 1 1 60) [(''a'', 0), (''a'', 1), (''a'', 2), (''a'', 62)] []) =
   fst (answers (log_allow (of_int 60) (nat (rate_capacity 1 1))) [(''a'', 0), (''a'', 1), (''a'', 2), (''a'', 62)] [])"
  by (rule limiter_refines_log) simp

text \<open>
  The limiter bounds every window: whatever the calls, of the requests it admits for one key at most the
  capacity lie in any closed interval as long as the window.
\<close>

lemma limiter_bounds_window:
  assumes "sorted (map snd cs)"
  shows "int (length (filter (\<lambda>t. u - of_int window \<le> t \<and> t \<le> u)
      (times_of (admitted cs (fst (answers (memory_step max_requests burst window) cs []))) key)))
    \<le> rate_capacity max_requests burst"
proof -
  have "filter (\<lambda>t. u - of_int window \<le> t \<and> t \<le> u) ts = filter (\<lambda>h. h \<le> u) (recent (of_int window) u ts)" for ts
    by (auto simp: recent_def conj_commute intro!: filter_cong)
  then show ?thesis
    using memory.capacity_in_window [OF assms, of u window max_requests burst key]
    by (simp add: rate_capacity_def)
qed

end
