(* ===== verification/Url_Text.thy ===== *)
theory Url_Text
  imports Request_Guards Guardrails
begin

text \<open>
  The URLs the program takes apart: \<open>urlsplit\<close> and \<open>urlunsplit\<close> of the standard library, as Python 3.11 has
  them, and the parts of a network location. The checks of a bracketed host and of the compatibility form of
  a location outside ASCII are a parameter.
\<close>

record url_parts =
  ur_scheme :: string
  ur_netloc :: string
  ur_path :: string
  ur_query :: string
  ur_fragment :: string

definition upto :: "char \<Rightarrow> string \<Rightarrow> string" where
  "upto c s = takeWhile (\<lambda>x. x \<noteq> c) s"

definition past :: "char \<Rightarrow> string \<Rightarrow> string" where
  "past c s = drop 1 (dropWhile (\<lambda>x. x \<noteq> c) s)"

text \<open>\<open>s.rpartition(c)\<close>: what stands before the last \<open>c\<close>, if there is one, and what stands after it.\<close>

definition rpartition :: "char \<Rightarrow> string \<Rightarrow> string option \<times> string" where
  "rpartition c s =
     (if c \<in> set s then (Some (butlast (strip_end (\<lambda>x. x \<noteq> c) s)), rev (takeWhile (\<lambda>x. x \<noteq> c) (rev s)))
      else (None, s))"

definition ascii_letter :: "char \<Rightarrow> bool" where
  "ascii_letter c \<longleftrightarrow> (let n = (of_char c :: nat) in (65 \<le> n \<and> n \<le> 90) \<or> (97 \<le> n \<and> n \<le> 122))"

definition scheme_char :: "char \<Rightarrow> bool" where
  "scheme_char c \<longleftrightarrow> ascii_letter c \<or> dec_digit c \<or> c \<in> set ''+-.''"

text \<open>Leading control characters and spaces go, and line ends and tabs anywhere.\<close>

definition clean_url :: "string \<Rightarrow> string" where
  "clean_url url =
     filter (\<lambda>c. of_char c \<notin> {9, 10, 13 :: nat}) (dropWhile (\<lambda>c. (of_char c :: nat) \<le> 32) url)"

definition netloc_shape :: "(string \<Rightarrow> bool) \<Rightarrow> string \<Rightarrow> bool" where
  "netloc_shape fine netloc \<longleftrightarrow>
     (CHR ''['' \<in> set netloc \<longleftrightarrow> CHR '']'' \<in> set netloc) \<and>
     (CHR ''['' \<in> set netloc \<or> \<not> list_all (\<lambda>c. (of_char c :: nat) < 128) netloc \<longrightarrow> fine netloc)"

definition urlsplit :: "(string \<Rightarrow> bool) \<Rightarrow> string \<Rightarrow> url_parts option" where
  "urlsplit fine raw =
     (let url = clean_url raw; pre = upto CHR '':'' url;
          named = (CHR '':'' \<in> set url \<and> pre \<noteq> [] \<and> ascii_letter (hd pre) \<and> list_all scheme_char pre);
          (scheme, rest) = (if named then (lower pre, past CHR '':'' url) else ([], url));
          delim = (\<lambda>c. c \<in> set ''/?#'');
          (netloc, rest) = (if prefix ''//'' rest
             then (takeWhile (\<lambda>c. \<not> delim c) (drop 2 rest), dropWhile (\<lambda>c. \<not> delim c) (drop 2 rest)) else ([], rest));
          path_query = upto CHR ''#'' rest
      in if netloc_shape fine netloc
         then Some \<lparr>ur_scheme = scheme, ur_netloc = netloc, ur_path = upto CHR ''?'' path_query,
                ur_query = past CHR ''?'' path_query, ur_fragment = past CHR ''#'' rest\<rparr>
         else None)"

definition USES_NETLOC :: "string list" where
  "USES_NETLOC =
     [''ftp'', ''http'', ''gopher'', ''nntp'', ''telnet'', ''imap'', ''wais'', ''file'', ''mms'', ''https'', ''shttp'', ''snews'',
      ''prospero'', ''rtsp'', ''rtspu'', ''rsync'', ''svn'', ''svn+ssh'', ''sftp'', ''nfs'', ''git'', ''git+ssh'', ''ws'', ''wss'']"

definition urlunsplit :: "url_parts \<Rightarrow> string" where
  "urlunsplit p =
     (let path = ur_path p;
          url = (if ur_netloc p \<noteq> [] \<or> ur_scheme p \<in> set USES_NETLOC \<or> prefix ''//'' path
            then ''//'' @ ur_netloc p @ (if path \<noteq> [] \<and> \<not> prefix ''/'' path then ''/'' else []) @ path else path)
      in (if ur_scheme p \<noteq> [] then ur_scheme p @ '':'' else []) @ url @
         (if ur_query p \<noteq> [] then ''?'' @ ur_query p else []) @
         (if ur_fragment p \<noteq> [] then ''#'' @ ur_fragment p else []))"

subsection \<open>The network location\<close>

definition url_username :: "url_parts \<Rightarrow> string option" where
  "url_username p = map_option (upto CHR '':'') (fst (rpartition CHR ''@'' (ur_netloc p)))"

definition url_password :: "url_parts \<Rightarrow> string option" where
  "url_password p =
     (case fst (rpartition CHR ''@'' (ur_netloc p)) of
        None \<Rightarrow> None
      | Some info \<Rightarrow> if CHR '':'' \<in> set info then Some (past CHR '':'' info) else None)"

definition host_port :: "url_parts \<Rightarrow> string \<times> string" where
  "host_port p =
     (let info = snd (rpartition CHR ''@'' (ur_netloc p))
      in if CHR ''['' \<in> set info
         then (let b = past CHR ''['' info in (upto CHR '']'' b, past CHR '':'' (past CHR '']'' b)))
         else (upto CHR '':'' info, past CHR '':'' info))"

definition u_lower_text :: "unicode \<Rightarrow> string \<Rightarrow> string" where
  "u_lower_text u s = concat (u_lower u (py_chars s))"

definition url_hostname :: "unicode \<Rightarrow> url_parts \<Rightarrow> string" where
  "url_hostname u p =
     (let h = fst (host_port p)
      in u_lower_text u (upto CHR ''%'' h) @ (if CHR ''%'' \<in> set h then ''%'' @ past CHR ''%'' h else []))"

text \<open>The port: none, a number, or a ValueError.\<close>

definition url_port :: "url_parts \<Rightarrow> string + int option" where
  "url_port p =
     (let t = snd (host_port p)
      in if t = [] then Inr None
         else if \<not> list_all dec_digit t
         then Inl (''Port could not be cast to integer value as '' @ utf8 [39] @ t @ utf8 [39])
         else if 65535 < read_digits t then Inl ''Port out of range 0-65535''
         else Inr (Some (read_digits t)))"

end
