(* ===== verification/Deploy_Texts.thy ===== *)
theory Deploy_Texts
  imports Texts
begin

text \<open>
  The texts of the checks of settings, as in \<open>Texts\<close>: one definition per message.
\<close>

definition tx_audit_days_dot :: "string" where \<comment> \<open>the retention days must be positive\<close>
  "tx_audit_days_dot =
    ''AUDIT_RETENTION_DAYS '' @ utf8 [0x5FC5, 0x987B, 0x5927, 0x4E8E] @ '' 0'' @ utf8 [0x3002]"

definition tx_audit_rows_dot :: "string" where \<comment> \<open>the export limit must be in 1..10000\<close>
  "tx_audit_rows_dot =
    ''AUDIT_EXPORT_MAX_ROWS '' @ utf8 [0x5FC5, 0x987B, 0x5728] @ '' 1 '' @ utf8 [0x5230] @
    '' 10000 '' @ utf8 [0x8303, 0x56F4, 0x5185, 0x3002]"

definition tx_audit_format :: "string" where \<comment> \<open>only jsonl is supported\<close>
  "tx_audit_format =
    ''AUDIT_EXPORT_FORMAT '' @ utf8 [0x5F53, 0x524D, 0x4EC5, 0x652F, 0x6301] @ '' jsonl'' @ utf8
    [0x3002]"

definition tx_audit_redaction :: "string" where \<comment> \<open>export requires redaction\<close>
  "tx_audit_redaction =
    ''AUDIT_EXPORT_ENABLED=true '' @ utf8 [0x65F6, 0x5FC5, 0x987B, 0x542F, 0x7528] @
    '' AUDIT_EXPORT_REDACTION_ENABLED'' @ utf8 [0x3002]"

definition tx_oidc_roles_empty :: "string" where \<comment> \<open>no allowed role\<close>
  "tx_oidc_roles_empty =
    ''OIDC_ALLOWED_ROLES '' @ utf8 [0x4E0D, 0x80FD, 0x4E3A, 0x7A7A]"

definition tx_oidc_roles_unknown :: "string" where \<comment> \<open>unknown allowed role\<close>
  "tx_oidc_roles_unknown =
    ''OIDC_ALLOWED_ROLES '' @ utf8 [0x4EC5, 0x5141, 0x8BB8] @ '' admin/operator/viewer/auditor''"

definition tx_oidc_default_empty :: "string" where \<comment> \<open>no default role\<close>
  "tx_oidc_default_empty =
    ''OIDC_DEFAULT_ROLE '' @ utf8 [0x4E0D, 0x80FD, 0x4E3A, 0x7A7A]"

definition tx_oidc_default_unknown :: "string" where \<comment> \<open>unknown default role\<close>
  "tx_oidc_default_unknown =
    ''OIDC_DEFAULT_ROLE '' @ utf8 [0x4EC5, 0x5141, 0x8BB8] @ '' admin/operator/viewer/auditor''"

definition tx_oidc_default_outside :: "string" where \<comment> \<open>the default role must be allowed\<close>
  "tx_oidc_default_outside =
    ''OIDC_DEFAULT_ROLE '' @ utf8 [0x5FC5, 0x987B, 0x5305, 0x542B, 0x5728] @
    '' OIDC_ALLOWED_ROLES '' @ utf8 [0x4E2D]"

definition tx_oidc_issuer_empty :: "string" where \<comment> \<open>no issuer\<close>
  "tx_oidc_issuer_empty =
    ''OIDC_ISSUER_URL '' @ utf8 [0x4E0D, 0x80FD, 0x4E3A, 0x7A7A]"

definition tx_oidc_client_empty :: "string" where \<comment> \<open>no client id\<close>
  "tx_oidc_client_empty =
    ''OIDC_CLIENT_ID '' @ utf8 [0x4E0D, 0x80FD, 0x4E3A, 0x7A7A]"

definition tx_oidc_redirect_empty :: "string" where \<comment> \<open>no redirect location\<close>
  "tx_oidc_redirect_empty =
    ''OIDC_REDIRECT_URI '' @ utf8 [0x4E0D, 0x80FD, 0x4E3A, 0x7A7A]"

definition tx_oidc_secret_empty :: "string" where \<comment> \<open>no variable for the secret\<close>
  "tx_oidc_secret_empty =
    ''OIDC_CLIENT_SECRET_ENV '' @ utf8 [0x4E0D, 0x80FD, 0x4E3A, 0x7A7A]"

definition tx_oidc_claim_empty :: "string" where \<comment> \<open>the default claim is used\<close>
  "tx_oidc_claim_empty =
    ''OIDC_ROLE_CLAIM '' @ utf8 [0x4E3A, 0x7A7A, 0xFF0C, 0x5C06, 0x4F7F, 0x7528, 0x9ED8, 0x8BA4]
    @ '' roles''"

definition tx_oidc_secret_unset :: "string \<Rightarrow> string" where \<comment> \<open>the variable is not set\<close>
  "tx_oidc_secret_unset name =
    name @ '' '' @ utf8 [0x672A, 0x6CE8, 0x5165, 0x6216, 0x4E3A, 0x7A7A]"

definition tx_oidc_issuer_http :: "string" where \<comment> \<open>http is allowed on localhost\<close>
  "tx_oidc_issuer_http =
    ''development '' @ utf8 [0x73AF, 0x5883, 0x5141, 0x8BB8] @ '' localhost issuer '' @ utf8
    [0x4F7F, 0x7528] @ '' http''"

definition tx_oidc_issuer_https :: "string" where \<comment> \<open>the issuer must be https\<close>
  "tx_oidc_issuer_https =
    ''OIDC_ISSUER_URL '' @ utf8 [0x5FC5, 0x987B, 0x4F7F, 0x7528] @ '' https''"

definition tx_oidc_redirect_http :: "string" where \<comment> \<open>http is allowed on localhost\<close>
  "tx_oidc_redirect_http =
    ''development '' @ utf8 [0x73AF, 0x5883, 0x5141, 0x8BB8] @ '' localhost redirect_uri '' @
    utf8 [0x4F7F, 0x7528] @ '' http''"

definition tx_oidc_redirect_https :: "string" where \<comment> \<open>the redirect location must be https\<close>
  "tx_oidc_redirect_https =
    ''OIDC_REDIRECT_URI '' @ utf8 [0x5FC5, 0x987B, 0x4F7F, 0x7528] @ '' https''"

definition dp_app_env :: "string" where \<comment> \<open>check app env\<close>
  "dp_app_env =
    utf8 [0x5F53, 0x524D, 0x975E] @ '' production '' @ utf8 [0x73AF, 0x5883, 0xFF0C, 0x8DF3,
    0x8FC7, 0x751F, 0x4EA7, 0x963B, 0x65AD, 0x95E8, 0x7981, 0xFF08, 0x9ED8, 0x8BA4, 0x5F00,
    0x53D1, 0x8DEF, 0x5F84, 0x4FDD, 0x6301, 0x4E0D, 0x53D8, 0xFF09, 0x3002]"

definition dp_jwt_secret :: "string" where \<comment> \<open>check jwt secret\<close>
  "dp_jwt_secret =
    ''JWT_SECRET '' @ utf8 [0x4E0D, 0x80FD, 0x4E3A, 0x7A7A, 0x3001, 0x4E0D, 0x80FD, 0x4F7F,
    0x7528, 0x5360, 0x4F4D, 0x503C, 0xFF0C, 0x4E14, 0x957F, 0x5EA6, 0x5FC5, 0x987B, 0x4E0D,
    0x5C11, 0x4E8E] @ '' 32 '' @ utf8 [0x5B57, 0x7B26, 0x3002]"

definition dp_auth_enabled :: "string" where \<comment> \<open>check auth enabled\<close>
  "dp_auth_enabled =
    ''production '' @ utf8 [0x73AF, 0x5883, 0x8981, 0x6C42] @ '' AUTH_ENABLED=true'' @ utf8
    [0x3002]"

definition dp_rbac_enabled :: "string" where \<comment> \<open>check rbac enabled\<close>
  "dp_rbac_enabled =
    ''production '' @ utf8 [0x73AF, 0x5883, 0x8981, 0x6C42] @ '' RBAC_ENABLED=true'' @ utf8
    [0x3002]"

definition dp_cors_allow_origins :: "string" where \<comment> \<open>check cors allow origins\<close>
  "dp_cors_allow_origins =
    ''CORS origin '' @ utf8 [0x914D, 0x7F6E, 0x5408, 0x6CD5, 0x3002]"

definition dp_security_headers_enabled :: "string" where \<comment> \<open>check security headers enabled\<close>
  "dp_security_headers_enabled =
    ''production '' @ utf8 [0x73AF, 0x5883, 0x8981, 0x6C42] @ '' SECURITY_HEADERS_ENABLED=true''
    @ utf8 [0x3002]"

definition dp_structured_logging_enabled :: "string" where \<comment> \<open>check structured logging enabled\<close>
  "dp_structured_logging_enabled =
    ''production '' @ utf8 [0x73AF, 0x5883, 0x8981, 0x6C42] @
    '' STRUCTURED_LOGGING_ENABLED=true'' @ utf8 [0x3002]"

definition dp_log_redaction_enabled :: "string" where \<comment> \<open>check log redaction enabled\<close>
  "dp_log_redaction_enabled =
    ''production '' @ utf8 [0x73AF, 0x5883, 0x8981, 0x6C42] @ '' LOG_REDACTION_ENABLED=true'' @
    utf8 [0x3002]"

definition dp_log_level_valid :: "string" where \<comment> \<open>check log level valid\<close>
  "dp_log_level_valid =
    ''LOG_LEVEL '' @ utf8 [0x5FC5, 0x987B, 0x4E3A] @ '' DEBUG/INFO/WARNING/ERROR/CRITICAL '' @
    utf8 [0x4E4B, 0x4E00, 0x3002]"

definition dp_log_level_production :: "string" where \<comment> \<open>check log level production\<close>
  "dp_log_level_production =
    ''production '' @ utf8 [0x73AF, 0x5883, 0x4E0D, 0x5141, 0x8BB8] @ '' LOG_LEVEL=DEBUG'' @
    utf8 [0x3002]"

definition dp_audit_retention_enabled :: "string" where \<comment> \<open>check audit retention enabled\<close>
  "dp_audit_retention_enabled =
    ''production '' @ utf8 [0x73AF, 0x5883, 0x8981, 0x6C42] @ '' AUDIT_RETENTION_ENABLED=true''
    @ utf8 [0x3002]"

definition dp_audit_export_max_rows :: "string" where \<comment> \<open>check audit export max rows\<close>
  "dp_audit_export_max_rows =
    ''AUDIT_EXPORT_MAX_ROWS '' @ utf8 [0x5FC5, 0x987B, 0x5728] @ '' 1 '' @ utf8 [0x5230] @
    '' 10000 '' @ utf8 [0x8303, 0x56F4, 0x5185, 0x3002]"

definition dp_audit_export_redaction_enabled :: "string" where \<comment> \<open>check audit export redaction enabled\<close>
  "dp_audit_export_redaction_enabled =
    ''production '' @ utf8 [0x73AF, 0x5883, 0x8981, 0x6C42] @
    '' AUDIT_EXPORT_REDACTION_ENABLED=true'' @ utf8 [0x3002]"

definition dp_audit_retention_settings :: "string" where \<comment> \<open>check audit retention settings\<close>
  "dp_audit_retention_settings =
    utf8 [0x5BA1, 0x8BA1, 0x7559, 0x5B58, 0x4E0E, 0x5BFC, 0x51FA, 0x914D, 0x7F6E, 0x5408,
    0x6CD5, 0x3002]"

definition dp_request_size_limit_enabled :: "string" where \<comment> \<open>check request size limit enabled\<close>
  "dp_request_size_limit_enabled =
    ''production '' @ utf8 [0x73AF, 0x5883, 0x8981, 0x6C42] @
    '' REQUEST_SIZE_LIMIT_ENABLED=true'' @ utf8 [0x3002]"

definition dp_request_size_limit_bytes :: "string" where \<comment> \<open>check request size limit bytes\<close>
  "dp_request_size_limit_bytes =
    ''REQUEST_SIZE_LIMIT_BYTES '' @ utf8 [0x5FC5, 0x987B, 0x5728] @ '' 1 '' @ utf8 [0x5230] @
    '' 10485760'' @ utf8 [0xFF08] @ ''10MB'' @ utf8 [0xFF09, 0x8303, 0x56F4, 0x5185, 0x3002]"

definition dp_rate_limit_enabled :: "string" where \<comment> \<open>check rate limit enabled\<close>
  "dp_rate_limit_enabled =
    ''production '' @ utf8 [0x73AF, 0x5883, 0x8981, 0x6C42] @ '' RATE_LIMIT_ENABLED=true'' @
    utf8 [0x3002]"

definition dp_rate_limit_requests_per_minute :: "string" where \<comment> \<open>check rate limit requests per minute\<close>
  "dp_rate_limit_requests_per_minute =
    ''RATE_LIMIT_REQUESTS_PER_MINUTE '' @ utf8 [0x5FC5, 0x987B, 0x5927, 0x4E8E] @ '' 0'' @ utf8
    [0x3002]"

definition dp_rate_limit_burst :: "string" where \<comment> \<open>check rate limit burst\<close>
  "dp_rate_limit_burst =
    ''RATE_LIMIT_BURST '' @ utf8 [0x5FC5, 0x987B, 0x5927, 0x4E8E, 0x6216, 0x7B49, 0x4E8E] @
    '' 0'' @ utf8 [0x3002]"

definition dp_rate_limit_backend_valid :: "string" where \<comment> \<open>check rate limit backend valid\<close>
  "dp_rate_limit_backend_valid =
    ''RATE_LIMIT_BACKEND '' @ utf8 [0x5FC5, 0x987B, 0x4E3A] @ '' memory '' @ utf8 [0x6216] @
    '' redis'' @ utf8 [0x3002]"

definition dp_rate_limit_redis_enabled :: "string" where \<comment> \<open>check rate limit redis enabled\<close>
  "dp_rate_limit_redis_enabled =
    ''RATE_LIMIT_BACKEND=redis '' @ utf8 [0x65F6, 0x8981, 0x6C42] @ '' REDIS_ENABLED=true'' @
    utf8 [0x3002]"

definition dp_rate_limit_redis_url :: "string" where \<comment> \<open>check rate limit redis url\<close>
  "dp_rate_limit_redis_url =
    ''RATE_LIMIT_BACKEND=redis '' @ utf8 [0x65F6, 0x8981, 0x6C42] @ '' REDIS_URL '' @ utf8
    [0x975E, 0x7A7A, 0x3002]"

definition dp_rate_limit_exempt_paths :: "string" where \<comment> \<open>check rate limit exempt paths\<close>
  "dp_rate_limit_exempt_paths =
    ''RATE_LIMIT_EXEMPT_PATHS '' @ utf8 [0x5FC5, 0x987B, 0x53EF, 0x89E3, 0x6790, 0x4E3A, 0x9017,
    0x53F7, 0x5206, 0x9694, 0x8DEF, 0x5F84, 0x5217, 0x8868, 0x3002]"

definition dp_database_url_required :: "string" where \<comment> \<open>check database url required\<close>
  "dp_database_url_required =
    ''STORAGE_BACKEND=postgres '' @ utf8 [0x65F6] @ '' DATABASE_URL '' @ utf8 [0x5FC5, 0x987B,
    0x975E, 0x7A7A, 0x3002]"

definition dp_database_url_secret_strength :: "string" where \<comment> \<open>check database url secret strength\<close>
  "dp_database_url_secret_strength =
    ''DATABASE_URL '' @ utf8 [0x4E0D, 0x53EF, 0x4F7F, 0x7528, 0x5360, 0x4F4D, 0x5BC6, 0x7801,
    0x6216, 0x5F31, 0x53E3, 0x4EE4, 0x5360, 0x4F4D, 0x6807, 0x8BC6, 0x3002]"

definition dp_redis_url_required :: "string" where \<comment> \<open>check redis url required\<close>
  "dp_redis_url_required =
    ''REDIS_ENABLED=true '' @ utf8 [0x65F6] @ '' REDIS_URL '' @ utf8 [0x5FC5, 0x987B, 0x975E,
    0x7A7A, 0x3002]"

definition dp_redis_url_secret_strength :: "string" where \<comment> \<open>check redis url secret strength\<close>
  "dp_redis_url_secret_strength =
    ''REDIS_URL '' @ utf8 [0x4E0D, 0x53EF, 0x5305, 0x542B, 0x5360, 0x4F4D, 0x5BC6, 0x94A5,
    0x6807, 0x8BC6, 0x3002]"

definition dp_mcp_server_command_allowlist :: "string" where \<comment> \<open>check mcp server command allowlist\<close>
  "dp_mcp_server_command_allowlist =
    ''MCP_MODE=real '' @ utf8 [0x65F6] @ '' MCP_SERVER_COMMAND_ALLOWLIST '' @ utf8 [0x5FC5,
    0x987B, 0x975E, 0x7A7A, 0x3002]"

definition dp_mcp_tool_allowlist :: "string" where \<comment> \<open>check mcp tool allowlist\<close>
  "dp_mcp_tool_allowlist =
    ''MCP_MODE=real '' @ utf8 [0x65F6] @ '' MCP_TOOL_ALLOWLIST '' @ utf8 [0x5FC5, 0x987B,
    0x975E, 0x7A7A, 0x3002]"

definition dp_real_llm_model :: "string" where \<comment> \<open>check real llm model\<close>
  "dp_real_llm_model =
    ''REAL_LLM_ACCEPTANCE_ENABLED=true '' @ utf8 [0x65F6] @ '' REAL_LLM_MODEL '' @ utf8 [0x5FC5,
    0x987B, 0x975E, 0x7A7A, 0x3002]"

definition dp_real_llm_api_key_env :: "string" where \<comment> \<open>check real llm api key env\<close>
  "dp_real_llm_api_key_env =
    ''REAL_LLM_ACCEPTANCE_ENABLED=true '' @ utf8 [0x65F6] @ '' REAL_LLM_API_KEY_ENV '' @ utf8
    [0x5FC5, 0x987B, 0x914D, 0x7F6E, 0x3002]"

definition dp_real_llm_api_key_present :: "string" where \<comment> \<open>check real llm api key present\<close>
  "dp_real_llm_api_key_present =
    ''REAL_LLM_API_KEY_ENV '' @ utf8 [0x6307, 0x5411, 0x7684, 0x73AF, 0x5883, 0x53D8, 0x91CF,
    0x5FC5, 0x987B, 0x5B58, 0x5728, 0x4E14, 0x975E, 0x7A7A, 0x3002]"

definition dp_oidc_allowed_roles_valid :: "string" where \<comment> \<open>check oidc allowed roles valid\<close>
  "dp_oidc_allowed_roles_valid =
    ''OIDC_ALLOWED_ROLES '' @ utf8 [0x5FC5, 0x987B, 0x662F] @
    '' admin/operator/viewer/auditor '' @ utf8 [0x7684, 0x5B50, 0x96C6, 0xFF0C, 0x4E14, 0x4E0D,
    0x80FD, 0x4E3A, 0x7A7A, 0x3002]"

definition dp_oidc_default_role_valid :: "string" where \<comment> \<open>check oidc default role valid\<close>
  "dp_oidc_default_role_valid =
    ''OIDC_DEFAULT_ROLE '' @ utf8 [0x5FC5, 0x987B, 0x5728] @ '' OIDC_ALLOWED_ROLES '' @ utf8
    [0x5185, 0xFF0C, 0x4E14, 0x4EC5, 0x5141, 0x8BB8] @ '' admin/operator/viewer/auditor'' @ utf8
    [0x3002]"

definition dp_oidc_enabled :: "string" where \<comment> \<open>check oidc enabled\<close>
  "dp_oidc_enabled =
    ''OIDC/SSO '' @ utf8 [0x5F53, 0x524D, 0x672A, 0x542F, 0x7528, 0xFF1B, 0x751F, 0x4EA7,
    0x63A5, 0x5165, 0x524D, 0x9700, 0x5B8C, 0x6210, 0x4F01, 0x4E1A] @ '' IdP '' @ utf8 [0x5BF9,
    0x63A5, 0x4E0E, 0x5B89, 0x5168, 0x8BC4, 0x5BA1, 0x3002]"

definition dp_oidc_issuer_url :: "string" where \<comment> \<open>check oidc issuer url\<close>
  "dp_oidc_issuer_url =
    ''OIDC_ENABLED=true '' @ utf8 [0x65F6] @ '' OIDC_ISSUER_URL '' @ utf8 [0x5FC5, 0x987B,
    0x975E, 0x7A7A, 0x3002]"

definition dp_oidc_client_id :: "string" where \<comment> \<open>check oidc client id\<close>
  "dp_oidc_client_id =
    ''OIDC_ENABLED=true '' @ utf8 [0x65F6] @ '' OIDC_CLIENT_ID '' @ utf8 [0x5FC5, 0x987B,
    0x975E, 0x7A7A, 0x3002]"

definition dp_oidc_redirect_uri :: "string" where \<comment> \<open>check oidc redirect uri\<close>
  "dp_oidc_redirect_uri =
    ''OIDC_ENABLED=true '' @ utf8 [0x65F6] @ '' OIDC_REDIRECT_URI '' @ utf8 [0x5FC5, 0x987B,
    0x975E, 0x7A7A, 0x3002]"

definition dp_oidc_client_secret_env :: "string" where \<comment> \<open>check oidc client secret env\<close>
  "dp_oidc_client_secret_env =
    ''OIDC_ENABLED=true '' @ utf8 [0x65F6] @ '' OIDC_CLIENT_SECRET_ENV '' @ utf8 [0x5FC5,
    0x987B, 0x975E, 0x7A7A, 0x3002]"

definition dp_oidc_client_secret_present :: "string" where \<comment> \<open>check oidc client secret present\<close>
  "dp_oidc_client_secret_present =
    ''OIDC_CLIENT_SECRET_ENV '' @ utf8 [0x6307, 0x5411, 0x7684, 0x73AF, 0x5883, 0x53D8, 0x91CF,
    0x5FC5, 0x987B, 0x5B58, 0x5728, 0x4E14, 0x975E, 0x7A7A, 0x3002]"

definition dp_oidc_require_https :: "string" where \<comment> \<open>check oidc require https\<close>
  "dp_oidc_require_https =
    ''production + OIDC_ENABLED=true '' @ utf8 [0x8981, 0x6C42] @ '' OIDC_REQUIRE_HTTPS=true'' @
    utf8 [0x3002]"

definition dp_oidc_issuer_url_https :: "string" where \<comment> \<open>check oidc issuer url https\<close>
  "dp_oidc_issuer_url_https =
    ''production '' @ utf8 [0x8981, 0x6C42] @ '' OIDC_ISSUER_URL '' @ utf8 [0x4F7F, 0x7528] @
    '' https'' @ utf8 [0x3002]"

definition dp_oidc_redirect_uri_https :: "string" where \<comment> \<open>check oidc redirect uri https\<close>
  "dp_oidc_redirect_uri_https =
    ''production '' @ utf8 [0x8981, 0x6C42] @ '' OIDC_REDIRECT_URI '' @ utf8 [0x4F7F, 0x7528] @
    '' https'' @ utf8 [0x3002]"

definition dp_cors_empty :: "string" where \<comment> \<open>no origin\<close>
  "dp_cors_empty =
    ''CORS '' @ utf8 [0x542F, 0x7528, 0x65F6] @ '' CORS_ALLOW_ORIGINS '' @ utf8 [0x4E0D, 0x80FD,
    0x4E3A, 0x7A7A, 0x3002]"

definition dp_cors_any :: "string" where \<comment> \<open>any origin\<close>
  "dp_cors_any =
    ''production '' @ utf8 [0x73AF, 0x5883, 0x4E0D, 0x5141, 0x8BB8] @ '' CORS_ALLOW_ORIGINS '' @
    utf8 [0x4F7F, 0x7528, 0x901A, 0x914D, 0x7B26] @ '' *'' @ utf8 [0x3002]"

definition tx_llm_need_httpx :: "string" where \<comment> \<open>httpx is missing\<close>
  "tx_llm_need_httpx =
    ''OpenAI-compatible '' @ utf8 [0x76F4, 0x8FDE, 0x9700, 0x8981] @ '' httpx'' @ utf8 [0x3002]"

definition tx_llm_direct_httpx :: "string" where \<comment> \<open>httpx is missing\<close>
  "tx_llm_direct_httpx =
    ''OpenAICompatibleProvider '' @ utf8 [0x9700, 0x8981] @ '' httpx'' @ utf8 [0x3002]"

definition tx_lite_httpx :: "string" where \<comment> \<open>httpx is missing\<close>
  "tx_lite_httpx =
    ''OpenAI-compatible fallback '' @ utf8 [0x9700, 0x8981] @ '' httpx'' @ utf8 [0x3002]"

definition tx_lite_missing :: "string" where \<comment> \<open>litellm is missing\<close>
  "tx_lite_missing =
    utf8 [0x4F7F, 0x7528] @ '' LiteLLMProvider '' @ utf8 [0x9700, 0x8981, 0x5B89, 0x88C5] @
    '' litellm'' @ utf8 [0xFF0C, 0x8BF7, 0x6267, 0x884C] @ '': pip install litellm''"

definition tx_lite_no_choices :: "string" where \<comment> \<open>no choices\<close>
  "tx_lite_no_choices =
    ''LiteLLM '' @ utf8 [0x8FD4, 0x56DE, 0x7F3A, 0x5C11] @ '' choices'' @ utf8 [0x3002]"

definition tx_lite_no_content :: "string" where \<comment> \<open>no content\<close>
  "tx_lite_no_content =
    ''LiteLLM '' @ utf8 [0x8FD4, 0x56DE, 0x7F3A, 0x5C11] @ '' message.content'' @ utf8 [0x3002]"

definition tx_lite_no_key :: "string" where \<comment> \<open>no key\<close>
  "tx_lite_no_key =
    ''LiteLLMProvider '' @ utf8 [0x9700, 0x8981] @ '' LLM_API_KEY '' @ utf8 [0x914D, 0x7F6E,
    0xFF0C, 0x5F53, 0x524D, 0x4E3A, 0x7A7A, 0x3002]"

definition tx_direct_no_url :: "string" where \<comment> \<open>no base URL\<close>
  "tx_direct_no_url =
    ''OpenAICompatibleProvider '' @ utf8 [0x9700, 0x8981] @ '' LLM_BASE_URL '' @ utf8 [0x914D,
    0x7F6E, 0xFF0C, 0x5F53, 0x524D, 0x4E3A, 0x7A7A, 0x3002]"

definition tx_direct_no_key :: "string" where \<comment> \<open>no key\<close>
  "tx_direct_no_key =
    ''OpenAICompatibleProvider '' @ utf8 [0x9700, 0x8981] @ '' LLM_API_KEY '' @ utf8 [0x914D,
    0x7F6E, 0xFF0C, 0x5F53, 0x524D, 0x4E3A, 0x7A7A, 0x3002]"

definition tx_unknown_provider :: "string \<Rightarrow> string" where \<comment> \<open>unknown provider\<close>
  "tx_unknown_provider name =
    utf8 [0x672A, 0x77E5, 0x7684] @ '' LLM Provider: '' @ name @ utf8 [0xFF0C, 0x652F, 0x6301] @
    '': fake, litellm, openai_compatible (unknown provider)''"

definition tx_fake_gmv :: "string" where \<comment> \<open>GMV query\<close>
  "tx_fake_gmv =
    utf8 [0x6839, 0x636E, 0x5173, 0x952E, 0x8BCD, 0x5339, 0x914D, 0x5230] @ '' GMV '' @ utf8
    [0x67E5, 0x8BE2]"

definition tx_fake_users :: "string" where \<comment> \<open>new users query\<close>
  "tx_fake_users =
    utf8 [0x6839, 0x636E, 0x5173, 0x952E, 0x8BCD, 0x5339, 0x914D, 0x5230, 0x65B0, 0x589E,
    0x7528, 0x6237, 0x67E5, 0x8BE2]"

definition tx_fake_orders :: "string" where \<comment> \<open>orders query\<close>
  "tx_fake_orders =
    utf8 [0x6839, 0x636E, 0x5173, 0x952E, 0x8BCD, 0x5339, 0x914D, 0x5230, 0x8BA2, 0x5355,
    0x67E5, 0x8BE2]"

definition tx_fake_products :: "string" where \<comment> \<open>product ranking query\<close>
  "tx_fake_products =
    utf8 [0x6839, 0x636E, 0x5173, 0x952E, 0x8BCD, 0x5339, 0x914D, 0x5230, 0x5546, 0x54C1,
    0x6392, 0x540D, 0x67E5, 0x8BE2]"

definition tx_fake_refund :: "string" where \<comment> \<open>refund rate query\<close>
  "tx_fake_refund =
    utf8 [0x6839, 0x636E, 0x5173, 0x952E, 0x8BCD, 0x5339, 0x914D, 0x5230, 0x9000, 0x6B3E,
    0x7387, 0x67E5, 0x8BE2]"

definition tx_fake_none :: "string" where \<comment> \<open>unknown query\<close>
  "tx_fake_none =
    utf8 [0x65E0, 0x6CD5, 0x8BC6, 0x522B, 0x67E5, 0x8BE2]"

end
