(* ===== verification/Auth.thy ===== *)
theory Auth
  imports Url_Text Deploy_Texts
begin

text \<open>
  Who may call what (\<open>app/auth/\<close>, \<open>app/api/auth.py\<close>, \<open>app/storage/user_store.py\<close>): the roles and the permissions
  of the endpoints, bearer tokens, the store of users with its log-in, and the mapping of OIDC claims to
  roles. The library of JSON Web Tokens, with the validation of their payload, and bcrypt are parameters.
\<close>

subsection \<open>Users and tokens\<close>

datatype user_role = RoleAdmin | RoleOperator | RoleViewer | RoleAuditor

fun role_value :: "user_role \<Rightarrow> string" where
  "role_value RoleAdmin = ''admin''"
| "role_value RoleOperator = ''operator''"
| "role_value RoleViewer = ''viewer''"
| "role_value RoleAuditor = ''auditor''"

record user =
  au_user_id :: string
  au_username :: string
  au_password_hash :: string
  au_roles :: "user_role list"
  au_disabled :: bool
  au_created_at :: string

record token_payload =
  tp_sub :: string
  tp_roles :: "string list"
  tp_exp :: int

datatype jwt_error = JwtExpired | JwtInvalid | JwtMalformed string

text \<open>\<open>jwt.encode\<close> and \<open>jwt.decode\<close> with a secret and an algorithm; a decoding looks at the clock.\<close>

record 'w jwt_lib =
  jw_encode :: "token_payload \<Rightarrow> string \<Rightarrow> string \<Rightarrow> string"
  jw_decode :: "string \<Rightarrow> string \<Rightarrow> string \<Rightarrow> 'w \<Rightarrow> jwt_error + token_payload"
  jw_timestamp :: "'w \<Rightarrow> int"

definition create_access_token :: "settings \<Rightarrow> 'w jwt_lib \<Rightarrow> user \<Rightarrow> 'w \<Rightarrow> string" where
  "create_access_token cfg jw usr w =
     jw_encode jw
       \<lparr>tp_sub = au_username usr, tp_roles = map role_value (au_roles usr),
        tp_exp = jw_timestamp jw w + 60 * st_access_token_expire_minutes cfg\<rparr>
       (st_jwt_secret cfg) (st_jwt_algorithm cfg)"

definition decode_access_token :: "settings \<Rightarrow> 'w jwt_lib \<Rightarrow> string \<Rightarrow> 'w \<Rightarrow> string + token_payload" where
  "decode_access_token cfg jw token w =
     (case jw_decode jw token (st_jwt_secret cfg) (st_jwt_algorithm cfg) w of
        Inr p \<Rightarrow> Inr p
      | Inl JwtExpired \<Rightarrow> Inl ''Token has expired''
      | Inl JwtInvalid \<Rightarrow> Inl ''Invalid token''
      | Inl (JwtMalformed e) \<Rightarrow> Inl e)"

subsection \<open>Roles and permissions\<close>

definition ROLE_HIERARCHY :: "(string \<times> string list) list" where
  "ROLE_HIERARCHY =
     [(''admin'', [''admin'', ''operator'', ''viewer'', ''auditor'']), (''operator'', [''operator'', ''viewer'']),
      (''auditor'', [''auditor'', ''viewer'']), (''viewer'', [''viewer''])]"

definition ENDPOINT_PERMISSIONS :: "(string \<times> string list) list" where
  "ENDPOINT_PERMISSIONS =
     (let every = [''admin'', ''operator'', ''viewer'', ''auditor''] in
     [(''tasks:create'', [''admin'', ''operator'']), (''tasks:read'', every),
      (''approvals:decide'', [''admin'', ''operator'']), (''approvals:read'', every),
      (''audit:read'', [''admin'', ''auditor'']), (''audit:export'', [''admin'', ''auditor'']),
      (''metrics:read'', every), (''tools:call'', [''admin'', ''operator'']), (''tools:read'', every),
      (''eval:run'', [''admin'', ''operator'']), (''eval:read'', every), (''memory:read'', every),
      (''memory:manage'', [''admin'', ''operator'']), (''nl2sql:run'', [''admin'', ''operator'']),
      (''reflection:run'', [''admin'', ''operator'']), (''skills:read'', every), (''snapshot:read'', every),
      (''snapshot:manage'', [''admin''])])"

definition role_reach :: "string \<Rightarrow> string list" where
  "role_reach role = (case map_of ROLE_HIERARCHY role of None \<Rightarrow> [role] | Some rs \<Rightarrow> rs)"

definition roles_meet :: "string list \<Rightarrow> string list \<Rightarrow> bool" where
  "roles_meet roles allowed \<longleftrightarrow> list_ex (\<lambda>r. list_ex (\<lambda>x. x \<in> set allowed) (role_reach r)) roles"

definition permitted_roles :: "string \<Rightarrow> string list" where
  "permitted_roles permission =
     (case map_of ENDPOINT_PERMISSIONS permission of None \<Rightarrow> [''admin''] | Some rs \<Rightarrow> rs)"

subsection \<open>The dependencies of an endpoint\<close>

datatype principal = DevUser | TokenUser token_payload

definition get_current_user ::
  "settings \<Rightarrow> 'w jwt_lib \<Rightarrow> string option \<Rightarrow> 'w \<Rightarrow> (nat \<times> string) + principal"
where
  "get_current_user cfg jw credentials w =
     (if \<not> st_auth_enabled cfg then Inr DevUser
      else
        (case credentials of
           None \<Rightarrow> Inl (401, ''Not authenticated'')
         | Some token \<Rightarrow>
             (case decode_access_token cfg jw token w of Inl e \<Rightarrow> Inl (401, e) | Inr p \<Rightarrow> Inr (TokenUser p))))"

definition optional_current_user :: "settings \<Rightarrow> 'w jwt_lib \<Rightarrow> string option \<Rightarrow> 'w \<Rightarrow> principal option" where
  "optional_current_user cfg jw credentials w =
     (if \<not> st_auth_enabled cfg then Some DevUser
      else
        (case credentials of
           None \<Rightarrow> None
         | Some token \<Rightarrow> (case decode_access_token cfg jw token w of Inl e \<Rightarrow> None | Inr p \<Rightarrow> Some (TokenUser p))))"

text \<open>The texts of a 403 name sets, whose order Python leaves open: the rendering is a parameter.\<close>

definition require_roles ::
  "settings \<Rightarrow> (string set \<Rightarrow> string) \<Rightarrow> string list \<Rightarrow> principal \<Rightarrow> (nat \<times> string) + principal"
where
  "require_roles cfg show required p =
     (case p of
        DevUser \<Rightarrow> Inr p
      | TokenUser t \<Rightarrow>
          if \<not> st_rbac_enabled cfg \<or> roles_meet (tp_roles t) required then Inr p
          else Inl (403, ''Role '' @ show (set (tp_roles t)) @ '' not authorized. Required: '' @ show (set required)))"

definition require_permission :: "settings \<Rightarrow> string \<Rightarrow> principal \<Rightarrow> (nat \<times> string) + principal" where
  "require_permission cfg permission p =
     (case p of
        DevUser \<Rightarrow> Inr p
      | TokenUser t \<Rightarrow>
          if \<not> st_rbac_enabled cfg \<or> roles_meet (tp_roles t) (permitted_roles permission) then Inr p
          else Inl (403, ''Insufficient permissions for '' @ permission))"

text \<open>An endpoint behind a permission: the check of the token, then that of the roles.\<close>

definition authorize ::
  "settings \<Rightarrow> 'w jwt_lib \<Rightarrow> string \<Rightarrow> string option \<Rightarrow> 'w \<Rightarrow> (nat \<times> string) + principal"
where
  "authorize cfg jw permission credentials w =
     (case get_current_user cfg jw credentials w of
        Inl e \<Rightarrow> Inl e | Inr p \<Rightarrow> require_permission cfg permission p)"

subsection \<open>The store of users\<close>

record 'w hashing =
  pw_hash :: "string \<Rightarrow> 'w \<Rightarrow> string \<times> 'w"
  pw_verify :: "string \<Rightarrow> string \<Rightarrow> bool"

type_synonym users = "(string \<times> user) list"

definition create_user ::
  "'w env \<Rightarrow> 'w hashing \<Rightarrow> string \<Rightarrow> string \<Rightarrow> user_role list \<Rightarrow> bool \<Rightarrow> users \<times> 'w \<Rightarrow> (string + user) \<times> users \<times> 'w"
where
  "create_user env pw name password roles disabled st =
     (let (us, w) = st in
      if map_of us name \<noteq> None then (Inl (''User '' @ name @ '' already exists''), us, w)
      else
        (let (h, w1) = fresh_hex env w; (hash, w2) = pw_hash pw password w1;
             usr = \<lparr>au_user_id = ''usr_'' @ hex12 h, au_username = name, au_password_hash = hash, au_roles = roles,
                    au_disabled = disabled, au_created_at = utc_iso env w2\<rparr>
         in (Inr usr, dput us name usr, w2)))"

definition get_user_by_username :: "string \<Rightarrow> users \<Rightarrow> user option" where
  "get_user_by_username name us = map_of us name"

definition authenticate_user :: "'w hashing \<Rightarrow> string \<Rightarrow> string \<Rightarrow> users \<Rightarrow> user option" where
  "authenticate_user pw name password us =
     (case map_of us name of
        None \<Rightarrow> None
      | Some usr \<Rightarrow> if au_disabled usr \<or> \<not> pw_verify pw password (au_password_hash usr) then None else Some usr)"

definition SEED_USERS :: "(string \<times> user_role) list" where
  "SEED_USERS =
     [(''admin'', RoleAdmin), (''operator'', RoleOperator), (''viewer'', RoleViewer), (''auditor'', RoleAuditor)]"

text \<open>The password of the development accounts comes from the environment, or is \<open>admin123\<close>.\<close>

definition seed_default_admin_if_empty ::
  "'w env \<Rightarrow> 'w hashing \<Rightarrow> string option \<Rightarrow> users \<times> 'w \<Rightarrow> users \<times> 'w"
where
  "seed_default_admin_if_empty env pw variable st =
     (let password = (case variable of None \<Rightarrow> ''admin123'' | Some p \<Rightarrow> p)
      in if fst st \<noteq> [] then st
         else fold (\<lambda>(name, role) st. snd (create_user env pw name password [role] False st)) SEED_USERS st)"

subsection \<open>The endpoints\<close>

definition login ::
  "settings \<Rightarrow> 'w jwt_lib \<Rightarrow> 'w hashing \<Rightarrow> string \<Rightarrow> string \<Rightarrow> users \<times> 'w \<Rightarrow> (nat \<times> string) + jdict"
where
  "login cfg jw pw name password st =
     (case authenticate_user pw name password (fst st) of
        None \<Rightarrow> Inl (401, ''Incorrect username or password'')
      | Some usr \<Rightarrow>
          Inr [(''access_token'', JStr (create_access_token cfg jw usr (snd st))), (''token_type'', JStr ''bearer'')])"

definition get_me ::
  "settings \<Rightarrow> 'w jwt_lib \<Rightarrow> string option \<Rightarrow> users \<times> 'w \<Rightarrow> (nat \<times> string) + jdict"
where
  "get_me cfg jw credentials st =
     (case credentials of
        None \<Rightarrow> Inl (401, ''Not authenticated'')
      | Some token \<Rightarrow>
          (case decode_access_token cfg jw token (snd st) of
             Inl e \<Rightarrow> Inl (401, e)
           | Inr p \<Rightarrow>
               (case get_user_by_username (tp_sub p) (fst st) of
                  None \<Rightarrow> Inl (401, ''User not found'')
                | Some usr \<Rightarrow>
                    Inr [(''username'', JStr (au_username usr)), (''roles'', jstrs (map role_value (au_roles usr))),
                         (''disabled'', JBool (au_disabled usr))])))"

subsection \<open>OIDC\<close>

definition ALLOWED_ROLES :: "string list" where
  "ALLOWED_ROLES = [''admin'', ''operator'', ''viewer'', ''auditor'']"

definition u_strip_text :: "unicode \<Rightarrow> string \<Rightarrow> string" where
  "u_strip_text u s = concat (u_strip u (py_chars s))"

definition parse_csv :: "unicode \<Rightarrow> string \<Rightarrow> string list" where
  "parse_csv u raw = filter (\<lambda>x. x \<noteq> []) (map (u_strip_text u) (split_on CHR '','' raw))"

definition normalize_roles :: "unicode \<Rightarrow> string \<Rightarrow> string list" where
  "normalize_roles u raw =
     fold (\<lambda>r rs. if u_lower_text u r \<in> set rs then rs else rs @ [u_lower_text u r]) (parse_csv u raw) []"

definition clean_lower :: "unicode \<Rightarrow> string \<Rightarrow> string" where
  "clean_lower u s = u_lower_text u (u_strip_text u s)"

definition is_https_url :: "unicode \<Rightarrow> string \<Rightarrow> bool" where
  "is_https_url u url \<longleftrightarrow>
     prefix ''https://'' (clean_lower u url) \<and> py_len ''https://'' < py_len (clean_lower u url)"

definition is_localhost_url :: "unicode \<Rightarrow> string \<Rightarrow> bool" where
  "is_localhost_url u url \<longleftrightarrow>
     prefix ''http://localhost'' (clean_lower u url) \<or> prefix ''http://127.0.0.1'' (clean_lower u url)"

text \<open>An environment variable, empty when it is not set.\<close>

definition getenv :: "(string \<Rightarrow> string option) \<Rightarrow> string \<Rightarrow> string" where
  "getenv envvar name = (case envvar name of None \<Rightarrow> [] | Some v \<Rightarrow> v)"

definition get_oidc_client_secret :: "unicode \<Rightarrow> (string \<Rightarrow> string option) \<Rightarrow> settings \<Rightarrow> string" where
  "get_oidc_client_secret u envvar cfg =
     (let name = u_strip_text u (st_oidc_client_secret_env cfg)
      in if name = [] then [] else u_strip_text u (getenv envvar name))"

text \<open>The complaint about a location that is not https, an error or a warning.\<close>

definition https_check :: "unicode \<Rightarrow> settings \<Rightarrow> string \<Rightarrow> string \<Rightarrow> string \<Rightarrow> string list \<times> string list" where
  "https_check u cfg url warning problem =
     (let dev = clean_lower u (if st_app_env cfg = [] then ''development'' else st_app_env cfg) = ''development''
      in if url = [] \<or> is_https_url u url then ([], [])
         else if dev \<and> is_localhost_url u url then ([], [warning]) else ([problem], []))"

definition oidc_role_errors :: "unicode \<Rightarrow> settings \<Rightarrow> string list" where
  "oidc_role_errors u cfg =
     (let allowed = normalize_roles u (st_oidc_allowed_roles cfg); dflt = clean_lower u (st_oidc_default_role cfg)
      in (if allowed = [] then [tx_oidc_roles_empty] else []) @
         (if list_ex (\<lambda>r. r \<notin> set ALLOWED_ROLES) allowed then [tx_oidc_roles_unknown] else []) @
         (if dflt = [] then [tx_oidc_default_empty]
          else if dflt \<notin> set ALLOWED_ROLES then [tx_oidc_default_unknown]
          else if dflt \<notin> set allowed then [tx_oidc_default_outside] else []))"

definition validate_oidc_settings ::
  "unicode \<Rightarrow> (string \<Rightarrow> string option) \<Rightarrow> settings \<Rightarrow> string list \<times> string list"
where
  "validate_oidc_settings u envvar cfg =
     (let issuer = u_strip_text u (st_oidc_issuer_url cfg); client = u_strip_text u (st_oidc_client_id cfg);
          redirect = u_strip_text u (st_oidc_redirect_uri cfg);
          secret_env = u_strip_text u (st_oidc_client_secret_env cfg);
          claim = u_strip_text u (st_oidc_role_claim cfg);
          missing = (\<lambda>v t. if v = [] then [t] else []);
          (e1, w1) = (if st_oidc_require_https cfg
            then https_check u cfg issuer tx_oidc_issuer_http tx_oidc_issuer_https else ([], []));
          (e2, w2) = (if st_oidc_require_https cfg
            then https_check u cfg redirect tx_oidc_redirect_http tx_oidc_redirect_https else ([], []))
      in if \<not> st_oidc_enabled cfg then (oidc_role_errors u cfg, [])
         else
           (oidc_role_errors u cfg @ missing issuer tx_oidc_issuer_empty @ missing client tx_oidc_client_empty @
            missing redirect tx_oidc_redirect_empty @ missing secret_env tx_oidc_secret_empty @
            (if secret_env \<noteq> [] \<and> get_oidc_client_secret u envvar cfg = [] then [tx_oidc_secret_unset secret_env] else []) @
            e1 @ e2,
            missing claim tx_oidc_claim_empty @ w1 @ w2))"

definition or_viewer :: "unicode \<Rightarrow> string \<Rightarrow> string" where
  "or_viewer u s =
     (let r = clean_lower u (if s = [] then ''viewer'' else s) in if r = [] then ''viewer'' else r)"

definition known_allowed :: "unicode \<Rightarrow> settings \<Rightarrow> string list" where
  "known_allowed u cfg = filter (\<lambda>r. r \<in> set ALLOWED_ROLES) (normalize_roles u (st_oidc_allowed_roles cfg))"

definition map_oidc_roles :: "unicode \<Rightarrow> 'w env \<Rightarrow> jdict \<Rightarrow> settings \<Rightarrow> string list" where
  "map_oidc_roles u env claims cfg =
     (let allowed = known_allowed u cfg; wanted = or_viewer u (st_oidc_default_role cfg);
          dflt = (if wanted \<notin> set allowed \<and> allowed \<noteq> [] then hd allowed else wanted);
          claim = u_strip_text u (if st_oidc_role_claim cfg = [] then ''roles'' else st_oidc_role_claim cfg);
          source = (case dget_or claims claim (JList []) of
             JStr s \<Rightarrow> [s] | JList vs \<Rightarrow> map (\<lambda>v. case v of JStr s \<Rightarrow> s | x \<Rightarrow> py_str env x) vs | _ \<Rightarrow> []);
          mapped = fold (\<lambda>r rs. let l = clean_lower u r
             in if l \<in> set allowed \<and> l \<notin> set rs then rs @ [l] else rs) source []
      in if mapped \<noteq> [] then mapped else [dflt])"

definition build_oidc_status :: "unicode \<Rightarrow> (string \<Rightarrow> string option) \<Rightarrow> settings \<Rightarrow> jdict" where
  "build_oidc_status u envvar cfg =
     (let (errors, warnings) = validate_oidc_settings u envvar cfg;
          secret_env = u_strip_text u (st_oidc_client_secret_env cfg);
          claim = u_strip_text u (if st_oidc_role_claim cfg = [] then ''roles'' else st_oidc_role_claim cfg);
          set_up = (\<lambda>s. JBool (u_strip_text u s \<noteq> []))
      in [(''enabled'', JBool (st_oidc_enabled cfg)), (''issuer_configured'', set_up (st_oidc_issuer_url cfg)),
          (''client_id_configured'', set_up (st_oidc_client_id cfg)),
          (''redirect_uri_configured'', set_up (st_oidc_redirect_uri cfg)), (''client_secret_env'', JStr secret_env),
          (''client_secret_present'', JBool (secret_env \<noteq> [] \<and> get_oidc_client_secret u envvar cfg \<noteq> [])),
          (''scopes'', jstrs (parse_csv u (st_oidc_scopes cfg))),
          (''role_claim'', JStr (if claim = [] then ''roles'' else claim)),
          (''default_role'', JStr (or_viewer u (st_oidc_default_role cfg))),
          (''allowed_roles'', jstrs (normalize_roles u (st_oidc_allowed_roles cfg))),
          (''errors'', jstrs errors), (''warnings'', jstrs warnings)])"

subsection \<open>The matrix of permissions\<close>

lemma permitted_roles_cases:
  "permitted_roles permission \<in>
     {[''admin''], [''admin'', ''operator''], [''admin'', ''auditor''], [''admin'', ''operator'', ''viewer'', ''auditor'']}"
proof -
  have "list_all (\<lambda>e. snd e \<in> {[''admin''], [''admin'', ''operator''], [''admin'', ''auditor''],
      [''admin'', ''operator'', ''viewer'', ''auditor'']}) ENDPOINT_PERMISSIONS"
    by code_simp
  then show ?thesis
    by (cases "map_of ENDPOINT_PERMISSIONS permission")
       (simp_all add: permitted_roles_def list_all_iff, metis map_of_SomeD snd_conv)
qed

lemma role_reach_cases:
  "role_reach r = (if r = ''admin'' then [''admin'', ''operator'', ''viewer'', ''auditor'']
     else if r = ''operator'' then [''operator'', ''viewer''] else if r = ''auditor'' then [''auditor'', ''viewer''] else [r])"
  by (simp add: role_reach_def ROLE_HIERARCHY_def)

text \<open>The hierarchy of the roles adds nothing to the table: every role it reaches a permission by has it itself.\<close>

lemma reach_permitted:
  "list_ex (\<lambda>x. x \<in> set (permitted_roles permission)) (role_reach r) \<longleftrightarrow> r \<in> set (permitted_roles permission)"
  using permitted_roles_cases [of permission]
  by (elim insertE emptyE) (simp_all add: role_reach_cases)

lemma roles_meet_permitted:
  "roles_meet roles (permitted_roles permission) \<longleftrightarrow> (\<exists>r. r \<in> set roles \<and> r \<in> set (permitted_roles permission))"
  unfolding roles_meet_def reach_permitted by (auto simp: list_ex_iff)

text \<open>
  C23. With authentication and roles on, an endpoint lets a request pass exactly when it bears a token that
  decodes to roles of which one stands in the endpoint's row of the table: the hierarchy of roles the code
  goes through decides nothing, and a permission the table does not name is for administrators.
\<close>

theorem endpoint_allows_iff:
  assumes "st_auth_enabled cfg" and "st_rbac_enabled cfg"
  shows "authorize cfg jw permission credentials w = Inr p \<longleftrightarrow>
    (\<exists>token t. credentials = Some token \<and> p = TokenUser t \<and>
       jw_decode jw token (st_jwt_secret cfg) (st_jwt_algorithm cfg) w = Inr t \<and>
       (\<exists>r. r \<in> set (tp_roles t) \<and> r \<in> set (permitted_roles permission)))"
proof (cases credentials)
  case (Some token)
  show ?thesis
  proof (cases "jw_decode jw token (st_jwt_secret cfg) (st_jwt_algorithm cfg) w")
    case (Inl e)
    then show ?thesis using Some assms
      by (cases e) (simp_all add: authorize_def get_current_user_def decode_access_token_def)
  next
    case (Inr t)
    then show ?thesis using Some assms
      by (auto simp: authorize_def get_current_user_def decode_access_token_def require_permission_def
          roles_meet_permitted split: if_splits)
  qed
qed (use assms in \<open>simp add: authorize_def get_current_user_def\<close>)

subsection \<open>Log-in\<close>

text \<open>
  C24. The token of a log-in is the user's pass until it expires. With a library that decodes what it encoded
  before the expiry and refuses it after, the token got by a name and a password, presented at a later time,
  carries the name and the roles the user had at the log-in, or is refused as expired; the store of users is
  not asked again, so a user disabled or demoted in between keeps access.
\<close>

theorem login_token_is_pass:
  assumes "\<And>usr t w'. usr \<in> snd ` set us \<Longrightarrow> t = \<lparr>tp_sub = au_username usr, tp_roles = map role_value (au_roles usr),
        tp_exp = jw_timestamp jw w + 60 * st_access_token_expire_minutes cfg\<rparr> \<Longrightarrow>
      jw_decode jw (jw_encode jw t (st_jwt_secret cfg) (st_jwt_algorithm cfg)) (st_jwt_secret cfg) (st_jwt_algorithm cfg) w' =
      (if jw_timestamp jw w' < tp_exp t then Inr t else Inl JwtExpired)"
    and "st_auth_enabled cfg" and "login cfg jw pw name password (us, w) = Inr d"
  shows "\<exists>usr token. authenticate_user pw name password us = Some usr \<and> dget d ''access_token'' = JStr token \<and>
    get_current_user cfg jw (Some token) w' =
      (if jw_timestamp jw w' < jw_timestamp jw w + 60 * st_access_token_expire_minutes cfg
       then Inr (TokenUser \<lparr>tp_sub = au_username usr, tp_roles = map role_value (au_roles usr),
              tp_exp = jw_timestamp jw w + 60 * st_access_token_expire_minutes cfg\<rparr>)
       else Inl (401, ''Token has expired''))"
proof -
  obtain usr where a: "authenticate_user pw name password us = Some usr"
    using assms(3) by (auto simp: login_def split: option.splits)
  then have "map_of us name = Some usr" by (auto simp: authenticate_user_def split: option.splits if_splits)
  then have "usr \<in> snd ` set us" by (force dest: map_of_SomeD)
  from assms(1) [OF this HOL.refl] show ?thesis
    using assms(2,3) a by (auto simp: login_def create_access_token_def get_current_user_def decode_access_token_def)
qed

text \<open>A library that writes the payload into the token, its expiry in unary, and a store with one user.\<close>

definition demo_jwt :: "nat jwt_lib" where
  "demo_jwt =
     \<lparr>jw_encode = (\<lambda>t s a. replicate (nat (tp_exp t)) (CHR ''x'') @ '':'' @ str_join '','' (tp_sub t # tp_roles t)),
      jw_decode = (\<lambda>token s a w.
        (let n = int (length (upto CHR '':'' token)); parts = split_on CHR '','' (past CHR '':'' token)
         in if int w < n then Inr \<lparr>tp_sub = hd parts, tp_roles = tl parts, tp_exp = n\<rparr> else Inl JwtExpired)),
      jw_timestamp = int\<rparr>"

definition demo_user :: user where
  "demo_user =
     \<lparr>au_user_id = ''usr_1'', au_username = ''ann'', au_password_hash = ''h'', au_roles = [RoleOperator, RoleAuditor],
      au_disabled = False, au_created_at = []\<rparr>"

definition demo_hashing :: "nat hashing" where
  "demo_hashing = \<lparr>pw_hash = (\<lambda>p w. (p, w)), pw_verify = (\<lambda>p h. True)\<rparr>"

definition auth_settings :: settings where
  "auth_settings = default_settings\<lparr>st_auth_enabled := True, st_rbac_enabled := True\<rparr>"

lemma auth_settings_simps [simp]:
  "st_auth_enabled auth_settings" "st_rbac_enabled auth_settings" "st_access_token_expire_minutes auth_settings = 60"
  by (simp_all add: auth_settings_def default_settings_def)

lemma demo_jwt_decodes:
  assumes "t = \<lparr>tp_sub = ''ann'', tp_roles = [''operator'', ''auditor''], tp_exp = n\<rparr>" and "0 \<le> n"
  shows "jw_decode demo_jwt (jw_encode demo_jwt t s a) s a w = (if int w < n then Inr t else Inl JwtExpired)"
proof -
  let ?rest = "'':ann,operator,auditor''"
  have "upto CHR '':'' (replicate k (CHR ''x'') @ ?rest) = replicate k (CHR ''x'')"
    "past CHR '':'' (replicate k (CHR ''x'') @ ?rest) = ''ann,operator,auditor''" for k
    by (induction k) (simp_all add: upto_def past_def)
  then show ?thesis using assms by (auto simp: demo_jwt_def Let_def)
qed

theorem login_token_is_pass_witness:
  "\<exists>usr token. authenticate_user demo_hashing ''ann'' ''pw'' [(''ann'', demo_user)] = Some usr \<and>
    get_current_user auth_settings demo_jwt (Some token) 4000 = Inl (401, ''Token has expired'')"
proof -
  obtain d where d: "login auth_settings demo_jwt demo_hashing ''ann'' ''pw'' ([(''ann'', demo_user)], 5) = Inr d"
    by (simp add: login_def authenticate_user_def demo_user_def demo_hashing_def)
  have "\<exists>usr token. authenticate_user demo_hashing ''ann'' ''pw'' [(''ann'', demo_user)] = Some usr \<and>
      dget d ''access_token'' = JStr token \<and>
      get_current_user auth_settings demo_jwt (Some token) 4000 =
        (if jw_timestamp demo_jwt 4000 < jw_timestamp demo_jwt 5 + 60 * st_access_token_expire_minutes auth_settings
         then Inr (TokenUser \<lparr>tp_sub = au_username usr, tp_roles = map role_value (au_roles usr),
              tp_exp = jw_timestamp demo_jwt 5 + 60 * st_access_token_expire_minutes auth_settings\<rparr>)
         else Inl (401, ''Token has expired''))"
  proof (rule login_token_is_pass)
    fix usr t w'
    assume "usr \<in> snd ` set [(''ann'', demo_user)]" and t: "t = \<lparr>tp_sub = au_username usr, tp_roles = map role_value (au_roles usr),
        tp_exp = jw_timestamp demo_jwt 5 + 60 * st_access_token_expire_minutes auth_settings\<rparr>"
    then have t': "t = \<lparr>tp_sub = ''ann'', tp_roles = [''operator'', ''auditor''], tp_exp = 3605\<rparr>"
      by (simp add: demo_user_def demo_jwt_def)
    from demo_jwt_decodes [OF this] show "jw_decode demo_jwt (jw_encode demo_jwt t (st_jwt_secret auth_settings)
        (st_jwt_algorithm auth_settings)) (st_jwt_secret auth_settings) (st_jwt_algorithm auth_settings) w' =
      (if jw_timestamp demo_jwt w' < tp_exp t then Inr t else Inl JwtExpired)"
      by (simp add: t') (simp add: demo_jwt_def)
  qed (simp_all add: d)
  then show ?thesis by (auto simp: demo_jwt_def)
qed

theorem endpoint_allows_iff_witness:
  "authorize auth_settings demo_jwt ''audit:read'' (Some ''xxxxxx:bob,viewer'') 2 = Inr DevUser \<longleftrightarrow>
    (\<exists>token t. Some ''xxxxxx:bob,viewer'' = Some token \<and> DevUser = TokenUser t \<and>
       jw_decode demo_jwt token (st_jwt_secret auth_settings) (st_jwt_algorithm auth_settings) 2 = Inr t \<and>
       (\<exists>r. r \<in> set (tp_roles t) \<and> r \<in> set (permitted_roles ''audit:read'')))"
  by (rule endpoint_allows_iff) simp_all

subsection \<open>Roles from claims\<close>

lemma fold_map_roles:
  "set rs \<subseteq> allowed \<and> distinct rs \<Longrightarrow>
   set (fold (\<lambda>r rs. let l = f r in if l \<in> allowed \<and> l \<notin> set rs then rs @ [l] else rs) source rs) \<subseteq> allowed \<and>
   distinct (fold (\<lambda>r rs. let l = f r in if l \<in> allowed \<and> l \<notin> set rs then rs @ [l] else rs) source rs)"
  by (induction source arbitrary: rs) (auto simp: Let_def)

text \<open>
  The roles given for the claims of an identity provider: never none, never one twice, and, when the
  settings allow any known role, only known roles the settings allow. When they allow none, the default role
  is given as it stands, whatever it is and whatever the claims say.
\<close>

lemma oidc_roles_bounded:
  "let rs = map_oidc_roles u env claims cfg; allowed = known_allowed u cfg
   in rs \<noteq> [] \<and> distinct rs \<and>
      (if allowed = [] then rs = [or_viewer u (st_oidc_default_role cfg)]
       else set rs \<subseteq> set allowed \<and> set rs \<subseteq> set ALLOWED_ROLES)"
proof -
  let ?source = "case dget_or claims (u_strip_text u (if st_oidc_role_claim cfg = [] then ''roles''
      else st_oidc_role_claim cfg)) (JList []) of
     JStr s \<Rightarrow> [s] | JList vs \<Rightarrow> map (\<lambda>v. case v of JStr s \<Rightarrow> s | x \<Rightarrow> py_str env x) vs | _ \<Rightarrow> []"
  define allowed where "allowed = known_allowed u cfg"
  define wanted where "wanted = or_viewer u (st_oidc_default_role cfg)"
  define mapped where "mapped = fold (\<lambda>r rs. let l = clean_lower u r
     in if l \<in> set allowed \<and> l \<notin> set rs then rs @ [l] else rs) ?source []"
  have m: "set mapped \<subseteq> set allowed \<and> distinct mapped"
    unfolding mapped_def by (rule fold_map_roles) simp
  have known: "set allowed \<subseteq> set ALLOWED_ROLES" by (auto simp: known_allowed_def allowed_def)
  have res: "map_oidc_roles u env claims cfg = (if mapped \<noteq> [] then mapped
      else [if wanted \<notin> set allowed \<and> allowed \<noteq> [] then hd allowed else wanted])"
    by (simp only: map_oidc_roles_def Let_def wanted_def mapped_def allowed_def)
  show ?thesis
    unfolding Let_def res wanted_def [symmetric] allowed_def [symmetric]
    using m known by (cases "mapped = []"; cases "allowed = []") auto
qed

end
