(* ===== verification/Structured_Logging.thy ===== *)
theory Structured_Logging
  imports Url_Text
begin

text \<open>
  Structured logs (\<open>app/core/structured_logging.py\<close>), the middleware that writes one line for each request
  (\<open>app/core/request_logging.py\<close>), and the redaction of mappings by their keys.
\<close>

subsection \<open>Redaction\<close>

definition SENSITIVE_KEYS :: "string list" where
  "SENSITIVE_KEYS =
     [''authorization'', ''cookie'', ''set-cookie'', ''token'', ''access_token'', ''refresh_token'', ''api_key'', ''key'',
      ''password'', ''secret'', ''jwt'', ''database_url'', ''redis_url'']"

definition SENSITIVE_KEY_PATTERNS :: "string list" where
  "SENSITIVE_KEY_PATTERNS =
     [''token'', ''key'', ''api_key'', ''apikey'', ''secret'', ''password'', ''authorization'', ''cookie'', ''jwt'',
      ''database_url'', ''redis_url'']"

definition sensitive_key :: "unicode \<Rightarrow> string \<Rightarrow> bool" where
  "sensitive_key u key =
     (let k = u_lower_text u key
      in k \<in> set SENSITIVE_KEYS \<or> list_ex (\<lambda>p. str_in p k) SENSITIVE_KEY_PATTERNS)"

definition mask_plain_text :: "unicode \<Rightarrow> string \<Rightarrow> string" where
  "mask_plain_text u value =
     (let cleaned = u_strip u (py_chars value)
      in if length cleaned \<le> 4 then ''***''
         else concat (take 2 cleaned) @ ''***'' @ concat (drop (length cleaned - 2) cleaned))"

definition DSN_SCHEMES :: "string list" where
  "DSN_SCHEMES = [''postgresql'', ''postgresql+psycopg'', ''redis'']"

text \<open>The text of an exception is on the left: only the port of a location raises.\<close>

definition redact_dsn :: "unicode \<Rightarrow> (string \<Rightarrow> bool) \<Rightarrow> string \<Rightarrow> string + string" where
  "redact_dsn u fine value =
     (case urlsplit fine value of
        None \<Rightarrow> Inr (mask_plain_text u value)
      | Some p \<Rightarrow>
          if ur_scheme p \<notin> set DSN_SCHEMES then Inr (mask_plain_text u value)
          else if url_username p = None \<and> url_password p = None then Inr (urlunsplit p)
          else
            (let user = (case url_username p of None \<Rightarrow> [] | Some x \<Rightarrow> x);
                 safe = (if user = [] then ''user'' else user) @ '':***''
             in case url_port p of
                  Inl e \<Rightarrow> Inl e
                | Inr port \<Rightarrow>
                    let suffix = (case port of None \<Rightarrow> [] | Some n \<Rightarrow> if n = 0 then [] else '':'' @ int_text n)
                    in Inr (urlunsplit (p\<lparr>ur_netloc := safe @ ''@'' @ url_hostname u p @ suffix\<rparr>))))"

definition redact_text :: "unicode \<Rightarrow> (string \<Rightarrow> bool) \<Rightarrow> string \<Rightarrow> string + string" where
  "redact_text u fine text =
     (if str_in ''://'' text then redact_dsn u fine text else Inr (mask_plain_text u text))"

text \<open>
  \<open>redact_sensitive_value\<close> of a value and of the items of a list, \<open>redact_mapping\<close>, and the items of a list
  under a key that is not sensitive.
\<close>

fun redact_value :: "unicode \<Rightarrow> (string \<Rightarrow> bool) \<Rightarrow> json \<Rightarrow> string + json"
and redact_values :: "unicode \<Rightarrow> (string \<Rightarrow> bool) \<Rightarrow> json list \<Rightarrow> string + json list"
and redact_mapping :: "unicode \<Rightarrow> (string \<Rightarrow> bool) \<Rightarrow> jdict \<Rightarrow> string + jdict"
and redact_items :: "unicode \<Rightarrow> (string \<Rightarrow> bool) \<Rightarrow> json list \<Rightarrow> string + json list"
where
  "redact_value u fine JNull = Inr JNull"
| "redact_value u fine (JBool b) = Inr (JStr ''***'')"
| "redact_value u fine (JInt i) = Inr (JStr ''***'')"
| "redact_value u fine (JFloat q) = Inr (JStr ''***'')"
| "redact_value u fine (JStr s) = map_sum id JStr (redact_text u fine s)"
| "redact_value u fine (JList vs) = map_sum id JList (redact_values u fine vs)"
| "redact_value u fine (JObj d) = map_sum id JObj (redact_mapping u fine d)"
| "redact_values u fine [] = Inr []"
| "redact_values u fine (v # vs) =
     (case redact_value u fine v of
        Inl e \<Rightarrow> Inl e | Inr x \<Rightarrow> map_sum id ((#) x) (redact_values u fine vs))"
| "redact_mapping u fine [] = Inr []"
| "redact_mapping u fine ((k, v) # d) =
     (let x = (if sensitive_key u k then redact_value u fine v
               else case v of
                  JObj e \<Rightarrow> map_sum id JObj (redact_mapping u fine e)
                | JList vs \<Rightarrow> map_sum id JList (redact_items u fine vs)
                | w \<Rightarrow> Inr w)
      in case x of Inl e \<Rightarrow> Inl e | Inr y \<Rightarrow> map_sum id ((#) (k, y)) (redact_mapping u fine d))"
| "redact_items u fine [] = Inr []"
| "redact_items u fine (v # vs) =
     (let x = (case v of JObj e \<Rightarrow> map_sum id JObj (redact_mapping u fine e) | w \<Rightarrow> Inr w)
      in case x of Inl e \<Rightarrow> Inl e | Inr y \<Rightarrow> map_sum id ((#) y) (redact_items u fine vs))"

subsection \<open>Events\<close>

definition or_text :: "string option \<Rightarrow> string \<Rightarrow> string" where
  "or_text x dflt = (case x of None \<Rightarrow> dflt | Some s \<Rightarrow> if s = [] then dflt else s)"

record log_request =
  lg_type :: string
  lg_request_id :: string
  lg_method :: string
  lg_path :: string
  lg_status :: nat
  lg_latency_ms :: rat
  lg_actor :: string
  lg_client_ip :: "string option"
  lg_user_agent :: "string option"
  lg_error_type :: "string option"
  lg_result :: "string option"

definition build_log_event ::
  "unicode \<Rightarrow> (string \<Rightarrow> bool) \<Rightarrow> settings \<Rightarrow> string \<Rightarrow> log_request \<Rightarrow> jdict \<Rightarrow> string + jdict"
where
  "build_log_event u fine cfg now r extras =
     (let field = (\<lambda>on k v. if on then [(k, JStr v)] else []);
          event =
            [(''timestamp'', JStr now), (''event_type'', JStr (lg_type r)), (''request_id'', JStr (lg_request_id r)),
             (''method'', JStr (lg_method r)), (''path'', JStr (lg_path r)), (''status_code'', JInt (int (lg_status r))),
             (''latency_ms'', JFloat (py_round 2 (lg_latency_ms r))),
             (''actor'', JStr (or_text (Some (lg_actor r)) ''anonymous''))] @
            field (st_log_include_client_ip cfg) ''client_ip'' (or_text (lg_client_ip r) ''unknown'') @
            field (st_log_include_user_agent cfg) ''user_agent'' (or_text (lg_user_agent r) []) @
            field (or_text (lg_error_type r) [] \<noteq> []) ''error_type'' (or_text (lg_error_type r) []) @
            field (or_text (lg_result r) [] \<noteq> []) ''result'' (or_text (lg_result r) [])
      in if extras = [] then Inr event
         else
           (case (if st_log_redaction_enabled cfg then redact_mapping u fine extras else Inr extras) of
              Inl e \<Rightarrow> Inl e | Inr x \<Rightarrow> Inr (dupd event x)))"

subsection \<open>The request log\<close>

definition detect_result :: "nat \<Rightarrow> jdict \<Rightarrow> string option" where
  "detect_result code payload =
     (if code = 429 then Some ''rate_limited''
      else if code = 413 then Some ''request_too_large''
      else if code \<in> {400, 414} then Some ''request_rejected''
      else case dget payload ''error'' of JStr e \<Rightarrow> Some e | _ \<Rightarrow> None)"

definition logged_request_id :: "'w env \<Rightarrow> http_request \<Rightarrow> 'w \<Rightarrow> string \<times> 'w" where
  "logged_request_id env rq w =
     (let rid = (case map_of (rq_headers rq) ''x-request-id'' of None \<Rightarrow> [] | Some h \<Rightarrow> h)
      in if rid \<noteq> [] then (rid, w) else (case fresh_hex env w of (h, w') \<Rightarrow> (uuid_text h, w')))"

text \<open>The response the middleware makes of what its inner handler does.\<close>

definition logged_response :: "string \<Rightarrow> string \<times> string + http_response \<Rightarrow> http_response" where
  "logged_response rid out =
     (case out of
        Inr r \<Rightarrow> with_header ''x-request-id'' rid r
      | Inl e \<Rightarrow> (json_response 500 [(''error'', JStr ''internal_server_error'')])\<lparr>hr_headers := [(''x-request-id'', rid)]\<rparr>)"

text \<open>
  The middleware: what the server gets from it, a response or nothing, and the lines logged. The \<open>finally\<close>
  block leaves with a \<open>return\<close> of its own when structured logging is off, which takes the place of the
  response.
\<close>

definition request_logging ::
  "unicode \<Rightarrow> (string \<Rightarrow> bool) \<Rightarrow> settings \<Rightarrow> 'w env \<Rightarrow> 'w handler \<Rightarrow> http_request \<Rightarrow> 'w \<Rightarrow>
     (http_response option \<times> jdict list) \<times> 'w"
where
  "request_logging u fine cfg env app rq w =
     (let (rid, w1) = logged_request_id env rq w; (out, w2) = app rq w1; r = logged_response rid out;
          line = \<lparr>lg_type = ''http_request'', lg_request_id = rid, lg_method = rq_method rq, lg_path = rq_path rq,
                  lg_status = hr_status r, lg_latency_ms = (mono_clock env w2 - mono_clock env w1) * 1000,
                  lg_actor = ''anonymous'',
                  lg_client_ip = Some (case rq_client rq of None \<Rightarrow> ''unknown'' | Some h \<Rightarrow> h),
                  lg_user_agent = Some (case map_of (rq_headers rq) ''user-agent'' of None \<Rightarrow> [] | Some a \<Rightarrow> a),
                  lg_error_type = (case out of
                      Inl (cls, _) \<Rightarrow> Some cls
                    | Inr _ \<Rightarrow> if 400 \<le> hr_status r then Some (''http_'' @ nat_text (hr_status r)) else None),
                  lg_result = (case out of Inl _ \<Rightarrow> None | Inr _ \<Rightarrow> detect_result (hr_status r) [])\<rparr>
      in if \<not> st_structured_logging_enabled cfg then ((None, []), w2)
         else
           (case build_log_event u fine cfg (utc_iso env w2) line [] of
              Inl e \<Rightarrow> ((Some r, []), w2)
            | Inr event \<Rightarrow> ((Some r, [event]), w2)))"

subsection \<open>What is logged\<close>

text \<open>
  A request is answered only while structured logging is on. Then the middleware hands on a response for
  whatever the inner handler does, an exception included, and logs one line; with structured logging off it
  logs nothing, as configured, but the response is lost too.
\<close>

lemma logging_off_loses_response:
  "case request_logging u fine cfg env app rq w of
     ((r, lines), w') \<Rightarrow>
       (r \<noteq> None \<longleftrightarrow> st_structured_logging_enabled cfg) \<and>
       length lines = (if st_structured_logging_enabled cfg then 1 else 0)"
  by (simp add: request_logging_def build_log_event_def Let_def split: prod.split)

text \<open>
  What the redaction of a connection text shows does not depend on its password: texts that split into the
  same parts, but for what follows the user name in their location, are redacted alike.
\<close>

lemma dsn_password_hidden:
  assumes "urlsplit fine t1 = Some p" and "urlsplit fine t2 = Some (p\<lparr>ur_netloc := n\<rparr>)"
    and "rpartition CHR ''@'' (ur_netloc p) = (Some i1, host)" and "rpartition CHR ''@'' n = (Some i2, host)"
    and "upto CHR '':'' i1 = upto CHR '':'' i2" and "ur_scheme p \<in> set DSN_SCHEMES"
  shows "redact_dsn u fine t1 = redact_dsn u fine t2"
proof -
  have "host_port (p\<lparr>ur_netloc := n\<rparr>) = host_port p" using assms by (simp add: host_port_def)
  then have "url_port (p\<lparr>ur_netloc := n\<rparr>) = url_port p" "url_hostname u (p\<lparr>ur_netloc := n\<rparr>) = url_hostname u p"
    by (simp_all add: url_port_def url_hostname_def)
  then show ?thesis using assms by (simp add: redact_dsn_def url_username_def Let_def split: sum.split)
qed

text \<open>
  Three ways past the redaction of a mapping: a secret in a dict under a sensitive key, a dict in a list
  of lists, and a connection text whose password holds a slash all come out as they went in.
\<close>

lemma redaction_leaks:
  "list_all (\<lambda>d. redact_mapping demo_unicode (\<lambda>n. True) d = Inr d)
     [[(''secret'', JObj [(''value'', JStr ''hunter2-hunter2'')])],
      [(''rows'', JList [JList [JObj [(''password'', JStr ''hunter2-hunter2'')]]])],
      [(''database_url'', JStr ''postgresql://app:pa/ss@db/ops'')]]"
  by code_simp

end
