(* ===== verification/Json_Depth.thy ===== *)
theory Json_Depth
  imports Runtime_Prelude
begin

text \<open>
  Statements on a JSON value at every depth: what holds under the keys of a kind, the value with all that is
  under them erased, and values whose lists hold no list. The properties of the reports and of the audit export
  are stated with these, not with the recursion of the code that sanitises them.
\<close>

fun under :: "(string \<Rightarrow> bool) \<Rightarrow> (json \<Rightarrow> bool) \<Rightarrow> json \<Rightarrow> bool"
and under_list :: "(string \<Rightarrow> bool) \<Rightarrow> (json \<Rightarrow> bool) \<Rightarrow> json list \<Rightarrow> bool"
and under_dict :: "(string \<Rightarrow> bool) \<Rightarrow> (json \<Rightarrow> bool) \<Rightarrow> jdict \<Rightarrow> bool"
where
  "under K Q (JList vs) = under_list K Q vs"
| "under K Q (JObj d) = under_dict K Q d"
| "under K Q v = True"
| "under_list K Q [] = True"
| "under_list K Q (v # vs) = (under K Q v \<and> under_list K Q vs)"
| "under_dict K Q [] = True"
| "under_dict K Q ((k, v) # d) = ((if K k then Q v else under K Q v) \<and> under_dict K Q d)"

fun erase :: "(string \<Rightarrow> bool) \<Rightarrow> json \<Rightarrow> json"
and erase_list :: "(string \<Rightarrow> bool) \<Rightarrow> json list \<Rightarrow> json list"
and erase_dict :: "(string \<Rightarrow> bool) \<Rightarrow> jdict \<Rightarrow> jdict"
where
  "erase K (JList vs) = JList (erase_list K vs)"
| "erase K (JObj d) = JObj (erase_dict K d)"
| "erase K v = v"
| "erase_list K [] = []"
| "erase_list K (v # vs) = erase K v # erase_list K vs"
| "erase_dict K [] = []"
| "erase_dict K ((k, v) # d) = (k, if K k then JNull else erase K v) # erase_dict K d"

fun flat_lists :: "json \<Rightarrow> bool"
and flat_items :: "json list \<Rightarrow> bool"
and flat_dict :: "jdict \<Rightarrow> bool"
where
  "flat_lists (JList vs) = flat_items vs"
| "flat_lists (JObj d) = flat_dict d"
| "flat_lists v = True"
| "flat_items [] = True"
| "flat_items (v # vs) = ((case v of JList ws \<Rightarrow> False | w \<Rightarrow> flat_lists w) \<and> flat_items vs)"
| "flat_dict [] = True"
| "flat_dict ((k, v) # d) = (flat_lists v \<and> flat_dict d)"

text \<open>No key of the kind is anywhere in the value.\<close>

abbreviation free_of :: "(string \<Rightarrow> bool) \<Rightarrow> json \<Rightarrow> bool" where
  "free_of K \<equiv> under K (\<lambda>_. False)"

lemma erase_free:
  "free_of K v \<Longrightarrow> erase K v = v"
  "under_list K (\<lambda>_. False) vs \<Longrightarrow> erase_list K vs = vs"
  "under_dict K (\<lambda>_. False) d \<Longrightarrow> erase_dict K d = d"
  by (induction K v and K vs and K d rule: erase_erase_list_erase_dict.induct) (simp_all split: if_splits)

lemma free_under:
  "free_of K v \<Longrightarrow> under K Q v"
  "under_list K (\<lambda>_. False) vs \<Longrightarrow> under_list K Q vs"
  "under_dict K (\<lambda>_. False) d \<Longrightarrow> under_dict K Q d"
  by (induction K v and K vs and K d rule: erase_erase_list_erase_dict.induct) (simp_all split: if_splits)

end
