(* ===== verification/Redaction_Depth.thy ===== *)
theory Redaction_Depth
  imports Structured_Logging Json_Depth
begin

text \<open>
  What the redaction of mappings keeps at every depth: values that mark something as hidden stay such values
  under their keys, and no key is added.
\<close>

lemma map_sum_Inr: "map_sum id f y = Inr x \<longleftrightarrow> (\<exists>z. y = Inr z \<and> x = f z)"
  by (cases y) auto

lemma case_sum_Inr: "(case y of Inl e \<Rightarrow> Inl e | Inr z \<Rightarrow> g z) = Inr x \<longleftrightarrow> (\<exists>z. y = Inr z \<and> g z = Inr x)"
  by (cases y) auto

lemma redact_keeps_under:
  assumes keep: "\<And>v x. Q v \<Longrightarrow> redact_value u fine v = Inr x \<Longrightarrow> Q x"
    and plain: "\<And>v. Q v \<Longrightarrow> \<exists>s. v = JStr s"
  shows "redact_value u fine v = Inr x \<Longrightarrow> under K Q v \<Longrightarrow> under K Q x"
    and "redact_values u fine vs = Inr vs' \<Longrightarrow> under_list K Q vs \<Longrightarrow> under_list K Q vs'"
    and "redact_mapping u fine d = Inr d' \<Longrightarrow> under_dict K Q d \<Longrightarrow> under_dict K Q d'"
    and "redact_items u fine ws = Inr ws' \<Longrightarrow> under_list K Q ws \<Longrightarrow> under_list K Q ws'"
  using keep plain
proof (induction u fine v and u fine vs and u fine d and u fine ws arbitrary: x and vs' and d' and ws'
    rule: redact_value_redact_values_redact_mapping_redact_items.induct)
  case (11 u fine k v d)
  then obtain y d2 where y: "(if sensitive_key u k then redact_value u fine v
       else case v of JObj e \<Rightarrow> map_sum id JObj (redact_mapping u fine e)
          | JList vs \<Rightarrow> map_sum id JList (redact_items u fine vs) | w \<Rightarrow> Inr w) = Inr y"
      and d2: "redact_mapping u fine d = Inr d2" and d': "d' = (k, y) # d2"
    by (auto simp: Let_def case_sum_Inr map_sum_Inr)
  have rest: "under_dict K Q d2" using 11(4) d2 y 11(6-8) by simp
  have "if K k then Q y else under K Q y"
  proof (cases "K k")
    case True
    then have "Q v" using 11(6) by simp
    moreover obtain s where "v = JStr s" using 11(8) [OF \<open>Q v\<close>] by blast
    ultimately show ?thesis using True y 11(7) by (auto split: if_splits)
  next
    case False
    then have "under K Q v" using 11(6) by simp
    then show ?thesis
      using False 11(1,2,3) 11(7,8) y by (cases "sensitive_key u k") (auto simp: map_sum_Inr split: json.splits)
  qed
  then show ?case using rest d' by simp
next
  case (9 u fine v vs)
  then show ?case by (auto simp: case_sum_Inr map_sum_Inr)
next
  case (13 u fine v vs)
  then show ?case by (auto simp: case_sum_Inr map_sum_Inr Let_def split: json.splits)
qed (auto simp: map_sum_Inr)

end
