(* ===== verification/Audit_Export.thy ===== *)
theory Audit_Export
  imports Redaction_Depth Deploy_Texts
begin

text \<open>
  The export of audit events, the rules on its settings and the cutoff of the retention
  (\<open>app/harness/audit/retention.py\<close>).
\<close>

subsection \<open>The export\<close>

definition AUDIT_EXPORT_FIELD_WHITELIST :: "string list" where
  "AUDIT_EXPORT_FIELD_WHITELIST =
     [''event_id'', ''event_type'', ''task_id'', ''actor'', ''action'', ''severity'', ''outcome'', ''created_at'',
      ''request_id'', ''summary'', ''detail_redacted'']"

definition PROMPT_KEYS :: "string list" where
  "PROMPT_KEYS = [''prompt'', ''query'', ''user_query'', ''input_text'', ''raw_prompt'', ''sql_prompt'']"

definition prompt_key :: "unicode \<Rightarrow> string \<Rightarrow> bool" where
  "prompt_key u k \<longleftrightarrow> list_ex (\<lambda>m. str_in m (u_lower_text u k)) PROMPT_KEYS"

fun sanitize_prompts :: "unicode \<Rightarrow> jdict \<Rightarrow> jdict"
and sanitize_prompt_items :: "unicode \<Rightarrow> json list \<Rightarrow> json list"
where
  "sanitize_prompts u [] = []"
| "sanitize_prompts u ((k, v) # d) =
     (k, if prompt_key u k then JStr ''[REDACTED_PROMPT]''
         else case v of
            JObj e \<Rightarrow> JObj (sanitize_prompts u e)
          | JList vs \<Rightarrow> JList (sanitize_prompt_items u vs)
          | w \<Rightarrow> w) # sanitize_prompts u d"
| "sanitize_prompt_items u [] = []"
| "sanitize_prompt_items u (v # vs) =
     (case v of JObj e \<Rightarrow> JObj (sanitize_prompts u e) | w \<Rightarrow> w) # sanitize_prompt_items u vs"

definition validate_audit_retention_settings :: "unicode \<Rightarrow> settings \<Rightarrow> string list" where
  "validate_audit_retention_settings u cfg =
     (if st_audit_retention_enabled cfg \<and> st_audit_retention_days cfg \<le> 0 then [tx_audit_days_dot] else []) @
     (if st_audit_export_max_rows cfg \<le> 0 \<or> 10000 < st_audit_export_max_rows cfg then [tx_audit_rows_dot] else []) @
     (if concat (u_lower u (u_strip u (py_chars (st_audit_export_format cfg)))) \<noteq> ''jsonl''
      then [tx_audit_format] else []) @
     (if st_audit_export_enabled cfg \<and> \<not> st_audit_export_redaction_enabled cfg then [tx_audit_redaction] else [])"

text \<open>
  A \<open>datetime\<close>: the microseconds of its wall clock since the first day of year 1, and its offset from UTC, if it
  has one. A difference before that day, or a \<open>timedelta\<close> of more than 999999999 days, raises.
\<close>

record moment =
  mo_micros :: int
  mo_offset :: "int option"

definition MICROS_PER_DAY :: int where "MICROS_PER_DAY = 86400 * 1000000"

definition get_audit_retention_cutoff :: "moment \<Rightarrow> int \<Rightarrow> string + moment" where
  "get_audit_retention_cutoff now days =
     (let base = (case mo_offset now of None \<Rightarrow> now\<lparr>mo_offset := Some 0\<rparr> | Some _ \<Rightarrow> now); n = max 1 days;
          t = mo_micros base - n * MICROS_PER_DAY
      in if 999999999 < n then Inl (''days='' @ int_text n @ ''; must have magnitude <= 999999999'')
         else if t < 0 then Inl ''date value out of range'' else Inr (base\<lparr>mo_micros := t\<rparr>))"

text \<open>\<open>a or b or c or ""\<close> as a text.\<close>

definition export_summary :: "unicode \<Rightarrow> 'w env \<Rightarrow> jdict \<Rightarrow> string" where
  "export_summary u env event =
     (let v = or_else (dget event ''reason'') (or_else (dget event ''action'') (or_else (dget event ''event_type'') (JStr [])));
          s = u_strip u (py_chars (case v of JStr t \<Rightarrow> t | w \<Rightarrow> py_str env w))
      in if 200 < length s then concat (take 197 s) @ ''...'' else concat s)"

definition sanitize_audit_event_for_export ::
  "unicode \<Rightarrow> (string \<Rightarrow> bool) \<Rightarrow> 'w env \<Rightarrow> bool \<Rightarrow> jdict \<Rightarrow> string + jdict"
where
  "sanitize_audit_event_for_export u fine env redaction event =
     (let raw = (case dget event ''detail'' of JObj d \<Rightarrow> sanitize_prompts u d | _ \<Rightarrow> [])
      in case (if redaction then redact_mapping u fine raw else Inr raw) of
           Inl e \<Rightarrow> Inl e
         | Inr detail \<Rightarrow>
             (let full =
                [(''event_id'', dget event ''event_id''), (''event_type'', dget event ''event_type''),
                 (''task_id'', dget event ''task_id''), (''actor'', or_else (dget event ''actor'') (JStr ''system'')),
                 (''action'', or_else (dget event ''action'') (JStr [])), (''severity'', dget event ''severity''),
                 (''outcome'', dget event ''outcome''), (''created_at'', dget event ''timestamp''),
                 (''request_id'', dget detail ''request_id''), (''summary'', JStr (export_summary u env event)),
                 (''detail_redacted'', JObj detail)]
              in Inr (map (\<lambda>k. (k, dget full k)) AUDIT_EXPORT_FIELD_WHITELIST)))"

subsection \<open>What an export shows\<close>

definition prompt_placeholder :: string where "prompt_placeholder = ''[REDACTED_PROMPT]''"

definition prompt_mark :: "json \<Rightarrow> bool" where
  "prompt_mark v \<longleftrightarrow> v \<in> {JStr prompt_placeholder, JStr ''[R***T]''}"

lemma masked_placeholder [simp]:
  "redact_text u fine prompt_placeholder = Inr ''[R***T]''" "redact_text u fine ''[R***T]'' = Inr ''[R***T]''"
  by code_simp+

lemma redact_mark: "prompt_mark v \<Longrightarrow> redact_value u fine v = Inr x \<Longrightarrow> prompt_mark x"
  by (auto simp: prompt_mark_def)

lemma mark_text: "prompt_mark v \<Longrightarrow> \<exists>s. v = JStr s"
  by (auto simp: prompt_mark_def)

lemma sanitize_marks:
  "flat_dict d \<Longrightarrow> under_dict (prompt_key u) prompt_mark (sanitize_prompts u d)"
  "flat_items vs \<Longrightarrow> under_list (prompt_key u) prompt_mark (sanitize_prompt_items u vs)"
  by (induction u d and u vs rule: sanitize_prompts_sanitize_prompt_items.induct)
     (auto simp: prompt_placeholder_def prompt_mark_def split: json.split)

text \<open>
  An exported audit event shows the fields of the whitelist and nothing else, in their order. Where the detail
  of the event has no list inside a list, the exported one shows no prompt at any depth: every value under a key
  that names a prompt or a query is the placeholder, masked once more where the redaction takes the key for
  sensitive.
\<close>

lemma export_hides_prompts:
  assumes "sanitize_audit_event_for_export u fine env redaction event = Inr out"
  shows "map fst out = AUDIT_EXPORT_FIELD_WHITELIST"
    and "\<exists>d. dget out ''detail_redacted'' = JObj d \<and>
      (flat_lists (dget event ''detail'') \<longrightarrow> under (prompt_key u) prompt_mark (JObj d))"
proof -
  define raw where "raw = (case dget event ''detail'' of JObj d \<Rightarrow> sanitize_prompts u d | _ \<Rightarrow> [])"
  have raw: "flat_lists (dget event ''detail'') \<Longrightarrow> under_dict (prompt_key u) prompt_mark raw"
    by (auto simp: raw_def intro: sanitize_marks split: json.split)
  obtain d where d: "(if redaction then redact_mapping u fine raw else Inr raw) = Inr d"
      and out: "map fst out = AUDIT_EXPORT_FIELD_WHITELIST" "dget out ''detail_redacted'' = JObj d"
    using assms unfolding sanitize_audit_event_for_export_def Let_def raw_def [symmetric]
    by (auto simp: AUDIT_EXPORT_FIELD_WHITELIST_def split: sum.splits)
  show "map fst out = AUDIT_EXPORT_FIELD_WHITELIST" by (rule out)
  have "flat_lists (dget event ''detail'') \<Longrightarrow> under_dict (prompt_key u) prompt_mark d"
    using d raw redact_keeps_under(3) [OF redact_mark mark_text, where K = "prompt_key u"] by (auto split: if_splits)
  then show "\<exists>d. dget out ''detail_redacted'' = JObj d \<and>
      (flat_lists (dget event ''detail'') \<longrightarrow> under (prompt_key u) prompt_mark (JObj d))"
    using out(2) by simp
qed

text \<open>A dict inside a list of lists is exported with its prompt.\<close>

lemma nested_list_prompt_leaks:
  "map_sum id (\<lambda>out. dget out ''detail_redacted'') (sanitize_audit_event_for_export demo_unicode (\<lambda>_. True) demo_env True
     [(''detail'', JObj [(''rows'', JList [JList [JObj [(''query'', JStr ''raw'')]]])])]) =
   Inr (JObj [(''rows'', JList [JList [JObj [(''query'', JStr ''raw'')]]])])"
  by code_simp

text \<open>The cutoff keeps at least a day, has an offset, and moves back, never forward, with more days to keep.\<close>

lemma cutoff_bounds:
  assumes "get_audit_retention_cutoff now days = Inr c" and "get_audit_retention_cutoff now longer = Inr d" and "days \<le> longer"
  shows "mo_micros c + MICROS_PER_DAY \<le> mo_micros now \<and> mo_offset c \<noteq> None \<and> mo_micros d \<le> mo_micros c"
proof -
  have c: "mo_micros c = mo_micros now - max 1 days * MICROS_PER_DAY \<and> mo_offset c \<noteq> None"
    using assms(1) by (auto simp: get_audit_retention_cutoff_def Let_def split: option.splits if_splits)
  have d: "mo_micros d = mo_micros now - max 1 longer * MICROS_PER_DAY"
    using assms(2) by (auto simp: get_audit_retention_cutoff_def Let_def split: option.splits if_splits)
  have "1 * MICROS_PER_DAY \<le> max 1 days * MICROS_PER_DAY" "max 1 days * MICROS_PER_DAY \<le> max 1 longer * MICROS_PER_DAY"
    using assms(3) by (intro mult_right_mono; simp add: MICROS_PER_DAY_def)+
  with c d show ?thesis by simp
qed

end
