(* ===== verification/Deployment_Guard.thy ===== *)
theory Deployment_Guard
  imports Auth Audit_Export
begin

text \<open>
  The gate of a deployment (\<open>app/core/deployment_guard.py\<close>): the checks of the settings in production, in
  their order, and what a deployment that passes them has.
\<close>

subsection \<open>Results\<close>

record deploy_check =
  dc_name :: string
  dc_passed :: bool
  dc_error :: bool
  dc_detail :: string

record deploy_result =
  dr_ok :: bool
  dr_environment :: string
  dr_errors :: "string list"
  dr_warnings :: "string list"
  dr_checks :: "deploy_check list"

definition add_check :: "deploy_check \<Rightarrow> deploy_result \<Rightarrow> deploy_result" where
  "add_check c r =
     (let r1 = r\<lparr>dr_checks := dr_checks r @ [c]\<rparr>; line = dc_name c @ '': '' @ dc_detail c
      in if dc_passed c then r1
         else if dc_error c then r1\<lparr>dr_errors := dr_errors r @ [line], dr_ok := False\<rparr>
         else r1\<lparr>dr_warnings := dr_warnings r @ [line]\<rparr>)"

definition must :: "string \<Rightarrow> bool \<Rightarrow> string \<Rightarrow> deploy_check" where
  "must name passed detail = \<lparr>dc_name = name, dc_passed = passed, dc_error = True, dc_detail = detail\<rparr>"

definition should :: "string \<Rightarrow> bool \<Rightarrow> string \<Rightarrow> deploy_check" where
  "should name passed detail = \<lparr>dc_name = name, dc_passed = passed, dc_error = False, dc_detail = detail\<rparr>"

subsection \<open>Secrets and locations\<close>

definition DISALLOWED_JWT_SECRETS :: "string list" where
  "DISALLOWED_JWT_SECRETS =
     [[], ''dev-only-change-me-please-32-bytes'', ''change-me-strong-secret'', ''change-me'', ''replace-me'']"

definition PLACEHOLDER_TOKENS :: "string list" where
  "PLACEHOLDER_TOKENS = [''change-me'', ''changeme'', ''replace-me'', ''replace_me'', ''example'']"

definition WEAK_PASSWORD_VALUES :: "string list" where
  "WEAK_PASSWORD_VALUES = [''password'', ''password123'', ''secret'', ''token'', ''123456'', ''admin'']"

definition contains_placeholder_token :: "unicode \<Rightarrow> string \<Rightarrow> bool" where
  "contains_placeholder_token u value = list_ex (\<lambda>t. str_in t (u_lower_text u value)) PLACEHOLDER_TOKENS"

definition extract_url_password :: "(string \<Rightarrow> bool) \<Rightarrow> string \<Rightarrow> string" where
  "extract_url_password fine url =
     (case urlsplit fine url of
        None \<Rightarrow> []
      | Some p \<Rightarrow> (case url_password p of None \<Rightarrow> [] | Some w \<Rightarrow> w))"

definition is_weak_jwt_secret :: "unicode \<Rightarrow> string \<Rightarrow> bool" where
  "is_weak_jwt_secret u secret \<longleftrightarrow>
     u_strip_text u secret \<in> set DISALLOWED_JWT_SECRETS \<or> py_len (u_strip_text u secret) < 32"

definition is_placeholder_password :: "unicode \<Rightarrow> string \<Rightarrow> bool" where
  "is_placeholder_password u password =
     (let p = clean_lower u password
      in p \<noteq> [] \<and> (p \<in> set WEAK_PASSWORD_VALUES \<or> contains_placeholder_token u p))"

definition is_https_location :: "unicode \<Rightarrow> (string \<Rightarrow> bool) \<Rightarrow> string \<Rightarrow> bool" where
  "is_https_location u fine url =
     (case urlsplit fine (u_strip_text u url) of
        None \<Rightarrow> False | Some p \<Rightarrow> lower (ur_scheme p) = ''https'' \<and> ur_netloc p \<noteq> [])"

definition cors_problem :: "unicode \<Rightarrow> settings \<Rightarrow> string" where
  "cors_problem u cfg =
     (let origins = parse_csv u (st_cors_allow_origins cfg)
      in if origins = [] then dp_cors_empty else if ''*'' \<in> set origins then dp_cors_any else [])"

subsection \<open>The checks\<close>

definition base_checks :: "unicode \<Rightarrow> settings \<Rightarrow> deploy_check list" where
  "base_checks u cfg =
     [must ''jwt_secret'' (\<not> is_weak_jwt_secret u (u_strip_text u (st_jwt_secret cfg))) dp_jwt_secret,
      must ''auth_enabled'' (st_auth_enabled cfg) dp_auth_enabled,
      must ''rbac_enabled'' (st_rbac_enabled cfg) dp_rbac_enabled] @
     (if st_cors_enabled cfg
      then [must ''cors_allow_origins'' (cors_problem u cfg = [])
              (if cors_problem u cfg = [] then dp_cors_allow_origins else cors_problem u cfg)]
      else []) @
     [must ''security_headers_enabled'' (st_security_headers_enabled cfg) dp_security_headers_enabled,
      must ''structured_logging_enabled'' (st_structured_logging_enabled cfg) dp_structured_logging_enabled,
      must ''log_redaction_enabled'' (st_log_redaction_enabled cfg) dp_log_redaction_enabled]"

definition log_checks :: "unicode \<Rightarrow> settings \<Rightarrow> deploy_check list" where
  "log_checks u cfg =
     (let level = concat (u_upper u (u_strip u (py_chars (st_log_level cfg))))
      in [must ''log_level_valid'' (level \<in> {''DEBUG'', ''INFO'', ''WARNING'', ''ERROR'', ''CRITICAL''}) dp_log_level_valid,
          must ''log_level_production'' (level \<noteq> ''DEBUG'') dp_log_level_production])"

definition audit_checks :: "unicode \<Rightarrow> settings \<Rightarrow> deploy_check list" where
  "audit_checks u cfg =
     (let problems = validate_audit_retention_settings u cfg; rows = st_audit_export_max_rows cfg
      in [must ''audit_retention_enabled'' (st_audit_retention_enabled cfg) dp_audit_retention_enabled,
          must ''audit_retention_days'' (0 < st_audit_retention_days cfg) tx_audit_days_dot,
          must ''audit_export_max_rows'' (0 < rows \<and> rows \<le> 10000) dp_audit_export_max_rows,
          must ''audit_export_redaction_enabled'' (st_audit_export_redaction_enabled cfg) dp_audit_export_redaction_enabled,
          must ''audit_retention_settings'' (problems = [])
            (if problems = [] then dp_audit_retention_settings else str_join ''; '' problems)])"

text \<open>\<open>int(burst or -1) >= 0\<close>: zero counts as missing.\<close>

definition request_checks :: "unicode \<Rightarrow> settings \<Rightarrow> deploy_check list" where
  "request_checks u cfg =
     (let size = st_request_size_limit_bytes cfg; burst = st_rate_limit_burst cfg;
          backend = clean_lower u (if st_rate_limit_backend cfg = [] then ''memory'' else st_rate_limit_backend cfg)
      in [must ''request_size_limit_enabled'' (st_request_size_limit_enabled cfg) dp_request_size_limit_enabled,
          must ''request_size_limit_bytes'' (0 < size \<and> size \<le> 10 * 1024 * 1024) dp_request_size_limit_bytes,
          must ''rate_limit_enabled'' (st_rate_limit_enabled cfg) dp_rate_limit_enabled,
          must ''rate_limit_requests_per_minute'' (0 < st_rate_limit_requests_per_minute cfg)
            dp_rate_limit_requests_per_minute,
          must ''rate_limit_burst'' (0 \<le> (if burst = 0 then - 1 else burst)) dp_rate_limit_burst,
          must ''rate_limit_backend_valid'' (backend \<in> {''memory'', ''redis''}) dp_rate_limit_backend_valid] @
         (if backend = ''redis''
          then [must ''rate_limit_redis_enabled'' (st_redis_enabled cfg) dp_rate_limit_redis_enabled,
                must ''rate_limit_redis_url'' (u_strip_text u (st_redis_url cfg) \<noteq> []) dp_rate_limit_redis_url]
          else []) @
         [must ''rate_limit_exempt_paths'' True dp_rate_limit_exempt_paths])"

definition storage_checks :: "unicode \<Rightarrow> (string \<Rightarrow> bool) \<Rightarrow> settings \<Rightarrow> deploy_check list" where
  "storage_checks u fine cfg =
     (let db = u_strip_text u (st_database_url cfg); redis = u_strip_text u (st_redis_url cfg);
          low = u_lower_text u db
      in (if clean_lower u (st_storage_backend cfg) = ''postgres''
          then must ''database_url_required'' (db \<noteq> []) dp_database_url_required #
            (if db \<noteq> []
             then [must ''database_url_secret_strength''
                     (\<not> (str_in ''replace-me'' low \<or> str_in '':change-me@'' low) \<and>
                      \<not> is_placeholder_password u (extract_url_password fine db)) dp_database_url_secret_strength]
             else [])
          else []) @
         (if st_redis_enabled cfg
          then must ''redis_url_required'' (redis \<noteq> []) dp_redis_url_required #
            (if redis \<noteq> []
             then [must ''redis_url_secret_strength'' (\<not> contains_placeholder_token u redis) dp_redis_url_secret_strength]
             else [])
          else []))"

definition outside_checks :: "unicode \<Rightarrow> (string \<Rightarrow> string option) \<Rightarrow> settings \<Rightarrow> deploy_check list" where
  "outside_checks u envvar cfg =
     (let env_name = u_strip_text u (st_real_llm_api_key_env cfg); given = (\<lambda>s. u_strip_text u s \<noteq> [])
      in (if clean_lower u (st_mcp_mode cfg) = ''real''
          then [must ''mcp_server_command_allowlist'' (given (st_mcp_server_command_allowlist cfg))
                  dp_mcp_server_command_allowlist,
                must ''mcp_tool_allowlist'' (given (st_mcp_tool_allowlist cfg)) dp_mcp_tool_allowlist]
          else []) @
         (if st_real_llm_acceptance_enabled cfg
          then [must ''real_llm_model'' (given (st_real_llm_model cfg)) dp_real_llm_model,
                must ''real_llm_api_key_env'' (env_name \<noteq> []) dp_real_llm_api_key_env,
                must ''real_llm_api_key_present'' (env_name \<noteq> [] \<and> u_strip_text u (getenv envvar env_name) \<noteq> [])
                  dp_real_llm_api_key_present]
          else []))"

definition oidc_checks ::
  "unicode \<Rightarrow> (string \<Rightarrow> bool) \<Rightarrow> (string \<Rightarrow> string option) \<Rightarrow> settings \<Rightarrow> deploy_check list"
where
  "oidc_checks u fine envvar cfg =
     (let on = st_oidc_enabled cfg; allowed = normalize_roles u (st_oidc_allowed_roles cfg);
          dflt = clean_lower u (st_oidc_default_role cfg);
          issuer = u_strip_text u (st_oidc_issuer_url cfg); redirect = u_strip_text u (st_oidc_redirect_uri cfg);
          secret_env = u_strip_text u (st_oidc_client_secret_env cfg); check = (if on then must else should)
      in [check ''oidc_allowed_roles_valid'' (allowed \<noteq> [] \<and> list_all (\<lambda>r. r \<in> set ALLOWED_ROLES) allowed)
            dp_oidc_allowed_roles_valid,
          check ''oidc_default_role_valid'' (dflt \<in> set ALLOWED_ROLES \<and> dflt \<in> set allowed) dp_oidc_default_role_valid] @
         (if \<not> on then [should ''oidc_enabled'' False dp_oidc_enabled]
          else
            [must ''oidc_issuer_url'' (issuer \<noteq> []) dp_oidc_issuer_url,
             must ''oidc_client_id'' (u_strip_text u (st_oidc_client_id cfg) \<noteq> []) dp_oidc_client_id,
             must ''oidc_redirect_uri'' (redirect \<noteq> []) dp_oidc_redirect_uri,
             must ''oidc_client_secret_env'' (secret_env \<noteq> []) dp_oidc_client_secret_env,
             must ''oidc_client_secret_present'' (secret_env \<noteq> [] \<and> get_oidc_client_secret u envvar cfg \<noteq> [])
               dp_oidc_client_secret_present,
             must ''oidc_require_https'' (st_oidc_require_https cfg) dp_oidc_require_https] @
            (if st_oidc_require_https cfg
             then [must ''oidc_issuer_url_https'' (issuer = [] \<or> is_https_location u fine issuer) dp_oidc_issuer_url_https,
                   must ''oidc_redirect_uri_https'' (redirect = [] \<or> is_https_location u fine redirect)
                     dp_oidc_redirect_uri_https]
             else [])))"

definition production_checks ::
  "unicode \<Rightarrow> (string \<Rightarrow> bool) \<Rightarrow> (string \<Rightarrow> string option) \<Rightarrow> settings \<Rightarrow> deploy_check list"
where
  "production_checks u fine envvar cfg =
     base_checks u cfg @ log_checks u cfg @ audit_checks u cfg @ request_checks u cfg @ storage_checks u fine cfg @
     outside_checks u envvar cfg @ oidc_checks u fine envvar cfg"

definition deploy_env :: "unicode \<Rightarrow> settings \<Rightarrow> string" where
  "deploy_env u cfg = clean_lower u (if st_app_env cfg = [] then ''development'' else st_app_env cfg)"

definition run_deployment_checks ::
  "unicode \<Rightarrow> (string \<Rightarrow> bool) \<Rightarrow> (string \<Rightarrow> string option) \<Rightarrow> settings \<Rightarrow> deploy_result"
where
  "run_deployment_checks u fine envvar cfg =
     (let start = \<lparr>dr_ok = True, dr_environment = deploy_env u cfg, dr_errors = [], dr_warnings = [], dr_checks = []\<rparr>
      in fold add_check
           (if deploy_env u cfg \<noteq> ''production'' then [should ''app_env'' False dp_app_env]
            else production_checks u fine envvar cfg) start)"

subsection \<open>What a passing deployment has\<close>

lemma fold_add_check:
  "dr_ok (fold add_check cs r) \<longleftrightarrow> dr_ok r \<and> list_all (\<lambda>c. dc_passed c \<or> \<not> dc_error c) cs"
  "dr_checks (fold add_check cs r) = dr_checks r @ cs"
  by (induction cs arbitrary: r) (auto simp: add_check_def Let_def)

lemma check_simps [simp]:
  "dc_passed (must n p d) = p" "dc_error (must n p d)" "dc_passed (should n p d) = p" "\<not> dc_error (should n p d)"
  by (simp_all add: must_def should_def)

text \<open>
  C25. What the gate guarantees of a production deployment that it passes: authentication, roles, security
  headers, request logging with redaction, audit retention with a redacted and bounded export, a size limit and a
  rate limit are on and within their bounds, the token secret is no placeholder and has 32 characters, no wildcard
  origin is allowed, and the log level is a known one that is not DEBUG. The burst must be positive: the gate refuses
  a burst of zero, which its message allows.
\<close>

theorem production_gate:
  assumes "dr_ok (run_deployment_checks u fine envvar cfg)" and "deploy_env u cfg = ''production''"
  shows "st_auth_enabled cfg \<and> st_rbac_enabled cfg \<and> st_security_headers_enabled cfg \<and>
    st_structured_logging_enabled cfg \<and> st_log_redaction_enabled cfg \<and>
    concat (u_upper u (u_strip u (py_chars (st_log_level cfg)))) \<in> {''INFO'', ''WARNING'', ''ERROR'', ''CRITICAL''} \<and>
    st_audit_retention_enabled cfg \<and> 0 < st_audit_retention_days cfg \<and> st_audit_export_redaction_enabled cfg \<and>
    0 < st_audit_export_max_rows cfg \<and> st_audit_export_max_rows cfg \<le> 10000 \<and>
    st_request_size_limit_enabled cfg \<and> 0 < st_request_size_limit_bytes cfg \<and>
    st_request_size_limit_bytes cfg \<le> 10485760 \<and> st_rate_limit_enabled cfg \<and>
    0 < st_rate_limit_requests_per_minute cfg \<and> 0 < st_rate_limit_burst cfg \<and>
    \<not> is_weak_jwt_secret u (u_strip_text u (st_jwt_secret cfg)) \<and>
    (st_cors_enabled cfg \<longrightarrow> ''*'' \<notin> set (parse_csv u (st_cors_allow_origins cfg)))"
proof -
  have all: "list_all (\<lambda>c. dc_passed c \<or> \<not> dc_error c) (production_checks u fine envvar cfg)"
    using assms by (simp add: run_deployment_checks_def fold_add_check Let_def)
  then have "list_all (\<lambda>c. dc_passed c \<or> \<not> dc_error c) (base_checks u cfg)"
    "list_all (\<lambda>c. dc_passed c \<or> \<not> dc_error c) (log_checks u cfg)"
    "list_all (\<lambda>c. dc_passed c \<or> \<not> dc_error c) (audit_checks u cfg)"
    "list_all (\<lambda>c. dc_passed c \<or> \<not> dc_error c) (request_checks u cfg)"
    by (simp_all add: production_checks_def)
  moreover have "dp_cors_any \<noteq> []" by (simp add: dp_cors_any_def)
  ultimately show ?thesis
    by (auto simp: base_checks_def log_checks_def audit_checks_def request_checks_def Let_def cors_problem_def split: if_splits)
qed

definition production_settings :: settings where
  "production_settings =
     default_settings\<lparr>st_app_env := ''production'', st_jwt_secret := ''0123456789abcdef0123456789abcdef'',
       st_auth_enabled := True, st_rbac_enabled := True, st_rate_limit_enabled := True\<rparr>"

theorem production_gate_witness:
  "st_auth_enabled production_settings \<and> 0 < st_rate_limit_burst production_settings"
proof -
  have "dr_ok (run_deployment_checks demo_unicode (\<lambda>n. True) (\<lambda>n. None) production_settings)"
    "deploy_env demo_unicode production_settings = ''production''"
    by code_simp+
  from production_gate [OF this] show ?thesis by blast
qed

end
