(* ===== verification/Llm_Wire.thy ===== *)
theory Llm_Wire
  imports Auth Sql_Pipeline
begin

text \<open>
  The wire format of the language-model providers (\<open>app/agent/nl2sql/provider.py\<close>): requests and their
  answers, tool calls, server-sent events, and the redaction of error texts. An exception is its class with
  its text. Objects of a client library are the \<open>json\<close> of their attributes.
\<close>

type_synonym exn = "string \<times> string"

definition then_try :: "'e + 'a \<Rightarrow> ('a \<Rightarrow> 'e + 'b) \<Rightarrow> 'e + 'b" where
  "then_try m f = (case m of Inl e \<Rightarrow> Inl e | Inr x \<Rightarrow> f x)"

lemma then_try_simps [simp]: "then_try (Inl e) f = Inl e" "then_try (Inr x) f = f x"
  by (simp_all add: then_try_def)

subsection \<open>Values\<close>

definition quote_text :: "string \<Rightarrow> string" where "quote_text s = utf8 [39] @ s @ utf8 [39]"

text \<open>\<open>int(v or 0)\<close>.\<close>

fun int_or_zero :: "json \<Rightarrow> exn + int" where
  "int_or_zero (JStr s) =
     (if s = [] then Inr 0
      else case read_int s of
             Some n \<Rightarrow> Inr n
           | None \<Rightarrow> Inl (''ValueError'', ''invalid literal for int() with base 10: '' @ quote_text s))"
| "int_or_zero (JList vs) =
     (if vs = [] then Inr 0 else Inl (''TypeError'',
        ''int() argument must be a string, a bytes-like object or a real number, not '' @ quote_text ''list''))"
| "int_or_zero (JObj d) =
     (if d = [] then Inr 0 else Inl (''TypeError'',
        ''int() argument must be a string, a bytes-like object or a real number, not '' @ quote_text ''dict''))"
| "int_or_zero v = Inr (int_of v)"

text \<open>\<open>str(v or "")\<close>.\<close>

definition text_or_empty :: "'w env \<Rightarrow> json \<Rightarrow> string" where
  "text_or_empty env v = (case v of JStr s \<Rightarrow> s | w \<Rightarrow> if truthy w then py_str env w else [])"

text \<open>What \<open>for item in v\<close> goes through.\<close>

fun iterate :: "json \<Rightarrow> exn + json list" where
  "iterate (JList vs) = Inr vs"
| "iterate (JObj d) = Inr (map (\<lambda>kv. JStr (fst kv)) d)"
| "iterate (JStr s) = Inr (map JStr (py_chars s))"
| "iterate v = Inl (''TypeError'', quote_text (type_name v) @ '' object is not iterable'')"

text \<open>\<open>v[0]\<close> of a value that counts as true.\<close>

fun item_zero :: "json \<Rightarrow> exn + json" where
  "item_zero (JList vs) = (case vs of [] \<Rightarrow> Inl (''IndexError'', ''list index out of range'') | x # _ \<Rightarrow> Inr x)"
| "item_zero (JObj d) = Inl (''KeyError'', ''0'')"
| "item_zero (JStr s) = Inr (JStr (concat (take 1 (py_chars s))))"
| "item_zero v = Inl (''TypeError'', quote_text (type_name v) @ '' object is not subscriptable'')"

definition field_of :: "json \<Rightarrow> string \<Rightarrow> json" where
  "field_of v k = (case v of JObj d \<Rightarrow> dget d k | _ \<Rightarrow> JNull)"

subsection \<open>Requests\<close>

definition chat_body :: "string \<Rightarrow> string \<Rightarrow> rat \<Rightarrow> json \<Rightarrow> json \<Rightarrow> bool \<Rightarrow> jdict" where
  "chat_body model prompt temperature tools choice stream =
     [(''model'', JStr model),
      (''messages'', JList [JObj [(''role'', JStr ''user''), (''content'', JStr prompt)]]),
      (''temperature'', JFloat temperature)] @
     (if truthy tools then [(''tools'', tools)] else []) @
     (if choice \<noteq> JNull then [(''tool_choice'', choice)] else []) @
     (if stream then [(''stream'', JBool True)] else [])"

definition resolve_api_key :: "unicode \<Rightarrow> (string \<Rightarrow> string option) \<Rightarrow> settings \<Rightarrow> string option \<Rightarrow> string" where
  "resolve_api_key u envvar cfg api_key =
     (case api_key of
        Some k \<Rightarrow> k
      | None \<Rightarrow>
          let name = u_strip_text u (st_llm_api_key_env cfg)
          in if st_llm_api_key cfg \<noteq> [] then st_llm_api_key cfg else if name \<noteq> [] then getenv envvar name else [])"

subsection \<open>Error texts\<close>

text \<open>\<open>re.sub(pattern, replacement, text)\<close>, the replacement as a function of the match.\<close>

fun sub_pieces :: "(uchar list \<Rightarrow> uchar list) \<Rightarrow> nat \<Rightarrow> uchar list \<Rightarrow> (nat \<times> nat) list \<Rightarrow> uchar list" where
  "sub_pieces g cursor s [] = drop cursor s"
| "sub_pieces g cursor s ((a, n) # ms) =
     take (a - cursor) (drop cursor s) @ g (take n (drop a s)) @ sub_pieces g (a + n) s ms"

definition rx_sub :: "unicode \<Rightarrow> rx list \<Rightarrow> (uchar list \<Rightarrow> uchar list) \<Rightarrow> uchar list \<Rightarrow> uchar list" where
  "rx_sub u rs g s = sub_pieces g 0 s (rx_finditer u rs None 0 s)"

definition dashes :: "uchar \<Rightarrow> bool" where "dashes c \<longleftrightarrow> c = ''_'' \<or> c = ''-''"

definition SK_TOKEN :: "rx list" where
  "SK_TOKEN = literal ''sk-'' @ [Rep (alnum_or ''_-'') 6 None]"

definition TP_TOKEN :: "rx list" where
  "TP_TOKEN = literal ''tp-'' @ [Rep (alnum_or ''_-'') 16 None]"

definition BEARER_TOKEN :: "unicode \<Rightarrow> rx list" where
  "BEARER_TOKEN u = literal_ic ''bearer'' @
     [Rep (is_space u) 1 None, Rep (\<lambda>c. alnum_or ''._-'' c \<or> c \<in> set fold_extras) 1 None]"

definition ASSIGNED_SECRET :: "unicode \<Rightarrow> rx list" where
  "ASSIGNED_SECRET u =
     (let opt = Rep dashes 0 (Some 1)
      in [Alt [literal_ic ''api'' @ [opt] @ literal_ic ''key'', literal_ic ''token'',
             literal_ic ''client'' @ [opt] @ literal_ic ''secret'', literal_ic ''jwt'' @ [opt] @ literal_ic ''secret'',
             literal_ic ''password'', literal_ic ''secret'']] @
         literal ''='' @ [Rep (\<lambda>c. c \<noteq> ''&'' \<and> \<not> is_space u c) 1 None])"

definition URL_PASSWORD :: "unicode \<Rightarrow> rx list" where
  "URL_PASSWORD u =
     literal_ic ''http'' @ [Alt [literal_ic ''s'', []]] @ literal ''://'' @
     [Rep (\<lambda>c. c \<noteq> '':'' \<and> c \<noteq> ''/'' \<and> \<not> is_space u c) 1 None] @ literal '':'' @
     [Rep (\<lambda>c. c \<noteq> ''@'' \<and> \<not> is_space u c) 1 None] @ literal ''@''"

text \<open>The first group of the last two patterns: up to the \<open>=\<close>, and up to the second colon.\<close>

definition url_group :: "uchar list \<Rightarrow> uchar list" where
  "url_group m =
     (let not_colon = (\<lambda>c. c \<noteq> '':''); rest = drop 1 (dropWhile not_colon m)
      in takeWhile not_colon m @ ['':''] @ takeWhile not_colon rest)"

definition redact_error_detail :: "unicode \<Rightarrow> uchar list \<Rightarrow> uchar list" where
  "redact_error_detail u s =
     (let hide = chars ''[redacted]'';
          s1 = rx_sub u SK_TOKEN (\<lambda>_. hide) s; s2 = rx_sub u TP_TOKEN (\<lambda>_. hide) s1;
          s3 = rx_sub u (BEARER_TOKEN u) (\<lambda>_. chars ''Bearer [redacted]'') s2;
          s4 = rx_sub u (ASSIGNED_SECRET u) (\<lambda>m. takeWhile (\<lambda>c. c \<noteq> ''='') m @ chars ''=[redacted]'') s3
      in rx_sub u (URL_PASSWORD u) (\<lambda>m. url_group m @ chars '':[redacted]@'') s4)"

definition safe_error_detail :: "unicode \<Rightarrow> 'w env \<Rightarrow> json option \<Rightarrow> string" where
  "safe_error_detail u env payload =
     (case payload of
        Some (JObj d) \<Rightarrow>
          (let part = (\<lambda>v. u_strip_text u (text_or_empty env v));
               (code, message) = (case dget d ''error'' of
                  JObj e \<Rightarrow> (part (or_else (dget e ''code'') (dget e ''type'')), part (dget e ''message''))
                | _ \<Rightarrow> (part (dget d ''code''), part (dget d ''message'')));
               parts = filter (\<lambda>x. x \<noteq> []) [code, message]
           in if parts = [] then []
              else concat (take 240 (redact_error_detail u (py_chars (str_join '' | '' parts)))))
      | _ \<Rightarrow> [])"

text \<open>An HTTP answer: its status and what \<open>response.json()\<close> gives, if it does.\<close>

record http_reply =
  ht_status :: int
  ht_json :: "json option"

definition raise_for_status :: "unicode \<Rightarrow> 'w env \<Rightarrow> http_reply \<Rightarrow> exn + unit" where
  "raise_for_status u env r =
     (let code = int_text (ht_status r); detail = safe_error_detail u env (ht_json r)
      in if ht_status r \<in> {401, 403}
         then Inl (''ProviderAuthError'', ''OpenAI-compatible endpoint auth failed: '' @ code)
         else if ht_status r = 429 then Inl (''ProviderRateLimitError'', ''OpenAI-compatible endpoint rate limited'')
         else if 400 \<le> ht_status r
         then Inl (''ProviderResponseError'', ''OpenAI-compatible endpoint returned '' @ code @
                (if detail = [] then [] else '': '' @ detail))
         else Inr ())"

subsection \<open>Tool calls\<close>

definition tool_call_dict :: "string \<Rightarrow> string \<Rightarrow> string \<Rightarrow> json" where
  "tool_call_dict cid name arguments =
     JObj [(''id'', JStr cid), (''type'', JStr ''function''),
       (''function'', JObj [(''name'', JStr name), (''arguments'', JStr arguments)])]"

text \<open>\<open>json.dumps(v, ensure_ascii=False)\<close> is a parameter.\<close>

definition normalize_tool_call :: "'w env \<Rightarrow> (json \<Rightarrow> string) \<Rightarrow> json \<Rightarrow> json" where
  "normalize_tool_call env dumps item =
     (let f = field_of item ''function''; args = field_of f ''arguments''
      in tool_call_dict (text_or_empty env (field_of item ''id'')) (text_or_empty env (field_of f ''name''))
           (case args of JNull \<Rightarrow> [] | JStr s \<Rightarrow> s | v \<Rightarrow> dumps v))"

definition normalize_tool_calls :: "'w env \<Rightarrow> (json \<Rightarrow> string) \<Rightarrow> json \<Rightarrow> exn + json list option" where
  "normalize_tool_calls env dumps raw =
     (if \<not> truthy raw then Inr None
      else then_try (iterate raw) (\<lambda>items.
        Inr (if items = [] then None else Some (map (normalize_tool_call env dumps) items))))"

definition calls_json :: "json list option \<Rightarrow> json" where
  "calls_json cs = (case cs of None \<Rightarrow> JNull | Some vs \<Rightarrow> JList vs)"

subsection \<open>Answers\<close>

definition usage_tokens :: "json \<Rightarrow> exn + int \<times> int \<times> int" where
  "usage_tokens usage =
     (let d = (case usage of JObj d \<Rightarrow> d | _ \<Rightarrow> [])
      in then_try (int_or_zero (dget_or d ''prompt_tokens'' (JInt 0))) (\<lambda>p.
         then_try (int_or_zero (dget_or d ''completion_tokens'' (JInt 0))) (\<lambda>c.
         then_try (int_or_zero (dget_or d ''total_tokens'' (JInt (p + c)))) (\<lambda>t. Inr (p, c, t)))))"

text \<open>The choices of an answer, and its first message with the content and the tool calls.\<close>

definition parse_chat_payload ::
  "'w env \<Rightarrow> (json \<Rightarrow> string) \<Rightarrow> string \<Rightarrow> string \<Rightarrow> rat \<Rightarrow> json \<Rightarrow> exn + llm_reply"
where
  "parse_chat_payload env dumps provider fallback_model latency payload =
     (let choices = field_of payload ''choices''
      in if \<not> truthy choices
         then Inl (''ProviderResponseError'', ''OpenAI-compatible endpoint response missing choices'')
         else then_try (item_zero choices) (\<lambda>first.
           let message = field_of first ''message''; content = field_of message ''content''
           in then_try (normalize_tool_calls env dumps (field_of message ''tool_calls'')) (\<lambda>calls.
              if content = JNull \<and> calls = None
              then Inl (''ProviderResponseError'', ''OpenAI-compatible endpoint response missing message.content'')
              else then_try (usage_tokens (field_of payload ''usage'')) (\<lambda>(p, c, t).
                Inr \<lparr>lr_content = (case content of JNull \<Rightarrow> [] | JStr s \<Rightarrow> s | v \<Rightarrow> py_str env v),
                     lr_provider = provider,
                     lr_model = (let m = text_or_empty env (field_of payload ''model'')
                       in if m = [] then fallback_model else m),
                     lr_prompt_tokens = p, lr_completion_tokens = c, lr_total_tokens = t, lr_cost = 0,
                     lr_request_id = text_or_empty env (field_of payload ''id''), lr_latency_ms = latency,
                     lr_error_type = None, lr_tool_calls = calls_json calls\<rparr>))))"

subsection \<open>Streams\<close>

text \<open>A tool call under construction; the slots of the indices in the order they came up.\<close>

record call_slot =
  cl_id :: string
  cl_name :: string
  cl_arguments :: string

type_synonym call_acc = "(int \<times> call_slot) list"

record call_fragment =
  fg_index :: int
  fg_id :: string
  fg_name :: string
  fg_arguments :: string

definition empty_slot :: call_slot where "empty_slot = \<lparr>cl_id = [], cl_name = [], cl_arguments = []\<rparr>"

definition slot_at :: "call_acc \<Rightarrow> int \<Rightarrow> call_slot" where
  "slot_at acc i = (case map_of acc i of None \<Rightarrow> empty_slot | Some x \<Rightarrow> x)"

definition read_fragment :: "'w env \<Rightarrow> json \<Rightarrow> exn + call_fragment" where
  "read_fragment env fragment =
     (let f = field_of fragment ''function'' in
      then_try (int_or_zero (field_of fragment ''index'')) (\<lambda>i.
        Inr \<lparr>fg_index = i, fg_id = text_or_empty env (field_of fragment ''id''),
             fg_name = text_or_empty env (field_of f ''name''),
             fg_arguments = text_or_empty env (field_of f ''arguments'')\<rparr>))"

definition merge_fragment :: "call_fragment \<Rightarrow> call_acc \<Rightarrow> call_acc" where
  "merge_fragment f acc =
     (let x = slot_at acc (fg_index f)
      in dput acc (fg_index f)
           \<lparr>cl_id = (if cl_id x = [] then fg_id f else cl_id x),
            cl_name = (if cl_name x = [] then fg_name f else cl_name x),
            cl_arguments = cl_arguments x @ fg_arguments f\<rparr>)"

text \<open>The fragments of one event, merged one by one; an exception keeps what was merged before it.\<close>

fun merge_fragments :: "'w env \<Rightarrow> json list \<Rightarrow> call_acc \<Rightarrow> (exn + unit) \<times> call_acc" where
  "merge_fragments env [] acc = (Inr (), acc)"
| "merge_fragments env (v # vs) acc =
     (case read_fragment env v of
        Inl e \<Rightarrow> (Inl e, acc)
      | Inr f \<Rightarrow> merge_fragments env vs (merge_fragment f acc))"

definition merge_stream_calls :: "'w env \<Rightarrow> json \<Rightarrow> call_acc \<Rightarrow> (exn + unit) \<times> call_acc" where
  "merge_stream_calls env fragments acc =
     (if \<not> truthy fragments then (Inr (), acc)
      else case iterate fragments of Inl e \<Rightarrow> (Inl e, acc) | Inr vs \<Rightarrow> merge_fragments env vs acc)"

definition finalize_stream_calls :: "call_acc \<Rightarrow> json list option" where
  "finalize_stream_calls acc =
     (if acc = [] then None
      else Some (map (\<lambda>i. let x = slot_at acc i in tool_call_dict (cl_id x) (cl_name x) (cl_arguments x))
             (sort (map fst acc))))"

text \<open>What a stream has given so far: the pieces of text, in order, are also what it yields.\<close>

record stream_state =
  ss_parts :: "string list"
  ss_calls :: call_acc
  ss_prompt :: int
  ss_completion :: int
  ss_total :: int
  ss_id :: string
  ss_model :: string

definition stream_start :: "string \<Rightarrow> stream_state" where
  "stream_start model =
     \<lparr>ss_parts = [], ss_calls = [], ss_prompt = 0, ss_completion = 0, ss_total = 0, ss_id = [], ss_model = model\<rparr>"

definition stream_delta :: "'w env \<Rightarrow> json \<Rightarrow> stream_state \<Rightarrow> (exn + unit) \<times> stream_state" where
  "stream_delta env delta s =
     (let piece = field_of delta ''content'';
          s1 = (if truthy piece then s\<lparr>ss_parts := ss_parts s @ [text_or_empty env piece]\<rparr> else s);
          (r, acc) = merge_stream_calls env (field_of delta ''tool_calls'') (ss_calls s1)
      in (r, s1\<lparr>ss_calls := acc\<rparr>))"

text \<open>The usage of one event: the counts read before one that raises are kept.\<close>

definition stream_usage :: "json \<Rightarrow> stream_state \<Rightarrow> (exn + unit) \<times> stream_state" where
  "stream_usage usage s =
     (case usage of
        JObj d \<Rightarrow>
          bind_out (int_or_zero (dget_or d ''prompt_tokens'' (JInt 0)), s) (\<lambda>p s1.
            let s2 = s1\<lparr>ss_prompt := p\<rparr>
            in bind_out (int_or_zero (dget_or d ''completion_tokens'' (JInt 0)), s2) (\<lambda>c s3.
              let s4 = s3\<lparr>ss_completion := c\<rparr>
              in bind_out (int_or_zero (dget_or d ''total_tokens'' (JInt (p + c))), s4) (\<lambda>t s5.
                (Inr (), s5\<lparr>ss_total := t\<rparr>))))
      | _ \<Rightarrow> (Inr (), s))"

definition stream_event :: "'w env \<Rightarrow> jdict \<Rightarrow> stream_state \<Rightarrow> (exn + unit) \<times> stream_state" where
  "stream_event env event s =
     (let s1 = (if truthy (dget event ''id'') then s\<lparr>ss_id := text_or_empty env (dget event ''id'')\<rparr> else s);
          s2 = (if truthy (dget event ''model'') then s1\<lparr>ss_model := text_or_empty env (dget event ''model'')\<rparr> else s1)
      in bind_out (stream_usage (dget event ''usage'') s2) (\<lambda>_ s3.
           if \<not> truthy (dget event ''choices'') then (Inr (), s3)
           else
             (case item_zero (dget event ''choices'') of
                Inl e \<Rightarrow> (Inl e, s3)
              | Inr (JObj first) \<Rightarrow>
                  (let delta = or_else (dget first ''delta'') (JObj [])
                   in case delta of JObj _ \<Rightarrow> stream_delta env delta s3 | _ \<Rightarrow> (Inr (), s3))
              | Inr _ \<Rightarrow> (Inr (), s3))))"

text \<open>The lines of a stream, up to \<open>[DONE]\<close>; the answer tells whether that line came.\<close>

fun stream_lines ::
  "unicode \<Rightarrow> 'w env \<Rightarrow> (string \<Rightarrow> string + json) \<Rightarrow> string list \<Rightarrow> stream_state \<Rightarrow> (exn + bool) \<times> stream_state"
where
  "stream_lines u env loads [] s = (Inr False, s)"
| "stream_lines u env loads (l # ls) s =
     (let data = u_strip_text u (drop 5 l)
      in if \<not> prefix ''data:'' l then stream_lines u env loads ls s
         else if data = ''[DONE]'' then (Inr True, s)
         else
           (case loads data of
              Inr (JObj event) \<Rightarrow>
                bind_out (stream_event env event s) (\<lambda>_ s1. stream_lines u env loads ls s1)
            | _ \<Rightarrow> stream_lines u env loads ls s))"

definition stream_reply :: "string \<Rightarrow> rat \<Rightarrow> stream_state \<Rightarrow> llm_reply" where
  "stream_reply provider latency s =
     \<lparr>lr_content = concat (ss_parts s), lr_provider = provider, lr_model = ss_model s,
      lr_prompt_tokens = ss_prompt s, lr_completion_tokens = ss_completion s,
      lr_total_tokens = (if ss_total s = 0 then ss_prompt s + ss_completion s else ss_total s), lr_cost = 0,
      lr_request_id = ss_id s, lr_latency_ms = latency, lr_error_type = None,
      lr_tool_calls = calls_json (finalize_stream_calls (ss_calls s))\<rparr>"

text \<open>\<open>range(0, len(content), n)\<close> slices of a text.\<close>

function text_chunks :: "nat \<Rightarrow> uchar list \<Rightarrow> uchar list list" where
  "text_chunks n s = (if n = 0 \<or> s = [] then [] else take n s # text_chunks n (drop n s))"
  by pat_completeness auto
termination by (relation "measure (\<lambda>(n, s). length s)") auto

lemmas [simp del] = text_chunks.simps

text \<open>The length of a text made of characters.\<close>

lemma py_len_chars: "\<forall>c \<in> set cs. list_all is_cont (tl c) \<Longrightarrow> py_len (concat cs) \<le> length cs"
proof (induction cs)
  case (Cons c cs)
  have "length (filter (\<lambda>x. \<not> is_cont x) c) \<le> 1"
    using Cons.prems by (cases c) (auto simp: list_all_iff filter_empty_conv)
  then show ?case using Cons by (simp add: py_len_def)
qed (simp add: py_len_def)

end
