(* ===== verification/Llm_Providers.thy ===== *)
theory Llm_Providers
  imports Llm_Wire Structured_Logging
begin

text \<open>
  The providers (\<open>app/agent/nl2sql/provider.py\<close>): the offline one, the direct one over HTTP, the one over the
  litellm library, and their choice. The HTTP client and litellm are parameters: an answer or a failure for
  a request, and for a stream the lines that arrive and the failure that may end them.
\<close>

subsection \<open>The outside\<close>

datatype http_failure = HttpTimeout string | HttpError string | HttpOther string string

record http_stream =
  hs_reply :: http_reply
  hs_lines :: "string list"
  hs_failure :: "http_failure option"

record 'w http_client =
  hc_installed :: bool
  hc_post :: "string \<Rightarrow> string \<Rightarrow> jdict \<Rightarrow> rat \<Rightarrow> 'w \<Rightarrow> (http_failure + http_reply) \<times> 'w"
  hc_stream :: "string \<Rightarrow> string \<Rightarrow> jdict \<Rightarrow> rat \<Rightarrow> 'w \<Rightarrow> (http_failure + http_stream) \<times> 'w"
  hc_sleep :: "rat \<Rightarrow> 'w \<Rightarrow> 'w"

record 'w litellm =
  li_installed :: bool
  li_completion :: "jdict \<Rightarrow> 'w \<Rightarrow> (exn + json) \<times> 'w"
  li_stream :: "jdict \<Rightarrow> 'w \<Rightarrow> (exn + json list \<times> exn option) \<times> 'w"

text \<open>What the code uses of its surroundings, beside the world.\<close>

record 'w llm_env =
  le_env :: "'w env"
  le_unicode :: unicode
  le_loads :: "string \<Rightarrow> string + json"
  le_dumps :: "json \<Rightarrow> string"
  le_http :: "'w http_client"
  le_litellm :: "'w litellm"

record llm_config =
  lc_api_key :: string
  lc_model :: string
  lc_base_url :: string
  lc_timeout :: rat
  lc_max_retries :: nat
  lc_backoff :: rat
  lc_temperature :: rat

text \<open>Arguments of a provider, each with a default in the settings.\<close>

record llm_options =
  lo_api_key :: "string option"
  lo_model :: "string option"
  lo_base_url :: "string option"
  lo_timeout :: "rat option"
  lo_max_retries :: "int option"
  lo_backoff :: "rat option"
  lo_temperature :: "rat option"

definition no_options :: llm_options where
  "no_options = \<lparr>lo_api_key = None, lo_model = None, lo_base_url = None, lo_timeout = None, lo_max_retries = None,
     lo_backoff = None, lo_temperature = None\<rparr>"

definition given_or :: "'a option \<Rightarrow> 'a \<Rightarrow> 'a" where
  "given_or x dflt = (case x of None \<Rightarrow> dflt | Some v \<Rightarrow> v)"

definition llm_config_of ::
  "unicode \<Rightarrow> (string \<Rightarrow> string option) \<Rightarrow> settings \<Rightarrow> llm_options \<Rightarrow> llm_config"
where
  "llm_config_of u envvar cfg opts =
     \<lparr>lc_api_key = resolve_api_key u envvar cfg (lo_api_key opts),
      lc_model = or_text (lo_model opts) (or_text (Some (st_llm_model cfg)) ''gpt-3.5-turbo''),
      lc_base_url = u_strip_text u (given_or (lo_base_url opts) (st_llm_base_url cfg)),
      lc_timeout = max 1 (given_or (lo_timeout opts) (st_llm_timeout_seconds cfg)),
      lc_max_retries = nat (max 0 (given_or (lo_max_retries opts) (st_llm_max_retries cfg))),
      lc_backoff = max 0 (given_or (lo_backoff opts) (st_llm_retry_backoff_seconds cfg)),
      lc_temperature = given_or (lo_temperature opts) (st_llm_temperature cfg)\<rparr>"

definition chat_url :: "llm_config \<Rightarrow> string" where
  "chat_url c = strip_end (\<lambda>x. x = CHR ''/'') (lc_base_url c) @ ''/chat/completions''"

definition elapsed_ms :: "'w env \<Rightarrow> rat \<Rightarrow> 'w \<Rightarrow> rat" where
  "elapsed_ms env started w = (mono_clock env w - started) * 1000"

definition http_exception :: "http_failure \<Rightarrow> exn" where
  "http_exception f =
     (case f of
        HttpTimeout t \<Rightarrow> (''ProviderTimeoutError'', t)
      | HttpError t \<Rightarrow> (''ProviderResponseError'', t)
      | HttpOther c t \<Rightarrow> (c, t))"

subsection \<open>One request over HTTP\<close>

definition request_once ::
  "'w llm_env \<Rightarrow> string \<Rightarrow> string \<Rightarrow> llm_config \<Rightarrow> string \<Rightarrow> json \<Rightarrow> json \<Rightarrow> rat \<Rightarrow> 'w \<Rightarrow> (exn + llm_reply) \<times> 'w"
where
  "request_once le provider missing c prompt tools choice started w =
     (if \<not> hc_installed (le_http le) then (Inl (''ProviderConfigError'', missing), w)
      else
        (case hc_post (le_http le) (chat_url c) (lc_api_key c)
                (chat_body (lc_model c) prompt (lc_temperature c) tools choice False) (lc_timeout c) w of
           (Inl f, w1) \<Rightarrow> (Inl (http_exception f), w1)
         | (Inr r, w1) \<Rightarrow>
             (then_try (raise_for_status (le_unicode le) (le_env le) r) (\<lambda>_.
                case ht_json r of
                  None \<Rightarrow> Inl (''ProviderResponseError'', ''OpenAI-compatible endpoint returned non-json response'')
                | Some payload \<Rightarrow>
                    parse_chat_payload (le_env le) (le_dumps le) provider (lc_model c)
                      (elapsed_ms (le_env le) started w1) payload), w1)))"

text \<open>
  A stream over HTTP: the pieces it yields, and the exception that ends it or the metadata left behind.
\<close>

definition stream_chat ::
  "'w llm_env \<Rightarrow> string \<Rightarrow> llm_config \<Rightarrow> string \<Rightarrow> json \<Rightarrow> json \<Rightarrow> rat \<Rightarrow> 'w \<Rightarrow>
     (string list \<times> (exn + llm_reply)) \<times> 'w"
where
  "stream_chat le provider c prompt tools choice started w =
     (if \<not> hc_installed (le_http le) then (([], Inl (''ProviderConfigError'', tx_llm_need_httpx)), w)
      else
        (case hc_stream (le_http le) (chat_url c) (lc_api_key c)
                (chat_body (lc_model c) prompt (lc_temperature c) tools choice True) (lc_timeout c) w of
           (Inl f, w1) \<Rightarrow> (([], Inl (http_exception f)), w1)
         | (Inr x, w1) \<Rightarrow>
             ((case raise_for_status (le_unicode le) (le_env le) (hs_reply x) of
                 Inl e \<Rightarrow> ([], Inl e)
               | Inr _ \<Rightarrow>
                   (case stream_lines (le_unicode le) (le_env le) (le_loads le) (hs_lines x)
                           (stream_start (lc_model c)) of
                      (Inl e, s) \<Rightarrow> (ss_parts s, Inl e)
                    | (Inr stopped, s) \<Rightarrow>
                        (ss_parts s,
                         case (stopped, hs_failure x) of
                           (False, Some f) \<Rightarrow> Inl (http_exception f)
                         | _ \<Rightarrow> Inr (stream_reply provider (elapsed_ms (le_env le) started w1) s)))), w1)))"

subsection \<open>The direct provider\<close>

definition RETRYABLE_ERRORS :: "string list" where
  "RETRYABLE_ERRORS = [''ProviderTimeoutError'', ''ProviderRateLimitError'', ''ProviderResponseError'']"

definition back_off :: "'w llm_env \<Rightarrow> llm_config \<Rightarrow> 'w \<Rightarrow> 'w" where
  "back_off le c w = (if 0 < lc_backoff c then hc_sleep (le_http le) (lc_backoff c) w else w)"

text \<open>\<open>while True\<close>: the attempts from a number on.\<close>

function direct_loop ::
  "'w llm_env \<Rightarrow> llm_config \<Rightarrow> ('w \<Rightarrow> (exn + llm_reply) \<times> 'w) \<Rightarrow> nat \<Rightarrow> 'w \<Rightarrow> (exn + llm_reply) \<times> 'w"
where
  "direct_loop le c request attempt w =
     (case request w of
        (Inr r, w1) \<Rightarrow> (Inr r, w1)
      | (Inl e, w1) \<Rightarrow>
          if fst e \<notin> set RETRYABLE_ERRORS \<or> lc_max_retries c \<le> attempt then (Inl e, w1)
          else direct_loop le c request (Suc attempt) (back_off le c w1))"
  by pat_completeness auto
termination by (relation "measure (\<lambda>(le, c, request, attempt, w). lc_max_retries c - attempt)") auto

lemmas [simp del] = direct_loop.simps

definition direct_generate ::
  "'w llm_env \<Rightarrow> llm_config \<Rightarrow> string \<Rightarrow> json \<Rightarrow> json \<Rightarrow> 'w \<Rightarrow> (exn + llm_reply) \<times> 'w"
where
  "direct_generate le c prompt tools choice w =
     direct_loop le c
       (request_once le ''openai_compatible'' tx_llm_direct_httpx c prompt tools choice (mono_clock (le_env le) w)) 0 w"

definition direct_stream ::
  "'w llm_env \<Rightarrow> llm_config \<Rightarrow> string \<Rightarrow> json \<Rightarrow> json \<Rightarrow> 'w \<Rightarrow> (string list \<times> (exn + llm_reply)) \<times> 'w"
where
  "direct_stream le c prompt tools choice w =
     stream_chat le ''openai_compatible'' c prompt tools choice (mono_clock (le_env le) w) w"

subsection \<open>The provider over litellm\<close>

definition litellm_model :: "llm_config \<Rightarrow> string" where
  "litellm_model c =
     (if lc_base_url c \<noteq> [] \<and> CHR ''/'' \<notin> set (lc_model c) then ''openai/'' @ lc_model c else lc_model c)"

definition completion_payload :: "llm_config \<Rightarrow> string \<Rightarrow> json \<Rightarrow> json \<Rightarrow> bool \<Rightarrow> jdict" where
  "completion_payload c prompt tools choice stream =
     [(''model'', JStr (litellm_model c)),
      (''messages'', JList [JObj [(''role'', JStr ''user''), (''content'', JStr prompt)]]),
      (''api_key'', JStr (lc_api_key c)), (''timeout'', JFloat (lc_timeout c)),
      (''temperature'', JFloat (lc_temperature c))] @
     (if truthy tools then [(''tools'', tools)] else []) @
     (if choice \<noteq> JNull then [(''tool_choice'', choice)] else []) @
     (if stream then [(''stream'', JBool True)] else []) @
     (if lc_base_url c \<noteq> [] then [(''api_base'', JStr (lc_base_url c))] else [])"

definition map_exception :: "unicode \<Rightarrow> exn \<Rightarrow> exn" where
  "map_exception u e =
     (let text = u_lower_text u (snd e); name = lower (fst e); says = (\<lambda>t. str_in t text);
          kind = (if says ''auth'' \<or> says ''authentication'' \<or> says ''permission'' then ''ProviderAuthError''
            else if says ''timeout'' \<or> says ''timed out'' \<or> str_in ''timeouterror'' name then ''ProviderTimeoutError''
            else if says ''rate limit'' \<or> str_in ''ratelimit'' name \<or> says ''429'' then ''ProviderRateLimitError''
            else if says ''model'' \<or> says ''not found'' then ''ProviderModelError''
            else ''ProviderResponseError'')
      in (kind, snd e))"

text \<open>\<open>float(v or 0.0)\<close> of the reported cost, a number as litellm documents it.\<close>

definition normalize_response :: "'w llm_env \<Rightarrow> llm_config \<Rightarrow> rat \<Rightarrow> json \<Rightarrow> exn + llm_reply" where
  "normalize_response le c latency response =
     (let env = le_env le; choices = field_of response ''choices'' in
      then_try (usage_tokens (field_of response ''usage'')) (\<lambda>(p, comp, t).
        if \<not> truthy choices then Inl (''ProviderResponseError'', tx_lite_no_choices)
        else then_try (item_zero choices) (\<lambda>first.
          let message = field_of first ''message''; content = field_of message ''content''
          in then_try (normalize_tool_calls env (le_dumps le) (field_of message ''tool_calls'')) (\<lambda>calls.
             if content = JNull \<and> calls = None then Inl (''ProviderResponseError'', tx_lite_no_content)
             else Inr \<lparr>lr_content = (case content of JNull \<Rightarrow> [] | JStr s \<Rightarrow> s | v \<Rightarrow> py_str env v),
                    lr_provider = ''litellm'', lr_model = lc_model c, lr_prompt_tokens = p,
                    lr_completion_tokens = comp, lr_total_tokens = t,
                    lr_cost = rat_of (field_of (field_of response ''_hidden_params'') ''response_cost''),
                    lr_request_id = (case response of
                      JObj d \<Rightarrow> (case map_of d ''id'' of None \<Rightarrow> [] | Some (JStr s) \<Rightarrow> s | Some v \<Rightarrow> py_str env v)
                    | _ \<Rightarrow> []),
                    lr_latency_ms = latency, lr_error_type = None, lr_tool_calls = calls_json calls\<rparr>))))"

definition lite_request ::
  "'w llm_env \<Rightarrow> llm_config \<Rightarrow> jdict \<Rightarrow> rat \<Rightarrow> 'w \<Rightarrow> (exn + llm_reply) \<times> 'w"
where
  "lite_request le c payload started w =
     (case li_completion (le_litellm le) payload w of
        (Inl e, w1) \<Rightarrow> (Inl e, w1)
      | (Inr response, w1) \<Rightarrow> (normalize_response le c (elapsed_ms (le_env le) started w1) response, w1))"

text \<open>
  The attempts over litellm. With a base URL, an unclassified failure goes to the direct request at once,
  and what that gives is final; every other failure is tried again, whatever its class.
\<close>

function lite_loop ::
  "'w llm_env \<Rightarrow> llm_config \<Rightarrow> ('w \<Rightarrow> (exn + 'r) \<times> 'w) \<Rightarrow> ('w \<Rightarrow> (exn + 'r) \<times> 'w) \<Rightarrow> nat \<Rightarrow> 'w \<Rightarrow> (exn + 'r) \<times> 'w"
where
  "lite_loop le c request direct attempt w =
     (case request w of
        (Inr r, w1) \<Rightarrow> (Inr r, w1)
      | (Inl e, w1) \<Rightarrow>
          (let m = map_exception (le_unicode le) e
           in if lc_base_url c \<noteq> [] \<and> fst m = ''ProviderResponseError'' then direct w1
              else if lc_max_retries c \<le> attempt then (Inl m, w1)
              else lite_loop le c request direct (Suc attempt) (back_off le c w1)))"
  by pat_completeness auto
termination by (relation "measure (\<lambda>(le, c, request, direct, attempt, w). lc_max_retries c - attempt)") auto

lemmas [simp del] = lite_loop.simps

definition lite_generate ::
  "'w llm_env \<Rightarrow> llm_config \<Rightarrow> string \<Rightarrow> json \<Rightarrow> json \<Rightarrow> 'w \<Rightarrow> (exn + llm_reply) \<times> 'w"
where
  "lite_generate le c prompt tools choice w =
     (let started = mono_clock (le_env le) w
      in if \<not> li_installed (le_litellm le) then (Inl (''ProviderConfigError'', tx_lite_missing), w)
         else lite_loop le c (lite_request le c (completion_payload c prompt tools choice False) started)
                (request_once le ''litellm'' tx_lite_httpx c prompt tools choice started) 0 w)"

text \<open>A chunk of a litellm stream. Its usage is read by attribute, which one that has none answers with 0.\<close>

definition usage_view :: "json \<Rightarrow> json" where
  "usage_view v = (case v of JNull \<Rightarrow> JNull | JObj d \<Rightarrow> JObj d | _ \<Rightarrow> JObj [])"

definition lite_chunk :: "'w env \<Rightarrow> json \<Rightarrow> stream_state \<Rightarrow> (exn + unit) \<times> stream_state" where
  "lite_chunk env chunk s =
     (let s1 = (if truthy (field_of chunk ''id'') then s\<lparr>ss_id := text_or_empty env (field_of chunk ''id'')\<rparr> else s);
          choices = field_of chunk ''choices''
      in bind_out (stream_usage (usage_view (field_of chunk ''usage'')) s1) (\<lambda>_ s2.
           if \<not> truthy choices then (Inr (), s2)
           else
             (case item_zero choices of
                Inl e \<Rightarrow> (Inl e, s2)
              | Inr first \<Rightarrow>
                  if field_of first ''delta'' = JNull then (Inr (), s2)
                  else stream_delta env (field_of first ''delta'') s2)))"

fun lite_chunks :: "'w env \<Rightarrow> json list \<Rightarrow> stream_state \<Rightarrow> (exn + unit) \<times> stream_state" where
  "lite_chunks env [] s = (Inr (), s)"
| "lite_chunks env (x # xs) s = bind_out (lite_chunk env x s) (\<lambda>_ s1. lite_chunks env xs s1)"

definition lite_stream_body ::
  "'w llm_env \<Rightarrow> llm_config \<Rightarrow> rat \<Rightarrow> json list \<times> exn option \<Rightarrow> 'w \<Rightarrow> string list \<times> (exn + llm_reply)"
where
  "lite_stream_body le c started stream w =
     (case lite_chunks (le_env le) (fst stream) (stream_start (lc_model c)) of
        (Inl e, s) \<Rightarrow> (ss_parts s, Inl (map_exception (le_unicode le) e))
      | (Inr _, s) \<Rightarrow>
          (ss_parts s,
           case snd stream of
             Some e \<Rightarrow> Inl (map_exception (le_unicode le) e)
           | None \<Rightarrow> Inr (stream_reply ''litellm'' (elapsed_ms (le_env le) started w) s)))"

text \<open>The stream once it is open, or the whole of the direct stream in its place.\<close>

definition lite_stream ::
  "'w llm_env \<Rightarrow> llm_config \<Rightarrow> string \<Rightarrow> json \<Rightarrow> json \<Rightarrow> 'w \<Rightarrow> (string list \<times> (exn + llm_reply)) \<times> 'w"
where
  "lite_stream le c prompt tools choice w =
     (let started = mono_clock (le_env le) w;
          open_stream = (\<lambda>w. case li_stream (le_litellm le) (completion_payload c prompt tools choice True) w of
             (Inl e, w1) \<Rightarrow> (Inl e, w1)
           | (Inr st, w1) \<Rightarrow> (Inr (lite_stream_body le c started st w1), w1));
          direct = (\<lambda>w. case stream_chat le ''litellm'' c prompt tools choice started w of (x, w1) \<Rightarrow> (Inr x, w1))
      in if \<not> li_installed (le_litellm le) then (([], Inl (''ProviderConfigError'', tx_lite_missing)), w)
         else
           (case lite_loop le c open_stream direct 0 w of
              (Inl e, w1) \<Rightarrow> (([], Inl e), w1) | (Inr x, w1) \<Rightarrow> (x, w1)))"

subsection \<open>The offline provider\<close>

record fake_entry =
  fk_keywords :: "string list"
  fk_response :: jdict

definition fake_response :: "string \<Rightarrow> rat \<Rightarrow> string \<Rightarrow> string list \<Rightarrow> jdict" where
  "fake_response sql confidence reasoning tables =
     [(''sql'', JStr sql), (''confidence'', JFloat confidence), (''reasoning'', JStr reasoning),
      (''selected_tables'', jstrs tables)]"

definition RESPONSE_MAP :: "fake_entry list" where
  "RESPONSE_MAP =
     [\<lparr>fk_keywords = [kw_gmv_upper, kw_gmv_lower, kw_sales],
       fk_response = fake_response (''SELECT metric_date, gmv, order_count FROM daily_metrics WHERE metric_date = '' @
         quoted ''2024-01-15'') (9 / 10) tx_fake_gmv [''daily_metrics'']\<rparr>,
      \<lparr>fk_keywords = [kw_new_users, kw_users],
       fk_response = fake_response (''SELECT COUNT(*) as new_users FROM users WHERE registered_date LIKE '' @
         quoted ''2024-01%'') (85 / 100) tx_fake_users [''users'']\<rparr>,
      \<lparr>fk_keywords = [kw_orders, kw_order_volume],
       fk_response = fake_response (''SELECT COUNT(*) as order_count FROM orders WHERE order_date = '' @
         quoted ''2024-01-15'') (85 / 100) tx_fake_orders [''orders'']\<rparr>,
      \<lparr>fk_keywords = [kw_product, kw_top_product_cn, kw_hot, kw_hot_product, kw_top_product_lc],
       fk_response = fake_response (''SELECT p.name, p.category, SUM(o.quantity) as total_qty FROM orders o '' @
         ''JOIN products p ON o.product_id = p.id WHERE o.status = '' @ quoted ''completed'' @
         '' GROUP BY o.product_id ORDER BY total_qty DESC LIMIT 5'') (8 / 10) tx_fake_products [''products'', ''orders'']\<rparr>,
      \<lparr>fk_keywords = [kw_refund, kw_refund_rate],
       fk_response = fake_response (''SELECT (SELECT COUNT(*) FROM refund_orders) * 100.0 / '' @
         ''(SELECT COUNT(*) FROM orders) as refund_rate_percent'') (8 / 10) tx_fake_refund [''refund_orders'', ''orders'']\<rparr>]"

definition TOOL_NAME_PRIORITY :: "string list" where
  "TOOL_NAME_PRIORITY = [''execute_sql'', ''run_sql'', ''query_database'']"

text \<open>The tools are those the planners build, whose function is a dict.\<close>

definition function_name :: "unicode \<Rightarrow> 'w env \<Rightarrow> json \<Rightarrow> string" where
  "function_name u env tool = u_strip_text u (text_or_empty env (field_of (field_of tool ''function'') ''name''))"

definition select_tool_name :: "unicode \<Rightarrow> 'w env \<Rightarrow> json list \<Rightarrow> string" where
  "select_tool_name u env tools =
     (let names = filter (\<lambda>n. n \<noteq> []) (map (function_name u env) tools)
      in case List.find (\<lambda>p. p \<in> set names) TOOL_NAME_PRIORITY of
           Some p \<Rightarrow> p
         | None \<Rightarrow> (case names of [] \<Rightarrow> [] | n # _ \<Rightarrow> n))"

definition build_tool_calls :: "'w llm_env \<Rightarrow> jdict \<Rightarrow> bool \<Rightarrow> json list \<Rightarrow> json \<Rightarrow> json list option" where
  "build_tool_calls le payload hit tools choice =
     (let u = le_unicode le; env = le_env le; forced = function_name u env choice;
          name = (if forced = [] then select_tool_name u env tools else forced);
          arguments = le_dumps le (JObj [(''sql'', JStr (or_str (dget payload ''sql'')))])
      in if tools = [] \<or> choice = JStr ''none'' \<or> (forced = [] \<and> \<not> hit) \<or> name = [] then None
         else Some [tool_call_dict ''fake-tool-call-1'' name arguments])"

definition fake_generate :: "'w llm_env \<Rightarrow> string \<Rightarrow> json list \<Rightarrow> json \<Rightarrow> 'w \<Rightarrow> llm_reply" where
  "fake_generate le prompt tools choice w =
     (let entry = first_match fk_keywords RESPONSE_MAP prompt;
          payload = (case entry of None \<Rightarrow> fake_response [] 0 tx_fake_none [] | Some e \<Rightarrow> fk_response e);
          calls = build_tool_calls le payload (entry \<noteq> None) tools choice
      in \<lparr>lr_content = (if calls = None then le_dumps le (JObj payload) else []), lr_provider = ''fake'',
          lr_model = ''fake-offline'', lr_prompt_tokens = 0, lr_completion_tokens = 0, lr_total_tokens = 0,
          lr_cost = 0, lr_request_id = ''fake-request'', lr_latency_ms = elapsed_ms (le_env le) (mono_clock (le_env le) w) w,
          lr_error_type = None, lr_tool_calls = calls_json calls\<rparr>)"

text \<open>The default stream: the whole answer, cut into chunks.\<close>

definition default_stream :: "settings \<Rightarrow> llm_reply \<Rightarrow> string list" where
  "default_stream cfg r =
     map concat (text_chunks (nat (max 1 (st_llm_stream_chunk_chars cfg))) (py_chars (lr_content r)))"

subsection \<open>The choice of a provider\<close>

definition sql_provider_of ::
  "string \<Rightarrow> string \<Rightarrow> (string \<Rightarrow> 'w \<Rightarrow> (exn + llm_reply) \<times> 'w) \<Rightarrow> 'w sql_provider"
where
  "sql_provider_of name model generate = \<lparr>pv_name = name, pv_model = model, pv_generate = generate\<rparr>"

definition create_provider ::
  "'w llm_env \<Rightarrow> (string \<Rightarrow> string option) \<Rightarrow> settings \<Rightarrow> llm_options \<Rightarrow> string option \<Rightarrow> 'w provider_choice"
where
  "create_provider le envvar cfg opts provider_name =
     (let name = or_text provider_name (st_llm_provider cfg); c = llm_config_of (le_unicode le) envvar cfg opts
      in if name = ''fake''
         then PReady (sql_provider_of ''fake'' [] (\<lambda>p w. (Inr (fake_generate le p [] JNull w), w)))
         else if name = ''litellm''
         then (if lc_api_key c = [] then PConfig tx_lite_no_key
               else PReady (sql_provider_of ''litellm'' (lc_model c) (\<lambda>p. lite_generate le c p JNull JNull)))
         else if name = ''openai_compatible''
         then (if lc_base_url c = [] then PConfig tx_direct_no_url
               else if lc_api_key c = [] then PConfig tx_direct_no_key
               else PReady (sql_provider_of ''openai_compatible'' (lc_model c) (\<lambda>p. direct_generate le c p JNull JNull)))
         else PUnknown (tx_unknown_provider (quote_text name)))"

subsection \<open>The attempts of the direct provider\<close>

text \<open>The worlds in which the successive requests are made, and the outcomes of the first \<open>n\<close> of them.\<close>

fun attempt_world :: "'w llm_env \<Rightarrow> llm_config \<Rightarrow> ('w \<Rightarrow> (exn + 'r) \<times> 'w) \<Rightarrow> nat \<Rightarrow> 'w \<Rightarrow> 'w" where
  "attempt_world le c request 0 w = w"
| "attempt_world le c request (Suc n) w = attempt_world le c request n (back_off le c (snd (request w)))"

definition outcomes :: "'w llm_env \<Rightarrow> llm_config \<Rightarrow> ('w \<Rightarrow> (exn + 'r) \<times> 'w) \<Rightarrow> nat \<Rightarrow> 'w \<Rightarrow> ((exn + 'r) \<times> 'w) list" where
  "outcomes le c request n w = map (\<lambda>k. request (attempt_world le c request k w)) [0..<n]"

definition retryable :: "(exn + 'r) \<times> 'w \<Rightarrow> bool" where
  "retryable out = (case fst out of Inl e \<Rightarrow> fst e \<in> set RETRYABLE_ERRORS | Inr _ \<Rightarrow> False)"

definition first_settled :: "((exn + 'r) \<times> 'w) list \<Rightarrow> (exn + 'r) \<times> 'w" where
  "first_settled outs = (case List.find (\<lambda>o'. \<not> retryable o') outs of Some r \<Rightarrow> r | None \<Rightarrow> last outs)"

lemma outcomes_Suc:
  "outcomes le c request (Suc n) w = request w # outcomes le c request n (back_off le c (snd (request w)))"
proof -
  have "[0..<Suc n] = 0 # map Suc [0..<n]" by (simp add: upt_conv_Cons map_Suc_upt del: upt_Suc)
  then show ?thesis by (simp add: outcomes_def o_def del: upt_Suc)
qed

lemma outcomes_Nil [simp]: "outcomes le c request n w = [] \<longleftrightarrow> n = 0"
  by (simp add: outcomes_def)

lemma direct_loop_settles:
  "attempt \<le> lc_max_retries c \<Longrightarrow>
   direct_loop le c request attempt w = first_settled (outcomes le c request (Suc (lc_max_retries c - attempt)) w)"
proof (induction le c request attempt w rule: direct_loop.induct)
  case (1 le c request attempt w)
  obtain r w1 where rw: "request w = (r, w1)" by (rule prod.exhaust)
  show ?case
  proof (cases "retryable (request w) \<and> attempt < lc_max_retries c")
    case True
    then obtain e where e: "r = Inl e" "fst e \<in> set RETRYABLE_ERRORS"
      by (auto simp: retryable_def rw split: sum.splits)
    have "lc_max_retries c - attempt = Suc (lc_max_retries c - Suc attempt)"
      using True by (simp add: Suc_diff_Suc)
    then have "first_settled (outcomes le c request (Suc (lc_max_retries c - attempt)) w) =
        first_settled (outcomes le c request (Suc (lc_max_retries c - Suc attempt)) (back_off le c w1))"
      using True by (subst outcomes_Suc) (simp add: first_settled_def rw split: option.split)
    then show ?thesis using 1 True e rw by (subst direct_loop.simps) simp
  next
    case False
    then have "direct_loop le c request attempt w = request w"
      by (subst direct_loop.simps) (auto simp: rw retryable_def split: sum.splits)
    moreover have "first_settled (outcomes le c request (Suc (lc_max_retries c - attempt)) w) = request w"
    proof (cases "retryable (request w)")
      case True
      then have "lc_max_retries c - attempt = 0" using False 1 by simp
      then show ?thesis using True by (simp add: outcomes_Suc first_settled_def outcomes_def)
    qed (simp add: outcomes_Suc first_settled_def)
    ultimately show ?thesis by simp
  qed
qed

text \<open>
  C26. The direct provider gives up. Its \<open>while True\<close> makes at most one request more than the retries the
  settings allow, and its outcome is the first answer, or the first failure that is neither a timeout nor a
  rate limit nor a bad response; when all of them are such failures, it is the last one.
\<close>

theorem direct_provider_settles:
  "direct_generate le c prompt tools choice w =
     first_settled (outcomes le c
       (request_once le ''openai_compatible'' tx_llm_direct_httpx c prompt tools choice (mono_clock (le_env le) w))
       (Suc (lc_max_retries c)) w)"
  unfolding direct_generate_def by (subst direct_loop_settles) simp_all

subsection \<open>Streamed text\<close>

lemma text_chunks_parts:
  "0 < n \<Longrightarrow> concat (text_chunks n s) = s \<and> list_all (\<lambda>x. x \<noteq> [] \<and> length x \<le> n) (text_chunks n s)"
proof (induction n s rule: text_chunks.induct)
  case (1 n s)
  then show ?case by (subst (1 2) text_chunks.simps) auto
qed

lemma concat_map_concat: "concat (map concat xss) = concat (concat xss)"
  by (induction xss) simp_all

lemma py_chars_whole: "concat (py_chars s) = s"
  by (induction s rule: py_chars.induct) auto

text \<open>
  The stream of a provider without one of its own is the answer cut up: the pieces joined give the
  content back, and each holds at least one character and at most the configured number.
\<close>

lemma default_stream_roundtrip:
  "concat (default_stream cfg r) = lr_content r \<and>
   list_all (\<lambda>p. int (py_len p) \<le> max 1 (st_llm_stream_chunk_chars cfg)) (default_stream cfg r)"
proof -
  let ?n = "nat (max 1 (st_llm_stream_chunk_chars cfg))" and ?s = "py_chars (lr_content r)"
  have parts: "concat (text_chunks ?n ?s) = ?s" "list_all (\<lambda>x. x \<noteq> [] \<and> length x \<le> ?n) (text_chunks ?n ?s)"
    using text_chunks_parts [of ?n ?s] by simp_all
  have "py_len (concat x) \<le> ?n" if "x \<in> set (text_chunks ?n ?s)" for x
  proof -
    have "set x \<subseteq> set (concat (text_chunks ?n ?s))" using that by auto
    then have "\<forall>c \<in> set x. list_all is_cont (tl c)"
      using chars_ok_py_chars [of "lr_content r"] unfolding parts(1) chars_ok_def by blast
    from py_len_chars [OF this] show ?thesis using parts(2) that by (fastforce simp: list_all_iff)
  qed
  then have "list_all (\<lambda>p. int (py_len p) \<le> max 1 (st_llm_stream_chunk_chars cfg)) (default_stream cfg r)"
    by (fastforce simp: default_stream_def list_all_iff)
  moreover have "concat (default_stream cfg r) = concat (concat (text_chunks ?n ?s))"
    by (simp add: default_stream_def concat_map_concat)
  ultimately show ?thesis by (simp add: parts(1) py_chars_whole)
qed

subsection \<open>Streamed tool calls\<close>

definition first_text :: "string list \<Rightarrow> string" where
  "first_text ts = (case filter (\<lambda>t. t \<noteq> []) ts of [] \<Rightarrow> [] | t # _ \<Rightarrow> t)"

definition of_index :: "int \<Rightarrow> call_fragment list \<Rightarrow> call_fragment list" where
  "of_index i fs = filter (\<lambda>f. fg_index f = i) fs"

lemma first_text_snoc: "first_text (ts @ [t]) = (if first_text ts = [] then t else first_text ts)"
  by (induction ts) (simp_all add: first_text_def)

lemma slot_at_dput: "slot_at (dput acc k v) i = (if k = i then v else slot_at acc i)"
  by (simp add: slot_at_def dput_def update_conv')

lemma dput_keys: "fst ` set (dput acc k v) = insert k (fst ` set acc)"
  by (induction acc) (auto simp: dput_def)

lemma merge_fragment_distinct: "distinct (map fst acc) \<Longrightarrow> distinct (map fst (merge_fragment f acc))"
  by (simp add: merge_fragment_def Let_def dput_def distinct_update)

lemma merge_fragment_keys: "fst ` set (merge_fragment f acc) = insert (fg_index f) (fst ` set acc)"
  by (simp add: merge_fragment_def Let_def dput_keys)

lemma slot_at_merge:
  "slot_at (merge_fragment f acc) i =
     (if fg_index f = i
      then \<lparr>cl_id = (if cl_id (slot_at acc i) = [] then fg_id f else cl_id (slot_at acc i)),
            cl_name = (if cl_name (slot_at acc i) = [] then fg_name f else cl_name (slot_at acc i)),
            cl_arguments = cl_arguments (slot_at acc i) @ fg_arguments f\<rparr>
      else slot_at acc i)"
  by (auto simp: merge_fragment_def Let_def slot_at_dput)

text \<open>
  A tool call that arrives in fragments comes out whole. However the fragments of the calls are
  interleaved, the call of an index has the first id and the first name that were not empty among its own
  fragments, and their arguments joined in order; there is one call for each index that occurred.
\<close>

lemma stream_calls_assembled:
  "slot_at (fold merge_fragment fs []) i =
     \<lparr>cl_id = first_text (map fg_id (of_index i fs)), cl_name = first_text (map fg_name (of_index i fs)),
      cl_arguments = concat (map fg_arguments (of_index i fs))\<rparr> \<and>
   distinct (map fst (fold merge_fragment fs [])) \<and>
   fst ` set (fold merge_fragment fs []) = fg_index ` set fs"
proof (induction fs rule: rev_induct)
  case (snoc f fs)
  then show ?case
    by (simp add: slot_at_merge merge_fragment_distinct merge_fragment_keys of_index_def first_text_snoc)
qed (simp add: slot_at_def empty_slot_def of_index_def first_text_def)

end
