(* ===== verification/Stdio_Client.thy ===== *)
theory Stdio_Client
  imports Llm_Wire Runtime_Tools
begin

text \<open>
  The MCP client over a child process (\<open>app/tools/mcp/stdio_client.py\<close>): start and handshake, requests with
  their checks, failures with restart, the mapping of tools and results. The operating system is a
  parameter: starting and ending a process, its pipes, and the lines it answers with. The client's lock makes
  every operation one step; what the reader of the error stream adds comes between operations.
\<close>

subsection \<open>Command lines\<close>

text \<open>\<open>shlex.split(args, posix=True)\<close>.\<close>

datatype shlex_state = ShSpace | ShWord | ShQuote char | ShEscape shlex_state

definition sh_space :: "char \<Rightarrow> bool" where
  "sh_space c \<longleftrightarrow> c \<in> {CHR '' '', CHR 0x09, CHR 0x0D, CHR 0x0A}"

abbreviation backslash :: char where "backslash \<equiv> CHR 0x5C"
abbreviation single_quote :: char where "single_quote \<equiv> CHR 0x27"
abbreviation double_quote :: char where "double_quote \<equiv> CHR 0x22"

definition sh_next :: "shlex_state \<Rightarrow> char \<Rightarrow> shlex_state" where
  "sh_next s c = (if c = single_quote \<or> c = double_quote then ShQuote c else if c = backslash then ShEscape ShWord else s)"

fun shlex_split :: "shlex_state \<Rightarrow> string \<Rightarrow> bool \<Rightarrow> string \<Rightarrow> exn + string list" where
  "shlex_split ShSpace token qd [] = Inr []"
| "shlex_split ShWord token qd [] = Inr (if token \<noteq> [] \<or> qd then [token] else [])"
| "shlex_split (ShQuote q) token qd [] = Inl (''ValueError'', ''No closing quotation'')"
| "shlex_split (ShEscape s) token qd [] = Inl (''ValueError'', ''No escaped character'')"
| "shlex_split ShSpace token qd (c # cs) =
     (if sh_space c then shlex_split ShSpace [] False cs
      else shlex_split (sh_next ShWord c) (if sh_next ShSpace c = ShSpace then [c] else []) False cs)"
| "shlex_split ShWord token qd (c # cs) =
     (if sh_space c
      then if token \<noteq> [] \<or> qd then then_try (shlex_split ShSpace [] False cs) (\<lambda>ts. Inr (token # ts))
           else shlex_split ShSpace [] False cs
      else shlex_split (sh_next ShWord c) (if sh_next ShWord c = ShWord then token @ [c] else token) qd cs)"
| "shlex_split (ShQuote q) token qd (c # cs) =
     (if c = q then shlex_split ShWord token True cs
      else if c = backslash \<and> q = double_quote then shlex_split (ShEscape (ShQuote q)) token True cs
      else shlex_split (ShQuote q) (token @ [c]) True cs)"
| "shlex_split (ShEscape s) token qd (c # cs) =
     shlex_split s
       (token @ (case s of ShQuote q \<Rightarrow> if c \<noteq> backslash \<and> c \<noteq> q then [backslash, c] else [c] | _ \<Rightarrow> [c])) qd cs"

subsection \<open>Processes and pipes\<close>

datatype read_result = ReadTimeout | ReadFailed | ReadLine string

text \<open>
  What the client uses of a child process, by its number: the exit code if it has ended; one line of JSON to
  its input, which an \<open>OSError\<close> may refuse; the next line of its output within a time; \<open>terminate\<close>,
  \<open>wait\<close> and \<open>kill\<close>, which may raise; closing its streams; and what is left of its error stream.
\<close>

record 'w pipe =
  pi_spawn :: "string list \<Rightarrow> string option \<Rightarrow> (string \<times> string) list \<Rightarrow> 'w \<Rightarrow> (exn + nat) \<times> 'w"
  pi_poll :: "nat \<Rightarrow> 'w \<Rightarrow> int option \<times> 'w"
  pi_send :: "nat \<Rightarrow> jdict \<Rightarrow> 'w \<Rightarrow> bool \<times> 'w"
  pi_read :: "nat \<Rightarrow> rat \<Rightarrow> 'w \<Rightarrow> read_result \<times> 'w"
  pi_terminate :: "nat \<Rightarrow> 'w \<Rightarrow> bool \<times> 'w"
  pi_wait :: "nat \<Rightarrow> rat \<Rightarrow> 'w \<Rightarrow> bool \<times> 'w"
  pi_kill :: "nat \<Rightarrow> 'w \<Rightarrow> bool \<times> 'w"
  pi_close :: "nat \<Rightarrow> 'w \<Rightarrow> 'w"
  pi_stderr :: "nat \<Rightarrow> 'w \<Rightarrow> string \<times> 'w"
  pi_environ :: "(string \<times> string) list"
  pi_loads :: "string \<Rightarrow> json option"

record stdio_config =
  sf_server_name :: string
  sf_command :: string
  sf_args :: string
  sf_timeout :: rat
  sf_workdir :: string
  sf_env_allowlist :: string
  sf_command_allowlist :: string
  sf_version :: string

record stdio_client =
  sc_process :: "nat option"
  sc_started :: bool
  sc_initialized :: bool
  sc_request_id :: nat
  sc_last_error :: string
  sc_request_count :: nat
  sc_failure_count :: nat
  sc_restart_count :: nat
  sc_last_restart_reason :: string
  sc_stderr :: string

definition stdio_init :: stdio_client where
  "stdio_init = \<lparr>sc_process = None, sc_started = False, sc_initialized = False, sc_request_id = 0, sc_last_error = [],
     sc_request_count = 0, sc_failure_count = 0, sc_restart_count = 0, sc_last_restart_reason = [], sc_stderr = []\<rparr>"

definition MCP_STDERR_MAX_CHARS :: nat where "MCP_STDERR_MAX_CHARS = 4000"

definition MCP_SUPPORTED_PROTOCOL_VERSIONS :: "string list" where
  "MCP_SUPPORTED_PROTOCOL_VERSIONS = [''2024-11-05'', ''2025-03-26'', ''2025-06-18'']"

definition server_says :: "stdio_config \<Rightarrow> string \<Rightarrow> string" where
  "server_says cfg rest = ''MCP server '' @ quote_text (sf_server_name cfg) @ '' '' @ rest"

definition crashed :: "stdio_config \<Rightarrow> string \<Rightarrow> exn" where
  "crashed cfg rest = (''MCPProcessCrashedError'', server_says cfg rest)"

definition broken :: "stdio_config \<Rightarrow> string \<Rightarrow> exn" where
  "broken cfg rest = (''MCPProtocolError'', server_says cfg rest)"

text \<open>The text of a value in an f-string.\<close>

definition shown :: "'v env \<Rightarrow> json \<Rightarrow> string" where
  "shown env v = (case v of JStr s \<Rightarrow> s | x \<Rightarrow> py_str env x)"

subsection \<open>Starting\<close>

definition client_env :: "unicode \<Rightarrow> stdio_config \<Rightarrow> (string \<times> string) list \<Rightarrow> (string \<times> string) list" where
  "client_env u cfg environ =
     (let allow = parse_csv u (sf_env_allowlist cfg)
      in if allow = [] then environ
         else fold (\<lambda>k e. case map_of environ k of None \<Rightarrow> e | Some v \<Rightarrow> dput e k v) allow [])"

definition ensure_configured :: "unicode \<Rightarrow> stdio_config \<Rightarrow> exn + unit" where
  "ensure_configured u cfg =
     (let command = u_strip_text u (sf_command cfg); allow = parse_csv u (sf_command_allowlist cfg)
      in if command = [] then Inl (''MCPConfigError'', server_says cfg ''missing command. Set MCP_SERVER_COMMAND.'')
         else if allow \<noteq> [] \<and> command \<notin> set allow
         then Inl (''MCPConfigError'', server_says cfg (''command '' @ quote_text command @ '' is not in allowlist.''))
         else Inr ())"

definition build_cmdline :: "unicode \<Rightarrow> stdio_config \<Rightarrow> exn + string list" where
  "build_cmdline u cfg =
     then_try (shlex_split ShSpace [] False (sf_args cfg)) (\<lambda>parts. Inr (u_strip_text u (sf_command cfg) # parts))"

text \<open>\<open>process is None or process.poll() is not None\<close>.\<close>

definition no_process :: "'w pipe \<Rightarrow> stdio_client \<times> 'w \<Rightarrow> bool \<times> stdio_client \<times> 'w" where
  "no_process pp st =
     (case sc_process (fst st) of
        None \<Rightarrow> (True, st)
      | Some p \<Rightarrow> (case pi_poll pp p (snd st) of (code, w) \<Rightarrow> (code \<noteq> None, fst st, w)))"

definition start_process ::
  "unicode \<Rightarrow> 'w pipe \<Rightarrow> stdio_config \<Rightarrow> stdio_client \<times> 'w \<Rightarrow> (exn + unit) \<times> stdio_client \<times> 'w"
where
  "start_process u pp cfg st =
     (case no_process pp st of
        (False, st1) \<Rightarrow> (Inr (), st1)
      | (True, c, w) \<Rightarrow>
          bind_out (build_cmdline u cfg, c, w) (\<lambda>cmdline _.
            let dir = u_strip_text u (sf_workdir cfg)
            in case pi_spawn pp cmdline (if dir = [] then None else Some dir) (client_env u cfg (pi_environ pp)) w of
                 (Inl e, w1) \<Rightarrow> (Inl e, c, w1)
               | (Inr p, w1) \<Rightarrow>
                   (Inr (), c\<lparr>sc_process := Some p, sc_started := True, sc_initialized := False\<rparr>, w1)))"

subsection \<open>Requests\<close>

text \<open>\<open>v == n\<close> for an int \<open>n\<close>.\<close>

definition equals_int :: "json \<Rightarrow> int \<Rightarrow> bool" where
  "equals_int v n =
     (case v of JInt i \<Rightarrow> i = n | JFloat q \<Rightarrow> q = of_int n | JBool b \<Rightarrow> (if b then 1 else 0) = n | _ \<Rightarrow> False)"

definition check_response :: "'v env \<Rightarrow> stdio_config \<Rightarrow> nat \<Rightarrow> json \<Rightarrow> exn + json" where
  "check_response env cfg rid resp =
     (case resp of
        JObj d \<Rightarrow>
          if dget d ''jsonrpc'' \<noteq> JStr ''2.0'' then Inl (broken cfg ''invalid jsonrpc version.'')
          else if \<not> equals_int (dget d ''id'') (int rid)
          then Inl (broken cfg (''response id mismatch: expect='' @ nat_text rid @ '', got='' @
                 shown env (dget d ''id'') @ ''.''))
          else if dget d ''error'' \<noteq> JNull
          then Inl (broken cfg (''returned error: '' @ shown env
                 (case dget d ''error'' of
                    JObj e \<Rightarrow> dget_or e ''message'' (JStr (py_str env (JObj e)))
                  | err \<Rightarrow> err)))
          else (case map_of d ''result'' of
                  None \<Rightarrow> Inl (broken cfg ''response missing result.'') | Some v \<Rightarrow> Inr v)
      | v \<Rightarrow> Inl (''AttributeError'', attr_error v ''get''))"

definition read_response ::
  "unicode \<Rightarrow> 'v env \<Rightarrow> 'w pipe \<Rightarrow> stdio_config \<Rightarrow> nat \<Rightarrow> read_result \<Rightarrow> exn + json"
where
  "read_response u env pp cfg rid r =
     (case r of
        ReadTimeout \<Rightarrow> Inl (''MCPTimeoutError'', server_says cfg ''response timeout.'')
      | ReadFailed \<Rightarrow> Inl (broken cfg ''cannot read response.'')
      | ReadLine raw \<Rightarrow>
          (let line = u_strip_text u raw
           in if line = [] then Inl (broken cfg ''returned empty response.'')
              else (case pi_loads pp line of
                      None \<Rightarrow> Inl (broken cfg (''returned invalid JSON: '' @ line))
                    | Some resp \<Rightarrow> check_response env cfg rid resp)))"

definition request_message :: "nat \<Rightarrow> string \<Rightarrow> jdict \<Rightarrow> jdict" where
  "request_message rid verb params =
     [(''jsonrpc'', JStr ''2.0''), (''id'', JInt (int rid)), (''method'', JStr verb), (''params'', JObj params)]"

definition request ::
  "unicode \<Rightarrow> 'v env \<Rightarrow> 'w pipe \<Rightarrow> stdio_config \<Rightarrow> string \<Rightarrow> jdict \<Rightarrow> stdio_client \<times> 'w \<Rightarrow>
     (exn + json) \<times> stdio_client \<times> 'w"
where
  "request u env pp cfg verb params st =
     (case sc_process (fst st) of
        None \<Rightarrow> (Inl (crashed cfg ''is not started.''), st)
      | Some p \<Rightarrow>
          (case pi_poll pp p (snd st) of
             (Some _, w) \<Rightarrow>
               (case pi_poll pp p w of
                  (code, w1) \<Rightarrow>
                    (Inl (crashed cfg (''exited (exit='' @
                       (case code of None \<Rightarrow> ''None'' | Some n \<Rightarrow> int_text n) @ '').'')), fst st, w1))
           | (None, w) \<Rightarrow>
               (let rid = Suc (sc_request_id (fst st));
                    c = (fst st)\<lparr>sc_request_id := rid, sc_request_count := Suc (sc_request_count (fst st))\<rparr>
                in case pi_send pp p (request_message rid verb params) w of
                     (False, w1) \<Rightarrow> (Inl (crashed cfg ''write failed.''), c, w1)
                   | (True, w1) \<Rightarrow>
                       (case pi_read pp p (sf_timeout cfg) w1 of
                          (r, w2) \<Rightarrow> (read_response u env pp cfg rid r, c, w2)))))"

definition notify_message :: "string \<Rightarrow> jdict" where
  "notify_message verb = [(''jsonrpc'', JStr ''2.0''), (''method'', JStr verb)]"

definition notify ::
  "'w pipe \<Rightarrow> stdio_config \<Rightarrow> string \<Rightarrow> stdio_client \<times> 'w \<Rightarrow> (exn + unit) \<times> stdio_client \<times> 'w"
where
  "notify pp cfg verb st =
     (case sc_process (fst st) of
        None \<Rightarrow> (Inl (crashed cfg ''is not started.''), st)
      | Some p \<Rightarrow>
          (case pi_send pp p (notify_message verb) (snd st) of
             (ok, w) \<Rightarrow> (if ok then Inr () else Inl (crashed cfg ''write failed.''), fst st, w)))"

subsection \<open>The handshake\<close>

definition version_check :: "unicode \<Rightarrow> stdio_config \<Rightarrow> json \<Rightarrow> exn + unit" where
  "version_check u cfg result =
     (case result of
        JObj d \<Rightarrow>
          (case dget d ''protocolVersion'' of
             JStr v \<Rightarrow>
               if u_strip_text u v = [] then Inl (broken cfg ''initialize result missing protocolVersion.'')
               else if v \<notin> set MCP_SUPPORTED_PROTOCOL_VERSIONS
               then Inl (broken cfg (''negotiated unsupported protocolVersion '' @ quote_text v @ '', expected one of ['' @
                      str_join '', '' (map quote_text MCP_SUPPORTED_PROTOCOL_VERSIONS) @ ''].''))
               else Inr ()
           | _ \<Rightarrow> Inl (broken cfg ''initialize result missing protocolVersion.''))
      | _ \<Rightarrow> Inl (''MCPProtocolError'', ''Initialize result must be an object.''))"

definition initialize ::
  "unicode \<Rightarrow> 'v env \<Rightarrow> 'w pipe \<Rightarrow> stdio_config \<Rightarrow> stdio_client \<times> 'w \<Rightarrow> (exn + unit) \<times> stdio_client \<times> 'w"
where
  "initialize u env pp cfg st =
     bind_out
       (request u env pp cfg ''initialize''
          [(''protocolVersion'', JStr ''2024-11-05''), (''capabilities'', JObj []),
           (''clientInfo'', JObj [(''name'', JStr ''project-b''), (''version'', JStr (sf_version cfg))])] st)
       (\<lambda>result st1. bind_out (version_check u cfg result, st1)
       (\<lambda>_ st2. bind_out (notify pp cfg ''notifications/initialized'' st2)
       (\<lambda>_ (c, w). (Inr (), c\<lparr>sc_initialized := True\<rparr>, w))))"

definition ensure_started ::
  "unicode \<Rightarrow> 'v env \<Rightarrow> 'w pipe \<Rightarrow> stdio_config \<Rightarrow> stdio_client \<times> 'w \<Rightarrow> (exn + unit) \<times> stdio_client \<times> 'w"
where
  "ensure_started u env pp cfg st =
     bind_out (ensure_configured u cfg, st) (\<lambda>_ st1.
       case no_process pp st1 of
         (gone, st2) \<Rightarrow>
           bind_out (if gone then start_process u pp cfg st2 else (Inr (), st2)) (\<lambda>_ st3.
             if sc_initialized (fst st3) then (Inr (), st3) else initialize u env pp cfg st3))"

subsection \<open>Failures\<close>

definition append_stderr :: "string \<Rightarrow> stdio_client \<Rightarrow> stdio_client" where
  "append_stderr chunk c =
     (if chunk = [] then c
      else (let cs = py_chars (sc_stderr c @ chunk)
            in c\<lparr>sc_stderr := concat (drop (length cs - MCP_STDERR_MAX_CHARS) cs)\<rparr>))"

definition end_process :: "'w pipe \<Rightarrow> stdio_config \<Rightarrow> nat \<Rightarrow> 'w \<Rightarrow> 'w" where
  "end_process pp cfg p w =
     (case pi_poll pp p w of
        (Some _, w1) \<Rightarrow> w1
      | (None, w1) \<Rightarrow>
          (case pi_terminate pp p w1 of
             (False, w2) \<Rightarrow> w2
           | (True, w2) \<Rightarrow>
               (case pi_wait pp p (min 1 (max (1 / 5) (sf_timeout cfg))) w2 of
                  (True, w3) \<Rightarrow> w3
                | (False, w3) \<Rightarrow>
                    (case pi_kill pp p w3 of (ok, w4) \<Rightarrow> if ok then snd (pi_wait pp p 1 w4) else w4))))"

definition cleanup_process ::
  "'w pipe \<Rightarrow> stdio_config \<Rightarrow> string \<Rightarrow> bool \<Rightarrow> stdio_client \<times> 'w \<Rightarrow> stdio_client \<times> 'w"
where
  "cleanup_process pp cfg reason terminate st =
     (let c = (fst st)\<lparr>sc_process := None, sc_started := False, sc_initialized := False\<rparr>
      in (if reason = [] then c else c\<lparr>sc_last_restart_reason := reason\<rparr>,
          case sc_process (fst st) of
            None \<Rightarrow> snd st
          | Some p \<Rightarrow> pi_close pp p (if terminate then end_process pp cfg p (snd st) else snd st)))"

definition collect_stderr :: "'w pipe \<Rightarrow> stdio_client \<times> 'w \<Rightarrow> stdio_client \<times> 'w" where
  "collect_stderr pp st =
     (case sc_process (fst st) of
        None \<Rightarrow> st
      | Some p \<Rightarrow>
          (case pi_poll pp p (snd st) of
             (None, w) \<Rightarrow> (fst st, w)
           | (Some _, w) \<Rightarrow> (case pi_stderr pp p w of (chunk, w1) \<Rightarrow> (append_stderr chunk (fst st), w1))))"

definition with_stderr :: "unicode \<Rightarrow> stdio_client \<Rightarrow> string \<Rightarrow> string" where
  "with_stderr u c message =
     (let cs = py_chars (sc_stderr c); tail = u_strip_text u (concat (drop (length cs - MCP_STDERR_MAX_CHARS) cs))
      in if tail = [] then message else message @ '' | stderr_tail='' @ tail)"

definition record_failure ::
  "unicode \<Rightarrow> 'w pipe \<Rightarrow> stdio_config \<Rightarrow> exn \<Rightarrow> string \<Rightarrow> stdio_client \<times> 'w \<Rightarrow> string \<times> stdio_client \<times> 'w"
where
  "record_failure u pp cfg e reason st =
     (case collect_stderr pp ((fst st)\<lparr>sc_failure_count := Suc (sc_failure_count (fst st))\<rparr>, snd st) of
        (c, w) \<Rightarrow>
          (let text = with_stderr u c (snd e); c1 = c\<lparr>sc_last_error := text\<rparr>
           in (text,
               if reason = [] then (c1, w)
               else cleanup_process pp cfg reason True (c1\<lparr>sc_restart_count := Suc (sc_restart_count c1)\<rparr>, w))))"

definition PROTOCOL_FAILURES :: "string list" where
  "PROTOCOL_FAILURES = [''MCPProtocolError'', ''MCPTimeoutError'', ''MCPProcessCrashedError'']"

subsection \<open>Tools\<close>

definition normalize_risk_level :: "unicode \<Rightarrow> json \<Rightarrow> risk_level" where
  "normalize_risk_level u v =
     (case v of
        JStr s \<Rightarrow> (if clean_lower u s = ''low'' then RLow else if clean_lower u s = ''high'' then RHigh else RMedium)
      | _ \<Rightarrow> RMedium)"

definition normalize_permission_scope :: "unicode \<Rightarrow> json \<Rightarrow> string" where
  "normalize_permission_scope u v =
     (case v of JStr s \<Rightarrow> if u_strip_text u s = [] then ''read'' else u_strip_text u s | _ \<Rightarrow> ''read'')"

text \<open>\<open>item.get(a)\<close>, and \<open>item.get(b)\<close> when that is None.\<close>

definition either_key :: "jdict \<Rightarrow> string \<Rightarrow> string \<Rightarrow> json" where
  "either_key d a b = (if dget d a = JNull then dget d b else dget d a)"

definition map_tool_item :: "unicode \<Rightarrow> 'v env \<Rightarrow> json \<Rightarrow> mcp_tool_info option" where
  "map_tool_item u env entry =
     (case entry of
        JObj d \<Rightarrow>
          (case dget d ''name'' of
             JStr n \<Rightarrow>
               if u_strip_text u n = [] then None
               else Some \<lparr>mi_name = u_strip_text u n,
                      mi_description = shown env (dget_or d ''description'' (JStr [])),
                      mi_input_schema = or_dict (either_key d ''inputSchema'' ''input_schema''),
                      mi_output_schema = or_dict (either_key d ''outputSchema'' ''output_schema''),
                      mi_risk_level = normalize_risk_level u (either_key d ''riskLevel'' ''risk_level''),
                      mi_permission_scope = normalize_permission_scope u
                        (either_key d ''permissionScope'' ''permission_scope'')\<rparr>
           | _ \<Rightarrow> None)
      | _ \<Rightarrow> None)"

definition read_tools ::
  "unicode \<Rightarrow> 'v env \<Rightarrow> json \<Rightarrow> stdio_client \<Rightarrow> mcp_tool_info list \<times> stdio_client"
where
  "read_tools u env result c =
     (let not_list = ([], c\<lparr>sc_last_error := ''Invalid tools/list payload: tools is not a list.''\<rparr>);
          map_tools = (\<lambda>vs. (List.map_filter (map_tool_item u env) vs, c))
      in case result of
           JObj d \<Rightarrow> (case dget_or d ''tools'' (JList []) of JList vs \<Rightarrow> map_tools vs | _ \<Rightarrow> not_list)
         | JList vs \<Rightarrow> map_tools vs
         | v \<Rightarrow> ([], c\<lparr>sc_last_error := ''Invalid tools/list result type: '' @ type_name v\<rparr>))"

text \<open>The attempts of \<open>list_tools\<close>, of which \<open>n\<close> are left; None when it gives up.\<close>

fun list_attempts ::
  "unicode \<Rightarrow> 'v env \<Rightarrow> 'w pipe \<Rightarrow> stdio_config \<Rightarrow> nat \<Rightarrow> stdio_client \<times> 'w \<Rightarrow> (exn + json option) \<times> stdio_client \<times> 'w"
where
  "list_attempts u env pp cfg 0 st = (Inr None, st)"
| "list_attempts u env pp cfg (Suc n) st =
     (case bind_out (ensure_started u env pp cfg st) (\<lambda>_. request u env pp cfg ''tools/list'' []) of
        (Inr v, st1) \<Rightarrow> (Inr (Some v), st1)
      | (Inl e, st1) \<Rightarrow>
          if fst e = ''MCPConfigError'' then (Inr None, snd (record_failure u pp cfg e [] st1))
          else if fst e \<in> set PROTOCOL_FAILURES
          then list_attempts u env pp cfg n (snd (record_failure u pp cfg e (fst e) st1))
          else (Inl e, st1))"

definition list_tools ::
  "unicode \<Rightarrow> 'v env \<Rightarrow> 'w pipe \<Rightarrow> stdio_config \<Rightarrow> stdio_client \<times> 'w \<Rightarrow>
     (exn + mcp_tool_info list) \<times> stdio_client \<times> 'w"
where
  "list_tools u env pp cfg st =
     (case list_attempts u env pp cfg 2 st of
        (Inl e, st1) \<Rightarrow> (Inl e, st1)
      | (Inr None, st1) \<Rightarrow> (Inr [], st1)
      | (Inr (Some v), c, w) \<Rightarrow> (case read_tools u env v c of (tis, c1) \<Rightarrow> (Inr tis, c1, w)))"

definition content_text :: "unicode \<Rightarrow> json \<Rightarrow> string" where
  "content_text u content =
     (case content of
        JStr s \<Rightarrow> u_strip_text u s
      | JList vs \<Rightarrow>
          str_join [CHR 0x0A] (filter (\<lambda>t. t \<noteq> [])
            (List.map_filter (\<lambda>v. case field_of v ''text'' of JStr s \<Rightarrow> Some (u_strip_text u s) | _ \<Rightarrow> None) vs))
      | _ \<Rightarrow> [])"

definition tool_error_result :: "unicode \<Rightarrow> stdio_config \<Rightarrow> jdict \<Rightarrow> stdio_client \<Rightarrow> jdict \<times> stdio_client" where
  "tool_error_result u cfg result c =
     (let t = content_text u (dget result ''content'');
          message = (if t = [] then server_says cfg ''tool call failed (isError=true).'' else t)
      in ([(''error'', JStr message), (''content'', dget result ''content'')], c\<lparr>sc_last_error := message\<rparr>))"

definition read_call_result :: "unicode \<Rightarrow> stdio_config \<Rightarrow> json \<Rightarrow> stdio_client \<Rightarrow> jdict \<times> stdio_client" where
  "read_call_result u cfg result c =
     (case result of
        JObj d \<Rightarrow> if truthy (dget d ''isError'') then tool_error_result u cfg d c else (d, c)
      | v \<Rightarrow> ([(''content'', v)], c))"

definition call_tool ::
  "unicode \<Rightarrow> 'v env \<Rightarrow> 'w pipe \<Rightarrow> stdio_config \<Rightarrow> string \<Rightarrow> jdict \<Rightarrow> stdio_client \<times> 'w \<Rightarrow>
     (exn + jdict) \<times> stdio_client \<times> 'w"
where
  "call_tool u env pp cfg name arguments st =
     (case bind_out (ensure_started u env pp cfg st)
             (\<lambda>_. request u env pp cfg ''tools/call'' [(''name'', JStr name), (''arguments'', JObj arguments)]) of
        (Inr v, c, w) \<Rightarrow> (case read_call_result u cfg v c of (d, c1) \<Rightarrow> (Inr d, c1, w))
      | (Inl e, st1) \<Rightarrow>
          if fst e = ''MCPConfigError'' \<or> fst e \<in> set PROTOCOL_FAILURES
          then (case record_failure u pp cfg e (if fst e = ''MCPConfigError'' then [] else fst e) st1 of
                  (text, st2) \<Rightarrow> (Inr [(''error'', JStr text)], st2))
          else (Inl e, st1))"

definition client_health :: "'w pipe \<Rightarrow> stdio_config \<Rightarrow> stdio_client \<times> 'w \<Rightarrow> jdict \<times> stdio_client \<times> 'w" where
  "client_health pp cfg st =
     (case no_process pp st of
        (gone, c, w) \<Rightarrow>
          ([(''server_name'', JStr (sf_server_name cfg)), (''started'', JBool (sc_started c)),
            (''initialized'', JBool (sc_initialized c)), (''process_alive'', JBool (\<not> gone)),
            (''pid'', case sc_process c of None \<Rightarrow> JNull | Some p \<Rightarrow> JInt (int p)),
            (''last_error'', JStr (sc_last_error c)), (''request_count'', JInt (int (sc_request_count c))),
            (''failure_count'', JInt (int (sc_failure_count c))), (''restart_count'', JInt (int (sc_restart_count c))),
            (''last_restart_reason'', JStr (sc_last_restart_reason c))], c, w))"

definition close_client :: "'w pipe \<Rightarrow> stdio_config \<Rightarrow> stdio_client \<times> 'w \<Rightarrow> stdio_client \<times> 'w" where
  "close_client pp cfg = cleanup_process pp cfg ''manual_close'' True"

text \<open>The client as the gateway calls it: an object that lives in the world, at a place to read and to write.\<close>

definition stdio_mcp_client ::
  "unicode \<Rightarrow> 'v env \<Rightarrow> 'w pipe \<Rightarrow> stdio_config \<Rightarrow> ('w \<Rightarrow> stdio_client) \<Rightarrow> (stdio_client \<Rightarrow> 'w \<Rightarrow> 'w) \<Rightarrow> 'w mcp_client"
where
  "stdio_mcp_client u env pp cfg peek poke =
     \<lparr>mc_list_tools = (\<lambda>w. case list_tools u env pp cfg (peek w, w) of
        (r, c, w1) \<Rightarrow> (case r of Inl e \<Rightarrow> Inl (snd e) | Inr tis \<Rightarrow> Inr tis, poke c w1)),
      mc_call_tool = (\<lambda>name args w. case call_tool u env pp cfg name args (peek w, w) of
        (r, c, w1) \<Rightarrow> (case r of Inl e \<Rightarrow> Inl (snd e) | Inr d \<Rightarrow> Inr (JObj d), poke c w1))\<rparr>"

definition stdio_config_of :: "settings \<Rightarrow> string \<Rightarrow> stdio_config" where
  "stdio_config_of cfg version =
     \<lparr>sf_server_name = st_mcp_server_name cfg, sf_command = st_mcp_server_command cfg, sf_args = st_mcp_server_args cfg,
      sf_timeout = st_mcp_server_timeout_seconds cfg, sf_workdir = st_mcp_server_workdir cfg,
      sf_env_allowlist = st_mcp_server_env_allowlist cfg,
      sf_command_allowlist = st_mcp_server_command_allowlist cfg, sf_version = version\<rparr>"

text \<open>
  \<open>_register_mcp_tools\<close>: an exception of the discovery is logged, and leaves the server registered without
  tools.
\<close>

definition register_mcp_tools ::
  "settings \<Rightarrow> 'w mcp_client \<Rightarrow> 'w env \<Rightarrow> (string \<Rightarrow> rat option) \<Rightarrow> 'w gateway \<Rightarrow> 'w \<Rightarrow> 'w gateway \<times> 'w"
where
  "register_mcp_tools cfg client env rd g w =
     (if st_mcp_mode cfg = ''real''
      then snd (gw_discover_mcp_tools (st_mcp_server_name cfg)
             (gw_register_mcp_server (st_mcp_server_name cfg) client (AText (st_mcp_tool_allowlist cfg)) g) w)
      else register_fake_mcp env rd g w)"

subsection \<open>Operations\<close>

datatype client_op = OpList | OpCall string jdict | OpHealth | OpClose | OpStderr string

definition run_op ::
  "unicode \<Rightarrow> 'v env \<Rightarrow> 'w pipe \<Rightarrow> stdio_config \<Rightarrow> client_op \<Rightarrow> stdio_client \<times> 'w \<Rightarrow> stdio_client \<times> 'w"
where
  "run_op u env pp cfg op st =
     (case op of
        OpList \<Rightarrow> snd (list_tools u env pp cfg st)
      | OpCall name args \<Rightarrow> snd (call_tool u env pp cfg name args st)
      | OpHealth \<Rightarrow> snd (client_health pp cfg st)
      | OpClose \<Rightarrow> close_client pp cfg st
      | OpStderr line \<Rightarrow> (append_stderr line (fst st), snd st))"

end
