(* ===== verification/Stdio_Facts.thy ===== *)
theory Stdio_Facts
  imports Stdio_Client
begin

text \<open>
  What the stdio client guarantees: its own state stays consistent and its error buffer bounded; a server is
  used only after the handshake; and a call of a tool is sent at most once.
\<close>

subsection \<open>The client's own state\<close>

definition client_ok :: "stdio_client \<Rightarrow> bool" where
  "client_ok c \<longleftrightarrow>
     (sc_initialized c \<longrightarrow> sc_process c \<noteq> None) \<and> (sc_started c \<longleftrightarrow> sc_process c \<noteq> None) \<and>
     sc_restart_count c \<le> sc_failure_count c \<and> sc_request_count c = sc_request_id c \<and>
     py_len (sc_stderr c) \<le> MCP_STDERR_MAX_CHARS"

named_theorems client

lemma no_process_client [client]: "fst (snd (no_process pp st)) = fst st"
  by (simp add: no_process_def split: option.split prod.split)

lemma notify_client [client]: "fst (snd (notify pp cfg verb st)) = fst st"
  by (simp add: notify_def split: option.split prod.split)

lemma notify_needs_process: "fst (notify pp cfg verb st) = Inr x \<Longrightarrow> sc_process (fst st) \<noteq> None"
  by (auto simp: notify_def split: option.splits)

lemma client_ok_request: "client_ok (fst st) \<Longrightarrow> client_ok (fst (snd (request u env pp cfg verb params st)))"
  by (auto simp: request_def client_ok_def Let_def split: option.split prod.split bool.split)

lemma client_ok_start: "client_ok (fst st) \<Longrightarrow> client_ok (fst (snd (start_process u pp cfg st)))"
  using no_process_client [of pp st]
  by (auto simp: start_process_def bind_out_def client_ok_def Let_def split: prod.splits bool.splits sum.splits)


lemma client_ok_confirm:
  "client_ok (fst st) \<Longrightarrow>
   client_ok (fst (snd (bind_out (notify pp cfg verb st) (\<lambda>_ (c, w). (Inr (), c\<lparr>sc_initialized := True\<rparr>, w)))))"
  using notify_client [of pp cfg verb st] notify_needs_process [of pp cfg verb st]
  by (cases "notify pp cfg verb st"; cases "fst (notify pp cfg verb st)") (auto simp: client_ok_def)

lemma client_ok_initialize: "client_ok (fst st) \<Longrightarrow> client_ok (fst (snd (initialize u env pp cfg st)))"
  unfolding initialize_def
  by (intro bind_out_state [where P = "\<lambda>s. client_ok (fst s)"] client_ok_request client_ok_confirm) simp_all

lemma client_ok_begin:
  assumes "client_ok (fst st)" and "\<And>a s. client_ok (fst s) \<Longrightarrow> client_ok (fst (snd (k a s)))"
  shows "client_ok (fst (snd (case no_process pp st of
    (gone, st2) \<Rightarrow> bind_out (if gone then start_process u pp cfg st2 else (Inr (), st2)) k)))"
proof -
  obtain gone st2 where np: "no_process pp st = (gone, st2)" by (rule prod.exhaust)
  then have "client_ok (fst st2)" using assms(1) no_process_client [of pp st] by simp
  then have "client_ok (fst (snd (if gone then start_process u pp cfg st2 else (Inr (), st2))))"
    by (simp add: client_ok_start)
  then show ?thesis unfolding np prod.case by (rule bind_out_state [where P = "\<lambda>s. client_ok (fst s)"]) (rule assms(2))
qed

lemma client_ok_ensure: "client_ok (fst st) \<Longrightarrow> client_ok (fst (snd (ensure_started u env pp cfg st)))"
  unfolding ensure_started_def
  by (intro bind_out_state [where P = "\<lambda>s. client_ok (fst s)"] client_ok_begin) (simp_all add: client_ok_initialize)

lemma client_ok_append: "client_ok c \<Longrightarrow> client_ok (append_stderr chunk c)"
proof -
  let ?cs = "py_chars (sc_stderr c @ chunk)"
  have "py_len (concat (drop (length ?cs - MCP_STDERR_MAX_CHARS) ?cs)) \<le>
      length (drop (length ?cs - MCP_STDERR_MAX_CHARS) ?cs)"
    using chars_ok_py_chars [of "sc_stderr c @ chunk"] unfolding chars_ok_def
    by (intro py_len_chars) (meson in_set_dropD)
  then show "client_ok c \<Longrightarrow> ?thesis" by (auto simp: client_ok_def append_stderr_def Let_def)
qed

lemma client_ok_cleanup: "client_ok (fst st) \<Longrightarrow> client_ok (fst (cleanup_process pp cfg reason terminate st))"
  by (simp add: cleanup_process_def client_ok_def Let_def)

lemma client_ok_collect: "client_ok (fst st) \<Longrightarrow> client_ok (fst (collect_stderr pp st))"
  by (auto simp: collect_stderr_def client_ok_append split: option.split prod.split)

lemma append_stderr_counts [client]:
  "sc_restart_count (append_stderr t c) = sc_restart_count c" "sc_failure_count (append_stderr t c) = sc_failure_count c"
  by (simp_all add: append_stderr_def Let_def)

lemma collect_counts [client]:
  "sc_restart_count (fst (collect_stderr pp st)) = sc_restart_count (fst st)"
  "sc_failure_count (fst (collect_stderr pp st)) = sc_failure_count (fst st)"
  by (simp_all add: collect_stderr_def append_stderr_counts split: option.split prod.split)

lemma client_ok_failure: "client_ok (fst st) \<Longrightarrow> client_ok (fst (snd (record_failure u pp cfg e reason st)))"
proof -
  assume ok: "client_ok (fst st)"
  define c0 where "c0 = (fst st)\<lparr>sc_failure_count := Suc (sc_failure_count (fst st))\<rparr>"
  obtain c w where cw: "collect_stderr pp (c0, snd st) = (c, w)" by (rule prod.exhaust)
  have c0: "client_ok c0" "sc_restart_count c0 < sc_failure_count c0"
    using ok by (simp_all add: client_ok_def c0_def)
  have "client_ok c" using c0 client_ok_collect [of "(c0, snd st)" pp] by (simp add: cw)
  moreover have "sc_restart_count c < sc_failure_count c"
    using c0 collect_counts [of pp "(c0, snd st)"] by (simp add: cw)
  ultimately have "client_ok (c\<lparr>sc_last_error := t\<rparr>)"
    "client_ok (c\<lparr>sc_last_error := t, sc_restart_count := Suc (sc_restart_count c)\<rparr>)" for t
    by (simp_all add: client_ok_def)
  then show ?thesis by (simp add: record_failure_def c0_def [symmetric] cw Let_def client_ok_cleanup)
qed

lemma client_ok_try:
  "client_ok (fst st) \<Longrightarrow>
   client_ok (fst (snd (bind_out (ensure_started u env pp cfg st) (\<lambda>_. request u env pp cfg verb params))))"
  by (intro bind_out_state [where P = "\<lambda>s. client_ok (fst s)"] client_ok_ensure client_ok_request)

lemma client_ok_list: "client_ok (fst st) \<Longrightarrow> client_ok (fst (snd (list_attempts u env pp cfg n st)))"
proof (induction n arbitrary: st)
  case (Suc n)
  obtain r st1 where out: "bind_out (ensure_started u env pp cfg st) (\<lambda>_. request u env pp cfg ''tools/list'' []) = (r, st1)"
    by (rule prod.exhaust)
  have "client_ok (fst st1)" using client_ok_try [OF Suc.prems, of u env pp cfg "''tools/list''" "[]"] by (simp add: out)
  then show ?case using Suc.IH by (auto simp: out client_ok_failure split: sum.split)
qed simp

lemma client_ok_last_error: "client_ok (c\<lparr>sc_last_error := t\<rparr>) = client_ok c"
  by (simp add: client_ok_def)

lemma client_ok_read_tools: "read_tools u env v c = (tis, c1) \<Longrightarrow> client_ok c \<Longrightarrow> client_ok c1"
  by (auto simp: read_tools_def Let_def client_ok_last_error split: json.splits)

lemma client_ok_read_call: "read_call_result u cfg v c = (d, c1) \<Longrightarrow> client_ok c \<Longrightarrow> client_ok c1"
  by (auto simp: read_call_result_def tool_error_result_def Let_def client_ok_last_error split: json.splits if_splits)

lemma client_ok_op: "client_ok (fst st) \<Longrightarrow> client_ok (fst (run_op u env pp cfg op st))"
proof (induction op)
  case OpList
  obtain r c w where out: "list_attempts u env pp cfg 2 st = (r, c, w)" by (metis prod.exhaust)
  have "client_ok c" using client_ok_list [OF OpList, of u env pp cfg 2] by (simp add: out)
  then show ?case
    by (auto simp: run_op_def list_tools_def out split: sum.split option.split prod.split dest: client_ok_read_tools)
next
  case (OpCall name args)
  obtain r c w where out: "bind_out (ensure_started u env pp cfg st)
      (\<lambda>_. request u env pp cfg ''tools/call'' [(''name'', JStr name), (''arguments'', JObj args)]) = (r, c, w)"
    by (metis prod.exhaust)
  have "client_ok c"
    using client_ok_try [OF OpCall, of u env pp cfg "''tools/call''"] by (metis fst_conv out snd_conv)
  then show ?case
    using client_ok_failure [of "(c, w)" u pp cfg]
    by (auto simp: run_op_def call_tool_def out split: sum.split prod.split dest: client_ok_read_call)
       (metis fst_conv snd_conv)+
next
  case OpHealth
  then show ?case
    using no_process_client [of pp st] by (cases "no_process pp st") (simp add: run_op_def client_health_def)
qed (simp_all add: run_op_def close_client_def client_ok_cleanup client_ok_append)

text \<open>
  The state of the MCP client stays consistent. Whatever the server and the operating system do, and in
  whatever order operations and lines of the error stream come: the client counts as started exactly when it
  holds a process, as initialized only then; every restart was counted as a failure; the last request has
  the number of the requests sent; and the error buffer has at most 4000 characters.
\<close>

lemma client_state_consistent:
  "client_ok (fst (fold (run_op u env pp cfg) ops (stdio_init, w)))"
proof -
  have "client_ok (fst st) \<Longrightarrow> client_ok (fst (fold (run_op u env pp cfg) ops st))" for st
    by (induction ops arbitrary: st) (simp_all add: client_ok_op)
  then show ?thesis by (simp add: client_ok_def stdio_init_def py_len_def)
qed

subsection \<open>What the servers are sent\<close>

text \<open>An event of the pipes: a server is started, or sent a message.\<close>

datatype pipe_event = Spawned nat | Sent nat jdict

fun sent_to :: "nat \<Rightarrow> jdict list \<Rightarrow> pipe_event list \<Rightarrow> jdict list" where
  "sent_to p acc [] = acc"
| "sent_to p acc (Spawned q # es) = sent_to p (if q = p then [] else acc) es"
| "sent_to p acc (Sent q m # es) = sent_to p (if q = p then acc @ [m] else acc) es"

lemma sent_to_append [simp]: "sent_to p acc (xs @ ys) = sent_to p (sent_to p acc xs) ys"
  by (induction p acc xs rule: sent_to.induct) simp_all

definition verb_of :: "jdict \<Rightarrow> string" where
  "verb_of m = or_str (dget m ''method'')"

lemma verb_of_message [simp]:
  "verb_of (request_message rid verb params) = verb" "verb_of (notify_message verb) = verb"
  by (simp_all add: verb_of_def request_message_def notify_message_def)

text \<open>A server may be asked to initialize, then is told so, and then is used.\<close>

fun orderly :: "bool \<Rightarrow> jdict list \<Rightarrow> bool" where
  "orderly asked [] = True"
| "orderly asked (m # ms) =
     (if verb_of m = ''initialize'' then orderly True ms
      else asked \<and> verb_of m = ''notifications/initialized'' \<and>
           list_all (\<lambda>x. verb_of x \<in> {''tools/list'', ''tools/call''}) ms)"

definition opened :: "jdict list \<Rightarrow> bool" where
  "opened ms \<longleftrightarrow> list_ex (\<lambda>m. verb_of m = ''notifications/initialized'') ms"

lemma opened_simps [simp]:
  "opened [] = False" "opened (ms @ [m]) = (opened ms \<or> verb_of m = ''notifications/initialized'')"
  by (auto simp: opened_def)

lemma orderly_ask: "orderly asked ms \<Longrightarrow> \<not> opened ms \<Longrightarrow> verb_of m = ''initialize'' \<Longrightarrow> orderly asked (ms @ [m])"
  by (induction asked ms rule: orderly.induct) (auto simp: opened_def split: if_splits)

lemma orderly_open:
  "orderly asked ms \<Longrightarrow> \<not> opened ms \<Longrightarrow> asked \<or> ms \<noteq> [] \<Longrightarrow> verb_of m = ''notifications/initialized'' \<Longrightarrow>
   orderly asked (ms @ [m])"
  by (induction asked ms rule: orderly.induct) (auto simp: opened_def split: if_splits)

lemma orderly_use:
  "orderly asked ms \<Longrightarrow> opened ms \<Longrightarrow> verb_of m \<in> {''tools/list'', ''tools/call''} \<Longrightarrow> orderly asked (ms @ [m])"
  by (induction asked ms rule: orderly.induct) (auto simp: opened_def split: if_splits)

definition steady :: "('w \<Rightarrow> pipe_event list) \<Rightarrow> stdio_client \<times> 'w \<Rightarrow> bool" where
  "steady history st \<longleftrightarrow>
     (\<forall>p. orderly False (sent_to p [] (history (snd st)))) \<and>
     (\<forall>p. sc_process (fst st) = Some p \<longrightarrow> opened (sent_to p [] (history (snd st))) = sc_initialized (fst st))"

text \<open>After a failure that ends the server, the log is in order but the client need not know how far it got.\<close>

definition tried :: "('w \<Rightarrow> pipe_event list) \<Rightarrow> (exn + 'a) \<times> stdio_client \<times> 'w \<Rightarrow> bool" where
  "tried history out \<longleftrightarrow>
     (\<forall>p. orderly False (sent_to p [] (history (snd (snd out))))) \<and>
     (case fst out of
        Inr _ \<Rightarrow> steady history (snd out)
      | Inl e \<Rightarrow> steady history (snd out) \<or> fst e \<in> set PROTOCOL_FAILURES)"

lemma steady_tried: "steady history (snd out) \<Longrightarrow> tried history out"
  by (simp add: tried_def steady_def split: sum.split)

lemma tried_bind:
  "tried history m \<Longrightarrow> (\<And>a s. m = (Inr a, s) \<Longrightarrow> steady history s \<Longrightarrow> tried history (f a s)) \<Longrightarrow>
   tried history (bind_out m f)"
  by (cases m; cases "fst m") (auto simp: tried_def)

definition calls_sent :: "pipe_event list \<Rightarrow> nat" where
  "calls_sent es = length (filter (\<lambda>e. case e of Sent p m \<Rightarrow> verb_of m = ''tools/call'' | _ \<Rightarrow> False) es)"

lemma initialize_done: "initialize u env pp cfg st = (Inr x, st1) \<Longrightarrow> sc_initialized (fst st1)"
  by (auto simp: initialize_def bind_out_def split: prod.splits sum.splits)

lemma ensure_done:
  assumes "ensure_started u env pp cfg st = (Inr x, st1)"
  shows "sc_initialized (fst st1)"
proof -
  obtain gone st2 where np: "no_process pp st = (gone, st2)" by (rule prod.exhaust)
  from assms obtain st3 where "(if sc_initialized (fst st3) then (Inr (), st3) else initialize u env pp cfg st3) = (Inr x, st1)"
    unfolding ensure_started_def by (elim bind_out_InrE) (auto simp: np elim!: bind_out_InrE)
  then show ?thesis by (auto split: if_splits dest: initialize_done)
qed

lemma append_known [client]:
  "sc_process (append_stderr t c) = sc_process c" "sc_initialized (append_stderr t c) = sc_initialized c"
  by (simp_all add: append_stderr_def Let_def)

lemma collect_known [client]:
  "sc_process (fst (collect_stderr pp st)) = sc_process (fst st)"
  "sc_initialized (fst (collect_stderr pp st)) = sc_initialized (fst st)"
  by (simp_all add: collect_stderr_def append_known split: option.split prod.split)

lemma cleanup_known [client]: "sc_process (fst (cleanup_process pp cfg reason terminate st)) = None"
  by (simp add: cleanup_process_def Let_def)

lemma read_tools_known: "read_tools u env v c = (tis, c1) \<Longrightarrow> sc_process c1 = sc_process c \<and> sc_initialized c1 = sc_initialized c"
  by (auto simp: read_tools_def Let_def split: json.splits)

lemma read_call_known: "read_call_result u cfg v c = (d, c1) \<Longrightarrow> sc_process c1 = sc_process c \<and> sc_initialized c1 = sc_initialized c"
  by (auto simp: read_call_result_def tool_error_result_def Let_def split: json.splits if_splits)

text \<open>
  A pipe with a history: starting a server and sending it a message are recorded, a send that fails may or
  may not have reached the server, and nothing else is recorded.
\<close>

locale recorded_pipe =
  fixes pp :: "'w pipe" and history :: "'w \<Rightarrow> pipe_event list"
  assumes spawned: "pi_spawn pp cmd dir e w = (r, w1) \<Longrightarrow>
      history w1 = history w @ (case r of Inl _ \<Rightarrow> [] | Inr p \<Rightarrow> [Spawned p])"
    and sent: "pi_send pp p m w = (ok, w1) \<Longrightarrow>
      history w1 = history w @ [Sent p m] \<or> \<not> ok \<and> history w1 = history w"
    and quiet: "history (snd (pi_poll pp p w)) = history w" "history (snd (pi_read pp p t w)) = history w"
      "history (snd (pi_terminate pp p w)) = history w" "history (snd (pi_wait pp p t w)) = history w"
      "history (snd (pi_kill pp p w)) = history w" "history (pi_close pp p w) = history w"
      "history (snd (pi_stderr pp p w)) = history w"
begin

lemma quiet_eq:
  "pi_poll pp p w = (c, w1) \<Longrightarrow> history w1 = history w" "pi_read pp p t w = (r, w1) \<Longrightarrow> history w1 = history w"
  "pi_terminate pp p w = (b, w1) \<Longrightarrow> history w1 = history w" "pi_wait pp p t w = (b, w1) \<Longrightarrow> history w1 = history w"
  "pi_kill pp p w = (b, w1) \<Longrightarrow> history w1 = history w" "pi_stderr pp p w = (x, w1) \<Longrightarrow> history w1 = history w"
  using quiet by (metis snd_conv)+

lemma no_process_quiet: "history (snd (snd (no_process pp st))) = history (snd st)"
  by (auto simp: no_process_def dest: quiet_eq split: option.split prod.split)

lemma end_process_quiet: "history (end_process pp cfg p w) = history w"
  by (simp add: end_process_def split_beta quiet split: option.split bool.split)

lemma cleanup_quiet: "history (snd (cleanup_process pp cfg reason terminate st)) = history (snd st)"
  by (simp add: cleanup_process_def Let_def quiet end_process_quiet split: option.split)

lemma collect_quiet: "history (snd (collect_stderr pp st)) = history (snd st)"
  by (simp add: collect_stderr_def split_beta quiet split: option.split)

lemma failure_quiet: "history (snd (snd (record_failure u pp cfg e reason st))) = history (snd st)"
proof -
  define c0 where "c0 = (fst st)\<lparr>sc_failure_count := Suc (sc_failure_count (fst st))\<rparr>"
  obtain c w where cw: "collect_stderr pp (c0, snd st) = (c, w)" by (rule prod.exhaust)
  have "history w = history (snd st)" using collect_quiet [of "(c0, snd st)"] by (simp add: cw)
  then show ?thesis by (simp add: record_failure_def c0_def [symmetric] cw Let_def cleanup_quiet)
qed

text \<open>A request keeps what the client knows of its server, and sends one message or none.\<close>

lemma request_known:
  "sc_process (fst (snd (request u env pp cfg verb params st))) = sc_process (fst st)"
  "sc_initialized (fst (snd (request u env pp cfg verb params st))) = sc_initialized (fst st)"
  by (simp_all add: request_def Let_def split: option.split prod.split bool.split)

lemma request_history:
  assumes "request u env pp cfg verb params st = (r, st1)"
  shows "(\<exists>p m. sc_process (fst st) = Some p \<and> verb_of m = verb \<and> history (snd st1) = history (snd st) @ [Sent p m]) \<or>
    (\<exists>e. r = Inl e) \<and> history (snd st1) = history (snd st)"
proof (cases "sc_process (fst st)")
  case (Some p)
  obtain code w where poll: "pi_poll pp p (snd st) = (code, w)" by (rule prod.exhaust)
  show ?thesis
  proof (cases code)
    case None
    let ?m = "request_message (Suc (sc_request_id (fst st))) verb params"
    obtain ok w1 where send: "pi_send pp p ?m w = (ok, w1)" by (rule prod.exhaust)
    obtain x w2 where read: "pi_read pp p (sf_timeout cfg) w1 = (x, w2)" by (rule prod.exhaust)
    from sent [OF send] quiet_eq(1) [OF poll] quiet_eq(2) [OF read]
    have "history w1 = history (snd st) @ [Sent p ?m] \<or> \<not> ok \<and> history w1 = history (snd st)" "history w2 = history w1"
      by simp_all
    then show ?thesis
      using assms Some None by (auto simp: request_def poll send read Let_def split: bool.splits)
  qed (use assms Some quiet_eq(1) [OF poll] in \<open>auto simp: request_def poll dest: quiet_eq split: prod.splits\<close>)
qed (use assms in \<open>auto simp: request_def\<close>)

lemma steady_no_process: "steady history st \<Longrightarrow> steady history (snd (no_process pp st))"
  by (simp add: steady_def no_process_quiet no_process_client)

lemma steady_start:
  assumes "steady history st"
  shows "steady history (snd (start_process u pp cfg st))"
proof -
  obtain gone c w where np: "no_process pp st = (gone, c, w)" by (metis prod.exhaust)
  then have cw: "steady history (c, w)" using steady_no_process [OF assms] by simp
  show ?thesis
  proof (cases gone)
    case True
    show ?thesis
    proof (cases "build_cmdline u cfg")
      case (Inr cmdline)
      let ?dir = "let dir = u_strip_text u (sf_workdir cfg) in if dir = [] then None else Some dir"
      obtain r w1 where "pi_spawn pp cmdline ?dir (client_env u cfg (pi_environ pp)) w = (r, w1)" by (rule prod.exhaust)
      then show ?thesis
        using cw True Inr spawned by (fastforce simp: start_process_def np Let_def steady_def split: sum.split)
    qed (use cw True in \<open>simp add: start_process_def np\<close>)
  qed (use cw in \<open>simp add: start_process_def np\<close>)
qed

lemma steady_send:
  assumes "steady history st" and "sc_process c = sc_process (fst st)" and "sc_initialized c = sc_initialized (fst st)"
    and "sc_process (fst st) = Some p" and "history w = history (snd st) @ [Sent p m]"
    and "if sc_initialized c then verb_of m \<in> {''tools/list'', ''tools/call''} else verb_of m = ''initialize''"
  shows "steady history (c, w)"
  using assms orderly_ask orderly_use by (auto simp: steady_def split: if_splits)

lemma steady_request:
  assumes "steady history st"
    and "if sc_initialized (fst st) then verb \<in> {''tools/list'', ''tools/call''} else verb = ''initialize''"
  shows "steady history (snd (request u env pp cfg verb params st))"
proof -
  obtain r c w where out: "request u env pp cfg verb params st = (r, c, w)" by (metis prod.exhaust)
  have known: "sc_process c = sc_process (fst st)" "sc_initialized c = sc_initialized (fst st)"
    using request_known [of u env cfg verb params st] by (simp_all add: out)
  from request_history [OF out] show ?thesis
  proof (elim disjE conjE exE)
    fix p m assume "sc_process (fst st) = Some p" "verb_of m = verb" "history (snd (c, w)) = history (snd st) @ [Sent p m]"
    then have "steady history (c, w)" using assms known by (intro steady_send [OF assms(1)]) auto
    then show ?thesis by (simp add: out)
  next
    assume "history (snd (c, w)) = history (snd st)"
    then show ?thesis using assms(1) known by (simp add: out steady_def)
  qed
qed

lemma tried_notify:
  assumes "steady history st" and "\<not> sc_initialized (fst st)"
    and "\<And>p. sc_process (fst st) = Some p \<Longrightarrow> sent_to p [] (history (snd st)) \<noteq> []"
  shows "tried history (bind_out (notify pp cfg ''notifications/initialized'' st)
    (\<lambda>_ (c, w). (Inr (), c\<lparr>sc_initialized := True\<rparr>, w)))"
proof (cases "sc_process (fst st)")
  case (Some p)
  let ?m = "notify_message ''notifications/initialized''" and ?log = "sent_to p [] (history (snd st))"
  obtain ok w1 where send: "pi_send pp p ?m (snd st) = (ok, w1)" by (rule prod.exhaust)
  have "orderly False (?log @ [?m])"
    using assms Some by (intro orderly_open) (auto simp: steady_def)
  then show ?thesis
    using sent [OF send] assms Some
    by (cases ok) (auto simp: tried_def notify_def send steady_def crashed_def PROTOCOL_FAILURES_def)
qed (use assms in \<open>auto simp: notify_def intro!: steady_tried\<close>)

lemma tried_initialize:
  assumes "steady history st" and "\<not> sc_initialized (fst st)"
  shows "tried history (initialize u env pp cfg st)"
  unfolding initialize_def
proof (rule tried_bind [OF steady_tried])
  let ?params = "[(''protocolVersion'', JStr ''2024-11-05''), (''capabilities'', JObj []),
    (''clientInfo'', JObj [(''name'', JStr ''project-b''), (''version'', JStr (sf_version cfg))])]"
  show "steady history (snd (request u env pp cfg ''initialize'' ?params st))"
    using assms by (intro steady_request) auto
  fix result st1
  assume out: "request u env pp cfg ''initialize'' ?params st = (Inr result, st1)" and ok: "steady history st1"
  have same: "sc_process (fst st1) = sc_process (fst st)" "\<not> sc_initialized (fst st1)"
    using request_known [of u env cfg "''initialize''" ?params st] assms(2) by (simp_all add: out)
  have asked: "sent_to p [] (history (snd st1)) \<noteq> []" if "sc_process (fst st1) = Some p" for p
    using request_history [OF out] same that by auto
  show "tried history (bind_out (version_check u cfg result, st1)
      (\<lambda>_ st2. bind_out (notify pp cfg ''notifications/initialized'' st2)
      (\<lambda>_ (c, w). (Inr (), c\<lparr>sc_initialized := True\<rparr>, w))))"
    by (rule tried_bind [OF steady_tried]) (use ok same(2) asked in \<open>auto intro: tried_notify\<close>)
qed

lemma tried_ensure:
  assumes "steady history st"
  shows "tried history (ensure_started u env pp cfg st)"
  unfolding ensure_started_def
proof (rule tried_bind [OF steady_tried])
  obtain gone c w where np: "no_process pp st = (gone, c, w)" by (metis prod.exhaust)
  then have "steady history (c, w)" using steady_no_process [OF assms] by simp
  then have started: "steady history (snd (if gone then start_process u pp cfg (c, w) else (Inr (), c, w)))"
    by (simp add: steady_start)
  have "tried history (if sc_initialized (fst s) then (Inr (), s) else initialize u env pp cfg s)"
    if "steady history s" for s
    using that by (simp add: steady_tried tried_initialize)
  then have "tried history (bind_out (if gone then start_process u pp cfg (c, w) else (Inr (), c, w))
      (\<lambda>_ st3. if sc_initialized (fst st3) then (Inr (), st3) else initialize u env pp cfg st3))"
    by (rule tried_bind [OF steady_tried [OF started]])
  then show "tried history (case no_process pp s of (gone, st2) \<Rightarrow>
      bind_out (if gone then start_process u pp cfg st2 else (Inr (), st2))
        (\<lambda>_ st3. if sc_initialized (fst st3) then (Inr (), st3) else initialize u env pp cfg st3))"
    if "(ensure_configured u cfg, st) = (Inr a, s)" for a s
  proof -
    have "s = st" using that by simp
    then show ?thesis using \<open>tried history (bind_out _ _)\<close> by (simp add: np)
  qed
qed (simp add: assms)

lemma tried_use:
  assumes "steady history st" and "verb \<in> {''tools/list'', ''tools/call''}"
  shows "tried history (bind_out (ensure_started u env pp cfg st) (\<lambda>_. request u env pp cfg verb params))"
proof (rule tried_bind [OF tried_ensure [OF assms(1)]])
  fix a s assume "ensure_started u env pp cfg st = (Inr a, s)" "steady history s"
  then show "tried history (request u env pp cfg verb params s)"
    using assms(2) by (simp add: ensure_done steady_tried steady_request)
qed

lemma steady_failure:
  assumes "\<forall>p. orderly False (sent_to p [] (history (snd st)))" and "steady history st \<or> reason \<noteq> []"
  shows "steady history (snd (record_failure u pp cfg e reason st))"
proof -
  define c0 where "c0 = (fst st)\<lparr>sc_failure_count := Suc (sc_failure_count (fst st))\<rparr>"
  obtain c w where cw: "collect_stderr pp (c0, snd st) = (c, w)" by (rule prod.exhaust)
  have "history w = history (snd st)" using collect_quiet [of "(c0, snd st)"] by (simp add: cw)
  moreover have "sc_process c = sc_process c0" "sc_initialized c = sc_initialized c0"
    using collect_known [of pp "(c0, snd st)"] by (simp_all add: cw)
  moreover have "sc_process c0 = sc_process (fst st)" "sc_initialized c0 = sc_initialized (fst st)"
    by (simp_all add: c0_def)
  ultimately show ?thesis
    using assms cleanup_quiet
    by (auto simp: record_failure_def c0_def [symmetric] cw Let_def steady_def cleanup_known)
qed

lemma steady_known:
  "steady history (c, w) \<Longrightarrow> sc_process c1 = sc_process c \<and> sc_initialized c1 = sc_initialized c \<Longrightarrow> steady history (c1, w)"
  by (simp add: steady_def)

lemma steady_list: "steady history st \<Longrightarrow> tried history (list_attempts u env pp cfg n st) \<and>
    (case fst (list_attempts u env pp cfg n st) of Inl e \<Rightarrow> fst e \<notin> set PROTOCOL_FAILURES | Inr _ \<Rightarrow> True)"
proof (induction n arbitrary: st)
  case (Suc n)
  obtain r st1 where out: "bind_out (ensure_started u env pp cfg st) (\<lambda>_. request u env pp cfg ''tools/list'' []) = (r, st1)"
    by (rule prod.exhaust)
  have tried: "tried history (r, st1)" using tried_use [OF Suc.prems, of "''tools/list''" u env cfg "[]"] by (simp add: out)
  show ?case
  proof (cases r)
    case (Inl e)
    have log: "\<forall>p. orderly False (sent_to p [] (history (snd st1)))" using tried by (simp add: tried_def)
    have known: "steady history st1 \<or> fst e \<in> set PROTOCOL_FAILURES" using tried by (simp add: tried_def Inl)
    have "fst e \<in> set PROTOCOL_FAILURES \<Longrightarrow> fst e \<noteq> [] \<and> fst e \<noteq> ''MCPConfigError''"
      by (auto simp: PROTOCOL_FAILURES_def)
    then show ?thesis
      using log known Suc.IH [OF steady_failure [OF log, of "fst e" u cfg e]] steady_failure [OF log, of "[]" u cfg e]
      by (auto simp: out Inl intro: steady_tried)
  qed (use tried in \<open>simp add: out tried_def\<close>)
qed (simp add: steady_tried)

lemma steady_call: "steady history st \<Longrightarrow> steady history (snd (call_tool u env pp cfg name args st))"
proof -
  assume st: "steady history st"
  let ?params = "[(''name'', JStr name), (''arguments'', JObj args)]"
  obtain r c w where out: "bind_out (ensure_started u env pp cfg st) (\<lambda>_. request u env pp cfg ''tools/call'' ?params) = (r, c, w)"
    by (metis prod.exhaust)
  have tried: "tried history (r, c, w)" using tried_use [OF st, of "''tools/call''" u env cfg ?params] by (simp add: out)
  show ?thesis
  proof (cases r)
    case (Inl e)
    have log: "\<forall>p. orderly False (sent_to p [] (history (snd (c, w))))" using tried by (simp add: tried_def)
    have known: "steady history (c, w) \<or> fst e \<in> set PROTOCOL_FAILURES" using tried by (simp add: tried_def Inl)
    have cls: "fst e \<in> set PROTOCOL_FAILURES \<Longrightarrow> fst e \<noteq> [] \<and> fst e \<noteq> ''MCPConfigError''"
      by (auto simp: PROTOCOL_FAILURES_def)
    let ?reason = "if fst e = ''MCPConfigError'' then [] else fst e"
    obtain t st2 where rf: "record_failure u pp cfg e ?reason (c, w) = (t, st2)" by (rule prod.exhaust)
    have "steady history (c, w) \<or> ?reason \<noteq> []" using known cls by auto
    from steady_failure [OF log this, of u cfg e] have "steady history st2" by (simp add: rf)
    then show ?thesis using known by (auto simp: call_tool_def out Inl rf)
  next
    case (Inr v)
    have "steady history (c, w)" using tried by (simp add: tried_def Inr)
    then show ?thesis by (auto simp: call_tool_def out Inr split: prod.split dest: read_call_known elim: steady_known)
  qed
qed

lemma steady_op: "steady history st \<Longrightarrow> steady history (run_op u env pp cfg op st)"
proof (induction op)
  case OpList
  obtain r c w where out: "list_attempts u env pp cfg 2 st = (r, c, w)" by (metis prod.exhaust)
  have "steady history (c, w)" using steady_list [OF OpList, of u env cfg 2] by (cases r) (auto simp: out tried_def)
  then show ?case
    by (auto simp: run_op_def list_tools_def out split: sum.split option.split prod.split dest: read_tools_known elim: steady_known)
next
  case OpHealth
  then show ?case
    using steady_no_process [OF OpHealth] by (cases "no_process pp st") (auto simp: run_op_def client_health_def)
next
  case OpClose
  then show ?case by (simp add: run_op_def close_client_def steady_def cleanup_quiet cleanup_known)
next
  case (OpStderr line)
  then show ?case by (simp add: run_op_def steady_def append_known)
qed (simp add: run_op_def steady_call)

lemma steady_ops: "steady history st \<Longrightarrow> steady history (fold (run_op u env pp cfg) ops st)"
  by (induction ops arbitrary: st) (simp_all add: steady_op)

subsection \<open>Calls of tools\<close>

lemma start_calls: "calls_sent (history (snd (snd (start_process u pp cfg st)))) = calls_sent (history (snd st))"
proof -
  obtain gone c w where np: "no_process pp st = (gone, c, w)" by (metis prod.exhaust)
  then have "history w = history (snd st)" using no_process_quiet [of st] by simp
  then show ?thesis
    by (auto simp: start_process_def np bind_out_def Let_def calls_sent_def dest: spawned split: bool.split sum.split prod.split)
qed

lemma notify_calls:
  "verb \<noteq> ''tools/call'' \<Longrightarrow> calls_sent (history (snd (snd (notify pp cfg verb st)))) = calls_sent (history (snd st))"
  by (auto simp: notify_def calls_sent_def dest: sent split: option.split prod.split)

lemma request_calls:
  "verb \<noteq> ''tools/call'' \<Longrightarrow>
     calls_sent (history (snd (snd (request u env pp cfg verb params st)))) = calls_sent (history (snd st))"
  "calls_sent (history (snd (snd (request u env pp cfg verb params st)))) \<le> Suc (calls_sent (history (snd st)))"
  using request_history [of u env cfg verb params st "fst (request u env pp cfg verb params st)"
      "snd (request u env pp cfg verb params st)"]
  by (auto simp: calls_sent_def)

lemma initialize_calls: "calls_sent (history (snd (snd (initialize u env pp cfg st)))) = calls_sent (history (snd st))"
  unfolding initialize_def
  by (intro bind_out_state [where P = "\<lambda>s. calls_sent (history (snd s)) = calls_sent (history (snd st))"])
     (auto simp: request_calls notify_calls)

lemma ensure_calls: "calls_sent (history (snd (snd (ensure_started u env pp cfg st)))) = calls_sent (history (snd st))"
  unfolding ensure_started_def
proof (rule bind_out_state [where P = "\<lambda>s. calls_sent (history (snd s)) = calls_sent (history (snd st))"])
  fix a and s :: "stdio_client \<times> 'w"
  assume s: "calls_sent (history (snd s)) = calls_sent (history (snd st))"
  obtain gone c w where np: "no_process pp s = (gone, c, w)" by (metis prod.exhaust)
  then have "history w = history (snd s)" using no_process_quiet [of s] by simp
  then have "calls_sent (history (snd (snd (if gone then start_process u pp cfg (c, w) else (Inr (), c, w))))) =
      calls_sent (history (snd st))"
    using s by (simp add: start_calls)
  then have "calls_sent (history (snd (snd (bind_out (if gone then start_process u pp cfg (c, w) else (Inr (), c, w))
        (\<lambda>_ st3. if sc_initialized (fst st3) then (Inr (), st3) else initialize u env pp cfg st3))))) =
      calls_sent (history (snd st))"
    by (rule bind_out_state [where P = "\<lambda>s. calls_sent (history (snd s)) = calls_sent (history (snd st))"])
       (simp add: initialize_calls)
  then show "calls_sent (history (snd (snd (case no_process pp s of (gone, st2) \<Rightarrow>
        bind_out (if gone then start_process u pp cfg st2 else (Inr (), st2))
          (\<lambda>_ st3. if sc_initialized (fst st3) then (Inr (), st3) else initialize u env pp cfg st3))))) =
      calls_sent (history (snd st))"
    by (simp add: np)
qed simp

lemma call_calls: "calls_sent (history (snd (snd (call_tool u env pp cfg name args st)))) \<le> Suc (calls_sent (history (snd st)))"
proof -
  let ?params = "[(''name'', JStr name), (''arguments'', JObj args)]"
  obtain r c w where out: "bind_out (ensure_started u env pp cfg st) (\<lambda>_. request u env pp cfg ''tools/call'' ?params) = (r, c, w)"
    by (metis prod.exhaust)
  have "calls_sent (history w) \<le> Suc (calls_sent (history (snd st)))"
  proof -
    obtain r1 st1 where begin1: "ensure_started u env pp cfg st = (r1, st1)" by (rule prod.exhaust)
    then have "calls_sent (history (snd st1)) = calls_sent (history (snd st))"
      using ensure_calls [of u env cfg st] by simp
    then show ?thesis
      using out begin1 request_calls(2) [of u env cfg "''tools/call''" ?params st1] by (cases r1) auto
  qed
  then show ?thesis
    using failure_quiet [of u cfg _ _ "(c, w)"]
    by (auto simp: call_tool_def out split: sum.split prod.split) (metis snd_conv)+
qed

lemma list_calls: "calls_sent (history (snd (snd (list_attempts u env pp cfg n st)))) = calls_sent (history (snd st))"
proof (induction n arbitrary: st)
  case (Suc n)
  let ?out = "bind_out (ensure_started u env pp cfg st) (\<lambda>_. request u env pp cfg ''tools/list'' [])"
  have "calls_sent (history (snd (snd ?out))) = calls_sent (history (snd st))"
    by (rule bind_out_state [where P = "\<lambda>s. calls_sent (history (snd s)) = calls_sent (history (snd st))"])
       (simp_all add: ensure_calls request_calls)
  then show ?case by (cases ?out; cases "fst ?out") (auto simp: Suc.IH failure_quiet)
qed simp

end

subsection \<open>A pipe with a server\<close>

text \<open>A world of recorded events and the replies still to come; reading beyond them times out.\<close>

type_synonym demo_pipes = "pipe_event list \<times> read_result list"

definition demo_pipe :: "demo_pipes pipe" where
  "demo_pipe =
     \<lparr>pi_spawn = (\<lambda>_ _ _ (es, rs). let p = length es in (Inr p, es @ [Spawned p], rs)),
      pi_poll = (\<lambda>p w. (None, w)),
      pi_send = (\<lambda>p m (es, rs). (True, es @ [Sent p m], rs)),
      pi_read = (\<lambda>p t (es, rs). case rs of [] \<Rightarrow> (ReadTimeout, es, []) | r # rs' \<Rightarrow> (r, es, rs')),
      pi_terminate = (\<lambda>p w. (True, w)), pi_wait = (\<lambda>p t w. (True, w)), pi_kill = (\<lambda>p w. (True, w)),
      pi_close = (\<lambda>p w. w), pi_stderr = (\<lambda>p w. ([], w)), pi_environ = [],
      pi_loads = (\<lambda>line. if line = ''hello''
        then Some (JObj [(''jsonrpc'', JStr ''2.0''), (''id'', JInt 1),
               (''result'', JObj [(''protocolVersion'', JStr ''2024-11-05'')])])
        else if line = ''answer''
        then Some (JObj [(''jsonrpc'', JStr ''2.0''), (''id'', JInt 2), (''result'', JObj [(''content'', JInt 42)])])
        else None)\<rparr>"

interpretation demo: recorded_pipe demo_pipe fst
  by unfold_locales (auto simp: demo_pipe_def Let_def split: prod.splits list.splits)

definition demo_stdio :: stdio_config where
  "demo_stdio = \<lparr>sf_server_name = ''ops'', sf_command = ''server'', sf_args = ''--root '' @ [double_quote] @ ''a b'' @ [double_quote],
     sf_timeout = 10, sf_workdir = [], sf_env_allowlist = [], sf_command_allowlist = ''server'', sf_version = ''4.3.0''\<rparr>"

text \<open>
  C27. A server is used only after the handshake. Over any sequence of operations, with servers that fail, stop
  or answer anything, what each server process has been sent is in order: requests to initialize, then the
  one notification that it is initialized, and only after that the listing and the calls of tools.
\<close>

theorem handshake_before_use:
  assumes "recorded_pipe pp history" and "history w = []"
  shows "orderly False (sent_to p [] (history (snd (fold (run_op u env pp cfg) ops (stdio_init, w)))))"
proof -
  have "steady history (stdio_init, w)" by (simp add: steady_def assms(2) stdio_init_def)
  from recorded_pipe.steady_ops [OF assms(1) this, of u env cfg ops] show ?thesis by (simp add: steady_def)
qed

theorem handshake_before_use_witness:
  "orderly False (sent_to 0 [] (fst (snd (fold (run_op demo_unicode demo_env demo_pipe demo_stdio)
     [OpCall ''lookup'' [], OpList] (stdio_init, [], [ReadLine ''hello'', ReadLine ''answer''])))))"
  by (rule handshake_before_use [OF demo.recorded_pipe_axioms]) simp

text \<open>What the demonstration server is sent by a call: the program runs with the words of its command line.\<close>

lemma demo_handshake:
  "map verb_of (sent_to 0 [] (fst (snd (fold (run_op demo_unicode demo_env demo_pipe demo_stdio)
     [OpCall ''lookup'' []] (stdio_init, [], [ReadLine ''hello'', ReadLine ''answer'']))))) =
   [''initialize'', ''notifications/initialized'', ''tools/call'']"
  by code_simp

text \<open>
  C28. A call of a tool is not repeated. Whatever happens, one call sends at most one \<open>tools/call\<close>, also when
  the answer does not come in time and when a server has to be started first; listing the tools, which is
  tried twice, sends none.
\<close>

theorem tool_call_not_replayed:
  assumes "recorded_pipe pp history"
  shows "calls_sent (history (snd (run_op u env pp cfg op st))) \<le>
    calls_sent (history (snd st)) + (case op of OpCall _ _ \<Rightarrow> 1 | _ \<Rightarrow> 0)"
proof (cases op)
  case OpList
  obtain r c w where out: "list_attempts u env pp cfg 2 st = (r, c, w)" by (metis prod.exhaust)
  then show ?thesis
    using recorded_pipe.list_calls [OF assms, of u env cfg 2 st] OpList
    by (auto simp: run_op_def list_tools_def split: sum.split option.split prod.split)
next
  case (OpCall name args)
  then show ?thesis using recorded_pipe.call_calls [OF assms, of u env cfg name args st] by (simp add: run_op_def)
next
  case OpHealth
  then show ?thesis
    using recorded_pipe.no_process_quiet [OF assms, of st]
    by (cases "no_process pp st") (simp add: run_op_def client_health_def)
next
  case OpClose
  then show ?thesis by (simp add: run_op_def close_client_def recorded_pipe.cleanup_quiet [OF assms])
qed (simp add: run_op_def)

theorem tool_call_not_replayed_witness:
  "calls_sent (fst (snd (run_op demo_unicode demo_env demo_pipe demo_stdio (OpCall ''lookup'' [])
     (stdio_init, [], [ReadLine ''hello''])))) \<le> 1"
  using tool_call_not_replayed [OF demo.recorded_pipe_axioms, of demo_unicode demo_env demo_stdio "OpCall ''lookup'' []"
      "(stdio_init, [], [ReadLine ''hello''])"]
  by (simp add: calls_sent_def)

text \<open>
  A command that cannot be started is not a failure the client handles: the exception of the operating system
  leaves \<open>list_tools\<close>, which promises an empty list, and no failure is counted.
\<close>

definition missing_pipe :: "demo_pipes pipe" where
  "missing_pipe = demo_pipe\<lparr>pi_spawn := (\<lambda>_ _ _ w. (Inl (''FileNotFoundError'', ''No such file''), w))\<rparr>"

lemma stdio_spawn_escapes:
  "list_tools demo_unicode demo_env missing_pipe demo_stdio (stdio_init, [], []) =
     (Inl (''FileNotFoundError'', ''No such file''), stdio_init, [], [])"
  by code_simp

end
