(* ===== verification/Metrics_Store.thy ===== *)
theory Metrics_Store
  imports Keyed_Store Demo_World Unicode_Text "HOL-Library.Multiset"
begin

text \<open>
  \<open>SQLiteMetricsStore\<close> (\<open>app/harness/metrics/metrics_store.py\<close>): the three tables the runtime metrics are
  written to, and the summaries over them. Its counters refine those the recorder keeps in memory. A time
  bound counts when \<open>datetime.fromisoformat\<close>, a parameter, reads it.
\<close>

subsection \<open>Tables\<close>

record task_metric =
  tm_event_id :: string
  tm_timestamp :: string
  tm_task_id :: string
  tm_mode :: string
  tm_status :: string
  tm_latency_ms :: "rat option"

record tool_metric =
  tl_event_id :: string
  tl_timestamp :: string
  tl_task_id :: string
  tl_tool_name :: string
  tl_success :: bool
  tl_latency_ms :: "rat option"
  tl_retry_count :: int

record usage_metric =
  us_event_id :: string
  us_timestamp :: string
  us_task_id :: string
  us_prompt_tokens :: int
  us_completion_tokens :: int
  us_cost :: rat

record metrics_store =
  ms_tasks :: "task_metric list"
  ms_tools :: "tool_metric list"
  ms_usage :: "usage_metric list"

definition metrics_store_init :: metrics_store where
  "metrics_store_init = \<lparr>ms_tasks = [], ms_tools = [], ms_usage = []\<rparr>"

definition stamp :: "'w env \<Rightarrow> string option \<Rightarrow> 'w \<Rightarrow> string" where
  "stamp env given w = (case given of None \<Rightarrow> utc_iso env w | Some t \<Rightarrow> if t = [] then utc_iso env w else t)"

definition insert_metric ::
  "string \<Rightarrow> ('r \<Rightarrow> string) \<Rightarrow> 'r \<Rightarrow> 'r list \<Rightarrow> ('r list \<Rightarrow> 's) \<Rightarrow> 's \<Rightarrow> 'w \<Rightarrow> (string + unit) \<times> 's \<times> 'w"
where
  "insert_metric table key r rows put s w =
     (case table_insert (''UNIQUE constraint failed: '' @ table @ ''.event_id'') key r rows of
        Inl e \<Rightarrow> (Inl e, s, w) | Inr rows' \<Rightarrow> (Inr (), put rows', w))"

definition append_task_metric ::
  "'w env \<Rightarrow> string \<Rightarrow> string \<Rightarrow> string \<Rightarrow> rat option \<Rightarrow> string option \<Rightarrow> metrics_store \<times> 'w \<Rightarrow>
     (string + unit) \<times> metrics_store \<times> 'w"
where
  "append_task_metric env tid mode status lat given st =
     (case fresh_hex env (snd st) of
        (h, w) \<Rightarrow>
          insert_metric ''runtime_task_metrics'' tm_event_id
            \<lparr>tm_event_id = h, tm_timestamp = stamp env given w, tm_task_id = tid, tm_mode = mode, tm_status = status,
             tm_latency_ms = lat\<rparr>
            (ms_tasks (fst st)) (\<lambda>rows. (fst st)\<lparr>ms_tasks := rows\<rparr>) (fst st) w)"

definition append_tool_metric ::
  "'w env \<Rightarrow> string \<Rightarrow> bool \<Rightarrow> rat option \<Rightarrow> int \<Rightarrow> string \<Rightarrow> string option \<Rightarrow> metrics_store \<times> 'w \<Rightarrow>
     (string + unit) \<times> metrics_store \<times> 'w"
where
  "append_tool_metric env tool ok lat retries tid given st =
     (case fresh_hex env (snd st) of
        (h, w) \<Rightarrow>
          insert_metric ''runtime_tool_metrics'' tl_event_id
            \<lparr>tl_event_id = h, tl_timestamp = stamp env given w, tl_task_id = tid, tl_tool_name = tool, tl_success = ok,
             tl_latency_ms = lat, tl_retry_count = retries\<rparr>
            (ms_tools (fst st)) (\<lambda>rows. (fst st)\<lparr>ms_tools := rows\<rparr>) (fst st) w)"

definition append_token_usage ::
  "'w env \<Rightarrow> string \<Rightarrow> int \<Rightarrow> int \<Rightarrow> rat \<Rightarrow> string option \<Rightarrow> metrics_store \<times> 'w \<Rightarrow>
     (string + unit) \<times> metrics_store \<times> 'w"
where
  "append_token_usage env tid prompt completion cost given st =
     (case fresh_hex env (snd st) of
        (h, w) \<Rightarrow>
          insert_metric ''runtime_token_usage'' us_event_id
            \<lparr>us_event_id = h, us_timestamp = stamp env given w, us_task_id = tid, us_prompt_tokens = prompt,
             us_completion_tokens = completion, us_cost = cost\<rparr>
            (ms_usage (fst st)) (\<lambda>rows. (fst st)\<lparr>ms_usage := rows\<rparr>) (fst st) w)"

text \<open>The write of a row the recorder hands over.\<close>

definition store_metric :: "'w env \<Rightarrow> metric_row \<Rightarrow> metrics_store \<times> 'w \<Rightarrow> (string + unit) \<times> metrics_store \<times> 'w" where
  "store_metric env row st =
     (case row of
        TaskMetric tid mode status lat \<Rightarrow> append_task_metric env tid mode status lat None st
      | ToolMetric tool ok lat retries tid \<Rightarrow> append_tool_metric env tool ok (Some lat) retries tid None st
      | TokenUsage tid p c cost \<Rightarrow> append_token_usage env tid p c cost None st)"

subsection \<open>Selections\<close>

definition in_time :: "(string \<Rightarrow> bool) \<Rightarrow> string option \<Rightarrow> string option \<Rightarrow> string \<Rightarrow> bool" where
  "in_time valid_iso start stop t \<longleftrightarrow>
     (case start of None \<Rightarrow> True | Some s \<Rightarrow> valid_iso s \<longrightarrow> s \<le> t) \<and>
     (case stop of None \<Rightarrow> True | Some e \<Rightarrow> valid_iso e \<longrightarrow> t \<le> e)"

text \<open>\<open>SELECT ... WHERE ... ORDER BY timestamp DESC LIMIT ?\<close>.\<close>

definition recent_rows ::
  "('r \<Rightarrow> string) \<Rightarrow> (string \<Rightarrow> bool) \<Rightarrow> string option \<Rightarrow> string option \<Rightarrow> int \<Rightarrow> 'r list \<Rightarrow> 'r list"
where
  "recent_rows time valid_iso start stop limit rows =
     take (clamp_limit 100 500 limit) (order_desc time (filter (\<lambda>r. in_time valid_iso start stop (time r)) rows))"

definition average :: "rat list \<Rightarrow> rat" where
  "average xs = (if xs = [] then 0 else sum_list xs / of_nat (length xs))"

text \<open>\<open>d[k] = dflt\<close> unless \<open>k\<close> is there, then \<open>f\<close> on its entry.\<close>

definition bump :: "'v \<Rightarrow> ('v \<Rightarrow> 'v) \<Rightarrow> string \<Rightarrow> (string \<times> 'v) list \<Rightarrow> (string \<times> 'v) list" where
  "bump dflt f k d = dput d k (f (case map_of d k of None \<Rightarrow> dflt | Some v \<Rightarrow> v))"

definition or_unknown_text :: "string \<Rightarrow> string" where
  "or_unknown_text s = (if s = [] then ''unknown'' else s)"

subsection \<open>Tasks\<close>

record task_stats =
  ts_count :: int
  ts_success :: int
  ts_failed :: int
  ts_waiting :: int
  ts_cancelled :: int
  ts_unknown :: int
  ts_latencies :: "rat list"

definition no_tasks :: task_stats where
  "no_tasks = \<lparr>ts_count = 0, ts_success = 0, ts_failed = 0, ts_waiting = 0, ts_cancelled = 0, ts_unknown = 0,
     ts_latencies = []\<rparr>"

definition count_task :: "task_metric \<Rightarrow> task_stats \<Rightarrow> task_stats" where
  "count_task r s =
     (let s1 = s\<lparr>ts_count := ts_count s + 1\<rparr>;
          s2 = (if tm_status r \<in> {''completed'', ''success''} then s1\<lparr>ts_success := ts_success s1 + 1\<rparr>
                else if tm_status r \<in> {''failed'', ''error''} then s1\<lparr>ts_failed := ts_failed s1 + 1\<rparr>
                else if tm_status r = ''waiting_approval'' then s1\<lparr>ts_waiting := ts_waiting s1 + 1\<rparr>
                else if tm_status r = ''cancelled'' then s1\<lparr>ts_cancelled := ts_cancelled s1 + 1\<rparr>
                else s1\<lparr>ts_unknown := ts_unknown s1 + 1\<rparr>)
      in case tm_latency_ms r of None \<Rightarrow> s2 | Some l \<Rightarrow> s2\<lparr>ts_latencies := ts_latencies s2 @ [l]\<rparr>)"

definition task_counts :: "task_stats \<Rightarrow> jdict" where
  "task_counts s =
     [(''task_count'', JInt (ts_count s)), (''success_count'', JInt (ts_success s)),
      (''failed_count'', JInt (ts_failed s)), (''waiting_approval_count'', JInt (ts_waiting s)),
      (''cancelled_count'', JInt (ts_cancelled s)), (''unknown_status_count'', JInt (ts_unknown s))]"

record mode_stats =
  mo_count :: int
  mo_success :: int
  mo_failed :: int

definition count_mode :: "task_metric \<Rightarrow> (string \<times> mode_stats) list \<Rightarrow> (string \<times> mode_stats) list" where
  "count_mode r =
     bump \<lparr>mo_count = 0, mo_success = 0, mo_failed = 0\<rparr>
       (\<lambda>e. let e1 = e\<lparr>mo_count := mo_count e + 1\<rparr>
            in if tm_status r \<in> {''completed'', ''success''} then e1\<lparr>mo_success := mo_success e1 + 1\<rparr>
               else if tm_status r \<in> {''failed'', ''error''} then e1\<lparr>mo_failed := mo_failed e1 + 1\<rparr>
               else e1)
       (or_unknown_text (tm_mode r))"

definition mode_dict :: "mode_stats \<Rightarrow> json" where
  "mode_dict e = JObj [(''count'', JInt (mo_count e)), (''success_count'', JInt (mo_success e)),
     (''failed_count'', JInt (mo_failed e))]"

definition task_summary ::
  "(string \<Rightarrow> bool) \<Rightarrow> string option \<Rightarrow> string option \<Rightarrow> int \<Rightarrow> metrics_store \<Rightarrow> jdict"
where
  "task_summary valid_iso start stop limit m =
     (let rows = recent_rows tm_timestamp valid_iso start stop limit (ms_tasks m); s = fold count_task rows no_tasks
      in task_counts s @
         [(''avg_task_latency_ms'', JFloat (average (ts_latencies s))),
          (''by_mode'', JObj (map (\<lambda>(k, e). (k, mode_dict e)) (fold count_mode rows [])))])"

subsection \<open>Tools\<close>

record tool_stats =
  tt_calls :: int
  tt_failures :: int
  tt_retries :: int
  tt_latencies :: "rat list"

definition no_calls :: tool_stats where
  "no_calls = \<lparr>tt_calls = 0, tt_failures = 0, tt_retries = 0, tt_latencies = []\<rparr>"

definition count_call :: "tool_metric \<Rightarrow> tool_stats \<Rightarrow> tool_stats" where
  "count_call r s =
     (let s1 = s\<lparr>tt_calls := tt_calls s + 1, tt_retries := tt_retries s + tl_retry_count r\<rparr>;
          s2 = (if tl_success r then s1 else s1\<lparr>tt_failures := tt_failures s1 + 1\<rparr>)
      in case tl_latency_ms r of None \<Rightarrow> s2 | Some l \<Rightarrow> s2\<lparr>tt_latencies := tt_latencies s2 @ [l]\<rparr>)"

definition count_tool :: "tool_metric \<Rightarrow> (string \<times> tool_stats) list \<Rightarrow> (string \<times> tool_stats) list" where
  "count_tool r = bump no_calls (count_call r) (or_unknown_text (tl_tool_name r))"

definition tool_dict :: "tool_stats \<Rightarrow> json" where
  "tool_dict e = JObj [(''call_count'', JInt (tt_calls e)), (''failure_count'', JInt (tt_failures e)),
     (''retry_count'', JInt (tt_retries e)), (''avg_latency_ms'', JFloat (average (tt_latencies e)))]"

definition tool_summary ::
  "(string \<Rightarrow> bool) \<Rightarrow> string option \<Rightarrow> string option \<Rightarrow> int \<Rightarrow> metrics_store \<Rightarrow> jdict"
where
  "tool_summary valid_iso start stop limit m =
     (let rows = recent_rows tl_timestamp valid_iso start stop limit (ms_tools m); s = fold count_call rows no_calls
      in [(''tool_call_count'', JInt (tt_calls s)), (''tool_failure_count'', JInt (tt_failures s)),
          (''retry_count'', JInt (tt_retries s)), (''avg_latency_ms'', JFloat (average (tt_latencies s))),
          (''by_tool'', JObj (map (\<lambda>(k, e). (k, tool_dict e)) (fold count_tool rows [])))])"

subsection \<open>Costs\<close>

record cost_stats =
  co_prompt :: int
  co_completion :: int
  co_cost :: rat

definition no_cost :: cost_stats where "no_cost = \<lparr>co_prompt = 0, co_completion = 0, co_cost = 0\<rparr>"

definition count_usage :: "usage_metric \<Rightarrow> cost_stats \<Rightarrow> cost_stats" where
  "count_usage r s = \<lparr>co_prompt = co_prompt s + us_prompt_tokens r,
     co_completion = co_completion s + us_completion_tokens r, co_cost = co_cost s + us_cost r\<rparr>"

text \<open>The mode of a task is that of its first row.\<close>

definition task_mode_map :: "task_metric list \<Rightarrow> (string \<times> string) list" where
  "task_mode_map rows =
     fold (\<lambda>r d. if map_of d (tm_task_id r) = None then dput d (tm_task_id r) (or_unknown_text (tm_mode r)) else d)
       (sort_key tm_timestamp rows) []"

definition usage_mode :: "(string \<times> string) list \<Rightarrow> usage_metric \<Rightarrow> string" where
  "usage_mode modes r = (case map_of modes (us_task_id r) of None \<Rightarrow> ''unknown'' | Some m \<Rightarrow> m)"

definition usage_day :: "usage_metric \<Rightarrow> string" where
  "usage_day r = (if us_timestamp r = [] then ''unknown'' else concat (take 10 (py_chars (us_timestamp r))))"

definition costs_per :: "(usage_metric \<Rightarrow> string) \<Rightarrow> usage_metric list \<Rightarrow> (string \<times> cost_stats) list" where
  "costs_per key rows = fold (\<lambda>r. bump no_cost (count_usage r) (key r)) rows []"

definition cost_dict :: "cost_stats \<Rightarrow> json" where
  "cost_dict e = JObj [(''prompt_tokens'', JInt (co_prompt e)), (''completion_tokens'', JInt (co_completion e)),
     (''cost'', JFloat (co_cost e))]"

definition usage_totals :: "cost_stats \<Rightarrow> jdict" where
  "usage_totals s = [(''total_prompt_tokens'', JInt (co_prompt s)), (''total_completion_tokens'', JInt (co_completion s)),
     (''total_cost'', JFloat (co_cost s))]"

definition cost_summary ::
  "(string \<Rightarrow> bool) \<Rightarrow> string option \<Rightarrow> string option \<Rightarrow> int \<Rightarrow> metrics_store \<Rightarrow> jdict"
where
  "cost_summary valid_iso start stop limit m =
     (let rows = recent_rows us_timestamp valid_iso start stop limit (ms_usage m);
          entries = (\<lambda>d. JObj (map (\<lambda>(k, e). (k, cost_dict e)) d))
      in usage_totals (fold count_usage rows no_cost) @
         [(''by_mode'', entries (costs_per (usage_mode (task_mode_map (ms_tasks m))) rows)),
          (''by_day'', entries (costs_per usage_day rows))])"

definition store_summary ::
  "(string \<Rightarrow> bool) \<Rightarrow> string option \<Rightarrow> string option \<Rightarrow> int \<Rightarrow> metrics_store \<Rightarrow> jdict"
where
  "store_summary valid_iso start stop limit m =
     (let s = fold count_task (recent_rows tm_timestamp valid_iso start stop limit (ms_tasks m)) no_tasks;
          t = fold count_call (recent_rows tl_timestamp valid_iso start stop limit (ms_tools m)) no_calls;
          c = fold count_usage (recent_rows us_timestamp valid_iso start stop limit (ms_usage m)) no_cost
      in task_counts s @ [(''tool_call_count'', JInt (tt_calls t)), (''tool_failure_count'', JInt (tt_failures t))] @
         usage_totals c @ [(''avg_task_latency_ms'', JFloat (average (ts_latencies s)))])"

subsection \<open>Counters and tables\<close>

lemma mset_order_desc: "mset (order_desc c rows) = mset rows"
proof -
  have "mset (insert_desc c r xs) = add_mset r (mset xs)" for r xs by (induction xs) auto
  then show ?thesis by (induction rows) (simp_all add: order_desc_def)
qed

lemma count_task_fold:
  "ts_count (fold count_task rows s) = ts_count s + int (length rows)"
  "ts_success (fold count_task rows s) =
     ts_success s + int (length (filter (\<lambda>r. tm_status r \<in> {''completed'', ''success''}) rows))"
  "ts_failed (fold count_task rows s) =
     ts_failed s + int (length (filter (\<lambda>r. tm_status r \<in> {''failed'', ''error''}) rows))"
  "ts_waiting (fold count_task rows s) =
     ts_waiting s + int (length (filter (\<lambda>r. tm_status r = ''waiting_approval'') rows))"
  "ts_cancelled (fold count_task rows s) =
     ts_cancelled s + int (length (filter (\<lambda>r. tm_status r = ''cancelled'') rows))"
  "ts_unknown (fold count_task rows s) = ts_unknown s +
     int (length (filter (\<lambda>r. tm_status r \<notin> {''completed'', ''success'', ''failed'', ''error'', ''waiting_approval'', ''cancelled''}) rows))"
  "ts_latencies (fold count_task rows s) = ts_latencies s @ List.map_filter tm_latency_ms rows"
  by (induction rows arbitrary: s)
     (simp_all add: count_task_def Let_def map_filter_simps split: option.split)

lemma count_call_fold:
  "tt_calls (fold count_call rows s) = tt_calls s + int (length rows)"
  "tt_failures (fold count_call rows s) = tt_failures s + int (length (filter (\<lambda>r. \<not> tl_success r) rows))"
  "tt_retries (fold count_call rows s) = tt_retries s + sum_list (map tl_retry_count rows)"
  by (induction rows arbitrary: s) (simp_all add: count_call_def Let_def split: option.split)

lemma count_usage_fold:
  "co_prompt (fold count_usage rows s) = co_prompt s + sum_list (map us_prompt_tokens rows)"
  "co_completion (fold count_usage rows s) = co_completion s + sum_list (map us_completion_tokens rows)"
  "co_cost (fold count_usage rows s) = co_cost s + sum_list (map us_cost rows)"
  by (induction rows arbitrary: s) (simp_all add: count_usage_def)

text \<open>The recorder's counters mirror the tables.\<close>

definition mirrors :: "metrics \<Rightarrow> metrics_store \<Rightarrow> bool" where
  "mirrors m s \<longleftrightarrow>
     (let t = fold count_task (ms_tasks s) no_tasks; c = fold count_call (ms_tools s) no_calls;
          u = fold count_usage (ms_usage s) no_cost
      in mt_task_count m = ts_count t \<and> mt_success_count m = ts_success t \<and> mt_failed_count m = ts_failed t \<and>
         mt_waiting_approval_count m = ts_waiting t \<and> mt_cancelled_count m = ts_cancelled t \<and>
         mt_unknown_status_count m = ts_unknown t \<and> mt_task_latencies m = ts_latencies t \<and>
         mt_tool_call_count m = tt_calls c \<and> mt_tool_failure_count m = tt_failures c \<and>
         mt_total_prompt_tokens m = co_prompt u \<and> mt_total_completion_tokens m = co_completion u \<and>
         mt_total_cost m = co_cost u)"

definition record_metric :: "metric_row \<Rightarrow> metrics \<Rightarrow> metrics" where
  "record_metric row m =
     (case row of
        TaskMetric tid mode status lat \<Rightarrow> metrics_record_task tid mode status lat m
      | ToolMetric tool ok lat retries tid \<Rightarrow> metrics_record_tool_call tool ok lat retries tid m
      | TokenUsage tid p c cost \<Rightarrow> metrics_record_token_usage tid p c cost m)"

lemma insert_metric_Inr: "insert_metric table key r rows put s w = (Inr (), s', w') \<Longrightarrow> s' = put (rows @ [r])"
  by (auto simp: insert_metric_def table_insert_cases split: sum.splits)

lemma mirrors_step:
  assumes "mirrors m s" and "store_metric env row (s, w) = (Inr (), s', w')"
  shows "mirrors (record_metric row m) s'"
proof -
  obtain h w1 where hex: "fresh_hex env w = (h, w1)" by (rule prod.exhaust)
  show ?thesis
  proof (cases row)
    case (TaskMetric tid mode status lat)
    then have "s' = s\<lparr>ms_tasks := ms_tasks s @ [\<lparr>tm_event_id = h, tm_timestamp = stamp env None w1, tm_task_id = tid,
        tm_mode = mode, tm_status = status, tm_latency_ms = lat\<rparr>]\<rparr>"
      using assms(2) by (auto simp: store_metric_def append_task_metric_def hex dest: insert_metric_Inr)
    then show ?thesis
      using assms(1) TaskMetric
      by (auto simp: mirrors_def Let_def record_metric_def metrics_record_task_def metrics_sink_def count_task_def
          split: option.split)
  next
    case (ToolMetric tool ok lat retries tid)
    then have "s' = s\<lparr>ms_tools := ms_tools s @ [\<lparr>tl_event_id = h, tl_timestamp = stamp env None w1, tl_task_id = tid,
        tl_tool_name = tool, tl_success = ok, tl_latency_ms = Some lat, tl_retry_count = retries\<rparr>]\<rparr>"
      using assms(2) by (auto simp: store_metric_def append_tool_metric_def hex dest: insert_metric_Inr)
    then show ?thesis
      using assms(1) ToolMetric
      by (auto simp: mirrors_def Let_def record_metric_def metrics_record_tool_call_def metrics_sink_def count_call_def)
  next
    case (TokenUsage tid p c cost)
    then have "s' = s\<lparr>ms_usage := ms_usage s @ [\<lparr>us_event_id = h, us_timestamp = stamp env None w1, us_task_id = tid,
        us_prompt_tokens = p, us_completion_tokens = c, us_cost = cost\<rparr>]\<rparr>"
      using assms(2) by (auto simp: store_metric_def append_token_usage_def hex dest: insert_metric_Inr)
    then show ?thesis
      using assms(1) TokenUsage
      by (auto simp: mirrors_def Let_def record_metric_def metrics_record_token_usage_def metrics_sink_def count_usage_def)
  qed
qed

text \<open>All rows written, or the first refusal.\<close>

fun store_metrics :: "'w env \<Rightarrow> metric_row list \<Rightarrow> metrics_store \<times> 'w \<Rightarrow> (string + unit) \<times> metrics_store \<times> 'w" where
  "store_metrics env [] st = (Inr (), st)"
| "store_metrics env (r # rs) st = bind_out (store_metric env r st) (\<lambda>_. store_metrics env rs)"

lemma mirrors_run:
  "mirrors m s \<Longrightarrow> store_metrics env rows (s, w) = (Inr (), s', w') \<Longrightarrow> mirrors (fold record_metric rows m) s'"
proof (induction rows arbitrary: m s w)
  case (Cons r rs)
  then obtain s1 w1 where "store_metric env r (s, w) = (Inr (), s1, w1)" "store_metrics env rs (s1, w1) = (Inr (), s', w')"
    by (auto elim!: bind_out_InrE)
  then show ?case using Cons.IH [OF mirrors_step [OF Cons.prems(1)]] by simp
qed simp

lemma recent_rows_mset:
  "int (length rows) \<le> int (clamp_limit 100 500 limit) \<Longrightarrow>
   mset (recent_rows time valid_iso None None limit rows) = mset rows"
  by (simp add: recent_rows_def in_time_def mset_order_desc length_order_desc)

lemma average_mset: "mset xs = mset ys \<Longrightarrow> average xs = average ys"
  by (metis average_def mset_zero_iff size_mset sum_mset_sum_list)

lemma length_filter_mset: "mset xs = mset ys \<Longrightarrow> length (filter P xs) = length (filter P ys)"
  by (metis mset_filter size_mset)

lemma map_filter_mset: "mset xs = mset ys \<Longrightarrow> mset (List.map_filter f xs) = mset (List.map_filter f ys)"
  unfolding List.map_filter_def by (metis mset_filter mset_map)

lemma sum_list_map_mset: "mset xs = mset ys \<Longrightarrow> sum_list (map f xs) = sum_list (map (f :: _ \<Rightarrow> 'b::comm_monoid_add) ys)"
  by (metis mset_map sum_mset_sum_list)

text \<open>The figures do not depend on the order of the rows.\<close>

lemma task_figures_mset:
  assumes "mset xs = mset ys"
  shows "task_counts (fold count_task xs no_tasks) = task_counts (fold count_task ys no_tasks)"
    and "average (ts_latencies (fold count_task xs no_tasks)) = average (ts_latencies (fold count_task ys no_tasks))"
proof -
  have "length (filter P xs) = length (filter P ys)" for P by (rule length_filter_mset [OF assms])
  then show "task_counts (fold count_task xs no_tasks) = task_counts (fold count_task ys no_tasks)"
    by (simp only: task_counts_def count_task_fold mset_eq_length [OF assms])
  show "average (ts_latencies (fold count_task xs no_tasks)) = average (ts_latencies (fold count_task ys no_tasks))"
    using average_mset [OF map_filter_mset [OF assms]] by (simp add: count_task_fold no_tasks_def)
qed

lemma call_figures_mset:
  assumes "mset xs = mset ys"
  shows "tt_calls (fold count_call xs no_calls) = tt_calls (fold count_call ys no_calls)"
    and "tt_failures (fold count_call xs no_calls) = tt_failures (fold count_call ys no_calls)"
  by (simp_all only: count_call_fold mset_eq_length [OF assms] length_filter_mset [OF assms, of "\<lambda>r. \<not> tl_success r"])

lemma usage_figures_mset:
  assumes "mset xs = mset ys"
  shows "usage_totals (fold count_usage xs no_cost) = usage_totals (fold count_usage ys no_cost)"
  by (simp only: usage_totals_def count_usage_fold sum_list_map_mset [OF assms, of us_prompt_tokens]
      sum_list_map_mset [OF assms, of us_completion_tokens] sum_list_map_mset [OF assms, of us_cost])

text \<open>
  A run of recordings, as its callers make them, on a recorder with a sink, and what the sink was handed: one row
  for each recording, with the same arguments.
\<close>

definition recorder_with_sink :: metrics where
  "recorder_with_sink = metrics_init\<lparr>mt_sink := Some []\<rparr>"

lemma sink_gets_row: "mt_sink (record_metric row m) = map_option (\<lambda>rows. rows @ [row]) (mt_sink m)"
  by (auto simp: record_metric_def metrics_record_task_def metrics_record_tool_call_def metrics_record_token_usage_def
      metrics_sink_def Let_def split: metric_row.split option.split)

lemma sink_gets_all: "mt_sink (fold record_metric calls m) = map_option (\<lambda>rows. rows @ calls) (mt_sink m)"
  by (induction calls arbitrary: m) (simp_all add: sink_gets_row option.map_comp o_def option.map_ident)

text \<open>
  C29. The stored summary refines the live one. Let a recorder with a sink count any run of recordings, and let every
  row it hands to the sink be written. While no table holds more rows than the summary reads, the summary over the
  tables gives the ten whole figures the recorder counts in memory: tasks by status, calls and failures of tools, and
  tokens; and the tables hold the latencies the recorder keeps, in their order. The cost and the average latency are
  sums of floats that the two sides take in different orders, so nothing is said of their last digits.
\<close>

theorem stored_summary_refines_live:
  assumes "m = fold record_metric calls recorder_with_sink" and "mt_sink m = Some rows"
    and "store_metrics env rows (metrics_store_init, w) = (Inr (), s, w')"
    and "length (ms_tasks s) \<le> clamp_limit 100 500 limit" and "length (ms_tools s) \<le> clamp_limit 100 500 limit"
    and "length (ms_usage s) \<le> clamp_limit 100 500 limit"
  shows "take 10 (store_summary valid_iso None None limit s) = take 10 (metrics_summary m) \<and>
    List.map_filter tm_latency_ms (ms_tasks s) = mt_task_latencies m"
proof -
  have "rows = calls" using assms(1,2) by (simp add: sink_gets_all recorder_with_sink_def)
  then have "mirrors m s"
    unfolding assms(1)
    by (intro mirrors_run [OF _ assms(3) [unfolded \<open>rows = calls\<close>]])
       (simp add: mirrors_def recorder_with_sink_def metrics_init_def metrics_store_init_def no_tasks_def no_calls_def no_cost_def)
  then have m: "take 10 (metrics_summary m) =
      task_counts (fold count_task (ms_tasks s) no_tasks) @
      [(''tool_call_count'', JInt (tt_calls (fold count_call (ms_tools s) no_calls))),
       (''tool_failure_count'', JInt (tt_failures (fold count_call (ms_tools s) no_calls)))] @
      take 2 (usage_totals (fold count_usage (ms_usage s) no_cost))"
    and l: "mt_task_latencies m = List.map_filter tm_latency_ms (ms_tasks s)"
    by (simp_all add: mirrors_def Let_def metrics_summary_def task_counts_def usage_totals_def count_task_fold(7) no_tasks_def)
  have ten: "take 10 (store_summary valid_iso None None limit s) =
      task_counts (fold count_task (recent_rows tm_timestamp valid_iso None None limit (ms_tasks s)) no_tasks) @
      [(''tool_call_count'', JInt (tt_calls (fold count_call (recent_rows tl_timestamp valid_iso None None limit (ms_tools s)) no_calls))),
       (''tool_failure_count'', JInt (tt_failures (fold count_call (recent_rows tl_timestamp valid_iso None None limit (ms_tools s)) no_calls)))] @
      take 2 (usage_totals (fold count_usage (recent_rows us_timestamp valid_iso None None limit (ms_usage s)) no_cost))"
    by (simp add: store_summary_def Let_def task_counts_def usage_totals_def)
  note t = recent_rows_mset [of "ms_tasks s" limit tm_timestamp valid_iso] and
    c = recent_rows_mset [of "ms_tools s" limit tl_timestamp valid_iso] and
    u = recent_rows_mset [of "ms_usage s" limit us_timestamp valid_iso]
  show ?thesis
    unfolding m ten l
    using assms by (simp only: task_figures_mset [OF t] call_figures_mset [OF c] usage_figures_mset [OF u] of_nat_le_iff)
qed

definition demo_rows :: "metric_row list" where
  "demo_rows = [TaskMetric ''t1'' ''keyword'' ''completed'' (Some 12), ToolMetric ''get_today_gmv'' True 3 0 ''t1'',
     TokenUsage ''t1'' 10 5 (1 / 100), ToolMetric ''get_today_gmv'' False 3 1 ''t2'',
     TaskMetric ''t2'' ''auto'' ''waiting_approval'' None]"

theorem stored_summary_refines_live_witness:
  "take 10 (store_summary (\<lambda>_. True) None None 0 (fst (snd (store_metrics demo_env demo_rows (metrics_store_init, 0))))) =
   take 10 (metrics_summary (fold record_metric demo_rows recorder_with_sink))"
proof -
  let ?out = "store_metrics demo_env demo_rows (metrics_store_init, 0)"
  have "mt_sink (fold record_metric demo_rows recorder_with_sink) = Some demo_rows" by code_simp
  moreover have "fst ?out = Inr ()" by code_simp
  then have "?out = (Inr (), fst (snd ?out), snd (snd ?out))" by (metis prod.collapse)
  moreover have "length (ms_tasks (fst (snd ?out))) \<le> clamp_limit 100 500 0" by code_simp
  moreover have "length (ms_tools (fst (snd ?out))) \<le> clamp_limit 100 500 0" by code_simp
  moreover have "length (ms_usage (fst (snd ?out))) \<le> clamp_limit 100 500 0" by code_simp
  ultimately show ?thesis by (intro stored_summary_refines_live [THEN conjunct1, OF HOL.refl])
qed

subsection \<open>Breakdowns\<close>

lemma sum_list_dput:
  fixes g :: "'v \<Rightarrow> 'n::ab_group_add"
  shows "distinct (map fst d) \<Longrightarrow>
    sum_list (map (\<lambda>x. g (snd x)) (dput d k v)) =
      sum_list (map (\<lambda>x. g (snd x)) d) + g v - (case map_of d k of None \<Rightarrow> 0 | Some u \<Rightarrow> g u)"
  by (induction d) (auto simp: dput_def algebra_simps split: option.split dest: map_of_SomeD weak_map_of_SomeI)

lemma bump_sum:
  fixes g :: "'v \<Rightarrow> 'n::ab_group_add"
  assumes "distinct (map fst d)" and "\<And>e. g (f e) = g e + x" and "g dflt = 0"
  shows "sum_list (map (\<lambda>y. g (snd y)) (bump dflt f k d)) = sum_list (map (\<lambda>y. g (snd y)) d) + x"
  using assms by (simp add: bump_def sum_list_dput split: option.split)

lemma bump_distinct: "distinct (map fst d) \<Longrightarrow> distinct (map fst (bump dflt f k d))"
  by (simp add: bump_def dput_def distinct_update)

lemma fold_bump:
  fixes g :: "'v \<Rightarrow> 'n::ab_group_add"
  assumes "\<And>r e. g (f r e) = g e + x r" and "g dflt = 0"
  shows "distinct (map fst d) \<Longrightarrow>
    sum_list (map (\<lambda>y. g (snd y)) (fold (\<lambda>r. bump dflt (f r) (key r)) rows d)) =
      sum_list (map (\<lambda>y. g (snd y)) d) + sum_list (map x rows)"
proof (induction rows arbitrary: d)
  case (Cons r rows)
  then show ?case
    using bump_sum [OF Cons.prems, of g "f r" "x r" dflt "key r"] assms by (simp add: bump_distinct add.assoc)
qed simp

lemma length_filter_sum: "int (length (filter P xs)) = sum_list (map (\<lambda>x. if P x then 1 else 0) xs)"
  by (induction xs) simp_all

lemma length_sum: "int (length xs) = sum_list (map (\<lambda>x. 1) xs)"
  by (induction xs) simp_all

lemma grouped_sum:
  fixes g :: "'v \<Rightarrow> 'n::ab_group_add"
  assumes "\<And>r e. g (f r e) = g e + x r" and "g dflt = 0"
  shows "sum_list (map (\<lambda>y. g (snd y)) (fold (\<lambda>r. bump dflt (f r) (key r)) rows [])) = sum_list (map x rows)"
  using fold_bump [of g f x dflt "[]" key rows] assms by simp

lemma costs_add_up:
  "sum_list (map (\<lambda>e. co_prompt (snd e)) (costs_per key rows)) = co_prompt (fold count_usage rows no_cost)"
  "sum_list (map (\<lambda>e. co_completion (snd e)) (costs_per key rows)) = co_completion (fold count_usage rows no_cost)"
  "sum_list (map (\<lambda>e. co_cost (snd e)) (costs_per key rows)) = co_cost (fold count_usage rows no_cost)"
  using grouped_sum [of co_prompt count_usage us_prompt_tokens no_cost key rows]
    grouped_sum [of co_completion count_usage us_completion_tokens no_cost key rows]
    grouped_sum [of co_cost count_usage us_cost no_cost key rows]
  by (simp_all add: costs_per_def count_usage_fold) (simp_all add: count_usage_def no_cost_def)

lemma modes_add_up:
  "sum_list (map (\<lambda>e. mo_count (snd e)) (fold count_mode rows [])) = ts_count (fold count_task rows no_tasks)"
  "sum_list (map (\<lambda>e. mo_success (snd e)) (fold count_mode rows [])) = ts_success (fold count_task rows no_tasks)"
  "sum_list (map (\<lambda>e. mo_failed (snd e)) (fold count_mode rows [])) = ts_failed (fold count_task rows no_tasks)"
proof -
  show "sum_list (map (\<lambda>e. mo_count (snd e)) (fold count_mode rows [])) = ts_count (fold count_task rows no_tasks)"
    unfolding count_mode_def [abs_def] count_task_fold length_sum
    by (subst grouped_sum [where x = "\<lambda>_. 1"]) (simp_all add: Let_def no_tasks_def)
  show "sum_list (map (\<lambda>e. mo_success (snd e)) (fold count_mode rows [])) = ts_success (fold count_task rows no_tasks)"
    unfolding count_mode_def [abs_def] count_task_fold length_filter_sum
    by (subst grouped_sum [where x = "\<lambda>r. if tm_status r \<in> {''completed'', ''success''} then 1 else 0"])
       (simp_all add: Let_def no_tasks_def)
  show "sum_list (map (\<lambda>e. mo_failed (snd e)) (fold count_mode rows [])) = ts_failed (fold count_task rows no_tasks)"
    unfolding count_mode_def [abs_def] count_task_fold length_filter_sum
    by (subst grouped_sum [where x = "\<lambda>r. if tm_status r \<in> {''failed'', ''error''} then 1 else 0"])
       (auto simp: Let_def no_tasks_def)
qed

lemma tools_add_up:
  "sum_list (map (\<lambda>e. tt_calls (snd e)) (fold count_tool rows [])) = tt_calls (fold count_call rows no_calls)"
  "sum_list (map (\<lambda>e. tt_failures (snd e)) (fold count_tool rows [])) = tt_failures (fold count_call rows no_calls)"
proof -
  show "sum_list (map (\<lambda>e. tt_calls (snd e)) (fold count_tool rows [])) = tt_calls (fold count_call rows no_calls)"
    unfolding count_tool_def [abs_def] count_call_fold length_sum
    by (subst grouped_sum [where x = "\<lambda>_. 1"]) (simp_all add: count_call_def Let_def no_calls_def split: option.split)
  show "sum_list (map (\<lambda>e. tt_failures (snd e)) (fold count_tool rows [])) = tt_failures (fold count_call rows no_calls)"
    unfolding count_tool_def [abs_def] count_call_fold length_filter_sum
    by (subst grouped_sum [where x = "\<lambda>r. if \<not> tl_success r then 1 else 0"])
       (simp_all add: count_call_def Let_def no_calls_def split: option.split)
qed

text \<open>
  The breakdowns add up. Whatever rows are summarised, tokens and cost per mode and per day add up to the
  totals, tasks per mode to the tasks, and calls and failures per tool to the calls and failures: no row is
  lost between the groups and none is counted twice.
\<close>

lemma breakdowns_add_up:
  "sum_list (map (\<lambda>e. co_prompt (snd e)) (costs_per key usage)) = co_prompt (fold count_usage usage no_cost) \<and>
   sum_list (map (\<lambda>e. co_completion (snd e)) (costs_per key usage)) = co_completion (fold count_usage usage no_cost) \<and>
   sum_list (map (\<lambda>e. co_cost (snd e)) (costs_per key usage)) = co_cost (fold count_usage usage no_cost) \<and>
   sum_list (map (\<lambda>e. mo_count (snd e)) (fold count_mode tasks [])) = ts_count (fold count_task tasks no_tasks) \<and>
   sum_list (map (\<lambda>e. mo_success (snd e)) (fold count_mode tasks [])) = ts_success (fold count_task tasks no_tasks) \<and>
   sum_list (map (\<lambda>e. mo_failed (snd e)) (fold count_mode tasks [])) = ts_failed (fold count_task tasks no_tasks) \<and>
   sum_list (map (\<lambda>e. tt_calls (snd e)) (fold count_tool tools [])) = tt_calls (fold count_call tools no_calls) \<and>
   sum_list (map (\<lambda>e. tt_failures (snd e)) (fold count_tool tools [])) = tt_failures (fold count_call tools no_calls)"
  by (simp add: costs_add_up modes_add_up tools_add_up)

end
