(* ===== verification/Postgres_Stores.thy ===== *)
theory Postgres_Stores
  imports Approval_Store Task_Store Checkpoint_Store System_State
begin

text \<open>
  The PostgreSQL stores of approvals, tasks, graph checkpoints and audit events (\<open>app/storage/postgres/\<close>), over
  the same rows as the SQLite ones: a \<open>DateTime\<close> column is its ISO text, and \<open>of_iso\<close> is the text of the time
  \<open>datetime.fromisoformat\<close> reads, if it reads one. Called one at a time the stores agree with the SQLite ones.
  A decision is a read, a load and a flush by primary key, which interleave.
\<close>

subsection \<open>Approvals\<close>

definition pg_create_approval ::
  "'w env \<Rightarrow> string \<Rightarrow> string \<Rightarrow> string \<Rightarrow> string \<Rightarrow> risk_level \<Rightarrow> string \<Rightarrow> string \<Rightarrow> jdict option \<Rightarrow>
     'w sys \<Rightarrow> (string + approval_row) \<times> 'w sys"
where
  "pg_create_approval env dup tid tool action risk scope reason payload s =
     (let (h, s1) = sys_fresh env s;
          row = ap_new_row (''apr_'' @ hex12 h) (sys_now env s1) tid tool action risk scope reason payload
      in case table_insert dup ar_id row (sy_approvals s1) of
           Inl e \<Rightarrow> (Inl e, s1)
         | Inr rows \<Rightarrow> (Inr row, s1\<lparr>sy_approvals := rows\<rparr>))"

text \<open>\<open>filter_by(approval_id=...).first()\<close>.\<close>

definition pg_ap_get :: "string \<Rightarrow> approvals \<Rightarrow> approval_row option" where
  "pg_ap_get aid rows = find (\<lambda>r. ar_id r = aid) rows"

definition pg_ap_list :: "approval_status option \<Rightarrow> int \<Rightarrow> approvals \<Rightarrow> approvals" where
  "pg_ap_list status limit rows =
     (let l = (if limit \<le> 0 then 20 else limit); n = (if l > 100 then 100 else l)
      in take (nat n) (filter (\<lambda>r. status = None \<or> Some (ar_status r) = status) (order_desc ar_requested_at rows)))"

text \<open>
  The three sessions of \<open>decide_approval\<close>: the first read, the load of the row while it is pending, and the
  flush of the changed attributes, an \<open>UPDATE ... WHERE approval_id = ?\<close> without the status.
\<close>

definition pg_decide_load :: "string \<Rightarrow> approvals \<Rightarrow> approval_row option" where
  "pg_decide_load aid rows = find (\<lambda>r. ar_id r = aid \<and> ar_status r = APending) rows"

definition pg_decide_flush :: "string \<Rightarrow> bool \<Rightarrow> string \<Rightarrow> string \<Rightarrow> string \<Rightarrow> approvals \<Rightarrow> approvals" where
  "pg_decide_flush aid approved who reason now rows =
     table_modify ar_id aid (decided_row approved who reason now) rows"

definition pg_decide ::
  "string \<Rightarrow> bool \<Rightarrow> string \<Rightarrow> string \<Rightarrow> string \<Rightarrow> approvals \<Rightarrow> decide_result \<times> approvals"
where
  "pg_decide aid approved who reason now rows =
     (case pg_ap_get aid rows of
        None \<Rightarrow> (DMissing, rows)
      | Some cur \<Rightarrow>
          if ar_status cur \<noteq> APending
          then (DAlready cur (tx_already_decided (approval_status_value (ar_status cur))), rows)
          else
            (case pg_decide_load aid rows of
               None \<Rightarrow> (DMissing, rows)
             | Some _ \<Rightarrow>
                 (let rows' = pg_decide_flush aid approved who reason now rows
                  in (case pg_ap_get aid rows' of None \<Rightarrow> DMissing | Some r \<Rightarrow> DDone r, rows'))))"

definition pg_update_payload :: "string \<Rightarrow> jdict \<Rightarrow> approvals \<Rightarrow> approval_row option \<times> approvals" where
  "pg_update_payload aid upd rows =
     (case pg_ap_get aid rows of
        None \<Rightarrow> (None, rows)
      | Some cur \<Rightarrow>
          (let existing = (case ar_payload cur of None \<Rightarrow> [] | Some p \<Rightarrow> p);
               rows' = table_modify ar_id aid (\<lambda>r. r\<lparr>ar_payload := Some (dupd existing upd)\<rparr>) rows
           in (pg_ap_get aid rows', rows')))"

lemma find_lookup: "find (\<lambda>r. key r = k) rows = lookup_by key k rows"
  by (induction rows) auto

lemma pg_ap_get_eq [simp]: "pg_ap_get aid rows = ap_get aid rows"
  by (simp add: pg_ap_get_def ap_get_def find_lookup)

lemma find_pending:
  "distinct (map ar_id rows) \<Longrightarrow>
     find (\<lambda>r. ar_id r = aid \<and> ar_status r = APending) rows =
       (case ap_get aid rows of None \<Rightarrow> None | Some r \<Rightarrow> if ar_status r = APending then Some r else None)"
proof (induction rows)
  case (Cons x rows)
  show ?case
  proof (cases "ar_id x = aid")
    case True
    with Cons.prems have "aid \<notin> ar_id ` set rows" by auto
    then have "find (\<lambda>r. ar_id r = aid \<and> ar_status r = APending) rows = None" by (auto simp: find_None_iff)
    with True show ?thesis by (simp add: ap_get_def)
  next
    case False
    with Cons show ?thesis by (simp add: ap_get_def)
  qed
qed (simp add: ap_get_def)

lemma pg_decide_load_eq:
  "approvals_ok rows \<Longrightarrow> pg_decide_load aid rows =
     (case ap_get aid rows of None \<Rightarrow> None | Some r \<Rightarrow> if ar_status r = APending then Some r else None)"
  by (simp add: pg_decide_load_def approvals_ok_def find_pending)

lemma flush_pending:
  assumes "approvals_ok rows" and "ap_get aid rows = Some r" and "ar_status r = APending"
  shows "pg_decide_flush aid a who reason now rows = ap_decide_write aid a who reason now rows"
  using assms
proof (induction rows)
  case (Cons x rows)
  show ?case
  proof (cases "ar_id x = aid")
    case True
    with Cons.prems have "ap_get aid rows = None"
      by (auto simp: approvals_ok_def ap_get_def lookup_by_None)
    then have "ar_id y \<noteq> aid" if "y \<in> set rows" for y
      using that by (auto simp: ap_get_def lookup_by_None)
    then have "table_modify ar_id aid f rows = rows" "update_where (\<lambda>r. ar_id r = aid \<and> ar_status r = APending) f rows = rows" for f
      by (auto simp: table_modify_def update_where_def intro!: map_idI)
    with True Cons.prems show ?thesis
      by (simp add: pg_decide_flush_def ap_decide_write_def table_modify_def ap_get_def)
  next
    case False
    with Cons show ?thesis
      by (simp add: pg_decide_flush_def ap_decide_write_def table_modify_def ap_get_def approvals_ok_def)
  qed
qed (simp add: ap_get_def)

text \<open>Without another decider in between, a decision is that of the SQLite store.\<close>

lemma pg_decide_serial:
  "approvals_ok rows \<Longrightarrow> pg_decide aid a who reason now rows = ap_decide aid a who reason now rows"
  by (simp add: pg_decide_def ap_decide_def pg_decide_load_eq flush_pending Let_def split: option.split)

lemma order_desc_filter:
  "filter P (order_desc c rows) = order_desc c (filter P rows)"
proof -
  have srt: "sorted_wrt (\<lambda>x y. c y \<le> c x) xs \<Longrightarrow> filter P (insert_desc c r xs) =
      (if P r then insert_desc c r (filter P xs) else filter P xs)" for r xs
  proof (induction xs)
    case (Cons x xs)
    have "filter P xs = [] \<or> c (hd (filter P xs)) \<le> c x"
      using Cons.prems by (metis filter_is_subset hd_in_set sorted_wrt.simps(2) subsetD)
    with Cons show ?case by (cases "filter P xs") auto
  qed simp
  show ?thesis
    by (induction rows) (simp_all add: order_desc_def srt sorted_order_desc [unfolded order_desc_def])
qed

lemma pg_ap_list_eq: "pg_ap_list status limit rows = ap_list status limit rows"
  by (cases status) (simp_all add: pg_ap_list_def ap_list_def clamp_limit_def Let_def order_desc_filter)

lemma pg_update_payload_eq: "pg_update_payload aid upd rows = ap_update_payload aid upd rows"
  by (simp add: pg_update_payload_def ap_update_payload_def payload_of_def split: option.split)

subsection \<open>Concurrent deciders\<close>

text \<open>
  The progress of one call of \<open>decide_approval\<close>. \<open>PgLoaded\<close> holds the row in its session, with its changes not
  yet flushed.
\<close>

datatype decider_phase =
    PgAsking
  | PgChecked
  | PgLoaded
  | PgFlushed
  | PgAnswered decide_result

record decider =
  dc_aid :: string
  dc_approved :: bool
  dc_who :: string
  dc_reason :: string
  dc_now :: string
  dc_phase :: decider_phase

definition flush_of :: "decider \<Rightarrow> approvals \<Rightarrow> approvals" where
  "flush_of d rows = pg_decide_flush (dc_aid d) (dc_approved d) (dc_who d) (dc_reason d) (dc_now d) rows"

fun decider_step :: "decider \<Rightarrow> approvals \<Rightarrow> decider_phase \<times> approvals" where
  "decider_step d rows =
     (case dc_phase d of
        PgAsking \<Rightarrow>
          (case pg_ap_get (dc_aid d) rows of
             None \<Rightarrow> (PgAnswered DMissing, rows)
           | Some cur \<Rightarrow>
               if ar_status cur \<noteq> APending
               then (PgAnswered (DAlready cur (tx_already_decided (approval_status_value (ar_status cur)))), rows)
               else (PgChecked, rows))
      | PgChecked \<Rightarrow>
          (case pg_decide_load (dc_aid d) rows of
             None \<Rightarrow> (PgAnswered DMissing, rows) | Some _ \<Rightarrow> (PgLoaded, rows))
      | PgLoaded \<Rightarrow> (PgFlushed, flush_of d rows)
      | PgFlushed \<Rightarrow>
          (PgAnswered (case pg_ap_get (dc_aid d) rows of None \<Rightarrow> DMissing | Some r \<Rightarrow> DDone r), rows)
      | PgAnswered res \<Rightarrow> (PgAnswered res, rows))"

text \<open>One step of a decider, a new call, or another write of the store.\<close>

inductive pg_step :: "decider list \<times> approvals \<Rightarrow> decider list \<times> approvals \<Rightarrow> bool" where
  move: "i < length ds \<Longrightarrow> decider_step (ds ! i) rows = (ph, rows') \<Longrightarrow>
      pg_step (ds, rows) (ds[i := (ds ! i)\<lparr>dc_phase := ph\<rparr>], rows')"
| call: "dc_phase d = PgAsking \<Longrightarrow> pg_step (ds, rows) (ds @ [d], rows)"
| create: "table_insert dup ar_id row rows = Inr rows' \<Longrightarrow> pg_step (ds, rows) (ds, rows')"
| payload: "pg_step (ds, rows) (ds, snd (pg_update_payload aid upd rows))"

inductive pg_run :: "decider list \<times> approvals \<Rightarrow> decider list \<times> approvals \<Rightarrow> bool" where
  refl: "pg_run s s"
| step: "pg_run s s' \<Longrightarrow> pg_step s' s'' \<Longrightarrow> pg_run s s''"

inductive_cases pg_stepE: "pg_step (ds, rows) s'"

definition holds_row :: "string \<Rightarrow> decider \<Rightarrow> bool" where
  "holds_row aid d \<longleftrightarrow> dc_aid d = aid \<and> dc_phase d = PgLoaded"

text \<open>What a step keeps of a decided approval that no session holds.\<close>

definition settled :: "string \<Rightarrow> approval_row \<Rightarrow> decider list \<times> approvals \<Rightarrow> bool" where
  "settled aid r s \<longleftrightarrow>
     approvals_ok (snd s) \<and> list_all (\<lambda>d. \<not> holds_row aid d) (fst s) \<and>
     (\<exists>r'. ap_get aid (snd s) = Some r' \<and> ar_status r' \<noteq> APending \<and> decision_of r' = decision_of r)"

lemma ap_get_flush:
  "ap_get k (pg_decide_flush aid a who reason now rows) =
     (if k = aid then map_option (decided_row a who reason now) (ap_get aid rows) else ap_get k rows)"
  by (simp add: pg_decide_flush_def ap_get_def table_modify_lookup)

lemma approvals_ok_flush: "approvals_ok rows \<Longrightarrow> approvals_ok (pg_decide_flush aid a who reason now rows)"
  by (simp add: pg_decide_flush_def approvals_ok_def table_modify_keys)

lemma decider_step_ok: "decider_step d rows = (ph, rows') \<Longrightarrow> approvals_ok rows \<Longrightarrow> approvals_ok rows'"
  by (auto simp: flush_of_def approvals_ok_flush split: decider_phase.splits option.splits if_splits)

lemma decider_step_settled:
  assumes "decider_step d rows = (ph, rows')" and "approvals_ok rows" and "\<not> holds_row aid d"
    and "ap_get aid rows = Some r" and "ar_status r \<noteq> APending"
  shows "ap_get aid rows' = Some r \<and> \<not> holds_row aid (d\<lparr>dc_phase := ph\<rparr>)"
  using assms
  by (auto simp: holds_row_def flush_of_def ap_get_flush pg_decide_load_eq
      split: decider_phase.splits option.splits if_splits)

lemma settled_step: "pg_step s s' \<Longrightarrow> settled aid r s \<Longrightarrow> settled aid r s'"
proof (induction rule: pg_step.induct)
  case (move i ds rows ph rows')
  then obtain r' where r': "ap_get aid rows = Some r'" "ar_status r' \<noteq> APending" "decision_of r' = decision_of r"
    by (auto simp: settled_def)
  have "\<not> holds_row aid (ds ! i)" using move by (auto simp: settled_def list_all_length)
  from decider_step_settled [OF move.hyps(2) _ this r'(1,2)]
  show ?case
    using move r' decider_step_ok [OF move.hyps(2)] by (auto simp: settled_def list_all_length nth_list_update)
next
  case (call d ds rows)
  then show ?case by (auto simp: settled_def holds_row_def)
next
  case (create dup row rows rows' ds)
  then show ?case by (auto simp: settled_def approvals_ok_def table_insert_cases ap_get_def lookup_by_append)
next
  case (payload ds rows aid' upd)
  then show ?case
    by (cases "aid = aid'")
       (auto simp: settled_def pg_update_payload_eq approvals_ok_update_payload ap_get_update_payload decision_of_def)
qed

lemma settled_run: "pg_run s s' \<Longrightarrow> settled aid r s \<Longrightarrow> settled aid r s'"
  by (induction rule: pg_run.induct) (auto intro: settled_step)

text \<open>
  C30. In PostgreSQL a decision is final once no session holds its row. Whatever calls are then made, in
  whatever order their sessions interleave, the approval keeps its status, its decider, its time and its reason.
\<close>

theorem settled_decision_is_final:
  assumes "pg_run (ds, rows) (ds', rows')" and "approvals_ok rows"
    and "ap_get aid rows = Some r" and "ar_status r \<noteq> APending" and "list_all (\<lambda>d. \<not> holds_row aid d) ds"
  shows "\<exists>r'. ap_get aid rows' = Some r' \<and> decision_of r' = decision_of r"
  using settled_run [OF assms(1), of aid r] assms(2-) by (auto simp: settled_def)

text \<open>
  The hypothesis is needed. Two sessions that have both loaded the pending row write one after the other: the
  first caller is told its approval stands, and the row then says rejected. The conditional write of the
  SQLite store excludes this.
\<close>

definition pg_approver :: decider where
  "pg_approver = \<lparr>dc_aid = ''apr_1'', dc_approved = True, dc_who = ''ann'', dc_reason = ''ok'', dc_now = ''t1'',
     dc_phase = PgAsking\<rparr>"

definition pg_rejecter :: decider where
  "pg_rejecter = \<lparr>dc_aid = ''apr_1'', dc_approved = False, dc_who = ''bob'', dc_reason = ''no'', dc_now = ''t2'',
     dc_phase = PgAsking\<rparr>"

fun run_deciders :: "nat list \<Rightarrow> decider list \<times> approvals \<Rightarrow> decider list \<times> approvals" where
  "run_deciders [] s = s"
| "run_deciders (i # is) (ds, rows) =
     (case decider_step (ds ! i) rows of
        (ph, rows') \<Rightarrow> run_deciders is (ds[i := (ds ! i)\<lparr>dc_phase := ph\<rparr>], rows'))"

lemma run_deciders_run:
  "list_all (\<lambda>i. i < length (fst s)) is \<Longrightarrow> pg_run s0 s \<Longrightarrow> pg_run s0 (run_deciders is s)"
proof (induction "is" s rule: run_deciders.induct)
  case (2 i "is" ds rows)
  obtain ph rows' where st: "decider_step (ds ! i) rows = (ph, rows')" by (metis prod.exhaust)
  from 2(2) have "i < length ds" by simp
  from pg_run.step [OF 2(3) pg_step.move [OF this st]] show ?case
    using 2(1) [OF st [symmetric]] 2(2) st by simp
qed simp

lemma overlapping_decisions:
  "run_deciders [0, 0, 1, 1, 0, 0, 1, 1] ([pg_approver, pg_rejecter], [demo_approval]) =
     ([pg_approver\<lparr>dc_phase := PgAnswered (DDone (decided_row True ''ann'' ''ok'' ''t1'' demo_approval))\<rparr>,
       pg_rejecter\<lparr>dc_phase := PgAnswered (DDone (decided_row False ''bob'' ''no'' ''t2'' demo_approval))\<rparr>],
      [decided_row False ''bob'' ''no'' ''t2'' demo_approval])"
  by code_simp

lemma postgres_decision_overwritten:
  "\<exists>ds rows r.
     pg_run ([pg_approver, pg_rejecter], [demo_approval]) (ds, rows) \<and>
     dc_phase (ds ! 0) = PgAnswered (DDone r) \<and> ar_status r = AApproved \<and> ar_decided_by r = Some ''ann'' \<and>
     map_option ar_status (ap_get ''apr_1'' rows) = Some ARejected"
  using run_deciders_run [of "([pg_approver, pg_rejecter], [demo_approval])" "[0, 0, 1, 1, 0, 0, 1, 1]", OF _ pg_run.refl]
  unfolding overlapping_decisions by (fastforce simp: decided_row_def ap_get_def demo_approval_def)

theorem settled_decision_is_final_witness:
  "\<exists>r. ap_get ''apr_1'' (snd (run_deciders [0, 0, 0, 0]
         ([pg_rejecter], [decided_row True ''ann'' ''ok'' ''t1'' demo_approval]))) = Some r \<and>
       ar_status r = AApproved \<and> ar_decided_by r = Some ''ann''"
proof -
  let ?r = "decided_row True ''ann'' ''ok'' ''t1'' demo_approval"
  let ?out = "run_deciders [0, 0, 0, 0] ([pg_rejecter], [?r])"
  have run: "pg_run ([pg_rejecter], [?r]) (fst ?out, snd ?out)"
    using run_deciders_run [OF _ pg_run.refl, of "([pg_rejecter], [?r])" "[0, 0, 0, 0]"] by simp
  have get: "ap_get ''apr_1'' [?r] = Some ?r" by (simp add: ap_get_def demo_approval_def)
  have "approvals_ok [?r]" "ar_status ?r \<noteq> APending" "list_all (\<lambda>d. \<not> holds_row ''apr_1'' d) [pg_rejecter]"
    by (simp_all add: approvals_ok_def decided_row_def holds_row_def pg_rejecter_def)
  from settled_decision_is_final [OF run this(1) get this(2,3)] show ?thesis
    by (auto simp: decision_of_def decided_row_def)
qed

subsection \<open>Tasks\<close>

text \<open>\<open>save_task\<close> keeps the creation time of a stored task and stamps the update.\<close>

definition pg_save_task :: "task_run \<Rightarrow> string option \<Rightarrow> string \<Rightarrow> tasks \<Rightarrow> tasks" where
  "pg_save_task t mode now rows =
     (let res = (if truthy (tk_result t) then Some (or_dict (tk_result t)) else None);
          m = (case mode of None \<Rightarrow> [] | Some m \<Rightarrow> m)
      in case find (\<lambda>r. tr_id r = tk_id t) rows of
           Some _ \<Rightarrow>
             table_modify tr_id (tk_id t)
               (\<lambda>r. r\<lparr>tr_query := tk_query t, tr_mode := m, tr_status := tk_status t, tr_result := res,
                    tr_error := tk_error t, tr_updated_at := now\<rparr>) rows
         | None \<Rightarrow> rows @ [task_row_of t mode])"

definition pg_tk_list :: "int \<Rightarrow> tasks \<Rightarrow> tasks" where
  "pg_tk_list limit rows =
     (let l = (if limit \<le> 0 then 20 else limit); n = (if l > 100 then 100 else l)
      in take (nat n) (order_desc tr_created_at rows))"

definition pg_tk_update ::
  "string \<Rightarrow> task_status \<Rightarrow> jdict option \<Rightarrow> string \<Rightarrow> tasks \<Rightarrow> task_row option \<times> tasks"
where
  "pg_tk_update tid status res now rows =
     (case find (\<lambda>r. tr_id r = tid) rows of
        None \<Rightarrow> (None, rows)
      | Some cur \<Rightarrow>
          (let existing = (case tr_result cur of None \<Rightarrow> [] | Some d \<Rightarrow> d);
               rows' = table_modify tr_id tid
                 (\<lambda>r. let r1 = r\<lparr>tr_status := status, tr_updated_at := now\<rparr>
                      in case res of None \<Rightarrow> r1 | Some d \<Rightarrow> r1\<lparr>tr_result := Some (dupd existing d)\<rparr>) rows
           in (find (\<lambda>r. tr_id r = tid) rows', rows')))"

lemma pg_tk_list_eq: "pg_tk_list limit rows = tk_list limit rows"
  by (simp add: pg_tk_list_def tk_list_def clamp_limit_def Let_def)

lemma tk_get_find: "find (\<lambda>r. tr_id r = tid) rows = tk_get tid rows"
  by (simp add: find_lookup tk_get_def)

text \<open>The saved row is that of the SQLite store, up to the two times of a task saved before.\<close>

lemma pg_save_task_get:
  "tk_get k (pg_save_task t mode now rows) =
     (if k \<noteq> tk_id t then tk_get k rows
      else case tk_get k rows of
             None \<Rightarrow> Some (task_row_of t mode)
           | Some r \<Rightarrow> Some ((task_row_of t mode)\<lparr>tr_created_at := tr_created_at r, tr_updated_at := now\<rparr>))"
proof -
  have "tr_id r = k" if "tk_get k rows = Some r" for r
    using that by (auto simp: tk_get_def dest: lookup_by_key)
  then show ?thesis
    by (auto simp: pg_save_task_def Let_def tk_get_find tk_get_def table_modify_lookup lookup_by_append task_row_of_def
        split: option.splits)
qed

lemma table_modify_cong:
  assumes "distinct (map key rows)" and "\<And>r. lookup_by key k rows = Some r \<Longrightarrow> f r = g r"
  shows "table_modify key k f rows = table_modify key k g rows"
proof -
  have "f r = g r" if "r \<in> set rows" "key r = k" for r
    using assms that lookup_by_mem [of key rows r] by auto
  then show ?thesis by (simp add: table_modify_def update_where_def)
qed

lemma pg_tk_update_eq:
  assumes "tasks_ok rows" and "\<And>r. tk_get tid rows = Some r \<Longrightarrow> tr_result r \<noteq> Some []"
  shows "pg_tk_update tid status res now rows = tk_update tid status res now rows"
proof (cases "tk_get tid rows")
  case None
  then show ?thesis by (simp add: pg_tk_update_def tk_update_def tk_get_find)
next
  case (Some cur)
  let ?f = "\<lambda>r. let r1 = r\<lparr>tr_status := status, tr_updated_at := now\<rparr>
                 in case res of None \<Rightarrow> r1
                    | Some d \<Rightarrow> r1\<lparr>tr_result := Some (dupd (case tr_result cur of None \<Rightarrow> [] | Some d \<Rightarrow> d) d)\<rparr>"
  let ?g = "\<lambda>r. r\<lparr>tr_status := status, tr_result := merged_result cur res, tr_updated_at := now\<rparr>"
  have "table_modify tr_id tid ?f rows = table_modify tr_id tid ?g rows"
    using assms Some
    by (intro table_modify_cong)
       (auto simp: tasks_ok_def tk_get_def merged_result_def Let_def split: option.splits)
  then show ?thesis
    using Some by (simp add: pg_tk_update_def tk_update_def tk_get_find Let_def)
qed

subsection \<open>Graph checkpoints\<close>

text \<open>A time given as \<open>datetime | str | None\<close>, and \<open>_parse_dt\<close>.\<close>

datatype time_arg = NoTime | TimeOf string | TimeText string

fun parse_dt :: "(string \<Rightarrow> string option) \<Rightarrow> time_arg \<Rightarrow> string option" where
  "parse_dt of_iso NoTime = None"
| "parse_dt of_iso (TimeOf t) = Some t"
| "parse_dt of_iso (TimeText s) = (if s = [] then None else of_iso s)"

definition or_time :: "string option \<Rightarrow> string option \<Rightarrow> string option" where
  "or_time a b = (case a of None \<Rightarrow> b | Some t \<Rightarrow> Some t)"

text \<open>\<open>create_checkpoint\<close>: the columns that are not times are those of \<open>r\<close>.\<close>

definition pg_ck_create ::
  "(string \<Rightarrow> string option) \<Rightarrow> ckpt_row \<Rightarrow> time_arg \<Rightarrow> time_arg \<Rightarrow> time_arg \<Rightarrow> time_arg \<Rightarrow> time_arg \<Rightarrow>
     string \<Rightarrow> ckpts \<Rightarrow> string + ckpts"
where
  "pg_ck_create of_iso r resumed created updated expires locked now rows =
     (if find (\<lambda>x. ck_id x = ck_id r) rows \<noteq> None then Inl (ck_id r @ '' already exists'')
      else
        (let c = parse_dt of_iso created
         in Inr (rows @
           [r\<lparr>ck_resumed_at := parse_dt of_iso resumed,
              ck_created_at := the (or_time c (Some now)),
              ck_updated_at := the (or_time (or_time (parse_dt of_iso updated) c) (Some now)),
              ck_expires_at := parse_dt of_iso expires,
              ck_locked_at := parse_dt of_iso locked\<rparr>])))"

definition pg_ck_get :: "string \<Rightarrow> ckpts \<Rightarrow> ckpt_row option" where
  "pg_ck_get cid rows = find (\<lambda>r. ck_id r = cid) rows"

definition pg_ck_latest_for_task :: "string \<Rightarrow> ckpts \<Rightarrow> ckpt_row option" where
  "pg_ck_latest_for_task tid rows =
     (case order_desc ck_created_at (filter (\<lambda>r. ck_task_id r = tid) rows) of
        [] \<Rightarrow> None | r # _ \<Rightarrow> Some r)"

text \<open>A load of the row by its key, assignments to its attributes, a flush by primary key and a read.\<close>

definition pg_ck_modify :: "string \<Rightarrow> (ckpt_row \<Rightarrow> ckpt_row) \<Rightarrow> ckpts \<Rightarrow> ckpt_row option \<times> ckpts" where
  "pg_ck_modify cid f rows =
     (case find (\<lambda>r. ck_id r = cid) rows of
        None \<Rightarrow> (None, rows)
      | Some r \<Rightarrow> (let rows' = table_modify ck_id cid (\<lambda>_. f r) rows in (pg_ck_get cid rows', rows')))"

definition pg_ck_mark_pending_interrupt ::
  "string \<Rightarrow> string \<Rightarrow> jdict \<Rightarrow> jdict option \<Rightarrow> string \<Rightarrow> ckpts \<Rightarrow> ckpt_row option \<times> ckpts"
where
  "pg_ck_mark_pending_interrupt cid aid payload gstate now rows =
     pg_ck_modify cid
       (\<lambda>r. let r1 = r\<lparr>ck_approval_id := Some aid, ck_pending_interrupt := Some payload\<rparr>;
                r2 = (case gstate of None \<Rightarrow> r1 | Some g \<Rightarrow> r1\<lparr>ck_graph_state := g\<rparr>)
            in r2\<lparr>ck_status := KInterrupted, ck_updated_at := now\<rparr>) rows"

definition pg_ck_claim_for_resume :: "string \<Rightarrow> string \<Rightarrow> string \<Rightarrow> ckpts \<Rightarrow> ckpt_row option \<times> ckpts" where
  "pg_ck_claim_for_resume cid aid now rows =
     (let wanted = (\<lambda>r. ck_id r = cid \<and> ck_approval_id r = Some aid \<and> \<not> ck_consumed r \<and> ck_status r = KInterrupted \<and>
            (case ck_expires_at r of None \<Rightarrow> True | Some e \<Rightarrow> now < e));
          rows' = update_where wanted
            (\<lambda>r. r\<lparr>ck_status := KResuming, ck_locked_at := Some now, ck_updated_at := now,
                 ck_resume_attempt_count := ck_resume_attempt_count r + 1\<rparr>) rows
      in (if count_where wanted rows \<noteq> 1 then None else pg_ck_get cid rows', rows'))"

definition pg_ck_mark_resumed ::
  "string \<Rightarrow> jdict \<Rightarrow> jdict option \<Rightarrow> string \<Rightarrow> ckpts \<Rightarrow> ckpt_row option \<times> ckpts"
where
  "pg_ck_mark_resumed cid payload snap now rows =
     pg_ck_modify cid
       (\<lambda>r. r\<lparr>ck_status := KResumed, ck_consumed := True, ck_resumed_at := Some now, ck_updated_at := now,
            ck_resume_payload := Some payload, ck_result_snapshot := snap\<rparr>) rows"

definition pg_ck_mark_cancelled :: "string \<Rightarrow> string \<Rightarrow> string \<Rightarrow> ckpts \<Rightarrow> ckpt_row option \<times> ckpts" where
  "pg_ck_mark_cancelled cid reason now rows =
     pg_ck_modify cid
       (\<lambda>r. r\<lparr>ck_status := KCancelled, ck_consumed := True, ck_updated_at := now, ck_last_resume_error := Some reason\<rparr>)
       rows"

definition pg_ck_expire_old :: "(string \<Rightarrow> string option) \<Rightarrow> time_arg \<Rightarrow> string \<Rightarrow> ckpts \<Rightarrow> nat \<times> ckpts" where
  "pg_ck_expire_old of_iso now clock rows =
     (let t = the (or_time (parse_dt of_iso now) (Some clock));
          late = (\<lambda>r. \<not> ck_consumed r \<and> (case ck_expires_at r of None \<Rightarrow> False | Some e \<Rightarrow> e \<le> t))
      in (count_where late rows,
          update_where late (\<lambda>r. r\<lparr>ck_status := KExpired, ck_consumed := True, ck_updated_at := t\<rparr>) rows))"

text \<open>The operations of a client, as in \<open>Checkpoint_Store\<close>.\<close>

fun pg_ck_apply :: "ck_op \<Rightarrow> ckpts \<Rightarrow> ckpts" where
  "pg_ck_apply (OpCreate r) rows =
     (case pg_ck_create Some r (case ck_resumed_at r of None \<Rightarrow> NoTime | Some t \<Rightarrow> TimeOf t) (TimeOf (ck_created_at r))
         (TimeOf (ck_updated_at r)) (case ck_expires_at r of None \<Rightarrow> NoTime | Some t \<Rightarrow> TimeOf t)
         (case ck_locked_at r of None \<Rightarrow> NoTime | Some t \<Rightarrow> TimeOf t) [] rows of
        Inl _ \<Rightarrow> rows | Inr rows' \<Rightarrow> rows')"
| "pg_ck_apply (OpInterrupt cid aid p g now) rows = snd (pg_ck_mark_pending_interrupt cid aid p g now rows)"
| "pg_ck_apply (OpClaim cid aid now) rows = snd (pg_ck_claim_for_resume cid aid now rows)"
| "pg_ck_apply (OpResumed cid p sn now) rows = snd (pg_ck_mark_resumed cid p sn now rows)"
| "pg_ck_apply (OpCancelled cid reason now) rows = snd (pg_ck_mark_cancelled cid reason now rows)"
| "pg_ck_apply (OpExpire now) rows = snd (pg_ck_expire_old Some (TimeOf now) [] rows)"

text \<open>The claims of \<open>cid\<close> that return a row.\<close>

fun pg_count_wins :: "string \<Rightarrow> ck_op list \<Rightarrow> ckpts \<Rightarrow> nat" where
  "pg_count_wins cid [] rows = 0"
| "pg_count_wins cid (op # ops) rows =
     (case op of
        OpClaim c aid now \<Rightarrow> if c = cid \<and> fst (pg_ck_claim_for_resume c aid now rows) \<noteq> None then 1 else 0
      | _ \<Rightarrow> 0) + pg_count_wins cid ops (pg_ck_apply op rows)"

text \<open>A \<open>DateTime\<close> column holds a time or null, never an empty text.\<close>

fun timed_op :: "ck_op \<Rightarrow> bool" where
  "timed_op (OpCreate r) \<longleftrightarrow> ck_expires_at r \<noteq> Some []"
| "timed_op _ \<longleftrightarrow> True"

definition timed :: "ckpts \<Rightarrow> bool" where
  "timed rows \<longleftrightarrow> list_all (\<lambda>r. ck_expires_at r \<noteq> Some []) rows"

lemma pg_ck_get_eq: "pg_ck_get cid rows = ck_get cid rows" "find (\<lambda>r. ck_id r = cid) rows = ck_get cid rows"
  by (simp_all add: pg_ck_get_def ck_get_def find_lookup)

lemma pg_ck_modify_eq:
  assumes "ckpts_ok rows"
  shows "snd (pg_ck_modify cid f rows) = table_modify ck_id cid f rows"
proof (cases "ck_get cid rows")
  case None
  then show ?thesis by (simp add: pg_ck_modify_def pg_ck_get_eq ck_get_def table_modify_absent)
next
  case (Some r)
  then have "table_modify ck_id cid (\<lambda>_. f r) rows = table_modify ck_id cid f rows"
    using assms by (intro table_modify_cong) (auto simp: ckpts_ok_def ck_get_def)
  with Some show ?thesis by (simp add: pg_ck_modify_def pg_ck_get_eq Let_def)
qed

lemma interrupted_row_pg:
  "(let r1 = r\<lparr>ck_approval_id := Some aid, ck_pending_interrupt := Some payload\<rparr>;
        r2 = (case gstate of None \<Rightarrow> r1 | Some g \<Rightarrow> r1\<lparr>ck_graph_state := g\<rparr>)
    in r2\<lparr>ck_status := KInterrupted, ck_updated_at := now\<rparr>) = interrupted_row aid payload gstate now r"
  by (cases gstate) (simp_all add: interrupted_row_def)

lemma update_where_cong:
  "(\<And>r. r \<in> set rows \<Longrightarrow> P r = Q r \<and> (P r \<longrightarrow> f r = g r)) \<Longrightarrow> update_where P f rows = update_where Q g rows"
  by (simp add: update_where_def)

lemma count_where_cong: "(\<And>r. r \<in> set rows \<Longrightarrow> P r = Q r) \<Longrightarrow> count_where P rows = count_where Q rows"
  by (simp add: count_where_def cong: filter_cong)

lemma pg_claim_eq:
  assumes "timed rows"
  shows "pg_ck_claim_for_resume cid aid now rows = ck_claim_for_resume cid aid now rows"
proof -
  let ?w = "\<lambda>r. ck_id r = cid \<and> ck_approval_id r = Some aid \<and> \<not> ck_consumed r \<and> ck_status r = KInterrupted \<and>
            (case ck_expires_at r of None \<Rightarrow> True | Some e \<Rightarrow> now < e)"
  have w: "?w r = claimable cid aid now r" if "r \<in> set rows" for r
    using assms that by (auto simp: claimable_def not_expired_def timed_def list_all_iff split: option.split)
  have "count_where ?w rows = count_where (claimable cid aid now) rows"
    using w by (rule count_where_cong)
  moreover have "update_where ?w (\<lambda>r. r\<lparr>ck_status := KResuming, ck_locked_at := Some now, ck_updated_at := now,
      ck_resume_attempt_count := ck_resume_attempt_count r + 1\<rparr>) rows = update_where (claimable cid aid now) (claimed_row now) rows"
    using w by (intro update_where_cong) (simp add: claimed_row_def)
  ultimately show ?thesis
    by (simp only: pg_ck_claim_for_resume_def ck_claim_for_resume_def Let_def pg_ck_get_eq)
qed

lemma pg_expire_eq:
  assumes "timed rows"
  shows "pg_ck_expire_old of_iso (TimeOf now) clock rows = ck_expire_old now rows"
proof -
  let ?w = "\<lambda>r. \<not> ck_consumed r \<and> (case ck_expires_at r of None \<Rightarrow> False | Some e \<Rightarrow> e \<le> now)"
  have w: "?w r = overdue now r" if "r \<in> set rows" for r
    using assms that by (auto simp: overdue_def timed_def list_all_iff split: option.split)
  have "count_where ?w rows = count_where (overdue now) rows"
    using w by (rule count_where_cong)
  moreover have "update_where ?w (\<lambda>r. r\<lparr>ck_status := KExpired, ck_consumed := True, ck_updated_at := now\<rparr>) rows =
      update_where (overdue now) (expired_row now) rows"
    using w by (intro update_where_cong) (simp add: expired_row_def)
  ultimately show ?thesis
    by (simp add: pg_ck_expire_old_def ck_expire_old_def or_time_def)
qed

lemma pg_create_eq:
  "pg_ck_create Some r (case ck_resumed_at r of None \<Rightarrow> NoTime | Some t \<Rightarrow> TimeOf t) (TimeOf (ck_created_at r))
     (TimeOf (ck_updated_at r)) (case ck_expires_at r of None \<Rightarrow> NoTime | Some t \<Rightarrow> TimeOf t)
     (case ck_locked_at r of None \<Rightarrow> NoTime | Some t \<Rightarrow> TimeOf t) now rows = ck_insert r rows"
  by (cases r)
     (auto simp: pg_ck_create_def ck_insert_def table_insert_def or_time_def pg_ck_get_eq ck_get_def lookup_by_None
      split: option.split)

lemma pg_interrupt_eq:
  "ckpts_ok rows \<Longrightarrow>
     snd (pg_ck_mark_pending_interrupt cid aid p g now rows) = ck_mark_pending_interrupt cid aid p g now rows"
  unfolding pg_ck_mark_pending_interrupt_def ck_mark_pending_interrupt_def interrupted_row_pg
  by (rule pg_ck_modify_eq)

lemma pg_ck_apply_eq: "ckpts_ok rows \<Longrightarrow> timed rows \<Longrightarrow> pg_ck_apply op rows = ck_apply op rows"
  by (cases op)
     (simp_all add: pg_create_eq pg_claim_eq pg_expire_eq pg_ck_modify_eq pg_interrupt_eq pg_ck_mark_resumed_def ck_mark_resumed_def
      pg_ck_mark_cancelled_def ck_mark_cancelled_def resumed_row_def [abs_def] cancelled_row_def [abs_def])

lemma update_where_timed: "(\<And>r. ck_expires_at (f r) = ck_expires_at r) \<Longrightarrow> timed rows \<Longrightarrow> timed (update_where P f rows)"
  by (auto simp: timed_def update_where_def list_all_iff)

lemma ck_apply_timed: "timed rows \<Longrightarrow> timed_op op \<Longrightarrow> timed (ck_apply op rows)"
proof (cases op)
  case (OpCreate r)
  then show "timed rows \<Longrightarrow> timed_op op \<Longrightarrow> ?thesis"
    by (auto simp: timed_def ck_insert_def table_insert_cases split: sum.split)
qed (auto simp: ck_mark_pending_interrupt_def ck_mark_resumed_def ck_mark_cancelled_def ck_claim_for_resume_def
    ck_expire_old_def Let_def table_modify_def interrupted_row_def claimed_row_def resumed_row_def cancelled_row_def
    expired_row_def intro!: update_where_timed)

text \<open>
  C31. The two checkpoint stores are interchangeable. From the same rows, the same operations in the same order
  leave the same rows in PostgreSQL and in SQLite, and grant the same claims; so with PostgreSQL too at most
  one of any number of racing resumers gets the checkpoint, unless it is put back to interrupted.
\<close>

theorem postgres_checkpoints_agree:
  assumes "ckpts_ok rows" and "timed rows" and "list_all timed_op ops"
  shows "fold pg_ck_apply ops rows = fold ck_apply ops rows \<and> pg_count_wins cid ops rows = count_wins cid ops rows \<and>
    (list_all (\<lambda>op. \<not> reopens cid op) ops \<longrightarrow> pg_count_wins cid ops rows \<le> 1)"
proof -
  have "fold pg_ck_apply ops rows = fold ck_apply ops rows \<and> pg_count_wins cid ops rows = count_wins cid ops rows"
    using assms
  proof (induction ops arbitrary: rows)
    case (Cons op ops)
    then have "pg_ck_apply op rows = ck_apply op rows" by (simp add: pg_ck_apply_eq)
    with Cons show ?case
      by (cases op) (simp_all add: ck_apply_ok ck_apply_timed pg_claim_eq del: pg_ck_apply.simps ck_apply.simps)
  qed simp
  then show ?thesis using claim_wins_at_most_once [OF assms(1)] by metis
qed

definition demo_ck_ops :: "ck_op list" where
  "demo_ck_ops = [OpClaim ''ck1'' ''apr_1'' ''t2'', OpClaim ''ck1'' ''apr_1'' ''t3'', OpResumed ''ck1'' [] None ''t4'',
     OpExpire ''t5'']"

theorem postgres_checkpoints_agree_witness:
  "fold pg_ck_apply demo_ck_ops [demo_ckpt] = fold ck_apply demo_ck_ops [demo_ckpt] \<and>
   pg_count_wins ''ck1'' demo_ck_ops [demo_ckpt] = 1"
proof -
  have "timed [demo_ckpt]" by code_simp
  moreover have "list_all timed_op demo_ck_ops" by (simp add: demo_ck_ops_def)
  moreover have "count_wins ''ck1'' demo_ck_ops [demo_ckpt] = 1" by code_simp
  ultimately show ?thesis using postgres_checkpoints_agree [OF demo_ckpt_ok] by simp
qed

subsection \<open>Audit\<close>

definition pg_audit_append :: "string \<Rightarrow> audit_event \<Rightarrow> audit_event list \<Rightarrow> string + audit_event list" where
  "pg_audit_append dup e rows = table_insert dup ev_event_id e rows"

definition pg_audit_get :: "string \<Rightarrow> audit_event list \<Rightarrow> audit_event option" where
  "pg_audit_get eid rows = find (\<lambda>e. ev_event_id e = eid) rows"

text \<open>\<open>query_events\<close>: one \<open>filter\<close> after another, those that are given.\<close>

definition pg_eq_filter :: "(audit_event \<Rightarrow> 'v) \<Rightarrow> 'v option \<Rightarrow> audit_event list \<Rightarrow> audit_event list" where
  "pg_eq_filter col v rows = (case v of None \<Rightarrow> rows | Some x \<Rightarrow> filter (\<lambda>e. col e = x) rows)"

definition pg_time_filter ::
  "(string \<Rightarrow> string option) \<Rightarrow> (string \<Rightarrow> string \<Rightarrow> bool) \<Rightarrow> string option \<Rightarrow> audit_event list \<Rightarrow> audit_event list"
where
  "pg_time_filter of_iso holds v rows =
     (case v of
        None \<Rightarrow> rows
      | Some s \<Rightarrow> (case of_iso s of None \<Rightarrow> rows | Some t \<Rightarrow> filter (\<lambda>e. holds (ev_timestamp e) t) rows))"

definition pg_audit_query ::
  "(string \<Rightarrow> string option) \<Rightarrow> audit_query \<Rightarrow> int \<Rightarrow> audit_event list \<Rightarrow> audit_event list"
where
  "pg_audit_query of_iso q limit rows =
     (let l = (if limit \<le> 0 then 100 else limit); n = (if l > 10000 then 10000 else l);
          r1 = pg_eq_filter ev_event_type (aq_event_type q) rows;
          r2 = pg_eq_filter ev_actor (aq_actor q) r1;
          r3 = pg_eq_filter ev_task_id (map_option Some (aq_task_id q)) r2;
          r4 = pg_eq_filter ev_approval_id (map_option Some (aq_approval_id q)) r3;
          r5 = pg_eq_filter ev_outcome (aq_outcome q) r4;
          r6 = pg_eq_filter ev_severity (map_option Some (aq_severity q)) r5;
          r7 = pg_time_filter of_iso (\<lambda>t b. b \<le> t) (aq_start_time q) r6;
          r8 = pg_time_filter of_iso (\<lambda>t b. t \<le> b) (aq_end_time q) r7
      in take (nat n) (order_desc ev_timestamp r8))"

lemma pg_eq_filter_eq:
  "pg_eq_filter col v rows = filter (\<lambda>e. case v of None \<Rightarrow> True | Some x \<Rightarrow> col e = x) rows"
  by (cases v) (simp_all add: pg_eq_filter_def)

lemma pg_time_filter_eq:
  "pg_time_filter (\<lambda>s. if valid_iso s then Some s else None) holds v rows =
     filter (\<lambda>e. case v of None \<Rightarrow> True | Some x \<Rightarrow> valid_iso x \<longrightarrow> holds (ev_timestamp e) x) rows"
  by (cases v) (simp_all add: pg_time_filter_def)

lemma case_map_Some:
  "(case map_option Some v of None \<Rightarrow> True | Some x \<Rightarrow> c = x) = (case v of None \<Rightarrow> True | Some x \<Rightarrow> c = Some x)"
  by (cases v) simp_all

text \<open>The filters in sequence select as the one condition of the SQLite store does.\<close>

lemma pg_audit_query_eq:
  "pg_audit_query (\<lambda>s. if valid_iso s then Some s else None) q limit rows = audit_query_events valid_iso q limit rows"
  unfolding pg_audit_query_def audit_query_events_def clamp_limit_def Let_def pg_eq_filter_eq pg_time_filter_eq
  by (simp only: filter_filter case_map_Some audit_matches_def [abs_def] conj_assoc)

end
