(* ===== verification/Postgres_Accounts.thy ===== *)
theory Postgres_Accounts
  imports Auth Metrics_Store Postgres_Stores
begin

text \<open>
  The PostgreSQL stores of users and of runtime metrics (\<open>app/storage/postgres/user_store.py\<close>,
  \<open>metrics_store.py\<close>) and the choice of the stores (\<open>app/storage/factory.py\<close>). Roles are one text column; the
  creation time of a user is kept with its offset.
\<close>

subsection \<open>The choice of the stores\<close>

datatype store_class = InMemoryStore | SQLiteStore | PostgresStore

definition get_user_store :: "settings \<Rightarrow> store_class" where
  "get_user_store cfg =
     (if st_storage_backend cfg = ''postgres'' \<and> st_database_url cfg \<noteq> [] then PostgresStore else InMemoryStore)"

definition get_sql_store :: "settings \<Rightarrow> store_class" where
  "get_sql_store cfg =
     (if st_storage_backend cfg = ''postgres'' \<and> st_database_url cfg \<noteq> [] then PostgresStore else SQLiteStore)"

subsection \<open>Users\<close>

record user_row =
  ur_user_id :: string
  ur_username :: string
  ur_password_hash :: string
  ur_roles :: string
  ur_disabled :: int
  ur_created_at :: string

type_synonym user_rows = "user_row list"

definition serialize_roles :: "user_role list \<Rightarrow> string" where
  "serialize_roles roles = str_join '','' (map role_value roles)"

definition role_of_value :: "string \<Rightarrow> user_role option" where
  "role_of_value s = find (\<lambda>r. role_value r = s) [RoleAdmin, RoleOperator, RoleViewer, RoleAuditor]"

definition parse_roles :: "unicode \<Rightarrow> string \<Rightarrow> user_role list" where
  "parse_roles u raw =
     (let parsed = List.map_filter (\<lambda>x. let v = u_strip_text u x in if v = [] then None else role_of_value v)
        (split_on CHR '','' raw)
      in if parsed = [] then [RoleViewer] else parsed)"

definition row_to_user :: "unicode \<Rightarrow> user_row \<Rightarrow> user" where
  "row_to_user u r =
     \<lparr>au_user_id = ur_user_id r, au_username = ur_username r, au_password_hash = ur_password_hash r,
      au_roles = parse_roles u (ur_roles r), au_disabled = (ur_disabled r \<noteq> 0), au_created_at = ur_created_at r\<rparr>"

definition pg_create_user ::
  "unicode \<Rightarrow> 'w env \<Rightarrow> 'w hashing \<Rightarrow> string \<Rightarrow> string \<Rightarrow> user_role list \<Rightarrow> bool \<Rightarrow> user_rows \<times> 'w \<Rightarrow>
     (string + user) \<times> user_rows \<times> 'w"
where
  "pg_create_user u env pw name password roles disabled st =
     (let (rows, w) = st in
      if find (\<lambda>r. ur_username r = name) rows \<noteq> None then (Inl (''User '' @ name @ '' already exists''), rows, w)
      else
        (let now = utc_iso env w; (h, w1) = fresh_hex env w; (hash, w2) = pw_hash pw password w1;
             row = \<lparr>ur_user_id = ''usr_'' @ hex12 h, ur_username = name, ur_password_hash = hash,
                    ur_roles = serialize_roles roles, ur_disabled = (if disabled then 1 else 0), ur_created_at = now\<rparr>
         in (Inr (row_to_user u row), rows @ [row], w2)))"

definition pg_get_user_by_username :: "unicode \<Rightarrow> string \<Rightarrow> user_rows \<Rightarrow> user option" where
  "pg_get_user_by_username u name rows = map_option (row_to_user u) (find (\<lambda>r. ur_username r = name) rows)"

definition pg_authenticate_user :: "unicode \<Rightarrow> 'w hashing \<Rightarrow> string \<Rightarrow> string \<Rightarrow> user_rows \<Rightarrow> user option" where
  "pg_authenticate_user u pw name password rows =
     (case pg_get_user_by_username u name rows of
        None \<Rightarrow> None
      | Some usr \<Rightarrow>
          if au_disabled usr then None
          else if \<not> pw_verify pw password (au_password_hash usr) then None else Some usr)"

definition pg_seed_default_admin_if_empty ::
  "unicode \<Rightarrow> 'w env \<Rightarrow> 'w hashing \<Rightarrow> string option \<Rightarrow> user_rows \<times> 'w \<Rightarrow> user_rows \<times> 'w"
where
  "pg_seed_default_admin_if_empty u env pw variable st =
     (let password = (case variable of None \<Rightarrow> ''admin123'' | Some p \<Rightarrow> p)
      in if fst st \<noteq> [] then st
         else fold (\<lambda>(name, role) st. snd (pg_create_user u env pw name password [role] False st)) SEED_USERS st)"

lemma role_of_value [simp]: "role_of_value (role_value r) = Some r"
  by (cases r) (simp_all add: role_of_value_def)

lemma role_value_plain:
  "role_value r \<noteq> []" "CHR '','' \<notin> set (role_value r)" "py_chars (role_value r) = map (\<lambda>c. [c]) (role_value r)"
  "\<not> py_space (hd (role_value r))" "\<not> py_space (last (role_value r))"
  by (cases r; simp add: py_space_def; code_simp)+

lemma split_on_plain: "d \<notin> set w \<Longrightarrow> split_on d w = [w]"
  by (induction w) auto

lemma split_on_append: "d \<notin> set w \<Longrightarrow> split_on d (w @ d # s) = w # split_on d s"
  by (induction w) auto

lemma split_on_join: "ws \<noteq> [] \<Longrightarrow> \<forall>w \<in> set ws. d \<notin> set w \<Longrightarrow> split_on d (str_join [d] ws) = ws"
  by (induction "[d]" ws rule: str_join.induct) (simp_all add: split_on_plain split_on_append)

lemma u_strip_role: "u_strip_text u (role_value r) = role_value r"
proof -
  have "\<not> is_space u (hd (py_chars (role_value r)))" "\<not> is_space u (last (py_chars (role_value r)))"
    using role_value_plain [of r] by (cases r; simp add: is_space_def ascii_def py_space_def)+
  then have "u_strip u (py_chars (role_value r)) = py_chars (role_value r)" by (simp add: u_strip_id)
  then show ?thesis using role_value_plain(3) [of r] by (simp add: u_strip_text_def)
qed

lemma parse_serialize: "roles \<noteq> [] \<Longrightarrow> parse_roles u (serialize_roles roles) = roles"
proof -
  assume "roles \<noteq> []"
  then have "split_on CHR '','' (serialize_roles roles) = map role_value roles"
    by (simp add: serialize_roles_def split_on_join role_value_plain)
  moreover have "List.map_filter (\<lambda>x. let v = u_strip_text u x in if v = [] then None else role_of_value v)
      (map role_value roles) = roles"
    by (induction roles) (simp_all add: Let_def u_strip_role role_value_plain List.map_filter_def comp_def)
  ultimately show ?thesis using \<open>roles \<noteq> []\<close> by (simp add: parse_roles_def)
qed

text \<open>A user without roles comes back from the table as a viewer, but has none in memory.\<close>

lemma no_roles_become_viewer: "parse_roles u (serialize_roles []) = [RoleViewer]"
  by (simp add: parse_roles_def serialize_roles_def List.map_filter_def u_strip_text_def u_strip_def strip_end_def)

subsection \<open>The contract of the two stores\<close>

text \<open>
  A store of accounts: a name can be taken once, and what is found under a name is the account created with
  it, the hash of its password included.
\<close>

definition account_of :: "'w hashing \<Rightarrow> string \<Rightarrow> string \<Rightarrow> user_role list \<Rightarrow> bool \<Rightarrow> user \<Rightarrow> bool" where
  "account_of pw name password roles disabled usr \<longleftrightarrow>
     au_username usr = name \<and> au_roles usr = roles \<and> au_disabled usr = disabled \<and>
     (\<exists>w. au_password_hash usr = fst (pw_hash pw password w))"

locale account_store =
  fixes get :: "string \<Rightarrow> 's \<Rightarrow> user option"
    and create :: "string \<Rightarrow> string \<Rightarrow> user_role list \<Rightarrow> bool \<Rightarrow> 's \<times> 'w \<Rightarrow> (string + user) \<times> 's \<times> 'w"
    and pw :: "'w hashing"
  assumes taken: "get name s \<noteq> None \<Longrightarrow>
      create name p roles d (s, w) = (Inl (''User '' @ name @ '' already exists''), s, w)"
    and created: "get name s = None \<Longrightarrow> roles \<noteq> [] \<Longrightarrow>
      \<exists>usr s' w'. create name p roles d (s, w) = (Inr usr, s', w') \<and> account_of pw name p roles d usr \<and>
        (\<forall>k. get k s' = (if k = name then Some usr else get k s))"
begin

definition log_in :: "string \<Rightarrow> string \<Rightarrow> 's \<Rightarrow> user option" where
  "log_in name p s =
     (case get name s of
        None \<Rightarrow> None
      | Some usr \<Rightarrow> if au_disabled usr \<or> \<not> pw_verify pw p (au_password_hash usr) then None else Some usr)"

lemma create_keeps:
  assumes "roles \<noteq> []" and "get k s = Some usr"
  shows "get k (fst (snd (create name p roles d (s, w)))) = Some usr"
proof (cases "get name s")
  case None
  from created [OF None assms(1), of p d w] assms(2) None show ?thesis by auto
qed (use assms taken [of name s p roles d w] in simp)

lemma created_logs_in:
  assumes "get name s = None" and "roles \<noteq> []" and "\<And>w. pw_verify pw p (fst (pw_hash pw p w))"
  shows "\<exists>usr. log_in name p (fst (snd (create name p roles False (s, w)))) = Some usr \<and> au_roles usr = roles"
  using created [OF assms(1,2), of p False w] assms(3) by (auto simp: log_in_def account_of_def)

lemma seeded_get:
  assumes "distinct (map fst accounts)" and "\<forall>(n, r) \<in> set accounts. get n (fst st) = None"
    and "(name, role) \<in> set accounts"
  shows "\<exists>usr. get name (fst (fold (\<lambda>(n, r) st. snd (create n p [r] False st)) accounts st)) = Some usr \<and>
     account_of pw name p [role] False usr"
  using assms
proof (induction accounts arbitrary: st)
  case (Cons a accounts)
  obtain n r where a: "a = (n, r)" by (cases a)
  obtain s w where st: "st = (s, w)" by (cases st)
  from Cons.prems(2) have fresh: "get n s = None" by (simp add: a st)
  obtain usr s' w' where c: "create n p [r] False (s, w) = (Inr usr, s', w')" "account_of pw n p [r] False usr"
      "\<And>k. get k s' = (if k = n then Some usr else get k s)"
    using created [OF fresh, of "[r]" p False w] by auto
  have kept: "get n s1 = Some usr \<Longrightarrow>
      get n (fst (fold (\<lambda>(n, r) st. snd (create n p [r] False st)) accts (s1, w1))) = Some usr" for accts s1 w1
  proof (induction accts arbitrary: s1 w1)
    case (Cons b accts)
    obtain s2 w2 where "snd (create (fst b) p [snd b] False (s1, w1)) = (s2, w2)" by (metis surj_pair)
    then show ?case
      using Cons create_keeps [of "[snd b]" n s1 usr "fst b" p False w1] by (simp add: case_prod_unfold)
  qed simp
  show ?case
  proof (cases "(name, role) = (n, r)")
    case True
    then show ?thesis using kept [of s' accounts w'] c by (auto simp: a st)
  next
    case False
    have "\<forall>(m, q) \<in> set accounts. get m (fst (s', w')) = None"
      using Cons.prems c(3) by (force simp: a st)
    from Cons.IH [OF _ this] show ?thesis using Cons.prems False c(1) by (auto simp: a st)
  qed
qed simp

end

interpretation mem: account_store get_user_by_username "create_user env pw" pw for env pw
  by unfold_locales
     (auto simp: get_user_by_username_def create_user_def account_of_def case_prod_unfold Let_def)

lemma find_username: "find (\<lambda>r. ur_username r = n) rows = lookup_by ur_username n rows"
  by (rule find_lookup)

interpretation pg: account_store "pg_get_user_by_username u" "pg_create_user u env pw" pw for u env pw
  by unfold_locales
     (auto simp: pg_get_user_by_username_def pg_create_user_def account_of_def case_prod_unfold Let_def row_to_user_def
      parse_serialize find_username lookup_by_append split: option.split)

text \<open>
  Both stores of users open with the four development accounts: after the seeding of an empty store, in
  memory or in PostgreSQL, each logs in with the password of the environment, with its one role. The hypothesis
  is that the hashing verifies the password a hash was made of.
\<close>

lemma seeded_accounts_log_in:
  assumes "\<And>p w. pw_verify pw p (fst (pw_hash pw p w))" and "(name, role) \<in> set SEED_USERS"
    and "password = (case variable of None \<Rightarrow> ''admin123'' | Some p \<Rightarrow> p)"
  shows "(\<exists>usr. authenticate_user pw name password (fst (seed_default_admin_if_empty env pw variable ([], w))) = Some usr \<and>
            au_username usr = name \<and> au_roles usr = [role]) \<and>
    (\<exists>usr. pg_authenticate_user u pw name password (fst (pg_seed_default_admin_if_empty u env pw variable ([], w))) = Some usr \<and>
            au_username usr = name \<and> au_roles usr = [role])"
proof -
  have d: "distinct (map fst SEED_USERS)" by (simp add: SEED_USERS_def)
  obtain a where a: "get_user_by_username name (fst (seed_default_admin_if_empty env pw variable ([], w))) = Some a"
      "account_of pw name password [role] False a"
    using mem.seeded_get [OF d _ assms(2), of "([], w)" env pw password] assms(3)
    by (auto simp: seed_default_admin_if_empty_def get_user_by_username_def)
  obtain b where b: "pg_get_user_by_username u name (fst (pg_seed_default_admin_if_empty u env pw variable ([], w))) = Some b"
      "account_of pw name password [role] False b"
    using pg.seeded_get [OF d _ assms(2), of u "([], w)" env pw password] assms(3)
    by (auto simp: pg_seed_default_admin_if_empty_def pg_get_user_by_username_def)
  show ?thesis
    using a b assms(1) by (auto simp: authenticate_user_def get_user_by_username_def pg_authenticate_user_def account_of_def)
qed

subsection \<open>Runtime metrics\<close>

record pg_task_metric =
  pt_task_id :: string
  pt_mode :: string
  pt_status :: string
  pt_success :: int
  pt_latency_ms :: "rat option"
  pt_timestamp :: string

record pg_tool_metric =
  pl_task_id :: string
  pl_tool_name :: string
  pl_success :: int
  pl_latency_ms :: "rat option"
  pl_retry_count :: int
  pl_timestamp :: string

record pg_usage_metric =
  pu_task_id :: string
  pu_model_name :: string
  pu_prompt_tokens :: int
  pu_completion_tokens :: int
  pu_total_cost :: rat
  pu_timestamp :: string

record pg_metrics =
  pm_tasks :: "pg_task_metric list"
  pm_tools :: "pg_tool_metric list"
  pm_usage :: "pg_usage_metric list"

definition parse_timestamp :: "(string \<Rightarrow> string option) \<Rightarrow> 'w env \<Rightarrow> string option \<Rightarrow> 'w \<Rightarrow> string" where
  "parse_timestamp of_iso env given w =
     (case given of
        None \<Rightarrow> utc_iso env w
      | Some t \<Rightarrow> if t = [] then utc_iso env w else case of_iso t of None \<Rightarrow> utc_iso env w | Some s \<Rightarrow> s)"

text \<open>A task row is recorded without \<open>success\<close>, which stays 0.\<close>

definition pg_append_task_metric ::
  "(string \<Rightarrow> string option) \<Rightarrow> 'w env \<Rightarrow> string \<Rightarrow> string \<Rightarrow> string \<Rightarrow> rat option \<Rightarrow> string option \<Rightarrow>
     pg_metrics \<times> 'w \<Rightarrow> pg_metrics \<times> 'w"
where
  "pg_append_task_metric of_iso env tid mode status lat given st =
     ((fst st)\<lparr>pm_tasks := pm_tasks (fst st) @
        [\<lparr>pt_task_id = tid, pt_mode = mode, pt_status = status, pt_success = 0, pt_latency_ms = lat,
          pt_timestamp = parse_timestamp of_iso env given (snd st)\<rparr>]\<rparr>, snd st)"

definition pg_append_tool_metric ::
  "(string \<Rightarrow> string option) \<Rightarrow> 'w env \<Rightarrow> string \<Rightarrow> bool \<Rightarrow> rat option \<Rightarrow> int \<Rightarrow> string \<Rightarrow> string option \<Rightarrow>
     pg_metrics \<times> 'w \<Rightarrow> pg_metrics \<times> 'w"
where
  "pg_append_tool_metric of_iso env tool ok lat retries tid given st =
     ((fst st)\<lparr>pm_tools := pm_tools (fst st) @
        [\<lparr>pl_task_id = tid, pl_tool_name = tool, pl_success = (if ok then 1 else 0), pl_latency_ms = lat,
          pl_retry_count = retries, pl_timestamp = parse_timestamp of_iso env given (snd st)\<rparr>]\<rparr>, snd st)"

definition pg_append_token_usage ::
  "(string \<Rightarrow> string option) \<Rightarrow> 'w env \<Rightarrow> string \<Rightarrow> int \<Rightarrow> int \<Rightarrow> rat \<Rightarrow> string option \<Rightarrow> pg_metrics \<times> 'w \<Rightarrow> pg_metrics \<times> 'w"
where
  "pg_append_token_usage of_iso env tid prompt completion cost given st =
     ((fst st)\<lparr>pm_usage := pm_usage (fst st) @
        [\<lparr>pu_task_id = tid, pu_model_name = [], pu_prompt_tokens = prompt, pu_completion_tokens = completion,
          pu_total_cost = cost, pu_timestamp = parse_timestamp of_iso env given (snd st)\<rparr>]\<rparr>, snd st)"

definition pg_store_metric ::
  "(string \<Rightarrow> string option) \<Rightarrow> 'w env \<Rightarrow> metric_row \<Rightarrow> pg_metrics \<times> 'w \<Rightarrow> pg_metrics \<times> 'w"
where
  "pg_store_metric of_iso env row st =
     (case row of
        TaskMetric tid mode status lat \<Rightarrow> pg_append_task_metric of_iso env tid mode status lat None st
      | ToolMetric tool ok lat retries tid \<Rightarrow> pg_append_tool_metric of_iso env tool ok (Some lat) retries tid None st
      | TokenUsage tid p c cost \<Rightarrow> pg_append_token_usage of_iso env tid p c cost None st)"

text \<open>\<open>_apply_time_filters\<close>, the order and \<open>_normalize_limit\<close>.\<close>

definition pg_recent ::
  "('r \<Rightarrow> string) \<Rightarrow> (string \<Rightarrow> string option) \<Rightarrow> string option \<Rightarrow> string option \<Rightarrow> int \<Rightarrow> 'r list \<Rightarrow> 'r list"
where
  "pg_recent time of_iso start stop limit rows =
     (let n = (if limit \<le> 0 then 100 else if limit > 500 then 500 else limit);
          bound = (\<lambda>b holds rs. case b of None \<Rightarrow> rs
            | Some s \<Rightarrow> (case of_iso s of None \<Rightarrow> rs | Some t \<Rightarrow> filter (\<lambda>r. holds (time r) t) rs))
      in take (nat n) (order_desc time (bound stop (\<lambda>x t. x \<le> t) (bound start (\<lambda>x t. t \<le> x) rows))))"

text \<open>The row a summary counts, with the columns read as the summary reads them.\<close>

definition read_task :: "pg_task_metric \<Rightarrow> task_metric" where
  "read_task r = \<lparr>tm_event_id = [], tm_timestamp = pt_timestamp r, tm_task_id = pt_task_id r, tm_mode = pt_mode r,
     tm_status = pt_status r, tm_latency_ms = pt_latency_ms r\<rparr>"

definition read_tool :: "pg_tool_metric \<Rightarrow> tool_metric" where
  "read_tool r = \<lparr>tl_event_id = [], tl_timestamp = pl_timestamp r, tl_task_id = pl_task_id r,
     tl_tool_name = pl_tool_name r, tl_success = (pl_success r \<noteq> 0), tl_latency_ms = pl_latency_ms r,
     tl_retry_count = pl_retry_count r\<rparr>"

definition read_usage :: "pg_usage_metric \<Rightarrow> usage_metric" where
  "read_usage r = \<lparr>us_event_id = [], us_timestamp = pu_timestamp r, us_task_id = pu_task_id r,
     us_prompt_tokens = pu_prompt_tokens r, us_completion_tokens = pu_completion_tokens r, us_cost = pu_total_cost r\<rparr>"

definition pg_task_summary ::
  "(string \<Rightarrow> string option) \<Rightarrow> string option \<Rightarrow> string option \<Rightarrow> int \<Rightarrow> pg_metrics \<Rightarrow> jdict"
where
  "pg_task_summary of_iso start stop limit m =
     (let rows = map read_task (pg_recent pt_timestamp of_iso start stop limit (pm_tasks m));
          s = fold count_task rows no_tasks
      in task_counts s @
         [(''avg_task_latency_ms'', JFloat (average (ts_latencies s))),
          (''by_mode'', JObj (map (\<lambda>(k, e). (k, mode_dict e)) (fold count_mode rows [])))])"

definition pg_tool_summary ::
  "(string \<Rightarrow> string option) \<Rightarrow> string option \<Rightarrow> string option \<Rightarrow> int \<Rightarrow> pg_metrics \<Rightarrow> jdict"
where
  "pg_tool_summary of_iso start stop limit m =
     (let rows = map read_tool (pg_recent pl_timestamp of_iso start stop limit (pm_tools m));
          s = fold count_call rows no_calls
      in [(''tool_call_count'', JInt (tt_calls s)), (''tool_failure_count'', JInt (tt_failures s)),
          (''retry_count'', JInt (tt_retries s)), (''avg_latency_ms'', JFloat (average (tt_latencies s))),
          (''by_tool'', JObj (map (\<lambda>(k, e). (k, tool_dict e)) (fold count_tool rows [])))])"

definition pg_task_mode_map :: "pg_task_metric list \<Rightarrow> (string \<times> string) list" where
  "pg_task_mode_map rows =
     fold (\<lambda>r d. if map_of d (pt_task_id r) = None then dput d (pt_task_id r) (or_unknown_text (pt_mode r)) else d)
       (sort_key pt_timestamp rows) []"

definition pg_cost_summary ::
  "(string \<Rightarrow> string option) \<Rightarrow> string option \<Rightarrow> string option \<Rightarrow> int \<Rightarrow> pg_metrics \<Rightarrow> jdict"
where
  "pg_cost_summary of_iso start stop limit m =
     (let rows = map read_usage (pg_recent pu_timestamp of_iso start stop limit (pm_usage m));
          entries = (\<lambda>d. JObj (map (\<lambda>(k, e). (k, cost_dict e)) d))
      in usage_totals (fold count_usage rows no_cost) @
         [(''by_mode'', entries (costs_per (usage_mode (pg_task_mode_map (pm_tasks m))) rows)),
          (''by_day'', entries (costs_per usage_day rows))])"

text \<open>\<open>summary\<close> picks twelve figures out of the three.\<close>

definition pg_summary ::
  "(string \<Rightarrow> string option) \<Rightarrow> string option \<Rightarrow> string option \<Rightarrow> int \<Rightarrow> pg_metrics \<Rightarrow> jdict"
where
  "pg_summary of_iso start stop limit m =
     (let t = pg_task_summary of_iso start stop limit m; l = pg_tool_summary of_iso start stop limit m;
          c = pg_cost_summary of_iso start stop limit m
      in map (\<lambda>k. (k, dget t k))
           [''task_count'', ''success_count'', ''failed_count'', ''waiting_approval_count'', ''cancelled_count'',
            ''unknown_status_count''] @
         map (\<lambda>k. (k, dget l k)) [''tool_call_count'', ''tool_failure_count''] @
         map (\<lambda>k. (k, dget c k)) [''total_prompt_tokens'', ''total_completion_tokens'', ''total_cost''] @
         [(''avg_task_latency_ms'', dget t ''avg_task_latency_ms'')])"

text \<open>The tables of the two stores hold the same rows, but for the identifiers and the unread columns.\<close>

definition same_metrics :: "pg_metrics \<Rightarrow> metrics_store \<Rightarrow> bool" where
  "same_metrics m s \<longleftrightarrow>
     map read_task (pm_tasks m) = map (\<lambda>r. r\<lparr>tm_event_id := []\<rparr>) (ms_tasks s) \<and>
     map read_tool (pm_tools m) = map (\<lambda>r. r\<lparr>tl_event_id := []\<rparr>) (ms_tools s) \<and>
     map read_usage (pm_usage m) = map (\<lambda>r. r\<lparr>us_event_id := []\<rparr>) (ms_usage s)"

lemma map_insert_desc: "map f (insert_desc (\<lambda>x. c (f x)) r xs) = insert_desc c (f r) (map f xs)"
  by (induction xs) simp_all

lemma map_order_desc: "map f (order_desc (\<lambda>x. c (f x)) xs) = order_desc c (map f xs)"
  by (induction xs) (simp_all add: order_desc_def map_insert_desc)

lemma map_recent_rows:
  "map f (recent_rows (\<lambda>r. c (f r)) valid_iso start stop limit rows) =
     recent_rows c valid_iso start stop limit (map f rows)"
  by (simp add: recent_rows_def take_map [symmetric] map_order_desc filter_map comp_def)

lemma pg_recent_eq:
  "pg_recent time (\<lambda>s. if valid_iso s then Some s else None) start stop limit rows =
     recent_rows time valid_iso start stop limit rows"
  by (cases start; cases stop)
     (simp_all add: pg_recent_def recent_rows_def in_time_def clamp_limit_def Let_def conj_commute)

lemma sort_key_map: "map f (sort_key (\<lambda>x. c (f x)) xs) = sort_key c (map f xs)"
proof -
  have "map f (insort_key (\<lambda>x. c (f x)) r ys) = insort_key c (f r) (map f ys)" for r ys
    by (induction ys) simp_all
  then show ?thesis by (induction xs) (simp_all add: sort_key_def)
qed

lemma fold_map_keep: "(\<And>r. g (h r) = g r) \<Longrightarrow> fold g (map h rows) a = fold g rows a"
  by (simp add: fold_map comp_def)

lemma read_times:
  "pt_timestamp = (\<lambda>r. tm_timestamp (read_task r))" "pl_timestamp = (\<lambda>r. tl_timestamp (read_tool r))"
  "pu_timestamp = (\<lambda>r. us_timestamp (read_usage r))"
  by (simp_all add: fun_eq_iff read_task_def read_tool_def read_usage_def)

lemma erased_columns:
  "tm_status (r\<lparr>tm_event_id := i\<rparr>) = tm_status r" "tm_mode (r\<lparr>tm_event_id := i\<rparr>) = tm_mode r"
  "tm_latency_ms (r\<lparr>tm_event_id := i\<rparr>) = tm_latency_ms r" "tm_task_id (r\<lparr>tm_event_id := i\<rparr>) = tm_task_id r"
  "tl_success (l\<lparr>tl_event_id := i\<rparr>) = tl_success l" "tl_retry_count (l\<lparr>tl_event_id := i\<rparr>) = tl_retry_count l"
  "tl_latency_ms (l\<lparr>tl_event_id := i\<rparr>) = tl_latency_ms l" "tl_tool_name (l\<lparr>tl_event_id := i\<rparr>) = tl_tool_name l"
  by simp_all

lemma read_columns:
  "tm_task_id (read_task r) = pt_task_id r" "tm_mode (read_task r) = pt_mode r"
  by (simp_all add: read_task_def)

lemma unread_ids:
  "count_task (r\<lparr>tm_event_id := i\<rparr>) = count_task r" "count_mode (r\<lparr>tm_event_id := i\<rparr>) = count_mode r"
  "count_call (l\<lparr>tl_event_id := i\<rparr>) = count_call l" "count_tool (l\<lparr>tl_event_id := i\<rparr>) = count_tool l"
  "count_usage (c\<lparr>us_event_id := i\<rparr>) = count_usage c" "usage_mode modes (c\<lparr>us_event_id := i\<rparr>) = usage_mode modes c"
  "usage_day (c\<lparr>us_event_id := i\<rparr>) = usage_day c"
proof -
  show "count_call (l\<lparr>tl_event_id := i\<rparr>) = count_call l"
    by (rule ext) (simp only: count_call_def erased_columns)
  then show "count_tool (l\<lparr>tl_event_id := i\<rparr>) = count_tool l"
    by (simp only: count_tool_def erased_columns)
qed (simp_all only: fun_eq_iff count_task_def count_mode_def erased_columns,
    simp_all add: fun_eq_iff count_usage_def usage_mode_def usage_day_def)

lemma recent_read:
  assumes "map rd xs = map (\<lambda>r. er r) ys" and "\<And>r. c (er r) = c r"
  shows "map rd (recent_rows (\<lambda>r. c (rd r)) valid_iso start stop limit xs) =
    map er (recent_rows c valid_iso start stop limit ys)"
  using map_recent_rows [of rd c valid_iso start stop limit xs] map_recent_rows [of er c valid_iso start stop limit ys]
    assms by simp

lemma pg_task_mode_map_eq:
  assumes "map read_task xs = map (\<lambda>r. r\<lparr>tm_event_id := []\<rparr>) ys"
  shows "pg_task_mode_map xs = task_mode_map ys"
proof -
  let ?g = "\<lambda>r d. if map_of d (tm_task_id r) = None then dput d (tm_task_id r) (or_unknown_text (tm_mode r)) else d"
  have "pg_task_mode_map xs = fold ?g (map read_task (sort_key (\<lambda>r. tm_timestamp (read_task r)) xs)) []"
    by (simp only: pg_task_mode_map_def fold_map comp_def read_columns read_times [symmetric])
  also have "\<dots> = fold ?g (map (\<lambda>r. r\<lparr>tm_event_id := []\<rparr>) (sort_key tm_timestamp ys)) []"
    using sort_key_map [of "\<lambda>r. r\<lparr>tm_event_id := []\<rparr>" tm_timestamp ys] by (simp add: sort_key_map assms)
  also have "\<dots> = task_mode_map ys" by (simp only: fold_map comp_def task_mode_map_def erased_columns)
  finally show ?thesis .
qed

lemma costs_per_map: "(\<And>r. count_usage (h r) = count_usage r) \<Longrightarrow> costs_per key (map h rows) = costs_per (\<lambda>r. key (h r)) rows"
  by (simp add: costs_per_def fold_map comp_def)

text \<open>
  The two stores of metrics report the same. When their tables hold the same rows, the summaries of tasks, of
  tools and of costs, and the one over all, agree for every time window and limit, breakdowns included.
\<close>

lemma postgres_metrics_agree:
  assumes "same_metrics m s" and "of_iso = (\<lambda>t. if valid_iso t then Some t else None)"
  shows "pg_task_summary of_iso start stop limit m = task_summary valid_iso start stop limit s \<and>
    pg_tool_summary of_iso start stop limit m = tool_summary valid_iso start stop limit s \<and>
    pg_cost_summary of_iso start stop limit m = cost_summary valid_iso start stop limit s \<and>
    pg_summary of_iso start stop limit m = store_summary valid_iso start stop limit s"
proof -
  let ?task = "recent_rows tm_timestamp valid_iso start stop limit (ms_tasks s)"
  let ?tool = "recent_rows tl_timestamp valid_iso start stop limit (ms_tools s)"
  let ?usage = "recent_rows us_timestamp valid_iso start stop limit (ms_usage s)"
  have rows: "map read_task (pg_recent pt_timestamp of_iso start stop limit (pm_tasks m)) = map (\<lambda>r. r\<lparr>tm_event_id := []\<rparr>) ?task"
    "map read_tool (pg_recent pl_timestamp of_iso start stop limit (pm_tools m)) = map (\<lambda>r. r\<lparr>tl_event_id := []\<rparr>) ?tool"
    "map read_usage (pg_recent pu_timestamp of_iso start stop limit (pm_usage m)) = map (\<lambda>r. r\<lparr>us_event_id := []\<rparr>) ?usage"
    unfolding assms(2) pg_recent_eq read_times
    using assms(1) by (auto simp: same_metrics_def intro!: recent_read)
  have t: "pg_task_summary of_iso start stop limit m = task_summary valid_iso start stop limit s"
    by (simp add: pg_task_summary_def task_summary_def rows fold_map_keep unread_ids Let_def)
  have l: "pg_tool_summary of_iso start stop limit m = tool_summary valid_iso start stop limit s"
    by (simp add: pg_tool_summary_def tool_summary_def rows fold_map_keep unread_ids Let_def)
  have "pg_task_mode_map (pm_tasks m) = task_mode_map (ms_tasks s)"
    using assms(1) by (simp add: same_metrics_def pg_task_mode_map_eq)
  then have c: "pg_cost_summary of_iso start stop limit m = cost_summary valid_iso start stop limit s"
    by (simp add: pg_cost_summary_def cost_summary_def rows fold_map_keep unread_ids costs_per_map Let_def)
  have "pg_summary of_iso start stop limit m = store_summary valid_iso start stop limit s"
    unfolding pg_summary_def store_summary_def Let_def t l c
    by (simp add: task_summary_def tool_summary_def cost_summary_def Let_def task_counts_def usage_totals_def)
  with t l c show ?thesis by blast
qed

definition demo_pg_metrics :: "pg_metrics \<times> nat" where
  "demo_pg_metrics = fold (pg_store_metric Some demo_env) demo_rows (\<lparr>pm_tasks = [], pm_tools = [], pm_usage = []\<rparr>, 0)"

definition retimed :: "metrics_store \<Rightarrow> metrics_store" where
  "retimed s = s\<lparr>ms_tasks := map (\<lambda>r. r\<lparr>tm_timestamp := utc_iso demo_env 0\<rparr>) (ms_tasks s),
     ms_tools := map (\<lambda>r. r\<lparr>tl_timestamp := utc_iso demo_env 0\<rparr>) (ms_tools s),
     ms_usage := map (\<lambda>r. r\<lparr>us_timestamp := utc_iso demo_env 0\<rparr>) (ms_usage s)\<rparr>"

end
