(* ===== verification/Pilot_Texts.thy ===== *)
theory Pilot_Texts
  imports Texts
begin

text \<open>
  The texts of the preflight and of the pilot reports, as in \<open>Texts\<close>: one definition per message.
\<close>

definition pf_timeout_range :: "string" where \<comment> \<open>preflight timeout out of range\<close>
  "pf_timeout_range =
    ''real_llm_preflight_timeout_seconds '' @ utf8 [0x8D85, 0x51FA, 0x8303, 0x56F4, 0xFF08] @
    ''1~120'' @ utf8 [0xFF09]"

definition pf_llm_timeout_range :: "string" where \<comment> \<open>timeout out of range\<close>
  "pf_llm_timeout_range =
    ''llm_timeout_seconds '' @ utf8 [0x8D85, 0x51FA, 0x5EFA, 0x8BAE, 0x8303, 0x56F4, 0xFF08] @
    ''1~300'' @ utf8 [0xFF09]"

definition pf_retry_range :: "string" where \<comment> \<open>retries out of range\<close>
  "pf_retry_range =
    ''llm_max_retries '' @ utf8 [0x8D85, 0x51FA, 0x5EFA, 0x8BAE, 0x8303, 0x56F4, 0xFF08] @
    ''0~5'' @ utf8 [0xFF09]"

definition pf_backoff_range :: "string" where \<comment> \<open>back-off out of range\<close>
  "pf_backoff_range =
    ''llm_retry_backoff_seconds '' @ utf8 [0x8D85, 0x51FA, 0x5EFA, 0x8BAE, 0x8303, 0x56F4,
    0xFF08] @ ''0~10'' @ utf8 [0xFF09]"

definition pf_say_ok :: "string" where \<comment> \<open>answer ok only\<close>
  "pf_say_ok =
    utf8 [0x8BF7, 0x53EA, 0x8FD4, 0x56DE] @ '': ok''"

definition pf_disabled :: "string" where \<comment> \<open>checks are skipped\<close>
  "pf_disabled =
    ''preflight disabled: '' @ utf8 [0x8DF3, 0x8FC7] @ '' provider/model/api_key '' @ utf8
    [0x5F3A, 0x6821, 0x9A8C, 0x4E0E, 0x7F51, 0x7EDC, 0x68C0, 0x67E5]"

definition pf_default_url :: "string" where \<comment> \<open>the provider's own address\<close>
  "pf_default_url =
    ''base_url: empty (provider '' @ utf8 [0x9ED8, 0x8BA4, 0x5730, 0x5740] @ '')''"

definition pr_no_cases :: "string" where \<comment> \<open>no cases\<close>
  "pr_no_cases =
    ''cases '' @ utf8 [0x4E0D, 0x80FD, 0x4E3A, 0x7A7A]"

definition pr_title :: "string" where \<comment> \<open>title\<close>
  "pr_title =
    ''# Real LLM Controlled Pilot '' @ utf8 [0x62A5, 0x544A]"

definition pr_dry_run :: "string" where \<comment> \<open>dry run\<close>
  "pr_dry_run =
    ''> **DRY RUN**'' @ utf8 [0xFF1A] @ ''provider=fake'' @ utf8 [0xFF0C, 0x4EC5, 0x9A8C,
    0x8BC1, 0x6D41, 0x7A0B, 0x53EF, 0x8DD1, 0x901A, 0xFF0C, 0x4E0D, 0x6784, 0x6210, 0x771F,
    0x5B9E, 0x6A21, 0x578B, 0x8BC1, 0x636E, 0x3002]"

definition pr_kind :: "string" where \<comment> \<open>kind\<close>
  "pr_kind =
    ''- '' @ utf8 [0x7C7B, 0x578B, 0xFF1A] @ ''Controlled Pilot''"

definition pr_opt_in :: "string" where \<comment> \<open>opt-in\<close>
  "pr_opt_in =
    ''- '' @ utf8 [0x8FD0, 0x884C, 0x65B9, 0x5F0F, 0xFF1A] @ ''opt-in''"

definition pr_boundary :: "string" where \<comment> \<open>acceptance boundary\<close>
  "pr_boundary =
    ''- '' @ utf8 [0x9A8C, 0x6536, 0x8FB9, 0x754C, 0xFF1A] @ ''not production acceptance''"

definition pr_data :: "string" where \<comment> \<open>data boundary\<close>
  "pr_data =
    ''- '' @ utf8 [0x6570, 0x636E, 0x8FB9, 0x754C, 0xFF1A] @ ''no raw prompt / no secrets''"

definition pr_meta :: "string" where \<comment> \<open>section 1\<close>
  "pr_meta =
    ''## 1. '' @ utf8 [0x62A5, 0x544A, 0x5143, 0x4FE1, 0x606F]"

definition pr_primary :: "string" where \<comment> \<open>section 2\<close>
  "pr_primary =
    ''## 2. '' @ utf8 [0x4E3B, 0x6848, 0x4F8B, 0x6458, 0x8981]"

definition pr_evidence :: "string" where \<comment> \<open>section 3\<close>
  "pr_evidence =
    ''## 3. '' @ utf8 [0x8BC1, 0x636E, 0x94FE, 0x6458, 0x8981]"

definition pr_eval :: "string" where \<comment> \<open>section 3.1\<close>
  "pr_eval =
    ''## 3.1 NL2SQL Eval '' @ utf8 [0x6C47, 0x603B]"

definition pr_cases :: "string" where \<comment> \<open>section 4\<close>
  "pr_cases =
    ''## 4. '' @ utf8 [0x6848, 0x4F8B, 0x660E, 0x7EC6]"

definition pr_limits :: "string" where \<comment> \<open>section 5\<close>
  "pr_limits =
    ''## 5. '' @ utf8 [0x8FB9, 0x754C, 0x58F0, 0x660E]"

definition pr_limit_one :: "string" where \<comment> \<open>evidence only\<close>
  "pr_limit_one =
    ''- '' @ utf8 [0x672C, 0x62A5, 0x544A, 0x4EC5, 0x7528, 0x4E8E, 0x53D7, 0x63A7, 0x8BD5,
    0x70B9, 0x8BC1, 0x636E, 0x5F52, 0x6863, 0xFF0C, 0x4E0D, 0x7B49, 0x4E8E, 0x771F, 0x5B9E] @
    '' LLM '' @ utf8 [0x751F, 0x4EA7, 0x9A8C, 0x6536, 0x5B8C, 0x6210, 0x3002]"

definition pr_limit_two :: "string" where \<comment> \<open>defaults unaffected\<close>
  "pr_limit_two =
    ''- '' @ utf8 [0x9ED8, 0x8BA4] @ '' fake/offline '' @ utf8 [0x8DEF, 0x5F84, 0x4E0E, 0x9ED8,
    0x8BA4] @ '' pytest/CI '' @ utf8 [0x884C, 0x4E3A, 0x4E0D, 0x53D7, 0x5F71, 0x54CD, 0x3002]"

definition pr_limit_three :: "string" where \<comment> \<open>redacted\<close>
  "pr_limit_three =
    ''- '' @ utf8 [0x62A5, 0x544A, 0x5DF2, 0x6267, 0x884C, 0x8131, 0x654F, 0xFF1A, 0x4E0D,
    0x5305, 0x542B] @ '' prompt '' @ utf8 [0x539F, 0x6587, 0x3001, 0x5BC6, 0x94A5, 0x539F,
    0x6587, 0x3001, 0x6570, 0x636E, 0x5E93, 0x5BC6, 0x7801, 0x539F, 0x6587, 0x3002]"

definition pr_none :: "string" where \<comment> \<open>none\<close>
  "pr_none =
    utf8 [0x65E0]"

definition ru_acceptance :: "string" where \<comment> \<open>not opted in\<close>
  "ru_acceptance =
    ''real_llm_acceptance_enabled=false'' @ utf8 [0xFF08, 0x9700, 0x8BBE, 0x7F6E] @
    '' REAL_LLM_ACCEPTANCE_ENABLED=true '' @ utf8 [0x663E, 0x5F0F, 0x5F00, 0x542F, 0x771F,
    0x5B9E, 0x8BD5, 0x70B9, 0xFF09]"

definition ru_provider :: "string \<Rightarrow> string" where \<comment> \<open>unsupported provider\<close>
  "ru_provider name =
    ''provider='' @ name @ '' '' @ utf8 [0x4E0D, 0x5728, 0x652F, 0x6301, 0x5217, 0x8868] @
    '' ['' @ utf8 [0x27] @ ''litellm'' @ utf8 [0x27] @ '', '' @ utf8 [0x27] @
    ''openai_compatible'' @ utf8 [0x27] @ '']'' @ utf8 [0xFF08] @ ''REAL_LLM_PROVIDER '' @ utf8
    [0x6216] @ '' PILOT_PROVIDER'' @ utf8 [0xFF09]"

definition ru_model :: "string" where \<comment> \<open>no model\<close>
  "ru_model =
    ''model '' @ utf8 [0x4E3A, 0x7A7A, 0xFF08] @ ''REAL_LLM_MODEL '' @ utf8 [0x6216] @
    '' PILOT_MODEL'' @ utf8 [0xFF09]"

definition ru_base_url :: "string" where \<comment> \<open>no address\<close>
  "ru_base_url =
    ''openai_compatible '' @ utf8 [0x9700, 0x8981] @ '' base_url'' @ utf8 [0xFF08] @
    ''REAL_LLM_BASE_URL '' @ utf8 [0x6216] @ '' PILOT_BASE_URL'' @ utf8 [0xFF09]"

definition ru_key :: "string \<Rightarrow> string" where \<comment> \<open>no key\<close>
  "ru_key name =
    utf8 [0x7F3A, 0x5C11] @ '' API Key'' @ utf8 [0xFF1A, 0x73AF, 0x5883, 0x53D8, 0x91CF] @ '' ''
    @ name @ utf8 [0xFF08, 0x6216] @ '' PILOT_API_KEY'' @ utf8 [0xFF09, 0x672A, 0x8BBE, 0x7F6E]"

definition ru_banner :: "string" where \<comment> \<open>dry run\<close>
  "ru_banner =
    ''[run_llm_pilot] DRY RUN'' @ utf8 [0xFF1A] @ ''provider=fake'' @ utf8 [0xFF0C, 0x4EC5,
    0x9A8C, 0x8BC1, 0x6D41, 0x7A0B, 0xFF0C, 0x4E0D, 0x6784, 0x6210, 0x771F, 0x5B9E, 0x6A21,
    0x578B, 0x8BC1, 0x636E, 0x3002]"

definition ru_blocked :: "string \<Rightarrow> string" where \<comment> \<open>SQL refused\<close>
  "ru_blocked why =
    ''SQL '' @ utf8 [0x88AB, 0x62E6, 0x622A] @ '': '' @ why"

definition ru_no_table :: "string \<Rightarrow> string" where \<comment> \<open>table missing\<close>
  "ru_no_table name =
    utf8 [0x7F3A, 0x5C11, 0x8868] @ '' '' @ name"

definition ru_no_word :: "string \<Rightarrow> string" where \<comment> \<open>keyword missing\<close>
  "ru_no_word word =
    ''SQL '' @ utf8 [0x7F3A, 0x5C11, 0x5173, 0x952E, 0x8BCD] @ '' '' @ word"

definition ru_no_raw :: "string" where \<comment> \<open>the case has no SQL\<close>
  "ru_no_raw =
    ''dangerous_sql case '' @ utf8 [0x7F3A, 0x5C11] @ '' raw_sql '' @ utf8 [0x5B57, 0x6BB5]"

definition ru_not_blocked :: "string" where \<comment> \<open>dangerous SQL passed\<close>
  "ru_not_blocked =
    utf8 [0x5371, 0x9669] @ '' SQL '' @ utf8 [0x672A, 0x88AB, 0x62E6, 0x622A]"

definition ru_wrong_word :: "string \<Rightarrow> string" where \<comment> \<open>blocked for another reason\<close>
  "ru_wrong_word word =
    utf8 [0x62E6, 0x622A, 0x5173, 0x952E, 0x5B57, 0x4E0D, 0x5339, 0x914D] @ '': '' @ utf8
    [0x671F, 0x671B] @ '' '' @ word"

end
