(* ===== verification/Preflight.thy ===== *)
theory Preflight
  imports Llm_Providers Pilot_Texts
begin

text \<open>
  The preflight of the pilot (\<open>app/harness/llm/preflight.py\<close>): the settings of the real model are checked, and
  only when they are complete, the gate is open and the caller asks for it, one request is sent.
\<close>

subsection \<open>Text\<close>

definition bool_text :: "bool \<Rightarrow> string" where "bool_text b = (if b then ''True'' else ''False'')"

text \<open>\<open>f"{x:.2f}"\<close>, from the exact value.\<close>

definition two_places :: "rat \<Rightarrow> string" where
  "two_places x =
     (let n = round_half_even (x * 100); m = nat \<bar>n\<bar>; cents = nat_text (m mod 100)
      in (if x < 0 then ''-'' else []) @ nat_text (m div 100) @ ''.'' @ (if length cents < 2 then ''0'' @ cents else cents))"

text \<open>\<open>s.split(sep, 1)\<close> of a text that has the separator.\<close>

fun cut_at :: "string \<Rightarrow> string \<Rightarrow> (string \<times> string) option" where
  "cut_at sep s =
     (if prefix sep s then Some ([], drop (length sep) s)
      else (case s of [] \<Rightarrow> None | c # cs \<Rightarrow> map_option (\<lambda>(a, b). (c # a, b)) (cut_at sep cs)))"

declare cut_at.simps [simp del]

subsection \<open>The result\<close>

record preflight_check =
  pk_name :: string
  pk_ok :: bool
  pk_detail :: string

record preflight_result =
  pr_allowed :: bool
  pr_status :: string
  pr_provider :: string
  pr_model :: string
  pr_base_url :: string
  pr_api_key_env :: string
  pr_api_key_present :: bool
  pr_network_allowed :: bool
  pr_network_requested :: bool
  pr_network_executed :: bool
  pr_checks :: "preflight_check list"
  pr_warnings :: "string list"
  pr_errors :: "string list"
  pr_latency_ms :: rat

definition preflight_dump :: "preflight_result \<Rightarrow> jdict" where
  "preflight_dump r =
     [(''allowed'', JBool (pr_allowed r)), (''status'', JStr (pr_status r)), (''provider'', JStr (pr_provider r)),
      (''model'', JStr (pr_model r)), (''base_url'', JStr (pr_base_url r)), (''api_key_env'', JStr (pr_api_key_env r)),
      (''api_key_present'', JBool (pr_api_key_present r)), (''network_check_allowed'', JBool (pr_network_allowed r)),
      (''network_check_requested'', JBool (pr_network_requested r)),
      (''network_check_executed'', JBool (pr_network_executed r)),
      (''network_check_enabled'', JBool (pr_network_executed r)),
      (''checks'', JList (map (\<lambda>k. JObj [(''name'', JStr (pk_name k)), (''ok'', JBool (pk_ok k)),
         (''detail'', JStr (pk_detail k))]) (pr_checks r))),
      (''warnings'', jstrs (pr_warnings r)), (''errors'', jstrs (pr_errors r)),
      (''latency_ms'', JFloat (pr_latency_ms r))]"

definition pf_check :: "string \<Rightarrow> bool \<Rightarrow> string \<Rightarrow> preflight_check" where
  "pf_check name ok detail = \<lparr>pk_name = name, pk_ok = ok, pk_detail = detail\<rparr>"

definition mask_env_name :: "unicode \<Rightarrow> string \<Rightarrow> string" where
  "mask_env_name u v =
     (let t = u_strip_text u v
      in if t = [] then [] else if py_len t \<le> 3 then ''***'' else py_take 3 t @ ''***'')"

definition redact_base_url :: "unicode \<Rightarrow> string \<Rightarrow> string" where
  "redact_base_url u v =
     (let t = u_strip_text u v
      in if t = [] then []
         else if CHR ''@'' \<notin> set t then t
         else if str_in ''://'' (u_lower_text u t)
         then (case cut_at ''://'' t of
                 Some (scheme, rest) \<Rightarrow>
                   if CHR ''@'' \<in> set rest then scheme @ ''://***@'' @ snd (rpartition CHR ''@'' rest) else ''***''
               | None \<Rightarrow> ''***'')
         else ''***'')"

subsection \<open>The checks\<close>

text \<open>The four ranges: their checks, the warnings and the errors.\<close>

definition range_checks :: "'w env \<Rightarrow> settings \<Rightarrow> preflight_check list" where
  "range_checks env cfg =
     [pf_check ''preflight_timeout_range''
        (1 \<le> st_real_llm_preflight_timeout_seconds cfg \<and> st_real_llm_preflight_timeout_seconds cfg \<le> 120)
        (''real_llm_preflight_timeout_seconds='' @ py_str env (JFloat (st_real_llm_preflight_timeout_seconds cfg))),
      pf_check ''llm_timeout_range'' (1 \<le> st_llm_timeout_seconds cfg \<and> st_llm_timeout_seconds cfg \<le> 300)
        (''llm_timeout_seconds='' @ py_str env (JFloat (st_llm_timeout_seconds cfg))),
      pf_check ''llm_retry_range'' (0 \<le> st_llm_max_retries cfg \<and> st_llm_max_retries cfg \<le> 5)
        (''llm_max_retries='' @ int_text (st_llm_max_retries cfg)),
      pf_check ''llm_backoff_range'' (0 \<le> st_llm_retry_backoff_seconds cfg \<and> st_llm_retry_backoff_seconds cfg \<le> 10)
        (''llm_retry_backoff_seconds='' @ py_str env (JFloat (st_llm_retry_backoff_seconds cfg)))]"

definition said_if :: "bool \<Rightarrow> string \<Rightarrow> string list" where "said_if b msg = (if b then [msg] else [])"

definition range_errors :: "settings \<Rightarrow> string list" where
  "range_errors cfg =
     said_if (\<not> (1 \<le> st_real_llm_preflight_timeout_seconds cfg \<and> st_real_llm_preflight_timeout_seconds cfg \<le> 120))
       pf_timeout_range"

definition range_warnings :: "settings \<Rightarrow> string list" where
  "range_warnings cfg =
     said_if (\<not> (1 \<le> st_llm_timeout_seconds cfg \<and> st_llm_timeout_seconds cfg \<le> 300)) pf_llm_timeout_range @
     said_if (\<not> (0 \<le> st_llm_max_retries cfg \<and> st_llm_max_retries cfg \<le> 5)) pf_retry_range @
     said_if (\<not> (0 \<le> st_llm_retry_backoff_seconds cfg \<and> st_llm_retry_backoff_seconds cfg \<le> 10)) pf_backoff_range"

text \<open>\<open>_perform_network_check\<close>: whether the model answered, what to report, and the latency. \<open>glob\<close> holds the
  settings of the process, from which the provider takes what its arguments leave open.\<close>

definition network_options :: "settings \<Rightarrow> string \<Rightarrow> string \<Rightarrow> string \<Rightarrow> llm_options" where
  "network_options cfg key model base_url =
     \<lparr>lo_api_key = Some key, lo_model = Some model, lo_base_url = Some base_url,
      lo_timeout = Some (st_real_llm_preflight_timeout_seconds cfg),
      lo_max_retries = Some (min (max (st_llm_max_retries cfg) 0) 1),
      lo_backoff = Some (max (st_llm_retry_backoff_seconds cfg) 0), lo_temperature = Some 0\<rparr>"

definition perform_network_check ::
  "'w llm_env \<Rightarrow> (string \<Rightarrow> string option) \<Rightarrow> settings \<Rightarrow> settings \<Rightarrow> string \<Rightarrow> string \<Rightarrow> string \<Rightarrow> string \<Rightarrow> 'w \<Rightarrow>
     (exn + bool \<times> string \<times> rat) \<times> 'w"
where
  "perform_network_check le envvar glob cfg provider model key base_url w =
     (case create_provider le envvar glob (network_options cfg key model base_url) (Some provider) of
        PUnknown msg \<Rightarrow> (Inl (''UnknownProviderError'', msg), w)
      | PConfig msg \<Rightarrow> (Inl (''ProviderConfigError'', msg), w)
      | PReady p \<Rightarrow>
          (case pv_generate p pf_say_ok w of
             (Inl e, w1) \<Rightarrow> (Inl e, w1)
           | (Inr reply, w1) \<Rightarrow>
               (Inr (if u_strip_text (le_unicode le) (lr_content reply) = []
                     then (False, ''network_check_empty_content'', lr_latency_ms reply)
                     else (True, ''network_check_ok'', lr_latency_ms reply)), w1)))"

text \<open>What the run reads of the settings and of the environment.\<close>

record pf_input =
  pi_acceptance :: bool
  pi_preflight :: bool
  pi_provider :: string
  pi_model :: string
  pi_base_url :: string
  pi_key_env :: string
  pi_key :: "string option"
  pi_gate :: bool

definition pf_read :: "unicode \<Rightarrow> (string \<Rightarrow> string option) \<Rightarrow> settings \<Rightarrow> pf_input" where
  "pf_read u envvar cfg =
     (let name = u_strip_text u (st_real_llm_api_key_env cfg)
      in \<lparr>pi_acceptance = st_real_llm_acceptance_enabled cfg, pi_preflight = st_real_llm_preflight_enabled cfg,
          pi_provider = u_lower_text u (u_strip_text u (st_real_llm_provider cfg)),
          pi_model = u_strip_text u (st_real_llm_model cfg), pi_base_url = u_strip_text u (st_real_llm_base_url cfg),
          pi_key_env = name, pi_key = (if name = [] then None else envvar name),
          pi_gate = st_real_llm_preflight_network_check cfg\<rparr>)"

definition key_present :: "pf_input \<Rightarrow> bool" where
  "key_present i \<longleftrightarrow> (case pi_key i of None \<Rightarrow> False | Some v \<Rightarrow> v \<noteq> [])"

definition present_text :: "bool \<Rightarrow> string" where
  "present_text b = (if b then ''api key in env: present'' else ''api key in env: missing'')"

definition shown_provider :: "pf_input \<Rightarrow> string" where
  "shown_provider i = (if pi_provider i = [] then ''<empty>'' else pi_provider i)"

definition set_or_empty :: "string \<Rightarrow> string" where "set_or_empty s = (if s = [] then ''model=<empty>'' else ''model=<set>'')"

definition enabled_checks :: "pf_input \<Rightarrow> preflight_check list" where
  "enabled_checks i =
     [pf_check ''acceptance_enabled'' (pi_acceptance i) (''real_llm_acceptance_enabled='' @ bool_text (pi_acceptance i)),
      pf_check ''preflight_enabled'' (pi_preflight i) (''real_llm_preflight_enabled='' @ bool_text (pi_preflight i))]"

definition enabled_warnings :: "pf_input \<Rightarrow> string list" where
  "enabled_warnings i =
     said_if (\<not> pi_acceptance i) ''real_llm_acceptance_enabled=false'' @
     said_if (\<not> pi_preflight i) ''real_llm_preflight_enabled=false''"

definition gate_check :: "pf_input \<Rightarrow> preflight_check" where
  "gate_check i = pf_check ''network_check_gate'' (pi_gate i) (''real_llm_preflight_network_check='' @ bool_text (pi_gate i))"

definition disabled_checks :: "unicode \<Rightarrow> pf_input \<Rightarrow> preflight_check list" where
  "disabled_checks u i =
     [pf_check ''disabled_mode'' True pf_disabled,
      pf_check ''provider_observed'' (pi_provider i \<noteq> []) (''provider='' @ shown_provider i),
      pf_check ''model_observed'' (pi_model i \<noteq> []) (set_or_empty (pi_model i)),
      pf_check ''api_key_env_observed'' (pi_key_env i \<noteq> []) (''real_llm_api_key_env='' @ mask_env_name u (pi_key_env i)),
      pf_check ''api_key_present_observed'' (key_present i) (present_text (key_present i)), gate_check i]"

definition config_checks :: "unicode \<Rightarrow> pf_input \<Rightarrow> preflight_check list" where
  "config_checks u i =
     [pf_check ''provider_supported'' (pi_provider i = ''litellm'') (''provider='' @ shown_provider i),
      pf_check ''base_url_configured'' (pi_base_url i \<noteq> [])
        (if pi_base_url i \<noteq> [] then ''base_url: configured'' else pf_default_url),
      pf_check ''model_configured'' (pi_model i \<noteq> []) (set_or_empty (pi_model i)),
      pf_check ''api_key_env_name_configured'' (pi_key_env i \<noteq> [])
        (''real_llm_api_key_env='' @ mask_env_name u (pi_key_env i)),
      pf_check ''api_key_present'' (key_present i) (present_text (key_present i))]"

definition config_errors :: "pf_input \<Rightarrow> string list" where
  "config_errors i =
     said_if (pi_provider i \<noteq> ''litellm'') (''unsupported provider: '' @ shown_provider i) @
     said_if (pi_model i = []) ''real_llm_model is empty'' @
     said_if (pi_key_env i = []) ''real_llm_api_key_env is empty'' @
     said_if (pi_key_env i \<noteq> [] \<and> \<not> key_present i) (''missing api key env: '' @ pi_key_env i)"

subsection \<open>The run\<close>

definition preflight_result_of ::
  "unicode \<Rightarrow> pf_input \<Rightarrow> bool \<Rightarrow> bool \<Rightarrow> string \<Rightarrow> bool \<Rightarrow> preflight_check list \<Rightarrow> string list \<Rightarrow> string list \<Rightarrow> rat \<Rightarrow>
     preflight_result"
where
  "preflight_result_of u i ask allowed status executed checks warnings errors latency =
     \<lparr>pr_allowed = allowed, pr_status = status, pr_provider = pi_provider i, pr_model = pi_model i,
      pr_base_url = redact_base_url u (pi_base_url i), pr_api_key_env = pi_key_env i,
      pr_api_key_present = key_present i, pr_network_allowed = pi_gate i, pr_network_requested = ask,
      pr_network_executed = executed, pr_checks = checks, pr_warnings = warnings, pr_errors = errors,
      pr_latency_ms = latency\<rparr>"

definition disabled_run :: "'w llm_env \<Rightarrow> settings \<Rightarrow> pf_input \<Rightarrow> bool \<Rightarrow> preflight_result" where
  "disabled_run le cfg i ask =
     preflight_result_of (le_unicode le) i ask False ''disabled'' False
       (enabled_checks i @ disabled_checks (le_unicode le) i @ range_checks (le_env le) cfg)
       (enabled_warnings i @ said_if ask ''network_check_skipped_disabled'' @ range_warnings cfg) [] 0"

text \<open>The network part: whether it ran, its checks, its errors and its latency.\<close>

definition network_part ::
  "'w llm_env \<Rightarrow> (string \<Rightarrow> string option) \<Rightarrow> settings \<Rightarrow> settings \<Rightarrow> pf_input \<Rightarrow> 'w \<Rightarrow>
     (preflight_check list \<times> string list \<times> rat) \<times> 'w"
where
  "network_part le envvar glob cfg i w =
     (case perform_network_check le envvar glob cfg (pi_provider i) (pi_model i)
             (case pi_key i of None \<Rightarrow> [] | Some k \<Rightarrow> k) (pi_base_url i) w of
        (Inl (cls, _), w1) \<Rightarrow>
          (([pf_check ''network_check'' False ''network_check_exception''], [''network_check_failed:'' @ cls], 0), w1)
      | (Inr (ok, detail, ms), w1) \<Rightarrow>
          (([pf_check ''network_check'' ok detail, pf_check ''network_check_latency_ms'' True (two_places ms)],
            said_if (\<not> ok) detail, ms), w1))"

definition run_preflight ::
  "'w llm_env \<Rightarrow> (string \<Rightarrow> string option) \<Rightarrow> settings \<Rightarrow> settings \<Rightarrow> bool \<Rightarrow> 'w \<Rightarrow> preflight_result \<times> 'w"
where
  "run_preflight le envvar glob cfg ask w =
     (let u = le_unicode le; i = pf_read u envvar cfg in
      if \<not> pi_acceptance i \<or> \<not> pi_preflight i then (disabled_run le cfg i ask, w)
      else
        (let checks = enabled_checks i @ config_checks u i @ range_checks (le_env le) cfg @ [gate_check i];
             errors = config_errors i @ range_errors cfg;
             ready = (pi_provider i = ''litellm'' \<and> pi_model i \<noteq> [] \<and> key_present i \<and> errors = []);
             refused = said_if (ask \<and> \<not> pi_gate i) ''network_check_not_allowed'' @
               said_if (ask \<and> pi_gate i \<and> \<not> ready) ''network_check_requires_ready_configuration'';
             run = (ask \<and> pi_gate i \<and> ready);
             ((net_checks, net_errors, ms), w1) = (if run then network_part le envvar glob cfg i w else (([], [], 0), w));
             all_errors = errors @ refused @ net_errors;
             status = (if all_errors \<noteq> [] then ''failed'' else if run then ''passed'' else ''ready'')
         in (preflight_result_of u i ask (ready \<and> all_errors = []) status run (checks @ net_checks)
               (enabled_warnings i @ range_warnings cfg) all_errors ms, w1)))"

subsection \<open>What the run guarantees\<close>

definition configured :: "settings \<Rightarrow> pf_input \<Rightarrow> bool" where
  "configured cfg i \<longleftrightarrow> pi_acceptance i \<and> pi_preflight i \<and> pi_provider i = ''litellm'' \<and> pi_model i \<noteq> [] \<and>
     pi_key_env i \<noteq> [] \<and> key_present i \<and>
     1 \<le> st_real_llm_preflight_timeout_seconds cfg \<and> st_real_llm_preflight_timeout_seconds cfg \<le> 120"

lemma said_if_Nil [simp]: "said_if b msg = [] \<longleftrightarrow> \<not> b"
  by (simp add: said_if_def)

lemma said_if_simps [simp]: "said_if False msg = []" "said_if True msg = [msg]"
  by (simp_all add: said_if_def)

lemma ready_iff:
  "config_errors i @ range_errors cfg = [] \<longleftrightarrow>
     pi_provider i = ''litellm'' \<and> pi_model i \<noteq> [] \<and> pi_key_env i \<noteq> [] \<and> key_present i \<and>
     1 \<le> st_real_llm_preflight_timeout_seconds cfg \<and> st_real_llm_preflight_timeout_seconds cfg \<le> 120"
  by (auto simp: config_errors_def range_errors_def)

lemma network_check_outcome:
  "fst (perform_network_check le envvar glob cfg provider model key base_url w) = Inr (ok, detail, ms) \<Longrightarrow>
   detail = (if ok then ''network_check_ok'' else ''network_check_empty_content'')"
  by (auto simp: perform_network_check_def split: provider_choice.splits prod.splits sum.splits if_splits)

lemma network_part_errors:
  "fst (snd (fst (network_part le envvar glob cfg i w))) = [] \<longleftrightarrow>
    (\<exists>ms. fst (perform_network_check le envvar glob cfg (pi_provider i) (pi_model i)
       (case pi_key i of None \<Rightarrow> [] | Some k \<Rightarrow> k) (pi_base_url i) w) = Inr (True, ''network_check_ok'', ms))"
  using network_check_outcome [of le envvar glob cfg "pi_provider i" "pi_model i"
      "case pi_key i of None \<Rightarrow> [] | Some k \<Rightarrow> k" "pi_base_url i" w]
  by (auto simp: network_part_def split_beta split: sum.splits)

text \<open>The three runs: switched off, with a request, and without one.\<close>

lemma run_preflight_off:
  assumes "i = pf_read (le_unicode le) envvar cfg" and "\<not> (pi_acceptance i \<and> pi_preflight i)"
  shows "run_preflight le envvar glob cfg ask w = (disabled_run le cfg i ask, w)"
  using assms by (auto simp: run_preflight_def Let_def)

lemma run_preflight_asked:
  assumes "i = pf_read (le_unicode le) envvar cfg" and "configured cfg i" and "ask" and "pi_gate i"
  shows "\<exists>checks warnings net. run_preflight le envvar glob cfg ask w =
    (let errors = fst (snd (fst (network_part le envvar glob cfg i w)))
     in (preflight_result_of (le_unicode le) i ask (errors = []) (if errors = [] then ''passed'' else ''failed'') True
           checks warnings errors net, snd (network_part le envvar glob cfg i w)))"
proof -
  have "config_errors i @ range_errors cfg = []" using assms(2) unfolding configured_def by (simp only: ready_iff simp_thms)
  then show ?thesis
    using assms by (auto simp: run_preflight_def Let_def split_beta configured_def)
qed

lemma run_preflight_silent:
  assumes "i = pf_read (le_unicode le) envvar cfg" and "pi_acceptance i" and "pi_preflight i"
    and "\<not> (ask \<and> pi_gate i \<and> configured cfg i)"
  shows "\<exists>checks warnings errors. run_preflight le envvar glob cfg ask w =
    (preflight_result_of (le_unicode le) i ask (errors = []) (if errors = [] then ''ready'' else ''failed'') False
       checks warnings errors 0, w) \<and> (errors = [] \<longleftrightarrow> configured cfg i \<and> \<not> ask)"
proof -
  let ?errors = "config_errors i @ range_errors cfg"
  let ?ready = "pi_provider i = ''litellm'' \<and> pi_model i \<noteq> [] \<and> key_present i \<and> ?errors = []"
  let ?refused = "said_if (ask \<and> \<not> pi_gate i) ''network_check_not_allowed'' @
    said_if (ask \<and> pi_gate i \<and> \<not> ?ready) ''network_check_requires_ready_configuration''"
  have ready: "?ready \<longleftrightarrow> configured cfg i" "?errors = [] \<longleftrightarrow> configured cfg i"
    using assms(2,3) unfolding configured_def ready_iff by auto
  have refused: "?refused = [] \<longleftrightarrow> \<not> ask" using assms(4) unfolding ready(1) by auto
  have still: "(ask \<and> pi_gate i \<and> ?ready) = False" using ready(1) assms(4) by blast
  have "run_preflight le envvar glob cfg ask w =
      (preflight_result_of (le_unicode le) i ask (?ready \<and> ?errors @ ?refused = [])
         (if ?errors @ ?refused \<noteq> [] then ''failed'' else ''ready'') False
         (enabled_checks i @ config_checks (le_unicode le) i @ range_checks (le_env le) cfg @ [gate_check i])
         (enabled_warnings i @ range_warnings cfg) (?errors @ ?refused) 0, w)"
    unfolding run_preflight_def Let_def assms(1) [symmetric]
    by (simp only: assms(2,3) still not_True_eq_False simp_thms if_False split_beta fst_conv snd_conv append_Nil2
        append_assoc cong: if_cong)
  moreover define errs where "errs = ?errors @ ?refused"
  moreover have "errs = [] \<longleftrightarrow> configured cfg i \<and> \<not> ask" using ready(2) refused by (auto simp: errs_def)
  moreover from this have "(?ready \<and> errs = []) = (errs = [])" using ready by auto
  ultimately have "run_preflight le envvar glob cfg ask w =
      (preflight_result_of (le_unicode le) i ask (errs = []) (if errs \<noteq> [] then ''failed'' else ''ready'') False
         (enabled_checks i @ config_checks (le_unicode le) i @ range_checks (le_env le) cfg @ [gate_check i])
         (enabled_warnings i @ range_warnings cfg) errs 0, w)" "errs = [] \<longleftrightarrow> configured cfg i \<and> \<not> ask"
    by (simp_all only:)
  then show ?thesis
    by (intro exI [of _ "enabled_checks i @ config_checks (le_unicode le) i @ range_checks (le_env le) cfg @ [gate_check i]"]
        exI [of _ "enabled_warnings i @ range_warnings cfg"] exI [of _ errs]) simp
qed

text \<open>
  When the preflight sends a request and when it allows the pilot. Without the question of the caller, the
  open gate or a complete configuration nothing is sent: the world is the same, and the answer says so. The pilot
  is allowed exactly when the configuration is complete and either nothing was asked of the network or the model
  answered; the answer is then \<open>passed\<close> or \<open>ready\<close>.
\<close>

lemma preflight_asks_only_when_ready:
  assumes "run_preflight le envvar glob cfg ask w = (r, w1)" and "i = pf_read (le_unicode le) envvar cfg"
  shows "(pr_network_executed r \<longleftrightarrow> ask \<and> pi_gate i \<and> configured cfg i) \<and>
    (\<not> pr_network_executed r \<longrightarrow> w1 = w) \<and>
    (pr_allowed r \<longleftrightarrow> configured cfg i \<and> (ask \<longrightarrow> pi_gate i \<and>
       (\<exists>ms. fst (perform_network_check le envvar glob cfg (pi_provider i) (pi_model i)
          (case pi_key i of None \<Rightarrow> [] | Some k \<Rightarrow> k) (pi_base_url i) w) = Inr (True, ''network_check_ok'', ms)))) \<and>
    (pr_allowed r \<longleftrightarrow> pr_status r = (if ask then ''passed'' else ''ready''))"
proof -
  consider (off) "\<not> (pi_acceptance i \<and> pi_preflight i)" | (asked) "ask" "pi_gate i" "configured cfg i"
    | (silent) "pi_acceptance i" "pi_preflight i" "\<not> (ask \<and> pi_gate i \<and> configured cfg i)"
    by blast
  then show ?thesis
  proof cases
    case off
    then show ?thesis
      using assms(1) run_preflight_off [OF assms(2) off, of glob ask w]
      by (auto simp: disabled_run_def preflight_result_of_def configured_def)
  next
    case asked
    from run_preflight_asked [OF assms(2) asked(3,1,2), of glob w] show ?thesis
      using assms(1) asked network_part_errors [of le envvar glob cfg i w]
      by (auto simp: preflight_result_of_def Let_def)
  next
    case silent
    from run_preflight_silent [OF assms(2) silent, of glob w] show ?thesis
      using assms(1) silent by (auto simp: preflight_result_of_def)
  qed
qed

definition pilot_settings :: settings where
  "pilot_settings =
     default_settings\<lparr>st_real_llm_acceptance_enabled := True, st_real_llm_preflight_enabled := True,
       st_real_llm_model := ''m'', st_real_llm_preflight_network_check := True\<rparr>"

definition pilot_env :: "string \<Rightarrow> string option" where
  "pilot_env name = (if name = ''OPENAI_API_KEY'' then Some ''k'' else None)"

definition quiet_llm_env :: "nat llm_env" where
  "quiet_llm_env =
     \<lparr>le_env = demo_env, le_unicode = demo_unicode, le_loads = (\<lambda>_. Inl []), le_dumps = (\<lambda>_. []),
      le_http = \<lparr>hc_installed = False, hc_post = (\<lambda>_ _ _ _ w. (Inl (HttpError ''offline''), w)),
        hc_stream = (\<lambda>_ _ _ _ w. (Inl (HttpError ''offline''), w)), hc_sleep = (\<lambda>_ w. w)\<rparr>,
      le_litellm = \<lparr>li_installed = True, li_completion = (\<lambda>_ w. (Inl (''Timeout'', ''late''), Suc w)),
        li_stream = (\<lambda>_ w. (Inr ([], None), w))\<rparr>\<rparr>"

subsection \<open>What the result does not show\<close>

text \<open>The key itself is not reported: without a request, another key of the same environment gives the same result.\<close>

definition given_in :: "(string \<Rightarrow> string option) \<Rightarrow> string \<Rightarrow> bool" where
  "given_in envvar name \<longleftrightarrow> (case envvar name of None \<Rightarrow> False | Some v \<Rightarrow> v \<noteq> [])"

lemma preflight_hides_key:
  assumes "\<And>name. given_in envvar name = given_in envvar' name"
  shows "run_preflight le envvar glob cfg False w = run_preflight le envvar' glob cfg False w"
proof -
  let ?i = "pf_read (le_unicode le) envvar cfg" and ?i' = "pf_read (le_unicode le) envvar' cfg"
  have "key_present ?i' = key_present ?i"
    using assms by (simp add: key_present_def pf_read_def Let_def given_in_def)
  moreover have "pi_acceptance ?i' = pi_acceptance ?i" "pi_preflight ?i' = pi_preflight ?i" "pi_provider ?i' = pi_provider ?i"
    "pi_model ?i' = pi_model ?i" "pi_base_url ?i' = pi_base_url ?i" "pi_key_env ?i' = pi_key_env ?i" "pi_gate ?i' = pi_gate ?i"
    by (simp_all add: pf_read_def Let_def)
  ultimately show ?thesis
    by (simp add: run_preflight_def Let_def disabled_run_def preflight_result_of_def enabled_checks_def enabled_warnings_def
        disabled_checks_def config_checks_def config_errors_def gate_check_def shown_provider_def)
qed

text \<open>Nor the credentials of the address.\<close>

lemma cut_at_first:
  assumes "sep = x # xs" and "x \<notin> set a"
  shows "cut_at sep (a @ sep @ b) = Some (a, b)"
  using assms(2)
proof (induction a)
  case Nil
  then show ?case by (subst cut_at.simps) simp
next
  case (Cons c cs)
  have "\<not> prefix sep (c # cs @ sep @ b)" using Cons.prems assms(1) by simp
  then show ?case using Cons by (subst cut_at.simps) simp
qed

lemma rpartition_after:
  assumes "c \<notin> set b"
  shows "snd (rpartition c (a @ c # b)) = b"
proof -
  have "takeWhile (\<lambda>x. x \<noteq> c) (rev b @ c # rev a) = rev b"
    using assms by (subst takeWhile_append2) auto
  then show ?thesis by (simp add: rpartition_def)
qed

lemma redacted_base_url:
  assumes "u_strip_text u t = t" and "t = scheme @ ''://'' @ user @ CHR ''@'' # host" and "CHR '':'' \<notin> set scheme"
    and "CHR ''@'' \<notin> set host"
  shows "redact_base_url u t \<in> {scheme @ ''://***@'' @ host, ''***''}"
proof -
  have "cut_at ''://'' t = Some (scheme, user @ CHR ''@'' # host)"
    using cut_at_first [of "''://''" "CHR '':''" "''//''" scheme "user @ CHR ''@'' # host"] assms(2,3) by simp
  then show ?thesis
    using assms rpartition_after [OF assms(4), of user] by (simp add: redact_base_url_def Let_def)
qed

end
