(* ===== verification/Eval_Texts.thy ===== *)
theory Eval_Texts
  imports Texts
begin

text \<open>
  The texts of the evaluation and of the skills, as in \<open>Texts\<close>: one definition per message or word.
\<close>

definition tx_mode_fallback :: "string \<Rightarrow> string \<Rightarrow> string" where \<comment> \<open>another mode ran\<close>
  "tx_mode_fallback mode modes =
    ''mode '' @ utf8 [0x671F, 0x671B] @ '' '' @ mode @ utf8 [0xFF0C, 0x5B9E, 0x9645] @ '' '' @
    modes @ utf8 [0xFF08] @ ''fallback'' @ utf8 [0xFF09]"

definition tx_mode_missing :: "string \<Rightarrow> string" where \<comment> \<open>no such mode\<close>
  "tx_mode_missing mode =
    ''critical: mode '' @ utf8 [0x671F, 0x671B] @ '' '' @ mode @ utf8 [0xFF0C, 0x672A, 0x627E,
    0x5230]"

definition tx_mode_strict :: "string \<Rightarrow> string" where \<comment> \<open>no such mode, and no fallback allowed\<close>
  "tx_mode_strict mode =
    ''critical: mode '' @ utf8 [0x671F, 0x671B] @ '' '' @ mode @ utf8 [0xFF0C, 0x672A, 0x627E,
    0x5230, 0xFF08, 0x4E0D, 0x5141, 0x8BB8] @ '' fallback'' @ utf8 [0xFF09]"

definition tx_missing_roles :: "string \<Rightarrow> string" where \<comment> \<open>roles missing\<close>
  "tx_missing_roles roles =
    ''critical: '' @ utf8 [0x7F3A, 0x5C11, 0x89D2, 0x8272] @ '' '' @ roles"

definition tx_missing_tools :: "string \<Rightarrow> string" where \<comment> \<open>tools missing\<close>
  "tx_missing_tools tools =
    ''critical: '' @ utf8 [0x7F3A, 0x5C11, 0x5DE5, 0x5177] @ '' '' @ tools"

definition tx_missing_events :: "string \<Rightarrow> string" where \<comment> \<open>events missing\<close>
  "tx_missing_events events =
    ''critical: '' @ utf8 [0x7F3A, 0x5C11, 0x4E8B, 0x4EF6] @ '' '' @ events"

definition tx_approval_expected :: "string" where \<comment> \<open>an approval was expected\<close>
  "tx_approval_expected =
    ''critical: '' @ utf8 [0x671F, 0x671B, 0x6709, 0x5BA1, 0x6279, 0x4E8B, 0x4EF6, 0xFF0C,
    0x4F46, 0x672A, 0x627E, 0x5230]"

definition tx_approval_unexpected :: "string" where \<comment> \<open>no approval was expected\<close>
  "tx_approval_unexpected =
    ''critical: '' @ utf8 [0x4E0D, 0x671F, 0x671B, 0x5BA1, 0x6279, 0x4E8B, 0x4EF6, 0xFF0C,
    0x4F46, 0x53D1, 0x73B0, 0x4E86, 0x5BA1, 0x6279, 0x76F8, 0x5173, 0x4E8B, 0x4EF6]"

definition tx_too_many_steps :: "string \<Rightarrow> string \<Rightarrow> string" where \<comment> \<open>too many steps\<close>
  "tx_too_many_steps n most =
    ''critical: '' @ utf8 [0x6B65, 0x9AA4, 0x6570] @ '' '' @ n @ '' '' @ utf8 [0x8D85, 0x8FC7,
    0x4E0A, 0x9650] @ '' '' @ most"

definition tx_skill_ops :: "string" where \<comment> \<open>business figures\<close>
  "tx_skill_ops =
    utf8 [0x8FD0, 0x8425, 0x6307, 0x6807, 0x67E5, 0x8BE2, 0xFF1A] @ ''GMV'' @ utf8 [0x3001,
    0x8BA2, 0x5355, 0x3001, 0x7528, 0x6237, 0x3001, 0x9000, 0x6B3E, 0x7387]"

definition tx_skill_product :: "string" where \<comment> \<open>product analysis\<close>
  "tx_skill_product =
    utf8 [0x5546, 0x54C1, 0x5206, 0x6790, 0xFF1A] @ ''Top '' @ utf8 [0x5546, 0x54C1, 0x6392,
    0x884C]"

definition tx_skill_policy :: "string" where \<comment> \<open>rules\<close>
  "tx_skill_policy =
    utf8 [0x89C4, 0x5219, 0x67E5, 0x8BE2, 0xFF1A, 0x9000, 0x6B3E, 0x89C4, 0x5219, 0x3001,
    0x4FC3, 0x9500, 0x89C4, 0x5219]"

definition tx_skill_nl2sql :: "string" where \<comment> \<open>queries by NL2SQL\<close>
  "tx_skill_nl2sql =
    utf8 [0x81EA, 0x7136, 0x8BED, 0x8A00, 0x6570, 0x636E, 0x67E5, 0x8BE2, 0xFF1A, 0x901A,
    0x8FC7] @ '' NL2SQL '' @ utf8 [0x5206, 0x6790, 0x6570, 0x636E]"

definition tx_w_orders :: "string" where \<comment> \<open>order\<close>
  "tx_w_orders =
    utf8 [0x8BA2, 0x5355]"

definition tx_w_users :: "string" where \<comment> \<open>user\<close>
  "tx_w_users =
    utf8 [0x7528, 0x6237]"

definition tx_w_refund_rate :: "string" where \<comment> \<open>refund rate\<close>
  "tx_w_refund_rate =
    utf8 [0x9000, 0x6B3E, 0x7387]"

definition tx_w_revenue :: "string" where \<comment> \<open>revenue\<close>
  "tx_w_revenue =
    utf8 [0x8425, 0x6536]"

definition tx_w_sales :: "string" where \<comment> \<open>sales\<close>
  "tx_w_sales =
    utf8 [0x9500, 0x552E]"

definition tx_w_product :: "string" where \<comment> \<open>product\<close>
  "tx_w_product =
    utf8 [0x5546, 0x54C1]"

definition tx_w_ranking :: "string" where \<comment> \<open>ranking\<close>
  "tx_w_ranking =
    utf8 [0x6392, 0x884C]"

definition tx_w_hot :: "string" where \<comment> \<open>hot\<close>
  "tx_w_hot =
    utf8 [0x70ED, 0x9500]"

definition tx_w_bestseller :: "string" where \<comment> \<open>bestseller\<close>
  "tx_w_bestseller =
    utf8 [0x7206, 0x6B3E]"

definition tx_w_refund_rules :: "string" where \<comment> \<open>refund rules\<close>
  "tx_w_refund_rules =
    utf8 [0x9000, 0x6B3E, 0x89C4, 0x5219]"

definition tx_w_promotion :: "string" where \<comment> \<open>promotion\<close>
  "tx_w_promotion =
    utf8 [0x4FC3, 0x9500]"

definition tx_w_rules :: "string" where \<comment> \<open>rules\<close>
  "tx_w_rules =
    utf8 [0x89C4, 0x5219]"

definition tx_w_policy :: "string" where \<comment> \<open>policy\<close>
  "tx_w_policy =
    utf8 [0x653F, 0x7B56]"

definition tx_w_analyse :: "string" where \<comment> \<open>analyse\<close>
  "tx_w_analyse =
    utf8 [0x5206, 0x6790]"

definition tx_w_query_data :: "string" where \<comment> \<open>query data\<close>
  "tx_w_query_data =
    utf8 [0x67E5, 0x8BE2, 0x6570, 0x636E]"

definition tx_w_data :: "string" where \<comment> \<open>data\<close>
  "tx_w_data =
    utf8 [0x6570, 0x636E]"

definition tx_w_statistics :: "string" where \<comment> \<open>statistics\<close>
  "tx_w_statistics =
    utf8 [0x7EDF, 0x8BA1]"

definition tx_w_report :: "string" where \<comment> \<open>report\<close>
  "tx_w_report =
    utf8 [0x62A5, 0x8868]"

definition tx_w_compare :: "string" where \<comment> \<open>compare\<close>
  "tx_w_compare =
    utf8 [0x5BF9, 0x6BD4]"

definition tx_judge_prompt_head :: "string" where \<comment> \<open>you are a judge, answer in JSON\<close>
  "tx_judge_prompt_head =
    utf8 [0x4F60, 0x662F, 0x8BC4, 0x6D4B, 0x88C1, 0x5224, 0xFF0C, 0x8BF7, 0x6839, 0x636E,
    0x8F93, 0x5165, 0x8FD4, 0x56DE] @ '' JSON '' @ utf8 [0x5BF9, 0x8C61, 0xFF0C, 0x4E0D, 0x8981,
    0x8F93, 0x51FA, 0x5176, 0x4ED6, 0x6587, 0x672C, 0x3002]"

definition tx_judge_prompt_form :: "string" where \<comment> \<open>the fields of the JSON\<close>
  "tx_judge_prompt_form =
    ''JSON '' @ utf8 [0x5B57, 0x6BB5, 0x8981, 0x6C42, 0xFF1A] @
    ''score(0~1), passed(bool), reasoning(string), confidence(0~1)'' @ utf8 [0x3002]"

definition tx_eval_mode :: "string \<Rightarrow> string \<Rightarrow> string" where \<comment> \<open>another mode\<close>
  "tx_eval_mode mode actual =
    ''mode '' @ utf8 [0x671F, 0x671B] @ '' '' @ mode @ '' '' @ utf8 [0x5B9E, 0x9645] @ '' '' @
    actual"

definition tx_eval_success :: "string \<Rightarrow> string \<Rightarrow> string" where \<comment> \<open>another outcome\<close>
  "tx_eval_success expected actual =
    ''success '' @ utf8 [0x671F, 0x671B] @ '' '' @ expected @ '' '' @ utf8 [0x5B9E, 0x9645] @
    '' '' @ actual"

definition tx_no_raw_sql :: "string" where \<comment> \<open>the case has no SQL\<close>
  "tx_no_raw_sql =
    ''dangerous_sql case '' @ utf8 [0x7F3A, 0x5C11] @ '' raw_sql '' @ utf8 [0x5B57, 0x6BB5]"

definition tx_not_blocked :: "string \<Rightarrow> string" where \<comment> \<open>dangerous SQL passed\<close>
  "tx_not_blocked sql =
    utf8 [0x5371, 0x9669] @ '' SQL '' @ utf8 [0x672A, 0x88AB, 0x62E6, 0x622A] @ '': '' @ sql"

definition tx_wrong_keyword :: "string \<Rightarrow> string \<Rightarrow> string" where \<comment> \<open>blocked for another reason\<close>
  "tx_wrong_keyword keyword reason =
    utf8 [0x62E6, 0x622A, 0x5173, 0x952E, 0x5B57, 0x4E0D, 0x5339, 0x914D] @ '': '' @ utf8
    [0x671F, 0x671B] @ '' '' @ keyword @ '', '' @ utf8 [0x5B9E, 0x9645] @ '' reason: '' @ reason"

definition tx_unknown_reason :: "string" where \<comment> \<open>unknown reason\<close>
  "tx_unknown_reason =
    utf8 [0x672A, 0x77E5, 0x539F, 0x56E0]"

definition tx_sql_blocked :: "string \<Rightarrow> string" where \<comment> \<open>SQL blocked\<close>
  "tx_sql_blocked reason =
    ''SQL '' @ utf8 [0x88AB, 0x62E6, 0x622A] @ '': '' @ reason"

definition tx_missing_table :: "string \<Rightarrow> string \<Rightarrow> string" where \<comment> \<open>table missing\<close>
  "tx_missing_table table selected =
    utf8 [0x7F3A, 0x5C11, 0x8868] @ '' '' @ table @ utf8 [0xFF0C, 0x5B9E, 0x9645, 0x9009,
    0x4E2D] @ '': '' @ selected"

definition tx_missing_word :: "string \<Rightarrow> string" where \<comment> \<open>keyword missing\<close>
  "tx_missing_word word =
    ''SQL '' @ utf8 [0x7F3A, 0x5C11, 0x5173, 0x952E, 0x8BCD] @ '': '' @ word"

definition tx_unregistered :: "string" where \<comment> \<open>not registered\<close>
  "tx_unregistered =
    utf8 [0x672A, 0x6CE8, 0x518C]"

definition tx_unmatched :: "string" where \<comment> \<open>not matched\<close>
  "tx_unmatched =
    utf8 [0x672A, 0x5339, 0x914D]"

definition tx_unrecognised :: "string" where \<comment> \<open>not recognised\<close>
  "tx_unrecognised =
    utf8 [0x65E0, 0x6CD5, 0x8BC6, 0x522B]"

end
