(* ===== verification/Judge.thy ===== *)
theory Judge
  imports Eval_Texts Auth Llm_Providers
begin

text \<open>
  The judges of evaluation cases (\<open>app/harness/eval/judge.py\<close>): the offline one by rules, and the one over a
  language model with its budget, its cache, the reading of its answer and the fallback. The provider comes
  from \<open>create_provider\<close>. \<open>float(v)\<close> may be no number, which JSON values do not hold but a text can name.
\<close>

subsection \<open>Inputs, results and numbers\<close>

record judge_input =
  ji_case_id :: string
  ji_query :: string
  ji_expected :: string
  ji_actual :: string
  ji_rubric :: string

datatype pyfloat = Fin rat | NaN | Inf bool

record judge_result =
  jr_score :: pyfloat
  jr_passed :: bool
  jr_reasoning :: string
  jr_provider :: string
  jr_fallback_used :: bool
  jr_fallback_reason :: string
  jr_metadata :: "jdict option"
  jr_prompt_tokens :: int
  jr_completion_tokens :: int
  jr_cost :: rat
  jr_confidence :: pyfloat

definition plain_result :: "rat \<Rightarrow> bool \<Rightarrow> string \<Rightarrow> string \<Rightarrow> judge_result" where
  "plain_result score passed reasoning provider =
     \<lparr>jr_score = Fin score, jr_passed = passed, jr_reasoning = reasoning, jr_provider = provider,
      jr_fallback_used = False, jr_fallback_reason = [], jr_metadata = None, jr_prompt_tokens = 0,
      jr_completion_tokens = 0, jr_cost = 0, jr_confidence = Fin 0\<rparr>"

text \<open>\<open>FakeJudge\<close>.\<close>

definition fake_judge :: "judge_input \<Rightarrow> judge_result" where
  "fake_judge i =
     (if ji_expected i = ji_actual i
      then plain_result 1 True (''expected==actual: '' @ ji_expected i) ''fake''
      else if ji_rubric i \<noteq> [] \<and> str_in (ji_actual i) (ji_rubric i)
      then plain_result 1 True (''actual matches rubric: '' @ ji_rubric i) ''fake''
      else if ji_expected i = ''blocked'' \<and> ji_actual i \<in> {''blocked'', ''failed''}
      then plain_result (8 / 10) True ''expected blocked, actual is blocked-like'' ''fake''
      else if ji_expected i = ''success'' \<and> ji_actual i = ''success''
      then plain_result 1 True ''both success'' ''fake''
      else plain_result 0 False (''mismatch: expected='' @ ji_expected i @ '' actual='' @ ji_actual i) ''fake'')"

fun clamp_01 :: "pyfloat \<Rightarrow> pyfloat" where
  "clamp_01 (Fin q) = (if q < 0 then Fin 0 else if 1 < q then Fin 1 else Fin q)"
| "clamp_01 NaN = NaN"
| "clamp_01 (Inf neg) = (if neg then Fin 0 else Fin 1)"

subsection \<open>The judge over a language model\<close>

text \<open>
  \<open>jg_float\<close> reads a text as a number and gives the exception otherwise, \<open>jg_float_error\<close> is the exception for
  a value that is neither a text nor a number, \<open>jg_digest\<close> is \<open>_stable_hash\<close>, \<open>jg_wall\<close> is \<open>time.time()\<close>.
\<close>

record 'w judge =
  jg_le :: "'w llm_env"
  jg_getenv :: "string \<Rightarrow> string option"
  jg_settings :: settings
  jg_provider :: string
  jg_fallback_to_fake :: bool
  jg_fallback :: "judge_input \<Rightarrow> judge_result"
  jg_model :: string
  jg_base_url :: string
  jg_timeout :: rat
  jg_max_retries :: int
  jg_backoff :: rat
  jg_pricing :: pricing
  jg_float :: "string \<Rightarrow> exn + pyfloat"
  jg_float_error :: "json \<Rightarrow> exn"
  jg_digest :: "json \<Rightarrow> string"
  jg_wall :: "'w \<Rightarrow> rat"

type_synonym judge_state = "budget \<times> judge_result cache \<times> jdict option"

definition judge_pricing :: "settings \<Rightarrow> pricing" where
  "judge_pricing cfg =
     \<lparr>pc_enabled = st_llm_cost_estimation_enabled cfg, pc_completion_tokens = st_llm_estimated_completion_tokens cfg,
      pc_prompt_price = st_llm_cost_per_1k_prompt_tokens_usd cfg,
      pc_completion_price = st_llm_cost_per_1k_completion_tokens_usd cfg\<rparr>"

text \<open>\<open>LLMJudgeProvider(...)\<close>: an argument that is not given comes from the settings.\<close>

definition judge_of ::
  "'w llm_env \<Rightarrow> (string \<Rightarrow> string option) \<Rightarrow> settings \<Rightarrow> string option \<Rightarrow> bool option \<Rightarrow> llm_options \<Rightarrow>
     (string \<Rightarrow> exn + pyfloat) \<Rightarrow> (json \<Rightarrow> exn) \<Rightarrow> (json \<Rightarrow> string) \<Rightarrow> ('w \<Rightarrow> rat) \<Rightarrow> 'w judge"
where
  "judge_of le getenvf cfg provider fallback opts rd rd_error digest wall =
     \<lparr>jg_le = le, jg_getenv = getenvf, jg_settings = cfg, jg_provider = or_text provider ''litellm'',
      jg_fallback_to_fake = given_or fallback (st_judge_fallback_to_fake cfg), jg_fallback = fake_judge,
      jg_model = given_or (lo_model opts) (st_judge_model cfg),
      jg_base_url = given_or (lo_base_url opts)
        (if st_judge_base_url cfg = [] then st_llm_base_url cfg else st_judge_base_url cfg),
      jg_timeout = given_or (lo_timeout opts) (st_judge_timeout_seconds cfg),
      jg_max_retries = given_or (lo_max_retries opts) (st_judge_max_retries cfg),
      jg_backoff = given_or (lo_backoff opts) (st_judge_retry_backoff_seconds cfg),
      jg_pricing = judge_pricing cfg, jg_float = rd, jg_float_error = rd_error, jg_digest = digest, jg_wall = wall\<rparr>"

definition build_judge_prompt :: "judge_input \<Rightarrow> string" where
  "build_judge_prompt i =
     tx_judge_prompt_head @ [CHR 0x0A] @ tx_judge_prompt_form @ [CHR 0x0A] @ ''query: '' @ ji_query i @ [CHR 0x0A] @
     ''expected: '' @ ji_expected i @ [CHR 0x0A] @ ''actual: '' @ ji_actual i @ [CHR 0x0A] @
     ''rubric: '' @ ji_rubric i @ [CHR 0x0A]"

definition judge_cache_key :: "'w judge \<Rightarrow> judge_input \<Rightarrow> string" where
  "judge_cache_key jg i =
     ''judge:'' @ jg_digest jg (JObj
       [(''case_id'', JStr (ji_case_id i)), (''expected'', JStr (ji_expected i)), (''actual'', JStr (ji_actual i)),
        (''rubric'', JStr (ji_rubric i)), (''provider'', JStr (jg_provider jg)), (''model'', JStr (jg_model jg))])"

subsection \<open>Reading the answer\<close>

text \<open>From the first opening brace to the last closing one.\<close>

definition json_span :: "string \<Rightarrow> string" where
  "json_span s = rev (dropWhile (\<lambda>c. c \<noteq> CHR ''}'') (rev (dropWhile (\<lambda>c. c \<noteq> CHR ''{'') s)))"

definition extract_json_object :: "'w llm_env \<Rightarrow> string \<Rightarrow> exn + jdict" where
  "extract_json_object le text =
     (let s = u_strip_text (le_unicode le) text;
          object = (\<lambda>v. case v of JObj d \<Rightarrow> Inr d | _ \<Rightarrow> Inl (''ValueError'', ''judge_json_not_object''))
      in case le_loads le s of
           Inr v \<Rightarrow> object v
         | Inl _ \<Rightarrow>
             if json_span s \<noteq> []
             then (case le_loads le (json_span s) of Inr v \<Rightarrow> object v | Inl e \<Rightarrow> Inl (''JSONDecodeError'', e))
             else Inl (''ValueError'', ''judge_invalid_json''))"

text \<open>\<open>float\<close> of an integer raises from the point on where rounding leaves the range of a double.\<close>

definition FLOAT_LIMIT :: int where "FLOAT_LIMIT = 2 ^ 1024 - 2 ^ 970"

definition float_of :: "'w judge \<Rightarrow> json \<Rightarrow> exn + pyfloat" where
  "float_of jg v =
     (case v of
        JInt i \<Rightarrow>
          if \<bar>i\<bar> < FLOAT_LIMIT then Inr (Fin (of_int i)) else Inl (''OverflowError'', ''int too large to convert to float'')
      | JFloat q \<Rightarrow> Inr (Fin q)
      | JBool b \<Rightarrow> Inr (Fin (if b then 1 else 0))
      | JStr s \<Rightarrow> jg_float jg s
      | _ \<Rightarrow> Inl (jg_float_error jg v))"

definition parse_judge_bool :: "unicode \<Rightarrow> json \<Rightarrow> exn + bool" where
  "parse_judge_bool u v =
     (case v of
        JBool b \<Rightarrow> Inr b
      | JStr s \<Rightarrow>
          (let t = u_lower_text u (u_strip_text u s)
           in if t \<in> {''true'', ''1'', ''yes''} then Inr True
              else if t \<in> {''false'', ''0'', ''no''} then Inr False
              else Inl (''ValueError'', ''judge_passed_not_bool''))
      | _ \<Rightarrow> Inl (''ValueError'', ''judge_passed_not_bool''))"

definition value_text :: "'w env \<Rightarrow> json \<Rightarrow> string" where
  "value_text env v = (case v of JStr s \<Rightarrow> s | _ \<Rightarrow> py_str env v)"

record verdict =
  ve_score :: pyfloat
  ve_confidence :: pyfloat
  ve_passed :: bool
  ve_reasoning :: string

text \<open>The four fields, in the order the code reads them.\<close>

definition read_verdict :: "'w judge \<Rightarrow> string \<Rightarrow> exn + verdict" where
  "read_verdict jg content =
     (let le = jg_le jg; u = le_unicode le in
      case extract_json_object le content of
        Inl e \<Rightarrow> Inl e
      | Inr payload \<Rightarrow>
          (case map_of payload ''score'' of
             None \<Rightarrow> Inl (''ValueError'', ''judge_missing_score'')
           | Some raw \<Rightarrow>
               (case float_of jg raw of
                  Inl e \<Rightarrow> Inl e
                | Inr sc \<Rightarrow>
                    (case (case map_of payload ''confidence'' of None \<Rightarrow> Inr (clamp_01 sc) | Some v \<Rightarrow> float_of jg v) of
                       Inl e \<Rightarrow> Inl e
                     | Inr cf \<Rightarrow>
                         (case parse_judge_bool u (dget payload ''passed'') of
                            Inl e \<Rightarrow> Inl e
                          | Inr p \<Rightarrow>
                              (let t = u_strip_text u (value_text (le_env le) (dget_or payload ''reasoning'' (JStr [])))
                               in Inr \<lparr>ve_score = clamp_01 sc, ve_confidence = clamp_01 cf, ve_passed = p,
                                       ve_reasoning = (if t = [] then ''LLM judge returned empty reasoning'' else t)\<rparr>))))))"

subsection \<open>Evaluation\<close>

definition judge_acceptance ::
  "'w judge \<Rightarrow> string \<Rightarrow> jdict \<Rightarrow> bool \<Rightarrow> string \<Rightarrow> jdict \<Rightarrow> string list \<Rightarrow> string \<Rightarrow> bool \<Rightarrow> jdict"
where
  "judge_acceptance jg model meta fallback why status warnings err attempted =
     acceptance_dump (summarize_llm_acceptance (le_env (jg_le jg)) ''judge'' (jg_provider jg) model meta fallback why
       status warnings err (Some attempted))"

definition with_acceptance :: "jdict \<Rightarrow> jdict \<Rightarrow> jdict" where
  "with_acceptance acc meta = dput meta ''acceptance_summary'' (JObj acc)"

definition fallback_or_unavailable ::
  "'w judge \<Rightarrow> judge_input \<Rightarrow> string \<Rightarrow> jdict \<Rightarrow> string \<Rightarrow> judge_result \<times> jdict"
where
  "fallback_or_unavailable jg i reason status err =
     (let attempted = (\<not> prefix ''budget_blocked'' reason) in
      if jg_fallback_to_fake jg
      then
        (let r = jg_fallback jg i;
             acc = judge_acceptance jg (jg_model jg) [] True reason status [reason]
               (if err = [] then ''fallback_fake'' else err) attempted
         in (r\<lparr>jr_provider := ''fallback_fake'', jr_fallback_used := True, jr_fallback_reason := reason,
               jr_metadata := Some [(''acceptance_summary'', JObj acc)], jr_prompt_tokens := 0,
               jr_completion_tokens := 0, jr_cost := 0, jr_confidence := clamp_01 (jr_score r)\<rparr>, acc))
      else
        (let acc = judge_acceptance jg (jg_model jg) [] False reason status [reason]
               (if err = [] then ''llm_unavailable'' else err) attempted
         in ((plain_result 0 False (''LLM judge unavailable: '' @ reason) ''llm_unavailable'')
               \<lparr>jr_fallback_reason := reason, jr_metadata := Some [(''acceptance_summary'', JObj acc)]\<rparr>, acc)))"

text \<open>What a hit of the cache gives: the stored verdict, at no tokens and no cost.\<close>

definition cached_verdict :: "'w judge \<Rightarrow> jdict \<Rightarrow> judge_result \<Rightarrow> judge_result \<times> jdict" where
  "cached_verdict jg status r =
     (let meta = dupd (case jr_metadata r of None \<Rightarrow> [] | Some m \<Rightarrow> m)
            [(''cache_hit'', JBool True), (''prompt_tokens'', JInt 0), (''completion_tokens'', JInt 0),
             (''total_tokens'', JInt 0), (''cost'', JFloat 0)];
          acc = judge_acceptance jg (jg_model jg) meta (jr_fallback_used r) (jr_fallback_reason r) status [] [] False
      in (r\<lparr>jr_score := clamp_01 (jr_score r), jr_metadata := Some (with_acceptance acc meta), jr_prompt_tokens := 0,
            jr_completion_tokens := 0, jr_cost := 0, jr_confidence := clamp_01 (jr_confidence r)\<rparr>, acc))"

definition judge_options :: "'w judge \<Rightarrow> llm_options" where
  "judge_options jg =
     \<lparr>lo_api_key = None, lo_model = (if jg_model jg = [] then None else Some (jg_model jg)),
      lo_base_url = (if jg_base_url jg = [] then None else Some (jg_base_url jg)), lo_timeout = Some (jg_timeout jg),
      lo_max_retries = Some (jg_max_retries jg), lo_backoff = Some (jg_backoff jg),
      lo_temperature = Some (st_llm_temperature (jg_settings jg))\<rparr>"

text \<open>The call and the reading of its answer, with every exception in between.\<close>

definition ask_model :: "'w judge \<Rightarrow> judge_input \<Rightarrow> 'w \<Rightarrow> (exn + llm_reply \<times> verdict) \<times> 'w" where
  "ask_model jg i w =
     (case create_provider (jg_le jg) (jg_getenv jg) (jg_settings jg) (judge_options jg) (Some (jg_provider jg)) of
        PUnknown msg \<Rightarrow> (Inl (''UnknownProviderError'', msg), w)
      | PConfig msg \<Rightarrow> (Inl (''ProviderConfigError'', msg), w)
      | PReady p \<Rightarrow>
          (case pv_generate p (build_judge_prompt i) w of
             (Inl e, w1) \<Rightarrow> (Inl e, w1)
           | (Inr reply, w1) \<Rightarrow>
               (case read_verdict jg (lr_content reply) of
                  Inl e \<Rightarrow> (Inl e, w1) | Inr v \<Rightarrow> (Inr (reply, v), w1))))"

definition judge_model :: "'w judge \<Rightarrow> llm_reply \<Rightarrow> string" where
  "judge_model jg reply = (if jg_model jg = [] then lr_model reply else jg_model jg)"

definition judged :: "'w judge \<Rightarrow> jdict \<Rightarrow> llm_reply \<Rightarrow> verdict \<Rightarrow> judge_result \<times> jdict" where
  "judged jg status reply v =
     (let meta = reply_dump reply;
          acc = judge_acceptance jg (judge_model jg reply) meta False [] status [] [] True
      in (\<lparr>jr_score = ve_score v, jr_passed = ve_passed v, jr_reasoning = ve_reasoning v,
           jr_provider = jg_provider jg, jr_fallback_used = False, jr_fallback_reason = [],
           jr_metadata = Some (with_acceptance acc meta), jr_prompt_tokens = lr_prompt_tokens reply,
           jr_completion_tokens = lr_completion_tokens reply, jr_cost = lr_cost reply,
           jr_confidence = ve_confidence v\<rparr>, acc))"

definition judge_evaluate ::
  "'w judge \<Rightarrow> judge_input \<Rightarrow> judge_state \<times> 'w \<Rightarrow> judge_result \<times> judge_state \<times> 'w"
where
  "judge_evaluate jg i st =
     (case st of ((bud, cache, prev), w) \<Rightarrow>
        let env = le_env (jg_le jg); key = judge_cache_key jg i;
            status = check_budget env (jg_pricing jg) (utc_iso env w) 0 (Some (build_judge_prompt i)) bud
        in
        if jg_provider jg = ''fake'' then (jg_fallback jg i, (bud, cache, None), w)
        else if \<not> truthy (dget_or status ''allowed'' (JBool True)) then
          (case fallback_or_unavailable jg i (value_text env (dget_or status ''reason'' (JStr ''budget_blocked''))) status
                  ''budget_blocked'' of
             (r, acc) \<Rightarrow> (r, (bud, cache, Some acc), w))
        else
          (case cache_get key (jg_wall jg w) cache of
             (Some stored, cache1) \<Rightarrow>
               (case cached_verdict jg status stored of (r, acc) \<Rightarrow> (r, (bud, cache1, Some acc), w))
           | (None, cache1) \<Rightarrow>
               (case ask_model jg i w of
                  (Inl (cls, msg), w1) \<Rightarrow>
                    (case fallback_or_unavailable jg i msg status cls of
                       (r, acc) \<Rightarrow> (r, (bud, cache1, Some acc), w1))
                | (Inr (reply, v), w1) \<Rightarrow>
                    (case judged jg status reply v of
                       (r, acc) \<Rightarrow>
                         (r, (record_usage (utc_iso env w1) ''judge'' (jg_provider jg) (judge_model jg reply)
                                (lr_prompt_tokens reply) (lr_completion_tokens reply) (lr_cost reply) bud,
                              cache_set key r None (jg_wall jg w1) cache1, Some acc), w1)))))"

subsection \<open>Facts\<close>

fun unit_or_nan :: "pyfloat \<Rightarrow> bool" where
  "unit_or_nan (Fin q) \<longleftrightarrow> 0 \<le> q \<and> q \<le> 1"
| "unit_or_nan NaN \<longleftrightarrow> True"
| "unit_or_nan (Inf neg) \<longleftrightarrow> False"

lemma clamp_unit: "unit_or_nan (clamp_01 x)"
  by (cases x rule: clamp_01.cases) auto

lemma clamp_id: "unit_or_nan x \<Longrightarrow> clamp_01 x = x"
  by (cases x rule: clamp_01.cases) auto

definition bounded :: "judge_result \<Rightarrow> bool" where
  "bounded r \<longleftrightarrow> unit_or_nan (jr_score r) \<and> unit_or_nan (jr_confidence r)"

lemma fake_judge_bounded: "bounded (fake_judge i)"
  by (simp add: bounded_def fake_judge_def plain_result_def)

lemma read_verdict_bounded:
  "read_verdict jg content = Inr v \<Longrightarrow> unit_or_nan (ve_score v) \<and> unit_or_nan (ve_confidence v)"
  by (auto simp: read_verdict_def Let_def clamp_unit split: sum.splits option.splits)

lemma fallback_bounded: "bounded (jg_fallback jg i) \<Longrightarrow> bounded (fst (fallback_or_unavailable jg i why status err))"
  by (simp add: fallback_or_unavailable_def bounded_def Let_def plain_result_def clamp_unit)

lemma judged_simps [simp]:
  "jr_score (fst (judged jg status reply v)) = ve_score v" "jr_confidence (fst (judged jg status reply v)) = ve_confidence v"
  "jr_passed (fst (judged jg status reply v)) = ve_passed v" "jr_reasoning (fst (judged jg status reply v)) = ve_reasoning v"
  by (simp_all add: judged_def Let_def)

lemma cached_simps [simp]:
  "jr_score (fst (cached_verdict jg status r)) = clamp_01 (jr_score r)"
  "jr_confidence (fst (cached_verdict jg status r)) = clamp_01 (jr_confidence r)"
  "jr_passed (fst (cached_verdict jg status r)) = jr_passed r"
  "jr_reasoning (fst (cached_verdict jg status r)) = jr_reasoning r"
  "jr_cost (fst (cached_verdict jg status r)) = 0" "jr_prompt_tokens (fst (cached_verdict jg status r)) = 0"
  "jr_completion_tokens (fst (cached_verdict jg status r)) = 0"
  by (simp_all add: cached_verdict_def Let_def)

lemma ask_model_bounded:
  "ask_model jg i w = (Inr (reply, v), w') \<Longrightarrow> unit_or_nan (ve_score v) \<and> unit_or_nan (ve_confidence v)"
  by (auto simp: ask_model_def dest: read_verdict_bounded split: provider_choice.splits prod.splits sum.splits)

definition judge_status :: "'w judge \<Rightarrow> judge_input \<Rightarrow> budget \<Rightarrow> 'w \<Rightarrow> jdict" where
  "judge_status jg i bud w =
     check_budget (le_env (jg_le jg)) (jg_pricing jg) (utc_iso (le_env (jg_le jg)) w) 0 (Some (build_judge_prompt i)) bud"

lemma judge_evaluate_cases:
  assumes "jg_provider jg \<noteq> ''fake''"
  obtains (blocked) r acc where "\<not> truthy (dget_or (judge_status jg i bud w) ''allowed'' (JBool True))"
      "fallback_or_unavailable jg i (value_text (le_env (jg_le jg)) (dget_or (judge_status jg i bud w) ''reason'' (JStr ''budget_blocked'')))
         (judge_status jg i bud w) ''budget_blocked'' = (r, acc)"
      "judge_evaluate jg i ((bud, cache, prev), w) = (r, (bud, cache, Some acc), w)"
    | (cached) stored cache1 r acc where "truthy (dget_or (judge_status jg i bud w) ''allowed'' (JBool True))"
      "cache_get (judge_cache_key jg i) (jg_wall jg w) cache = (Some stored, cache1)"
      "cached_verdict jg (judge_status jg i bud w) stored = (r, acc)"
      "judge_evaluate jg i ((bud, cache, prev), w) = (r, (bud, cache1, Some acc), w)"
    | (failed) cache1 cls msg w1 r acc where "truthy (dget_or (judge_status jg i bud w) ''allowed'' (JBool True))"
      "cache_get (judge_cache_key jg i) (jg_wall jg w) cache = (None, cache1)"
      "ask_model jg i w = (Inl (cls, msg), w1)" "fallback_or_unavailable jg i msg (judge_status jg i bud w) cls = (r, acc)"
      "judge_evaluate jg i ((bud, cache, prev), w) = (r, (bud, cache1, Some acc), w1)"
    | (answered) cache1 reply v w1 r acc where "truthy (dget_or (judge_status jg i bud w) ''allowed'' (JBool True))"
      "cache_get (judge_cache_key jg i) (jg_wall jg w) cache = (None, cache1)"
      "ask_model jg i w = (Inr (reply, v), w1)" "judged jg (judge_status jg i bud w) reply v = (r, acc)"
      "judge_evaluate jg i ((bud, cache, prev), w) =
         (r, (record_usage (utc_iso (le_env (jg_le jg)) w1) ''judge'' (jg_provider jg) (judge_model jg reply)
                (lr_prompt_tokens reply) (lr_completion_tokens reply) (lr_cost reply) bud,
              cache_set (judge_cache_key jg i) r None (jg_wall jg w1) cache1, Some acc), w1)"
proof (cases "truthy (dget_or (judge_status jg i bud w) ''allowed'' (JBool True))")
  case False
  obtain r acc where f: "fallback_or_unavailable jg i (value_text (le_env (jg_le jg)) (dget_or (judge_status jg i bud w) ''reason'' (JStr ''budget_blocked'')))
         (judge_status jg i bud w) ''budget_blocked'' = (r, acc)" by (metis surj_pair)
  with False assms show ?thesis
    by (intro blocked [OF False f]) (simp add: judge_evaluate_def judge_status_def Let_def)
next
  case True
  obtain hit cache1 where c: "cache_get (judge_cache_key jg i) (jg_wall jg w) cache = (hit, cache1)" by (metis surj_pair)
  show ?thesis
  proof (cases hit)
    case (Some stored)
    obtain r acc where v: "cached_verdict jg (judge_status jg i bud w) stored = (r, acc)" by (metis surj_pair)
    show ?thesis
      using True assms c Some v
      by (intro cached [OF True _ v]) (simp_all add: judge_evaluate_def judge_status_def Let_def)
  next
    case None
    obtain out w1 where a: "ask_model jg i w = (out, w1)" by (metis surj_pair)
    show ?thesis
    proof (cases out)
      case (Inl e)
      obtain cls msg where e: "e = (cls, msg)" by (metis surj_pair)
      obtain r acc where f: "fallback_or_unavailable jg i msg (judge_status jg i bud w) cls = (r, acc)" by (metis surj_pair)
      show ?thesis
        using True assms c None a Inl e f
        by (intro failed [OF True _ _ f]) (simp_all add: judge_evaluate_def judge_status_def Let_def)
    next
      case (Inr rv)
      obtain reply v where e: "rv = (reply, v)" by (metis surj_pair)
      obtain r acc where f: "judged jg (judge_status jg i bud w) reply v = (r, acc)" by (metis surj_pair)
      show ?thesis
        using True assms c None a Inr e f
        by (intro answered [OF True _ _ f]) (simp_all add: judge_evaluate_def judge_status_def Let_def)
    qed
  qed
qed

text \<open>
  C35. What a judgement by a language model may do (a provider other than the fake one, over a fallback whose own
  results are in bounds, as the shipped one's are). Its score and its confidence are within [0, 1], or not a number. When the
  budget does not allow the call, the language model is not asked: the world, the budget and the cache are as
  before, and the result costs nothing. When it does, the budget is either as before or charged once, with the
  tokens and the cost the result reports.
\<close>

theorem judge_is_bounded_and_charged:
  assumes "bounded (jg_fallback jg i)" and "jg_provider jg \<noteq> ''fake''"
    and "judge_evaluate jg i ((bud, cache, prev), w) = (r, (bud', cache', acc), w')"
  shows "bounded r \<and>
    (if \<not> truthy (dget_or (judge_status jg i bud w) ''allowed'' (JBool True))
     then w' = w \<and> bud' = bud \<and> cache' = cache \<and> jr_prompt_tokens r = 0 \<and> jr_completion_tokens r = 0 \<and> jr_cost r = 0
     else bud' = bud \<or>
       (\<exists>utc model. bud' = record_usage utc ''judge'' (jg_provider jg) model (jr_prompt_tokens r)
          (jr_completion_tokens r) (jr_cost r) bud))"
proof (rule judge_evaluate_cases [OF assms(2), of i bud w cache prev], goal_cases)
  case (1 x y)
  have "jr_prompt_tokens x = 0 \<and> jr_completion_tokens x = 0 \<and> jr_cost x = 0"
    using 1(2) by (auto simp: fallback_or_unavailable_def Let_def plain_result_def split: if_splits)
  moreover have "bounded x"
    using fallback_bounded [OF assms(1)] 1(2) by (metis fst_conv)
  ultimately show ?case using 1 assms(3) by simp
next
  case (2 stored cache1 x y)
  have "x = fst (cached_verdict jg (judge_status jg i bud w) stored)" using 2(3) by simp
  then have "bounded x" by (simp add: bounded_def clamp_unit)
  with 2 assms(3) show ?case by simp
next
  case (3 cache1 cls msg w1 x y)
  have "bounded x" using fallback_bounded [OF assms(1)] 3(4) by (metis fst_conv)
  with 3 assms(3) show ?case by simp
next
  case (4 cache1 reply v w1 x y)
  have x: "x = fst (judged jg (judge_status jg i bud w) reply v)" using 4(4) by simp
  have "bounded x" using ask_model_bounded [OF 4(3)] by (simp add: x bounded_def)
  moreover have "jr_prompt_tokens x = lr_prompt_tokens reply" "jr_completion_tokens x = lr_completion_tokens reply"
    "jr_cost x = lr_cost reply" by (simp_all add: x judged_def Let_def)
  ultimately show ?case using 4 assms(3) by auto
qed

text \<open>
  A verdict is given once. After the model has answered, the same case judged again before the entry
  expires, under a budget that allows it, has the same score, confidence, verdict and reasoning, without a
  call, at no tokens and no cost.
\<close>

lemma judge_verdict_is_cached:
  assumes "jg_provider jg \<noteq> ''fake''" and "ca_enabled cache"
    and "truthy (dget_or (judge_status jg i bud w) ''allowed'' (JBool True))"
    and "fst (cache_get (judge_cache_key jg i) (jg_wall jg w) cache) = None"
    and "ask_model jg i w = (Inr (reply, v), w1)"
    and "judge_evaluate jg i ((bud, cache, prev), w) = (r, (bud1, cache1, acc1), w1')"
    and "truthy (dget_or (judge_status jg i bud2 w2) ''allowed'' (JBool True))"
    and "ca_ttl cache \<le> 0 \<or> jg_wall jg w2 \<le> jg_wall jg w1 + of_int (ca_ttl cache)"
    and "judge_evaluate jg i ((bud2, cache1, prev2), w2) = (r2, (bud3, cache2, acc2), w3)"
  shows "jr_score r2 = jr_score r \<and> jr_confidence r2 = jr_confidence r \<and> jr_passed r2 = jr_passed r \<and>
    jr_reasoning r2 = jr_reasoning r \<and> jr_prompt_tokens r2 = 0 \<and> jr_completion_tokens r2 = 0 \<and> jr_cost r2 = 0 \<and>
    w3 = w2 \<and> bud3 = bud2"
proof -
  let ?key = "judge_cache_key jg i"
  obtain cache0 where c0: "cache_get ?key (jg_wall jg w) cache = (None, cache0)"
    using assms(4) by (metis prod.collapse)
  have c0': "ca_enabled cache0" "ca_ttl cache0 = ca_ttl cache"
    using c0 assms(2) by (auto simp: cache_get_def split: option.splits prod.splits if_splits)
  obtain acc where r: "judged jg (judge_status jg i bud w) reply v = (r, acc)"
    and c1: "cache1 = cache_set ?key r None (jg_wall jg w1) cache0"
    using assms c0 by (cases rule: judge_evaluate_cases [OF assms(1), of i bud w cache prev]) auto
  have stored: "map_of (ca_store cache1) ?key =
      Some (if ca_ttl cache \<le> 0 then 0 else jg_wall jg w1 + of_int (ca_ttl cache), r)" "ca_enabled cache1"
    using c0' by (simp_all add: c1 cache_set_def Let_def)
  then have "fst (cache_get ?key (jg_wall jg w2) cache1) = Some r"
    using assms(8) by (auto simp: cache_get_def)
  then obtain cache1' where hit: "cache_get ?key (jg_wall jg w2) cache1 = (Some r, cache1')" by (metis prod.collapse)
  have "jr_score r = ve_score v" "jr_confidence r = ve_confidence v"
    using r by (metis fst_conv judged_simps(1), metis fst_conv judged_simps(2))
  then have b: "clamp_01 (jr_score r) = jr_score r" "clamp_01 (jr_confidence r) = jr_confidence r"
    using ask_model_bounded [OF assms(5)] by (simp_all add: clamp_id)
  show ?thesis
  proof (rule judge_evaluate_cases [OF assms(1), of i bud2 w2 cache1 prev2], goal_cases)
    case (2 x3 x4 x5 x6)
    have "r2 = fst (cached_verdict jg (judge_status jg i bud2 w2) r)" "bud3 = bud2" "w3 = w2"
      using 2 hit assms(9) by auto
    then show ?case using b by simp
  qed (use assms(7) hit in auto)
qed

text \<open>No number passes the clamp: a score of \<open>"nan"\<close> is not turned into one.\<close>

lemma judge_score_nan:
  "jg_float jg ''nan'' = Inr NaN \<Longrightarrow> le_loads (jg_le jg) (u_strip_text (le_unicode (jg_le jg)) content) =
      Inr (JObj [(''score'', JStr ''nan''), (''passed'', JBool True)]) \<Longrightarrow>
    \<exists>v. read_verdict jg content = Inr v \<and> ve_score v = NaN \<and> ve_passed v"
  by (simp add: read_verdict_def extract_json_object_def float_of_def parse_judge_bool_def value_text_def Let_def)

subsection \<open>An instance\<close>

definition demo_llm_env :: "nat llm_env" where
  "demo_llm_env =
     \<lparr>le_env = demo_env, le_unicode = demo_unicode,
      le_loads = (\<lambda>s. if s = ''{...}'' then Inr (JObj [(''score'', JFloat (3 / 2)), (''passed'', JStr ''yes'')])
                      else Inl ''Expecting value''),
      le_dumps = (\<lambda>_. []),
      le_http = \<lparr>hc_installed = False, hc_post = (\<lambda>_ _ _ _ w. (Inl (HttpError ''offline''), w)),
        hc_stream = (\<lambda>_ _ _ _ w. (Inl (HttpError ''offline''), w)), hc_sleep = (\<lambda>_ w. w)\<rparr>,
      le_litellm = \<lparr>li_installed = True,
        li_completion = (\<lambda>_ w. (Inr (JObj
          [(''choices'', JList [JObj [(''message'', JObj [(''content'', JStr ''Verdict: {...}'')])]]),
           (''usage'', JObj [(''prompt_tokens'', JInt 10), (''completion_tokens'', JInt 5), (''total_tokens'', JInt 15)])]),
          Suc w)),
        li_stream = (\<lambda>_ w. (Inr ([], None), w))\<rparr>\<rparr>"

definition demo_judge :: "nat judge" where
  "demo_judge = judge_of demo_llm_env (\<lambda>_. None) (default_settings\<lparr>st_llm_api_key := ''key''\<rparr>) None None no_options (\<lambda>_. Inr NaN)
     (\<lambda>_. (''TypeError'', [])) (\<lambda>_. ''digest'') (\<lambda>w. of_nat w)"

definition demo_judge_input :: judge_input where
  "demo_judge_input = \<lparr>ji_case_id = ''c1'', ji_query = ''q'', ji_expected = ''success'', ji_actual = ''failed'', ji_rubric = []\<rparr>"

definition demo_judge_state :: judge_state where
  "demo_judge_state = (budget_init True 0 100 ''global'', cache_init True 3600, None)"

definition demo_reply :: llm_reply where
  "demo_reply = \<lparr>lr_content = ''Verdict: {...}'', lr_provider = ''litellm'', lr_model = ''gpt-3.5-turbo'', lr_prompt_tokens = 10,
     lr_completion_tokens = 5, lr_total_tokens = 15, lr_cost = 0, lr_request_id = [],
     lr_latency_ms = elapsed_ms demo_env (mono_clock demo_env 0) 1, lr_error_type = None, lr_tool_calls = JNull\<rparr>"

definition demo_verdict :: verdict where
  "demo_verdict = \<lparr>ve_score = Fin 1, ve_confidence = Fin 1, ve_passed = True,
     ve_reasoning = ''LLM judge returned empty reasoning''\<rparr>"

lemma demo_asked: "ask_model demo_judge demo_judge_input 0 = (Inr (demo_reply, demo_verdict), 1)"
  by code_simp

lemma demo_allowed:
  "truthy (dget_or (judge_status demo_judge demo_judge_input (fst demo_judge_state) 0) ''allowed'' (JBool True))"
  by code_simp

lemma demo_provider: "jg_provider demo_judge \<noteq> ''fake''"
  by code_simp

theorem judge_is_bounded_and_charged_witness:
  "bounded (fst (judge_evaluate demo_judge demo_judge_input (demo_judge_state, 0)))"
proof -
  have f: "bounded (jg_fallback demo_judge demo_judge_input)"
    by (simp add: demo_judge_def judge_of_def fake_judge_bounded)
  show ?thesis
    using judge_is_bounded_and_charged [OF f demo_provider, of "fst demo_judge_state" "fst (snd demo_judge_state)"
        "snd (snd demo_judge_state)" 0]
    by (metis prod.collapse)
qed

end
