(* ===== verification/Pilot_Report.thy ===== *)
theory Pilot_Report
  imports Preflight Judge Redaction_Depth
begin

text \<open>
  The pilot reports (\<open>app/harness/llm/pilot_report.py\<close>): the sanitising of their payload, the records, and the
  files. The file system and the joining of paths are a parameter; a failure is its class and its text.
\<close>

subsection \<open>Keys\<close>

definition PILOT_SENSITIVE_KEYS :: "string list" where
  "PILOT_SENSITIVE_KEYS =
     [''token'', ''api_key'', ''apikey'', ''secret'', ''password'', ''authorization'', ''cookie'', ''jwt'', ''database_url'',
      ''redis_url'', ''key'']"

definition PROMPT_FIELD_PATTERNS :: "string list" where
  "PROMPT_FIELD_PATTERNS =
     [''prompt'', ''query'', ''user_query'', ''raw_prompt'', ''sql_prompt'', ''input'', ''messages'']"

definition PILOT_SAFE_KEYS :: "string list" where
  "PILOT_SAFE_KEYS =
     [''prompt_tokens'', ''completion_tokens'', ''total_tokens'', ''prompt_tokens_total'', ''completion_tokens_total'',
      ''total_tokens_total'', ''api_key_present'', ''cache_hit'', ''budget_action'', ''latency_ms'', ''cost'',
      ''request_id'', ''provider'', ''model'', ''base_url_summary'', ''fallback_reason'', ''error_type'', ''outcome'',
      ''audit_event_id'', ''audit_event_type'', ''runtime_metric_keys'', ''log_request_id'', ''trace_id'',
      ''report_artifacts'', ''evidence_notes'', ''score'', ''passed'', ''confidence'', ''judge_provider'']"

definition pilot_sensitive_key :: "unicode \<Rightarrow> string \<Rightarrow> bool" where
  "pilot_sensitive_key u key =
     (let k = u_lower_text u key
      in k \<notin> set PILOT_SAFE_KEYS \<and> (k \<in> set PILOT_SENSITIVE_KEYS \<or> list_ex (\<lambda>p. str_in p k) PILOT_SENSITIVE_KEYS))"

definition pilot_prompt_key :: "unicode \<Rightarrow> string \<Rightarrow> bool" where
  "pilot_prompt_key u key =
     (let k = u_lower_text u key in k \<notin> set PILOT_SAFE_KEYS \<and> list_ex (\<lambda>p. str_in p k) PROMPT_FIELD_PATTERNS)"

subsection \<open>Sanitising\<close>

definition port_suffix :: "url_parts \<Rightarrow> string + string" where
  "port_suffix p =
     map_sum id (\<lambda>port. case port of None \<Rightarrow> [] | Some n \<Rightarrow> if n = 0 then [] else '':'' @ int_text n) (url_port p)"

text \<open>\<open>_redact_dsn_if_needed\<close>; only the port of a location raises, with the text on the left.\<close>

definition redact_dsn_if_needed :: "unicode \<Rightarrow> (string \<Rightarrow> bool) \<Rightarrow> string \<Rightarrow> string + string" where
  "redact_dsn_if_needed u fine value =
     (let text = u_strip_text u value in
      if text = [] \<or> \<not> str_in ''://'' text then Inr value
      else
        (case urlsplit fine text of
           None \<Rightarrow> Inr value
         | Some p \<Rightarrow>
             if ur_scheme p \<notin> set DSN_SCHEMES \<or> url_password p = None then Inr value
             else
               (let user = (case url_username p of None \<Rightarrow> [] | Some x \<Rightarrow> x);
                    safe = (if user = [] then ''user'' else user) @ '':***''
                in map_sum id (\<lambda>port. urlunsplit (p\<lparr>ur_netloc := safe @ ''@'' @ url_hostname u p @ port\<rparr>))
                     (port_suffix p))))"

fun sanitize_pilot :: "unicode \<Rightarrow> (string \<Rightarrow> bool) \<Rightarrow> json \<Rightarrow> string + json"
and sanitize_pilot_list :: "unicode \<Rightarrow> (string \<Rightarrow> bool) \<Rightarrow> json list \<Rightarrow> string + json list"
and sanitize_pilot_dict :: "unicode \<Rightarrow> (string \<Rightarrow> bool) \<Rightarrow> jdict \<Rightarrow> string + jdict"
where
  "sanitize_pilot u fine (JStr s) = map_sum id JStr (redact_dsn_if_needed u fine s)"
| "sanitize_pilot u fine (JList vs) = map_sum id JList (sanitize_pilot_list u fine vs)"
| "sanitize_pilot u fine (JObj d) = map_sum id JObj (sanitize_pilot_dict u fine d)"
| "sanitize_pilot u fine v = Inr v"
| "sanitize_pilot_list u fine [] = Inr []"
| "sanitize_pilot_list u fine (v # vs) =
     (case sanitize_pilot u fine v of
        Inl e \<Rightarrow> Inl e | Inr x \<Rightarrow> map_sum id ((#) x) (sanitize_pilot_list u fine vs))"
| "sanitize_pilot_dict u fine [] = Inr []"
| "sanitize_pilot_dict u fine ((k, v) # d) =
     (case (if pilot_prompt_key u k then Inr (JStr ''[REDACTED_PROMPT]'')
            else if pilot_sensitive_key u k then redact_value u fine v
            else sanitize_pilot u fine v) of
        Inl e \<Rightarrow> Inl e | Inr y \<Rightarrow> map_sum id ((#) (k, y)) (sanitize_pilot_dict u fine d))"

definition summarize_base_url :: "unicode \<Rightarrow> (string \<Rightarrow> bool) \<Rightarrow> string \<Rightarrow> string + string" where
  "summarize_base_url u fine base_url =
     (let text = u_strip_text u base_url in
      if text = [] then Inr ''provider_default''
      else
        (case urlsplit fine text of
           None \<Rightarrow> Inr ''invalid_base_url''
         | Some p \<Rightarrow>
             if ur_scheme p = [] \<or> ur_netloc p = [] then Inr ''custom_base_url''
             else map_sum id (\<lambda>port. ur_scheme p @ ''://'' @ url_hostname u p @ port) (port_suffix p)))"

subsection \<open>File names\<close>

definition file_char :: "char \<Rightarrow> bool" where
  "file_char c \<longleftrightarrow> dec_digit c \<or> ascii_letter c \<or> c \<in> set ''_.-''"

text \<open>\<open>re.sub("[^0-9A-Za-z_.-]+", "-", s)\<close>: each run of other characters is one dash.\<close>

function dash_runs :: "string \<Rightarrow> string" where
  "dash_runs [] = []"
| "dash_runs (c # cs) =
     (if file_char c then c # dash_runs cs else CHR ''-'' # dash_runs (dropWhile (\<lambda>x. \<not> file_char x) cs))"
  by pat_completeness auto
termination
proof (relation "measure length", goal_cases)
  case (3 c cs)
  have "length (dropWhile (\<lambda>x. \<not> file_char x) cs) \<le> length cs" by (rule length_dropWhile_le)
  then show ?case by simp
qed simp_all

definition safe_file_component :: "unicode \<Rightarrow> string \<Rightarrow> string \<Rightarrow> string" where
  "safe_file_component u text fallback =
     (let edge = (\<lambda>c. c \<in> set ''-._'');
          t = strip_end edge (dropWhile edge (dash_runs (u_strip_text u text)))
      in if t = [] then fallback else t)"

definition swap_char :: "char \<Rightarrow> char \<Rightarrow> string \<Rightarrow> string" where
  "swap_char a b s = map (\<lambda>c. if c = a then b else c) s"

text \<open>\<open>_report_file_stem\<close>; \<open>now\<close> is the current time, for a payload that has none.\<close>

definition report_file_stem :: "unicode \<Rightarrow> 'w env \<Rightarrow> string \<Rightarrow> jdict \<Rightarrow> string" where
  "report_file_stem u env now payload =
     (let made = value_text env (or_else (dget payload ''generated_at'') (JStr now));
          stamp = safe_file_component u (swap_char CHR ''+'' CHR ''_'' (swap_char CHR '':'' CHR ''-'' made)) ''report'';
          rid = safe_file_component u (value_text env (or_else (dget payload ''report_id'') (JStr ''pilot''))) ''pilot''
      in stamp @ ''_'' @ rid)"

subsection \<open>The records\<close>

record pilot_case =
  pc_scenario :: string
  pc_endpoint :: string
  pc_request_id :: string
  pc_provider :: string
  pc_model :: string
  pc_base_url :: string
  pc_key_env :: string
  pc_key_present :: bool
  pc_attempted :: bool
  pc_succeeded :: bool
  pc_fallback_used :: bool
  pc_fallback_reason :: string
  pc_budget_action :: string
  pc_cache_hit :: bool
  pc_latency_ms :: rat
  pc_prompt_tokens :: int
  pc_completion_tokens :: int
  pc_total_tokens :: int
  pc_cost :: rat
  pc_error_type :: string
  pc_outcome :: string
  pc_warnings :: "json list"
  pc_evidence_links :: jdict
  pc_observability :: jdict
  pc_evidence_notes :: "string list"
  pc_detail :: jdict

record pilot_artifact =
  pt_format :: string
  pt_path :: string
  pt_generated_at :: string

text \<open>A report has the fields of its first case, with its identification, its cases and the files written so far.\<close>

record pilot_report =
  po_report_id :: string
  po_generated_at :: string
  po_commit :: string
  po_environment :: string
  po_main :: pilot_case
  po_cases :: "pilot_case list"
  po_artifacts :: "pilot_artifact list"

definition scene_facts :: "pilot_case \<Rightarrow> jdict" where
  "scene_facts c =
     [(''scenario'', JStr (pc_scenario c)), (''endpoint'', JStr (pc_endpoint c)), (''request_id'', JStr (pc_request_id c))]"

definition provider_facts :: "pilot_case \<Rightarrow> jdict" where
  "provider_facts c =
     [(''provider'', JStr (pc_provider c)), (''model'', JStr (pc_model c)), (''base_url_summary'', JStr (pc_base_url c)),
      (''api_key_env'', JStr (pc_key_env c)), (''api_key_present'', JBool (pc_key_present c))]"

definition call_facts :: "pilot_case \<Rightarrow> jdict" where
  "call_facts c =
     [(''real_call_attempted'', JBool (pc_attempted c)), (''real_call_succeeded'', JBool (pc_succeeded c)),
      (''fallback_used'', JBool (pc_fallback_used c)), (''fallback_reason'', JStr (pc_fallback_reason c)),
      (''budget_action'', JStr (pc_budget_action c)), (''cache_hit'', JBool (pc_cache_hit c)),
      (''latency_ms'', JFloat (pc_latency_ms c)), (''prompt_tokens'', JInt (pc_prompt_tokens c)),
      (''completion_tokens'', JInt (pc_completion_tokens c)), (''total_tokens'', JInt (pc_total_tokens c)),
      (''cost'', JFloat (pc_cost c)), (''error_type'', JStr (pc_error_type c)), (''outcome'', JStr (pc_outcome c)),
      (''warnings'', JList (pc_warnings c))]"

definition artifact_dump :: "pilot_artifact \<Rightarrow> json" where
  "artifact_dump a =
     JObj [(''format'', JStr (pt_format a)), (''path'', JStr (pt_path a)), (''generated_at'', JStr (pt_generated_at a))]"

text \<open>\<open>to_dict\<close> of a case and of a report.\<close>

definition case_dump :: "unicode \<Rightarrow> (string \<Rightarrow> bool) \<Rightarrow> pilot_case \<Rightarrow> string + json" where
  "case_dump u fine c =
     then_try (sanitize_pilot_dict u fine (pc_evidence_links c)) (\<lambda>links.
     then_try (sanitize_pilot_dict u fine (pc_observability c)) (\<lambda>seen.
     then_try (sanitize_pilot_dict u fine (pc_detail c)) (\<lambda>detail.
       Inr (JObj (scene_facts c @ provider_facts c @ call_facts c @
         [(''evidence_links'', JObj links), (''observability'', JObj seen), (''evidence_notes'', jstrs (pc_evidence_notes c)),
          (''detail'', JObj detail)])))))"

definition report_dump :: "unicode \<Rightarrow> (string \<Rightarrow> bool) \<Rightarrow> pilot_report \<Rightarrow> string + jdict" where
  "report_dump u fine r =
     (let c = po_main r; files = JList (map artifact_dump (po_artifacts r)) in
      then_try (sanitize_pilot_dict u fine (pc_evidence_links c)) (\<lambda>links.
      then_try (sanitize_pilot_dict u fine (pc_observability c)) (\<lambda>seen.
      then_try (seq_sum (map (case_dump u fine) (po_cases r))) (\<lambda>cases.
        Inr ([(''report_id'', JStr (po_report_id r)), (''generated_at'', JStr (po_generated_at r)),
              (''commit'', JStr (po_commit r)), (''environment'', JStr (po_environment r))] @
             provider_facts c @ scene_facts c @ call_facts c @
             [(''evidence_links'', JObj links), (''observability'', JObj seen),
              (''evidence_notes'', jstrs (pc_evidence_notes c)), (''cases'', JList cases), (''artifacts'', files),
              (''report_artifacts'', files)])))))"

text \<open>\<open>build_pilot_report\<close>; \<open>made\<close> is the given time as UTC text, \<open>now\<close> the current one.\<close>

definition or_unknown_text :: "unicode \<Rightarrow> string \<Rightarrow> string" where
  "or_unknown_text u s = (let t = u_strip_text u s in if t = [] then ''unknown'' else t)"

definition build_pilot_report ::
  "unicode \<Rightarrow> string \<Rightarrow> pilot_case list \<Rightarrow> string \<Rightarrow> string \<Rightarrow> string option \<Rightarrow> string option \<Rightarrow> exn + pilot_report"
where
  "build_pilot_report u now cases commit environment report_id made =
     (case cases of
        [] \<Rightarrow> Inl (''ValueError'', pr_no_cases)
      | c # _ \<Rightarrow>
          Inr \<lparr>po_report_id = safe_file_component u (or_text report_id
                 (''pilot-'' @ (if pc_request_id c = [] then ''report'' else pc_request_id c))) ''pilot'',
               po_generated_at = given_or made now, po_commit = or_unknown_text u commit,
               po_environment = or_unknown_text u environment, po_main = c, po_cases = cases, po_artifacts = []\<rparr>)"

subsection \<open>The files\<close>

record 'w file_system =
  fs_join :: "string \<Rightarrow> string \<Rightarrow> string"
  fs_mkdir :: "string \<Rightarrow> 'w \<Rightarrow> (exn + unit) \<times> 'w"
  fs_write :: "string \<Rightarrow> string \<Rightarrow> 'w \<Rightarrow> (exn + unit) \<times> 'w"

datatype report = Summary pilot_report | Payload jdict

definition DEFAULT_PILOT_REPORT_DIR :: string where "DEFAULT_PILOT_REPORT_DIR = ''docs/reports/real_llm_pilot''"

definition value_error :: "string + 'a \<Rightarrow> exn + 'a" where
  "value_error x = map_sum (\<lambda>t. (''ValueError'', t)) id x"

definition report_payload :: "unicode \<Rightarrow> (string \<Rightarrow> bool) \<Rightarrow> report \<Rightarrow> exn + jdict" where
  "report_payload u fine r =
     value_error (then_try (case r of Summary rep \<Rightarrow> report_dump u fine rep | Payload d \<Rightarrow> Inr d)
       (sanitize_pilot_dict u fine))"

definition add_artifact :: "string \<Rightarrow> string \<Rightarrow> string \<Rightarrow> report \<Rightarrow> report" where
  "add_artifact fmt path made r =
     (case r of
        Summary rep \<Rightarrow>
          Summary (rep\<lparr>po_artifacts := po_artifacts rep @ [\<lparr>pt_format = fmt, pt_path = path, pt_generated_at = made\<rparr>]\<rparr>)
      | Payload d \<Rightarrow> Payload d)"

text \<open>One of the two writers: the suffix of the file, its format, and the text of a payload.\<close>

definition write_report ::
  "'w llm_env \<Rightarrow> (string \<Rightarrow> bool) \<Rightarrow> 'w file_system \<Rightarrow> string \<Rightarrow> string \<Rightarrow> (jdict \<Rightarrow> exn + string) \<Rightarrow> string option \<Rightarrow>
     report \<Rightarrow> 'w \<Rightarrow> (exn + string \<times> report) \<times> 'w"
where
  "write_report le fine fs ext fmt render dir r w =
     (let u = le_unicode le; env = le_env le; target = given_or dir DEFAULT_PILOT_REPORT_DIR in
      bind_out (report_payload u fine r, w) (\<lambda>payload w.
      bind_out (fs_mkdir fs target w) (\<lambda>_ w.
        (let path = fs_join fs target (report_file_stem u env (utc_iso env w) payload @ ext) in
         bind_out (render payload, w) (\<lambda>text w.
         bind_out (fs_write fs path text w) (\<lambda>_ w.
           (Inr (path, add_artifact fmt path (value_text env (dget_or payload ''generated_at'' (JStr []))) r), w)))))))"

definition write_pilot_report_json ::
  "'w llm_env \<Rightarrow> (string \<Rightarrow> bool) \<Rightarrow> (json \<Rightarrow> string) \<Rightarrow> 'w file_system \<Rightarrow> string option \<Rightarrow> report \<Rightarrow> 'w \<Rightarrow>
     (exn + string \<times> report) \<times> 'w"
where
  "write_pilot_report_json le fine indented fs dir r w =
     write_report le fine fs ''.json'' ''json'' (\<lambda>payload. Inr (indented (JObj payload))) dir r w"

subsection \<open>The text for readers\<close>

definition shown :: "'w env \<Rightarrow> jdict \<Rightarrow> string \<Rightarrow> json \<Rightarrow> string" where
  "shown env d k dflt = value_text env (dget_or d k dflt)"

definition bullet :: "'w env \<Rightarrow> jdict \<Rightarrow> string \<Rightarrow> json \<Rightarrow> string" where
  "bullet env d k dflt = ''- '' @ k @ '': '' @ shown env d k dflt"

fun texts_only :: "nat \<Rightarrow> json list \<Rightarrow> exn + string list" where
  "texts_only n [] = Inr []"
| "texts_only n (JStr s # vs) = map_sum id ((#) s) (texts_only (Suc n) vs)"
| "texts_only n (v # vs) =
     Inl (''TypeError'', ''sequence item '' @ nat_text n @ '': expected str instance, '' @ type_name v @ '' found'')"

text \<open>\<open>", ".join(v) if v else "none"\<close>, the text of the metric keys, and \<open>len\<close>.\<close>

definition joined :: "json \<Rightarrow> exn + string" where
  "joined v =
     (if \<not> truthy v then Inr pr_none
      else then_try (iterate v) (\<lambda>vs. map_sum id (str_join '', '') (texts_only 0 vs)))"

definition metric_keys :: "'w llm_env \<Rightarrow> jdict \<Rightarrow> exn + string" where
  "metric_keys le d =
     (let v = dget_or d ''observability'' (JObj [])
      in map_sum id (\<lambda>e. le_dumps le (dget_or e ''runtime_metric_keys'' (JList [])))
           (if \<not> truthy v then Inr [] else case v of JObj e \<Rightarrow> Inr e | w \<Rightarrow> Inl (''AttributeError'', attr_error w ''get'')))"

definition json_len :: "json \<Rightarrow> exn + nat" where
  "json_len v =
     (case v of
        JList vs \<Rightarrow> Inr (length vs) | JObj d \<Rightarrow> Inr (length d) | JStr s \<Rightarrow> Inr (py_len s)
      | w \<Rightarrow> Inl (''TypeError'', ''object of type '' @ quote_text (type_name w) @ '' has no len()''))"

definition bad_case_lines :: "'w env \<Rightarrow> json list \<Rightarrow> string list" where
  "bad_case_lines env vs =
     concat (map (\<lambda>v. case v of
        JObj d \<Rightarrow> [''  - '' @ shown env d ''case_id'' (JStr []) @ '' ['' @ shown env d ''category'' (JStr []) @ ''] '' @
          shown env d ''outcome'' (JStr []) @ '': '' @ shown env d ''reason'' (JStr [])]
      | _ \<Rightarrow> []) vs)"

definition eval_summary_lines :: "'w env \<Rightarrow> jdict \<Rightarrow> exn + string list" where
  "eval_summary_lines env d =
     (let bad = or_else (dget d ''bad_cases'') (JList []); zero = JInt 0 in
      then_try (json_len bad) (\<lambda>n.
      then_try (if truthy bad then iterate bad else Inr []) (\<lambda>vs.
        Inr ([pr_eval] @ map (\<lambda>k. bullet env d k zero)
               [''cases_total'', ''llm_called_cases'', ''passed_cases'', ''success_rate'', ''fallback_cases'', ''fallback_rate''] @
             [''- latency_ms(p50/p95): '' @ shown env d ''latency_p50_ms'' zero @ ''/'' @ shown env d ''latency_p95_ms'' zero,
              ''- tokens(prompt/completion/total): '' @ shown env d ''prompt_tokens_total'' zero @ ''/'' @
                shown env d ''completion_tokens_total'' zero @ ''/'' @ shown env d ''total_tokens_total'' zero,
              bullet env d ''cost_total_usd'' zero, ''- bad_case_count: '' @ nat_text n] @
             (if truthy bad then [''- bad_cases:''] @ bad_case_lines env vs else []) @ [[]]))))"

definition head_lines :: "'w env \<Rightarrow> string \<Rightarrow> jdict \<Rightarrow> string list" where
  "head_lines env run_mode d =
     [pr_title, []] @ (if run_mode = ''dry_run'' then [pr_dry_run, []] else []) @
     [pr_kind, pr_opt_in, pr_boundary, pr_data, [], pr_meta] @
     map (\<lambda>k. bullet env d k (JStr [])) [''report_id'', ''generated_at'', ''commit'', ''environment''] @
     (if run_mode = [] then [] else [''- run_mode: '' @ run_mode])"

definition main_lines :: "'w env \<Rightarrow> jdict \<Rightarrow> string list" where
  "main_lines env d =
     (let no = JBool False; zero = JInt 0; none = JStr [] in
      [[], pr_primary,
       ''- provider/model: '' @ shown env d ''provider'' none @ '' / '' @ shown env d ''model'' none] @
      map (\<lambda>k. bullet env d k none) [''base_url_summary'', ''endpoint'', ''request_id'', ''outcome''] @
      map (\<lambda>k. bullet env d k no) [''real_call_attempted'', ''real_call_succeeded'', ''fallback_used''] @
      [bullet env d ''fallback_reason'' none, bullet env d ''budget_action'' none, bullet env d ''cache_hit'' no,
       bullet env d ''latency_ms'' zero,
       ''- tokens(prompt/completion/total): '' @ shown env d ''prompt_tokens'' zero @ ''/'' @
         shown env d ''completion_tokens'' zero @ ''/'' @ shown env d ''total_tokens'' zero,
       bullet env d ''cost'' zero, bullet env d ''error_type'' none])"

definition evidence_lines :: "'w llm_env \<Rightarrow> jdict \<Rightarrow> exn + string list" where
  "evidence_lines le d =
     then_try (metric_keys le d) (\<lambda>keys.
     then_try (joined (dget d ''evidence_notes'')) (\<lambda>notes.
       Inr [[], pr_evidence, ''- evidence_links: '' @ le_dumps le (dget_or d ''evidence_links'' (JObj [])),
            ''- runtime_metric_keys: '' @ keys, ''- evidence_notes: '' @ notes, []]))"

definition case_lines :: "'w llm_env \<Rightarrow> nat \<Rightarrow> json \<Rightarrow> exn + string list" where
  "case_lines le n v =
     (case v of
        JObj d \<Rightarrow>
          (let env = le_env le; none = JStr [] in
           then_try (joined (dget d ''warnings'')) (\<lambda>warnings.
           then_try (metric_keys le d) (\<lambda>keys.
             Inr ([''### Case '' @ nat_text n @ '': '' @ shown env d ''scenario'' none] @
               map (\<lambda>k. bullet env d k none)
                 [''endpoint'', ''request_id'', ''outcome'', ''fallback_reason'', ''budget_action'', ''error_type''] @
               [''- warnings: '' @ warnings, ''- evidence_links: '' @ le_dumps le (dget_or d ''evidence_links'' (JObj [])),
                ''- runtime_metric_keys: '' @ keys, ''- detail_redacted: '' @ le_dumps le (dget_or d ''detail'' (JObj [])),
                []]))))
      | w \<Rightarrow> Inl (''AttributeError'', attr_error w ''get''))"

definition markdown_text :: "'w llm_env \<Rightarrow> jdict \<Rightarrow> exn + string" where
  "markdown_text le d =
     (let u = le_unicode le; env = le_env le;
          run_mode = u_lower_text u (u_strip_text u (text_or_empty env (dget d ''run_mode'')))
      in then_try (evidence_lines le d) (\<lambda>evidence.
         then_try (case dget d ''eval_summary'' of JObj e \<Rightarrow> eval_summary_lines env e | _ \<Rightarrow> Inr []) (\<lambda>summary.
         then_try (iterate (dget_or d ''cases'' (JList []))) (\<lambda>cases.
         then_try (seq_sum (map (\<lambda>(n, v). case_lines le n v) (enumerate 1 cases))) (\<lambda>details.
           Inr (str_join [char_of (10::nat)]
             (head_lines env run_mode d @ main_lines env d @ evidence @ summary @ [pr_cases] @ concat details @
              [pr_limits, pr_limit_one, pr_limit_two, pr_limit_three, []])))))))"

definition write_pilot_report_markdown ::
  "'w llm_env \<Rightarrow> (string \<Rightarrow> bool) \<Rightarrow> 'w file_system \<Rightarrow> string option \<Rightarrow> report \<Rightarrow> 'w \<Rightarrow> (exn + string \<times> report) \<times> 'w"
where
  "write_pilot_report_markdown le fine fs dir r w =
     write_report le fine fs ''.md'' ''markdown'' (markdown_text le) dir r w"

subsection \<open>What the files show\<close>

text \<open>
  The sanitising keeps what is under a key that names a secret, but for its scalars and secrets
  (\<open>prompt_under_secret_leaks\<close>). Elsewhere it replaces every prompt: the condition is that no prompt is below a key
  that names a secret.
\<close>

definition prompt_shown_as :: "json \<Rightarrow> bool" where
  "prompt_shown_as v \<longleftrightarrow> v = JStr ''[REDACTED_PROMPT]''"

definition secret_only :: "unicode \<Rightarrow> string \<Rightarrow> bool" where
  "secret_only u k \<longleftrightarrow> pilot_sensitive_key u k \<and> \<not> pilot_prompt_key u k"

definition secrets_promptless :: "unicode \<Rightarrow> json \<Rightarrow> bool" where
  "secrets_promptless u = under (secret_only u) (free_of (pilot_prompt_key u))"

lemma sanitize_erased:
  "under (secret_only u) (free_of (pilot_prompt_key u)) v \<Longrightarrow>
   sanitize_pilot u fine (erase (pilot_prompt_key u) v) = sanitize_pilot u fine v"
  "under_list (secret_only u) (free_of (pilot_prompt_key u)) vs \<Longrightarrow>
   sanitize_pilot_list u fine (erase_list (pilot_prompt_key u) vs) = sanitize_pilot_list u fine vs"
  "under_dict (secret_only u) (free_of (pilot_prompt_key u)) d \<Longrightarrow>
   sanitize_pilot_dict u fine (erase_dict (pilot_prompt_key u) d) = sanitize_pilot_dict u fine d"
  by (induction u fine v and u fine vs and u fine d rule: sanitize_pilot_sanitize_pilot_list_sanitize_pilot_dict.induct)
     (auto simp: secret_only_def erase_free split: sum.split)

lemma redact_free:
  "redact_value u fine v = Inr x \<Longrightarrow> free_of K v \<Longrightarrow> free_of K x"
  by (rule redact_keeps_under(1) [where Q = "\<lambda>_. False"]) simp_all

lemma sanitize_shows:
  "sanitize_pilot u fine v = Inr x \<Longrightarrow> under (secret_only u) (free_of (pilot_prompt_key u)) v \<Longrightarrow>
   under (pilot_prompt_key u) prompt_shown_as x"
  "sanitize_pilot_list u fine vs = Inr xs \<Longrightarrow> under_list (secret_only u) (free_of (pilot_prompt_key u)) vs \<Longrightarrow>
   under_list (pilot_prompt_key u) prompt_shown_as xs"
  "sanitize_pilot_dict u fine d = Inr e \<Longrightarrow> under_dict (secret_only u) (free_of (pilot_prompt_key u)) d \<Longrightarrow>
   under_dict (pilot_prompt_key u) prompt_shown_as e"
proof (induction u fine v and u fine vs and u fine d arbitrary: x and xs and e
    rule: sanitize_pilot_sanitize_pilot_list_sanitize_pilot_dict.induct)
  case (8 u fine k v d)
  then show ?case
    by (auto simp: case_sum_Inr map_sum_Inr secret_only_def prompt_shown_as_def split: if_splits
        intro: free_under(1) [OF redact_free])
qed (auto simp: case_sum_Inr map_sum_Inr)

text \<open>Two values that differ only in their prompts, wherever they are.\<close>

definition same_but_prompts :: "unicode \<Rightarrow> json \<Rightarrow> json \<Rightarrow> bool" where
  "same_but_prompts u v w \<longleftrightarrow> erase (pilot_prompt_key u) v = erase (pilot_prompt_key u) w"

lemma same_sanitized:
  assumes "same_but_prompts u v w" and "secrets_promptless u v" and "secrets_promptless u w"
  shows "sanitize_pilot u fine v = sanitize_pilot u fine w"
  using assms sanitize_erased(1) [of u v fine] sanitize_erased(1) [of u w fine]
  by (simp add: same_but_prompts_def secrets_promptless_def)

lemma same_sanitized_dict:
  assumes "same_but_prompts u (JObj d) (JObj e)" and "secrets_promptless u (JObj d)" and "secrets_promptless u (JObj e)"
  shows "sanitize_pilot_dict u fine d = sanitize_pilot_dict u fine e"
  using assms sanitize_erased(3) [of u d fine] sanitize_erased(3) [of u e fine]
  by (simp add: same_but_prompts_def secrets_promptless_def)

lemma write_report_payload:
  assumes "report_payload (le_unicode le) fine (Payload d) = report_payload (le_unicode le) fine (Payload e)"
  shows "map_prod (map_sum id fst) id (write_report le fine fs ext fmt render dir (Payload d) w) =
    map_prod (map_sum id fst) id (write_report le fine fs ext fmt render dir (Payload e) w)"
  unfolding write_report_def Let_def assms
  by (auto simp: bind_out_def add_artifact_def split: sum.split prod.split)

text \<open>
  C37. No prompt is written. Two payloads that differ only in their prompts, the values under a key that names a
  prompt at whatever depth, and keep none of them below a key that names a secret, are written as the same files:
  the path, the text and the state of the file system after it are the same, for both formats. (A prompt below a
  key that names a secret is written: \<open>prompt_under_secret_leaks\<close>.)
\<close>

theorem pilot_files_hide_prompts:
  assumes "same_but_prompts (le_unicode le) (JObj d) (JObj e)"
    and "secrets_promptless (le_unicode le) (JObj d)" and "secrets_promptless (le_unicode le) (JObj e)"
  shows "map_prod (map_sum id fst) id (write_pilot_report_json le fine indented fs dir (Payload d) w) =
      map_prod (map_sum id fst) id (write_pilot_report_json le fine indented fs dir (Payload e) w) \<and>
    map_prod (map_sum id fst) id (write_pilot_report_markdown le fine fs dir (Payload d) w) =
      map_prod (map_sum id fst) id (write_pilot_report_markdown le fine fs dir (Payload e) w)"
proof -
  have "report_payload (le_unicode le) fine (Payload d) = report_payload (le_unicode le) fine (Payload e)"
    by (simp add: report_payload_def same_sanitized_dict [OF assms])
  then show ?thesis
    unfolding write_pilot_report_json_def write_pilot_report_markdown_def by (intro conjI write_report_payload)
qed

definition demo_files :: "(string \<times> string) list file_system" where
  "demo_files = \<lparr>fs_join = (\<lambda>a b. a @ ''/'' @ b), fs_mkdir = (\<lambda>_ w. (Inr (), w)),
     fs_write = (\<lambda>path text w. (Inr (), (path, text) # w))\<rparr>"

definition asked_report :: "string \<Rightarrow> jdict" where
  "asked_report q = [(''report_id'', JStr ''r1''), (''api_key'', JObj [(''env'', JStr ''LLM_KEY'')]),
     (''cases'', JList [JObj [(''user_query'', JStr q)]])]"

definition report_llm_env :: "(string \<times> string) list llm_env" where
  "report_llm_env =
     \<lparr>le_env = \<lparr>fresh_hex = (\<lambda>w. ([], w)), now_iso = (\<lambda>_. ''2026-01-02T03:04:05''),
        utc_iso = (\<lambda>_. ''2026-01-02T03:04:05+00:00''), mono_clock = (\<lambda>_. 0), py_str = (\<lambda>_. ''?''), py_attr = (\<lambda>_ _. None)\<rparr>,
      le_unicode = demo_unicode, le_loads = (\<lambda>_. Inl []), le_dumps = (\<lambda>_. ''{}''),
      le_http = \<lparr>hc_installed = False, hc_post = (\<lambda>_ _ _ _ w. (Inl (HttpError ''offline''), w)),
        hc_stream = (\<lambda>_ _ _ _ w. (Inl (HttpError ''offline''), w)), hc_sleep = (\<lambda>_ w. w)\<rparr>,
      le_litellm = \<lparr>li_installed = False, li_completion = (\<lambda>_ w. (Inl (''Timeout'', ''late''), w)),
        li_stream = (\<lambda>_ w. (Inr ([], None), w))\<rparr>\<rparr>"

theorem pilot_files_hide_prompts_witness:
  "snd (write_pilot_report_markdown report_llm_env (\<lambda>_. True) demo_files None (Payload (asked_report ''raw'')) []) =
   snd (write_pilot_report_markdown report_llm_env (\<lambda>_. True) demo_files None (Payload (asked_report ''other'')) [])"
proof -
  have "same_but_prompts (le_unicode report_llm_env) (JObj (asked_report ''raw'')) (JObj (asked_report ''other''))"
    "secrets_promptless (le_unicode report_llm_env) (JObj (asked_report ''raw''))"
    "secrets_promptless (le_unicode report_llm_env) (JObj (asked_report ''other''))"
    by code_simp+
  from pilot_files_hide_prompts [OF this, of "\<lambda>_. True" "\<lambda>_. ''{}''" demo_files None "[]"] show ?thesis
    by (metis id_apply snd_map_prod)
qed

lemma a_report_is_written:
  "map fst (snd (write_pilot_report_markdown report_llm_env (\<lambda>_. True) demo_files None (Payload (asked_report ''raw'')) [])) =
     [''docs/reports/real_llm_pilot/2026-01-02T03-04-05_00-00_r1.md'']"
  by code_simp

text \<open>A value under a key that names a secret is masked as a whole; a prompt in a dict under such a key stays.\<close>

lemma prompt_under_secret_leaks:
  "sanitize_pilot demo_unicode fine (JObj [(''secret'', JObj [(''query'', JStr ''raw'')])]) =
     Inr (JObj [(''secret'', JObj [(''query'', JStr ''raw'')])])"
  by code_simp

subsection \<open>Where the files go\<close>

lemma dash_runs_chars: "list_all file_char (dash_runs s)"
proof (induction s rule: dash_runs.induct)
  case (2 c cs)
  have "file_char CHR ''-''" by (simp add: file_char_def)
  with 2 show ?case by simp
qed simp

definition safe_name :: "string \<Rightarrow> bool" where
  "safe_name s \<longleftrightarrow> s \<noteq> [] \<and> list_all file_char s \<and> hd s \<notin> set ''-._''"

lemma set_strip_end: "set (strip_end P s) \<subseteq> set s"
  using strip_end_split [of s P] by (metis Un_upper1 set_append)

lemma safe_file_component_safe:
  assumes "safe_name fallback"
  shows "safe_name (safe_file_component u text fallback)"
proof -
  define edge where "edge = (\<lambda>c. c \<in> set ''-._'')"
  define x where "x = dash_runs (u_strip_text u text)"
  let ?t = "strip_end edge (dropWhile edge x)"
  have t: "safe_file_component u text fallback = (if ?t = [] then fallback else ?t)"
    by (simp add: safe_file_component_def edge_def x_def Let_def)
  have "safe_name ?t" if "?t \<noteq> []"
  proof -
    have "dropWhile edge x \<noteq> []" using that by (intro notI) (simp add: strip_end_def)
    then have "\<not> edge (hd ?t)" using strip_end_hd [OF that] hd_dropWhile by metis
    moreover have "set ?t \<subseteq> set x" using set_strip_end [of edge "dropWhile edge x"] by (meson set_dropWhileD subset_iff)
    then have "list_all file_char ?t" using dash_runs_chars [of "u_strip_text u text"] by (auto simp: list_all_iff x_def)
    ultimately show ?thesis using that by (simp add: safe_name_def edge_def)
  qed
  then show ?thesis using assms by (simp add: t)
qed

text \<open>
  C38. The name of a report file has letters, digits, dots, dashes and underscores only and begins with none of the
  last three, whatever the report claims as its identification and its time: the file stays in its directory.
\<close>

theorem report_file_name_is_safe:
  "safe_name (report_file_stem u env now payload) \<and> CHR ''/'' \<notin> set (report_file_stem u env now payload)"
proof -
  have "safe_name ''report''" "safe_name ''pilot''" "file_char CHR ''_''" "\<not> file_char CHR ''/''"
    by code_simp+
  then obtain a b where "report_file_stem u env now payload = a @ ''_'' @ b" "safe_name a" "safe_name b"
    using safe_file_component_safe unfolding report_file_stem_def Let_def by blast
  then show ?thesis
    using \<open>file_char CHR ''_''\<close> \<open>\<not> file_char CHR ''/''\<close> by (auto simp: safe_name_def list_all_iff)
qed

end
