(* ===== verification/Trajectory.thy ===== *)
theory Trajectory
  imports Eval_Texts Demo_World
begin

text \<open>
  The evaluation of a recorded run against an expectation (\<open>app/harness/eval/trajectory.py\<close>) and the
  registry of skills (\<open>app/harness/skills/registry.py\<close>). A trace event is its type and its detail. The text
  of a Python set, whose order is not fixed, is the parameter \<open>set_text\<close>.
\<close>

subsection \<open>The expectation and its evaluation\<close>

record trajectory_expectation =
  te_expected_mode :: "string option"
  te_expected_roles :: "string list"
  te_expected_tools :: "string list"
  te_expected_events :: "string list"
  te_approval_required :: "bool option"
  te_max_steps :: "int option"
  te_allow_fallback :: bool

record trajectory_result =
  tz_passed :: bool
  tz_score :: rat
  tz_issues :: "string list"
  tz_matched_roles :: "string list"
  tz_matched_tools :: "string list"
  tz_matched_events :: "string list"

type_synonym trace = "(string \<times> jdict) list"

definition tool_key :: "string \<Rightarrow> json \<Rightarrow> string option" where
  "tool_key k v =
     (if k = ''tool_name'' \<or> k = ''tool_called'' then (case v of JStr s \<Rightarrow> Some s | _ \<Rightarrow> None) else None)"

fun extract_tool_names :: "json \<Rightarrow> string list" where
  "extract_tool_names (JObj kvs) =
     concat (map (\<lambda>kv. case tool_key (fst kv) (snd kv) of Some s \<Rightarrow> [s] | None \<Rightarrow> extract_tool_names (snd kv)) kvs)"
| "extract_tool_names (JList vs) = concat (map extract_tool_names vs)"
| "extract_tool_names v = []"

text \<open>What one check contributes: its part of the score and its issues. A check that is not asked for has none.\<close>

type_synonym check = "(rat \<times> string list) option"

definition mode_found :: "string \<Rightarrow> trace \<Rightarrow> bool" where
  "mode_found mode trace \<longleftrightarrow>
     list_ex (\<lambda>(et, d). dget d ''selected_mode'' = JStr mode \<or> dget d ''executed_mode'' = JStr mode) trace \<or>
     list_ex (\<lambda>(et, d). str_in mode et) trace"

definition unhashable :: "json \<Rightarrow> bool" where
  "unhashable v = (case v of JList _ \<Rightarrow> True | JObj _ \<Rightarrow> True | _ \<Rightarrow> False)"

text \<open>The modes that ran instead; a set refuses a value that has no hash.\<close>

definition fallback_modes :: "trace \<Rightarrow> string + json list" where
  "fallback_modes trace =
     (let vs = filter truthy (map (\<lambda>(et, d). dget d ''executed_mode'') trace)
      in case find unhashable vs of
           Some v \<Rightarrow> Inl (''unhashable type: '' @ [CHR 0x27] @ type_name v @ [CHR 0x27])
         | None \<Rightarrow> Inr vs)"

definition mode_check :: "(json list \<Rightarrow> string) \<Rightarrow> trajectory_expectation \<Rightarrow> trace \<Rightarrow> string + check" where
  "mode_check set_text ex trace =
     (case te_expected_mode ex of
        None \<Rightarrow> Inr None
      | Some mode \<Rightarrow>
          if mode_found mode trace then Inr (Some (1, []))
          else if te_allow_fallback ex then
            (case fallback_modes trace of
               Inl e \<Rightarrow> Inl e
             | Inr [] \<Rightarrow> Inr (Some (0, [tx_mode_missing mode]))
             | Inr vs \<Rightarrow> Inr (Some (1 / 2, [tx_mode_fallback mode (set_text vs)])))
          else Inr (Some (0, [tx_mode_strict mode])))"

text \<open>A list of wanted names: full marks when none is missing, else the share that is there.\<close>

definition coverage_check :: "(string \<Rightarrow> string) \<Rightarrow> 'w env \<Rightarrow> string list \<Rightarrow> (string \<Rightarrow> bool) \<Rightarrow> check" where
  "coverage_check issue env wanted seen =
     (if wanted = [] then None
      else
        (let matched = filter seen wanted; missing = filter (\<lambda>x. \<not> seen x) wanted
         in if missing = [] then Some (1, [])
            else Some (of_nat (length matched) / of_nat (length wanted), [issue (py_str env (jstrs missing))])))"

definition role_seen :: "'w env \<Rightarrow> trace \<Rightarrow> string \<Rightarrow> bool" where
  "role_seen env trace role \<longleftrightarrow>
     list_ex (\<lambda>(et, d). str_in role et \<or>
       (truthy (dget d ''action'') \<and> str_in role (py_str env (dget_or d ''action'' (JStr []))))) trace"

definition tool_seen :: "trace \<Rightarrow> string \<Rightarrow> bool" where
  "tool_seen trace tool \<longleftrightarrow> list_ex (\<lambda>(et, d). tool \<in> set (extract_tool_names (JObj d))) trace"

definition event_seen :: "trace \<Rightarrow> string \<Rightarrow> bool" where
  "event_seen trace ev \<longleftrightarrow> list_ex (\<lambda>(et, d). str_in ev et) trace"

definition approval_check :: "trajectory_expectation \<Rightarrow> trace \<Rightarrow> check" where
  "approval_check ex trace =
     (let seen = list_ex (\<lambda>(et, d). str_in ''approval'' et) trace
      in case te_approval_required ex of
           None \<Rightarrow> None
         | Some True \<Rightarrow> Some (if seen then (1, []) else (0, [tx_approval_expected]))
         | Some False \<Rightarrow> Some (if \<not> seen then (1, []) else (0, [tx_approval_unexpected])))"

definition steps_check :: "trajectory_expectation \<Rightarrow> trace \<Rightarrow> check" where
  "steps_check ex trace =
     (case te_max_steps ex of
        None \<Rightarrow> None
      | Some n \<Rightarrow>
          Some (if int (length trace) \<le> n then (1, [])
                else (0, [tx_too_many_steps (nat_text (length trace)) (int_text n)])))"

definition trajectory_checks ::
  "(json list \<Rightarrow> string) \<Rightarrow> 'w env \<Rightarrow> trajectory_expectation \<Rightarrow> trace \<Rightarrow> string + check list"
where
  "trajectory_checks set_text env ex trace =
     (case mode_check set_text ex trace of
        Inl e \<Rightarrow> Inl e
      | Inr m \<Rightarrow>
          Inr [m, coverage_check tx_missing_roles env (te_expected_roles ex) (role_seen env trace),
               coverage_check tx_missing_tools env (te_expected_tools ex) (tool_seen trace),
               coverage_check tx_missing_events env (te_expected_events ex) (event_seen trace),
               approval_check ex trace, steps_check ex trace])"

definition check_score :: "check list \<Rightarrow> rat" where
  "check_score cs =
     (let parts = List.map_filter (map_option fst) cs
      in if parts = [] then 1 else py_round 4 (sum_list parts / of_nat (length parts)))"

definition critical :: "string \<Rightarrow> bool" where "critical s = prefix ''critical:'' s"

definition trajectory_evaluate ::
  "(json list \<Rightarrow> string) \<Rightarrow> 'w env \<Rightarrow> trajectory_expectation \<Rightarrow> trace \<Rightarrow> string + trajectory_result"
where
  "trajectory_evaluate set_text env ex trace =
     (case trajectory_checks set_text env ex trace of
        Inl e \<Rightarrow> Inl e
      | Inr cs \<Rightarrow>
          (let issues = concat (List.map_filter (map_option snd) cs); score = check_score cs
           in Inr \<lparr>tz_passed = (filter critical issues = [] \<and> 8 / 10 \<le> score), tz_score = score, tz_issues = issues,
                   tz_matched_roles = filter (role_seen env trace) (te_expected_roles ex),
                   tz_matched_tools = filter (tool_seen trace) (te_expected_tools ex),
                   tz_matched_events = filter (event_seen trace) (te_expected_events ex)\<rparr>))"

subsection \<open>When a run passes\<close>

definition stated_checks :: "trajectory_expectation \<Rightarrow> nat" where
  "stated_checks ex =
     of_bool (te_expected_mode ex \<noteq> None) + of_bool (te_expected_roles ex \<noteq> []) + of_bool (te_expected_tools ex \<noteq> []) +
     of_bool (te_expected_events ex \<noteq> []) + of_bool (te_approval_required ex \<noteq> None) + of_bool (te_max_steps ex \<noteq> None)"

definition mode_met :: "trajectory_expectation \<Rightarrow> trace \<Rightarrow> bool" where
  "mode_met ex trace \<longleftrightarrow> (case te_expected_mode ex of None \<Rightarrow> True | Some m \<Rightarrow> mode_found m trace)"

definition mode_replaced :: "trajectory_expectation \<Rightarrow> trace \<Rightarrow> bool" where
  "mode_replaced ex trace \<longleftrightarrow>
     \<not> mode_met ex trace \<and> te_allow_fallback ex \<and> list_ex (\<lambda>(et, d). truthy (dget d ''executed_mode'')) trace"

text \<open>Everything the expectation states but for the mode.\<close>

definition rest_met :: "'w env \<Rightarrow> trajectory_expectation \<Rightarrow> trace \<Rightarrow> bool" where
  "rest_met env ex trace \<longleftrightarrow>
     list_all (role_seen env trace) (te_expected_roles ex) \<and> list_all (tool_seen trace) (te_expected_tools ex) \<and>
     list_all (event_seen trace) (te_expected_events ex) \<and>
     (case te_approval_required ex of
        None \<Rightarrow> True | Some b \<Rightarrow> b = list_ex (\<lambda>(et, d). str_in ''approval'' et) trace) \<and>
     (case te_max_steps ex of None \<Rightarrow> True | Some n \<Rightarrow> int (length trace) \<le> n)"

lemma critical_texts:
  "critical (tx_mode_missing m)" "critical (tx_mode_strict m)" "critical (tx_missing_roles t)"
  "critical (tx_missing_tools t)" "critical (tx_missing_events t)" "critical tx_approval_expected"
  "critical tx_approval_unexpected" "critical (tx_too_many_steps n k)" "\<not> critical (tx_mode_fallback m t)"
  by (simp_all add: critical_def tx_mode_missing_def tx_mode_strict_def tx_missing_roles_def tx_missing_tools_def
      tx_missing_events_def tx_approval_expected_def tx_approval_unexpected_def tx_too_many_steps_def
      tx_mode_fallback_def)

text \<open>A check that is not the mode is absent, met in full, or critical.\<close>

definition sound_check :: "check \<Rightarrow> bool \<Rightarrow> bool \<Rightarrow> bool" where
  "sound_check c stated met \<longleftrightarrow>
     (c = None \<longleftrightarrow> \<not> stated) \<and> (\<not> stated \<longrightarrow> met) \<and>
     (stated \<and> met \<longrightarrow> c = Some (1, [])) \<and> (stated \<and> \<not> met \<longrightarrow> (\<exists>q i. c = Some (q, [i]) \<and> critical i))"

lemma sound_full: "sound_check c stated met \<Longrightarrow> met \<Longrightarrow> c = (if stated then Some (1, []) else None)"
  by (auto simp: sound_check_def)

lemma coverage_sound:
  "(\<And>t. critical (issue t)) \<Longrightarrow> sound_check (coverage_check issue env wanted seen) (wanted \<noteq> []) (list_all seen wanted)"
  by (auto simp: sound_check_def coverage_check_def Let_def filter_empty_conv list_all_iff)

lemma approval_sound:
  "sound_check (approval_check ex trace) (te_approval_required ex \<noteq> None)
     (case te_approval_required ex of None \<Rightarrow> True | Some b \<Rightarrow> b = list_ex (\<lambda>(et, d). str_in ''approval'' et) trace)"
  by (auto simp: sound_check_def approval_check_def Let_def critical_texts split: option.split bool.split)

lemma steps_sound:
  "sound_check (steps_check ex trace) (te_max_steps ex \<noteq> None)
     (case te_max_steps ex of None \<Rightarrow> True | Some n \<Rightarrow> int (length trace) \<le> n)"
  by (auto simp: sound_check_def steps_check_def critical_texts split: option.split)

lemma unmet_critical:
  assumes "sound_check c stated met" and "\<not> met" and "c \<in> set cs"
  shows "filter critical (concat (List.map_filter (map_option snd) cs)) \<noteq> []"
proof -
  obtain q i where "c = Some (q, [i])" "critical i" using assms(1,2) by (auto simp: sound_check_def)
  with assms(3) have "i \<in> set (concat (List.map_filter (map_option snd) cs))"
    by (force simp: List.map_filter_def)
  with \<open>critical i\<close> show ?thesis by (auto simp: filter_empty_conv)
qed

lemma mode_check_cases:
  assumes "mode_check set_text ex trace = Inr m"
  shows "(m = None \<longleftrightarrow> te_expected_mode ex = None) \<and> (m \<noteq> None \<and> mode_met ex trace \<longrightarrow> m = Some (1, [])) \<and>
    (mode_replaced ex trace \<longrightarrow> (\<exists>i. m = Some (1 / 2, [i]) \<and> \<not> critical i)) \<and>
    (\<not> mode_met ex trace \<and> \<not> mode_replaced ex trace \<longrightarrow> (\<exists>q i. m = Some (q, [i]) \<and> critical i))"
proof -
  have "filter truthy (map (\<lambda>(et, d). dget d ''executed_mode'') trace) = [] \<longleftrightarrow>
      \<not> list_ex (\<lambda>(et, d). truthy (dget d ''executed_mode'')) trace"
    by (induction trace) auto
  then show ?thesis
    using assms
    by (auto simp: mode_check_def mode_met_def mode_replaced_def fallback_modes_def Let_def critical_texts
        split: option.splits if_splits sum.splits list.splits)
qed

lemma full_parts:
  "List.map_filter (map_option fst) (map (\<lambda>b. if b then Some (1, []) else None) bs) =
     replicate (length (filter id bs)) (1 :: rat)"
  by (induction bs) (auto simp: List.map_filter_def)

lemma full_issues:
  "concat (List.map_filter (map_option snd) (map (\<lambda>b. if b then Some (1 :: rat, []) else None) bs)) = []"
  by (induction bs) (auto simp: List.map_filter_def)

lemma score_of_full: "check_score (map (\<lambda>b. if b then Some (1, []) else None) bs) = 1"
proof -
  have "py_round 4 1 = 1" by (simp add: py_round_def round_half_even_def)
  then show ?thesis
    unfolding check_score_def full_parts Let_def by (simp add: sum_list_replicate)
qed

lemma score_of_replaced:
  assumes "length bs = 5"
  shows "8 / 10 \<le> check_score (Some (1 / 2, is) # map (\<lambda>b. if b then Some (1, []) else None) bs) \<longleftrightarrow>
    2 \<le> length (filter id bs)"
proof -
  let ?n = "length (filter id bs)"
  have parts: "List.map_filter (map_option fst) (Some (1 / 2, is) # map (\<lambda>b. if b then Some (1, []) else None) bs) =
      (1 / 2) # replicate ?n (1 :: rat)"
    by (simp only: List.map_filter_simps full_parts option.map option.case fst_conv)
  have "?n \<le> 5" using assms length_filter_le [of id bs] by simp
  then have "?n = 0 \<or> ?n = 1 \<or> ?n = 2 \<or> ?n = 3 \<or> ?n = 4 \<or> ?n = 5" by presburger
  then show ?thesis
    unfolding check_score_def parts Let_def
    by (auto simp: sum_list_replicate py_round_def round_half_even_def Let_def)
qed

text \<open>
  A run passes its trajectory exactly when it meets everything the expectation states, or when it misses
  only the mode, another mode ran, falling back is allowed, and the expectation states at least three checks:
  one or two checks cannot outweigh a replaced mode. The score of a run that meets everything is 1.
\<close>

lemma trajectory_passes_iff:
  assumes "trajectory_evaluate set_text env ex trace = Inr r"
  shows "(tz_passed r \<longleftrightarrow>
      rest_met env ex trace \<and> (mode_met ex trace \<or> (mode_replaced ex trace \<and> 3 \<le> stated_checks ex))) \<and>
    (rest_met env ex trace \<and> mode_met ex trace \<longrightarrow> tz_score r = 1 \<and> tz_issues r = [])"
proof -
  let ?roles = "coverage_check tx_missing_roles env (te_expected_roles ex) (role_seen env trace)"
  let ?tools = "coverage_check tx_missing_tools env (te_expected_tools ex) (tool_seen trace)"
  let ?events = "coverage_check tx_missing_events env (te_expected_events ex) (event_seen trace)"
  let ?rest = "[?roles, ?tools, ?events, approval_check ex trace, steps_check ex trace]"
  let ?bs = "[te_expected_roles ex \<noteq> [], te_expected_tools ex \<noteq> [], te_expected_events ex \<noteq> [],
      te_approval_required ex \<noteq> None, te_max_steps ex \<noteq> None]"
  let ?full = "map (\<lambda>b. if b then Some (1, []) else None) ?bs :: check list"
  obtain m where m: "mode_check set_text ex trace = Inr m"
    using assms by (auto simp: trajectory_evaluate_def trajectory_checks_def split: sum.splits)
  define issues where "issues = concat (List.map_filter (map_option snd) (m # ?rest))"
  define score where "score = check_score (m # ?rest)"
  have r: "tz_passed r = (filter critical issues = [] \<and> 8 / 10 \<le> score)" "tz_score r = score" "tz_issues r = issues"
    using assms m by (auto simp: trajectory_evaluate_def trajectory_checks_def Let_def issues_def score_def)
  have sound: "sound_check ?roles (te_expected_roles ex \<noteq> []) (list_all (role_seen env trace) (te_expected_roles ex))"
    "sound_check ?tools (te_expected_tools ex \<noteq> []) (list_all (tool_seen trace) (te_expected_tools ex))"
    "sound_check ?events (te_expected_events ex \<noteq> []) (list_all (event_seen trace) (te_expected_events ex))"
    by (simp_all add: coverage_sound critical_texts)
  note sound = sound approval_sound [of ex trace] steps_sound [of ex trace]
  have full: "?rest = ?full" if "rest_met env ex trace"
    using that sound [THEN sound_full] unfolding rest_met_def by (simp only: list.map simp_thms)
  have unmet: "filter critical issues \<noteq> []" if "sound_check c st met" "\<not> met" "c \<in> set ?rest" for c st met
    unfolding issues_def using that by (intro unmet_critical [OF that(1,2)]) simp
  have crit: "filter critical issues \<noteq> []" if "\<not> rest_met env ex trace"
    using that unmet [OF sound(1)] unmet [OF sound(2)] unmet [OF sound(3)] unmet [OF sound(4)] unmet [OF sound(5)]
    unfolding rest_met_def by (meson list.set_intros)
  note mc = mode_check_cases [OF m]
  show ?thesis
  proof (cases "rest_met env ex trace")
    case False
    then show ?thesis using crit r by simp
  next
    case True
    consider (met) "mode_met ex trace" | (replaced) "\<not> mode_met ex trace" "mode_replaced ex trace"
      | (missed) "\<not> mode_met ex trace" "\<not> mode_replaced ex trace" by blast
    then show ?thesis
    proof cases
      case met
      then have "m = (if te_expected_mode ex \<noteq> None then Some (1, []) else None)" using mc by auto
      then have eq: "m # ?rest = map (\<lambda>b. if b then Some (1, []) else None) ((te_expected_mode ex \<noteq> None) # ?bs)"
        using full [OF True] by (simp only: list.map)
      have "issues = []" unfolding issues_def eq by (rule full_issues)
      moreover have "score = 1" unfolding score_def eq by (rule score_of_full)
      ultimately show ?thesis unfolding r using True met by simp
    next
      case replaced
      then obtain i where i: "m = Some (1 / 2, [i])" "\<not> critical i" using mc by blast
      then have "issues = i # concat (List.map_filter (map_option snd) ?rest)"
        by (simp add: issues_def List.map_filter_simps)
      then have "issues = [i]" unfolding full [OF True] full_issues .
      moreover have "(2 \<le> length (filter id ?bs)) = (3 \<le> stated_checks ex)"
        using mc i by (auto simp: stated_checks_def)
      moreover have "score = check_score (Some (1 / 2, [i]) # ?full)"
        unfolding score_def i(1) full [OF True] ..
      ultimately show ?thesis
        unfolding r using True replaced i(2) score_of_replaced [of ?bs "[i]"] by simp
    next
      case missed
      then obtain q i where "m = Some (q, [i])" "critical i" using mc by blast
      then have "critical i" "issues = i # concat (List.map_filter (map_option snd) ?rest)"
        by (simp_all add: issues_def List.map_filter_simps)
      then show ?thesis unfolding r using missed by simp
    qed
  qed
qed

definition demo_trace :: trace where
  "demo_trace =
     [(''coordinator_started'', [(''selected_mode'', JStr ''multitool'')]),
      (''tool_finished'', [(''tool_name'', JStr ''get_today_gmv''), (''executed_mode'', JStr ''keyword'')])]"

definition demo_expectation :: trajectory_expectation where
  "demo_expectation =
     \<lparr>te_expected_mode = Some ''nl2sql'', te_expected_roles = [''coordinator''], te_expected_tools = [''get_today_gmv''],
      te_expected_events = [], te_approval_required = None, te_max_steps = None, te_allow_fallback = True\<rparr>"

subsection \<open>Skills\<close>

record skill_spec =
  sk_name :: string
  sk_description :: string
  sk_triggers :: "string list"
  sk_input_schema :: jdict
  sk_output_schema :: jdict
  sk_risk_level :: string
  sk_tool_names :: "string list"

type_synonym skills = "(string \<times> skill_spec) list"

definition object_schema :: "(string \<times> string) list \<Rightarrow> jdict" where
  "object_schema props =
     [(''type'', JStr ''object''), (''properties'', JObj (map (\<lambda>(k, t). (k, JObj [(''type'', JStr t)])) props))]"

definition register_skill :: "skill_spec \<Rightarrow> skills \<Rightarrow> skills" where
  "register_skill s ss = dput ss (sk_name s) s"

definition BUILTIN_SKILLS :: "skill_spec list" where
  "BUILTIN_SKILLS =
     [\<lparr>sk_name = ''ops_metrics_skill'', sk_description = tx_skill_ops,
       sk_triggers = [''GMV'', ''gmv'', tx_w_orders, tx_w_users, tx_w_refund_rate, tx_w_revenue, tx_w_sales],
       sk_input_schema = object_schema [(''metric'', ''string'')],
       sk_output_schema = object_schema [(''value'', ''number'')], sk_risk_level = ''low'',
       sk_tool_names = [''get_today_gmv'', ''get_order_count'', ''get_month_new_users'', ''get_refund_rate'']\<rparr>,
      \<lparr>sk_name = ''product_analysis_skill'', sk_description = tx_skill_product,
       sk_triggers = [''Top'', ''top'', tx_w_product, tx_w_ranking, tx_w_hot, tx_w_bestseller],
       sk_input_schema = object_schema [(''limit'', ''integer'')],
       sk_output_schema = object_schema [(''products'', ''array'')], sk_risk_level = ''low'',
       sk_tool_names = [''get_top_products'']\<rparr>,
      \<lparr>sk_name = ''policy_lookup_skill'', sk_description = tx_skill_policy,
       sk_triggers = [tx_w_refund_rules, tx_w_promotion, tx_w_rules, tx_w_policy, ''policy''],
       sk_input_schema = object_schema [(''policy_type'', ''string'')],
       sk_output_schema = object_schema [(''rules'', ''array'')], sk_risk_level = ''low'', sk_tool_names = []\<rparr>,
      \<lparr>sk_name = ''nl2sql_analysis_skill'', sk_description = tx_skill_nl2sql,
       sk_triggers = [tx_w_analyse, tx_w_query_data, tx_w_data, tx_w_statistics, tx_w_report, tx_w_compare],
       sk_input_schema = object_schema [(''query'', ''string'')],
       sk_output_schema = object_schema [(''sql'', ''string''), (''result'', ''object'')],
       sk_risk_level = ''medium'', sk_tool_names = []\<rparr>]"

definition skills_init :: skills where "skills_init = fold register_skill BUILTIN_SKILLS []"

definition list_skills :: "skills \<Rightarrow> skill_spec list" where "list_skills ss = map snd ss"

definition get_skill :: "string \<Rightarrow> skills \<Rightarrow> skill_spec option" where "get_skill name ss = map_of ss name"

definition match_skills :: "(string \<Rightarrow> string) \<Rightarrow> string \<Rightarrow> skills \<Rightarrow> skill_spec list" where
  "match_skills lower_text query ss =
     filter (\<lambda>s. list_ex (\<lambda>t. str_in (lower_text t) (lower_text query)) (sk_triggers s)) (list_skills ss)"

lemma get_registered: "get_skill name (register_skill s ss) = (if name = sk_name s then Some s else get_skill name ss)"
  by (simp add: get_skill_def register_skill_def)

text \<open>The registry opens with the four skills, under four names, and a query finds those with a trigger in it.\<close>

lemma builtin_skills: "list_skills skills_init = BUILTIN_SKILLS" "distinct (map sk_name BUILTIN_SKILLS)"
  by (simp_all add: list_skills_def skills_init_def BUILTIN_SKILLS_def register_skill_def dput_def)

lemma match_skills_iff:
  "s \<in> set (match_skills lower_text query skills_init) \<longleftrightarrow>
     s \<in> set BUILTIN_SKILLS \<and> (\<exists>t \<in> set (sk_triggers s). str_in (lower_text t) (lower_text query))"
  by (simp add: match_skills_def builtin_skills list_ex_iff)

end
