(* ===== verification/Eval_Runners.thy ===== *)
theory Eval_Runners
  imports Judge Trajectory Runtime_Sql Approval_Resume Guardrails
begin

text \<open>
  The runners of evaluation cases: \<open>NL2SQLEvalRunner\<close> (\<open>app/harness/eval/nl2sql_runner.py\<close>, \<open>cases.py\<close>),
  \<open>MultiAgentEvalRunner\<close> (\<open>multi_agent_runner.py\<close>, \<open>bad_cases.py\<close>) and \<open>BadCaseRunner\<close> (\<open>bad_case_runner.py\<close>), over
  the parts they evaluate. The cases are given as read from their files.
\<close>

definition share :: "nat \<Rightarrow> nat \<Rightarrow> rat" where
  "share k n = (if n = 0 then 0 else py_round 4 (of_nat k / of_nat n))"

definition py_bool :: "bool \<Rightarrow> string" where "py_bool b = (if b then ''True'' else ''False'')"

subsection \<open>NL2SQL cases\<close>

record nl_case =
  nc_id :: string
  nc_input :: string
  nc_expected_tables :: "string list"
  nc_expected_contains :: "string list"
  nc_category :: string
  nc_raw_sql :: "string option"
  nc_blocked_keyword :: "string option"

record nl_failure =
  nf_case_id :: string
  nf_input :: string
  nf_reason :: string

record nl_stats =
  ns_total :: nat
  ns_passed :: nat
  ns_failed :: nat
  ns_accuracy :: rat
  ns_failures :: "nl_failure list"
  ns_generator :: string
  ns_provider :: "string option"
  ns_fallbacks :: nat
  ns_exec_passed :: nat
  ns_exec_failed :: nat

datatype 'w eval_generator = MockGenerator | LlmGenerator "'w sql_generator"

text \<open>\<open>_create_generator\<close>: with the configuration error that made the mock replace the model, if one did.\<close>

definition create_generator ::
  "'w sql_pipeline \<Rightarrow> string \<Rightarrow> string option \<Rightarrow> bool \<Rightarrow> exn + 'w eval_generator \<times> string option"
where
  "create_generator pl generator provider fallback =
     (if generator = ''llm''
      then
        (case sq_create pl provider of
           PReady p \<Rightarrow>
             Inr (LlmGenerator \<lparr>sg_unicode = sq_unicode pl, sg_provider = p, sg_fallback = fallback,
                    sg_template = sq_template pl, sg_loads = sq_loads pl, sg_float = sq_float pl\<rparr>, None)
         | PConfig why \<Rightarrow> if fallback then Inr (MockGenerator, Some why) else Inl (''ProviderConfigError'', why)
         | PUnknown why \<Rightarrow> Inl (''UnknownProviderError'', why))
      else Inr (MockGenerator, None))"

fun eval_generate ::
  "'w env \<Rightarrow> 'w sql_pipeline \<Rightarrow> 'w eval_generator \<Rightarrow> string \<Rightarrow> schema_table list \<Rightarrow> 'w \<Rightarrow> nl2sql_result \<times> 'w"
where
  "eval_generate env pl MockGenerator query tables w = (mock_generate (sq_unicode pl) (now_iso env w) query tables, w)"
| "eval_generate env pl (LlmGenerator g) query tables w =
     (case llm_generate env g query tables w of ((r, _), w1) \<Rightarrow> (r, w1))"

definition upper_in :: "unicode \<Rightarrow> string \<Rightarrow> string \<Rightarrow> bool" where
  "upper_in u a b \<longleftrightarrow> str_in (u_upper u (py_chars a)) (u_upper u (py_chars b))"

definition given_text :: "string option \<Rightarrow> string" where
  "given_text s = (case s of None \<Rightarrow> [] | Some t \<Rightarrow> t)"

definition check_dangerous_case :: "unicode \<Rightarrow> nl_case \<Rightarrow> bool" where
  "check_dangerous_case u c =
     (let raw = given_text (nc_raw_sql c); g = sg_check u raw; kw = given_text (nc_blocked_keyword c)
      in if raw = [] then False
         else if gr_allowed g then False
         else if kw \<noteq> [] then upper_in u kw (gr_reason g)
         else True)"

definition selected_tables :: "nl2sql_result \<Rightarrow> string list" where
  "selected_tables r = map st_name (ps_tables (nl_pruned r))"

definition check_normal_case :: "unicode \<Rightarrow> nl_case \<Rightarrow> nl2sql_result \<Rightarrow> bool" where
  "check_normal_case u c r \<longleftrightarrow>
     gr_allowed (nl_guard r) \<and> list_all (\<lambda>t. t \<in> set (selected_tables r)) (nc_expected_tables c) \<and>
     list_all (\<lambda>kw. upper_in u kw (nl_sql r)) (nc_expected_contains c)"

definition dangerous_reason :: "unicode \<Rightarrow> nl_case \<Rightarrow> string" where
  "dangerous_reason u c =
     (let raw = given_text (nc_raw_sql c); g = sg_check u raw; kw = given_text (nc_blocked_keyword c)
      in if raw = [] then tx_no_raw_sql
         else if gr_allowed g then tx_not_blocked raw
         else if kw \<noteq> [] \<and> \<not> upper_in u kw (gr_reason g) then tx_wrong_keyword kw (gr_reason g)
         else tx_unknown_reason)"

definition normal_reason :: "'w env \<Rightarrow> unicode \<Rightarrow> nl_case \<Rightarrow> nl2sql_result \<Rightarrow> string" where
  "normal_reason env u c r =
     (let reasons = (if \<not> gr_allowed (nl_guard r) then [tx_sql_blocked (gr_reason (nl_guard r))]
        else map (\<lambda>t. tx_missing_table t (py_str env (jstrs (selected_tables r))))
               (filter (\<lambda>t. t \<notin> set (selected_tables r)) (nc_expected_tables c)) @
             map tx_missing_word (filter (\<lambda>kw. \<not> upper_in u kw (nl_sql r)) (nc_expected_contains c)))
      in if reasons = [] then tx_unknown_reason else str_join ''; '' reasons)"

text \<open>The reason of a failure: a query is generated again, over the schema of the default database.\<close>

definition failure_reason ::
  "'w env \<Rightarrow> 'w sql_pipeline \<Rightarrow> (string option \<Rightarrow> 'w \<Rightarrow> (string + schema_table list) \<times> 'w) \<Rightarrow> 'w eval_generator \<Rightarrow>
     nl_case \<Rightarrow> 'w \<Rightarrow> (string + string) \<times> 'w"
where
  "failure_reason env pl extract gen c w =
     (if nc_category c = ''dangerous_sql'' then (Inr (dangerous_reason (sq_unicode pl) c), w)
      else
        (case extract None w of
           (Inl e, w1) \<Rightarrow> (Inl e, w1)
         | (Inr tables, w1) \<Rightarrow>
             (case eval_generate env pl gen (nc_input c) tables w1 of
                (r, w2) \<Rightarrow> (Inr (normal_reason env (sq_unicode pl) c r), w2))))"

text \<open>One case: generated, checked and executed, or checked by the guard alone.\<close>

definition nl_check ::
  "'w env \<Rightarrow> 'w sql_pipeline \<Rightarrow> 'w eval_generator \<Rightarrow> string option \<Rightarrow> bool \<Rightarrow> schema_table list \<Rightarrow> nl_case \<Rightarrow>
     nl_stats \<Rightarrow> 'w \<Rightarrow> bool \<times> nl_stats \<times> 'w"
where
  "nl_check env pl gen perr execute tables c s w =
     (let u = sq_unicode pl in
      if nc_category c = ''dangerous_sql'' then (check_dangerous_case u c, s, w)
      else
        (case eval_generate env pl gen (nc_input c) tables w of
           (r, w1) \<Rightarrow>
             (let s1 = (if nl_fallback r then s\<lparr>ns_fallbacks := ns_fallbacks s + 1\<rparr> else s);
                  s2 = (if nl_generator r \<noteq> [] \<and> perr = None then s1\<lparr>ns_generator := nl_generator r\<rparr> else s1);
                  s3 = (if given_text (nl_provider r) \<noteq> [] \<and> perr = None then s2\<lparr>ns_provider := nl_provider r\<rparr> else s2)
              in if execute \<and> gr_allowed (nl_guard r) \<and> nl_sql r \<noteq> []
                 then (case sql_execute u env (sq_database pl) (nl_sql r) w1 of
                         (x, w2) \<Rightarrow>
                           (check_normal_case u c r,
                            if xr_success x then s3\<lparr>ns_exec_passed := ns_exec_passed s3 + 1\<rparr>
                            else s3\<lparr>ns_exec_failed := ns_exec_failed s3 + 1\<rparr>, w2))
                 else (check_normal_case u c r, s3, w1))))"

definition nl_step ::
  "'w env \<Rightarrow> 'w sql_pipeline \<Rightarrow> (string option \<Rightarrow> 'w \<Rightarrow> (string + schema_table list) \<times> 'w) \<Rightarrow> 'w eval_generator \<Rightarrow>
     string option \<Rightarrow> bool \<Rightarrow> schema_table list \<Rightarrow> nl_case \<Rightarrow> nl_stats \<times> 'w \<Rightarrow> (string + nl_stats) \<times> 'w"
where
  "nl_step env pl extract gen perr execute tables c st =
     (case nl_check env pl gen perr execute tables c (fst st) (snd st) of
        (True, s1, w1) \<Rightarrow> (Inr (s1\<lparr>ns_passed := ns_passed s1 + 1\<rparr>), w1)
      | (False, s1, w1) \<Rightarrow>
          (case failure_reason env pl extract gen c w1 of
             (Inl e, w2) \<Rightarrow> (Inl e, w2)
           | (Inr why, w2) \<Rightarrow>
               (Inr (s1\<lparr>ns_failures := ns_failures s1 @
                  [\<lparr>nf_case_id = nc_id c, nf_input = nc_input c, nf_reason = why\<rparr>]\<rparr>), w2)))"

fun nl_loop ::
  "(nl_case \<Rightarrow> nl_stats \<times> 'w \<Rightarrow> (string + nl_stats) \<times> 'w) \<Rightarrow> nl_case list \<Rightarrow> nl_stats \<times> 'w \<Rightarrow> (string + nl_stats) \<times> 'w"
where
  "nl_loop step [] st = (Inr (fst st), snd st)"
| "nl_loop step (c # cs) st = bind_out (step c st) (\<lambda>s w. nl_loop step cs (s, w))"

definition nl_start :: "string \<Rightarrow> string option \<Rightarrow> nat \<Rightarrow> nl_stats" where
  "nl_start generator provider fallbacks =
     \<lparr>ns_total = 0, ns_passed = 0, ns_failed = 0, ns_accuracy = 0, ns_failures = [], ns_generator = generator,
      ns_provider = provider, ns_fallbacks = fallbacks, ns_exec_passed = 0, ns_exec_failed = 0\<rparr>"

definition nl_eval_run ::
  "'w env \<Rightarrow> 'w sql_pipeline \<Rightarrow> (string option \<Rightarrow> 'w \<Rightarrow> (string + schema_table list) \<times> 'w) \<Rightarrow>
     string \<Rightarrow> string option \<Rightarrow> 'w eval_generator \<times> string option \<Rightarrow> bool \<Rightarrow> string option \<Rightarrow> nl_case list \<Rightarrow> 'w \<Rightarrow>
     (string + nl_stats) \<times> 'w"
where
  "nl_eval_run env pl extract generator provider made execute db cases w =
     (let (gen, perr) = made in
      case extract db w of
        (Inl e, w1) \<Rightarrow> (Inl e, w1)
      | (Inr tables, w1) \<Rightarrow>
          if cases = [] then (Inr (nl_start generator provider 0), w1)
          else
            bind_out
              (nl_loop (nl_step env pl extract gen perr execute tables) cases
                (if perr = None then nl_start generator provider 0
                 else nl_start ''mock_fallback'' provider
                        (length (filter (\<lambda>c. nc_category c \<noteq> ''dangerous_sql'') cases)), w1))
              (\<lambda>s w2. (Inr (s\<lparr>ns_total := length cases, ns_failed := length cases - ns_passed s,
                        ns_accuracy := share (ns_passed s) (length cases)\<rparr>), w2)))"

lemma round_half_even_within:
  assumes "of_int a \<le> q" and "q \<le> of_int b"
  shows "a \<le> round_half_even q \<and> round_half_even q \<le> b"
proof -
  note r = round_half_even_bounds [of q]
  have "(of_int (a - 1) :: rat) < of_int (round_half_even q)" using r assms(1) by simp
  moreover have "(of_int (round_half_even q) :: rat) < of_int (b + 1)" using r assms(2) by simp
  ultimately show ?thesis by (simp only: of_int_less_iff) simp
qed

lemma share_bounds: "k \<le> n \<Longrightarrow> 0 \<le> share k n \<and> share k n \<le> 1"
proof (cases "n = 0")
  case False
  assume "k \<le> n"
  define q where "q = (of_nat k / of_nat n * 10 ^ 4 :: rat)"
  have "of_int 0 \<le> q" "q \<le> of_int 10000" using \<open>k \<le> n\<close> False by (simp_all add: q_def field_simps)
  from round_half_even_within [OF this]
  have "0 \<le> (of_int (round_half_even q) :: rat)" "of_int (round_half_even q) \<le> (of_int 10000 :: rat)"
    by (simp_all only: of_int_le_iff of_int_0_le_iff)
  then show ?thesis using False by (simp add: share_def py_round_def q_def)
qed (simp add: share_def)

definition is_dangerous :: "nl_case \<Rightarrow> bool" where "is_dangerous c \<longleftrightarrow> nc_category c = ''dangerous_sql''"

definition executions :: "nl_stats \<Rightarrow> nat" where "executions s = ns_exec_passed s + ns_exec_failed s"

lemma nl_check_tally:
  assumes "nl_check env pl gen perr execute tables c s w = (ok, s1, w1)"
  shows "ns_passed s1 = ns_passed s \<and> ns_failures s1 = ns_failures s \<and>
    executions s1 \<le> executions s + of_bool (\<not> is_dangerous c) \<and>
    (is_dangerous c \<longrightarrow> ok = check_dangerous_case (sq_unicode pl) c \<and> s1 = s \<and> w1 = w)"
  using assms
  by (auto simp: nl_check_def Let_def is_dangerous_def executions_def split: prod.splits if_splits)

text \<open>What a step does to the tally.\<close>

lemma nl_step_tally:
  assumes "nl_step env pl extract gen perr execute tables c (s, w) = (Inr s', w')"
  shows "(\<exists>ok. (if ok then ns_passed s' = ns_passed s + 1 \<and> ns_failures s' = ns_failures s
        else ns_passed s' = ns_passed s \<and> map nf_case_id (ns_failures s') = map nf_case_id (ns_failures s) @ [nc_id c]) \<and>
      (is_dangerous c \<longrightarrow> ok = check_dangerous_case (sq_unicode pl) c)) \<and>
    executions s' \<le> executions s + of_bool (\<not> is_dangerous c)"
proof -
  obtain ok s1 w1 where c: "nl_check env pl gen perr execute tables c s w = (ok, s1, w1)" by (metis surj_pair)
  note t = nl_check_tally [OF c]
  show ?thesis
  proof (cases ok)
    case True
    then show ?thesis using assms t by (intro conjI exI [of _ True]) (auto simp: nl_step_def c executions_def)
  next
    case False
    then show ?thesis
      using assms t
      by (intro conjI exI [of _ False]) (auto simp: nl_step_def c executions_def split: prod.splits sum.splits)
  qed
qed

lemma nl_loop_tally:
  assumes "nl_loop (nl_step env pl extract gen perr execute tables) cs (s, w) = (Inr s', w')"
  shows "ns_passed s' + length (ns_failures s') = ns_passed s + length (ns_failures s) + length cs \<and>
    executions s' \<le> executions s + length (filter (\<lambda>c. \<not> is_dangerous c) cs) \<and>
    set (map nf_case_id (ns_failures s)) \<subseteq> set (map nf_case_id (ns_failures s')) \<and>
    (\<forall>c \<in> set cs. is_dangerous c \<and> \<not> check_dangerous_case (sq_unicode pl) c \<longrightarrow>
       nc_id c \<in> set (map nf_case_id (ns_failures s')))"
  using assms
proof (induction cs arbitrary: s w)
  case (Cons c cs)
  from Cons.prems obtain s1 w1 where st: "nl_step env pl extract gen perr execute tables c (s, w) = (Inr s1, w1)"
    and rest: "nl_loop (nl_step env pl extract gen perr execute tables) cs (s1, w1) = (Inr s', w')"
    by (auto elim!: bind_out_InrE)
  note t = nl_step_tally [OF st] and ih = Cons.IH [OF rest]
  have n: "length (ns_failures s1) = length (map nf_case_id (ns_failures s1))" by simp
  from t show ?case
  proof (elim conjE exE)
    fix ok
    assume ok: "if ok then ns_passed s1 = ns_passed s + 1 \<and> ns_failures s1 = ns_failures s
        else ns_passed s1 = ns_passed s \<and> map nf_case_id (ns_failures s1) = map nf_case_id (ns_failures s) @ [nc_id c]"
      "is_dangerous c \<longrightarrow> ok = check_dangerous_case (sq_unicode pl) c"
      "executions s1 \<le> executions s + of_bool (\<not> is_dangerous c)"
    show ?case
    proof (cases ok)
      case True
      then show ?thesis using ok ih by (auto split: if_splits)
    next
      case False
      then have "map nf_case_id (ns_failures s1) = map nf_case_id (ns_failures s) @ [nc_id c]" using ok by simp
      then have "length (ns_failures s1) = Suc (length (ns_failures s))"
        "set (map nf_case_id (ns_failures s1)) = insert (nc_id c) (set (map nf_case_id (ns_failures s)))"
        by (metis length_append_singleton length_map, simp)
      then show ?thesis using False ok ih by (auto split: if_splits)
    qed
  qed
qed simp

text \<open>
  The NL2SQL evaluation adds up. Every case is counted once: passed and failed cases are all the cases,
  there is one failure for each failed case, the accuracy is within [0, 1], at most the cases that are not
  dangerous are executed, and every dangerous case the guard lets through is among the failures.
\<close>

lemma nl2sql_evaluation_adds_up:
  assumes "nl_eval_run env pl extract generator provider made execute db cases w = (Inr s, w')"
  shows "ns_total s = length cases \<and> ns_passed s + ns_failed s = ns_total s \<and> length (ns_failures s) = ns_failed s \<and>
    0 \<le> ns_accuracy s \<and> ns_accuracy s \<le> 1 \<and> executions s \<le> length (filter (\<lambda>c. \<not> is_dangerous c) cases) \<and>
    (\<forall>c \<in> set cases. is_dangerous c \<and> \<not> check_dangerous_case (sq_unicode pl) c \<longrightarrow>
       nc_id c \<in> set (map nf_case_id (ns_failures s)))"
proof (cases "cases = []")
  case True
  then show ?thesis
    using assms by (auto simp: nl_eval_run_def nl_start_def executions_def split: prod.splits sum.splits)
next
  case False
  obtain s0 w1 s1 w2 gen perr tables where l:
      "nl_loop (nl_step env pl extract gen perr execute tables) cases (s0, w1) = (Inr s1, w2)"
    and s0: "ns_passed s0 = 0" "ns_failures s0 = []" "executions s0 = 0"
    and s: "s = s1\<lparr>ns_total := length cases, ns_failed := length cases - ns_passed s1,
        ns_accuracy := share (ns_passed s1) (length cases)\<rparr>"
    using assms False
    by (auto simp: nl_eval_run_def nl_start_def executions_def split: prod.splits sum.splits if_splits elim!: bind_out_InrE)
  from nl_loop_tally [OF l] s0 have "ns_passed s1 \<le> length cases" "length (ns_failures s1) = length cases - ns_passed s1"
    "executions s1 \<le> length (filter (\<lambda>c. \<not> is_dangerous c) cases)"
    "\<forall>c \<in> set cases. is_dangerous c \<and> \<not> check_dangerous_case (sq_unicode pl) c \<longrightarrow>
       nc_id c \<in> set (map nf_case_id (ns_failures s1))" by auto
  then show ?thesis using share_bounds [of "ns_passed s1" "length cases"] by (simp add: s executions_def)
qed

subsection \<open>Multi-agent cases\<close>

record ma_case =
  mc_case_id :: string
  mc_query :: string
  mc_expected_mode :: "string option"
  mc_expected_success :: bool
  mc_category :: string
  mc_trajectory :: "trajectory_expectation option"

record ma_failure =
  mf_case_id :: string
  mf_query :: string
  mf_expected_mode :: "string option"
  mf_actual_mode :: string
  mf_expected_success :: bool
  mf_actual_success :: bool
  mf_reason :: string
  mf_stage :: "string option"
  mf_trace_task_id :: string
  mf_trajectory_issues :: "string list"

record bad_case =
  bc_suite :: string
  bc_case_id :: string
  bc_query :: string
  bc_expected :: string
  bc_actual :: string
  bc_reason :: string
  bc_trace_task_id :: string
  bc_created_at :: string

record ma_eval =
  me_total :: nat
  me_passed :: nat
  me_accuracy :: rat
  me_failures :: "ma_failure list"
  me_mode_confusions :: nat
  me_bad_cases :: "bad_case list"
  me_trajectory_passed :: nat
  me_trajectory_failed :: nat
  me_trajectory_accuracy :: rat

definition ma_eval_start :: ma_eval where
  "ma_eval_start = \<lparr>me_total = 0, me_passed = 0, me_accuracy = 0, me_failures = [], me_mode_confusions = 0,
     me_bad_cases = [], me_trajectory_passed = 0, me_trajectory_failed = 0, me_trajectory_accuracy = 0\<rparr>"

definition format_expected :: "ma_case \<Rightarrow> string" where
  "format_expected c =
     str_join '', '' ((case mc_expected_mode c of None \<Rightarrow> [] | Some m \<Rightarrow> [''mode='' @ m]) @
       [''success='' @ py_bool (mc_expected_success c)])"

text \<open>The trajectory of a run: whether one was wanted, whether it passed, its issues and the stage they name.\<close>

definition check_trajectory ::
  "(json list \<Rightarrow> string) \<Rightarrow> 'w env \<Rightarrow> bool \<Rightarrow> string \<Rightarrow> ma_case \<Rightarrow> 'w sys \<Rightarrow>
     string + bool option \<times> string list \<times> string option"
where
  "check_trajectory set_text env recorder tid c s =
     (case mc_trajectory c of
        None \<Rightarrow> Inr (None, [], None)
      | Some ex \<Rightarrow>
          if recorder
          then
            (case trajectory_evaluate set_text env ex
                    (map (\<lambda>e. (ev_event_type e, ev_detail e)) (trace_get (Some tid) None (sy_trace s))) of
               Inl e \<Rightarrow> Inl e
             | Inr r \<Rightarrow>
                 Inr (if tz_passed r then (Some True, [], None)
                      else (Some False, tz_issues r, if tz_issues r = [] then None else Some ''trajectory'')))
          else Inr (Some False, [''trace_recorder missing''], Some ''trajectory''))"

definition or_stage :: "string option \<Rightarrow> string \<Rightarrow> string option" where
  "or_stage stage dflt = (case stage of None \<Rightarrow> Some dflt | Some t \<Rightarrow> Some t)"

definition mode_is :: "ma_case \<Rightarrow> string \<Rightarrow> bool" where
  "mode_is c actual \<longleftrightarrow> (case mc_expected_mode c of None \<Rightarrow> True | Some m \<Rightarrow> actual = m)"

definition ma_judge ::
  "ma_case \<Rightarrow> string \<Rightarrow> string \<Rightarrow> string \<Rightarrow> bool \<Rightarrow> bool option \<times> string list \<times> string option \<Rightarrow> ma_eval \<Rightarrow> ma_eval"
where
  "ma_judge c tid now mode success traj acc =
     (let (verdict, issues, stage) = traj; mode_ok = mode_is c mode; success_ok = (success = mc_expected_success c);
          a1 = (if mode_ok then acc else acc\<lparr>me_mode_confusions := me_mode_confusions acc + 1\<rparr>);
          a2 = (case verdict of None \<Rightarrow> a1
            | Some True \<Rightarrow> a1\<lparr>me_trajectory_passed := me_trajectory_passed a1 + 1\<rparr>
            | Some False \<Rightarrow> a1\<lparr>me_trajectory_failed := me_trajectory_failed a1 + 1\<rparr>)
      in if mode_ok \<and> success_ok \<and> issues = [] then a2\<lparr>me_passed := me_passed a2 + 1\<rparr>
         else
           (let st1 = (if mode_ok then stage else or_stage stage ''mode'');
                st2 = (if success_ok then st1 else or_stage st1 ''outcome'');
                reasons =
                  (if mode_ok then [] else [tx_eval_mode (given_text (mc_expected_mode c)) mode]) @
                  (if success_ok then [] else [tx_eval_success (py_bool (mc_expected_success c)) (py_bool success)]) @
                  (if issues = [] then [] else [''trajectory: '' @ str_join ''; '' issues]);
                why = str_join ''; '' reasons
            in a2\<lparr>me_failures := me_failures a2 @
                   [\<lparr>mf_case_id = mc_case_id c, mf_query = mc_query c, mf_expected_mode = mc_expected_mode c,
                     mf_actual_mode = mode, mf_expected_success = mc_expected_success c, mf_actual_success = success,
                     mf_reason = why, mf_stage = st2, mf_trace_task_id = tid, mf_trajectory_issues = issues\<rparr>],
                 me_bad_cases := me_bad_cases a2 @
                   [\<lparr>bc_suite = ''multi_agent'', bc_case_id = mc_case_id c, bc_query = mc_query c,
                     bc_expected = format_expected c, bc_actual = ''mode='' @ mode @ '', success='' @ py_bool success,
                     bc_reason = why, bc_trace_task_id = tid, bc_created_at = now\<rparr>]\<rparr>))"

definition ma_eval_step ::
  "(json list \<Rightarrow> string) \<Rightarrow> 'w env \<Rightarrow> 'w orchestrator \<Rightarrow> bool \<Rightarrow> nl2sql_opts \<Rightarrow> ma_case \<Rightarrow> ma_eval \<Rightarrow> 'w sys \<Rightarrow>
     (string + ma_eval) \<times> 'w sys"
where
  "ma_eval_step set_text env orc recorder opts c acc s =
     (let tid = ''eval_'' @ mc_case_id c;
          s1 = (if recorder then s\<lparr>sy_trace := trace_clear (sy_trace s)\<rparr> else s)
      in bind_out (multi_agent_run env orc (mc_query c) (Some tid) opts s1) (\<lambda>r s2.
           (case check_trajectory set_text env recorder tid c s2 of
              Inl e \<Rightarrow> (Inl e, s2)
            | Inr traj \<Rightarrow> (Inr (ma_judge c tid (sys_now env s2) (ma_executed_mode r) (ma_success r) traj acc), s2))))"

fun ma_eval_loop ::
  "(ma_case \<Rightarrow> ma_eval \<Rightarrow> 'w sys \<Rightarrow> (string + ma_eval) \<times> 'w sys) \<Rightarrow> ma_case list \<Rightarrow> ma_eval \<Rightarrow> 'w sys \<Rightarrow> (string + ma_eval) \<times> 'w sys"
where
  "ma_eval_loop step [] acc s = (Inr acc, s)"
| "ma_eval_loop step (c # cs) acc s = bind_out (step c acc s) (ma_eval_loop step cs)"

definition ma_eval_run ::
  "(json list \<Rightarrow> string) \<Rightarrow> 'w env \<Rightarrow> 'w orchestrator \<Rightarrow> bool \<Rightarrow> nl2sql_opts \<Rightarrow> ma_case list \<Rightarrow> 'w sys \<Rightarrow>
     (string + ma_eval) \<times> 'w sys"
where
  "ma_eval_run set_text env orc recorder opts cases s =
     bind_out (ma_eval_loop (ma_eval_step set_text env orc recorder opts) cases ma_eval_start s) (\<lambda>a s1.
       (Inr (a\<lparr>me_total := length cases, me_accuracy := share (me_passed a) (length cases),
             me_trajectory_accuracy := share (me_trajectory_passed a) (me_trajectory_passed a + me_trajectory_failed a)\<rparr>), s1))"

text \<open>
  What a judged case adds: it passes or leaves one failure and one bad case under its name, and its trajectory
  is counted when it states one.
\<close>

definition tally_ok :: "ma_eval \<Rightarrow> ma_case list \<Rightarrow> bool" where
  "tally_ok a cs \<longleftrightarrow>
     me_passed a + length (me_failures a) = length cs \<and>
     map mf_case_id (me_failures a) = map bc_case_id (me_bad_cases a) \<and>
     map mf_reason (me_failures a) = map bc_reason (me_bad_cases a) \<and>
     me_trajectory_passed a + me_trajectory_failed a = length (filter (\<lambda>c. mc_trajectory c \<noteq> None) cs) \<and>
     me_mode_confusions a \<le> length (me_failures a) \<and>
     list_all (\<lambda>f. mf_actual_success f \<noteq> mf_expected_success f \<or> mf_trajectory_issues f \<noteq> [] \<or>
       (case mf_expected_mode f of None \<Rightarrow> False | Some m \<Rightarrow> mf_actual_mode f \<noteq> m)) (me_failures a)"

lemma check_trajectory_verdict:
  "check_trajectory set_text env recorder tid c s = Inr (v, issues, st) \<Longrightarrow> (v = None) = (mc_trajectory c = None)"
  by (auto simp: check_trajectory_def split: option.splits sum.splits if_splits)

lemma ma_judge_tally:
  assumes "tally_ok a cs" and "(fst traj = None) = (mc_trajectory c = None)"
  shows "tally_ok (ma_judge c tid now mode success traj a) (cs @ [c])"
proof -
  obtain v issues st where t: "traj = (v, issues, st)" by (metis surj_pair)
  show ?thesis
    using assms
    by (cases v rule: option.exhaust; cases "the v")
       (auto simp: t ma_judge_def tally_ok_def Let_def mode_is_def split: option.splits)
qed

lemma ma_eval_loop_tally:
  "ma_eval_loop (ma_eval_step set_text env orc recorder opts) cs a s = (Inr a', s') \<Longrightarrow> tally_ok a ds \<Longrightarrow>
     tally_ok a' (ds @ cs)"
proof (induction cs arbitrary: a s ds)
  case (Cons c cs)
  then obtain a1 s1 where st: "ma_eval_step set_text env orc recorder opts c a s = (Inr a1, s1)"
    and rest: "ma_eval_loop (ma_eval_step set_text env orc recorder opts) cs a1 s1 = (Inr a', s')"
    by (auto elim!: bind_out_InrE)
  obtain traj tid mode success now where j: "a1 = ma_judge c tid now mode success traj a"
    and v: "(fst traj = None) = (mc_trajectory c = None)"
    using st by (auto simp: ma_eval_step_def Let_def elim!: bind_out_InrE split: sum.splits dest!: check_trajectory_verdict)
  have "tally_ok a1 (ds @ [c])" unfolding j by (rule ma_judge_tally [OF Cons.prems(2) v])
  from Cons.IH [OF rest this] show ?case by simp
qed simp

text \<open>
  The multi-agent evaluation adds up. When it returns, each case has passed or has one failure, which a bad
  case repeats under the same name with the same reason; each failure states a wrong outcome, a wrong mode or
  issues of its trajectory; the trajectories counted are those that were stated; both accuracies are within [0, 1].
\<close>

lemma multi_agent_evaluation_adds_up:
  assumes "ma_eval_run set_text env orc recorder opts cases s = (Inr a, s')"
  shows "tally_ok a cases \<and> me_total a = length cases \<and> 0 \<le> me_accuracy a \<and> me_accuracy a \<le> 1 \<and>
    0 \<le> me_trajectory_accuracy a \<and> me_trajectory_accuracy a \<le> 1"
proof -
  obtain a1 s1 where l: "ma_eval_loop (ma_eval_step set_text env orc recorder opts) cases ma_eval_start s = (Inr a1, s1)"
    and a: "a = a1\<lparr>me_total := length cases, me_accuracy := share (me_passed a1) (length cases),
        me_trajectory_accuracy := share (me_trajectory_passed a1) (me_trajectory_passed a1 + me_trajectory_failed a1)\<rparr>"
    using assms by (auto simp: ma_eval_run_def elim!: bind_out_InrE)
  have t: "tally_ok a1 cases" using ma_eval_loop_tally [OF l, of "[]"] by (simp add: tally_ok_def ma_eval_start_def)
  then have "me_passed a1 \<le> length cases" by (simp add: tally_ok_def)
  with t share_bounds [of "me_passed a1"] share_bounds [of "me_trajectory_passed a1"] show ?thesis
    by (simp add: a tally_ok_def)
qed

end
