(* ===== verification/Bad_Cases.thy ===== *)
theory Bad_Cases
  imports Eval_Runners
begin

text \<open>
  \<open>BadCaseRunner\<close> (\<open>app/harness/eval/bad_case_runner.py\<close>): cases that must be refused, and those that must not, run
  against the guards, the pipelines, the approvals and the runtime of the application itself. The parts it
  gets from the application are its fields; \<open>br_class\<close> is the class of an exception, given its text.
\<close>

record bad_spec =
  bs_case_id :: string
  bs_suite :: string
  bs_query :: string
  bs_mode :: string
  bs_expected_outcome :: string
  bs_expected_error :: string
  bs_tags :: "string list"
  bs_risk_level :: string

record bad_result =
  bz_case_id :: string
  bz_suite :: string
  bz_query :: string
  bz_expected_outcome :: string
  bz_actual_outcome :: string
  bz_expected_error :: string
  bz_actual_error :: string
  bz_passed :: bool
  bz_reason :: string
  bz_trace_task_id :: string
  bz_tags :: "string list"
  bz_judge_score :: "pyfloat option"
  bz_judge_provider :: "string option"
  bz_judge_fallback_used :: bool
  bz_judge_fallback_reason :: string
  bz_judge_prompt_tokens :: int
  bz_judge_completion_tokens :: int
  bz_judge_cost :: rat
  bz_judge_confidence :: "pyfloat option"
  bz_judge_metadata :: "jdict option"

record ('w, 'j) bad_runner =
  br_env :: "'w env"
  br_sql :: "'w sql_pipeline"
  br_pipeline :: "'w pipeline"
  br_resumer :: "'w resumer option"
  br_orchestrator :: "'w orchestrator option"
  br_judge :: "(judge_input \<Rightarrow> 'j \<times> 'w \<Rightarrow> (string + judge_result) \<times> 'j \<times> 'w) option"
  br_metrics :: bool
  br_class :: "string \<Rightarrow> string"

type_synonym outcome = "string \<times> string"

subsection \<open>The suites\<close>

definition run_security :: "unicode \<Rightarrow> bad_spec \<Rightarrow> outcome" where
  "run_security u c =
     (let act = if_action (check_text u (bs_query c))
      in if act = ''block'' then (''blocked'', ''prompt_injection_blocked'')
         else if act = ''warn'' then (''warned'', ''prompt_injection_warned'')
         else (''allowed'', []))"

definition run_nl2sql_case :: "('w, 'j) bad_runner \<Rightarrow> bad_spec \<Rightarrow> 'w sys \<Rightarrow> (string + outcome) \<times> 'w sys" where
  "run_nl2sql_case br c s =
     (let u = sq_unicode (br_sql br) in
      if bs_query c = [] \<or> u_strip_text u (bs_query c) = [] then (Inr (''failed'', ''empty_query''), s)
      else if \<not> gr_allowed (sg_check u (bs_query c)) then (Inr (''blocked'', ''sql_guard_blocked''), s)
      else
        (case sql_preview (br_env br) (br_sql br) (bs_query c)
                \<lparr>no_generator = ''mock'', no_provider = None, no_fallback_to_mock = True\<rparr> s of
           (Inl e, s1) \<Rightarrow> (Inl e, s1)
         | (Inr (out, v), s1) \<Rightarrow>
             (let d = preview_dict out v
              in (Inr (if \<not> truthy (dget d ''guard_allowed'') then (''blocked'', or_str (dget d ''guard_reason''))
                       else if truthy (dget d ''fallback_used'') \<and> str_in ''dangerous'' (u_lower_text u (bs_query c))
                       then (''blocked'', ''sql_guard_blocked'')
                       else if truthy (dget d ''success'') then (''success'', [])
                       else (''unmatched'', [])), s1))))"

definition run_multitool_case :: "('w, 'j) bad_runner \<Rightarrow> bad_spec \<Rightarrow> 'w sys \<Rightarrow> (string + outcome) \<times> 'w sys" where
  "run_multitool_case br c s =
     bind_out (multitool_run (br_env br) (br_pipeline br) (bs_query c) (Some (''badcase_'' @ bs_case_id c)) s) (\<lambda>d s1.
       (let answer = or_str (dget_or d ''answer'' (JStr []));
            err = (if str_in tx_unregistered answer \<or> str_in ''whitelist'' (u_lower_text (sq_unicode (br_sql br)) answer)
                   then ''operation_whitelist_blocked''
                   else if str_in tx_unmatched answer \<or> str_in tx_unrecognised answer then ''unmatched''
                   else [])
        in (Inr (if truthy (dget d ''requires_approval'') then (''waiting_approval'', [])
                 else if \<not> truthy (dget d ''success'') then (if err = [] then ''failed'' else ''blocked'', err)
                 else (''success'', [])), s1)))"

definition simulated :: "bad_spec \<Rightarrow> outcome" where
  "simulated c =
     (if bs_expected_outcome c = ''retry_allowed'' then (''retry_allowed'', ''simulated'')
      else if bs_expected_outcome c = ''new_approval'' then (''new_approval'', ''simulated'')
      else (''unknown'', ''simulated''))"

text \<open>A request for \<open>get_today_gmv\<close>, and its decision.\<close>

definition case_approval :: "'w env \<Rightarrow> bad_spec \<Rightarrow> string \<Rightarrow> 'w sys \<Rightarrow> (string + approval_row) \<times> 'w sys" where
  "case_approval env c action s =
     create_approval env (''badcase_'' @ bs_case_id c) ''get_today_gmv'' action RHigh [] []
       (Some [(''mode'', JStr ''keyword''), (''tool_name'', JStr ''get_today_gmv''), (''arguments'', JObj [])]) s"

definition case_decide :: "'w env \<Rightarrow> string \<Rightarrow> bool \<Rightarrow> string \<Rightarrow> 'w sys \<Rightarrow> 'w sys" where
  "case_decide env aid ok why s =
     s\<lparr>sy_approvals := snd (ap_decide aid ok ''admin'' why (sys_now env s) (sy_approvals s))\<rparr>"

definition resume_case ::
  "'w env \<Rightarrow> 'w resumer \<Rightarrow> string \<Rightarrow> (jdict \<Rightarrow> outcome) \<Rightarrow> 'w sys \<Rightarrow> (string + outcome) \<times> 'w sys"
where
  "resume_case env rs aid read s = bind_out (resume env rs aid s) (\<lambda>d s1. (Inr (read d), s1))"

definition unless_resumed :: "string \<Rightarrow> jdict \<Rightarrow> outcome" where
  "unless_resumed err d =
     (if \<not> truthy (dget_or d ''resumed'' (JBool False)) then (''blocked'', err) else (''unexpected_success'', []))"

definition run_approval_case :: "('w, 'j) bad_runner \<Rightarrow> bad_spec \<Rightarrow> 'w sys \<Rightarrow> (string + outcome) \<times> 'w sys" where
  "run_approval_case br c s =
     (let env = br_env br; want = bs_expected_error c in
      case br_resumer br of
        None \<Rightarrow> (Inr (simulated c), s)
      | Some rs \<Rightarrow>
          if str_in ''not_approved'' want then
            bind_out (case_approval env c ''badcase test pending'' s) (\<lambda>row s1.
              resume_case env rs (ar_id row) (unless_resumed ''approval_not_approved'') s1)
          else if str_in ''rejected'' want then
            bind_out (case_approval env c ''badcase test rejected'' s) (\<lambda>row s1.
              resume_case env rs (ar_id row) (unless_resumed ''approval_rejected'')
                (case_decide env (ar_id row) False ''rejected for test'' s1))
          else if str_in ''payload_tampered'' want then
            bind_out (case_approval env c ''badcase test tampered'' s) (\<lambda>row s1.
              resume_case env rs (ar_id row)
                (\<lambda>d. if dget d ''error_type'' = JStr ''approval_payload_tampered''
                     then (''blocked'', ''approval_payload_tampered'')
                     else unless_resumed (or_str (dget_or d ''error_type'' (JStr ''unknown''))) d)
                (update_payload (ar_id row) [(''tool_name'', JStr ''dangerous_tool_tampered'')]
                  (case_decide env (ar_id row) True ''approved for test'' s1)))
          else (Inr (simulated c), s))"

text \<open>Every exception of the orchestrator, and its absence, is the same outcome.\<close>

definition run_multi_agent_case :: "('w, 'j) bad_runner \<Rightarrow> bad_spec \<Rightarrow> 'w sys \<Rightarrow> outcome \<times> 'w sys" where
  "run_multi_agent_case br c s =
     (case br_orchestrator br of
        None \<Rightarrow> ((''error'', ''orchestrator_unavailable''), s)
      | Some orc \<Rightarrow>
          (case multi_agent_run (br_env br) orc (bs_query c) (Some (''badcase_'' @ bs_case_id c))
                  \<lparr>no_generator = ''mock'', no_provider = None, no_fallback_to_mock = True\<rparr> s of
             (Inl _, s1) \<Rightarrow> ((''error'', ''orchestrator_unavailable''), s1)
           | (Inr r, s1) \<Rightarrow> (if ma_success r then (''success'', []) else (''unmatched'', []), s1)))"

definition any_event :: "string \<Rightarrow> audit_query" where
  "any_event etype = \<lparr>aq_event_type = Some etype, aq_actor = None, aq_task_id = None, aq_approval_id = None,
     aq_outcome = None, aq_severity = None, aq_start_time = None, aq_end_time = None\<rparr>"

text \<open>Both answers of the first case are \<open>empty\<close>, whatever the store holds.\<close>

definition run_runtime_case :: "bad_spec \<Rightarrow> 'w sys \<Rightarrow> outcome" where
  "run_runtime_case c s =
     (if bs_case_id c = ''runtime_001''
      then (if length (audit_query_events (\<lambda>_. True) (any_event ''__nonexistent__'') 100 (sy_audit s)) = 0
            then (''empty'', []) else (''empty'', []))
      else if bs_case_id c = ''runtime_002''
      then (let d = metrics_summary metrics_init
            in if dget d ''task_count'' = JInt 0 \<and> dget d ''tool_call_count'' = JInt 0 then (''zero'', []) else (''non_zero'', []))
      else (''unknown'', []))"

definition dispatch_case :: "('w, 'j) bad_runner \<Rightarrow> bad_spec \<Rightarrow> 'w sys \<Rightarrow> (string + outcome) \<times> 'w sys" where
  "dispatch_case br c s =
     (if bs_suite c = ''security'' then (Inr (run_security (sq_unicode (br_sql br)) c), s)
      else if bs_suite c = ''nl2sql'' then run_nl2sql_case br c s
      else if bs_suite c = ''multitool'' then run_multitool_case br c s
      else if bs_suite c = ''approval'' then run_approval_case br c s
      else if bs_suite c = ''multi_agent'' then (case run_multi_agent_case br c s of (x, s1) \<Rightarrow> (Inr x, s1))
      else if bs_suite c = ''runtime'' then (Inr (run_runtime_case c s), s)
      else (Inr (''unknown_suite'', []), s))"

subsection \<open>One case\<close>

definition check_passed :: "bad_spec \<Rightarrow> string \<Rightarrow> string \<Rightarrow> bool" where
  "check_passed c actual err \<longleftrightarrow>
     (bs_expected_outcome c = actual \<or> (bs_expected_outcome c = ''blocked'' \<and> actual \<in> {''blocked'', ''failed''})) \<and>
     (bs_expected_error c = [] \<or> err = bs_expected_error c \<or> str_in (bs_expected_error c) err)"

definition bare_result :: "bad_spec \<Rightarrow> outcome \<Rightarrow> string \<Rightarrow> bad_result" where
  "bare_result c x tid =
     (let ok = check_passed c (fst x) (snd x);
          why = (if ok then []
                 else ''expected_outcome='' @ bs_expected_outcome c @ '' actual_outcome='' @ fst x @
                   (if bs_expected_error c = [] then []
                    else '' expected_error_type='' @ bs_expected_error c @ '' actual_error_type='' @ snd x))
      in \<lparr>bz_case_id = bs_case_id c, bz_suite = bs_suite c, bz_query = bs_query c,
          bz_expected_outcome = bs_expected_outcome c, bz_actual_outcome = fst x,
          bz_expected_error = bs_expected_error c, bz_actual_error = snd x, bz_passed = ok, bz_reason = why,
          bz_trace_task_id = tid, bz_tags = bs_tags c, bz_judge_score = None, bz_judge_provider = None,
          bz_judge_fallback_used = False, bz_judge_fallback_reason = [], bz_judge_prompt_tokens = 0,
          bz_judge_completion_tokens = 0, bz_judge_cost = 0, bz_judge_confidence = None, bz_judge_metadata = None\<rparr>)"

definition judged_result :: "judge_result \<Rightarrow> bad_result \<Rightarrow> bad_result" where
  "judged_result j r =
     r\<lparr>bz_judge_score := Some (jr_score j), bz_judge_provider := Some (jr_provider j),
       bz_judge_fallback_used := jr_fallback_used j, bz_judge_fallback_reason := jr_fallback_reason j,
       bz_judge_prompt_tokens := jr_prompt_tokens j, bz_judge_completion_tokens := jr_completion_tokens j,
       bz_judge_cost := jr_cost j, bz_judge_confidence := Some (jr_confidence j), bz_judge_metadata := jr_metadata j\<rparr>"

definition judge_case ::
  "('w, 'j) bad_runner \<Rightarrow> bool \<Rightarrow> bad_spec \<Rightarrow> bad_result \<Rightarrow> 'j \<times> 'w sys \<Rightarrow> bad_result \<times> 'j \<times> 'w sys"
where
  "judge_case br use_judge c r st =
     (case br_judge br of
        Some ask \<Rightarrow>
          if use_judge
          then
            (case ask \<lparr>ji_case_id = bs_case_id c, ji_query = bs_query c, ji_expected = bs_expected_outcome c,
                    ji_actual = bz_actual_outcome r, ji_rubric = ''expected_error_type='' @ bs_expected_error c\<rparr>
                    (fst st, sy_world (snd st)) of
               (Inr j, js, w) \<Rightarrow> (judged_result j r, js, (snd st)\<lparr>sy_world := w\<rparr>)
             | (Inl _, js, w) \<Rightarrow>
                 (r\<lparr>bz_judge_score := Some (Fin 0), bz_judge_provider := Some ''judge_error'',
                    bz_judge_fallback_reason := ''judge_exception''\<rparr>, js, (snd st)\<lparr>sy_world := w\<rparr>))
          else (r, st)
      | None \<Rightarrow> (r, st))"

definition count_case :: "('w, 'j) bad_runner \<Rightarrow> bool \<Rightarrow> bad_result \<Rightarrow> 'w sys \<Rightarrow> 'w sys" where
  "count_case br use_judge r s =
     (if br_metrics br
      then
        (let tid = ''badcase_'' @ bz_case_id r;
             s1 = on_metrics (metrics_record_task tid (''badcase:'' @ bz_suite r)
                    (if bz_passed r then ''completed'' else ''failed'') None) s
         in if use_judge
            then on_metrics (metrics_record_token_usage tid (bz_judge_prompt_tokens r) (bz_judge_completion_tokens r)
                   (bz_judge_cost r)) s1
            else s1)
      else s)"

definition run_bad_case ::
  "('w, 'j) bad_runner \<Rightarrow> bool \<Rightarrow> bad_spec \<Rightarrow> 'j \<times> 'w sys \<Rightarrow> bad_result \<times> 'j \<times> 'w sys"
where
  "run_bad_case br use_judge c st =
     (let (h, s1) = sys_fresh (br_env br) (snd st);
          (out, s2) = dispatch_case br c s1;
          x = (case out of Inr x \<Rightarrow> x | Inl e \<Rightarrow> (''error'', br_class br e));
          (r, js, s3) = judge_case br use_judge c (bare_result c x (''badcase_'' @ bs_case_id c @ ''_'' @ take 6 h)) (fst st, s2)
      in (r, js, count_case br use_judge r s3))"

subsection \<open>A run\<close>

record bad_summary =
  bu_total :: nat
  bu_passed :: nat
  bu_failed :: nat
  bu_accuracy :: rat
  bu_judge_average :: "pyfloat option"
  bu_results :: "bad_result list"
  bu_failures :: "bad_result list"

text \<open>\<open>sum(scores) / len(scores)\<close> and its rounding, on floats that may be no numbers.\<close>

fun add_float :: "pyfloat \<Rightarrow> pyfloat \<Rightarrow> pyfloat" where
  "add_float (Fin a) (Fin b) = Fin (a + b)"
| "add_float NaN y = NaN"
| "add_float x NaN = NaN"
| "add_float (Inf a) (Inf b) = (if a = b then Inf a else NaN)"
| "add_float (Inf a) (Fin b) = Inf a"
| "add_float (Fin a) (Inf b) = Inf b"

definition average_float :: "pyfloat list \<Rightarrow> pyfloat" where
  "average_float xs =
     (if xs = [] then Fin 0
      else case fold (\<lambda>x a. add_float a x) xs (Fin 0) of
             Fin q \<Rightarrow> Fin (py_round 4 (q / of_nat (length xs))) | y \<Rightarrow> y)"

definition select_cases :: "string option \<Rightarrow> int option \<Rightarrow> bad_spec list \<Rightarrow> bad_spec list" where
  "select_cases suite limit cases =
     (let cs = (case suite of None \<Rightarrow> cases | Some x \<Rightarrow> filter (\<lambda>c. bs_suite c = x) cases)
      in case limit of Some n \<Rightarrow> if 0 < n then take (nat n) cs else cs | None \<Rightarrow> cs)"

fun run_cases ::
  "(bad_spec \<Rightarrow> 'st \<Rightarrow> bad_result \<times> 'st) \<Rightarrow> bad_spec list \<Rightarrow> 'st \<Rightarrow> bad_result list \<times> 'st"
where
  "run_cases step [] st = ([], st)"
| "run_cases step (c # cs) st =
     (let (r, st1) = step c st; (rs, st2) = run_cases step cs st1 in (r # rs, st2))"

definition summarize_cases :: "bool \<Rightarrow> bad_result list \<Rightarrow> bad_summary" where
  "summarize_cases use_judge rs =
     (let n = length (filter bz_passed rs)
      in \<lparr>bu_total = length rs, bu_passed = n, bu_failed = length rs - n, bu_accuracy = share n (length rs),
          bu_judge_average = (if use_judge \<and> rs \<noteq> [] then Some (average_float (List.map_filter bz_judge_score rs)) else None),
          bu_results = rs, bu_failures = filter (\<lambda>r. \<not> bz_passed r) rs\<rparr>)"

definition run_bad_cases ::
  "('w, 'j) bad_runner \<Rightarrow> bool \<Rightarrow> int option \<Rightarrow> string option \<Rightarrow> bad_spec list \<Rightarrow> 'j \<times> 'w sys \<Rightarrow>
     bad_summary \<times> 'j \<times> 'w sys"
where
  "run_bad_cases br use_judge limit suite cases st =
     (let (rs, st1) = run_cases (run_bad_case br use_judge) (select_cases suite limit cases) st
      in (summarize_cases use_judge rs, st1))"

subsection \<open>Facts\<close>

lemma run_cases_results:
  "fst (run_cases step cs st) =
     map (\<lambda>i. fst (step (cs ! i) (snd (run_cases step (take i cs) st)))) [0..<length cs]"
proof (induction cs arbitrary: st)
  case (Cons c cs)
  have "[0..<length (c # cs)] = 0 # map Suc [0..<length cs]" by (simp add: upt_conv_Cons map_Suc_upt del: upt_Suc)
  then show ?case using Cons [of "snd (step c st)"] by (simp add: split_beta Let_def o_def del: upt_Suc)
qed simp

lemma run_cases_length: "length (fst (run_cases step cs st)) = length cs"
  by (simp add: run_cases_results)

lemma judged_verdict:
  "bz_case_id (fst (judge_case br j c r st)) = bz_case_id r" "bz_passed (fst (judge_case br j c r st)) = bz_passed r"
  "bz_actual_outcome (fst (judge_case br j c r st)) = bz_actual_outcome r"
  "bz_actual_error (fst (judge_case br j c r st)) = bz_actual_error r"
  "bz_reason (fst (judge_case br j c r st)) = bz_reason r"
  by (simp_all add: judge_case_def judged_result_def split: option.split prod.split sum.split)

lemma run_bad_case_verdict:
  "bz_case_id (fst (run_bad_case br j c st)) = bs_case_id c"
  "bz_passed (fst (run_bad_case br j c st)) \<longleftrightarrow> bz_reason (fst (run_bad_case br j c st)) = []"
  "check_passed c (bz_actual_outcome (fst (run_bad_case br j c st))) (bz_actual_error (fst (run_bad_case br j c st))) \<longleftrightarrow>
     bz_reason (fst (run_bad_case br j c st)) = []"
  by (simp_all add: run_bad_case_def split_beta Let_def judged_verdict bare_result_def)

text \<open>
  A run of bad cases adds up. Each selected case has one result, in order, whatever its suite raises; a result
  passes exactly when its outcome and error are the expected ones, and then has no reason; the failures are the
  results that did not pass, and the accuracy is within [0, 1].
\<close>

lemma bad_cases_add_up:
  assumes "run_bad_cases br use_judge limit suite cases st = (b, st')"
  shows "map bz_case_id (bu_results b) = map bs_case_id (select_cases suite limit cases) \<and>
    list_all2 (\<lambda>c r. bz_passed r = check_passed c (bz_actual_outcome r) (bz_actual_error r) \<and> (bz_passed r \<longleftrightarrow> bz_reason r = []))
      (select_cases suite limit cases) (bu_results b) \<and>
    bu_failures b = filter (\<lambda>r. \<not> bz_passed r) (bu_results b) \<and> bu_total b = length (select_cases suite limit cases) \<and>
    bu_passed b + bu_failed b = bu_total b \<and> length (bu_failures b) = bu_failed b \<and> 0 \<le> bu_accuracy b \<and> bu_accuracy b \<le> 1"
proof -
  let ?cs = "select_cases suite limit cases"
  let ?rs = "fst (run_cases (run_bad_case br use_judge) ?cs st)"
  have b: "b = summarize_cases use_judge ?rs" using assms by (auto simp: run_bad_cases_def split: prod.splits)
  have "length (filter bz_passed ?rs) \<le> length ?rs" by (rule length_filter_le)
  moreover have "length (filter (\<lambda>r. \<not> bz_passed r) ?rs) = length ?rs - length (filter bz_passed ?rs)"
    using sum_length_filter_compl [of bz_passed ?rs] by simp
  moreover have "map bz_case_id ?rs = map bs_case_id ?cs"
    by (rule nth_equalityI) (simp_all add: run_cases_results run_bad_case_verdict)
  moreover have "list_all2 (\<lambda>c r. bz_passed r = check_passed c (bz_actual_outcome r) (bz_actual_error r) \<and>
      (bz_passed r \<longleftrightarrow> bz_reason r = [])) ?cs ?rs"
    by (simp add: list_all2_conv_all_nth run_cases_results run_bad_case_verdict)
  ultimately show ?thesis
    using share_bounds [of "length (filter bz_passed ?rs)" "length ?rs"]
    by (simp add: b summarize_cases_def Let_def run_cases_length)
qed

text \<open>What \<open>resume\<close> answers for a request that is not approved, and for an approved one whose payload names another tool.\<close>

lemma resume_unapproved:
  assumes "ap_get aid (sy_approvals s) = Some row" and "ar_status row \<noteq> AApproved"
  shows "\<exists>d. resume env rs aid s = (Inr d, s) \<and> \<not> truthy (dget d ''resumed'')"
  using assms by (simp add: resume_def)

lemma resume_tampered:
  assumes "ap_get aid (sy_approvals s) = Some row" and "ar_status row = AApproved"
    and "dget (payload_of row) ''mode'' = JStr ''keyword''" and "\<not> truthy (dget (payload_of row) ''resumed'')"
    and "dget (payload_of row) ''tool_name'' = JStr t" and "t \<noteq> []" and "t \<noteq> ar_tool_name row"
  shows "\<exists>d s'. resume env rs aid s = (Inr d, s') \<and> dget d ''error_type'' = JStr ''approval_payload_tampered'' \<and>
     (\<forall>run. resume env (rs\<lparr>rs_run := run\<rparr>) aid s = (Inr d, s'))"
proof -
  have "dget_or (payload_of row) ''mode'' (JStr []) = JStr ''keyword''"
    "dget_or (payload_of row) ''tool_name'' (JStr []) = JStr t"
    using assms by (simp_all add: dget_or_truthy)
  then show ?thesis
    using assms by (simp add: resume_def Let_def wl_check_payload_integrity_def as_trace_def)
qed

lemma case_approval_row:
  assumes "case_approval env c act s = (Inr row, s1)"
  shows "ap_get (ar_id row) (sy_approvals s1) = Some row \<and> ar_status row = APending \<and>
    ar_tool_name row = ''get_today_gmv'' \<and>
    payload_of row = [(''mode'', JStr ''keyword''), (''tool_name'', JStr ''get_today_gmv''), (''arguments'', JObj [])]"
  using create_approval_get [OF assms [unfolded case_approval_def]]
    create_approval_payload [OF assms [unfolded case_approval_def]] by simp

lemma refused_case:
  assumes "\<exists>d. resume env rs aid s = (Inr d, s) \<and> \<not> truthy (dget d ''resumed'')"
  shows "resume_case env rs aid (unless_resumed e) s = (Inr (''blocked'', e), s)"
  using assms by (auto simp: resume_case_def unless_resumed_def)

lemma case_decide_get:
  assumes "ap_get aid (sy_approvals s) = Some row" and "ar_status row = APending"
  shows "\<exists>r. ap_get aid (sy_approvals (case_decide env aid ok why s)) = Some r \<and>
    ar_status r = (if ok then AApproved else ARejected) \<and> payload_of r = payload_of row \<and> ar_tool_name r = ar_tool_name row"
  using assms
  by (simp add: case_decide_def decide_approval_outcome ap_get_decide_write) (simp add: decided_row_def payload_of_def)

text \<open>
  C36. The application refuses what the approval cases try. Against any state and any tools, resuming a pending
  request, a rejected one, and an approved one whose payload was altered ends blocked with the error of the case,
  and no tool is run: with other tools the outcome and the state are the same.
\<close>

theorem refused_approvals_never_run:
  assumes "br_resumer br = Some rs" and "run_approval_case br c s = (Inr x, s')"
  shows "(str_in ''not_approved'' (bs_expected_error c) \<longrightarrow> x = (''blocked'', ''approval_not_approved'')) \<and>
    (\<not> str_in ''not_approved'' (bs_expected_error c) \<and> str_in ''rejected'' (bs_expected_error c) \<longrightarrow>
       x = (''blocked'', ''approval_rejected'')) \<and>
    (\<not> str_in ''not_approved'' (bs_expected_error c) \<and> \<not> str_in ''rejected'' (bs_expected_error c) \<and>
     str_in ''payload_tampered'' (bs_expected_error c) \<longrightarrow> x = (''blocked'', ''approval_payload_tampered'')) \<and>
    (\<forall>run. run_approval_case (br\<lparr>br_resumer := Some (rs\<lparr>rs_run := run\<rparr>)\<rparr>) c s = (Inr x, s'))"
proof -
  let ?want = "bs_expected_error c"
  consider (pending) "str_in ''not_approved'' ?want"
    | (rejected) "\<not> str_in ''not_approved'' ?want" "str_in ''rejected'' ?want"
    | (tampered) "\<not> str_in ''not_approved'' ?want" "\<not> str_in ''rejected'' ?want" "str_in ''payload_tampered'' ?want"
    | (other) "\<not> str_in ''not_approved'' ?want" "\<not> str_in ''rejected'' ?want" "\<not> str_in ''payload_tampered'' ?want"
    by blast
  then show ?thesis
  proof cases
    case pending
    then obtain row s1 where a: "case_approval (br_env br) c ''badcase test pending'' s = (Inr row, s1)"
      using assms by (auto simp: run_approval_case_def Let_def elim!: bind_out_InrE)
    note r = case_approval_row [OF a]
    have "ar_status row \<noteq> AApproved" using r by simp
    from resume_unapproved [OF _ this, of "ar_id row" s1] r
    have "\<exists>d. resume (br_env br) rs' (ar_id row) s1 = (Inr d, s1) \<and> \<not> truthy (dget d ''resumed'')" for rs'
      by blast
    then have "resume_case (br_env br) rs' (ar_id row) (unless_resumed e) s1 = (Inr (''blocked'', e), s1)" for rs' e
      by (rule refused_case)
    then show ?thesis using assms pending a by (simp add: run_approval_case_def Let_def)
  next
    case rejected
    then obtain row s1 where a: "case_approval (br_env br) c ''badcase test rejected'' s = (Inr row, s1)"
      using assms by (auto simp: run_approval_case_def Let_def elim!: bind_out_InrE)
    note r = case_approval_row [OF a]
    let ?s2 = "case_decide (br_env br) (ar_id row) False ''rejected for test'' s1"
    obtain r2 where "ap_get (ar_id row) (sy_approvals ?s2) = Some r2" "ar_status r2 \<noteq> AApproved"
      using case_decide_get [of "ar_id row" s1 row "br_env br" False "''rejected for test''"] r by auto
    from resume_unapproved [OF this]
    have "\<exists>d. resume (br_env br) rs' (ar_id row) ?s2 = (Inr d, ?s2) \<and> \<not> truthy (dget d ''resumed'')" for rs'
      by blast
    then have "resume_case (br_env br) rs' (ar_id row) (unless_resumed e) ?s2 = (Inr (''blocked'', e), ?s2)" for rs' e
      by (rule refused_case)
    then show ?thesis using assms rejected a by (simp add: run_approval_case_def Let_def)
  next
    case tampered
    then obtain row s1 where a: "case_approval (br_env br) c ''badcase test tampered'' s = (Inr row, s1)"
      using assms by (auto simp: run_approval_case_def Let_def elim!: bind_out_InrE)
    note r = case_approval_row [OF a]
    let ?s2 = "case_decide (br_env br) (ar_id row) True ''approved for test'' s1"
    let ?upd = "[(''tool_name'', JStr ''dangerous_tool_tampered'')]"
    let ?s3 = "update_payload (ar_id row) ?upd ?s2"
    obtain r2 where r2: "ap_get (ar_id row) (sy_approvals ?s2) = Some r2" "ar_status r2 = AApproved"
        "payload_of r2 = payload_of row" "ar_tool_name r2 = ar_tool_name row"
      using case_decide_get [of "ar_id row" s1 row "br_env br" True "''approved for test''"] r by auto
    let ?r3 = "r2\<lparr>ar_payload := Some (dupd (payload_of r2) ?upd)\<rparr>"
    have "ap_get (ar_id row) (sy_approvals ?s3) = Some ?r3" using r2(1) by (simp add: update_payload_def ap_get_update_payload)
    moreover have "payload_of ?r3 = dupd (payload_of row) ?upd" using r2(3) by (simp add: payload_of_def)
    moreover have "ar_status ?r3 = AApproved" "ar_tool_name ?r3 = ''get_today_gmv''" using r2 r by simp_all
    ultimately obtain d s4 where d: "resume (br_env br) rs (ar_id row) ?s3 = (Inr d, s4)"
        "dget d ''error_type'' = JStr ''approval_payload_tampered''"
        "\<And>run. resume (br_env br) (rs\<lparr>rs_run := run\<rparr>) (ar_id row) ?s3 = (Inr d, s4)"
      using resume_tampered [of "ar_id row" ?s3 ?r3 "''dangerous_tool_tampered''" "br_env br" rs] r
      by (auto simp: dget_dupd)
    then show ?thesis using assms tampered a by (simp add: run_approval_case_def resume_case_def Let_def)
  next
    case other
    then show ?thesis using assms by (simp add: run_approval_case_def Let_def)
  qed
qed

definition demo_runner :: "(nat, unit) bad_runner" where
  "demo_runner = \<lparr>br_env = demo_env, br_sql = demo_pipeline, br_pipeline = runtime_pipeline demo_env promo_gateway,
     br_resumer = Some demo_resumer, br_orchestrator = None, br_judge = None, br_metrics = False, br_class = id\<rparr>"

definition tampered_case :: bad_spec where
  "tampered_case = \<lparr>bs_case_id = ''approval_004'', bs_suite = ''approval'', bs_query = ''gmv'', bs_mode = ''multitool'',
     bs_expected_outcome = ''blocked'', bs_expected_error = ''approval_payload_tampered'', bs_tags = [], bs_risk_level = ''high''\<rparr>"

theorem refused_approvals_never_run_witness:
  "fst (run_approval_case demo_runner tampered_case (sys_init 0)) = Inr (''blocked'', ''approval_payload_tampered'')"
proof -
  have "case fst (run_approval_case demo_runner tampered_case (sys_init 0)) of Inl _ \<Rightarrow> False | Inr _ \<Rightarrow> True"
    by code_simp
  then obtain x s' where out: "run_approval_case demo_runner tampered_case (sys_init 0) = (Inr x, s')"
    by (cases "run_approval_case demo_runner tampered_case (sys_init 0)") (auto split: sum.splits)
  moreover have "br_resumer demo_runner = Some demo_resumer" by (simp add: demo_runner_def)
  moreover have "\<not> str_in ''not_approved'' (bs_expected_error tampered_case)"
    "\<not> str_in ''rejected'' (bs_expected_error tampered_case)" "str_in ''payload_tampered'' (bs_expected_error tampered_case)"
    by code_simp+
  ultimately show ?thesis using refused_approvals_never_run [of demo_runner demo_resumer tampered_case "sys_init 0" x s']
    by simp
qed

text \<open>
  A question is not SQL: the guard refuses it before any SQL is generated for it, so a case of this suite that
  expects \<open>success\<close> for a question does not pass.
\<close>

lemma questions_never_succeed:
  assumes "first_word u (u_upper u (u_strip u (py_chars (bs_query c)))) \<notin> {''SELECT'', ''WITH''}"
    and "u = sq_unicode (br_sql br)" and "run_nl2sql_case br c s = (Inr x, s')"
  shows "fst x \<in> {''failed'', ''blocked''} \<and> (bs_expected_outcome c = ''success'' \<longrightarrow> \<not> check_passed c (fst x) (snd x))"
proof -
  have "\<not> gr_allowed (sg_check u (bs_query c))"
    using assms(1)
    by (auto simp: sg_check_def Let_def blocked_def check_multi_statement_def check_comments_def split: option.split)
  then show ?thesis using assms(2,3) by (auto simp: run_nl2sql_case_def Let_def check_passed_def split: if_splits)
qed

end
