(* ===== verification/Pilot_Smoke.thy ===== *)
theory Pilot_Smoke
  imports Pilot_Report Bad_Cases Audit_Export
begin

text \<open>
  The evidence of the pilot (\<open>app/harness/llm/pilot_evidence.py\<close>) and the reports of its two smoke tests
  (\<open>app/harness/llm/pilot_smoke_report.py\<close>), over the recorders, the budget and the cache of the application.
  \<open>rd\<close> reads a text as a finite number.
\<close>

subsection \<open>Values\<close>

definition float_or_zero :: "(string \<Rightarrow> rat option) \<Rightarrow> json \<Rightarrow> exn + rat" where
  "float_or_zero rd v =
     (if \<not> truthy v then Inr 0
      else case py_float rd v of
             Some q \<Rightarrow> Inr q
           | None \<Rightarrow> (case v of JStr s \<Rightarrow> Inl (''ValueError'', ''could not convert string to float: '' @ quote_text s)
               | w \<Rightarrow> Inl (''TypeError'', ''float() argument must be a string or a real number, not '' @ quote_text (type_name w))))"

definition normalize_bool :: "unicode \<Rightarrow> 'w env \<Rightarrow> json \<Rightarrow> bool" where
  "normalize_bool u env v =
     (case v of
        JBool b \<Rightarrow> b
      | JNull \<Rightarrow> False
      | w \<Rightarrow>
          (let t = (case w of JInt i \<Rightarrow> int_text i | x \<Rightarrow> value_text env x)
           in u_lower_text u (u_strip_text u t) \<in> {''true'', ''1'', ''yes'', ''y'', ''on''}))"

text \<open>A score as the value of a dict; one that is no finite number is written as its text.\<close>

fun float_json :: "pyfloat \<Rightarrow> json" where
  "float_json (Fin q) = JFloat q"
| "float_json NaN = JStr ''nan''"
| "float_json (Inf negative) = JStr (if negative then ''-inf'' else ''inf'')"

subsection \<open>The snapshot of the runtime\<close>

definition collect_evidence ::
  "unicode \<Rightarrow> (string \<Rightarrow> bool) \<Rightarrow> (string \<Rightarrow> rat option) \<Rightarrow> jdict \<Rightarrow> exn + jdict"
where
  "collect_evidence u fine rd runtime =
     (let budget = or_dict (dget runtime ''llm_budget''); cache = or_dict (dget runtime ''llm_cache'') in
      then_try (float_or_zero rd (dget_or budget ''total_cost'' (JFloat 0))) (\<lambda>cost.
      then_try (float_or_zero rd (dget_or budget ''soft_limit'' (JFloat 0))) (\<lambda>soft.
      then_try (float_or_zero rd (dget_or budget ''hard_limit'' (JFloat 0))) (\<lambda>hard.
      then_try (int_or_zero (dget_or cache ''size'' (JInt 0))) (\<lambda>size.
      then_try (int_or_zero (dget_or cache ''ttl_seconds'' (JInt 0))) (\<lambda>ttl.
      then_try (int_or_zero (dget_or cache ''hit_count'' (JInt 0))) (\<lambda>hits.
      then_try (int_or_zero (dget_or cache ''miss_count'' (JInt 0))) (\<lambda>misses.
        value_error (redact_mapping u fine
          [(''llm_budget'', JObj
              [(''enabled'', JBool (truthy (dget_or budget ''enabled'' (JBool False)))), (''scope'', dget budget ''scope''),
               (''window_start'', dget budget ''window_start''), (''window_end'', dget budget ''window_end''),
               (''total_cost'', JFloat cost), (''soft_limit'', JFloat soft), (''hard_limit'', JFloat hard)]),
           (''llm_cache'', JObj
              [(''enabled'', JBool (truthy (dget_or cache ''enabled'' (JBool False)))), (''size'', JInt size),
               (''ttl_seconds'', JInt ttl), (''hit_count'', JInt hits), (''miss_count'', JInt misses)]),
           (''runtime_metric_keys'', jstrs (sort (map fst runtime)))])))))))))"

definition no_snapshot :: jdict where
  "no_snapshot =
     [(''llm_budget'', JObj [(''enabled'', JBool False)]), (''llm_cache'', JObj [(''enabled'', JBool False)]),
      (''runtime_metric_keys'', JList [])]"

text \<open>\<open>_runtime_metrics_snapshot_safe\<close>: any exception gives the empty snapshot.\<close>

definition metrics_snapshot ::
  "unicode \<Rightarrow> (string \<Rightarrow> bool) \<Rightarrow> (string \<Rightarrow> rat option) \<Rightarrow> 'w env \<Rightarrow> budget \<Rightarrow> 'v cache \<Rightarrow> 'w sys \<Rightarrow> jdict"
where
  "metrics_snapshot u fine rd env bud cache s =
     (case sy_metrics s of
        None \<Rightarrow> no_snapshot
      | Some m \<Rightarrow>
          (let runtime = dput (dput (metrics_summary m) ''llm_budget'' (JObj (budget_summary (utc_iso env (sy_world s)) bud)))
             ''llm_cache'' (JObj (cache_stats cache))
           in case collect_evidence u fine rd runtime of Inl _ \<Rightarrow> no_snapshot | Inr d \<Rightarrow> d))"

subsection \<open>Evidence in the audit log\<close>

definition evidence_links :: "json \<Rightarrow> string \<Rightarrow> string \<Rightarrow> jdict" where
  "evidence_links eid etype rid =
     [(''audit_event_id'', eid), (''audit_event_type'', JStr etype), (''log_request_id'', JStr rid)]"

definition latest_acceptance_event :: "'w env \<Rightarrow> string \<Rightarrow> string \<Rightarrow> 'w sys \<Rightarrow> jdict" where
  "latest_acceptance_event env etype rid s =
     (if rid = [] then evidence_links (JStr []) etype []
      else
        (case find (\<lambda>e. text_or_empty env (dget (ev_detail e) ''request_id'') = rid)
                (audit_query_events (\<lambda>_. True) (any_event etype) 50 (sy_audit s)) of
           Some e \<Rightarrow> evidence_links (JStr (ev_event_id e)) (ev_event_type e) rid
         | None \<Rightarrow> evidence_links (JStr []) etype rid))"

text \<open>\<open>AuditRecorder.record\<close>, with the event it returns when the store took it.\<close>

definition record_event :: "'w env \<Rightarrow> audit_event \<Rightarrow> 'w sys \<Rightarrow> audit_event option \<times> 'w sys" where
  "record_event env proto s =
     (let s1 = sys_audit env proto s
      in (if length (sy_audit s1) = Suc (length (sy_audit s)) then Some (last (sy_audit s1)) else None, s1))"

text \<open>\<open>a or b or ... or d\<close>.\<close>

fun first_of :: "json list \<Rightarrow> json \<Rightarrow> json" where
  "first_of [] d = d"
| "first_of (v # vs) d = (if truthy v then v else first_of vs d)"

text \<open>The counts of a call, each from the summary or else from the metadata.\<close>

record call_counts =
  cc_latency_ms :: rat
  cc_prompt :: int
  cc_completion :: int
  cc_total :: int
  cc_cost :: rat

definition read_counts :: "(string \<Rightarrow> rat option) \<Rightarrow> jdict list \<Rightarrow> exn + call_counts" where
  "read_counts rd ds =
     (let pick = (\<lambda>k. first_of (map (\<lambda>d. dget d k) ds) (JInt 0)) in
      then_try (float_or_zero rd (pick ''latency_ms'')) (\<lambda>ms.
      then_try (int_or_zero (pick ''prompt_tokens'')) (\<lambda>p.
      then_try (int_or_zero (pick ''completion_tokens'')) (\<lambda>c.
      then_try (int_or_zero (pick ''total_tokens'')) (\<lambda>t.
      then_try (float_or_zero rd (pick ''cost'')) (\<lambda>cost.
        Inr \<lparr>cc_latency_ms = ms, cc_prompt = p, cc_completion = c, cc_total = t, cc_cost = cost\<rparr>))))))"

definition judge_detail ::
  "unicode \<Rightarrow> 'w env \<Rightarrow> string \<Rightarrow> string \<Rightarrow> string \<Rightarrow> jdict \<Rightarrow> judge_result \<Rightarrow> call_counts \<Rightarrow> jdict"
where
  "judge_detail u env rid provider model summary r n =
     [(''request_id'', JStr rid), (''provider'', JStr provider), (''model'', JStr model),
      (''judge_provider'', JStr (jr_provider r)),
      (''real_call_attempted'', JBool (normalize_bool u env (dget summary ''real_call_attempted''))),
      (''real_call_succeeded'', JBool (normalize_bool u env (dget summary ''real_call_succeeded''))),
      (''fallback_used'', JBool (normalize_bool u env (or_else (JBool (jr_fallback_used r)) (dget summary ''fallback_used'')))),
      (''fallback_reason'', JStr (value_text env
         (first_of [JStr (jr_fallback_reason r), dget summary ''fallback_reason''] (JStr [])))),
      (''budget_action'', JStr (text_or_empty env (dget summary ''budget_action''))),
      (''cache_hit'', JBool (normalize_bool u env (dget summary ''cache_hit''))),
      (''prompt_tokens'', JInt (cc_prompt n)), (''completion_tokens'', JInt (cc_completion n)),
      (''total_tokens'', JInt (cc_total n)), (''cost'', JFloat (cc_cost n)), (''latency_ms'', JFloat (cc_latency_ms n)),
      (''error_type'', JStr (text_or_empty env (dget summary ''error_type''))), (''score'', float_json (jr_score r)),
      (''passed'', JBool (jr_passed r)), (''confidence'', float_json (jr_confidence r))]"

definition record_judge_event ::
  "unicode \<Rightarrow> (string \<Rightarrow> rat option) \<Rightarrow> 'w env \<Rightarrow> string \<Rightarrow> string \<Rightarrow> string \<Rightarrow> jdict \<Rightarrow> judge_result \<Rightarrow> 'w sys \<Rightarrow>
     (exn + jdict) \<times> 'w sys"
where
  "record_judge_event u rd env rid provider model summary r s =
     (case read_counts rd [summary] of
        Inl e \<Rightarrow> (Inl e, s)
      | Inr n \<Rightarrow>
          (let d = judge_detail u env rid provider model summary r n;
               why = value_text env (first_of [dget d ''fallback_reason'', dget d ''error_type''] (JStr []));
               ok = normalize_bool u env (dget summary ''real_call_succeeded'')
           in case record_event env
                (audit_proto ''llm_judge_acceptance'' None None None ''judge_smoke'' (if ok then ''success'' else ''fallback'')
                   (Some why) (Some ''info'') d) s of
                (Some e, s1) \<Rightarrow> (Inr (evidence_links (JStr (ev_event_id e)) (ev_event_type e) rid), s1)
              | (None, s1) \<Rightarrow> (Inr (evidence_links (JStr []) ''llm_judge_acceptance'' rid), s1)))"

subsection \<open>The cases\<close>

text \<open>What both builders read of the settings and of the environment.\<close>

record smoke_input =
  sk_unicode :: unicode
  sk_fine :: "string \<Rightarrow> bool"
  sk_float :: "string \<Rightarrow> rat option"
  sk_getenv :: "string \<Rightarrow> string option"
  sk_settings :: settings

definition env_or :: "(string \<Rightarrow> string option) \<Rightarrow> string \<Rightarrow> string \<Rightarrow> string" where
  "env_or envvar name dflt = or_text (envvar name) dflt"

definition pilot_key_env :: "smoke_input \<Rightarrow> string" where
  "pilot_key_env k = u_strip_text (sk_unicode k) (env_or (sk_getenv k) ''REAL_LLM_API_KEY_ENV'' ''OPENAI_API_KEY'')"

fun first_text :: "string list \<Rightarrow> string" where
  "first_text [] = []"
| "first_text (s # ss) = (if s = [] then first_text ss else s)"

definition redacted_prompt :: json where "redacted_prompt = JStr ''[REDACTED_PROMPT]''"

text \<open>The parts of a case that the two tests share: \<open>used\<close> is the fallback, \<open>why\<close> its reason.\<close>

definition smoke_case ::
  "smoke_input \<Rightarrow> 'w env \<Rightarrow> string \<Rightarrow> string \<Rightarrow> string \<Rightarrow> string \<Rightarrow> string \<Rightarrow> string \<Rightarrow> jdict \<Rightarrow> jdict \<Rightarrow> json \<Rightarrow> string \<Rightarrow> string \<Rightarrow>
     json \<Rightarrow> jdict \<Rightarrow> jdict \<Rightarrow> string \<Rightarrow> jdict \<Rightarrow> exn + pilot_case"
where
  "smoke_case k env scenario endpoint rid provider model base_url summary meta used why err warnings links seen note detail =
     (let u = sk_unicode k; flag = (\<lambda>x. normalize_bool u env (dget summary x)); used = normalize_bool u env used in
      then_try (value_error (summarize_base_url u (sk_fine k) base_url)) (\<lambda>base.
      then_try (read_counts (sk_float k) [summary, meta]) (\<lambda>n.
      then_try (if truthy warnings then iterate warnings else Inr []) (\<lambda>ws.
        Inr \<lparr>pc_scenario = scenario, pc_endpoint = endpoint, pc_request_id = rid, pc_provider = provider, pc_model = model,
          pc_base_url = base, pc_key_env = pilot_key_env k, pc_key_present = given_in (sk_getenv k) (pilot_key_env k),
          pc_attempted = flag ''real_call_attempted'', pc_succeeded = flag ''real_call_succeeded'', pc_fallback_used = used,
          pc_fallback_reason = why, pc_budget_action = text_or_empty env (dget summary ''budget_action''),
          pc_cache_hit = flag ''cache_hit'', pc_latency_ms = cc_latency_ms n, pc_prompt_tokens = cc_prompt n,
          pc_completion_tokens = cc_completion n, pc_total_tokens = cc_total n, pc_cost = cc_cost n, pc_error_type = err,
          pc_outcome = (if flag ''real_call_succeeded'' then ''success'' else if used then ''fallback'' else ''failed''),
          pc_warnings = ws, pc_evidence_links = links, pc_observability = seen,
          pc_evidence_notes = [note, ''controlled_pilot''], pc_detail = detail\<rparr>))))"

definition build_nl2sql_pilot_case ::
  "smoke_input \<Rightarrow> 'w env \<Rightarrow> budget \<Rightarrow> 'v cache \<Rightarrow> jdict \<Rightarrow> 'w sys \<Rightarrow> exn + pilot_case"
where
  "build_nl2sql_pilot_case k env bud cache payload s =
     (let cfg = sk_settings k; summary = or_dict (dget payload ''acceptance_summary'');
          meta = or_dict (dget payload ''provider_metadata'');
          why = value_text env (first_of [dget payload ''fallback_reason'', dget summary ''fallback_reason'',
            dget summary ''error_type''] (JStr ''unknown''));
          rid = value_text env (first_of [dget summary ''request_id'', dget meta ''request_id''] (JStr []));
          provider = value_text env (first_of [dget summary ''provider'', dget payload ''provider_used''] (JStr []));
          model = value_text env (first_of [dget summary ''model'', dget meta ''model''] (JStr (st_llm_model cfg)))
      in smoke_case k env ''nl2sql_preview'' ''/nl2sql/preview'' rid provider model
           (first_text [st_real_llm_base_url cfg, st_llm_base_url cfg]) summary meta
           (or_else (dget payload ''fallback_used'') (dget summary ''fallback_used'')) why
           (text_or_empty env (dget summary ''error_type''))
           (or_else (dget payload ''warnings'') (dget summary ''warnings''))
           (latest_acceptance_event env ''llm_acceptance'' rid s)
           (metrics_snapshot (sk_unicode k) (sk_fine k) (sk_float k) env bud cache s) ''nl2sql_pilot_evidence''
           [(''generator_used'', dget payload ''generator_used''), (''provider_used'', dget payload ''provider_used''),
            (''guard_allowed'', dget payload ''guard_allowed''), (''fallback_reason'', JStr why),
            (''query'', redacted_prompt), (''acceptance_summary'', JObj summary)])"

definition build_judge_pilot_case ::
  "smoke_input \<Rightarrow> 'w env \<Rightarrow> budget \<Rightarrow> 'v cache \<Rightarrow> judge_result \<Rightarrow> 'w sys \<Rightarrow> (exn + pilot_case) \<times> 'w sys"
where
  "build_judge_pilot_case k env bud cache r s =
     (let cfg = sk_settings k; meta = (case jr_metadata r of None \<Rightarrow> [] | Some d \<Rightarrow> d);
          summary = or_dict (dget meta ''acceptance_summary'');
          rid = value_text env (first_of [dget summary ''request_id'', dget meta ''request_id''] (JStr []));
          provider = value_text env (first_of [dget summary ''provider''] (JStr (jr_provider r)));
          model = value_text env (first_of [dget summary ''model'', dget meta ''model''] (JStr (st_judge_model cfg)));
          why = value_text env (first_of [JStr (jr_fallback_reason r), dget summary ''fallback_reason'',
            dget summary ''error_type''] (JStr ''unknown''))
      in bind_out (record_judge_event (sk_unicode k) (sk_float k) env rid provider model summary r s) (\<lambda>links s1.
           (smoke_case k env ''llm_judge'' ''judge:evaluate'' rid provider model
              (first_text [st_real_llm_base_url cfg, st_judge_base_url cfg, st_llm_base_url cfg]) summary meta
              (or_else (JBool (jr_fallback_used r)) (dget summary ''fallback_used'')) why
              (value_text env (first_of [dget summary ''error_type'', dget meta ''error_type''] (JStr [])))
              (dget summary ''warnings'') links
              (metrics_snapshot (sk_unicode k) (sk_fine k) (sk_float k) env bud cache s1) ''judge_pilot_evidence''
              [(''judge_provider'', JStr (jr_provider r)), (''score'', float_json (jr_score r)),
               (''passed'', JBool (jr_passed r)), (''confidence'', float_json (jr_confidence r)), (''fallback_reason'', JStr why),
               (''query'', redacted_prompt), (''expected'', redacted_prompt), (''actual'', redacted_prompt),
               (''rubric'', redacted_prompt), (''acceptance_summary'', JObj summary)], s1)))"

subsection \<open>The report of a case\<close>

definition pilot_report_dir :: "unicode \<Rightarrow> (string \<Rightarrow> string option) \<Rightarrow> string option" where
  "pilot_report_dir u envvar =
     (let d = u_strip_text u (env_or envvar ''REAL_LLM_PILOT_REPORT_DIR'' []) in if d = [] then None else Some d)"

definition smoke_commit :: "unicode \<Rightarrow> (string \<Rightarrow> string option) \<Rightarrow> string" where
  "smoke_commit u envvar =
     (let t = first_text (map (\<lambda>n. u_strip_text u (env_or envvar n []))
        [''REAL_LLM_PILOT_COMMIT'', ''GITHUB_SHA'', ''CI_COMMIT_SHA''])
      in if t = [] then ''unknown'' else t)"

text \<open>The JSON file, then the text with the first file among its artifacts; the result is the two paths.\<close>

definition write_case_report ::
  "'w llm_env \<Rightarrow> smoke_input \<Rightarrow> (json \<Rightarrow> string) \<Rightarrow> 'w file_system \<Rightarrow> string \<Rightarrow> pilot_case \<Rightarrow> 'w \<Rightarrow>
     (exn + string \<times> string) \<times> 'w"
where
  "write_case_report le k indented fs tag c w =
     (let u = sk_unicode k; dir = pilot_report_dir u (sk_getenv k);
          rid = tag @ ''-'' @ (if pc_request_id c = [] then pc_scenario c else pc_request_id c) in
      bind_out (build_pilot_report u (utc_iso (le_env le) w) [c] (smoke_commit u (sk_getenv k))
        (st_app_env (sk_settings k)) (Some rid) None, w) (\<lambda>rep w.
      bind_out (write_pilot_report_json le (sk_fine k) indented fs dir (Summary rep) w) (\<lambda>(json_path, r1) w.
      bind_out (write_pilot_report_markdown le (sk_fine k) fs dir r1 w) (\<lambda>(text_path, _) w.
        (Inr (json_path, text_path), w)))))"

subsection \<open>What the evidence leaves out\<close>

lemma evidence_keys [simp]:
  "\<not> sensitive_key u ''llm_budget''" "\<not> sensitive_key u ''llm_cache''" "\<not> sensitive_key u ''total_cost''"
  "\<not> sensitive_key u ''hit_count''" "\<not> sensitive_key u ''miss_count''" "sensitive_key u ''runtime_metric_keys''"
  by code_simp+

text \<open>
  The budget reports its cost as \<open>current_cost\<close> and the cache its counts as \<open>cache_hit_count\<close> and
  \<open>cache_miss_count\<close>; the evidence reads other names, and shows no cost, no hit and no miss whatever happened.
\<close>

lemma redact_mapping_ConsE:
  assumes "redact_mapping u fine ((k, v) # d) = Inr e"
  obtains y e' where "e = (k, y) # e'" and "redact_mapping u fine d = Inr e'"
    and "(if sensitive_key u k then redact_value u fine v
          else case v of JObj x \<Rightarrow> map_sum id JObj (redact_mapping u fine x)
            | JList vs \<Rightarrow> map_sum id JList (redact_items u fine vs) | w \<Rightarrow> Inr w) = Inr y"
  using assms by (auto simp: Let_def case_sum_Inr map_sum_Inr)

lemma redact_keeps_scalar:
  assumes "redact_mapping u fine d = Inr e" and "\<not> sensitive_key u k"
    and "case dget d k of JObj _ \<Rightarrow> False | JList _ \<Rightarrow> False | _ \<Rightarrow> True"
  shows "dget e k = dget d k"
  using assms(1,3)
proof (induction d arbitrary: e)
  case (Cons kv d)
  obtain a v where kv: "kv = (a, v)" by fastforce
  from Cons.prems(1) [unfolded kv] show ?case
    using Cons.IH Cons.prems(2) assms(2)
    by (elim redact_mapping_ConsE) (auto simp: kv split: if_splits json.splits)
qed simp

lemma redact_inside:
  assumes "redact_mapping u fine d = Inr e" and "\<not> sensitive_key u k" and "dget d k = JObj x"
  shows "\<exists>y. redact_mapping u fine x = Inr y \<and> dget e k = JObj y"
  using assms(1,3)
proof (induction d arbitrary: e)
  case (Cons kv d)
  obtain a v where kv: "kv = (a, v)" by fastforce
  from Cons.prems(1) [unfolded kv] show ?case
    using Cons.IH Cons.prems(2) assms(2)
    by (elim redact_mapping_ConsE) (auto simp: kv map_sum_Inr split: if_splits)
qed simp

lemma then_try_Inr: "then_try m f = Inr x \<longleftrightarrow> (\<exists>y. m = Inr y \<and> f y = Inr x)"
  by (cases m) auto

lemma value_error_Inr: "value_error m = Inr x \<longleftrightarrow> m = Inr x"
  by (cases m) (auto simp: value_error_def)

lemma evidence_of_unnamed:
  assumes "collect_evidence u fine rd runtime = Inr d"
    and "dget (or_dict (dget runtime ''llm_budget'')) ''total_cost'' = JNull"
    and "dget (or_dict (dget runtime ''llm_cache'')) ''hit_count'' = JNull"
    and "dget (or_dict (dget runtime ''llm_cache'')) ''miss_count'' = JNull"
  shows "dget (or_dict (dget d ''llm_budget'')) ''total_cost'' = JFloat 0 \<and>
    dget (or_dict (dget d ''llm_cache'')) ''hit_count'' = JInt 0 \<and> dget (or_dict (dget d ''llm_cache'')) ''miss_count'' = JInt 0"
proof -
  let ?b = "or_dict (dget runtime ''llm_budget'')" and ?c = "or_dict (dget runtime ''llm_cache'')"
  have null: "dget_or d' k x = x \<or> dget_or d' k x = JNull" if "dget d' k = JNull" for d' k x
    using that by (auto simp: dget_def dget_or_def split: option.splits)
  have "float_or_zero rd (dget_or ?b ''total_cost'' (JFloat 0)) = Inr 0"
    using null [OF assms(2), of "JFloat 0"] assms(2) by (auto simp: float_or_zero_def)
  moreover have "int_or_zero (dget_or ?c ''hit_count'' (JInt 0)) = Inr 0" "int_or_zero (dget_or ?c ''miss_count'' (JInt 0)) = Inr 0"
    using null [OF assms(3), of "JInt 0"] null [OF assms(4), of "JInt 0"] by auto
  ultimately obtain on sc ws we soft hard b c keys size ttl where
    "redact_mapping u fine
       [(''llm_budget'', JObj [(''enabled'', on), (''scope'', sc), (''window_start'', ws), (''window_end'', we),
           (''total_cost'', JFloat 0), (''soft_limit'', soft), (''hard_limit'', hard)]),
        (''llm_cache'', JObj [(''enabled'', c), (''size'', size), (''ttl_seconds'', ttl), (''hit_count'', JInt 0), (''miss_count'', JInt 0)]),
        (''runtime_metric_keys'', keys)] = Inr d"
    using assms(1) unfolding collect_evidence_def Let_def then_try_Inr value_error_Inr by auto
  note r = this
  obtain y where y: "redact_mapping u fine [(''enabled'', on), (''scope'', sc), (''window_start'', ws), (''window_end'', we),
      (''total_cost'', JFloat 0), (''soft_limit'', soft), (''hard_limit'', hard)] = Inr y" "dget d ''llm_budget'' = JObj y"
    using redact_inside [OF r, of "''llm_budget''"] by auto
  obtain z where z: "redact_mapping u fine [(''enabled'', c), (''size'', size), (''ttl_seconds'', ttl), (''hit_count'', JInt 0),
      (''miss_count'', JInt 0)] = Inr z" "dget d ''llm_cache'' = JObj z"
    using redact_inside [OF r, of "''llm_cache''"] by auto
  show ?thesis
    using redact_keeps_scalar [OF y(1), of "''total_cost''"] redact_keeps_scalar [OF z(1), of "''hit_count''"]
      redact_keeps_scalar [OF z(1), of "''miss_count''"] by (simp add: y z)
qed

lemma evidence_shows_no_cost:
  "let snap = metrics_snapshot u fine rd env bud cache s;
       b = or_dict (dget snap ''llm_budget''); c = or_dict (dget snap ''llm_cache'')
   in \<not> truthy (dget b ''total_cost'') \<and> \<not> truthy (dget c ''hit_count'') \<and> \<not> truthy (dget c ''miss_count'')"
proof (cases "metrics_snapshot u fine rd env bud cache s = no_snapshot")
  case True
  then show ?thesis by (simp add: no_snapshot_def)
next
  case False
  then obtain m d where "collect_evidence u fine rd (dput (dput (metrics_summary m) ''llm_budget''
      (JObj (budget_summary (utc_iso env (sy_world s)) bud))) ''llm_cache'' (JObj (cache_stats cache))) = Inr d"
    and "metrics_snapshot u fine rd env bud cache s = d"
    by (auto simp: metrics_snapshot_def Let_def split: option.splits sum.splits)
  then show ?thesis
    using evidence_of_unnamed [of u fine rd _ d]
    by (auto simp: budget_summary_def cache_stats_def Let_def)
qed

end
