(* ===== verification/Pilot_Run.thy ===== *)
theory Pilot_Run
  imports Pilot_Smoke
begin

text \<open>
  The pilot run (\<open>scripts/run_llm_pilot.py\<close>): refusal, preflight, evaluation of the cases, the summary and the
  two report files. What it prints is not modelled; its exit code and everything else it does are. The schema
  extraction and the reading of the case file are parameters.
\<close>

subsection \<open>Configuration\<close>

record pilot_config =
  pg_mode :: string
  pg_provider :: string
  pg_model :: string
  pg_base_url :: string
  pg_key_env :: string
  pg_key :: string

definition SUPPORTED_REAL_PROVIDERS :: "string list" where
  "SUPPORTED_REAL_PROVIDERS = [''litellm'', ''openai_compatible'']"

definition resolve_pilot_config :: "smoke_input \<Rightarrow> bool \<Rightarrow> pilot_config" where
  "resolve_pilot_config k dry =
     (let u = sk_unicode k; cfg = sk_settings k; get = (\<lambda>n. u_strip_text u (env_or (sk_getenv k) n []));
          named = u_strip_text u (first_text [st_real_llm_api_key_env cfg, ''OPENAI_API_KEY'']);
          key_env = first_text [named, ''OPENAI_API_KEY'']
      in if dry
         then \<lparr>pg_mode = ''dry_run'', pg_provider = ''fake'', pg_model = ''fake-offline'', pg_base_url = [],
                pg_key_env = key_env, pg_key = []\<rparr>
         else \<lparr>pg_mode = ''real'',
                pg_provider = u_lower_text u (first_text [get ''PILOT_PROVIDER'', u_strip_text u (st_real_llm_provider cfg)]),
                pg_model = first_text [get ''PILOT_MODEL'', u_strip_text u (st_real_llm_model cfg)],
                pg_base_url = first_text [get ''PILOT_BASE_URL'', u_strip_text u (st_real_llm_base_url cfg)],
                pg_key_env = key_env, pg_key = first_text [get key_env, get ''PILOT_API_KEY'']\<rparr>)"

definition shown_name :: "string \<Rightarrow> string" where "shown_name s = (if s = [] then ''<empty>'' else s)"

definition collect_refusal_reasons :: "settings \<Rightarrow> pilot_config \<Rightarrow> string list" where
  "collect_refusal_reasons cfg c =
     said_if (\<not> st_real_llm_acceptance_enabled cfg) ru_acceptance @
     said_if (pg_provider c \<notin> set SUPPORTED_REAL_PROVIDERS) (ru_provider (shown_name (pg_provider c))) @
     said_if (pg_model c = []) ru_model @
     said_if (pg_provider c = ''openai_compatible'' \<and> pg_base_url c = []) ru_base_url @
     said_if (pg_key c = []) (ru_key (pg_key_env c))"

definition pilot_options :: "settings \<Rightarrow> pilot_config \<Rightarrow> llm_options" where
  "pilot_options cfg c =
     \<lparr>lo_api_key = Some (pg_key c), lo_model = Some (pg_model c), lo_base_url = Some (pg_base_url c),
      lo_timeout = Some (st_llm_timeout_seconds cfg), lo_max_retries = Some (st_llm_max_retries cfg),
      lo_backoff = Some (st_llm_retry_backoff_seconds cfg), lo_temperature = Some 0\<rparr>"

definition build_pilot_provider :: "'w llm_env \<Rightarrow> smoke_input \<Rightarrow> pilot_config \<Rightarrow> 'w provider_choice" where
  "build_pilot_provider le k c =
     (if pg_provider c = ''fake''
      then PReady (sql_provider_of ''fake'' [] (\<lambda>p w. (Inr (fake_generate le p [] JNull w), w)))
      else create_provider le (sk_getenv k) (sk_settings k) (pilot_options (sk_settings k) c) (Some (pg_provider c)))"

subsection \<open>Preflight\<close>

record pilot_preflight =
  pp_status :: string
  pp_checks :: "preflight_check list"
  pp_errors :: "string list"
  pp_latency_ms :: rat

definition probe ::
  "'w llm_env \<Rightarrow> 'w sql_provider \<Rightarrow> 'w \<Rightarrow> (preflight_check \<times> string list \<times> rat) \<times> 'w"
where
  "probe le p w =
     (case pv_generate p pf_say_ok w of
        (Inl (cls, _), w1) \<Rightarrow> ((pf_check ''network_probe'' False cls, [''network_probe_failed:'' @ cls], 0), w1)
      | (Inr reply, w1) \<Rightarrow>
          (let ok = (u_strip_text (le_unicode le) (lr_content reply) \<noteq> [])
           in ((pf_check ''network_probe'' ok (''latency_ms='' @ two_places (lr_latency_ms reply)),
                said_if (\<not> ok) ''network_probe_empty_content'', lr_latency_ms reply), w1)))"

text \<open>\<open>base\<close> is the summary of the address.\<close>

definition run_pilot_preflight ::
  "'w llm_env \<Rightarrow> pilot_config \<Rightarrow> string \<Rightarrow> 'w sql_provider \<Rightarrow> bool \<Rightarrow> 'w \<Rightarrow> pilot_preflight \<times> 'w"
where
  "run_pilot_preflight le c base p network w =
     (let known = (pg_provider c \<in> set (''fake'' # SUPPORTED_REAL_PROVIDERS)); present = (pg_key c \<noteq> []);
          checks = [pf_check ''run_mode'' True (pg_mode c),
            pf_check ''provider_supported'' known (''provider='' @ shown_name (pg_provider c)),
            pf_check ''model_configured'' (pg_model c \<noteq> []) (set_or_empty (pg_model c)),
            pf_check ''api_key_present'' (present \<or> pg_mode c = ''dry_run'')
              (''env='' @ pg_key_env c @ '' present='' @ py_bool present),
            pf_check ''base_url_summary'' True base];
          ((check, net_errors, ms), w1) =
            (if network then probe le p w else ((pf_check ''network_probe'' True ''skipped'', [], 0), w));
          errors = said_if (\<not> known) (''unsupported provider: '' @ shown_name (pg_provider c)) @ net_errors
      in (\<lparr>pp_status = (if errors \<noteq> [] then ''failed'' else if pg_mode c = ''dry_run'' then ''dry_run'' else ''passed''),
           pp_checks = checks @ [check], pp_errors = errors, pp_latency_ms = ms\<rparr>, w1))"

subsection \<open>Cases\<close>

definition normal_case_passed :: "unicode \<Rightarrow> nl_case \<Rightarrow> nl2sql_result \<Rightarrow> bool \<times> string" where
  "normal_case_passed u c r =
     (if \<not> gr_allowed (nl_guard r) then (False, ru_blocked (gr_reason (nl_guard r)))
      else
        (let reasons = map ru_no_table (filter (\<lambda>t. t \<notin> set (selected_tables r)) (nc_expected_tables c)) @
               map ru_no_word (filter (\<lambda>kw. \<not> upper_in u kw (nl_sql r)) (nc_expected_contains c))
         in if reasons = [] then (True, []) else (False, str_join ''; '' reasons)))"

definition dangerous_case_passed :: "unicode \<Rightarrow> nl_case \<Rightarrow> bool \<times> string" where
  "dangerous_case_passed u c =
     (let raw = given_text (nc_raw_sql c); g = sg_check u raw; kw = given_text (nc_blocked_keyword c)
      in if raw = [] then (False, ru_no_raw)
         else if gr_allowed g then (False, ru_not_blocked)
         else if kw \<noteq> [] \<and> \<not> upper_in u kw (gr_reason g) then (False, ru_wrong_word kw)
         else (True, []))"

record pilot_record =
  pd_case_id :: string
  pd_category :: string
  pd_llm_called :: bool
  pd_passed :: bool
  pd_fallback :: bool
  pd_fallback_reason :: string
  pd_counts :: call_counts
  pd_request_id :: string
  pd_warnings :: "string list"
  pd_outcome :: string
  pd_reason :: string

definition no_counts :: call_counts where
  "no_counts = \<lparr>cc_latency_ms = 0, cc_prompt = 0, cc_completion = 0, cc_total = 0, cc_cost = 0\<rparr>"

definition guard_record :: "unicode \<Rightarrow> nl_case \<Rightarrow> pilot_record" where
  "guard_record u c =
     (case dangerous_case_passed u c of (ok, why) \<Rightarrow>
        \<lparr>pd_case_id = nc_id c, pd_category = nc_category c, pd_llm_called = False, pd_passed = ok, pd_fallback = False,
         pd_fallback_reason = [], pd_counts = no_counts, pd_request_id = [], pd_warnings = [],
         pd_outcome = (if ok then ''guard_blocked'' else ''failed''), pd_reason = why\<rparr>)"

definition llm_record ::
  "unicode \<Rightarrow> (string \<Rightarrow> rat option) \<Rightarrow> 'w env \<Rightarrow> nl_case \<Rightarrow> nl2sql_result \<Rightarrow> jdict option \<Rightarrow> exn + pilot_record"
where
  "llm_record u rd env c r meta =
     (let m = (case meta of None \<Rightarrow> [] | Some d \<Rightarrow> d); (ok, why) = normal_case_passed u c r in
      then_try (read_counts rd [m]) (\<lambda>n.
        Inr \<lparr>pd_case_id = nc_id c, pd_category = nc_category c, pd_llm_called = True, pd_passed = ok,
          pd_fallback = nl_fallback r, pd_fallback_reason = given_text (nl_fallback_reason r), pd_counts = n,
          pd_request_id = text_or_empty env (dget m ''request_id''), pd_warnings = nl_warnings r,
          pd_outcome = (if nl_fallback r then ''fallback'' else if ok then ''success'' else ''failed''), pd_reason = why\<rparr>))"

text \<open>\<open>started\<close> tells whether a case before this one asked the model; only then the interval is waited for.\<close>

fun evaluate_cases ::
  "'w llm_env \<Rightarrow> (string \<Rightarrow> rat option) \<Rightarrow> 'w sql_generator \<Rightarrow> schema_table list \<Rightarrow> rat \<Rightarrow> bool \<Rightarrow> nl_case list \<Rightarrow> 'w \<Rightarrow>
     (exn + pilot_record list) \<times> 'w"
where
  "evaluate_cases le rd g tables interval started [] w = (Inr [], w)"
| "evaluate_cases le rd g tables interval started (c # cs) w =
     (if nc_category c = ''dangerous_sql''
      then bind_out (evaluate_cases le rd g tables interval started cs w) (\<lambda>rs w2.
        (Inr (guard_record (le_unicode le) c # rs), w2))
      else
        (let w0 = (if 0 < interval \<and> started then hc_sleep (le_http le) interval w else w);
             ((r, meta), w1) = llm_generate (le_env le) g (nc_input c) tables w0 in
         bind_out (llm_record (le_unicode le) rd (le_env le) c r meta, w1) (\<lambda>rec w1.
         bind_out (evaluate_cases le rd g tables interval True cs w1) (\<lambda>rs w2. (Inr (rec # rs), w2)))))"

subsection \<open>The summary\<close>

text \<open>The percentile by linear interpolation between the two nearest ranks.\<close>

definition percentile :: "rat list \<Rightarrow> rat \<Rightarrow> rat" where
  "percentile ms ratio =
     (if ms = [] then 0
      else
        (let ordered = sort ms; rank = (of_nat (length ordered) - 1) * ratio;
             lower = nat \<lfloor>rank\<rfloor>; upper = nat \<lceil>rank\<rceil>
         in if lower = upper then ordered ! lower
            else ordered ! lower + (ordered ! upper - ordered ! lower) * (rank - of_nat lower)))"

record eval_summary =
  es_mode :: string
  es_total :: nat
  es_called :: nat
  es_passed :: nat
  es_success_rate :: rat
  es_fallbacks :: nat
  es_fallback_rate :: rat
  es_p50 :: rat
  es_p95 :: rat
  es_prompt :: int
  es_completion :: int
  es_tokens :: int
  es_cost :: rat
  es_bad_cases :: "pilot_record list"

definition bad_case_dump :: "pilot_record \<Rightarrow> json" where
  "bad_case_dump r =
     JObj [(''case_id'', JStr (pd_case_id r)), (''category'', JStr (pd_category r)), (''outcome'', JStr (pd_outcome r)),
       (''reason'', JStr (first_text [pd_reason r, pd_fallback_reason r]))]"

definition latencies :: "pilot_record list \<Rightarrow> rat list" where
  "latencies rs = filter (\<lambda>x. 0 < x) (map (cc_latency_ms \<circ> pd_counts) (filter pd_llm_called rs))"

definition aggregate :: "pilot_config \<Rightarrow> pilot_record list \<Rightarrow> eval_summary" where
  "aggregate c rs =
     (let called = filter pd_llm_called rs; total = (\<lambda>f. sum_list (map (f \<circ> pd_counts) rs)) in
      \<lparr>es_mode = pg_mode c, es_total = length rs, es_called = length called, es_passed = length (filter pd_passed rs),
       es_success_rate = share (length (filter pd_passed rs)) (length rs), es_fallbacks = length (filter pd_fallback called),
       es_fallback_rate = share (length (filter pd_fallback called)) (length called),
       es_p50 = py_round 2 (percentile (latencies rs) (1 / 2)), es_p95 = py_round 2 (percentile (latencies rs) (19 / 20)),
       es_prompt = total cc_prompt, es_completion = total cc_completion, es_tokens = total cc_total,
       es_cost = py_round 6 (sum_list (map (cc_cost \<circ> pd_counts) rs)),
       es_bad_cases = filter (\<lambda>r. \<not> pd_passed r \<or> pd_fallback r) rs\<rparr>)"

definition eval_summary_dump :: "eval_summary \<Rightarrow> jdict" where
  "eval_summary_dump e =
     [(''run_mode'', JStr (es_mode e)), (''cases_total'', JInt (int (es_total e))),
      (''llm_called_cases'', JInt (int (es_called e))), (''passed_cases'', JInt (int (es_passed e))),
      (''success_rate'', JFloat (es_success_rate e)), (''fallback_cases'', JInt (int (es_fallbacks e))),
      (''fallback_rate'', JFloat (es_fallback_rate e)), (''latency_p50_ms'', JFloat (es_p50 e)),
      (''latency_p95_ms'', JFloat (es_p95 e)), (''prompt_tokens_total'', JInt (es_prompt e)),
      (''completion_tokens_total'', JInt (es_completion e)), (''total_tokens_total'', JInt (es_tokens e)),
      (''cost_total_usd'', JFloat (es_cost e)), (''bad_cases'', JList (map bad_case_dump (es_bad_cases e)))]"

subsection \<open>The report\<close>

definition pilot_notes :: "bool \<Rightarrow> string list" where
  "pilot_notes dry = [''nl2sql_eval_pilot'', ''controlled_pilot''] @ said_if dry ''DRY_RUN_FAKE_PROVIDER''"

definition preflight_evidence :: "pilot_preflight \<Rightarrow> jdict" where
  "preflight_evidence p =
     [(''preflight_status'', JStr (pp_status p)),
      (''preflight_checks'', JList (map (\<lambda>k. JObj [(''name'', JStr (pk_name k)), (''ok'', JBool (pk_ok k)),
         (''detail'', JStr (pk_detail k))]) (pp_checks p)))]"

text \<open>What every case takes from the configuration; \<open>base\<close> is the summary of the address.\<close>

definition summary_case ::
  "pilot_config \<Rightarrow> string \<Rightarrow> pilot_record list \<Rightarrow> eval_summary \<Rightarrow> pilot_preflight \<Rightarrow> pilot_case"
where
  "summary_case c base rs e p =
     (let dry = (pg_mode c = ''dry_run''); fell = (0 < es_fallbacks e) in
      \<lparr>pc_scenario = ''nl2sql_eval_batch'', pc_endpoint = ''scripts/run_llm_pilot.py'',
       pc_request_id = first_text (map pd_request_id rs), pc_provider = pg_provider c, pc_model = pg_model c,
       pc_base_url = base, pc_key_env = pg_key_env c, pc_key_present = (pg_key c \<noteq> []), pc_attempted = (\<not> dry),
       pc_succeeded = (\<not> dry \<and> list_ex (\<lambda>r. pd_llm_called r \<and> \<not> pd_fallback r) rs), pc_fallback_used = fell,
       pc_fallback_reason = (if fell then ''see_case_details'' else []), pc_budget_action = [], pc_cache_hit = False,
       pc_latency_ms = es_p50 e, pc_prompt_tokens = es_prompt e, pc_completion_tokens = es_completion e,
       pc_total_tokens = es_tokens e, pc_cost = es_cost e, pc_error_type = [],
       pc_outcome = (if dry then ''dry_run'' else ''completed''), pc_warnings = (if dry then [JStr ru_banner] else []),
       pc_evidence_links = [], pc_observability = preflight_evidence p, pc_evidence_notes = pilot_notes dry,
       pc_detail = [(''eval_summary'', JObj (eval_summary_dump e))]\<rparr>)"

definition record_case :: "pilot_config \<Rightarrow> string \<Rightarrow> pilot_record \<Rightarrow> pilot_case" where
  "record_case c base r =
     (let dry = (pg_mode c = ''dry_run''); n = pd_counts r in
      \<lparr>pc_scenario = ''nl2sql_eval:'' @ pd_case_id r, pc_endpoint = ''eval:nl2sql_cases'', pc_request_id = pd_request_id r,
       pc_provider = pg_provider c, pc_model = pg_model c, pc_base_url = base, pc_key_env = pg_key_env c,
       pc_key_present = (pg_key c \<noteq> []), pc_attempted = (\<not> dry \<and> pd_llm_called r),
       pc_succeeded = (\<not> dry \<and> pd_llm_called r \<and> \<not> pd_fallback r), pc_fallback_used = pd_fallback r,
       pc_fallback_reason = pd_fallback_reason r, pc_budget_action = [], pc_cache_hit = False,
       pc_latency_ms = cc_latency_ms n, pc_prompt_tokens = cc_prompt n, pc_completion_tokens = cc_completion n,
       pc_total_tokens = cc_total n, pc_cost = cc_cost n, pc_error_type = [], pc_outcome = pd_outcome r,
       pc_warnings = map JStr (pd_warnings r), pc_evidence_links = [], pc_observability = [],
       pc_evidence_notes = pilot_notes dry,
       pc_detail = [(''category'', JStr (pd_category r)), (''passed'', JBool (pd_passed r)), (''reason'', JStr (pd_reason r))]\<rparr>)"

definition build_report_cases ::
  "pilot_config \<Rightarrow> string \<Rightarrow> pilot_record list \<Rightarrow> eval_summary \<Rightarrow> pilot_preflight \<Rightarrow> pilot_case list"
where
  "build_report_cases c base rs e p = summary_case c base rs e p # map (record_case c base) rs"

subsection \<open>The run\<close>

record pilot_args =
  pa_dry_run :: bool
  pa_limit :: int
  pa_cases_path :: "string option"
  pa_db_path :: "string option"
  pa_output_dir :: "string option"
  pa_skip_probe :: bool
  pa_interval :: rat

record 'w pilot_world =
  pw_le :: "'w llm_env"
  pw_input :: smoke_input
  pw_files :: "'w file_system"
  pw_indented :: "json \<Rightarrow> string"
  pw_extract :: "string option \<Rightarrow> 'w \<Rightarrow> (exn + schema_table list) \<times> 'w"
  pw_load :: "string option \<Rightarrow> 'w \<Rightarrow> (exn + nl_case list) \<times> 'w"
  pw_template :: "string option"

definition write_pilot_files ::
  "'w pilot_world \<Rightarrow> pilot_config \<Rightarrow> string option \<Rightarrow> string \<Rightarrow> pilot_record list \<Rightarrow> pilot_preflight \<Rightarrow> 'w \<Rightarrow>
     (exn + string list) \<times> 'w"
where
  "write_pilot_files pw c out base rs p w =
     (let le = pw_le pw; k = pw_input pw; u = sk_unicode k; fine = sk_fine k; e = aggregate c rs;
          dir = (case out of Some d \<Rightarrow> if d = [] then pilot_report_dir u (sk_getenv k) else Some d
            | None \<Rightarrow> pilot_report_dir u (sk_getenv k)) in
      bind_out (build_pilot_report u (utc_iso (le_env le) w) (build_report_cases c base rs e p)
        (smoke_commit u (sk_getenv k)) (st_app_env (sk_settings k))
        (Some (''llm-pilot-'' @ swap_char CHR ''_'' CHR ''-'' (pg_mode c))) None, w) (\<lambda>rep w.
      bind_out (value_error (report_dump u fine rep), w) (\<lambda>d w.
        (let payload = Payload (dput (dput d ''run_mode'' (JStr (pg_mode c))) ''eval_summary'' (JObj (eval_summary_dump e))) in
         bind_out (write_pilot_report_json le fine (pw_indented pw) (pw_files pw) dir payload w) (\<lambda>(a, _) w.
         bind_out (write_pilot_report_markdown le fine (pw_files pw) dir payload w) (\<lambda>(b, _) w. (Inr [a, b], w)))))))"

text \<open>The exit code: 2 for a refusal, 1 for a failure, 0 for a report; the exception that escapes otherwise.\<close>

definition pilot_generator :: "'w pilot_world \<Rightarrow> 'w sql_provider \<Rightarrow> 'w sql_generator" where
  "pilot_generator pw p =
     \<lparr>sg_unicode = sk_unicode (pw_input pw), sg_provider = p, sg_fallback = True, sg_template = pw_template pw,
      sg_loads = le_loads (pw_le pw), sg_float = sk_float (pw_input pw)\<rparr>"

definition pilot_main :: "'w pilot_world \<Rightarrow> pilot_args \<Rightarrow> 'w \<Rightarrow> (exn + int) \<times> 'w" where
  "pilot_main pw a w =
     (let le = pw_le pw; k = pw_input pw; u = sk_unicode k; c = resolve_pilot_config k (pa_dry_run a) in
      bind_out (value_error (summarize_base_url u (sk_fine k) (pg_base_url c)), w) (\<lambda>base w.
        if pg_mode c = ''real'' \<and> collect_refusal_reasons (sk_settings k) c \<noteq> [] then (Inr 2, w)
        else
          (case build_pilot_provider le k c of
             PConfig _ \<Rightarrow> (Inr 1, w)
           | PUnknown _ \<Rightarrow> (Inr 1, w)
           | PReady p \<Rightarrow>
               (let (pre, w) = run_pilot_preflight le c base p (\<not> pa_skip_probe a) w in
                if pp_errors pre \<noteq> [] then (Inr 1, w)
                else
                  bind_out (pw_load pw (pa_cases_path a) w) (\<lambda>cases w.
                    if cases = [] then (Inr 1, w)
                    else
                      bind_out (pw_extract pw (pa_db_path a) w) (\<lambda>tables w.
                      bind_out (evaluate_cases le (sk_float k) (pilot_generator pw p) tables (max 0 (pa_interval a)) False
                        (take (nat (max 1 (pa_limit a))) cases) w) (\<lambda>rs w.
                      bind_out (write_pilot_files pw c (pa_output_dir a) base rs pre w) (\<lambda>_ w. (Inr 0, w)))))))))"

subsection \<open>The percentiles\<close>

definition interpolated :: "rat list \<Rightarrow> rat \<Rightarrow> rat" where
  "interpolated xs rank =
     (if nat \<lfloor>rank\<rfloor> = nat \<lceil>rank\<rceil> then xs ! nat \<lfloor>rank\<rfloor>
      else xs ! nat \<lfloor>rank\<rfloor> + (xs ! nat \<lceil>rank\<rceil> - xs ! nat \<lfloor>rank\<rfloor>) * (rank - of_nat (nat \<lfloor>rank\<rfloor>)))"

lemma percentile_interpolated:
  "ms \<noteq> [] \<Longrightarrow> percentile ms ratio = interpolated (sort ms) ((of_nat (length ms) - 1) * ratio)"
  by (simp add: percentile_def interpolated_def Let_def)

lemma rank_bounds:
  fixes rank :: rat
  assumes "0 \<le> rank" and "rank \<le> of_nat (length xs) - 1" and "xs \<noteq> []"
  shows "nat \<lfloor>rank\<rfloor> \<le> nat \<lceil>rank\<rceil>" and "nat \<lceil>rank\<rceil> < length xs"
    and "of_nat (nat \<lfloor>rank\<rfloor>) \<le> rank" and "rank \<le> of_nat (nat \<lceil>rank\<rceil>)"
proof -
  show "nat \<lfloor>rank\<rfloor> \<le> nat \<lceil>rank\<rceil>" by (meson floor_le_ceiling nat_mono)
  have "rank \<le> of_int (int (length xs) - 1)" using assms(2) by simp
  then have "\<lceil>rank\<rceil> \<le> int (length xs) - 1" by (simp only: ceiling_le_iff)
  then show "nat \<lceil>rank\<rceil> < length xs" using assms(3) by (cases xs) auto
  have "0 \<le> \<lfloor>rank\<rfloor>" "0 \<le> \<lceil>rank\<rceil>" using assms(1) by (simp_all add: order_trans [OF _ floor_le_ceiling])
  then show "of_nat (nat \<lfloor>rank\<rfloor>) \<le> rank" "rank \<le> of_nat (nat \<lceil>rank\<rceil>)" by (simp_all add: of_nat_nat)
qed

lemma interpolated_between:
  fixes rank :: rat
  assumes "sorted xs" and "0 \<le> rank" and "rank \<le> of_nat (length xs) - 1" and "xs \<noteq> []"
  shows "xs ! nat \<lfloor>rank\<rfloor> \<le> interpolated xs rank" and "interpolated xs rank \<le> xs ! nat \<lceil>rank\<rceil>"
proof -
  let ?l = "nat \<lfloor>rank\<rfloor>" and ?u = "nat \<lceil>rank\<rceil>"
  note b = rank_bounds [OF assms(2-4)]
  have step: "xs ! ?l \<le> xs ! ?u" by (rule sorted_nth_mono [OF assms(1) b(1,2)])
  have part: "0 \<le> rank - of_nat ?l" "rank - of_nat ?l \<le> 1"
    using b(3) assms(2) by (simp_all add: of_nat_nat) linarith
  have "0 \<le> (xs ! ?u - xs ! ?l) * (rank - of_nat ?l)" using step part by simp
  moreover have "(xs ! ?u - xs ! ?l) * (rank - of_nat ?l) \<le> (xs ! ?u - xs ! ?l) * 1"
    using step part by (intro mult_left_mono) simp_all
  ultimately show "xs ! ?l \<le> interpolated xs rank" "interpolated xs rank \<le> xs ! ?u"
    using step by (simp_all add: interpolated_def)
qed

lemma interpolated_mono:
  fixes r q :: rat
  assumes "sorted xs" and "0 \<le> r" and "r \<le> q" and "q \<le> of_nat (length xs) - 1" and "xs \<noteq> []"
  shows "interpolated xs r \<le> interpolated xs q"
proof (cases "\<lceil>r\<rceil> \<le> \<lfloor>q\<rfloor>")
  case True
  have q: "0 \<le> q" and r: "r \<le> of_nat (length xs) - 1" using assms by simp_all
  have "interpolated xs r \<le> xs ! nat \<lceil>r\<rceil>" by (rule interpolated_between(2) [OF assms(1,2) r assms(5)])
  also have "\<dots> \<le> xs ! nat \<lfloor>q\<rfloor>"
    by (rule sorted_nth_mono [OF assms(1) nat_mono [OF True] le_less_trans [OF rank_bounds(1,2) [OF q assms(4,5)]]])
  also have "\<dots> \<le> interpolated xs q" by (rule interpolated_between(1) [OF assms(1) q assms(4,5)])
  finally show ?thesis .
next
  case False
  have "\<lfloor>r\<rfloor> \<le> \<lfloor>q\<rfloor>" using assms(3) by (rule floor_mono)
  then have same: "\<lfloor>q\<rfloor> = \<lfloor>r\<rfloor>" "\<lceil>r\<rceil> = \<lfloor>r\<rfloor> + 1" using False by linarith+
  have "\<lceil>q\<rceil> = \<lfloor>r\<rfloor> + 1" using same ceiling_mono [OF assms(3)] by linarith
  then have up: "nat \<lceil>q\<rceil> = nat \<lceil>r\<rceil>" "nat \<lfloor>q\<rfloor> = nat \<lfloor>r\<rfloor>" using same by simp_all
  moreover have "nat \<lfloor>r\<rfloor> \<noteq> nat \<lceil>r\<rceil>" using same assms(2) by (simp add: eq_nat_nat_iff)
  moreover have r: "r \<le> of_nat (length xs) - 1" using assms by simp
  have "xs ! nat \<lfloor>r\<rfloor> \<le> xs ! nat \<lceil>r\<rceil>"
    by (rule sorted_nth_mono [OF assms(1) rank_bounds(1,2) [OF assms(2) r assms(5)]])
  ultimately show ?thesis using assms(3) by (simp add: interpolated_def mult_left_mono)
qed

lemma percentile_rank:
  assumes "ms \<noteq> []" and "0 \<le> a" and "a \<le> 1"
  shows "0 \<le> (of_nat (length ms) - 1) * (a :: rat)" and "(of_nat (length ms) - 1) * a \<le> of_nat (length ms) - 1"
proof -
  have "(1 :: rat) \<le> of_nat (length ms)" using assms(1) by (cases ms) auto
  then show "0 \<le> (of_nat (length ms) - 1) * a" "(of_nat (length ms) - 1) * a \<le> of_nat (length ms) - 1"
    using assms(2,3) by (simp_all add: mult_left_le)
qed

text \<open>
  The latencies a report gives: a percentile lies between the least and the greatest latency, and a higher one is
  no less than a lower one; the rounding to two places keeps the order of the two percentiles of the report.
\<close>

lemma percentiles_are_ordered:
  assumes "ms \<noteq> []" and "0 \<le> a" and "a \<le> b" and "b \<le> 1"
  shows "Min (set ms) \<le> percentile ms a \<and> percentile ms a \<le> percentile ms b \<and>
    percentile ms b \<le> Max (set ms)"
proof -
  let ?n = "of_nat (length ms) - 1 :: rat" and ?xs = "sort ms"
  have a1: "a \<le> 1" and b0: "0 \<le> b" using assms by simp_all
  note A = percentile_rank [OF assms(1,2) a1] and B = percentile_rank [OF assms(1) b0 assms(4)]
  have xs: "sorted ?xs" "length ?xs = length ms" "set ?xs = set ms" "?xs \<noteq> []"
    by (simp, simp, simp, metis assms(1) set_empty set_sort)
  have "?n * a \<le> ?n * b" using assms(1,3) by (cases ms) (simp_all add: mult_left_mono)
  then have "percentile ms a \<le> percentile ms b"
    using interpolated_mono [of ?xs "?n * a" "?n * b"] A B xs by (simp add: percentile_interpolated [OF assms(1)])
  moreover have "Min (set ms) \<le> ?xs ! nat \<lfloor>?n * a\<rfloor>"
    using rank_bounds(1,2) [of "?n * a" ?xs] A xs nth_mem [of "nat \<lfloor>?n * a\<rfloor>" ?xs] by (simp add: Min_le)
  then have "Min (set ms) \<le> percentile ms a"
    using interpolated_between(1) [of ?xs "?n * a"] A xs by (simp add: percentile_interpolated [OF assms(1)])
  moreover have "?xs ! nat \<lceil>?n * b\<rceil> \<le> Max (set ms)"
    using rank_bounds(2) [of "?n * b" ?xs] B xs nth_mem [of "nat \<lceil>?n * b\<rceil>" ?xs] by (simp add: Max_ge)
  then have "percentile ms b \<le> Max (set ms)"
    using interpolated_between(2) [of ?xs "?n * b"] B xs by (simp add: percentile_interpolated [OF assms(1)])
  ultimately show ?thesis by blast
qed

subsection \<open>When a report is written\<close>

definition may_run :: "settings \<Rightarrow> pilot_config \<Rightarrow> bool" where
  "may_run cfg c \<longleftrightarrow> st_real_llm_acceptance_enabled cfg \<and> pg_provider c \<in> set SUPPORTED_REAL_PROVIDERS \<and> pg_model c \<noteq> [] \<and>
     (pg_provider c = ''openai_compatible'' \<longrightarrow> pg_base_url c \<noteq> []) \<and> pg_key c \<noteq> []"

lemma refusal_iff: "collect_refusal_reasons cfg c = [] \<longleftrightarrow> may_run cfg c"
  by (auto simp: collect_refusal_reasons_def may_run_def)

lemma pilot_mode: "pg_mode (resolve_pilot_config k dry) = (if dry then ''dry_run'' else ''real'')"
  by (simp add: resolve_pilot_config_def Let_def)

lemma probed_preflight:
  assumes "run_pilot_preflight le c base p True w = (pre, w1)" and "pp_errors pre = []"
  shows "\<exists>reply. fst (pv_generate p pf_say_ok w) = Inr reply \<and> u_strip_text (le_unicode le) (lr_content reply) \<noteq> []"
  using assms by (auto simp: run_pilot_preflight_def probe_def Let_def split: prod.splits sum.splits)


subsection \<open>What a report claims\<close>

text \<open>
  A real answer, told from what the provider and the checks say, not from the flags of the generator: the provider
  answers, the answer reads as an object with a text of SQL, its explanation is not one of high risk, and the guard
  admits the query.
\<close>

definition model_answers :: "'w env \<Rightarrow> 'w sql_generator \<Rightarrow> schema_table list \<Rightarrow> string \<Rightarrow> 'w \<Rightarrow> bool" where
  "model_answers env g tables query w \<longleftrightarrow>
     (case fst (pv_generate (sg_provider g) (render_prompt env (sg_template g) query (prune query tables)) w) of
        Inl e \<Rightarrow> False
      | Inr reply \<Rightarrow>
          (case loads_tolerant (sg_unicode g) (sg_loads g) (lr_content reply) of
             Inl e \<Rightarrow> False
           | Inr (v, warn) \<Rightarrow>
               (case v of
                  JObj data \<Rightarrow>
                    (case dget data ''sql'' of
                       JStr t \<Rightarrow> strip_text (sg_unicode g) t \<noteq> [] \<and>
                         gv_risk (check_llm_output (sg_unicode g) (answer_reasoning data)) \<noteq> ''high'' \<and>
                         gr_allowed (sg_check (sg_unicode g) (strip_text (sg_unicode g) t))
                     | _ \<Rightarrow> False)
                | _ \<Rightarrow> False)))"

lemma mock_is_fallback: "nl_fallback (fallback_to_mock u now query tables provider why ws)"
  by (simp add: fallback_to_mock_def Let_def)

lemma answer_fallback:
  assumes "sg_fallback g"
  shows "nl_fallback (llm_answer env g now query tables data ws sql) \<longleftrightarrow>
    \<not> (gv_risk (check_llm_output (sg_unicode g) (answer_reasoning data)) \<noteq> ''high'' \<and> gr_allowed (sg_check (sg_unicode g) sql))"
  using assms by (simp add: llm_answer_def fallback_or_failure_def mock_is_fallback Let_def split_beta)

lemma fallback_unless_model_answers:
  assumes "sg_fallback g"
  shows "nl_fallback (fst (fst (llm_generate env g query tables w))) \<longleftrightarrow> \<not> model_answers env g tables query w"
  using assms
  by (simp add: llm_generate_def model_answers_def parse_response_def generation_error_def fallback_or_failure_def
      mock_is_fallback answer_fallback Let_def split: prod.split sum.split json.split)

text \<open>The world in which each case asks the model; a case for the guard alone asks in none.\<close>

fun asked_in ::
  "'w llm_env \<Rightarrow> 'w sql_generator \<Rightarrow> schema_table list \<Rightarrow> rat \<Rightarrow> bool \<Rightarrow> nl_case list \<Rightarrow> 'w \<Rightarrow> 'w option list"
where
  "asked_in le g tables interval started [] w = []"
| "asked_in le g tables interval started (c # cs) w =
     (if nc_category c = ''dangerous_sql'' then None # asked_in le g tables interval started cs w
      else
        (let w0 = (if 0 < interval \<and> started then hc_sleep (le_http le) interval w else w)
         in Some w0 # asked_in le g tables interval True cs (snd (llm_generate (le_env le) g (nc_input c) tables w0))))"

lemma length_asked_in: "length (asked_in le g tables interval started cs w) = length cs"
  by (induction cs arbitrary: started w) (simp_all add: Let_def)

definition record_tells :: "'w llm_env \<Rightarrow> 'w sql_generator \<Rightarrow> schema_table list \<Rightarrow> nl_case \<times> 'w option \<Rightarrow> pilot_record \<Rightarrow> bool" where
  "record_tells le g tables ca r \<longleftrightarrow>
     pd_case_id r = nc_id (fst ca) \<and>
     (case snd ca of
        None \<Rightarrow> nc_category (fst ca) = ''dangerous_sql'' \<and> \<not> pd_llm_called r
      | Some w0 \<Rightarrow> nc_category (fst ca) \<noteq> ''dangerous_sql'' \<and> pd_llm_called r \<and>
          (pd_fallback r \<longleftrightarrow> \<not> model_answers (le_env le) g tables (nc_input (fst ca)) w0))"

lemma guard_record_tells:
  "nc_category c = ''dangerous_sql'' \<Longrightarrow> record_tells le g tables (c, None) (guard_record u c)"
  by (simp add: record_tells_def guard_record_def split_beta)

lemma llm_record_tells:
  assumes "llm_record u rd env c (fst (fst (llm_generate (le_env le) g (nc_input c) tables w0))) meta = Inr r"
    and "sg_fallback g" and "nc_category c \<noteq> ''dangerous_sql''"
  shows "record_tells le g tables (c, Some w0) r"
  using assms by (auto simp: record_tells_def llm_record_def fallback_unless_model_answers Let_def split_beta then_try_Inr)

lemma evaluate_cases_records:
  assumes "sg_fallback g"
  shows "evaluate_cases le rd g tables interval started cs w = (Inr rs, w1) \<Longrightarrow>
    list_all2 (record_tells le g tables) (zip cs (asked_in le g tables interval started cs w)) rs"
proof (induction cs arbitrary: started w rs)
  case (Cons c cs)
  show ?case
  proof (cases "nc_category c = ''dangerous_sql''")
    case True
    then obtain rs' where "evaluate_cases le rd g tables interval started cs w = (Inr rs', w1)"
        "rs = guard_record (le_unicode le) c # rs'"
      using Cons.prems by (auto elim!: bind_out_InrE)
    with Cons.IH [OF this(1)] True show ?thesis by (simp add: guard_record_tells)
  next
    case False
    define w0 where "w0 = (if 0 < interval \<and> started then hc_sleep (le_http le) interval w else w)"
    obtain a meta w2 where gen: "llm_generate (le_env le) g (nc_input c) tables w0 = ((a, meta), w2)"
      by (metis prod.exhaust)
    obtain rec rs' where rec: "llm_record (le_unicode le) rd (le_env le) c a meta = Inr rec"
        and rest: "evaluate_cases le rd g tables interval True cs w2 = (Inr rs', w1)" and rs: "rs = rec # rs'"
      using Cons.prems False gen by (auto simp: Let_def w0_def [symmetric] elim!: bind_out_InrE)
    have "record_tells le g tables (c, Some w0) rec"
      by (rule llm_record_tells [OF _ assms False, where meta = meta and u = "le_unicode le" and rd = rd and env = "le_env le"]) (simp add: gen rec)
    with Cons.IH [OF rest] False show ?thesis
      by (simp add: rs Let_def w0_def [symmetric] gen)
  qed
qed simp

text \<open>
  C40. What the cases of a report claim. There is one for each evaluated case, in order, after the summary. A dry run
  claims no call and no success, and warns that it is one. A real run claims a call for the cases that are not for
  the guard alone, and a success for exactly those of them in which the model answered: the provider gave an
  answer in the world in which the case asked it, and that answer, not the mock's, is a query the checks admit. The
  summary claims a success when one case does.
\<close>

theorem pilot_claims_only_real_calls:
  assumes "evaluate_cases le rd (pilot_generator pw v) tables interval started cs w = (Inr rs, w1)"
  shows "let ks = build_report_cases c base rs e p; dry = (pg_mode c = ''dry_run'');
      asked = asked_in le (pilot_generator pw v) tables interval started cs w in
    length ks = Suc (length cs) \<and>
    (\<forall>i < length cs. pc_scenario (ks ! Suc i) = ''nl2sql_eval:'' @ nc_id (cs ! i) \<and>
       (pc_attempted (ks ! Suc i) \<longleftrightarrow> \<not> dry \<and> nc_category (cs ! i) \<noteq> ''dangerous_sql'') \<and>
       (pc_succeeded (ks ! Suc i) \<longleftrightarrow> \<not> dry \<and>
          (\<exists>w0. asked ! i = Some w0 \<and> model_answers (le_env le) (pilot_generator pw v) tables (nc_input (cs ! i)) w0))) \<and>
    (pc_succeeded (hd ks) \<longleftrightarrow> list_ex pc_succeeded (tl ks)) \<and>
    (dry \<longrightarrow> list_all (\<lambda>k. \<not> pc_attempted k \<and> \<not> pc_succeeded k) ks \<and> pc_warnings (hd ks) = [JStr ru_banner])"
proof -
  define asked where "asked = asked_in le (pilot_generator pw v) tables interval started cs w"
  have "sg_fallback (pilot_generator pw v)" by (simp add: pilot_generator_def)
  note r = evaluate_cases_records [OF this assms, folded asked_def]
  have len: "length asked = length cs" by (simp add: asked_def length_asked_in)
  then have lenr: "length rs = length cs" using list_all2_lengthD [OF r] by simp
  have tells: "record_tells le (pilot_generator pw v) tables (cs ! i, asked ! i) (rs ! i)" if "i < length cs" for i
    using list_all2_nthD [OF r, of i] that len by simp
  have "pd_case_id (rs ! i) = nc_id (cs ! i) \<and> (pd_llm_called (rs ! i) \<longleftrightarrow> nc_category (cs ! i) \<noteq> ''dangerous_sql'') \<and>
      (pd_llm_called (rs ! i) \<and> \<not> pd_fallback (rs ! i) \<longleftrightarrow>
        (\<exists>w0. asked ! i = Some w0 \<and> model_answers (le_env le) (pilot_generator pw v) tables (nc_input (cs ! i)) w0))"
    if "i < length cs" for i
    using tells [OF that] by (auto simp: record_tells_def split: option.splits)
  then show ?thesis
    using lenr unfolding asked_def [symmetric]
    by (auto simp: build_report_cases_def record_case_def summary_case_def Let_def list_ex_iff list_all_iff)
qed

subsection \<open>Instances\<close>

definition demo_pilot :: "nat pilot_world" where
  "demo_pilot =
     \<lparr>pw_le = quiet_llm_env,
      pw_input = \<lparr>sk_unicode = demo_unicode, sk_fine = (\<lambda>_. True), sk_float = (\<lambda>_. None), sk_getenv = (\<lambda>_. None),
        sk_settings = default_settings\<rparr>,
      pw_files = \<lparr>fs_join = (\<lambda>a b. a @ ''/'' @ b), fs_mkdir = (\<lambda>_ w. (Inr (), w)), fs_write = (\<lambda>_ _ w. (Inr (), Suc w))\<rparr>,
      pw_indented = (\<lambda>_. ''{}''), pw_extract = (\<lambda>_ w. (Inr [], w)), pw_load = (\<lambda>_ w. (Inr [], w)), pw_template = None\<rparr>"

definition real_run :: pilot_args where
  "real_run = \<lparr>pa_dry_run = False, pa_limit = 20, pa_cases_path = None, pa_db_path = None, pa_output_dir = None,
     pa_skip_probe = False, pa_interval = 0\<rparr>"


definition drop_case :: nl_case where
  "drop_case = \<lparr>nc_id = ''d1'', nc_input = ''drop'', nc_expected_tables = [], nc_expected_contains = [],
     nc_category = ''dangerous_sql'', nc_raw_sql = Some ''DROP TABLE orders'', nc_blocked_keyword = None\<rparr>"

definition model_case :: "string \<Rightarrow> nl_case" where
  "model_case i = \<lparr>nc_id = i, nc_input = ''orders'', nc_expected_tables = [], nc_expected_contains = [],
     nc_category = ''basic'', nc_raw_sql = None, nc_blocked_keyword = None\<rparr>"

text \<open>A provider that answers once, with the same query as ever, and is then out of reach.\<close>

definition once_provider :: "nat sql_provider" where
  "once_provider = sql_provider_of ''direct'' ''m''
     (\<lambda>p w. (if w = 0 then Inr (fake_generate quiet_llm_env p [] JNull 0) else Inl (''Timeout'', ''late''), Suc w))"

definition answering_pilot :: "nat pilot_world" where
  "answering_pilot = demo_pilot\<lparr>pw_le := quiet_llm_env\<lparr>le_loads :=
     (\<lambda>_. Inr (JObj [(''sql'', JStr ''SELECT id FROM orders''), (''reasoning'', JStr ''ok'')]))\<rparr>\<rparr>"

definition three_cases :: "nl_case list" where
  "three_cases = [drop_case, model_case ''m1'', model_case ''m2'']"

theorem pilot_claims_only_real_calls_witness:
  "\<exists>rs w1. evaluate_cases quiet_llm_env (\<lambda>_. None) (pilot_generator answering_pilot once_provider) [] 0 False three_cases 0 =
      (Inr rs, w1) \<and>
    (let ks = build_report_cases (resolve_pilot_config (pw_input demo_pilot) False) ''provider_default'' rs
        (aggregate (resolve_pilot_config (pw_input demo_pilot) False) rs)
        \<lparr>pp_status = ''passed'', pp_checks = [], pp_errors = [], pp_latency_ms = 0\<rparr>
     in pc_succeeded (ks ! 2) \<and> \<not> pc_succeeded (ks ! 3) \<and> pc_attempted (ks ! 3) \<and> \<not> pc_attempted (ks ! 1) \<and> pc_succeeded (hd ks))"
proof -
  let ?g = "pilot_generator answering_pilot once_provider"
  let ?run = "evaluate_cases quiet_llm_env (\<lambda>_. None) ?g [] 0 False three_cases 0"
  have "\<not> isl (fst ?run)" by code_simp
  then obtain rs w1 where run: "?run = (Inr rs, w1)" by (cases ?run; cases "fst ?run") auto
  have "snd (llm_generate (le_env quiet_llm_env) ?g q [] w) = Suc w" for q w
    by (simp add: llm_generate_def pilot_generator_def once_provider_def sql_provider_of_def split: prod.split sum.split)
  then have asked: "asked_in quiet_llm_env ?g [] 0 False three_cases 0 = [None, Some 0, Some 1]"
    by (simp add: three_cases_def drop_case_def model_case_def)
  have answers: "model_answers (le_env quiet_llm_env) ?g [] ''orders'' 0" by code_simp
  have silent: "\<not> model_answers (le_env quiet_llm_env) ?g [] ''orders'' 1"
    by (simp add: model_answers_def pilot_generator_def once_provider_def sql_provider_of_def)
  have mode: "pg_mode (resolve_pilot_config (pw_input demo_pilot) False) \<noteq> ''dry_run''" by code_simp
  define ks where "ks = build_report_cases (resolve_pilot_config (pw_input demo_pilot) False) ''provider_default'' rs
      (aggregate (resolve_pilot_config (pw_input demo_pilot) False) rs)
      \<lparr>pp_status = ''passed'', pp_checks = [], pp_errors = [], pp_latency_ms = 0\<rparr>"
  note claims = pilot_claims_only_real_calls [OF run, of "resolve_pilot_config (pw_input demo_pilot) False" "''provider_default''"
      "aggregate (resolve_pilot_config (pw_input demo_pilot) False) rs"
      "\<lparr>pp_status = ''passed'', pp_checks = [], pp_errors = [], pp_latency_ms = 0\<rparr>", folded ks_def, unfolded Let_def asked]
  have each: "pc_attempted (ks ! Suc i) \<longleftrightarrow> nc_category (three_cases ! i) \<noteq> ''dangerous_sql''"
    "pc_succeeded (ks ! Suc i) \<longleftrightarrow> (\<exists>w0. [None, Some 0, Some 1] ! i = Some w0 \<and>
       model_answers (le_env quiet_llm_env) ?g [] (nc_input (three_cases ! i)) w0)" if "i < 3" for i
    using claims mode that by (auto simp: three_cases_def)
  have len: "length ks = 4" using claims by (simp add: three_cases_def)
  have two: "pc_succeeded (ks ! 2)" using each(2) [of 1] answers by (simp add: three_cases_def model_case_def numeral_2_eq_2)
  moreover have "\<not> pc_succeeded (ks ! 3)" "pc_attempted (ks ! 3)"
    using each [of 2] silent by (simp_all add: three_cases_def model_case_def numeral_3_eq_3 numeral_2_eq_2)
  moreover have "\<not> pc_attempted (ks ! 1)" using each(1) [of 0] by (simp add: three_cases_def drop_case_def)
  moreover have "ks ! 2 \<in> set (tl ks)" using len nth_mem [of 1 "tl ks"] by (simp add: nth_tl numeral_2_eq_2)
  then have "pc_succeeded (hd ks)" using claims two by (auto simp: list_ex_iff)
  ultimately show ?thesis using run by (auto simp: Let_def ks_def)
qed

end
