(* ===== verification/Api_Texts.thy ===== *)
theory Api_Texts
  imports Texts
begin

text \<open>
  The texts of the HTTP handlers, as in \<open>Texts\<close>: one definition per message.
\<close>

definition ax_injected_payload :: "string \<Rightarrow> string" where \<comment> \<open>the payload to resume has injected content\<close>
  "ax_injected_payload reason =
    ''resume payload '' @ utf8 [0x5305, 0x542B, 0x6CE8, 0x5165, 0x5185, 0x5BB9] @ '': '' @
    reason"

definition ax_task_missing :: "string \<Rightarrow> string" where \<comment> \<open>no such task\<close>
  "ax_task_missing tid =
    utf8 [0x4EFB, 0x52A1] @ '' '' @ utf8 [0x27] @ tid @ utf8 [0x27] @ '' '' @ utf8 [0x4E0D,
    0x5B58, 0x5728]"

definition ax_event_missing :: "string \<Rightarrow> string" where \<comment> \<open>no such audit event\<close>
  "ax_event_missing eid =
    utf8 [0x5BA1, 0x8BA1, 0x4E8B, 0x4EF6] @ '' '' @ utf8 [0x27] @ eid @ utf8 [0x27] @ '' '' @
    utf8 [0x4E0D, 0x5B58, 0x5728]"

end
