(* ===== verification/Api_Approvals.thy ===== *)
theory Api_Approvals
  imports Approval_Resume Auth Guardrails Api_Texts
begin

text \<open>
  The handlers of \<open>/approvals\<close> (\<open>app/api/approvals.py\<close>): the decision of a request, the events it leaves,
  and what follows it: the resumption of an approved request, the cancelling of the task and of the graph
  checkpoint of a rejected one. A handler answers with a JSON value, or with a status code and a text. The
  texts a handler reads in a payload are read at the types the stores declare.
\<close>

type_synonym reply = "(nat \<times> string) + json"

text \<open>An exception that leaves a handler is answered with 500 by the framework.\<close>

definition server_error :: reply where
  "server_error = Inl (500, ''Internal Server Error'')"

text \<open>What the dependencies of a handler do before it: a call that is refused never starts it.\<close>

definition protected ::
  "settings \<Rightarrow> 'w jwt_lib \<Rightarrow> string \<Rightarrow> string option \<Rightarrow> ('w sys \<Rightarrow> reply \<times> 'w sys) \<Rightarrow> 'w sys \<Rightarrow> reply \<times> 'w sys"
where
  "protected cfg jw permission credentials h s =
     (case authorize cfg jw permission credentials (sy_world s) of Inl e \<Rightarrow> (Inl e, s) | Inr _ \<Rightarrow> h s)"

record decide_request =
  dr_by :: string
  dr_reason :: string
  dr_auto_resume :: bool

definition new_decide_request :: decide_request where
  "new_decide_request = \<lparr>dr_by = ''admin'', dr_reason = [], dr_auto_resume = True\<rparr>"

subsection \<open>Rows as dicts\<close>

definition approval_dict :: "approval_row \<Rightarrow> jdict" where
  "approval_dict r =
     [(''approval_id'', JStr (ar_id r)), (''task_id'', JStr (ar_task_id r)), (''tool_name'', JStr (ar_tool_name r)),
      (''action'', JStr (ar_action r)), (''risk_level'', JStr (risk_level_value (ar_risk_level r))),
      (''impact_scope'', JStr (ar_impact_scope r)), (''agent_reason'', JStr (ar_agent_reason r)),
      (''status'', JStr (approval_status_value (ar_status r))), (''requested_at'', JStr (ar_requested_at r)),
      (''decided_at'', opt_str (ar_decided_at r)), (''decided_by'', opt_str (ar_decided_by r)),
      (''decision_reason'', opt_str (ar_decision_reason r)),
      (''payload'', case ar_payload r of None \<Rightarrow> JNull | Some p \<Rightarrow> JObj p)]"

definition task_dict :: "task_row \<Rightarrow> jdict" where
  "task_dict r =
     [(''task_id'', JStr (tr_id r)), (''query'', JStr (tr_query r)), (''mode'', JStr (tr_mode r)),
      (''status'', JStr (task_status_value (tr_status r))), (''error'', opt_str (tr_error r)),
      (''created_at'', JStr (tr_created_at r)), (''updated_at'', JStr (tr_updated_at r)),
      (''result'', case tr_result r of None \<Rightarrow> JNull | Some d \<Rightarrow> JObj d)]"

definition opt_dict :: "jdict option \<Rightarrow> json" where
  "opt_dict x = (case x of None \<Rightarrow> JNull | Some d \<Rightarrow> JObj d)"

subsection \<open>What a rejection cancels\<close>

definition cancel_task :: "'w env \<Rightarrow> string \<Rightarrow> string \<Rightarrow> string \<Rightarrow> 'w sys \<Rightarrow> jdict option \<times> 'w sys" where
  "cancel_task env tid aid reason s =
     (let (row, rows) = tk_update tid TCancelled
        (Some [(''approval_rejected'', JBool True), (''approval_id'', JStr aid), (''decision_reason'', JStr reason)])
        (sys_now env s) (sy_tasks s)
      in (map_option task_dict row, s\<lparr>sy_tasks := rows\<rparr>))"

definition cancel_graph_checkpoint_if_needed :: "'w env \<Rightarrow> approval_row \<Rightarrow> string \<Rightarrow> 'w sys \<Rightarrow> 'w sys" where
  "cancel_graph_checkpoint_if_needed env row reason s =
     (let payload = payload_of row
      in if dget payload ''mode'' \<noteq> JStr ''graph_keyword'' \<or> \<not> truthy (dget payload ''checkpoint_id'') then s
         else s\<lparr>sy_ckpts := ck_mark_cancelled (or_str (dget payload ''checkpoint_id'')) reason (sys_now env s) (sy_ckpts s)\<rparr>)"

subsection \<open>The resumption\<close>

definition resume_blocked :: "'w env \<Rightarrow> approval_row \<Rightarrow> injection_finding \<Rightarrow> 'w sys \<Rightarrow> jdict \<times> 'w sys" where
  "resume_blocked env row f s =
     (let s1 = sys_trace env ''resume_blocked_by_policy'' (ar_task_id row)
            [(''approval_id'', JStr (ar_id row)), (''severity'', JStr (if_severity f)), (''reason'', JStr (if_reason f)),
             (''matched_patterns'', jstrs (if_matched f))] s;
          s2 = sys_audit env (audit_proto ''resume_blocked_by_policy'' (Some (ar_task_id row)) (Some (ar_id row)) None
            ''resume'' ''blocked'' (Some (if_reason f)) (Some (if_severity f))
            [(''matched_patterns'', jstrs (if_matched f))]) s1
      in ([(''error'', JStr (ax_injected_payload (if_reason f))), (''resumed'', JBool False),
           (''error_type'', JStr ''prompt_injection_blocked'')], s2))"

definition do_resume :: "unicode \<Rightarrow> 'w env \<Rightarrow> 'w resumer \<Rightarrow> string \<Rightarrow> 'w sys \<Rightarrow> jdict \<times> 'w sys" where
  "do_resume u env rs aid s =
     (case ap_get aid (sy_approvals s) of
        None \<Rightarrow> ([(''error'', JStr (tx_approval_missing aid)), (''resumed'', JBool False)], s)
      | Some row \<Rightarrow>
          (let f = check_payload u (payload_of row)
           in if if_action f = ''block'' then resume_blocked env row f s
              else (case resume env rs aid s of
                      (Inr res, s') \<Rightarrow> (res, s')
                    | (Inl e, s') \<Rightarrow> ([(''error'', JStr e), (''resumed'', JBool False)], s'))))"

definition auto_resume ::
  "unicode \<Rightarrow> 'w env \<Rightarrow> 'w resumer \<Rightarrow> bool \<Rightarrow> string \<Rightarrow> 'w sys \<Rightarrow> jdict option \<times> 'w sys"
where
  "auto_resume u env rs on aid s =
     (if on then (case do_resume u env rs aid s of (res, s') \<Rightarrow> (Some res, s')) else (None, s))"

subsection \<open>Reading\<close>

definition list_approvals :: "string option \<Rightarrow> int \<Rightarrow> 'w sys \<Rightarrow> reply \<times> 'w sys" where
  "list_approvals status limit s =
     (Inr (JList (map (JObj \<circ> approval_dict)
        (case status of
           None \<Rightarrow> ap_list None limit (sy_approvals s)
         | Some t \<Rightarrow>
             (case find (\<lambda>st. approval_status_value st = t) [APending, AApproved, ARejected, AExpired] of
                None \<Rightarrow> [] | Some st \<Rightarrow> ap_list (Some st) limit (sy_approvals s))))), s)"

definition get_approval :: "string \<Rightarrow> 'w sys \<Rightarrow> reply \<times> 'w sys" where
  "get_approval aid s =
     (Inr (JObj (case ap_get aid (sy_approvals s) of
        None \<Rightarrow> [(''error'', JStr (tx_approval_missing aid))] | Some row \<Rightarrow> approval_dict row)), s)"

subsection \<open>Deciding\<close>

text \<open>An injected reason is reported, and does not stop the decision.\<close>

definition warn_reason :: "unicode \<Rightarrow> 'w env \<Rightarrow> approval_row \<Rightarrow> decide_request \<Rightarrow> 'w sys \<Rightarrow> 'w sys" where
  "warn_reason u env row req s =
     (let f = check_text u (dr_reason req)
      in if dr_reason req = [] \<or> \<not> if_detected f then s
         else sys_audit env ((audit_proto ''prompt_injection_detected'' (Some (ar_task_id row)) (Some (ar_id row)) None
                ''approve_reason'' ''warn'' (Some (if_reason f)) (Some (if_severity f))
                [(''matched_patterns'', jstrs (if_matched f)), (''source'', JStr ''approve_reason'')])
                \<lparr>ev_actor := dr_by req\<rparr>)
              (sys_trace env ''prompt_injection_detected'' (ar_task_id row)
                [(''approval_id'', JStr (ar_id row)), (''source'', JStr ''approve_reason''),
                 (''severity'', JStr (if_severity f)), (''reason'', JStr (if_reason f)),
                 (''matched_patterns'', jstrs (if_matched f)), (''action'', JStr (if_action f))] s))"

definition decision_ignored :: "'w env \<Rightarrow> approval_row \<Rightarrow> string \<Rightarrow> decide_request \<Rightarrow> 'w sys \<Rightarrow> 'w sys" where
  "decision_ignored env previous action req =
     sys_trace env ''approval_decision_ignored'' (ar_task_id previous)
       [(''approval_id'', JStr (ar_id previous)), (''previous_status'', JStr (approval_status_value (ar_status previous))),
        (''attempted_action'', JStr action), (''decided_by'', JStr (dr_by req))]"

definition already_decided :: "approval_row \<Rightarrow> string \<Rightarrow> jdict" where
  "already_decided row msg =
     approval_dict row @ [(''already_decided'', JBool True), (''decision_error'', JStr msg)]"

text \<open>The two events of a decision.\<close>

definition decision_made ::
  "'w env \<Rightarrow> string \<Rightarrow> string \<Rightarrow> approval_row \<Rightarrow> approval_row \<Rightarrow> decide_request \<Rightarrow> 'w sys \<Rightarrow> 'w sys"
where
  "decision_made env action status previous row req s =
     sys_audit env ((audit_proto (''approval_'' @ status) (Some (ar_task_id row)) (Some (ar_id previous)) None
         action status (Some (dr_reason req)) None
         [(''previous_status'', JStr (approval_status_value (ar_status previous)))])\<lparr>ev_actor := dr_by req\<rparr>)
       (sys_trace env (''approval_'' @ status) (ar_task_id row)
         [(''approval_id'', JStr (ar_id previous)),
          (''previous_status'', JStr (approval_status_value (ar_status previous))), (''new_status'', JStr status),
          (''decided_by'', JStr (dr_by req)), (''decision_reason'', JStr (dr_reason req))] s)"

definition decide_row ::
  "'w env \<Rightarrow> string \<Rightarrow> bool \<Rightarrow> decide_request \<Rightarrow> 'w sys \<Rightarrow> decide_result \<times> 'w sys"
where
  "decide_row env aid approved req s =
     (case ap_decide aid approved (dr_by req) (dr_reason req) (sys_now env s) (sy_approvals s) of
        (d, rows) \<Rightarrow> (d, s\<lparr>sy_approvals := rows\<rparr>))"

definition approve_approval ::
  "unicode \<Rightarrow> 'w env \<Rightarrow> 'w resumer \<Rightarrow> string \<Rightarrow> decide_request \<Rightarrow> 'w sys \<Rightarrow> reply \<times> 'w sys"
where
  "approve_approval u env rs aid req s =
     (case ap_get aid (sy_approvals s) of
        None \<Rightarrow> (Inr (JObj [(''error'', JStr (tx_approval_missing aid))]), s)
      | Some previous \<Rightarrow>
          (let payload = payload_of previous; s1 = warn_reason u env previous req s
           in if truthy (dget payload ''resumed'')
              then (Inr (JObj [(''status'', JStr (approval_status_value (ar_status previous))),
                      (''approval_id'', JStr aid), (''already_resumed'', JBool True),
                      (''resume_result'', dget payload ''resume_result'')]), s1)
              else if ar_status previous = AApproved
              then (case auto_resume u env rs (dr_auto_resume req) aid s1 of
                      (res, s2) \<Rightarrow>
                        (Inr (JObj [(''status'', JStr ''approved''), (''approval_id'', JStr aid),
                           (''already_decided'', JBool True), (''resume_result'', opt_dict res)]), s2))
              else
                (case decide_row env aid True req s1 of
                   (DMissing, s2) \<Rightarrow> (server_error, s2)
                 | (DAlready row msg, s2) \<Rightarrow>
                     (Inr (JObj (already_decided row msg)), decision_ignored env previous ''approve'' req s2)
                 | (DDone row, s2) \<Rightarrow>
                     (case auto_resume u env rs (dr_auto_resume req) aid
                         (decision_made env ''approve'' ''approved'' previous row req s2) of
                        (res, s3) \<Rightarrow> (Inr (JObj (approval_dict row @ [(''resume_result'', opt_dict res)])), s3)))))"

definition after_rejection ::
  "'w env \<Rightarrow> string \<Rightarrow> approval_row \<Rightarrow> decide_request \<Rightarrow> 'w sys \<Rightarrow> jdict option \<times> 'w sys"
where
  "after_rejection env aid row req s =
     (if ar_task_id row = [] then (None, s)
      else (case cancel_task env (ar_task_id row) aid (dr_reason req) s of
              (res, s1) \<Rightarrow>
                (res, sys_trace env ''task_cancelled_by_approval'' (ar_task_id row)
                   [(''approval_id'', JStr aid), (''decided_by'', JStr (dr_by req)),
                    (''decision_reason'', JStr (dr_reason req))]
                   (cancel_graph_checkpoint_if_needed env row (dr_reason req) s1))))"

definition reject_approval :: "'w env \<Rightarrow> string \<Rightarrow> decide_request \<Rightarrow> 'w sys \<Rightarrow> reply \<times> 'w sys" where
  "reject_approval env aid req s =
     (case ap_get aid (sy_approvals s) of
        None \<Rightarrow> (Inr (JObj [(''error'', JStr (tx_approval_missing aid))]), s)
      | Some previous \<Rightarrow>
          (case decide_row env aid False req s of
             (DMissing, s1) \<Rightarrow> (server_error, s1)
           | (DAlready row msg, s1) \<Rightarrow>
               (Inr (JObj (already_decided row msg)), decision_ignored env previous ''reject'' req s1)
           | (DDone row, s1) \<Rightarrow>
               (case after_rejection env aid row req (decision_made env ''reject'' ''rejected'' previous row req s1) of
                  (res, s2) \<Rightarrow> (Inr (JObj (approval_dict row @ [(''cancellation_result'', opt_dict res)])), s2))))"

subsection \<open>The router\<close>

datatype approval_call =
    ListCall "string option" int
  | GetCall string
  | ApproveCall string decide_request
  | RejectCall string decide_request

fun call_permission :: "approval_call \<Rightarrow> string" where
  "call_permission (ListCall status limit) = ''approvals:read''"
| "call_permission (GetCall aid) = ''approvals:read''"
| "call_permission (ApproveCall aid req) = ''approvals:decide''"
| "call_permission (RejectCall aid req) = ''approvals:decide''"

fun approval_handler ::
  "unicode \<Rightarrow> 'w env \<Rightarrow> 'w resumer \<Rightarrow> approval_call \<Rightarrow> 'w sys \<Rightarrow> reply \<times> 'w sys"
where
  "approval_handler u env rs (ListCall status limit) = list_approvals status limit"
| "approval_handler u env rs (GetCall aid) = get_approval aid"
| "approval_handler u env rs (ApproveCall aid req) = approve_approval u env rs aid req"
| "approval_handler u env rs (RejectCall aid req) = reject_approval env aid req"

definition approvals_api ::
  "settings \<Rightarrow> 'w jwt_lib \<Rightarrow> unicode \<Rightarrow> 'w env \<Rightarrow> 'w resumer \<Rightarrow> string option \<Rightarrow> approval_call \<Rightarrow> 'w sys \<Rightarrow> reply \<times> 'w sys"
where
  "approvals_api cfg jw u env rs credentials call =
     protected cfg jw (call_permission call) credentials (approval_handler u env rs call)"

text \<open>The calls of many callers, one after the other.\<close>

definition approvals_serve ::
  "settings \<Rightarrow> 'w jwt_lib \<Rightarrow> unicode \<Rightarrow> 'w env \<Rightarrow> 'w resumer \<Rightarrow> (string option \<times> approval_call) list \<Rightarrow> 'w sys \<Rightarrow> 'w sys"
where
  "approvals_serve cfg jw u env rs = fold (\<lambda>(credentials, call) s. snd (approvals_api cfg jw u env rs credentials call s))"

subsection \<open>Decisions are kept\<close>

definition decided_as :: "approval_row \<Rightarrow> approval_status \<times> string option \<times> string option \<times> string option" where
  "decided_as r = (ar_status r, ar_decided_at r, ar_decided_by r, ar_decision_reason r)"

text \<open>Every stored request is still there, decided the way it was.\<close>

definition same_decisions :: "'w sys \<Rightarrow> 'w sys \<Rightarrow> bool" where
  "same_decisions s s' \<longleftrightarrow>
     (\<forall>k r. ap_get k (sy_approvals s) = Some r \<longrightarrow>
        (\<exists>r'. ap_get k (sy_approvals s') = Some r' \<and> decided_as r' = decided_as r))"

lemma same_decisions_refl [simp, intro]: "same_decisions s s"
  by (simp add: same_decisions_def)

lemma same_decisions_trans [trans]: "same_decisions s t \<Longrightarrow> same_decisions t v \<Longrightarrow> same_decisions s v"
  unfolding same_decisions_def by metis

lemma same_decisions_same: "sy_approvals s' = sy_approvals s \<Longrightarrow> same_decisions s s'"
  by (simp add: same_decisions_def)

lemma keeps_same_decisions: "keeps s s' \<Longrightarrow> same_decisions s s'"
  by (auto simp: keeps_def same_decisions_def)

lemma update_payload_same_decisions: "same_decisions s (update_payload aid upd s)"
  by (auto simp: same_decisions_def update_payload_def ap_get_update_payload decided_as_def)

lemma file_result_same_decisions: "same_decisions s (file_result aid res s)"
  by (simp add: file_result_def Let_def update_payload_same_decisions)

lemma as_trace_same_decisions: "same_decisions (as_trace env rs tid e d s) t \<longleftrightarrow> same_decisions s t"
  by (simp add: same_decisions_def)

context quiet_resumer
begin

lemma gs_execute_same_decisions:
  "same_decisions s (snd (gs_execute env \<lparr>gs_run = rs_run rs, gs_trace = a, gs_audit = b\<rparr> aid row cid c s))"
  using run_approvals
  by (auto simp: gs_execute_def unlet same_decisions_def update_payload_def ap_get_update_payload decided_as_def)

lemma graph_resume_same_decisions:
  "same_decisions s (snd (graph_resume env \<lparr>gs_run = rs_run rs, gs_trace = a, gs_audit = b\<rparr> aid row s))"
proof -
  have "same_decisions s (snd (gs_execute env \<lparr>gs_run = rs_run rs, gs_trace = a, gs_audit = b\<rparr> aid row cid c
      (s\<lparr>sy_ckpts := rows\<rparr>)))" for cid c rows
    by (rule same_decisions_trans [OF same_decisions_same gs_execute_same_decisions]) simp
  then show ?thesis
    by (simp add: graph_resume_def Let_def same_decisions_same split: prod.split option.split)
qed

lemma resume_same_decisions: "same_decisions s (snd (resume env rs aid s))"
proof -
  have mode: "same_decisions t (snd (bind_out (resume_mode env rs aid row t) (\<lambda>res s3. (Inr res, file_result aid res s3))))"
    for row t
  proof -
    obtain out t' where out: "resume_mode env rs aid row t = (out, t')"
      by (cases "resume_mode env rs aid row t")
    then have "same_decisions t t'"
      using keeps_same_decisions [OF resume_mode_keeps [of t env aid row]] by simp
    then show ?thesis
      using out by (cases out) (auto intro: same_decisions_trans file_result_same_decisions)
  qed
  define start where "start row = sys_audit_if (rs_audit rs) env
       (audit_proto ''approval_resume_started'' (Some (ar_task_id row)) (Some aid) None ''resume''
          ''success'' None None [(''mode'', dget_or (payload_of row) ''mode'' (JStr []))])
       (as_trace env rs (ar_task_id row) ''approval_resume_started''
          [(''approval_id'', JStr aid), (''mode'', dget_or (payload_of row) ''mode'' (JStr []))] s)" for row
  have base: "same_decisions s t" if "same_decisions (start row) t" for row t
    using that by (simp add: same_decisions_def start_def)
  have graph: "same_decisions s (snd (graph_resume env \<lparr>gs_run = rs_run rs, gs_trace = a, gs_audit = b\<rparr> aid row (start row)))"
    for row a b
    by (rule base) (rule graph_resume_same_decisions)
  have blocked: "same_decisions s (sys_audit_if on env e (as_trace env rs tid t d (start row)))" for on e tid t d row
    by (rule base [of row]) (simp add: same_decisions_same)
  have run: "same_decisions s (snd (bind_out (resume_mode env rs aid row (start row))
      (\<lambda>res s3. (Inr res, file_result aid res s3))))" for row
    by (rule base) (rule mode)
  show ?thesis
    unfolding resume_def Let_def case_prod_unfold start_def [symmetric]
    using graph run blocked base [OF same_decisions_refl] by (simp split: option.split)
qed

lemma do_resume_same_decisions: "same_decisions s (snd (do_resume u env rs aid s))"
  using resume_same_decisions [of s env aid]
  by (auto simp: do_resume_def resume_blocked_def Let_def same_decisions_same split: option.split prod.split sum.split)

lemma auto_resume_same_decisions: "same_decisions s (snd (auto_resume u env rs on aid s))"
  using do_resume_same_decisions [of s u env aid] by (auto simp: auto_resume_def split: prod.split)

end

lemma warn_reason_frame [frame, simp]:
  "sy_approvals (warn_reason u env row req s) = sy_approvals s"
  "sy_tasks (warn_reason u env row req s) = sy_tasks s"
  "sy_ckpts (warn_reason u env row req s) = sy_ckpts s"
  by (simp_all add: warn_reason_def Let_def)

lemma decision_made_frame [frame, simp]:
  "sy_approvals (decision_made env a st p row req s) = sy_approvals s"
  "sy_approvals (decision_ignored env p a req s) = sy_approvals s"
  by (simp_all add: decision_made_def decision_ignored_def)

lemma after_rejection_frame [frame, simp]:
  "sy_approvals (snd (after_rejection env aid row req s)) = sy_approvals s"
  by (simp add: after_rejection_def cancel_task_def cancel_graph_checkpoint_if_needed_def Let_def case_prod_unfold)

text \<open>What deciding does to the stored requests: only the named one, and only while it is pending.\<close>

lemma decide_row_get:
  assumes "decide_row env aid approved req s = (d, s')" and "ap_get k (sy_approvals s) = Some r"
  shows "\<exists>r'. ap_get k (sy_approvals s') = Some r' \<and> payload_of r' = payload_of r \<and>
     (decided_as r' = decided_as r \<or> k = aid \<and> ar_status r = APending \<and> ar_decided_by r' = Some (dr_by req))"
  using assms
  by (auto simp: decide_row_def ap_decide_def Let_def ap_get_decide_write decided_row_def decided_as_def payload_of_def
      split: option.splits if_splits)

lemma decide_row_done:
  "decide_row env aid approved req s = (DDone row, s') \<Longrightarrow> ap_get aid (sy_approvals s') = Some row"
  by (auto simp: decide_row_def ap_decide_def Let_def split: option.splits if_splits)

lemma same_decisions_get:
  assumes "same_decisions s s'" and "ap_get k (sy_approvals s) = Some r"
  shows "\<exists>r'. ap_get k (sy_approvals s') = Some r' \<and> decided_as r' = decided_as r"
  using assms by (simp add: same_decisions_def)

text \<open>A call decides only the request it names, and only while that one is pending.\<close>

definition decides :: "approval_call \<Rightarrow> string \<Rightarrow> string option \<Rightarrow> bool" where
  "decides call k who \<longleftrightarrow> (\<exists>req. (call = ApproveCall k req \<or> call = RejectCall k req) \<and> who = Some (dr_by req))"

definition decided_by_call :: "approval_call \<Rightarrow> string \<Rightarrow> approval_row \<Rightarrow> approval_row \<Rightarrow> bool" where
  "decided_by_call call k r r' \<longleftrightarrow>
     decided_as r' = decided_as r \<or> ar_status r = APending \<and> decides call k (ar_decided_by r')"

context quiet_resumer
begin

lemma approve_get:
  assumes "ap_get k (sy_approvals s) = Some r"
  shows "\<exists>r'. ap_get k (sy_approvals (snd (approve_approval u env rs aid req s))) = Some r' \<and>
     decided_by_call (ApproveCall aid req) k r r'"
proof (cases "ap_get aid (sy_approvals s)")
  case None
  then show ?thesis using assms by (simp add: approve_approval_def decided_by_call_def)
next
  case (Some previous)
  define s1 where "s1 = warn_reason u env previous req s"
  have get1: "ap_get k (sy_approvals s1) = Some r" using assms by (simp add: s1_def)
  obtain d s2 where d: "decide_row env aid True req s1 = (d, s2)" by (cases "decide_row env aid True req s1")
  obtain r2 where r2: "ap_get k (sy_approvals s2) = Some r2"
    "decided_as r2 = decided_as r \<or> k = aid \<and> ar_status r = APending \<and> ar_decided_by r2 = Some (dr_by req)"
    using decide_row_get [OF d get1] by blast
  have resumed: "\<exists>r'. ap_get k (sy_approvals (snd (auto_resume u env rs on aid t))) = Some r' \<and> decided_as r' = decided_as x"
    if "ap_get k (sy_approvals t) = Some x" for on t x
    by (rule same_decisions_get [OF auto_resume_same_decisions that])
  have done2: "decided_by_call (ApproveCall aid req) k r r'" if "decided_as r' = decided_as r2" for r'
    using r2(2) that by (auto simp: decided_by_call_def decides_def decided_as_def)
  have after: "\<exists>r'. ap_get k (sy_approvals (snd (auto_resume u env rs on aid (decision_made env a st p row req s2)))) = Some r' \<and>
      decided_as r' = decided_as r2" for on a st p row
    by (rule resumed) (simp add: r2(1))
  define out where "out = approve_approval u env rs aid req s"
  note out = out_def [unfolded approve_approval_def Some option.case Let_def, folded s1_def, unfolded d case_prod_unfold]
  consider (resumed) "truthy (dget (payload_of previous) ''resumed'')"
    | (again) "\<not> truthy (dget (payload_of previous) ''resumed'')" "ar_status previous = AApproved"
    | (decide) "\<not> truthy (dget (payload_of previous) ''resumed'')" "ar_status previous \<noteq> AApproved"
    by blast
  then have "\<exists>r'. ap_get k (sy_approvals (snd out)) = Some r' \<and> decided_by_call (ApproveCall aid req) k r r'"
  proof cases
    case resumed
    then show ?thesis using get1 by (simp add: out decided_by_call_def)
  next
    case again
    then show ?thesis using resumed [OF get1] by (auto simp: out decided_by_call_def)
  next
    case decide
    then show ?thesis using r2(1) after done2 by (cases d) (fastforce simp: out)+
  qed
  then show ?thesis by (simp add: out_def)
qed

end

lemma reject_get:
  assumes "ap_get k (sy_approvals s) = Some r"
  shows "\<exists>r'. ap_get k (sy_approvals (snd (reject_approval env aid req s))) = Some r' \<and>
     decided_by_call (RejectCall aid req) k r r'"
proof -
  obtain d s1 where d: "decide_row env aid False req s = (d, s1)" by (cases "decide_row env aid False req s")
  obtain r2 where "ap_get k (sy_approvals s1) = Some r2"
    "decided_as r2 = decided_as r \<or> k = aid \<and> ar_status r = APending \<and> ar_decided_by r2 = Some (dr_by req)"
    using decide_row_get [OF d assms] by blast
  then show ?thesis
    using assms
    by (auto simp: reject_approval_def d case_prod_unfold decided_by_call_def decides_def
        split: option.split decide_result.split)
qed

context quiet_resumer
begin

lemma handler_get:
  assumes "ap_get k (sy_approvals s) = Some r"
  shows "\<exists>r'. ap_get k (sy_approvals (snd (approval_handler u env rs call s))) = Some r' \<and> decided_by_call call k r r'"
  using assms approve_get [OF assms] reject_get [OF assms]
  by (cases call) (simp_all add: list_approvals_def get_approval_def decided_by_call_def)

lemma api_get:
  assumes "ap_get k (sy_approvals s) = Some r"
  shows "\<exists>r'. ap_get k (sy_approvals (snd (approvals_api cfg jw u env rs credentials call s))) = Some r' \<and>
     decided_by_call call k r r'"
  using handler_get [OF assms, of u env call] assms
  by (cases "authorize cfg jw (call_permission call) credentials (sy_world s)")
     (simp_all add: approvals_api_def protected_def decided_by_call_def)

lemma serve_keeps_decision:
  assumes "ap_get k (sy_approvals s) = Some r" and "ar_status r \<noteq> APending"
  shows "\<exists>r'. ap_get k (sy_approvals (approvals_serve cfg jw u env rs calls s)) = Some r' \<and> decided_as r' = decided_as r"
  using assms
proof (induction calls arbitrary: s r)
  case Nil
  then show ?case by (simp add: approvals_serve_def)
next
  case (Cons c calls)
  obtain credentials call where c: "c = (credentials, call)" by (cases c)
  obtain r1 where r1: "ap_get k (sy_approvals (snd (approvals_api cfg jw u env rs credentials call s))) = Some r1"
    "decided_as r1 = decided_as r"
    using api_get [OF Cons.prems(1), of cfg jw u env credentials call] Cons.prems(2) by (auto simp: decided_by_call_def)
  then have "ar_status r1 \<noteq> APending" using Cons.prems(2) by (simp add: decided_as_def)
  from Cons.IH [OF r1(1) this] r1(2) show ?case by (simp add: c approvals_serve_def)
qed

end

text \<open>
  C8. A rejection is final: whatever calls of the approvals API follow, in whatever order and by whatever
  callers, the request keeps its decision, and no service over the stores resumes it.
\<close>

theorem rejected_never_resumed:
  assumes "\<And>t a tid s. sy_approvals (snd (rs_run rs t a tid s)) = sy_approvals s"
    and "ap_get aid (sy_approvals s) = Some r" and "ar_status r = ARejected"
  shows "\<exists>r'. ap_get aid (sy_approvals (approvals_serve cfg jw u env rs calls s)) = Some r' \<and>
     decided_as r' = decided_as r \<and>
     snd (resume env rs' aid (approvals_serve cfg jw u env rs calls s)) = approvals_serve cfg jw u env rs calls s"
proof -
  have "quiet_resumer rs" by (rule quiet_resumer.intro) (rule assms(1))
  obtain r' where r': "ap_get aid (sy_approvals (approvals_serve cfg jw u env rs calls s)) = Some r'"
      "decided_as r' = decided_as r"
    using quiet_resumer.serve_keeps_decision [OF \<open>quiet_resumer rs\<close> assms(2)] assms(3) by fastforce
  then have "ar_status r' = ARejected" using assms(3) by (simp add: decided_as_def)
  with r' show ?thesis by (auto simp: resume_def)
qed

definition demo_rejected :: "nat sys" where
  "demo_rejected = (sys_init 0)\<lparr>sy_approvals := [demo_approval\<lparr>ar_status := ARejected\<rparr>]\<rparr>"

theorem rejected_never_resumed_witness:
  "\<exists>r'. ap_get ''apr_1'' (sy_approvals (approvals_serve default_settings demo_jwt demo_unicode demo_env demo_resumer
      [(None, ApproveCall ''apr_1'' new_decide_request), (None, RejectCall ''apr_1'' new_decide_request)] demo_rejected)) = Some r' \<and>
     decided_as r' = decided_as (demo_approval\<lparr>ar_status := ARejected\<rparr>) \<and>
     snd (resume demo_env demo_resumer ''apr_1'' (approvals_serve default_settings demo_jwt demo_unicode demo_env demo_resumer
       [(None, ApproveCall ''apr_1'' new_decide_request), (None, RejectCall ''apr_1'' new_decide_request)] demo_rejected)) =
     approvals_serve default_settings demo_jwt demo_unicode demo_env demo_resumer
       [(None, ApproveCall ''apr_1'' new_decide_request), (None, RejectCall ''apr_1'' new_decide_request)] demo_rejected"
  by (rule rejected_never_resumed) (simp_all add: demo_resumer_def demo_rejected_def ap_get_def demo_approval_def)

text \<open>
  Who may call what: anybody while authentication is off, else the bearer of a valid token, which needs a fitting
  role unless RBAC is off.
\<close>

definition may_call :: "settings \<Rightarrow> 'w jwt_lib \<Rightarrow> string \<Rightarrow> string option \<Rightarrow> 'w \<Rightarrow> bool" where
  "may_call cfg jw permission credentials w \<longleftrightarrow>
     \<not> st_auth_enabled cfg \<or>
     (\<exists>token t. credentials = Some token \<and> decode_access_token cfg jw token w = Inr t \<and>
        (\<not> st_rbac_enabled cfg \<or> roles_meet (tp_roles t) (permitted_roles permission)))"

lemma authorize_may_call: "authorize cfg jw permission credentials w = Inr p \<Longrightarrow> may_call cfg jw permission credentials w"
  by (auto simp: authorize_def get_current_user_def require_permission_def may_call_def
      split: if_splits option.splits sum.splits)

lemma refused_call:
  "\<not> may_call cfg jw permission credentials (sy_world s) \<Longrightarrow> \<exists>e. protected cfg jw permission credentials h s = (Inl e, s)"
  by (cases "authorize cfg jw permission credentials (sy_world s)") (auto simp: protected_def dest: authorize_may_call)

text \<open>
  C9. A decision needs the permission to decide: when a call of the approvals API changes the decision of a
  stored request, the request was pending, the call named it, and the decider on record is the one the call's body
  names. Its caller was let through in one of three ways: authentication is off; or the caller holds a valid token
  and the roles are not checked (RBAC is off); or it holds a valid token with a role for \<open>approvals:decide\<close>.
\<close>

theorem decision_needs_permission:
  assumes "\<And>t a tid s. sy_approvals (snd (rs_run rs t a tid s)) = sy_approvals s"
    and "ap_get k (sy_approvals s) = Some r"
    and "ap_get k (sy_approvals (snd (approvals_api cfg jw u env rs credentials call s))) = Some r'"
    and "decided_as r' \<noteq> decided_as r"
  shows "may_call cfg jw ''approvals:decide'' credentials (sy_world s) \<and> ar_status r = APending \<and>
     decides call k (ar_decided_by r')"
proof -
  have "quiet_resumer rs" by (rule quiet_resumer.intro) (rule assms(1))
  then have by_call: "ar_status r = APending" "decides call k (ar_decided_by r')"
    using quiet_resumer.api_get [OF _ assms(2), of rs cfg jw u env credentials call] assms(3,4)
    by (auto simp: decided_by_call_def)
  moreover have "call_permission call = ''approvals:decide''" using by_call(2) by (auto simp: decides_def)
  moreover have "may_call cfg jw (call_permission call) credentials (sy_world s)"
    using refused_call [of cfg jw "call_permission call" credentials s "approval_handler u env rs call"] assms(2-4)
    by (cases "may_call cfg jw (call_permission call) credentials (sy_world s)") (auto simp: approvals_api_def)
  ultimately show ?thesis by simp
qed

definition demo_pending :: "nat sys" where
  "demo_pending = (sys_init 0)\<lparr>sy_approvals := [demo_approval]\<rparr>"

definition quiet_approve :: approval_call where
  "quiet_approve = ApproveCall ''apr_1'' (new_decide_request\<lparr>dr_auto_resume := False\<rparr>)"

definition demo_approver :: "string option" where
  "demo_approver = Some ''xxxxxx:ann,admin''"

theorem decision_needs_permission_witness:
  "\<exists>r' :: approval_row. may_call auth_settings demo_jwt ''approvals:decide'' demo_approver (sy_world demo_pending) \<and>
     ar_status demo_approval = APending \<and> decides quiet_approve ''apr_1'' (ar_decided_by r')"
proof -
  have "map_option ar_status (ap_get ''apr_1'' (sy_approvals (snd (approvals_api auth_settings demo_jwt demo_unicode
      demo_env demo_resumer demo_approver quiet_approve demo_pending)))) = Some AApproved"
    by code_simp
  then obtain r' where r': "ap_get ''apr_1'' (sy_approvals (snd (approvals_api auth_settings demo_jwt demo_unicode
      demo_env demo_resumer demo_approver quiet_approve demo_pending))) = Some r'" "ar_status r' = AApproved"
    by auto
  have "may_call auth_settings demo_jwt ''approvals:decide'' demo_approver (sy_world demo_pending) \<and>
     ar_status demo_approval = APending \<and> decides quiet_approve ''apr_1'' (ar_decided_by r')"
    by (rule decision_needs_permission [OF _ _ r'(1)])
       (use r'(2) in \<open>auto simp: demo_resumer_def demo_pending_def ap_get_def demo_approval_def decided_as_def\<close>)
  then show ?thesis by blast
qed

subsection \<open>Injected payloads\<close>

lemma do_resume_blocked:
  assumes "ap_get aid (sy_approvals s) = Some row" and "if_action (check_payload u (payload_of row)) = ''block''"
  shows "do_resume u env rs aid s = resume_blocked env row (check_payload u (payload_of row)) s"
  using assms by (simp add: do_resume_def Let_def)

text \<open>
  C10. An injected payload is never resumed: when a text of a stored payload, at any depth, is one the
  injection guard blocks, approving the request calls no tool and asks no service: the answer and the state
  are the same for every service the handler could have been given.
\<close>

theorem injected_payload_never_resumed:
  assumes "ap_get aid (sy_approvals s) = Some row"
    and "list_ex (\<lambda>t. if_action (check_text u t) = ''block'') (collect_strings (JObj (payload_of row)))"
  shows "approve_approval u env rs aid req s = approve_approval u env rs' aid req s"
proof -
  have blocked: "if_action (check_payload u (payload_of row)) = ''block''" using assms(2) by (simp add: payload_blocked_iff)
  have same: "auto_resume u env rs on aid t = auto_resume u env rs' on aid t"
    if "ap_get aid (sy_approvals t) = Some x" "payload_of x = payload_of row" for on t x
    using that blocked by (simp add: auto_resume_def do_resume_blocked)
  define s1 where "s1 = warn_reason u env row req s"
  have get1: "ap_get aid (sy_approvals s1) = Some row" using assms(1) by (simp add: s1_def)
  obtain d s2 where d: "decide_row env aid True req s1 = (d, s2)" by (cases "decide_row env aid True req s1")
  obtain r2 where r2: "ap_get aid (sy_approvals s2) = Some r2" "payload_of r2 = payload_of row"
    using decide_row_get [OF d get1] by blast
  have after: "auto_resume u env rs on aid (decision_made env a st p x req s2) =
      auto_resume u env rs' on aid (decision_made env a st p x req s2)" for on a st p x
    using r2 by (intro same [of _ r2]) simp_all
  note again = same [OF get1 HOL.refl]
  show ?thesis
    by (simp add: approve_approval_def assms(1) Let_def s1_def [symmetric] d again after cong: decide_result.case_cong if_cong)
qed

definition injected_payload :: jdict where
  "injected_payload = [(''mode'', JStr ''keyword''), (''arguments'', JObj [(''q'', JList [JStr ''drop table''])])]"

lemma high_pattern_blocks:
  assumes "(p, l) \<in> set (HIGH_BLOCK_PATTERNS u)" and "rx_found u p None (py_chars t)" and "t \<noteq> []"
  shows "if_action (check_text u t) = ''block''"
proof -
  have "labels_found u (HIGH_BLOCK_PATTERNS u) (py_chars t) \<noteq> []"
    using assms(1,2) by (force simp: labels_found_def filter_empty_conv)
  then show ?thesis using assms(3) by (simp add: check_text_def Let_def)
qed

theorem injected_payload_never_resumed_witness:
  "approve_approval demo_unicode demo_env demo_resumer ''apr_1'' new_decide_request (demo_approved ''rule_lookup'' injected_payload) =
   approve_approval demo_unicode demo_env (demo_resumer\<lparr>rs_run := (\<lambda>t a tid s. (Inl ''never called'', s))\<rparr>) ''apr_1''
     new_decide_request (demo_approved ''rule_lookup'' injected_payload)"
proof (rule injected_payload_never_resumed [OF demo_approved_get])
  have "rx_found demo_unicode (spaced demo_unicode [''drop'', ''table'']) None (py_chars ''drop table'')" by code_simp
  then have "if_action (check_text demo_unicode ''drop table'') = ''block''"
    by (rule high_pattern_blocks [of _ ij_drop, rotated]) (simp_all add: HIGH_BLOCK_PATTERNS_def)
  then show "list_ex (\<lambda>t. if_action (check_text demo_unicode t) = ''block'') (collect_strings (JObj (payload_of
      (demo_approval\<lparr>ar_status := AApproved, ar_tool_name := ''rule_lookup'', ar_payload := Some injected_payload\<rparr>))))"
    by (simp add: injected_payload_def payload_of_def)
qed

subsection \<open>An approval runs once\<close>

lemma auto_resume_files:
  assumes "auto_resume u env rs on aid s = (Some res, s')" and "truthy (dget res ''approval_consumed'')"
    and "\<And>t a tid s. sy_approvals (snd (rs_run rs t a tid s)) = sy_approvals s"
  shows "\<exists>row st. ap_get aid (sy_approvals s') = Some (marked_row row st res)"
proof -
  have "resume env rs aid s = (Inr res, s')"
    using assms(1,2)
    by (auto simp: auto_resume_def do_resume_def resume_blocked_def Let_def
        split: if_splits option.splits prod.splits sum.splits)
  from resume_files [OF this assms(2,3)] show ?thesis by blast
qed

text \<open>
  C11. An approval runs once over HTTP: after an approve call whose answer says the approval was consumed,
  every further approve call, whoever makes it and whatever service it would resume with, answers with the
  filed result and leaves the requests, the tasks and the checkpoints as they are.
\<close>

theorem approve_runs_once:
  assumes "\<And>t a tid s. sy_approvals (snd (rs_run rs t a tid s)) = sy_approvals s"
    and "approve_approval u env rs aid req s = (Inr (JObj out), s')"
    and "dget out ''resume_result'' = JObj res" and "truthy (dget res ''approval_consumed'')"
  shows "let (ans, s2) = approve_approval u env rs' aid req' s'
     in (\<exists>status. ans = Inr (JObj [(''status'', JStr status), (''approval_id'', JStr aid),
           (''already_resumed'', JBool True), (''resume_result'', JObj res)])) \<and>
        sy_approvals s2 = sy_approvals s' \<and> sy_tasks s2 = sy_tasks s' \<and> sy_ckpts s2 = sy_ckpts s'"
proof -
  have "\<exists>row. ap_get aid (sy_approvals s') = Some row \<and> truthy (dget (payload_of row) ''resumed'') \<and>
      dget (payload_of row) ''resume_result'' = JObj res"
  proof (cases "ap_get aid (sy_approvals s)")
    case None
    then show ?thesis using assms(2,3) by (auto simp: approve_approval_def)
  next
    case (Some previous)
    define s1 where "s1 = warn_reason u env previous req s"
    have filed: "\<exists>row. ap_get aid (sy_approvals t') = Some row \<and> truthy (dget (payload_of row) ''resumed'') \<and>
        dget (payload_of row) ''resume_result'' = JObj res" if "auto_resume u env rs on aid t = (Some res, t')" for on t t'
      using auto_resume_files [OF that assms(4,1)] by fastforce
    show ?thesis
      using assms(2,3) Some filed
      by (auto simp: approve_approval_def Let_def opt_dict_def approval_dict_def already_decided_def server_error_def
          split: if_splits prod.splits decide_result.splits option.splits)
  qed
  then show ?thesis by (auto simp: approve_approval_def Let_def)
qed

definition filed_payload :: jdict where
  "filed_payload = [(''mode'', JStr ''keyword''), (''resumed'', JBool True),
     (''resume_result'', JObj [(''success'', JBool True), (''approval_consumed'', JBool True)])]"

theorem approve_runs_once_witness:
  "\<exists>s'. snd (approve_approval demo_unicode demo_env demo_resumer ''apr_1'' new_decide_request
       (demo_approved ''t'' filed_payload)) = s' \<and>
     sy_tasks (snd (approve_approval demo_unicode demo_env demo_resumer ''apr_1'' new_decide_request s')) = sy_tasks s'"
proof -
  let ?s = "demo_approved ''t'' filed_payload"
  let ?res = "[(''success'', JBool True), (''approval_consumed'', JBool True)]"
  have first: "approve_approval demo_unicode demo_env demo_resumer ''apr_1'' new_decide_request ?s =
      (Inr (JObj [(''status'', JStr ''approved''), (''approval_id'', JStr ''apr_1''), (''already_resumed'', JBool True),
         (''resume_result'', JObj ?res)]), ?s)"
    by (simp add: approve_approval_def demo_approved_get payload_of_def filed_payload_def warn_reason_def
        new_decide_request_def Let_def)
  have "sy_tasks (snd (approve_approval demo_unicode demo_env demo_resumer ''apr_1'' new_decide_request ?s)) = sy_tasks ?s"
    using approve_runs_once [OF _ first, of ?res demo_resumer new_decide_request]
    by (simp add: demo_resumer_def split_beta)
  then show ?thesis using first by simp
qed

end
