(* ===== verification/Api_Tasks.thy ===== *)
theory Api_Tasks
  imports Api_Approvals Kernel_Facts Audit_Export
begin

text \<open>
  The handlers of \<open>/tasks\<close>, \<open>/tools\<close> and \<open>/audit\<close> (\<open>app/api/tasks.py\<close>, \<open>tools.py\<close>, \<open>audit.py\<close>): a task is
  checked for injections, masked, run by the kernel and stored; a tool is called when the policy allows it; the
  audit log is listed and exported. What the task store does with a row (\<open>save\<close>) is a parameter, since the
  handler answers for its failures; \<open>Task_Store.save_task\<close> is the one the application has.
\<close>

subsection \<open>Creating a task\<close>

record create_task_request =
  ct_query :: string
  ct_mode :: string
  ct_generator :: string
  ct_provider :: "string option"
  ct_fallback_to_mock :: bool
  ct_session_id :: "string option"

definition new_create_task :: "string \<Rightarrow> create_task_request" where
  "new_create_task query =
     \<lparr>ct_query = query, ct_mode = ''keyword'', ct_generator = ''mock'', ct_provider = None,
      ct_fallback_to_mock = True, ct_session_id = None\<rparr>"

definition task_options :: "create_task_request \<Rightarrow> nl2sql_opts" where
  "task_options req =
     \<lparr>no_generator = ct_generator req, no_provider = ct_provider req, no_fallback_to_mock = ct_fallback_to_mock req\<rparr>"

definition finding_dict :: "injection_finding \<Rightarrow> jdict" where
  "finding_dict f =
     [(''detected'', JBool (if_detected f)), (''severity'', JStr (if_severity f)), (''reason'', JStr (if_reason f)),
      (''matched_patterns'', jstrs (if_matched f)), (''action'', JStr (if_action f))]"

text \<open>\<open>CreateTaskResponse\<close>: a result that is not a dict does not fit it.\<close>

definition task_response ::
  "string \<Rightarrow> string \<Rightarrow> task_status \<Rightarrow> json \<Rightarrow> string option \<Rightarrow> string option \<Rightarrow> reply"
where
  "task_response tid query status res error persistence =
     (if (case res of JNull \<Rightarrow> True | JObj d \<Rightarrow> True | _ \<Rightarrow> False)
      then Inr (JObj [(''task_id'', JStr tid), (''query'', JStr query), (''status'', JStr (task_status_value status)),
         (''result'', res), (''error'', opt_str error), (''persistence_error'', opt_str persistence)])
      else server_error)"

text \<open>\<open>sanitized_text or query\<close>.\<close>

definition safe_query :: "guard_verdict \<Rightarrow> string \<Rightarrow> string" where
  "safe_query g query = (case gv_sanitized g of None \<Rightarrow> query | Some t \<Rightarrow> if t = [] then query else t)"

definition task_blocked ::
  "'w env \<Rightarrow> create_task_request \<Rightarrow> guard_verdict \<Rightarrow> injection_finding \<Rightarrow> 'w sys \<Rightarrow> reply \<times> 'w sys"
where
  "task_blocked env req g f s =
     (let (h, s1) = sys_fresh env s;
          tid = uuid_text h; query = safe_query g (ct_query req);
          s2 = sys_trace env ''prompt_injection_blocked'' tid
            [(''query'', JStr query), (''severity'', JStr (if_severity f)), (''reason'', JStr (if_reason f)),
             (''matched_patterns'', jstrs (if_matched f)), (''mode'', JStr (ct_mode req))] s1;
          s3 = sys_audit env (audit_proto ''prompt_injection_blocked'' (Some tid) None None ''create_task'' ''blocked''
            (Some (if_reason f)) (Some (if_severity f))
            [(''matched_patterns'', jstrs (if_matched f)), (''mode'', JStr (ct_mode req)), (''query'', JStr query),
             (''guardrails'', JObj (verdict_dump g))]) s2
      in (task_response tid query TFailed
            (JObj [(''error_type'', JStr ''prompt_injection_blocked''), (''injection_finding'', JObj (finding_dict f)),
               (''guardrails'', JObj [(''input'', JObj (verdict_dump g))])]) None None, s3))"

type_synonym saver = "task_run \<Rightarrow> string \<Rightarrow> task_row list \<Rightarrow> string + task_row list"

definition sqlite_saver :: saver where
  "sqlite_saver t mode rows = Inr (save_task t (Some mode) rows)"

definition store_task :: "saver \<Rightarrow> 'w env \<Rightarrow> task_run \<Rightarrow> string \<Rightarrow> 'w sys \<Rightarrow> string option \<times> 'w sys" where
  "store_task save env t mode s =
     (case save t mode (sy_tasks s) of
        Inr rows \<Rightarrow> (None, s\<lparr>sy_tasks := rows\<rparr>)
      | Inl e \<Rightarrow> (Some e, sys_trace env ''task_persist_failed'' (tk_id t) [(''error'', JStr e)] s))"

definition create_task ::
  "unicode \<Rightarrow> 'w env \<Rightarrow> 'w kernel \<Rightarrow> saver \<Rightarrow> create_task_request \<Rightarrow> 'w sys \<Rightarrow> reply \<times> 'w sys"
where
  "create_task u env kn save req s =
     (let g = check_input u (ct_query req); f = check_text u (ct_query req)
      in if if_action f = ''block'' then task_blocked env req g f s
         else
           (let (h, s1) = sys_fresh env s;
                t = new_task (uuid_text h) (safe_query g (ct_query req)) (sys_now env s1)
            in case run_with_options env kn (ct_mode req) (task_options req)
                  (Some (case ct_session_id req of None \<Rightarrow> tk_id t | Some sid \<Rightarrow> if sid = [] then tk_id t else sid)) (t, s1) of
                 (Inl e, (t', s2)) \<Rightarrow> (server_error, s2)
               | (Inr _, (t', s2)) \<Rightarrow>
                   (case store_task save env t' (ct_mode req) s2 of
                      (persistence, s3) \<Rightarrow>
                        (task_response (tk_id t') (tk_query t') (tk_status t') (tk_result t') (tk_error t') persistence, s3))))"

subsection \<open>Reading tasks\<close>

definition get_tasks :: "int \<Rightarrow> 'w sys \<Rightarrow> reply \<times> 'w sys" where
  "get_tasks limit s = (Inr (JList (map (JObj \<circ> task_dict) (tk_list limit (sy_tasks s)))), s)"

definition get_task :: "string \<Rightarrow> 'w sys \<Rightarrow> reply \<times> 'w sys" where
  "get_task tid s =
     ((case tk_get tid (sy_tasks s) of
         None \<Rightarrow> Inl (404, ax_task_missing tid) | Some row \<Rightarrow> Inr (JObj (task_dict row))), s)"

definition trace_event_dict :: "audit_event \<Rightarrow> jdict" where
  "trace_event_dict e =
     [(''event_id'', JStr (ev_event_id e)), (''event_type'', JStr (ev_event_type e)), (''actor'', JStr (ev_actor e)),
      (''detail'', JObj (ev_detail e)), (''timestamp'', JStr (ev_timestamp e))]"

definition get_task_trace :: "string \<Rightarrow> 'w sys \<Rightarrow> reply \<times> 'w sys" where
  "get_task_trace tid s =
     (Inr (JObj [(''task_id'', JStr tid),
        (''events'', JList (map (JObj \<circ> trace_event_dict) (trace_get (Some tid) None (sy_trace s))))]), s)"

subsection \<open>Tools\<close>

definition tool_info :: "tool_spec \<Rightarrow> jdict" where
  "tool_info t =
     [(''tool_name'', JStr (sp_tool_name t)), (''description'', JStr (sp_description t)),
      (''source'', JStr (sp_source t)), (''server_name'', opt_str (sp_server_name t)),
      (''risk_level'', JStr (risk_level_value (sp_risk_level t))), (''permission_scope'', JStr (sp_permission_scope t))]"

definition list_gateway_tools :: "'w gateway \<Rightarrow> 'w sys \<Rightarrow> reply \<times> 'w sys" where
  "list_gateway_tools g s = (Inr (JList (map (JObj \<circ> tool_info) (gw_list_tools g))), s)"

text \<open>\<open>ToolCallResponse\<close>: an error that is no text does not fit it.\<close>

definition tool_response :: "tool_call_record \<Rightarrow> reply" where
  "tool_response r =
     (if (case cr_error r of JNull \<Rightarrow> True | JStr e \<Rightarrow> True | _ \<Rightarrow> False)
      then Inr (JObj [(''call_id'', JStr (cr_call_id r)), (''tool_name'', JStr (cr_tool_name r)),
        (''arguments'', JObj (cr_arguments r)), (''result'', cr_result r),
        (''status'', JStr (tool_call_status_value (cr_status r))), (''success'', JBool (cr_success r)),
        (''latency_ms'', JFloat (cr_latency_ms r)), (''error'', cr_error r)])
      else server_error)"

definition refused_tool_call :: "'w env \<Rightarrow> string \<Rightarrow> jdict \<Rightarrow> string \<Rightarrow> 'w sys \<Rightarrow> tool_call_record \<times> 'w sys" where
  "refused_tool_call env tool args why s =
     (let (h, s1) = sys_fresh env s
      in ((new_call_record (uuid_text h) tool args (sys_now env s1))
            \<lparr>cr_status := CFailed, cr_success := False, cr_error := JStr why\<rparr>, s1))"

definition api_call_tool ::
  "'w env \<Rightarrow> 'w gateway \<Rightarrow> policy_engine \<Rightarrow> string \<Rightarrow> jdict \<Rightarrow> 'w sys \<Rightarrow> reply \<times> 'w sys"
where
  "api_call_tool env g pe tool args s =
     (case (case gw_get_tool g tool of
              None \<Rightarrow> refused_tool_call env tool args (tx_tool_unregistered tool) s
            | Some spec \<Rightarrow>
                (let d = pe_evaluate pe tool (Some (sp_risk_level spec)) None
                 in if \<not> pd_allowed d then refused_tool_call env tool args (pd_reason d) s
                    else gw_call env g tool args [] s)) of
        (r, s') \<Rightarrow> (tool_response r, s'))"

subsection \<open>The audit log\<close>

definition audit_dict :: "audit_event \<Rightarrow> jdict" where
  "audit_dict e =
     [(''event_id'', JStr (ev_event_id e)), (''event_type'', JStr (ev_event_type e)),
      (''timestamp'', JStr (ev_timestamp e)), (''actor'', JStr (ev_actor e)), (''task_id'', opt_str (ev_task_id e)),
      (''approval_id'', opt_str (ev_approval_id e)), (''tool_name'', opt_str (ev_tool_name e)),
      (''action'', JStr (ev_action e)), (''outcome'', JStr (ev_outcome e)), (''reason'', opt_str (ev_reason e)),
      (''severity'', opt_str (ev_severity e)), (''detail'', JObj (ev_detail e))]"

definition list_audit_events :: "(string \<Rightarrow> bool) \<Rightarrow> audit_query \<Rightarrow> int \<Rightarrow> 'w sys \<Rightarrow> reply \<times> 'w sys" where
  "list_audit_events valid_iso q limit s =
     (Inr (JList (map (JObj \<circ> audit_dict) (audit_query_events valid_iso q limit (sy_audit s)))), s)"

definition get_audit_event :: "string \<Rightarrow> 'w sys \<Rightarrow> reply \<times> 'w sys" where
  "get_audit_event eid s =
     (Inr (JObj (case audit_get eid (sy_audit s) of
        None \<Rightarrow> [(''error'', JStr (ax_event_missing eid))] | Some e \<Rightarrow> audit_dict e)), s)"

text \<open>\<open>(x or default).strip().lower()\<close>.\<close>

definition plain_word :: "unicode \<Rightarrow> string \<Rightarrow> string" where
  "plain_word u s = concat (u_lower u (u_strip u (py_chars s)))"

definition capped_limit :: "settings \<Rightarrow> int \<Rightarrow> int" where
  "capped_limit cfg limit =
     min limit (if st_audit_export_max_rows cfg = 0 then 1000 else st_audit_export_max_rows cfg)"

fun export_lines ::
  "unicode \<Rightarrow> (string \<Rightarrow> bool) \<Rightarrow> 'w env \<Rightarrow> audit_event list \<Rightarrow> string + jdict list"
where
  "export_lines u fine env [] = Inr []"
| "export_lines u fine env (e # es) =
     (case sanitize_audit_event_for_export u fine env True (audit_dict e) of
        Inl err \<Rightarrow> Inl err
      | Inr d \<Rightarrow> (case export_lines u fine env es of Inl err \<Rightarrow> Inl err | Inr ds \<Rightarrow> Inr (d # ds)))"

text \<open>The export, as the list of the dicts of its lines; \<open>json.dumps\<close> of each, joined by line ends, is the answer.\<close>

definition export_audit_events ::
  "settings \<Rightarrow> unicode \<Rightarrow> (string \<Rightarrow> bool) \<Rightarrow> 'w env \<Rightarrow> (string \<Rightarrow> bool) \<Rightarrow> audit_query \<Rightarrow> int \<Rightarrow> string \<Rightarrow> 'w sys \<Rightarrow>
     (nat \<times> string) + jdict list"
where
  "export_audit_events cfg u fine env valid_iso q limit fmt s =
     (if limit < 1 then Inl (422, ''Unprocessable Entity'')
      else if \<not> st_audit_export_enabled cfg then Inl (403, ''audit_export_disabled'')
      else if \<not> st_audit_export_redaction_enabled cfg then Inl (403, ''audit_export_redaction_required'')
      else if plain_word u fmt \<noteq> ''jsonl'' \<or>
         plain_word u (if st_audit_export_format cfg = [] then ''jsonl'' else st_audit_export_format cfg) \<noteq> ''jsonl''
      then Inl (400, ''unsupported_export_format'')
      else
        (case export_lines u fine env
            (audit_query_events valid_iso
               (q\<lparr>aq_actor := None, aq_approval_id := None, aq_start_time := None, aq_end_time := None\<rparr>)
               (capped_limit cfg limit) (sy_audit s)) of
           Inl e \<Rightarrow> Inl (500, ''Internal Server Error'')
         | Inr ds \<Rightarrow> Inr ds))"

subsection \<open>What the handlers promise\<close>

text \<open>
  An injected query runs nothing: when the injection guard blocks a query, the answer is the same for
  every kernel and every store, no request, task, checkpoint, metric or message is stored, and the answer says the
  task failed.
\<close>

lemma blocked_query_runs_nothing:
  assumes "if_action (check_text u (ct_query req)) = ''block''"
  shows "\<exists>out s'. create_task u env kn save req s = (Inr (JObj out), s') \<and>
     create_task u env kn' save' req s = (Inr (JObj out), s') \<and> dget out ''status'' = JStr ''failed'' \<and>
     sy_tasks s' = sy_tasks s \<and> sy_approvals s' = sy_approvals s \<and> sy_ckpts s' = sy_ckpts s \<and>
     sy_metrics s' = sy_metrics s \<and> sy_memory s' = sy_memory s"
  using assms by (simp add: create_task_def task_blocked_def task_response_def Let_def case_prod_unfold)

text \<open>
  C14. What was created can be read: after a task was run and stored, reading it by the identifier of the
  answer gives the answer's identifier, query, status and error, the mode that was asked for, and its result
  when that is not empty.
\<close>

theorem created_task_is_served:
  assumes "if_action (check_text u (ct_query req)) \<noteq> ''block''"
    and "create_task u env kn sqlite_saver req s = (Inr (JObj out), s')"
  shows "\<exists>tid row. dget out ''task_id'' = JStr tid \<and> fst (get_task tid s') = Inr (JObj row) \<and>
     list_all (\<lambda>k. dget row k = dget out k) [''task_id'', ''query'', ''status'', ''error''] \<and>
     dget row ''mode'' = JStr (ct_mode req) \<and>
     dget row ''result'' = (if truthy (dget out ''result'') then dget out ''result'' else JNull)"
proof -
  obtain h s1 where fresh: "sys_fresh env s = (h, s1)" by (cases "sys_fresh env s")
  define t where "t = new_task (uuid_text h) (safe_query (check_input u (ct_query req)) (ct_query req)) (sys_now env s1)"
  define run where "run = run_with_options env kn (ct_mode req) (task_options req)
    (Some (case ct_session_id req of None \<Rightarrow> tk_id t | Some sid \<Rightarrow> if sid = [] then tk_id t else sid)) (t, s1)"
  obtain r t' s2 where r: "run = (r, (t', s2))" by (metis surj_pair)
  have "(case run of
      (Inl e, (t', s2)) \<Rightarrow> (server_error, s2)
    | (Inr _, (t', s2)) \<Rightarrow> (case store_task sqlite_saver env t' (ct_mode req) s2 of
          (persistence, s3) \<Rightarrow>
            (task_response (tk_id t') (tk_query t') (tk_status t') (tk_result t') (tk_error t') persistence, s3))) =
      (Inr (JObj out), s')"
    unfolding run_def t_def using assms by (simp add: create_task_def fresh Let_def)
  then have out: "task_response (tk_id t') (tk_query t') (tk_status t') (tk_result t') (tk_error t') None = Inr (JObj out)"
    and s': "sy_tasks s' = save_task t' (Some (ct_mode req)) (sy_tasks s2)"
    by (auto simp: r store_task_def sqlite_saver_def server_error_def split: sum.splits)
  have "tk_get (tk_id t') (sy_tasks s') = Some (task_row_of t' (Some (ct_mode req)))"
    by (simp add: s' tk_get_save)
  then show ?thesis
    using out by (auto simp: get_task_def task_response_def task_dict_def task_row_of_def server_error_def or_dict_def
        split: if_splits json.splits)
qed

definition is_answer :: "reply \<Rightarrow> bool" where
  "is_answer ans = (case ans of Inr (JObj d) \<Rightarrow> True | _ \<Rightarrow> False)"

definition demo_kernel :: "nat kernel" where
  "demo_kernel = runtime_kernel demo_env promo_gateway (gw_call demo_env promo_gateway) demo_cfg"

definition demo_request :: create_task_request where
  "demo_request = (new_create_task [])\<lparr>ct_mode := ''nl2sql'', ct_session_id := Some ''s''\<rparr>"

lemma demo_unmasked: "gv_sanitized (check_input demo_unicode []) = None"
  by code_simp

lemma demo_fresh_state: "snd (sys_fresh demo_env (sys_init 0)) = sys_init 1"
  by code_simp

lemma demo_run:
  "case tk_result (fst (snd (run_with_options demo_env demo_kernel ''nl2sql'' demo_opts (Some ''s'')
      (new_task (uuid_text (fst (sys_fresh demo_env (sys_init 0)))) [] (sys_now demo_env (sys_init 1)), sys_init 1)))) of
     JObj d \<Rightarrow> True | _ \<Rightarrow> False"
  by code_simp

lemma demo_request_parts:
  "ct_query demo_request = []" "ct_mode demo_request = ''nl2sql''" "ct_session_id demo_request = Some ''s''"
  "task_options demo_request = demo_opts"
  by (simp_all add: demo_request_def new_create_task_def task_options_def demo_opts_def)

lemma nl2sql_mode_returns: "\<exists>q. run_with_options env kn ''nl2sql'' opts session p = (Inr (), q)"
  by (simp add: run_with_options_def Let_def)

theorem created_task_is_served_witness:
  "\<exists>tid row out s'. create_task demo_unicode demo_env demo_kernel sqlite_saver demo_request (sys_init 0) = (Inr (JObj out), s') \<and>
     fst (get_task tid s') = Inr (JObj row) \<and> dget row ''mode'' = JStr ''nl2sql''"
proof -
  let ?run = "create_task demo_unicode demo_env demo_kernel sqlite_saver demo_request (sys_init 0)"
  obtain t' s1 where q: "run_with_options demo_env demo_kernel ''nl2sql'' demo_opts (Some ''s'')
      (new_task (uuid_text (fst (sys_fresh demo_env (sys_init 0)))) [] (sys_now demo_env (sys_init 1)), sys_init 1) =
      (Inr (), (t', s1))"
    using nl2sql_mode_returns by (metis surj_pair)
  have "case tk_result t' of JObj d \<Rightarrow> True | _ \<Rightarrow> False" using demo_run by (simp add: q del: One_nat_def)
  then have "is_answer (fst ?run)"
    by (auto simp: create_task_def demo_request_parts check_text_def no_injection_def demo_unmasked safe_query_def
        case_prod_unfold demo_fresh_state q store_task_def sqlite_saver_def task_response_def is_answer_def
        simp del: One_nat_def split: json.splits)
  then obtain out s' where run: "?run = (Inr (JObj out), s')"
    by (cases ?run) (auto simp: is_answer_def split: sum.splits json.splits)
  have "if_action (check_text demo_unicode (ct_query demo_request)) \<noteq> ''block''"
    by (simp add: demo_request_def new_create_task_def check_text_def no_injection_def Let_def)
  from created_task_is_served [OF this run] run show ?thesis by (auto simp: demo_request_def)
qed

text \<open>
  A tool is called over HTTP only when it is registered, its risk is not high and its scope is not one the
  whitelist keeps back; otherwise the call draws an identifier and changes nothing else.
\<close>

lemma http_tool_obeys_policy:
  "(\<exists>spec. gw_get_tool g tool = Some spec \<and> sp_risk_level spec \<noteq> RHigh \<and>
      sp_permission_scope spec \<notin> set restricted_scopes) \<or>
   snd (api_call_tool env g (runtime_policy g) tool args s) = snd (sys_fresh env s)"
  using runtime_policy_cases(1) [of g tool]
  by (cases "gw_get_tool g tool") (auto simp: api_call_tool_def refused_tool_call_def Let_def case_prod_unfold)

subsection \<open>What an export shows\<close>

definition line_safe :: "unicode \<Rightarrow> audit_event \<Rightarrow> jdict \<Rightarrow> bool" where
  "line_safe u e d \<longleftrightarrow> map fst d = AUDIT_EXPORT_FIELD_WHITELIST \<and>
     (\<exists>x. dget d ''detail_redacted'' = JObj x \<and>
        (flat_lists (JObj (ev_detail e)) \<longrightarrow> under (prompt_key u) prompt_mark (JObj x)))"

lemma export_lines_safe: "export_lines u fine env es = Inr ds \<Longrightarrow> list_all2 (line_safe u) es ds"
proof (induction es arbitrary: ds)
  case (Cons e es)
  then obtain d ds' where d: "sanitize_audit_event_for_export u fine env True (audit_dict e) = Inr d"
    "export_lines u fine env es = Inr ds'" "ds = d # ds'"
    by (auto split: sum.splits)
  have "dget (audit_dict e) ''detail'' = JObj (ev_detail e)" by (simp add: audit_dict_def)
  with export_hides_prompts [OF d(1)] Cons.IH [OF d(2)] d(3) show ?case by (simp add: line_safe_def)
qed simp

lemma audit_query_mem: "e \<in> set (audit_query_events valid_iso q limit es) \<Longrightarrow> e \<in> set es"
  by (auto simp: audit_query_events_def dest!: in_set_takeD)

text \<open>
  C15. The export of the audit log is redacted and bounded: it answers only while exports and their redaction
  are switched on, with no more lines than the settings allow (1000 where they allow none), every line
  holding exactly the fields of the whitelist. While no recorded detail has a list directly inside a list, no
  prompt is exported: in every line's detail, at any depth, every value under a key that names a prompt is a
  placeholder. (The sanitising does not look into lists of lists: \<open>nested_list_prompt_leaks\<close>.)
\<close>

theorem audit_export_is_safe:
  assumes "export_audit_events cfg u fine env valid_iso q limit fmt s = Inr ds"
  shows "st_audit_export_enabled cfg \<and> st_audit_export_redaction_enabled cfg \<and>
    int (length ds) \<le> (if 0 < st_audit_export_max_rows cfg then st_audit_export_max_rows cfg else 1000) \<and>
    list_all (\<lambda>d. map fst d = AUDIT_EXPORT_FIELD_WHITELIST) ds \<and>
    (list_all (\<lambda>e. flat_lists (JObj (ev_detail e))) (sy_audit s) \<longrightarrow>
      list_all (\<lambda>d. \<exists>x. dget d ''detail_redacted'' = JObj x \<and> under (prompt_key u) prompt_mark (JObj x)) ds)"
proof -
  define rows where "rows = audit_query_events valid_iso
    (q\<lparr>aq_actor := None, aq_approval_id := None, aq_start_time := None, aq_end_time := None\<rparr>) (capped_limit cfg limit) (sy_audit s)"
  have lines: "export_lines u fine env rows = Inr ds" and on: "st_audit_export_enabled cfg" "st_audit_export_redaction_enabled cfg"
    and "1 \<le> limit"
    using assms by (auto simp: export_audit_events_def rows_def split: if_splits sum.splits)
  note safe = export_lines_safe [OF lines]
  have "length rows \<le> clamp_limit 100 10000 (capped_limit cfg limit)"
    by (simp add: rows_def audit_query_events_def)
  moreover have "int (clamp_limit 100 10000 (capped_limit cfg limit)) \<le>
      (if 0 < st_audit_export_max_rows cfg then st_audit_export_max_rows cfg else 1000)"
    using \<open>1 \<le> limit\<close> by (auto simp: clamp_limit_def capped_limit_def)
  moreover have "length ds = length rows" using list_all2_lengthD [OF safe] by simp
  moreover have "list_all (\<lambda>e. flat_lists (JObj (ev_detail e))) rows"
    if "list_all (\<lambda>e. flat_lists (JObj (ev_detail e))) (sy_audit s)"
    using that audit_query_mem by (fastforce simp: list_all_iff rows_def)
  ultimately show ?thesis
    using safe on by (auto simp: list_all_length list_all2_conv_all_nth line_safe_def)
qed

definition demo_audited :: "nat sys" where
  "demo_audited = sys_audit demo_env (audit_proto ''prompt_injection_blocked'' None None None ''nl2sql_preview'' ''blocked''
     None None [(''rows'', JList [JObj [(''query'', JStr ''drop table'')]])]) (sys_init 0)"

definition every_event :: audit_query where
  "every_event = \<lparr>aq_event_type = None, aq_actor = None, aq_task_id = None, aq_approval_id = None, aq_outcome = None,
     aq_severity = None, aq_start_time = None, aq_end_time = None\<rparr>"

definition export_settings :: settings where
  "export_settings = default_settings\<lparr>st_audit_export_enabled := True, st_audit_export_redaction_enabled := True\<rparr>"

theorem audit_export_is_safe_witness:
  "\<exists>d. export_audit_events export_settings demo_unicode (\<lambda>_. True) demo_env (\<lambda>_. True) every_event 10 ''jsonl'' demo_audited =
     Inr [d] \<and> (\<exists>x. dget d ''detail_redacted'' = JObj x \<and> under (prompt_key demo_unicode) prompt_mark (JObj x))"
proof -
  obtain ds where ds: "export_audit_events export_settings demo_unicode (\<lambda>_. True) demo_env (\<lambda>_. True) every_event 10
      ''jsonl'' demo_audited = Inr ds" "length ds = 1"
    by (rule that, code_simp, code_simp)
  have "list_all (\<lambda>e. flat_lists (JObj (ev_detail e))) (sy_audit demo_audited)" by code_simp
  with audit_export_is_safe [OF ds(1)] ds show ?thesis by (cases ds) auto
qed

end
