(* ===== verification/Api_Nl2sql.thy ===== *)
theory Api_Nl2sql
  imports Api_Tasks Pilot_Smoke
begin

text \<open>
  The handlers of \<open>/nl2sql\<close> (\<open>app/api/nl2sql.py\<close>): preview, execution, the stream of an execution and the run
  of the evaluation. A question goes through the input guard and the injection guard, is answered by the
  pipeline, and leaves an acceptance event in the audit log. \<open>json.dumps\<close> of an event of the stream is a
  parameter; the events are modelled as a client sees them that stays until the end.
\<close>

subsection \<open>The acceptance event\<close>

definition acceptance_detail :: "jdict \<Rightarrow> jdict" where
  "acceptance_detail m =
     (let txt = (\<lambda>k. (k, dget_or m k (JStr []))); flag = (\<lambda>k. (k, JBool (truthy (dget m k))));
          count = (\<lambda>k. (k, JInt (int_of (dget m k)))); num = (\<lambda>k. (k, JFloat (rat_of (dget m k))))
      in [txt ''request_id'', txt ''provider'', txt ''model'', flag ''real_call_attempted'', flag ''real_call_succeeded'',
          flag ''fallback_used'', txt ''fallback_reason'', txt ''budget_action'', flag ''cache_hit'',
          count ''prompt_tokens'', count ''completion_tokens'', count ''total_tokens'', num ''cost'', num ''latency_ms'',
          txt ''error_type'', (''warnings'', JList (or_list (dget m ''warnings'')))])"

definition acceptance_outcome :: "jdict \<Rightarrow> string" where
  "acceptance_outcome m =
     (if truthy (dget m ''error_type'') then ''error''
      else if truthy (dget m ''real_call_succeeded'') then ''success'' else ''fallback'')"

definition record_acceptance_event :: "'w env \<Rightarrow> string \<Rightarrow> jdict \<Rightarrow> 'w sys \<Rightarrow> jdict \<times> 'w sys" where
  "record_acceptance_event env action payload s =
     (let m = or_dict (dget payload ''acceptance_summary'')
      in if m = [] \<or>
           or_str (dget payload ''generator_used'') \<notin> {''llm'', ''mock_fallback''} \<and>
           or_str (dget payload ''provider_used'') \<notin> {''litellm'', ''fake'', ''mock''}
         then (payload, s)
         else
           (let detail = acceptance_detail m;
                why = or_str (first_of [dget m ''fallback_reason'', dget m ''error_type''] (JStr []))
            in case record_event env (audit_proto ''llm_acceptance'' None None None action (acceptance_outcome m)
                   (Some why) (Some ''info'') detail) s of
                 (None, s1) \<Rightarrow> (payload, s1)
               | (Some e, s1) \<Rightarrow>
                   (dput payload ''evidence_links''
                      (JObj [(''audit_event_id'', JStr (ev_event_id e)), (''audit_event_type'', JStr (ev_event_type e)),
                         (''log_request_id'', dget detail ''request_id'')]), s1)))"

subsection \<open>Requests and answers\<close>

record sql_request =
  rq_query :: string
  rq_generator :: string
  rq_provider :: "string option"
  rq_fallback_to_mock :: bool

definition new_sql_request :: "string \<Rightarrow> sql_request" where
  "new_sql_request query =
     \<lparr>rq_query = query, rq_generator = ''mock'', rq_provider = None, rq_fallback_to_mock = True\<rparr>"

definition sql_options :: "sql_request \<Rightarrow> nl2sql_opts" where
  "sql_options req =
     \<lparr>no_generator = rq_generator req, no_provider = rq_provider req, no_fallback_to_mock = rq_fallback_to_mock req\<rparr>"

definition merged_guardrails :: "guard_verdict \<Rightarrow> jdict \<Rightarrow> json" where
  "merged_guardrails g result =
     JObj (dupd [(''input'', JObj (verdict_dump g))] (or_dict (dget result ''guardrails'')))"

text \<open>The fields a response copies from the dict of the pipeline.\<close>

definition copied :: "jdict \<Rightarrow> string list \<Rightarrow> jdict" where
  "copied result ks = map (\<lambda>k. (k, dget result k)) ks"

definition head_fields :: "string list" where
  "head_fields = [''sql'', ''guard_allowed'', ''guard_reason'', ''reasoning'', ''confidence'', ''generator_used'',
     ''provider_used'', ''fallback_used'', ''fallback_reason'', ''warnings'']"

definition tail_fields :: "string list" where
  "tail_fields = [''provider_metadata'', ''budget_status'', ''acceptance_summary'', ''evidence_links'']"

definition preview_response :: "guard_verdict \<Rightarrow> jdict \<Rightarrow> jdict" where
  "preview_response g result =
     copied result [''selected_tables'', ''fallback''] @ copied result head_fields @
     [(''guardrails'', merged_guardrails g result)] @ copied result tail_fields"

definition execute_response :: "guard_verdict \<Rightarrow> jdict \<Rightarrow> jdict" where
  "execute_response g result =
     copied result [''selected_tables''] @ [(''fallback'', JBool (\<not> truthy (dget result ''guard_allowed'')))] @
     copied result head_fields @ copied result [''execution'', ''formatted_result'', ''chart_spec''] @
     [(''guardrails'', merged_guardrails g result)] @ copied result tail_fields"

text \<open>The answer to an injected question; the fields of an execution are there for \<open>/execute\<close> and \<open>/stream\<close>.\<close>

definition blocked_response :: "bool \<Rightarrow> guard_verdict \<Rightarrow> injection_finding \<Rightarrow> jdict" where
  "blocked_response execution g f =
     [(''selected_tables'', JList []), (''fallback'', JBool False), (''sql'', JStr []), (''guard_allowed'', JBool False),
      (''guard_reason'', JStr (''prompt injection blocked: '' @ if_reason f)), (''reasoning'', JStr (if_reason f)),
      (''confidence'', JFloat 0), (''generator_used'', JStr ''none''), (''provider_used'', JNull),
      (''fallback_used'', JBool False), (''fallback_reason'', JNull),
      (''warnings'', jstrs [''prompt_injection_blocked: '' @ if_reason f])] @
     (if execution then [(''execution'', JNull), (''formatted_result'', JNull), (''chart_spec'', JNull)] else []) @
     [(''guardrails'', JObj [(''input'', JObj (verdict_dump g))])] @ map (\<lambda>k. (k, JNull)) tail_fields"

definition injection_event :: "'w env \<Rightarrow> string \<Rightarrow> guard_verdict \<Rightarrow> sql_request \<Rightarrow> injection_finding \<Rightarrow> 'w sys \<Rightarrow> 'w sys" where
  "injection_event env action g req f =
     sys_audit env (audit_proto ''prompt_injection_blocked'' None None None action ''blocked'' (Some (if_reason f))
       (Some (if_severity f))
       [(''query'', JStr (safe_query g (rq_query req))), (''matched_patterns'', jstrs (if_matched f))])"

subsection \<open>Preview and execution\<close>

definition preview_nl2sql ::
  "unicode \<Rightarrow> 'w env \<Rightarrow> 'w sql_pipeline \<Rightarrow> sql_request \<Rightarrow> 'w sys \<Rightarrow> reply \<times> 'w sys"
where
  "preview_nl2sql u env pl req s =
     (let g = check_input u (rq_query req); f = check_text u (rq_query req)
      in if if_action f = ''block''
         then (Inr (JObj (blocked_response False g f)), injection_event env ''nl2sql_preview'' g req f s)
         else
           (case sql_preview env pl (safe_query g (rq_query req)) (sql_options req) s of
              (Inl e, s1) \<Rightarrow> (server_error, s1)
            | (Inr (out, v), s1) \<Rightarrow>
                (case record_acceptance_event env ''nl2sql_preview'' (preview_dict out v) s1 of
                   (result, s2) \<Rightarrow> (Inr (JObj (preview_response g result)), s2))))"

definition execute_result ::
  "'w env \<Rightarrow> 'w sql_pipeline \<Rightarrow> sql_request \<Rightarrow> guard_verdict \<Rightarrow> string \<Rightarrow> 'w sys \<Rightarrow> (string + jdict) \<times> 'w sys"
where
  "execute_result env pl req g action s =
     (case sql_pipeline_run env pl (safe_query g (rq_query req)) (sql_options req) s of
        (Inl e, s1) \<Rightarrow> (Inl e, s1)
      | (Inr result, s1) \<Rightarrow>
          (case record_acceptance_event env action result s1 of
             (result', s2) \<Rightarrow> (Inr (execute_response g result'), s2)))"

definition api_execute_nl2sql ::
  "unicode \<Rightarrow> 'w env \<Rightarrow> 'w sql_pipeline \<Rightarrow> sql_request \<Rightarrow> 'w sys \<Rightarrow> reply \<times> 'w sys"
where
  "api_execute_nl2sql u env pl req s =
     (let g = check_input u (rq_query req); f = check_text u (rq_query req)
      in if if_action f = ''block''
         then (Inr (JObj (blocked_response True g f)), injection_event env ''nl2sql_execute'' g req f s)
         else
           (case execute_result env pl req g ''nl2sql_execute'' s of
              (Inl e, s1) \<Rightarrow> (server_error, s1) | (Inr d, s1) \<Rightarrow> (Inr (JObj d), s1)))"

subsection \<open>The stream\<close>

definition sse_event :: "(json \<Rightarrow> string) \<Rightarrow> string \<times> jdict \<Rightarrow> string" where
  "sse_event dumps e =
     ''event: '' @ fst e @ utf8 [10] @ ''data: '' @ dumps (JObj (snd e)) @ utf8 [10, 10]"

function chunks :: "nat \<Rightarrow> 'a list \<Rightarrow> 'a list list" where
  "chunks n xs = (if xs = [] then [] else take (max 1 n) xs # chunks n (drop (max 1 n) xs))"
  by auto

termination chunks
  by (relation "measure (\<lambda>(n, xs). length xs)") auto

declare chunks.simps [simp del]

definition iter_sql_chunks :: "settings \<Rightarrow> string \<Rightarrow> string list" where
  "iter_sql_chunks cfg sql = map concat (chunks (nat (st_llm_stream_chunk_chars cfg)) (py_chars sql))"

definition guard_event :: "jdict \<Rightarrow> string \<times> jdict" where
  "guard_event d = (''guard'', [(''allowed'', dget d ''guard_allowed''), (''reason'', dget d ''guard_reason'')])"

definition stream_opening :: "sql_request \<Rightarrow> (string \<times> jdict) list" where
  "stream_opening req =
     [(''stage'', [(''stage'', JStr ''schema_loaded'')]),
      (''stage'', [(''stage'', JStr ''generating''), (''generator'', JStr (rq_generator req)),
         (''provider'', JStr (case rq_provider req of None \<Rightarrow> [] | Some p \<Rightarrow> p))])]"

definition stream_closing :: "settings \<Rightarrow> jdict \<Rightarrow> (string \<times> jdict) list" where
  "stream_closing cfg d =
     map (\<lambda>c. (''sql_delta'', [(''delta'', JStr c)])) (iter_sql_chunks cfg (or_str (dget d ''sql''))) @
     [guard_event d,
      (''execution'', if truthy (dget d ''execution'') then or_dict (dget d ''execution'')
         else [(''success'', JBool False), (''error'', dget d ''guard_reason'')]),
      (''done'', d)]"

definition stream_events ::
  "settings \<Rightarrow> unicode \<Rightarrow> 'w env \<Rightarrow> 'w sql_pipeline \<Rightarrow> sql_request \<Rightarrow> 'w sys \<Rightarrow> (string \<times> jdict) list \<times> 'w sys"
where
  "stream_events cfg u env pl req s =
     (let g = check_input u (rq_query req); f = check_text u (rq_query req)
      in if if_action f = ''block''
         then (let d = blocked_response True g f
               in ([(''guard'', [(''allowed'', JBool False), (''reason'', dget d ''guard_reason'')]), (''done'', d)],
                   injection_event env ''nl2sql_stream'' g req f s))
         else
           (case execute_result env pl req g ''nl2sql_stream'' s of
              (Inl e, s1) \<Rightarrow> (stream_opening req @ [(''error'', [(''reason'', JStr e)])], s1)
            | (Inr d, s1) \<Rightarrow> (stream_opening req @ stream_closing cfg d, s1)))"

definition stream_nl2sql ::
  "settings \<Rightarrow> (json \<Rightarrow> string) \<Rightarrow> unicode \<Rightarrow> 'w env \<Rightarrow> 'w sql_pipeline \<Rightarrow> sql_request \<Rightarrow> 'w sys \<Rightarrow>
     ((nat \<times> string) + string) \<times> 'w sys"
where
  "stream_nl2sql cfg dumps u env pl req s =
     (if \<not> st_nl2sql_stream_enabled cfg then (Inl (404, ''nl2sql stream disabled''), s)
      else (case stream_events cfg u env pl req s of (es, s1) \<Rightarrow> (Inr (concat (map (sse_event dumps) es)), s1)))"

subsection \<open>The evaluation\<close>

definition failure_dump :: "nl_failure \<Rightarrow> jdict" where
  "failure_dump f =
     [(''case_id'', JStr (nf_case_id f)), (''input'', JStr (nf_input f)), (''reason'', JStr (nf_reason f))]"

definition eval_response :: "nl_stats \<Rightarrow> jdict" where
  "eval_response st =
     [(''total'', JInt (int (ns_total st))), (''passed'', JInt (int (ns_passed st))), (''failed'', JInt (int (ns_failed st))),
      (''accuracy'', JFloat (ns_accuracy st)), (''generator_used'', JStr (ns_generator st)),
      (''provider_used'', opt_str (ns_provider st)), (''fallback_count'', JInt (int (ns_fallbacks st))),
      (''execution_passed'', JInt (int (ns_exec_passed st))), (''execution_failed'', JInt (int (ns_exec_failed st))),
      (''failures'', JList (map (JObj \<circ> failure_dump) (ns_failures st)))]"

definition refused_eval :: "string \<Rightarrow> string option \<Rightarrow> string \<Rightarrow> nl_stats" where
  "refused_eval generator provider why =
     \<lparr>ns_total = 0, ns_passed = 0, ns_failed = 0, ns_accuracy = 0,
      ns_failures = [\<lparr>nf_case_id = ''__provider_error__'', nf_input = [], nf_reason = why\<rparr>], ns_generator = generator,
      ns_provider = provider, ns_fallbacks = 0, ns_exec_passed = 0, ns_exec_failed = 0\<rparr>"

definition run_nl2sql_eval ::
  "'w env \<Rightarrow> 'w sql_pipeline \<Rightarrow> (string option \<Rightarrow> 'w \<Rightarrow> (string + schema_table list) \<times> 'w) \<Rightarrow> nl_case list \<Rightarrow>
     string \<Rightarrow> string option \<Rightarrow> bool \<Rightarrow> bool \<Rightarrow> 'w sys \<Rightarrow> reply \<times> 'w sys"
where
  "run_nl2sql_eval env pl extract cases generator provider fallback execute s =
     (case create_generator pl generator provider fallback of
        Inl (kind, why) \<Rightarrow> (Inr (JObj (eval_response (refused_eval generator provider why))), s)
      | Inr made \<Rightarrow>
          (case on_world (nl_eval_run env pl extract generator provider made execute None cases) s of
             (Inl e, s1) \<Rightarrow> (server_error, s1)
           | (Inr st, s1) \<Rightarrow> (Inr (JObj (eval_response st)), s1)))"

subsection \<open>The stream tells what an execution answers\<close>

lemma concat_chunks: "concat (chunks n xs) = xs"
proof (induction n xs rule: chunks.induct)
  case (1 n xs)
  then show ?case by (subst chunks.simps) simp
qed

lemma concat_iter_sql_chunks: "concat (iter_sql_chunks cfg sql) = sql"
proof -
  have "concat (map concat yss) = concat (concat yss)" for yss :: "uchar list list"
    by (induction yss) simp_all
  then show ?thesis by (simp add: iter_sql_chunks_def concat_chunks py_chars_whole)
qed

definition streamed_sql :: "(string \<times> jdict) list \<Rightarrow> string" where
  "streamed_sql es = concat (map (\<lambda>e. or_str (dget (snd e) ''delta'')) (filter (\<lambda>e. fst e = ''sql_delta'') es))"

lemma streamed_sql_simps [simp]:
  "streamed_sql (xs @ ys) = streamed_sql xs @ streamed_sql ys"
  "streamed_sql (stream_opening req) = []" "streamed_sql (stream_closing cfg d) = or_str (dget d ''sql'')"
  by (simp_all add: streamed_sql_def stream_opening_def stream_closing_def guard_event_def filter_map o_def
      concat_iter_sql_chunks)

text \<open>The action an acceptance event is recorded under shows in the audit log only.\<close>

lemma record_event_action:
  assumes "p' = p\<lparr>ev_action := a\<rparr>"
  shows "map_option (\<lambda>e. (ev_event_id e, ev_event_type e)) (fst (record_event env p s)) =
    map_option (\<lambda>e. (ev_event_id e, ev_event_type e)) (fst (record_event env p' s))"
  using assms
  by (simp add: record_event_def sys_audit_def audit_append_def Let_def case_prod_unfold split: if_split)

lemma record_acceptance_action:
  "fst (record_acceptance_event env a payload s) = fst (record_acceptance_event env b payload s)"
proof -
  define m where "m = or_dict (dget payload ''acceptance_summary'')"
  define why where "why = or_str (first_of [dget m ''fallback_reason'', dget m ''error_type''] (JStr []))"
  define p where "p x = audit_proto ''llm_acceptance'' None None None x (acceptance_outcome m) (Some why) (Some ''info'')
    (acceptance_detail m)" for x
  have eq: "fst (record_acceptance_event env x payload s) =
     (if m = [] \<or> or_str (dget payload ''generator_used'') \<notin> {''llm'', ''mock_fallback''} \<and>
           or_str (dget payload ''provider_used'') \<notin> {''litellm'', ''fake'', ''mock''} then payload
      else (case map_option (\<lambda>e. (ev_event_id e, ev_event_type e)) (fst (record_event env (p x) s)) of
          None \<Rightarrow> payload
        | Some (i, t) \<Rightarrow> dput payload ''evidence_links'' (JObj [(''audit_event_id'', JStr i), (''audit_event_type'', JStr t),
             (''log_request_id'', dget (acceptance_detail m) ''request_id'')])))" for x
    unfolding record_acceptance_event_def Let_def m_def [symmetric] why_def [symmetric] p_def [symmetric]
    by (cases "record_event env (p x) s"; cases "fst (record_event env (p x) s)") simp_all
  have "p b = (p a)\<lparr>ev_action := b\<rparr>" by (simp add: p_def audit_proto_def)
  from record_event_action [OF this, of env s] show ?thesis by (simp only: eq)
qed

lemma execute_result_action:
  "fst (execute_result env pl req g a s) = fst (execute_result env pl req g b s)"
  using record_acceptance_action [of env a _ _ b]
  by (auto simp: execute_result_def split: prod.split sum.split) (metis fst_conv)+

text \<open>
  C13. The stream of an execution tells what the execution answers: whatever the question, its last event is
  \<open>done\<close> with the answer \<open>/execute\<close> would give in the same state, and the pieces of SQL before it are that
  answer's SQL; when \<open>/execute\<close> fails, the stream ends in an error event.
\<close>

theorem stream_tells_execute:
  "let es = fst (stream_events cfg u env pl req s)
   in case fst (api_execute_nl2sql u env pl req s) of
        Inr (JObj d) \<Rightarrow> last es = (''done'', d) \<and> streamed_sql es = or_str (dget d ''sql'')
      | _ \<Rightarrow> fst (last es) = ''error''"
proof -
  define g where "g = check_input u (rq_query req)"
  obtain r s1 where r: "execute_result env pl req g ''nl2sql_execute'' s = (r, s1)"
    by (cases "execute_result env pl req g ''nl2sql_execute'' s")
  then obtain s2 where r2: "execute_result env pl req g ''nl2sql_stream'' s = (r, s2)"
    using execute_result_action [of env pl req g "''nl2sql_execute''" s "''nl2sql_stream''"]
    by (cases "execute_result env pl req g ''nl2sql_stream'' s") simp
  have last_closing: "last (xs @ stream_closing cfg d) = (''done'', d)" for xs d
    by (simp add: stream_closing_def)
  show ?thesis
    by (cases r)
       (simp_all add: stream_events_def api_execute_nl2sql_def g_def [symmetric] r r2 last_closing Let_def server_error_def,
        auto simp: blocked_response_def streamed_sql_def)
qed

text \<open>What a blocked question leaves as it was: everything but the clock, the trace and the audit log.\<close>

definition stores_kept :: "'w sys \<Rightarrow> 'w sys \<Rightarrow> bool" where
  "stores_kept s s' \<longleftrightarrow>
     sy_tasks s' = sy_tasks s \<and> sy_approvals s' = sy_approvals s \<and> sy_ckpts s' = sy_ckpts s \<and>
     sy_metrics s' = sy_metrics s \<and> sy_memory s' = sy_memory s"

text \<open>An answer that carries no query: the text of SQL is empty and the guard is said to have refused.\<close>

definition empty_answer :: "jdict \<Rightarrow> bool" where
  "empty_answer d \<longleftrightarrow> dget d ''sql'' = JStr [] \<and> dget d ''guard_allowed'' = JBool False \<and>
     dget d ''execution'' = JNull \<and> dget d ''formatted_result'' = JNull \<and> dget d ''chart_spec'' = JNull"

lemma stores_kept_event: "stores_kept s (injection_event env action g req f s)"
  by (simp add: stores_kept_def injection_event_def)

lemma blocked_is_empty: "empty_answer (blocked_response execution g f)"
  by (simp add: empty_answer_def blocked_response_def tail_fields_def)

text \<open>
  C12. An injected question starts nothing. When the injection guard blocks a text, creating a task with it,
  previewing, executing and streaming it answer the same, and leave the same state, whatever the kernel, the task
  store and the pipeline are; none of the four touches the tasks, the approvals, the checkpoints, the metrics or the
  memory. The created task is answered as failed; the preview and the execution carry an empty SQL text and no
  execution; the stream sends no piece of SQL and no event of an execution, and ends in the same empty answer.
\<close>

theorem injected_question_starts_nothing:
  assumes "if_action (check_text u (rq_query req)) = ''block''" and "ct_query task = rq_query req"
  shows "(\<exists>d s'. create_task u env kn save task s = (Inr (JObj d), s') \<and>
       create_task u env kn' save' task s = (Inr (JObj d), s') \<and> dget d ''status'' = JStr ''failed'' \<and> stores_kept s s') \<and>
    (\<exists>d s'. preview_nl2sql u env pl req s = (Inr (JObj d), s') \<and>
       preview_nl2sql u env pl' req s = (Inr (JObj d), s') \<and> empty_answer d \<and> stores_kept s s') \<and>
    (\<exists>d s'. api_execute_nl2sql u env pl req s = (Inr (JObj d), s') \<and>
       api_execute_nl2sql u env pl' req s = (Inr (JObj d), s') \<and> empty_answer d \<and> stores_kept s s') \<and>
    (\<exists>es d s'. stream_events cfg u env pl req s = (es, s') \<and> stream_events cfg u env pl' req s = (es, s') \<and>
       streamed_sql es = [] \<and> list_all (\<lambda>e. fst e \<noteq> ''execution'') es \<and> last es = (''done'', d) \<and>
       empty_answer d \<and> stores_kept s s')"
proof (intro conjI)
  show "\<exists>d s'. create_task u env kn save task s = (Inr (JObj d), s') \<and>
      create_task u env kn' save' task s = (Inr (JObj d), s') \<and> dget d ''status'' = JStr ''failed'' \<and> stores_kept s s'"
    using blocked_query_runs_nothing [of u task env kn save s kn' save'] assms by (auto simp: stores_kept_def)
qed (use assms(1) blocked_is_empty stores_kept_event in
    \<open>simp_all add: preview_nl2sql_def api_execute_nl2sql_def stream_events_def Let_def streamed_sql_def\<close>)

theorem injected_question_starts_nothing_witness:
  "\<exists>d s'. preview_nl2sql demo_unicode demo_env demo_pipeline (new_sql_request ''drop table'') (sys_init 0) = (Inr (JObj d), s') \<and>
     empty_answer d \<and> stores_kept (sys_init 0) s'"
proof -
  have "rx_found demo_unicode (spaced demo_unicode [''drop'', ''table'']) None (py_chars ''drop table'')" by code_simp
  then have "if_action (check_text demo_unicode (rq_query (new_sql_request ''drop table''))) = ''block''"
    unfolding new_sql_request_def sql_request.simps
    by (rule high_pattern_blocks [of _ ij_drop, rotated]) (simp_all add: HIGH_BLOCK_PATTERNS_def)
  from injected_question_starts_nothing [OF this, of "new_create_task ''drop table''" demo_env demo_kernel sqlite_saver
      "sys_init 0" demo_kernel sqlite_saver demo_pipeline demo_pipeline default_settings]
  show ?thesis by (auto simp: new_create_task_def new_sql_request_def)
qed

end
