(* ===== verification/Api_Observability.thy ===== *)
theory Api_Observability
  imports Api_Tasks Judge Metrics_Store
begin

text \<open>
  The handlers of \<open>/observability\<close> (\<open>app/api/observability.py\<close>): the counts of the recent tasks, the timeline
  and the trajectory of one task, read off its trace, and the list of trace events. The seconds of a stored
  time (\<open>secs\<close>) are a parameter, as the times themselves are texts.
\<close>

subsection \<open>Tasks\<close>

definition task_mode :: "task_row \<Rightarrow> string" where
  "task_mode r = (if tr_mode r = [] then ''unknown'' else tr_mode r)"

definition count_where_status :: "task_status \<Rightarrow> task_row list \<Rightarrow> int" where
  "count_where_status st rows = int (length (filter (\<lambda>r. tr_status r = st) rows))"

definition mode_counts :: "task_row list \<Rightarrow> (string \<times> int) list" where
  "mode_counts rows = fold (\<lambda>r. bump 0 (\<lambda>n. n + 1) (task_mode r)) rows []"

definition get_tasks_summary :: "'w sys \<Rightarrow> reply \<times> 'w sys" where
  "get_tasks_summary s =
     (let rows = tk_list 100 (sy_tasks s)
      in (Inr (JObj [(''total_tasks'', JInt (int (length rows))),
            (''success_count'', JInt (count_where_status TCompleted rows)),
            (''failed_count'', JInt (count_where_status TFailed rows)),
            (''mode_counts'', JObj (map (\<lambda>(k, n). (k, JInt n)) (mode_counts rows))),
            (''recent_tasks'', JList (map (JObj \<circ> task_dict) (take 5 rows)))]), s))"

subsection \<open>Timeline\<close>

definition timeline_event :: "rat option \<Rightarrow> audit_event \<Rightarrow> jdict" where
  "timeline_event gap e =
     [(''event_type'', JStr (ev_event_type e)), (''timestamp'', JStr (ev_timestamp e)), (''actor'', JStr (ev_actor e)),
      (''detail'', JObj (ev_detail e)),
      (''duration_from_prev_ms'', case gap of None \<Rightarrow> JNull | Some q \<Rightarrow> JFloat q)]"

fun timeline_events :: "(string \<Rightarrow> rat) \<Rightarrow> string option \<Rightarrow> audit_event list \<Rightarrow> jdict list" where
  "timeline_events secs before [] = []"
| "timeline_events secs before (e # es) =
     timeline_event (map_option (\<lambda>t. py_round 2 ((secs (ev_timestamp e) - secs t) * 1000)) before) e #
     timeline_events secs (Some (ev_timestamp e)) es"

definition get_task_timeline :: "(string \<Rightarrow> rat) \<Rightarrow> string \<Rightarrow> 'w sys \<Rightarrow> reply \<times> 'w sys" where
  "get_task_timeline secs tid s =
     (Inr (JObj [(''task_id'', JStr tid),
        (''events'', JList (map JObj (timeline_events secs None (trace_get (Some tid) None (sy_trace s)))))]), s)"

subsection \<open>Trajectory\<close>

definition begins :: "string \<Rightarrow> string \<Rightarrow> bool" where
  "begins p s \<longleftrightarrow> take (length p) s = p"

definition ends :: "string \<Rightarrow> string \<Rightarrow> bool" where
  "ends p s \<longleftrightarrow> begins (rev p) (rev s)"

text \<open>\<open>str(value or "").strip()\<close>, added unless it is empty or there already.\<close>

definition append_unique :: "unicode \<Rightarrow> 'w env \<Rightarrow> json \<Rightarrow> string list \<Rightarrow> string list" where
  "append_unique u env v names =
     (let t = u_strip_text u (if truthy v then value_text env v else [])
      in if t \<noteq> [] \<and> t \<notin> set names then names @ [t] else names)"

definition call_name :: "json \<Rightarrow> json option" where
  "call_name c = (case c of JObj d \<Rightarrow> Some (or_else (dget d ''tool_name'') (dget d ''tool_called'')) | _ \<Rightarrow> None)"

definition detail_tool_names :: "unicode \<Rightarrow> 'w env \<Rightarrow> jdict \<Rightarrow> string list" where
  "detail_tool_names u env d =
     fold (append_unique u env) (dget d ''tool_called'' # List.map_filter call_name (or_list (dget d ''tool_calls''))) []"

definition trajectory_role :: "string \<Rightarrow> string" where
  "trajectory_role t =
     (if begins ''coordinator_'' t then ''coordinator''
      else if begins ''analyst_'' t then ''analyst''
      else if begins ''executor_'' t then ''executor''
      else if begins ''reviewer_'' t then ''reviewer''
      else if begins ''multi_agent_'' t then ''orchestrator''
      else if begins ''approval_'' t \<or> begins ''multitool_approval'' t then ''approval''
      else if begins ''multitool_'' t then ''multitool''
      else if begins ''nl2sql_'' t then ''nl2sql'' else ''runtime'')"

definition trajectory_action :: "string \<Rightarrow> string" where
  "trajectory_action t =
     (case map_of [(''multi_agent_started'', ''start''), (''coordinator_decided'', ''route_intent''),
         (''analyst_planned'', ''analyze_plan''), (''executor_completed'', ''execute''),
         (''reviewer_completed'', ''review''), (''multi_agent_completed'', ''complete''),
         (''multi_agent_failed'', ''fail'')] t of
        Some a \<Rightarrow> a
      | None \<Rightarrow> if str_in ''approval'' t then ''approval'' else t)"

definition trajectory_status :: "string \<Rightarrow> jdict \<Rightarrow> string" where
  "trajectory_status t d =
     (if ends ''_failed'' t \<or> dget d ''success'' = JBool False then ''failed''
      else if dget d ''approved'' = JBool False then ''rejected''
      else if str_in ''approval'' t \<or> truthy (dget d ''requires_approval'') then ''waiting_approval''
      else if ends ''_started'' t then ''running''
      else if ends ''_completed'' t \<or> dget d ''success'' = JBool True \<or> dget d ''approved'' = JBool True
      then ''completed'' else ''recorded'')"

record trajectory_step =
  js_role :: string
  js_event_type :: string
  js_status :: string
  js_action :: string
  js_reason :: string
  js_selected_mode :: string
  js_executed_mode :: string
  js_tool_names :: "string list"
  js_approved :: "bool option"
  js_timestamp :: string
  js_detail :: jdict

record trajectory_summary =
  jy_roles :: "string list"
  jy_selected_mode :: string
  jy_executed_mode :: string
  jy_status :: string
  jy_fallback :: bool
  jy_approval :: bool
  jy_tool_names :: "string list"

definition trajectory_start :: trajectory_summary where
  "trajectory_start =
     \<lparr>jy_roles = [], jy_selected_mode = [], jy_executed_mode = [], jy_status = ''unknown'', jy_fallback = False,
      jy_approval = False, jy_tool_names = []\<rparr>"

definition step_of :: "unicode \<Rightarrow> 'w env \<Rightarrow> audit_event \<Rightarrow> trajectory_step" where
  "step_of u env e =
     (let d = ev_detail e; t = ev_event_type e
      in \<lparr>js_role = trajectory_role t, js_event_type = t, js_status = trajectory_status t d,
          js_action = trajectory_action t,
          js_reason = (if truthy (dget d ''reason'') then str_at env d ''reason'' else str_at env d ''plan_summary''),
          js_selected_mode = str_at env d ''selected_mode'', js_executed_mode = str_at env d ''executed_mode'',
          js_tool_names = detail_tool_names u env d,
          js_approved = (case dget d ''approved'' of JBool b \<Rightarrow> Some b | _ \<Rightarrow> None),
          js_timestamp = ev_timestamp e, js_detail = d\<rparr>)"

definition see_event :: "unicode \<Rightarrow> 'w env \<Rightarrow> audit_event \<Rightarrow> trajectory_summary \<Rightarrow> trajectory_summary" where
  "see_event u env e y =
     (let d = ev_detail e; t = ev_event_type e
      in y\<lparr>jy_roles := append_unique u env (JStr (trajectory_role t)) (jy_roles y),
           jy_tool_names := fold (append_unique u env \<circ> JStr) (detail_tool_names u env d) (jy_tool_names y),
           jy_selected_mode := (if truthy (dget d ''selected_mode'') then str_at env d ''selected_mode''
              else jy_selected_mode y),
           jy_executed_mode := (if truthy (dget d ''executed_mode'') then str_at env d ''executed_mode''
              else jy_executed_mode y),
           jy_fallback := (jy_fallback y \<or> truthy (dget d ''fallback'') \<or> str_in ''fallback'' t),
           jy_approval := (jy_approval y \<or> truthy (dget d ''requires_approval'') \<or> str_in ''approval'' t),
           jy_status := (if t = ''multi_agent_completed'' then ''completed''
              else if t = ''multi_agent_failed'' then ''failed'' else jy_status y)\<rparr>)"

definition trajectory_of ::
  "unicode \<Rightarrow> 'w env \<Rightarrow> audit_event list \<Rightarrow> trajectory_summary \<times> trajectory_step list"
where
  "trajectory_of u env es = (fold (see_event u env) es trajectory_start, map (step_of u env) es)"

definition AGENT_ROLES :: "string list" where
  "AGENT_ROLES = [''coordinator'', ''analyst'', ''executor'', ''reviewer'', ''orchestrator'']"

definition step_dict :: "trajectory_step \<Rightarrow> jdict" where
  "step_dict x =
     [(''role'', JStr (js_role x)), (''event_type'', JStr (js_event_type x)), (''status'', JStr (js_status x)),
      (''action'', JStr (js_action x)), (''reason'', JStr (js_reason x)), (''selected_mode'', JStr (js_selected_mode x)),
      (''executed_mode'', JStr (js_executed_mode x)), (''tool_names'', jstrs (js_tool_names x)),
      (''approved'', case js_approved x of None \<Rightarrow> JNull | Some b \<Rightarrow> JBool b),
      (''timestamp'', JStr (js_timestamp x)), (''detail'', JObj (js_detail x))]"

definition trajectory_summary_dict :: "string \<Rightarrow> trajectory_summary \<Rightarrow> trajectory_step list \<Rightarrow> jdict" where
  "trajectory_summary_dict tid y steps =
     [(''task_id'', JStr tid),
      (''is_multi_agent'', JBool (list_ex (\<lambda>x. js_role x \<in> set AGENT_ROLES) steps)),
      (''roles'', jstrs (jy_roles y)), (''selected_mode'', JStr (jy_selected_mode y)),
      (''executed_mode'', JStr (jy_executed_mode y)), (''status'', JStr (jy_status y)),
      (''fallback_used'', JBool (jy_fallback y)), (''approval_required'', JBool (jy_approval y)),
      (''tool_names'', jstrs (jy_tool_names y)), (''event_count'', JInt (int (length steps)))]"

definition get_task_trajectory :: "unicode \<Rightarrow> 'w env \<Rightarrow> string \<Rightarrow> 'w sys \<Rightarrow> reply \<times> 'w sys" where
  "get_task_trajectory u env tid s =
     (let (y, steps) = trajectory_of u env (trace_get (Some tid) None (sy_trace s))
      in (Inr (JObj [(''task_id'', JStr tid), (''summary'', JObj (trajectory_summary_dict tid y steps)),
            (''steps'', JList (map (JObj \<circ> step_dict) steps))]), s))"

subsection \<open>Events\<close>

definition listed_event :: "audit_event \<Rightarrow> jdict" where
  "listed_event e =
     [(''event_id'', JStr (ev_event_id e)), (''event_type'', JStr (ev_event_type e)), (''task_id'', opt_str (ev_task_id e)),
      (''actor'', JStr (ev_actor e)), (''detail'', JObj (ev_detail e)), (''timestamp'', JStr (ev_timestamp e))]"

definition get_events :: "string option \<Rightarrow> string option \<Rightarrow> int \<Rightarrow> 'w sys \<Rightarrow> reply \<times> 'w sys" where
  "get_events tid etype limit s =
     (let es = take (clamp_limit 100 500 limit) (trace_get tid etype (sy_trace s))
      in (Inr (JObj [(''events'', JList (map (JObj \<circ> listed_event) es)), (''count'', JInt (int (length es)))]), s))"

subsection \<open>The summary of a trajectory\<close>

lemma append_unique_distinct: "distinct names \<Longrightarrow> distinct (append_unique u env v names)"
  by (simp add: append_unique_def Let_def)

lemma fold_append_unique_distinct:
  "distinct names \<Longrightarrow> distinct (fold (append_unique u env \<circ> f) vs names)"
  by (induction vs arbitrary: names) (simp_all add: append_unique_distinct)

definition wants_approval :: "audit_event \<Rightarrow> bool" where
  "wants_approval e \<longleftrightarrow> truthy (dget (ev_detail e) ''requires_approval'') \<or> str_in ''approval'' (ev_event_type e)"

definition fell_back :: "audit_event \<Rightarrow> bool" where
  "fell_back e \<longleftrightarrow> truthy (dget (ev_detail e) ''fallback'') \<or> str_in ''fallback'' (ev_event_type e)"

lemma see_events:
  "distinct (jy_roles y) \<Longrightarrow> distinct (jy_tool_names y) \<Longrightarrow>
     distinct (jy_roles (fold (see_event u env) es y)) \<and> distinct (jy_tool_names (fold (see_event u env) es y)) \<and>
     (jy_approval (fold (see_event u env) es y) \<longleftrightarrow> jy_approval y \<or> list_ex wants_approval es) \<and>
     (jy_fallback (fold (see_event u env) es y) \<longleftrightarrow> jy_fallback y \<or> list_ex fell_back es)"
proof (induction es arbitrary: y)
  case (Cons e es)
  have "distinct (jy_roles (see_event u env e y))" "distinct (jy_tool_names (see_event u env e y))"
    using Cons.prems by (simp_all add: see_event_def Let_def append_unique_distinct fold_append_unique_distinct)
  from Cons.IH [OF this] show ?case
    by (auto simp: see_event_def Let_def wants_approval_def fell_back_def)
qed simp

text \<open>
  The summary names no role and no tool twice, says that an approval was asked for, or an agent fell back,
  exactly when some event of the task says so, and counts one step for every event.
\<close>

lemma trajectory_summary_agrees:
  "let (y, steps) = trajectory_of u env es
   in distinct (jy_roles y) \<and> distinct (jy_tool_names y) \<and> (jy_approval y \<longleftrightarrow> list_ex wants_approval es) \<and>
      (jy_fallback y \<longleftrightarrow> list_ex fell_back es) \<and> map js_event_type steps = map ev_event_type es"
  using see_events [of trajectory_start u env es]
  by (simp add: trajectory_of_def trajectory_start_def step_of_def Let_def o_def)

end
