(* ===== verification/Console_Texts.thy ===== *)
theory Console_Texts
  imports Texts
begin

text \<open>
  The texts of the report pages, of the tools over the demo database and of its seed data, as in
  \<open>Texts\<close>: one definition per message or word.
\<close>

definition ax_md_boundary :: "string" where \<comment> \<open>what the page does not do\<close>
  "ax_md_boundary =
    ''## '' @ utf8 [0x8FB9, 0x754C, 0x58F0, 0x660E]"

definition ax_md_read_only :: "string" where \<comment> \<open>read only, no model is called\<close>
  "ax_md_read_only =
    ''- '' @ utf8 [0x53EA, 0x8BFB, 0x67E5, 0x770B, 0xFF0C, 0x4E0D, 0x4F1A, 0x89E6, 0x53D1,
    0x771F, 0x5B9E] @ '' LLM '' @ utf8 [0x8C03, 0x7528, 0x3002]"

definition ax_md_redacted :: "string" where \<comment> \<open>no prompt and no key in it\<close>
  "ax_md_redacted =
    ''- '' @ utf8 [0x5185, 0x5BB9, 0x5DF2, 0x8131, 0x654F, 0xFF0C, 0x4E0D, 0x5305, 0x542B] @
    '' prompt '' @ utf8 [0x539F, 0x6587, 0x4E0E, 0x5BC6, 0x94A5, 0x539F, 0x6587, 0x3002]"

definition tx_ops_no_path :: "string" where \<comment> \<open>the path of the database is not set\<close>
  "tx_ops_no_path =
    ''OPS_DB_PATH '' @ utf8 [0x672A, 0x914D, 0x7F6E]"

definition tx_ops_no_file :: "string \<Rightarrow> string" where \<comment> \<open>the file of the database does not exist\<close>
  "tx_ops_no_file path =
    utf8 [0x6570, 0x636E, 0x5E93, 0x6587, 0x4EF6, 0x4E0D, 0x5B58, 0x5728] @ '': '' @ path"

definition tx_ops_latest :: "string" where \<comment> \<open>the latest day is used\<close>
  "tx_ops_latest =
    utf8 [0x4F7F, 0x7528, 0x6700, 0x8FD1, 0x4E00, 0x5929, 0x6570, 0x636E]"

definition tx_ops_no_metrics :: "string" where \<comment> \<open>daily_metrics is empty\<close>
  "tx_ops_no_metrics =
    ''daily_metrics '' @ utf8 [0x8868, 0x65E0, 0x6570, 0x636E]"

definition tx_ops_no_orders :: "string" where \<comment> \<open>no orders of today\<close>
  "tx_ops_no_orders =
    ''orders '' @ utf8 [0x8868, 0x65E0, 0x4ECA, 0x65E5, 0x6570, 0x636E]"

definition tx_ops_simulated :: "string" where \<comment> \<open>simulated, no real order is changed\<close>
  "tx_ops_simulated =
    utf8 [0x4EFF, 0x771F, 0x6570, 0x636E, 0xFF0C, 0x672A, 0x4FEE, 0x6539, 0x4EFB, 0x4F55,
    0x771F, 0x5B9E, 0x8BA2, 0x5355]"

definition tx_seed_keyword :: "string" where \<comment> \<open>demo task: summary of today\<close>
  "tx_seed_keyword =
    utf8 [0x6F14, 0x793A, 0x4EFB, 0x52A1, 0xFF1A, 0x4ECA, 0x65E5, 0x8FD0, 0x8425, 0x6458,
    0x8981]"

definition tx_seed_summary :: "string" where \<comment> \<open>offline demo: GMV stable, refunds under control\<close>
  "tx_seed_summary =
    utf8 [0x79BB, 0x7EBF, 0x6F14, 0x793A, 0xFF1A, 0x4ECA, 0x65E5] @ '' GMV '' @ utf8 [0x7A33,
    0x5B9A, 0xFF0C, 0x9000, 0x6B3E, 0x7387, 0x53EF, 0x63A7, 0x3002]"

definition tx_seed_nl2sql :: "string" where \<comment> \<open>demo task: orders of the last seven days\<close>
  "tx_seed_nl2sql =
    utf8 [0x6F14, 0x793A, 0x4EFB, 0x52A1, 0xFF1A, 0x67E5, 0x8BE2, 0x8FD1] @ '' 7 '' @ utf8
    [0x5929, 0x8BA2, 0x5355, 0x91CF, 0x8D8B, 0x52BF]"

definition tx_seed_approval :: "string" where \<comment> \<open>demo task: approval of a tool of high risk\<close>
  "tx_seed_approval =
    utf8 [0x6F14, 0x793A, 0x4EFB, 0x52A1, 0xFF1A, 0x9AD8, 0x98CE, 0x9669, 0x5DE5, 0x5177,
    0x5BA1, 0x6279, 0x793A, 0x4F8B]"

definition tx_seed_reason :: "string" where \<comment> \<open>demo of an approval: an administrator must confirm\<close>
  "tx_seed_reason =
    utf8 [0x6F14, 0x793A, 0x5BA1, 0x6279, 0x6D41, 0x7A0B, 0xFF1A, 0x9700, 0x8981, 0x7BA1,
    0x7406, 0x5458, 0x786E, 0x8BA4, 0x540E, 0x7EE7, 0x7EED, 0x3002]"

definition tx_seed_notes :: "string" where \<comment> \<open>demo data without prompt and key\<close>
  "tx_seed_notes =
    utf8 [0x6F14, 0x793A, 0x6570, 0x636E, 0x5DF2, 0x8131, 0x654F, 0xFF0C, 0x4E0D, 0x5305,
    0x542B] @ '' prompt '' @ utf8 [0x539F, 0x6587, 0x4E0E, 0x5BC6, 0x94A5, 0x539F, 0x6587,
    0x3002]"

definition tx_seed_plan :: "string" where \<comment> \<open>read the local offline figures\<close>
  "tx_seed_plan =
    utf8 [0x8BFB, 0x53D6, 0x672C, 0x5730, 0x79BB, 0x7EBF, 0x6F14, 0x793A, 0x6307, 0x6807]"

definition tx_seed_trace :: "string" where \<comment> \<open>fixture for demos, without prompt and credentials\<close>
  "tx_seed_trace =
    utf8 [0x8BE5] @ '' trace fixture '' @ utf8 [0x4EC5, 0x7528, 0x4E8E, 0x6F14, 0x793A, 0xFF0C,
    0x4E0D, 0x5305, 0x542B] @ '' prompt '' @ utf8 [0x539F, 0x6587, 0x4E0E, 0x654F, 0x611F,
    0x51ED, 0x636E, 0x3002]"

definition tx_business_probe :: "string" where \<comment> \<open>read-only probe of the business system\<close>
  "tx_business_probe =
    utf8 [0x4E1A, 0x52A1, 0x7CFB, 0x7EDF, 0x53EA, 0x8BFB, 0x8FDE, 0x901A, 0x6027, 0x63A2,
    0x6D4B]"

end
