(* ===== verification/Api_Pilot.thy ===== *)
theory Api_Pilot
  imports Api_Approvals Pilot_Smoke Console_Texts
begin

text \<open>
  The handlers of \<open>/llm/pilot\<close> (\<open>app/api/llm_pilot.py\<close>): the reports of the pilot are read from their
  directory, masked once more, and shown as a list, one by one, or as Markdown. A directory is a parameter: its
  entries in the order it gives them, each with its name, its time of change and the JSON value of its text,
  or the error of reading it.
\<close>

subsection \<open>Files\<close>

record pilot_file =
  pf_name :: string
  pf_regular :: bool
  pf_mtime :: rat
  pf_payload :: "string + json"

text \<open>\<open>Path.suffix\<close> and \<open>Path.stem\<close>: what stands before the last dot, and from it on.\<close>

definition last_dot :: "string \<Rightarrow> nat option" where
  "last_dot name =
     (let n = length (takeWhile (\<lambda>c. c \<noteq> CHR ''.'') (rev name)); i = length name - n - 1
      in if CHR ''.'' \<in> set name \<and> 0 < i \<and> i < length name - 1 then Some i else None)"

definition path_suffix :: "string \<Rightarrow> string" where
  "path_suffix name = (case last_dot name of None \<Rightarrow> [] | Some i \<Rightarrow> drop i name)"

definition path_stem :: "string \<Rightarrow> string" where
  "path_stem name = (case last_dot name of None \<Rightarrow> name | Some i \<Rightarrow> take i name)"

text \<open>A file as the handlers see it: the sanitised dict, nothing when it is no JSON object.\<close>

record opened_file =
  of_name :: string
  of_json :: bool
  of_mtime :: rat
  of_load :: "string + jdict option"

definition load_json :: "unicode \<Rightarrow> (string \<Rightarrow> bool) \<Rightarrow> pilot_file \<Rightarrow> string + jdict option" where
  "load_json u fine f =
     (case pf_payload f of
        Inr (JObj d) \<Rightarrow> map_sum id Some (sanitize_pilot_dict u fine d)
      | _ \<Rightarrow> Inr None)"

definition opened_report :: "unicode \<Rightarrow> (string \<Rightarrow> bool) \<Rightarrow> pilot_file \<Rightarrow> opened_file" where
  "opened_report u fine f =
     \<lparr>of_name = pf_name f, of_json = (pf_regular f \<and> u_lower_text u (path_suffix (pf_name f)) = ''.json''),
      of_mtime = pf_mtime f, of_load = load_json u fine f\<rparr>"

text \<open>The reports among the files, in their order: the others, and empty ones, are passed over.\<close>

fun loaded_reports :: "opened_file list \<Rightarrow> string + (opened_file \<times> jdict) list" where
  "loaded_reports [] = Inr []"
| "loaded_reports (f # fs) =
     (if \<not> of_json f then loaded_reports fs
      else
        (case of_load f of
           Inl e \<Rightarrow> Inl e
         | Inr None \<Rightarrow> loaded_reports fs
         | Inr (Some d) \<Rightarrow>
             if d = [] then loaded_reports fs else map_sum id ((#) (f, d)) (loaded_reports fs)))"

subsection \<open>The list\<close>

definition report_evidence :: "jdict \<Rightarrow> jdict" where
  "report_evidence p =
     (let own = or_dict (dget p ''evidence_links'')
      in if own \<noteq> [] then own
         else (case dget p ''cases'' of JList (JObj c # cs) \<Rightarrow> or_dict (dget c ''evidence_links'') | _ \<Rightarrow> []))"

definition report_row :: "'w env \<Rightarrow> opened_file \<times> jdict \<Rightarrow> jdict" where
  "report_row env fd =
     (let (f, p) = fd; links = report_evidence p; txt = (\<lambda>k. (k, dget_or p k (JStr [])));
          flag = (\<lambda>k. (k, JBool (truthy (dget p k)))); count = (\<lambda>k. (k, JInt (int_of (dget p k))))
      in [(''report_id'', or_else (dget p ''report_id'') (JStr (path_stem (of_name f)))), txt ''generated_at'',
          txt ''provider'', txt ''model'', txt ''scenario'', txt ''outcome'', txt ''request_id'',
          flag ''real_call_succeeded'', flag ''fallback_used'', (''cost'', JFloat (rat_of (dget p ''cost''))),
          count ''prompt_tokens'', count ''completion_tokens'', count ''total_tokens'',
          (''audit_event_id'', JStr (str_at env links ''audit_event_id'')),
          (''audit_event_type'', JStr (str_at env links ''audit_event_type'')),
          (''path'', JStr (of_name f)), (''name'', JStr (of_name f))])"

definition list_reports :: "'w env \<Rightarrow> opened_file list option \<Rightarrow> reply" where
  "list_reports env dir =
     (case dir of
        None \<Rightarrow> Inr (JList [])
      | Some fs \<Rightarrow>
          (case loaded_reports (order_desc of_mtime fs) of
             Inl e \<Rightarrow> server_error | Inr rs \<Rightarrow> Inr (JList (map (JObj \<circ> report_row env) rs))))"

subsection \<open>One report\<close>

definition valid_report_id :: "string \<Rightarrow> bool" where
  "valid_report_id rid \<longleftrightarrow>
     rid \<noteq> [] \<and> length rid \<le> 128 \<and> list_all file_char rid \<and> rid \<noteq> ''.'' \<and> rid \<noteq> ''..'' \<and> \<not> str_in ''..'' rid"

definition find_report :: "'w env \<Rightarrow> string \<Rightarrow> opened_file list option \<Rightarrow> string + opened_file option" where
  "find_report env rid dir =
     (case dir of
        None \<Rightarrow> Inr None
      | Some fs \<Rightarrow>
          map_sum id (\<lambda>rs. case order_desc of_mtime (map fst (filter (\<lambda>r. str_at env (snd r) ''report_id'' = rid) rs)) of
              [] \<Rightarrow> None | f # _ \<Rightarrow> Some f)
            (loaded_reports fs))"

text \<open>What both handlers of one report do: check the identifier, find the file, load it.\<close>

definition with_report ::
  "unicode \<Rightarrow> 'w env \<Rightarrow> string \<Rightarrow> opened_file list option \<Rightarrow> (opened_file \<Rightarrow> jdict \<Rightarrow> 'a) \<Rightarrow> (nat \<times> string) + 'a"
where
  "with_report u env report_id dir answer =
     (let rid = u_strip_text u report_id
      in if \<not> valid_report_id rid then Inl (400, ''invalid_report_id'')
         else
           (case find_report env rid dir of
              Inl e \<Rightarrow> Inl (500, ''Internal Server Error'')
            | Inr None \<Rightarrow> Inl (404, ''pilot_report_not_found'')
            | Inr (Some f) \<Rightarrow>
                (case of_load f of
                   Inl e \<Rightarrow> Inl (500, ''Internal Server Error'')
                 | Inr (Some (kv # d)) \<Rightarrow> Inr (answer f (kv # d))
                 | _ \<Rightarrow> Inl (404, ''pilot_report_not_found''))))"

definition get_report :: "unicode \<Rightarrow> 'w env \<Rightarrow> string \<Rightarrow> opened_file list option \<Rightarrow> reply" where
  "get_report u env report_id dir =
     with_report u env report_id dir (\<lambda>f p. JObj (dput p ''name'' (JStr (of_name f))))"

definition markdown_preview :: "'w env \<Rightarrow> jdict \<Rightarrow> string" where
  "markdown_preview env p =
     (let links = or_dict (dget p ''evidence_links'');
          shown = (\<lambda>d k dflt. value_text env (dget_or d k dflt));
          line = (\<lambda>name k. ''- '' @ name @ '': '' @ shown p k (JStr []))
      in str_join (utf8 [10])
        [''# Pilot Evidence Report (Read Only)'', [], line ''report_id'' ''report_id'', line ''generated_at'' ''generated_at'',
         ''- provider/model: '' @ shown p ''provider'' (JStr []) @ '' / '' @ shown p ''model'' (JStr []),
         line ''scenario'' ''scenario'', line ''outcome'' ''outcome'', line ''request_id'' ''request_id'',
         ''- fallback_used: '' @ shown p ''fallback_used'' (JBool False), ''- cost: '' @ shown p ''cost'' (JInt 0),
         ''- tokens(prompt/completion/total): '' @ shown p ''prompt_tokens'' (JInt 0) @ ''/'' @
           shown p ''completion_tokens'' (JInt 0) @ ''/'' @ shown p ''total_tokens'' (JInt 0),
         ''- audit_event_id: '' @ shown links ''audit_event_id'' (JStr []),
         ''- audit_event_type: '' @ shown links ''audit_event_type'' (JStr []), [],
         ax_md_boundary, ax_md_read_only, ax_md_redacted])"

definition get_report_markdown ::
  "unicode \<Rightarrow> 'w env \<Rightarrow> string \<Rightarrow> opened_file list option \<Rightarrow> (nat \<times> string) + string"
where
  "get_report_markdown u env report_id dir = with_report u env report_id dir (\<lambda>f p. markdown_preview env p)"

subsection \<open>The handlers\<close>

text \<open>The directory as it is; each handler loads, and thereby sanitises, the files it looks at.\<close>

definition list_pilot_reports :: "unicode \<Rightarrow> (string \<Rightarrow> bool) \<Rightarrow> 'w env \<Rightarrow> pilot_file list option \<Rightarrow> reply" where
  "list_pilot_reports u fine env dir = list_reports env (map_option (map (opened_report u fine)) dir)"

definition get_pilot_report ::
  "unicode \<Rightarrow> (string \<Rightarrow> bool) \<Rightarrow> 'w env \<Rightarrow> string \<Rightarrow> pilot_file list option \<Rightarrow> reply"
where
  "get_pilot_report u fine env rid dir = get_report u env rid (map_option (map (opened_report u fine)) dir)"

definition get_pilot_report_markdown ::
  "unicode \<Rightarrow> (string \<Rightarrow> bool) \<Rightarrow> 'w env \<Rightarrow> string \<Rightarrow> pilot_file list option \<Rightarrow> (nat \<times> string) + string"
where
  "get_pilot_report_markdown u fine env rid dir =
     get_report_markdown u env rid (map_option (map (opened_report u fine)) dir)"

subsection \<open>What the handlers show\<close>

text \<open>Files that keep no prompt below a key that names a secret, and two that differ in their prompts only.\<close>

definition promptless_file :: "unicode \<Rightarrow> pilot_file \<Rightarrow> bool" where
  "promptless_file u f \<longleftrightarrow> (case pf_payload f of Inl e \<Rightarrow> True | Inr v \<Rightarrow> secrets_promptless u v)"

definition same_file :: "unicode \<Rightarrow> pilot_file \<Rightarrow> pilot_file \<Rightarrow> bool" where
  "same_file u f g \<longleftrightarrow>
     pf_name f = pf_name g \<and> pf_regular f = pf_regular g \<and> pf_mtime f = pf_mtime g \<and>
     (case (pf_payload f, pf_payload g) of
        (Inl e, Inl e') \<Rightarrow> True | (Inr v, Inr w) \<Rightarrow> same_but_prompts u v w | _ \<Rightarrow> False)"

lemma opened_report_same:
  assumes "same_file u f g" and "promptless_file u f" and "promptless_file u g"
  shows "opened_report u fine f = opened_report u fine g"
proof -
  have "load_json u fine f = load_json u fine g"
  proof (cases "pf_payload f")
    case (Inl e)
    then show ?thesis using assms(1) by (cases "pf_payload g") (auto simp: same_file_def load_json_def)
  next
    case (Inr v)
    then obtain w where w: "pf_payload g = Inr w" "same_but_prompts u v w"
      using assms(1) by (cases "pf_payload g") (auto simp: same_file_def)
    have p: "secrets_promptless u v" "secrets_promptless u w" using assms(2,3) Inr w(1) by (simp_all add: promptless_file_def)
    show ?thesis
      using Inr w p by (cases v; cases w) (auto simp: load_json_def same_but_prompts_def intro!: arg_cong [where f = "map_sum id Some"] same_sanitized_dict)
  qed
  then show ?thesis using assms(1) by (simp add: same_file_def opened_report_def)
qed

lemma opened_all_same:
  "list_all2 (same_file u) fs gs \<Longrightarrow> list_all (promptless_file u) fs \<Longrightarrow> list_all (promptless_file u) gs \<Longrightarrow>
   map (opened_report u fine) fs = map (opened_report u fine) gs"
  by (induction rule: list_all2_induct) (simp_all add: opened_report_same)

lemma loaded_report_shows:
  assumes "of_load (opened_report u fine f) = Inr (Some d)" and "promptless_file u f"
  shows "under (pilot_prompt_key u) prompt_shown_as (JObj d)"
  using assms sanitize_shows(3) [of u fine _ d]
  by (auto simp: opened_report_def load_json_def promptless_file_def secrets_promptless_def map_sum_Inr
      split: sum.splits json.splits)

text \<open>
  An identifier is a name in the reports' own alphabet, and it is only compared with the reports: what is
  answered is a report of the directory whose own identifier it is.
\<close>

lemma order_desc_mem: "order_desc c xs = f # fs \<Longrightarrow> f \<in> set xs"
  by (metis list.set_intros(1) set_order_desc)

lemma loaded_reports_mem:
  "loaded_reports fs = Inr rs \<Longrightarrow> (f, d) \<in> set rs \<Longrightarrow> f \<in> set fs \<and> of_json f \<and> of_load f = Inr (Some d)"
proof (induction fs arbitrary: rs)
  case (Cons g fs)
  then show ?case
    by (auto simp: map_sum_Inr split: if_splits sum.splits option.splits)
qed simp

lemma get_report_finds:
  assumes "get_report u env report_id (Some fs) = Inr out"
  shows "\<exists>f d. f \<in> set fs \<and> of_json f \<and> of_load f = Inr (Some d) \<and> out = JObj (dput d ''name'' (JStr (of_name f))) \<and>
     str_at env d ''report_id'' = u_strip_text u report_id \<and> valid_report_id (u_strip_text u report_id)"
proof -
  obtain f d where f: "find_report env (u_strip_text u report_id) (Some fs) = Inr (Some f)"
    "of_load f = Inr (Some d)" "out = JObj (dput d ''name'' (JStr (of_name f)))"
    "valid_report_id (u_strip_text u report_id)"
    using assms by (auto simp: get_report_def with_report_def Let_def split: if_splits sum.splits option.splits list.splits)
  obtain rs where loaded: "loaded_reports fs = Inr rs"
    using f(1) by (auto simp: find_report_def map_sum_Inr)
  define named where "named = map fst (filter (\<lambda>r. str_at env (snd r) ''report_id'' = u_strip_text u report_id) rs)"
  have "f \<in> set named"
    using f(1) order_desc_mem [of of_mtime named]
    by (cases "order_desc of_mtime named") (auto simp: find_report_def loaded named_def [symmetric])
  then have rs: "loaded_reports fs = Inr rs"
    "f \<in> set (map fst (filter (\<lambda>r. str_at env (snd r) ''report_id'' = u_strip_text u report_id) rs))"
    using loaded by (simp_all only: named_def)
  then obtain d' where "(f, d') \<in> set rs" "str_at env d' ''report_id'' = u_strip_text u report_id" by auto
  with loaded_reports_mem [OF rs(1) this(1)] f show ?thesis by auto
qed

text \<open>
  C16. No prompt is served. Let no file of the directory keep a prompt below a key that names a secret. Then a report
  is answered with the name of its file and a payload in which every value under a key that names a prompt, at
  any depth, is the placeholder; and a second such directory whose files differ only in their prompts is answered
  alike by the list, by every report and by its Markdown.
\<close>

theorem served_reports_hide_prompts:
  assumes "list_all (promptless_file u) fs"
  shows "(\<forall>out. get_pilot_report u fine env rid (Some fs) = Inr out \<longrightarrow>
      (\<exists>f d. f \<in> set fs \<and> out = JObj (dput d ''name'' (JStr (pf_name f))) \<and>
         under (pilot_prompt_key u) prompt_shown_as (JObj d))) \<and>
    (list_all2 (same_file u) fs gs \<and> list_all (promptless_file u) gs \<longrightarrow>
      list_pilot_reports u fine env (Some fs) = list_pilot_reports u fine env (Some gs) \<and>
      get_pilot_report u fine env rid (Some fs) = get_pilot_report u fine env rid (Some gs) \<and>
      get_pilot_report_markdown u fine env rid (Some fs) = get_pilot_report_markdown u fine env rid (Some gs))"
proof (intro conjI allI impI)
  fix out
  assume "get_pilot_report u fine env rid (Some fs) = Inr out"
  then obtain g d where g: "g \<in> set (map (opened_report u fine) fs)" "of_load g = Inr (Some d)"
      "out = JObj (dput d ''name'' (JStr (of_name g)))"
    using get_report_finds [of u env rid "map (opened_report u fine) fs" out] by (auto simp: get_pilot_report_def)
  then obtain f where f: "f \<in> set fs" "g = opened_report u fine f" by auto
  have "promptless_file u f" using f(1) assms by (simp add: list_all_iff)
  with loaded_report_shows [of u fine f d] g f
  show "\<exists>f d. f \<in> set fs \<and> out = JObj (dput d ''name'' (JStr (pf_name f))) \<and> under (pilot_prompt_key u) prompt_shown_as (JObj d)"
    by (auto simp: opened_report_def)
qed (use assms opened_all_same [of u fs gs fine] in
    \<open>simp_all add: list_pilot_reports_def get_pilot_report_def get_pilot_report_markdown_def\<close>)

definition demo_report_file :: "string \<Rightarrow> pilot_file" where
  "demo_report_file prompt = \<lparr>pf_name = ''r1.json'', pf_regular = True, pf_mtime = 0,
     pf_payload = Inr (JObj (asked_report prompt))\<rparr>"

theorem served_reports_hide_prompts_witness:
  "(\<exists>d. get_pilot_report demo_unicode (\<lambda>_. True) demo_env ''r1'' (Some [demo_report_file ''raw'']) =
      Inr (JObj (dput d ''name'' (JStr ''r1.json''))) \<and> under (pilot_prompt_key demo_unicode) prompt_shown_as (JObj d)) \<and>
   get_pilot_report demo_unicode (\<lambda>_. True) demo_env ''r1'' (Some [demo_report_file ''raw'']) =
     get_pilot_report demo_unicode (\<lambda>_. True) demo_env ''r1'' (Some [demo_report_file ''other''])"
proof -
  let ?get = "\<lambda>q. get_pilot_report demo_unicode (\<lambda>_. True) demo_env ''r1'' (Some [demo_report_file q])"
  have p: "list_all (promptless_file demo_unicode) [demo_report_file ''raw'']"
    "list_all (promptless_file demo_unicode) [demo_report_file ''other'']"
    "list_all2 (same_file demo_unicode) [demo_report_file ''raw''] [demo_report_file ''other'']"
    by code_simp+
  obtain out where out: "?get ''raw'' = Inr out" by (rule that, code_simp)
  from served_reports_hide_prompts [OF p(1)] out p(2,3) show ?thesis by (fastforce simp: demo_report_file_def)
qed

end
