(* ===== verification/Api_Runtime.thy ===== *)
theory Api_Runtime
  imports Api_Approvals Trajectory Metrics_Store Deployment_Guard Preflight Self_Check
begin

text \<open>
  The handlers that show the runtime (\<open>app/api/metrics.py\<close>, \<open>memory_api.py\<close>, \<open>skills_api.py\<close>,
  \<open>reflection_api.py\<close>, \<open>runtime_snapshot.py\<close>, \<open>deployment.py\<close>, \<open>llm_acceptance.py\<close>, \<open>oidc.py\<close>): each
  renders a summary that another component computes. The one that changes anything clears a session.
\<close>

subsection \<open>Metrics\<close>

definition live_metrics :: "'w sys \<Rightarrow> metrics" where
  "live_metrics s = (case sy_metrics s of None \<Rightarrow> metrics_init | Some m \<Rightarrow> m)"

definition get_runtime_metrics :: "string \<Rightarrow> budget \<Rightarrow> 'v cache \<Rightarrow> 'w sys \<Rightarrow> reply \<times> 'w sys" where
  "get_runtime_metrics utc b c s =
     (Inr (JObj (dput (dput (metrics_summary (live_metrics s)) ''llm_budget'' (JObj (budget_summary utc b)))
        ''llm_cache'' (JObj (cache_stats c)))), s)"

definition get_cost_summary ::
  "(string \<Rightarrow> bool) \<Rightarrow> string option \<Rightarrow> string option \<Rightarrow> int \<Rightarrow> metrics_store \<Rightarrow> reply"
where
  "get_cost_summary valid_iso start stop limit m = Inr (JObj (cost_summary valid_iso start stop limit m))"

definition get_tools_summary ::
  "(string \<Rightarrow> bool) \<Rightarrow> string option \<Rightarrow> string option \<Rightarrow> int \<Rightarrow> metrics_store \<Rightarrow> reply"
where
  "get_tools_summary valid_iso start stop limit m = Inr (JObj (tool_summary valid_iso start stop limit m))"

definition get_stored_tasks_summary ::
  "(string \<Rightarrow> bool) \<Rightarrow> string option \<Rightarrow> string option \<Rightarrow> int \<Rightarrow> metrics_store \<Rightarrow> reply"
where
  "get_stored_tasks_summary valid_iso start stop limit m = Inr (JObj (task_summary valid_iso start stop limit m))"

subsection \<open>Memory\<close>

definition live_memory :: "'w sys \<Rightarrow> memory" where
  "live_memory s = (case sy_memory s of None \<Rightarrow> [] | Some m \<Rightarrow> m)"

definition get_session_memory :: "string \<Rightarrow> int \<Rightarrow> 'w sys \<Rightarrow> reply \<times> 'w sys" where
  "get_session_memory sid limit s =
     (Inr (JObj [(''session_id'', JStr sid), (''messages'', JList (map JObj (memory_get (live_memory s) sid limit))),
        (''context'', JObj (memory_context (live_memory s) sid))]), s)"

definition clear_session_memory :: "string \<Rightarrow> 'w sys \<Rightarrow> reply \<times> 'w sys" where
  "clear_session_memory sid s =
     (Inr (JObj [(''session_id'', JStr sid), (''cleared'', JBool True)]),
      s\<lparr>sy_memory := map_option (memory_clear sid) (sy_memory s)\<rparr>)"

text \<open>Clearing a session forgets it and no other.\<close>

lemma clear_forgets_session:
  "memory_of (live_memory (snd (clear_session_memory sid s))) k =
     (if k = sid then [] else memory_of (live_memory s) k)"
  by (simp add: clear_session_memory_def live_memory_def memory_of_def memory_clear_def AList.delete_conv split: option.split)

subsection \<open>Skills and reflection\<close>

definition skill_dump :: "skill_spec \<Rightarrow> jdict" where
  "skill_dump k =
     [(''name'', JStr (sk_name k)), (''description'', JStr (sk_description k)), (''triggers'', jstrs (sk_triggers k)),
      (''input_schema'', JObj (sk_input_schema k)), (''output_schema'', JObj (sk_output_schema k)),
      (''risk_level'', JStr (sk_risk_level k)), (''tool_names'', jstrs (sk_tool_names k))]"

definition api_list_skills :: "skills \<Rightarrow> reply" where
  "api_list_skills ss = Inr (JList (map (JObj \<circ> skill_dump) (list_skills ss)))"

definition api_match_skills :: "(string \<Rightarrow> string) \<Rightarrow> string \<Rightarrow> skills \<Rightarrow> reply" where
  "api_match_skills lower_text query ss =
     Inr (JObj [(''query'', JStr query),
       (''matched_skills'', JList (map (JObj \<circ> skill_dump) (match_skills lower_text query ss)))])"

definition run_reflection_check ::
  "'w env \<Rightarrow> jdict \<Rightarrow> jdict list option \<Rightarrow> jdict list option \<Rightarrow> reply"
where
  "run_reflection_check env res trace audit =
     (case self_check env res trace audit of Inl e \<Rightarrow> server_error | Inr r \<Rightarrow> Inr (JObj (reflection_dump r)))"

subsection \<open>Checks of the deployment\<close>

definition deploy_check_dict :: "deploy_check \<Rightarrow> jdict" where
  "deploy_check_dict c =
     [(''name'', JStr (dc_name c)), (''passed'', JBool (dc_passed c)),
      (''level'', JStr (if dc_error c then ''error'' else ''warning'')), (''detail'', JStr (dc_detail c))]"

definition deploy_dump :: "deploy_result \<Rightarrow> jdict" where
  "deploy_dump r =
     [(''ok'', JBool (dr_ok r)), (''environment'', JStr (dr_environment r)), (''errors'', jstrs (dr_errors r)),
      (''warnings'', jstrs (dr_warnings r)), (''checks'', JList (map (JObj \<circ> deploy_check_dict) (dr_checks r)))]"

definition deployment_check ::
  "unicode \<Rightarrow> (string \<Rightarrow> bool) \<Rightarrow> (string \<Rightarrow> string option) \<Rightarrow> settings \<Rightarrow> reply"
where
  "deployment_check u fine envvar cfg = Inr (JObj (deploy_dump (run_deployment_checks u fine envvar cfg)))"

definition api_llm_preflight ::
  "'w llm_env \<Rightarrow> (string \<Rightarrow> string option) \<Rightarrow> settings \<Rightarrow> bool \<Rightarrow> 'w sys \<Rightarrow> reply \<times> 'w sys"
where
  "api_llm_preflight le envvar cfg ask s =
     (case run_preflight le envvar cfg cfg ask (sy_world s) of
        (r, w) \<Rightarrow> (Inr (JObj (preflight_dump r)), s\<lparr>sy_world := w\<rparr>))"

definition get_oidc_status :: "unicode \<Rightarrow> (string \<Rightarrow> string option) \<Rightarrow> settings \<Rightarrow> reply" where
  "get_oidc_status u envvar cfg = Inr (JObj (build_oidc_status u envvar cfg))"

subsection \<open>The snapshot\<close>

definition count_by :: "('r \<Rightarrow> string) \<Rightarrow> 'r list \<Rightarrow> (string \<times> int) list" where
  "count_by key rows = fold (\<lambda>r. bump 0 (\<lambda>n. n + 1) (key r)) rows []"

definition counts_dict :: "(string \<times> int) list \<Rightarrow> json" where
  "counts_dict d = JObj (map (\<lambda>(k, n). (k, JInt n)) d)"

text \<open>A stored severity may be null: the key of its count is the text JSON gives None.\<close>

definition severity_key :: "audit_event \<Rightarrow> string" where
  "severity_key e = (case ev_severity e of None \<Rightarrow> ''null'' | Some x \<Rightarrow> x)"

definition no_filter :: audit_query where
  "no_filter = \<lparr>aq_event_type = None, aq_actor = None, aq_task_id = None, aq_approval_id = None, aq_outcome = None,
     aq_severity = None, aq_start_time = None, aq_end_time = None\<rparr>"

definition audit_summary :: "audit_event list \<Rightarrow> jdict" where
  "audit_summary rows =
     (let es = audit_query_events (\<lambda>_. True) no_filter 500 rows
      in [(''total_events'', JInt (int (length es))), (''by_outcome'', counts_dict (count_by ev_outcome es)),
          (''by_severity'', counts_dict (count_by severity_key es))])"

definition get_runtime_snapshot :: "string \<Rightarrow> metrics_store \<Rightarrow> skills \<Rightarrow> 'w sys \<Rightarrow> reply \<times> 'w sys" where
  "get_runtime_snapshot version ms ss s =
     (Inr (JObj
        [(''app_version'', JStr version), (''metrics_summary'', JObj (metrics_summary (live_metrics s))),
         (''cost_summary'', JObj (cost_summary (\<lambda>_. True) None None 100 ms)),
         (''task_summary'', JObj (task_summary (\<lambda>_. True) None None 100 ms)),
         (''tool_summary'', JObj (tool_summary (\<lambda>_. True) None None 100 ms)),
         (''audit_summary'', JObj (audit_summary (sy_audit s))),
         (''memory_summary'', JObj (memory_summary (live_memory s))),
         (''skills_summary'', JObj [(''skill_count'', JInt (int (length (list_skills ss)))),
            (''skill_names'', jstrs (map sk_name (list_skills ss)))])]), s)"

text \<open>The counts of a column add up to the number of events counted.\<close>

lemma bump_simps:
  "bump z f k [] = [(k, f z)]" "bump z f k ((a, b) # d) = (if a = k then (a, f b) # d else (a, b) # bump z f k d)"
  by (simp_all add: bump_def dput_def)

lemma sum_bump: "sum_list (map snd (bump 0 (\<lambda>n. n + 1) k d)) = sum_list (map snd d) + (1 :: int)"
  by (induction d) (auto simp: bump_simps)

lemma count_by_adds_up: "sum_list (map snd (count_by key rows)) = int (length rows)"
proof -
  have "sum_list (map snd (fold (\<lambda>r. bump 0 (\<lambda>n. n + 1) (key r)) rows d)) = sum_list (map snd d) + int (length rows)"
    for d by (induction rows arbitrary: d) (simp_all add: sum_bump)
  then show ?thesis by (simp add: count_by_def)
qed

end
