(* ===== verification/Api_Operations.thy ===== *)
theory Api_Operations
  imports Api_Observability Api_Pilot Api_Runtime
begin

text \<open>
  The summary of \<open>/operations\<close> (\<open>app/api/operations.py\<close>): health, checks of the deployment, metrics, tasks
  and approvals, audit events, pilot reports and the landing page's verdict, in one read-only dict. The
  directories of reports and the environment variables are parameters.
\<close>

subsection \<open>Reports on disk\<close>

definition is_json_name :: "pilot_file \<Rightarrow> bool" where
  "is_json_name f \<longleftrightarrow> ends ''.json'' (pf_name f)"

text \<open>A path: whether it exists, whether it is a directory, and its entries.\<close>

record report_dir =
  rd_path :: string
  rd_exists :: bool
  rd_is_dir :: bool
  rd_files :: "pilot_file list"

definition count_json_reports :: "report_dir \<Rightarrow> jdict" where
  "count_json_reports d =
     (if \<not> rd_exists d \<or> \<not> rd_is_dir d
      then [(''directory'', JStr (rd_path d)), (''directory_exists'', JBool False), (''json_report_count'', JInt 0)]
      else [(''directory'', JStr (rd_path d)), (''directory_exists'', JBool True),
        (''json_report_count'', JInt (int (length (filter is_json_name (rd_files d)))))])"

definition ops_report_row :: "'w env \<Rightarrow> pilot_file \<times> jdict \<Rightarrow> jdict" where
  "ops_report_row env fd =
     (let (f, p) = fd; txt = (\<lambda>k dflt. (k, JStr (value_text env (dget_or p k (JStr dflt)))))
      in [txt ''report_id'' (path_stem (pf_name f)), txt ''generated_at'' [], txt ''scenario'' [], txt ''outcome'' [],
          txt ''request_id'' [], (''fallback_used'', JBool (truthy (dget p ''fallback_used''))),
          (''cost'', JFloat (rat_of (dget p ''cost''))), (''total_tokens'', JInt (int_of (dget p ''total_tokens''))),
          txt ''audit_event_id'' [], (''name'', JStr (pf_name f))])"

fun ops_report_rows ::
  "unicode \<Rightarrow> (string \<Rightarrow> bool) \<Rightarrow> 'w env \<Rightarrow> pilot_file list \<Rightarrow> string + jdict list"
where
  "ops_report_rows u fine env [] = Inr []"
| "ops_report_rows u fine env (f # fs) =
     (case load_json u fine f of
        Inl e \<Rightarrow> Inl e
      | Inr None \<Rightarrow> ops_report_rows u fine env fs
      | Inr (Some p) \<Rightarrow> map_sum id ((#) (ops_report_row env (f, p))) (ops_report_rows u fine env fs))"

definition collect_pilot_report_summary ::
  "unicode \<Rightarrow> (string \<Rightarrow> bool) \<Rightarrow> 'w env \<Rightarrow> report_dir \<Rightarrow> string + jdict"
where
  "collect_pilot_report_summary u fine env d =
     (if \<not> rd_exists d
      then Inr [(''report_dir'', JStr (rd_path d)), (''directory_exists'', JBool False), (''total_reports'', JInt 0),
        (''reports'', JList [])]
      else
        (let js = filter is_json_name (rd_files d)
         in map_sum id (\<lambda>rows.
              [(''report_dir'', JStr (rd_path d)), (''directory_exists'', JBool True),
               (''total_reports'', JInt (int (length js))), (''reports'', JList (map JObj rows))])
              (ops_report_rows u fine env (take 10 (order_desc pf_mtime js)))))"

definition latest_text_quality_status :: "'w env \<Rightarrow> pilot_file list \<Rightarrow> string + jdict" where
  "latest_text_quality_status env fs =
     (case order_desc pf_mtime (filter is_json_name fs) of
        [] \<Rightarrow> Inr [(''status'', JStr ''not-run''), (''blocked_file_count'', JInt 0)]
      | f # _ \<Rightarrow>
          (case pf_payload f of
             Inl e \<Rightarrow> Inr [(''status'', JStr ''unreadable''), (''blocked_file_count'', JInt 1)]
           | Inr (JObj p) \<Rightarrow>
               Inr [(''status'', JStr (value_text env (dget_or p ''status'' (JStr ''unknown'')))),
                 (''blocked_file_count'', JInt (int_of (dget p ''blocked_file_count'')))]
           | Inr v \<Rightarrow> Inl (type_name v @ '' object has no attribute get'')))"

subsection \<open>Stores\<close>

text \<open>
  The cache of results has no \<open>summary\<close>: asking for it raises, and the handler of the exception empties the
  summary of the budget as well.
\<close>

definition collect_runtime_metrics :: "'w sys \<Rightarrow> jdict" where
  "collect_runtime_metrics s =
     dput (dput (metrics_summary (live_metrics s)) ''llm_budget'' (JObj [])) ''llm_cache'' (JObj [])"

definition ops_task_row :: "task_row \<Rightarrow> jdict" where
  "ops_task_row r =
     [(''task_id'', JStr (tr_id r)), (''status'', JStr (task_status_value (tr_status r))), (''mode'', JStr (tr_mode r)),
      (''created_at'', JStr (tr_created_at r))]"

definition ops_approval_row :: "approval_row \<Rightarrow> jdict" where
  "ops_approval_row r =
     [(''approval_id'', JStr (ar_id r)), (''task_id'', JStr (ar_task_id r)),
      (''status'', JStr (approval_status_value (ar_status r))), (''risk_level'', JStr (risk_level_value (ar_risk_level r))),
      (''tool_name'', JStr (ar_tool_name r)), (''requested_at'', JStr (ar_requested_at r))]"

definition collect_task_approval_summary :: "'w sys \<Rightarrow> jdict" where
  "collect_task_approval_summary s =
     (let tasks = tk_list 200 (sy_tasks s); approvals = ap_list None 200 (sy_approvals s)
      in [(''task_count'', JInt (int (length tasks))), (''approval_count'', JInt (int (length approvals))),
          (''pending_approval_count'', JInt (int (length (filter (\<lambda>r. ar_status r = APending) approvals)))),
          (''task_status_counts'', counts_dict (count_by (\<lambda>r. task_status_value (tr_status r)) tasks)),
          (''recent_tasks'', JList (map (JObj \<circ> ops_task_row) (take 10 tasks))),
          (''recent_approvals'', JList (map (JObj \<circ> ops_approval_row) (take 10 approvals)))])"

definition ops_audit_row :: "'w env \<Rightarrow> jdict \<Rightarrow> jdict" where
  "ops_audit_row env d =
     (let txt = (\<lambda>k. (k, JStr (value_text env (dget_or d k (JStr [])))))
      in [txt ''event_id'', txt ''event_type'',
          (''created_at'', JStr (value_text env (first_of [dget d ''created_at'', dget d ''timestamp''] (JStr [])))),
          txt ''actor'', txt ''outcome'', txt ''severity'', txt ''task_id'', txt ''request_id'', txt ''summary'',
          (''detail_redacted'', JObj (or_dict (dget d ''detail'')))])"

definition collect_audit_summary ::
  "unicode \<Rightarrow> (string \<Rightarrow> bool) \<Rightarrow> 'w env \<Rightarrow> audit_event list \<Rightarrow> string + jdict"
where
  "collect_audit_summary u fine env rows =
     map_sum id (\<lambda>ds. [(''event_count'', JInt (int (length ds))), (''recent_events'', JList (map (JObj \<circ> ops_audit_row env) ds))])
       (export_lines u fine env (audit_query_events (\<lambda>_. True) no_filter 20 rows))"

subsection \<open>The landing page\<close>

definition jtext :: "string \<Rightarrow> string \<Rightarrow> string \<times> json" where
  "jtext k v = (k, JStr v)"

definition console_command :: "string \<Rightarrow> string \<Rightarrow> string \<Rightarrow> string \<Rightarrow> json" where
  "console_command ident label cmd boundary =
     JObj [jtext ''id'' ident, jtext ''label'' label, jtext ''command'' cmd, jtext ''safe_boundary'' boundary]"

definition operator_guidance :: json where
  "operator_guidance =
     JObj [jtext ''status'' ''ready'',
       (''runbook_paths'', jstrs [''README.md'', ''docs/interview_demo_readiness_v50.md'',
          ''docs/resume_interview_optimization_pack_v50.md'']),
       (''commands'', JList
         [console_command ''run_interview_readiness'' ''Run read-only interview readiness check''
            ''python scripts/interview_demo_readiness.py'' ''read_only_no_secret_plaintext'',
          console_command ''start_local_demo'' ''Start local Docker demo''
            ''powershell -NoProfile -ExecutionPolicy Bypass -File scripts/demo_up.ps1'' ''local_demo_no_secret_plaintext'',
          console_command ''run_demo_smoke'' ''Run local demo smoke check''
            ''powershell -NoProfile -ExecutionPolicy Bypass -File scripts/demo_smoke.ps1'' ''local_read_only_smoke'']),
       jtext ''public_production_direct_launch'' ''No-Go'', (''secret_plaintext_output'', JBool False)]"

definition next_actions :: json where
  "next_actions = jstrs [''run_interview_demo_readiness'', ''start_local_demo'', ''run_demo_smoke'',
     ''inspect_multi_agent_trajectory'',
     ''keep_public_production_direct_launch_no_go_until_real_business_system_acceptance'']"

definition text_quality_ok :: "jdict \<Rightarrow> bool" where
  "text_quality_ok q \<longleftrightarrow> dget q ''status'' \<in> {JStr ''success'', JStr ''not-run''}"

definition review_reasons :: "bool \<Rightarrow> bool \<Rightarrow> string list" where
  "review_reasons deployed quality =
     (if deployed then [] else [''deployment_guard:not_ok'']) @ (if quality then [] else [''text_quality:blocked'']) @
     [''business_system:real_system_not_connected'']"

definition landing_summary :: "'w env \<Rightarrow> jdict \<Rightarrow> deploy_result \<Rightarrow> jdict \<Rightarrow> jdict" where
  "landing_summary env health r q =
     (let deployed = dr_ok r; ready = (deployed \<and> text_quality_ok q); reasons = review_reasons deployed (text_quality_ok q)
      in [jtext ''mode'' ''read_only_showcase'', jtext ''status'' (if ready then ''ready'' else ''partial''),
          jtext ''controlled_internal_pilot'' ''Manual-Review'',
          jtext ''controlled_internal_pilot_source'' ''showcase_runtime_summary'',
          jtext ''public_production_direct_launch'' ''No-Go'', (''precommit_ready'', JBool ready),
          jtext ''action_pack_status'' (if ready then ''showcase-ready'' else ''review''),
          (''action_required_input_count'', JInt (int (length reasons))), (''infra_ready'', JBool deployed),
          (''real_business_system_connected'', JBool False),
          (''business_system_gap_accepted_for_controlled_pilot'', JBool True),
          (''business_system_public_production_blocker'', JBool True),
          (''run_packet_missing_conditions'', jstrs reasons), (''secret_plaintext_output'', JBool False),
          (''evidence'', JObj
            [(''runtime'', JObj [(''status'', JStr (value_text env (dget_or health ''status'' (JStr ''unknown'')))),
                jtext ''detail'' ''FastAPI runtime health'']),
             (''deployment'', JObj [jtext ''status'' (if deployed then ''success'' else ''blocked''),
                jtext ''detail'' (''errors='' @ nat_text (length (dr_errors r)) @ '' warnings='' @
                  nat_text (length (dr_warnings r)))]),
             (''tests'', JObj [jtext ''status'' ''tracked-in-ci'',
                jtext ''detail'' ''pytest, frontend lint/build, docker compose config'']),
             (''text_quality'', JObj q)]),
          (''next_actions'', next_actions), (''operator_guidance'', operator_guidance)])"

subsection \<open>The summary\<close>

definition CURRENT_DOCS :: "string list" where
  "CURRENT_DOCS = [''README.md'', ''docs/architecture.md'', ''docs/api_v1.md'', ''docs/demo_script_v1.md'',
     ''docs/deployment_runbook.md'', ''docs/interview_guide.md'', ''docs/resume_blog_notes.md'',
     ''docs/resume_interview_optimization_pack_v50.md'', ''docs/interview_demo_readiness_v50.md'',
     ''docs/production_policy.md'']"

definition CURRENT_SCRIPTS :: "string list" where
  "CURRENT_SCRIPTS = [''scripts/init_demo_db.py'', ''scripts/demo_seed_data.py'', ''scripts/start_app.py'',
     ''scripts/start_dev.py'', ''scripts/demo_up.ps1'', ''scripts/demo_smoke.ps1'', ''scripts/demo_down.ps1'',
     ''scripts/check_health.py'', ''scripts/local_fake_mcp_stdio_server.py'', ''scripts/interview_demo_readiness.py'',
     ''scripts/prod_compose_required_env_check.py'', ''scripts/prod_config_check.ps1'']"

definition env_text :: "(string \<Rightarrow> string option) \<Rightarrow> string \<Rightarrow> string \<Rightarrow> string" where
  "env_text envvar k dflt = (case envvar k of None \<Rightarrow> dflt | Some v \<Rightarrow> v)"

definition ops_health :: "unicode \<Rightarrow> (string \<Rightarrow> string option) \<Rightarrow> jdict" where
  "ops_health u envvar =
     (let on = (\<lambda>k. JBool (u_lower_text u (env_text envvar k ''false'') = ''true''))
      in [jtext ''status'' ''ok'', jtext ''service'' ''project-b-multi-agent'',
          jtext ''version'' (env_text envvar ''APP_VERSION'' ''unknown''),
          jtext ''storage_backend'' (env_text envvar ''STORAGE_BACKEND'' ''sqlite''),
          (''auth_enabled'', on ''AUTH_ENABLED''), (''rbac_enabled'', on ''RBAC_ENABLED'')])"

definition ops_deployment :: "deploy_result \<Rightarrow> jdict" where
  "ops_deployment r =
     [(''ok'', JBool (dr_ok r)), (''environment'', JStr (dr_environment r)),
      (''error_count'', JInt (int (length (dr_errors r)))), (''warning_count'', JInt (int (length (dr_warnings r)))),
      (''errors'', jstrs (dr_errors r)), (''warnings'', jstrs (dr_warnings r)),
      (''check_count'', JInt (int (length (dr_checks r))))]"

record ops_dirs =
  od_pilot :: report_dir
  od_quality :: report_dir
  od_interview :: report_dir

definition ops_observability :: "jdict \<Rightarrow> ops_dirs \<Rightarrow> jdict \<Rightarrow> jdict \<Rightarrow> jdict" where
  "ops_observability landing dirs reports audit =
     [(''landing_command_center'', JObj landing), (''current_docs'', jstrs CURRENT_DOCS),
      (''current_scripts'', jstrs CURRENT_SCRIPTS),
      (''last_known_report_counts'', JObj
        [(''pilot_reports'', JInt (int_of (dget reports ''total_reports''))),
         (''audit_recent_events'', JInt (int_of (dget audit ''event_count''))),
         (''text_quality_reports'', JInt (int_of (dget (count_json_reports (od_quality dirs)) ''json_report_count''))),
         (''interview_demo_readiness_reports'',
            JInt (int_of (dget (count_json_reports (od_interview dirs)) ''json_report_count'')))])]"

definition demo_evidence :: jdict where
  "demo_evidence =
     [jtext ''mode'' ''fake_offline_default'', jtext ''runbook_path'' ''docs/interview_demo_readiness_v50.md'',
      jtext ''script_path'' ''scripts/interview_demo_readiness.py'',
      jtext ''tip'' ''Use interview_demo_readiness and the Operations Command Center for local showcase validation.'']"

definition get_operations_summary ::
  "unicode \<Rightarrow> (string \<Rightarrow> bool) \<Rightarrow> 'w env \<Rightarrow> (string \<Rightarrow> string option) \<Rightarrow> settings \<Rightarrow> ops_dirs \<Rightarrow> 'w sys \<Rightarrow> reply \<times> 'w sys"
where
  "get_operations_summary u fine env envvar cfg dirs s =
     (let health = ops_health u envvar; r = run_deployment_checks u fine envvar cfg
      in case then_try (collect_audit_summary u fine env (sy_audit s)) (\<lambda>audit.
              then_try (collect_pilot_report_summary u fine env (od_pilot dirs)) (\<lambda>reports.
              then_try (latest_text_quality_status env (rd_files (od_quality dirs))) (\<lambda>quality.
                Inr [(''generated_at'', JStr (utc_iso env (sy_world s))), jtext ''mode'' ''read_only'',
                  (''health'', JObj health), (''deployment'', JObj (ops_deployment r)),
                  (''runtime_metrics'', JObj (collect_runtime_metrics s)),
                  (''task_approval'', JObj (collect_task_approval_summary s)), (''audit'', JObj audit),
                  (''pilot_reports'', JObj reports),
                  (''observability'', JObj (ops_observability (landing_summary env health r quality) dirs reports audit)),
                  (''demo_evidence'', JObj demo_evidence)]))) of
           Inl e \<Rightarrow> (server_error, s)
         | Inr d \<Rightarrow> (Inr (JObj d), s))"

subsection \<open>What the summary says\<close>

text \<open>The landing page says ready exactly when the guard passes and the texts were not found wanting, and never Go.\<close>

lemma landing_verdict:
  "dget (landing_summary env health r q) ''precommit_ready'' = JBool (dr_ok r \<and> text_quality_ok q)"
  "dget (landing_summary env health r q) ''public_production_direct_launch'' = JStr ''No-Go''"
  "dget (landing_summary env health r q) ''action_required_input_count'' = JInt 1 \<longleftrightarrow> dr_ok r \<and> text_quality_ok q"
  by (simp_all add: landing_summary_def jtext_def Let_def review_reasons_def)

text \<open>
  The rows of the audit events show no detail at all: they look for a field that the export does not have.
\<close>

lemma ops_audit_shows_no_detail:
  assumes "export_lines u fine env es = Inr ds" and "d \<in> set ds"
  shows "dget (ops_audit_row env d) ''detail_redacted'' = JObj []"
proof -
  have "map fst d = AUDIT_EXPORT_FIELD_WHITELIST"
    using export_lines_safe [OF assms(1)] assms(2) by (auto simp: in_set_conv_nth list_all2_conv_all_nth line_safe_def)
  then have "fst ` set d = set AUDIT_EXPORT_FIELD_WHITELIST" by (metis list.set_map)
  then have "''detail'' \<notin> fst ` set d" by (simp add: AUDIT_EXPORT_FIELD_WHITELIST_def)
  then have "dget d ''detail'' = JNull" by (metis dget_def dget_or_def map_of_eq_None_iff option.case(1))
  then show ?thesis by (simp add: ops_audit_row_def Let_def)
qed

end
