(* ===== verification/Api_Eval.thy ===== *)
theory Api_Eval
  imports Api_Nl2sql Bad_Cases
begin

text \<open>
  The evaluation handlers (\<open>app/api/eval_summary.py\<close>, \<open>bad_cases.py\<close>, \<open>multi_agent_eval.py\<close>): a suite on its own,
  all suites in one run, and the summary, which shows the accuracies the last such run left in the module. The
  cases are given as their files read, or the exception that reading them raises.
\<close>

record eval_memory =
  em_multi_agent :: "rat option"
  em_nl2sql :: "rat option"

definition opt_rate :: "rat option \<Rightarrow> json" where
  "opt_rate x = (case x of None \<Rightarrow> JNull | Some q \<Rightarrow> JFloat q)"

subsection \<open>The multi-agent suite\<close>

definition mock_opts :: nl2sql_opts where
  "mock_opts = \<lparr>no_generator = ''mock'', no_provider = None, no_fallback_to_mock = True\<rparr>"

definition ma_failure_dump :: "ma_failure \<Rightarrow> jdict" where
  "ma_failure_dump f =
     [(''case_id'', JStr (mf_case_id f)), (''query'', JStr (mf_query f)),
      (''expected_executed_mode'', opt_str (mf_expected_mode f)), (''actual_executed_mode'', JStr (mf_actual_mode f)),
      (''expected_success'', JBool (mf_expected_success f)), (''actual_success'', JBool (mf_actual_success f)),
      (''reason'', JStr (mf_reason f)), (''failure_stage'', opt_str (mf_stage f)),
      (''trace_task_id'', JStr (mf_trace_task_id f)), (''trajectory_issues'', jstrs (mf_trajectory_issues f))]"

definition multi_agent_eval_response :: "ma_eval \<Rightarrow> jdict" where
  "multi_agent_eval_response a =
     [(''total'', JInt (int (me_total a))), (''passed'', JInt (int (me_passed a))), (''accuracy'', JFloat (me_accuracy a)),
      (''failures'', JList (map (JObj \<circ> ma_failure_dump) (me_failures a))),
      (''mode_confusion_count'', JInt (int (me_mode_confusions a))),
      (''trajectory_passed'', JInt (int (me_trajectory_passed a))),
      (''trajectory_failed'', JInt (int (me_trajectory_failed a))),
      (''trajectory_accuracy'', JFloat (me_trajectory_accuracy a))]"

definition run_multi_agent_eval ::
  "(json list \<Rightarrow> string) \<Rightarrow> 'w env \<Rightarrow> 'w orchestrator \<Rightarrow> string + ma_case list \<Rightarrow> 'w sys \<Rightarrow> reply \<times> 'w sys"
where
  "run_multi_agent_eval set_text env orc cases s =
     (case cases of
        Inl e \<Rightarrow> (server_error, s)
      | Inr cs \<Rightarrow>
          (case ma_eval_run set_text env orc True mock_opts cs s of
             (Inl e, s1) \<Rightarrow> (server_error, s1)
           | (Inr a, s1) \<Rightarrow> (Inr (JObj (multi_agent_eval_response a)), s1)))"

subsection \<open>All suites\<close>

record suite_result =
  su_suite :: string
  su_total :: nat
  su_passed :: nat
  su_accuracy :: rat
  su_failures :: "jdict list"

definition failed_suite :: "string \<Rightarrow> string \<Rightarrow> suite_result" where
  "failed_suite suite why =
     \<lparr>su_suite = suite, su_total = 0, su_passed = 0, su_accuracy = 0,
      su_failures = [[(''case_id'', JStr ''__error__''), (''reason'', JStr why)]]\<rparr>"

definition suite_dump :: "suite_result \<Rightarrow> jdict" where
  "suite_dump r =
     [(''suite'', JStr (su_suite r)), (''total'', JInt (int (su_total r))), (''passed'', JInt (int (su_passed r))),
      (''accuracy'', JFloat (su_accuracy r)), (''failures'', JList (map JObj (su_failures r)))]"

text \<open>A suite that ran, with the failures it adds to those of all suites.\<close>

definition nl2sql_suite :: "nl_stats \<Rightarrow> suite_result" where
  "nl2sql_suite st =
     \<lparr>su_suite = ''nl2sql'', su_total = ns_total st, su_passed = ns_passed st, su_accuracy = ns_accuracy st,
      su_failures = map failure_dump (ns_failures st)\<rparr>"

definition multi_agent_suite :: "ma_eval \<Rightarrow> suite_result" where
  "multi_agent_suite a =
     \<lparr>su_suite = ''multi_agent'', su_total = me_total a, su_passed = me_passed a, su_accuracy = me_accuracy a,
      su_failures = map ma_failure_dump (me_failures a)\<rparr>"

definition suite_failures :: "suite_result \<Rightarrow> json list" where
  "suite_failures r = map (\<lambda>d. JObj ((''suite'', JStr (su_suite r)) # d)) (su_failures r)"

record run_all =
  ra_suites :: "suite_result list"
  ra_total :: nat
  ra_passed :: nat
  ra_failures :: "json list"

definition add_suite :: "suite_result \<Rightarrow> run_all \<Rightarrow> run_all" where
  "add_suite r x =
     x\<lparr>ra_suites := ra_suites x @ [r], ra_total := ra_total x + su_total r, ra_passed := ra_passed x + su_passed r,
       ra_failures := ra_failures x @ suite_failures r\<rparr>"

definition add_error :: "string \<Rightarrow> string \<Rightarrow> run_all \<Rightarrow> run_all" where
  "add_error suite why x = x\<lparr>ra_suites := ra_suites x @ [failed_suite suite why]\<rparr>"

definition run_nl2sql_suite ::
  "'w env \<Rightarrow> 'w sql_pipeline \<Rightarrow> (string option \<Rightarrow> 'w \<Rightarrow> (string + schema_table list) \<times> 'w) \<Rightarrow> string + nl_case list \<Rightarrow>
     eval_memory \<times> run_all \<times> 'w sys \<Rightarrow> eval_memory \<times> run_all \<times> 'w sys"
where
  "run_nl2sql_suite env pl extract cases st =
     (case st of (m, x, s) \<Rightarrow>
        (case on_world (\<lambda>w. case cases of
                  Inr cs \<Rightarrow> nl_eval_run env pl extract ''mock'' None (MockGenerator, None) False None cs w
                | Inl e \<Rightarrow> (case extract None w of (Inl e', w1) \<Rightarrow> (Inl e', w1) | (Inr _, w1) \<Rightarrow> (Inl e, w1))) s of
           (Inl e, s1) \<Rightarrow> (m, add_error ''nl2sql'' e x, s1)
         | (Inr r, s1) \<Rightarrow> (m\<lparr>em_nl2sql := Some (ns_accuracy r)\<rparr>, add_suite (nl2sql_suite r) x, s1)))"

text \<open>The multi-agent runner of this handler has no trace recorder.\<close>

definition run_multi_agent_suite ::
  "(json list \<Rightarrow> string) \<Rightarrow> 'w env \<Rightarrow> 'w orchestrator \<Rightarrow> string + ma_case list \<Rightarrow>
     eval_memory \<times> run_all \<times> 'w sys \<Rightarrow> eval_memory \<times> run_all \<times> 'w sys"
where
  "run_multi_agent_suite set_text env orc cases st =
     (case st of (m, x, s) \<Rightarrow>
        (case (case cases of Inl e \<Rightarrow> (Inl e, s) | Inr cs \<Rightarrow> ma_eval_run set_text env orc False mock_opts cs s) of
           (Inl e, s1) \<Rightarrow> (m, add_error ''multi_agent'' e x, s1)
         | (Inr a, s1) \<Rightarrow> (m\<lparr>em_multi_agent := Some (me_accuracy a)\<rparr>, add_suite (multi_agent_suite a) x, s1)))"

definition run_all_response :: "run_all \<Rightarrow> jdict" where
  "run_all_response x =
     [(''suites'', JList (map (JObj \<circ> suite_dump) (ra_suites x))), (''total_cases'', JInt (int (ra_total x))),
      (''total_passed'', JInt (int (ra_passed x))), (''overall_accuracy'', JFloat (share (ra_passed x) (ra_total x))),
      (''failures'', JList (ra_failures x))]"

definition run_all_suites ::
  "(json list \<Rightarrow> string) \<Rightarrow> 'w env \<Rightarrow> 'w sql_pipeline \<Rightarrow> (string option \<Rightarrow> 'w \<Rightarrow> (string + schema_table list) \<times> 'w) \<Rightarrow>
     'w orchestrator \<Rightarrow> string + nl_case list \<Rightarrow> string + ma_case list \<Rightarrow> eval_memory \<times> 'w sys \<Rightarrow>
     eval_memory \<times> run_all \<times> 'w sys"
where
  "run_all_suites set_text env pl extract orc nl ma st =
     run_multi_agent_suite set_text env orc ma (run_nl2sql_suite env pl extract nl
       (fst st, \<lparr>ra_suites = [], ra_total = 0, ra_passed = 0, ra_failures = []\<rparr>, snd st))"

definition run_all_evals ::
  "(json list \<Rightarrow> string) \<Rightarrow> 'w env \<Rightarrow> 'w sql_pipeline \<Rightarrow> (string option \<Rightarrow> 'w \<Rightarrow> (string + schema_table list) \<times> 'w) \<Rightarrow>
     'w orchestrator \<Rightarrow> string + nl_case list \<Rightarrow> string + ma_case list \<Rightarrow> eval_memory \<times> 'w sys \<Rightarrow>
     reply \<times> eval_memory \<times> 'w sys"
where
  "run_all_evals set_text env pl extract orc nl ma st =
     (case run_all_suites set_text env pl extract orc nl ma st of
        (m, x, s) \<Rightarrow> (Inr (JObj (run_all_response x)), m, s))"

subsection \<open>The summary\<close>

definition case_count :: "string + 'a list \<Rightarrow> nat" where
  "case_count cases = (case cases of Inl _ \<Rightarrow> 0 | Inr cs \<Rightarrow> length cs)"

definition readable :: "string + 'a list \<Rightarrow> bool" where
  "readable cases = (case cases of Inl _ \<Rightarrow> False | Inr _ \<Rightarrow> True)"

definition get_eval_summary ::
  "string + nl_case list \<Rightarrow> string + ma_case list \<Rightarrow> string + bad_spec list \<Rightarrow> eval_memory \<Rightarrow> reply"
where
  "get_eval_summary nl ma bad m =
     Inr (JObj
       [(''nl2sql_eval_available'', JBool (readable nl)), (''multi_agent_eval_available'', JBool True),
        (''bad_case_eval_available'', JBool (readable bad)), (''latest_multi_agent_accuracy'', opt_rate (em_multi_agent m)),
        (''latest_nl2sql_accuracy'', opt_rate (em_nl2sql m)), (''bad_case_count'', JInt (int (case_count bad))),
        (''case_counts'', JObj [(''nl2sql'', JInt (int (case_count nl))), (''multi_agent'', JInt (int (case_count ma))),
           (''bad_cases'', JInt (int (case_count bad)))])])"

subsection \<open>Bad cases\<close>

record bad_request =
  bq_use_judge :: bool
  bq_limit :: "int option"
  bq_suite :: "string option"
  bq_judge_provider :: "string option"
  bq_judge_fallback :: "bool option"

text \<open>What the judge of a request is built with (\<open>x or None\<close> on each text, the numbers as they are).\<close>

definition judge_request_options :: "settings \<Rightarrow> llm_options" where
  "judge_request_options cfg =
     (let given = (\<lambda>t. if t = [] then None else Some t)
      in \<lparr>lo_api_key = None, lo_model = given (st_judge_model cfg),
          lo_base_url = given (if st_judge_base_url cfg = [] then st_llm_base_url cfg else st_judge_base_url cfg),
          lo_timeout = Some (st_judge_timeout_seconds cfg), lo_max_retries = Some (st_judge_max_retries cfg),
          lo_backoff = Some (st_judge_retry_backoff_seconds cfg), lo_temperature = None\<rparr>)"

text \<open>The judge a request asks for; \<open>build\<close> is the constructor of \<open>LLMJudgeProvider\<close> (\<open>judge_of\<close> over its outside).\<close>

definition request_judge ::
  "settings \<Rightarrow> (string option \<Rightarrow> bool option \<Rightarrow> llm_options \<Rightarrow> 'w judge) \<Rightarrow> bad_request \<Rightarrow>
     (judge_input \<Rightarrow> judge_state \<times> 'w \<Rightarrow> (string + judge_result) \<times> judge_state \<times> 'w) option"
where
  "request_judge cfg build q =
     (let provider = or_text (bq_judge_provider q) (st_judge_provider cfg);
          fallback = given_or (bq_judge_fallback q) (st_judge_fallback_to_fake cfg)
      in if \<not> bq_use_judge q then None
         else if provider = ''fake'' then Some (\<lambda>i st. (Inr (fake_judge i), st))
         else Some (\<lambda>i st. case judge_evaluate (build (Some provider) (Some fallback) (judge_request_options cfg)) i st of
                          (r, st1) \<Rightarrow> (Inr r, st1)))"

definition bad_result_dump :: "(pyfloat \<Rightarrow> json) \<Rightarrow> bad_result \<Rightarrow> jdict" where
  "bad_result_dump num r =
     [(''case_id'', JStr (bz_case_id r)), (''suite'', JStr (bz_suite r)), (''query'', JStr (bz_query r)),
      (''expected_outcome'', JStr (bz_expected_outcome r)), (''actual_outcome'', JStr (bz_actual_outcome r)),
      (''expected_error_type'', JStr (bz_expected_error r)), (''actual_error_type'', JStr (bz_actual_error r)),
      (''passed'', JBool (bz_passed r)), (''reason'', JStr (bz_reason r)), (''trace_task_id'', JStr (bz_trace_task_id r)),
      (''tags'', jstrs (bz_tags r)), (''judge_score'', case bz_judge_score r of None \<Rightarrow> JNull | Some x \<Rightarrow> num x),
      (''judge_provider'', opt_str (bz_judge_provider r)), (''judge_fallback_used'', JBool (bz_judge_fallback_used r)),
      (''judge_fallback_reason'', JStr (bz_judge_fallback_reason r)),
      (''judge_prompt_tokens'', JInt (bz_judge_prompt_tokens r)),
      (''judge_completion_tokens'', JInt (bz_judge_completion_tokens r)), (''judge_cost'', JFloat (bz_judge_cost r)),
      (''judge_confidence'', case bz_judge_confidence r of None \<Rightarrow> JNull | Some x \<Rightarrow> num x),
      (''judge_provider_metadata'', opt_dict (bz_judge_metadata r))]"

text \<open>\<open>num\<close> is how the response shows a float, one that is no number included.\<close>

definition bad_run_response :: "(pyfloat \<Rightarrow> json) \<Rightarrow> bad_summary \<Rightarrow> jdict" where
  "bad_run_response num b =
     [(''total'', JInt (int (bu_total b))), (''passed'', JInt (int (bu_passed b))), (''failed'', JInt (int (bu_failed b))),
      (''accuracy'', JFloat (bu_accuracy b)),
      (''judge_average_score'', case bu_judge_average b of None \<Rightarrow> JNull | Some x \<Rightarrow> num x),
      (''failures'', JList (map (JObj \<circ> bad_result_dump num) (bu_failures b)))]"

definition api_run_bad_cases ::
  "(pyfloat \<Rightarrow> json) \<Rightarrow> settings \<Rightarrow> (string option \<Rightarrow> bool option \<Rightarrow> llm_options \<Rightarrow> 'w judge) \<Rightarrow>
     ('w, judge_state) bad_runner \<Rightarrow>
     string + bad_spec list \<Rightarrow> bad_request \<Rightarrow> judge_state \<times> 'w sys \<Rightarrow> reply \<times> judge_state \<times> 'w sys"
where
  "api_run_bad_cases num cfg build br cases q st =
     (case cases of
        Inl e \<Rightarrow> (server_error, st)
      | Inr cs \<Rightarrow>
          (case run_bad_cases (br\<lparr>br_judge := request_judge cfg build q, br_metrics := True\<rparr>)
                  (bq_use_judge q) (bq_limit q) (bq_suite q) cs st of
             (b, st1) \<Rightarrow> (Inr (JObj (bad_run_response num b)), st1)))"

definition bad_spec_dump :: "bad_spec \<Rightarrow> jdict" where
  "bad_spec_dump c =
     [(''case_id'', JStr (bs_case_id c)), (''suite'', JStr (bs_suite c)), (''query'', JStr (bs_query c)),
      (''mode'', JStr (bs_mode c)), (''expected_outcome'', JStr (bs_expected_outcome c)),
      (''expected_error_type'', JStr (bs_expected_error c)), (''tags'', jstrs (bs_tags c)),
      (''risk_level'', JStr (bs_risk_level c))]"

definition list_bad_cases :: "string + bad_spec list \<Rightarrow> string option \<Rightarrow> string option \<Rightarrow> reply" where
  "list_bad_cases cases suite tag =
     (case cases of
        Inl e \<Rightarrow> server_error
      | Inr cs \<Rightarrow>
          (let by_suite = (case suite of None \<Rightarrow> cs | Some x \<Rightarrow> filter (\<lambda>c. bs_suite c = x) cs);
               by_tag = (case tag of None \<Rightarrow> by_suite | Some x \<Rightarrow> filter (\<lambda>c. x \<in> set (bs_tags c)) by_suite)
           in Inr (JList (map (JObj \<circ> bad_spec_dump) by_tag))))"

subsection \<open>Facts\<close>

text \<open>
  Without a trace recorder a case that states a trajectory fails, whatever the run did: when all of them do, as
  the shipped cases do, the accuracy of the multi-agent suite of \<open>/eval/run-all\<close> is 0.
\<close>

definition untraced :: "ma_case list \<Rightarrow> nat" where
  "untraced cs = length (filter (\<lambda>c. mc_trajectory c = None) cs)"

lemma untraced_simps [simp]:
  "untraced [] = 0" "untraced (c # cs) = (if mc_trajectory c = None then 1 else 0) + untraced cs"
  by (simp_all add: untraced_def)

lemma untraced_step:
  assumes "ma_eval_step set_text env orc False opts c a s = (Inr a', s')"
  shows "me_passed a' \<le> me_passed a + (if mc_trajectory c = None then 1 else 0) \<and>
    me_trajectory_passed a' = me_trajectory_passed a"
  using assms
  by (auto simp: ma_eval_step_def Let_def check_trajectory_def ma_judge_def elim!: bind_out_InrE
      split: sum.splits option.splits)

lemma untraced_loop:
  "ma_eval_loop (ma_eval_step set_text env orc False opts) cs a s = (Inr a', s') \<Longrightarrow>
     me_passed a' \<le> me_passed a + untraced cs \<and> me_trajectory_passed a' = me_trajectory_passed a"
proof (induction cs arbitrary: a s)
  case (Cons c cs)
  then obtain a1 s1 where "ma_eval_step set_text env orc False opts c a s = (Inr a1, s1)"
    and "ma_eval_loop (ma_eval_step set_text env orc False opts) cs a1 s1 = (Inr a', s')"
    by (auto elim!: bind_out_InrE)
  with Cons.IH [of a1 s1] untraced_step [of set_text env orc opts c a s a1 s1] show ?case
    by (auto split: if_splits)
qed simp

lemma untraced_suite:
  assumes "ma_eval_run set_text env orc False opts cases s = (Inr a, s')"
  shows "me_passed a \<le> untraced cases \<and> me_trajectory_passed a = 0 \<and> (untraced cases = 0 \<longrightarrow> me_accuracy a = 0)"
proof -
  obtain a1 s1 where "ma_eval_loop (ma_eval_step set_text env orc False opts) cases ma_eval_start s = (Inr a1, s1)"
    and a: "a = a1\<lparr>me_total := length cases, me_accuracy := share (me_passed a1) (length cases),
        me_trajectory_accuracy := share (me_trajectory_passed a1) (me_trajectory_passed a1 + me_trajectory_failed a1)\<rparr>"
    using assms by (auto simp: ma_eval_run_def elim!: bind_out_InrE)
  from untraced_loop [OF this(1)] have "me_passed a1 \<le> untraced cases" "me_trajectory_passed a1 = 0"
    by (simp_all add: ma_eval_start_def)
  moreover have "share 0 n = 0" for n using share_bounds [of 0 n] by (simp add: share_def py_round_def round_half_even_def)
  ultimately show ?thesis by (auto simp: a)
qed

text \<open>
  A run of all suites adds up: its totals are those of its suites, no more passed than ran, and the failures
  it lists are the cases that did not pass.
\<close>

definition adds_up :: "run_all \<Rightarrow> bool" where
  "adds_up x \<longleftrightarrow> ra_total x = sum_list (map su_total (ra_suites x)) \<and> ra_passed x = sum_list (map su_passed (ra_suites x)) \<and>
     ra_passed x + length (ra_failures x) = ra_total x"

lemma adds_up_suite:
  "adds_up x \<Longrightarrow> su_passed r + length (su_failures r) = su_total r \<Longrightarrow> adds_up (add_suite r x)"
  by (simp add: adds_up_def add_suite_def suite_failures_def)

lemma adds_up_error: "adds_up x \<Longrightarrow> adds_up (add_error suite why x)"
  by (simp add: adds_up_def add_error_def failed_suite_def)

lemma adds_up_nl2sql:
  assumes "adds_up (fst (snd st))"
  shows "adds_up (fst (snd (run_nl2sql_suite env pl extract cases st)))"
proof -
  have "ns_passed r + length (ns_failures r) = ns_total r"
    if "nl_eval_run env pl extract g p made b db cs w = (Inr r, w')" for r g p made b db cs w w'
    using nl2sql_evaluation_adds_up [OF that] by simp
  then show ?thesis using assms
    by (auto simp: run_nl2sql_suite_def on_world_def nl2sql_suite_def split: prod.split sum.splits
        intro!: adds_up_suite adds_up_error)
qed

lemma adds_up_multi_agent:
  assumes "adds_up (fst (snd st))"
  shows "adds_up (fst (snd (run_multi_agent_suite set_text env orc cases st)))"
proof -
  have "me_passed a + length (me_failures a) = me_total a"
    if "ma_eval_run set_text env orc b opts cs s = (Inr a, s')" for a b opts cs s s'
    using multi_agent_evaluation_adds_up [OF that] by (simp add: tally_ok_def)
  then show ?thesis using assms
    by (auto simp: run_multi_agent_suite_def multi_agent_suite_def split: prod.split sum.splits
        intro!: adds_up_suite adds_up_error)
qed

lemma run_all_adds_up: "adds_up (fst (snd (run_all_suites set_text env pl extract orc nl ma st)))"
  unfolding run_all_suites_def
  by (intro adds_up_multi_agent adds_up_nl2sql) (simp add: adds_up_def)

end
