(* ===== verification/Ops_Tools.thy ===== *)
theory Ops_Tools
  imports Runtime_Tools Console_Texts Settings
begin

text \<open>
  The local tools over the demo database (\<open>app/tools/local/ops_query.py\<close>). Their queries are functions over the
  tables that \<open>scripts/init_demo_db.py\<close> creates, as lists of rows in the order of their keys; \<open>files\<close> is what is
  at a path: nothing, a database, or a file on which a connection or a query raises. The result of each tool
  has the types its specification in \<open>app/main.py\<close> declares.
\<close>

subsection \<open>The database\<close>

record daily_row =
  dm_date :: string
  dm_gmv :: rat
  dm_orders :: int

record order_row =
  od_product :: int
  od_quantity :: int
  od_total :: rat
  od_date :: string
  od_status :: string

record product_row =
  pr_id :: int
  pr_name :: string
  pr_category :: string

record ops_db =
  ob_daily :: "daily_row list"
  ob_user_dates :: "string list"
  ob_orders :: "order_row list"
  ob_products :: "product_row list"
  ob_refunds :: "rat list"

type_synonym db_files = "string \<Rightarrow> (string + ops_db) option"

text \<open>\<open>_get_conn\<close> and the query after it.\<close>

definition ops_conn :: "db_files \<Rightarrow> string \<Rightarrow> string + ops_db" where
  "ops_conn files path =
     (if path = [] then Inl tx_ops_no_path
      else case files path of None \<Rightarrow> Inl (tx_ops_no_file path) | Some db \<Rightarrow> db)"

definition db_error_result :: "string \<Rightarrow> string \<Rightarrow> jdict" where
  "db_error_result tool why = [(''tool'', JStr tool), (''error'', JStr why), (''data'', JNull)]"

definition with_ops :: "db_files \<Rightarrow> string \<Rightarrow> string \<Rightarrow> (ops_db \<Rightarrow> jdict) \<Rightarrow> jdict" where
  "with_ops files path tool f =
     (case ops_conn files path of Inl e \<Rightarrow> db_error_result tool e | Inr db \<Rightarrow> f db)"

text \<open>\<open>date.today().isoformat()\<close>, its first seven characters, and the newest row of a column of dates.\<close>

definition today :: "'w env \<Rightarrow> 'w \<Rightarrow> string" where
  "today env w = take 10 (now_iso env w)"

definition latest_date :: "string list \<Rightarrow> string option" where
  "latest_date ds = (if ds = [] then None else Some (hd (order_desc id ds)))"

subsection \<open>The tools\<close>

definition get_today_gmv :: "'w env \<Rightarrow> db_files \<Rightarrow> string \<Rightarrow> 'w \<Rightarrow> jdict" where
  "get_today_gmv env files path w =
     with_ops files path ''get_today_gmv'' (\<lambda>db.
       (case lookup_by dm_date (today env w) (ob_daily db) of
          Some r \<Rightarrow> [(''date'', JStr (today env w)), (''gmv'', JFloat (dm_gmv r)), (''currency'', JStr ''CNY''),
                     (''order_count'', JInt (dm_orders r))]
        | None \<Rightarrow>
            (case order_desc dm_date (ob_daily db) of
               r # _ \<Rightarrow> [(''date'', JStr (today env w)), (''gmv'', JFloat (dm_gmv r)), (''currency'', JStr ''CNY''),
                         (''note'', JStr tx_ops_latest)]
             | [] \<Rightarrow> db_error_result ''get_today_gmv'' tx_ops_no_metrics)))"

definition get_month_new_users :: "'w env \<Rightarrow> db_files \<Rightarrow> string \<Rightarrow> 'w \<Rightarrow> jdict" where
  "get_month_new_users env files path w =
     with_ops files path ''get_month_new_users'' (\<lambda>db.
       let month = take 7 (today env w)
       in [(''year'', JInt (digits_value (take 4 month))), (''month'', JInt (digits_value (drop 5 month))),
           (''new_users'', JInt (int (length (filter (prefix month) (ob_user_dates db)))))])"

definition get_order_count :: "'w env \<Rightarrow> db_files \<Rightarrow> string \<Rightarrow> 'w \<Rightarrow> jdict" where
  "get_order_count env files path w =
     with_ops files path ''get_order_count'' (\<lambda>db.
       let of_day = (\<lambda>d. filter (\<lambda>r. od_date r = d) (ob_orders db)); now = of_day (today env w);
           old = (case latest_date (map od_date (ob_orders db)) of None \<Rightarrow> [] | Some d \<Rightarrow> of_day d)
       in if now \<noteq> []
          then [(''date'', JStr (today env w)), (''order_count'', JInt (int (length now))),
                (''total_amount'', JFloat (sum_list (map od_total now)))]
          else if old \<noteq> []
          then [(''date'', JStr (today env w)), (''order_count'', JInt (int (length old))), (''note'', JStr tx_ops_latest)]
          else db_error_result ''get_order_count'' tx_ops_no_orders)"

text \<open>
  The completed orders joined with their products, grouped by product (the groups in the order of their
  keys) and sorted by revenue. A negative \<open>LIMIT\<close> is none.
\<close>

definition sold :: "ops_db \<Rightarrow> product_row \<Rightarrow> order_row list" where
  "sold db p = filter (\<lambda>r. od_status r = ''completed'' \<and> od_product r = pr_id p) (ob_orders db)"

definition revenue :: "ops_db \<Rightarrow> product_row \<Rightarrow> rat" where
  "revenue db p = sum_list (map od_total (sold db p))"

definition top_rows :: "ops_db \<Rightarrow> int \<Rightarrow> product_row list" where
  "top_rows db limit =
     (let rows = order_desc (revenue db) (filter (\<lambda>p. sold db p \<noteq> []) (ob_products db))
      in if limit < 0 then rows else take (nat limit) rows)"

definition product_dict :: "ops_db \<Rightarrow> product_row \<Rightarrow> jdict" where
  "product_dict db p =
     [(''name'', JStr (pr_name p)), (''category'', JStr (pr_category p)),
      (''total_qty'', JInt (sum_list (map od_quantity (sold db p)))),
      (''total_revenue'', JFloat (py_round 2 (revenue db p)))]"

text \<open>\<open>as_limit\<close> is how SQLite reads a bound value as a \<open>LIMIT\<close>: an integer, or the error it raises.\<close>

definition get_top_products :: "db_files \<Rightarrow> string \<Rightarrow> (json \<Rightarrow> string + int) \<Rightarrow> json \<Rightarrow> jdict" where
  "get_top_products files path as_limit limit =
     with_ops files path ''get_top_products'' (\<lambda>db.
       case as_limit limit of
         Inl e \<Rightarrow> db_error_result ''get_top_products'' e
       | Inr n \<Rightarrow>
           (let rows = map (JObj \<circ> product_dict db) (top_rows db n)
            in [(''top_products'', JList rows), (''count'', JInt (int (length rows)))]))"

definition refund_rate :: "nat \<Rightarrow> nat \<Rightarrow> rat" where
  "refund_rate refunds orders = (if 0 < orders then py_round 2 (of_nat refunds / of_nat orders * 100) else 0)"

definition get_refund_rate :: "db_files \<Rightarrow> string \<Rightarrow> jdict" where
  "get_refund_rate files path =
     with_ops files path ''get_refund_rate'' (\<lambda>db.
       [(''total_orders'', JInt (int (length (ob_orders db)))), (''refund_count'', JInt (int (length (ob_refunds db)))),
        (''refund_rate_percent'', JFloat (refund_rate (length (ob_refunds db)) (length (ob_orders db)))),
        (''refund_total_amount'', if ob_refunds db = [] then JInt 0 else JFloat (py_round 2 (sum_list (ob_refunds db))))])"

definition simulate_refund_order :: "'w env \<Rightarrow> json \<Rightarrow> json \<Rightarrow> 'w \<Rightarrow> jdict \<times> 'w" where
  "simulate_refund_order env order_id amount w =
     (case fresh_hex env w of
        (h, w1) \<Rightarrow>
          ([(''simulated'', JBool True), (''refund_id'', JStr (''SIM-RF-'' @ take 8 h)), (''order_id'', order_id),
            (''amount'', amount), (''status'', JStr ''refund_created''), (''created_at'', JStr (take 19 (now_iso env w1))),
            (''note'', JStr tx_ops_simulated)], w1))"

subsection \<open>The callables the gateway is given\<close>

text \<open>A call with keyword arguments: the first one the function does not take raises.\<close>

definition unexpected :: "string list \<Rightarrow> jdict \<Rightarrow> string option" where
  "unexpected names args = find (\<lambda>k. k \<notin> set names) (map fst args)"

definition keyword_error :: "string \<Rightarrow> string \<Rightarrow> string" where
  "keyword_error tool k = tool @ ''() got an unexpected keyword argument '' @ [char_of (39 :: nat)] @ k @ [char_of (39 :: nat)]"

definition called_with :: "string \<Rightarrow> string list \<Rightarrow> (jdict \<Rightarrow> 'w \<Rightarrow> jdict \<times> 'w) \<Rightarrow> 'w callable" where
  "called_with tool names f args w =
     (case unexpected names args of
        Some k \<Rightarrow> (Inl (keyword_error tool k), w)
      | None \<Rightarrow> (case f args w of (d, w1) \<Rightarrow> (Inr (JObj d), w1)))"

definition ops_tools :: "'w env \<Rightarrow> db_files \<Rightarrow> string \<Rightarrow> (json \<Rightarrow> string + int) \<Rightarrow> string \<Rightarrow> 'w callable" where
  "ops_tools env files path as_limit tool =
     (if tool = ''get_today_gmv'' then called_with tool [] (\<lambda>_ w. (get_today_gmv env files path w, w))
      else if tool = ''get_month_new_users'' then called_with tool [] (\<lambda>_ w. (get_month_new_users env files path w, w))
      else if tool = ''get_order_count'' then called_with tool [] (\<lambda>_ w. (get_order_count env files path w, w))
      else if tool = ''get_top_products''
      then called_with tool [''limit'']
             (\<lambda>args w. (get_top_products files path as_limit (dget_or args ''limit'' (JInt 5)), w))
      else if tool = ''get_refund_rate'' then called_with tool [] (\<lambda>_ w. (get_refund_rate files path, w))
      else called_with tool [''order_id'', ''amount'']
             (\<lambda>args w. simulate_refund_order env (dget_or args ''order_id'' (JStr ''ORD-DEMO-0001''))
                (dget_or args ''amount'' (JFloat 99)) w))"

subsection \<open>Results have their declared types\<close>

text \<open>A JSON schema's \<open>type\<close>, and an object that has every declared property with its type.\<close>

fun has_type :: "string \<Rightarrow> json \<Rightarrow> bool" where
  "has_type t (JStr _) = (t = ''string'')"
| "has_type t (JInt _) = (t = ''integer'' \<or> t = ''number'')"
| "has_type t (JFloat _) = (t = ''number'')"
| "has_type t (JBool _) = (t = ''boolean'')"
| "has_type t (JList _) = (t = ''array'')"
| "has_type t (JObj _) = (t = ''object'')"
| "has_type t JNull = False"

definition declared :: "jdict \<Rightarrow> (string \<times> string) list" where
  "declared schema = map (\<lambda>(k, p). (k, or_str (dget (or_dict p) ''type''))) (or_dict (dget schema ''properties''))"

definition meets_schema :: "jdict \<Rightarrow> jdict \<Rightarrow> bool" where
  "meets_schema schema d \<longleftrightarrow> list_all (\<lambda>(k, t). has_type t (dget d k)) (declared schema)"

lemma declared_local [simp]:
  "declared (sp_output_schema (local_spec n desc inp outp risk scope)) =
     map (\<lambda>(k, p). (k, or_str (dget (or_dict p) ''type''))) outp"
  by (simp add: declared_def local_spec_def object_schema_def)

lemma type_schema_type [simp]: "or_str (dget (or_dict (type_schema t)) ''type'') = t"
  by (simp add: type_schema_def)

text \<open>
  Every local tool, called without arguments, answers an object: the one its specification declares, or its error
  result. It never raises, whatever is at the path.
\<close>

definition is_error_of :: "string \<Rightarrow> jdict \<Rightarrow> bool" where
  "is_error_of tool d \<longleftrightarrow> d = db_error_result tool (or_str (dget d ''error''))"

lemma with_ops_cases:
  assumes "\<And>db. P (f db) \<or> is_error_of tool (f db)"
  shows "P (with_ops files path tool f) \<or> is_error_of tool (with_ops files path tool f)"
  using assms by (auto simp: with_ops_def is_error_of_def db_error_result_def split: sum.split)

definition answers_spec :: "tool_spec \<Rightarrow> string + json \<Rightarrow> bool" where
  "answers_spec spec r =
     (case r of Inr (JObj d) \<Rightarrow> meets_schema (sp_output_schema spec) d \<or> is_error_of (sp_tool_name spec) d | _ \<Rightarrow> False)"

lemma answers_object: "answers_spec spec (Inr (JObj d)) \<longleftrightarrow> meets_schema (sp_output_schema spec) d \<or> is_error_of (sp_tool_name spec) d"
  by (simp add: answers_spec_def)

lemma is_error_of_result: "is_error_of tool (db_error_result tool e)"
  by (simp add: is_error_of_def db_error_result_def)

lemmas tool_result_defs = get_today_gmv_def get_month_new_users_def get_order_count_def get_top_products_def
  get_refund_rate_def

lemma local_tools_meet_schema:
  "list_all (\<lambda>spec. answers_spec spec (fst (ops_tools env files path as_limit (sp_tool_name spec) [] w)))
     (LOCAL_TOOLS @ [REFUND_TOOL])"
proof -
  have name: "sp_tool_name (local_spec n d i p r sc) = n" for n d i p r sc by (simp add: local_spec_def new_spec_def)
  have empty: "unexpected names [] = None" for names by (simp add: unexpected_def)
  note result = answers_object name ops_tools_def called_with_def empty
  have "list_all (\<lambda>spec. answers_spec spec (fst (ops_tools env files path as_limit (sp_tool_name spec) [] w))) LOCAL_TOOLS"
    unfolding LOCAL_TOOLS_def list.pred_inject
    by (intro conjI TrueI; simp only: result tool_result_defs HOL.simp_thms char.inject list.inject list.distinct
          prod.case fst_conv option.case if_True if_False; (rule with_ops_cases)?;
        auto simp: meets_schema_def is_error_of_result Let_def split: option.split list.split sum.split)
  moreover have "answers_spec REFUND_TOOL (fst (ops_tools env files path as_limit (sp_tool_name REFUND_TOOL) [] w))"
    by (simp add: REFUND_TOOL_def result simulate_refund_order_def meets_schema_def split: prod.split)
  ultimately show ?thesis by simp
qed

text \<open>The products are the best sellers: in the order of their revenue, at most as many as asked for, and none left out earns more.\<close>

lemma top_rows_best:
  "sorted_wrt (\<lambda>p q. revenue db q \<le> revenue db p) (top_rows db limit) \<and>
   (0 \<le> limit \<longrightarrow> length (top_rows db limit) \<le> nat limit) \<and>
   (\<forall>p \<in> set (top_rows db limit). \<forall>q \<in> set (ob_products db). sold db q \<noteq> [] \<and> q \<notin> set (top_rows db limit) \<longrightarrow>
      revenue db q \<le> revenue db p)"
proof -
  define rows where "rows = order_desc (revenue db) (filter (\<lambda>p. sold db p \<noteq> []) (ob_products db))"
  define n where "n = (if limit < 0 then length rows else nat limit)"
  obtain T D where parts: "rows = T @ D" and T: "T = take n rows" by (metis append_take_drop_id)
  have top: "top_rows db limit = T" by (simp add: T top_rows_def rows_def n_def Let_def)
  have "sorted_wrt (\<lambda>p q. revenue db q \<le> revenue db p) (T @ D)"
    using sorted_order_desc by (simp add: rows_def flip: parts)
  moreover have "set (T @ D) = {q \<in> set (ob_products db). sold db q \<noteq> []}" by (simp add: rows_def flip: parts)
  moreover have "0 \<le> limit \<longrightarrow> length T \<le> nat limit" by (simp add: T n_def)
  ultimately show ?thesis unfolding top sorted_wrt_append by auto
qed

end
