(* ===== verification/App_Wiring.thy ===== *)
theory App_Wiring
  imports Ops_Tools Request_Guards Stdio_Client
begin

text \<open>
  How \<open>app/main.py\<close> fills the gateway, and what \<open>/health\<close> shows: the local tools over the demo database, then
  the tools of the fake MCP server or those a real one lists, and the state of Redis. A server that fails
  costs its own tools only; one that lists a tool under a local name replaces the local tool.
\<close>

subsection \<open>The gateway of the application\<close>

definition local_gateway ::
  "'w env \<Rightarrow> db_files \<Rightarrow> settings \<Rightarrow> (json \<Rightarrow> string + int) \<Rightarrow> switches \<Rightarrow> 'w gateway"
where
  "local_gateway env files cfg as_limit sw =
     register_tools sw (ops_tools env files (st_ops_db_path cfg) as_limit) gateway_init"

definition app_gateway ::
  "'w env \<Rightarrow> (string \<Rightarrow> rat option) \<Rightarrow> db_files \<Rightarrow> settings \<Rightarrow> (json \<Rightarrow> string + int) \<Rightarrow> switches \<Rightarrow>
     'w mcp_client \<Rightarrow> 'w \<Rightarrow> 'w gateway \<times> 'w"
where
  "app_gateway env rd files cfg as_limit sw client w =
     register_mcp_tools cfg client env rd (local_gateway env files cfg as_limit sw) w"

subsection \<open>Health\<close>

text \<open>A fresh connection that is pinged, and a ping of the shared client; an exception is the left.\<close>

record 's redis_probe =
  rp_probe :: "'s \<Rightarrow> (string + unit) \<times> 's"
  rp_ping :: "'s \<Rightarrow> (string + unit) \<times> 's"

definition reset_redis_client :: "'s front \<Rightarrow> 's front" where
  "reset_redis_client f = f\<lparr>fr_redis := None\<rparr>"

definition redis_status :: "string + unit \<Rightarrow> jdict" where
  "redis_status r =
     (case r of
        Inr _ \<Rightarrow> [(''status'', JStr ''ok''), (''backend'', JStr ''redis'')]
      | Inl e \<Rightarrow> [(''status'', JStr ''error''), (''backend'', JStr ''redis''), (''error'', JStr e)])"

definition probe_redis_connection :: "'s redis_probe \<Rightarrow> 's front \<Rightarrow> jdict \<times> 's front" where
  "probe_redis_connection rp f = (case rp_probe rp (fr_app f) of (r, s) \<Rightarrow> (redis_status r, f\<lparr>fr_app := s\<rparr>))"

definition check_redis_health :: "settings \<Rightarrow> 's redis_probe \<Rightarrow> 's front \<Rightarrow> jdict \<times> 's front" where
  "check_redis_health cfg rp f =
     (if \<not> st_redis_enabled cfg then ([(''status'', JStr ''disabled''), (''backend'', JStr ''noop'')], f)
      else
        (case fr_redis f of
           None \<Rightarrow> probe_redis_connection rp f
         | Some NoopRedis \<Rightarrow>
             (case probe_redis_connection rp f of
                (d, f1) \<Rightarrow> (d, if dget d ''status'' = JStr ''ok'' then reset_redis_client f1 else f1))
         | Some ConnectedRedis \<Rightarrow>
             (case rp_ping rp (fr_app f) of (r, s) \<Rightarrow> (redis_status r, f\<lparr>fr_app := s\<rparr>))))"

definition health_check :: "settings \<Rightarrow> 's redis_probe \<Rightarrow> 's front \<Rightarrow> jdict \<times> 's front" where
  "health_check cfg rp f =
     (case check_redis_health cfg rp f of
        (redis, f1) \<Rightarrow>
          ([(''status'', JStr ''ok''), (''service'', JStr ''project-b-multi-agent''), (''version'', JStr ''4.3.0''),
            (''storage_backend'', JStr (st_storage_backend cfg)), (''auth_enabled'', JBool (st_auth_enabled cfg)),
            (''rbac_enabled'', JBool (st_rbac_enabled cfg)), (''redis'', JObj redis)], f1))"

subsection \<open>Facts\<close>

lemma discover_allowed:
  "\<not> is_mcp_tool_allowed g server name \<Longrightarrow>
     gw_get_tool (snd (discover_loop server tis g)) name = gw_get_tool g name"
  by (induction tis arbitrary: g) (auto simp: Let_def case_prod_unfold)

text \<open>
  An allowlist bounds what a real server may change: a tool outside it is registered exactly as the local
  registration left it, whatever the server lists; and a server that does not list its tools changes no
  registration at all.
\<close>

lemma register_get:
  "gw_get_tool (gw_register_mcp_server server client raw g) name = gw_get_tool g name"
  by (simp add: gw_register_mcp_server_def gw_get_tool_def Let_def)

lemma register_client [simp]:
  "map_of (gw_mcp_clients (gw_register_mcp_server server client raw g)) server = Some client"
  by (simp add: gw_register_mcp_server_def dput_def update_conv Let_def)

lemma remote_tools_within_allowlist:
  assumes "st_mcp_mode cfg = ''real''" and "parse_allowlist (AText (st_mcp_tool_allowlist cfg)) = a # al"
    and "name \<notin> set (a # al)"
  shows "gw_get_tool (fst (app_gateway env rd files cfg as_limit sw client w)) name =
    gw_get_tool (local_gateway env files cfg as_limit sw) name"
proof -
  let ?g = "\<lambda>client. gw_register_mcp_server (st_mcp_server_name cfg) client (AText (st_mcp_tool_allowlist cfg))
    (local_gateway env files cfg as_limit sw)"
  have "\<not> is_mcp_tool_allowed (?g client) (st_mcp_server_name cfg) name" for client
    using assms(2,3) by (simp add: is_mcp_tool_allowed_def gw_register_mcp_server_def dput_def update_conv Let_def)
  then show ?thesis
    using assms(1)
    by (auto simp: app_gateway_def register_mcp_tools_def gw_discover_mcp_tools_def register_get discover_allowed
        Let_def case_prod_unfold split: sum.split option.split)
qed

lemma failing_server_changes_nothing:
  assumes "st_mcp_mode cfg = ''real''" and "mc_list_tools client w = (Inl e, w')"
  shows "gw_get_tool (fst (app_gateway env rd files cfg as_limit sw client w)) =
    gw_get_tool (local_gateway env files cfg as_limit sw)"
  using assms
  by (simp add: app_gateway_def register_mcp_tools_def gw_discover_mcp_tools_def register_get fun_eq_iff)

text \<open>
  Without an allowlist a server decides over local names too: the registration of the tool it lists last under a
  name is its own, with the risk it states for it, so that a call of the high-risk demo tool may pass the policy.
\<close>

lemma remote_tool_replaces_local:
  assumes "st_mcp_mode cfg = ''real''" and "parse_allowlist (AText (st_mcp_tool_allowlist cfg)) = []"
    and "mc_list_tools client w = (Inr [ti], w')"
  shows "gw_get_tool (fst (app_gateway env rd files cfg as_limit sw client w)) (mi_name ti) =
    Some (mcp_spec (st_mcp_server_name cfg) ti)"
proof -
  let ?g = "gw_register_mcp_server (st_mcp_server_name cfg) client (AText (st_mcp_tool_allowlist cfg))
    (local_gateway env files cfg as_limit sw)"
  have "is_mcp_tool_allowed ?g (st_mcp_server_name cfg) name" for name
    using assms(2)
    by (simp add: is_mcp_tool_allowed_def gw_register_mcp_server_def Let_def delete_conv split: option.split)
  then show ?thesis
    using assms(1,3)
    by (simp add: app_gateway_def register_mcp_tools_def gw_discover_mcp_tools_def Let_def case_prod_unfold)
qed

end
