(* ===== verification/Demo_Seed.thy ===== *)
theory Demo_Seed
  imports Pilot_Report Metrics_Store Task_Store Approval_Store Console_Texts
begin

text \<open>
  The seed of the offline demo (\<open>scripts/demo_seed_data.py\<close>): the rows of an earlier seed are deleted from the
  stores by \<open>LIKE\<close>, and three tasks, an approval, their events, their metrics, a pilot report and a trace are
  written anew. The subprocess that makes the demo database and the deletion of old report files are parameters.
\<close>

subsection \<open>Rows of an earlier seed\<close>

text \<open>\<open>s LIKE 'p%'\<close> in SQLite: the case of ASCII letters does not count, an underscore is any character.\<close>

fun like_prefix :: "string \<Rightarrow> string \<Rightarrow> bool" where
  "like_prefix [] s = True"
| "like_prefix (p # ps) [] = False"
| "like_prefix (p # ps) (c # cs) =
     (if p = CHR ''_'' then like_prefix ps (dropWhile is_cont cs) else lower_char p = lower_char c \<and> like_prefix ps cs)"

definition TASK_PREFIX :: string where "TASK_PREFIX = ''demo-v31-''"

definition seed_id :: "string \<Rightarrow> string" where "seed_id name = TASK_PREFIX @ name"

definition seeded :: "string \<Rightarrow> bool" where "seeded tid = like_prefix TASK_PREFIX tid"

definition seeded_event :: "audit_event \<Rightarrow> bool" where
  "seeded_event e \<longleftrightarrow>
     (case ev_task_id e of None \<Rightarrow> False | Some t \<Rightarrow> seeded t) \<or> like_prefix ''demo_v31_'' (ev_event_type e)"

definition cleanup_runtime_rows :: "'w sys \<Rightarrow> 'w sys" where
  "cleanup_runtime_rows s =
     s\<lparr>sy_tasks := filter (\<lambda>r. \<not> seeded (tr_id r)) (sy_tasks s),
       sy_approvals := filter (\<lambda>r. \<not> seeded (ar_task_id r)) (sy_approvals s),
       sy_audit := filter (\<lambda>e. \<not> seeded_event e) (sy_audit s)\<rparr>"

definition cleanup_metrics_rows :: "metrics_store \<Rightarrow> metrics_store" where
  "cleanup_metrics_rows m =
     \<lparr>ms_tasks = filter (\<lambda>r. \<not> seeded (tm_task_id r)) (ms_tasks m),
      ms_tools = filter (\<lambda>r. \<not> seeded (tl_task_id r)) (ms_tools m),
      ms_usage = filter (\<lambda>r. \<not> seeded (us_task_id r)) (ms_usage m)\<rparr>"

subsection \<open>The runtime's rows\<close>

definition seed_task :: "string \<Rightarrow> string \<Rightarrow> task_status \<Rightarrow> jdict \<Rightarrow> string \<Rightarrow> task_run" where
  "seed_task name query status result now =
     \<lparr>tk_id = seed_id name, tk_query = query, tk_status = status, tk_result = JObj result, tk_error = None,
      tk_created_at = now, tk_updated_at = now\<rparr>"

definition seed_sql :: string where
  "seed_sql = ''SELECT order_date, COUNT(*) AS order_count FROM orders GROUP BY order_date '' @
     ''ORDER BY order_date DESC LIMIT 7;''"

definition offline_marks :: jdict where
  "offline_marks = [(''generator_used'', JStr ''mock''), (''provider_used'', JStr ''fake'')]"

definition seed_tasks :: "string \<Rightarrow> (task_run \<times> string) list" where
  "seed_tasks now =
     [(seed_task ''keyword-summary'' tx_seed_keyword TCompleted
         ([(''mode'', JStr ''keyword''), (''summary'', JStr tx_seed_summary)] @ offline_marks) now, ''keyword''),
      (seed_task ''nl2sql-preview'' tx_seed_nl2sql TCompleted
         ([(''mode'', JStr ''nl2sql''), (''sql'', JStr seed_sql)] @ offline_marks @ [(''fallback_used'', JBool False)]) now,
       ''nl2sql''),
      (seed_task ''approval-pending'' tx_seed_approval TWaitingApproval ((''requires_approval'', JBool True) # offline_marks) now,
       ''multitool'')]"

definition save_seed_tasks :: "'w env \<Rightarrow> 'w sys \<Rightarrow> 'w sys" where
  "save_seed_tasks env s =
     s\<lparr>sy_tasks := fold (\<lambda>(t, mode). save_task t (Some mode)) (seed_tasks (sys_now env s)) (sy_tasks s)\<rparr>"

definition seed_approval :: "'w env \<Rightarrow> 'w sys \<Rightarrow> (string + approval_row) \<times> 'w sys" where
  "seed_approval env =
     create_approval env (seed_id ''approval-pending'') ''demo_sensitive_tool'' ''export_customer_segment'' RHigh
       ''demo_scope'' tx_seed_reason
       (Some [(''mode'', JStr ''multitool''), (''risk_reason'', JStr ''high_risk_demo_action''),
          (''approval_context'', JStr ''demo_only'')])"

definition seed_events :: "string \<Rightarrow> audit_event list" where
  "seed_events aid =
     [audit_proto ''demo_v31_seed_loaded'' (Some (seed_id ''keyword-summary'')) None None ''seed_demo_data'' ''success''
        None (Some ''info'') [(''dataset'', JStr ''v3.1_demo_seed''), (''offline'', JBool True)],
      audit_proto ''demo_v31_nl2sql_preview'' (Some (seed_id ''nl2sql-preview'')) None None ''nl2sql_preview'' ''success''
        None (Some ''info'') [(''request_id'', JStr ''demo-v31-req-001''), (''provider'', JStr ''fake''),
          (''model'', JStr ''demo-mock-model''), (''fallback_used'', JBool False)],
      audit_proto ''demo_v31_approval_waiting'' (Some (seed_id ''approval-pending'')) (Some aid) None ''approval_required''
        ''pending'' None (Some ''warn'') [(''risk_level'', JStr ''high''), (''tool_name'', JStr ''demo_sensitive_tool'')]]"

text \<open>The events are made first, each with its identifier and time, and then appended; a failed append raises.\<close>

fun made_events :: "'w env \<Rightarrow> audit_event list \<Rightarrow> 'w sys \<Rightarrow> audit_event list \<times> 'w sys" where
  "made_events env [] s = ([], s)"
| "made_events env (p # ps) s =
     (let (h, s1) = sys_fresh env s; (es, s2) = made_events env ps s1
      in (p\<lparr>ev_event_id := ''aud_'' @ hex12 h, ev_timestamp := utc_iso env (sy_world s1)\<rparr> # es, s2))"

fun append_events :: "audit_event list \<Rightarrow> 'w sys \<Rightarrow> (string + unit) \<times> 'w sys" where
  "append_events [] s = (Inr (), s)"
| "append_events (e # es) s =
     (case audit_append e (sy_audit s) of Inl x \<Rightarrow> (Inl x, s) | Inr rows \<Rightarrow> append_events es (s\<lparr>sy_audit := rows\<rparr>))"

definition seed_runtime_data :: "'w env \<Rightarrow> 'w sys \<Rightarrow> (string + jdict) \<times> 'w sys" where
  "seed_runtime_data env s =
     bind_out (seed_approval env (save_seed_tasks env (cleanup_runtime_rows s))) (\<lambda>row s1.
       (case made_events env (seed_events (ar_id row)) s1 of
          (es, s2) \<Rightarrow>
            bind_out (append_events es s2) (\<lambda>_ s3.
              (Inr [(''task_count'', JInt 3), (''approval_id'', JStr (ar_id row)),
                 (''audit_event_count'', JInt (int (length es)))], s3))))"

subsection \<open>The metrics\<close>

definition seed_metrics_data :: "'w env \<Rightarrow> metrics_store \<times> 'w \<Rightarrow> (string + jdict) \<times> metrics_store \<times> 'w" where
  "seed_metrics_data env st =
     (let ts = Some (utc_iso env (snd st)); st0 = (cleanup_metrics_rows (fst st), snd st);
          task = (\<lambda>name mode status lat. append_task_metric env (seed_id name) mode status (Some lat) ts)
      in bind_out (task ''keyword-summary'' ''keyword'' ''completed'' (1205 / 10) st0) (\<lambda>_ st1.
         bind_out (task ''nl2sql-preview'' ''nl2sql'' ''completed'' (2483 / 10) st1) (\<lambda>_ st2.
         bind_out (task ''approval-pending'' ''multitool'' ''waiting_approval'' (801 / 10) st2) (\<lambda>_ st3.
         bind_out (append_tool_metric env ''demo_v31_read_tool'' True (Some (452 / 10)) 0 (seed_id ''keyword-summary'') ts st3)
           (\<lambda>_ st4.
         bind_out (append_tool_metric env ''demo_v31_guarded_tool'' False (Some (617 / 10)) 1 (seed_id ''approval-pending'')
              ts st4) (\<lambda>_ st5.
         bind_out (append_token_usage env (seed_id ''nl2sql-preview'') 120 80 (12 / 10000) ts st5) (\<lambda>_ st6.
           (Inr [(''task_metric_count'', JInt 3), (''tool_metric_count'', JInt 2), (''token_usage_count'', JInt 1)], st6))))))))"

subsection \<open>The pilot report and the trace\<close>

definition REPORT_ID :: string where "REPORT_ID = ''demo-v31-pilot''"

definition seed_case :: "string \<Rightarrow> pilot_case" where
  "seed_case base_url =
     \<lparr>pc_scenario = ''nl2sql_demo'', pc_endpoint = ''/nl2sql/preview'', pc_request_id = ''demo-v31-req-001'',
      pc_provider = ''fake'', pc_model = ''demo-mock-model'', pc_base_url = base_url, pc_key_env = ''DEMO_API_KEY_ENV'',
      pc_key_present = False, pc_attempted = False, pc_succeeded = False, pc_fallback_used = False,
      pc_fallback_reason = [], pc_budget_action = ''allow'', pc_cache_hit = False, pc_latency_ms = 2483 / 10,
      pc_prompt_tokens = 120, pc_completion_tokens = 80, pc_total_tokens = 200, pc_cost = 12 / 10000,
      pc_error_type = [], pc_outcome = ''success'', pc_warnings = [JStr ''demo_seed_offline''],
      pc_evidence_links = [(''audit_event_type'', JStr ''demo_v31_nl2sql_preview''),
        (''log_request_id'', JStr ''demo-v31-req-001'')],
      pc_observability = [(''runtime_metric_keys'', jstrs [''llm_budget'', ''llm_cache'', ''total_cost''])],
      pc_evidence_notes = [''demo_seed_v31''], pc_detail = [(''notes'', JStr tx_seed_notes)]\<rparr>"

text \<open>\<open>clear dir id\<close> makes the directory and unlinks the report files in it that have \<open>id\<close> in their names.\<close>

definition seed_pilot_report ::
  "'w llm_env \<Rightarrow> (string \<Rightarrow> bool) \<Rightarrow> (json \<Rightarrow> string) \<Rightarrow> 'w file_system \<Rightarrow> (string \<Rightarrow> string \<Rightarrow> 'w \<Rightarrow> (exn + unit) \<times> 'w) \<Rightarrow>
     string \<Rightarrow> 'w \<Rightarrow> (exn + jdict) \<times> 'w"
where
  "seed_pilot_report le fine indented fs clear dir w =
     bind_out (clear dir REPORT_ID w) (\<lambda>_ w0.
     bind_out (value_error (summarize_base_url (le_unicode le) fine []), w0) (\<lambda>url w1.
     bind_out (build_pilot_report (le_unicode le) (utc_iso (le_env le) w1) [seed_case url] ''demo-seed-v31'' ''offline-demo''
        (Some REPORT_ID) None, w1) (\<lambda>rep w2.
     bind_out (write_pilot_report_json le fine indented fs (Some dir) (Summary rep) w2) (\<lambda>(json_path, r) w3.
     bind_out (write_pilot_report_markdown le fine fs (Some dir) r w3) (\<lambda>(md_path, _) w4.
       (Inr [(''report_id'', JStr (po_report_id rep)), (''json'', JStr json_path), (''markdown'', JStr md_path)], w4))))))"

definition fixture_event :: "string \<Rightarrow> string \<Rightarrow> jdict \<Rightarrow> json" where
  "fixture_event etype actor detail =
     JObj [(''event_type'', JStr etype), (''actor'', JStr actor), (''detail'', JObj detail)]"

definition trace_fixture :: jdict where
  "trace_fixture =
     [(''task_id'', JStr (seed_id ''trace-demo'')),
      (''events'', JList
         [fixture_event ''task_started'' ''system'' [(''mode'', JStr ''keyword'')],
          fixture_event ''plan_created'' ''planner'' [(''plan'', JStr tx_seed_plan)],
          fixture_event ''task_completed'' ''system'' [(''status'', JStr ''completed''), (''offline'', JBool True)]]),
      (''note'', JStr tx_seed_trace)]"

definition write_trace_fixture ::
  "(json \<Rightarrow> string) \<Rightarrow> 'w file_system \<Rightarrow> (string \<Rightarrow> string) \<Rightarrow> string \<Rightarrow> 'w \<Rightarrow> (exn + jdict) \<times> 'w"
where
  "write_trace_fixture indented fs parent path w =
     bind_out (fs_mkdir fs (parent path) w) (\<lambda>_ w1.
     bind_out (fs_write fs path (indented (JObj trace_fixture)) w1) (\<lambda>_ w2. (Inr [(''trace_fixture'', JStr path)], w2)))"

subsection \<open>The whole seed\<close>

record seed_args =
  sa_runtime_db :: string
  sa_metrics_db :: string
  sa_report_dir :: string
  sa_trace_path :: string
  sa_skip_ops_db :: bool

text \<open>An exception of a store has the class \<open>IntegrityError\<close>; a step on the world keeps the stores.\<close>

definition of_store :: "(string + 'a) \<times> 's \<Rightarrow> (exn + 'a) \<times> 's" where
  "of_store x = (map_sum (\<lambda>e. (''IntegrityError'', e)) id (fst x), snd x)"

definition seed_world :: "('w \<Rightarrow> 'a \<times> 'w) \<Rightarrow> 'w sys \<times> metrics_store \<Rightarrow> 'a \<times> 'w sys \<times> metrics_store" where
  "seed_world f st = (case f (sy_world (fst st)) of (x, w) \<Rightarrow> (x, (fst st)\<lparr>sy_world := w\<rparr>, snd st))"

definition seed_stores ::
  "'w env \<Rightarrow> 'w sys \<times> metrics_store \<Rightarrow> (exn + jdict \<times> jdict) \<times> 'w sys \<times> metrics_store"
where
  "seed_stores env st =
     (case of_store (seed_runtime_data env (fst st)) of
        (Inl e, s1) \<Rightarrow> (Inl e, s1, snd st)
      | (Inr runtime, s1) \<Rightarrow>
          (case of_store (seed_metrics_data env (snd st, sy_world s1)) of
             (Inl e, m1, w) \<Rightarrow> (Inl e, s1\<lparr>sy_world := w\<rparr>, m1)
           | (Inr metrics, m1, w) \<Rightarrow> (Inr (runtime, metrics), s1\<lparr>sy_world := w\<rparr>, m1)))"

definition seed_demo_data ::
  "'w llm_env \<Rightarrow> (string \<Rightarrow> bool) \<Rightarrow> (json \<Rightarrow> string) \<Rightarrow> 'w file_system \<Rightarrow> (string \<Rightarrow> string \<Rightarrow> 'w \<Rightarrow> (exn + unit) \<times> 'w) \<Rightarrow>
     (string \<Rightarrow> string) \<Rightarrow> ('w \<Rightarrow> (exn + unit) \<times> 'w) \<Rightarrow> seed_args \<Rightarrow> 'w sys \<times> metrics_store \<Rightarrow>
     (exn + jdict) \<times> 'w sys \<times> metrics_store"
where
  "seed_demo_data le fine indented fs clear parent init_ops a st =
     bind_out (if sa_skip_ops_db a then (Inr (), st) else seed_world init_ops st) (\<lambda>_ st0.
     bind_out (seed_stores (le_env le) st0) (\<lambda>stores st1.
     bind_out (seed_world (seed_pilot_report le fine indented fs clear (sa_report_dir a)) st1) (\<lambda>rep st2.
     bind_out (seed_world (write_trace_fixture indented fs parent (sa_trace_path a)) st2) (\<lambda>trace st3.
       (Inr ([(''status'', JStr ''ok''), (''offline'', JBool True), (''runtime_db_path'', JStr (sa_runtime_db a)),
          (''metrics_db_path'', JStr (sa_metrics_db a)), (''pilot_report_dir'', JStr (sa_report_dir a)),
          (''skip_ops_db'', JBool (sa_skip_ops_db a)), (''runtime'', JObj (fst stores)), (''metrics'', JObj (snd stores)),
          (''pilot_report'', JObj rep)] @ trace), st3)))))"

subsection \<open>Seeding again replaces what was seeded\<close>

lemma like_prefix_append: "list_all (\<lambda>c. c \<noteq> CHR ''_'') p \<Longrightarrow> like_prefix p (p @ s)"
  by (induction p) simp_all

lemma seeded_id [simp]: "seeded (seed_id name)"
  by (simp add: seeded_def seed_id_def like_prefix_append TASK_PREFIX_def)

definition seed_names :: "string list" where
  "seed_names = map seed_id [''keyword-summary'', ''nl2sql-preview'', ''approval-pending'']"

lemma fresh_replace:
  assumes "key r \<notin> key ` set rows"
  shows "table_replace key r rows = rows @ [r]"
proof -
  have "filter (\<lambda>x. key x \<noteq> key r) rows = rows" using assms by (intro filter_True) (metis imageI)
  then show ?thesis by (simp add: table_replace_def)
qed

lemma saved_seed_tasks:
  fixes s :: "'w sys" and env :: "'w env"
  defines "ts \<equiv> sy_tasks (save_seed_tasks env (cleanup_runtime_rows s))"
  shows "filter (\<lambda>r. \<not> seeded (tr_id r)) ts = filter (\<lambda>r. \<not> seeded (tr_id r)) (sy_tasks s) \<and>
    map tr_id (filter (\<lambda>r. seeded (tr_id r)) ts) = seed_names"
proof -
  define old where "old = filter (\<lambda>r. \<not> seeded (tr_id r)) (sy_tasks s)"
  have out: "seed_id n \<notin> tr_id ` set old" for n
    using seeded_id [of n] by (auto simp: old_def simp del: seeded_id)
  have key: "tr_id (task_row_of (seed_task n q st d now) m) = seed_id n" for n q st d now m
    by (simp add: task_row_of_def seed_task_def)
  have ne: "seed_id n = seed_id m \<longleftrightarrow> n = m" for n m by (simp add: seed_id_def)
  let ?now = "sys_now env (cleanup_runtime_rows s)"
  have "ts = old @ map (\<lambda>(t, m). task_row_of t (Some m)) (seed_tasks ?now)"
    unfolding ts_def save_seed_tasks_def
    by (simp add: cleanup_runtime_rows_def seed_tasks_def save_task_def fresh_replace key ne out flip: old_def)
  moreover have "filter (\<lambda>r. \<not> seeded (tr_id r)) old = old" "filter (\<lambda>r. seeded (tr_id r)) old = []"
    by (simp_all add: old_def)
  ultimately show ?thesis by (simp add: seed_tasks_def key seed_names_def old_def)
qed

text \<open>
  However often the demo is seeded, the stores hold three tasks of the demo and one request for approval, which is
  pending; the tasks and requests of other prefixes are as they were.
\<close>

lemma seed_replaces:
  assumes "seed_runtime_data env s = (Inr d, s')"
  shows "map tr_id (filter (\<lambda>r. seeded (tr_id r)) (sy_tasks s')) = seed_names \<and>
    map ar_status (filter (\<lambda>r. seeded (ar_task_id r)) (sy_approvals s')) = [APending] \<and>
    filter (\<lambda>r. \<not> seeded (tr_id r)) (sy_tasks s') = filter (\<lambda>r. \<not> seeded (tr_id r)) (sy_tasks s) \<and>
    filter (\<lambda>r. \<not> seeded (ar_task_id r)) (sy_approvals s') = filter (\<lambda>r. \<not> seeded (ar_task_id r)) (sy_approvals s)"
proof -
  let ?s = "save_seed_tasks env (cleanup_runtime_rows s)"
  obtain row s1 es s2 where row: "seed_approval env ?s = (Inr row, s1)" and es: "made_events env (seed_events (ar_id row)) s1 = (es, s2)"
    and app: "append_events es s2 = (Inr (), s')"
    using assms by (auto simp: seed_runtime_data_def elim!: bind_out_InrE split: prod.splits)
  have made: "sy_tasks (snd (made_events env ps t)) = sy_tasks t \<and> sy_approvals (snd (made_events env ps t)) = sy_approvals t" for ps t
    by (induction ps arbitrary: t) (simp_all add: Let_def case_prod_unfold frame)
  have appended: "append_events xs t = (r, t') \<Longrightarrow> sy_tasks t' = sy_tasks t \<and> sy_approvals t' = sy_approvals t" for xs t r t'
    by (induction xs t rule: append_events.induct) (auto split: sum.splits)
  have same: "sy_tasks s' = sy_tasks s1 \<and> sy_approvals s' = sy_approvals s1"
    using appended [OF app] made [of "seed_events (ar_id row)" s1] by (simp add: es)
  have "sy_tasks s1 = sy_tasks ?s \<and> (\<exists>r. sy_approvals s1 = sy_approvals ?s @ [r] \<and> ar_status r = APending \<and> seeded (ar_task_id r))"
    using row
    by (auto simp: seed_approval_def create_approval_def ap_insert_def table_insert_def Let_def case_prod_unfold
        split: sum.splits if_splits)
  then show ?thesis
    using same saved_seed_tasks [of env s]
    by (auto simp: save_seed_tasks_def cleanup_runtime_rows_def)
qed

end
