(* ===== verification/Business_System.thy ===== *)
theory Business_System
  imports Url_Text Pattern Tool_Gateway Judge Console_Texts
begin

text \<open>
  The boundary to a business system (\<open>app/integrations/business_system.py\<close>): its settings from the environment,
  the redaction of what comes back, and the read probe, a tool that sends one request with the system's token.
  The environment, the request, the decoding of bytes and \<open>float\<close> of a text are parameters; \<open>urljoin\<close> is that
  of Python 3.11 for a base of scheme \<open>http\<close> or \<open>https\<close>, which the probe has checked.
\<close>

subsection \<open>Settings\<close>

record business_config =
  bs_enabled :: bool
  bs_read_only :: bool
  bs_write_enabled :: bool
  bs_approval_required :: bool
  bs_audit_required :: bool
  bs_system_name :: string
  bs_base_url_env :: string
  bs_token_env :: string
  bs_tool_allowlist :: "string list"
  bs_write_allowlist :: "string list"
  bs_timeout :: rat
  bs_probe_path :: string
  bs_header_name :: string
  bs_scheme :: string

record business_reply =
  br_status :: int
  br_content_type :: string
  br_body :: string

text \<open>
  \<open>bo_get\<close> sends a GET and reads at most 4096 bytes, or gives the class of the exception; \<open>bo_loads\<close> is
  \<open>json.loads\<close> of decoded bytes, \<open>bo_preview\<close> the decoding of the first 128, \<open>bo_url_error\<close> the message of
  a \<open>ValueError\<close> of \<open>urljoin\<close>.
\<close>

record 'w business_outside =
  bo_env :: "'w env"
  bo_unicode :: unicode
  bo_getenv :: "string \<Rightarrow> string option"
  bo_float :: "string \<Rightarrow> pyfloat option"
  bo_fine :: "string \<Rightarrow> bool"
  bo_get :: "string \<Rightarrow> (string \<times> string) list \<Rightarrow> rat \<Rightarrow> 'w \<Rightarrow> (string + business_reply) \<times> 'w"
  bo_loads :: "string \<Rightarrow> json option"
  bo_preview :: "string \<Rightarrow> string"
  bo_url_error :: "string \<Rightarrow> string"

definition variable_text :: "'w business_outside \<Rightarrow> string \<Rightarrow> string" where
  "variable_text bo key = (case bo_getenv bo key of None \<Rightarrow> [] | Some t \<Rightarrow> t)"

definition env_strip :: "'w business_outside \<Rightarrow> string \<Rightarrow> string" where
  "env_strip bo key = u_strip_text (bo_unicode bo) (variable_text bo key)"

definition env_enabled :: "'w business_outside \<Rightarrow> string \<Rightarrow> bool" where
  "env_enabled bo key = (u_lower_text (bo_unicode bo) (env_strip bo key) \<in> {''1'', ''true'', ''yes'', ''on''})"

definition env_csv :: "'w business_outside \<Rightarrow> string \<Rightarrow> string list" where
  "env_csv bo key = filter (\<lambda>t. t \<noteq> []) (map (u_strip_text (bo_unicode bo)) (split_on CHR '','' (variable_text bo key)))"

definition env_given :: "'w business_outside \<Rightarrow> string \<Rightarrow> string \<Rightarrow> string" where
  "env_given bo key dflt = (if env_strip bo key = [] then dflt else env_strip bo key)"

text \<open>\<open>max(0.1, min(x, 60.0))\<close>; a comparison with no number is false.\<close>

fun clamp_timeout :: "pyfloat \<Rightarrow> rat" where
  "clamp_timeout (Fin q) = max (1 / 10) (min q 60)"
| "clamp_timeout NaN = 1 / 10"
| "clamp_timeout (Inf positive) = (if positive then 60 else 1 / 10)"

definition load_business_system_config :: "'w business_outside \<Rightarrow> business_config" where
  "load_business_system_config bo =
     \<lparr>bs_enabled = env_enabled bo ''BUSINESS_INTEGRATION_ENABLED'',
      bs_read_only = env_enabled bo ''BUSINESS_INTEGRATION_READ_ONLY'',
      bs_write_enabled = env_enabled bo ''BUSINESS_INTEGRATION_WRITE_ENABLED'',
      bs_approval_required = env_enabled bo ''BUSINESS_INTEGRATION_APPROVAL_REQUIRED'',
      bs_audit_required = env_enabled bo ''BUSINESS_INTEGRATION_AUDIT_REQUIRED'',
      bs_system_name = env_given bo ''BUSINESS_SYSTEM_NAME'' ''business_system'',
      bs_base_url_env = env_strip bo ''BUSINESS_SYSTEM_BASE_URL_ENV'',
      bs_token_env = env_strip bo ''BUSINESS_SYSTEM_TOKEN_ENV'',
      bs_tool_allowlist = env_csv bo ''BUSINESS_SYSTEM_TOOL_ALLOWLIST'',
      bs_write_allowlist = env_csv bo ''BUSINESS_SYSTEM_WRITE_TOOL_ALLOWLIST'',
      bs_timeout = (case bo_float bo (given_or (bo_getenv bo ''BUSINESS_SYSTEM_TIMEOUT_SECONDS'') ''10'') of
         None \<Rightarrow> 10 | Some x \<Rightarrow> clamp_timeout x),
      bs_probe_path = env_given bo ''BUSINESS_SYSTEM_READ_PROBE_PATH'' ''/health'',
      bs_header_name = env_given bo ''BUSINESS_SYSTEM_AUTH_HEADER_NAME'' ''Authorization'',
      bs_scheme = (case bo_getenv bo ''BUSINESS_SYSTEM_AUTH_SCHEME'' of
         None \<Rightarrow> ''Bearer'' | Some t \<Rightarrow> u_strip_text (bo_unicode bo) t)\<rparr>"

text \<open>The value of a variable that a setting names, and whether it is there.\<close>

definition named_value :: "'w business_outside \<Rightarrow> string \<Rightarrow> string" where
  "named_value bo name = (if name = [] then [] else env_strip bo name)"

definition safe_config_summary :: "'w business_outside \<Rightarrow> business_config \<Rightarrow> jdict" where
  "safe_config_summary bo c =
     [(''enabled'', JBool (bs_enabled c)), (''read_only'', JBool (bs_read_only c)),
      (''write_enabled'', JBool (bs_write_enabled c)), (''approval_required'', JBool (bs_approval_required c)),
      (''audit_required'', JBool (bs_audit_required c)), (''system_name'', JStr (bs_system_name c)),
      (''base_url_env'', JStr (bs_base_url_env c)),
      (''base_url_present'', JBool (named_value bo (bs_base_url_env c) \<noteq> [])),
      (''token_env'', JStr (bs_token_env c)), (''token_present'', JBool (named_value bo (bs_token_env c) \<noteq> [])),
      (''tool_allowlist_count'', JInt (int (length (bs_tool_allowlist c)))),
      (''write_tool_allowlist_count'', JInt (int (length (bs_write_allowlist c)))),
      (''timeout_seconds'', JFloat (bs_timeout c)), (''read_probe_path_configured'', JBool (bs_probe_path c \<noteq> [])),
      (''auth_header_name'', JStr (bs_header_name c)), (''auth_scheme_configured'', JBool (bs_scheme c \<noteq> []))]"

subsection \<open>Redaction\<close>

text \<open>A class of ASCII letters and digits with some more characters, under \<open>re.IGNORECASE\<close>.\<close>

definition class_ic :: "string \<Rightarrow> uchar \<Rightarrow> bool" where
  "class_ic extra c \<longleftrightarrow> alnum_or extra c \<or> c \<in> set fold_extras"

definition optional :: "string \<Rightarrow> rx" where "optional cs = Rep (\<lambda>c. c \<in> set (chars cs)) 0 (Some 1)"

definition outside :: "unicode \<Rightarrow> string \<Rightarrow> uchar \<Rightarrow> bool" where
  "outside u cs c \<longleftrightarrow> \<not> is_space u c \<and> c \<notin> set (chars cs)"

definition SECRET_PATTERNS :: "unicode \<Rightarrow> rx list list" where
  "SECRET_PATTERNS u =
     [literal ''sk-'' @ [Rep (alnum_or ''_-'') 6 None],
      literal_ic ''bearer'' @ [Rep (is_space u) 1 None, Rep (class_ic ''._-'') 1 None],
      [Alt [literal_ic ''token'', literal_ic ''api'' @ [optional ''_-''] @ literal_ic ''key'',
          literal_ic ''client'' @ [optional ''_-''] @ literal_ic ''secret'', literal_ic ''password'', literal_ic ''secret''],
        Rep (is_space u) 0 None, One (\<lambda>c. c \<in> set (chars '':='')), Rep (is_space u) 0 None, Rep (outside u '','') 1 None],
      literal_ic ''http'' @ [Rep (\<lambda>c. c \<in> {''s'', ''S'', utf8 [0x17F]}) 0 (Some 1)] @ literal ''://'' @
        [Rep (outside u ''/:'') 1 None] @ literal '':'' @ [Rep (outside u ''@'') 1 None] @ literal ''@'' @
        [Rep (outside u '','') 1 None]]"

text \<open>\<open>pattern.sub(repl, text)\<close>, from the spans of the matches.\<close>

fun rx_replace :: "uchar list \<Rightarrow> nat \<Rightarrow> uchar list \<Rightarrow> (nat \<times> nat) list \<Rightarrow> uchar list" where
  "rx_replace repl pos s [] = drop pos s"
| "rx_replace repl pos s ((a, n) # ms) = take (a - pos) (drop pos s) @ repl @ rx_replace repl (a + n) s ms"

definition redact_secret_text :: "unicode \<Rightarrow> string \<Rightarrow> string" where
  "redact_secret_text u t =
     concat (fold (\<lambda>rs s. rx_replace (chars ''[REDACTED_SECRET]'') 0 s (rx_finditer u rs None 0 s)) (SECRET_PATTERNS u)
       (py_chars t))"

fun redact_secret_like :: "unicode \<Rightarrow> 'w env \<Rightarrow> json \<Rightarrow> json" where
  "redact_secret_like u env (JObj d) = JObj (map (\<lambda>(k, v). (k, redact_secret_like u env v)) d)"
| "redact_secret_like u env (JList vs) = JList (map (redact_secret_like u env) vs)"
| "redact_secret_like u env v = JStr (redact_secret_text u (value_text env v))"

subsection \<open>Checks\<close>

definition control_char :: "char \<Rightarrow> bool" where
  "control_char c \<longleftrightarrow> (let n = (of_char c :: nat) in n < 32 \<or> n = 127)"

definition is_http_url :: "(string \<Rightarrow> bool) \<Rightarrow> string \<Rightarrow> bool" where
  "is_http_url fine url =
     (case urlsplit fine url of
        None \<Rightarrow> False
      | Some p \<Rightarrow> ur_scheme p \<in> {''http'', ''https''} \<and> ur_netloc p \<noteq> [] \<and> url_username p \<in> {None, Some []} \<and>
          url_password p \<in> {None, Some []} \<and> ur_fragment p = [])"

definition is_safe_header_name :: "string \<Rightarrow> bool" where
  "is_safe_header_name t \<longleftrightarrow> t \<noteq> [] \<and> list_all (\<lambda>c. ascii_letter c \<or> dec_digit c \<or> c = CHR ''-'') t"

definition is_safe_auth_scheme :: "string \<Rightarrow> bool" where
  "is_safe_auth_scheme t \<longleftrightarrow>
     t = [] \<or> ascii_letter (hd t) \<and> list_all (\<lambda>c. ascii_letter c \<or> dec_digit c \<or> c \<in> set ''._~-'') (tl t)"

definition is_safe_probe_path :: "string \<Rightarrow> bool" where
  "is_safe_probe_path t \<longleftrightarrow> prefix ''/'' t \<and> \<not> prefix ''//'' t \<and> \<not> list_ex control_char t"

definition business_system_preflight_missing :: "'w business_outside \<Rightarrow> business_config \<Rightarrow> string list" where
  "business_system_preflight_missing bo c =
     (let url = named_value bo (bs_base_url_env c); token = named_value bo (bs_token_env c)
      in sort
        ((if url \<noteq> [] \<and> \<not> is_http_url (bo_fine bo) url then [''env_target:BUSINESS_SYSTEM_BASE_URL_invalid''] else []) @
         (if list_ex control_char token then [''env_target:BUSINESS_SYSTEM_TOKEN_invalid''] else []) @
         (if is_safe_header_name (bs_header_name c) then [] else [''env:BUSINESS_SYSTEM_AUTH_HEADER_NAME_invalid'']) @
         (if is_safe_auth_scheme (bs_scheme c) then [] else [''env:BUSINESS_SYSTEM_AUTH_SCHEME_invalid'']) @
         (if is_safe_probe_path (bs_probe_path c) then [] else [''env:BUSINESS_SYSTEM_READ_PROBE_PATH_invalid''])))"

subsection \<open>Joining URLs\<close>

text \<open>\<open>_splitparams\<close>: the last segment of a path and what follows a semicolon in it.\<close>

definition split_params :: "string \<Rightarrow> string \<times> string" where
  "split_params path =
     (let tail = rev (takeWhile (\<lambda>c. c \<noteq> CHR ''/'') (rev path)); lead = take (length path - length tail) path
      in (lead @ upto CHR '';'' tail, past CHR '';'' tail))"

definition unparse :: "url_parts \<Rightarrow> string \<Rightarrow> string" where
  "unparse p params =
     urlunsplit (p\<lparr>ur_path := (if params = [] then ur_path p else ur_path p @ '';'' @ params)\<rparr>)"

fun resolve_dots :: "string list \<Rightarrow> string list \<Rightarrow> string list" where
  "resolve_dots acc [] = acc"
| "resolve_dots acc (seg # segs) =
     resolve_dots (if seg = ''..'' then butlast acc else if seg = ''.'' then acc else acc @ [seg]) segs"

text \<open>\<open>segments[1:-1] = filter(None, segments[1:-1])\<close>.\<close>

definition squeeze :: "string list \<Rightarrow> string list" where
  "squeeze segs =
     (case segs of x # y # ys \<Rightarrow> x # filter (\<lambda>t. t \<noteq> []) (butlast (y # ys)) @ [last (y # ys)] | _ \<Rightarrow> segs)"

definition join_path :: "string \<Rightarrow> string \<Rightarrow> string" where
  "join_path base path =
     (let parts = split_on CHR ''/'' base; dir = (if last parts \<noteq> [] then butlast parts else parts);
          segs = (if prefix ''/'' path then split_on CHR ''/'' path else squeeze (dir @ split_on CHR ''/'' path));
          out = resolve_dots [] segs @ (if last segs \<in> {''.'', ''..''} then [[]] else []);
          text = str_join ''/'' out
      in if text = [] then ''/'' else text)"

definition urljoin :: "(string \<Rightarrow> bool) \<Rightarrow> string \<Rightarrow> string \<Rightarrow> string option" where
  "urljoin fine base url =
     (if base = [] then Some url
      else if url = [] then Some base
      else
        (case (urlsplit fine base, urlsplit fine url) of
           (Some b, Some p) \<Rightarrow>
             (let scheme = (if ur_scheme p = [] then ur_scheme b else ur_scheme p);
                  (bpath, bparams) = split_params (ur_path b); (path, params) = split_params (ur_path p);
                  q = p\<lparr>ur_scheme := scheme, ur_path := path\<rparr>; h = q\<lparr>ur_netloc := ur_netloc b\<rparr>
              in Some
                (if scheme \<noteq> ur_scheme b then url
                 else if ur_netloc p \<noteq> [] then unparse q params
                 else if path = [] \<and> params = []
                 then unparse (h\<lparr>ur_path := bpath, ur_query := (if ur_query p = [] then ur_query b else ur_query p)\<rparr>) bparams
                 else unparse (h\<lparr>ur_path := join_path bpath path\<rparr>) params))
         | _ \<Rightarrow> None))"

subsection \<open>The probe\<close>

definition business_auth_header :: "business_config \<Rightarrow> string \<Rightarrow> string \<times> string" where
  "business_auth_header c token =
     (if bs_header_name c = [] then ''Authorization'' else bs_header_name c,
      if bs_scheme c = [] then token else bs_scheme c @ '' '' @ token)"

text \<open>The error a probe is refused with before its path is looked at.\<close>

definition probe_refusal :: "'w business_outside \<Rightarrow> business_config \<Rightarrow> string option" where
  "probe_refusal bo c =
     (let url = named_value bo (bs_base_url_env c); token = named_value bo (bs_token_env c)
      in if \<not> bs_enabled c then Some ''business_integration_disabled''
         else if \<not> bs_read_only c then Some ''business_integration_read_only_not_enabled''
         else if url = [] then Some ''business_system_base_url_missing''
         else if token = [] then Some ''business_system_token_missing''
         else if \<not> is_http_url (bo_fine bo) url then Some ''business_system_base_url_invalid''
         else if \<not> is_safe_header_name (bs_header_name c) then Some ''business_system_auth_header_name_invalid''
         else if \<not> is_safe_auth_scheme (bs_scheme c) then Some ''business_system_auth_scheme_invalid''
         else if list_ex control_char token then Some ''business_system_token_invalid''
         else None)"

definition probe_path :: "'w business_outside \<Rightarrow> business_config \<Rightarrow> json \<Rightarrow> string" where
  "probe_path bo c path = (if truthy path then value_text (bo_env bo) path else bs_probe_path c)"

definition probe_base :: "'w business_outside \<Rightarrow> business_config \<Rightarrow> string" where
  "probe_base bo c = strip_end (\<lambda>x. x = CHR ''/'') (named_value bo (bs_base_url_env c)) @ ''/''"

definition probe_url :: "'w business_outside \<Rightarrow> business_config \<Rightarrow> string \<Rightarrow> string option" where
  "probe_url bo c path = urljoin (bo_fine bo) (probe_base bo c) (dropWhile (\<lambda>x. x = CHR ''/'') path)"

definition probe_headers :: "'w business_outside \<Rightarrow> business_config \<Rightarrow> (string \<times> string) list" where
  "probe_headers bo c =
     (let (k, v) = business_auth_header c (named_value bo (bs_token_env c))
      in dput [(''Accept'', ''application/json'')] k v)"

definition error_dict :: "string \<Rightarrow> jdict" where "error_dict e = [(''error'', JStr e)]"

definition probe_latency :: "'w env \<Rightarrow> 'w \<Rightarrow> 'w \<Rightarrow> json" where
  "probe_latency env w w' = JFloat (py_round 2 ((mono_clock env w' - mono_clock env w) * 1000))"

definition probe_body :: "'w business_outside \<Rightarrow> string \<Rightarrow> json" where
  "probe_body bo body =
     (if body = [] then JNull
      else case bo_loads bo body of Some v \<Rightarrow> v | None \<Rightarrow> JObj [(''body_preview'', JStr (bo_preview bo body))])"

definition probe_answer :: "'w business_outside \<Rightarrow> 'w \<Rightarrow> (string + business_reply) \<times> 'w \<Rightarrow> jdict" where
  "probe_answer bo w x =
     (case x of
        (Inl cls, w') \<Rightarrow>
          error_dict ''business_read_probe_failed'' @
          [(''error_type'', JStr cls), (''latency_ms'', probe_latency (bo_env bo) w w')]
      | (Inr r, w') \<Rightarrow>
          (if br_status r < 200 \<or> 300 \<le> br_status r then error_dict ''business_read_probe_non_2xx'' else []) @
          [(''status_code'', JInt (br_status r)), (''content_type'', JStr (br_content_type r)),
           (''latency_ms'', probe_latency (bo_env bo) w w'),
           (''body'', redact_secret_like (bo_unicode bo) (bo_env bo) (probe_body bo (br_body r)))])"

definition business_read_probe :: "'w business_outside \<Rightarrow> business_config \<Rightarrow> json \<Rightarrow> 'w \<Rightarrow> (string + jdict) \<times> 'w" where
  "business_read_probe bo c path w =
     (case probe_refusal bo c of
        Some e \<Rightarrow> (Inr (error_dict e), w)
      | None \<Rightarrow>
          if \<not> is_safe_probe_path (probe_path bo c path)
          then (Inr (error_dict ''business_probe_path_must_be_absolute''), w)
          else
            (case probe_url bo c (probe_path bo c path) of
               None \<Rightarrow> (Inl (bo_url_error bo (probe_path bo c path)), w)
             | Some url \<Rightarrow>
                 (let x = bo_get bo url (probe_headers bo c) (bs_timeout c) w in (Inr (probe_answer bo w x), snd x))))"

definition BUSINESS_PROBE_SPEC :: "business_config \<Rightarrow> tool_spec" where
  "BUSINESS_PROBE_SPEC c =
     (new_spec ''business_read_probe'')\<lparr>sp_description := tx_business_probe,
        sp_input_schema := [(''type'', JStr ''object''), (''properties'', JObj [(''path'', JObj [(''type'', JStr ''string'')])])],
        sp_output_schema := [(''type'', JStr ''object'')], sp_risk_level := RLow, sp_permission_scope := ''read'',
        sp_timeout_seconds := bs_timeout c, sp_source := ''local'', sp_is_local := True\<rparr>"

definition probe_callable :: "'w business_outside \<Rightarrow> business_config \<Rightarrow> 'w callable" where
  "probe_callable bo c args w =
     (case find (\<lambda>k. k \<noteq> ''path'') (map fst args) of
        Some k \<Rightarrow>
          (Inl (''build_business_read_probe_tool.<locals>.business_read_probe() got an unexpected keyword argument '' @
             [CHR 0x27] @ k @ [CHR 0x27]), w)
      | None \<Rightarrow> (case business_read_probe bo c (dget args ''path'') w of (r, w1) \<Rightarrow> (map_sum id JObj r, w1)))"

definition register_business_system_tools ::
  "'w business_outside \<Rightarrow> business_config option \<Rightarrow> 'w gateway \<Rightarrow> tool_spec list \<times> 'w gateway"
where
  "register_business_system_tools bo given g =
     (let c = (case given of None \<Rightarrow> load_business_system_config bo | Some c \<Rightarrow> c)
      in if ''business_read_probe'' \<in> set (bs_tool_allowlist c)
         then ([BUSINESS_PROBE_SPEC c], gw_register (BUSINESS_PROBE_SPEC c) (probe_callable bo c) g)
         else ([], g))"

subsection \<open>Facts\<close>

text \<open>
  A probe that is not allowed sends nothing: when the integration is off or not read-only, a setting or the token is
  missing or malformed, or the path is not absolute, it answers an error and leaves the world as it was.
\<close>

lemma refused_probe_sends_nothing:
  assumes "probe_refusal bo c \<noteq> None \<or> \<not> is_safe_probe_path (probe_path bo c path)"
  shows "\<exists>e. business_read_probe bo c path w = (Inr (error_dict e), w)"
  using assms by (auto simp: business_read_probe_def split: option.split)

text \<open>A relative reference: no colon in it, and neither a slash, a blank nor a control character before it.\<close>

definition plain_reference :: "string \<Rightarrow> bool" where
  "plain_reference url \<longleftrightarrow>
     CHR '':'' \<notin> set url \<and> \<not> list_ex control_char url \<and> (url = [] \<or> hd url \<noteq> CHR ''/'' \<and> hd url \<noteq> CHR '' '')"

lemma plain_reference_clean:
  assumes "plain_reference url"
  shows "clean_url url = url"
proof -
  have keep: "(of_char x :: nat) \<notin> {9, 10, 13}" if "x \<in> set url" for x
    using assms that by (auto simp: plain_reference_def control_char_def list_ex_iff Let_def)
  have "dropWhile (\<lambda>c. (of_char c :: nat) \<le> 32) url = url"
  proof (cases url)
    case (Cons x xs)
    have "x \<noteq> CHR '' ''" "\<not> control_char x" using assms Cons by (auto simp: plain_reference_def)
    then have "(of_char x :: nat) \<noteq> 32" "\<not> (of_char x :: nat) < 32"
      using of_char_eq_iff [of x "CHR '' ''", where 'a = nat] by (simp_all add: control_char_def Let_def)
    then show ?thesis using Cons by simp
  qed simp
  then show ?thesis using keep by (simp add: clean_url_def)
qed

lemma plain_reference_split:
  assumes "plain_reference url" and "urlsplit fine url = Some p"
  shows "ur_scheme p = [] \<and> ur_netloc p = []"
proof -
  have colon: "CHR '':'' \<notin> set url" using assms(1) by (simp add: plain_reference_def)
  have "\<not> prefix ''//'' url" using assms(1) by (cases url) (auto simp: plain_reference_def)
  then show ?thesis
    using assms(2) colon by (auto simp: urlsplit_def plain_reference_clean [OF assms(1)] Let_def split: if_splits)
qed

lemma unparse_prefix:
  assumes "ur_scheme p \<in> {''http'', ''https''}"
  shows "prefix (ur_scheme p @ ''://'' @ ur_netloc p) (unparse p params)"
  using assms by (auto simp: unparse_def urlunsplit_def USES_NETLOC_def Let_def)

text \<open>
  A path that is a plain reference, after its slashes, stays at the system: the URL of the probe begins with the scheme
  and the location of the base, or is the base.
\<close>

lemma plain_probe_stays_at_base:
  assumes "plain_reference (dropWhile (\<lambda>x. x = CHR ''/'') path)"
    and "urlsplit (bo_fine bo) (probe_base bo c) = Some b" and "ur_scheme b \<in> {''http'', ''https''}"
    and "probe_url bo c path = Some url"
  shows "url = probe_base bo c \<or> prefix (ur_scheme b @ ''://'' @ ur_netloc b) url"
proof -
  let ?ref = "dropWhile (\<lambda>x. x = CHR ''/'') path"
  have base: "probe_base bo c \<noteq> []" by (simp add: probe_base_def)
  show ?thesis
  proof (cases "?ref = []")
    case True
    then show ?thesis using assms(4) base by (simp add: probe_url_def urljoin_def)
  next
    case False
    then obtain p where p: "urlsplit (bo_fine bo) ?ref = Some p"
      using assms(2,4) base by (auto simp: probe_url_def urljoin_def simp del: dropWhile_eq_Nil_conv split: option.splits if_splits)
    have parts: "ur_scheme p = []" "ur_netloc p = []" using plain_reference_split [OF assms(1) p] by simp_all
    define lead where "lead = ur_scheme b @ ''://'' @ ur_netloc b"
    have at_base: "prefix lead (unparse q params)"
      if "ur_scheme q = ur_scheme b" "ur_netloc q = ur_netloc b" for q :: url_parts and params
      using unparse_prefix [of q params] that assms(3) by (simp add: lead_def)
    have "prefix lead url"
      using assms(2,4) base False p parts
      by (auto simp: probe_url_def urljoin_def Let_def case_prod_unfold intro!: at_base split: if_splits)
    then show ?thesis by (simp add: lead_def)
  qed
qed

text \<open>
  Other paths do not: a full URL behind one slash, or a location behind a slash and a blank, passes the check of the
  path, and the request, with the token in its header, goes to that host.
\<close>

definition demo_business :: "string \<Rightarrow> nat business_outside" where
  "demo_business token =
     \<lparr>bo_env = demo_env, bo_unicode = demo_unicode,
      bo_getenv = (\<lambda>k. if k = ''URL'' then Some ''https://crm.example/api'' else if k = ''TOKEN'' then Some token else None),
      bo_float = (\<lambda>_. None), bo_fine = (\<lambda>_. True), bo_get = (\<lambda>_ _ _ w. (Inl ''URLError'', w)), bo_loads = (\<lambda>_. None),
      bo_preview = id, bo_url_error = id\<rparr>"

definition demo_business_config :: business_config where
  "demo_business_config =
     \<lparr>bs_enabled = True, bs_read_only = True, bs_write_enabled = False, bs_approval_required = True,
      bs_audit_required = True, bs_system_name = ''crm'', bs_base_url_env = ''URL'', bs_token_env = ''TOKEN'',
      bs_tool_allowlist = [''business_read_probe''], bs_write_allowlist = [], bs_timeout = 10, bs_probe_path = ''/health'',
      bs_header_name = ''Authorization'', bs_scheme = ''Bearer''\<rparr>"

lemma probe_leaves_base:
  "probe_refusal (demo_business ''k'') demo_business_config = None \<and>
   is_safe_probe_path ''/http://evil.example/x'' \<and>
   probe_url (demo_business ''k'') demo_business_config ''/http://evil.example/x'' = Some ''http://evil.example/x'' \<and>
   is_safe_probe_path ''/ //evil.example/x'' \<and>
   probe_url (demo_business ''k'') demo_business_config ''/ //evil.example/x'' = Some ''https://evil.example/x'' \<and>
   (''Authorization'', ''Bearer k'') \<in> set (probe_headers (demo_business ''k'') demo_business_config)"
  by (intro conjI; code_simp)

text \<open>A secret under a key that names it is not redacted: only a text that shows both the name and the value is.\<close>

lemma keyed_secret_stays:
  "redact_secret_like demo_unicode demo_env (JObj [(''password'', JStr ''hunter2'')]) = JObj [(''password'', JStr ''hunter2'')] \<and>
   redact_secret_like demo_unicode demo_env (JStr ''password=hunter2'') = JStr ''[REDACTED_SECRET]''"
  by (intro conjI; code_simp)

end
