(* ===== verification/Spec2Isabelle.thy ===== *)
theory Spec2Isabelle
  imports Kernel_Facts Runtime_Tools Runtime_Sql Rate_Window Deployment_Guard Llm_Providers Stdio_Facts
    Postgres_Accounts Pilot_Run Api_Nl2sql Api_Operations Api_Eval App_Wiring Demo_Seed Business_System
begin

text \<open>
  A multi-agent runtime for operations questions, in Python under \<open>app/\<close>. A user posts a question; the kernel
  plans it (by keywords, by fixed multi-tool plans, by a language model that picks a tool, by a small team of
  agents, or as a query in SQL), a policy decides whether the planned tool may run, a risky call becomes a
  request for approval, and a person who may decide it lets it resume, once. Everything is recorded: in the
  trace, the audit log, the metrics and the stores.

  \<^bold>\<open>How the code is modelled.\<close> A Python class with state is a record, its methods are functions from
  the state to a result and the new state; objects the application shares are the fields of one record \<open>sys\<close>
  (\<open>System_State\<close>), threaded through every call. A \<open>str\<close> is the list of its UTF-8 bytes (a list of characters
  where the code matches regular expressions: \<open>Unicode_Text\<close>), a JSON value a \<open>json\<close>, a \<open>dict\<close> an association
  list in insertion order, an exception the left of a sum. A table of a store is the list of its rows. Every
  definition computes; a loop over data is structural recursion or a \<open>fun\<close> with its measure. \<open>strip\<close> and
  \<open>lower\<close> are those of ASCII, except where a Unicode table is an argument.

  \<^bold>\<open>What is a parameter.\<close> The record \<open>env\<close> holds what the code asks of the outside: fresh identifiers, the
  clock, the rendering of values, over a world that each question advances. \<open>Demo_World\<close> instantiates it for
  the witnesses. Further parameters, each an argument of the definitions that use it: the tables of Unicode;
  SQLite behind the executor and behind the extraction of the schema; LangGraph (with the laws of a compiled
  linear graph, a hypothesis of the property on it); the HTTP client, litellm, \<open>json.loads\<close> and \<open>json.dumps\<close>;
  digests; processes, pipes and threads of the MCP client; JWT and bcrypt; Redis; environment variables; the
  directory
  of the reports; the files at the paths of the demo database and the reading of a \<open>LIMIT\<close>; \<open>urlopen\<close> of the
  probe; the cases an evaluation reads; the order in which the text of a set shows it; \<open>float\<close> of a text; and the reading of
  an ISO time by PostgreSQL's stores.

  \<^bold>\<open>Ground.\<close> \<open>Runtime_Prelude\<close> (strings, values, dictionaries, tables), \<open>Schemas\<close>
  (\<open>app/models/schemas.py\<close>), \<open>Json_Depth\<close> and \<open>Redaction_Depth\<close> (what holds in a value at every depth), \<open>Settings\<close> (\<open>app/core/config.py\<close>), \<open>Pattern\<close>, \<open>Unicode_Text\<close> and \<open>Url_Text\<close>
  (the parts of the standard library the code leans on), and the theories \<open>Texts\<close>, \<open>Query_Texts\<close>, \<open>Eval_Texts\<close>,
  \<open>Deploy_Texts\<close>, \<open>Pilot_Texts\<close>, \<open>Api_Texts\<close> and \<open>Console_Texts\<close>, which hold the messages of the program.

  \<^bold>\<open>Stores\<close> (\<open>app/storage/\<close>). \<open>Keyed_Store\<close> is the contract of a table with a primary key, a locale;
  \<open>Approval_Store\<close>, \<open>Task_Store\<close> and \<open>Checkpoint_Store\<close> are instances. \<open>Postgres_Stores\<close> and
  \<open>Postgres_Accounts\<close> model the PostgreSQL stores over rows, \<open>SELECT FOR UPDATE\<close> and concurrent deciders
  included, and relate them to the SQLite ones; \<open>account_store\<close> is the contract of both user stores.
  \<open>Metrics_Store\<close> shows that the stored summaries refine the live counters.

  \<^bold>\<open>Bookkeeping and control.\<close> \<open>Recorders\<close> (trace, hooks, short-term memory, metrics), \<open>System_State\<close>,
  \<open>Audit_Export\<close>, \<open>Structured_Logging\<close>; \<open>Policy\<close>, \<open>Risk_Intent\<close>, \<open>Guardrails\<close>, \<open>Pii_Guard\<close>;
  \<open>Tool_Gateway\<close>, whose locale \<open>tool_runner\<close> is what planners and pipelines ask of a tool call.

  \<^bold>\<open>Running a task.\<close> \<open>Planner\<close>, \<open>LLM_Planner\<close>, \<open>Multitool_Pipeline\<close>, \<open>Multi_Agent\<close>, \<open>Self_Check\<close> and
  \<open>Kernel\<close> model the modes of \<open>app/agent/\<close> and \<open>app/services/\<close>; \<open>Graph_Runtime\<close> adds checkpoints and
  interrupts, \<open>Approval_Resume\<close> what an approval sets off. \<open>Runtime\<close>, \<open>Runtime_Tools\<close> and \<open>Runtime_Sql\<close> put
  them together the way \<open>app/main.py\<close> does. \<open>Kernel_Facts\<close> holds what a run leaves behind.

  \<^bold>\<open>Questions in SQL.\<close> \<open>Sql_Guard\<close> (one read-only statement over known tables), \<open>Sql_Generation\<close>,
  \<open>Sql_Llm\<close>, \<open>Sql_Execution\<close>, \<open>Sql_Pipeline\<close>; \<open>Llm_Governance\<close> (budget and cache), \<open>Llm_Wire\<close> and
  \<open>Llm_Providers\<close> (requests, retries, streams).

  \<^bold>\<open>Tools outside the process.\<close> \<open>Stdio_Client\<close> and \<open>Stdio_Facts\<close>: the MCP client over a child process,
  its handshake, failures and restarts; \<open>recorded_pipe\<close> is the locale of a pipe that keeps what was written.
  \<open>Ops_Tools\<close> models the tools over the demo database, \<open>Business_System\<close> the read probe of a business system,
  and \<open>App_Wiring\<close> how \<open>app/main.py\<close> fills the gateway with local, fake or real tools: a server that fails
  changes nothing, one with an allowlist adds no other tool.

  \<^bold>\<open>Evaluation and pilot.\<close> \<open>Trajectory\<close>, \<open>Judge\<close>, \<open>Eval_Runners\<close>, \<open>Bad_Cases\<close>; \<open>Preflight\<close>,
  \<open>Pilot_Report\<close>, \<open>Pilot_Smoke\<close>, \<open>Pilot_Run\<close> (\<open>scripts/run_llm_pilot.py\<close>); \<open>Demo_Seed\<close>
  (\<open>scripts/demo_seed_data.py\<close>), whose rows replace those of an earlier seed.

  \<^bold>\<open>The service.\<close> \<open>Auth\<close> (roles, tokens, permissions), \<open>Request_Guards\<close> and \<open>Rate_Window\<close> (size, abuse and
  rate limits; the locale \<open>sliding_window\<close> makes the limiter in memory a refinement of the plain log of
  admissions), \<open>Deployment_Guard\<close>, and the handlers: \<open>Api_Approvals\<close>, \<open>Api_Tasks\<close>, \<open>Api_Nl2sql\<close>,
  \<open>Api_Observability\<close>, \<open>Api_Runtime\<close>, \<open>Api_Pilot\<close>, \<open>Api_Operations\<close>, \<open>Api_Eval\<close>. A handler is a function from the
  request and the shared state to a reply (a status with its detail, or a body) and the new state; the
  permission it declares is the wrapper \<open>protected\<close>.

  \<^bold>\<open>What the theorems show.\<close> Safety of the whole runtime: in no mode does a tool of high risk run without
  an approval, nor does the NL2SQL service execute a query the guard rejects; an approved action runs at most once, with the payload
  that was approved; a rejected one never. The HTTP layer keeps this: deciding needs the permission, an injected
  payload is not resumed and an injected question starts nothing, and the event stream of a query says what a
  plain execution answers. Invariants tie a waiting task to its approval and a decision to its finality, also among
  concurrent deciders. Refinements relate the limiter to the log of admissions, and the stored summaries to
  the live ones; equivalences, the compiled graph to the sequence of its nodes and PostgreSQL's
  checkpoints to SQLite's. Others bound budgets and retries, tie what a pilot report claims to
  what the provider answered, and keep prompts out of the reports and the audit export, under conditions that name
  where the code lets them through (below a key of a secret, in a list of lists).

  \<^bold>\<open>Bounds.\<close> The kernel's graph has at most six steps from any node to its end and \<open>sg_steps\<close> is 25, the
  recursion limit of LangGraph, so the limit is never met. Retries are bounded by the settings; the MCP client
  lists its tools in at most two attempts. A query returns at most 100 rows; lists take the limits the handlers clamp.
  The matcher of \<open>Pattern\<close> and \<open>Unicode_Text\<close> recurses on the pattern and the rest of the text, without fuel.
  Integers are those of Python, unbounded; a cost is a rational, and \<open>round\<close> is half to even on it, so the
  rounding of binary floating point itself is not modelled; no property compares sums of floats taken in different
  orders.

  \<^bold>\<open>Not modelled.\<close> The pages of HTML (\<open>approval_ui.py\<close>); the engine and sessions of SQLAlchemy; the start-up and
  singletons of \<open>app/main.py\<close>; what the scripts print, and those for demos and operations other than the
  pilot's and the seed: they are input and output around modelled functions. Old audit events are never deleted
  by the program, so of the retention there is only the date of its cutoff (\<open>Audit_Export\<close>).
\<close>

end
